(* ===== verification/Prelude.thy ===== *)
theory Prelude
  imports Main "HOL-Library.Word" "HOL-Library.Monad_Syntax"
begin

text \<open>
  What the component theories share: the machine integer types, the kernel's error numbers, the
  bit-field helpers of \<^verbatim>\<open>linux/bitfield.h\<close>, scanning loops over index ranges, and the register
  bus through which a driver reaches its device.

  A device is not part of this repository. It is a parameter: a record of the three accessors the
  drivers call (read, write, read-modify-write) over an opaque device state \<open>'d\<close>. The locale
  \<open>plain_regs\<close> states what the accessors do on ordinary configuration registers, which hold
  what was last written to them.
\<close>

unbundle bit_operations_syntax

type_synonym u8 = "8 word"
type_synonym u16 = "16 word"
type_synonym u32 = "32 word"
type_synonym u64 = "64 word"

named_theorems field_simps_hw \<open>bit-field algebra of FIELD_GET, FIELD_PREP and masked updates\<close>

section \<open>Error numbers\<close>

abbreviation ENOENT :: int where "ENOENT \<equiv> 2"
abbreviation EIO :: int where "EIO \<equiv> 5"
abbreviation ENOMEM :: int where "ENOMEM \<equiv> 12"
abbreviation EFAULT :: int where "EFAULT \<equiv> 14"
abbreviation ENODEV :: int where "ENODEV \<equiv> 19"
abbreviation EINVAL :: int where "EINVAL \<equiv> 22"
abbreviation ENOSPC :: int where "ENOSPC \<equiv> 28"
abbreviation ETIME :: int where "ETIME \<equiv> 62"
abbreviation ETIMEDOUT :: int where "ETIMEDOUT \<equiv> 110"

section \<open>Scanning loops\<close>

text \<open>\<^verbatim>\<open>for (i = 0; i < n; i++) if (P(i)) return i;\<close> is \<open>find P [0..<n]\<close>.\<close>

lemma find_upt_Some:
  "find P [0..<n] = Some i \<longleftrightarrow> i < n \<and> P i \<and> (\<forall>j<i. \<not> P j)"
  by (auto simp: find_Some_iff)

lemma find_upt_None: "find P [0..<n] = None \<longleftrightarrow> (\<forall>i<n. \<not> P i)"
  by (auto simp: find_None_iff)

lemma find_upt_SomeD:
  assumes "find P [0..<n] = Some i"
  shows "i < n" and "P i" and "\<And>j. j < i \<Longrightarrow> \<not> P j"
  using assms by (auto simp: find_upt_Some)

lemma find_upt_exists: "i < n \<Longrightarrow> P i \<Longrightarrow> \<exists>j. find P [0..<n] = Some j"
  using find_upt_None [of P n] by (cases "find P [0..<n]") auto

section \<open>Bit fields\<close>

text \<open>\<^verbatim>\<open>__bf_shf(mask)\<close>: the position of the lowest set bit of a mask.\<close>

definition bf_shf :: "u32 \<Rightarrow> nat" where
  "bf_shf m = length (takeWhile (\<lambda>i. \<not> bit m i) [0..<32])"

definition FIELD_PREP :: "u32 \<Rightarrow> u32 \<Rightarrow> u32" where
  "FIELD_PREP m v = push_bit (bf_shf m) v AND m"

definition FIELD_GET :: "u32 \<Rightarrow> u32 \<Rightarrow> u32" where
  "FIELD_GET m r = drop_bit (bf_shf m) (r AND m)"

lemma bf_shf_below:
  assumes "bit m i"
  shows "bf_shf m \<le> i"
proof (rule ccontr)
  assume "\<not> bf_shf m \<le> i"
  then have lt: "i < length (takeWhile (\<lambda>i. \<not> bit m i) [0..<32])"
    by (simp add: bf_shf_def)
  then have "takeWhile (\<lambda>i. \<not> bit m i) [0..<32] ! i = i"
    using takeWhile_nth [OF lt] length_takeWhile_le [of "\<lambda>i. \<not> bit m i" "[0..<32]"] by simp
  moreover have "\<not> bit m (takeWhile (\<lambda>i. \<not> bit m i) [0..<32] ! i)"
    using nth_mem [OF lt] by (auto dest: set_takeWhileD)
  ultimately show False using assms by simp
qed

lemma FIELD_PREP_GET [field_simps_hw]: "FIELD_PREP m (FIELD_GET m r) = r AND m"
proof (rule bit_word_eqI)
  fix n
  show "bit (FIELD_PREP m (FIELD_GET m r)) n = bit (r AND m) n" if "n < LENGTH(32)"
    using that bf_shf_below [of m n] by (auto simp: FIELD_PREP_def FIELD_GET_def bit_simps)
qed

lemma FIELD_GET_PREP [field_simps_hw]:
  "FIELD_GET m (FIELD_PREP m v) = v AND drop_bit (bf_shf m) m"
  by (rule bit_word_eqI) (auto simp: FIELD_PREP_def FIELD_GET_def bit_simps dest: bit_imp_le_length)

text \<open>The masked update \<^verbatim>\<open>r = (r & ~m) | v\<close> of every read-modify-write.\<close>

definition masked :: "u32 \<Rightarrow> u32 \<Rightarrow> u32 \<Rightarrow> u32" where
  "masked r m v = (r AND NOT m) OR v"

lemma masked_FIELD_GET [field_simps_hw]:
  "FIELD_GET m (masked r m (FIELD_PREP m v)) = v AND drop_bit (bf_shf m) m"
  by (rule bit_word_eqI)
    (auto simp: FIELD_PREP_def FIELD_GET_def masked_def bit_simps dest: bit_imp_le_length)

lemma masked_restore [field_simps_hw]:
  "masked (masked r m (FIELD_PREP m v)) m (FIELD_PREP m (FIELD_GET m r)) = r"
  unfolding FIELD_PREP_GET by (rule bit_word_eqI) (auto simp: FIELD_PREP_def masked_def bit_simps)

lemma masked_masked [field_simps_hw]:
  "masked (masked r m (FIELD_PREP m v)) m w = masked r m w"
  by (rule bit_word_eqI) (auto simp: FIELD_PREP_def masked_def bit_simps)

lemma masked_other [field_simps_hw]:
  "m' AND m = 0 \<Longrightarrow> FIELD_GET m' (masked r m (FIELD_PREP m v)) = FIELD_GET m' r"
proof (rule bit_word_eqI)
  fix n
  assume disj: "m' AND m = 0"
  have "\<not> (bit m' i \<and> bit m i)" for i
    using arg_cong [OF disj, of "\<lambda>w. bit w i"] by (simp add: bit_simps)
  then show "bit (FIELD_GET m' (masked r m (FIELD_PREP m v))) n = bit (FIELD_GET m' r) n"
    by (auto simp: FIELD_PREP_def FIELD_GET_def masked_def bit_simps dest: bit_imp_le_length)
qed

lemma FIELD_GET_OR [field_simps_hw]: "FIELD_GET m (x OR y) = FIELD_GET m x OR FIELD_GET m y"
  by (rule bit_word_eqI) (auto simp: FIELD_GET_def bit_simps)

lemma disjoint_bit:
  assumes "m AND k = 0" and "bit (m :: u32) n"
  shows "\<not> bit k n"
proof -
  have "bit (m AND k) n = bit (0 :: u32) n" by (simp only: assms)
  then show ?thesis using assms(2) by (simp add: bit_and_iff)
qed

lemma submask_bit:
  assumes "m AND k = m" and "bit (m :: u32) n"
  shows "bit k n"
proof -
  have "bit (m AND k) n = bit m n" by (simp only: assms)
  then show ?thesis using assms(2) by (simp add: bit_and_iff)
qed

lemma and_or_zero: "(a :: u32) AND (b OR c) = 0 \<longleftrightarrow> a AND b = 0 \<and> a AND c = 0"
  by (simp add: bit.conj_disj_distrib or_eq_0_iff)

lemma FIELD_GET_PREP_other [field_simps_hw]: "m AND k = 0 \<Longrightarrow> FIELD_GET m (FIELD_PREP k v) = 0"
  by (rule bit_word_eqI) (auto simp: FIELD_GET_def FIELD_PREP_def bit_simps dest: disjoint_bit)

lemma FIELD_GET_cleared [field_simps_hw]: "m AND k = m \<Longrightarrow> FIELD_GET m (x AND NOT k) = 0"
  by (rule bit_word_eqI) (auto simp: FIELD_GET_def bit_simps dest: submask_bit)

lemma FIELD_PREP_outside: "m AND k = m \<Longrightarrow> FIELD_PREP m v AND NOT k = 0"
  by (rule bit_word_eqI) (auto simp: FIELD_PREP_def bit_simps dest: submask_bit)

lemma small_bits:
  assumes "unat (w :: 'a :: len word) < 2 ^ m" and "bit w n"
  shows "n < m"
proof -
  have "take_bit m w = w"
    unfolding word_unat_eq_iff unsigned_take_bit_eq using assms(1) by (rule take_bit_nat_eq_self)
  then have "bit (take_bit m w) n" using assms(2) by simp
  then show ?thesis by (simp add: bit_take_bit_iff)
qed

section \<open>The register bus\<close>

record 'd bus =
  bus_rr :: "u32 \<Rightarrow> 'd \<Rightarrow> u32 \<times> 'd"
  bus_wr :: "u32 \<Rightarrow> u32 \<Rightarrow> 'd \<Rightarrow> 'd"
  bus_rmw :: "u32 \<Rightarrow> u32 \<Rightarrow> u32 \<Rightarrow> 'd \<Rightarrow> 'd"

locale plain_regs =
  fixes io :: "'d bus" and peek :: "'d \<Rightarrow> u32 \<Rightarrow> u32"
  assumes rr_val: "fst (bus_rr io a d) = peek d a"
    and rr_peek: "peek (snd (bus_rr io a d)) = peek d"
    and wr_peek: "peek (bus_wr io a v d) = (peek d)(a := v)"
    and rmw_peek: "peek (bus_rmw io a m v d) = (peek d)(a := masked (peek d a) m v)"
begin

lemma rr_pair: "bus_rr io a d = (v, d') \<Longrightarrow> v = peek d a \<and> peek d' = peek d"
  using rr_val [of a d] rr_peek [of a d] by simp

lemma wr_same: "peek (bus_wr io a v d) a = v"
  by (simp add: wr_peek)

lemma wr_other: "b \<noteq> a \<Longrightarrow> peek (bus_wr io a v d) b = peek d b"
  by (simp add: wr_peek)

end

text \<open>A register file in memory obeys the laws.\<close>

definition mem_bus :: "(u32 \<Rightarrow> u32) bus" where
  "mem_bus = \<lparr> bus_rr = (\<lambda>a d. (d a, d)),
               bus_wr = (\<lambda>a v d. d(a := v)),
               bus_rmw = (\<lambda>a m v d. d(a := masked (d a) m v)) \<rparr>"

interpretation memregs: plain_regs mem_bus "\<lambda>d. d"
  by unfold_locales (simp_all add: mem_bus_def)

lemma plain_regs_mem_bus: "plain_regs mem_bus (\<lambda>d. d)"
  by (rule memregs.plain_regs_axioms)

end
