(* ===== verification/LedCtrl.thy ===== *)
theory LedCtrl
  imports Prelude
begin

text \<open>
  The SmartRG system LED driver, \<^verbatim>\<open>drivers/leds/leds-smartrg-system.c\<close>: four RGBW channels behind a
  Holtek microcontroller on an I2C bus. The microcontroller acknowledges writes and may silently
  discard them, so the driver writes, reads back and retries. The I2C adapter and the
  microcontroller are parameters (\<open>'b i2c\<close>); the locale \<open>latching_mcu\<close> says what is relied on:
  a write to one register changes at most that register, and a read either fails or reports
  the register.
\<close>

section \<open>State\<close>

record 'b i2c =
  i2c_write :: "u8 \<Rightarrow> u8 \<Rightarrow> 'b \<Rightarrow> int \<times> 'b"
  i2c_read :: "u8 \<Rightarrow> 'b \<Rightarrow> int \<times> 'b"

record srg_led =
  led_index :: u8
  brightness :: u32
  max_brightness :: u32
  registered :: bool

record 'b srg_led_ctrl =
  client :: 'b
  channel :: "srg_led list"
  control :: "u8 list"

record dt_node =
  dt_reg :: "int + u32"

abbreviation SRG_LED_WRITE_ATTEMPTS :: nat where "SRG_LED_WRITE_ATTEMPTS \<equiv> 5"

section \<open>Operations\<close>

fun srg_led_i2c_attempts :: "'b i2c \<Rightarrow> u8 \<Rightarrow> u8 \<Rightarrow> nat \<Rightarrow> int \<Rightarrow> 'b \<Rightarrow> int \<times> 'b" where
  "srg_led_i2c_attempts io reg v 0 ret b = (if ret < 0 then ret else - EIO, b)"
| "srg_led_i2c_attempts io reg v (Suc n) ret b =
     (let (w, b1) = i2c_write io reg v b
      in if w \<noteq> 0 then (w, b1)
         else let (r, b2) = i2c_read io reg b1
              in if r = int (unat v) then (0, b2)
                 else srg_led_i2c_attempts io reg v n r b2)"

definition srg_led_i2c_write :: "'b i2c \<Rightarrow> u8 \<Rightarrow> u8 \<Rightarrow> 'b \<Rightarrow> int \<times> 'b" where
  "srg_led_i2c_write io reg v b = srg_led_i2c_attempts io reg v SRG_LED_WRITE_ATTEMPTS 0 b"

fun srg_led_sync_loop :: "'b i2c \<Rightarrow> u8 list \<Rightarrow> nat list \<Rightarrow> int \<Rightarrow> 'b \<Rightarrow> int \<times> 'b" where
  "srg_led_sync_loop io ctl [] ret b = (ret, b)"
| "srg_led_sync_loop io ctl (i # is) ret b =
     (let (r, b1) = srg_led_i2c_write io (of_nat i) (ctl ! i) b
      in if r \<noteq> 0 then (r, b1) else srg_led_sync_loop io ctl is r b1)"

definition srg_led_control_sync :: "'b i2c \<Rightarrow> 'b srg_led_ctrl \<Rightarrow> int \<times> 'b srg_led_ctrl" where
  "srg_led_control_sync io s =
     (let (ret, b) = srg_led_sync_loop io (control s) [1..<5] 0 (client s)
      in (ret, s\<lparr>client := b\<rparr>))"

text \<open>
  The three branches of \<^verbatim>\<open>srg_led_set_pulse\<close> on the requested periods: the command byte
  (3 pulse, 2 flash, 0 unsupported) and the periods handed back to the LED core. A null delay
  pointer is \<open>None\<close>.
\<close>

definition pulse_choice ::
  "u64 option \<Rightarrow> u64 option \<Rightarrow> u8 \<times> u64 option \<times> u64 option" where
  "pulse_choice delay_on delay_off =
     (case (delay_on, delay_off) of
        (Some on, Some off) \<Rightarrow>
          if on = 0 \<and> off = 0 then (3, Some 500, Some 500)
          else if 100 < on \<and> on \<le> 500 then (3, Some 500, Some 500)
          else if 50 \<le> on \<and> on \<le> 100 then (2, Some 50, Some 50)
          else (0, delay_on, delay_off)
      | _ \<Rightarrow> (0, delay_on, delay_off))"

definition srg_led_set_pulse ::
  "'b i2c \<Rightarrow> nat \<Rightarrow> u64 option \<Rightarrow> u64 option \<Rightarrow> 'b srg_led_ctrl
     \<Rightarrow> int \<times> u64 option \<times> u64 option \<times> 'b srg_led_ctrl" where
  "srg_led_set_pulse io k delay_on delay_off s =
     (let led = channel s ! k;
          bright = (ucast (if brightness led \<noteq> 0 then brightness led else max_brightness led) :: u8);
          (cbyte, on', off') = pulse_choice delay_on delay_off;
          (ret, b) = srg_led_i2c_write io (led_index led + 4)
                       (if cbyte \<noteq> 0 then bright else 0) (client s);
          s1 = s\<lparr>client := b\<rparr>;
          (ret, s2) = (if ret = 0
             then srg_led_control_sync io
                    (s1\<lparr>control := (control s1)[unat (led_index led) := cbyte]\<rparr>)
             else (ret, s1))
      in (if ret \<noteq> 0 then ret else if cbyte \<noteq> 0 then 0 else 1, on', off', s2))"

definition srg_led_set_brightness ::
  "'b i2c \<Rightarrow> nat \<Rightarrow> u32 \<Rightarrow> 'b srg_led_ctrl \<Rightarrow> int \<times> 'b srg_led_ctrl" where
  "srg_led_set_brightness io k v s =
     (let led = channel s ! k;
          (ret, b) = srg_led_i2c_write io (led_index led + 4) (ucast v) (client s);
          s1 = s\<lparr>client := b\<rparr>
      in if ret = 0
         then srg_led_control_sync io
                (s1\<lparr>control := (control s1)[unat (led_index led) := (if v \<noteq> 0 then 1 else 0)]\<rparr>)
         else (ret, s1))"

text \<open>\<open>register_ext\<close> stands for the return of \<^verbatim>\<open>devm_led_classdev_register_ext\<close> per channel.\<close>

definition srg_led_init_led ::
  "'b i2c \<Rightarrow> (nat \<Rightarrow> int) \<Rightarrow> dt_node option \<Rightarrow> 'b srg_led_ctrl \<Rightarrow> int \<times> 'b srg_led_ctrl" where
  "srg_led_init_led io register_ext np s =
     (case np of
        None \<Rightarrow> (- ENOENT, s)
      | Some n \<Rightarrow>
          (case dt_reg n of
             Inl err \<Rightarrow> (err, s)
           | Inr w \<Rightarrow>
               let index = sint w
               in if index < 1 \<or> 4 < index then (- EINVAL, s)
                  else
                    let k = nat (index - 1);
                        led = (channel s ! k)\<lparr>led_index := word_of_int index, brightness := 0,
                                               max_brightness := 254\<rparr>;
                        (_, b) = srg_led_i2c_write io (word_of_int (index + 4)) 0 (client s);
                        ret = register_ext k
                    in if ret \<noteq> 0 then (ret, s\<lparr>channel := (channel s)[k := led], client := b\<rparr>)
                       else (0, s\<lparr>channel := (channel s)[k := led\<lparr>registered := True\<rparr>],
                                  client := b\<rparr>)))"

fun srg_led_init_children ::
  "'b i2c \<Rightarrow> (nat \<Rightarrow> int) \<Rightarrow> dt_node list \<Rightarrow> 'b srg_led_ctrl \<Rightarrow> 'b srg_led_ctrl" where
  "srg_led_init_children io rx [] s = s"
| "srg_led_init_children io rx (n # ns) s =
     srg_led_init_children io rx ns (snd (srg_led_init_led io rx (Some n) s))"

definition zeroed_ctrl :: "'b \<Rightarrow> 'b srg_led_ctrl" where
  "zeroed_ctrl b = \<lparr> client = b,
     channel = replicate 4 \<lparr>led_index = 0, brightness = 0, max_brightness = 0, registered = False\<rparr>,
     control = replicate 5 0 \<rparr>"

definition srg_led_probe ::
  "'b i2c \<Rightarrow> (nat \<Rightarrow> int) \<Rightarrow> bool \<Rightarrow> int \<Rightarrow> dt_node list \<Rightarrow> 'b
     \<Rightarrow> int \<times> 'b srg_led_ctrl option" where
  "srg_led_probe io register_ext alloc_ok mutex_err children b =
     (if \<not> alloc_ok then (- ENOMEM, None)
      else if mutex_err \<noteq> 0 then (mutex_err, None)
      else let (ret, s) = srg_led_control_sync io
                            (srg_led_init_children io register_ext children (zeroed_ctrl b))
           in (ret, Some s))"

definition srg_led_disable :: "'b i2c \<Rightarrow> 'b srg_led_ctrl \<Rightarrow> 'b srg_led_ctrl" where
  "srg_led_disable io s =
     s\<lparr>client := fold (\<lambda>i b. snd (srg_led_i2c_write io (of_nat i) 0 b)) [1..<9] (client s)\<rparr>"

section \<open>The well-formed controller\<close>

definition led_wf :: "'b srg_led_ctrl \<Rightarrow> bool" where
  "led_wf s \<longleftrightarrow> length (control s) = 5 \<and> length (channel s) = 4 \<and>
     (\<forall>k<4. registered (channel s ! k) \<longrightarrow> led_index (channel s ! k) = of_nat (Suc k))"

lemma led_wf_zeroed: "led_wf (zeroed_ctrl b)"
  by (simp add: led_wf_def zeroed_ctrl_def)

lemma led_wf_control_sync: "led_wf s \<Longrightarrow> led_wf (snd (srg_led_control_sync io s))"
  by (simp add: led_wf_def srg_led_control_sync_def split: prod.splits)

lemma control_sync_keeps:
  "srg_led_control_sync io s = (ret, s') \<Longrightarrow> control s' = control s \<and> channel s' = channel s"
  by (auto simp: srg_led_control_sync_def split: prod.splits)

lemma led_wf_control_update:
  "led_wf s \<Longrightarrow> led_wf (s\<lparr>client := b, control := (control s)[i := v]\<rparr>)"
  by (simp add: led_wf_def)

lemma led_wf_init_led: "led_wf s \<Longrightarrow> led_wf (snd (srg_led_init_led io rx np s))"
proof -
  assume wf: "led_wf s"
  have idx: "word_of_int i = (of_nat (Suc (nat (i - 1))) :: u8)" if "1 \<le> i" for i :: int
    using that by (metis Suc_nat_eq_nat_zadd1 add.commute diff_add_cancel diff_ge_0_iff_ge
      int_nat_eq of_int_of_nat_eq order_trans zero_le_one)
  show ?thesis
    using wf by (auto simp: srg_led_init_led_def led_wf_def Let_def idx nth_list_update
      split: option.splits sum.splits prod.splits)
qed

lemma led_wf_init_children: "led_wf s \<Longrightarrow> led_wf (srg_led_init_children io rx ns s)"
  by (induction ns arbitrary: s) (simp_all add: led_wf_init_led)

section \<open>A microcontroller that may drop writes\<close>

locale latching_mcu =
  fixes io :: "'b i2c" and regs :: "'b \<Rightarrow> u8 \<Rightarrow> u8"
  assumes write_effect:
      "i2c_write io r v b = (w, b') \<Longrightarrow>
         w \<le> 0 \<and> (regs b' = regs b \<or> regs b' = (regs b)(r := v))"
    and read_effect:
      "i2c_read io r b = (x, b') \<Longrightarrow> regs b' = regs b \<and> (x < 0 \<or> x = int (unat (regs b r)))"
begin

lemma attempts_latched:
  "srg_led_i2c_attempts io r v n ret b = (0, b') \<Longrightarrow> regs b' = (regs b)(r := v)"
proof (induction n arbitrary: ret b)
  case 0
  then show ?case by (simp split: if_splits)
next
  case (Suc n)
  obtain w b1 where w: "i2c_write io r v b = (w, b1)" by fastforce
  obtain x b2 where x: "i2c_read io r b1 = (x, b2)" by fastforce
  have e1: "regs b1 = regs b \<or> regs b1 = (regs b)(r := v)" using write_effect [OF w] by simp
  have e2: "regs b2 = regs b1" and val: "x < 0 \<or> x = int (unat (regs b1 r))"
    using read_effect [OF x] by auto
  show ?case
  proof (cases "w = 0 \<and> x = int (unat v)")
    case True
    then have "regs b1 r = v" using val by (auto simp: word_uint_eq_iff)
    then have "regs b1 = (regs b)(r := v)" using e1 by auto
    then show ?thesis using Suc.prems w x True e2 by simp
  next
    case False
    then have "srg_led_i2c_attempts io r v n x b2 = (0, b')"
      using Suc.prems w x by (auto split: if_splits)
    then have "regs b' = (regs b2)(r := v)" by (rule Suc.IH)
    then show ?thesis using e1 e2 by auto
  qed
qed

lemma attempts_frame:
  "srg_led_i2c_attempts io r v n ret b = (e, b') \<Longrightarrow> x \<noteq> r \<Longrightarrow> regs b' x = regs b x"
proof (induction n arbitrary: ret b)
  case 0
  then show ?case by simp
next
  case (Suc n)
  obtain w b1 where w: "i2c_write io r v b = (w, b1)" by fastforce
  obtain y b2 where y: "i2c_read io r b1 = (y, b2)" by fastforce
  have "regs b1 x = regs b x" using write_effect [OF w] Suc.prems(2) by auto
  moreover have "regs b2 = regs b1" using read_effect [OF y] by simp
  ultimately show ?case
    using Suc.prems w y Suc.IH [of y b2] by (auto split: if_splits)
qed

lemma write_latched: "srg_led_i2c_write io r v b = (0, b') \<Longrightarrow> regs b' = (regs b)(r := v)"
  unfolding srg_led_i2c_write_def by (rule attempts_latched)

lemma write_frame:
  "srg_led_i2c_write io r v b = (e, b') \<Longrightarrow> x \<noteq> r \<Longrightarrow> regs b' x = regs b x"
  unfolding srg_led_i2c_write_def by (rule attempts_frame)

lemma sync_loop_latched:
  assumes "srg_led_sync_loop io ctl is ret b = (0, b')" and "\<forall>i\<in>set is. i < 256"
  shows "(\<forall>i\<in>set is. regs b' (of_nat i) = ctl ! i) \<and>
         (\<forall>x. (\<forall>i\<in>set is. x \<noteq> of_nat i) \<longrightarrow> regs b' x = regs b x)"
  using assms
proof (induction "is" arbitrary: ret b)
  case Nil
  then show ?case by simp
next
  case (Cons i "is")
  obtain r b1 where r: "srg_led_i2c_write io (of_nat i) (ctl ! i) b = (r, b1)" by fastforce
  with Cons.prems(1) have r0: "r = 0" and rest: "srg_led_sync_loop io ctl is r b1 = (0, b')"
    by (auto split: if_splits)
  have b1: "regs b1 = (regs b)(of_nat i := ctl ! i)"
    using r r0 by (simp add: write_latched)
  have IH: "(\<forall>j\<in>set is. regs b' (of_nat j) = ctl ! j) \<and>
            (\<forall>x. (\<forall>j\<in>set is. x \<noteq> of_nat j) \<longrightarrow> regs b' x = regs b1 x)"
    using Cons.IH [OF rest] Cons.prems(2) by simp
  have "regs b' (of_nat i) = ctl ! i"
  proof (cases "\<exists>j\<in>set is. (of_nat i :: u8) = of_nat j")
    case True
    then obtain j where j: "j \<in> set is" "(of_nat i :: u8) = of_nat j" by blast
    have "i mod 256 = j mod 256"
      using arg_cong [OF j(2), of unat] unfolding unat_of_nat by simp
    then have "i = j" using Cons.prems(2) j(1) by simp
    with j IH show ?thesis by simp
  next
    case False
    then have "regs b' (of_nat i) = regs b1 (of_nat i)" using IH by blast
    then show ?thesis by (simp add: b1)
  qed
  with IH b1 show ?case by auto
qed

lemma control_sync_latched:
  assumes "srg_led_control_sync io s = (0, s')"
  shows "\<forall>i\<in>{1..4}. regs (client s') (of_nat i) = control s' ! i"
    and "\<forall>x. x \<notin> {1, 2, 3, 4} \<longrightarrow> regs (client s') x = regs (client s) x"
proof -
  have l: "srg_led_sync_loop io (control s) [1..<5] 0 (client s) = (0, client s')"
    and c: "control s' = control s"
    using assms by (auto simp: srg_led_control_sync_def split: prod.splits)
  have idx: "set [1..<5] = {1, 2, 3, 4::nat}" by auto
  show "\<forall>i\<in>{1..4}. regs (client s') (of_nat i) = control s' ! i"
    using sync_loop_latched [OF l] c by auto
  show "\<forall>x. x \<notin> {1, 2, 3, 4} \<longrightarrow> regs (client s') x = regs (client s) x"
    using conjunct2 [OF sync_loop_latched [OF l]] unfolding idx by auto
qed

text \<open>Both operations are one brightness write followed, if it latched, by a full resync.\<close>

lemma write_then_sync:
  assumes wf: "led_wf s" and k: "k < 4" "registered (channel s ! k)"
    and wr: "srg_led_i2c_write io (led_index (channel s ! k) + 4) v (client s) = (0, b)"
    and sy: "srg_led_control_sync io
               (s\<lparr>client := b, control := (control s)[unat (led_index (channel s ! k)) := c]\<rparr>) = (0, s')"
  shows "regs (client s') (of_nat (k + 5)) = v"
    and "\<forall>i\<in>{1..4}. regs (client s') (of_nat i) = control s' ! i"
    and "control s' = (control s)[Suc k := c]"
proof -
  have li: "led_index (channel s ! k) = of_nat (Suc k)" using wf k by (simp add: led_wf_def)
  have un: "unat (of_nat (Suc k) :: u8) = Suc k" unfolding unat_of_nat using k by simp
  have reg: "led_index (channel s ! k) + 4 = of_nat (k + 5)" by (simp add: li)
  have out: "(of_nat (k + 5) :: u8) \<notin> {1, 2, 3, 4}"
  proof -
    have "k = 0 \<or> k = 1 \<or> k = 2 \<or> k = 3" using k(1) by auto
    then show ?thesis by auto
  qed
  have b: "regs b = (regs (client s))(of_nat (k + 5) := v)"
    using write_latched [OF wr] by (simp add: reg)
  show "regs (client s') (of_nat (k + 5)) = v"
    using control_sync_latched(2) [OF sy] out b by simp
  show "\<forall>i\<in>{1..4}. regs (client s') (of_nat i) = control s' ! i"
    by (rule control_sync_latched(1) [OF sy])
  show "control s' = (control s)[Suc k := c]"
    using control_sync_keeps [OF sy] un by (simp add: li)
qed

lemma set_brightness_coherent:
  assumes wf: "led_wf s" and k: "k < 4" "registered (channel s ! k)"
    and ok: "srg_led_set_brightness io k v s = (0, s')"
  shows "regs (client s') (of_nat (k + 5)) = ucast v \<and>
         (\<forall>i\<in>{1..4}. regs (client s') (of_nat i) = control s' ! i) \<and>
         control s' = (control s)[Suc k := (if v \<noteq> 0 then 1 else 0)]"
proof -
  obtain e b where w: "srg_led_i2c_write io (led_index (channel s ! k) + 4) (ucast v) (client s) = (e, b)"
    by fastforce
  have e: "e = 0" using ok w by (auto simp: srg_led_set_brightness_def Let_def split: if_splits)
  have "srg_led_control_sync io (s\<lparr>client := b,
          control := (control s)[unat (led_index (channel s ! k)) := (if v \<noteq> 0 then 1 else 0)]\<rparr>) = (0, s')"
    using ok w e by (simp add: srg_led_set_brightness_def Let_def)
  from write_then_sync [OF wf k w [unfolded e] this] show ?thesis by blast
qed

lemma attempts_nonpos: "fst (srg_led_i2c_attempts io r v n ret b) \<le> 0"
proof (induction n arbitrary: ret b)
  case 0
  then show ?case by simp
next
  case (Suc n)
  obtain w b1 where w: "i2c_write io r v b = (w, b1)" by fastforce
  obtain y b2 where y: "i2c_read io r b1 = (y, b2)" by fastforce
  show ?case using write_effect [OF w] Suc.IH [of y b2] w y by simp
qed

lemma write_nonpos: "srg_led_i2c_write io r v b = (e, b') \<Longrightarrow> e \<le> 0"
  unfolding srg_led_i2c_write_def by (metis attempts_nonpos fst_conv)

lemma sync_loop_nonpos: "ret \<le> 0 \<Longrightarrow> srg_led_sync_loop io ctl is ret b = (e, b') \<Longrightarrow> e \<le> 0"
  by (induction "is" arbitrary: ret b) (auto split: prod.splits if_splits dest: write_nonpos)

lemma control_sync_nonpos: "srg_led_control_sync io s = (e, s') \<Longrightarrow> e \<le> 0"
  by (auto simp: srg_led_control_sync_def split: prod.splits intro: sync_loop_nonpos [of 0])

lemma set_pulse_outcome:
  assumes wf: "led_wf s" and k: "k < 4" "registered (channel s ! k)"
    and ok: "srg_led_set_pulse io k don dof s = (ret, on', off', s')" and pos: "0 \<le> ret"
  shows "\<exists>c. pulse_choice don dof = (c, on', off') \<and> control s' = (control s)[Suc k := c] \<and>
         ret = (if c \<noteq> 0 then 0 else 1) \<and>
         (\<forall>i\<in>{1..4}. regs (client s') (of_nat i) = control s' ! i) \<and>
         (c = 0 \<longrightarrow> regs (client s') (of_nat (k + 5)) = 0)"
proof -
  obtain c on1 off1 where pc: "pulse_choice don dof = (c, on1, off1)" by (metis prod_cases3)
  let ?led = "channel s ! k"
  let ?br = "ucast (if brightness ?led \<noteq> 0 then brightness ?led else max_brightness ?led) :: u8"
  let ?v = "if c \<noteq> 0 then ?br else 0"
  obtain e b where w: "srg_led_i2c_write io (led_index ?led + 4) ?v (client s) = (e, b)" by fastforce
  let ?s1 = "s\<lparr>client := b, control := (control s)[unat (led_index ?led) := c]\<rparr>"
  obtain e2 s2 where sy: "srg_led_control_sync io ?s1 = (e2, s2)" by fastforce
  have le: "e \<le> 0" "e2 \<le> 0" using write_nonpos [OF w] control_sync_nonpos [OF sy] by auto
  have "e = 0" "e2 = 0" and s2: "s' = s2" and del: "on' = on1" "off' = off1"
    and ret: "ret = (if c \<noteq> 0 then 0 else 1)"
    using ok w sy pc le pos by (auto simp: srg_led_set_pulse_def Let_def split: if_splits)
  note fin = write_then_sync [OF wf k w [unfolded \<open>e = 0\<close>] sy [unfolded \<open>e2 = 0\<close>]]
  show ?thesis using fin pc s2 del ret by auto
qed

lemma init_led_control: "control (snd (srg_led_init_led io rx np s)) = control s"
  by (simp add: srg_led_init_led_def Let_def split: option.splits sum.splits prod.splits)

lemma init_children_control: "control (srg_led_init_children io rx ns s) = control s"
  by (induction ns arbitrary: s) (simp_all add: init_led_control)

lemma probe_quiet:
  assumes "srg_led_probe io rx aok merr ns b = (0, Some s)"
  shows "led_wf s \<and> (\<forall>i\<in>{1..4}. regs (client s) (of_nat i) = 0)"
proof -
  let ?s0 = "srg_led_init_children io rx ns (zeroed_ctrl b)"
  have sy: "srg_led_control_sync io ?s0 = (0, s)"
    using assms by (auto simp: srg_led_probe_def Let_def split: if_splits prod.splits)
  have "led_wf ?s0" by (simp add: led_wf_init_children led_wf_zeroed)
  then have "led_wf s" using led_wf_control_sync [of ?s0 io] sy by simp
  moreover have "control s = replicate 5 0"
    using control_sync_keeps [OF sy] by (simp add: init_children_control zeroed_ctrl_def)
  ultimately show ?thesis using control_sync_latched(1) [OF sy] by simp
qed

end

section \<open>A dropping microcontroller\<close>

text \<open>A device that acknowledges and discards the next \<open>mcu_drops\<close> writes, then latches.\<close>

record drop_mcu =
  mcu_regs :: "u8 \<Rightarrow> u8"
  mcu_drops :: nat

definition drop_mcu_io :: "drop_mcu i2c" where
  "drop_mcu_io =
     \<lparr> i2c_write = (\<lambda>r v b. (0, if mcu_drops b = 0 then b\<lparr>mcu_regs := (mcu_regs b)(r := v)\<rparr>
                                else b\<lparr>mcu_drops := mcu_drops b - 1\<rparr>)),
       i2c_read = (\<lambda>r b. (int (unat (mcu_regs b r)), b)) \<rparr>"

interpretation dropping: latching_mcu drop_mcu_io mcu_regs
  by unfold_locales (auto simp: drop_mcu_io_def split: if_splits)

lemma latching_drop_mcu: "latching_mcu drop_mcu_io mcu_regs"
  by (rule dropping.latching_mcu_axioms)

lemma attempts_dropping:
  "0 \<le> ret \<Longrightarrow> fst (srg_led_i2c_attempts drop_mcu_io r v n ret b) =
     (if mcu_drops b < n \<or> (0 < n \<and> mcu_regs b r = v) then 0 else - EIO)"
proof (induction n arbitrary: ret b)
  case 0
  then show ?case by simp
next
  case (Suc n)
  have eq: "int (unat x) = int (unat v) \<longleftrightarrow> x = v" for x :: u8
    by (auto simp: word_uint_eq_iff)
  show ?case
  proof (cases "mcu_drops b")
    case 0
    then show ?thesis by (simp add: drop_mcu_io_def)
  next
    case (Suc d)
    let ?b = "b\<lparr>mcu_drops := d\<rparr>"
    show ?thesis
      using Suc.IH [of "int (unat (mcu_regs b r))" ?b] Suc eq [of "mcu_regs b r"]
      by (auto simp: drop_mcu_io_def)
  qed
qed

section \<open>Properties\<close>

definition mcu_example :: drop_mcu where
  "mcu_example = \<lparr>mcu_regs = (\<lambda>_. 9), mcu_drops = 3\<rparr>"

definition ctrl_example :: "drop_mcu srg_led_ctrl" where
  "ctrl_example = (zeroed_ctrl mcu_example)
     \<lparr>channel := (channel (zeroed_ctrl mcu_example))
        [2 := \<lparr>led_index = 3, brightness = 0, max_brightness = 254, registered = True\<rparr>]\<rparr>"

lemma led_wf_example: "led_wf ctrl_example \<and> registered (channel ctrl_example ! 2)"
  by (auto simp: led_wf_def ctrl_example_def zeroed_ctrl_def nth_list_update eval_nat_numeral less_Suc_eq)

text \<open>A register write that reports success has latched: on any microcontroller that changes
  at most the addressed register, the register holds the value and every other one is untouched.\<close>

theorem led_write_latched:
  assumes "latching_mcu io regs" and "srg_led_i2c_write io r v b = (0, b')"
  shows "regs b' = (regs b)(r := v)"
  by (rule latching_mcu.write_latched [OF assms])

theorem led_write_latched_witness:
  "mcu_regs (snd (srg_led_i2c_write drop_mcu_io 6 77 mcu_example)) = (\<lambda>_. 9)(6 := 77)"
proof -
  have ok: "srg_led_i2c_write drop_mcu_io 6 77 mcu_example
      = (0, snd (srg_led_i2c_write drop_mcu_io 6 77 mcu_example))"
    by (rule prod_eqI, simp_all) code_simp
  from led_write_latched [OF latching_drop_mcu ok] show ?thesis
    by (simp add: mcu_example_def)
qed

text \<open>The retry loop tolerates exactly four discarded writes: against a microcontroller that
  drops the next \<open>n\<close> writes it succeeds if and only if \<open>n < 5\<close> or the register already held
  the value, and reports \<^verbatim>\<open>-EIO\<close> otherwise.\<close>

theorem led_write_retry_bound:
  "fst (srg_led_i2c_write drop_mcu_io r v b) =
     (if mcu_drops b < SRG_LED_WRITE_ATTEMPTS \<or> mcu_regs b r = v then 0 else - EIO)"
  unfolding srg_led_i2c_write_def by (subst attempts_dropping) auto

text \<open>After a successful brightness change the channel's brightness register holds the value,
  the on/off command of the channel is the only cached command that changed, and the cache agrees
  with all four command registers of the microcontroller.\<close>

theorem led_set_brightness_coherent:
  assumes "latching_mcu io regs" and "led_wf s" and "k < 4" and "registered (channel s ! k)"
    and "srg_led_set_brightness io k v s = (0, s')"
  shows "regs (client s') (of_nat (k + 5)) = ucast v \<and>
         (\<forall>i\<in>{1..4}. regs (client s') (of_nat i) = control s' ! i) \<and>
         control s' = (control s)[Suc k := (if v \<noteq> 0 then 1 else 0)]"
  by (rule latching_mcu.set_brightness_coherent [OF assms])

theorem led_set_brightness_coherent_witness:
  "let s' = snd (srg_led_set_brightness drop_mcu_io 2 200 ctrl_example) in
     mcu_regs (client s') 7 = 200 \<and> control s' = [0, 0, 0, 1, 0]"
proof -
  have "fst (srg_led_set_brightness drop_mcu_io 2 200 ctrl_example) = 0" by code_simp
  then have r: "srg_led_set_brightness drop_mcu_io 2 200 ctrl_example =
      (0, snd (srg_led_set_brightness drop_mcu_io 2 200 ctrl_example))"
    by (simp add: prod_eq_iff)
  have "(control ctrl_example)[Suc 2 := 1] = [0, 0, 0, 1, 0]" by code_simp
  with led_set_brightness_coherent [OF latching_drop_mcu conjunct1 [OF led_wf_example] _
      conjunct2 [OF led_wf_example] r] show ?thesis by simp
qed

text \<open>An accepted blink request ends in pulse mode with 500 ms periods or in flash mode with
  50 ms periods, latched in the microcontroller; a request outside both ranges is declined with
  its periods untouched and leaves the channel off.\<close>

theorem led_set_pulse_outcome:
  assumes "latching_mcu io regs" and "led_wf s" and "k < 4" and "registered (channel s ! k)"
    and "srg_led_set_pulse io k don dof s = (ret, on', off', s')" and "0 \<le> ret"
  shows "(ret = 0 \<and> (on', off', regs (client s') (of_nat (Suc k)))
            \<in> {(Some 500, Some 500, 3), (Some 50, Some 50, 2)}) \<or>
         (ret = 1 \<and> on' = don \<and> off' = dof \<and>
            regs (client s') (of_nat (Suc k)) = 0 \<and> regs (client s') (of_nat (k + 5)) = 0)"
proof -
  obtain c where c: "pulse_choice don dof = (c, on', off')" "control s' = (control s)[Suc k := c]"
    "ret = (if c \<noteq> 0 then 0 else 1)" "\<forall>i\<in>{1..4}. regs (client s') (of_nat i) = control s' ! i"
    "c = 0 \<longrightarrow> regs (client s') (of_nat (k + 5)) = 0"
    using latching_mcu.set_pulse_outcome [OF assms] by blast
  have "regs (client s') (of_nat (Suc k)) = c"
    using c(2,4) \<open>k < 4\<close> \<open>led_wf s\<close> by (auto simp: led_wf_def simp del: of_nat_Suc)
  then show ?thesis
    using c by (auto simp: pulse_choice_def simp del: of_nat_Suc split: option.splits if_splits)
qed

theorem led_set_pulse_outcome_witness:
  "let (ret, on', off', s') = srg_led_set_pulse drop_mcu_io 2 (Some 80) (Some 10) ctrl_example in
     ret = 0 \<and> on' = Some 50 \<and> off' = Some 50 \<and> mcu_regs (client s') (of_nat (Suc 2)) = 2"
proof -
  obtain ret on' off' s' where
    r: "srg_led_set_pulse drop_mcu_io 2 (Some 80) (Some 10) ctrl_example = (ret, on', off', s')"
    by (metis prod_cases4)
  have "fst (srg_led_set_pulse drop_mcu_io 2 (Some 80) (Some 10) ctrl_example) = 0 \<and>
        fst (snd (srg_led_set_pulse drop_mcu_io 2 (Some 80) (Some 10) ctrl_example)) = Some 50"
    by code_simp
  then have "ret = 0" "on' = Some 50" using r by auto
  with led_set_pulse_outcome [OF latching_drop_mcu conjunct1 [OF led_wf_example] _
      conjunct2 [OF led_wf_example] r] r
  show ?thesis by (auto simp del: of_nat_Suc)
qed

text \<open>A probe that succeeds leaves the controller well formed (each registered channel carries
  its own device-tree index) and every channel's command register at zero in the hardware.\<close>

theorem led_probe_quiet:
  assumes "latching_mcu io regs" and "srg_led_probe io rx aok merr ns b = (0, Some s)"
  shows "led_wf s \<and> (\<forall>i\<in>{1..4}. regs (client s) (of_nat i) = 0)"
  by (rule latching_mcu.probe_quiet [OF assms])

theorem led_probe_quiet_witness:
  "\<exists>s. srg_led_probe drop_mcu_io (\<lambda>_. 0) True 0 [\<lparr>dt_reg = Inr 2\<rparr>, \<lparr>dt_reg = Inr 7\<rparr>] mcu_example
        = (0, Some s) \<and> led_wf s \<and> registered (channel s ! 1)"
proof -
  let ?p = "srg_led_probe drop_mcu_io (\<lambda>_. 0) True 0 [\<lparr>dt_reg = Inr 2\<rparr>, \<lparr>dt_reg = Inr 7\<rparr>] mcu_example"
  have "fst ?p = 0 \<and> \<not> Option.is_none (snd ?p) \<and> registered (channel (the (snd ?p)) ! 1)"
    by code_simp
  then obtain s where p: "?p = (0, Some s)" "registered (channel s ! 1)"
    by (cases ?p) (auto simp: Option.is_none_def)
  from led_probe_quiet [OF latching_drop_mcu p(1)] p show ?thesis by blast
qed

end
