(* ===== verification/Kprobe.thy ===== *)
theory Kprobe
  imports Prelude
begin

text \<open>
  Kernel probes of the dynamic-IFC feature, \<^verbatim>\<open>airoha/arht_kprobe.c\<close>: the reference-counted
  skip-copy probe, the registration sequence with its roll-back labels, and the pre-handlers.
  The kernel's probe registry is a parameter (\<open>'c kp_core\<close>) with the laws of the locale
  \<open>kprobe_registry\<close>; the business logic the handlers delegate to is an argument of the handler,
  supplied by the dynamic-IFC theories.
\<close>

section \<open>State\<close>

datatype kprobe_id = Kp_tcp_recvmsg | Kp_tcp_sendmsg | Kp_tcp_v4_do_rcv | Kp_tcp_v6_do_rcv
  | Kp_ip_local_out | Kp_ip6_local_out | Kp_resolve

datatype kp_handler = H_none | H_tcp_recvmsg_pre | H_tcp_sendmsg_pre | H_local_out_fast_tx_pre
  | H_tcp_do_rcv_pre

record kprobe =
  symbol_name :: string
  pre_handler :: kp_handler

definition kprobe_zero :: kprobe where
  "kprobe_zero = \<lparr>symbol_name = [], pre_handler = H_none\<rparr>"

text \<open>\<open>kp_register\<close> returns the status and the address it resolved.\<close>

record 'c kp_core =
  kp_register :: "kprobe_id \<Rightarrow> kprobe \<Rightarrow> 'c \<Rightarrow> int \<times> u64 \<times> 'c"
  kp_unregister :: "kprobe_id \<Rightarrow> 'c \<Rightarrow> 'c"

record 'c kp_state =
  core :: 'c
  kp_struct :: "kprobe_id \<Rightarrow> kprobe"
  skip_copy_kprobe_refcnt :: u32

section \<open>Registration\<close>

definition probe_register ::
  "'c kp_core \<Rightarrow> kprobe_id \<Rightarrow> string \<Rightarrow> kp_handler \<Rightarrow> 'c kp_state \<Rightarrow> int \<times> 'c kp_state" where
  "probe_register io k sname h s =
     (let kp = kprobe_zero\<lparr>symbol_name := sname, pre_handler := h\<rparr>;
          (ret, _, c) = kp_register io k kp (core s)
      in (ret, s\<lparr>core := c, kp_struct := (kp_struct s)(k := kp)\<rparr>))"

definition probe_unregister :: "'c kp_core \<Rightarrow> kprobe_id \<Rightarrow> 'c kp_state \<Rightarrow> 'c kp_state" where
  "probe_unregister io k s = s\<lparr>core := kp_unregister io k (core s)\<rparr>"

definition arht_kprobe_resolve_symbol :: "'c kp_core \<Rightarrow> string \<Rightarrow> 'c \<Rightarrow> u64 \<times> 'c" where
  "arht_kprobe_resolve_symbol io name c =
     (let (ret, addr, c1) = kp_register io Kp_resolve (kprobe_zero\<lparr>symbol_name := name\<rparr>) c
      in if ret < 0 then (0, c1) else (addr, kp_unregister io Kp_resolve c1))"

definition arht_skip_copy_kprobe_enable :: "'c kp_core \<Rightarrow> 'c kp_state \<Rightarrow> int \<times> 'c kp_state" where
  "arht_skip_copy_kprobe_enable io s =
     (let s1 = s\<lparr>skip_copy_kprobe_refcnt := skip_copy_kprobe_refcnt s + 1\<rparr>
      in if 1 < sint (skip_copy_kprobe_refcnt s1) then (0, s1)
         else let (ret, s2) = probe_register io Kp_tcp_recvmsg ''tcp_recvmsg'' H_tcp_recvmsg_pre s1
              in if ret < 0
                 then (ret, s2\<lparr>skip_copy_kprobe_refcnt := skip_copy_kprobe_refcnt s2 - 1\<rparr>)
                 else (0, s2))"

definition arht_skip_copy_kprobe_disable :: "'c kp_core \<Rightarrow> 'c kp_state \<Rightarrow> 'c kp_state" where
  "arht_skip_copy_kprobe_disable io s =
     (let s1 = s\<lparr>skip_copy_kprobe_refcnt := skip_copy_kprobe_refcnt s - 1\<rparr>;
          refcnt = sint (skip_copy_kprobe_refcnt s1)
      in if 0 < refcnt then s1
         else if refcnt < 0 then s1\<lparr>skip_copy_kprobe_refcnt := 0\<rparr>
         else let s2 = probe_unregister io Kp_tcp_recvmsg s1
              in s2\<lparr>kp_struct := (kp_struct s2)(Kp_tcp_recvmsg := kprobe_zero)\<rparr>)"

text \<open>The clean-up labels of the registration sequence, each falling through to the next.\<close>

definition err_skip_copy :: "'c kp_core \<Rightarrow> 'c kp_state \<Rightarrow> 'c kp_state" where
  "err_skip_copy io s = arht_skip_copy_kprobe_disable io s"

definition err_unreg_sendmsg :: "'c kp_core \<Rightarrow> 'c kp_state \<Rightarrow> 'c kp_state" where
  "err_unreg_sendmsg io s = err_skip_copy io (probe_unregister io Kp_tcp_sendmsg s)"

definition err_unreg_ip4_out :: "'c kp_core \<Rightarrow> 'c kp_state \<Rightarrow> 'c kp_state" where
  "err_unreg_ip4_out io s = err_unreg_sendmsg io (probe_unregister io Kp_ip_local_out s)"

definition err_unreg_ip6_out :: "'c kp_core \<Rightarrow> 'c kp_state \<Rightarrow> 'c kp_state" where
  "err_unreg_ip6_out io s = err_unreg_ip4_out io (probe_unregister io Kp_ip6_local_out s)"

definition err_unreg_v4_rcv :: "'c kp_core \<Rightarrow> 'c kp_state \<Rightarrow> 'c kp_state" where
  "err_unreg_v4_rcv io s = err_unreg_ip6_out io (probe_unregister io Kp_tcp_v4_do_rcv s)"

definition arht_kprobe_difc_init :: "'c kp_core \<Rightarrow> 'c kp_state \<Rightarrow> int \<times> 'c kp_state" where
  "arht_kprobe_difc_init io s =
     (let (ret, s) = arht_skip_copy_kprobe_enable io s in
      if ret < 0 then (ret, s) else
      let (ret, s) = probe_register io Kp_tcp_sendmsg ''tcp_sendmsg'' H_tcp_sendmsg_pre s in
      if ret < 0 then (ret, err_skip_copy io s) else
      let (ret, s) = probe_register io Kp_ip_local_out ''ip_output'' H_local_out_fast_tx_pre s in
      if ret < 0 then (ret, err_unreg_sendmsg io s) else
      let (ret, s) = probe_register io Kp_ip6_local_out ''ip6_output'' H_local_out_fast_tx_pre s in
      if ret < 0 then (ret, err_unreg_ip4_out io s) else
      let (ret, s) = probe_register io Kp_tcp_v4_do_rcv ''tcp_v4_do_rcv'' H_tcp_do_rcv_pre s in
      if ret < 0 then (ret, err_unreg_ip6_out io s) else
      let (ret, s) = probe_register io Kp_tcp_v6_do_rcv ''tcp_v6_do_rcv'' H_tcp_do_rcv_pre s in
      if ret < 0 then (ret, err_unreg_v4_rcv io s) else (0, s))"

definition arht_kprobe_difc_exit :: "'c kp_core \<Rightarrow> 'c kp_state \<Rightarrow> 'c kp_state" where
  "arht_kprobe_difc_exit io s =
     arht_skip_copy_kprobe_disable io
       (probe_unregister io Kp_tcp_sendmsg
         (probe_unregister io Kp_ip_local_out
           (probe_unregister io Kp_ip6_local_out
             (probe_unregister io Kp_tcp_v4_do_rcv
               (probe_unregister io Kp_tcp_v6_do_rcv s)))))"

section \<open>The LAN address cache\<close>

record mac_cache =
  mac_addr :: "u8 list"
  mac_cached :: bool

definition mac_bytes :: "u32 \<Rightarrow> u8 list" where
  "mac_bytes val = [ucast (drop_bit 16 val AND 0xFF), ucast (drop_bit 8 val AND 0xFF),
                    ucast (val AND 0xFF)]"

text \<open>\<open>ready\<close>: the Ethernet device and its frame-engine window exist. \<open>reg_h\<close> and \<open>reg_lmin\<close>
  are the two LAN MAC register offsets of the register header.\<close>

definition airoha_get_macaddr ::
  "'d bus \<Rightarrow> u32 \<Rightarrow> u32 \<Rightarrow> bool \<Rightarrow> mac_cache \<times> 'd \<Rightarrow> u8 list \<times> mac_cache \<times> 'd" where
  "airoha_get_macaddr io reg_h reg_lmin ready = (\<lambda>(m, d).
     if \<not> ready then (mac_addr m, m, d)
     else if mac_cached m then (mac_addr m, m, d)
     else let (hi, d1) = bus_rr io reg_h d;
              (lo, d2) = bus_rr io reg_lmin d1;
              a = mac_bytes hi @ mac_bytes lo
          in (a, \<lparr>mac_addr = a, mac_cached = True\<rparr>, d2))"

section \<open>Pre-handlers\<close>

record pt_regs =
  xregs :: "nat \<Rightarrow> u64"
  pc :: u64

record sock =
  sk_fullsock :: bool
  sk_mark :: u32
  sk_protocol :: u16
  sk_state :: u8
  rcv_nxt :: u32
  copied_seq :: u32
  inet_sport :: u16
  inet_dport :: u16

record sk_buff =
  skb_headlen :: u32
  skb_network_offset :: int
  skb_len :: u32

abbreviation SKIP_COPY_MIN_BYTES :: u32 where "SKIP_COPY_MIN_BYTES \<equiv> 1024"
abbreviation SK_MARK_LOCAL_OFFLOAD :: u32 where "SK_MARK_LOCAL_OFFLOAD \<equiv> 0xAE000001"
abbreviation MSG_OOB :: u32 where "MSG_OOB \<equiv> 1"
abbreviation MSG_PEEK :: u32 where "MSG_PEEK \<equiv> 2"
abbreviation MSG_TRUNC :: u32 where "MSG_TRUNC \<equiv> 0x20"
abbreviation MSG_ERRQUEUE :: u32 where "MSG_ERRQUEUE \<equiv> 0x2000"
abbreviation IPPROTO_TCP :: u16 where "IPPROTO_TCP \<equiv> 6"
abbreviation TCP_ESTABLISHED :: u8 where "TCP_ESTABLISHED \<equiv> 1"

text \<open>\<^verbatim>\<open>before(a, b)\<close>: the sign of the wrapped difference.\<close>

definition seq_before :: "u32 \<Rightarrow> u32 \<Rightarrow> bool" where
  "seq_before a b \<longleftrightarrow> sint (a - b) < 0"

text \<open>Pointers are addresses, 0 is NULL; \<open>sks\<close> is the socket store.\<close>

definition kp_tcp_recvmsg_pre ::
  "(u64 \<Rightarrow> sock) \<Rightarrow> pt_regs option \<Rightarrow> int \<times> pt_regs option" where
  "kp_tcp_recvmsg_pre sks regs =
     (case regs of
        None \<Rightarrow> (0, None)
      | Some r \<Rightarrow>
          let p = xregs r 0; sk = sks p in
          if p = 0 \<or> \<not> sk_fullsock sk then (0, regs)
          else if sk_mark sk \<noteq> SK_MARK_LOCAL_OFFLOAD then (0, regs)
          else let flags = (ucast (xregs r 3) :: u32) in
          if flags AND (MSG_PEEK OR MSG_OOB OR MSG_ERRQUEUE) \<noteq> 0 then (0, regs)
          else if seq_before (copied_seq sk) (rcv_nxt sk)
          then let pending = rcv_nxt sk - copied_seq sk in
               if SKIP_COPY_MIN_BYTES < pending \<and> pending < push_bit 30 1
               then (0, Some (r\<lparr>xregs := (xregs r)(3 := xregs r 3 OR ucast MSG_TRUNC)\<rparr>))
               else (0, regs)
          else (0, regs))"

definition difc_skip_original_func :: "u64 \<Rightarrow> pt_regs \<Rightarrow> pt_regs" where
  "difc_skip_original_func ret_val r =
     r\<lparr>xregs := (xregs r)(0 := ret_val), pc := xregs r 30\<rparr>"

definition kp_tcp_do_rcv_pre ::
  "(u64 \<Rightarrow> sock) \<Rightarrow> (u64 \<Rightarrow> u64 \<Rightarrow> u16 \<Rightarrow> u16 \<Rightarrow> 's \<Rightarrow> 's) \<Rightarrow> pt_regs option \<Rightarrow> 's \<Rightarrow> int \<times> 's" where
  "kp_tcp_do_rcv_pre sks difc_handle_tcp_do_rcv regs s =
     (case regs of
        None \<Rightarrow> (0, s)
      | Some r \<Rightarrow>
          let sk = xregs r 0; skb = xregs r 1 in
          if sk = 0 \<or> skb = 0 \<or> \<not> sk_fullsock (sks sk) then (0, s)
          else (0, difc_handle_tcp_do_rcv sk skb (inet_sport (sks sk)) (inet_dport (sks sk)) s))"

definition kp_tcp_sendmsg_pre ::
  "(u64 \<Rightarrow> sock) \<Rightarrow> nat \<Rightarrow> bool \<Rightarrow> (u64 \<Rightarrow> 's \<Rightarrow> 's) \<Rightarrow> pt_regs option \<Rightarrow> 's \<Rightarrow> int \<times> 's" where
  "kp_tcp_sendmsg_pre sks difc_app_num difc_is_current_app difc_add_entry_from_sock regs s =
     (if difc_app_num = 0 then (0, s)
      else case regs of
        None \<Rightarrow> (0, s)
      | Some r \<Rightarrow>
          let sk = xregs r 0 in
          if sk = 0 \<or> sk_state (sks sk) \<noteq> TCP_ESTABLISHED then (0, s)
          else if \<not> difc_is_current_app then (0, s)
          else (0, difc_add_entry_from_sock sk s))"

text \<open>
  The fast-transmit bypass. \<open>hook\<close> is the installed transmit hook (or none), \<open>mac\<close> what
  \<open>airoha_get_macaddr\<close> returned, \<open>difc_handle_local_out\<close> the business logic. The additions
  \<^verbatim>\<open>skb_network_offset(skb) + sizeof(...)\<close> are at the width of \<^verbatim>\<open>size_t\<close>.
\<close>

definition short_of :: "u32 \<Rightarrow> int \<Rightarrow> u64 \<Rightarrow> bool" where
  "short_of n off hdr \<longleftrightarrow> ucast n < word_of_int off + hdr"

definition kp_local_out_fast_tx_pre ::
  "bool \<Rightarrow> (u64 \<Rightarrow> sock) \<Rightarrow> (u64 \<Rightarrow> sk_buff) \<Rightarrow> bool \<Rightarrow> u8 list \<Rightarrow>
     (u64 \<Rightarrow> u64 \<Rightarrow> u16 \<Rightarrow> u16 \<Rightarrow> bool \<Rightarrow> u8 list \<Rightarrow> 's \<Rightarrow> int \<times> 's) \<Rightarrow>
     pt_regs option \<Rightarrow> 's \<Rightarrow> int \<times> pt_regs option \<times> 's" where
  "kp_local_out_fast_tx_pre is_ipv4 sks skbs hook mac difc_handle_local_out regs s =
     (case regs of
        None \<Rightarrow> (0, None, s)
      | Some r \<Rightarrow>
          let skp = xregs r 1; skbp = xregs r 2; sk = sks skp; skb = skbs skbp in
          if skp = 0 \<or> skbp = 0 \<or> \<not> sk_fullsock sk then (0, regs, s)
          else if sk_protocol sk \<noteq> IPPROTO_TCP \<or> sk_state sk \<noteq> TCP_ESTABLISHED then (0, regs, s)
          else if \<not> hook then (0, regs, s)
          else if list_all (\<lambda>b. b = 0) mac then (0, regs, s)
          else if is_ipv4 \<and> short_of (skb_headlen skb) (skb_network_offset skb) 20 then (0, regs, s)
          else if \<not> is_ipv4 \<and> short_of (skb_headlen skb) (skb_network_offset skb) 40 then (0, regs, s)
          else if \<not> is_ipv4 \<and> short_of (skb_len skb) (skb_network_offset skb) 40 then (0, regs, s)
          else let (ret, s1) = difc_handle_local_out skp skbp (inet_sport sk) (inet_dport sk)
                                 is_ipv4 mac s
               in if 0 < ret then (1, Some (difc_skip_original_func 0 r), s1)
                  else (0, regs, s1))"

section \<open>The registry's contract\<close>

locale kprobe_registry =
  fixes io :: "'c kp_core" and live :: "'c \<Rightarrow> kprobe_id \<Rightarrow> kprobe option"
  assumes register_fails: "kp_register io k kp c = (ret, a, c') \<Longrightarrow> ret < 0 \<Longrightarrow> live c' = live c"
    and register_ok:
      "kp_register io k kp c = (ret, a, c') \<Longrightarrow> 0 \<le> ret \<Longrightarrow> live c' = (live c)(k \<mapsto> kp)"
    and unregister: "live (kp_unregister io k c) = (live c)(k := None)"
begin

lemma probe_register_fails:
  "probe_register io k sname h s = (ret, s') \<Longrightarrow> ret < 0 \<Longrightarrow>
     live (core s') = live (core s) \<and> skip_copy_kprobe_refcnt s' = skip_copy_kprobe_refcnt s"
  by (auto simp: probe_register_def Let_def split: prod.splits dest: register_fails)

lemma probe_register_ok:
  "probe_register io k sname h s = (ret, s') \<Longrightarrow> 0 \<le> ret \<Longrightarrow>
     live (core s') = (live (core s))(k \<mapsto> \<lparr>symbol_name = sname, pre_handler = h\<rparr>) \<and>
     skip_copy_kprobe_refcnt s' = skip_copy_kprobe_refcnt s"
  by (auto simp: probe_register_def kprobe_zero_def Let_def split: prod.splits dest: register_ok)

lemma probe_unregister_live:
  "live (core (probe_unregister io k s)) = (live (core s))(k := None)"
  "skip_copy_kprobe_refcnt (probe_unregister io k s) = skip_copy_kprobe_refcnt s"
  by (simp_all add: probe_unregister_def unregister)

lemma resolve_symbol_live:
  "live c Kp_resolve = None \<Longrightarrow>
     live (snd (arht_kprobe_resolve_symbol io name c)) = live c"
  by (auto simp: arht_kprobe_resolve_symbol_def Let_def unregister fun_eq_iff split: prod.splits
      dest: register_fails register_ok)

text \<open>The reference count is live exactly while it is positive.\<close>

definition refcnt_live :: "'c kp_state \<Rightarrow> bool" where
  "refcnt_live s \<longleftrightarrow> 0 \<le> sint (skip_copy_kprobe_refcnt s) \<and>
     live (core s) Kp_tcp_recvmsg =
       (if 0 < sint (skip_copy_kprobe_refcnt s)
        then Some \<lparr>symbol_name = ''tcp_recvmsg'', pre_handler = H_tcp_recvmsg_pre\<rparr> else None)"

lemma sint_inc: "sint (w :: u32) < 2 ^ 31 - 1 \<Longrightarrow> sint (w + 1) = sint w + 1"
  using sint_range_size [of w]
  by (simp add: sint_word_ariths word_size signed_take_bit_int_eq_self)

lemma sint_dec: "- (2 ^ 31) < sint (w :: u32) \<Longrightarrow> sint (w - 1) = sint w - 1"
  using sint_range_size [of w]
  by (simp add: sint_word_ariths word_size signed_take_bit_int_eq_self)

lemma enable_live:
  assumes inv: "refcnt_live s" and room: "sint (skip_copy_kprobe_refcnt s) < 2 ^ 31 - 1"
    and e: "arht_skip_copy_kprobe_enable io s = (ret, s')"
  shows "refcnt_live s'" and "ret \<le> 0"
    and "\<And>k. k \<noteq> Kp_tcp_recvmsg \<Longrightarrow> live (core s') k = live (core s) k"
    and "skip_copy_kprobe_refcnt s' =
           (if ret < 0 then skip_copy_kprobe_refcnt s else skip_copy_kprobe_refcnt s + 1)"
    and "ret < 0 \<Longrightarrow> live (core s') = live (core s)"
proof -
  let ?n = "skip_copy_kprobe_refcnt s"
  let ?s1 = "s\<lparr>skip_copy_kprobe_refcnt := ?n + 1\<rparr>"
  have n1: "sint (?n + 1) = sint ?n + 1" by (rule sint_inc [OF room])
  have n0: "0 \<le> sint ?n" using inv by (simp add: refcnt_live_def)
  obtain r s2 where r: "probe_register io Kp_tcp_recvmsg ''tcp_recvmsg'' H_tcp_recvmsg_pre ?s1 = (r, s2)"
    by fastforce
  have cases: "refcnt_live s' \<and> ret \<le> 0 \<and> (\<forall>k. k \<noteq> Kp_tcp_recvmsg \<longrightarrow> live (core s') k = live (core s) k) \<and>
      skip_copy_kprobe_refcnt s' = (if ret < 0 then ?n else ?n + 1) \<and>
      (ret < 0 \<longrightarrow> live (core s') = live (core s))"
  proof (cases "1 < sint (?n + 1)")
    case True
    then show ?thesis
      using e inv n1 by (auto simp: arht_skip_copy_kprobe_enable_def refcnt_live_def)
  next
    case False
    then have z: "sint ?n = 0" using n1 n0 by simp
    show ?thesis
    proof (cases "r < 0")
      case True
      then show ?thesis
        using probe_register_fails [OF r True] e r False inv z
        by (auto simp: arht_skip_copy_kprobe_enable_def refcnt_live_def Let_def)
    next
      case ge: False
      then show ?thesis
        using probe_register_ok [OF r] e r False inv z n1
        by (auto simp: arht_skip_copy_kprobe_enable_def refcnt_live_def Let_def)
    qed
  qed
  then show "refcnt_live s'" and "ret \<le> 0"
    and "\<And>k. k \<noteq> Kp_tcp_recvmsg \<Longrightarrow> live (core s') k = live (core s) k"
    and "skip_copy_kprobe_refcnt s' = (if ret < 0 then ?n else ?n + 1)"
    and "ret < 0 \<Longrightarrow> live (core s') = live (core s)" by auto
qed

lemma disable_live:
  assumes inv: "refcnt_live s"
  shows "refcnt_live (arht_skip_copy_kprobe_disable io s)"
    and "k \<noteq> Kp_tcp_recvmsg \<Longrightarrow> live (core (arht_skip_copy_kprobe_disable io s)) k = live (core s) k"
    and "skip_copy_kprobe_refcnt (arht_skip_copy_kprobe_disable io s) =
           (if 0 < sint (skip_copy_kprobe_refcnt s) then skip_copy_kprobe_refcnt s - 1 else 0)"
proof -
  have d: "sint (skip_copy_kprobe_refcnt s - 1) = sint (skip_copy_kprobe_refcnt s) - 1"
    using inv by (intro sint_dec) (simp add: refcnt_live_def)
  show "refcnt_live (arht_skip_copy_kprobe_disable io s)"
    using inv d by (auto simp: arht_skip_copy_kprobe_disable_def refcnt_live_def Let_def
      probe_unregister_live)
  show "k \<noteq> Kp_tcp_recvmsg \<Longrightarrow> live (core (arht_skip_copy_kprobe_disable io s)) k = live (core s) k"
    by (simp add: arht_skip_copy_kprobe_disable_def Let_def probe_unregister_live)
  show "skip_copy_kprobe_refcnt (arht_skip_copy_kprobe_disable io s) =
           (if 0 < sint (skip_copy_kprobe_refcnt s) then skip_copy_kprobe_refcnt s - 1 else 0)"
    using inv d by (auto simp: arht_skip_copy_kprobe_disable_def refcnt_live_def Let_def
      probe_unregister_def)
qed

lemma disable_undoes:
  assumes inv: "refcnt_live s" and room: "sint (skip_copy_kprobe_refcnt s) < 2 ^ 31 - 1"
    and n: "skip_copy_kprobe_refcnt t = skip_copy_kprobe_refcnt s + 1"
    and r: "live (core t) Kp_tcp_recvmsg =
              Some \<lparr>symbol_name = ''tcp_recvmsg'', pre_handler = H_tcp_recvmsg_pre\<rparr>"
    and o: "\<And>k. k \<noteq> Kp_tcp_recvmsg \<Longrightarrow> live (core t) k = live (core s) k"
  shows "live (core (arht_skip_copy_kprobe_disable io t)) = live (core s) \<and>
         skip_copy_kprobe_refcnt (arht_skip_copy_kprobe_disable io t) = skip_copy_kprobe_refcnt s"
proof -
  have pos: "0 < sint (skip_copy_kprobe_refcnt t)"
    using inv n sint_inc [OF room] by (simp add: refcnt_live_def)
  then have t: "refcnt_live t" using r by (simp add: refcnt_live_def)
  note d = disable_live [OF t]
  have n': "skip_copy_kprobe_refcnt (arht_skip_copy_kprobe_disable io t) = skip_copy_kprobe_refcnt s"
    using d(3) pos n by simp
  have "live (core (arht_skip_copy_kprobe_disable io t)) k = live (core s) k" for k
    using d(1,2) o n' inv by (cases "k = Kp_tcp_recvmsg") (simp_all add: refcnt_live_def)
  with n' show ?thesis by auto
qed

lemmas unreg_simps = err_skip_copy_def err_unreg_sendmsg_def err_unreg_ip4_out_def
  err_unreg_ip6_out_def err_unreg_v4_rcv_def probe_unregister_live

lemma difc_init_cases:
  assumes inv: "refcnt_live s" and room: "sint (skip_copy_kprobe_refcnt s) < 2 ^ 31 - 1"
    and fresh: "\<And>k. k \<in> {Kp_tcp_sendmsg, Kp_ip_local_out, Kp_ip6_local_out, Kp_tcp_v4_do_rcv,
                  Kp_tcp_v6_do_rcv} \<Longrightarrow> live (core s) k = None"
    and i: "arht_kprobe_difc_init io s = (ret, s')"
  shows "(ret < 0 \<and> live (core s') = live (core s) \<and>
            skip_copy_kprobe_refcnt s' = skip_copy_kprobe_refcnt s) \<or>
         (ret = 0 \<and> skip_copy_kprobe_refcnt s' = skip_copy_kprobe_refcnt s + 1 \<and>
            live (core s') = (live (core s))
              (Kp_tcp_recvmsg \<mapsto> \<lparr>symbol_name = ''tcp_recvmsg'', pre_handler = H_tcp_recvmsg_pre\<rparr>,
               Kp_tcp_sendmsg \<mapsto> \<lparr>symbol_name = ''tcp_sendmsg'', pre_handler = H_tcp_sendmsg_pre\<rparr>,
               Kp_ip_local_out \<mapsto> \<lparr>symbol_name = ''ip_output'', pre_handler = H_local_out_fast_tx_pre\<rparr>,
               Kp_ip6_local_out \<mapsto> \<lparr>symbol_name = ''ip6_output'', pre_handler = H_local_out_fast_tx_pre\<rparr>,
               Kp_tcp_v4_do_rcv \<mapsto> \<lparr>symbol_name = ''tcp_v4_do_rcv'', pre_handler = H_tcp_do_rcv_pre\<rparr>,
               Kp_tcp_v6_do_rcv \<mapsto> \<lparr>symbol_name = ''tcp_v6_do_rcv'', pre_handler = H_tcp_do_rcv_pre\<rparr>))"
proof -
  obtain r0 s0 where e0: "arht_skip_copy_kprobe_enable io s = (r0, s0)" by fastforce
  note en = enable_live [OF inv room e0]
  show ?thesis
  proof (cases "r0 < 0")
    case True
    then show ?thesis using i e0 en by (simp add: arht_kprobe_difc_init_def)
  next
    case False
    have pos: "0 < sint (skip_copy_kprobe_refcnt s0)"
      using False en(4) sint_inc [OF room] inv by (simp add: refcnt_live_def)
    have rcv: "live (core s0) Kp_tcp_recvmsg =
        Some \<lparr>symbol_name = ''tcp_recvmsg'', pre_handler = H_tcp_recvmsg_pre\<rparr>"
      using en(1) pos by (simp add: refcnt_live_def)
    have l0: "live (core s0) = (live (core s))
        (Kp_tcp_recvmsg \<mapsto> \<lparr>symbol_name = ''tcp_recvmsg'', pre_handler = H_tcp_recvmsg_pre\<rparr>)"
      using en(3) rcv by (auto simp: fun_eq_iff)
    have n0: "skip_copy_kprobe_refcnt s0 = skip_copy_kprobe_refcnt s + 1" using en(4) False by simp
    note undo = disable_undoes [OF inv room]
    obtain r1 s1 where e1: "probe_register io Kp_tcp_sendmsg ''tcp_sendmsg'' H_tcp_sendmsg_pre s0 = (r1, s1)"
      by fastforce
    obtain r2 s2 where e2: "probe_register io Kp_ip_local_out ''ip_output'' H_local_out_fast_tx_pre s1 = (r2, s2)"
      by fastforce
    obtain r3 s3 where e3: "probe_register io Kp_ip6_local_out ''ip6_output'' H_local_out_fast_tx_pre s2 = (r3, s3)"
      by fastforce
    obtain r4 s4 where e4: "probe_register io Kp_tcp_v4_do_rcv ''tcp_v4_do_rcv'' H_tcp_do_rcv_pre s3 = (r4, s4)"
      by fastforce
    obtain r5 s5 where e5: "probe_register io Kp_tcp_v6_do_rcv ''tcp_v6_do_rcv'' H_tcp_do_rcv_pre s4 = (r5, s5)"
      by fastforce
    note F = probe_register_fails and K = probe_register_ok
    note init = i arht_kprobe_difc_init_def [of io s]
    consider "r1 < 0" | "0 \<le> r1" "r2 < 0" | "0 \<le> r1" "0 \<le> r2" "r3 < 0"
      | "0 \<le> r1" "0 \<le> r2" "0 \<le> r3" "r4 < 0" | "0 \<le> r1" "0 \<le> r2" "0 \<le> r3" "0 \<le> r4" "r5 < 0"
      | "0 \<le> r1" "0 \<le> r2" "0 \<le> r3" "0 \<le> r4" "0 \<le> r5" by linarith
    then show ?thesis
    proof cases
      case 1
      then have u: "ret < 0" "s' = err_skip_copy io s1" using i e0 False e1 by (auto simp: arht_kprobe_difc_init_def)
      show ?thesis using u undo [of s1] F [OF e1 1] l0 n0 by (auto simp: unreg_simps)
    next
      case 2
      then have u: "ret < 0" "s' = err_unreg_sendmsg io s2"
        using i e0 False e1 e2 by (auto simp: arht_kprobe_difc_init_def)
      show ?thesis using u undo [of "probe_unregister io Kp_tcp_sendmsg s2"]
          F [OF e2] K [OF e1] 2 l0 n0 fresh by (simp add: unreg_simps)
    next
      case 3
      then have u: "ret < 0" "s' = err_unreg_ip4_out io s3"
        using i e0 False e1 e2 e3 by (auto simp: arht_kprobe_difc_init_def)
      show ?thesis using u undo [of "probe_unregister io Kp_tcp_sendmsg
            (probe_unregister io Kp_ip_local_out s3)"]
          F [OF e3] K [OF e1] K [OF e2] 3 l0 n0 fresh by (simp add: unreg_simps)
    next
      case 4
      then have u: "ret < 0" "s' = err_unreg_ip6_out io s4"
        using i e0 False e1 e2 e3 e4 by (auto simp: arht_kprobe_difc_init_def)
      show ?thesis using u undo [of "probe_unregister io Kp_tcp_sendmsg
            (probe_unregister io Kp_ip_local_out (probe_unregister io Kp_ip6_local_out s4))"]
          F [OF e4] K [OF e1] K [OF e2] K [OF e3] 4 l0 n0 fresh by (simp add: unreg_simps)
    next
      case 5
      then have u: "ret < 0" "s' = err_unreg_v4_rcv io s5"
        using i e0 False e1 e2 e3 e4 e5 by (auto simp: arht_kprobe_difc_init_def)
      show ?thesis using u undo [of "probe_unregister io Kp_tcp_sendmsg (probe_unregister io Kp_ip_local_out
            (probe_unregister io Kp_ip6_local_out (probe_unregister io Kp_tcp_v4_do_rcv s5)))"]
          F [OF e5] K [OF e1] K [OF e2] K [OF e3] K [OF e4] 5 l0 n0 fresh by (simp add: unreg_simps)
    next
      case 6
      then have "ret = 0" "s' = s5"
        using i e0 False e1 e2 e3 e4 e5 by (auto simp: arht_kprobe_difc_init_def)
      then show ?thesis using K [OF e1] K [OF e2] K [OF e3] K [OF e4] K [OF e5] 6 l0 n0 by simp
    qed
  qed
qed

lemma difc_exit_undoes_init:
  assumes inv: "refcnt_live s" and room: "sint (skip_copy_kprobe_refcnt s) < 2 ^ 31 - 1"
    and fresh: "\<And>k. k \<in> {Kp_tcp_sendmsg, Kp_ip_local_out, Kp_ip6_local_out, Kp_tcp_v4_do_rcv,
                  Kp_tcp_v6_do_rcv} \<Longrightarrow> live (core s) k = None"
    and i: "arht_kprobe_difc_init io s = (0, s')"
  shows "live (core (arht_kprobe_difc_exit io s')) = live (core s) \<and>
         skip_copy_kprobe_refcnt (arht_kprobe_difc_exit io s') = skip_copy_kprobe_refcnt s"
proof -
  have ok: "skip_copy_kprobe_refcnt s' = skip_copy_kprobe_refcnt s + 1" and
    l: "live (core s') = (live (core s))
              (Kp_tcp_recvmsg \<mapsto> \<lparr>symbol_name = ''tcp_recvmsg'', pre_handler = H_tcp_recvmsg_pre\<rparr>,
               Kp_tcp_sendmsg \<mapsto> \<lparr>symbol_name = ''tcp_sendmsg'', pre_handler = H_tcp_sendmsg_pre\<rparr>,
               Kp_ip_local_out \<mapsto> \<lparr>symbol_name = ''ip_output'', pre_handler = H_local_out_fast_tx_pre\<rparr>,
               Kp_ip6_local_out \<mapsto> \<lparr>symbol_name = ''ip6_output'', pre_handler = H_local_out_fast_tx_pre\<rparr>,
               Kp_tcp_v4_do_rcv \<mapsto> \<lparr>symbol_name = ''tcp_v4_do_rcv'', pre_handler = H_tcp_do_rcv_pre\<rparr>,
               Kp_tcp_v6_do_rcv \<mapsto> \<lparr>symbol_name = ''tcp_v6_do_rcv'', pre_handler = H_tcp_do_rcv_pre\<rparr>)"
    using difc_init_cases [OF inv room fresh i] by auto
  show ?thesis unfolding arht_kprobe_difc_exit_def
    by (rule disable_undoes [OF inv room]) (auto simp: probe_unregister_live ok l fresh)
qed

lemma refcnt_live_register:
  assumes "refcnt_live s" and "k \<noteq> Kp_tcp_recvmsg" and r: "probe_register io k sname h s = (ret, s')"
  shows "refcnt_live s'"
proof (cases "ret < 0")
  case True
  then show ?thesis using probe_register_fails [OF r] assms(1) by (simp add: refcnt_live_def)
next
  case False
  then show ?thesis using probe_register_ok [OF r] assms(1,2) by (simp add: refcnt_live_def)
qed

lemma refcnt_live_register_snd:
  "refcnt_live s \<Longrightarrow> k \<noteq> Kp_tcp_recvmsg \<Longrightarrow> refcnt_live (snd (probe_register io k sname h s))"
  by (rule refcnt_live_register [OF _ _ prod.collapse [symmetric]])

lemma refcnt_live_unregister:
  "refcnt_live s \<Longrightarrow> k \<noteq> Kp_tcp_recvmsg \<Longrightarrow> refcnt_live (probe_unregister io k s)"
  by (simp add: refcnt_live_def probe_unregister_live)

lemma refcnt_live_exit: "refcnt_live s \<Longrightarrow> refcnt_live (arht_kprobe_difc_exit io s)"
  unfolding arht_kprobe_difc_exit_def
  by (intro disable_live(1) refcnt_live_unregister) simp_all

lemma refcnt_live_rollback:
  "refcnt_live s \<Longrightarrow> refcnt_live (err_skip_copy io s)"
  "refcnt_live s \<Longrightarrow> refcnt_live (err_unreg_sendmsg io s)"
  "refcnt_live s \<Longrightarrow> refcnt_live (err_unreg_ip4_out io s)"
  "refcnt_live s \<Longrightarrow> refcnt_live (err_unreg_ip6_out io s)"
  "refcnt_live s \<Longrightarrow> refcnt_live (err_unreg_v4_rcv io s)"
  unfolding err_skip_copy_def err_unreg_sendmsg_def err_unreg_ip4_out_def err_unreg_ip6_out_def
    err_unreg_v4_rcv_def
  by (intro disable_live(1) refcnt_live_unregister; simp)+

lemma refcnt_live_init:
  assumes "refcnt_live s" and "sint (skip_copy_kprobe_refcnt s) < 2 ^ 31 - 1"
    and "arht_kprobe_difc_init io s = (ret, s')"
  shows "refcnt_live s'"
proof -
  obtain r0 s0 where e0: "arht_skip_copy_kprobe_enable io s = (r0, s0)" by fastforce
  have "refcnt_live s0" by (rule enable_live(1) [OF assms(1,2) e0])
  then have "refcnt_live (snd (arht_kprobe_difc_init io s))"
    unfolding arht_kprobe_difc_init_def e0 prod.case case_prod_beta Let_def fst_conv snd_conv
    by (auto intro!: refcnt_live_rollback refcnt_live_register_snd)
  then show ?thesis by (simp add: assms(3))
qed

end

section \<open>Runs\<close>

text \<open>Any sequence of enables, disables, initialisations and exits; the counter is a 32-bit
  integer, so a caller that would push it past its maximum is left out.\<close>

inductive kp_step :: "'c kp_core \<Rightarrow> 'c kp_state \<Rightarrow> 'c kp_state \<Rightarrow> bool" for io where
  step_enable: "sint (skip_copy_kprobe_refcnt s) < 2 ^ 31 - 1 \<Longrightarrow>
     kp_step io s (snd (arht_skip_copy_kprobe_enable io s))"
| step_disable: "kp_step io s (arht_skip_copy_kprobe_disable io s)"
| step_init: "sint (skip_copy_kprobe_refcnt s) < 2 ^ 31 - 1 \<Longrightarrow>
     kp_step io s (snd (arht_kprobe_difc_init io s))"
| step_exit: "kp_step io s (arht_kprobe_difc_exit io s)"

inductive_cases kp_stepE: "kp_step io s s'"

context kprobe_registry
begin

lemma refcnt_live_step: "kp_step io s s' \<Longrightarrow> refcnt_live s \<Longrightarrow> refcnt_live s'"
  by (erule kp_stepE)
    (auto intro: disable_live(1) refcnt_live_exit enable_live(1) [OF _ _ prod.collapse [symmetric]]
      refcnt_live_init [OF _ _ prod.collapse [symmetric]])

lemma refcnt_live_run: "(kp_step io)\<^sup>*\<^sup>* s s' \<Longrightarrow> refcnt_live s \<Longrightarrow> refcnt_live s'"
  by (induction rule: rtranclp_induct) (auto intro: refcnt_live_step)

end

section \<open>A registry that refuses some symbols\<close>

record test_registry =
  tr_live :: "kprobe_id \<Rightarrow> kprobe option"
  tr_refused :: "string list"

definition tr_io :: "test_registry kp_core" where
  "tr_io = \<lparr> kp_register = (\<lambda>k kp c. if symbol_name kp \<in> set (tr_refused c) then (- ENOENT, 0, c)
                                  else (0, 4096, c\<lparr>tr_live := (tr_live c)(k \<mapsto> kp)\<rparr>)),
            kp_unregister = (\<lambda>k c. c\<lparr>tr_live := (tr_live c)(k := None)\<rparr>) \<rparr>"

interpretation trreg: kprobe_registry tr_io tr_live
  by unfold_locales (auto simp: tr_io_def split: if_splits)

lemma tr_registry: "kprobe_registry tr_io tr_live"
  by (rule trreg.kprobe_registry_axioms)

definition kp_boot :: "string list \<Rightarrow> test_registry kp_state" where
  "kp_boot refused = \<lparr>core = \<lparr>tr_live = Map.empty, tr_refused = refused\<rparr>,
     kp_struct = (\<lambda>_. kprobe_zero), skip_copy_kprobe_refcnt = 0\<rparr>"

lemma sint_minus_neg:
  fixes d :: u32
  assumes "0 < uint d" and "uint d < 2 ^ 31"
  shows "sint (- d) < 0"
proof -
  have "sint d = uint d"
    using assms by (simp add: sint_uint signed_take_bit_int_eq_self)
  then have "sint (- d) = - uint d"
    using assms by (simp add: sint_word_ariths signed_take_bit_int_eq_self)
  with assms show ?thesis by simp
qed

lemma sint_neg_of_window:
  fixes a b :: u32
  shows "0 < uint (a - b) \<Longrightarrow> uint (a - b) < 2 ^ 31 \<Longrightarrow> sint (b - a) < 0"
  using sint_minus_neg [of "a - b"] by simp

section \<open>Properties\<close>

text \<open>C34: initialisation is all or nothing. From a state in which none of its five probes is
  registered and the skip-copy count is consistent, either it returns 0 with all six probes live
  under their symbols and handlers and one more skip-copy user, or it returns the error with
  the registry and the count exactly as before, whichever registration failed.\<close>

theorem difc_init_all_or_nothing:
  assumes "kprobe_registry io live"
    and "0 \<le> sint (skip_copy_kprobe_refcnt s)" and "sint (skip_copy_kprobe_refcnt s) < 2 ^ 31 - 1"
    and "live (core s) Kp_tcp_recvmsg = (if 0 < sint (skip_copy_kprobe_refcnt s)
           then Some \<lparr>symbol_name = ''tcp_recvmsg'', pre_handler = H_tcp_recvmsg_pre\<rparr> else None)"
    and "\<And>k. k \<in> {Kp_tcp_sendmsg, Kp_ip_local_out, Kp_ip6_local_out, Kp_tcp_v4_do_rcv,
                  Kp_tcp_v6_do_rcv} \<Longrightarrow> live (core s) k = None"
    and "arht_kprobe_difc_init io s = (ret, s')"
  shows "(ret < 0 \<and> live (core s') = live (core s) \<and>
            skip_copy_kprobe_refcnt s' = skip_copy_kprobe_refcnt s) \<or>
         (ret = 0 \<and> skip_copy_kprobe_refcnt s' = skip_copy_kprobe_refcnt s + 1 \<and>
            live (core s') = (live (core s))
              (Kp_tcp_recvmsg \<mapsto> \<lparr>symbol_name = ''tcp_recvmsg'', pre_handler = H_tcp_recvmsg_pre\<rparr>,
               Kp_tcp_sendmsg \<mapsto> \<lparr>symbol_name = ''tcp_sendmsg'', pre_handler = H_tcp_sendmsg_pre\<rparr>,
               Kp_ip_local_out \<mapsto> \<lparr>symbol_name = ''ip_output'', pre_handler = H_local_out_fast_tx_pre\<rparr>,
               Kp_ip6_local_out \<mapsto> \<lparr>symbol_name = ''ip6_output'', pre_handler = H_local_out_fast_tx_pre\<rparr>,
               Kp_tcp_v4_do_rcv \<mapsto> \<lparr>symbol_name = ''tcp_v4_do_rcv'', pre_handler = H_tcp_do_rcv_pre\<rparr>,
               Kp_tcp_v6_do_rcv \<mapsto> \<lparr>symbol_name = ''tcp_v6_do_rcv'', pre_handler = H_tcp_do_rcv_pre\<rparr>))"
proof (rule kprobe_registry.difc_init_cases [OF assms(1) _ assms(3) assms(5,6)])
  show "kprobe_registry.refcnt_live live s"
    unfolding kprobe_registry.refcnt_live_def [OF assms(1)] using assms(2,4) by simp
qed

theorem difc_init_all_or_nothing_witness:
  "let (ret, s') = arht_kprobe_difc_init tr_io (kp_boot [''ip6_output'']) in
     ret = - ENOENT \<and> tr_live (core s') = Map.empty"
proof -
  obtain ret s' where i: "arht_kprobe_difc_init tr_io (kp_boot [''ip6_output'']) = (ret, s')"
    by fastforce
  have "fst (arht_kprobe_difc_init tr_io (kp_boot [''ip6_output''])) = - ENOENT" by code_simp
  then have "ret = - ENOENT" using i by simp
  with difc_init_all_or_nothing [OF tr_registry _ _ _ _ i] i show ?thesis
    by (simp add: kp_boot_def)
qed

text \<open>Exit undoes initialisation: after a successful initialisation it returns the registry
  and the skip-copy count to what they were.\<close>

theorem difc_exit_undoes:
  assumes "kprobe_registry io live"
    and "0 \<le> sint (skip_copy_kprobe_refcnt s)" and "sint (skip_copy_kprobe_refcnt s) < 2 ^ 31 - 1"
    and "live (core s) Kp_tcp_recvmsg = (if 0 < sint (skip_copy_kprobe_refcnt s)
           then Some \<lparr>symbol_name = ''tcp_recvmsg'', pre_handler = H_tcp_recvmsg_pre\<rparr> else None)"
    and "\<And>k. k \<in> {Kp_tcp_sendmsg, Kp_ip_local_out, Kp_ip6_local_out, Kp_tcp_v4_do_rcv,
                  Kp_tcp_v6_do_rcv} \<Longrightarrow> live (core s) k = None"
    and "arht_kprobe_difc_init io s = (0, s')"
  shows "live (core (arht_kprobe_difc_exit io s')) = live (core s) \<and>
         skip_copy_kprobe_refcnt (arht_kprobe_difc_exit io s') = skip_copy_kprobe_refcnt s"
proof (rule kprobe_registry.difc_exit_undoes_init [OF assms(1) _ assms(3) assms(5,6)])
  show "kprobe_registry.refcnt_live live s"
    unfolding kprobe_registry.refcnt_live_def [OF assms(1)] using assms(2,4) by simp
qed

theorem difc_exit_undoes_witness:
  "tr_live (core (arht_kprobe_difc_exit tr_io (snd (arht_kprobe_difc_init tr_io (kp_boot []))))) = Map.empty"
proof -
  have "fst (arht_kprobe_difc_init tr_io (kp_boot [])) = 0" by code_simp
  then have i: "arht_kprobe_difc_init tr_io (kp_boot []) = (0, snd (arht_kprobe_difc_init tr_io (kp_boot [])))"
    by (simp add: prod_eq_iff)
  from difc_exit_undoes [OF tr_registry _ _ _ _ i] show ?thesis by (simp add: kp_boot_def)
qed

text \<open>In every run of enables, disables, initialisations and exits the count never goes
  negative and the \<^verbatim>\<open>tcp_recvmsg\<close> probe is registered exactly while the count is positive.\<close>

theorem skip_copy_refcnt_live:
  assumes "kprobe_registry io live" and "(kp_step io)\<^sup>*\<^sup>* s s'"
    and "skip_copy_kprobe_refcnt s = 0" and "live (core s) Kp_tcp_recvmsg = None"
  shows "0 \<le> sint (skip_copy_kprobe_refcnt s') \<and>
         (live (core s') Kp_tcp_recvmsg \<noteq> None \<longleftrightarrow> 0 < sint (skip_copy_kprobe_refcnt s'))"
proof -
  note L = kprobe_registry.refcnt_live_def [OF assms(1)]
  have "kprobe_registry.refcnt_live live s" unfolding L using assms(3,4) by simp
  then have "kprobe_registry.refcnt_live live s'"
    by (rule kprobe_registry.refcnt_live_run [OF assms(1,2)])
  then show ?thesis unfolding L by auto
qed

theorem skip_copy_refcnt_live_witness:
  "tr_live (core (snd (arht_skip_copy_kprobe_enable tr_io
     (arht_skip_copy_kprobe_disable tr_io (kp_boot []))))) Kp_tcp_recvmsg \<noteq> None"
proof -
  let ?s1 = "arht_skip_copy_kprobe_disable tr_io (kp_boot [])"
  let ?s2 = "snd (arht_skip_copy_kprobe_enable tr_io ?s1)"
  have ev: "sint (skip_copy_kprobe_refcnt ?s1) < 2 ^ 31 - 1 \<and> 0 < sint (skip_copy_kprobe_refcnt ?s2)"
    by code_simp
  have "(kp_step tr_io)\<^sup>*\<^sup>* (kp_boot []) ?s2"
    using step_disable [of tr_io "kp_boot []"] step_enable [of ?s1 tr_io] ev
    by (meson converse_rtranclp_into_rtranclp r_into_rtranclp)
  from skip_copy_refcnt_live [OF tr_registry this] ev show ?thesis by (simp add: kp_boot_def)
qed

text \<open>The receive handler asks for truncation exactly for marked full sockets without
  peek, out-of-band or error-queue flags that have strictly more than 1024 and less than $2^{30}$
  bytes pending, computed modulo $2^{32}$; nothing else in the registers ever changes. In
  particular the test \<^verbatim>\<open>before(copied_seq, rcv_nxt)\<close> never excludes a count in that window.\<close>

theorem recvmsg_trunc_iff:
  "kp_tcp_recvmsg_pre sks (Some r) =
     (0, Some (if xregs r 0 \<noteq> 0 \<and> sk_fullsock (sks (xregs r 0)) \<and>
                  sk_mark (sks (xregs r 0)) = SK_MARK_LOCAL_OFFLOAD \<and>
                  (ucast (xregs r 3) :: u32) AND (MSG_PEEK OR MSG_OOB OR MSG_ERRQUEUE) = 0 \<and>
                  (let n = (uint (rcv_nxt (sks (xregs r 0))) - uint (copied_seq (sks (xregs r 0)))) mod 2 ^ 32
                   in 1024 < n \<and> n < 2 ^ 30)
               then r\<lparr>xregs := (xregs r)(3 := xregs r 3 OR 0x20)\<rparr> else r))"
proof -
  let ?sk = "sks (xregs r 0)"
  let ?n = "(uint (rcv_nxt ?sk) - uint (copied_seq ?sk)) mod 2 ^ 32"
  have n: "uint (rcv_nxt ?sk - copied_seq ?sk) = ?n" by (simp add: uint_word_ariths)
  have lt: "SKIP_COPY_MIN_BYTES < rcv_nxt ?sk - copied_seq ?sk \<longleftrightarrow> 1024 < ?n"
    "rcv_nxt ?sk - copied_seq ?sk < push_bit 30 1 \<longleftrightarrow> ?n < 2 ^ 30"
    unfolding word_less_def n by simp_all
  have "seq_before (copied_seq ?sk) (rcv_nxt ?sk)" if "1024 < ?n" "?n < 2 ^ 30"
    using that sint_neg_of_window [of "rcv_nxt ?sk" "copied_seq ?sk"] n by (simp add: seq_before_def)
  then show ?thesis
    unfolding kp_tcp_recvmsg_pre_def Let_def lt option.case by auto
qed

lemma short_of_nonneg:
  assumes "0 \<le> off" and "off < 2 ^ 31" and "uint hdr < 2 ^ 31"
  shows "short_of n off hdr \<longleftrightarrow> uint n < off + uint hdr"
proof -
  have off: "uint (word_of_int off :: u64) = off" using assms by (simp add: word_of_int_inverse)
  have "uint (word_of_int off + hdr :: u64) = off + uint hdr"
    using assms by (simp add: uint_word_ariths off)
  moreover have "uint (ucast n :: u64) = uint n" 
    by (rule uint_up_ucast) (simp add: is_up)
  ultimately show ?thesis by (simp add: short_of_def word_less_def)
qed

text \<open>The transmit bypass either leaves the registers alone and lets the probed function run,
  or returns 1 with the program counter at the link register and a zero result; the business
  logic is reached only with the whole IP header inside the packet's linear data.\<close>

theorem local_out_bypass_safe:
  assumes "kp_local_out_fast_tx_pre v4 sks skbs hook mac h (Some r) s = (ret, regs', s')"
    and "0 \<le> skb_network_offset (skbs (xregs r 2))" and "skb_network_offset (skbs (xregs r 2)) < 2 ^ 31"
  shows "((ret = 0 \<and> regs' = Some r) \<or>
          (ret = 1 \<and> (\<exists>r'. regs' = Some r' \<and> pc r' = xregs r 30 \<and> xregs r' = (xregs r)(0 := 0)))) \<and>
         (ret = 1 \<or> s' \<noteq> s \<longrightarrow>
            skb_network_offset (skbs (xregs r 2)) + (if v4 then 20 else 40)
              \<le> uint (skb_headlen (skbs (xregs r 2))) \<and> hook \<and> xregs r 2 \<noteq> 0)"
proof -
  have len: "short_of n (skb_network_offset (skbs (xregs r 2))) 20 \<longleftrightarrow>
        uint n < skb_network_offset (skbs (xregs r 2)) + 20"
      "short_of n (skb_network_offset (skbs (xregs r 2))) 40 \<longleftrightarrow>
        uint n < skb_network_offset (skbs (xregs r 2)) + 40" for n
    using short_of_nonneg [OF assms(2,3), of 20] short_of_nonneg [OF assms(2,3), of 40] by simp_all
  show ?thesis
    using assms(1) unfolding kp_local_out_fast_tx_pre_def option.case Let_def len
    by (auto simp: difc_skip_original_func_def split: if_splits prod.splits)
qed

definition bypass_example :: "int \<times> pt_regs option \<times> nat" where
  "bypass_example = kp_local_out_fast_tx_pre True
     (\<lambda>_. \<lparr>sk_fullsock = True, sk_mark = 0, sk_protocol = 6, sk_state = 1, rcv_nxt = 0,
           copied_seq = 0, inet_sport = 80, inet_dport = 81\<rparr>)
     (\<lambda>_. \<lparr>skb_headlen = 64, skb_network_offset = 14, skb_len = 64\<rparr>)
     True [2, 0, 0, 0, 0, 1] (\<lambda>_ _ _ _ _ _ n. (1, Suc n))
     (Some \<lparr>xregs = (\<lambda>i. if i = 30 then 7 else 5), pc = 1\<rparr>) 0"

theorem local_out_bypass_safe_witness:
  "fst bypass_example = 1 \<and> pc (the (fst (snd bypass_example))) = 7"
proof -
  have e: "fst bypass_example = 1" by code_simp
  obtain regs' n where k: "bypass_example = (1, regs', n)" using e by (metis prod.collapse)
  from local_out_bypass_safe [OF k [unfolded bypass_example_def]] show ?thesis
    unfolding k by auto
qed

lemma get_macaddr_cached:
  assumes "airoha_get_macaddr io h l True (m, d) = (a, m', d')"
  shows "airoha_get_macaddr io h l True (m', d'') = (a, m', d'')"
  using assms by (cases "mac_cached m") (auto simp: airoha_get_macaddr_def Let_def split: prod.splits)

end
