(* ===== verification/L2bEtype.thy ===== *)
theory L2bEtype
  imports Prelude
begin

text \<open>
  The L2-bridge ether-type table of the packet processing engine,
  \<^verbatim>\<open>airoha/arht_ppe.c\<close>: sixteen entries packed in one enable register (enable bits below,
  PPPoE bits above) and eight value registers of two 16-bit values, mirrored to the second
  engine on EN7581. The register offsets of the two engines are parameters; the abstract table
  is a list of sixteen slots, and the locale \<open>etype_table\<close> is the interface the loopback
  component uses.
\<close>

section \<open>The abstract table\<close>

text \<open>A disabled entry with a non-zero value is a hardware default and is never free.\<close>

datatype l2b_slot = Free | Idle u16 | Active bool u16

definition slot_of :: "bool \<Rightarrow> bool \<Rightarrow> u16 \<Rightarrow> l2b_slot" where
  "slot_of enabled pppoe v = (if enabled then Active pppoe v else if v = 0 then Free else Idle v)"

definition l2b_lookup :: "l2b_slot \<Rightarrow> l2b_slot list \<Rightarrow> nat option" where
  "l2b_lookup x t = find (\<lambda>i. t ! i = x) [0..<16]"

definition l2b_spec_set ::
  "u16 \<Rightarrow> bool \<Rightarrow> bool \<Rightarrow> l2b_slot list \<Rightarrow> int \<times> bool \<times> l2b_slot list" where
  "l2b_spec_set e p ex t =
     (case l2b_lookup (Active p e) t of
        Some i \<Rightarrow> (int i, True, t)
      | None \<Rightarrow> (case l2b_lookup Free t of
                   Some i \<Rightarrow> (int i, False, t[i := Active p e])
                 | None \<Rightarrow> (- ENOSPC, ex, t)))"

definition l2b_spec_clear :: "u16 \<Rightarrow> bool \<Rightarrow> l2b_slot list \<Rightarrow> l2b_slot list" where
  "l2b_spec_clear e p t =
     (case l2b_lookup (Active p e) t of Some i \<Rightarrow> t[i := Free] | None \<Rightarrow> t)"

section \<open>Registers\<close>

text \<open>\<open>glb_eth\<close>: the Ethernet device exists. Indices are the values of an \<^verbatim>\<open>unsigned int\<close>.\<close>

record ppe_hw =
  glb_eth :: bool
  airoha_is_7581 :: bool
  PPE1_BASE :: u32
  PPE2_BASE :: u32

abbreviation L2B_ETYPE_MAX_INDEX :: nat where "L2B_ETYPE_MAX_INDEX \<equiv> 16"

definition REG_PPE_L2B_ETYPE_EN :: "ppe_hw \<Rightarrow> nat \<Rightarrow> u32" where
  "REG_PPE_L2B_ETYPE_EN hw n = (if n \<noteq> 0 then PPE2_BASE hw else PPE1_BASE hw) + 0x28c"

definition REG_PPE_L2B_ETYPE_N :: "ppe_hw \<Rightarrow> nat \<Rightarrow> nat \<Rightarrow> u32" where
  "REG_PPE_L2B_ETYPE_N hw m n =
     (if m \<noteq> 0 then PPE2_BASE hw else PPE1_BASE hw) + (0x2d0 + push_bit 2 (word_of_nat (n div 2)))"

definition ppe_get_l2b_ether_type :: "'d bus \<Rightarrow> ppe_hw \<Rightarrow> nat \<Rightarrow> 'd \<Rightarrow> u16 \<times> 'd" where
  "ppe_get_l2b_ether_type io hw index d =
     (if \<not> glb_eth hw \<or> 15 < index then (0, d)
      else let shift = 16 * (index mod 2);
               (val, d1) = bus_rr io (REG_PPE_L2B_ETYPE_N hw 0 index) d
           in (ucast (drop_bit shift val AND 0xffff), d1))"

definition ppe_is_l2b_ether_type_enabled :: "'d bus \<Rightarrow> ppe_hw \<Rightarrow> nat \<Rightarrow> 'd \<Rightarrow> bool \<times> 'd" where
  "ppe_is_l2b_ether_type_enabled io hw index d =
     (if \<not> glb_eth hw \<or> 15 < index then (False, d)
      else let (val, d1) = bus_rr io (REG_PPE_L2B_ETYPE_EN hw 0) d
           in (val AND push_bit index 1 \<noteq> 0, d1))"

definition ppe_is_l2b_ether_type_pppoe :: "'d bus \<Rightarrow> ppe_hw \<Rightarrow> nat \<Rightarrow> 'd \<Rightarrow> bool \<times> 'd" where
  "ppe_is_l2b_ether_type_pppoe io hw index d =
     (if \<not> glb_eth hw \<or> 15 < index then (False, d)
      else let (val, d1) = bus_rr io (REG_PPE_L2B_ETYPE_EN hw 0) d
           in (val AND push_bit (index + 16) 1 \<noteq> 0, d1))"

text \<open>The two scans, with the short-circuit evaluation of the C condition.\<close>

fun l2b_find_from :: "'d bus \<Rightarrow> ppe_hw \<Rightarrow> u16 \<Rightarrow> u32 \<Rightarrow> nat list \<Rightarrow> 'd \<Rightarrow> int \<times> 'd" where
  "l2b_find_from io hw etype is_pppoe [] d = (- ENOENT, d)"
| "l2b_find_from io hw etype is_pppoe (i # is) d =
     (let (en, d) = ppe_is_l2b_ether_type_enabled io hw i d in
      if \<not> en then l2b_find_from io hw etype is_pppoe is d else
      let (v, d) = ppe_get_l2b_ether_type io hw i d in
      if v \<noteq> etype then l2b_find_from io hw etype is_pppoe is d else
      let (pp, d) = ppe_is_l2b_ether_type_pppoe io hw i d in
      if pp = (is_pppoe \<noteq> 0) then (int i, d)
      else l2b_find_from io hw etype is_pppoe is d)"

definition ppe_find_l2b_ether_type_index ::
  "'d bus \<Rightarrow> ppe_hw \<Rightarrow> u16 \<Rightarrow> u32 \<Rightarrow> 'd \<Rightarrow> int \<times> 'd" where
  "ppe_find_l2b_ether_type_index io hw etype is_pppoe d =
     l2b_find_from io hw etype is_pppoe [0..<L2B_ETYPE_MAX_INDEX] d"

fun l2b_free_from :: "'d bus \<Rightarrow> ppe_hw \<Rightarrow> nat list \<Rightarrow> 'd \<Rightarrow> int \<times> 'd" where
  "l2b_free_from io hw [] d = (- ENOSPC, d)"
| "l2b_free_from io hw (i # is) d =
     (let (en, d) = ppe_is_l2b_ether_type_enabled io hw i d in
      if en then l2b_free_from io hw is d else
      let (v, d) = ppe_get_l2b_ether_type io hw i d in
      if v = 0 then (int i, d) else l2b_free_from io hw is d)"

definition ppe_find_free_l2b_ether_type_index ::
  "'d bus \<Rightarrow> ppe_hw \<Rightarrow> u32 \<Rightarrow> 'd \<Rightarrow> int \<times> 'd" where
  "ppe_find_free_l2b_ether_type_index io hw is_pppoe d =
     l2b_free_from io hw [0..<L2B_ETYPE_MAX_INDEX] d"

definition l2b_enable_word :: "nat \<Rightarrow> u32 \<Rightarrow> u32 \<Rightarrow> u32 \<Rightarrow> u32" where
  "l2b_enable_word index enable is_pppoe val =
     (let enable_bit = push_bit index 1; pppoe_bit = push_bit (index + 16) 1
      in if enable \<noteq> 0
         then let val = val OR enable_bit
              in if is_pppoe \<noteq> 0 then val OR pppoe_bit else val AND NOT pppoe_bit
         else val AND NOT enable_bit AND NOT pppoe_bit)"

definition l2b_value_word :: "nat \<Rightarrow> u32 \<Rightarrow> u32 \<Rightarrow> u32" where
  "l2b_value_word index value type =
     (let shift = 16 * (index mod 2)
      in (type AND NOT (push_bit shift 0xffff)) OR push_bit shift (value AND 0xffff))"

definition ppe_set_l2b_ether_type ::
  "'d bus \<Rightarrow> ppe_hw \<Rightarrow> nat \<Rightarrow> u32 \<Rightarrow> u32 \<Rightarrow> u32 \<Rightarrow> 'd \<Rightarrow> int \<times> 'd" where
  "ppe_set_l2b_ether_type io hw index enable is_pppoe value d =
     (if \<not> glb_eth hw then (- ENODEV, d)
      else if 15 < index then (- EINVAL, d)
      else
        let (val, d) = bus_rr io (REG_PPE_L2B_ETYPE_EN hw 0) d;
            val = l2b_enable_word index enable is_pppoe val;
            d = bus_wr io (REG_PPE_L2B_ETYPE_EN hw 0) val d;
            d = (if airoha_is_7581 hw then bus_wr io (REG_PPE_L2B_ETYPE_EN hw 1) val d else d);
            (type, d) = bus_rr io (REG_PPE_L2B_ETYPE_N hw 0 index) d;
            type = l2b_value_word index value type;
            d = bus_wr io (REG_PPE_L2B_ETYPE_N hw 0 index) type d;
            d = (if airoha_is_7581 hw then bus_wr io (REG_PPE_L2B_ETYPE_N hw 1 index) type d else d)
        in (0, d))"

text \<open>\<open>existed\<close> is the pointed-to flag, written only on the successful paths.\<close>

definition ppe_set_l2b_ether_type_auto ::
  "'d bus \<Rightarrow> ppe_hw \<Rightarrow> u16 \<Rightarrow> u32 \<Rightarrow> bool \<Rightarrow> 'd \<Rightarrow> int \<times> bool \<times> 'd" where
  "ppe_set_l2b_ether_type_auto io hw etype is_pppoe existed d =
     (if \<not> glb_eth hw then (- ENODEV, existed, d)
      else let (idx, d) = ppe_find_l2b_ether_type_index io hw etype is_pppoe d in
      if 0 \<le> idx then (idx, True, d)
      else let (idx, d) = ppe_find_free_l2b_ether_type_index io hw is_pppoe d in
      if idx < 0 then (- ENOSPC, existed, d)
      else let (ret, d) = ppe_set_l2b_ether_type io hw (nat idx) 1 is_pppoe (ucast etype) d in
      if ret \<noteq> 0 then (ret, existed, d) else (idx, False, d))"

definition ppe_clear_l2b_ether_type_auto ::
  "'d bus \<Rightarrow> ppe_hw \<Rightarrow> u16 \<Rightarrow> u32 \<Rightarrow> 'd \<Rightarrow> int \<times> 'd" where
  "ppe_clear_l2b_ether_type_auto io hw etype is_pppoe d =
     (if \<not> glb_eth hw then (- ENODEV, d)
      else let (idx, d) = ppe_find_l2b_ether_type_index io hw etype is_pppoe d in
      if idx < 0 then (0, d)
      else let (ret, d) = ppe_set_l2b_ether_type io hw (nat idx) 0 is_pppoe 0 d in
      if ret \<noteq> 0 then (ret, d) else (0, d))"

section \<open>The packed words\<close>

lemma enable_word_bits:
  assumes "i < 16" and "j < 16"
  shows "bit (l2b_enable_word i en pp val) j = (if j = i then en \<noteq> 0 else bit val j)"
    and "bit (l2b_enable_word i en pp val) (j + 16) =
           (if j = i then en \<noteq> 0 \<and> pp \<noteq> 0 else bit val (j + 16))"
  using assms by (auto simp: l2b_enable_word_def Let_def bit_simps)

definition half :: "nat \<Rightarrow> u32 \<Rightarrow> u16" where
  "half i w = ucast (drop_bit (16 * (i mod 2)) w AND 0xffff)"

lemma mask16_32: "(0xffff :: u32) = mask 16"
  by (simp add: mask_eq_exp_minus_1)

lemma half_value_word:
  assumes "i < 16" and "j < 16" and "i div 2 = j div 2"
  shows "half j (l2b_value_word i v w) = (if j = i then ucast v else half j w)"
proof (rule bit_word_eqI)
  fix n assume n: "n < LENGTH(16)"
  have m: "i mod 2 = 0 \<or> i mod 2 = 1" "j mod 2 = 0 \<or> j mod 2 = 1" by auto
  have eq: "j = i \<longleftrightarrow> j mod 2 = i mod 2" using assms(3) by (metis div_mult_mod_eq)
  show "bit (half j (l2b_value_word i v w)) n = bit (if j = i then ucast v else half j w) n"
    using n m unfolding eq half_def l2b_value_word_def Let_def mask16_32
    by (auto simp: bit_simps)
qed

section \<open>Addresses\<close>

definition l2b_layout :: "ppe_hw \<Rightarrow> bool" where
  "l2b_layout hw \<longleftrightarrow> glb_eth hw \<and>
     (airoha_is_7581 hw \<longrightarrow>
        0x400 \<le> PPE2_BASE hw - PPE1_BASE hw \<and> 0x400 \<le> PPE1_BASE hw - PPE2_BASE hw)"

lemma window_apart:
  fixes p q a b :: u32
  assumes "0x400 \<le> q - p" and "0x400 \<le> p - q" and "a < 0x400" and "b < 0x400"
  shows "q + a \<noteq> p + b"
proof
  assume e: "q + a = p + b"
  show False
  proof (cases "a \<le> b")
    case True
    have "q - p = b - a" using e by (simp add: algebra_simps)
    moreover have "b - a \<le> b" using True by (rule word_sub_le)
    ultimately have "q - p < 0x400" using assms(4) by simp
    then show False using assms(1) by simp
  next
    case False
    have "p - q = a - b" using e by (simp add: algebra_simps)
    moreover have "a - b \<le> a" using False by (simp add: word_sub_le)
    ultimately have "p - q < 0x400" using assms(3) by simp
    then show False using assms(2) by simp
  qed
qed

definition n_off :: "nat \<Rightarrow> u32" where
  "n_off n = 0x2d0 + push_bit 2 (word_of_nat (n div 2))"

lemma n_off_unat: "n < 16 \<Longrightarrow> unat (n_off n) = 0x2d0 + 4 * (n div 2)"
proof -
  assume "n < 16"
  then have "n div 2 \<in> {0, 1, 2, 3, 4, 5, 6, 7}" by auto
  then show ?thesis unfolding n_off_def by (elim insertE) simp_all
qed

lemma n_off_lt: "n < 16 \<Longrightarrow> n_off n < 0x400"
  unfolding word_less_nat_alt n_off_unat by simp

lemma n_off_eq: "m < 16 \<Longrightarrow> n < 16 \<Longrightarrow> n_off m = n_off n \<longleftrightarrow> m div 2 = n div 2"
  by (metis add_left_cancel mult_cancel1 n_off_unat n_off_def zero_neq_numeral)

lemma n_off_en: "n < 16 \<Longrightarrow> n_off n \<noteq> 0x28c"
  using n_off_unat [of n] by auto

lemma etype_regs:
  "REG_PPE_L2B_ETYPE_N hw 0 n = PPE1_BASE hw + n_off n"
  "REG_PPE_L2B_ETYPE_N hw 1 n = PPE2_BASE hw + n_off n"
  "REG_PPE_L2B_ETYPE_EN hw 0 = PPE1_BASE hw + 0x28c"
  "REG_PPE_L2B_ETYPE_EN hw 1 = PPE2_BASE hw + 0x28c"
  by (simp_all add: REG_PPE_L2B_ETYPE_N_def REG_PPE_L2B_ETYPE_EN_def n_off_def)

section \<open>The view of the registers as a table\<close>

definition l2b_slot_at :: "(u32 \<Rightarrow> u32) \<Rightarrow> ppe_hw \<Rightarrow> nat \<Rightarrow> l2b_slot" where
  "l2b_slot_at r hw i =
     slot_of (bit (r (REG_PPE_L2B_ETYPE_EN hw 0)) i) (bit (r (REG_PPE_L2B_ETYPE_EN hw 0)) (i + 16))
             (half i (r (REG_PPE_L2B_ETYPE_N hw 0 i)))"

definition l2b_view :: "(u32 \<Rightarrow> u32) \<Rightarrow> ppe_hw \<Rightarrow> l2b_slot list" where
  "l2b_view r hw = map (l2b_slot_at r hw) [0..<16]"

text \<open>The second engine repeats the first one's table.\<close>

definition l2b_mirrored :: "(u32 \<Rightarrow> u32) \<Rightarrow> ppe_hw \<Rightarrow> bool" where
  "l2b_mirrored r hw \<longleftrightarrow>
     r (REG_PPE_L2B_ETYPE_EN hw 1) = r (REG_PPE_L2B_ETYPE_EN hw 0) \<and>
     (\<forall>i<16. r (REG_PPE_L2B_ETYPE_N hw 1 i) = r (REG_PPE_L2B_ETYPE_N hw 0 i))"

lemma l2b_view_length [simp]: "length (l2b_view r hw) = 16"
  by (simp add: l2b_view_def)

lemma l2b_view_nth: "i < 16 \<Longrightarrow> l2b_view r hw ! i = l2b_slot_at r hw i"
  by (simp add: l2b_view_def)

lemma l2b_slot_at_cases:
  "l2b_slot_at r hw i = Active p e \<longleftrightarrow>
     bit (r (REG_PPE_L2B_ETYPE_EN hw 0)) i \<and> p = bit (r (REG_PPE_L2B_ETYPE_EN hw 0)) (i + 16) \<and>
     e = half i (r (REG_PPE_L2B_ETYPE_N hw 0 i))"
  "l2b_slot_at r hw i = Free \<longleftrightarrow>
     \<not> bit (r (REG_PPE_L2B_ETYPE_EN hw 0)) i \<and> half i (r (REG_PPE_L2B_ETYPE_N hw 0 i)) = 0"
  by (auto simp: l2b_slot_at_def slot_of_def)

lemma and_bit_iff: "(w :: u32) AND push_bit n 1 \<noteq> 0 \<longleftrightarrow> bit w n"
proof
  assume "w AND push_bit n 1 \<noteq> 0"
  then obtain k where "bit (w AND push_bit n 1) k" using bit_eqI [of "w AND push_bit n 1" 0] by auto
  then show "bit w n" by (auto simp: bit_simps)
next
  assume b: "bit w n"
  then have "n < 32" by (auto dest: bit_imp_le_length)
  then have "bit (w AND push_bit n 1) n" using b by (simp add: bit_simps)
  then show "w AND push_bit n 1 \<noteq> 0" by auto
qed

context plain_regs
begin

lemma get_etype_val:
  assumes "ppe_get_l2b_ether_type io hw i d = (v, d')" and "glb_eth hw" and "i < 16"
  shows "v = half i (peek d (REG_PPE_L2B_ETYPE_N hw 0 i))" and "peek d' = peek d"
  using assms by (auto simp: ppe_get_l2b_ether_type_def half_def Let_def split: prod.splits
      dest: rr_pair)

lemma is_enabled_val:
  assumes "ppe_is_l2b_ether_type_enabled io hw i d = (b, d')" and "glb_eth hw" and "i < 16"
  shows "b = bit (peek d (REG_PPE_L2B_ETYPE_EN hw 0)) i" and "peek d' = peek d"
  using assms unfolding ppe_is_l2b_ether_type_enabled_def and_bit_iff
  by (auto split: prod.splits dest: rr_pair)

lemma is_pppoe_val:
  assumes "ppe_is_l2b_ether_type_pppoe io hw i d = (b, d')" and "glb_eth hw" and "i < 16"
  shows "b = bit (peek d (REG_PPE_L2B_ETYPE_EN hw 0)) (i + 16)" and "peek d' = peek d"
  using assms unfolding ppe_is_l2b_ether_type_pppoe_def and_bit_iff
  by (auto split: prod.splits dest: rr_pair)

lemma find_from_val:
  assumes "l2b_find_from io hw e pp is d = (x, d')" and "glb_eth hw" and "\<forall>i\<in>set is. i < 16"
  shows "peek d' = peek d \<and>
     x = (case find (\<lambda>i. l2b_slot_at (peek d) hw i = Active (pp \<noteq> 0) e) is of
            Some i \<Rightarrow> int i | None \<Rightarrow> - ENOENT)"
  using assms
proof (induction "is" arbitrary: d)
  case Nil
  then show ?case by simp
next
  case (Cons i "is")
  obtain en d1 where e: "ppe_is_l2b_ether_type_enabled io hw i d = (en, d1)" by fastforce
  obtain v d2 where v: "ppe_get_l2b_ether_type io hw i d1 = (v, d2)" by fastforce
  obtain q d3 where q: "ppe_is_l2b_ether_type_pppoe io hw i d2 = (q, d3)" by fastforce
  have i: "i < 16" and is16: "\<forall>i\<in>set is. i < 16" using Cons.prems(3) by auto
  note E = is_enabled_val [OF e Cons.prems(2) i] and V = get_etype_val [OF v Cons.prems(2) i]
    and Q = is_pppoe_val [OF q Cons.prems(2) i]
  consider "\<not> en" | "en" "v \<noteq> e" | "en" "v = e" "q \<noteq> (pp \<noteq> 0)" | "en" "v = e" "q = (pp \<noteq> 0)" by blast
  then show ?case
  proof cases
    case 1
    then have "l2b_find_from io hw e pp is d1 = (x, d')" using Cons.prems(1) e by simp
    from Cons.IH [OF this Cons.prems(2) is16] show ?thesis using 1 E by (simp add: l2b_slot_at_cases)
  next
    case 2
    then have "l2b_find_from io hw e pp is d2 = (x, d')" using Cons.prems(1) e v by simp
    from Cons.IH [OF this Cons.prems(2) is16] show ?thesis using 2 E V by (simp add: l2b_slot_at_cases)
  next
    case 3
    then have "l2b_find_from io hw e pp is d3 = (x, d')" using Cons.prems(1) e v q by auto
    from Cons.IH [OF this Cons.prems(2) is16] show ?thesis
      using 3 E V Q by (auto simp: l2b_slot_at_cases)
  next
    case 4
    then have "x = int i" "d' = d3" using Cons.prems(1) e v q by auto
    then show ?thesis using 4 E V Q by (simp add: l2b_slot_at_cases)
  qed
qed

lemma free_from_val:
  assumes "l2b_free_from io hw is d = (x, d')" and "glb_eth hw" and "\<forall>i\<in>set is. i < 16"
  shows "peek d' = peek d \<and>
     x = (case find (\<lambda>i. l2b_slot_at (peek d) hw i = Free) is of Some i \<Rightarrow> int i | None \<Rightarrow> - ENOSPC)"
  using assms
proof (induction "is" arbitrary: d)
  case Nil
  then show ?case by simp
next
  case (Cons i "is")
  obtain en d1 where e: "ppe_is_l2b_ether_type_enabled io hw i d = (en, d1)" by fastforce
  obtain v d2 where v: "ppe_get_l2b_ether_type io hw i d1 = (v, d2)" by fastforce
  have i: "i < 16" and is16: "\<forall>i\<in>set is. i < 16" using Cons.prems(3) by auto
  note E = is_enabled_val [OF e Cons.prems(2) i] and V = get_etype_val [OF v Cons.prems(2) i]
  consider "en" | "\<not> en" "v \<noteq> 0" | "\<not> en" "v = 0" by blast
  then show ?case
  proof cases
    case 1
    then have "l2b_free_from io hw is d1 = (x, d')" using Cons.prems(1) e by simp
    from Cons.IH [OF this Cons.prems(2) is16] show ?thesis using 1 E by (simp add: l2b_slot_at_cases)
  next
    case 2
    then have "l2b_free_from io hw is d2 = (x, d')" using Cons.prems(1) e v by simp
    from Cons.IH [OF this Cons.prems(2) is16] show ?thesis using 2 E V by (simp add: l2b_slot_at_cases)
  next
    case 3
    then have "x = int i" "d' = d2" using Cons.prems(1) e v by auto
    then show ?thesis using 3 E V by (simp add: l2b_slot_at_cases)
  qed
qed

lemma find_cong_view:
  "find (\<lambda>i. l2b_slot_at r hw i = x) [0..<16] = l2b_lookup x (l2b_view r hw)"
  unfolding l2b_lookup_def by (rule find_cong) (auto simp: l2b_view_nth)

lemma find_index_val:
  assumes "ppe_find_l2b_ether_type_index io hw e pp d = (x, d')" and "glb_eth hw"
  shows "peek d' = peek d \<and>
     x = (case l2b_lookup (Active (pp \<noteq> 0) e) (l2b_view (peek d) hw) of
            Some i \<Rightarrow> int i | None \<Rightarrow> - ENOENT)"
  using find_from_val [OF assms(1) [unfolded ppe_find_l2b_ether_type_index_def] assms(2)]
  unfolding find_cong_view by simp

lemma free_index_val:
  assumes "ppe_find_free_l2b_ether_type_index io hw pp d = (x, d')" and "glb_eth hw"
  shows "peek d' = peek d \<and>
     x = (case l2b_lookup Free (l2b_view (peek d) hw) of Some i \<Rightarrow> int i | None \<Rightarrow> - ENOSPC)"
  using free_from_val [OF assms(1) [unfolded ppe_find_free_l2b_ether_type_index_def] assms(2)]
  unfolding find_cong_view by simp

text \<open>What a successful write does to the register file.\<close>

lemma set_peek:
  assumes "glb_eth hw" and "i < 16"
  shows "\<exists>d'. ppe_set_l2b_ether_type io hw i en pp v d = (0, d') \<and>
    peek d' = (let r = peek d;
                   w = l2b_enable_word i en pp (r (REG_PPE_L2B_ETYPE_EN hw 0));
                   r = r(REG_PPE_L2B_ETYPE_EN hw 0 := w);
                   r = (if airoha_is_7581 hw then r(REG_PPE_L2B_ETYPE_EN hw 1 := w) else r);
                   t = l2b_value_word i v (r (REG_PPE_L2B_ETYPE_N hw 0 i));
                   r = r(REG_PPE_L2B_ETYPE_N hw 0 i := t)
               in if airoha_is_7581 hw then r(REG_PPE_L2B_ETYPE_N hw 1 i := t) else r)"
proof -
  obtain w1 d1 where w1: "bus_rr io (REG_PPE_L2B_ETYPE_EN hw 0) d = (w1, d1)" by fastforce
  obtain w2 d4 where w2: "bus_rr io (REG_PPE_L2B_ETYPE_N hw 0 i)
      (let d2 = bus_wr io (REG_PPE_L2B_ETYPE_EN hw 0) (l2b_enable_word i en pp w1) d1
       in if airoha_is_7581 hw then bus_wr io (REG_PPE_L2B_ETYPE_EN hw 1) (l2b_enable_word i en pp w1) d2
          else d2) = (w2, d4)" by fastforce
  show ?thesis
    using assms w2 [unfolded Let_def] rr_pair [OF w1] rr_pair [OF w2 [unfolded Let_def]]
    by (cases "airoha_is_7581 hw")
      (simp_all add: ppe_set_l2b_ether_type_def w1 wr_peek Let_def)
qed

end

lemma l2b_layout_regs:
  assumes "l2b_layout hw" and "i < 16" and "j < 16"
  shows "REG_PPE_L2B_ETYPE_N hw 0 i \<noteq> REG_PPE_L2B_ETYPE_EN hw 0"
    and "REG_PPE_L2B_ETYPE_N hw 1 i \<noteq> REG_PPE_L2B_ETYPE_EN hw 1"
    and "REG_PPE_L2B_ETYPE_N hw 0 i = REG_PPE_L2B_ETYPE_N hw 0 j \<longleftrightarrow> i div 2 = j div 2"
    and "REG_PPE_L2B_ETYPE_N hw 1 i = REG_PPE_L2B_ETYPE_N hw 1 j \<longleftrightarrow> i div 2 = j div 2"
    and "airoha_is_7581 hw \<Longrightarrow> REG_PPE_L2B_ETYPE_EN hw 1 \<noteq> REG_PPE_L2B_ETYPE_EN hw 0"
    and "airoha_is_7581 hw \<Longrightarrow> REG_PPE_L2B_ETYPE_N hw 1 i \<noteq> REG_PPE_L2B_ETYPE_EN hw 0"
    and "airoha_is_7581 hw \<Longrightarrow> REG_PPE_L2B_ETYPE_EN hw 1 \<noteq> REG_PPE_L2B_ETYPE_N hw 0 i"
    and "airoha_is_7581 hw \<Longrightarrow> REG_PPE_L2B_ETYPE_N hw 1 i \<noteq> REG_PPE_L2B_ETYPE_N hw 0 j"
proof -
  have w: "PPE2_BASE hw + a \<noteq> PPE1_BASE hw + b" if "airoha_is_7581 hw" "a < 0x400" "b < 0x400" for a b
    using assms(1) that by (intro window_apart) (auto simp: l2b_layout_def)
  show "REG_PPE_L2B_ETYPE_N hw 0 i \<noteq> REG_PPE_L2B_ETYPE_EN hw 0"
    "REG_PPE_L2B_ETYPE_N hw 1 i \<noteq> REG_PPE_L2B_ETYPE_EN hw 1"
    unfolding etype_regs using n_off_en [OF assms(2)] by simp_all
  show "REG_PPE_L2B_ETYPE_N hw 0 i = REG_PPE_L2B_ETYPE_N hw 0 j \<longleftrightarrow> i div 2 = j div 2"
    "REG_PPE_L2B_ETYPE_N hw 1 i = REG_PPE_L2B_ETYPE_N hw 1 j \<longleftrightarrow> i div 2 = j div 2"
    unfolding etype_regs using n_off_eq [OF assms(2,3)] by simp_all
  show "airoha_is_7581 hw \<Longrightarrow> REG_PPE_L2B_ETYPE_EN hw 1 \<noteq> REG_PPE_L2B_ETYPE_EN hw 0"
    "airoha_is_7581 hw \<Longrightarrow> REG_PPE_L2B_ETYPE_N hw 1 i \<noteq> REG_PPE_L2B_ETYPE_EN hw 0"
    "airoha_is_7581 hw \<Longrightarrow> REG_PPE_L2B_ETYPE_EN hw 1 \<noteq> REG_PPE_L2B_ETYPE_N hw 0 i"
    "airoha_is_7581 hw \<Longrightarrow> REG_PPE_L2B_ETYPE_N hw 1 i \<noteq> REG_PPE_L2B_ETYPE_N hw 0 j"
    unfolding etype_regs by (intro w; simp add: n_off_lt assms)+
qed

lemma l2b_layout_glb: "l2b_layout hw \<Longrightarrow> glb_eth hw"
  by (simp add: l2b_layout_def)

context plain_regs
begin

lemma set_regs:
  assumes "l2b_layout hw" and "i < 16" and "ppe_set_l2b_ether_type io hw i en pp v d = (ret, d')"
  shows "ret = 0"
    and "peek d' (REG_PPE_L2B_ETYPE_EN hw 0) = l2b_enable_word i en pp (peek d (REG_PPE_L2B_ETYPE_EN hw 0))"
    and "\<And>j. j < 16 \<Longrightarrow> peek d' (REG_PPE_L2B_ETYPE_N hw 0 j) =
           (if j div 2 = i div 2 then l2b_value_word i v (peek d (REG_PPE_L2B_ETYPE_N hw 0 j))
            else peek d (REG_PPE_L2B_ETYPE_N hw 0 j))"
    and "airoha_is_7581 hw \<Longrightarrow> l2b_mirrored (peek d) hw \<Longrightarrow> l2b_mirrored (peek d') hw"
proof -
  note R = l2b_layout_regs [OF assms(1)]
  have pk: "ret = 0" "peek d' = (let r = peek d;
                   w = l2b_enable_word i en pp (r (REG_PPE_L2B_ETYPE_EN hw 0));
                   r = r(REG_PPE_L2B_ETYPE_EN hw 0 := w);
                   r = (if airoha_is_7581 hw then r(REG_PPE_L2B_ETYPE_EN hw 1 := w) else r);
                   t = l2b_value_word i v (r (REG_PPE_L2B_ETYPE_N hw 0 i));
                   r = r(REG_PPE_L2B_ETYPE_N hw 0 i := t)
               in if airoha_is_7581 hw then r(REG_PPE_L2B_ETYPE_N hw 1 i := t) else r)"
    using set_peek [OF l2b_layout_glb [OF assms(1)] assms(2), of en pp v d] assms(3) by auto
  show "ret = 0" by (rule pk(1))
  show "peek d' (REG_PPE_L2B_ETYPE_EN hw 0) = l2b_enable_word i en pp (peek d (REG_PPE_L2B_ETYPE_EN hw 0))"
    unfolding pk Let_def using R(1,5,6,7) [OF assms(2) assms(2)] by (auto dest: sym)
  have n: "peek d' (REG_PPE_L2B_ETYPE_N hw 0 j) =
           (if j div 2 = i div 2 then l2b_value_word i v (peek d (REG_PPE_L2B_ETYPE_N hw 0 j))
            else peek d (REG_PPE_L2B_ETYPE_N hw 0 j))" if j: "j < 16" for j
  proof -
    have "REG_PPE_L2B_ETYPE_N hw 0 j = REG_PPE_L2B_ETYPE_N hw 0 i \<longleftrightarrow> j div 2 = i div 2"
      by (rule R(3) [OF j assms(2)])
    then show ?thesis
      unfolding pk Let_def
      using R(1) [OF j j] R(1) [OF assms(2) j] R(7) [OF j j] R(7) [OF assms(2) j] R(8) [OF assms(2) j]
      by (auto dest: sym)
  qed
  then show "\<And>j. j < 16 \<Longrightarrow> peek d' (REG_PPE_L2B_ETYPE_N hw 0 j) =
           (if j div 2 = i div 2 then l2b_value_word i v (peek d (REG_PPE_L2B_ETYPE_N hw 0 j))
            else peek d (REG_PPE_L2B_ETYPE_N hw 0 j))" .
  assume m: "airoha_is_7581 hw" "l2b_mirrored (peek d) hw"
  have "peek d' (REG_PPE_L2B_ETYPE_EN hw 1) = peek d' (REG_PPE_L2B_ETYPE_EN hw 0)"
    unfolding pk Let_def using m(1) R(1,2,5,6,7) [OF assms(2) assms(2)] by (auto dest: sym)
  moreover have "peek d' (REG_PPE_L2B_ETYPE_N hw 1 j) = peek d' (REG_PPE_L2B_ETYPE_N hw 0 j)"
    if j: "j < 16" for j
  proof -
    have old: "peek d (REG_PPE_L2B_ETYPE_N hw 1 j) = peek d (REG_PPE_L2B_ETYPE_N hw 0 j)"
      using m(2) j by (simp add: l2b_mirrored_def)
    have same: "REG_PPE_L2B_ETYPE_N hw 0 j = REG_PPE_L2B_ETYPE_N hw 0 i \<longleftrightarrow>
        REG_PPE_L2B_ETYPE_N hw 1 j = REG_PPE_L2B_ETYPE_N hw 1 i"
      using R(3,4) [OF j assms(2)] by simp
    show ?thesis
      unfolding pk Let_def
      using m(1) same old R(1,2) [OF j j] R(6,7) [OF j j] R(8) [OF j j] R(8) [OF j assms(2)] R(8) [OF assms(2) j]
      by (auto dest: sym)
  qed
  ultimately show "l2b_mirrored (peek d') hw" by (simp add: l2b_mirrored_def)
qed

lemma set_view:
  assumes "l2b_layout hw" and "i < 16" and "ppe_set_l2b_ether_type io hw i en pp v d = (ret, d')"
  shows "l2b_view (peek d') hw = (l2b_view (peek d) hw)[i := slot_of (en \<noteq> 0) (en \<noteq> 0 \<and> pp \<noteq> 0) (ucast v)]"
proof (rule nth_equalityI)
  fix j assume "j < length (l2b_view (peek d') hw)"
  then have j: "j < 16" by simp
  note S = set_regs [OF assms]
  have "half j (peek d' (REG_PPE_L2B_ETYPE_N hw 0 j)) =
      (if j = i then ucast v else half j (peek d (REG_PPE_L2B_ETYPE_N hw 0 j)))"
    using S(3) [OF j] half_value_word [OF assms(2) j] by auto
  moreover have "bit (peek d' (REG_PPE_L2B_ETYPE_EN hw 0)) j =
      (if j = i then en \<noteq> 0 else bit (peek d (REG_PPE_L2B_ETYPE_EN hw 0)) j)"
    "bit (peek d' (REG_PPE_L2B_ETYPE_EN hw 0)) (j + 16) =
      (if j = i then en \<noteq> 0 \<and> pp \<noteq> 0 else bit (peek d (REG_PPE_L2B_ETYPE_EN hw 0)) (j + 16))"
    unfolding S(2) by (rule enable_word_bits [OF assms(2) j])+
  ultimately show "l2b_view (peek d') hw ! j =
      (l2b_view (peek d) hw)[i := slot_of (en \<noteq> 0) (en \<noteq> 0 \<and> pp \<noteq> 0) (ucast v)] ! j"
    using j assms(2) by (simp add: l2b_view_nth nth_list_update l2b_slot_at_def)
qed simp

lemma set_auto_refines:
  assumes "l2b_layout hw" and "ppe_set_l2b_ether_type_auto io hw e pp ex d = (ret, ex', d')"
  shows "(ret, ex', l2b_view (peek d') hw) = l2b_spec_set e (pp \<noteq> 0) ex (l2b_view (peek d) hw)"
proof -
  note g = l2b_layout_glb [OF assms(1)]
  obtain x d1 where x: "ppe_find_l2b_ether_type_index io hw e pp d = (x, d1)" by fastforce
  obtain y d2 where y: "ppe_find_free_l2b_ether_type_index io hw pp d1 = (y, d2)" by fastforce
  obtain z d3 where z: "ppe_set_l2b_ether_type io hw (nat y) 1 pp (ucast e) d2 = (z, d3)" by fastforce
  note X = find_index_val [OF x g] and Y = free_index_val [OF y g]
  show ?thesis
  proof (cases "l2b_lookup (Active (pp \<noteq> 0) e) (l2b_view (peek d) hw)")
    case (Some i)
    then show ?thesis using assms(2) x X g
      by (auto simp: ppe_set_l2b_ether_type_auto_def l2b_spec_set_def)
  next
    case None
    show ?thesis
    proof (cases "l2b_lookup Free (l2b_view (peek d) hw)")
      case free: None
      then show ?thesis using assms(2) x y X Y g None
        by (auto simp: ppe_set_l2b_ether_type_auto_def l2b_spec_set_def)
    next
      case (Some i)
      then have i: "i < 16" by (auto simp: l2b_lookup_def dest: find_upt_SomeD)
      have yi: "y = int i" using Y X Some by simp
      note S = set_view [OF assms(1) i z [unfolded yi nat_int]]
      have "z = 0" using set_regs(1) [OF assms(1) i z [unfolded yi nat_int]] .
      moreover have "(ucast (ucast e :: u32) :: u16) = e"
        by (rule bit_word_eqI) (auto simp: bit_simps)
      ultimately show ?thesis using assms(2) x y z X Y g None Some S yi
        by (auto simp: ppe_set_l2b_ether_type_auto_def l2b_spec_set_def slot_of_def)
    qed
  qed
qed

lemma clear_auto_refines:
  assumes "l2b_layout hw" and "ppe_clear_l2b_ether_type_auto io hw e pp d = (ret, d')"
  shows "ret = 0 \<and> l2b_view (peek d') hw = l2b_spec_clear e (pp \<noteq> 0) (l2b_view (peek d) hw)"
proof -
  note g = l2b_layout_glb [OF assms(1)]
  obtain x d1 where x: "ppe_find_l2b_ether_type_index io hw e pp d = (x, d1)" by fastforce
  obtain z d3 where z: "ppe_set_l2b_ether_type io hw (nat x) 0 pp 0 d1 = (z, d3)" by fastforce
  note X = find_index_val [OF x g]
  show ?thesis
  proof (cases "l2b_lookup (Active (pp \<noteq> 0) e) (l2b_view (peek d) hw)")
    case None
    then show ?thesis using assms(2) x X g
      by (auto simp: ppe_clear_l2b_ether_type_auto_def l2b_spec_clear_def)
  next
    case (Some i)
    then have i: "i < 16" by (auto simp: l2b_lookup_def dest: find_upt_SomeD)
    have xi: "x = int i" using X Some by simp
    note S = set_view [OF assms(1) i z [unfolded xi nat_int]]
    have "z = 0" using set_regs(1) [OF assms(1) i z [unfolded xi nat_int]] .
    then show ?thesis using assms(2) x z X g Some S xi
      by (auto simp: ppe_clear_l2b_ether_type_auto_def l2b_spec_clear_def slot_of_def)
  qed
qed

end

section \<open>The table as an interface\<close>

text \<open>What a client may assume of the two operations: they implement the abstract table.\<close>

locale etype_table =
  fixes view :: "'d \<Rightarrow> l2b_slot list"
    and set_auto :: "u16 \<Rightarrow> u32 \<Rightarrow> bool \<Rightarrow> 'd \<Rightarrow> int \<times> bool \<times> 'd"
    and clear_auto :: "u16 \<Rightarrow> u32 \<Rightarrow> 'd \<Rightarrow> int \<times> 'd"
  assumes view_length: "length (view d) = 16"
    and set_auto_spec: "set_auto e pp ex d = (ret, ex', d') \<Longrightarrow>
          (ret, ex', view d') = l2b_spec_set e (pp \<noteq> 0) ex (view d)"
    and clear_auto_spec: "clear_auto e pp d = (r, d') \<Longrightarrow>
          r = 0 \<and> view d' = l2b_spec_clear e (pp \<noteq> 0) (view d)"

lemma etype_table_regs:
  assumes "plain_regs io peek" and "l2b_layout hw"
  shows "etype_table (\<lambda>d. l2b_view (peek d) hw) (ppe_set_l2b_ether_type_auto io hw)
           (ppe_clear_l2b_ether_type_auto io hw)"
  by (unfold_locales; simp add: plain_regs.set_auto_refines [OF assms]
      plain_regs.clear_auto_refines [OF assms])

text \<open>A register file in memory and two disjoint engine windows.\<close>

definition hw_example :: ppe_hw where
  "hw_example = \<lparr>glb_eth = True, airoha_is_7581 = True, PPE1_BASE = 0xc00, PPE2_BASE = 0x1c00\<rparr>"

lemma hw_example_layout: "l2b_layout hw_example"
  by (simp add: l2b_layout_def hw_example_def)

interpretation l2b: etype_table "\<lambda>d. l2b_view d hw_example"
    "ppe_set_l2b_ether_type_auto mem_bus hw_example" "ppe_clear_l2b_ether_type_auto mem_bus hw_example"
  by (rule etype_table_regs [OF plain_regs_mem_bus hw_example_layout])

section \<open>Facts of the abstract table\<close>

lemma l2b_lookup_SomeD: "l2b_lookup x t = Some i \<Longrightarrow> i < 16 \<and> t ! i = x \<and> (\<forall>j<i. t ! j \<noteq> x)"
  by (auto simp: l2b_lookup_def find_upt_Some)

lemma l2b_lookup_None: "l2b_lookup x t = None \<longleftrightarrow> (\<forall>i<16. t ! i \<noteq> x)"
  by (simp add: l2b_lookup_def find_upt_None)

lemma l2b_spec_set_absent:
  assumes "length t = 16" and "l2b_lookup (Active p e) t = None" and "l2b_lookup Free t = Some i"
  shows "l2b_lookup (Active p e) (t[i := Active p e]) = Some i"
  unfolding l2b_lookup_def find_upt_Some
  using assms l2b_lookup_SomeD [OF assms(3)] by (auto simp: l2b_lookup_None)

text \<open>Clearing an entry that this call added gives the old table back.\<close>

lemma l2b_spec_set_clear:
  assumes "length t = 16" and "l2b_spec_set e p ex t = (ret, False, t')" and "0 \<le> ret"
  shows "l2b_spec_clear e p t' = t"
proof -
  obtain i where i: "l2b_lookup (Active p e) t = None" "l2b_lookup Free t = Some i"
    "t' = t[i := Active p e]"
    using assms by (auto simp: l2b_spec_set_def split: option.splits)
  have "t[i := Free] = t" using l2b_lookup_SomeD [OF i(2)] by (metis list_update_id)
  then show ?thesis using l2b_spec_set_absent [OF assms(1) i(1,2)] i(3) by (simp add: l2b_spec_clear_def)
qed

text \<open>Two different entries do not interfere: clearing the one commutes with having added the other.\<close>

lemma l2b_spec_clear_other:
  assumes "length t = 16" and "t ! i = Free" and "i < 16" and "(p, e) \<noteq> (q, f)"
  shows "l2b_spec_clear e p (t[i := Active q f]) = (l2b_spec_clear e p t)[i := Active q f]"
proof -
  have same: "l2b_lookup (Active p e) (t[i := Active q f]) = l2b_lookup (Active p e) t"
    unfolding l2b_lookup_def using assms by (intro find_cong) (auto simp: nth_list_update)
  have ne: "j \<noteq> i" if "l2b_lookup (Active p e) t = Some j" for j
    using l2b_lookup_SomeD [OF that] assms(2) by auto
  show ?thesis unfolding l2b_spec_clear_def same
    by (cases "l2b_lookup (Active p e) t") (auto dest!: ne simp: list_update_swap)
qed

text \<open>Two clears of different entries commute.\<close>

lemma l2b_spec_clear_commute:
  assumes "length t = 16" and "(p, e) \<noteq> (q, f)"
  shows "l2b_spec_clear e p (l2b_spec_clear f q t) = l2b_spec_clear f q (l2b_spec_clear e p t)"
proof -
  have keep: "l2b_lookup (Active q' f') (l2b_spec_clear e' p' t) = l2b_lookup (Active q' f') t"
    if ne: "(p', e') \<noteq> (q', f')" for p' e' q' f'
  proof (cases "l2b_lookup (Active p' e') t")
    case None
    then show ?thesis by (simp add: l2b_spec_clear_def)
  next
    case (Some i)
    have "l2b_lookup (Active q' f') (t[i := Free]) = l2b_lookup (Active q' f') t"
      unfolding l2b_lookup_def using assms(1) l2b_lookup_SomeD [OF Some] ne
      by (intro find_cong) (auto simp: nth_list_update)
    then show ?thesis by (simp add: l2b_spec_clear_def Some)
  qed
  have k: "l2b_lookup (Active p e) (l2b_spec_clear f q t) = l2b_lookup (Active p e) t"
    "l2b_lookup (Active q f) (l2b_spec_clear e p t) = l2b_lookup (Active q f) t"
    using keep [of q f p e] keep [of p e q f] assms(2) by auto
  have e: "l2b_spec_clear e p (l2b_spec_clear f q t) =
      (case l2b_lookup (Active p e) t of Some i \<Rightarrow> (l2b_spec_clear f q t)[i := Free] | None \<Rightarrow> l2b_spec_clear f q t)"
    by (simp only: l2b_spec_clear_def [of e p "l2b_spec_clear f q t"] k)
  have f: "l2b_spec_clear f q (l2b_spec_clear e p t) =
      (case l2b_lookup (Active q f) t of Some i \<Rightarrow> (l2b_spec_clear e p t)[i := Free] | None \<Rightarrow> l2b_spec_clear e p t)"
    by (simp only: l2b_spec_clear_def [of f q "l2b_spec_clear e p t"] k)
  show ?thesis unfolding e f
    by (cases "l2b_lookup (Active p e) t"; cases "l2b_lookup (Active q f) t";
        cases "the (l2b_lookup (Active p e) t) = the (l2b_lookup (Active q f) t)")
      (simp_all add: l2b_spec_clear_def list_update_swap)
qed

lemma l2b_spec_clear_length [simp]: "length (l2b_spec_clear e p t) = length t"
  by (simp add: l2b_spec_clear_def split: option.splits)

section \<open>Properties\<close>

text \<open>C40: on ordinary registers, with the two engines' windows apart, \<^verbatim>\<open>ppe_set_l2b_ether_type_auto\<close>
  implements the abstract table: it reports an active entry it finds, otherwise it activates the
  lowest free slot, otherwise it returns \<^verbatim>\<open>-ENOSPC\<close> and changes nothing.\<close>

theorem l2b_set_auto_refines:
  assumes "plain_regs io peek" and "l2b_layout hw"
    and "ppe_set_l2b_ether_type_auto io hw e pp ex d = (ret, ex', d')"
  shows "(ret, ex', l2b_view (peek d') hw) = l2b_spec_set e (pp \<noteq> 0) ex (l2b_view (peek d) hw)"
  by (rule plain_regs.set_auto_refines [OF assms])

theorem l2b_set_auto_refines_witness:
  "let (ret, ex, d) = ppe_set_l2b_ether_type_auto mem_bus hw_example 0x86dd 0 True (\<lambda>_. 0) in
     (ret, ex, l2b_view d hw_example) = (0, False, (replicate 16 Free)[0 := Active False 0x86dd])"
proof -
  obtain ret ex d where r: "ppe_set_l2b_ether_type_auto mem_bus hw_example 0x86dd 0 True (\<lambda>_. 0) = (ret, ex, d)"
    by (metis prod_cases3)
  have "l2b_spec_set 0x86dd False True (l2b_view (\<lambda>_. 0) hw_example) =
      (0, False, (replicate 16 Free)[0 := Active False 0x86dd])" by code_simp
  then show ?thesis
    using l2b_set_auto_refines [OF plain_regs_mem_bus hw_example_layout r] r by simp
qed

text \<open>No active entry and no hardware default is ever overwritten: the call changes at most
  the slot whose index it returns, and only if that slot was free.\<close>

theorem l2b_set_auto_only_free:
  assumes "plain_regs io peek" and "l2b_layout hw"
    and "ppe_set_l2b_ether_type_auto io hw e pp ex d = (ret, ex', d')"
    and "i < 16" and "l2b_view (peek d') hw ! i \<noteq> l2b_view (peek d) hw ! i"
  shows "l2b_view (peek d) hw ! i = Free \<and> ret = int i \<and>
         l2b_view (peek d') hw ! i = Active (pp \<noteq> 0) e"
  using plain_regs.set_auto_refines [OF assms(1-3)] assms(4,5)
  by (auto simp: l2b_spec_set_def nth_list_update dest: l2b_lookup_SomeD split: option.splits if_splits)

theorem l2b_set_auto_only_free_witness:
  "let r = (\<lambda>a. if a = 0xed0 then 0x8100 else 0);
       d = snd (snd (ppe_set_l2b_ether_type_auto mem_bus hw_example 0x0800 0 False r)) in
     l2b_view r hw_example ! 0 = Idle 0x8100 \<and> l2b_view r hw_example ! 1 = Free \<and>
     l2b_view d hw_example ! 1 = Active False 0x0800"
proof -
  let ?r = "\<lambda>a :: u32. if a = 0xed0 then 0x8100 else (0 :: u32)"
  obtain ret ex d where r: "ppe_set_l2b_ether_type_auto mem_bus hw_example 0x0800 0 False ?r = (ret, ex, d)"
    by (metis prod_cases3)
  have "l2b_view (snd (snd (ppe_set_l2b_ether_type_auto mem_bus hw_example 0x0800 0 False ?r))) hw_example ! 1
      \<noteq> l2b_view ?r hw_example ! 1" by code_simp
  then have "l2b_view d hw_example ! 1 \<noteq> l2b_view ?r hw_example ! 1" using r by simp
  with l2b_set_auto_only_free [OF plain_regs_mem_bus hw_example_layout r, of 1]
  have "l2b_view ?r hw_example ! 1 = Free \<and> l2b_view d hw_example ! 1 = Active False 0x0800" by simp
  moreover have "l2b_view ?r hw_example ! 0 = Idle 0x8100" by code_simp
  ultimately show ?thesis using r by simp
qed

text \<open>Clearing: \<^verbatim>\<open>ppe_clear_l2b_ether_type_auto\<close> always succeeds and frees exactly the first matching
  active entry, if there is one; clearing an entry that a set call has just added restores
  the whole table.\<close>

theorem l2b_set_clear_roundtrip:
  assumes "plain_regs io peek" and "l2b_layout hw"
    and "ppe_clear_l2b_ether_type_auto io hw e pp d1 = (r2, d2)"
  shows "r2 = 0 \<and> l2b_view (peek d2) hw = l2b_spec_clear e (pp \<noteq> 0) (l2b_view (peek d1) hw) \<and>
         (\<forall>d ret ex. ppe_set_l2b_ether_type_auto io hw e pp ex d = (ret, False, d1) \<and> 0 \<le> ret \<longrightarrow>
            l2b_view (peek d2) hw = l2b_view (peek d) hw)"
  using plain_regs.clear_auto_refines [OF assms] plain_regs.set_auto_refines [OF assms(1,2)]
    l2b_spec_set_clear by (metis l2b_view_length)

theorem l2b_set_clear_roundtrip_witness:
  "l2b_view (snd (ppe_clear_l2b_ether_type_auto mem_bus hw_example 0x21 1
     (snd (snd (ppe_set_l2b_ether_type_auto mem_bus hw_example 0x21 1 True (\<lambda>_. 0)))))) hw_example
   = l2b_view (\<lambda>_. 0) hw_example"
proof -
  let ?s = "ppe_set_l2b_ether_type_auto mem_bus hw_example 0x21 1 True (\<lambda>_. 0)"
  have "fst ?s = 0 \<and> fst (snd ?s) = False" by code_simp
  then have s: "?s = (0, False, snd (snd ?s))" by (simp add: prod_eq_iff)
  obtain r d where c: "ppe_clear_l2b_ether_type_auto mem_bus hw_example 0x21 1 (snd (snd ?s)) = (r, d)"
    by fastforce
  from l2b_set_clear_roundtrip [OF plain_regs_mem_bus hw_example_layout c] s show ?thesis
    unfolding c by (metis order_refl snd_conv)
qed

text \<open>On EN7581 the second engine's table stays a copy of the first one's through every direct
  write.\<close>

theorem l2b_set_mirrors:
  assumes "plain_regs io peek" and "l2b_layout hw" and "airoha_is_7581 hw"
    and "l2b_mirrored (peek d) hw"
  shows "l2b_mirrored (peek (snd (ppe_set_l2b_ether_type io hw i en pp v d))) hw"
proof (cases "i < 16")
  case True
  then show ?thesis
    using plain_regs.set_regs(4) [OF assms(1,2) True prod.collapse [symmetric] assms(3,4)] by simp
next
  case False
  then show ?thesis using assms(4) by (simp add: ppe_set_l2b_ether_type_def)
qed

theorem l2b_set_mirrors_witness:
  "l2b_mirrored (snd (ppe_set_l2b_ether_type mem_bus hw_example 3 1 1 0x57 (\<lambda>_. 7))) hw_example"
  by (rule l2b_set_mirrors [OF plain_regs_mem_bus hw_example_layout])
    (simp_all add: hw_example_def l2b_mirrored_def)

end
