(* ===== verification/Loopback.thy ===== *)
theory Loopback
  imports L2bEtype
begin

text \<open>
  The hardware loopback control, \<^verbatim>\<open>airoha/arht_loopback.c\<close>: the packet helpers, the words of a
  loopback flow entry, and the MAC-swap switch, which adds four ether types to the L2-bridge
  table with roll-back and removes the ones it added. The table's two operations are arguments,
  with the contract \<open>etype_table\<close>; the flow entry's field masks are a parameter record.
\<close>

section \<open>Packet bytes\<close>

text \<open>Packet memory is a byte list; a read outside it is \<open>None\<close>.\<close>

definition be16 :: "u8 list \<Rightarrow> nat \<Rightarrow> u16 option" where
  "be16 data off =
     (if off + 1 < length data
      then Some (push_bit 8 (ucast (data ! off)) OR ucast (data ! (off + 1))) else None)"

abbreviation ETH_ALEN :: nat where "ETH_ALEN \<equiv> 6"
abbreviation ETH_HLEN :: nat where "ETH_HLEN \<equiv> 14"
abbreviation VLAN_HLEN :: nat where "VLAN_HLEN \<equiv> 4"
abbreviation ETH_P_PPP_SES :: u16 where "ETH_P_PPP_SES \<equiv> 0x8864"

definition skb_swap_mac_addr :: "u8 list \<Rightarrow> u8 list" where
  "skb_swap_mac_addr data =
     (let tmp_mac = take ETH_ALEN data;
          data = take ETH_ALEN (drop ETH_ALEN data) @ drop ETH_ALEN data
      in take ETH_ALEN data @ tmp_mac @ drop (2 * ETH_ALEN) data)"

definition airoha_loopback_get_pppoe_sid :: "u8 list \<Rightarrow> u16 \<Rightarrow> u16 option" where
  "airoha_loopback_get_pppoe_sid data vlan_num =
     do { etype \<leftarrow> be16 data (ETH_ALEN * 2 + unat vlan_num * VLAN_HLEN);
          if etype = ETH_P_PPP_SES
          then be16 data (ETH_HLEN + unat vlan_num * VLAN_HLEN + 2)
          else Some 0 }"

section \<open>The words of a loopback flow entry\<close>

record foe_masks =
  IB1_BIND_VLAN_LAYER :: u32
  IB1_BIND_VPM :: u32
  IB1_BIND_PPPOE :: u32
  IB1_BIND_TIMESTAMP :: u32
  IB1_BIND_STATE :: u32
  FOE_STATE_BIND :: u32
  ACTDP :: u32
  CHANNEL :: u32
  QID :: u32
  SHAPER_ID :: u32
  IB2_NBQ :: u32
  IB2_PSE_PORT :: u32
  IB2_PSE_QOS :: u32
  IB2_FAST_PATH :: u32
  REASON_HIT_UNBIND_RATE_REACHED :: u32

record port_info =
  pi_udf :: u32
  pi_channel :: u32
  pi_txq :: u32
  pi_nbq :: u32
  pi_fast :: bool

record qdma_init =
  lan_fastpath :: bool
  wan_fastpath :: bool
  xsi_ether_fastpath :: bool

abbreviation LOOPBACK_METER0_IDX :: u32 where "LOOPBACK_METER0_IDX \<equiv> 0x7f"

definition airoha_ppe_loopback_get_timestamp :: "'d bus \<Rightarrow> foe_masks \<Rightarrow> u32 \<Rightarrow> 'd \<Rightarrow> u32 \<times> 'd" where
  "airoha_ppe_loopback_get_timestamp io m reg_foe_ts d =
     (let (v, d) = bus_rr io reg_foe_ts d; timestamp = (ucast v :: u16)
      in (FIELD_GET (IB1_BIND_TIMESTAMP m) (ucast timestamp), d))"

definition airoha_loopback_is_bound_or_not_ready :: "foe_masks \<Rightarrow> u32 \<Rightarrow> u32 \<Rightarrow> bool" where
  "airoha_loopback_is_bound_or_not_ready m ib1 crsn =
     (FIELD_GET (IB1_BIND_STATE m) ib1 = FOE_STATE_BIND m \<or> crsn \<noteq> REASON_HIT_UNBIND_RATE_REACHED m)"

definition airoha_loopback_prepare_ib1 ::
  "foe_masks \<Rightarrow> u32 \<Rightarrow> u16 \<Rightarrow> u16 \<Rightarrow> u16 \<Rightarrow> u32 \<Rightarrow> u32" where
  "airoha_loopback_prepare_ib1 m ib1 vn vpm pppoe ts =
     (let ib1 = ib1 AND NOT (IB1_BIND_VLAN_LAYER m OR IB1_BIND_VPM m OR IB1_BIND_PPPOE m OR
                             IB1_BIND_TIMESTAMP m OR IB1_BIND_STATE m)
      in ib1 OR FIELD_PREP (IB1_BIND_VLAN_LAYER m) (ucast vn) OR
         FIELD_PREP (IB1_BIND_VPM m) (ucast vpm) OR
         FIELD_PREP (IB1_BIND_PPPOE m) (if pppoe \<noteq> 0 then 1 else 0) OR
         FIELD_PREP (IB1_BIND_TIMESTAMP m) ts OR
         FIELD_PREP (IB1_BIND_STATE m) (FOE_STATE_BIND m))"

text \<open>\<open>nqueues\<close> is \<^verbatim>\<open>AIROHA_NUM_QOS_QUEUES\<close>.\<close>

definition airoha_loopback_prepare_data :: "foe_masks \<Rightarrow> u32 \<Rightarrow> port_info \<Rightarrow> u32" where
  "airoha_loopback_prepare_data m nqueues pinfo =
     FIELD_PREP (ACTDP m) (pi_udf pinfo) OR FIELD_PREP (CHANNEL m) (pi_channel pinfo) OR
     FIELD_PREP (QID m) (nqueues - 1 - pi_txq pinfo mod nqueues) OR
     FIELD_PREP (SHAPER_ID m) LOOPBACK_METER0_IDX"

datatype pse_port = GDM1 | GDM2 | GDM3 | GDM4 | Other_port

text \<open>\<open>fport_of\<close> names the forwarding port.\<close>

definition airoha_loopback_prepare_ib2 ::
  "foe_masks \<Rightarrow> qdma_init \<Rightarrow> (u8 \<Rightarrow> pse_port) \<Rightarrow> port_info \<Rightarrow> u8 \<Rightarrow> u32" where
  "airoha_loopback_prepare_ib2 m q fport_of pinfo fport =
     (let ib2 = FIELD_PREP (IB2_NBQ m) (pi_nbq pinfo) OR FIELD_PREP (IB2_PSE_PORT m) (ucast fport) OR
                IB2_PSE_QOS m;
          fast = (if pi_fast pinfo then True
                  else case fport_of fport of
                         GDM1 \<Rightarrow> lan_fastpath q
                       | GDM2 \<Rightarrow> wan_fastpath q
                       | GDM3 \<Rightarrow> xsi_ether_fastpath q
                       | GDM4 \<Rightarrow> xsi_ether_fastpath q
                       | Other_port \<Rightarrow> False)
      in if fast then ib2 OR IB2_FAST_PATH m else ib2)"

section \<open>The MAC-swap switch\<close>

record loopback =
  hwnat_loopback_enable :: bool
  hwnat_loopback_mac_swap :: bool
  l2b_ipv4_etype_index :: int
  l2b_ipv6_etype_index :: int
  l2b_pppoe_ipv4_etype_index :: int
  l2b_pppoe_ipv6_etype_index :: int

abbreviation L2B_ETYPE_INVALID_INDEX :: int where "L2B_ETYPE_INVALID_INDEX \<equiv> - 1"

type_synonym 'd set_auto = "u16 \<Rightarrow> u32 \<Rightarrow> bool \<Rightarrow> 'd \<Rightarrow> int \<times> bool \<times> 'd"
type_synonym 'd clear_auto = "u16 \<Rightarrow> u32 \<Rightarrow> 'd \<Rightarrow> int \<times> 'd"

text \<open>The three error labels; the flags say which entries existed before.\<close>

definition swap_err_ipv6 :: "'d clear_auto \<Rightarrow> bool \<Rightarrow> loopback \<times> 'd \<Rightarrow> loopback \<times> 'd" where
  "swap_err_ipv6 clear_auto ipv4_existed = (\<lambda>(s, d).
     if \<not> ipv4_existed
     then (s\<lparr>l2b_ipv4_etype_index := L2B_ETYPE_INVALID_INDEX\<rparr>, snd (clear_auto 0x0800 0 d))
     else (s, d))"

definition swap_err_pppoe_ipv4 ::
  "'d clear_auto \<Rightarrow> bool \<Rightarrow> bool \<Rightarrow> loopback \<times> 'd \<Rightarrow> loopback \<times> 'd" where
  "swap_err_pppoe_ipv4 clear_auto ipv4_existed ipv6_existed = (\<lambda>(s, d).
     swap_err_ipv6 clear_auto ipv4_existed
       (if \<not> ipv6_existed
        then (s\<lparr>l2b_ipv6_etype_index := L2B_ETYPE_INVALID_INDEX\<rparr>, snd (clear_auto 0x86dd 0 d))
        else (s, d)))"

definition swap_err_pppoe_ipv6 ::
  "'d clear_auto \<Rightarrow> bool \<Rightarrow> bool \<Rightarrow> bool \<Rightarrow> loopback \<times> 'd \<Rightarrow> loopback \<times> 'd" where
  "swap_err_pppoe_ipv6 clear_auto ipv4_existed ipv6_existed pppoe_ipv4_existed = (\<lambda>(s, d).
     swap_err_pppoe_ipv4 clear_auto ipv4_existed ipv6_existed
       (if \<not> pppoe_ipv4_existed
        then (s\<lparr>l2b_pppoe_ipv4_etype_index := L2B_ETYPE_INVALID_INDEX\<rparr>, snd (clear_auto 0x0021 1 d))
        else (s, d)))"

definition hwnat_loopback_mac_swap_enable ::
  "'d set_auto \<Rightarrow> 'd clear_auto \<Rightarrow> loopback \<times> 'd \<Rightarrow> int \<times> loopback \<times> 'd" where
  "hwnat_loopback_mac_swap_enable set_auto clear_auto = (\<lambda>(s, d).
     let (ret, ipv4_existed, d) = set_auto 0x0800 0 False d in
     if ret < 0 then (ret, s, d) else
     let s = (if \<not> ipv4_existed then s\<lparr>l2b_ipv4_etype_index := ret\<rparr> else s);
         (ret, ipv6_existed, d) = set_auto 0x86dd 0 False d in
     if ret < 0 then (ret, swap_err_ipv6 clear_auto ipv4_existed (s, d)) else
     let s = (if \<not> ipv6_existed then s\<lparr>l2b_ipv6_etype_index := ret\<rparr> else s);
         (ret, pppoe_ipv4_existed, d) = set_auto 0x0021 1 False d in
     if ret < 0 then (ret, swap_err_pppoe_ipv4 clear_auto ipv4_existed ipv6_existed (s, d)) else
     let s = (if \<not> pppoe_ipv4_existed then s\<lparr>l2b_pppoe_ipv4_etype_index := ret\<rparr> else s);
         (ret, pppoe_ipv6_existed, d) = set_auto 0x0057 1 False d in
     if ret < 0
     then (ret, swap_err_pppoe_ipv6 clear_auto ipv4_existed ipv6_existed pppoe_ipv4_existed (s, d)) else
     let s = (if \<not> pppoe_ipv6_existed then s\<lparr>l2b_pppoe_ipv6_etype_index := ret\<rparr> else s)
     in (0, s\<lparr>hwnat_loopback_mac_swap := True\<rparr>, d))"

definition hwnat_loopback_mac_swap_disable ::
  "'d clear_auto \<Rightarrow> loopback \<times> 'd \<Rightarrow> loopback \<times> 'd" where
  "hwnat_loopback_mac_swap_disable clear_auto = (\<lambda>(s, d).
     let (s, d) = (if l2b_ipv4_etype_index s \<noteq> L2B_ETYPE_INVALID_INDEX
           then (s\<lparr>l2b_ipv4_etype_index := L2B_ETYPE_INVALID_INDEX\<rparr>, snd (clear_auto 0x0800 0 d))
           else (s, d));
         (s, d) = (if l2b_ipv6_etype_index s \<noteq> L2B_ETYPE_INVALID_INDEX
           then (s\<lparr>l2b_ipv6_etype_index := L2B_ETYPE_INVALID_INDEX\<rparr>, snd (clear_auto 0x86dd 0 d))
           else (s, d));
         (s, d) = (if l2b_pppoe_ipv4_etype_index s \<noteq> L2B_ETYPE_INVALID_INDEX
           then (s\<lparr>l2b_pppoe_ipv4_etype_index := L2B_ETYPE_INVALID_INDEX\<rparr>, snd (clear_auto 0x0021 1 d))
           else (s, d));
         (s, d) = (if l2b_pppoe_ipv6_etype_index s \<noteq> L2B_ETYPE_INVALID_INDEX
           then (s\<lparr>l2b_pppoe_ipv6_etype_index := L2B_ETYPE_INVALID_INDEX\<rparr>, snd (clear_auto 0x0057 1 d))
           else (s, d))
     in (s\<lparr>hwnat_loopback_mac_swap := False\<rparr>, d))"

section \<open>The proc interface\<close>

text \<open>\<^verbatim>\<open>strsep\<close> on blanks: the token before the first one and the rest, or no rest at all.\<close>

definition strsep :: "string \<Rightarrow> string \<times> string option" where
  "strsep str =
     (let isdel = (\<lambda>c. c = CHR '' '' \<or> c = CHR 0x09);
          tok = takeWhile (\<lambda>c. \<not> isdel c) str
      in (tok, case dropWhile (\<lambda>c. \<not> isdel c) str of [] \<Rightarrow> None | _ # r \<Rightarrow> Some r))"

text \<open>\<open>to_int\<close> is \<^verbatim>\<open>kstrtoint(strim(s), 10, ...)\<close>, \<open>copy_ok\<close> the outcome of the copy from user
  memory, \<open>buf\<close> the bytes copied.\<close>

definition airoha_hwnat_loopback_write ::
  "'d set_auto \<Rightarrow> 'd clear_auto \<Rightarrow> (string \<Rightarrow> int option) \<Rightarrow> bool \<Rightarrow> string \<Rightarrow> loopback \<times> 'd
     \<Rightarrow> int \<times> loopback \<times> 'd" where
  "airoha_hwnat_loopback_write set_auto clear_auto to_int copy_ok buf = (\<lambda>(s, d).
     if 64 \<le> length buf then (- EINVAL, s, d)
     else if \<not> copy_ok then (- EFAULT, s, d)
     else
       let (cmd, rest) = strsep (takeWhile (\<lambda>c. c \<noteq> CHR 0x00) buf) in
       (case rest of
          None \<Rightarrow> (- EINVAL, s, d)
        | Some arg \<Rightarrow>
            if 32 \<le> length cmd then (- EINVAL, s, d)
            else (case to_int arg of
                None \<Rightarrow> (- EINVAL, s, d)
              | Some val \<Rightarrow>
                  if cmd = ''enable''
                  then (int (length buf), s\<lparr>hwnat_loopback_enable := (val \<noteq> 0)\<rparr>, d)
                  else if cmd = ''mac_swap'' then
                    (if val \<noteq> 0 \<and> \<not> hwnat_loopback_mac_swap s then
                       (let (ret, s, d) = hwnat_loopback_mac_swap_enable set_auto clear_auto (s, d)
                        in if ret \<noteq> 0 then (ret, s, d) else (int (length buf), s, d))
                     else if val = 0 \<and> hwnat_loopback_mac_swap s then
                       (int (length buf), hwnat_loopback_mac_swap_disable clear_auto (s, d))
                     else (int (length buf), s, d))
                  else (- EINVAL, s, d))))"

section \<open>The switch against the table's contract\<close>

text \<open>The entries of one enable are remembered exactly by the four indices.\<close>

definition clear_if :: "bool \<Rightarrow> u16 \<Rightarrow> bool \<Rightarrow> l2b_slot list \<Rightarrow> l2b_slot list" where
  "clear_if b e p t = (if b then l2b_spec_clear e p t else t)"

lemma clear_if_commute:
  "length t = 16 \<Longrightarrow> (p, e) \<noteq> (q, f) \<Longrightarrow>
     clear_if b e p (clear_if c f q t) = clear_if c f q (clear_if b e p t)"
  unfolding clear_if_def using l2b_spec_clear_commute [of t p e q f] by simp

lemma clear_if_length [simp]: "length (clear_if b e p t) = length t"
  by (simp add: clear_if_def)

definition swap_clear :: "loopback \<Rightarrow> l2b_slot list \<Rightarrow> l2b_slot list" where
  "swap_clear s t =
     clear_if (l2b_pppoe_ipv6_etype_index s \<noteq> - 1) 0x0057 True
       (clear_if (l2b_pppoe_ipv4_etype_index s \<noteq> - 1) 0x0021 True
         (clear_if (l2b_ipv6_etype_index s \<noteq> - 1) 0x86dd False
           (clear_if (l2b_ipv4_etype_index s \<noteq> - 1) 0x0800 False t)))"

lemma swap_clear_reverse:
  assumes "length t = 16"
  shows "swap_clear s t =
     clear_if (l2b_ipv4_etype_index s \<noteq> - 1) 0x0800 False
       (clear_if (l2b_ipv6_etype_index s \<noteq> - 1) 0x86dd False
         (clear_if (l2b_pppoe_ipv4_etype_index s \<noteq> - 1) 0x0021 True
           (clear_if (l2b_pppoe_ipv6_etype_index s \<noteq> - 1) 0x0057 True t)))"
  unfolding swap_clear_def using assms
  by (simp add: clear_if_commute [of _ True "0x57" False "0x800"]
    clear_if_commute [of _ True "0x57" False "0x86dd"] clear_if_commute [of _ True "0x57" True "0x21"]
    clear_if_commute [of _ True "0x21" False "0x800"] clear_if_commute [of _ True "0x21" False "0x86dd"]
    clear_if_commute [of _ False "0x86dd" False "0x800"])

definition swap_idle :: "loopback \<Rightarrow> bool" where
  "swap_idle s \<longleftrightarrow> \<not> hwnat_loopback_mac_swap s \<and> l2b_ipv4_etype_index s = - 1 \<and>
     l2b_ipv6_etype_index s = - 1 \<and> l2b_pppoe_ipv4_etype_index s = - 1 \<and>
     l2b_pppoe_ipv6_etype_index s = - 1"

context etype_table
begin

lemma set_auto_undo:
  assumes "set_auto e pp False d = (ret, ex, d')"
  shows "ret < 0 \<Longrightarrow> view d' = view d \<and> \<not> ex"
    and "0 \<le> ret \<Longrightarrow> clear_if (\<not> ex) e (pp \<noteq> 0) (view d') = view d"
proof -
  note S = set_auto_spec [OF assms]
  show "ret < 0 \<Longrightarrow> view d' = view d \<and> \<not> ex"
    using S by (auto simp: l2b_spec_set_def split: option.splits)
  show "clear_if (\<not> ex) e (pp \<noteq> 0) (view d') = view d" if "0 \<le> ret"
  proof (cases ex)
    case True
    then show ?thesis using S that by (auto simp: clear_if_def l2b_spec_set_def split: option.splits)
  next
    case False
    then have "l2b_spec_set e (pp \<noteq> 0) False (view d) = (ret, False, view d')" using S by simp
    from l2b_spec_set_clear [OF view_length this that] show ?thesis
      by (simp add: clear_if_def False)
  qed
qed

lemma clear_auto_view: "view (snd (clear_auto e pp d)) = l2b_spec_clear e (pp \<noteq> 0) (view d)"
  using clear_auto_spec [of e pp d] by (cases "clear_auto e pp d") simp

lemma disable_view:
  assumes "hwnat_loopback_mac_swap_disable clear_auto (s, d) = (s', d')"
  shows "swap_idle s'" and "view d' = swap_clear s (view d)"
    and "hwnat_loopback_enable s' = hwnat_loopback_enable s"
  using assms
  by (auto simp: hwnat_loopback_mac_swap_disable_def swap_idle_def swap_clear_def clear_if_def
      clear_auto_view Let_def split: if_splits)

lemma if_swap: "(if \<not> b then x else y) = (if b then y else x)"
  by simp

lemma err_labels:
  "swap_err_ipv6 clear_auto x1 (s, d) = (s', d') \<Longrightarrow>
     s' = (if x1 then s else s\<lparr>l2b_ipv4_etype_index := - 1\<rparr>) \<and>
     view d' = clear_if (\<not> x1) 0x0800 False (view d)"
  "swap_err_pppoe_ipv4 clear_auto x1 x2 (s, d) = (s', d') \<Longrightarrow>
     s' = (let s = (if x2 then s else s\<lparr>l2b_ipv6_etype_index := - 1\<rparr>)
           in if x1 then s else s\<lparr>l2b_ipv4_etype_index := - 1\<rparr>) \<and>
     view d' = clear_if (\<not> x1) 0x0800 False (clear_if (\<not> x2) 0x86dd False (view d))"
  "swap_err_pppoe_ipv6 clear_auto x1 x2 x3 (s, d) = (s', d') \<Longrightarrow>
     s' = (let s = (if x3 then s else s\<lparr>l2b_pppoe_ipv4_etype_index := - 1\<rparr>);
               s = (if x2 then s else s\<lparr>l2b_ipv6_etype_index := - 1\<rparr>)
           in if x1 then s else s\<lparr>l2b_ipv4_etype_index := - 1\<rparr>) \<and>
     view d' = clear_if (\<not> x1) 0x0800 False (clear_if (\<not> x2) 0x86dd False
                 (clear_if (\<not> x3) 0x0021 True (view d)))"
  unfolding swap_err_pppoe_ipv6_def swap_err_pppoe_ipv4_def swap_err_ipv6_def
  by (cases x1; cases x2; cases x3; clarsimp simp: clear_if_def clear_auto_view)+

lemma enable_view:
  assumes idle: "swap_idle s" and e: "hwnat_loopback_mac_swap_enable set_auto clear_auto (s, d) = (ret, s', d')"
  shows "(ret < 0 \<and> s' = s \<and> view d' = view d) \<or>
         (ret = 0 \<and> hwnat_loopback_mac_swap s' \<and> hwnat_loopback_enable s' = hwnat_loopback_enable s \<and>
          swap_clear s' (view d') = view d)"
proof -
  obtain r1 x1 d1 where s1: "set_auto 0x0800 0 False d = (r1, x1, d1)" by (metis prod_cases3)
  obtain r2 x2 d2 where s2: "set_auto 0x86dd 0 False d1 = (r2, x2, d2)" by (metis prod_cases3)
  obtain r3 x3 d3 where s3: "set_auto 0x0021 1 False d2 = (r3, x3, d3)" by (metis prod_cases3)
  obtain r4 x4 d4 where s4: "set_auto 0x0057 1 False d3 = (r4, x4, d4)" by (metis prod_cases3)
  note U = set_auto_undo [OF s1] set_auto_undo [OF s2] set_auto_undo [OF s3] set_auto_undo [OF s4]
  have eq: "s\<lparr>l2b_ipv4_etype_index := - 1\<rparr> = s" "s\<lparr>l2b_ipv6_etype_index := - 1\<rparr> = s"
    "s\<lparr>l2b_pppoe_ipv4_etype_index := - 1\<rparr> = s"
    using idle by (simp_all add: swap_idle_def)
  note D = hwnat_loopback_mac_swap_enable_def
  consider "r1 < 0" | "0 \<le> r1" "r2 < 0" | "0 \<le> r1" "0 \<le> r2" "r3 < 0"
    | "0 \<le> r1" "0 \<le> r2" "0 \<le> r3" "r4 < 0" | "0 \<le> r1" "0 \<le> r2" "0 \<le> r3" "0 \<le> r4" by linarith
  then show ?thesis
  proof cases
    case 1
    then show ?thesis using e s1 U(1) by (simp add: D)
  next
    case 2
    then have r: "ret = r2" "swap_err_ipv6 clear_auto x1
        (if x1 then s else s\<lparr>l2b_ipv4_etype_index := r1\<rparr>, d2) = (s', d')"
      using e s1 s2 by (simp_all add: D if_swap Let_def split del: if_split)
    show ?thesis using 2 r(1) err_labels(1) [OF r(2)] U(2,3) eq by (simp split: if_splits)
  next
    case 3
    then have r: "ret = r3" "swap_err_pppoe_ipv4 clear_auto x1 x2
        (let s = (if x1 then s else s\<lparr>l2b_ipv4_etype_index := r1\<rparr>)
         in if x2 then s else s\<lparr>l2b_ipv6_etype_index := r2\<rparr>, d3) = (s', d')"
      using e s1 s2 s3 by (simp_all add: D if_swap Let_def split del: if_split)
    have "s' = s" using err_labels(2) [OF r(2)] eq idle
      by (cases x1; cases x2) (simp_all add: swap_idle_def)
    then show ?thesis using 3 r(1) err_labels(2) [OF r(2)] U(2,4,5) by simp
  next
    case 4
    then have r: "ret = r4" "swap_err_pppoe_ipv6 clear_auto x1 x2 x3
        (let s = (if x1 then s else s\<lparr>l2b_ipv4_etype_index := r1\<rparr>);
             s = (if x2 then s else s\<lparr>l2b_ipv6_etype_index := r2\<rparr>)
         in if x3 then s else s\<lparr>l2b_pppoe_ipv4_etype_index := r3\<rparr>, d4) = (s', d')"
      using e s1 s2 s3 s4 by (simp_all add: D if_swap Let_def split del: if_split)
    have "s' = s" using err_labels(3) [OF r(2)] eq idle
      by (cases x1; cases x2; cases x3) (simp_all add: swap_idle_def)
    then show ?thesis using 4 r(1) err_labels(3) [OF r(2)] U(2,4,6,7) by simp
  next
    case 5
    have idx: "ret = 0 \<and> d' = d4 \<and> hwnat_loopback_mac_swap s' \<and>
        hwnat_loopback_enable s' = hwnat_loopback_enable s \<and>
        (l2b_ipv4_etype_index s' \<noteq> - 1) = (\<not> x1) \<and> (l2b_ipv6_etype_index s' \<noteq> - 1) = (\<not> x2) \<and>
        (l2b_pppoe_ipv4_etype_index s' \<noteq> - 1) = (\<not> x3) \<and> (l2b_pppoe_ipv6_etype_index s' \<noteq> - 1) = (\<not> x4)"
      by (cases x1; cases x2; cases x3; cases x4;
          use 5 e s1 s2 s3 s4 idle in \<open>clarsimp simp: hwnat_loopback_mac_swap_enable_def swap_idle_def\<close>)
    then have "swap_clear s' (view d') =
        clear_if (\<not> x1) 0x0800 False (clear_if (\<not> x2) 0x86dd False
          (clear_if (\<not> x3) 0x0021 True (clear_if (\<not> x4) 0x0057 True (view d4))))"
      unfolding swap_clear_reverse [OF view_length] by simp
    also have "\<dots> = view d" using U(2,4,6,8) 5 by simp
    finally show ?thesis using idx by simp
  qed
qed

text \<open>Through the proc interface: while the switch is off the table is the original one, and
  while it is on, switching it off would give the original one back.\<close>

definition swap_inv :: "l2b_slot list \<Rightarrow> loopback \<times> 'd \<Rightarrow> bool" where
  "swap_inv t = (\<lambda>(s, d).
     if hwnat_loopback_mac_swap s then swap_clear s (view d) = t else swap_idle s \<and> view d = t)"

lemma write_inv:
  assumes "swap_inv t (s, d)"
    and w: "airoha_hwnat_loopback_write set_auto clear_auto to_int ok buf (s, d) = (ret, s', d')"
  shows "swap_inv t (s', d')"
proof -
  have enb: "swap_clear (s\<lparr>hwnat_loopback_enable := b\<rparr>) = swap_clear s"
    "swap_idle (s\<lparr>hwnat_loopback_enable := b\<rparr>) = swap_idle s" for b
    by (simp_all add: swap_clear_def swap_idle_def fun_eq_iff)
  have off: "swap_inv t (s', d')" if "hwnat_loopback_mac_swap s"
    "hwnat_loopback_mac_swap_disable clear_auto (s, d) = (s', d')"
    using disable_view [OF that(2)] that(1) assms(1) by (auto simp: swap_inv_def swap_idle_def)
  have on: "swap_inv t (s', d')" if "\<not> hwnat_loopback_mac_swap s"
    "hwnat_loopback_mac_swap_enable set_auto clear_auto (s, d) = (r, s', d')" for r
  proof -
    have idle: "swap_idle s" and v: "view d = t" using assms(1) that(1) by (auto simp: swap_inv_def)
    show ?thesis using enable_view [OF idle that(2)] idle v that(1) by (auto simp: swap_inv_def)
  qed
  show ?thesis
    using w assms(1)
    by (auto simp: airoha_hwnat_loopback_write_def Let_def split: if_splits option.splits prod.splits
        intro: on off) (auto simp: swap_inv_def enb)
qed

end

text \<open>A sequence of writes to the proc file: each with its copy outcome and its bytes.\<close>

fun loopback_writes ::
  "'d set_auto \<Rightarrow> 'd clear_auto \<Rightarrow> (string \<Rightarrow> int option) \<Rightarrow> (bool \<times> string) list \<Rightarrow> loopback \<times> 'd
     \<Rightarrow> loopback \<times> 'd" where
  "loopback_writes sa ca to_int [] sd = sd"
| "loopback_writes sa ca to_int ((ok, buf) # ws) sd =
     loopback_writes sa ca to_int ws (snd (airoha_hwnat_loopback_write sa ca to_int ok buf sd))"

context etype_table
begin

lemma writes_inv: "swap_inv t sd \<Longrightarrow> swap_inv t (loopback_writes set_auto clear_auto to_int ws sd)"
proof (induction ws arbitrary: sd)
  case Nil
  then show ?case by simp
next
  case (Cons w ws)
  obtain ok buf where w: "w = (ok, buf)" by fastforce
  have "swap_inv t (snd (airoha_hwnat_loopback_write set_auto clear_auto to_int ok buf sd))"
    using write_inv [of t "fst sd" "snd sd" to_int ok buf] Cons.prems
    by (cases "airoha_hwnat_loopback_write set_auto clear_auto to_int ok buf sd") auto
  then show ?case using Cons.IH w by simp
qed

end

section \<open>Properties\<close>

definition loopback_boot :: loopback where
  "loopback_boot = \<lparr>hwnat_loopback_enable = False, hwnat_loopback_mac_swap = False,
     l2b_ipv4_etype_index = - 1, l2b_ipv6_etype_index = - 1,
     l2b_pppoe_ipv4_etype_index = - 1, l2b_pppoe_ipv6_etype_index = - 1\<rparr>"

text \<open>Enabling MAC swap is all or nothing: on the real table operations, from the switched-off
  state, it either returns 0 with the switch on, or returns an error with the whole loopback
  state and the whole ether-type table as they were.\<close>

theorem mac_swap_enable_all_or_nothing:
  assumes "plain_regs io peek" and "l2b_layout hw" and "swap_idle s"
    and "hwnat_loopback_mac_swap_enable (ppe_set_l2b_ether_type_auto io hw)
           (ppe_clear_l2b_ether_type_auto io hw) (s, d) = (ret, s', d')"
  shows "(ret < 0 \<and> s' = s \<and> l2b_view (peek d') hw = l2b_view (peek d) hw) \<or>
         (ret = 0 \<and> hwnat_loopback_mac_swap s')"
  using etype_table.enable_view [OF etype_table_regs [OF assms(1,2)] assms(3,4)] by blast

text \<open>One free slot.\<close>

definition full_table :: "u32 \<Rightarrow> u32" where
  "full_table a = (if a = 0xe8c then 0xfffe else 0)"

theorem mac_swap_enable_all_or_nothing_witness:
  "let (ret, s', d') = hwnat_loopback_mac_swap_enable (ppe_set_l2b_ether_type_auto mem_bus hw_example)
         (ppe_clear_l2b_ether_type_auto mem_bus hw_example) (loopback_boot, full_table)
   in ret = - ENOSPC \<and> s' = loopback_boot \<and> l2b_view d' hw_example = l2b_view full_table hw_example"
proof -
  let ?e = "hwnat_loopback_mac_swap_enable (ppe_set_l2b_ether_type_auto mem_bus hw_example)
         (ppe_clear_l2b_ether_type_auto mem_bus hw_example) (loopback_boot, full_table)"
  obtain ret s' d' where e: "?e = (ret, s', d')" by (rule prod_cases3)
  have "fst ?e = - ENOSPC" by code_simp
  then have r: "ret = - ENOSPC" unfolding e by simp
  have "swap_idle loopback_boot" by (simp add: swap_idle_def loopback_boot_def)
  from mac_swap_enable_all_or_nothing [OF plain_regs_mem_bus hw_example_layout this e] r
  show ?thesis unfolding e by simp
qed

text \<open>Whatever is written to the proc file, in any order and with any failures in between,
  whenever MAC swap is off the ether-type table is the one from before the first write, and no
  index is remembered.\<close>

theorem loopback_writes_restore:
  assumes "plain_regs io peek" and "l2b_layout hw" and "swap_idle s"
    and "loopback_writes (ppe_set_l2b_ether_type_auto io hw) (ppe_clear_l2b_ether_type_auto io hw)
           to_int ws (s, d) = (s', d')"
    and "\<not> hwnat_loopback_mac_swap s'"
  shows "l2b_view (peek d') hw = l2b_view (peek d) hw \<and> swap_idle s'"
proof -
  note T = etype_table_regs [OF assms(1,2)]
  have "etype_table.swap_inv (\<lambda>d. l2b_view (peek d) hw) (l2b_view (peek d) hw) (s, d)"
    using assms(3) by (simp add: etype_table.swap_inv_def [OF T] swap_idle_def)
  from etype_table.writes_inv [OF T this, of to_int ws] show ?thesis
    using assms(4,5) by (simp add: etype_table.swap_inv_def [OF T])
qed

definition digit_value :: "string \<Rightarrow> int option" where
  "digit_value x = (if x = ''1'' then Some 1 else if x = ''0'' then Some 0 else None)"

definition used_table :: "u32 \<Rightarrow> u32" where
  "used_table a = (if a = 0xe8c then 0x40007 else if a = 0xed0 then 0x86dd0800 else
     if a = 0xed4 then 0x0021 else 0)"

theorem loopback_writes_restore_witness:
  "let (s', d') = loopback_writes (ppe_set_l2b_ether_type_auto mem_bus hw_example)
         (ppe_clear_l2b_ether_type_auto mem_bus hw_example) digit_value
         [(True, ''mac_swap 1''), (True, ''enable 1''), (True, ''mac_swap 0'')] (loopback_boot, used_table)
   in l2b_view d' hw_example = l2b_view used_table hw_example"
proof -
  let ?w = "loopback_writes (ppe_set_l2b_ether_type_auto mem_bus hw_example)
         (ppe_clear_l2b_ether_type_auto mem_bus hw_example) digit_value
         [(True, ''mac_swap 1''), (True, ''enable 1''), (True, ''mac_swap 0'')] (loopback_boot, used_table)"
  obtain s' d' where w: "?w = (s', d')" by (rule prod.exhaust)
  have "\<not> hwnat_loopback_mac_swap (fst ?w)" by code_simp
  then have off: "\<not> hwnat_loopback_mac_swap s'" unfolding w by simp
  have "swap_idle loopback_boot" by (simp add: swap_idle_def loopback_boot_def)
  from loopback_writes_restore [OF plain_regs_mem_bus hw_example_layout this w off]
  show ?thesis unfolding w by simp
qed

text \<open>With disjoint field masks the prepared first word is bound: its state field is the bind
  state, its timestamp, VLAN, VPM and PPPoE fields are the arguments cut to their fields, and no
  bit outside the five fields changes.\<close>

theorem loopback_ib1_fields:
  assumes "IB1_BIND_VLAN_LAYER m AND (IB1_BIND_VPM m OR IB1_BIND_PPPOE m OR IB1_BIND_TIMESTAMP m OR
             IB1_BIND_STATE m) = 0"
    and "IB1_BIND_VPM m AND (IB1_BIND_PPPOE m OR IB1_BIND_TIMESTAMP m OR IB1_BIND_STATE m) = 0"
    and "IB1_BIND_PPPOE m AND (IB1_BIND_TIMESTAMP m OR IB1_BIND_STATE m) = 0"
    and "IB1_BIND_TIMESTAMP m AND IB1_BIND_STATE m = 0"
  shows "let r = airoha_loopback_prepare_ib1 m ib1 vn vpm pppoe ts;
             cut = (\<lambda>k v. v AND drop_bit (bf_shf k) k);
             masks = IB1_BIND_VLAN_LAYER m OR IB1_BIND_VPM m OR IB1_BIND_PPPOE m OR
               IB1_BIND_TIMESTAMP m OR IB1_BIND_STATE m
         in FIELD_GET (IB1_BIND_STATE m) r = cut (IB1_BIND_STATE m) (FOE_STATE_BIND m) \<and>
            FIELD_GET (IB1_BIND_TIMESTAMP m) r = cut (IB1_BIND_TIMESTAMP m) ts \<and>
            FIELD_GET (IB1_BIND_VLAN_LAYER m) r = cut (IB1_BIND_VLAN_LAYER m) (ucast vn) \<and>
            FIELD_GET (IB1_BIND_VPM m) r = cut (IB1_BIND_VPM m) (ucast vpm) \<and>
            FIELD_GET (IB1_BIND_PPPOE m) r = cut (IB1_BIND_PPPOE m) (if pppoe \<noteq> 0 then 1 else 0) \<and>
            r AND NOT masks = ib1 AND NOT masks"
proof -
  define M where "M = (IB1_BIND_VLAN_LAYER m OR IB1_BIND_VPM m OR IB1_BIND_PPPOE m OR
               IB1_BIND_TIMESTAMP m OR IB1_BIND_STATE m)"
  have sub: "IB1_BIND_VLAN_LAYER m AND M = IB1_BIND_VLAN_LAYER m" "IB1_BIND_VPM m AND M = IB1_BIND_VPM m"
    "IB1_BIND_PPPOE m AND M = IB1_BIND_PPPOE m" "IB1_BIND_TIMESTAMP m AND M = IB1_BIND_TIMESTAMP m"
    "IB1_BIND_STATE m AND M = IB1_BIND_STATE m"
    by (auto intro!: bit_word_eqI simp: M_def bit_simps)
  have D: "IB1_BIND_VLAN_LAYER m AND IB1_BIND_VPM m = 0" "IB1_BIND_VLAN_LAYER m AND IB1_BIND_PPPOE m = 0"
    "IB1_BIND_VLAN_LAYER m AND IB1_BIND_TIMESTAMP m = 0" "IB1_BIND_VLAN_LAYER m AND IB1_BIND_STATE m = 0"
    "IB1_BIND_VPM m AND IB1_BIND_PPPOE m = 0" "IB1_BIND_VPM m AND IB1_BIND_TIMESTAMP m = 0"
    "IB1_BIND_VPM m AND IB1_BIND_STATE m = 0" "IB1_BIND_PPPOE m AND IB1_BIND_TIMESTAMP m = 0"
    "IB1_BIND_PPPOE m AND IB1_BIND_STATE m = 0" "IB1_BIND_TIMESTAMP m AND IB1_BIND_STATE m = 0"
    using assms by (simp_all add: and_or_zero)
  note D' = D [THEN trans [OF and.commute]]
  have or: "(x OR y) AND NOT M = (x AND NOT M) OR (y AND NOT M)" for x y
    by (simp add: bit.conj_disj_distrib2)
  show ?thesis
    unfolding Let_def airoha_loopback_prepare_ib1_def M_def [symmetric]
    by (simp add: FIELD_GET_OR FIELD_GET_cleared FIELD_GET_PREP FIELD_GET_PREP_other
        FIELD_PREP_outside or sub D D')
qed

definition masks_example :: foe_masks where
  "masks_example = \<lparr>IB1_BIND_VLAN_LAYER = 0xE0000, IB1_BIND_VPM = 0x300000, IB1_BIND_PPPOE = 0x10000,
     IB1_BIND_TIMESTAMP = 0x7fff, IB1_BIND_STATE = 0x30000000, FOE_STATE_BIND = 2, ACTDP = 0xff000000,
     CHANNEL = 0xf8, QID = 7, SHAPER_ID = 0x7f00, IB2_NBQ = 0x1f, IB2_PSE_PORT = 0x1e0,
     IB2_PSE_QOS = 0x10, IB2_FAST_PATH = 0x200, REASON_HIT_UNBIND_RATE_REACHED = 0xf\<rparr>"

theorem loopback_ib1_fields_witness:
  "FIELD_GET 0x30000000 (airoha_loopback_prepare_ib1 masks_example 0x12345678 1 0 9 77) =
     2 AND drop_bit (bf_shf 0x30000000) 0x30000000"
proof -
  have "IB1_BIND_STATE masks_example = 0x30000000" "FOE_STATE_BIND masks_example = 2"
    by (simp_all add: masks_example_def)
  with loopback_ib1_fields [of masks_example "0x12345678" 1 0 9 77] show ?thesis
    unfolding Let_def by (simp add: masks_example_def)
qed

lemma swap_mac_involutive: "12 \<le> length data \<Longrightarrow> skb_swap_mac_addr (skb_swap_mac_addr data) = data"
  by (simp add: skb_swap_mac_addr_def Let_def min_def) (metis append_take_drop_id drop_drop take_drop add.commute numeral_Bit0)

end
