(* ===== verification/AppList.thy ===== *)
theory AppList
  imports Prelude
begin

text \<open>
  The two trigger-application registers: the in-place table of \<^verbatim>\<open>airoha/arht_dynamic_ifc.c\<close> and
  the copy-on-write snapshot of \<^verbatim>\<open>airoha/arht_wifi_lo.c\<close>. Both promise a bounded set of task
  names; the locale \<open>app_registry\<close> states the promise once, and its lemmas hold of both.
  A C string is a list of non-NUL characters.
\<close>

section \<open>The contract\<close>

abbreviation TASK_COMM_LEN :: nat where "TASK_COMM_LEN \<equiv> 16"

text \<open>A task name: not empty, and it fits the kernel's command buffer.\<close>

definition task_name :: "string \<Rightarrow> bool" where
  "task_name n \<longleftrightarrow> n \<noteq> [] \<and> length n < TASK_COMM_LEN"

text \<open>A run of additions (\<open>True\<close>) and removals, and what it does to a set of at most \<open>cap\<close> names.\<close>

definition app_run ::
  "(string \<Rightarrow> 's \<Rightarrow> int \<times> 's) \<Rightarrow> (string \<Rightarrow> 's \<Rightarrow> int \<times> 's) \<Rightarrow> (bool \<times> string) list \<Rightarrow> 's \<Rightarrow> 's" where
  "app_run add del = fold (\<lambda>(b, n) s. snd (if b then add n s else del n s))"

definition app_spec :: "nat \<Rightarrow> (bool \<times> string) list \<Rightarrow> string set \<Rightarrow> string set" where
  "app_spec cap = fold (\<lambda>(b, n) S. if b then (if n \<in> S \<or> card S < cap then insert n S else S) else S - {n})"

locale app_registry =
  fixes inv :: "'s \<Rightarrow> bool" and names :: "'s \<Rightarrow> string set" and count :: "'s \<Rightarrow> nat"
    and cap :: nat and member :: "string \<Rightarrow> 's \<Rightarrow> bool"
    and add :: "string \<Rightarrow> 's \<Rightarrow> int \<times> 's" and del :: "string \<Rightarrow> 's \<Rightarrow> int \<times> 's"
  assumes count_names: "inv s \<Longrightarrow> finite (names s) \<and> card (names s) = count s \<and> count s \<le> cap"
    and member_names: "inv s \<Longrightarrow> task_name n \<Longrightarrow> member n s \<longleftrightarrow> n \<in> names s"
    and add_effect: "inv s \<Longrightarrow> task_name n \<Longrightarrow> add n s = (r, s') \<Longrightarrow>
          inv s' \<and> (r = 1 \<and> names s' = insert n (names s) \<or> r = 0 \<and> names s' = names s \<and> n \<notin> names s)"
    and del_effect: "inv s \<Longrightarrow> task_name n \<Longrightarrow> del n s = (r, s') \<Longrightarrow>
          inv s' \<and> (r = 1 \<and> n \<in> names s \<and> names s' = names s - {n} \<or> r = 0 \<and> names s' = names s)"
begin

lemma step_inv:
  "inv s \<Longrightarrow> task_name n \<Longrightarrow> inv (snd (if b then add n s else del n s))"
  using add_effect [of s n "fst (add n s)" "snd (add n s)"] del_effect [of s n "fst (del n s)" "snd (del n s)"]
  by simp

lemma run_inv: "inv s \<Longrightarrow> \<forall>op\<in>set ops. task_name (snd op) \<Longrightarrow> inv (app_run add del ops s)"
proof (induction ops arbitrary: s)
  case Nil
  then show ?case by (simp add: app_run_def)
next
  case (Cons op ops)
  obtain b n where op: "op = (b, n)" by fastforce
  have "inv (snd (if b then add n s else del n s))"
    using Cons.prems op by (intro step_inv) simp_all
  then show ?case using Cons.IH Cons.prems(2) op by (simp add: app_run_def)
qed

lemma add_then_member:
  "inv s \<Longrightarrow> task_name n \<Longrightarrow> add n s = (1, s') \<Longrightarrow> member n s'"
  using add_effect [of s n 1 s'] member_names [of s' n] by simp

lemma del_then_not_member:
  "inv s \<Longrightarrow> task_name n \<Longrightarrow> del n s = (1, s') \<Longrightarrow> \<not> member n s'"
  using del_effect [of s n 1 s'] member_names [of s' n] by simp

lemma other_names:
  "inv s \<Longrightarrow> task_name n \<Longrightarrow> m \<noteq> n \<Longrightarrow>
     m \<in> names (snd (if b then add n s else del n s)) \<longleftrightarrow> m \<in> names s"
  using add_effect [of s n "fst (add n s)" "snd (add n s)"] del_effect [of s n "fst (del n s)" "snd (del n s)"]
  by auto

end

text \<open>A register that turns an addition down only when it is full.\<close>

locale exact_registry = app_registry +
  assumes add_full: "inv s \<Longrightarrow> task_name n \<Longrightarrow> add n s = (0, s') \<Longrightarrow> count s = cap"
    and del_absent: "inv s \<Longrightarrow> task_name n \<Longrightarrow> del n s = (0, s') \<Longrightarrow> n \<notin> names s"
begin

lemma step_names:
  assumes "inv s" and "task_name n"
  shows "names (snd (if b then add n s else del n s)) =
     (if b then (if n \<in> names s \<or> card (names s) < cap then insert n (names s) else names s)
      else names s - {n})"
proof (cases b)
  case True
  obtain r s' where a: "add n s = (r, s')" by fastforce
  have s': "inv s'" using add_effect [OF assms a] by simp
  show ?thesis
    using True a add_effect [OF assms a] count_names [OF assms(1)] count_names [OF s'] add_full [OF assms, of s']
    by (auto simp: insert_absorb)
next
  case False
  obtain r s' where d: "del n s = (r, s')" by fastforce
  show ?thesis using False d del_effect [OF assms d] del_absent [OF assms, of s'] by auto
qed

lemma run_refines:
  "inv s \<Longrightarrow> \<forall>op\<in>set ops. task_name (snd op) \<Longrightarrow>
     names (app_run add del ops s) = app_spec cap ops (names s)"
proof (induction ops arbitrary: s)
  case Nil
  then show ?case by (simp add: app_run_def app_spec_def)
next
  case (Cons op ops)
  obtain b n where op: "op = (b, n)" by fastforce
  have n: "task_name n" using Cons.prems(2) op by simp
  let ?s = "snd (if b then add n s else del n s)"
  have "names (app_run add del ops ?s) = app_spec cap ops (names ?s)"
    using Cons.IH [OF step_inv [OF Cons.prems(1) n]] Cons.prems(2) by simp
  then show ?case using op step_names [OF Cons.prems(1) n]
    by (simp add: app_run_def app_spec_def)
qed

end

section \<open>The table of the dynamic-IFC module\<close>

abbreviation MAX_DYNAMIC_IFC_APP_NUM :: nat where "MAX_DYNAMIC_IFC_APP_NUM \<equiv> 16"

record app_list =
  dynamic_ifc_apps :: "string list"
  dynamic_ifc_app_valid :: "bool list"
  dynamic_ifc_app_num :: int

text \<open>\<^verbatim>\<open>strncmp(a, b, TASK_COMM_LEN - 1) == 0\<close> on strings.\<close>

definition comm_eq :: "string \<Rightarrow> string \<Rightarrow> bool" where
  "comm_eq a b \<longleftrightarrow> take (TASK_COMM_LEN - 1) a = take (TASK_COMM_LEN - 1) b"

definition app_slot :: "string \<Rightarrow> app_list \<Rightarrow> nat option" where
  "app_slot name s = find (\<lambda>i. dynamic_ifc_app_valid s ! i \<and> comm_eq (dynamic_ifc_apps s ! i) name)
     [0..<MAX_DYNAMIC_IFC_APP_NUM]"

definition is_dynamic_ifc_app :: "string option \<Rightarrow> app_list \<Rightarrow> int" where
  "is_dynamic_ifc_app name s =
     (case name of None \<Rightarrow> 0
      | Some n \<Rightarrow> (case app_slot n s of Some i \<Rightarrow> 1 | None \<Rightarrow> 0))"

definition dynamic_ifc_app_list_add :: "string \<Rightarrow> app_list \<Rightarrow> int \<times> app_list" where
  "dynamic_ifc_app_list_add name s =
     (if is_dynamic_ifc_app (Some name) s \<noteq> 0 then (1, s)
      else case find (\<lambda>i. \<not> dynamic_ifc_app_valid s ! i) [0..<MAX_DYNAMIC_IFC_APP_NUM] of
             None \<Rightarrow> (0, s)
           | Some i \<Rightarrow>
               (1, s\<lparr>dynamic_ifc_apps := (dynamic_ifc_apps s)[i := take (TASK_COMM_LEN - 1) name],
                     dynamic_ifc_app_valid := (dynamic_ifc_app_valid s)[i := True],
                     dynamic_ifc_app_num := dynamic_ifc_app_num s + 1\<rparr>))"

definition dynamic_ifc_app_list_del :: "string \<Rightarrow> app_list \<Rightarrow> int \<times> app_list" where
  "dynamic_ifc_app_list_del name s =
     (case app_slot name s of
        None \<Rightarrow> (0, s)
      | Some i \<Rightarrow>
          (1, s\<lparr>dynamic_ifc_app_valid := (dynamic_ifc_app_valid s)[i := False],
                dynamic_ifc_apps := (dynamic_ifc_apps s)[i := []],
                dynamic_ifc_app_num := dynamic_ifc_app_num s - 1\<rparr>))"

definition app_list_boot :: app_list where
  "app_list_boot = \<lparr>dynamic_ifc_apps = replicate 16 [], dynamic_ifc_app_valid = replicate 16 False,
     dynamic_ifc_app_num = 0\<rparr>"

definition app_names :: "app_list \<Rightarrow> string set" where
  "app_names s = {dynamic_ifc_apps s ! i |i. i < 16 \<and> dynamic_ifc_app_valid s ! i}"

definition app_valid_set :: "app_list \<Rightarrow> nat set" where
  "app_valid_set s = {i. i < 16 \<and> dynamic_ifc_app_valid s ! i}"

definition app_list_inv :: "app_list \<Rightarrow> bool" where
  "app_list_inv s \<longleftrightarrow> length (dynamic_ifc_apps s) = 16 \<and> length (dynamic_ifc_app_valid s) = 16 \<and>
     (\<forall>i\<in>app_valid_set s. task_name (dynamic_ifc_apps s ! i)) \<and>
     inj_on ((!) (dynamic_ifc_apps s)) (app_valid_set s) \<and>
     dynamic_ifc_app_num s = int (card (app_valid_set s))"

lemma finite_app_valid [simp]: "finite (app_valid_set s)"
  by (simp add: app_valid_set_def)

lemma app_names_image: "app_names s = (!) (dynamic_ifc_apps s) ` app_valid_set s"
  by (auto simp: app_names_def app_valid_set_def)

lemma app_card: "app_list_inv s \<Longrightarrow> card (app_names s) = card (app_valid_set s)"
  unfolding app_names_image by (rule card_image) (simp add: app_list_inv_def)

lemma app_card_le: "card (app_valid_set s) \<le> 16"
  using card_mono [of "{..<16::nat}" "app_valid_set s"] by (auto simp: app_valid_set_def)

lemma comm_eq_task: "task_name a \<Longrightarrow> task_name b \<Longrightarrow> comm_eq a b \<longleftrightarrow> a = b"
  by (simp add: comm_eq_def task_name_def)

lemma app_slot_names:
  assumes "app_list_inv s" and "task_name n"
  shows "app_slot n s = Some i \<Longrightarrow> i < 16 \<and> dynamic_ifc_app_valid s ! i \<and> dynamic_ifc_apps s ! i = n"
    and "app_slot n s = None \<longleftrightarrow> n \<notin> app_names s"
proof -
  have eq: "i < 16 \<Longrightarrow> dynamic_ifc_app_valid s ! i \<Longrightarrow>
      comm_eq (dynamic_ifc_apps s ! i) n \<longleftrightarrow> dynamic_ifc_apps s ! i = n" for i
    using assms by (intro comm_eq_task) (simp_all add: app_list_inv_def app_valid_set_def)
  show "app_slot n s = Some i \<Longrightarrow> i < 16 \<and> dynamic_ifc_app_valid s ! i \<and> dynamic_ifc_apps s ! i = n"
    using eq [of i] by (auto simp: app_slot_def find_upt_Some)
  show "app_slot n s = None \<longleftrightarrow> n \<notin> app_names s"
    using eq by (auto simp: app_slot_def app_names_def find_upt_None)
qed

lemma app_add_effect:
  assumes inv: "app_list_inv s" and n: "task_name n" and a: "dynamic_ifc_app_list_add n s = (r, s')"
  shows "app_list_inv s' \<and> (r = 1 \<and> app_names s' = insert n (app_names s) \<or>
           r = 0 \<and> s' = s \<and> n \<notin> app_names s \<and> card (app_names s) = 16)"
proof (cases "app_slot n s")
  case (Some j)
  then have "n \<in> app_names s" using app_slot_names(2) [OF inv n] by auto
  then show ?thesis using Some a inv
    by (auto simp: dynamic_ifc_app_list_add_def is_dynamic_ifc_app_def)
next
  case None
  then have new: "n \<notin> app_names s" using app_slot_names(2) [OF inv n] by simp
  show ?thesis
  proof (cases "find (\<lambda>i. \<not> dynamic_ifc_app_valid s ! i) [0..<16]")
    case full: None
    then have "app_valid_set s = {..<16}" by (auto simp: app_valid_set_def find_upt_None)
    then have "card (app_names s) = 16" using app_card [OF inv] by simp
    then show ?thesis using None full a inv new
      by (auto simp: dynamic_ifc_app_list_add_def is_dynamic_ifc_app_def)
  next
    case (Some i)
    have i: "i < 16" "\<not> dynamic_ifc_app_valid s ! i" using find_upt_SomeD [OF Some] by auto
    have s': "r = 1" "s' = s\<lparr>dynamic_ifc_apps := (dynamic_ifc_apps s)[i := n],
                     dynamic_ifc_app_valid := (dynamic_ifc_app_valid s)[i := True],
                     dynamic_ifc_app_num := dynamic_ifc_app_num s + 1\<rparr>"
      using None Some a n
      by (auto simp: dynamic_ifc_app_list_add_def is_dynamic_ifc_app_def task_name_def)
    have len: "length (dynamic_ifc_apps s) = 16" "length (dynamic_ifc_app_valid s) = 16"
      using inv by (simp_all add: app_list_inv_def)
    have v: "app_valid_set s' = insert i (app_valid_set s)" "i \<notin> app_valid_set s"
      using i len by (auto simp: s' app_valid_set_def nth_list_update)
    have same: "dynamic_ifc_apps s' ! j = dynamic_ifc_apps s ! j" if "j \<in> app_valid_set s" for j
      using that v(2) by (cases "j = i") (auto simp: s')
    have new_i: "dynamic_ifc_apps s' ! i = n" using i len by (simp add: s')
    have names: "app_names s' = insert n (app_names s)"
      unfolding app_names_image v(1) using same new_i by (auto simp: image_iff)
    have "inj_on ((!) (dynamic_ifc_apps s')) (app_valid_set s)"
      using inv same by (auto simp: app_list_inv_def inj_on_def)
    moreover have "n \<notin> (!) (dynamic_ifc_apps s') ` app_valid_set s"
      using new same by (auto simp: app_names_image)
    ultimately have "inj_on ((!) (dynamic_ifc_apps s')) (app_valid_set s')"
      unfolding v(1) using new_i v(2) by simp
    moreover have "\<forall>j\<in>app_valid_set s'. task_name (dynamic_ifc_apps s' ! j)"
      using inv same new_i n by (auto simp: v(1) app_list_inv_def)
    moreover have "dynamic_ifc_app_num s' = int (card (app_valid_set s'))"
      using inv v by (simp add: s' app_list_inv_def)
    ultimately have "app_list_inv s'" using len by (simp add: app_list_inv_def s')
    then show ?thesis using names s'(1) by simp
  qed
qed

lemma app_del_effect:
  assumes inv: "app_list_inv s" and n: "task_name n" and d: "dynamic_ifc_app_list_del n s = (r, s')"
  shows "app_list_inv s' \<and> (r = 1 \<and> n \<in> app_names s \<and> app_names s' = app_names s - {n} \<or>
           r = 0 \<and> s' = s \<and> n \<notin> app_names s)"
proof (cases "app_slot n s")
  case None
  then show ?thesis using d inv app_slot_names(2) [OF inv n] by (auto simp: dynamic_ifc_app_list_del_def)
next
  case (Some i)
  have i: "i < 16" "dynamic_ifc_app_valid s ! i" "dynamic_ifc_apps s ! i = n"
    using app_slot_names(1) [OF inv n Some] by auto
  have s': "r = 1" "s' = s\<lparr>dynamic_ifc_app_valid := (dynamic_ifc_app_valid s)[i := False],
                dynamic_ifc_apps := (dynamic_ifc_apps s)[i := []],
                dynamic_ifc_app_num := dynamic_ifc_app_num s - 1\<rparr>"
    using Some d by (auto simp: dynamic_ifc_app_list_del_def)
  have len: "length (dynamic_ifc_apps s) = 16" "length (dynamic_ifc_app_valid s) = 16"
    using inv by (simp_all add: app_list_inv_def)
  have v: "app_valid_set s' = app_valid_set s - {i}" "i \<in> app_valid_set s"
    using i len by (auto simp: s' app_valid_set_def nth_list_update split: if_splits)
  have same: "dynamic_ifc_apps s' ! j = dynamic_ifc_apps s ! j" if "j \<in> app_valid_set s'" for j
    using that v(1) by (cases "j = i") (auto simp: s')
  have inj: "inj_on ((!) (dynamic_ifc_apps s)) (app_valid_set s)" using inv by (simp add: app_list_inv_def)
  have "app_names s' = (!) (dynamic_ifc_apps s) ` (app_valid_set s - {i})"
    unfolding app_names_image using same v(1) by auto
  also have "\<dots> = app_names s - {n}"
    using inj v(2) i(3) by (auto simp: app_names_image inj_on_def)
  finally have names: "app_names s' = app_names s - {n}" .
  have "0 < card (app_valid_set s)" using v(2) by (auto simp: card_gt_0_iff)
  then have "dynamic_ifc_app_num s' = int (card (app_valid_set s'))"
    using inv v by (simp add: s' app_list_inv_def)
  moreover have "inj_on ((!) (dynamic_ifc_apps s')) (app_valid_set s')"
    using inj same v(1) by (auto simp: inj_on_def)
  moreover have "\<forall>j\<in>app_valid_set s'. task_name (dynamic_ifc_apps s' ! j)"
    using inv same v(1) by (auto simp: app_list_inv_def)
  ultimately have "app_list_inv s'" using len by (simp add: app_list_inv_def s')
  then show ?thesis using names s'(1) v(2) i(3) by (auto simp: app_names_image)
qed

interpretation difc_apps: exact_registry app_list_inv app_names "\<lambda>s. nat (dynamic_ifc_app_num s)" 16
    "\<lambda>n s. is_dynamic_ifc_app (Some n) s \<noteq> 0" dynamic_ifc_app_list_add dynamic_ifc_app_list_del
proof
  show "finite (app_names s) \<and> card (app_names s) = nat (dynamic_ifc_app_num s) \<and>
      nat (dynamic_ifc_app_num s) \<le> 16" if "app_list_inv s" for s
    using app_card [OF that] app_card_le [of s] that by (simp add: app_names_image app_list_inv_def)
  show "(is_dynamic_ifc_app (Some n) s \<noteq> 0) = (n \<in> app_names s)" if "app_list_inv s" "task_name n" for s n
    using app_slot_names(2) [OF that] by (auto simp: is_dynamic_ifc_app_def split: option.splits)
  show "app_list_inv s' \<and> (r = 1 \<and> app_names s' = insert n (app_names s) \<or>
      r = 0 \<and> app_names s' = app_names s \<and> n \<notin> app_names s)"
    if "app_list_inv s" "task_name n" "dynamic_ifc_app_list_add n s = (r, s')" for s n r s'
    using app_add_effect [OF that] by auto
  show "app_list_inv s' \<and> (r = 1 \<and> n \<in> app_names s \<and> app_names s' = app_names s - {n} \<or>
      r = 0 \<and> app_names s' = app_names s)"
    if "app_list_inv s" "task_name n" "dynamic_ifc_app_list_del n s = (r, s')" for s n r s'
    using app_del_effect [OF that] by auto
  show "nat (dynamic_ifc_app_num s) = 16"
    if "app_list_inv s" "task_name n" "dynamic_ifc_app_list_add n s = (0, s')" for s n s'
    using app_add_effect [OF that] app_card [OF that(1)] that(1) by (auto simp: app_list_inv_def)
  show "n \<notin> app_names s"
    if "app_list_inv s" "task_name n" "dynamic_ifc_app_list_del n s = (0, s')" for s n s'
    using app_del_effect [OF that] by auto
qed

section \<open>The snapshot of the local-fastpath module\<close>

abbreviation WIFI_LO_MAX_APPS :: nat where "WIFI_LO_MAX_APPS \<equiv> 16"

record wifi_lo_apps =
  wl_count :: nat
  wl_first :: "char list"
  wl_name :: "string list"

definition str0 :: "string \<Rightarrow> char" where
  "str0 x = (case x of [] \<Rightarrow> CHR 0x00 | c # _ \<Rightarrow> c)"

definition wifi_lo_app_match :: "string \<Rightarrow> wifi_lo_apps option \<Rightarrow> bool" where
  "wifi_lo_app_match comm snap =
     (case snap of
        None \<Rightarrow> False
      | Some a \<Rightarrow>
          if wl_count a = 0 then False
          else find (\<lambda>i. wl_first a ! i = str0 comm \<and> wl_name a ! i = comm) [0..<wl_count a] \<noteq> None)"

text \<open>\<open>alloc_ok\<close>: the allocation of the new snapshot succeeds.\<close>

definition wifi_lo_apps_clone :: "bool \<Rightarrow> wifi_lo_apps option \<Rightarrow> wifi_lo_apps option" where
  "wifi_lo_apps_clone alloc_ok old =
     (if \<not> alloc_ok then None
      else Some (case old of
                   Some a \<Rightarrow> a
                 | None \<Rightarrow> \<lparr>wl_count = 0, wl_first = replicate 16 (CHR 0x00), wl_name = replicate 16 []\<rparr>))"

definition wifi_lo_app_add :: "bool \<Rightarrow> string \<Rightarrow> wifi_lo_apps option \<Rightarrow> int \<times> wifi_lo_apps option" where
  "wifi_lo_app_add alloc_ok name old =
     (if name = [] then (0, old)
      else if (case old of None \<Rightarrow> False | Some a \<Rightarrow> find (\<lambda>i. wl_name a ! i = name) [0..<wl_count a] \<noteq> None)
      then (1, old)
      else if (case old of None \<Rightarrow> False | Some a \<Rightarrow> WIFI_LO_MAX_APPS \<le> wl_count a) then (0, old)
      else case wifi_lo_apps_clone alloc_ok old of
             None \<Rightarrow> (0, old)
           | Some neu \<Rightarrow>
               let i = wl_count neu; nm = take 31 name
               in (1, Some (neu\<lparr>wl_name := (wl_name neu)[i := nm],
                                wl_first := (wl_first neu)[i := str0 nm],
                                wl_count := i + 1\<rparr>)))"

text \<open>Copying the tail down by one from index \<open>i\<close>, in ascending order.\<close>

definition shift_down :: "nat \<Rightarrow> nat \<Rightarrow> 'a list \<Rightarrow> 'a list" where
  "shift_down i c xs = fold (\<lambda>j xs. xs[j := xs ! (j + 1)]) [i..<c - 1] xs"

definition wifi_lo_app_del :: "bool \<Rightarrow> string \<Rightarrow> wifi_lo_apps option \<Rightarrow> int \<times> wifi_lo_apps option" where
  "wifi_lo_app_del alloc_ok name old =
     (case old of
        None \<Rightarrow> (0, old)
      | Some a \<Rightarrow>
          (case find (\<lambda>i. wl_name a ! i = name) [0..<wl_count a] of
             None \<Rightarrow> (0, old)
           | Some i \<Rightarrow>
               (case wifi_lo_apps_clone alloc_ok old of
                  None \<Rightarrow> (0, old)
                | Some neu \<Rightarrow>
                    let c = wl_count neu
                    in (1, Some (neu\<lparr>wl_name := (shift_down i c (wl_name neu))[c - 1 := []],
                                     wl_first := (shift_down i c (wl_first neu))[c - 1 := CHR 0x00],
                                     wl_count := c - 1\<rparr>)))))"

lemma shift_down_length [simp]: "length (shift_down i c xs) = length xs"
proof -
  have "length (fold (\<lambda>j xs. xs[j := xs ! (j + 1)]) js xs) = length xs" for js
    by (induction js arbitrary: xs) simp_all
  then show ?thesis by (simp add: shift_down_def)
qed

lemma fold_shift_nth:
  "m < length xs \<Longrightarrow> j < length xs \<Longrightarrow>
     fold (\<lambda>j xs. xs[j := xs ! (j + 1)]) [i..<m] xs ! j = (if i \<le> j \<and> j < m then xs ! (j + 1) else xs ! j)"
proof (induction m arbitrary: j)
  case 0
  then show ?case by simp
next
  case (Suc m)
  have len: "length (fold (\<lambda>j xs. xs[j := xs ! (j + 1)]) js ys) = length ys" for js and ys :: "'a list"
    by (induction js arbitrary: ys) simp_all
  have IH: "k < length xs \<Longrightarrow> fold (\<lambda>j xs. xs[j := xs ! (j + 1)]) [i..<m] xs ! k =
      (if i \<le> k \<and> k < m then xs ! (k + 1) else xs ! k)" for k
    using Suc by simp
  show ?case
  proof (cases "i \<le> m")
    case True
    then show ?thesis using Suc.prems IH [of "m + 1"] IH [of j]
      by (cases "j = m") (auto simp: len [simplified])
  next
    case False
    then show ?thesis using Suc.prems by auto
  qed
qed

lemma shift_down_nth:
  "c \<le> length xs \<Longrightarrow> 0 < c \<Longrightarrow> j < length xs \<Longrightarrow>
     shift_down i c xs ! j = (if i \<le> j \<and> j < c - 1 then xs ! (j + 1) else xs ! j)"
  unfolding shift_down_def by (rule fold_shift_nth) simp_all

definition wl_names :: "wifi_lo_apps option \<Rightarrow> string set" where
  "wl_names s = (case s of None \<Rightarrow> {} | Some a \<Rightarrow> (!) (wl_name a) ` {..<wl_count a})"

definition wl_number :: "wifi_lo_apps option \<Rightarrow> nat" where
  "wl_number s = (case s of None \<Rightarrow> 0 | Some a \<Rightarrow> wl_count a)"

definition wl_inv :: "wifi_lo_apps option \<Rightarrow> bool" where
  "wl_inv s = (case s of None \<Rightarrow> True | Some a \<Rightarrow>
     wl_count a \<le> 16 \<and> length (wl_name a) = 16 \<and> length (wl_first a) = 16 \<and>
     (\<forall>i<wl_count a. wl_first a ! i = str0 (wl_name a ! i)) \<and>
     inj_on ((!) (wl_name a)) {..<wl_count a})"

lemma wl_match: "wl_inv s \<Longrightarrow> wifi_lo_app_match n s \<longleftrightarrow> n \<in> wl_names s"
  by (auto simp: wifi_lo_app_match_def wl_names_def wl_inv_def find_upt_None split: option.splits)

lemma wl_add_effect:
  assumes inv: "wl_inv s" and n: "task_name n" and a: "wifi_lo_app_add ok n s = (r, s')"
  shows "wl_inv s' \<and> (r = 1 \<and> wl_names s' = insert n (wl_names s) \<or>
           r = 0 \<and> s' = s \<and> n \<notin> wl_names s \<and> (ok \<longrightarrow> wl_number s = 16))"
proof -
  have t: "take 31 n = n" "n \<noteq> []" using n by (auto simp: task_name_def)
  let ?a = "case s of Some a \<Rightarrow> a | None \<Rightarrow> \<lparr>wl_count = 0, wl_first = replicate 16 (CHR 0x00), wl_name = replicate 16 []\<rparr>"
  have sa: "wl_names s = (!) (wl_name ?a) ` {..<wl_count ?a}" "wl_number s = wl_count ?a"
    "wl_count ?a \<le> 16" "length (wl_name ?a) = 16" "length (wl_first ?a) = 16"
    "\<forall>i<wl_count ?a. wl_first ?a ! i = str0 (wl_name ?a ! i)" "inj_on ((!) (wl_name ?a)) {..<wl_count ?a}"
    using inv by (auto simp: wl_names_def wl_number_def wl_inv_def split: option.splits)
  have found: "(case s of None \<Rightarrow> False | Some a \<Rightarrow> find (\<lambda>i. wl_name a ! i = n) [0..<wl_count a] \<noteq> None)
      \<longleftrightarrow> n \<in> wl_names s"
    by (auto simp: wl_names_def find_upt_None split: option.splits)
  have full: "(case s of None \<Rightarrow> False | Some a \<Rightarrow> 16 \<le> wl_count a) \<longleftrightarrow> wl_number s = 16"
    using inv by (auto simp: wl_number_def wl_inv_def split: option.splits)
  consider "n \<in> wl_names s" | "n \<notin> wl_names s" "wl_number s = 16 \<or> \<not> ok"
    | "n \<notin> wl_names s" "wl_number s \<noteq> 16" "ok" by blast
  then show ?thesis
  proof cases
    case 1
    then show ?thesis using a inv t unfolding wifi_lo_app_add_def found full by auto
  next
    case 2
    then show ?thesis using a inv t unfolding wifi_lo_app_add_def found full
      by (auto simp: wifi_lo_apps_clone_def split: if_splits)
  next
    case 3
    let ?c = "wl_count ?a"
    have s': "r = 1" "s' = Some (?a\<lparr>wl_name := (wl_name ?a)[?c := n], wl_first := (wl_first ?a)[?c := str0 n],
        wl_count := ?c + 1\<rparr>)"
      using 3 a t unfolding wifi_lo_app_add_def found full
      by (simp_all add: wifi_lo_apps_clone_def Let_def)
    have c: "?c < 16" using 3(2) sa(2,3) by simp
    have img: "(!) ((wl_name ?a)[?c := n]) ` {..<?c} = (!) (wl_name ?a) ` {..<?c}"
      by (rule image_cong) simp_all
    have "wl_names s' = insert n (wl_names s)"
      unfolding s'(2) wl_names_def [of "Some _"] using c sa(4) img sa(1) by (simp add: lessThan_Suc)
    moreover have "inj_on ((!) ((wl_name ?a)[?c := n])) {..<Suc ?c}"
      unfolding lessThan_Suc using sa(7) 3(1) sa(1) c sa(4) img
      by (auto simp: inj_on_def)
    ultimately show ?thesis using s' sa c
      by (auto simp: wl_inv_def nth_list_update less_Suc_eq)
  qed
qed

lemma wl_del_effect:
  assumes inv: "wl_inv s" and d: "wifi_lo_app_del ok n s = (r, s')"
  shows "wl_inv s' \<and> (r = 1 \<and> n \<in> wl_names s \<and> wl_names s' = wl_names s - {n} \<or>
           r = 0 \<and> s' = s \<and> (ok \<longrightarrow> n \<notin> wl_names s))"
proof (cases s)
  case None
  then show ?thesis using d inv by (auto simp: wifi_lo_app_del_def wl_names_def)
next
  case (Some a)
  note I = inv [unfolded wl_inv_def Some option.case]
  show ?thesis
  proof (cases "find (\<lambda>i. wl_name a ! i = n) [0..<wl_count a]")
    case None
    then have "n \<notin> wl_names s" by (auto simp: Some wl_names_def find_upt_None)
    then show ?thesis using None d inv Some by (auto simp: wifi_lo_app_del_def)
  next
    case found: (Some i)
    have i: "i < wl_count a" "wl_name a ! i = n" using find_upt_SomeD [OF found] by auto
    show ?thesis
    proof (cases ok)
      case False
      then show ?thesis using d inv Some found by (auto simp: wifi_lo_app_del_def wifi_lo_apps_clone_def)
    next
      case True
      let ?c = "wl_count a"
      have s': "r = 1" "s' = Some (a\<lparr>wl_name := (shift_down i ?c (wl_name a))[?c - 1 := []],
          wl_first := (shift_down i ?c (wl_first a))[?c - 1 := CHR 0x00], wl_count := ?c - 1\<rparr>)"
        using True d Some found by (auto simp: wifi_lo_app_del_def wifi_lo_apps_clone_def Let_def)
      have nth: "(shift_down i ?c (wl_name a))[?c - 1 := []] ! j = wl_name a ! (if i \<le> j then j + 1 else j)"
        "(shift_down i ?c (wl_first a))[?c - 1 := CHR 0x00] ! j = wl_first a ! (if i \<le> j then j + 1 else j)"
        if "j < ?c - 1" for j
        using that I i by (auto simp: shift_down_nth)
      let ?g = "\<lambda>j. if i \<le> j then j + 1 else j"
      have g: "?g ` {..<?c - 1} = {..<?c} - {i}"
      proof (rule set_eqI)
        fix k
        show "k \<in> ?g ` {..<?c - 1} \<longleftrightarrow> k \<in> {..<?c} - {i}"
          using i(1) by (cases "k < i") (auto simp: image_iff intro!: bexI [of _ "if k < i then k else k - 1"] split: if_splits)
      qed
      have injg: "inj_on ?g {..<?c - 1}" by (auto simp: inj_on_def split: if_splits)
      have "wl_names s' = (!) (wl_name a) ` (?g ` {..<?c - 1})"
        unfolding s'(2) wl_names_def image_image using nth(1) by (auto intro!: image_cong)
      also have "\<dots> = wl_names s - {n}"
        unfolding g using I i by (auto simp: Some wl_names_def inj_on_def)
      finally have names: "wl_names s' = wl_names s - {n}" .
      have "inj_on ((!) (wl_name a) \<circ> ?g) {..<?c - 1}"
        using injg g I by (intro comp_inj_on) (auto intro: inj_on_subset)
      then have "inj_on ((!) ((shift_down i ?c (wl_name a))[?c - 1 := []])) {..<?c - 1}"
        by (rule inj_on_cong [THEN iffD1, rotated]) (use nth(1) in auto)
      moreover have "\<forall>j<?c - 1. (shift_down i ?c (wl_first a))[?c - 1 := CHR 0x00] ! j =
          str0 ((shift_down i ?c (wl_name a))[?c - 1 := []] ! j)"
        unfolding nth using I by (auto simp only: nth) auto
      ultimately have "wl_inv s'" using I i by (auto simp: s'(2) wl_inv_def)
      then show ?thesis using names s'(1) i by (auto simp: Some wl_names_def)
    qed
  qed
qed

lemma wl_registry:
  "app_registry wl_inv wl_names wl_number 16 wifi_lo_app_match (wifi_lo_app_add ok) (wifi_lo_app_del ok)"
proof
  show "finite (wl_names s) \<and> card (wl_names s) = wl_number s \<and> wl_number s \<le> 16" if "wl_inv s" for s
    using that by (auto simp: wl_names_def wl_number_def wl_inv_def card_image split: option.splits)
qed (use wl_match wl_add_effect wl_del_effect in blast)+

interpretation wifi_apps: exact_registry wl_inv wl_names wl_number 16 wifi_lo_app_match
    "wifi_lo_app_add True" "wifi_lo_app_del True"
proof (intro exact_registry.intro exact_registry_axioms.intro)
  show "app_registry wl_inv wl_names wl_number 16 wifi_lo_app_match (wifi_lo_app_add True) (wifi_lo_app_del True)"
    by (rule wl_registry)
  show "wl_number s = 16" if "wl_inv s" "task_name n" "wifi_lo_app_add True n s = (0, s')" for s n s'
    using wl_add_effect [OF that] by simp
  show "n \<notin> wl_names s" if "wl_inv s" "task_name n" "wifi_lo_app_del True n s = (0, s')" for s n s'
    using wl_del_effect [OF that(1,3)] by simp
qed

section \<open>Properties\<close>

text \<open>From the empty table, through any sequence of additions and removals of task names, the
  dynamic-IFC table is exactly a set of at most sixteen names: its contents are the abstract
  run's, its counter is their number, and the membership test answers for them.\<close>

theorem difc_apps_refine:
  assumes "\<forall>op\<in>set ops. task_name (snd op)"
  defines "s \<equiv> app_run dynamic_ifc_app_list_add dynamic_ifc_app_list_del ops app_list_boot"
  shows "app_names s = app_spec 16 ops {} \<and>
         dynamic_ifc_app_num s = int (card (app_names s)) \<and> dynamic_ifc_app_num s \<le> 16 \<and>
         (\<forall>n. task_name n \<longrightarrow> (is_dynamic_ifc_app (Some n) s \<noteq> 0 \<longleftrightarrow> n \<in> app_names s))"
proof -
  have boot: "app_list_inv app_list_boot" "app_names app_list_boot = {}"
    by (auto simp: app_list_inv_def app_list_boot_def app_valid_set_def app_names_def inj_on_def)
  have inv: "app_list_inv s" unfolding s_def by (rule difc_apps.run_inv [OF boot(1) assms(1)])
  have "app_names s = app_spec 16 ops {}"
    unfolding s_def difc_apps.run_refines [OF boot(1) assms(1)] boot(2) ..
  moreover have "dynamic_ifc_app_num s = int (card (app_names s))" "dynamic_ifc_app_num s \<le> 16"
    using inv app_card [OF inv] app_card_le [of s] by (simp_all add: app_list_inv_def)
  ultimately show ?thesis using difc_apps.member_names [OF inv] by blast
qed

theorem difc_apps_refine_witness:
  "dynamic_ifc_app_num (app_run dynamic_ifc_app_list_add dynamic_ifc_app_list_del
     [(True, ''iperf3''), (True, ''ookla''), (True, ''iperf3''), (False, ''ookla'')] app_list_boot) = 1"
proof -
  have "\<forall>op\<in>set [(True, ''iperf3''), (True, ''ookla''), (True, ''iperf3''), (False, ''ookla'')].
      task_name (snd op)" by (simp add: task_name_def)
  from difc_apps_refine [OF this] show ?thesis by (simp add: app_spec_def insert_Diff_if)
qed

text \<open>The snapshot register of the local-fastpath module keeps the same promise: with every
  allocation succeeding its contents are the abstract run's, it holds at most sixteen names, and
  its lookup, first-byte filter included, answers for them; a failed allocation changes nothing.\<close>

theorem wifi_apps_refine:
  assumes "\<forall>op\<in>set ops. task_name (snd op)" and "task_name n"
  defines "s \<equiv> app_run (wifi_lo_app_add True) (wifi_lo_app_del True) ops None"
  shows "wl_names s = app_spec 16 ops {} \<and> card (wl_names s) = wl_number s \<and> wl_number s \<le> 16 \<and>
         (wifi_lo_app_match n s \<longleftrightarrow> n \<in> wl_names s) \<and>
         (n \<notin> wl_names s \<longrightarrow> wifi_lo_app_add False n s = (0, s)) \<and>
         snd (wifi_lo_app_del False n s) = s"
proof -
  have boot: "wl_inv None" "wl_names None = {}" by (simp_all add: wl_inv_def wl_names_def)
  have inv: "wl_inv s" unfolding s_def by (rule wifi_apps.run_inv [OF boot(1) assms(1)])
  have "wl_names s = app_spec 16 ops {}"
    unfolding s_def wifi_apps.run_refines [OF boot(1) assms(1)] boot(2) ..
  moreover have "n \<notin> wl_names s \<longrightarrow> wifi_lo_app_add False n s = (0, s)"
    by (auto simp: wifi_lo_app_add_def wifi_lo_apps_clone_def wl_names_def find_upt_None split: option.splits)
  moreover have "snd (wifi_lo_app_del False n s) = s"
    by (auto simp: wifi_lo_app_del_def wifi_lo_apps_clone_def split: option.splits)
  ultimately show ?thesis
    using wifi_apps.member_names [OF inv assms(2)] wifi_apps.count_names [OF inv] by blast
qed

theorem wifi_apps_refine_witness:
  "\<not> wifi_lo_app_match ''ookla'' (app_run (wifi_lo_app_add True) (wifi_lo_app_del True)
     [(True, ''iperf3''), (True, ''ookla''), (False, ''ookla'')] None)"
proof -
  have "\<forall>op\<in>set [(True, ''iperf3''), (True, ''ookla''), (False, ''ookla'')]. task_name (snd op)"
    "task_name ''ookla''" by (simp_all add: task_name_def)
  from wifi_apps_refine [OF this] show ?thesis by (simp add: app_spec_def)
qed

end
