(* ===== verification/LroAgg.thy ===== *)
theory LroAgg
  imports Prelude
begin

text \<open>
  Overriding the LRO aggregation limit of the two CDM ports. The dynamic-IFC module
  (\<^verbatim>\<open>airoha/arht_dynamic_ifc.c\<close>, read-modify-write of the bit field) and the local-fastpath module
  (\<^verbatim>\<open>airoha/arht_wifi_lo.c\<close>, shift-and-msk by hand) each save the two limits, set their own, and
  put the saved ones back. The locale \<open>agg_override\<close> is what both promise.
\<close>

record lro_save =
  lro_agg_num_orig_cdm1 :: u32
  lro_agg_num_orig_cdm2 :: u32
  lro_agg_num_saved :: bool

section \<open>The dynamic-IFC version\<close>

text \<open>\<open>ready\<close>: the Ethernet device and its registers exist; \<open>r1\<close>, \<open>r2\<close> and \<open>msk\<close> are the two
  limit registers and the field mask of the register header.\<close>

definition lro_save_and_set_agg_num ::
  "'d bus \<Rightarrow> bool \<Rightarrow> u32 \<Rightarrow> u32 \<Rightarrow> u32 \<Rightarrow> int \<Rightarrow> lro_save \<times> 'd \<Rightarrow> lro_save \<times> 'd" where
  "lro_save_and_set_agg_num io ready r1 r2 msk agg_num = (\<lambda>(l, d).
     if lro_agg_num_saved l then (l, d)
     else if \<not> ready then (l, d)
     else let (v1, d) = bus_rr io r1 d;
              (v2, d) = bus_rr io r2 d;
              l = \<lparr>lro_agg_num_orig_cdm1 = FIELD_GET msk v1, lro_agg_num_orig_cdm2 = FIELD_GET msk v2,
                   lro_agg_num_saved = True\<rparr>;
              d = bus_rmw io r1 msk (FIELD_PREP msk (word_of_int agg_num)) d;
              d = bus_rmw io r2 msk (FIELD_PREP msk (word_of_int agg_num)) d
          in (l, d))"

definition lro_restore_agg_num ::
  "'d bus \<Rightarrow> bool \<Rightarrow> u32 \<Rightarrow> u32 \<Rightarrow> u32 \<Rightarrow> lro_save \<times> 'd \<Rightarrow> lro_save \<times> 'd" where
  "lro_restore_agg_num io ready r1 r2 msk = (\<lambda>(l, d).
     if \<not> lro_agg_num_saved l then (l, d)
     else if \<not> ready then (l, d)
     else let d = bus_rmw io r1 msk (FIELD_PREP msk (lro_agg_num_orig_cdm1 l)) d;
              d = bus_rmw io r2 msk (FIELD_PREP msk (lro_agg_num_orig_cdm2 l)) d
          in (l\<lparr>lro_agg_num_saved := False\<rparr>, d))"

section \<open>The local-fastpath version\<close>

abbreviation PHY_REG_CDM1_LRO_LIMIT :: u32 where "PHY_REG_CDM1_LRO_LIMIT \<equiv> 0x1fb50484"
abbreviation PHY_REG_CDM2_LRO_LIMIT :: u32 where "PHY_REG_CDM2_LRO_LIMIT \<equiv> 0x1fb51484"
abbreviation CDM_LRO_AGG_NUM_MASK_VAL :: u32 where "CDM_LRO_AGG_NUM_MASK_VAL \<equiv> 0x00FF0000"
abbreviation CDM_LRO_AGG_NUM_SHIFT :: nat where "CDM_LRO_AGG_NUM_SHIFT \<equiv> 16"

definition set_agg_field :: "u32 \<Rightarrow> u32 \<Rightarrow> u32" where
  "set_agg_field v n =
     (v AND NOT CDM_LRO_AGG_NUM_MASK_VAL) OR
     (push_bit CDM_LRO_AGG_NUM_SHIFT n AND CDM_LRO_AGG_NUM_MASK_VAL)"

definition wifi_lo_lro_save_and_set_agg_num :: "'d bus \<Rightarrow> int \<Rightarrow> lro_save \<times> 'd \<Rightarrow> lro_save \<times> 'd" where
  "wifi_lo_lro_save_and_set_agg_num io agg_num = (\<lambda>(l, d).
     if lro_agg_num_saved l then (l, d)
     else let (v, d) = bus_rr io PHY_REG_CDM1_LRO_LIMIT d;
              o1 = drop_bit CDM_LRO_AGG_NUM_SHIFT (v AND CDM_LRO_AGG_NUM_MASK_VAL);
              (v, d) = bus_rr io PHY_REG_CDM2_LRO_LIMIT d;
              o2 = drop_bit CDM_LRO_AGG_NUM_SHIFT (v AND CDM_LRO_AGG_NUM_MASK_VAL);
              l = \<lparr>lro_agg_num_orig_cdm1 = o1, lro_agg_num_orig_cdm2 = o2, lro_agg_num_saved = True\<rparr>;
              (v, d) = bus_rr io PHY_REG_CDM1_LRO_LIMIT d;
              d = bus_wr io PHY_REG_CDM1_LRO_LIMIT (set_agg_field v (word_of_int agg_num)) d;
              (v, d) = bus_rr io PHY_REG_CDM2_LRO_LIMIT d;
              d = bus_wr io PHY_REG_CDM2_LRO_LIMIT (set_agg_field v (word_of_int agg_num)) d
          in (l, d))"

definition wifi_lo_lro_restore_agg_num :: "'d bus \<Rightarrow> lro_save \<times> 'd \<Rightarrow> lro_save \<times> 'd" where
  "wifi_lo_lro_restore_agg_num io = (\<lambda>(l, d).
     if \<not> lro_agg_num_saved l then (l, d)
     else let (v, d) = bus_rr io PHY_REG_CDM1_LRO_LIMIT d;
              d = bus_wr io PHY_REG_CDM1_LRO_LIMIT (set_agg_field v (lro_agg_num_orig_cdm1 l)) d;
              (v, d) = bus_rr io PHY_REG_CDM2_LRO_LIMIT d;
              d = bus_wr io PHY_REG_CDM2_LRO_LIMIT (set_agg_field v (lro_agg_num_orig_cdm2 l)) d
          in (l\<lparr>lro_agg_num_saved := False\<rparr>, d))"

section \<open>The contract\<close>

locale agg_override =
  fixes peek :: "'d \<Rightarrow> u32 \<Rightarrow> u32" and r1 r2 msk :: u32
    and save :: "int \<Rightarrow> lro_save \<times> 'd \<Rightarrow> lro_save \<times> 'd" and restore :: "lro_save \<times> 'd \<Rightarrow> lro_save \<times> 'd"
  assumes save_held: "lro_agg_num_saved l \<Longrightarrow> save n (l, d) = (l, d)"
    and restore_free: "\<not> lro_agg_num_saved l \<Longrightarrow> restore (l, d) = (l, d)"
    and save_free: "\<not> lro_agg_num_saved l \<Longrightarrow> save n (l, d) = (l', d') \<Longrightarrow>
          lro_agg_num_saved l' \<and> peek (snd (restore (l', d'))) = peek d \<and>
          FIELD_GET msk (peek d' r1) = word_of_int n AND drop_bit (bf_shf msk) msk \<and>
          FIELD_GET msk (peek d' r2) = word_of_int n AND drop_bit (bf_shf msk) msk"
    and restore_clears: "\<not> lro_agg_num_saved (fst (restore (l, d)))"
begin

text \<open>\<open>t\<close> is the register file the override started from.\<close>

definition held :: "(u32 \<Rightarrow> u32) \<Rightarrow> lro_save \<times> 'd \<Rightarrow> bool" where
  "held t = (\<lambda>(l, d). if lro_agg_num_saved l then peek (snd (restore (l, d))) = t else peek d = t)"

lemma held_start: "\<not> lro_agg_num_saved l \<Longrightarrow> held (peek d) (l, d)"
  by (simp add: held_def)

lemma held_save: "held t ld \<Longrightarrow> held t (save n ld)"
proof (cases ld)
  case (Pair l d)
  assume h: "held t ld"
  obtain l' d' where s: "save n (l, d) = (l', d')" by fastforce
  show ?thesis
  proof (cases "lro_agg_num_saved l")
    case True
    then show ?thesis using h by (simp add: Pair save_held)
  next
    case False
    then show ?thesis using h save_free [OF False s] by (simp add: Pair s held_def)
  qed
qed

lemma held_restore: "held t ld \<Longrightarrow> held t (restore ld)"
proof (cases ld)
  case (Pair l d)
  assume h: "held t ld"
  show ?thesis
  proof (cases "lro_agg_num_saved l")
    case True
    then show ?thesis using h restore_clears [of l d]
      by (cases "restore (l, d)") (simp add: Pair held_def)
  next
    case False
    then show ?thesis using h by (simp add: Pair restore_free)
  qed
qed

lemma held_free: "held t (l, d) \<Longrightarrow> \<not> lro_agg_num_saved l \<Longrightarrow> peek d = t"
  by (simp add: held_def)

end

context plain_regs
begin

lemma lro_difc_override:
  assumes "r1 \<noteq> r2"
  shows "agg_override peek r1 r2 msk (lro_save_and_set_agg_num io True r1 r2 msk)
           (lro_restore_agg_num io True r1 r2 msk)"
proof
  fix l :: lro_save and d n l' d'
  show "\<not> lro_agg_num_saved (fst (lro_restore_agg_num io True r1 r2 msk (l, d)))"
    by (simp add: lro_restore_agg_num_def)
  assume free: "\<not> lro_agg_num_saved l" and s: "lro_save_and_set_agg_num io True r1 r2 msk n (l, d) = (l', d')"
  obtain v1 d1 where e1: "bus_rr io r1 d = (v1, d1)" by fastforce
  obtain v2 d2 where e2: "bus_rr io r2 d1 = (v2, d2)" by fastforce
  note V = rr_pair [OF e1] rr_pair [OF e2]
  have l': "l' = \<lparr>lro_agg_num_orig_cdm1 = FIELD_GET msk (peek d r1),
      lro_agg_num_orig_cdm2 = FIELD_GET msk (peek d r2), lro_agg_num_saved = True\<rparr>"
    and d': "peek d' = (peek d)(r1 := masked (peek d r1) msk (FIELD_PREP msk (word_of_int n)),
                                r2 := masked (peek d r2) msk (FIELD_PREP msk (word_of_int n)))"
    using s free e1 e2 V assms
    by (auto simp: lro_save_and_set_agg_num_def Let_def rmw_peek)
  have "peek (snd (lro_restore_agg_num io True r1 r2 msk (l', d'))) = peek d"
    using assms by (auto simp: lro_restore_agg_num_def l' rmw_peek d' masked_restore fun_eq_iff)
  then show "lro_agg_num_saved l' \<and>
      peek (snd (lro_restore_agg_num io True r1 r2 msk (l', d'))) = peek d \<and>
      FIELD_GET msk (peek d' r1) = word_of_int n AND drop_bit (bf_shf msk) msk \<and>
      FIELD_GET msk (peek d' r2) = word_of_int n AND drop_bit (bf_shf msk) msk"
    using assms by (simp add: l' d' masked_FIELD_GET)
qed (simp_all add: lro_save_and_set_agg_num_def lro_restore_agg_num_def)

lemma agg_shift: "bf_shf CDM_LRO_AGG_NUM_MASK_VAL = CDM_LRO_AGG_NUM_SHIFT"
  by code_simp

lemma set_agg_field: "set_agg_field v n =
    masked v CDM_LRO_AGG_NUM_MASK_VAL (FIELD_PREP CDM_LRO_AGG_NUM_MASK_VAL n)"
  by (simp add: set_agg_field_def masked_def FIELD_PREP_def agg_shift)

lemma lro_wifi_override:
  "agg_override peek PHY_REG_CDM1_LRO_LIMIT PHY_REG_CDM2_LRO_LIMIT CDM_LRO_AGG_NUM_MASK_VAL
     (wifi_lo_lro_save_and_set_agg_num io) (wifi_lo_lro_restore_agg_num io)"
proof
  fix l :: lro_save and d n l' d'
  let ?m = CDM_LRO_AGG_NUM_MASK_VAL
  show "\<not> lro_agg_num_saved (fst (wifi_lo_lro_restore_agg_num io (l, d)))"
    by (simp add: wifi_lo_lro_restore_agg_num_def Let_def split: prod.splits)
  assume free: "\<not> lro_agg_num_saved l" and s: "wifi_lo_lro_save_and_set_agg_num io n (l, d) = (l', d')"
  have get: "drop_bit 16 v AND 255 = FIELD_GET ?m v" for v
    by (simp add: FIELD_GET_def agg_shift)
  have rr: "bus_rr io a x = (peek x a, snd (bus_rr io a x))" for a x
    using rr_val [of a x] by (simp add: prod_eq_iff)
  have l': "l' = \<lparr>lro_agg_num_orig_cdm1 = FIELD_GET ?m (peek d PHY_REG_CDM1_LRO_LIMIT),
      lro_agg_num_orig_cdm2 = FIELD_GET ?m (peek d PHY_REG_CDM2_LRO_LIMIT), lro_agg_num_saved = True\<rparr>"
    and d': "peek d' = (peek d)
        (PHY_REG_CDM1_LRO_LIMIT := masked (peek d PHY_REG_CDM1_LRO_LIMIT) ?m (FIELD_PREP ?m (word_of_int n)),
         PHY_REG_CDM2_LRO_LIMIT := masked (peek d PHY_REG_CDM2_LRO_LIMIT) ?m (FIELD_PREP ?m (word_of_int n)))"
    using s free
    by (auto simp: wifi_lo_lro_save_and_set_agg_num_def Let_def get set_agg_field wr_peek rr_peek rr_val
        case_prod_beta)
  have "peek (snd (wifi_lo_lro_restore_agg_num io (l', d'))) = peek d"
    by (auto simp: wifi_lo_lro_restore_agg_num_def l' Let_def case_prod_beta rr_val rr_peek wr_peek d'
        set_agg_field masked_restore fun_eq_iff)
  then show "lro_agg_num_saved l' \<and>
      peek (snd (wifi_lo_lro_restore_agg_num io (l', d'))) = peek d \<and>
      FIELD_GET ?m (peek d' PHY_REG_CDM1_LRO_LIMIT) = word_of_int n AND drop_bit (bf_shf ?m) ?m \<and>
      FIELD_GET ?m (peek d' PHY_REG_CDM2_LRO_LIMIT) = word_of_int n AND drop_bit (bf_shf ?m) ?m"
    by (simp add: l' d' masked_FIELD_GET)
qed (simp_all add: wifi_lo_lro_save_and_set_agg_num_def wifi_lo_lro_restore_agg_num_def)

end

interpretation difc_lro: agg_override "\<lambda>d. d" PHY_REG_CDM1_LRO_LIMIT PHY_REG_CDM2_LRO_LIMIT
    CDM_LRO_AGG_NUM_MASK_VAL
    "lro_save_and_set_agg_num mem_bus True PHY_REG_CDM1_LRO_LIMIT PHY_REG_CDM2_LRO_LIMIT CDM_LRO_AGG_NUM_MASK_VAL"
    "lro_restore_agg_num mem_bus True PHY_REG_CDM1_LRO_LIMIT PHY_REG_CDM2_LRO_LIMIT CDM_LRO_AGG_NUM_MASK_VAL"
  by (rule memregs.lro_difc_override) simp

interpretation wifi_lro: agg_override "\<lambda>d. d" PHY_REG_CDM1_LRO_LIMIT PHY_REG_CDM2_LRO_LIMIT
    CDM_LRO_AGG_NUM_MASK_VAL "wifi_lo_lro_save_and_set_agg_num mem_bus" "wifi_lo_lro_restore_agg_num mem_bus"
  by (rule memregs.lro_wifi_override)

section \<open>Properties\<close>

text \<open>A sequence of overrides (\<open>Some n\<close>) and restores (\<open>None\<close>) by one module.\<close>

definition lro_run ::
  "(int \<Rightarrow> lro_save \<times> 'd \<Rightarrow> lro_save \<times> 'd) \<Rightarrow> (lro_save \<times> 'd \<Rightarrow> lro_save \<times> 'd) \<Rightarrow>
     int option list \<Rightarrow> lro_save \<times> 'd \<Rightarrow> lro_save \<times> 'd" where
  "lro_run save restore =
     fold (\<lambda>op ld. case op of Some n \<Rightarrow> save n ld | None \<Rightarrow> restore ld)"


context agg_override
begin

lemma held_run: "held t ld \<Longrightarrow> held t (lro_run save restore ops ld)"
  by (induction ops arbitrary: ld)
    (auto simp: lro_run_def held_save held_restore split: option.splits)

end

text \<open>Both implementations of the limit override put the registers back bit for bit: through any
  sequence of overrides and restores by one module, whenever nothing is saved the whole register
  file is the one it started from.\<close>

theorem lro_override_reversible:
  assumes "plain_regs io peek" and "r1 \<noteq> r2" and "\<not> lro_agg_num_saved l"
    and "(l', d') = lro_run (lro_save_and_set_agg_num io True r1 r2 msk)
                       (lro_restore_agg_num io True r1 r2 msk) ops (l, d) \<or>
         (l', d') = lro_run (wifi_lo_lro_save_and_set_agg_num io) (wifi_lo_lro_restore_agg_num io) ops (l, d)"
    and "\<not> lro_agg_num_saved l'"
  shows "peek d' = peek d"
  using assms(4)
proof
  note D = plain_regs.lro_difc_override [OF assms(1,2), of msk]
  assume r: "(l', d') = lro_run (lro_save_and_set_agg_num io True r1 r2 msk)
                       (lro_restore_agg_num io True r1 r2 msk) ops (l, d)"
  from agg_override.held_run [OF D agg_override.held_start [OF D assms(3)], of d ops]
  show ?thesis unfolding r [symmetric] by (rule agg_override.held_free [OF D _ assms(5)])
next
  note W = plain_regs.lro_wifi_override [OF assms(1)]
  assume r: "(l', d') = lro_run (wifi_lo_lro_save_and_set_agg_num io) (wifi_lo_lro_restore_agg_num io) ops (l, d)"
  from agg_override.held_run [OF W agg_override.held_start [OF W assms(3)], of d ops]
  show ?thesis unfolding r [symmetric] by (rule agg_override.held_free [OF W _ assms(5)])
qed

definition lro_boot :: lro_save where
  "lro_boot = \<lparr>lro_agg_num_orig_cdm1 = 0, lro_agg_num_orig_cdm2 = 0, lro_agg_num_saved = False\<rparr>"

theorem lro_override_reversible_witness:
  "snd (lro_run (wifi_lo_lro_save_and_set_agg_num mem_bus) (wifi_lo_lro_restore_agg_num mem_bus)
     [Some 18, Some 40, None] (lro_boot, \<lambda>_. 0x12345678)) = (\<lambda>_. 0x12345678)"
proof -
  let ?r = "lro_run (wifi_lo_lro_save_and_set_agg_num mem_bus) (wifi_lo_lro_restore_agg_num mem_bus)
     [Some 18, Some 40, None] (lro_boot, \<lambda>_. 0x12345678)"
  have "\<not> lro_agg_num_saved (fst ?r)" by code_simp
  moreover have "\<not> lro_agg_num_saved lro_boot" by (simp add: lro_boot_def)
  ultimately show ?thesis
    using lro_override_reversible [OF plain_regs_mem_bus, of 0 1 lro_boot "fst ?r" "snd ?r" 0
        "[Some 18, Some 40, None]"] by simp
qed

text \<open>The two modules do not compose. Each keeps its own copy of the shared limit, so when the
  local-fastpath module overrides while the dynamic-IFC override is in force and restores after
  it, the registers are left at the dynamic-IFC limit although neither module holds anything.\<close>

theorem lro_two_modules_stick:
  "let start = (\<lambda>_. 0x00050000);
       (l1, d) = lro_save_and_set_agg_num mem_bus True PHY_REG_CDM1_LRO_LIMIT PHY_REG_CDM2_LRO_LIMIT
                   CDM_LRO_AGG_NUM_MASK_VAL 18 (lro_boot, start);
       (l2, d) = wifi_lo_lro_save_and_set_agg_num mem_bus 40 (lro_boot, d);
       (l1, d) = lro_restore_agg_num mem_bus True PHY_REG_CDM1_LRO_LIMIT PHY_REG_CDM2_LRO_LIMIT
                   CDM_LRO_AGG_NUM_MASK_VAL (l1, d);
       (l2, d) = wifi_lo_lro_restore_agg_num mem_bus (l2, d)
   in \<not> lro_agg_num_saved l1 \<and> \<not> lro_agg_num_saved l2 \<and>
      FIELD_GET CDM_LRO_AGG_NUM_MASK_VAL (start PHY_REG_CDM1_LRO_LIMIT) = 5 \<and>
      FIELD_GET CDM_LRO_AGG_NUM_MASK_VAL (d PHY_REG_CDM1_LRO_LIMIT) = 18"
  by code_simp

end
