(* ===== verification/DynIfc.thy ===== *)
theory DynIfc
  imports AppList LroAgg
begin

text \<open>
  The session table of the dynamic-IFC module, \<^verbatim>\<open>airoha/arht_dynamic_ifc.c\<close>: eight TCP sessions,
  four dedicated LRO rings, one classifier rule per offloaded session, reference counts on sockets
  and routes, and one timer per session. The classifier behind the hook function, the frame-engine
  registers and the clock are parameters. A handler runs under \<^verbatim>\<open>dynamic_ifc_lock\<close> and is one step;
  the references it drops after unlocking are dropped in the same step.
\<close>

section \<open>State\<close>

text \<open>Pointers are addresses, 0 is NULL. \<open>age_timer\<close> is the expiry of a pending timer.\<close>

record dynamic_ifc =
  rx_dst :: u64
  tx_dst :: u64
  age_timer :: "u64 option"
  lo_sk :: u64
  local_port :: u16
  remote_port :: u16
  lo_hash :: u16
  last_tx :: u64
  valid :: bool
  skip_copy :: bool
  ifc_valid :: bool
  timer_active :: bool
  ifc_index :: u32
  ring_id :: int

abbreviation MAX_DYNAMIC_IFC_NUM :: nat where "MAX_DYNAMIC_IFC_NUM \<equiv> 8"
abbreviation IFC_LRO_RING_START :: int where "IFC_LRO_RING_START \<equiv> 12"
abbreviation IFC_LRO_RING_NUM :: nat where "IFC_LRO_RING_NUM \<equiv> 4"
abbreviation IFC_DEFAULT_RING :: int where "IFC_DEFAULT_RING \<equiv> 1"
abbreviation IFC_RING_SLOT_FREE :: int where "IFC_RING_SLOT_FREE \<equiv> - 1"
abbreviation SK_MARK_LOCAL_OFFLOAD :: u32 where "SK_MARK_LOCAL_OFFLOAD \<equiv> 0xAE000001"
abbreviation ECNT_HOOK_ERROR :: int where "ECNT_HOOK_ERROR \<equiv> - 1"

datatype ifc_field = DPORT | SPORT

text \<open>A classifier rule: the selected fields, each with its mask and key (all commands are 0).\<close>

type_synonym ifc_param = "(ifc_field \<times> u32 \<times> u32) list"

datatype ifc_call =
    IFC_SET_LUT_RULE_AUTO ifc_param
  | IFC_DEL_LUT_RULE_AUTO ifc_param
  | IFC_SET_ACTION u32 u32 bool u32 u32 u32 u32

text \<open>\<open>hook_fn\<close>: the resolved hook pointer is set. \<open>sk_ref\<close> and \<open>dst_ref\<close> count the references
  this module takes and drops, \<open>sk_mark_of\<close> is the mark it writes into a socket.\<close>

record ('h, 'd) difc =
  dynamic_ifc_ety :: "dynamic_ifc list"
  ifc_ring_reserve :: "int list"
  lro :: lro_save
  lro_agg_num :: int
  hook_fn :: bool
  ifc_hw :: 'h
  fe_regs :: 'd
  sk_ref :: "u64 \<Rightarrow> int"
  dst_ref :: "u64 \<Rightarrow> int"
  sk_mark_of :: "u64 \<Rightarrow> u32"

text \<open>The environment: the hook (its status, the returned value and the new classifier state), the
  register bus with the two limit registers and their field, whether the Ethernet device is up,
  the tick rate and the CPU reason of a flow that reached the bind rate.\<close>

record ('h, 'd) difc_env =
  env_hook :: "ifc_call \<Rightarrow> 'h \<Rightarrow> int \<times> int \<times> 'h"
  env_bus :: "'d bus"
  env_r1 :: u32
  env_r2 :: u32
  env_mask :: u32
  env_ready :: bool
  env_HZ :: u64
  env_rate_reached :: int

section \<open>The classifier calls\<close>

definition ntohs :: "u16 \<Rightarrow> u16" where
  "ntohs w = push_bit 8 w OR drop_bit 8 w"

definition DIFC_API :: "('h, 'd) difc_env \<Rightarrow> bool \<Rightarrow> ifc_call \<Rightarrow> 'h \<Rightarrow> int \<times> 'h" where
  "DIFC_API env hook call h =
     (if \<not> hook then (ECNT_HOOK_ERROR, h)
      else let (ret, retValue, h) = env_hook env call h
           in (if ret \<noteq> ECNT_HOOK_ERROR then retValue else ECNT_HOOK_ERROR, h))"

definition DIFC_API_SET_LUT_RULE_AUTO where
  "DIFC_API_SET_LUT_RULE_AUTO env hook p = DIFC_API env hook (IFC_SET_LUT_RULE_AUTO p)"

definition DIFC_API_DEL_LUT_RULE_AUTO where
  "DIFC_API_DEL_LUT_RULE_AUTO env hook p = DIFC_API env hook (IFC_DEL_LUT_RULE_AUTO p)"

definition DIFC_API_SET_ACTION where
  "DIFC_API_SET_ACTION env hook ifcIndex actIdx enMode v0 v1 v2 v3 =
     DIFC_API env hook (IFC_SET_ACTION ifcIndex actIdx enMode v0 v1 v2 v3)"

definition session_rule :: "dynamic_ifc \<Rightarrow> ifc_param" where
  "session_rule lo = [(DPORT, 0xFFFF, ucast (ntohs (local_port lo))),
                      (SPORT, 0xFFFF, ucast (ntohs (remote_port lo)))]"

section \<open>Ring reservation\<close>

definition upd_ety :: "nat \<Rightarrow> (dynamic_ifc \<Rightarrow> dynamic_ifc) \<Rightarrow> ('h, 'd) difc \<Rightarrow> ('h, 'd) difc" where
  "upd_ety k f s = s\<lparr>dynamic_ifc_ety := (dynamic_ifc_ety s)[k := f (dynamic_ifc_ety s ! k)]\<rparr>"

definition ring_stale :: "dynamic_ifc list \<Rightarrow> int \<Rightarrow> bool" where
  "ring_stale ety prev \<longleftrightarrow>
     int MAX_DYNAMIC_IFC_NUM \<le> prev \<or> \<not> valid (ety ! nat prev) \<or> \<not> ifc_valid (ety ! nat prev)"

definition ifc_get_free_lro_ring :: "dynamic_ifc list \<Rightarrow> int \<Rightarrow> int list \<Rightarrow> int \<times> int list" where
  "ifc_get_free_lro_ring ety entry_idx ring =
     (case find (\<lambda>i. ring ! i = entry_idx \<or>
                     (ring ! i \<noteq> IFC_RING_SLOT_FREE \<and> ring_stale ety (ring ! i)))
             [0..<IFC_LRO_RING_NUM] of
        Some i \<Rightarrow> (IFC_LRO_RING_START + int i, ring[i := entry_idx])
      | None \<Rightarrow>
          (case find (\<lambda>i. ring ! i = IFC_RING_SLOT_FREE) [0..<IFC_LRO_RING_NUM] of
             Some i \<Rightarrow> (IFC_LRO_RING_START + int i, ring[i := entry_idx])
           | None \<Rightarrow> (IFC_DEFAULT_RING, ring)))"

definition ifc_release_lro_ring :: "int \<Rightarrow> int list \<Rightarrow> int list" where
  "ifc_release_lro_ring entry_idx ring =
     (case find (\<lambda>i. ring ! i = entry_idx) [0..<IFC_LRO_RING_NUM] of
        Some i \<Rightarrow> ring[i := IFC_RING_SLOT_FREE]
      | None \<Rightarrow> ring)"

section \<open>Classifier rules of a session\<close>

definition dynamic_ifc_add_ifc :: "('h, 'd) difc_env \<Rightarrow> nat \<Rightarrow> ('h, 'd) difc \<Rightarrow> int \<times> ('h, 'd) difc" where
  "dynamic_ifc_add_ifc env k s =
     (let lo = dynamic_ifc_ety s ! k in
      if \<not> valid lo \<or> ifc_valid lo then (0, s)
      else if \<not> hook_fn s then (- ENODEV, s)
      else
        let (idx, h) = DIFC_API_SET_LUT_RULE_AUTO env (hook_fn s) (session_rule lo) (ifc_hw s);
            index = (word_of_int idx :: u32);
            s = s\<lparr>ifc_hw := h\<rparr>
        in if index = 0 \<or> index = word_of_int ECNT_HOOK_ERROR
           then (- 1, upd_ety k (\<lambda>lo. lo\<lparr>ifc_index := 0\<rparr>) s)
           else
             let s = upd_ety k (\<lambda>lo. lo\<lparr>ifc_index := index\<rparr>) s;
                 (ring, slots) = ifc_get_free_lro_ring (dynamic_ifc_ety s) (int k) (ifc_ring_reserve s);
                 s = upd_ety k (\<lambda>lo. lo\<lparr>ring_id := ring\<rparr>) (s\<lparr>ifc_ring_reserve := slots\<rparr>);
                 (ret, h) = DIFC_API_SET_ACTION env (hook_fn s) index 14 True 1 (word_of_int ring) 0 0 (ifc_hw s);
                 s = s\<lparr>ifc_hw := h\<rparr>
             in if ret = ECNT_HOOK_ERROR
                then let (_, h) = DIFC_API_DEL_LUT_RULE_AUTO env (hook_fn s) (session_rule lo) (ifc_hw s);
                         s = upd_ety k (\<lambda>lo. lo\<lparr>ifc_index := 0\<rparr>) (s\<lparr>ifc_hw := h\<rparr>)
                     in (- 1, s\<lparr>ifc_ring_reserve := ifc_release_lro_ring (int k) (ifc_ring_reserve s)\<rparr>)
                else (0, upd_ety k (\<lambda>lo. lo\<lparr>ifc_valid := True\<rparr>) s))"

definition dynamic_ifc_del_ifc :: "('h, 'd) difc_env \<Rightarrow> nat \<Rightarrow> ('h, 'd) difc \<Rightarrow> ('h, 'd) difc" where
  "dynamic_ifc_del_ifc env k s =
     (let lo = dynamic_ifc_ety s ! k in
      if \<not> ifc_valid lo \<or> ifc_index lo = 0 then s
      else
        let s = (if hook_fn s
                 then s\<lparr>ifc_hw := snd (DIFC_API_DEL_LUT_RULE_AUTO env (hook_fn s) (session_rule lo) (ifc_hw s))\<rparr>
                 else s);
            s = upd_ety k (\<lambda>lo. lo\<lparr>ifc_index := 0, ifc_valid := False, ring_id := 0\<rparr>) s
        in s\<lparr>ifc_ring_reserve := ifc_release_lro_ring (int k) (ifc_ring_reserve s)\<rparr>)"

section \<open>Lookups\<close>

definition find_dynamic_ifc_ety_by_port :: "dynamic_ifc list \<Rightarrow> u16 \<Rightarrow> u16 \<Rightarrow> nat option" where
  "find_dynamic_ifc_ety_by_port ety lport rport =
     find (\<lambda>i. \<not> (\<not> valid (ety ! i) \<or> local_port (ety ! i) \<noteq> lport \<or> remote_port (ety ! i) \<noteq> rport))
       [0..<MAX_DYNAMIC_IFC_NUM]"

definition dynamic_ifc_sock_in_use :: "dynamic_ifc list \<Rightarrow> u16 \<Rightarrow> u16 \<Rightarrow> int" where
  "dynamic_ifc_sock_in_use ety lport rport =
     (if find (\<lambda>i. valid (ety ! i) \<and>
            (ntohs (local_port (ety ! i)) = lport \<and> ntohs (remote_port (ety ! i)) = rport \<or>
             ntohs (local_port (ety ! i)) = rport \<and> ntohs (remote_port (ety ! i)) = lport))
          [0..<MAX_DYNAMIC_IFC_NUM] \<noteq> None then 1 else 0)"

section \<open>Handlers\<close>

definition difc_lro_save :: "('h, 'd) difc_env \<Rightarrow> ('h, 'd) difc \<Rightarrow> ('h, 'd) difc" where
  "difc_lro_save env s =
     (let (l, d) = lro_save_and_set_agg_num (env_bus env) (env_ready env) (env_r1 env) (env_r2 env)
                     (env_mask env) (lro_agg_num s) (lro s, fe_regs s)
      in s\<lparr>lro := l, fe_regs := d\<rparr>)"

definition difc_lro_restore :: "('h, 'd) difc_env \<Rightarrow> ('h, 'd) difc \<Rightarrow> ('h, 'd) difc" where
  "difc_lro_restore env s =
     (let (l, d) = lro_restore_agg_num (env_bus env) (env_ready env) (env_r1 env) (env_r2 env)
                     (env_mask env) (lro s, fe_regs s)
      in s\<lparr>lro := l, fe_regs := d\<rparr>)"

text \<open>Dropping the session's references: the socket's mark is cleared first.\<close>

definition ref_dec :: "u64 \<Rightarrow> (u64 \<Rightarrow> int) \<Rightarrow> u64 \<Rightarrow> int" where
  "ref_dec p r = (if p = 0 then r else r(p := r p - 1))"

definition ref_inc :: "u64 \<Rightarrow> (u64 \<Rightarrow> int) \<Rightarrow> u64 \<Rightarrow> int" where
  "ref_inc p r = (if p = 0 then r else r(p := r p + 1))"

definition drop_refs :: "nat \<Rightarrow> ('h, 'd) difc \<Rightarrow> ('h, 'd) difc" where
  "drop_refs k s =
     (let lo = dynamic_ifc_ety s ! k;
          s = s\<lparr>sk_mark_of := (if lo_sk lo = 0 then sk_mark_of s else (sk_mark_of s)(lo_sk lo := 0)),
                sk_ref := ref_dec (lo_sk lo) (sk_ref s),
                dst_ref := ref_dec (rx_dst lo) (ref_dec (tx_dst lo) (dst_ref s))\<rparr>
      in upd_ety k (\<lambda>lo. lo\<lparr>lo_sk := 0, tx_dst := 0, rx_dst := 0\<rparr>) s)"

definition time_before :: "u64 \<Rightarrow> u64 \<Rightarrow> bool" where
  "time_before a b \<longleftrightarrow> sint (a - b) < 0"

definition dynamic_ifc_timeout :: "('h, 'd) difc_env \<Rightarrow> u64 \<Rightarrow> nat \<Rightarrow> ('h, 'd) difc \<Rightarrow> ('h, 'd) difc" where
  "dynamic_ifc_timeout env jiffies k s =
     (let s = upd_ety k (\<lambda>lo. lo\<lparr>age_timer := None\<rparr>) s;
          e = dynamic_ifc_ety s ! k
      in if \<not> valid e then s
         else if time_before jiffies (last_tx e + env_HZ env)
         then upd_ety k (\<lambda>lo. lo\<lparr>age_timer := Some (jiffies + env_HZ env)\<rparr>) s
         else
           let s = (if ifc_valid e then dynamic_ifc_del_ifc env k s else s);
               s = upd_ety k (\<lambda>lo. lo\<lparr>timer_active := False\<rparr>) s;
               s = drop_refs k s;
               s = upd_ety k (\<lambda>lo. lo\<lparr>valid := False\<rparr>) s
           in if \<exists>i\<in>set [0..<MAX_DYNAMIC_IFC_NUM]. valid (dynamic_ifc_ety s ! i) then s
              else difc_lro_restore env s)"

definition difc_add_entry_from_sock ::
  "('h, 'd) difc_env \<Rightarrow> u64 \<Rightarrow> u64 \<Rightarrow> u16 \<Rightarrow> u16 \<Rightarrow> ('h, 'd) difc \<Rightarrow> ('h, 'd) difc" where
  "difc_add_entry_from_sock env jiffies skp sport dport s =
     (if find_dynamic_ifc_ety_by_port (dynamic_ifc_ety s) sport dport \<noteq> None then s
      else case find (\<lambda>i. \<not> valid (dynamic_ifc_ety s ! i)) [0..<MAX_DYNAMIC_IFC_NUM] of
             None \<Rightarrow> s
           | Some k \<Rightarrow>
               let s = upd_ety k (\<lambda>lo. lo\<lparr>local_port := sport, remote_port := dport, tx_dst := 0,
                         rx_dst := 0, lo_hash := 0, last_tx := jiffies, lo_sk := skp, skip_copy := False,
                         ifc_valid := False, ifc_index := 0, ring_id := 0, timer_active := True\<rparr>)
                       (s\<lparr>sk_ref := ref_inc skp (sk_ref s)\<rparr>);
                   s = difc_lro_save env s;
                   s = upd_ety k (\<lambda>lo. lo\<lparr>age_timer := Some (jiffies + env_HZ env)\<rparr>) s
               in upd_ety k (\<lambda>lo. lo\<lparr>valid := True\<rparr>) s)"

text \<open>\<open>dst\<close> is the packet's route, \<open>hash\<close> its flow hash, \<open>crsn\<close> the CPU reason by the installed
  callback, \<open>raw_hash\<close> the word the reason is otherwise read from.\<close>

definition cpu_reason_of :: "int option \<Rightarrow> u32 \<Rightarrow> int" where
  "cpu_reason_of crsn raw_hash =
     (case crsn of Some c \<Rightarrow> c | None \<Rightarrow> uint (drop_bit 27 (raw_hash AND push_bit 27 0x1F)))"

definition set_rx_dst :: "nat \<Rightarrow> u64 \<Rightarrow> ('h, 'd) difc \<Rightarrow> ('h, 'd) difc" where
  "set_rx_dst k dst s =
     (let lo = dynamic_ifc_ety s ! k in
      if dst \<noteq> 0 \<and> rx_dst lo \<noteq> dst
      then upd_ety k (\<lambda>lo. lo\<lparr>rx_dst := dst\<rparr>)
             (s\<lparr>dst_ref := ref_dec (rx_dst lo) (ref_inc dst (dst_ref s))\<rparr>)
      else s)"

definition difc_handle_tcp_do_rcv ::
  "('h, 'd) difc_env \<Rightarrow> u64 \<Rightarrow> u32 \<Rightarrow> int option \<Rightarrow> u32 \<Rightarrow> u16 \<Rightarrow> u16 \<Rightarrow> ('h, 'd) difc \<Rightarrow> ('h, 'd) difc" where
  "difc_handle_tcp_do_rcv env dst hash crsn raw_hash sport dport s =
     (case find_dynamic_ifc_ety_by_port (dynamic_ifc_ety s) sport dport of
        None \<Rightarrow> s
      | Some k \<Rightarrow>
          if \<not> valid (dynamic_ifc_ety s ! k) then s
          else
            let s = set_rx_dst k dst s;
                s = upd_ety k (\<lambda>lo. lo\<lparr>lo_hash := ucast (hash AND 0xFFFF)\<rparr>) s;
                lo = dynamic_ifc_ety s ! k
            in if ifc_valid lo then s
               else if cpu_reason_of crsn raw_hash \<noteq> env_rate_reached env then s
               else
                 let s = (if \<not> skip_copy lo \<and> lo_sk lo \<noteq> 0
                          then upd_ety k (\<lambda>lo. lo\<lparr>skip_copy := True\<rparr>)
                                 (s\<lparr>sk_mark_of := (sk_mark_of s)(lo_sk lo := SK_MARK_LOCAL_OFFLOAD)\<rparr>)
                          else s)
                 in snd (dynamic_ifc_add_ifc env k s))"

text \<open>The session part of the transmit path: refresh the route and the time of the last packet.\<close>

definition difc_local_out_session ::
  "u64 \<Rightarrow> u64 \<Rightarrow> u16 \<Rightarrow> u16 \<Rightarrow> ('h, 'd) difc \<Rightarrow> bool \<times> ('h, 'd) difc" where
  "difc_local_out_session jiffies dst sport dport s =
     (case find_dynamic_ifc_ety_by_port (dynamic_ifc_ety s) sport dport of
        None \<Rightarrow> (False, s)
      | Some k \<Rightarrow>
          let lo = dynamic_ifc_ety s ! k;
              s = (if dst \<noteq> 0 \<and> tx_dst lo \<noteq> dst
                   then upd_ety k (\<lambda>lo. lo\<lparr>tx_dst := dst\<rparr>)
                          (s\<lparr>dst_ref := ref_dec (tx_dst lo) (ref_inc dst (dst_ref s))\<rparr>)
                   else s)
          in (True, upd_ety k (\<lambda>lo. lo\<lparr>last_tx := jiffies\<rparr>) s))"

definition cleanup_session :: "('h, 'd) difc_env \<Rightarrow> nat \<Rightarrow> ('h, 'd) difc \<Rightarrow> ('h, 'd) difc" where
  "cleanup_session env k s =
     (let lo = dynamic_ifc_ety s ! k in
      if \<not> valid lo then s
      else let s = (if ifc_valid lo then dynamic_ifc_del_ifc env k s else s);
               s = drop_refs k s
           in upd_ety k (\<lambda>lo. lo\<lparr>valid := False, skip_copy := False\<rparr>) s)"

definition stop_timer :: "nat \<Rightarrow> ('h, 'd) difc \<Rightarrow> ('h, 'd) difc" where
  "stop_timer k s =
     (let lo = dynamic_ifc_ety s ! k in
      if valid lo \<and> timer_active lo
      then upd_ety k (\<lambda>lo. lo\<lparr>timer_active := False, age_timer := None\<rparr>) s
      else s)"

definition dynamic_ifc_cleanup_all_sessions :: "('h, 'd) difc_env \<Rightarrow> ('h, 'd) difc \<Rightarrow> ('h, 'd) difc" where
  "dynamic_ifc_cleanup_all_sessions env s =
     difc_lro_restore env
       (fold (cleanup_session env) [0..<MAX_DYNAMIC_IFC_NUM]
         (fold stop_timer [0..<MAX_DYNAMIC_IFC_NUM] s))"

end
