(* ===== verification/DynIfcInv.thy ===== *)
theory DynIfcInv
  imports DynIfc
begin

text \<open>
  The invariant of the dynamic-IFC session table, piece by piece: dedicated rings are never
  shared, no two sessions have the same ports, every live session has an armed timer, the
  reference counts are exactly what the table holds, the classifier holds exactly the rules of
  the offloaded sessions, and the LRO limit is overridden exactly while a session is live.
\<close>

section \<open>The classifier's contract\<close>

text \<open>\<open>rules\<close> views the port rules this module has installed.\<close>

locale ifc_engine =
  fixes hook :: "ifc_call \<Rightarrow> 'h \<Rightarrow> int \<times> int \<times> 'h" and rules :: "'h \<Rightarrow> ifc_param set"
  assumes set_rule: "hook (IFC_SET_LUT_RULE_AUTO p) h = (ret, v, h') \<Longrightarrow>
          rules h' = (if ret = ECNT_HOOK_ERROR \<or> (word_of_int v :: u32) = 0 \<or>
                         (word_of_int v :: u32) = word_of_int ECNT_HOOK_ERROR
                      then rules h else insert p (rules h))"
    and del_rule: "hook (IFC_DEL_LUT_RULE_AUTO p) h = (ret, v, h') \<Longrightarrow> rules h' = rules h - {p}"
    and act_rule: "hook (IFC_SET_ACTION i a m v0 v1 v2 v3) h = (ret, v, h') \<Longrightarrow> rules h' = rules h"

section \<open>The pieces\<close>

definition ring_inv :: "dynamic_ifc list \<Rightarrow> int list \<Rightarrow> bool" where
  "ring_inv ety ring \<longleftrightarrow> length ety = 8 \<and> length ring = 4 \<and>
     (\<forall>i<4. ring ! i \<noteq> - 1 \<longrightarrow>
        (\<exists>e<8. ring ! i = int e \<and> ifc_valid (ety ! e) \<and> ring_id (ety ! e) = 12 + int i)) \<and>
     (\<forall>e<8. ifc_valid (ety ! e) \<longrightarrow> valid (ety ! e) \<and> ifc_index (ety ! e) \<noteq> 0 \<and>
        (ring_id (ety ! e) = 1 \<or> (\<exists>i<4. ring_id (ety ! e) = 12 + int i \<and> ring ! i = int e)))"

definition ports_inv :: "dynamic_ifc list \<Rightarrow> bool" where
  "ports_inv ety \<longleftrightarrow> (\<forall>i<8. \<forall>j<8. valid (ety ! i) \<and> valid (ety ! j) \<and>
     local_port (ety ! i) = local_port (ety ! j) \<and> remote_port (ety ! i) = remote_port (ety ! j) \<longrightarrow> i = j)"

definition timer_inv :: "dynamic_ifc list \<Rightarrow> bool" where
  "timer_inv ety \<longleftrightarrow> (\<forall>i<8. valid (ety ! i) \<longrightarrow> timer_active (ety ! i) \<and> age_timer (ety ! i) \<noteq> None)"

definition held_refs :: "('a \<Rightarrow> u64) \<Rightarrow> 'a list \<Rightarrow> u64 \<Rightarrow> int" where
  "held_refs f ety x = sum_list (map (\<lambda>lo. of_bool (f lo = x)) ety)"

text \<open>\<open>bs\<close>, \<open>bd\<close>: the counts without this module's references.\<close>

definition refs_inv ::
  "(u64 \<Rightarrow> int) \<Rightarrow> (u64 \<Rightarrow> int) \<Rightarrow> dynamic_ifc list \<Rightarrow> (u64 \<Rightarrow> int) \<Rightarrow> (u64 \<Rightarrow> int) \<Rightarrow> bool" where
  "refs_inv bs bd ety sr dr \<longleftrightarrow>
     (\<forall>x. x \<noteq> 0 \<longrightarrow> sr x = bs x + held_refs lo_sk ety x \<and>
                   dr x = bd x + held_refs rx_dst ety x + held_refs tx_dst ety x) \<and>
     (\<forall>i<8. \<not> valid (ety ! i) \<longrightarrow> lo_sk (ety ! i) = 0 \<and> rx_dst (ety ! i) = 0 \<and> tx_dst (ety ! i) = 0)"

definition offloaded_rules :: "dynamic_ifc list \<Rightarrow> ifc_param set" where
  "offloaded_rules ety = {session_rule (ety ! i) |i. i < 8 \<and> ifc_valid (ety ! i)}"

definition some_valid :: "dynamic_ifc list \<Rightarrow> bool" where
  "some_valid ety \<longleftrightarrow> (\<exists>i<8. valid (ety ! i))"

section \<open>One entry changes\<close>

lemma ring_inv_upd:
  assumes "ring_inv ety ring" and "k < 8"
    and "ifc_valid lo = ifc_valid (ety ! k)" and "ifc_valid lo \<Longrightarrow> valid lo \<and> ifc_index lo \<noteq> 0"
    and "ifc_valid lo \<Longrightarrow> ring_id lo = ring_id (ety ! k)"
  shows "ring_inv (ety[k := lo]) ring"
  unfolding ring_inv_def
proof (intro conjI allI impI)
  show "length (ety[k := lo]) = 8" "length ring = 4" using assms(1) by (simp_all add: ring_inv_def)
  have len: "length ety = 8" using assms(1) by (simp add: ring_inv_def)
  have v: "ifc_valid (ety[k := lo] ! e) = ifc_valid (ety ! e)" if "e < 8" for e
    using assms(3) len that by (cases "e = k") simp_all
  have r: "ifc_valid (ety ! e) \<Longrightarrow> ring_id (ety[k := lo] ! e) = ring_id (ety ! e)" if "e < 8" for e
    using assms(3,5) len that by (cases "e = k") simp_all
  show "\<exists>e<8. ring ! i = int e \<and> ifc_valid (ety[k := lo] ! e) \<and> ring_id (ety[k := lo] ! e) = 12 + int i"
    if "i < 4" "ring ! i \<noteq> - 1" for i
    using assms(1) that v r by (metis ring_inv_def)
  fix e :: nat assume e: "e < 8" "ifc_valid (ety[k := lo] ! e)"
  show "valid (ety[k := lo] ! e)" "ifc_index (ety[k := lo] ! e) \<noteq> 0"
    using assms e v len by (cases "e = k"; simp add: ring_inv_def)+
  show "ring_id (ety[k := lo] ! e) = 1 \<or>
      (\<exists>i<4. ring_id (ety[k := lo] ! e) = 12 + int i \<and> ring ! i = int e)"
    using assms(1) e v r by (metis ring_inv_def)
qed

lemma ports_inv_upd:
  assumes "ports_inv ety" and "length ety = 8" and "k < 8"
    and "valid lo \<Longrightarrow> valid (ety ! k) \<and> local_port lo = local_port (ety ! k) \<and> remote_port lo = remote_port (ety ! k)"
  shows "ports_inv (ety[k := lo])"
  using assms unfolding ports_inv_def by (auto simp: nth_list_update)

lemma timer_inv_upd:
  "timer_inv ety \<Longrightarrow> length ety = 8 \<Longrightarrow> k < 8 \<Longrightarrow> (valid lo \<Longrightarrow> timer_active lo \<and> age_timer lo \<noteq> None) \<Longrightarrow>
     timer_inv (ety[k := lo])"
  unfolding timer_inv_def by (auto simp: nth_list_update)

lemma sum_list_upd:
  "k < length xs \<Longrightarrow> sum_list (xs[k := y]) = sum_list xs - xs ! k + (y :: int)"
  by (induction xs arbitrary: k) (auto split: nat.splits)

lemma held_refs_upd:
  "k < length ety \<Longrightarrow> held_refs f (ety[k := lo]) x =
     held_refs f ety x - of_bool (f (ety ! k) = x) + of_bool (f lo = x)"
  by (simp add: held_refs_def map_update sum_list_upd)

lemma offloaded_rules_upd:
  assumes "length ety = 8" and "k < 8"
    and "ifc_valid lo = ifc_valid (ety ! k)" and "session_rule lo = session_rule (ety ! k)"
  shows "offloaded_rules (ety[k := lo]) = offloaded_rules ety"
  using assms unfolding offloaded_rules_def by (auto simp: nth_list_update)

lemma some_valid_upd:
  "length ety = 8 \<Longrightarrow> k < 8 \<Longrightarrow>
     some_valid (ety[k := lo]) \<longleftrightarrow> valid lo \<or> (\<exists>i<8. i \<noteq> k \<and> valid (ety ! i))"
  unfolding some_valid_def by (auto simp: nth_list_update)

lemma some_valid_same:
  "length ety = 8 \<Longrightarrow> k < 8 \<Longrightarrow> valid lo = valid (ety ! k) \<Longrightarrow> some_valid (ety[k := lo]) = some_valid ety"
  unfolding some_valid_def by (auto simp: nth_list_update)

section \<open>Rings\<close>

lemma ring_no_stale:
  assumes "ring_inv ety ring" and "k < 8" and "\<not> ifc_valid (ety ! k)" and "i < 4"
  shows "\<not> (ring ! i = int k \<or> (ring ! i \<noteq> - 1 \<and> ring_stale ety (ring ! i)))"
proof (cases "ring ! i = - 1")
  case True
  then show ?thesis using assms(2) by simp
next
  case False
  then obtain e where e: "e < 8" "ring ! i = int e" "ifc_valid (ety ! e)"
    using assms(1,4) by (auto simp: ring_inv_def)
  then have "valid (ety ! e)" using assms(1) by (auto simp: ring_inv_def)
  then show ?thesis using e assms(3) by (auto simp: ring_stale_def)
qed

lemma get_free_ring:
  assumes inv: "ring_inv ety ring" and k: "k < 8" "\<not> ifc_valid (ety ! k)"
  shows "ifc_get_free_lro_ring ety (int k) ring =
     (case find (\<lambda>i. ring ! i = - 1) [0..<4] of
        Some i \<Rightarrow> (12 + int i, ring[i := int k]) | None \<Rightarrow> (1, ring))"
proof -
  have "find (\<lambda>i. ring ! i = int k \<or> (ring ! i \<noteq> - 1 \<and> ring_stale ety (ring ! i))) [0..<4] = None"
    using ring_no_stale [OF assms] by (simp add: find_upt_None)
  then show ?thesis by (simp add: ifc_get_free_lro_ring_def)
qed

lemma release_absent:
  "(\<And>i. i < 4 \<Longrightarrow> ring ! i \<noteq> int k) \<Longrightarrow> ifc_release_lro_ring (int k) ring = ring"
  by (simp add: ifc_release_lro_ring_def find_upt_None [THEN iffD2])

lemma ring_owner_unique:
  "ring_inv ety ring \<Longrightarrow> i < 4 \<Longrightarrow> j < 4 \<Longrightarrow> ring ! i = int e \<Longrightarrow> ring ! j = int e \<Longrightarrow> i = j"
  unfolding ring_inv_def by (metis add_left_cancel neg_0_le_iff_le not_one_le_zero of_nat_0_le_iff of_nat_eq_iff)

lemma get_free_release:
  assumes inv: "ring_inv ety ring" and k: "k < 8" "\<not> ifc_valid (ety ! k)"
    and g: "ifc_get_free_lro_ring ety (int k) ring = (r, ring')"
  shows "ifc_release_lro_ring (int k) ring' = ring"
proof -
  have no: "ring ! i \<noteq> int k" if "i < 4" for i using ring_no_stale [OF inv k that] by simp
  show ?thesis
  proof (cases "find (\<lambda>i. ring ! i = - 1) [0..<4]")
    case None
    then show ?thesis using g no by (simp add: get_free_ring [OF inv k] release_absent)
  next
    case (Some i)
    then have i: "i < 4" "ring ! i = - 1" using find_upt_SomeD [OF Some] by auto
    have len: "length ring = 4" using inv by (simp add: ring_inv_def)
    have r': "ring' = ring[i := int k]" using g Some by (simp add: get_free_ring [OF inv k])
    have "find (\<lambda>j. ring[i := int k] ! j = int k) [0..<4] = Some i"
      unfolding find_upt_Some using i len no by (auto simp: nth_list_update)
    then show ?thesis using i by (simp add: ifc_release_lro_ring_def r' list_update_same_conv len)
  qed
qed

lemma ring_inv_add:
  assumes inv: "ring_inv ety ring" and k: "k < 8" "\<not> ifc_valid (ety ! k)"
    and g: "ifc_get_free_lro_ring ety (int k) ring = (r, ring')"
    and lo: "ifc_valid lo" "valid lo" "ifc_index lo \<noteq> 0" "ring_id lo = r"
  shows "ring_inv (ety[k := lo]) ring'"
proof -
  have len: "length ety = 8" "length ring = 4" using inv by (simp_all add: ring_inv_def)
  have no: "ring ! i \<noteq> int k" if "i < 4" for i using ring_no_stale [OF inv k that] by simp
  have old: "e < 8 \<and> e \<noteq> k" if "ring ! i = int e" "i < 4" for i e
    using no [OF that(2)] inv that by (auto simp: ring_inv_def)
  show ?thesis
  proof (cases "find (\<lambda>i. ring ! i = - 1) [0..<4]")
    case None
    then have g': "r = 1" "ring' = ring" using g by (simp_all add: get_free_ring [OF inv k])
    show ?thesis unfolding ring_inv_def g'
    proof (intro conjI allI impI)
      fix j assume j: "j < (4::nat)" "ring ! j \<noteq> - 1"
      then obtain e where "e < 8" "ring ! j = int e" "ifc_valid (ety ! e)" "ring_id (ety ! e) = 12 + int j"
        using inv by (auto simp: ring_inv_def)
      then show "\<exists>e<8. ring ! j = int e \<and> ifc_valid (ety[k := lo] ! e) \<and> ring_id (ety[k := lo] ! e) = 12 + int j"
        using old [of j e] j by (intro exI [of _ e]) simp
    next
      fix e assume e: "e < (8::nat)" "ifc_valid (ety[k := lo] ! e)"
      show "valid (ety[k := lo] ! e)" "ifc_index (ety[k := lo] ! e) \<noteq> 0"
        using e inv lo len by (cases "e = k"; simp add: ring_inv_def)+
      show "ring_id (ety[k := lo] ! e) = 1 \<or>
          (\<exists>j<4. ring_id (ety[k := lo] ! e) = 12 + int j \<and> ring ! j = int e)"
        using e inv lo len g'(1) by (cases "e = k") (simp_all add: ring_inv_def)
    qed (use len in simp_all)
  next
    case (Some i)
    then have i: "i < 4" "ring ! i = - 1" using find_upt_SomeD [OF Some] by auto
    have g': "r = 12 + int i" "ring' = ring[i := int k]" using g Some by (simp_all add: get_free_ring [OF inv k])
    show ?thesis unfolding ring_inv_def
    proof (intro conjI allI impI)
      fix j assume j: "j < (4::nat)" "ring' ! j \<noteq> - 1"
      show "\<exists>e<8. ring' ! j = int e \<and> ifc_valid (ety[k := lo] ! e) \<and> ring_id (ety[k := lo] ! e) = 12 + int j"
      proof (cases "j = i")
        case True
        then show ?thesis using k lo g' i len by (intro exI [of _ k]) simp
      next
        case False
        then obtain e where "e < 8" "ring ! j = int e" "ifc_valid (ety ! e)" "ring_id (ety ! e) = 12 + int j"
          using inv j g' by (auto simp: ring_inv_def)
        then show ?thesis using False old [of j e] j len by (intro exI [of _ e]) (simp add: g')
      qed
    next
      fix e assume e: "e < (8::nat)" "ifc_valid (ety[k := lo] ! e)"
      show "valid (ety[k := lo] ! e)" "ifc_index (ety[k := lo] ! e) \<noteq> 0"
        using e inv lo len by (cases "e = k"; simp add: ring_inv_def)+
      show "ring_id (ety[k := lo] ! e) = 1 \<or>
          (\<exists>j<4. ring_id (ety[k := lo] ! e) = 12 + int j \<and> ring' ! j = int e)"
      proof (cases "e = k")
        case True
        then show ?thesis using i g' lo len k by auto
      next
        case False
        then have "ring_id (ety ! e) = 1 \<or> (\<exists>j<4. ring_id (ety ! e) = 12 + int j \<and> ring ! j = int e)"
          using inv e by (auto simp: ring_inv_def)
        moreover have "ring' ! j = int e" if "ring ! j = int e" for j
          using that i(2) g'(2) by (cases "j = i") simp_all
        ultimately show ?thesis using False by auto
      qed
    qed (use len g' in simp_all)
  qed
qed

lemma ring_inv_del:
  assumes inv: "ring_inv ety ring" and k: "k < 8" and lo: "\<not> ifc_valid lo"
  shows "ring_inv (ety[k := lo]) (ifc_release_lro_ring (int k) ring)"
proof -
  let ?r = "ifc_release_lro_ring (int k) ring"
  have len: "length ety = 8" "length ring = 4" using inv by (simp_all add: ring_inv_def)
  have rel: "?r ! j = (if ring ! j = int k then - 1 else ring ! j)" if j: "j < 4" for j
  proof (cases "find (\<lambda>i. ring ! i = int k) [0..<4]")
    case None
    then have "ring ! j \<noteq> int k" using j by (simp add: find_upt_None)
    then show ?thesis using None by (simp add: ifc_release_lro_ring_def)
  next
    case (Some i)
    then have i: "i < 4" "ring ! i = int k" using find_upt_SomeD [OF Some] by auto
    have "ring ! j = int k \<longleftrightarrow> j = i" using ring_owner_unique [OF inv j i(1)] i(2) by auto
    then show ?thesis using Some i j len by (simp add: ifc_release_lro_ring_def nth_list_update)
  qed
  show ?thesis unfolding ring_inv_def
  proof (intro conjI allI impI)
    fix j assume j: "j < (4::nat)" "?r ! j \<noteq> - 1"
    then have ne: "ring ! j \<noteq> int k" "ring ! j \<noteq> - 1" using rel by auto
    then obtain e where "e < 8" "ring ! j = int e" "ifc_valid (ety ! e)" "ring_id (ety ! e) = 12 + int j"
      using inv j by (auto simp: ring_inv_def)
    then show "\<exists>e<8. ?r ! j = int e \<and> ifc_valid (ety[k := lo] ! e) \<and> ring_id (ety[k := lo] ! e) = 12 + int j"
      using ne rel [OF j(1)] by (intro exI [of _ e]) auto
  next
    fix e assume e: "e < (8::nat)" "ifc_valid (ety[k := lo] ! e)"
    then have ne: "e \<noteq> k" using lo len k by auto
    then show "valid (ety[k := lo] ! e)" "ifc_index (ety[k := lo] ! e) \<noteq> 0"
      using e inv by (simp_all add: ring_inv_def)
    have "ring_id (ety ! e) = 1 \<or> (\<exists>j<4. ring_id (ety ! e) = 12 + int j \<and> ring ! j = int e)"
      using inv e ne by (simp add: ring_inv_def)
    then show "ring_id (ety[k := lo] ! e) = 1 \<or>
        (\<exists>j<4. ring_id (ety[k := lo] ! e) = 12 + int j \<and> ?r ! j = int e)"
      using ne rel by auto
  qed (use len in \<open>simp_all add: ifc_release_lro_ring_def split: option.splits\<close>)
qed

text \<open>Port pairs determine rules.\<close>

lemma ntohs_inj: "ntohs a = ntohs b \<longleftrightarrow> a = b"
proof
  have inv: "ntohs (ntohs w) = w" for w
    by (rule bit_word_eqI) (auto simp: ntohs_def bit_simps dest: bit_imp_le_length)
  show "ntohs a = ntohs b \<Longrightarrow> a = b" by (metis inv)
qed simp

lemma ucast_u16_inj: "(ucast (a :: u16) :: u32) = ucast b \<longleftrightarrow> a = b"
proof
  assume e: "(ucast a :: u32) = ucast b"
  have "bit (ucast a :: u32) n = bit a n" for n
    by (auto simp: bit_simps dest: bit_imp_le_length)
  moreover have "bit (ucast b :: u32) n = bit b n" for n
    by (auto simp: bit_simps dest: bit_imp_le_length)
  ultimately show "a = b" using e by (intro bit_word_eqI) metis
qed simp

lemma session_rule_eq:
  "session_rule a = session_rule b \<longleftrightarrow> local_port a = local_port b \<and> remote_port a = remote_port b"
  by (simp add: session_rule_def ucast_u16_inj ntohs_inj)

lemma offloaded_rules_add:
  assumes "length ety = 8" and "k < 8" and "\<not> ifc_valid (ety ! k)" and "ifc_valid lo"
  shows "offloaded_rules (ety[k := lo]) = insert (session_rule lo) (offloaded_rules ety)"
  using assms unfolding offloaded_rules_def by (auto simp: nth_list_update)

lemma offloaded_rules_del:
  assumes "length ety = 8" and "k < 8" and "ifc_valid (ety ! k)" and "\<not> ifc_valid lo"
    and "ports_inv ety" and "ring_inv ety ring"
  shows "offloaded_rules (ety[k := lo]) = offloaded_rules ety - {session_rule (ety ! k)}"
proof -
  have v: "valid (ety ! i)" if "i < 8" "ifc_valid (ety ! i)" for i
    using assms(6) that by (simp add: ring_inv_def)
  have inj: "session_rule (ety ! i) \<noteq> session_rule (ety ! k)" if "i < 8" "ifc_valid (ety ! i)" "i \<noteq> k" for i
    using assms(2,3,5) that v unfolding session_rule_eq ports_inv_def by metis
  have "offloaded_rules (ety[k := lo]) = {session_rule (ety ! i) |i. i < 8 \<and> i \<noteq> k \<and> ifc_valid (ety ! i)}"
    using assms(1,2,4) unfolding offloaded_rules_def by (auto simp: nth_list_update)
  then show ?thesis using inj unfolding offloaded_rules_def by auto
qed

section \<open>The world of the module\<close>

locale difc_world = ifc_engine "env_hook env" rules + plain_regs "env_bus env" peek
  for env :: "('h, 'd) difc_env" and rules :: "'h \<Rightarrow> ifc_param set" and peek :: "'d \<Rightarrow> u32 \<Rightarrow> u32" +
  assumes ready: "env_ready env" and two_regs: "env_r1 env \<noteq> env_r2 env"
begin

sublocale lro: agg_override peek "env_r1 env" "env_r2 env" "env_mask env"
    "lro_save_and_set_agg_num (env_bus env) True (env_r1 env) (env_r2 env) (env_mask env)"
    "lro_restore_agg_num (env_bus env) True (env_r1 env) (env_r2 env) (env_mask env)"
  by (rule lro_difc_override) (rule two_regs)

text \<open>\<open>t\<close> is the register file before the first override.\<close>

definition parts_core where
  "parts_core bs bd ety ring hw hook sr dr \<longleftrightarrow>
     ring_inv ety ring \<and> ports_inv ety \<and> refs_inv bs bd ety sr dr \<and>
     rules hw = offloaded_rules ety \<and> (offloaded_rules ety \<noteq> {} \<longrightarrow> hook)"

definition lro_inv where
  "lro_inv t ety l d \<longleftrightarrow> lro.held t (l, d) \<and> (lro_agg_num_saved l \<longleftrightarrow> some_valid ety)"

definition difc_inv :: "(u32 \<Rightarrow> u32) \<Rightarrow> (u64 \<Rightarrow> int) \<Rightarrow> (u64 \<Rightarrow> int) \<Rightarrow> ('h, 'd) difc \<Rightarrow> bool" where
  "difc_inv t bs bd s \<longleftrightarrow>
     parts_core bs bd (dynamic_ifc_ety s) (ifc_ring_reserve s) (ifc_hw s) (hook_fn s) (sk_ref s) (dst_ref s) \<and>
     timer_inv (dynamic_ifc_ety s) \<and> lro_inv t (dynamic_ifc_ety s) (lro s) (fe_regs s)"

lemma api_set:
  assumes "DIFC_API_SET_LUT_RULE_AUTO env True p h = (v, h')"
  shows "rules h' = (if (word_of_int v :: u32) = 0 \<or> (word_of_int v :: u32) = word_of_int ECNT_HOOK_ERROR
                     then rules h else insert p (rules h))"
proof -
  obtain ret rv h1 where e: "env_hook env (IFC_SET_LUT_RULE_AUTO p) h = (ret, rv, h1)" by (rule prod_cases3)
  show ?thesis using assms set_rule [OF e] e
    by (cases "ret = - 1") (auto simp: DIFC_API_SET_LUT_RULE_AUTO_def DIFC_API_def)
qed

lemma api_del: "rules (snd (DIFC_API_DEL_LUT_RULE_AUTO env True p h)) = rules h - {p}"
proof -
  obtain ret rv h1 where e: "env_hook env (IFC_DEL_LUT_RULE_AUTO p) h = (ret, rv, h1)" by (rule prod_cases3)
  show ?thesis using del_rule [OF e] e by (simp add: DIFC_API_DEL_LUT_RULE_AUTO_def DIFC_API_def)
qed

lemma api_act: "DIFC_API_SET_ACTION env True i a m v0 v1 v2 v3 h = (v, h') \<Longrightarrow> rules h' = rules h"
proof -
  obtain ret rv h1 where e: "env_hook env (IFC_SET_ACTION i a m v0 v1 v2 v3) h = (ret, rv, h1)"
    by (rule prod_cases3)
  assume "DIFC_API_SET_ACTION env True i a m v0 v1 v2 v3 h = (v, h')"
  then show ?thesis using act_rule [OF e] e by (simp add: DIFC_API_SET_ACTION_def DIFC_API_def)
qed

lemma core_len: "parts_core bs bd ety ring hw hook sr dr \<Longrightarrow> length ety = 8"
  by (simp add: parts_core_def ring_inv_def)

lemma core_valid:
  "parts_core bs bd ety ring hw hook sr dr \<Longrightarrow> k < 8 \<Longrightarrow> ifc_valid (ety ! k) \<Longrightarrow>
     valid (ety ! k) \<and> ifc_index (ety ! k) \<noteq> 0 \<and> hook"
  by (auto simp: parts_core_def ring_inv_def offloaded_rules_def)

text \<open>A change of one entry that keeps its identity and its references.\<close>

definition same_session :: "dynamic_ifc \<Rightarrow> dynamic_ifc \<Rightarrow> bool" where
  "same_session a b \<longleftrightarrow> valid a = valid b \<and> local_port a = local_port b \<and>
     remote_port a = remote_port b \<and> lo_sk a = lo_sk b \<and> rx_dst a = rx_dst b \<and> tx_dst a = tx_dst b"

lemma refs_inv_same:
  "refs_inv bs bd ety sr dr \<Longrightarrow> length ety = 8 \<Longrightarrow> k < 8 \<Longrightarrow> same_session lo (ety ! k) \<Longrightarrow>
     refs_inv bs bd (ety[k := lo]) sr dr"
  by (auto simp: refs_inv_def held_refs_upd nth_list_update same_session_def)

lemma core_touch:
  assumes P: "parts_core bs bd ety ring hw hook sr dr" and k: "k < 8"
    and same: "same_session lo (ety ! k)" "ifc_valid lo = ifc_valid (ety ! k)"
    and ifc: "ifc_valid lo \<Longrightarrow> ring_id lo = ring_id (ety ! k) \<and> ifc_index lo = ifc_index (ety ! k)"
    and hw: "rules hw' = rules hw"
  shows "parts_core bs bd (ety[k := lo]) ring hw' hook sr dr"
proof -
  note len = core_len [OF P]
  have ring: "ring_inv (ety[k := lo]) ring"
    using P k same ifc core_valid [OF P k]
    by (intro ring_inv_upd) (auto simp: parts_core_def same_session_def)
  have ports: "ports_inv (ety[k := lo])"
    using P k same len by (intro ports_inv_upd) (auto simp: parts_core_def same_session_def)
  have "session_rule lo = session_rule (ety ! k)"
    using same by (simp add: session_rule_eq same_session_def)
  then have off: "offloaded_rules (ety[k := lo]) = offloaded_rules ety"
    using offloaded_rules_upd [OF len k same(2)] by simp
  show ?thesis
    using P ring ports off hw refs_inv_same [OF _ len k same(1)] by (simp add: parts_core_def)
qed

lemma core_offload:
  assumes P: "parts_core bs bd ety ring hw hook sr dr" and k: "k < 8"
    and v: "valid (ety ! k)" "\<not> ifc_valid (ety ! k)" and hook: "hook"
    and g: "ifc_get_free_lro_ring ety (int k) ring = (r, ring')"
    and lo: "lo = (ety ! k)\<lparr>ifc_index := idx, ring_id := r, ifc_valid := True\<rparr>" "idx \<noteq> 0"
    and hw: "rules hw' = insert (session_rule (ety ! k)) (rules hw)"
  shows "parts_core bs bd (ety[k := lo]) ring' hw' hook sr dr"
proof -
  note len = core_len [OF P]
  have same: "same_session lo (ety ! k)" by (simp add: same_session_def lo)
  have ring: "ring_inv (ety[k := lo]) ring'"
    using P lo v by (intro ring_inv_add [OF _ k v(2) g]) (auto simp: parts_core_def)
  have ports: "ports_inv (ety[k := lo])"
    using P k same len by (intro ports_inv_upd) (auto simp: parts_core_def same_session_def)
  have "session_rule lo = session_rule (ety ! k)" by (simp add: session_rule_eq lo)
  then have "offloaded_rules (ety[k := lo]) = insert (session_rule (ety ! k)) (offloaded_rules ety)"
    using offloaded_rules_add [OF len k v(2), of lo] lo by simp
  then show ?thesis
    using P ring ports hw hook refs_inv_same [OF _ len k same] by (simp add: parts_core_def)
qed

lemma core_unload:
  assumes P: "parts_core bs bd ety ring hw hook sr dr" and k: "k < 8"
    and v: "ifc_valid (ety ! k)"
    and lo: "lo = (ety ! k)\<lparr>ifc_index := 0, ifc_valid := False, ring_id := 0\<rparr>"
    and hw: "rules hw' = rules hw - {session_rule (ety ! k)}"
  shows "parts_core bs bd (ety[k := lo]) (ifc_release_lro_ring (int k) ring) hw' hook sr dr"
proof -
  note len = core_len [OF P]
  have same: "same_session lo (ety ! k)" by (simp add: same_session_def lo)
  have ring: "ring_inv (ety[k := lo]) (ifc_release_lro_ring (int k) ring)"
    using P lo by (intro ring_inv_del [OF _ k]) (auto simp: parts_core_def)
  have ports: "ports_inv (ety[k := lo])"
    using P k same len by (intro ports_inv_upd) (auto simp: parts_core_def same_session_def)
  have "offloaded_rules (ety[k := lo]) = offloaded_rules ety - {session_rule (ety ! k)}"
    using P k v len lo by (intro offloaded_rules_del [where ring = ring]) (auto simp: parts_core_def)
  then show ?thesis
    using P ring ports hw core_valid [OF P k v] refs_inv_same [OF _ len k same]
    by (simp add: parts_core_def)
qed

text \<open>Giving up an entry that is not offloaded, with its references.\<close>

lemma ref_dec_apply: "x \<noteq> 0 \<Longrightarrow> ref_dec p r x = r x - of_bool (p = x)"
  by (auto simp: ref_dec_def)

lemma ref_inc_apply: "x \<noteq> 0 \<Longrightarrow> ref_inc p r x = r x + of_bool (p = x)"
  by (auto simp: ref_inc_def)

lemma core_release:
  assumes P: "parts_core bs bd ety ring hw hook sr dr" and k: "k < 8"
    and v: "\<not> ifc_valid (ety ! k)" "\<not> ifc_valid lo"
    and lo: "\<not> valid lo" "lo_sk lo = 0" "rx_dst lo = 0" "tx_dst lo = 0"
  shows "parts_core bs bd (ety[k := lo]) ring hw hook (ref_dec (lo_sk (ety ! k)) sr)
           (ref_dec (rx_dst (ety ! k)) (ref_dec (tx_dst (ety ! k)) dr))"
proof -
  note len = core_len [OF P]
  have ring: "ring_inv (ety[k := lo]) ring"
    using P k v by (intro ring_inv_upd) (auto simp: parts_core_def)
  have ports: "ports_inv (ety[k := lo])"
    using P k lo len by (intro ports_inv_upd) (auto simp: parts_core_def)
  have "offloaded_rules (ety[k := lo]) = offloaded_rules ety"
    using len k v unfolding offloaded_rules_def by (auto simp: nth_list_update)
  moreover have "refs_inv bs bd (ety[k := lo]) (ref_dec (lo_sk (ety ! k)) sr)
           (ref_dec (rx_dst (ety ! k)) (ref_dec (tx_dst (ety ! k)) dr))"
    using P len k lo
    by (auto simp: parts_core_def refs_inv_def held_refs_upd ref_dec_apply nth_list_update)
  ultimately show ?thesis using P ring ports by (simp add: parts_core_def)
qed

lemma lro_inv_same:
  "lro_inv t ety l d \<Longrightarrow> length ety = 8 \<Longrightarrow> k < 8 \<Longrightarrow> valid lo = valid (ety ! k) \<Longrightarrow>
     lro_inv t (ety[k := lo]) l d"
  by (simp add: lro_inv_def some_valid_same)

end

end
