(* ===== verification/DynIfcSteps.thy ===== *)
theory DynIfcSteps
  imports DynIfcInv
begin

text \<open>Every handler of the dynamic-IFC module preserves the invariant, and the runs of the module.\<close>

context difc_world
begin

lemma del_ifc_eq:
  assumes "ifc_valid (dynamic_ifc_ety s ! k)" and "ifc_index (dynamic_ifc_ety s ! k) \<noteq> 0" and "hook_fn s"
  shows "\<exists>h. dynamic_ifc_del_ifc env k s = s\<lparr>dynamic_ifc_ety := (dynamic_ifc_ety s)
             [k := (dynamic_ifc_ety s ! k)\<lparr>ifc_index := 0, ifc_valid := False, ring_id := 0\<rparr>],
           ifc_ring_reserve := ifc_release_lro_ring (int k) (ifc_ring_reserve s), ifc_hw := h\<rparr> \<and>
         rules h = rules (ifc_hw s) - {session_rule (dynamic_ifc_ety s ! k)}"
  using assms api_del [of "session_rule (dynamic_ifc_ety s ! k)" "ifc_hw s"]
  by (intro exI [of _ "snd (DIFC_API_DEL_LUT_RULE_AUTO env True (session_rule (dynamic_ifc_ety s ! k)) (ifc_hw s))"],
      cases s) (simp add: dynamic_ifc_del_ifc_def upd_ety_def Let_def)

lemma add_ifc_core:
  assumes P: "parts_core bs bd (dynamic_ifc_ety s) (ifc_ring_reserve s) (ifc_hw s) (hook_fn s) (sk_ref s) (dst_ref s)"
    and k: "k < 8" and a: "dynamic_ifc_add_ifc env k s = (ret, s')"
  shows "\<exists>lo ring h. s' = s\<lparr>dynamic_ifc_ety := (dynamic_ifc_ety s)[k := lo], ifc_ring_reserve := ring, ifc_hw := h\<rparr> \<and>
           same_session lo (dynamic_ifc_ety s ! k) \<and> timer_active lo = timer_active (dynamic_ifc_ety s ! k) \<and>
           age_timer lo = age_timer (dynamic_ifc_ety s ! k) \<and>
           parts_core bs bd ((dynamic_ifc_ety s)[k := lo]) ring h (hook_fn s) (sk_ref s) (dst_ref s)"
proof -
  let ?ety = "dynamic_ifc_ety s" and ?ring = "ifc_ring_reserve s"
  let ?lo = "?ety ! k"
  note len = core_len [OF P]
  have id: ?thesis if "s' = s"
    using that P len k by (intro exI [of _ ?lo] exI [of _ ?ring] exI [of _ "ifc_hw s"])
      (simp add: same_session_def)
  show ?thesis
  proof (cases "\<not> valid ?lo \<or> ifc_valid ?lo \<or> \<not> hook_fn s")
    case True
    then show ?thesis using a id by (auto simp: dynamic_ifc_add_ifc_def Let_def split: if_splits)
  next
    case False
    then have v: "valid ?lo" "\<not> ifc_valid ?lo" and hook: "hook_fn s" by auto
    obtain i h1 where s1: "DIFC_API_SET_LUT_RULE_AUTO env True (session_rule ?lo) (ifc_hw s) = (i, h1)"
      by fastforce
    let ?idx = "word_of_int i :: u32"
    obtain r slots where g: "ifc_get_free_lro_ring (?ety[k := ?lo\<lparr>ifc_index := ?idx\<rparr>]) (int k) ?ring = (r, slots)"
      by fastforce
    obtain ret2 h2 where s2: "DIFC_API_SET_ACTION env True ?idx 14 True 1 (word_of_int r) 0 0 h1 = (ret2, h2)"
      by fastforce
    obtain x h3 where s3: "DIFC_API_DEL_LUT_RULE_AUTO env True (session_rule ?lo) h2 = (x, h3)" by fastforce
    have rules1: "rules h1 = (if ?idx = 0 \<or> ?idx = word_of_int ECNT_HOOK_ERROR then rules (ifc_hw s)
        else insert (session_rule ?lo) (rules (ifc_hw s)))" by (rule api_set [OF s1])
    have rules2: "rules h2 = rules h1" by (rule api_act [OF s2])
    have rules3: "rules h3 = rules h2 - {session_rule ?lo}"
      using api_del [of "session_rule ?lo" h2] s3 by simp
    show ?thesis
    proof (cases "?idx = 0 \<or> ?idx = word_of_int ECNT_HOOK_ERROR")
      case True
      let ?lo' = "?lo\<lparr>ifc_index := 0\<rparr>"
      have "s' = s\<lparr>dynamic_ifc_ety := ?ety[k := ?lo'], ifc_ring_reserve := ?ring, ifc_hw := h1\<rparr>"
        using a v hook s1 True by (auto simp: dynamic_ifc_add_ifc_def Let_def upd_ety_def)
      moreover have "parts_core bs bd (?ety[k := ?lo']) ?ring h1 (hook_fn s) (sk_ref s) (dst_ref s)"
        using True rules1 v by (intro core_touch [OF P k]) (simp_all add: same_session_def)
      ultimately show ?thesis by (intro exI [of _ ?lo'] exI [of _ ?ring] exI [of _ h1])
          (simp add: same_session_def)
    next
      case ok: False
      have P1: "parts_core bs bd (?ety[k := ?lo\<lparr>ifc_index := ?idx\<rparr>]) ?ring (ifc_hw s) (hook_fn s) (sk_ref s) (dst_ref s)"
        using v by (intro core_touch [OF P k]) (simp_all add: same_session_def)
      have k1: "?ety[k := ?lo\<lparr>ifc_index := ?idx\<rparr>] ! k = ?lo\<lparr>ifc_index := ?idx\<rparr>" using k len by simp
      show ?thesis
      proof (cases "ret2 = - 1")
        case True
        have "ring_inv (?ety[k := ?lo\<lparr>ifc_index := ?idx\<rparr>]) ?ring" using P1 by (simp add: parts_core_def)
        then have rel: "ifc_release_lro_ring (int k) slots = ?ring"
          using v k1 by (intro get_free_release [OF _ k _ g]) simp_all
        let ?lo' = "?lo\<lparr>ring_id := r, ifc_index := 0\<rparr>"
        have "s' = s\<lparr>dynamic_ifc_ety := ?ety[k := ?lo'], ifc_ring_reserve := ?ring, ifc_hw := h3\<rparr>"
          using a v hook s1 s2 s3 ok True g rel k len
          by (cases s) (auto simp: dynamic_ifc_add_ifc_def Let_def upd_ety_def)
        moreover have "session_rule ?lo \<notin> rules (ifc_hw s)"
        proof
          assume "session_rule ?lo \<in> rules (ifc_hw s)"
          then obtain j where "j < 8" "ifc_valid (?ety ! j)" "session_rule ?lo = session_rule (?ety ! j)"
            using P by (auto simp: parts_core_def offloaded_rules_def)
          moreover from this have "valid (?ety ! j)" using core_valid [OF P] by blast
          ultimately have "k = j"
            using P k v unfolding parts_core_def ports_inv_def session_rule_eq by blast
          then show False using v \<open>ifc_valid (?ety ! j)\<close> by simp
        qed
        then have "rules h3 = rules (ifc_hw s)" using rules1 rules2 rules3 ok by simp
        then have "parts_core bs bd (?ety[k := ?lo']) ?ring h3 (hook_fn s) (sk_ref s) (dst_ref s)"
          using v by (intro core_touch [OF P k]) (simp_all add: same_session_def)
        ultimately show ?thesis by (intro exI [of _ ?lo'] exI [of _ ?ring] exI [of _ h3])
            (simp add: same_session_def)
      next
        case False
        let ?lo' = "?lo\<lparr>ifc_index := ?idx, ring_id := r, ifc_valid := True\<rparr>"
        have "s' = s\<lparr>dynamic_ifc_ety := ?ety[k := ?lo'], ifc_ring_reserve := slots, ifc_hw := h2\<rparr>"
          using a v hook s1 s2 ok False g k len
          by (auto simp: dynamic_ifc_add_ifc_def Let_def upd_ety_def)
        moreover have "session_rule (?lo\<lparr>ifc_index := ?idx\<rparr>) = session_rule ?lo"
          by (simp add: session_rule_eq)
        then have "parts_core bs bd (?ety[k := ?lo\<lparr>ifc_index := ?idx\<rparr>, k := ?lo']) slots h2 (hook_fn s) (sk_ref s) (dst_ref s)"
          using v hook ok rules1 rules2 k1
          by (intro core_offload [OF P1 k _ _ _ g, where idx = ?idx]) simp_all
        ultimately show ?thesis by (intro exI [of _ ?lo'] exI [of _ slots] exI [of _ h2])
            (simp add: same_session_def)
      qed
    qed
  qed
qed

lemma lro_save_eq:
  "difc_lro_save env s = (let (l, d) = lro_save_and_set_agg_num (env_bus env) True (env_r1 env) (env_r2 env)
       (env_mask env) (lro_agg_num s) (lro s, fe_regs s) in s\<lparr>lro := l, fe_regs := d\<rparr>)"
  by (simp add: difc_lro_save_def ready)

lemma lro_restore_eq:
  "difc_lro_restore env s = (let (l, d) = lro_restore_agg_num (env_bus env) True (env_r1 env) (env_r2 env)
       (env_mask env) (lro s, fe_regs s) in s\<lparr>lro := l, fe_regs := d\<rparr>)"
  by (simp add: difc_lro_restore_def ready)

lemma lro_save_held:
  assumes "lro.held t (lro s, fe_regs s)"
  shows "\<exists>l d. difc_lro_save env s = s\<lparr>lro := l, fe_regs := d\<rparr> \<and> lro.held t (l, d) \<and> lro_agg_num_saved l"
proof -
  obtain l d where e: "lro_save_and_set_agg_num (env_bus env) True (env_r1 env) (env_r2 env)
       (env_mask env) (lro_agg_num s) (lro s, fe_regs s) = (l, d)" by fastforce
  have "lro_agg_num_saved l"
    using lro.save_free [OF _ e] lro.save_held [of "lro s" "lro_agg_num s" "fe_regs s"] e
    by (cases "lro_agg_num_saved (lro s)") auto
  then show ?thesis using lro.held_save [OF assms, of "lro_agg_num s"] e
    by (intro exI [of _ l] exI [of _ d]) (simp add: lro_save_eq)
qed

lemma lro_restore_held:
  assumes "lro.held t (lro s, fe_regs s)"
  shows "\<exists>l d. difc_lro_restore env s = s\<lparr>lro := l, fe_regs := d\<rparr> \<and> lro.held t (l, d) \<and> \<not> lro_agg_num_saved l"
proof -
  obtain l d where e: "lro_restore_agg_num (env_bus env) True (env_r1 env) (env_r2 env)
       (env_mask env) (lro s, fe_regs s) = (l, d)" by fastforce
  show ?thesis using lro.held_restore [OF assms] lro.restore_clears [of "lro s" "fe_regs s"] e
    by (intro exI [of _ l] exI [of _ d]) (simp add: lro_restore_eq)
qed

lemma drop_refs_eq:
  "drop_refs k s = s\<lparr>dynamic_ifc_ety := (dynamic_ifc_ety s)
       [k := (dynamic_ifc_ety s ! k)\<lparr>lo_sk := 0, tx_dst := 0, rx_dst := 0\<rparr>],
     sk_mark_of := (let p = lo_sk (dynamic_ifc_ety s ! k)
                    in if p = 0 then sk_mark_of s else (sk_mark_of s)(p := 0)),
     sk_ref := ref_dec (lo_sk (dynamic_ifc_ety s ! k)) (sk_ref s),
     dst_ref := ref_dec (rx_dst (dynamic_ifc_ety s ! k))
       (ref_dec (tx_dst (dynamic_ifc_ety s ! k)) (dst_ref s))\<rparr>"
  by (cases s) (simp add: drop_refs_def upd_ety_def Let_def)

text \<open>Giving a session up: classifier rule, references, validity. \<open>f\<close> is the rest of the entry's
  reset, which differs between the timer and the clean-up.\<close>

lemma release_core:
  assumes P: "parts_core bs bd (dynamic_ifc_ety s) (ifc_ring_reserve s) (ifc_hw s) (hook_fn s) (sk_ref s) (dst_ref s)"
    and k: "k < 8"
    and f: "\<And>lo. \<not> valid (f lo)" "\<And>lo. lo_sk (f lo) = lo_sk lo" "\<And>lo. rx_dst (f lo) = rx_dst lo"
      "\<And>lo. tx_dst (f lo) = tx_dst lo" "\<And>lo. ifc_valid (f lo) = ifc_valid lo"
    and s': "s' = upd_ety k f (drop_refs k
               (if ifc_valid (dynamic_ifc_ety s ! k) then dynamic_ifc_del_ifc env k s else s))"
  shows "parts_core bs bd (dynamic_ifc_ety s') (ifc_ring_reserve s') (ifc_hw s') (hook_fn s') (sk_ref s') (dst_ref s')"
    and "\<exists>lo. dynamic_ifc_ety s' = (dynamic_ifc_ety s)[k := lo] \<and> \<not> valid lo"
    and "lro s' = lro s" and "fe_regs s' = fe_regs s" and "hook_fn s' = hook_fn s"
proof -
  let ?u = "if ifc_valid (dynamic_ifc_ety s ! k) then dynamic_ifc_del_ifc env k s else s"
  note len = core_len [OF P]
  have U: "parts_core bs bd (dynamic_ifc_ety ?u) (ifc_ring_reserve ?u) (ifc_hw ?u) (hook_fn ?u) (sk_ref ?u) (dst_ref ?u) \<and>
      (\<exists>lo. dynamic_ifc_ety ?u = (dynamic_ifc_ety s)[k := lo] \<and> \<not> ifc_valid lo) \<and>
      lro ?u = lro s \<and> fe_regs ?u = fe_regs s \<and> hook_fn ?u = hook_fn s"
  proof (cases "ifc_valid (dynamic_ifc_ety s ! k)")
    case True
    note V = core_valid [OF P k True]
    obtain h where d: "dynamic_ifc_del_ifc env k s = s\<lparr>dynamic_ifc_ety := (dynamic_ifc_ety s)
             [k := (dynamic_ifc_ety s ! k)\<lparr>ifc_index := 0, ifc_valid := False, ring_id := 0\<rparr>],
           ifc_ring_reserve := ifc_release_lro_ring (int k) (ifc_ring_reserve s), ifc_hw := h\<rparr>"
      "rules h = rules (ifc_hw s) - {session_rule (dynamic_ifc_ety s ! k)}"
      using del_ifc_eq [of s k] True V by blast
    show ?thesis using True core_unload [OF P k True refl d(2)]
      by (auto simp: d(1) intro: exI [of _ "(dynamic_ifc_ety s ! k)\<lparr>ifc_index := 0, ifc_valid := False, ring_id := 0\<rparr>"])
  next
    case False
    then show ?thesis using P by (auto intro!: exI [of _ "dynamic_ifc_ety s ! k"])
  qed
  then obtain lo where lo: "dynamic_ifc_ety ?u = (dynamic_ifc_ety s)[k := lo]" "\<not> ifc_valid lo" by blast
  have uk: "dynamic_ifc_ety ?u ! k = lo" using lo(1) k len by simp
  let ?lo' = "f (lo\<lparr>lo_sk := 0, tx_dst := 0, rx_dst := 0\<rparr>)"
  have e: "dynamic_ifc_ety s' = (dynamic_ifc_ety ?u)[k := ?lo']"
    unfolding s' upd_ety_def drop_refs_eq using lo(1) k len by simp
  have rest: "ifc_ring_reserve s' = ifc_ring_reserve ?u" "ifc_hw s' = ifc_hw ?u" "hook_fn s' = hook_fn ?u"
    "lro s' = lro ?u" "fe_regs s' = fe_regs ?u" "sk_ref s' = ref_dec (lo_sk lo) (sk_ref ?u)"
    "dst_ref s' = ref_dec (rx_dst lo) (ref_dec (tx_dst lo) (dst_ref ?u))"
    unfolding s' upd_ety_def drop_refs_eq uk by simp_all
  show "parts_core bs bd (dynamic_ifc_ety s') (ifc_ring_reserve s') (ifc_hw s') (hook_fn s') (sk_ref s') (dst_ref s')"
    unfolding e rest using lo(2) f uk
    by (intro core_release [OF conjunct1 [OF U] k, unfolded uk]) simp_all
  show "\<exists>lo. dynamic_ifc_ety s' = (dynamic_ifc_ety s)[k := lo] \<and> \<not> valid lo"
    unfolding e lo(1) using f(1) by auto
  show "lro s' = lro s" "fe_regs s' = fe_regs s" "hook_fn s' = hook_fn s" using rest U by simp_all
qed

lemma reset_commute:
  "lo\<lparr>timer_active := b, lo_sk := x, tx_dst := y, rx_dst := z\<rparr> =
   lo\<lparr>lo_sk := x, tx_dst := y, rx_dst := z, timer_active := b\<rparr>" for lo :: dynamic_ifc
  by (cases lo) simp

lemma drop_refs_upd:
  "k < length (dynamic_ifc_ety s) \<Longrightarrow>
     drop_refs k (upd_ety k (\<lambda>lo. lo\<lparr>timer_active := b\<rparr>) s) =
     upd_ety k (\<lambda>lo. lo\<lparr>timer_active := b\<rparr>) (drop_refs k s)"
  by (cases s) (simp add: drop_refs_eq upd_ety_def Let_def reset_commute)

lemma upd_ety_upd_ety:
  "k < length (dynamic_ifc_ety s) \<Longrightarrow> upd_ety k f (upd_ety k g s) = upd_ety k (\<lambda>lo. f (g lo)) s"
  by (simp add: upd_ety_def)

lemma inv_len: "difc_inv t bs bd s \<Longrightarrow> length (dynamic_ifc_ety s) = 8"
  unfolding difc_inv_def using core_len by blast

lemma some_valid_set: "some_valid ety \<longleftrightarrow> (\<exists>i\<in>set [0..<8]. valid (ety ! i))"
  by (auto simp: some_valid_def)

text \<open>The end of a session by timer: the last one puts the LRO limit back.\<close>

lemma timeout_release:
  assumes P: "parts_core bs bd (dynamic_ifc_ety s) (ifc_ring_reserve s) (ifc_hw s) (hook_fn s) (sk_ref s) (dst_ref s)"
    and T: "timer_inv ((dynamic_ifc_ety s)[k := lo0])" and L: "lro.held t (lro s, fe_regs s)"
    and k: "k < 8" and sv: "lro_agg_num_saved (lro s)"
    and s1: "s1 = upd_ety k (\<lambda>lo. lo\<lparr>timer_active := False, valid := False\<rparr>) (drop_refs k
               (if ifc_valid (dynamic_ifc_ety s ! k) then dynamic_ifc_del_ifc env k s else s))"
  shows "difc_inv t bs bd (if some_valid (dynamic_ifc_ety s1) then s1 else difc_lro_restore env s1)"
proof -
  note R = release_core [OF P k _ _ _ _ _ s1, simplified]
  note len = core_len [OF P]
  obtain lo where lo: "dynamic_ifc_ety s1 = (dynamic_ifc_ety s)[k := lo]" "\<not> valid lo" using R(2) by blast
  have "timer_inv ((dynamic_ifc_ety s)[k := lo])" unfolding timer_inv_def
  proof (intro allI impI)
    fix i assume "i < (8::nat)" "valid ((dynamic_ifc_ety s)[k := lo] ! i)"
    then show "timer_active ((dynamic_ifc_ety s)[k := lo] ! i) \<and> age_timer ((dynamic_ifc_ety s)[k := lo] ! i) \<noteq> None"
      using T lo(2) len k unfolding timer_inv_def by (cases "i = k") (force, metis nth_list_update_neq)
  qed
  then have T1: "timer_inv (dynamic_ifc_ety s1)" by (simp add: lo(1))
  have L1: "lro.held t (lro s1, fe_regs s1)" "lro_agg_num_saved (lro s1)" using L sv R(3,4) by simp_all
  show ?thesis
  proof (cases "some_valid (dynamic_ifc_ety s1)")
    case True
    then show ?thesis using R(1) T1 L1 by (simp add: difc_inv_def lro_inv_def)
  next
    case False
    obtain l d where "difc_lro_restore env s1 = s1\<lparr>lro := l, fe_regs := d\<rparr>" "lro.held t (l, d)"
      "\<not> lro_agg_num_saved l"
      using lro_restore_held [OF L1(1)] by blast
    then show ?thesis using False R(1) T1 by (simp add: difc_inv_def lro_inv_def)
  qed
qed

lemma timeout_inv:
  assumes inv: "difc_inv t bs bd s" and k: "k < 8"
  shows "difc_inv t bs bd (dynamic_ifc_timeout env now k s)"
proof -
  note len = inv_len [OF inv]
  let ?e = "dynamic_ifc_ety s ! k"
  let ?s0 = "upd_ety k (\<lambda>lo. lo\<lparr>age_timer := None\<rparr>) s"
  have P: "parts_core bs bd (dynamic_ifc_ety s) (ifc_ring_reserve s) (ifc_hw s) (hook_fn s) (sk_ref s) (dst_ref s)"
    and T: "timer_inv (dynamic_ifc_ety s)" and L: "lro_inv t (dynamic_ifc_ety s) (lro s) (fe_regs s)"
    using inv by (simp_all add: difc_inv_def)
  have e0: "dynamic_ifc_ety ?s0 = (dynamic_ifc_ety s)[k := ?e\<lparr>age_timer := None\<rparr>]"
    by (simp add: upd_ety_def)
  have P0: "parts_core bs bd (dynamic_ifc_ety ?s0) (ifc_ring_reserve ?s0) (ifc_hw ?s0) (hook_fn ?s0) (sk_ref ?s0) (dst_ref ?s0)"
    using k len unfolding upd_ety_def by (simp add: core_touch [OF P k] same_session_def)
  show ?thesis
  proof (cases "valid ?e")
    case False
    have "dynamic_ifc_timeout env now k s = ?s0"
      using False k len by (simp add: dynamic_ifc_timeout_def upd_ety_def)
    moreover have "timer_inv (dynamic_ifc_ety ?s0)"
      unfolding e0 using T False k len by (intro timer_inv_upd) simp_all
    moreover have "lro_inv t (dynamic_ifc_ety ?s0) (lro ?s0) (fe_regs ?s0)"
      unfolding e0 using L k len by (simp add: lro_inv_same upd_ety_def)
    ultimately show ?thesis using P0 by (simp add: difc_inv_def)
  next
    case v: True
    show ?thesis
    proof (cases "time_before now (last_tx ?e + env_HZ env)")
      case True
      let ?lo = "?e\<lparr>age_timer := Some (now + env_HZ env)\<rparr>"
      have "dynamic_ifc_timeout env now k s = s\<lparr>dynamic_ifc_ety := (dynamic_ifc_ety s)[k := ?lo]\<rparr>"
        using v True k len by (simp add: dynamic_ifc_timeout_def upd_ety_def)
      moreover have "timer_inv ((dynamic_ifc_ety s)[k := ?lo])"
        using T v k len by (intro timer_inv_upd) (simp_all add: timer_inv_def)
      moreover have "parts_core bs bd ((dynamic_ifc_ety s)[k := ?lo]) (ifc_ring_reserve s) (ifc_hw s)
          (hook_fn s) (sk_ref s) (dst_ref s)"
        by (rule core_touch [OF P k]) (simp_all add: same_session_def)
      ultimately show ?thesis using L k len by (simp add: difc_inv_def lro_inv_same)
    next
      case False
      define u where "u = (if ifc_valid (dynamic_ifc_ety ?s0 ! k) then dynamic_ifc_del_ifc env k ?s0 else ?s0)"
      let ?s1 = "upd_ety k (\<lambda>lo. lo\<lparr>timer_active := False, valid := False\<rparr>) (drop_refs k u)"
      have klen: "k < length (dynamic_ifc_ety u)"
        using k len by (simp add: u_def dynamic_ifc_del_ifc_def upd_ety_def Let_def)
      then have klen2: "k < length (dynamic_ifc_ety (drop_refs k u))" by (simp add: drop_refs_eq)
      have k0: "dynamic_ifc_ety ?s0 ! k = ?e\<lparr>age_timer := None\<rparr>" using k len by (simp add: e0)
      have "dynamic_ifc_timeout env now k s =
          (if some_valid (dynamic_ifc_ety ?s1) then ?s1 else difc_lro_restore env ?s1)"
        unfolding dynamic_ifc_timeout_def Let_def u_def [symmetric] some_valid_set drop_refs_upd [OF klen]
          upd_ety_upd_ety [OF klen2]
        using v False by (simp add: k0)
      moreover have "timer_inv ((dynamic_ifc_ety ?s0)[k := ?e])" using T k len by (simp add: e0)
      moreover have "lro.held t (lro ?s0, fe_regs ?s0)" "lro_agg_num_saved (lro ?s0)"
        using L v k by (auto simp: lro_inv_def some_valid_def upd_ety_def)
      ultimately show ?thesis
        using timeout_release [OF P0, of k ?e t ?s1] k unfolding u_def by argo
    qed
  qed
qed

text \<open>A new session in a free entry.\<close>

lemma core_new:
  assumes P: "parts_core bs bd ety ring hw hook sr dr" and k: "k < 8" "\<not> valid (ety ! k)"
    and lo: "\<not> ifc_valid lo" "rx_dst lo = 0" "tx_dst lo = 0" "valid lo"
    and fresh: "\<And>j. j < 8 \<Longrightarrow> valid (ety ! j) \<Longrightarrow>
        \<not> (local_port (ety ! j) = local_port lo \<and> remote_port (ety ! j) = remote_port lo)"
  shows "parts_core bs bd (ety[k := lo]) ring hw hook (ref_inc (lo_sk lo) sr) dr"
proof -
  note len = core_len [OF P]
  have nv: "\<not> ifc_valid (ety ! k)" using core_valid [OF P k(1)] k(2) by blast
  have ring: "ring_inv (ety[k := lo]) ring"
    using P k nv lo by (intro ring_inv_upd) (auto simp: parts_core_def)
  have ports: "ports_inv (ety[k := lo])" unfolding ports_inv_def
  proof (intro allI impI)
    fix i j
    assume h: "i < (8::nat)" "j < (8::nat)" "valid (ety[k := lo] ! i) \<and> valid (ety[k := lo] ! j) \<and>
      local_port (ety[k := lo] ! i) = local_port (ety[k := lo] ! j) \<and>
      remote_port (ety[k := lo] ! i) = remote_port (ety[k := lo] ! j)"
    show "i = j"
    proof (cases "i = k \<or> j = k")
      case True
      then show ?thesis using h fresh [of i] fresh [of j] k len
        by (cases "i = k"; cases "j = k") auto
    next
      case False
      then show ?thesis using h P by (auto simp: parts_core_def ports_inv_def)
    qed
  qed
  have "offloaded_rules (ety[k := lo]) = offloaded_rules ety"
    using len k lo(1) nv unfolding offloaded_rules_def by (auto simp: nth_list_update)
  moreover have "refs_inv bs bd (ety[k := lo]) (ref_inc (lo_sk lo) sr) dr"
    using P len k lo by (auto simp: parts_core_def refs_inv_def held_refs_upd ref_inc_apply nth_list_update)
  ultimately show ?thesis using P ring ports by (simp add: parts_core_def)
qed

text \<open>Exchanging a route of a live session.\<close>

lemma core_dst:
  assumes P: "parts_core bs bd ety ring hw hook sr dr" and k: "k < 8" "valid (ety ! k)"
    and same: "valid lo" "local_port lo = local_port (ety ! k)" "remote_port lo = remote_port (ety ! k)"
      "lo_sk lo = lo_sk (ety ! k)" "ifc_valid lo = ifc_valid (ety ! k)"
      "ifc_index lo = ifc_index (ety ! k)" "ring_id lo = ring_id (ety ! k)"
    and dr: "\<And>x. x \<noteq> 0 \<Longrightarrow> dr' x = dr x - of_bool (rx_dst (ety ! k) = x) + of_bool (rx_dst lo = x)
        - of_bool (tx_dst (ety ! k) = x) + of_bool (tx_dst lo = x)"
  shows "parts_core bs bd (ety[k := lo]) ring hw hook sr dr'"
proof -
  note len = core_len [OF P]
  have ring: "ring_inv (ety[k := lo]) ring"
    using P k same core_valid [OF P k(1)] by (intro ring_inv_upd) (auto simp: parts_core_def)
  have ports: "ports_inv (ety[k := lo])"
    using P k same len by (intro ports_inv_upd) (auto simp: parts_core_def)
  have "session_rule lo = session_rule (ety ! k)" using same by (simp add: session_rule_eq)
  then have "offloaded_rules (ety[k := lo]) = offloaded_rules ety"
    using offloaded_rules_upd [OF len k(1) same(5)] by simp
  moreover have "refs_inv bs bd (ety[k := lo]) sr dr'"
    using P len k same dr by (auto simp: parts_core_def refs_inv_def held_refs_upd nth_list_update)
  ultimately show ?thesis using P ring ports by (simp add: parts_core_def)
qed

lemma find_port_Some:
  "find_dynamic_ifc_ety_by_port ety a b = Some k \<Longrightarrow>
     k < 8 \<and> valid (ety ! k) \<and> local_port (ety ! k) = a \<and> remote_port (ety ! k) = b"
  by (auto simp: find_dynamic_ifc_ety_by_port_def dest: find_upt_SomeD)

lemma find_port_None:
  "find_dynamic_ifc_ety_by_port ety a b = None \<Longrightarrow> j < 8 \<Longrightarrow> valid (ety ! j) \<Longrightarrow>
     \<not> (local_port (ety ! j) = a \<and> remote_port (ety ! j) = b)"
  by (auto simp: find_dynamic_ifc_ety_by_port_def find_upt_None)

lemma add_entry_inv:
  assumes inv: "difc_inv t bs bd s"
  shows "difc_inv t bs bd (difc_add_entry_from_sock env now skp a b s)"
proof (cases "find_dynamic_ifc_ety_by_port (dynamic_ifc_ety s) a b")
  case (Some k)
  then show ?thesis using inv by (simp add: difc_add_entry_from_sock_def)
next
  case none: None
  show ?thesis
  proof (cases "find (\<lambda>i. \<not> valid (dynamic_ifc_ety s ! i)) [0..<8]")
    case None
    then show ?thesis using inv none by (simp add: difc_add_entry_from_sock_def)
  next
    case (Some k)
    then have k: "k < 8" "\<not> valid (dynamic_ifc_ety s ! k)" using find_upt_SomeD [OF Some] by auto
    note len = inv_len [OF inv]
    have P: "parts_core bs bd (dynamic_ifc_ety s) (ifc_ring_reserve s) (ifc_hw s) (hook_fn s) (sk_ref s) (dst_ref s)"
      and T: "timer_inv (dynamic_ifc_ety s)" and L: "lro.held t (lro s, fe_regs s)"
      using inv by (simp_all add: difc_inv_def lro_inv_def)
    let ?lo = "(dynamic_ifc_ety s ! k)\<lparr>local_port := a, remote_port := b, tx_dst := 0,
                         rx_dst := 0, lo_hash := 0, last_tx := now, lo_sk := skp, skip_copy := False,
                         ifc_valid := False, ifc_index := 0, ring_id := 0, timer_active := True\<rparr>"
    let ?s1 = "s\<lparr>sk_ref := ref_inc skp (sk_ref s), dynamic_ifc_ety := (dynamic_ifc_ety s)[k := ?lo]\<rparr>"
    obtain l d where ld: "difc_lro_save env ?s1 = ?s1\<lparr>lro := l, fe_regs := d\<rparr>" "lro.held t (l, d)"
      "lro_agg_num_saved l" using lro_save_held [of t ?s1] L by auto
    let ?lo2 = "?lo\<lparr>age_timer := Some (now + env_HZ env), valid := True\<rparr>"
    have e: "difc_add_entry_from_sock env now skp a b s =
        ?s1\<lparr>lro := l, fe_regs := d, dynamic_ifc_ety := (dynamic_ifc_ety s)[k := ?lo2]\<rparr>"
      using none Some k len ld(1) by (simp add: difc_add_entry_from_sock_def upd_ety_def Let_def)
    have "parts_core bs bd ((dynamic_ifc_ety s)[k := ?lo2]) (ifc_ring_reserve s) (ifc_hw s) (hook_fn s)
        (ref_inc (lo_sk ?lo2) (sk_ref s)) (dst_ref s)"
      using find_port_None [OF none] by (intro core_new [OF P k]) simp_all
    moreover have "timer_inv ((dynamic_ifc_ety s)[k := ?lo2])"
      using T k len by (intro timer_inv_upd) simp_all
    moreover have "some_valid ((dynamic_ifc_ety s)[k := ?lo2])"
      using k len by (simp add: some_valid_upd)
    ultimately show ?thesis unfolding e using ld by (simp add: difc_inv_def lro_inv_def)
  qed
qed

lemma set_rx_inv:
  assumes inv: "difc_inv t bs bd s" and k: "k < 8" "valid (dynamic_ifc_ety s ! k)"
  shows "difc_inv t bs bd (set_rx_dst k dst s)"
    and "\<exists>r. dynamic_ifc_ety (set_rx_dst k dst s) = (dynamic_ifc_ety s)[k := (dynamic_ifc_ety s ! k)\<lparr>rx_dst := r\<rparr>]"
proof -
  note len = inv_len [OF inv]
  let ?lo = "(dynamic_ifc_ety s ! k)\<lparr>rx_dst := dst\<rparr>"
  have P: "parts_core bs bd (dynamic_ifc_ety s) (ifc_ring_reserve s) (ifc_hw s) (hook_fn s) (sk_ref s) (dst_ref s)"
    and T: "timer_inv (dynamic_ifc_ety s)" and L: "lro_inv t (dynamic_ifc_ety s) (lro s) (fe_regs s)"
    using inv by (simp_all add: difc_inv_def)
  have "parts_core bs bd ((dynamic_ifc_ety s)[k := ?lo]) (ifc_ring_reserve s) (ifc_hw s) (hook_fn s) (sk_ref s)
      (ref_dec (rx_dst (dynamic_ifc_ety s ! k)) (ref_inc dst (dst_ref s)))" if "dst \<noteq> 0"
    using k that by (intro core_dst [OF P]) (simp_all add: ref_dec_apply ref_inc_apply)
  moreover have "timer_inv ((dynamic_ifc_ety s)[k := ?lo])"
    using T k len by (intro timer_inv_upd) (simp_all add: timer_inv_def)
  moreover have "lro_inv t ((dynamic_ifc_ety s)[k := ?lo]) (lro s) (fe_regs s)"
    using L k len by (simp add: lro_inv_same)
  ultimately show "difc_inv t bs bd (set_rx_dst k dst s)"
    using inv by (auto simp: set_rx_dst_def upd_ety_def Let_def difc_inv_def)
  show "\<exists>r. dynamic_ifc_ety (set_rx_dst k dst s) = (dynamic_ifc_ety s)[k := (dynamic_ifc_ety s ! k)\<lparr>rx_dst := r\<rparr>]"
    by (auto simp: set_rx_dst_def upd_ety_def Let_def intro: exI [of _ "rx_dst (dynamic_ifc_ety s ! k)"])
qed

text \<open>Touching an entry (and the socket marks) without changing what it holds.\<close>

lemma touch_inv:
  assumes inv: "difc_inv t bs bd s" and k: "k < 8" and len: "k < length (dynamic_ifc_ety s)"
    and f: "same_session (f (dynamic_ifc_ety s ! k)) (dynamic_ifc_ety s ! k)"
      "ifc_valid (f (dynamic_ifc_ety s ! k)) = ifc_valid (dynamic_ifc_ety s ! k)"
      "ring_id (f (dynamic_ifc_ety s ! k)) = ring_id (dynamic_ifc_ety s ! k)"
      "ifc_index (f (dynamic_ifc_ety s ! k)) = ifc_index (dynamic_ifc_ety s ! k)"
      "timer_active (f (dynamic_ifc_ety s ! k)) = timer_active (dynamic_ifc_ety s ! k)"
      "age_timer (f (dynamic_ifc_ety s ! k)) = age_timer (dynamic_ifc_ety s ! k)"
  shows "difc_inv t bs bd (upd_ety k f (s\<lparr>sk_mark_of := m\<rparr>))" and "difc_inv t bs bd (upd_ety k f s)"
proof -
  have P: "parts_core bs bd (dynamic_ifc_ety s) (ifc_ring_reserve s) (ifc_hw s) (hook_fn s) (sk_ref s) (dst_ref s)"
    and T: "timer_inv (dynamic_ifc_ety s)" and L: "lro_inv t (dynamic_ifc_ety s) (lro s) (fe_regs s)"
    using inv by (simp_all add: difc_inv_def)
  let ?lo = "f (dynamic_ifc_ety s ! k)"
  have "parts_core bs bd ((dynamic_ifc_ety s)[k := ?lo]) (ifc_ring_reserve s) (ifc_hw s) (hook_fn s) (sk_ref s) (dst_ref s)"
    using f by (intro core_touch [OF P k]) simp_all
  moreover have "timer_inv ((dynamic_ifc_ety s)[k := ?lo])"
    using T k f inv_len [OF inv] by (intro timer_inv_upd) (auto simp: timer_inv_def same_session_def)
  moreover have "lro_inv t ((dynamic_ifc_ety s)[k := ?lo]) (lro s) (fe_regs s)"
    using L k f inv_len [OF inv] by (simp add: lro_inv_same same_session_def)
  ultimately show "difc_inv t bs bd (upd_ety k f (s\<lparr>sk_mark_of := m\<rparr>))" "difc_inv t bs bd (upd_ety k f s)"
    by (simp_all add: difc_inv_def upd_ety_def)
qed

lemma add_ifc_inv:
  assumes inv: "difc_inv t bs bd s" and k: "k < 8"
  shows "difc_inv t bs bd (snd (dynamic_ifc_add_ifc env k s))"
proof -
  obtain ret s' where a: "dynamic_ifc_add_ifc env k s = (ret, s')" by fastforce
  have P: "parts_core bs bd (dynamic_ifc_ety s) (ifc_ring_reserve s) (ifc_hw s) (hook_fn s) (sk_ref s) (dst_ref s)"
    and T: "timer_inv (dynamic_ifc_ety s)" and L: "lro_inv t (dynamic_ifc_ety s) (lro s) (fe_regs s)"
    using inv by (simp_all add: difc_inv_def)
  obtain lo ring h where s': "s' = s\<lparr>dynamic_ifc_ety := (dynamic_ifc_ety s)[k := lo], ifc_ring_reserve := ring, ifc_hw := h\<rparr>"
    and same: "same_session lo (dynamic_ifc_ety s ! k)" "timer_active lo = timer_active (dynamic_ifc_ety s ! k)"
      "age_timer lo = age_timer (dynamic_ifc_ety s ! k)"
    and C: "parts_core bs bd ((dynamic_ifc_ety s)[k := lo]) ring h (hook_fn s) (sk_ref s) (dst_ref s)"
    using add_ifc_core [OF P k a] by blast
  have "timer_inv ((dynamic_ifc_ety s)[k := lo])"
    using T k same inv_len [OF inv] by (intro timer_inv_upd) (auto simp: timer_inv_def same_session_def)
  moreover have "lro_inv t ((dynamic_ifc_ety s)[k := lo]) (lro s) (fe_regs s)"
    using L k same inv_len [OF inv] by (simp add: lro_inv_same same_session_def)
  ultimately show ?thesis using C by (simp add: a s' difc_inv_def)
qed

lemma do_rcv_inv:
  assumes inv: "difc_inv t bs bd s"
  shows "difc_inv t bs bd (difc_handle_tcp_do_rcv env dst hash crsn raw a b s)"
proof (cases "find_dynamic_ifc_ety_by_port (dynamic_ifc_ety s) a b")
  case None
  then show ?thesis using inv by (simp add: difc_handle_tcp_do_rcv_def)
next
  case (Some k)
  note K = find_port_Some [OF Some]
  let ?s1 = "set_rx_dst k dst s"
  let ?s2 = "upd_ety k (\<lambda>lo. lo\<lparr>lo_hash := ucast (hash AND 0xFFFF)\<rparr>) ?s1"
  have i1: "difc_inv t bs bd ?s1" using set_rx_inv(1) [OF inv] K by simp
  have i2: "difc_inv t bs bd ?s2"
    using K inv_len [OF i1] by (intro touch_inv(2) [OF i1]) (simp_all add: same_session_def)
  let ?lo = "dynamic_ifc_ety ?s2 ! k"
  let ?s3 = "if \<not> skip_copy ?lo \<and> lo_sk ?lo \<noteq> 0
      then upd_ety k (\<lambda>lo. lo\<lparr>skip_copy := True\<rparr>)
             (?s2\<lparr>sk_mark_of := (sk_mark_of ?s2)(lo_sk ?lo := SK_MARK_LOCAL_OFFLOAD)\<rparr>)
      else ?s2"
  have i3: "difc_inv t bs bd ?s3"
    using i2 K inv_len [OF i2] by (auto intro!: touch_inv(1) simp: same_session_def)
  have e: "difc_handle_tcp_do_rcv env dst hash crsn raw a b s =
      (if ifc_valid ?lo then ?s2 else if cpu_reason_of crsn raw \<noteq> env_rate_reached env then ?s2
       else snd (dynamic_ifc_add_ifc env k ?s3))"
    using Some K by (simp only: difc_handle_tcp_do_rcv_def Let_def option.case simp_thms if_False)
  show ?thesis unfolding e using i2 add_ifc_inv [OF i3] K by (simp only: split: if_split) blast
qed

lemma local_out_inv:
  assumes inv: "difc_inv t bs bd s"
  shows "difc_inv t bs bd (snd (difc_local_out_session now dst a b s))"
proof (cases "find_dynamic_ifc_ety_by_port (dynamic_ifc_ety s) a b")
  case None
  then show ?thesis using inv by (simp add: difc_local_out_session_def)
next
  case (Some k)
  note K = find_port_Some [OF Some]
  note len = inv_len [OF inv]
  let ?e = "dynamic_ifc_ety s ! k"
  let ?lo = "?e\<lparr>tx_dst := dst\<rparr>"
  have P: "parts_core bs bd (dynamic_ifc_ety s) (ifc_ring_reserve s) (ifc_hw s) (hook_fn s) (sk_ref s) (dst_ref s)"
    and T: "timer_inv (dynamic_ifc_ety s)" and L: "lro_inv t (dynamic_ifc_ety s) (lro s) (fe_regs s)"
    using inv by (simp_all add: difc_inv_def)
  let ?s1 = "if dst \<noteq> 0 \<and> tx_dst ?e \<noteq> dst
             then upd_ety k (\<lambda>lo. lo\<lparr>tx_dst := dst\<rparr>)
                    (s\<lparr>dst_ref := ref_dec (tx_dst ?e) (ref_inc dst (dst_ref s))\<rparr>) else s"
  have "parts_core bs bd ((dynamic_ifc_ety s)[k := ?lo]) (ifc_ring_reserve s) (ifc_hw s) (hook_fn s) (sk_ref s)
      (ref_dec (tx_dst ?e) (ref_inc dst (dst_ref s)))" if "dst \<noteq> 0"
    using K that by (intro core_dst [OF P]) (simp_all add: ref_dec_apply ref_inc_apply)
  moreover have "timer_inv ((dynamic_ifc_ety s)[k := ?lo])"
    using T K len by (intro timer_inv_upd) (simp_all add: timer_inv_def)
  moreover have "lro_inv t ((dynamic_ifc_ety s)[k := ?lo]) (lro s) (fe_regs s)"
    using L K len by (simp add: lro_inv_same)
  ultimately have i1: "difc_inv t bs bd ?s1" using inv by (auto simp: upd_ety_def difc_inv_def)
  have "difc_local_out_session now dst a b s = (True, upd_ety k (\<lambda>lo. lo\<lparr>last_tx := now\<rparr>) ?s1)"
    using Some by (simp add: difc_local_out_session_def)
  moreover have "difc_inv t bs bd (upd_ety k (\<lambda>lo. lo\<lparr>last_tx := now\<rparr>) ?s1)"
    using K inv_len [OF i1] by (intro touch_inv(2) [OF i1]) (simp_all add: same_session_def)
  ultimately show ?thesis by simp
qed

section \<open>Clean-up\<close>

definition core_of :: "(u64 \<Rightarrow> int) \<Rightarrow> (u64 \<Rightarrow> int) \<Rightarrow> ('h, 'd) difc \<Rightarrow> bool" where
  "core_of bs bd s \<longleftrightarrow> parts_core bs bd (dynamic_ifc_ety s) (ifc_ring_reserve s) (ifc_hw s) (hook_fn s)
     (sk_ref s) (dst_ref s)"

lemma stop_timer_core:
  assumes P: "core_of bs bd s" and k: "k < 8"
  shows "core_of bs bd (stop_timer k s) \<and> lro (stop_timer k s) = lro s \<and> fe_regs (stop_timer k s) = fe_regs s \<and>
    hook_fn (stop_timer k s) = hook_fn s \<and>
    (\<forall>i<8. valid (dynamic_ifc_ety (stop_timer k s) ! i) = valid (dynamic_ifc_ety s ! i))"
proof -
  let ?lo = "(dynamic_ifc_ety s ! k)\<lparr>timer_active := False, age_timer := None\<rparr>"
  have "parts_core bs bd ((dynamic_ifc_ety s)[k := ?lo]) (ifc_ring_reserve s) (ifc_hw s) (hook_fn s) (sk_ref s) (dst_ref s)"
    by (rule core_touch [OF P [unfolded core_of_def] k]) (simp_all add: same_session_def)
  moreover have "valid ((dynamic_ifc_ety s)[k := ?lo] ! i) = valid (dynamic_ifc_ety s ! i)" for i
    using core_len [OF P [unfolded core_of_def]] k by (cases "i = k") simp_all
  ultimately show ?thesis using P by (simp add: stop_timer_def upd_ety_def Let_def core_of_def)
qed

lemma cleanup_session_core:
  assumes P: "core_of bs bd s" and k: "k < 8"
  shows "core_of bs bd (cleanup_session env k s) \<and> lro (cleanup_session env k s) = lro s \<and>
    fe_regs (cleanup_session env k s) = fe_regs s \<and> hook_fn (cleanup_session env k s) = hook_fn s \<and>
    (\<forall>i<8. valid (dynamic_ifc_ety (cleanup_session env k s) ! i) \<longleftrightarrow> i \<noteq> k \<and> valid (dynamic_ifc_ety s ! i))"
proof (cases "valid (dynamic_ifc_ety s ! k)")
  case False
  then show ?thesis using P by (auto simp: cleanup_session_def)
next
  case True
  let ?s1 = "upd_ety k (\<lambda>lo. lo\<lparr>valid := False, skip_copy := False\<rparr>) (drop_refs k
               (if ifc_valid (dynamic_ifc_ety s ! k) then dynamic_ifc_del_ifc env k s else s))"
  have e: "cleanup_session env k s = ?s1" using True by (simp add: cleanup_session_def)
  note R = release_core [OF P [unfolded core_of_def] k _ _ _ _ _ refl, of "\<lambda>lo. lo\<lparr>valid := False, skip_copy := False\<rparr>", simplified]
  obtain lo where lo: "dynamic_ifc_ety ?s1 = (dynamic_ifc_ety s)[k := lo]" "\<not> valid lo" using R(2) by auto
  have "valid (dynamic_ifc_ety ?s1 ! i) \<longleftrightarrow> i \<noteq> k \<and> valid (dynamic_ifc_ety s ! i)" for i
    unfolding lo(1) using lo(2) core_len [OF P [unfolded core_of_def]] k by (cases "i = k") simp_all
  then show ?thesis unfolding e core_of_def using R(1,3,4,5) by blast
qed

lemma fold_stop_core:
  "core_of bs bd s \<Longrightarrow> \<forall>k\<in>set ks. k < 8 \<Longrightarrow>
     core_of bs bd (fold stop_timer ks s) \<and> lro (fold stop_timer ks s) = lro s \<and>
     fe_regs (fold stop_timer ks s) = fe_regs s \<and> hook_fn (fold stop_timer ks s) = hook_fn s"
proof (induction ks arbitrary: s)
  case Nil
  then show ?case by simp
next
  case (Cons k ks)
  have S: "core_of bs bd (stop_timer k s)" "lro (stop_timer k s) = lro s"
    "fe_regs (stop_timer k s) = fe_regs s" "hook_fn (stop_timer k s) = hook_fn s"
    using stop_timer_core [OF Cons.prems(1), of k] Cons.prems(2) by auto
  show ?case using Cons.IH [OF S(1)] Cons.prems(2) S(2-4) by simp
qed

lemma fold_cleanup_core:
  "core_of bs bd s \<Longrightarrow> \<forall>k\<in>set ks. k < 8 \<Longrightarrow>
     core_of bs bd (fold (cleanup_session env) ks s) \<and> lro (fold (cleanup_session env) ks s) = lro s \<and>
     fe_regs (fold (cleanup_session env) ks s) = fe_regs s \<and>
     hook_fn (fold (cleanup_session env) ks s) = hook_fn s \<and>
     (\<forall>i<8. valid (dynamic_ifc_ety (fold (cleanup_session env) ks s) ! i) \<longleftrightarrow>
        i \<notin> set ks \<and> valid (dynamic_ifc_ety s ! i))"
proof (induction ks arbitrary: s)
  case Nil
  then show ?case by simp
next
  case (Cons k ks)
  have S: "core_of bs bd (cleanup_session env k s)" "lro (cleanup_session env k s) = lro s"
    "fe_regs (cleanup_session env k s) = fe_regs s" "hook_fn (cleanup_session env k s) = hook_fn s"
    "\<And>i. i < 8 \<Longrightarrow> valid (dynamic_ifc_ety (cleanup_session env k s) ! i) \<longleftrightarrow> i \<noteq> k \<and> valid (dynamic_ifc_ety s ! i)"
    using cleanup_session_core [OF Cons.prems(1), of k] Cons.prems(2) by auto
  show ?case using Cons.IH [OF S(1)] Cons.prems(2) S(2-5) by auto
qed

text \<open>After the clean-up nothing is left: no session, no reserved ring, no rule, no reference, and
  the register file is the one from before the first override.\<close>

lemma cleanup_all:
  assumes inv: "difc_inv t bs bd s"
  defines "s' \<equiv> dynamic_ifc_cleanup_all_sessions env s"
  shows "difc_inv t bs bd s'" and "\<not> some_valid (dynamic_ifc_ety s')" and "hook_fn s' = hook_fn s"
proof -
  let ?a = "fold stop_timer [0..<8] s"
  let ?b = "fold (cleanup_session env) [0..<8] ?a"
  have P: "core_of bs bd s" and L: "lro.held t (lro s, fe_regs s)"
    using inv by (simp_all add: difc_inv_def lro_inv_def core_of_def)
  have A: "core_of bs bd ?a \<and> lro ?a = lro s \<and> fe_regs ?a = fe_regs s \<and> hook_fn ?a = hook_fn s"
    by (rule fold_stop_core [OF P]) simp
  have B: "core_of bs bd ?b \<and> lro ?b = lro ?a \<and> fe_regs ?b = fe_regs ?a \<and> hook_fn ?b = hook_fn ?a \<and>
      (\<forall>i<8. valid (dynamic_ifc_ety ?b ! i) \<longleftrightarrow> i \<notin> set [0..<8] \<and> valid (dynamic_ifc_ety ?a ! i))"
    by (rule fold_cleanup_core [OF conjunct1 [OF A]]) simp
  have nv: "\<not> some_valid (dynamic_ifc_ety ?b)" using B by (auto simp: some_valid_def)
  have "lro.held t (lro ?b, fe_regs ?b)" using A B L by simp
  then obtain l d where ld: "difc_lro_restore env ?b = ?b\<lparr>lro := l, fe_regs := d\<rparr>" "lro.held t (l, d)"
    "\<not> lro_agg_num_saved l" using lro_restore_held by blast
  have s': "s' = ?b\<lparr>lro := l, fe_regs := d\<rparr>"
    unfolding s'_def dynamic_ifc_cleanup_all_sessions_def by (rule ld(1))
  show "\<not> some_valid (dynamic_ifc_ety s')" "hook_fn s' = hook_fn s" using nv A B by (simp_all add: s')
  have "timer_inv (dynamic_ifc_ety ?b)" using nv by (auto simp: timer_inv_def some_valid_def)
  then show "difc_inv t bs bd s'" using conjunct1 [OF B, unfolded core_of_def] ld(2,3) nv
    by (simp add: s' difc_inv_def lro_inv_def)
qed

lemma idle_state:
  assumes inv: "difc_inv t bs bd s" and nv: "\<not> some_valid (dynamic_ifc_ety s)"
  shows "\<forall>i<4. ifc_ring_reserve s ! i = - 1" and "rules (ifc_hw s) = {}"
    and "\<forall>x. x \<noteq> 0 \<longrightarrow> sk_ref s x = bs x \<and> dst_ref s x = bd x" and "peek (fe_regs s) = t"
proof -
  have P: "parts_core bs bd (dynamic_ifc_ety s) (ifc_ring_reserve s) (ifc_hw s) (hook_fn s) (sk_ref s) (dst_ref s)"
    and L: "lro_inv t (dynamic_ifc_ety s) (lro s) (fe_regs s)"
    using inv by (simp_all add: difc_inv_def)
  note len = core_len [OF P]
  have nifc: "\<not> ifc_valid (dynamic_ifc_ety s ! i)" if "i < 8" for i
    using core_valid [OF P that] nv that by (auto simp: some_valid_def)
  show "\<forall>i<4. ifc_ring_reserve s ! i = - 1"
    using P nifc by (auto simp: parts_core_def ring_inv_def)
  show "rules (ifc_hw s) = {}" using P nifc by (auto simp: parts_core_def offloaded_rules_def)
  have z: "lo_sk (dynamic_ifc_ety s ! i) = 0 \<and> rx_dst (dynamic_ifc_ety s ! i) = 0 \<and> tx_dst (dynamic_ifc_ety s ! i) = 0"
    if "i < 8" for i using P nv that by (auto simp: parts_core_def refs_inv_def some_valid_def)
  have h0: "held_refs f (dynamic_ifc_ety s) x = 0"
    if "x \<noteq> 0" "\<And>i. i < 8 \<Longrightarrow> f (dynamic_ifc_ety s ! i) = 0" for f x
  proof -
    have "map (\<lambda>lo. of_bool (f lo = x)) (dynamic_ifc_ety s) = replicate 8 (0 :: int)"
      using that len by (intro nth_equalityI) auto
    then show ?thesis by (simp add: held_refs_def sum_list_replicate)
  qed
  show "\<forall>x. x \<noteq> 0 \<longrightarrow> sk_ref s x = bs x \<and> dst_ref s x = bd x"
    using P z h0 by (auto simp: parts_core_def refs_inv_def)
  show "peek (fe_regs s) = t"
    using L nv by (auto simp: lro_inv_def intro: lro.held_free)
qed

end

section \<open>Runs of the module\<close>

text \<open>One handler call per step, in any order; the hook pointer is set on enable and cleared, as
  the disable command does it, after the clean-up.\<close>

inductive difc_step :: "('h, 'd) difc_env \<Rightarrow> ('h, 'd) difc \<Rightarrow> ('h, 'd) difc \<Rightarrow> bool" for env where
  step_add: "difc_step env s (difc_add_entry_from_sock env now skp a b s)"
| step_rcv: "difc_step env s (difc_handle_tcp_do_rcv env dst hash crsn raw a b s)"
| step_out: "difc_step env s (snd (difc_local_out_session now dst a b s))"
| step_timer: "k < 8 \<Longrightarrow> difc_step env s (dynamic_ifc_timeout env now k s)"
| step_enable: "difc_step env s (s\<lparr>hook_fn := True\<rparr>)"
| step_disable: "difc_step env s ((dynamic_ifc_cleanup_all_sessions env s)\<lparr>hook_fn := False\<rparr>)"
| step_agg_num: "difc_step env s (s\<lparr>lro_agg_num := n\<rparr>)"

inductive_cases difc_stepE: "difc_step env s s'"

definition difc_boot :: "'h \<Rightarrow> 'd \<Rightarrow> (u64 \<Rightarrow> int) \<Rightarrow> (u64 \<Rightarrow> int) \<Rightarrow> (u64 \<Rightarrow> u32) \<Rightarrow> ('h, 'd) difc" where
  "difc_boot h d bs bd mk = \<lparr>
     dynamic_ifc_ety = replicate 8 \<lparr>rx_dst = 0, tx_dst = 0, age_timer = None, lo_sk = 0, local_port = 0,
       remote_port = 0, lo_hash = 0, last_tx = 0, valid = False, skip_copy = False, ifc_valid = False,
       timer_active = False, ifc_index = 0, ring_id = 0\<rparr>,
     ifc_ring_reserve = replicate 4 IFC_RING_SLOT_FREE,
     lro = \<lparr>lro_agg_num_orig_cdm1 = 0, lro_agg_num_orig_cdm2 = 0, lro_agg_num_saved = False\<rparr>,
     lro_agg_num = 18, hook_fn = False, ifc_hw = h, fe_regs = d, sk_ref = bs, dst_ref = bd,
     sk_mark_of = mk\<rparr>"

context difc_world
begin

lemma boot_inv:
  assumes "rules h = {}"
  shows "difc_inv (peek d) bs bd (difc_boot h d bs bd mk)"
proof -
  have "offloaded_rules (dynamic_ifc_ety (difc_boot h d bs bd mk)) = {}"
    by (auto simp: offloaded_rules_def difc_boot_def)
  moreover have "held_refs f (dynamic_ifc_ety (difc_boot h d bs bd mk)) x = 0"
    if "x \<noteq> 0" "f = lo_sk \<or> f = rx_dst \<or> f = tx_dst" for f x
    using that by (auto simp: held_refs_def difc_boot_def sum_list_replicate)
  moreover have "lro.held (peek d) (lro (difc_boot h d bs bd mk), fe_regs (difc_boot h d bs bd mk))"
    by (simp add: lro.held_def difc_boot_def)
  ultimately show ?thesis using assms
    by (auto simp: difc_inv_def parts_core_def lro_inv_def ring_inv_def ports_inv_def timer_inv_def
        refs_inv_def some_valid_def) (auto simp: difc_boot_def)
qed

lemma step_inv:
  assumes "difc_step env s s'" and inv: "difc_inv t bs bd s"
  shows "difc_inv t bs bd s'"
  using assms(1)
proof (cases rule: difc_step.cases)
  case step_disable
  let ?c = "dynamic_ifc_cleanup_all_sessions env s"
  have C: "difc_inv t bs bd ?c" "\<not> some_valid (dynamic_ifc_ety ?c)" using cleanup_all [OF inv] by auto
  have "offloaded_rules (dynamic_ifc_ety ?c) = {}"
    using idle_state(2) [OF C] C(1) by (simp add: difc_inv_def parts_core_def)
  then show ?thesis using C(1) by (simp add: step_disable difc_inv_def parts_core_def)
next
  case step_enable
  then show ?thesis using inv by (simp add: difc_inv_def parts_core_def)
next
  case step_agg_num
  then show ?thesis using inv by (simp add: difc_inv_def)
qed (use inv in \<open>simp_all add: add_entry_inv do_rcv_inv local_out_inv timeout_inv\<close>)

lemma run_inv: "(difc_step env)\<^sup>*\<^sup>* s s' \<Longrightarrow> difc_inv t bs bd s \<Longrightarrow> difc_inv t bs bd s'"
  by (induction rule: rtranclp_induct) (auto intro: step_inv)

end

end
