(* ===== verification/DynIfcProps.thy ===== *)
theory DynIfcProps
  imports DynIfcSteps
begin

text \<open>
  What the invariant of the dynamic-IFC session table means, stated over all runs of the module
  from its initial state, and a concrete world in which it applies.
\<close>

section \<open>A concrete world\<close>

text \<open>A classifier with room for six rules, numbering them by its load.\<close>

definition list_engine :: "ifc_call \<Rightarrow> ifc_param list \<Rightarrow> int \<times> int \<times> ifc_param list" where
  "list_engine call h =
     (case call of
        IFC_SET_LUT_RULE_AUTO p \<Rightarrow> if length h < 6 then (0, 1 + int (length h), p # h) else (- 1, 0, h)
      | IFC_DEL_LUT_RULE_AUTO p \<Rightarrow> (0, 0, filter (\<lambda>q. q \<noteq> p) h)
      | IFC_SET_ACTION _ _ _ _ _ _ _ \<Rightarrow> (0, 0, h))"

definition list_env :: "(ifc_param list, u32 \<Rightarrow> u32) difc_env" where
  "list_env = \<lparr>env_hook = list_engine, env_bus = mem_bus, env_r1 = 0x484, env_r2 = 0x1484,
     env_mask = 0xFF0000, env_ready = True, env_HZ = 100, env_rate_reached = 15\<rparr>"

interpretation listw: difc_world list_env set "\<lambda>d. d"
proof (intro difc_world.intro difc_world_axioms.intro ifc_engine.intro)
  show "plain_regs (env_bus list_env) (\<lambda>d. d)" by (simp add: list_env_def plain_regs_mem_bus)
  fix p h ret v h'
  assume "env_hook list_env (IFC_SET_LUT_RULE_AUTO p) h = (ret, v, h')"
  then have e: "list_engine (IFC_SET_LUT_RULE_AUTO p) h = (ret, v, h')" by (simp add: list_env_def)
  show "set h' = (if ret = - 1 \<or> (word_of_int v :: u32) = 0 \<or> (word_of_int v :: u32) = word_of_int (- 1)
      then set h else insert p (set h))"
  proof (cases "length h < 6")
    case True
    then have "length h = 0 \<or> length h = 1 \<or> length h = 2 \<or> length h = 3 \<or> length h = 4 \<or> length h = 5"
      by linarith
    then show ?thesis using e by (elim disjE) (auto simp: list_engine_def)
  next
    case False
    then show ?thesis using e by (simp add: list_engine_def)
  qed
qed (auto simp: list_env_def list_engine_def)

lemma list_world: "difc_world list_env set (\<lambda>d. d)"
  by (rule listw.difc_world_axioms)

section \<open>Properties\<close>

lemma run_from_boot:
  assumes "difc_world env rules peek" and "rules h = {}"
    and "(difc_step env)\<^sup>*\<^sup>* (difc_boot h d bs bd mk) s"
  shows "difc_world.difc_inv env rules peek (peek d) bs bd s"
  by (rule difc_world.run_inv [OF assms(1,3) difc_world.boot_inv [OF assms(1,2)]])

text \<open>C1: in every run, two different offloaded sessions never share a dedicated LRO ring: an
  offloaded session is live, has a rule index, and is steered to the default ring 1 or to one of
  the rings 12 to 15, each of which has at most one owner.\<close>

theorem difc_rings_exclusive:
  assumes "difc_world env rules peek" and "rules h = {}"
    and "(difc_step env)\<^sup>*\<^sup>* (difc_boot h d bs bd mk) s"
    and "i < 8" and "ifc_valid (dynamic_ifc_ety s ! i)"
  shows "valid (dynamic_ifc_ety s ! i) \<and> ifc_index (dynamic_ifc_ety s ! i) \<noteq> 0 \<and>
         ring_id (dynamic_ifc_ety s ! i) \<in> {1, 12, 13, 14, 15} \<and>
         (\<forall>j<8. j \<noteq> i \<and> ifc_valid (dynamic_ifc_ety s ! j) \<and>
            ring_id (dynamic_ifc_ety s ! j) = ring_id (dynamic_ifc_ety s ! i) \<longrightarrow>
            ring_id (dynamic_ifc_ety s ! i) = 1)"
proof -
  have inv: "ring_inv (dynamic_ifc_ety s) (ifc_ring_reserve s)"
    using run_from_boot [OF assms(1-3)]
    by (simp add: difc_world.difc_inv_def [OF assms(1)] difc_world.parts_core_def [OF assms(1)])
  note R = inv [unfolded ring_inv_def]
  have own: "ring_id (dynamic_ifc_ety s ! e) = 1 \<or>
      (\<exists>r<4. ring_id (dynamic_ifc_ety s ! e) = 12 + int r \<and> ifc_ring_reserve s ! r = int e)"
    if "e < 8" "ifc_valid (dynamic_ifc_ety s ! e)" for e using R that by blast
  have range: "ring_id (dynamic_ifc_ety s ! i) \<in> {1, 12, 13, 14, 15}"
  proof -
    have "r < 4 \<Longrightarrow> 12 + int r \<in> {12, 13, 14, 15}" for r by auto
    then show ?thesis using own [OF assms(4,5)] by auto
  qed
  have "ring_id (dynamic_ifc_ety s ! i) = 1"
    if "j < 8" "j \<noteq> i" "ifc_valid (dynamic_ifc_ety s ! j)"
      "ring_id (dynamic_ifc_ety s ! j) = ring_id (dynamic_ifc_ety s ! i)" for j
    using own [OF assms(4,5)] own [OF that(1,3)] that(2,4) by auto
  then show ?thesis using R assms(4,5) range by blast
qed

text \<open>A run: two sessions are opened, both reach the bind rate and are offloaded.\<close>

definition difc_start :: "(ifc_param list, u32 \<Rightarrow> u32) difc" where
  "difc_start = difc_boot [] (\<lambda>_. 0x12050000) (\<lambda>_. 1) (\<lambda>_. 1) (\<lambda>_. 0)"

definition difc_two :: "(ifc_param list, u32 \<Rightarrow> u32) difc" where
  "difc_two =
     difc_handle_tcp_do_rcv list_env 0x90 5 (Some 15) 0 7 8
      (difc_handle_tcp_do_rcv list_env 0x90 4 (Some 15) 0 5 6
       (difc_add_entry_from_sock list_env 20 0x80 7 8
        (difc_add_entry_from_sock list_env 10 0x70 5 6
         (difc_start\<lparr>hook_fn := True\<rparr>))))"

lemma difc_two_run: "(difc_step list_env)\<^sup>*\<^sup>* difc_start difc_two"
proof -
  have "(difc_step list_env)\<^sup>*\<^sup>* difc_start (difc_start\<lparr>hook_fn := True\<rparr>)"
    by (rule r_into_rtranclp) (rule step_enable)
  note r1 = rtranclp.rtrancl_into_rtrancl [OF this step_add]
  note r2 = rtranclp.rtrancl_into_rtrancl [OF r1 step_add]
  note r3 = rtranclp.rtrancl_into_rtrancl [OF r2 step_rcv]
  show ?thesis unfolding difc_two_def by (rule rtranclp.rtrancl_into_rtrancl [OF r3 step_rcv])
qed

lemma difc_two_eval:
  "ifc_valid (dynamic_ifc_ety difc_two ! 0) \<and> ifc_valid (dynamic_ifc_ety difc_two ! 1) \<and>
   ring_id (dynamic_ifc_ety difc_two ! 0) = 12"
  by code_simp

theorem difc_rings_exclusive_witness:
  "ring_id (dynamic_ifc_ety difc_two ! 1) \<in> {1, 12, 13, 14, 15} - {12}"
proof -
  have "ifc_valid (dynamic_ifc_ety difc_two ! 1)" using difc_two_eval by blast
  note v = this
  have lt: "1 < (8 :: nat)" by simp
  note R = difc_rings_exclusive [OF list_world list.set(1) difc_two_run [unfolded difc_start_def] lt v]
  note all = R [THEN conjunct2, THEN conjunct2, THEN conjunct2, THEN spec, of 0]
  have "ring_id (dynamic_ifc_ety difc_two ! 1) \<noteq> 12"
  proof
    assume "ring_id (dynamic_ifc_ety difc_two ! 1) = 12"
    then show False using all difc_two_eval by simp
  qed
  then show ?thesis using R by simp
qed

text \<open>C2: in every run the classifier holds exactly the rules of the offloaded sessions, no two live
  sessions have the same port pair, and the socket and route counts exceed what they were at
  start by exactly the number of table fields that hold the object.\<close>

theorem difc_rules_and_refs_exact:
  assumes "difc_world env rules peek" and "rules h = {}"
    and "(difc_step env)\<^sup>*\<^sup>* (difc_boot h d bs bd mk) s"
  shows "rules (ifc_hw s) =
           {session_rule (dynamic_ifc_ety s ! i) |i. i < 8 \<and> ifc_valid (dynamic_ifc_ety s ! i)} \<and>
         (\<forall>i<8. \<forall>j<8. valid (dynamic_ifc_ety s ! i) \<and> valid (dynamic_ifc_ety s ! j) \<and>
            local_port (dynamic_ifc_ety s ! i) = local_port (dynamic_ifc_ety s ! j) \<and>
            remote_port (dynamic_ifc_ety s ! i) = remote_port (dynamic_ifc_ety s ! j) \<longrightarrow> i = j) \<and>
         (\<forall>x. x \<noteq> 0 \<longrightarrow>
            sk_ref s x = bs x + (\<Sum>lo\<leftarrow>dynamic_ifc_ety s. of_bool (lo_sk lo = x)) \<and>
            dst_ref s x = bd x + (\<Sum>lo\<leftarrow>dynamic_ifc_ety s. of_bool (rx_dst lo = x)) +
                          (\<Sum>lo\<leftarrow>dynamic_ifc_ety s. of_bool (tx_dst lo = x)))"
proof -
  have "difc_world.parts_core rules bs bd (dynamic_ifc_ety s) (ifc_ring_reserve s) (ifc_hw s) (hook_fn s)
      (sk_ref s) (dst_ref s)"
    using run_from_boot [OF assms] by (simp add: difc_world.difc_inv_def [OF assms(1)])
  then show ?thesis
    by (simp add: difc_world.parts_core_def [OF assms(1)] offloaded_rules_def ports_inv_def refs_inv_def
        held_refs_def)
qed

theorem difc_rules_and_refs_exact_witness: "sk_ref difc_two 0x70 = 2 \<and> dst_ref difc_two 0x90 = 3"
proof -
  have "(\<Sum>lo\<leftarrow>dynamic_ifc_ety difc_two. of_bool (lo_sk lo = 0x70)) = (1 :: int) \<and>
      (\<Sum>lo\<leftarrow>dynamic_ifc_ety difc_two. of_bool (rx_dst lo = 0x90)) = (2 :: int) \<and>
      (\<Sum>lo\<leftarrow>dynamic_ifc_ety difc_two. of_bool (tx_dst lo = 0x90)) = (0 :: int)" by code_simp
  with difc_rules_and_refs_exact [OF list_world _ difc_two_run [unfolded difc_start_def]]
  show ?thesis by simp
qed


definition difc_expired :: "(ifc_param list, u32 \<Rightarrow> u32) difc" where
  "difc_expired = dynamic_ifc_timeout list_env 500 1 (dynamic_ifc_timeout list_env 400 0 difc_two)"


text \<open>C6: the clean-up of the disable command leaves nothing behind, in whatever state a run
  reached: no live session, all four rings free, no classifier rule, all reference counts and
  the whole register file back to their values at start.\<close>

theorem difc_cleanup_leaves_nothing:
  assumes "difc_world env rules peek" and "rules h = {}"
    and "(difc_step env)\<^sup>*\<^sup>* (difc_boot h d bs bd mk) s"
  shows "let s' = dynamic_ifc_cleanup_all_sessions env s in
         (\<forall>i<8. \<not> valid (dynamic_ifc_ety s' ! i)) \<and> (\<forall>i<4. ifc_ring_reserve s' ! i = - 1) \<and>
         rules (ifc_hw s') = {} \<and> (\<forall>x. x \<noteq> 0 \<longrightarrow> sk_ref s' x = bs x \<and> dst_ref s' x = bd x) \<and>
         peek (fe_regs s') = peek d"
proof -
  note C = difc_world.cleanup_all [OF assms(1) run_from_boot [OF assms]]
  show ?thesis
    using difc_world.idle_state [OF assms(1) C(1,2)] C(2) by (auto simp: some_valid_def)
qed

theorem difc_cleanup_leaves_nothing_witness:
  "ifc_hw (dynamic_ifc_cleanup_all_sessions list_env difc_two) = [] \<and>
   sk_ref (dynamic_ifc_cleanup_all_sessions list_env difc_two) 0x80 = 1"
  using difc_cleanup_leaves_nothing [OF list_world _ difc_two_run [unfolded difc_start_def]]
  by (simp add: Let_def)

lemma add_ifc_ring:
  assumes "dynamic_ifc_add_ifc env k s = (ret, s')" and "k < length (dynamic_ifc_ety s)"
    and "\<not> ifc_valid (dynamic_ifc_ety s ! k)" and "ifc_valid (dynamic_ifc_ety s' ! k)"
  obtains i where "ring_id (dynamic_ifc_ety s' ! k) =
    fst (ifc_get_free_lro_ring ((dynamic_ifc_ety s)[k := (dynamic_ifc_ety s ! k)\<lparr>ifc_index := i\<rparr>])
           (int k) (ifc_ring_reserve s))"
proof -
  have "\<exists>i. ring_id (dynamic_ifc_ety s' ! k) =
      fst (ifc_get_free_lro_ring ((dynamic_ifc_ety s)[k := (dynamic_ifc_ety s ! k)\<lparr>ifc_index := i\<rparr>])
             (int k) (ifc_ring_reserve s))"
    using assms
    by (auto simp: dynamic_ifc_add_ifc_def upd_ety_def Let_def split: if_splits prod.splits)
      (metis fst_conv)
  then show thesis using that by blast
qed

text \<open>A session that reaches the bind rate gets a dedicated ring whenever one is free: in every
  run, a call that offloads a session and gives it the default ring has found all four rings
  taken by other offloaded sessions.\<close>

theorem difc_dedicated_first:
  assumes "difc_world env rules peek" and "rules h = {}"
    and "(difc_step env)\<^sup>*\<^sup>* (difc_boot h d bs bd mk) s"
    and "k < 8" and "\<not> ifc_valid (dynamic_ifc_ety s ! k)"
    and "dynamic_ifc_add_ifc env k s = (ret, s')"
    and "ifc_valid (dynamic_ifc_ety s' ! k)" and "ring_id (dynamic_ifc_ety s' ! k) = 1"
  shows "\<forall>i<4. \<exists>e<8. e \<noteq> k \<and> ifc_ring_reserve s ! i = int e \<and> ifc_valid (dynamic_ifc_ety s ! e) \<and>
           ring_id (dynamic_ifc_ety s ! e) = 12 + int i"
proof -
  let ?ety = "dynamic_ifc_ety s"
  have P: "difc_world.parts_core rules bs bd ?ety (ifc_ring_reserve s) (ifc_hw s) (hook_fn s)
      (sk_ref s) (dst_ref s)"
    using run_from_boot [OF assms(1-3)] by (simp add: difc_world.difc_inv_def [OF assms(1)])
  then have ring: "ring_inv ?ety (ifc_ring_reserve s)" and len: "length ?ety = 8"
    by (simp_all add: difc_world.parts_core_def [OF assms(1)] ring_inv_def)
  obtain idx where r: "fst (ifc_get_free_lro_ring (?ety[k := (?ety ! k)\<lparr>ifc_index := idx\<rparr>]) (int k)
      (ifc_ring_reserve s)) = 1"
    using add_ifc_ring [OF assms(6) _ assms(5,7)] assms(4,8) len by metis
  have "ring_inv (?ety[k := (?ety ! k)\<lparr>ifc_index := idx\<rparr>]) (ifc_ring_reserve s)"
    using assms(4,5) by (intro ring_inv_upd [OF ring]) simp_all
  then have "find (\<lambda>i. ifc_ring_reserve s ! i = - 1) [0..<4] = None"
    using r get_free_ring [of "?ety[k := (?ety ! k)\<lparr>ifc_index := idx\<rparr>]" "ifc_ring_reserve s" k] assms(4,5) len
    by (auto split: option.splits)
  then have taken: "\<forall>i<4. ifc_ring_reserve s ! i \<noteq> - 1" by (simp add: find_upt_None)
  show ?thesis
  proof (intro allI impI)
    fix i assume "i < (4::nat)"
    then obtain e where "e < 8" "ifc_ring_reserve s ! i = int e" "ifc_valid (?ety ! e)"
        "ring_id (?ety ! e) = 12 + int i" using ring taken unfolding ring_inv_def by blast
    then show "\<exists>e<8. e \<noteq> k \<and> ifc_ring_reserve s ! i = int e \<and> ifc_valid (?ety ! e) \<and>
        ring_id (?ety ! e) = 12 + int i" using assms(5) by blast
  qed
qed

text \<open>Four sessions hold the four rings; a fifth one reaches the bind rate.\<close>

definition difc_offload :: "u16 \<Rightarrow> (ifc_param list, u32 \<Rightarrow> u32) difc \<Rightarrow> (ifc_param list, u32 \<Rightarrow> u32) difc" where
  "difc_offload p s =
     difc_handle_tcp_do_rcv list_env 0 4 (Some 15) 0 p 80 (difc_add_entry_from_sock list_env 10 0 p 80 s)"

lemma difc_offload_run:
  assumes "(difc_step list_env)\<^sup>*\<^sup>* s0 s"
  shows "(difc_step list_env)\<^sup>*\<^sup>* s0 (difc_offload p s)"
proof -
  note r1 = rtranclp.rtrancl_into_rtrancl [OF assms step_add]
  show ?thesis unfolding difc_offload_def by (rule rtranclp.rtrancl_into_rtrancl [OF r1 step_rcv])
qed

definition difc_full :: "(ifc_param list, u32 \<Rightarrow> u32) difc" where
  "difc_full = difc_add_entry_from_sock list_env 10 0 5 80
     (difc_offload 4 (difc_offload 3 (difc_offload 2 (difc_offload 1 (difc_start\<lparr>hook_fn := True\<rparr>)))))"

lemma difc_full_run: "(difc_step list_env)\<^sup>*\<^sup>* difc_start difc_full"
proof -
  have "(difc_step list_env)\<^sup>*\<^sup>* difc_start (difc_start\<lparr>hook_fn := True\<rparr>)"
    by (rule r_into_rtranclp) (rule step_enable)
  note r = difc_offload_run [OF difc_offload_run [OF difc_offload_run [OF difc_offload_run [OF this]]]]
  show ?thesis unfolding difc_full_def by (rule rtranclp.rtrancl_into_rtrancl [OF r step_add])
qed

lemma difc_full_eval:
  "\<not> ifc_valid (dynamic_ifc_ety difc_full ! 4) \<and>
   ifc_valid (dynamic_ifc_ety (snd (dynamic_ifc_add_ifc list_env 4 difc_full)) ! 4) \<and>
   ring_id (dynamic_ifc_ety (snd (dynamic_ifc_add_ifc list_env 4 difc_full)) ! 4) = 1"
  by code_simp

theorem difc_dedicated_first_witness:
  "\<exists>e<8. e \<noteq> 4 \<and> ifc_ring_reserve difc_full ! 2 = int e \<and> ring_id (dynamic_ifc_ety difc_full ! e) = 14"
proof -
  have lt: "4 < (8 :: nat)" by simp
  note R = difc_dedicated_first [OF list_world list.set(1) difc_full_run [unfolded difc_start_def] lt
      conjunct1 [OF difc_full_eval] prod.collapse [symmetric]
      conjunct1 [OF conjunct2 [OF difc_full_eval]] conjunct2 [OF conjunct2 [OF difc_full_eval]]]
  show ?thesis using R [THEN spec, of 2] by auto
qed

end
