(* ===== verification/DynIfcPkt.thy ===== *)
theory DynIfcPkt
  imports DynIfcInv
begin

text \<open>
  The packet paths of the dynamic-IFC module, \<^verbatim>\<open>airoha/arht_dynamic_ifc.c\<close>: finding the TCP header in
  a packet's linear data, sending back a packet that the engine returned (the ping-pong path), and
  building the frame of the fast transmit path. Every read and write of packet bytes is checked:
  \<open>None\<close> is an access outside the linear data, and the theorems show it never happens.
\<close>

section \<open>Packets\<close>

text \<open>\<open>pkt_data\<close> is the linear data from \<^verbatim>\<open>skb->data\<close>; header positions are offsets from it. The
  packet owns a reference on its route when \<open>pkt_dst_ref\<close> holds.\<close>

record pkt =
  pkt_data :: "u8 list"
  pkt_len :: u32
  mac_header :: "int option"
  net_header :: int
  pkt_sk :: u64
  pkt_dst :: u64
  pkt_dst_ref :: bool
  inner_protocol :: u16
  protocol :: u16
  ip6cb_nhoff :: u16

abbreviation PPE_MAGIC_DYNAMIC_IFC :: u16 where "PPE_MAGIC_DYNAMIC_IFC \<equiv> 0x72b2"
abbreviation htons_ETH_P_IP :: u16 where "htons_ETH_P_IP \<equiv> 0x0008"
abbreviation htons_ETH_P_IPV6 :: u16 where "htons_ETH_P_IPV6 \<equiv> 0xDD86"

definition headlen :: "pkt \<Rightarrow> u32" where
  "headlen p = of_nat (length (pkt_data p))"

definition rd8 :: "u8 list \<Rightarrow> int \<Rightarrow> u8 option" where
  "rd8 d off = (if 0 \<le> off \<and> off < int (length d) then Some (d ! nat off) else None)"

text \<open>A half word as the little-endian CPU loads and stores it.\<close>

definition rd16 :: "u8 list \<Rightarrow> int \<Rightarrow> u16 option" where
  "rd16 d off = do { a \<leftarrow> rd8 d off; b \<leftarrow> rd8 d (off + 1); Some (ucast a OR push_bit 8 (ucast b)) }"

definition le16 :: "u16 \<Rightarrow> u8 list" where
  "le16 w = [ucast w, ucast (drop_bit 8 w)]"

definition wr16 :: "int \<Rightarrow> u16 \<Rightarrow> u8 list \<Rightarrow> u8 list option" where
  "wr16 off w d =
     (if 0 \<le> off \<and> off + 1 < int (length d)
      then Some (d[nat off := ucast w, nat off + 1 := ucast (drop_bit 8 w)]) else None)"

section \<open>The TCP header\<close>

definition get_tcp_header :: "pkt \<Rightarrow> u16 \<Rightarrow> int option option" where
  "get_tcp_header p prot =
     (let nhoff = (word_of_int (net_header p) :: u32) in
      if prot = htons_ETH_P_IPV6 then
        (if (ucast (headlen p) :: u64) < ucast nhoff + 40 + 20 then Some None
         else do { nexthdr \<leftarrow> rd8 (pkt_data p) (net_header p + 6);
                   Some (if nexthdr = 6 then Some (net_header p + 40) else None) })
      else if prot = htons_ETH_P_IP then
        (if (ucast (headlen p) :: u64) < ucast nhoff + 20 then Some None
         else do {
           b \<leftarrow> rd8 (pkt_data p) (net_header p);
           let ihl = (push_bit 2 (ucast (b AND 0x0F)) :: u32);
           if ihl < 20 then Some None
           else if (ucast (headlen p) :: u64) < ucast (nhoff + ihl) + 20 then Some None
           else do { prt \<leftarrow> rd8 (pkt_data p) (net_header p + 9);
                     Some (if prt = 6 then Some (net_header p + uint ihl) else None) } })
      else Some None)"

definition get_dynamic_ifc_ety :: "dynamic_ifc list \<Rightarrow> pkt \<Rightarrow> u16 \<Rightarrow> bool \<Rightarrow> nat option option" where
  "get_dynamic_ifc_ety ety p prot out = do {
     th \<leftarrow> get_tcp_header p prot;
     (case th of
        None \<Rightarrow> Some None
      | Some off \<Rightarrow> do {
          src \<leftarrow> rd16 (pkt_data p) off;
          dst \<leftarrow> rd16 (pkt_data p) (off + 2);
          Some (if out then find_dynamic_ifc_ety_by_port ety src dst
                else find_dynamic_ifc_ety_by_port ety dst src) }) }"

section \<open>The ping-pong path\<close>

text \<open>The packet is freed, or handed to the output function of a route with its socket.\<close>

datatype pp_result = Freed | Output u64 u64

definition dst_drop :: "pkt \<Rightarrow> ('h, 'd) difc \<Rightarrow> ('h, 'd) difc" where
  "dst_drop p s = (if pkt_dst_ref p then s\<lparr>dst_ref := ref_dec (pkt_dst p) (dst_ref s)\<rparr> else s)"

definition kfree_skb :: "pkt \<Rightarrow> ('h, 'd) difc \<Rightarrow> pp_result \<times> pkt \<times> ('h, 'd) difc" where
  "kfree_skb p s = (Freed, p, dst_drop p s)"

text \<open>\<open>dev\<close> and \<open>outp\<close> say whether a route has a device and an output function.\<close>

definition pingpong_send ::
  "(u64 \<Rightarrow> bool) \<Rightarrow> (u64 \<Rightarrow> bool) \<Rightarrow> nat \<Rightarrow> pkt \<Rightarrow> ('h, 'd) difc \<Rightarrow> pp_result \<times> pkt \<times> ('h, 'd) difc" where
  "pingpong_send dev outp k p s =
     (let d = tx_dst (dynamic_ifc_ety s ! k) in
      if d = 0 then kfree_skb p s
      else
        let p = p\<lparr>inner_protocol := PPE_MAGIC_DYNAMIC_IFC\<rparr>;
            s = s\<lparr>dst_ref := ref_inc d (dst_ref s)\<rparr>;
            s = dst_drop p s;
            p = p\<lparr>pkt_dst := d, pkt_dst_ref := True\<rparr>
        in if \<not> dev d \<or> \<not> outp d
           then let s = dst_drop p s;
                    p = p\<lparr>pkt_dst := 0, pkt_dst_ref := False\<rparr>
                in kfree_skb p s
           else (Output d (pkt_sk p), p, s))"

definition local_out_pingpong ::
  "(u64 \<Rightarrow> bool) \<Rightarrow> (u64 \<Rightarrow> bool) \<Rightarrow> pkt \<Rightarrow> ('h, 'd) difc \<Rightarrow> (pp_result \<times> pkt \<times> ('h, 'd) difc) option" where
  "local_out_pingpong dev outp p s =
     (case mac_header p of
        None \<Rightarrow> Some (kfree_skb p s)
      | Some mh \<Rightarrow>
          if headlen p < 14 then Some (kfree_skb p s)
          else if mh \<noteq> 0 then Some (kfree_skb p s)
          else do {
            h_proto \<leftarrow> rd16 (pkt_data p) 12;
            if h_proto \<noteq> htons_ETH_P_IP \<and> h_proto \<noteq> htons_ETH_P_IPV6 then Some (kfree_skb p s)
            else
              let min_net_hdr_len = (if h_proto = htons_ETH_P_IP then 20 else 40 :: u32) in
              if headlen p < 14 + min_net_hdr_len then Some (kfree_skb p s)
              else
                let p = p\<lparr>net_header := 14\<rparr> in
                if headlen p < 14 + min_net_hdr_len + 20 then Some (kfree_skb p s)
                else do {
                  lo \<leftarrow> get_dynamic_ifc_ety (dynamic_ifc_ety s) p h_proto True;
                  Some (case lo of
                     None \<Rightarrow> kfree_skb p s
                   | Some k \<Rightarrow> pingpong_send dev outp k p s) } })"

section \<open>The transmit path\<close>

text \<open>\<open>cow_ok\<close>: \<^verbatim>\<open>skb_cow_head\<close> succeeded. \<open>set_totlen\<close> and \<open>send_check\<close> are the kernel's IPv4 header
  helpers on the linear data and the header's offset. The second component is the packet handed
  to \<^verbatim>\<open>fast_tx_fn\<close> on channel 7.\<close>

definition difc_handle_local_out ::
  "bool \<Rightarrow> (int \<Rightarrow> u32 \<Rightarrow> u8 list \<Rightarrow> u8 list) \<Rightarrow> (int \<Rightarrow> u8 list \<Rightarrow> u8 list) \<Rightarrow> u64 \<Rightarrow> u16 \<Rightarrow> u16 \<Rightarrow> bool \<Rightarrow>
     u8 list \<Rightarrow> pkt \<Rightarrow> ('h, 'd) difc \<Rightarrow> (int \<times> (pkt \<times> int) option \<times> pkt \<times> ('h, 'd) difc) option" where
  "difc_handle_local_out cow_ok set_totlen send_check jiffies sport dport is_ipv4 mac p s =
     (let ipv6_plen = (if \<not> is_ipv4 then sint (pkt_len p - word_of_int (net_header p) - 40 :: u32) else 0);
          (found, s) = difc_local_out_session jiffies (pkt_dst p) sport dport s
      in if \<not> found then Some (0, None, p, s)
         else if \<not> cow_ok then Some (0, None, p, s)
         else do {
           p \<leftarrow> (if is_ipv4
                then Some (p\<lparr>pkt_data := send_check (net_header p)
                                (set_totlen (net_header p) (pkt_len p) (pkt_data p)),
                              protocol := htons_ETH_P_IP\<rparr>)
                else do {
                  let plen = (if 65535 < ipv6_plen then 0 else ipv6_plen);
                  d \<leftarrow> wr16 (net_header p + 4) (ntohs (word_of_int plen)) (pkt_data p);
                  Some (p\<lparr>pkt_data := d, ip6cb_nhoff := 6, protocol := htons_ETH_P_IPV6\<rparr>) });
           let p = p\<lparr>inner_protocol := PPE_MAGIC_DYNAMIC_IFC,
                     pkt_data := take 6 mac @ take 6 mac @ le16 (protocol p) @ pkt_data p,
                     pkt_len := pkt_len p + 14, net_header := net_header p + 14\<rparr>;
           Some (1, Some (p, 7), p, s) })"

section \<open>Lemmas\<close>

lemma uint_ucast_u64: "uint (ucast (w :: u32) :: u64) = uint w"
  by (rule uint_up_ucast) (simp add: is_up)

lemma u64_add_small:
  "uint a < 2 ^ 40 \<Longrightarrow> uint b < 2 ^ 40 \<Longrightarrow> uint (a + b :: u64) = uint a + uint b"
  by (simp add: uint_word_ariths)

lemma uint_u32_bound: "uint (w :: u32) < 2 ^ 32"
  using uint_lt2p [of w] by simp

lemma headlen_uint: "length (pkt_data p) < 2 ^ 31 \<Longrightarrow> uint (headlen p) = int (length (pkt_data p))"
  unfolding headlen_def by (simp add: uint_nat unat_of_nat)

lemma uint_off:
  assumes "- (2 ^ 31) \<le> off" and "off < 2 ^ 31"
  shows "uint (word_of_int off :: u32) = (if 0 \<le> off then off else off + 2 ^ 32)"
proof (cases "0 \<le> off")
  case True
  then show ?thesis using assms by (simp add: uint_word_of_int)
next
  case False
  have "off mod 2 ^ 32 = (off + 2 ^ 32) mod 2 ^ 32" by (rule mod_add_self2 [symmetric])
  also have "\<dots> = off + 2 ^ 32" using False assms(1) by (intro mod_pos_pos_trivial) simp_all
  finally show ?thesis using False by (simp add: uint_word_of_int)
qed

text \<open>The length test \<^verbatim>\<open>skb_headlen(skb) < nhoff + n\<close> in 64 bits.\<close>

lemma enough_iff:
  assumes "length (pkt_data p) < 2 ^ 31" and "- (2 ^ 31) \<le> net_header p" and "net_header p < 2 ^ 31"
    and "uint n < 2 ^ 20"
  shows "(ucast (headlen p) :: u64) < ucast (word_of_int (net_header p) :: u32) + n \<longleftrightarrow>
         net_header p < 0 \<or> int (length (pkt_data p)) < net_header p + uint n"
proof -
  have "uint (ucast (word_of_int (net_header p) :: u32) + n :: u64) =
      uint (word_of_int (net_header p) :: u32) + uint n"
    using uint_u32_bound [of "word_of_int (net_header p)"] assms(4)
    by (subst u64_add_small) (simp_all add: uint_ucast_u64)
  then have "(ucast (headlen p) :: u64) < ucast (word_of_int (net_header p) :: u32) + n \<longleftrightarrow>
      int (length (pkt_data p)) < uint (word_of_int (net_header p) :: u32) + uint n"
    unfolding word_less_def uint_ucast_u64 headlen_uint [OF assms(1)] by simp
  moreover have "int (length (pkt_data p)) < net_header p + 2 ^ 32 + uint n"
  proof -
    have "int (length (pkt_data p)) < 2147483648" using assms(1) by simp
    moreover have "- 2147483648 \<le> net_header p" using assms(2) by simp
    moreover note uint_ge_0 [of n]
    ultimately have "int (length (pkt_data p)) < net_header p + 4294967296 + uint n" by linarith
    then show ?thesis by simp
  qed
  ultimately show ?thesis unfolding uint_off [OF assms(2,3)] by auto
qed

lemma rd8_in: "0 \<le> off \<Longrightarrow> off < int (length d) \<Longrightarrow> rd8 d off = Some (d ! nat off)"
  by (simp add: rd8_def)

lemma rd16_in: "0 \<le> off \<Longrightarrow> off + 1 < int (length d) \<Longrightarrow> \<exists>w. rd16 d off = Some w"
  by (simp add: rd16_def rd8_def)

lemma ihl_bound: "uint (push_bit 2 (ucast (b AND 0x0F :: u8)) :: u32) \<le> 60"
proof -
  have "uint (b AND 0x0F) \<le> 15" by (simp add: uint_and AND_upper2)
  moreover have "uint (push_bit 2 (ucast (b AND 0x0F)) :: u32) = (uint (b AND 0x0F) * 4) mod 2 ^ 32"
    by (simp add: push_bit_eq_mult uint_word_ariths uint_up_ucast is_up)
  ultimately show ?thesis by simp
qed

text \<open>No access of the header parser leaves the linear data, and neither does the header it finds.\<close>

lemma tcp_header_bounds:
  assumes len: "length (pkt_data p) < 2 ^ 31" and net: "- (2 ^ 31) \<le> net_header p" "net_header p < 2 ^ 31"
  shows "\<exists>th. get_tcp_header p prot = Some th \<and>
     (\<forall>off. th = Some off \<longrightarrow> 0 \<le> net_header p \<and> net_header p + 20 \<le> off \<and> off + 20 \<le> int (length (pkt_data p)))"
proof -
  let ?d = "pkt_data p" and ?n = "net_header p"
  note E = enough_iff [OF len net]
  consider (v6) "prot = htons_ETH_P_IPV6" | (v4) "prot = htons_ETH_P_IP"
    | (other) "prot \<noteq> htons_ETH_P_IPV6" "prot \<noteq> htons_ETH_P_IP" by blast
  then show ?thesis
  proof cases
    case v6
    have "(ucast (headlen p) :: u64) < ucast (word_of_int ?n :: u32) + 40 + 20 \<longleftrightarrow>
        ?n < 0 \<or> int (length ?d) < ?n + 60"
      using E [of 60] by (simp add: add.assoc)
    then show ?thesis using v6 by (auto simp: get_tcp_header_def rd8_in)
  next
    case v4
    have c: "(ucast (headlen p) :: u64) < ucast (word_of_int ?n :: u32) + 20 \<longleftrightarrow>
        ?n < 0 \<or> int (length ?d) < ?n + 20" using E [of 20] by simp
    show ?thesis
    proof (cases "?n < 0 \<or> int (length ?d) < ?n + 20")
      case True
      then show ?thesis using v4 c by (simp add: get_tcp_header_def)
    next
      case False
      let ?ihl = "push_bit 2 (ucast (?d ! nat ?n AND 0x0F)) :: u32"
      have un: "uint (word_of_int ?n :: u32) = ?n" using uint_off [OF net] False by simp
      have "uint (word_of_int ?n + ?ihl :: u32) = (?n + uint ?ihl) mod 2 ^ 32"
        by (simp only: uint_word_ariths un) simp
      also have "\<dots> = ?n + uint ?ihl" using False net ihl_bound [of "?d ! nat ?n"] by simp
      finally have sum: "uint (word_of_int ?n + ?ihl :: u32) = ?n + uint ?ihl" .
      have "uint (ucast (word_of_int ?n + ?ihl :: u32) + 20 :: u64) = ?n + uint ?ihl + 20"
        using uint_u32_bound [of "word_of_int ?n + ?ihl"]
        by (subst u64_add_small) (simp_all add: uint_ucast_u64 sum)
      then have c2: "(ucast (headlen p) :: u64) < ucast (word_of_int ?n + ?ihl :: u32) + 20 \<longleftrightarrow>
          int (length ?d) < ?n + uint ?ihl + 20"
        unfolding word_less_def uint_ucast_u64 headlen_uint [OF len] by simp
      have "?ihl < 20 \<longleftrightarrow> uint ?ihl < 20" by (simp add: word_less_def)
      then show ?thesis using v4 c False c2 by (auto simp: get_tcp_header_def rd8_in Let_def)
    qed
  next
    case other
    then show ?thesis by (simp add: get_tcp_header_def)
  qed
qed

text \<open>The lookup reads the ports inside the header, and finds a live session with those ports.\<close>

lemma get_ety_safe:
  assumes "length (pkt_data p) < 2 ^ 31" "- (2 ^ 31) \<le> net_header p" "net_header p < 2 ^ 31"
  shows "\<exists>e. get_dynamic_ifc_ety ety p prot out = Some e \<and>
     (\<forall>k. e = Some k \<longrightarrow> k < 8 \<and> valid (ety ! k) \<and>
        (\<exists>off src dst. get_tcp_header p prot = Some (Some off) \<and> rd16 (pkt_data p) off = Some src \<and>
           rd16 (pkt_data p) (off + 2) = Some dst \<and>
           local_port (ety ! k) = (if out then src else dst) \<and>
           remote_port (ety ! k) = (if out then dst else src)))"
proof -
  obtain th where th: "get_tcp_header p prot = Some th"
    "\<And>off. th = Some off \<Longrightarrow> 0 \<le> net_header p \<and> net_header p + 20 \<le> off \<and> off + 20 \<le> int (length (pkt_data p))"
    using tcp_header_bounds [OF assms, of prot] by blast
  show ?thesis
  proof (cases th)
    case None
    then show ?thesis using th by (simp add: get_dynamic_ifc_ety_def)
  next
    case (Some off)
    then have b: "0 \<le> off" "off + 20 \<le> int (length (pkt_data p))" using th(2) by force+
    obtain src where src: "rd16 (pkt_data p) off = Some src" using rd16_in [of off "pkt_data p"] b by auto
    obtain dst where dst: "rd16 (pkt_data p) (off + 2) = Some dst"
      using rd16_in [of "off + 2" "pkt_data p"] b by auto
    show ?thesis
      using th(1) Some src dst
      by (cases out) (auto simp: get_dynamic_ifc_ety_def find_dynamic_ifc_ety_by_port_def dest: find_upt_SomeD(1,2))
  qed
qed

section \<open>Route references\<close>

text \<open>The references after the packet's own one is dropped.\<close>

definition own_dropped :: "pkt \<Rightarrow> (u64 \<Rightarrow> int) \<Rightarrow> u64 \<Rightarrow> int" where
  "own_dropped p r = (if pkt_dst_ref p then ref_dec (pkt_dst p) r else r)"

lemma ref_dec_inc: "ref_dec d (ref_dec a (ref_inc d r)) = ref_dec a r" "ref_dec d (ref_inc d r) = r"
  by (auto simp: ref_dec_def ref_inc_def fun_eq_iff)

lemma own_dropped_inc: "ref_dec d (own_dropped p (ref_inc d r)) = own_dropped p r"
  by (simp add: own_dropped_def ref_dec_inc)

lemma headlen_less: "length (pkt_data p) < 2 ^ 31 \<Longrightarrow> headlen p < n \<longleftrightarrow> int (length (pkt_data p)) < uint n"
  unfolding word_less_def by (simp add: headlen_uint)

lemma headlen_net [simp]: "headlen (p\<lparr>net_header := n\<rparr>) = headlen p"
  by (simp add: headlen_def)

text \<open>What the lookup's answer does to the packet.\<close>

definition pp_answer :: "(u64 \<Rightarrow> bool) \<Rightarrow> (u64 \<Rightarrow> bool) \<Rightarrow> pkt \<Rightarrow> ('h, 'd) difc \<Rightarrow> nat option \<Rightarrow>
    pp_result \<times> pkt \<times> ('h, 'd) difc \<Rightarrow> bool" where
  "pp_answer dev outp p s lo res \<longleftrightarrow> (case res of (r, p', s') \<Rightarrow>
     s' = s\<lparr>dst_ref := dst_ref s'\<rparr> \<and> pkt_data p' = pkt_data p \<and>
     (case r of
        Freed \<Rightarrow> dst_ref s' = own_dropped p (dst_ref s)
      | Output d sk \<Rightarrow> d \<noteq> 0 \<and> dev d \<and> outp d \<and> sk = pkt_sk p \<and> pkt_dst p' = d \<and> pkt_dst_ref p' \<and>
          inner_protocol p' = PPE_MAGIC_DYNAMIC_IFC \<and>
          dst_ref s' = own_dropped p (ref_inc d (dst_ref s)) \<and>
          (\<exists>k. lo = Some k \<and> tx_dst (dynamic_ifc_ety s ! k) = d)))"

lemma pp_answer_free: "pp_answer dev outp p s lo (kfree_skb (p\<lparr>net_header := n\<rparr>) s)"
  "pp_answer dev outp p s lo (kfree_skb p s)"
  by (simp_all add: pp_answer_def kfree_skb_def dst_drop_def own_dropped_def)

lemma pp_answer_send: "pp_answer dev outp p s (Some k) (pingpong_send dev outp k (p\<lparr>net_header := n\<rparr>) s)"
proof (cases "tx_dst (dynamic_ifc_ety s ! k) = 0")
  case True
  then show ?thesis by (simp add: pingpong_send_def pp_answer_free)
next
  case False
  then show ?thesis
    by (cases s) (simp add: pingpong_send_def pp_answer_def Let_def kfree_skb_def dst_drop_def own_dropped_def
        ref_dec_inc)
qed

lemma pingpong_cases:
  assumes len: "length (pkt_data p) < 2 ^ 31"
  shows "\<exists>lo res. local_out_pingpong dev outp p s = Some res \<and> pp_answer dev outp p s lo res \<and>
     (\<forall>k. lo = Some k \<longrightarrow> k < 8 \<and> valid (dynamic_ifc_ety s ! k) \<and>
        (\<exists>prot off. get_tcp_header (p\<lparr>net_header := 14\<rparr>) prot = Some (Some off) \<and>
           rd16 (pkt_data p) off = Some (local_port (dynamic_ifc_ety s ! k)) \<and>
           rd16 (pkt_data p) (off + 2) = Some (remote_port (dynamic_ifc_ety s ! k))))"
proof (cases "mac_header p = Some 0 \<and> \<not> headlen p < 14")
  case False
  then have "local_out_pingpong dev outp p s = Some (kfree_skb p s)"
    by (auto simp: local_out_pingpong_def split: option.splits)
  then show ?thesis using pp_answer_free(2) [of dev outp p s None] by blast
next
  case True
  then have "14 \<le> int (length (pkt_data p))" using headlen_less [OF len, of 14] by simp
  then obtain h where h: "rd16 (pkt_data p) 12 = Some h" using rd16_in [of 12 "pkt_data p"] by auto
  let ?p = "p\<lparr>net_header := 14\<rparr>" and ?m = "if h = htons_ETH_P_IP then 20 else 40 :: u32"
  show ?thesis
  proof (cases "h \<noteq> htons_ETH_P_IP \<and> h \<noteq> htons_ETH_P_IPV6 \<or> headlen p < 14 + ?m \<or> headlen p < 14 + ?m + 20")
    case bad: True
    have "local_out_pingpong dev outp p s \<in> {Some (kfree_skb p s), Some (kfree_skb ?p s)}"
      using True bad h unfolding local_out_pingpong_def Let_def
      by (cases "h = htons_ETH_P_IP"; cases "h = htons_ETH_P_IPV6") auto
    then show ?thesis using pp_answer_free [of dev outp p s None] by blast
  next
    case ok: False
    obtain lo where lo: "get_dynamic_ifc_ety (dynamic_ifc_ety s) ?p h True = Some lo"
      and fnd: "\<And>k. lo = Some k \<Longrightarrow> k < 8 \<and> valid (dynamic_ifc_ety s ! k) \<and>
        (\<exists>off src dst. get_tcp_header ?p h = Some (Some off) \<and> rd16 (pkt_data p) off = Some src \<and>
           rd16 (pkt_data p) (off + 2) = Some dst \<and> local_port (dynamic_ifc_ety s ! k) = src \<and>
           remote_port (dynamic_ifc_ety s ! k) = dst)"
      using get_ety_safe [of ?p "dynamic_ifc_ety s" h True] len by auto
    let ?res = "case lo of None \<Rightarrow> kfree_skb ?p s | Some k \<Rightarrow> pingpong_send dev outp k ?p s"
    have e: "local_out_pingpong dev outp p s = Some ?res"
      using True ok h lo unfolding local_out_pingpong_def Let_def
      by (cases "h = htons_ETH_P_IP") (simp_all split del: if_split)
    have "pp_answer dev outp p s lo ?res"
      by (cases lo) (simp_all add: pp_answer_free pp_answer_send)
    then show ?thesis using e fnd by blast
  qed
qed

lemma ntohs_bytes: "256 * uint (ucast (ntohs x) :: u8) + uint (ucast (drop_bit 8 (ntohs x)) :: u8) = uint x"
proof -
  have "ucast (ntohs x) = (ucast (drop_bit 8 x) :: u8)"
    by (rule bit_word_eqI) (auto simp: ntohs_def bit_simps dest: bit_imp_le_length)
  moreover have "ucast (drop_bit 8 (ntohs x)) = (ucast x :: u8)"
    by (rule bit_word_eqI) (auto simp: ntohs_def bit_simps dest: bit_imp_le_length)
  moreover have "uint (drop_bit 8 x) = uint x div 256"
    unfolding unsigned_drop_bit_eq using uint_lt2p [of x] by (simp add: drop_bit_eq_div take_bit_eq_mod)
  moreover have "uint x div 256 mod 256 = uint x div 256"
    using uint_lt2p [of x] by (intro mod_pos_pos_trivial) (simp_all add: pos_imp_zdiv_nonneg_iff)
  ultimately show ?thesis by (simp add: unsigned_ucast_eq take_bit_eq_mod)
qed

text \<open>The IPv6 payload length: what is left after the header, or zero when it does not fit.\<close>

lemma plen_bytes:
  assumes "0 \<le> net" and "net + 40 \<le> uint (len :: u32)" and "uint len < 2 ^ 31"
  shows "sint (len - word_of_int net - 40) = uint len - net - 40"
proof -
  have "uint (len - word_of_int net - 40) = (uint len - net - 40) mod 2 ^ 32"
    using assms by (simp add: uint_word_ariths uint_word_of_int mod_simps)
  also have "\<dots> = uint len - net - 40" using assms by (intro mod_pos_pos_trivial) simp_all
  finally show ?thesis using assms by (simp add: sint_uint signed_take_bit_int_eq_self)
qed

lemma le16_types: "le16 htons_ETH_P_IP = [0x08, 0x00]" "le16 htons_ETH_P_IPV6 = [0x86, 0xDD]"
  by code_simp+

section \<open>Properties\<close>

text \<open>C4: the TCP header parser never reads outside the packet's linear data, whatever the bytes
  say, and a header it returns lies wholly inside it, past a whole IP header.\<close>

theorem tcp_header_in_bounds:
  assumes "length (pkt_data p) < 2 ^ 31" and "- (2 ^ 31) \<le> net_header p" and "net_header p < 2 ^ 31"
  shows "get_tcp_header p prot \<noteq> None \<and>
     (\<forall>off. get_tcp_header p prot = Some (Some off) \<longrightarrow>
        0 \<le> net_header p \<and> net_header p + 20 \<le> off \<and> off + 20 \<le> int (length (pkt_data p)))"
  using tcp_header_bounds [OF assms, of prot] by auto

text \<open>An IPv4 frame: Ethernet, a header of 24 bytes, TCP from port 5 to port 6 (as loaded).\<close>

definition pkt_example :: pkt where
  "pkt_example = \<lparr>pkt_data = replicate 12 0 @ [8, 0] @ (0x46 # replicate 8 0 @ [6] @ replicate 14 0) @
       [5, 0, 6, 0] @ replicate 16 0, pkt_len = 58, mac_header = Some 0, net_header = 14, pkt_sk = 0x70,
     pkt_dst = 0x99, pkt_dst_ref = True, inner_protocol = 0, protocol = 0, ip6cb_nhoff = 0\<rparr>"

theorem tcp_header_in_bounds_witness: "get_tcp_header pkt_example htons_ETH_P_IP \<noteq> None"
proof -
  have "length (pkt_data pkt_example) < 2 ^ 31 \<and> net_header pkt_example = 14" by (simp add: pkt_example_def)
  then show ?thesis using tcp_header_in_bounds [of pkt_example htons_ETH_P_IP] by simp
qed

text \<open>C9: a packet that comes back from the engine is consumed exactly once without reading outside
  it: either it is freed and only its own route reference is dropped, or it is sent, with a fresh
  reference, on the route of a live session whose ports are the ones in its TCP header.\<close>

theorem pingpong_delivers:
  assumes "length (pkt_data p) < 2 ^ 31"
  shows "\<exists>r p' s'. local_out_pingpong dev outp p s = Some (r, p', s') \<and>
     s' = s\<lparr>dst_ref := dst_ref s'\<rparr> \<and> pkt_data p' = pkt_data p \<and>
     (r = Freed \<and> dst_ref s' = own_dropped p (dst_ref s) \<or>
      (\<exists>k<8. \<exists>prot off. let lo = dynamic_ifc_ety s ! k in
         r = Output (tx_dst lo) (pkt_sk p) \<and> valid lo \<and> tx_dst lo \<noteq> 0 \<and> dev (tx_dst lo) \<and> outp (tx_dst lo) \<and>
         pkt_dst p' = tx_dst lo \<and> pkt_dst_ref p' \<and> inner_protocol p' = PPE_MAGIC_DYNAMIC_IFC \<and>
         dst_ref s' = own_dropped p (ref_inc (tx_dst lo) (dst_ref s)) \<and>
         get_tcp_header (p\<lparr>net_header := 14\<rparr>) prot = Some (Some off) \<and>
         rd16 (pkt_data p) off = Some (local_port lo) \<and> rd16 (pkt_data p) (off + 2) = Some (remote_port lo)))"
proof -
  obtain lo r p' s' where e: "local_out_pingpong dev outp p s = Some (r, p', s')"
    and a: "pp_answer dev outp p s lo (r, p', s')"
    and k: "\<And>k. lo = Some k \<Longrightarrow> k < 8 \<and> valid (dynamic_ifc_ety s ! k) \<and>
        (\<exists>prot off. get_tcp_header (p\<lparr>net_header := 14\<rparr>) prot = Some (Some off) \<and>
           rd16 (pkt_data p) off = Some (local_port (dynamic_ifc_ety s ! k)) \<and>
           rd16 (pkt_data p) (off + 2) = Some (remote_port (dynamic_ifc_ety s ! k)))"
    using pingpong_cases [OF assms, of dev outp s] by fastforce
  show ?thesis
  proof (cases r)
    case Freed
    then show ?thesis using e a by (auto simp: pp_answer_def)
  next
    case (Output d sk)
    then obtain i where "lo = Some i" "tx_dst (dynamic_ifc_ety s ! i) = d" using a by (auto simp: pp_answer_def)
    with e a k [of i] Output show ?thesis unfolding pp_answer_def Let_def by fastforce
  qed
qed

definition pkt_table :: "(unit, unit) difc" where
  "pkt_table = \<lparr>dynamic_ifc_ety = \<lparr>rx_dst = 0, tx_dst = 0x90, age_timer = Some 1, lo_sk = 0x70, local_port = 5,
       remote_port = 6, lo_hash = 0, last_tx = 0, valid = True, skip_copy = False, ifc_valid = False,
       timer_active = True, ifc_index = 0, ring_id = 0\<rparr> # replicate 7
      \<lparr>rx_dst = 0, tx_dst = 0, age_timer = None, lo_sk = 0, local_port = 0,
       remote_port = 0, lo_hash = 0, last_tx = 0, valid = False, skip_copy = False, ifc_valid = False,
       timer_active = False, ifc_index = 0, ring_id = 0\<rparr>,
     ifc_ring_reserve = replicate 4 IFC_RING_SLOT_FREE,
     lro = \<lparr>lro_agg_num_orig_cdm1 = 0, lro_agg_num_orig_cdm2 = 0, lro_agg_num_saved = False\<rparr>,
     lro_agg_num = 18, hook_fn = False, ifc_hw = (), fe_regs = (), sk_ref = (\<lambda>_. 1), dst_ref = (\<lambda>_. 1),
     sk_mark_of = (\<lambda>_. 0)\<rparr>"

lemma pkt_example_sent:
  "case local_out_pingpong (\<lambda>_. True) (\<lambda>_. True) pkt_example pkt_table of
     Some (r, p', s') \<Rightarrow> r = Output 0x90 0x70 | None \<Rightarrow> False"
  by code_simp

theorem pingpong_delivers_witness:
  "case local_out_pingpong (\<lambda>_. True) (\<lambda>_. True) pkt_example pkt_table of
     Some (r, p', s') \<Rightarrow> dst_ref s' 0x90 = 2 \<and> dst_ref s' 0x99 = 0 | None \<Rightarrow> False"
proof -
  have "length (pkt_data pkt_example) < 2 ^ 31" by (simp add: pkt_example_def)
  from pingpong_delivers [OF this, of "\<lambda>_. True" "\<lambda>_. True" pkt_table] pkt_example_sent
  show ?thesis
    by (auto simp: Let_def own_dropped_def pkt_example_def pkt_table_def ref_inc_def ref_dec_def)
qed

text \<open>The transmit path either leaves the packet alone and reports 0, because no session has its
  ports or no headroom could be had, or it hands exactly one frame to the engine on channel 7:
  the local MAC address twice, the ether type, and the packet with its length field fixed (for
  IPv6, zero above 65535 bytes of payload) and nothing else changed.\<close>

theorem local_out_frame:
  assumes "length mac = 6" and "0 \<le> net_header p" and "net_header p + 40 \<le> int (length (pkt_data p))"
    and "int (length (pkt_data p)) \<le> uint (pkt_len p)" and "uint (pkt_len p) < 2 ^ 31"
  shows "\<exists>r tx p' s'. difc_handle_local_out cow totlen chk now a b v4 mac p s = Some (r, tx, p', s') \<and>
     (if find_dynamic_ifc_ety_by_port (dynamic_ifc_ety s) a b = None \<or> \<not> cow
      then r = 0 \<and> tx = None \<and> p' = p
      else r = 1 \<and> tx = Some (p', 7) \<and>
        (\<exists>l3. pkt_data p' = mac @ mac @ (if v4 then [0x08, 0x00] else [0x86, 0xDD]) @ l3 \<and>
           (if v4 then l3 = chk (net_header p) (totlen (net_header p) (pkt_len p) (pkt_data p))
            else length l3 = length (pkt_data p) \<and>
              (let n = uint (pkt_len p) - net_header p - 40; k = nat (net_header p)
               in 256 * uint (l3 ! (k + 4)) + uint (l3 ! (k + 5)) = (if 65535 < n then 0 else n) \<and>
                  (\<forall>i<length l3. i \<noteq> k + 4 \<and> i \<noteq> k + 5 \<longrightarrow> l3 ! i = pkt_data p ! i)))))"
proof -
  obtain found s1 where s1: "difc_local_out_session now (pkt_dst p) a b s = (found, s1)" by fastforce
  have found: "found \<longleftrightarrow> find_dynamic_ifc_ety_by_port (dynamic_ifc_ety s) a b \<noteq> None"
    using s1 by (auto simp: difc_local_out_session_def Let_def split: option.splits)
  let ?n = "uint (pkt_len p) - net_header p - 40" and ?k = "nat (net_header p)"
  have n: "sint (pkt_len p - word_of_int (net_header p) - 40) = ?n"
    using assms by (intro plen_bytes) linarith+
  let ?plen = "if 65535 < ?n then 0 else ?n"
  let ?w = "ntohs (word_of_int ?plen)"
  let ?l3 = "(pkt_data p)[?k + 4 := ucast ?w, ?k + 5 := ucast (drop_bit 8 ?w)]"
  have wr: "wr16 (net_header p + 4) ?w (pkt_data p) = Some ?l3"
    using assms(2,3) by (simp add: wr16_def nat_add_distrib eval_nat_numeral)
  have kl: "?k + 5 < length (pkt_data p)" using assms(2,3) by linarith
  have "uint (word_of_int ?plen :: u16) = ?plen"
    using assms(3,4) by (simp add: uint_word_of_int)
  then have v: "256 * uint (?l3 ! (?k + 4)) + uint (?l3 ! (?k + 5)) = ?plen"
    using kl ntohs_bytes [of "word_of_int ?plen"] by simp
  have mac: "take 6 mac = mac" using assms(1) by simp
  show ?thesis
  proof (cases "\<not> found \<or> \<not> cow")
    case True
    then show ?thesis using found by (auto simp: difc_handle_local_out_def s1)
  next
    case False
    show ?thesis
    proof (cases v4)
      case True
      then show ?thesis using False found by (simp add: difc_handle_local_out_def s1 mac le16_types Let_def)
    next
      case v6: False
      have "\<forall>i<length ?l3. i \<noteq> ?k + 4 \<and> i \<noteq> ?k + 5 \<longrightarrow> ?l3 ! i = pkt_data p ! i" by simp
      moreover have "length ?l3 = length (pkt_data p)" by simp
      moreover obtain l3 where l3: "l3 = ?l3" by simp
      have e: "\<exists>p'. difc_handle_local_out cow totlen chk now a b v4 mac p s = Some (1, Some (p', 7), p', s1) \<and>
          pkt_data p' = mac @ mac @ [0x86, 0xDD] @ l3"
        using v6 False wr [folded l3] unfolding difc_handle_local_out_def n s1 Let_def mac
        by (simp add: le16_types cong: if_cong)
      ultimately show ?thesis using v6 False found v e unfolding l3 [symmetric] Let_def by auto
    qed
  qed
qed

definition pkt6_example :: pkt where
  "pkt6_example = \<lparr>pkt_data = 0x60 # replicate 39 0 @ replicate 20 1, pkt_len = 1460, mac_header = None,
     net_header = 0, pkt_sk = 0x70, pkt_dst = 0x99, pkt_dst_ref = True, inner_protocol = 0, protocol = 0,
     ip6cb_nhoff = 0\<rparr>"

lemma pkt6_example_found: "find_dynamic_ifc_ety_by_port (dynamic_ifc_ety pkt_table) 5 6 \<noteq> None"
  by code_simp

theorem local_out_frame_witness:
  "case difc_handle_local_out True (\<lambda>_ _ d. d) (\<lambda>_ d. d) 9 5 6 False [2, 0, 0, 0, 0, 1] pkt6_example pkt_table of
     Some (r, tx, p', s') \<Rightarrow> r = 1 \<and> (\<exists>l3. drop 14 (pkt_data p') = l3 \<and> 256 * uint (l3 ! 4) + uint (l3 ! 5) = 1420)
   | None \<Rightarrow> False"
proof -
  have h: "length [2, 0, 0, 0, 0, 1 :: u8] = 6" "0 \<le> net_header pkt6_example"
    "net_header pkt6_example + 40 \<le> int (length (pkt_data pkt6_example))"
    "int (length (pkt_data pkt6_example)) \<le> uint (pkt_len pkt6_example)" "uint (pkt_len pkt6_example) < 2 ^ 31"
    by (simp_all add: pkt6_example_def)
  from local_out_frame [OF h, of True "\<lambda>_ _ d. d" "\<lambda>_ d. d" 9 5 6 False pkt_table] pkt6_example_found
  show ?thesis by (auto simp: Let_def pkt6_example_def)
qed

end
