(* ===== verification/DynIfcCtl.thy ===== *)
theory DynIfcCtl
  imports Kprobe DynIfcProps
begin

text \<open>
  Module initialisation, the \<^verbatim>\<open>/proc/dynamic_ifc\<close> command interface and module exit of
  \<^verbatim>\<open>airoha/arht_dynamic_ifc.c\<close>, over the session table, the application table and the kernel probes.
  A run of the module interleaves commands, the probe handlers (which the kernel calls only
  while the module is enabled), timers, and the other user of the skip-copy probe.
\<close>

section \<open>State\<close>

record ('h, 'd, 'c) difc_module =
  table :: "('h, 'd) difc"
  probes :: "'c kp_state"
  apps :: app_list
  dynamic_ifc_enable :: bool
  debug_level :: int
  df_proc_entry :: bool
  pingpong_hook :: bool
  sock_in_use_hook :: bool

text \<open>The three formats the command parser scans: \<^verbatim>\<open>%31s\<close>, \<^verbatim>\<open>%31s %d\<close> and \<^verbatim>\<open>%d %15s\<close>; \<open>None\<close> when
  fewer items were converted.\<close>

record scanner =
  scan_s :: "string \<Rightarrow> string option"
  scan_s_d :: "string \<Rightarrow> int option"
  scan_d_s :: "string \<Rightarrow> (int \<times> string) option"

section \<open>Hook resolution\<close>

definition difc_resolve_ecnt_hook ::
  "'c kp_core \<Rightarrow> ('h, 'd, 'c) difc_module \<Rightarrow> int \<times> ('h, 'd, 'c) difc_module" where
  "difc_resolve_ecnt_hook io m =
     (let (addr, c) = arht_kprobe_resolve_symbol io ''__ECNT_HOOK'' (core (probes m));
          m = m\<lparr>probes := (probes m)\<lparr>core := c\<rparr>\<rparr>
      in if addr = 0 then (- ENODEV, m) else (0, m\<lparr>table := (table m)\<lparr>hook_fn := True\<rparr>\<rparr>))"

definition difc_clear_ecnt_hook :: "('h, 'd, 'c) difc_module \<Rightarrow> ('h, 'd, 'c) difc_module" where
  "difc_clear_ecnt_hook m = m\<lparr>table := (table m)\<lparr>hook_fn := False\<rparr>\<rparr>"

section \<open>Commands\<close>

definition cmd_enable :: "'c kp_core \<Rightarrow> int \<Rightarrow> ('h, 'd, 'c) difc_module \<Rightarrow> int \<times> ('h, 'd, 'c) difc_module" where
  "cmd_enable io count m =
     (if \<not> dynamic_ifc_enable m then
        let (ret, m) = difc_resolve_ecnt_hook io m in
        if ret = 0 then
          let (ret, ps) = arht_kprobe_difc_init io (probes m); m = m\<lparr>probes := ps\<rparr> in
          if ret = 0 then (count, m\<lparr>dynamic_ifc_enable := True\<rparr>)
          else (ret, difc_clear_ecnt_hook m)
        else (- ENODEV, m)
      else (count, m))"

definition cmd_disable ::
  "('h, 'd) difc_env \<Rightarrow> 'c kp_core \<Rightarrow> ('h, 'd, 'c) difc_module \<Rightarrow> ('h, 'd, 'c) difc_module" where
  "cmd_disable env io m =
     (if dynamic_ifc_enable m then
        let m = m\<lparr>probes := arht_kprobe_difc_exit io (probes m)\<rparr>;
            m = m\<lparr>dynamic_ifc_enable := False\<rparr>
        in m\<lparr>table := (dynamic_ifc_cleanup_all_sessions env (table m))\<lparr>hook_fn := False\<rparr>\<rparr>
      else m)"

definition cmd_app :: "int \<Rightarrow> (int \<times> string) option \<Rightarrow> ('h, 'd, 'c) difc_module \<Rightarrow> int \<times> ('h, 'd, 'c) difc_module" where
  "cmd_app count scanned m =
     (case scanned of
        None \<Rightarrow> (count, m)
      | Some (val, name) \<Rightarrow>
          if name = [] then (- EINVAL, m)
          else if val \<noteq> 0 \<and> val \<noteq> 1 then (- EINVAL, m)
          else if val \<noteq> 0 then (count, m\<lparr>apps := snd (dynamic_ifc_app_list_add name (apps m))\<rparr>)
          else (count, m\<lparr>apps := snd (dynamic_ifc_app_list_del name (apps m))\<rparr>))"

text \<open>\<open>buf\<close> holds the bytes of the write, \<open>copy_ok\<close> says whether they could be copied.\<close>

definition dynamic_ifc_write_proc ::
  "('h, 'd) difc_env \<Rightarrow> 'c kp_core \<Rightarrow> scanner \<Rightarrow> bool \<Rightarrow> string \<Rightarrow> ('h, 'd, 'c) difc_module
     \<Rightarrow> int \<times> ('h, 'd, 'c) difc_module" where
  "dynamic_ifc_write_proc env io sc copy_ok buf m =
     (let count = int (length buf) in
      if 63 < length buf then (- EINVAL, m)
      else if \<not> copy_ok then (- EFAULT, m)
      else
        let str = takeWhile (\<lambda>c. c \<noteq> CHR 0x00)
                    (if buf \<noteq> [] \<and> last buf = CHR 0x0A then butlast buf else buf)
        in case scan_s sc str of
             None \<Rightarrow> (- EINVAL, m)
           | Some cmd \<Rightarrow>
               if cmd = ''enable'' then cmd_enable io count m
               else if cmd = ''disable'' then (count, cmd_disable env io m)
               else if cmd = ''debug'' then
                 (case scan_s_d sc str of
                    None \<Rightarrow> (count, m)
                  | Some val \<Rightarrow> (count, m\<lparr>debug_level := (if val \<noteq> 0 then val else 0)\<rparr>))
               else if cmd = ''agg_num'' then
                 (case scan_s_d sc str of
                    None \<Rightarrow> (count, m)
                  | Some val \<Rightarrow>
                      if val < 1 \<or> 255 < val then (count, m)
                      else (count, m\<lparr>table := (table m)\<lparr>lro_agg_num := val\<rparr>\<rparr>))
               else cmd_app count (scan_d_s sc str) m)"

section \<open>Initialisation and exit\<close>

definition arht_dynamic_ifc_init :: "bool \<Rightarrow> ('h, 'd, 'c) difc_module \<Rightarrow> int \<times> ('h, 'd, 'c) difc_module" where
  "arht_dynamic_ifc_init proc_ok m =
     (let m = m\<lparr>df_proc_entry := proc_ok\<rparr> in
      if \<not> df_proc_entry m then (- ENOMEM, m)
      else
        let m = m\<lparr>pingpong_hook := True, sock_in_use_hook := True\<rparr>;
            m = m\<lparr>table := (table m)\<lparr>ifc_ring_reserve := map (\<lambda>_. IFC_RING_SLOT_FREE) [0..<IFC_LRO_RING_NUM]\<rparr>\<rparr>;
            m = m\<lparr>apps := snd (dynamic_ifc_app_list_add ''iperf3'' (apps m))\<rparr>;
            m = m\<lparr>apps := snd (dynamic_ifc_app_list_add ''ookla'' (apps m))\<rparr>
        in (0, m))"

definition arht_dynamic_ifc_exit ::
  "('h, 'd) difc_env \<Rightarrow> 'c kp_core \<Rightarrow> ('h, 'd, 'c) difc_module \<Rightarrow> ('h, 'd, 'c) difc_module" where
  "arht_dynamic_ifc_exit env io m =
     (let m = (if df_proc_entry m then m\<lparr>df_proc_entry := False\<rparr> else m);
          m = (if dynamic_ifc_enable m
               then m\<lparr>probes := arht_kprobe_difc_exit io (probes m), dynamic_ifc_enable := False\<rparr> else m);
          m = m\<lparr>pingpong_hook := False, sock_in_use_hook := False\<rparr>
      in m\<lparr>table := (dynamic_ifc_cleanup_all_sessions env (table m))\<lparr>hook_fn := False\<rparr>\<rparr>)"

text \<open>The zeroed statics of a freshly loaded module.\<close>

definition difc_statics :: "'h \<Rightarrow> 'd \<Rightarrow> (u64 \<Rightarrow> int) \<Rightarrow> (u64 \<Rightarrow> int) \<Rightarrow> (u64 \<Rightarrow> u32) \<Rightarrow> 'c kp_state
    \<Rightarrow> ('h, 'd, 'c) difc_module" where
  "difc_statics h d bs bd mk ps = \<lparr>table = (difc_boot h d bs bd mk)\<lparr>ifc_ring_reserve := replicate 4 0\<rparr>,
     probes = ps,
     apps = \<lparr>dynamic_ifc_apps = replicate 16 [], dynamic_ifc_app_valid = replicate 16 False,
             dynamic_ifc_app_num = 0\<rparr>,
     dynamic_ifc_enable = False, debug_level = 0, df_proc_entry = False, pingpong_hook = False,
     sock_in_use_hook = False\<rparr>"

section \<open>Runs\<close>

text \<open>A command runs with room left in the skip-copy count.\<close>

inductive difc_mstep ::
  "('h, 'd) difc_env \<Rightarrow> 'c kp_core \<Rightarrow> ('h, 'd, 'c) difc_module \<Rightarrow> ('h, 'd, 'c) difc_module \<Rightarrow> bool"
  for env io where
  m_write: "sint (skip_copy_kprobe_refcnt (probes m)) < 2 ^ 31 - 1 \<Longrightarrow>
     difc_mstep env io m (snd (dynamic_ifc_write_proc env io sc copy_ok buf m))"
| m_sendmsg: "dynamic_ifc_enable m \<Longrightarrow>
     difc_mstep env io m (m\<lparr>table := difc_add_entry_from_sock env now skp a b (table m)\<rparr>)"
| m_do_rcv: "dynamic_ifc_enable m \<Longrightarrow>
     difc_mstep env io m (m\<lparr>table := difc_handle_tcp_do_rcv env dst hash crsn raw a b (table m)\<rparr>)"
| m_local_out: "dynamic_ifc_enable m \<Longrightarrow>
     difc_mstep env io m (m\<lparr>table := snd (difc_local_out_session now dst a b (table m))\<rparr>)"
| m_timer: "k < 8 \<Longrightarrow> difc_mstep env io m (m\<lparr>table := dynamic_ifc_timeout env now k (table m)\<rparr>)"
| m_skip_enable: "sint (skip_copy_kprobe_refcnt (probes m)) < 2 ^ 31 - 1 \<Longrightarrow>
     difc_mstep env io m (m\<lparr>probes := snd (arht_skip_copy_kprobe_enable io (probes m))\<rparr>)"
| m_skip_disable: "difc_mstep env io m (m\<lparr>probes := arht_skip_copy_kprobe_disable io (probes m)\<rparr>)"

inductive_cases difc_mstepE: "difc_mstep env io m m'"

section \<open>The hook pointer\<close>

text \<open>No handler touches it.\<close>

lemma hook_upd [simp]: "hook_fn (upd_ety k f s) = hook_fn s"
  by (simp add: upd_ety_def)

lemma hook_lro [simp]: "hook_fn (difc_lro_save env s) = hook_fn s" "hook_fn (difc_lro_restore env s) = hook_fn s"
  by (simp_all add: difc_lro_save_def difc_lro_restore_def split: prod.splits)

lemma hook_drop [simp]: "hook_fn (drop_refs k s) = hook_fn s"
  by (simp add: drop_refs_def Let_def)

lemma hook_del [simp]: "hook_fn (dynamic_ifc_del_ifc env k s) = hook_fn s"
  by (simp add: dynamic_ifc_del_ifc_def Let_def)

lemma hook_add [simp]: "hook_fn (snd (dynamic_ifc_add_ifc env k s)) = hook_fn s"
  by (simp add: dynamic_ifc_add_ifc_def Let_def split: prod.splits)

lemma hook_timeout [simp]: "hook_fn (dynamic_ifc_timeout env now k s) = hook_fn s"
  by (simp add: dynamic_ifc_timeout_def Let_def)

lemma hook_add_entry [simp]: "hook_fn (difc_add_entry_from_sock env now skp a b s) = hook_fn s"
  by (simp add: difc_add_entry_from_sock_def Let_def split: option.splits)

lemma hook_do_rcv [simp]: "hook_fn (difc_handle_tcp_do_rcv env dst hash crsn raw a b s) = hook_fn s"
  by (simp add: difc_handle_tcp_do_rcv_def set_rx_dst_def Let_def split: option.splits)

lemma hook_local_out [simp]: "hook_fn (snd (difc_local_out_session now dst a b s)) = hook_fn s"
  by (simp add: difc_local_out_session_def Let_def split: option.splits)

lemma timeout_idle:
  assumes "length (dynamic_ifc_ety s) = 8" and "k < 8" and "\<not> some_valid (dynamic_ifc_ety s)"
  shows "\<not> some_valid (dynamic_ifc_ety (dynamic_ifc_timeout env now k s))"
proof -
  have "\<not> valid (dynamic_ifc_ety s ! k)" using assms(2,3) by (auto simp: some_valid_def)
  then show ?thesis using assms some_valid_same [OF assms(1,2), of "(dynamic_ifc_ety s ! k)\<lparr>age_timer := None\<rparr>"]
    by (simp add: dynamic_ifc_timeout_def upd_ety_def Let_def)
qed

section \<open>The module's invariant\<close>

text \<open>The five probes that only this module registers.\<close>

definition difc_probes :: "kprobe_id set" where
  "difc_probes = {Kp_tcp_sendmsg, Kp_ip_local_out, Kp_ip6_local_out, Kp_tcp_v4_do_rcv, Kp_tcp_v6_do_rcv}"

locale difc_module_world = difc_world env rules peek + kprobe_registry io live
  for env :: "('h, 'd) difc_env" and rules :: "'h \<Rightarrow> ifc_param set" and peek :: "'d \<Rightarrow> u32 \<Rightarrow> u32"
    and io :: "'c kp_core" and live :: "'c \<Rightarrow> kprobe_id \<Rightarrow> kprobe option"
begin

definition probes_inv :: "'c kp_state \<Rightarrow> bool \<Rightarrow> bool" where
  "probes_inv ps en \<longleftrightarrow> refcnt_live ps \<and> live (core ps) Kp_resolve = None \<and>
     (\<forall>k\<in>difc_probes. (live (core ps) k \<noteq> None) = en)"

definition module_inv where
  "module_inv t bs bd m \<longleftrightarrow> difc_inv t bs bd (table m) \<and> probes_inv (probes m) (dynamic_ifc_enable m) \<and>
     (\<not> dynamic_ifc_enable m \<longrightarrow> \<not> some_valid (dynamic_ifc_ety (table m))) \<and>
     hook_fn (table m) = dynamic_ifc_enable m"

lemma exit_live:
  assumes "refcnt_live ps" and "k \<noteq> Kp_tcp_recvmsg"
  shows "live (core (arht_kprobe_difc_exit io ps)) k = (if k \<in> difc_probes then None else live (core ps) k)"
  unfolding arht_kprobe_difc_exit_def
  by (subst disable_live(2)) (use assms in \<open>auto simp: probe_unregister_live difc_probes_def
      intro!: refcnt_live_unregister\<close>)

lemma exit_probes: "probes_inv ps en \<Longrightarrow> probes_inv (arht_kprobe_difc_exit io ps) False"
  unfolding probes_inv_def
  by (auto simp: exit_live refcnt_live_exit) (auto simp: exit_live difc_probes_def)

lemma skip_probes:
  "probes_inv ps en \<Longrightarrow> probes_inv (arht_skip_copy_kprobe_disable io ps) en"
  "probes_inv ps en \<Longrightarrow> sint (skip_copy_kprobe_refcnt ps) < 2 ^ 31 - 1 \<Longrightarrow>
     probes_inv (snd (arht_skip_copy_kprobe_enable io ps)) en"
  unfolding probes_inv_def
  by (auto simp: disable_live difc_probes_def enable_live [OF _ _ prod.collapse [symmetric]])

lemma probes_core:
  "live c = live (core ps) \<Longrightarrow> probes_inv (ps\<lparr>core := c\<rparr>) en = probes_inv ps en"
  by (simp add: probes_inv_def refcnt_live_def)

lemma init_probes:
  assumes inv: "probes_inv ps False" and room: "sint (skip_copy_kprobe_refcnt ps) < 2 ^ 31 - 1"
    and i: "arht_kprobe_difc_init io ps = (ret, ps')"
  shows "probes_inv ps' (ret = 0)" and "ret \<le> 0"
proof -
  have r: "refcnt_live ps" and fresh: "\<And>k. k \<in> {Kp_tcp_sendmsg, Kp_ip_local_out, Kp_ip6_local_out,
      Kp_tcp_v4_do_rcv, Kp_tcp_v6_do_rcv} \<Longrightarrow> live (core ps) k = None"
    using inv by (auto simp: probes_inv_def difc_probes_def)
  note C = difc_init_cases [OF r room fresh i]
  show "ret \<le> 0" using C by auto
  show "probes_inv ps' (ret = 0)"
    using C inv refcnt_live_init [OF r room i] by (auto simp: probes_inv_def difc_probes_def)
qed

lemma hook_off:
  assumes "difc_inv t bs bd s" and "\<not> some_valid (dynamic_ifc_ety s)"
  shows "difc_inv t bs bd (s\<lparr>hook_fn := False\<rparr>)"
proof -
  have "offloaded_rules (dynamic_ifc_ety s) = {}"
    using idle_state(2) [OF assms] assms(1) by (simp add: difc_inv_def parts_core_def)
  then show ?thesis using assms(1) by (simp add: difc_inv_def parts_core_def)
qed

lemma hook_on: "difc_inv t bs bd s \<Longrightarrow> difc_inv t bs bd (s\<lparr>hook_fn := True\<rparr>)"
  by (rule step_inv [OF step_enable])

lemma clean_off:
  assumes "difc_inv t bs bd s"
  defines "s' \<equiv> (dynamic_ifc_cleanup_all_sessions env s)\<lparr>hook_fn := False\<rparr>"
  shows "difc_inv t bs bd s'" and "\<not> some_valid (dynamic_ifc_ety s')"
  using cleanup_all [OF assms(1)] by (auto simp: s'_def intro: hook_off)

lemma cmd_enable_inv:
  assumes inv: "module_inv t bs bd m" and room: "sint (skip_copy_kprobe_refcnt (probes m)) < 2 ^ 31 - 1"
  shows "module_inv t bs bd (snd (cmd_enable io count m))"
proof (cases "dynamic_ifc_enable m")
  case True
  then show ?thesis using inv by (simp add: cmd_enable_def)
next
  case False
  then have D: "difc_inv t bs bd (table m)" "\<not> some_valid (dynamic_ifc_ety (table m))" "\<not> hook_fn (table m)"
    and P: "probes_inv (probes m) False" using inv by (auto simp: module_inv_def)
  obtain addr c where a: "arht_kprobe_resolve_symbol io ''__ECNT_HOOK'' (core (probes m)) = (addr, c)" by fastforce
  have c: "live c = live (core (probes m))"
    using resolve_symbol_live [of "core (probes m)" "''__ECNT_HOOK''"] P a by (simp add: probes_inv_def)
  let ?ps = "(probes m)\<lparr>core := c\<rparr>"
  have P1: "probes_inv ?ps False" using P by (simp add: probes_core [OF c])
  obtain ret ps' where i: "arht_kprobe_difc_init io ?ps = (ret, ps')" by fastforce
  have r1: "sint (skip_copy_kprobe_refcnt ?ps) < 2 ^ 31 - 1" using room by simp
  note I = init_probes [OF P1 r1 i]
  show ?thesis
  proof (cases "addr = 0")
    case True
    then show ?thesis using False D P1 inv
      by (simp add: cmd_enable_def difc_resolve_ecnt_hook_def a module_inv_def)
  next
    case nz: False
    have "difc_inv t bs bd ((table m)\<lparr>hook_fn := False\<rparr>)" by (rule hook_off [OF D(1,2)])
    then show ?thesis using False nz D I hook_on [OF D(1)] i
      by (cases "ret = 0") (simp_all add: cmd_enable_def difc_resolve_ecnt_hook_def a module_inv_def
          difc_clear_ecnt_hook_def)
  qed
qed

lemma cmd_disable_inv: "module_inv t bs bd m \<Longrightarrow> module_inv t bs bd (cmd_disable env io m)"
  using clean_off [of t bs bd "table m"] exit_probes [of "probes m" "dynamic_ifc_enable m"]
  by (auto simp: cmd_disable_def module_inv_def Let_def)

lemma write_proc_inv:
  assumes inv: "module_inv t bs bd m" and room: "sint (skip_copy_kprobe_refcnt (probes m)) < 2 ^ 31 - 1"
  shows "module_inv t bs bd (snd (dynamic_ifc_write_proc env io sc copy_ok buf m))"
proof -
  have dbg: "module_inv t bs bd (m\<lparr>debug_level := l\<rparr>)" "module_inv t bs bd (m\<lparr>apps := x\<rparr>)" for l x
    using inv by (simp_all add: module_inv_def)
  have agg: "module_inv t bs bd (m\<lparr>table := (table m)\<lparr>lro_agg_num := v\<rparr>\<rparr>)" for v
    using inv step_inv [OF step_agg_num, of t bs bd "table m" v] by (simp add: module_inv_def)
  have app: "module_inv t bs bd (snd (cmd_app n x m))" for n x
    using inv dbg by (auto simp: cmd_app_def split: option.splits)
  show ?thesis
    unfolding dynamic_ifc_write_proc_def Let_def
    by (auto simp: inv dbg agg app cmd_disable_inv [OF inv] cmd_enable_inv [OF inv room] split: option.splits)
qed

lemma mstep_inv:
  assumes "difc_mstep env io m m'" and inv: "module_inv t bs bd m"
  shows "module_inv t bs bd m'"
  using assms(1)
proof (cases rule: difc_mstep.cases)
  case m_write
  then show ?thesis using write_proc_inv [OF inv] by simp
next
  case (m_timer k now)
  have "length (dynamic_ifc_ety (table m)) = 8" using inv inv_len by (auto simp: module_inv_def)
  then have "\<not> some_valid (dynamic_ifc_ety (table m)) \<Longrightarrow>
      \<not> some_valid (dynamic_ifc_ety (dynamic_ifc_timeout env now k (table m)))"
    using timeout_idle m_timer(2) by blast
  then show ?thesis using m_timer inv by (simp add: module_inv_def timeout_inv)
next
  case m_skip_enable
  then show ?thesis using inv skip_probes by (simp add: module_inv_def)
next
  case m_skip_disable
  then show ?thesis using inv skip_probes by (simp add: module_inv_def)
qed (use inv in \<open>simp_all add: module_inv_def add_entry_inv do_rcv_inv local_out_inv\<close>)

lemma mrun_inv: "(difc_mstep env io)\<^sup>*\<^sup>* m m' \<Longrightarrow> module_inv t bs bd m \<Longrightarrow> module_inv t bs bd m'"
  by (induction rule: rtranclp_induct) (auto intro: mstep_inv)

text \<open>From module load: the initialisation establishes the invariant, and the exit ends in an idle table
  with no probe of this module left.\<close>

lemma init_table:
  "table (snd (arht_dynamic_ifc_init True (difc_statics h d bs bd mk ps))) = difc_boot h d bs bd mk"
  by (simp add: arht_dynamic_ifc_init_def difc_statics_def difc_boot_def Let_def map_replicate_const)

lemma init_inv:
  assumes "rules h = {}" and "probes_inv ps False"
  shows "module_inv (peek d) bs bd (snd (arht_dynamic_ifc_init True (difc_statics h d bs bd mk ps)))"
proof -
  let ?m = "snd (arht_dynamic_ifc_init True (difc_statics h d bs bd mk ps))"
  have "probes ?m = ps \<and> \<not> dynamic_ifc_enable ?m"
    by (simp add: arht_dynamic_ifc_init_def difc_statics_def Let_def)
  moreover have "\<not> some_valid (dynamic_ifc_ety (table ?m)) \<and> \<not> hook_fn (table ?m)"
    unfolding init_table by (auto simp: some_valid_def difc_boot_def)
  ultimately show ?thesis
    using assms boot_inv [OF assms(1), of d bs bd mk] by (simp add: module_inv_def init_table)
qed

lemma exit_inv:
  assumes "module_inv t bs bd m"
  shows "module_inv t bs bd (arht_dynamic_ifc_exit env io m)"
    and "\<not> dynamic_ifc_enable (arht_dynamic_ifc_exit env io m)"
  using assms clean_off [of t bs bd "table m"] exit_probes [of "probes m" "dynamic_ifc_enable m"]
  by (auto simp: arht_dynamic_ifc_exit_def module_inv_def Let_def)

lemma disabled_idle:
  assumes "module_inv t bs bd m" and "\<not> dynamic_ifc_enable m"
  shows "(\<forall>k\<in>difc_probes. live (core (probes m)) k = None) \<and> \<not> hook_fn (table m) \<and>
     (\<forall>i<8. \<not> valid (dynamic_ifc_ety (table m) ! i)) \<and> (\<forall>i<4. ifc_ring_reserve (table m) ! i = - 1) \<and>
     rules (ifc_hw (table m)) = {} \<and>
     (\<forall>x. x \<noteq> 0 \<longrightarrow> sk_ref (table m) x = bs x \<and> dst_ref (table m) x = bd x) \<and>
     peek (fe_regs (table m)) = t"
proof -
  have D: "difc_inv t bs bd (table m)" "\<not> some_valid (dynamic_ifc_ety (table m))"
    using assms by (simp_all add: module_inv_def)
  show ?thesis using assms idle_state [OF D] D(2)
    by (auto simp: module_inv_def probes_inv_def some_valid_def)
qed

lemma failing_write:
  assumes inv: "module_inv t bs bd m" and room: "sint (skip_copy_kprobe_refcnt (probes m)) < 2 ^ 31 - 1"
    and w: "dynamic_ifc_write_proc env io sc copy_ok buf m = (ret, m')" and ret: "ret < 0"
  shows "table m' = table m \<and> apps m' = apps m \<and> dynamic_ifc_enable m' = dynamic_ifc_enable m \<and>
     debug_level m' = debug_level m \<and> live (core (probes m')) = live (core (probes m)) \<and>
     skip_copy_kprobe_refcnt (probes m') = skip_copy_kprobe_refcnt (probes m)"
proof -
  have app: "m'' = m" if "cmd_app (int n) x m = (r, m'')" "r < 0" for n x r m''
    using that by (auto simp: cmd_app_def split: option.splits if_splits)
  have en: ?thesis if c: "cmd_enable io (int n) m = (ret, m')" for n
  proof (cases "dynamic_ifc_enable m")
    case True
    then show ?thesis using c ret by (simp add: cmd_enable_def)
  next
    case False
    then have hk: "\<not> hook_fn (table m)" and P: "probes_inv (probes m) False"
      using inv by (simp_all add: module_inv_def)
    obtain addr c1 where a: "arht_kprobe_resolve_symbol io ''__ECNT_HOOK'' (core (probes m)) = (addr, c1)" by fastforce
    have l: "live c1 = live (core (probes m))"
      using resolve_symbol_live [of "core (probes m)" "''__ECNT_HOOK''"] P a by (simp add: probes_inv_def)
    let ?ps = "(probes m)\<lparr>core := c1\<rparr>"
    have P1: "probes_inv ?ps False" using P by (simp add: probes_core [OF l])
    obtain r ps' where i: "arht_kprobe_difc_init io ?ps = (r, ps')" by fastforce
    have r1: "sint (skip_copy_kprobe_refcnt ?ps) < 2 ^ 31 - 1" using room by simp
    have fresh: "\<And>k. k \<in> {Kp_tcp_sendmsg, Kp_ip_local_out, Kp_ip6_local_out, Kp_tcp_v4_do_rcv,
        Kp_tcp_v6_do_rcv} \<Longrightarrow> live (core ?ps) k = None" and rl: "refcnt_live ?ps"
      using P1 by (auto simp: probes_inv_def difc_probes_def)
    have tm: "(table m)\<lparr>hook_fn := False\<rparr> = table m" using hk by (cases "table m") simp
    have res: "difc_resolve_ecnt_hook io m = (if addr = 0 then (- ENODEV, m\<lparr>probes := ?ps\<rparr>)
        else (0, m\<lparr>probes := ?ps, table := (table m)\<lparr>hook_fn := True\<rparr>\<rparr>))"
      by (simp add: difc_resolve_ecnt_hook_def a)
    have e: "fst (cmd_enable io (int n) m) = (if addr = 0 then - ENODEV else if r = 0 then int n else r)"
      "addr = 0 \<Longrightarrow> snd (cmd_enable io (int n) m) = m\<lparr>probes := ?ps\<rparr>"
      "addr \<noteq> 0 \<Longrightarrow> r \<noteq> 0 \<Longrightarrow> snd (cmd_enable io (int n) m) = m\<lparr>table := table m, probes := ps'\<rparr>"
      using False by (simp_all add: cmd_enable_def res i difc_clear_ecnt_hook_def Let_def tm)
    show ?thesis
    proof (cases "addr = 0")
      case True
      then show ?thesis using c e(2) l by simp
    next
      case nz: False
      then have "r \<noteq> 0" using c e(1) ret by (auto split: if_splits)
      with nz have "m' = m\<lparr>table := table m, probes := ps'\<rparr>" using c e(3) by simp
      then show ?thesis using l difc_init_cases [OF rl r1 fresh i] \<open>r \<noteq> 0\<close> by simp
    qed
  qed
  define str where "str = takeWhile (\<lambda>c. c \<noteq> CHR 0x00)
      (if buf \<noteq> [] \<and> last buf = CHR 0x0A then butlast buf else buf)"
  have "m' = m \<or> cmd_enable io (int (length buf)) m = (ret, m') \<or>
      (\<exists>x. cmd_app (int (length buf)) x m = (ret, m'))"
    using w ret unfolding dynamic_ifc_write_proc_def Let_def str_def [symmetric]
    by (auto split: if_splits option.splits)
  then show ?thesis using en app ret by blast
qed

end

section \<open>Properties\<close>

lemma module_world:
  assumes "difc_world env rules peek" and "kprobe_registry io live"
  shows "difc_module_world env rules peek io live"
  using assms by (rule difc_module_world.intro)

lemma module_run:
  assumes w: "difc_world env rules peek" "kprobe_registry io live"
    and "rules h = {}" and "skip_copy_kprobe_refcnt ps = 0" and "live (core ps) = Map.empty"
    and r: "(difc_mstep env io)\<^sup>*\<^sup>* (snd (arht_dynamic_ifc_init True (difc_statics h d bs bd mk ps))) m"
  shows "difc_module_world.module_inv env rules peek live (peek d) bs bd m"
proof -
  note W = module_world [OF w]
  have "kprobe_registry.refcnt_live live ps"
    unfolding kprobe_registry.refcnt_live_def [OF w(2)] using assms(4,5) by simp
  then have "difc_module_world.probes_inv live ps False"
    unfolding difc_module_world.probes_inv_def [OF W] using assms(5) by simp
  from difc_module_world.mrun_inv [OF W r difc_module_world.init_inv [OF W assms(3) this]] show ?thesis .
qed


text \<open>A module over the test registry; its scanner takes the command as it stands.\<close>

definition plain_scan :: scanner where
  "plain_scan = \<lparr>scan_s = (\<lambda>s. if s = [] then None else Some s), scan_s_d = (\<lambda>_. None), scan_d_s = (\<lambda>_. None)\<rparr>"

definition mod_start :: "string list \<Rightarrow> (ifc_param list, u32 \<Rightarrow> u32, test_registry) difc_module" where
  "mod_start refused = snd (arht_dynamic_ifc_init True
     (difc_statics [] (\<lambda>_. 0x12050000) (\<lambda>_. 1) (\<lambda>_. 1) (\<lambda>_. 0) (kp_boot refused)))"

definition mod_enabled :: "(ifc_param list, u32 \<Rightarrow> u32, test_registry) difc_module" where
  "mod_enabled = snd (dynamic_ifc_write_proc list_env tr_io plain_scan True ''enable'' (mod_start []))"

lemma kp_boot_facts: "skip_copy_kprobe_refcnt (kp_boot r) = 0" "tr_live (core (kp_boot r)) = Map.empty"
  by (simp_all add: kp_boot_def)

lemma mod_start_room: "sint (skip_copy_kprobe_refcnt (probes (mod_start r))) < 2 ^ 31 - 1"
  by (simp add: mod_start_def arht_dynamic_ifc_init_def difc_statics_def kp_boot_def Let_def)

lemma mod_enabled_run: "(difc_mstep list_env tr_io)\<^sup>*\<^sup>* (mod_start []) mod_enabled"
  unfolding mod_enabled_def by (rule r_into_rtranclp) (rule m_write [OF mod_start_room])

lemma mod_enabled_on: "dynamic_ifc_enable mod_enabled"
  by code_simp


text \<open>C19: a command that fails changes nothing: session table, application table, switch, debug level,
  registered probes and the skip-copy count are as before, whichever check, symbol or probe
  registration failed.\<close>

theorem difc_write_fails_cleanly:
  assumes "difc_world env rules peek" and "kprobe_registry io live"
    and "rules h = {}" and "skip_copy_kprobe_refcnt ps = 0" and "live (core ps) = Map.empty"
    and "(difc_mstep env io)\<^sup>*\<^sup>* (snd (arht_dynamic_ifc_init True (difc_statics h d bs bd mk ps))) m"
    and "sint (skip_copy_kprobe_refcnt (probes m)) < 2 ^ 31 - 1"
    and "dynamic_ifc_write_proc env io sc copy_ok buf m = (ret, m')" and "ret < 0"
  shows "table m' = table m \<and> apps m' = apps m \<and> dynamic_ifc_enable m' = dynamic_ifc_enable m \<and>
     debug_level m' = debug_level m \<and> live (core (probes m')) = live (core (probes m)) \<and>
     skip_copy_kprobe_refcnt (probes m') = skip_copy_kprobe_refcnt (probes m)"
  by (rule difc_module_world.failing_write [OF module_world [OF assms(1,2)] module_run [OF assms(1-6)] assms(7-9)])

theorem difc_write_fails_cleanly_witness:
  "let (ret, m') = dynamic_ifc_write_proc list_env tr_io plain_scan True ''enable'' (mod_start [''ip6_output''])
   in ret = - ENOENT \<and> tr_live (core (probes m')) = Map.empty"
proof -
  let ?m = "mod_start [''ip6_output'']"
  obtain ret m' where w: "dynamic_ifc_write_proc list_env tr_io plain_scan True ''enable'' ?m = (ret, m')"
    by (rule prod.exhaust)
  have "fst (dynamic_ifc_write_proc list_env tr_io plain_scan True ''enable'' ?m) = - ENOENT" by code_simp
  then have r: "ret = - ENOENT" "ret < 0" unfolding w by simp_all
  have "(difc_mstep list_env tr_io)\<^sup>*\<^sup>* ?m ?m" by (rule rtranclp.rtrancl_refl)
  note F = difc_write_fails_cleanly [OF list_world tr_registry list.set(1) kp_boot_facts
      this [unfolded mod_start_def] mod_start_room [unfolded mod_start_def] w [unfolded mod_start_def] r(2)]
  have "tr_live (core (probes ?m)) = Map.empty"
    by (simp add: mod_start_def arht_dynamic_ifc_init_def difc_statics_def kp_boot_def Let_def)
  with F r show ?thesis unfolding w by (simp add: mod_start_def)
qed

end
