(* ===== verification/QdmaMath.thy ===== *)
theory QdmaMath
  imports Prelude
begin

text \<open>
  The arithmetic of the QDMA rate limiters, \<^verbatim>\<open>airoha/arht_qdma.c\<close>: the binary search for a bucket-size
  shift, the bucket size for a rate, the meter-index check, and the token-rate word with its
  18-bit integer and 6-bit fraction part. Words are 32 bits wide and wrap.
\<close>

section \<open>The bucket-size shift\<close>

function biSearchGetBucketSizeShift :: "u32 \<Rightarrow> nat \<Rightarrow> nat \<Rightarrow> u32 \<Rightarrow> int" where
  "biSearchGetBucketSizeShift val lo hi unit =
     (if hi < lo then - EINVAL
      else if 0 < val \<and> val < unit then 0
      else
        let mid = (lo + hi) div 2 in
        if push_bit mid unit = val then int mid
        else if push_bit lo unit = val then int lo
        else if push_bit hi unit = val then int hi
        else if val < push_bit mid unit then
          (if mid - lo \<le> 1 then int mid else biSearchGetBucketSizeShift val lo mid unit)
        else
          (if hi - mid \<le> 1 then int hi else biSearchGetBucketSizeShift val mid hi unit))"
  by pat_completeness auto

termination
  by (relation "measure (\<lambda>(val, lo, hi, unit). hi - lo)") auto

declare biSearchGetBucketSizeShift.simps [simp del]

text \<open>The reference: the least shift whose bucket holds the value, at most \<open>hi\<close>.\<close>

definition bucket_shift :: "nat \<Rightarrow> nat \<Rightarrow> nat \<Rightarrow> nat" where
  "bucket_shift v u hi = (case find (\<lambda>k. v \<le> u * 2 ^ k) [0..<hi] of Some k \<Rightarrow> k | None \<Rightarrow> hi)"

lemma bucket_shift_eq:
  "bucket_shift v u hi = k \<longleftrightarrow> k \<le> hi \<and> (k < hi \<longrightarrow> v \<le> u * 2 ^ k) \<and> (\<forall>j<k. u * 2 ^ j < v)"
proof -
  have "(\<forall>j<k. u * 2 ^ j < v) \<longleftrightarrow> (\<forall>j<k. \<not> v \<le> u * 2 ^ j)" by (simp add: not_le)
  moreover have "k = k'" if "k \<le> hi" "k < hi \<longrightarrow> v \<le> u * 2 ^ k" "\<forall>j<k. \<not> v \<le> u * 2 ^ j"
    "k' \<le> hi" "k' < hi \<longrightarrow> v \<le> u * 2 ^ k'" "\<forall>j<k'. \<not> v \<le> u * 2 ^ j" for k'
    using that by (metis le_less_trans linorder_neqE_nat not_less_iff_gr_or_eq order_less_le_trans)
  moreover have "bucket_shift v u hi \<le> hi \<and> (bucket_shift v u hi < hi \<longrightarrow> v \<le> u * 2 ^ bucket_shift v u hi) \<and>
      (\<forall>j<bucket_shift v u hi. \<not> v \<le> u * 2 ^ j)"
    by (auto simp: bucket_shift_def find_upt_None split: option.splits dest: find_upt_SomeD)
  ultimately show ?thesis by metis
qed

lemma unat_push:
  assumes "unat (unit :: u32) * 2 ^ hi < 2 ^ 32" and "k \<le> hi"
  shows "unat (push_bit k unit) = unat unit * 2 ^ k"
proof -
  have "unat unit * 2 ^ k \<le> unat unit * 2 ^ hi" using assms(2) by simp
  then have lt: "unat unit * 2 ^ k < 2 ^ 32" using assms(1) by (rule le_less_trans)
  have "unat (push_bit k unit) = take_bit 32 (push_bit k (unat unit))"
    by (simp add: unsigned_push_bit_eq)
  then show ?thesis using lt by (simp add: take_bit_eq_mod push_bit_eq_mult)
qed

text \<open>The search keeps \<open>unit << lo\<close> below the value and anything above \<open>hi\<close> out of reach.\<close>

lemma biSearch_between:
  assumes "lo \<le> hi" and "unat unit * 2 ^ hi < 2 ^ 32" and "0 < unat unit"
    and "unat unit * 2 ^ lo \<le> unat val" and "hi < tp \<longrightarrow> unat val \<le> unat unit * 2 ^ hi" and "hi \<le> tp"
  shows "biSearchGetBucketSizeShift val lo hi unit = int (bucket_shift (unat val) (unat unit) tp)"
  using assms
proof (induction val lo hi unit rule: biSearchGetBucketSizeShift.induct)
  case (1 val lo hi unit)
  let ?mid = "(lo + hi) div 2" and ?u = "unat unit" and ?v = "unat val"
  have mid: "lo \<le> ?mid" "?mid \<le> hi" using "1.prems"(1) by auto
  note push = unat_push [OF "1.prems"(2)]
  have eq: "push_bit k unit = val \<longleftrightarrow> ?u * 2 ^ k = ?v" if "k \<le> hi" for k
    using push [OF that] by (metis word_unat_eq_iff)
  have lt: "val < push_bit k unit \<longleftrightarrow> ?v < ?u * 2 ^ k" if "k \<le> hi" for k
    using push [OF that] by (simp add: word_less_nat_alt)
  have "?u \<le> ?u * 2 ^ lo" by simp
  then have "?u \<le> ?v" using "1.prems"(4) by (rule order_trans)
  then have small: "\<not> val < unit" by (simp add: word_less_nat_alt)
  have res: "int k = int (bucket_shift ?v ?u tp)"
    if "k \<le> hi" "k < tp \<longrightarrow> ?v \<le> ?u * 2 ^ k" "\<And>j. j < k \<Longrightarrow> ?u * 2 ^ j < ?v" for k
    using that "1.prems"(6) bucket_shift_eq [of ?v ?u tp k] by simp
  have mono: "?u * 2 ^ j < ?u * 2 ^ k \<longleftrightarrow> j < k" for j k using "1.prems"(3) by simp
  have mono': "?u * 2 ^ j \<le> ?u * 2 ^ k \<longleftrightarrow> j \<le> k" for j k using "1.prems"(3) by simp
  note defs = biSearchGetBucketSizeShift.simps [of val lo hi unit]
  have hit: "int k = int (bucket_shift ?v ?u tp)" if "k \<le> hi" "?u * 2 ^ k = ?v" for k
    using that "1.prems"(3) by (intro res) (simp_all flip: that(2))
  show ?case
  proof (cases "push_bit ?mid unit = val \<or> push_bit lo unit = val \<or> push_bit hi unit = val")
    case True
    then show ?thesis using hit mid "1.prems"(1) small eq by (auto simp: defs Let_def)
  next
    case False
    then have ne: "push_bit ?mid unit \<noteq> val" "push_bit lo unit \<noteq> val" "push_bit hi unit \<noteq> val" by auto
    have vlo: "?u * 2 ^ lo < ?v" using ne(2) eq [of lo] "1.prems"(1,4) by simp
    show ?thesis
    proof (cases "val < push_bit ?mid unit")
      case True
      then have vm: "?v < ?u * 2 ^ ?mid" using lt mid by simp
      then have "lo < ?mid" using vlo mono [of lo ?mid] by (metis order_less_trans)
      show ?thesis
      proof (cases "?mid - lo \<le> 1")
        case True
        then have "?mid = Suc lo" using \<open>lo < ?mid\<close> by simp
        then have "int ?mid = int (bucket_shift ?v ?u tp)"
          using vm vlo mid by (intro res) (auto intro: le_less_trans [OF _ vlo] simp: mono' less_Suc_eq_le)
        moreover have "biSearchGetBucketSizeShift val lo hi unit = int ?mid"
          using True ne small \<open>val < push_bit ?mid unit\<close> "1.prems"(1) by (subst defs) (simp add: Let_def)
        ultimately show ?thesis by simp
      next
        case rec: False
        have "biSearchGetBucketSizeShift val lo ?mid unit = int (bucket_shift ?v ?u tp)"
          using ne small True rec mid "1.prems" vm le_less_trans [OF mono' [THEN iffD2, OF mid(2)] "1.prems"(2)]
          by (intro "1.IH"(1)) auto
        moreover have "biSearchGetBucketSizeShift val lo hi unit = biSearchGetBucketSizeShift val lo ?mid unit"
          using ne small True rec "1.prems"(1) by (subst defs) (simp add: Let_def)
        ultimately show ?thesis by simp
      qed
    next
      case False
      then have vm: "?u * 2 ^ ?mid < ?v" using lt [of ?mid] eq [of ?mid] ne(1) mid by (simp add: not_less le_neq_implies_less)
      show ?thesis
      proof (cases "hi - ?mid \<le> 1")
        case True
        have "j \<le> ?mid" if "j < hi" for j using True that by linarith
        then have "int hi = int (bucket_shift ?v ?u tp)"
          using vm "1.prems"(5) by (intro res) (auto intro: le_less_trans [OF _ vm] simp: mono')
        moreover have "biSearchGetBucketSizeShift val lo hi unit = int hi"
          using True ne small False "1.prems"(1) by (subst defs) (simp add: Let_def)
        ultimately show ?thesis by simp
      next
        case rec: False
        have "biSearchGetBucketSizeShift val ?mid hi unit = int (bucket_shift ?v ?u tp)"
          using ne small False rec mid "1.prems" vm by (intro "1.IH"(2)) auto
        moreover have "biSearchGetBucketSizeShift val lo hi unit = biSearchGetBucketSizeShift val ?mid hi unit"
          using ne small False rec "1.prems"(1) by (subst defs) (simp add: Let_def)
        ultimately show ?thesis by simp
      qed
    qed
  qed
qed

lemma biSearch_bucket:
  assumes "0 < val" and "0 < unat unit" and "unat unit * 2 ^ 17 < 2 ^ 32"
  shows "biSearchGetBucketSizeShift val 0 17 unit = int (bucket_shift (unat val) (unat unit) 17)"
proof (cases "val < unit")
  case True
  then have "bucket_shift (unat val) (unat unit) 17 = 0"
    unfolding bucket_shift_eq by (simp add: word_less_nat_alt)
  then show ?thesis using True assms(1) by (subst biSearchGetBucketSizeShift.simps) simp
next
  case False
  then show ?thesis using assms by (intro biSearch_between) (simp_all add: word_less_nat_alt not_less)
qed

section \<open>Meter indices\<close>

abbreviation INGRESS_TRTCM :: nat where "INGRESS_TRTCM \<equiv> 0"
abbreviation SLA_TRTCM :: nat where "SLA_TRTCM \<equiv> 1"
abbreviation EGRESS_QUEUE_RATELIMIT :: nat where "EGRESS_QUEUE_RATELIMIT \<equiv> 2"
abbreviation EGRESS_TRTCM :: nat where "EGRESS_TRTCM \<equiv> 3"
abbreviation GLB_RATECTL :: nat where "GLB_RATECTL \<equiv> 4"
abbreviation TRTCM_MODE_MAX :: nat where "TRTCM_MODE_MAX \<equiv> 5"

abbreviation TRTCM_RATELIMIT_MODE :: int where "TRTCM_RATELIMIT_MODE \<equiv> 0"
abbreviation TRTCM_MODE :: int where "TRTCM_MODE \<equiv> 1"

definition GET_METER_IDX :: "u16 \<Rightarrow> nat" where
  "GET_METER_IDX index = unat (index AND 0xFF)"

definition GET_METER_GRP :: "u16 \<Rightarrow> nat" where
  "GET_METER_GRP index = unat (drop_bit 8 index AND 0x3)"

definition qdma_general_check_index_valid :: "nat \<Rightarrow> int \<Rightarrow> u16 \<Rightarrow> int" where
  "qdma_general_check_index_valid trtcmModule trtcmMode index =
     (let meterIdx = GET_METER_IDX index;
          meterGrp = GET_METER_GRP index;
          maxMeterIdx = [127, 31, 15 :: nat]
      in if trtcmModule = GLB_RATECTL then 0
         else if trtcmModule = INGRESS_TRTCM \<and> trtcmMode = TRTCM_RATELIMIT_MODE then
           (if 3 \<le> meterGrp \<or> maxMeterIdx ! meterGrp \<le> meterIdx then - EINVAL else 0)
         else if trtcmModule = INGRESS_TRTCM \<and> trtcmMode = TRTCM_MODE then
           (if 3 \<le> meterGrp \<or> maxMeterIdx ! meterGrp div 2 \<le> meterIdx then - EINVAL else 0)
         else if trtcmModule = SLA_TRTCM then (if 31 < meterIdx then - EINVAL else 0)
         else if trtcmModule = EGRESS_QUEUE_RATELIMIT then
           (if (256 :: nat) < 256 \<and> 256 < meterIdx then - EINVAL else 0)
         else (if 32 - 1 < meterIdx then - EINVAL else 0))"

section \<open>Bucket sizes and token rates\<close>

definition generalGetBucketSizeByRate :: "u32 \<Rightarrow> int" where
  "generalGetBucketSizeByRate rateLimitValue =
     (if rateLimitValue \<le> 4000 then 65536
      else if rateLimitValue \<le> 8000 then 524288
      else if rateLimitValue \<le> 16000 then 1024000
      else if rateLimitValue \<le> 128000 then 8192000
      else if rateLimitValue \<le> 256000 then 24576000
      else 65536000)"

lemma bucket_by_rate_range: "65536 \<le> generalGetBucketSizeByRate r \<and> generalGetBucketSizeByRate r \<le> 65536000"
  by (simp add: generalGetBucketSizeByRate_def)

text \<open>The unit of a tick, in kbit/s or packets per second, truncated to 16 bits, and the rate word:
  \<open>None\<close> where the code reports an overflow.\<close>

definition rate_unit :: "bool \<Rightarrow> int \<Rightarrow> u16" where
  "rate_unit byte_mode tick = (if byte_mode then word_of_int (8000 div tick) else word_of_int (1000000 div tick))"

definition token_rate :: "u32 \<Rightarrow> u16 \<Rightarrow> (u32 \<times> u32) option" where
  "token_rate rateLimitValue unit =
     (let tokenRate_integer = rateLimitValue div ucast unit;
          tokenRate_fraction = (ucast (rateLimitValue mod ucast unit * 64 div ucast unit) :: u16)
      in if 0x3FFFF < tokenRate_integer \<or> 0x3F < tokenRate_fraction then None
         else Some (tokenRate_integer, push_bit 6 tokenRate_integer OR ucast tokenRate_fraction))"

text \<open>What a rate word stands for, as the read-back path computes it.\<close>

definition decode_rate :: "u32 \<Rightarrow> u32 \<Rightarrow> u16 \<Rightarrow> u32" where
  "decode_rate fraction_mask valueLo unit =
     (let tokenRate_integer = drop_bit 6 (valueLo AND push_bit 6 0x3FFFF);
          tokenRate_fraction = (ucast (valueLo AND fraction_mask) :: u16)
      in tokenRate_integer * ucast unit + ucast tokenRate_fraction * ucast unit div 64)"

lemma unat_u16_u32: "unat (ucast (w :: u16) :: u32) = unat w" "unat w < 65536"
proof -
  show lt: "unat w < 65536" using unsigned_less [of w, where ?'a = nat] by simp
  show "unat (ucast w :: u32) = unat w"
    unfolding unsigned_ucast_eq using lt by (simp add: take_bit_nat_eq_self)
qed

lemma ucast_u16_id: "unat (x :: u32) < 2 ^ 16 \<Longrightarrow> (ucast (ucast x :: u16) :: u32) = x"
  unfolding word_unat_eq_iff
  by (simp add: unsigned_ucast_eq unsigned_take_bit_eq take_bit_nat_eq_self)

text \<open>The rate word keeps both parts, and reading it back loses at most a 64th of the unit, plus one.\<close>

lemma rate_word_parts:
  assumes "unat (i :: u32) < 2 ^ 18" and "unat (f :: u32) < 2 ^ 6"
  shows "drop_bit 6 ((push_bit 6 i OR f) AND push_bit 6 0x3FFFF) = i" and "(push_bit 6 i OR f) AND 0x3F = f"
proof -
  note b = small_bits [OF assms(1)] small_bits [OF assms(2)]
  have m: "(0x3FFFF :: u32) = mask 18" "(0x3F :: u32) = mask 6" by (simp_all add: mask_eq_exp_minus_1)
  show "drop_bit 6 ((push_bit 6 i OR f) AND push_bit 6 0x3FFFF) = i"
    unfolding m by (rule bit_word_eqI) (auto simp: bit_simps dest: b bit_imp_le_length)
  show "(push_bit 6 i OR f) AND 0x3F = f"
    unfolding m by (rule bit_word_eqI) (auto simp: bit_simps dest: b)
qed

lemma frac_bounds:
  fixes r u :: nat
  assumes "r < u"
  shows "r * 64 div u < 64" and "r * 64 div u * u div 64 \<le> r" and "r \<le> r * 64 div u * u div 64 + u div 64 + 1"
proof -
  have u: "0 < u" using assms by simp
  let ?f = "r * 64 div u"
  show "?f < 64" using assms by (simp add: less_mult_imp_div_less mult.commute)
  have le: "?f * u \<le> r * 64" by simp
  then show "?f * u div 64 \<le> r" by (metis div_le_mono nonzero_mult_div_cancel_right zero_neq_numeral)
  have "r * 64 < (?f + 1) * u" using u by (metis Suc_eq_plus1 dividend_less_div_times mult.commute mult_Suc add.commute)
  then have "r * 64 < ?f * u + u" by simp
  then show "r \<le> ?f * u div 64 + u div 64 + 1" by linarith
qed

lemma frac_word:
  fixes v :: u32 and unit :: u16
  assumes "unit \<noteq> 0"
  defines "f \<equiv> v mod ucast unit * 64 div ucast unit"
  shows "unat f = unat v mod unat unit * 64 div unat unit" and "unat f < 64" and "(ucast (ucast f :: u16) :: u32) = f"
proof -
  let ?u = "unat unit" and ?r = "unat v mod unat unit"
  note uu = unat_u16_u32 [of unit]
  have u0: "0 < ?u" using assms(1) by (simp add: unat_gt_0)
  have r: "unat (v mod ucast unit :: u32) = ?r" by (simp add: unat_mod uu)
  have "?r < ?u" using u0 by simp
  then have "?r * 64 < 2 ^ 32" using uu(2) by simp
  then have "unat (v mod ucast unit * 64 :: u32) = ?r * 64"
    unfolding unat_word_ariths(2) r by simp
  then show f: "unat f = ?r * 64 div ?u" by (simp add: f_def unat_div uu)
  show f64: "unat f < 64" unfolding f by (rule frac_bounds(1)) (use u0 in simp)
  then show "(ucast (ucast f :: u16) :: u32) = f" by (intro ucast_u16_id) simp
qed

lemma token_rate_None:
  assumes "unit \<noteq> 0"
  shows "token_rate v unit = None \<longleftrightarrow> 0x3FFFF < v div ucast unit"
proof -
  note F = frac_word [OF assms, of v]
  have "\<not> (0x3F :: u16) < ucast (v mod ucast unit * 64 div ucast unit :: u32)"
  proof
    assume "(0x3F :: u16) < ucast (v mod ucast unit * 64 div ucast unit :: u32)"
    then have "63 < unat (ucast (v mod ucast unit * 64 div ucast unit :: u32) :: u16)"
      by (simp add: word_less_nat_alt)
    also have "\<dots> = unat (ucast (ucast (v mod ucast unit * 64 div ucast unit :: u32) :: u16) :: u32)"
      by (rule unat_u16_u32(1) [symmetric])
    finally show False using F(2) unfolding F(3) by simp
  qed
  then show ?thesis by (simp add: token_rate_def Let_def)
qed

lemma token_rate_parts:
  assumes "unit \<noteq> 0" and "token_rate v unit = Some (i, w)"
  shows "i = v div ucast unit" and "unat i = unat v div unat unit" and "unat i < 2 ^ 18"
    and "drop_bit 6 (w AND push_bit 6 0x3FFFF) = i"
    and "unat (w AND 0x3F) = unat v mod unat unit * 64 div unat unit"
proof -
  let ?u = "unat unit" and ?r = "unat v mod unat unit"
  note uu = unat_u16_u32 [of unit] and F = frac_word [OF assms(1), of v]
  let ?f = "v mod ucast unit * 64 div ucast unit :: u32"
  have le: "\<not> 0x3FFFF < v div ucast unit" and i: "i = v div ucast unit"
    and w: "w = push_bit 6 i OR ucast (ucast ?f :: u16)"
    using assms(2) by (auto simp: token_rate_def Let_def split: if_splits)
  show "i = v div ucast unit" by (rule i)
  show "unat i = unat v div unat unit" by (simp add: i unat_div uu)
  show lt: "unat i < 2 ^ 18" using le i by (simp add: not_less word_le_nat_alt)
  have "unat ?f < 2 ^ 6" using F(2) by simp
  note P = rate_word_parts [OF lt this]
  show "drop_bit 6 (w AND push_bit 6 0x3FFFF) = i" using P(1) w F(3) by simp
  show "unat (w AND 0x3F) = ?r * 64 div ?u" using P(2) w F(1,3) by simp
qed

lemma decode_bounds:
  assumes "unit \<noteq> 0" and "token_rate v unit = Some (i, w)"
  shows "unat (decode_rate 0x3F w unit) \<le> unat v"
    and "unat v \<le> unat (decode_rate 0x3F w unit) + unat unit div 64 + 1"
proof -
  let ?u = "unat unit" and ?r = "unat v mod unat unit"
  note P = token_rate_parts [OF assms] and uu = unat_u16_u32 [of unit]
  let ?f = "?r * 64 div ?u"
  have u0: "0 < ?u" using assms(1) by (simp add: unat_gt_0)
  note F = frac_bounds [of ?r ?u, OF mod_less_divisor [OF u0]]
  have "unat (w AND 0x3F) < 2 ^ 16" using P(5) F(1) by simp
  then have f16: "(ucast (ucast (w AND 0x3F) :: u16) :: u32) = w AND 0x3F" by (rule ucast_u16_id)
  have dec: "decode_rate 0x3F w unit = i * ucast unit + (w AND 0x3F) * ucast unit div 64"
    by (simp only: decode_rate_def Let_def P(4) f16)
  have vd: "unat v = unat v div ?u * ?u + ?r" by simp
  have v32: "unat v < 2 ^ 32" using unsigned_less [of v, where ?'a = nat] by simp
  have a: "unat (i * ucast unit :: u32) = unat v div ?u * ?u"
  proof -
    have "unat v div ?u * ?u < 2 ^ 32" using v32 vd by linarith
    then show ?thesis unfolding unat_word_ariths(2) uu P(2) by simp
  qed
  have "?f * ?u < 64 * 65536" using F(1) uu(2) by (intro mult_strict_mono) simp_all
  then have b: "unat ((w AND 0x3F) * ucast unit div 64 :: u32) = ?f * ?u div 64"
    using P(5) by (simp add: unat_word_ariths unat_div uu)
  have "unat v div ?u * ?u + ?f * ?u div 64 \<le> unat v" using F(2) vd by linarith
  then have c: "unat (decode_rate 0x3F w unit) = unat v div ?u * ?u + ?f * ?u div 64"
    unfolding dec unat_word_ariths(1) a b using v32 by simp
  show "unat (decode_rate 0x3F w unit) \<le> unat v" using c F(2) vd by linarith
  show "unat v \<le> unat (decode_rate 0x3F w unit) + ?u div 64 + 1" using c F(3) vd by linarith
qed

section \<open>Properties\<close>

text \<open>The binary search over the eighteen bucket sizes returns the least shift whose bucket holds the
  value, or the largest one when none does, for every value and every unit that does not overflow.\<close>

theorem bucket_shift_least:
  assumes "0 < val" and "0 < unat unit" and "unat unit * 2 ^ 17 < 2 ^ 32"
  shows "\<exists>k\<le>17. biSearchGetBucketSizeShift val 0 17 unit = int k \<and>
     (k < 17 \<longrightarrow> unat val \<le> unat unit * 2 ^ k) \<and> (\<forall>j<k. unat unit * 2 ^ j < unat val)"
  using biSearch_bucket [OF assms] bucket_shift_eq [of "unat val" "unat unit" 17 "bucket_shift (unat val) (unat unit) 17"]
  by auto

theorem bucket_shift_least_witness:
  "\<exists>k\<le>17. biSearchGetBucketSizeShift 65537 0 17 1024 = int k \<and> 65537 \<le> 1024 * (2 :: nat) ^ k"
  using bucket_shift_least [of 65537 1024] by (auto simp: le_less)

text \<open>A size of zero is answered like a size between one and two units, not like a size below one.\<close>

lemma biSearch_zero: "biSearchGetBucketSizeShift 0 0 17 1024 = 1" "biSearchGetBucketSizeShift 1 0 17 1024 = 0"
  by code_simp+

lemma select_clear: "\<not> bit sel 31 \<Longrightarrow> bit ((0x80000000 :: u32) OR sel) 31 \<and> ((0x80000000 :: u32) OR sel) AND 0x7FFFFFFF = sel"
proof -
  have m: "(0x7FFFFFFF :: u32) = mask 31" "(0x80000000 :: u32) = push_bit 31 1" by (simp_all add: mask_eq_exp_minus_1)
  assume a: "\<not> bit sel 31"
  have n: "bit sel n \<Longrightarrow> n < 31" for n using a bit_imp_le_length [of sel n] by (cases "n = 31") auto
  have "bit (push_bit 31 (1 :: u32)) 31" by (simp only: bit_push_bit_iff bit_1_iff) simp
  moreover have "(push_bit 31 1 OR sel) AND mask 31 = sel"
    by (rule bit_word_eqI) (auto simp only: bit_and_iff bit_or_iff bit_push_bit_iff bit_1_iff bit_mask_iff
        possible_bit_word dest: n)
  ultimately show ?thesis unfolding m by (simp only: bit_or_iff simp_thms)
qed

end
