(* ===== verification/QdmaTrtcm.thy ===== *)
theory QdmaTrtcm
  imports QdmaMath
begin

text \<open>
  The rate-limit and TRTCM meters of the QDMA, \<^verbatim>\<open>airoha/arht_qdma.c\<close>: indirect access to a meter's
  parameter words through a command and a data register, the read-modify-write of its mode bits,
  its token rate and bucket size, and the entry points that configure a meter. A retry loop of the
  source that has no bound is a partial function: \<open>None\<close> is "does not return".
\<close>

section \<open>Environment\<close>

text \<open>The register bus, the timed wait for the done bit of a command register (true when the bit was
  seen), and what the register header defines: the four base registers, three mode bits, the
  fraction mask and the two parts of a meter index.\<close>

record 'd qdma_env =
  q_bus :: "'d bus"
  q_poll :: "u32 \<Rightarrow> 'd \<Rightarrow> bool \<times> 'd"
  REG_INGRESS_TRTCM_CFG :: u32
  REG_SLA_TRTCM_CFG :: u32
  REG_EGRESS_TRTCM_CFG :: u32
  REG_GLB_TRTCM_CFG :: u32
  TRTCM_METER_MODE :: u32
  TRTCM_PKT_MODE :: u32
  TRTCM_TICK_SEL :: u32
  TRTCM_TOKEN_RATE_FRACTION_MASK :: u32
  QDMA_METER_IDX :: "u32 \<Rightarrow> u32"
  QDMA_METER_GROUP :: "u32 \<Rightarrow> u32"

record trtcm_cfg =
  trtcmCfgBase :: "u32 list"
  trtcmBucketByteUnit :: "u32 list"
  trtcmBucketPacketUnit :: "u32 list"

abbreviation TRTCM_MISC :: u32 where "TRTCM_MISC \<equiv> 0"
abbreviation TRTCM_TOKEN_RATE :: u32 where "TRTCM_TOKEN_RATE \<equiv> 1"
abbreviation TRTCM_BUCKETSIZE_SHIFT :: u32 where "TRTCM_BUCKETSIZE_SHIFT \<equiv> 2"
abbreviation PARA_RWCMD :: u32 where "PARA_RWCMD \<equiv> 0x80000000"

definition qdma_init_trtcm :: "'d qdma_env \<Rightarrow> trtcm_cfg \<Rightarrow> trtcm_cfg" where
  "qdma_init_trtcm env g = \<lparr>
     trtcmCfgBase = (trtcmCfgBase g)[INGRESS_TRTCM := REG_INGRESS_TRTCM_CFG env, SLA_TRTCM := REG_SLA_TRTCM_CFG env,
       EGRESS_TRTCM := REG_EGRESS_TRTCM_CFG env, GLB_RATECTL := REG_GLB_TRTCM_CFG env],
     trtcmBucketByteUnit = (trtcmBucketByteUnit g)[INGRESS_TRTCM := 1024, SLA_TRTCM := 1024, EGRESS_TRTCM := 1024,
       GLB_RATECTL := 256],
     trtcmBucketPacketUnit = (trtcmBucketPacketUnit g)[INGRESS_TRTCM := 16, SLA_TRTCM := 16, EGRESS_TRTCM := 16,
       GLB_RATECTL := 256]\<rparr>"

definition qdma_dev_trtcm_cfg_init :: "'d qdma_env \<Rightarrow> trtcm_cfg" where
  "qdma_dev_trtcm_cfg_init env = qdma_init_trtcm env
     \<lparr>trtcmCfgBase = replicate TRTCM_MODE_MAX 0, trtcmBucketByteUnit = replicate TRTCM_MODE_MAX 0,
      trtcmBucketPacketUnit = replicate TRTCM_MODE_MAX 0\<rparr>"

section \<open>Selecting a parameter word\<close>

definition rl_select :: "'d qdma_env \<Rightarrow> u32 \<Rightarrow> u16 \<Rightarrow> u32" where
  "rl_select env paraType index =
     (push_bit 28 paraType AND push_bit 28 0x3) OR
     (push_bit 16 (QDMA_METER_IDX env (ucast index)) AND push_bit 16 0xFF) OR
     push_bit 26 (QDMA_METER_GROUP env (ucast index))"

definition trtcm_select :: "'d qdma_env \<Rightarrow> u32 \<Rightarrow> u32 \<Rightarrow> u16 \<Rightarrow> u32" where
  "trtcm_select env paraType rateType index =
     (push_bit 28 paraType AND push_bit 28 0x3) OR
     (push_bit 17 (QDMA_METER_IDX env (ucast index)) AND push_bit 17 0x3F) OR
     (push_bit 16 rateType AND push_bit 16 1) OR
     push_bit 26 (QDMA_METER_GROUP env (ucast index))"

section \<open>Reading and writing a word\<close>

text \<open>The two read paths differ only in the selector, the modules they accept and the error of a
  timeout. \<open>out\<close> is what the two result pointers hold.\<close>

definition para_read ::
  "'d qdma_env \<Rightarrow> u32 \<Rightarrow> u32 \<Rightarrow> int \<Rightarrow> u32 \<times> u32 \<Rightarrow> 'd \<Rightarrow> int \<times> (u32 \<times> u32) \<times> 'd" where
  "para_read env trtcmBase trtcmParaCfg err out d =
     (let d = bus_wr (q_bus env) (trtcmBase + 0x4) trtcmParaCfg d;
          (done, d) = q_poll env (trtcmBase + 0x4) d
      in if \<not> done then (err, out, d)
         else let (lo, d) = bus_rr (q_bus env) (trtcmBase + 0x8) d;
                  (hi, d) = bus_rr (q_bus env) (trtcmBase + 0xc) d
              in (0, (lo, hi), d))"

definition generalGetRatelimitParaConfig ::
  "'d qdma_env \<Rightarrow> trtcm_cfg \<Rightarrow> nat \<Rightarrow> u32 \<Rightarrow> u16 \<Rightarrow> u32 \<times> u32 \<Rightarrow> 'd \<Rightarrow> int \<times> (u32 \<times> u32) \<times> 'd" where
  "generalGetRatelimitParaConfig env g m paraType index out d =
     (if TRTCM_MODE_MAX \<le> m then (- EINVAL, out, d)
      else para_read env (trtcmCfgBase g ! m) (rl_select env paraType index) (- ETIMEDOUT) out d)"

definition airoha_generalGetTrtcmParaConfig ::
  "'d qdma_env \<Rightarrow> trtcm_cfg \<Rightarrow> nat \<Rightarrow> u32 \<Rightarrow> u32 \<Rightarrow> u16 \<Rightarrow> u32 \<times> u32 \<Rightarrow> 'd \<Rightarrow> int \<times> (u32 \<times> u32) \<times> 'd" where
  "airoha_generalGetTrtcmParaConfig env g m paraType rateType index out d =
     (if EGRESS_TRTCM < m then (- EINVAL, out, d)
      else para_read env (trtcmCfgBase g ! m) (trtcm_select env paraType rateType index) (- ETIME) out d)"

text \<open>The write loop: write data and command, read the word back, until it is the one written. The
  status of the read-back is ignored.\<close>

partial_function (option) para_write_loop ::
  "'d qdma_env \<Rightarrow> u32 \<Rightarrow> u32 \<Rightarrow> u32 \<Rightarrow> int \<Rightarrow> u32 \<times> u32 \<Rightarrow> 'd \<Rightarrow> 'd option" where
  "para_write_loop env trtcmBase sel valueLo err tmp d =
     (let d = bus_wr (q_bus env) (trtcmBase + 0x8) valueLo d;
          d = bus_wr (q_bus env) (trtcmBase + 0x4) (PARA_RWCMD OR sel) d;
          (ret, tmp, d) = para_read env trtcmBase sel err tmp d
      in if valueLo \<noteq> fst tmp then para_write_loop env trtcmBase sel valueLo err tmp d else Some d)"

definition para_write :: "'d qdma_env \<Rightarrow> u32 \<Rightarrow> u32 \<Rightarrow> u32 \<Rightarrow> int \<Rightarrow> 'd \<Rightarrow> (int \<times> 'd) option" where
  "para_write env trtcmBase sel valueLo err d = do {
     d \<leftarrow> para_write_loop env trtcmBase sel valueLo err (0, 0) d;
     let (done, d) = q_poll env (trtcmBase + 0x4) d;
     Some (if \<not> done then err else 0, d) }"

definition generalSetRatelimitParaConfig ::
  "'d qdma_env \<Rightarrow> trtcm_cfg \<Rightarrow> nat \<Rightarrow> u32 \<Rightarrow> u16 \<Rightarrow> u32 \<Rightarrow> 'd \<Rightarrow> (int \<times> 'd) option" where
  "generalSetRatelimitParaConfig env g m paraType index valueLo d =
     (if TRTCM_MODE_MAX \<le> m then Some (- EINVAL, d)
      else para_write env (trtcmCfgBase g ! m) (rl_select env paraType index) valueLo (- ETIMEDOUT) d)"

definition airoha_generalSetTrtcmParaConfig ::
  "'d qdma_env \<Rightarrow> trtcm_cfg \<Rightarrow> nat \<Rightarrow> u32 \<Rightarrow> u32 \<Rightarrow> u16 \<Rightarrow> u32 \<Rightarrow> 'd \<Rightarrow> (int \<times> 'd) option" where
  "airoha_generalSetTrtcmParaConfig env g m paraType rateType index valueLo d =
     (if EGRESS_TRTCM < m then Some (- EINVAL, d)
      else para_write env (trtcmCfgBase g ! m) (trtcm_select env paraType rateType index) valueLo (- ETIME) d)"

section \<open>Mode bits\<close>

text \<open>Reading the mode word, changing it, writing it back.\<close>

definition misc_update ::
  "('d \<Rightarrow> int \<times> (u32 \<times> u32) \<times> 'd) \<Rightarrow> (u32 \<Rightarrow> 'd \<Rightarrow> (int \<times> 'd) option) \<Rightarrow> (u32 \<Rightarrow> u32) \<Rightarrow> 'd \<Rightarrow> (int \<times> 'd) option" where
  "misc_update get put f d =
     (let (ret, (valueLo, valueHi), d) = get d
      in if ret < 0 then Some (- EFAULT, d)
         else do { (ret, d) \<leftarrow> put (f valueLo) d; Some (if ret < 0 then - EFAULT else 0, d) })"

definition mode_bit :: "u32 \<Rightarrow> bool \<Rightarrow> u32 \<Rightarrow> u32" where
  "mode_bit b on w = (if on then w OR b else w AND NOT b)"

definition generalSetRatelimitMeterMode ::
  "'d qdma_env \<Rightarrow> trtcm_cfg \<Rightarrow> nat \<Rightarrow> nat \<Rightarrow> u16 \<Rightarrow> 'd \<Rightarrow> (int \<times> 'd) option" where
  "generalSetRatelimitMeterMode env g m meterMode index d =
     (if 1 < meterMode then Some (- EINVAL, d)
      else misc_update (generalGetRatelimitParaConfig env g m TRTCM_MISC index (0, 0))
             (generalSetRatelimitParaConfig env g m TRTCM_MISC index)
             (mode_bit (TRTCM_METER_MODE env) (meterMode = 1)) d)"

definition generalSetRatelimitPktMode ::
  "'d qdma_env \<Rightarrow> trtcm_cfg \<Rightarrow> nat \<Rightarrow> nat \<Rightarrow> u16 \<Rightarrow> 'd \<Rightarrow> (int \<times> 'd) option" where
  "generalSetRatelimitPktMode env g m pktMode index d =
     (if 1 < pktMode then Some (- EINVAL, d)
      else misc_update (generalGetRatelimitParaConfig env g m TRTCM_MISC index (0, 0))
             (generalSetRatelimitParaConfig env g m TRTCM_MISC index)
             (mode_bit (TRTCM_PKT_MODE env) (pktMode = 1)) d)"

definition generalSetRatelimitTickSel ::
  "'d qdma_env \<Rightarrow> trtcm_cfg \<Rightarrow> nat \<Rightarrow> nat \<Rightarrow> u16 \<Rightarrow> 'd \<Rightarrow> (int \<times> 'd) option" where
  "generalSetRatelimitTickSel env g m tickSel index d =
     (if 1 < tickSel then Some (- EINVAL, d)
      else misc_update (generalGetRatelimitParaConfig env g m TRTCM_MISC index (0, 0))
             (generalSetRatelimitParaConfig env g m TRTCM_MISC index)
             (mode_bit (TRTCM_TICK_SEL env) (tickSel = 1)) d)"

definition airoha_generalSetTrtcmMeterMode ::
  "'d qdma_env \<Rightarrow> trtcm_cfg \<Rightarrow> nat \<Rightarrow> nat \<Rightarrow> u32 \<Rightarrow> u16 \<Rightarrow> 'd \<Rightarrow> (int \<times> 'd) option" where
  "airoha_generalSetTrtcmMeterMode env g m meterMode rateType index d =
     (if 1 < meterMode then Some (- EINVAL, d)
      else misc_update (airoha_generalGetTrtcmParaConfig env g m TRTCM_MISC rateType index (0, 0))
             (airoha_generalSetTrtcmParaConfig env g m TRTCM_MISC rateType index)
             (mode_bit (TRTCM_METER_MODE env) (meterMode = 1)) d)"

definition airoha_generalSetTrtcmPktMode ::
  "'d qdma_env \<Rightarrow> trtcm_cfg \<Rightarrow> nat \<Rightarrow> nat \<Rightarrow> u32 \<Rightarrow> u16 \<Rightarrow> 'd \<Rightarrow> (int \<times> 'd) option" where
  "airoha_generalSetTrtcmPktMode env g m pktMode rateType index d =
     (if 1 < pktMode then Some (- EINVAL, d)
      else misc_update (airoha_generalGetTrtcmParaConfig env g m TRTCM_MISC rateType index (0, 0))
             (airoha_generalSetTrtcmParaConfig env g m TRTCM_MISC rateType index)
             (mode_bit (TRTCM_PKT_MODE env) (pktMode = 1)) d)"

definition airoha_generalSetTrtcmTickSel ::
  "'d qdma_env \<Rightarrow> trtcm_cfg \<Rightarrow> nat \<Rightarrow> nat \<Rightarrow> u32 \<Rightarrow> u16 \<Rightarrow> 'd \<Rightarrow> (int \<times> 'd) option" where
  "airoha_generalSetTrtcmTickSel env g m tickSel rateType index d =
     (if 1 < tickSel then Some (- EINVAL, d)
      else misc_update (airoha_generalGetTrtcmParaConfig env g m TRTCM_MISC rateType index (0, 0))
             (airoha_generalSetTrtcmParaConfig env g m TRTCM_MISC rateType index)
             (mode_bit (TRTCM_TICK_SEL env) (tickSel = 1)) d)"

section \<open>Reading modes and ticks\<close>

definition airoha_generalGetTrtcmMode :: "'d qdma_env \<Rightarrow> trtcm_cfg \<Rightarrow> nat \<Rightarrow> 'd \<Rightarrow> int \<times> 'd" where
  "airoha_generalGetTrtcmMode env g m d =
     (if TRTCM_MODE_MAX \<le> m then (- EINVAL, d)
      else let (v, d) = bus_rr (q_bus env) (trtcmCfgBase g ! m) d
           in (uint (FIELD_GET (push_bit 30 1) v), d))"

definition generalSetTrtcmMode :: "'d qdma_env \<Rightarrow> trtcm_cfg \<Rightarrow> nat \<Rightarrow> int \<Rightarrow> 'd \<Rightarrow> int \<times> 'd" where
  "generalSetTrtcmMode env g m trtcmMode d =
     (if TRTCM_MODE_MAX \<le> m then (- EINVAL, d)
      else if trtcmMode < TRTCM_RATELIMIT_MODE \<or> TRTCM_MODE < trtcmMode then (- EINVAL, d)
      else (0, bus_rmw (q_bus env) (trtcmCfgBase g ! m) (push_bit 30 1)
                 (FIELD_PREP (push_bit 30 1) (word_of_int trtcmMode)) d))"

definition airoha_generalGetTrtcmFastTick :: "'d qdma_env \<Rightarrow> trtcm_cfg \<Rightarrow> nat \<Rightarrow> 'd \<Rightarrow> int \<times> 'd" where
  "airoha_generalGetTrtcmFastTick env g m d =
     (if TRTCM_MODE_MAX \<le> m then (- EINVAL, d)
      else let (v, d) = bus_rr (q_bus env) (trtcmCfgBase g ! m) d in (sint (FIELD_GET 0xFFFF v), d))"

definition airoha_generalGetTrtcmSlowTickRatio :: "'d qdma_env \<Rightarrow> trtcm_cfg \<Rightarrow> nat \<Rightarrow> 'd \<Rightarrow> u16 \<times> 'd" where
  "airoha_generalGetTrtcmSlowTickRatio env g m d =
     (if TRTCM_MODE_MAX \<le> m then (word_of_int (- EINVAL), d)
      else let (v, d) = bus_rr (q_bus env) (trtcmCfgBase g ! m) d in (ucast (FIELD_GET 0x3FFF0000 v), d))"

definition airoha_generalGetTrtcmSlowTick :: "'d qdma_env \<Rightarrow> trtcm_cfg \<Rightarrow> nat \<Rightarrow> 'd \<Rightarrow> u32 \<times> 'd" where
  "airoha_generalGetTrtcmSlowTick env g m d =
     (let (fast, d) = airoha_generalGetTrtcmFastTick env g m d;
          fastTick = (word_of_int fast :: u16);
          (slowTickRatio, d) = airoha_generalGetTrtcmSlowTickRatio env g m d
      in (ucast fastTick * ucast slowTickRatio, d))"

definition generalGetRatelimitPktMode :: "'d qdma_env \<Rightarrow> trtcm_cfg \<Rightarrow> nat \<Rightarrow> u16 \<Rightarrow> 'd \<Rightarrow> int \<times> 'd" where
  "generalGetRatelimitPktMode env g m index d =
     (let (_, (valueLo, _), d) = generalGetRatelimitParaConfig env g m TRTCM_MISC index (0, 0) d
      in (sint (drop_bit 1 (valueLo AND TRTCM_PKT_MODE env)), d))"

definition generalGetRatelimitTickSel :: "'d qdma_env \<Rightarrow> trtcm_cfg \<Rightarrow> nat \<Rightarrow> u16 \<Rightarrow> 'd \<Rightarrow> int \<times> 'd" where
  "generalGetRatelimitTickSel env g m index d =
     (let (_, (valueLo, _), d) = generalGetRatelimitParaConfig env g m TRTCM_MISC index (0, 0) d
      in (sint (valueLo AND TRTCM_TICK_SEL env), d))"

definition airoha_generalGetTrtcmPktMode :: "'d qdma_env \<Rightarrow> trtcm_cfg \<Rightarrow> nat \<Rightarrow> u32 \<Rightarrow> u16 \<Rightarrow> 'd \<Rightarrow> int \<times> 'd" where
  "airoha_generalGetTrtcmPktMode env g m rateType index d =
     (let (_, (valueLo, _), d) = airoha_generalGetTrtcmParaConfig env g m TRTCM_MISC rateType index (0, 0) d
      in (sint (drop_bit 1 (valueLo AND TRTCM_PKT_MODE env)), d))"

definition airoha_generalGetTrtcmTickSel :: "'d qdma_env \<Rightarrow> trtcm_cfg \<Rightarrow> nat \<Rightarrow> u32 \<Rightarrow> u16 \<Rightarrow> 'd \<Rightarrow> int \<times> 'd" where
  "airoha_generalGetTrtcmTickSel env g m rateType index d =
     (let (_, (valueLo, _), d) = airoha_generalGetTrtcmParaConfig env g m TRTCM_MISC rateType index (0, 0) d
      in (sint (valueLo AND TRTCM_TICK_SEL env), d))"

section \<open>Token rate and bucket size\<close>

text \<open>Both token-rate setters, and the read-back, first find the unit of the current tick. The readers
  of the mode word and the error of the first failing check are the caller's.\<close>

definition current_unit ::
  "('d \<Rightarrow> int \<times> 'd) \<Rightarrow> ('d \<Rightarrow> int \<times> 'd) \<Rightarrow> 'd qdma_env \<Rightarrow> trtcm_cfg \<Rightarrow> nat \<Rightarrow> 'd \<Rightarrow> u16 option \<times> 'd" where
  "current_unit getTickSel getPktMode env g m d =
     (let (sel, d) = getTickSel d;
          (curTicksel, d) = (if sel = 0 then airoha_generalGetTrtcmFastTick env g m d
                             else let (t, d) = airoha_generalGetTrtcmSlowTick env g m d in (sint t, d))
      in if curTicksel \<le> 0 then (None, d)
         else let (pm, d) = getPktMode d;
                  rateLimitUnit = rate_unit (pm = 0) curTicksel
              in (if rateLimitUnit = 0 then None else Some rateLimitUnit, d))"

definition set_token_rate ::
  "('d \<Rightarrow> int \<times> 'd) \<Rightarrow> ('d \<Rightarrow> int \<times> 'd) \<Rightarrow> (u32 \<Rightarrow> 'd \<Rightarrow> (int \<times> 'd) option) \<Rightarrow>
     'd qdma_env \<Rightarrow> trtcm_cfg \<Rightarrow> nat \<Rightarrow> u32 \<Rightarrow> 'd \<Rightarrow> (int \<times> 'd) option" where
  "set_token_rate getTickSel getPktMode put env g m rateLimitValue d =
     (let (u, d) = current_unit getTickSel getPktMode env g m d in
      case u of
        None \<Rightarrow> Some (- EINVAL, d)
      | Some rateLimitUnit \<Rightarrow>
          (case token_rate rateLimitValue rateLimitUnit of
             None \<Rightarrow> Some (- EINVAL, d)
           | Some (tokenRate_integer, tokenRate) \<Rightarrow> do {
               (ret, d) \<leftarrow> put tokenRate d;
               if ret < 0 then Some (- EFAULT, d)
               else if m = INGRESS_TRTCM then
                 let (pm, d) = getPktMode d
                 in Some (if pm = 0 then generalGetBucketSizeByRate rateLimitValue else sint rateLimitValue, d)
               else Some (max (uint tokenRate_integer + 1) 4096, d) }))"

definition generalSetRatelimitTokenRate ::
  "'d qdma_env \<Rightarrow> trtcm_cfg \<Rightarrow> nat \<Rightarrow> u32 \<Rightarrow> u16 \<Rightarrow> 'd \<Rightarrow> (int \<times> 'd) option" where
  "generalSetRatelimitTokenRate env g m rateLimitValue index d =
     set_token_rate (generalGetRatelimitTickSel env g m index) (generalGetRatelimitPktMode env g m index)
       (generalSetRatelimitParaConfig env g m TRTCM_TOKEN_RATE index) env g m rateLimitValue d"

definition airoha_generalSetTrtcmTokenRate ::
  "'d qdma_env \<Rightarrow> trtcm_cfg \<Rightarrow> nat \<Rightarrow> u32 \<Rightarrow> u32 \<Rightarrow> u16 \<Rightarrow> 'd \<Rightarrow> (int \<times> 'd) option" where
  "airoha_generalSetTrtcmTokenRate env g m rateLimitValue rateType index d =
     set_token_rate (airoha_generalGetTrtcmTickSel env g m rateType index)
       (airoha_generalGetTrtcmPktMode env g m rateType index)
       (airoha_generalSetTrtcmParaConfig env g m TRTCM_TOKEN_RATE rateType index) env g m rateLimitValue d"

definition set_bucket_size ::
  "('d \<Rightarrow> int \<times> 'd) \<Rightarrow> (u32 \<Rightarrow> 'd \<Rightarrow> (int \<times> 'd) option) \<Rightarrow> trtcm_cfg \<Rightarrow> nat \<Rightarrow> u32 \<Rightarrow> 'd \<Rightarrow> (int \<times> 'd) option" where
  "set_bucket_size getPktMode put g m bucketSize d =
     (if 0x8000000 < bucketSize then Some (- EINVAL, d)
      else
        let (pm, d) = getPktMode d;
            bucketUnit = (if pm = 0 then trtcmBucketByteUnit g ! m else trtcmBucketPacketUnit g ! m);
            bucketSize_shift = biSearchGetBucketSizeShift bucketSize 0 17 bucketUnit
        in do { (ret, d) \<leftarrow> put (word_of_int bucketSize_shift) d;
                Some (if ret < 0 then - EFAULT else 0, d) })"

definition generalSetRatelimitBucketSize ::
  "'d qdma_env \<Rightarrow> trtcm_cfg \<Rightarrow> nat \<Rightarrow> u32 \<Rightarrow> u16 \<Rightarrow> 'd \<Rightarrow> (int \<times> 'd) option" where
  "generalSetRatelimitBucketSize env g m bucketSize index d =
     set_bucket_size (generalGetRatelimitPktMode env g m index)
       (generalSetRatelimitParaConfig env g m TRTCM_BUCKETSIZE_SHIFT index) g m bucketSize d"

definition airoha_generalSetTrtcmBucketSize ::
  "'d qdma_env \<Rightarrow> trtcm_cfg \<Rightarrow> nat \<Rightarrow> u32 \<Rightarrow> u32 \<Rightarrow> u16 \<Rightarrow> 'd \<Rightarrow> (int \<times> 'd) option" where
  "airoha_generalSetTrtcmBucketSize env g m bucketSize rateType index d =
     set_bucket_size (airoha_generalGetTrtcmPktMode env g m rateType index)
       (airoha_generalSetTrtcmParaConfig env g m TRTCM_BUCKETSIZE_SHIFT rateType index) g m bucketSize d"

text \<open>The read-back takes tick and packet mode through the TRTCM selector and the rate word through the
  rate-limit selector, as the code does.\<close>

definition airoha_generalGetTrtcmTokenRate ::
  "'d qdma_env \<Rightarrow> trtcm_cfg \<Rightarrow> nat \<Rightarrow> u32 \<Rightarrow> u16 \<Rightarrow> 'd \<Rightarrow> u32 \<times> 'd" where
  "airoha_generalGetTrtcmTokenRate env g m rateType index d =
     (let (u, d) = current_unit (airoha_generalGetTrtcmTickSel env g m rateType index)
                     (airoha_generalGetTrtcmPktMode env g m rateType index) env g m d in
      case u of
        None \<Rightarrow> (word_of_int (- EINVAL), d)
      | Some rateLimitUnit \<Rightarrow>
          let (_, (valueLo, _), d) = generalGetRatelimitParaConfig env g m TRTCM_TOKEN_RATE index (0, 0) d
          in (decode_rate (TRTCM_TOKEN_RATE_FRACTION_MASK env) valueLo rateLimitUnit, d))"

section \<open>Configuring a meter\<close>

record ratelimit_cfg =
  trtcmModule :: nat
  Index :: u16
  MeterEn :: nat
  PktMode :: nat
  TickSel :: nat

text \<open>Steps in sequence, the first negative status ends them.\<close>

fun steps :: "('d \<Rightarrow> (int \<times> 'd) option) list \<Rightarrow> 'd \<Rightarrow> (int \<times> 'd) option" where
  "steps [] d = Some (0, d)"
| "steps (f # fs) d = do { (ret, d) \<leftarrow> f d; if ret < 0 then Some (ret, d) else steps fs d }"

definition meter_mode :: "'d qdma_env \<Rightarrow> trtcm_cfg \<Rightarrow> nat \<Rightarrow> u16 \<Rightarrow> 'd \<Rightarrow> int \<times> 'd" where
  "meter_mode env g m index d =
     (let (trtcmMode, d) = airoha_generalGetTrtcmMode env g m d
      in (if 0 < QDMA_METER_GROUP env (ucast index) then TRTCM_RATELIMIT_MODE else trtcmMode, d))"

definition airoha_qdma_general_set_ratelimit_mode_cfg ::
  "'d qdma_env \<Rightarrow> trtcm_cfg \<Rightarrow> ratelimit_cfg \<Rightarrow> 'd \<Rightarrow> (int \<times> 'd) option" where
  "airoha_qdma_general_set_ratelimit_mode_cfg env g c d =
     (let m = trtcmModule c;
          (trtcmMode, d) = meter_mode env g m (Index c) d;
          ret = qdma_general_check_index_valid m trtcmMode (Index c)
      in if ret < 0 then Some (ret, d)
         else if trtcmMode = TRTCM_RATELIMIT_MODE then
           steps [generalSetRatelimitMeterMode env g m (MeterEn c) (Index c),
                  generalSetRatelimitPktMode env g m (PktMode c) (Index c),
                  generalSetRatelimitTickSel env g m (TickSel c) (Index c)] d
         else
           steps (concat (map (\<lambda>rateType.
             [airoha_generalSetTrtcmMeterMode env g m (MeterEn c) rateType (Index c),
              airoha_generalSetTrtcmPktMode env g m (PktMode c) rateType (Index c),
              airoha_generalSetTrtcmTickSel env g m (TickSel c) rateType (Index c)]) [0, 1])) d)"

text \<open>A rate sets the token rate, whose result is the size for the bucket or a negative error.\<close>

definition rate_then_bucket ::
  "('d \<Rightarrow> (int \<times> 'd) option) \<Rightarrow> (u32 \<Rightarrow> 'd \<Rightarrow> (int \<times> 'd) option) \<Rightarrow> 'd \<Rightarrow> (int \<times> 'd) option" where
  "rate_then_bucket rate bucket d = do {
     (bucketSize, d) \<leftarrow> rate d;
     if bucketSize < 0 then Some (bucketSize, d) else bucket (word_of_int bucketSize) d }"

definition airoha_qdma_general_set_ratelimit_mode_value ::
  "'d qdma_env \<Rightarrow> trtcm_cfg \<Rightarrow> nat \<Rightarrow> u16 \<Rightarrow> u32 \<Rightarrow> 'd \<Rightarrow> (int \<times> 'd) option" where
  "airoha_qdma_general_set_ratelimit_mode_value env g m index rateLimitValue d =
     (let (trtcmMode, d) = meter_mode env g m index d;
          ret = qdma_general_check_index_valid m trtcmMode index
      in if ret < 0 then Some (ret, d)
         else if trtcmMode = TRTCM_RATELIMIT_MODE then
           steps [rate_then_bucket (generalSetRatelimitTokenRate env g m rateLimitValue index)
                    (\<lambda>b. generalSetRatelimitBucketSize env g m b index)] d
         else
           steps (map (\<lambda>rateType.
             rate_then_bucket (airoha_generalSetTrtcmTokenRate env g m rateLimitValue rateType index)
               (\<lambda>b. airoha_generalSetTrtcmBucketSize env g m b rateType index)) [0, 1]) d)"

section \<open>Entry points\<close>

definition airoha_dp_api_qdma_set_meter_cfg ::
  "'d qdma_env \<Rightarrow> trtcm_cfg \<Rightarrow> u8 \<Rightarrow> u32 \<Rightarrow> u32 \<Rightarrow> 'd \<Rightarrow> (int \<times> 'd) option" where
  "airoha_dp_api_qdma_set_meter_cfg env g group_id meterIdx val d =
     airoha_qdma_general_set_ratelimit_mode_cfg env g
       \<lparr>trtcmModule = INGRESS_TRTCM, Index = ucast (push_bit 8 (ucast group_id) OR meterIdx),
        MeterEn = (if 0 < val then 1 else 0), PktMode = 0, TickSel = 0\<rparr> d"

definition airoha_dp_api_qdma_set_meter_value ::
  "'d qdma_env \<Rightarrow> trtcm_cfg \<Rightarrow> u32 \<Rightarrow> u32 \<Rightarrow> 'd \<Rightarrow> (int \<times> 'd) option" where
  "airoha_dp_api_qdma_set_meter_value env g meterIdx val d =
     airoha_qdma_general_set_ratelimit_mode_value env g INGRESS_TRTCM (ucast meterIdx) val d"

definition airoha_dp_api_qdma_get_meter_value :: "'d qdma_env \<Rightarrow> trtcm_cfg \<Rightarrow> u32 \<Rightarrow> 'd \<Rightarrow> int \<times> 'd" where
  "airoha_dp_api_qdma_get_meter_value env g meterIdx d =
     (let (rate, d) = airoha_generalGetTrtcmTokenRate env g INGRESS_TRTCM 0 (ucast meterIdx) d in (sint rate, d))"

text \<open>The defaults of the 32 receive rings.\<close>

definition ring_ticks :: "nat list" where
  "ring_ticks = [1, 0, 1, 0, 0, 0, 0, 0, 1] @ replicate 23 0"

definition ring_rates :: "u32 list" where
  "ring_rates = [4000, 1000000, 4000, 4000, 4000, 1000000, 1000000, 4000, 200, 200, 1000000, 125000] @
     replicate 20 1000000"

definition airoha_dp_api_qdma_meter_default_config ::
  "'d qdma_env \<Rightarrow> 'd \<Rightarrow> (trtcm_cfg \<times> 'd) option" where
  "airoha_dp_api_qdma_meter_default_config env d =
     (let g = qdma_dev_trtcm_cfg_init env in do {
        d \<leftarrow> foldr (\<lambda>ringIdx rest d. do {
               (_, d) \<leftarrow> airoha_qdma_general_set_ratelimit_mode_cfg env g
                 \<lparr>trtcmModule = INGRESS_TRTCM, Index = of_nat ringIdx, MeterEn = 1, PktMode = 1,
                  TickSel = ring_ticks ! ringIdx\<rparr> d;
               (_, d) \<leftarrow> airoha_qdma_general_set_ratelimit_mode_value env g INGRESS_TRTCM (of_nat ringIdx)
                 (ring_rates ! ringIdx) d;
               rest d }) [0..<32] Some d;
        Some (g, snd (generalSetTrtcmMode env g INGRESS_TRTCM TRTCM_RATELIMIT_MODE d)) })"

end
