(* ===== verification/QdmaMeter.thy ===== *)
theory QdmaMeter
  imports QdmaTrtcm
begin

text \<open>
  What the QDMA meter configuration achieves on hardware that obeys its command protocol, and what
  it does on hardware that does not answer. The contract of a parameter word is the locale
  \<open>param_port\<close>; the protocol of the hardware behind it is the locale \<open>meter_hw\<close>, from which both
  selectors of the driver get a port.
\<close>

section \<open>A parameter word\<close>

locale param_port =
  fixes get :: "'d \<Rightarrow> int \<times> (u32 \<times> u32) \<times> 'd" and put :: "u32 \<Rightarrow> 'd \<Rightarrow> (int \<times> 'd) option"
    and view :: "'d \<Rightarrow> 'v" and word_of :: "'v \<Rightarrow> u32" and upd :: "u32 \<Rightarrow> 'v \<Rightarrow> 'v"
  assumes get_word: "get d = (ret, out, d') \<Longrightarrow> ret = 0 \<and> fst out = word_of (view d) \<and> view d' = view d"
    and put_word: "\<exists>d'. put v d = Some (0, d') \<and> view d' = upd v (view d)"
begin

lemma misc_update_word:
  "\<exists>d'. misc_update get put f d = Some (0, d') \<and> view d' = upd (f (word_of (view d))) (view d)"
proof -
  obtain ret out d1 where g: "get d = (ret, out, d1)" by (rule prod_cases3)
  note G = get_word [OF g]
  obtain lo hi where o: "out = (lo, hi)" by (rule prod.exhaust)
  obtain d2 where "put (f lo) d1 = Some (0, d2)" "view d2 = upd (f lo) (view d1)" using put_word by blast
  with G g o show ?thesis by (simp add: misc_update_def)
qed

end

section \<open>The command protocol\<close>

text \<open>\<open>mem\<close> maps selectors to parameter words, \<open>cfg\<close> is the module's configuration register at \<open>base\<close>:
  a write command stores the data register under its selector, a read command loads it, and
  every command is done within the time the driver waits.\<close>

locale meter_hw =
  fixes env :: "'d qdma_env" and base :: u32 and mem :: "'d \<Rightarrow> u32 \<Rightarrow> u32" and cfg :: "'d \<Rightarrow> u32"
  assumes write_cmd: "\<not> bit sel 31 \<Longrightarrow>
          d' = bus_wr (q_bus env) (base + 0x4) (PARA_RWCMD OR sel) (bus_wr (q_bus env) (base + 0x8) v d) \<Longrightarrow>
          mem d' = (mem d)(sel := v) \<and> cfg d' = cfg d"
    and read_cmd: "\<not> bit sel 31 \<Longrightarrow> q_poll env (base + 0x4) (bus_wr (q_bus env) (base + 0x4) sel d) = (ok, d1) \<Longrightarrow>
          bus_rr (q_bus env) (base + 0x8) d1 = (lo, d2) \<Longrightarrow> bus_rr (q_bus env) (base + 0xc) d2 = (hi, d3) \<Longrightarrow>
          lo = mem d sel \<and> mem d3 = mem d \<and> cfg d3 = cfg d"
    and poll_done: "q_poll env (base + 0x4) d = (ok, d') \<Longrightarrow> ok \<and> mem d' = mem d \<and> cfg d' = cfg d"
    and cfg_read: "bus_rr (q_bus env) base d = (v, d') \<Longrightarrow> v = cfg d \<and> mem d' = mem d \<and> cfg d' = cfg d"
    and group_range: "unat (QDMA_METER_GROUP env i) < 4"
begin

definition view :: "'d \<Rightarrow> (u32 \<Rightarrow> u32) \<times> u32" where
  "view d = (mem d, cfg d)"

lemma para_read_view:
  assumes "\<not> bit sel 31" and "para_read env base sel err out d = (ret, out', d')"
  shows "ret = 0 \<and> fst out' = mem d sel \<and> view d' = view d"
proof -
  obtain ok d1 where p: "q_poll env (base + 0x4) (bus_wr (q_bus env) (base + 0x4) sel d) = (ok, d1)"
    by (rule prod.exhaust)
  obtain lo d2 where l: "bus_rr (q_bus env) (base + 0x8) d1 = (lo, d2)" by (rule prod.exhaust)
  obtain hi d3 where h: "bus_rr (q_bus env) (base + 0xc) d2 = (hi, d3)" by (rule prod.exhaust)
  show ?thesis using poll_done [OF p] read_cmd [OF assms(1) p l h] assms(2)
    by (auto simp: para_read_def p l h view_def)
qed

lemma para_write_view:
  assumes "\<not> bit sel 31"
  shows "\<exists>d'. para_write env base sel v err d = Some (0, d') \<and> view d' = ((mem d)(sel := v), cfg d)"
proof -
  let ?d1 = "bus_wr (q_bus env) (base + 0x4) (PARA_RWCMD OR sel) (bus_wr (q_bus env) (base + 0x8) v d)"
  note W = write_cmd [OF assms refl, of v d]
  obtain ret out d2 where r: "para_read env base sel err (0, 0) ?d1 = (ret, out, d2)" by (rule prod_cases3)
  note R = para_read_view [OF assms r]
  have "para_write_loop env base sel v err (0, 0) d = Some d2"
    using R W by (subst para_write_loop.simps) (simp add: r)
  moreover obtain ok d3 where p: "q_poll env (base + 0x4) d2 = (ok, d3)" by (rule prod.exhaust)
  ultimately show ?thesis using poll_done [OF p] R W by (simp add: para_write_def view_def)
qed

lemma group_bit: "bit (push_bit 26 (QDMA_METER_GROUP env i)) n \<Longrightarrow> n < 28"
  using small_bits [of "QDMA_METER_GROUP env i" 2 "n - 26"] group_range [of i] by (auto simp: bit_simps)

lemma select_high:
  "\<not> bit (rl_select env p i) 31" "\<not> bit (trtcm_select env p r i) 31"
  "bit (rl_select env p i) 28 = bit p 0" "bit (rl_select env p i) 29 = bit p 1"
  using group_bit [of "ucast i" 31] group_bit [of "ucast i" 29] group_bit [of "ucast i" 28]
  by (auto simp: rl_select_def trtcm_select_def bit_simps)

lemma select_inj: "rl_select env 0 i \<noteq> rl_select env 1 i" "rl_select env 0 i \<noteq> rl_select env 2 i"
  "rl_select env 1 i \<noteq> rl_select env 2 i"
proof -
  have b: "bit (1 :: u32) 0" "\<not> bit (2 :: u32) 0" "bit (2 :: u32) 1" "\<not> bit (1 :: u32) 1"
    by code_simp+
  show "rl_select env 0 i \<noteq> rl_select env 1 i" using select_high(3) [of 0 i] select_high(3) [of 1 i] b by auto
  show "rl_select env 0 i \<noteq> rl_select env 2 i" using select_high(4) [of 0 i] select_high(4) [of 2 i] b by auto
  show "rl_select env 1 i \<noteq> rl_select env 2 i" using select_high(3) [of 1 i] select_high(3) [of 2 i] b by auto
qed

text \<open>Both access paths are ports on the word under their selector.\<close>

abbreviation word_at :: "u32 \<Rightarrow> (u32 \<Rightarrow> u32) \<times> u32 \<Rightarrow> u32" where
  "word_at sel v \<equiv> fst v sel"

abbreviation put_at :: "u32 \<Rightarrow> u32 \<Rightarrow> (u32 \<Rightarrow> u32) \<times> u32 \<Rightarrow> (u32 \<Rightarrow> u32) \<times> u32" where
  "put_at sel w v \<equiv> ((fst v)(sel := w), snd v)"

lemma rl_port:
  assumes "m < 5" and "trtcmCfgBase g ! m = base"
  shows "param_port (generalGetRatelimitParaConfig env g m p i out) (generalSetRatelimitParaConfig env g m p i)
           view (word_at (rl_select env p i)) (put_at (rl_select env p i))"
proof
  fix d ret out' d'
  assume "generalGetRatelimitParaConfig env g m p i out d = (ret, out', d')"
  then show "ret = 0 \<and> fst out' = word_at (rl_select env p i) (view d) \<and> view d' = view d"
    using para_read_view [OF select_high(1)] assms by (simp add: generalGetRatelimitParaConfig_def view_def)
next
  fix w d
  show "\<exists>d'. generalSetRatelimitParaConfig env g m p i w d = Some (0, d') \<and>
      view d' = put_at (rl_select env p i) w (view d)"
    using para_write_view [OF select_high(1)] assms by (simp add: generalSetRatelimitParaConfig_def view_def)
qed

lemma trtcm_port:
  assumes "m < 4" and "trtcmCfgBase g ! m = base"
  shows "param_port (airoha_generalGetTrtcmParaConfig env g m p r i out) (airoha_generalSetTrtcmParaConfig env g m p r i)
           view (word_at (trtcm_select env p r i)) (put_at (trtcm_select env p r i))"
proof
  fix d ret out' d'
  assume "airoha_generalGetTrtcmParaConfig env g m p r i out d = (ret, out', d')"
  then show "ret = 0 \<and> fst out' = word_at (trtcm_select env p r i) (view d) \<and> view d' = view d"
    using para_read_view [OF select_high(2)] assms by (simp add: airoha_generalGetTrtcmParaConfig_def view_def)
next
  fix w d
  show "\<exists>d'. airoha_generalSetTrtcmParaConfig env g m p r i w d = Some (0, d') \<and>
      view d' = put_at (trtcm_select env p r i) w (view d)"
    using para_write_view [OF select_high(2)] assms by (simp add: airoha_generalSetTrtcmParaConfig_def view_def)
qed

text \<open>Steps of a configuration, each known by its effect on the view.\<close>

lemma rl_misc:
  assumes "trtcmCfgBase g ! 0 = base"
  shows "\<exists>d'. misc_update (generalGetRatelimitParaConfig env g 0 p i (0, 0))
             (generalSetRatelimitParaConfig env g 0 p i) f d = Some (0, d') \<and>
           view d' = put_at (rl_select env p i) (f (mem d (rl_select env p i))) (view d)"
  using param_port.misc_update_word [OF rl_port [of 0 g p i "(0, 0)"], of f d] assms by (simp add: view_def)

lemma rl_modes:
  assumes g: "trtcmCfgBase g ! 0 = base" and "en \<le> 1" "pm \<le> 1" "ts \<le> 1"
  shows "\<exists>d'. steps [generalSetRatelimitMeterMode env g 0 en i, generalSetRatelimitPktMode env g 0 pm i,
               generalSetRatelimitTickSel env g 0 ts i] d = Some (0, d') \<and>
           view d' = put_at (rl_select env 0 i) (mode_bit (TRTCM_TICK_SEL env) (ts = 1)
             (mode_bit (TRTCM_PKT_MODE env) (pm = 1) (mode_bit (TRTCM_METER_MODE env) (en = 1)
               (mem d (rl_select env 0 i))))) (view d)"
proof -
  let ?s = "rl_select env 0 i"
  note M = rl_misc [OF g, of 0 i]
  obtain d1 where 1: "generalSetRatelimitMeterMode env g 0 en i d = Some (0, d1)"
    "view d1 = put_at ?s (mode_bit (TRTCM_METER_MODE env) (en = 1) (mem d ?s)) (view d)"
    using M [of "mode_bit (TRTCM_METER_MODE env) (en = 1)" d] assms(2)
    by (auto simp: generalSetRatelimitMeterMode_def)
  obtain d2 where 2: "generalSetRatelimitPktMode env g 0 pm i d1 = Some (0, d2)"
    "view d2 = put_at ?s (mode_bit (TRTCM_PKT_MODE env) (pm = 1) (mem d1 ?s)) (view d1)"
    using M [of "mode_bit (TRTCM_PKT_MODE env) (pm = 1)" d1] assms(3)
    by (auto simp: generalSetRatelimitPktMode_def)
  obtain d3 where 3: "generalSetRatelimitTickSel env g 0 ts i d2 = Some (0, d3)"
    "view d3 = put_at ?s (mode_bit (TRTCM_TICK_SEL env) (ts = 1) (mem d2 ?s)) (view d2)"
    using M [of "mode_bit (TRTCM_TICK_SEL env) (ts = 1)" d2] assms(4)
    by (auto simp: generalSetRatelimitTickSel_def)
  show ?thesis using 1 2 3 by (simp add: view_def)
qed

lemma bit30: "bit (push_bit 30 1 :: u32) n \<longleftrightarrow> n = 30"
  by (simp only: bit_push_bit_iff bit_1_iff) auto

lemma FIELD_GET_zero: "(\<And>n. bit m n \<Longrightarrow> \<not> bit v n) \<Longrightarrow> FIELD_GET m v = 0"
  by (rule bit_word_eqI) (auto simp: FIELD_GET_def bit_simps)

lemma mode_view:
  assumes "trtcmCfgBase g ! 0 = base" and "\<not> bit (cfg d) 30 \<or> 0 < QDMA_METER_GROUP env (ucast i)"
  shows "\<exists>d'. meter_mode env g 0 i d = (0, d') \<and> view d' = view d"
proof -
  obtain v d1 where r: "bus_rr (q_bus env) base d = (v, d1)" by (rule prod.exhaust)
  have "FIELD_GET (push_bit 30 1) v = 0" if "\<not> bit v 30"
    by (rule FIELD_GET_zero) (use that in \<open>auto simp only: bit30\<close>)
  then show ?thesis using cfg_read [OF r] assms
    by (auto simp: meter_mode_def airoha_generalGetTrtcmMode_def r view_def Let_def)
qed

text \<open>The tick and the unit, from the mode word and the configuration register.\<close>

definition tick_of :: "u32 \<Rightarrow> u32 \<Rightarrow> int" where
  "tick_of w c =
     (if w AND TRTCM_TICK_SEL env = 0 then sint (FIELD_GET 0xFFFF c)
      else sint (ucast (word_of_int (sint (FIELD_GET 0xFFFF c)) :: u16) * ucast (ucast (FIELD_GET 0x3FFF0000 c) :: u16) :: u32))"

definition unit_of :: "u32 \<Rightarrow> u32 \<Rightarrow> u16 option" where
  "unit_of w c =
     (if tick_of w c \<le> 0 then None
      else let u = rate_unit (drop_bit 1 (w AND TRTCM_PKT_MODE env) = 0) (tick_of w c) in if u = 0 then None else Some u)"

lemma drop_bit_0_zero: "drop_bit 1 (0 :: u32) = 0"
  by simp

lemma sint_0_iff: "sint (x :: u32) = 0 \<longleftrightarrow> x = 0"
  by (metis signed_0 signed_word_eqI)

text \<open>The two readers of a mode word, through either selector.\<close>

definition reads_modes :: "u32 \<Rightarrow> ('d \<Rightarrow> int \<times> 'd) \<Rightarrow> ('d \<Rightarrow> int \<times> 'd) \<Rightarrow> bool" where
  "reads_modes sel getTickSel getPktMode \<longleftrightarrow> (\<forall>d.
     (\<exists>d'. getTickSel d = (sint (mem d sel AND TRTCM_TICK_SEL env), d') \<and> view d' = view d) \<and>
     (\<exists>d'. getPktMode d = (sint (drop_bit 1 (mem d sel AND TRTCM_PKT_MODE env)), d') \<and> view d' = view d))"

lemma rl_reads_modes:
  assumes "trtcmCfgBase g ! 0 = base"
  shows "reads_modes (rl_select env 0 i) (generalGetRatelimitTickSel env g 0 i) (generalGetRatelimitPktMode env g 0 i)"
  unfolding reads_modes_def
proof
  fix d
  obtain ret lo hi d1 where r: "generalGetRatelimitParaConfig env g 0 0 i (0, 0) d = (ret, (lo, hi), d1)"
    by (metis prod_cases3 prod.exhaust)
  then have "lo = mem d (rl_select env 0 i) \<and> view d1 = view d"
    using para_read_view [OF select_high(1)] assms by (fastforce simp: generalGetRatelimitParaConfig_def)
  then show "(\<exists>d'. generalGetRatelimitTickSel env g 0 i d = (sint (mem d (rl_select env 0 i) AND TRTCM_TICK_SEL env), d') \<and>
           view d' = view d) \<and>
      (\<exists>d'. generalGetRatelimitPktMode env g 0 i d = (sint (drop_bit 1 (mem d (rl_select env 0 i) AND TRTCM_PKT_MODE env)), d') \<and>
           view d' = view d)"
    by (simp add: generalGetRatelimitTickSel_def generalGetRatelimitPktMode_def r)
qed

lemma trtcm_reads_modes:
  assumes "trtcmCfgBase g ! 0 = base"
  shows "reads_modes (trtcm_select env 0 r i) (airoha_generalGetTrtcmTickSel env g 0 r i)
           (airoha_generalGetTrtcmPktMode env g 0 r i)"
  unfolding reads_modes_def
proof
  fix d
  obtain ret lo hi d1 where e: "airoha_generalGetTrtcmParaConfig env g 0 0 r i (0, 0) d = (ret, (lo, hi), d1)"
    by (metis prod_cases3 prod.exhaust)
  then have "lo = mem d (trtcm_select env 0 r i) \<and> view d1 = view d"
    using para_read_view [OF select_high(2)] assms by (fastforce simp: airoha_generalGetTrtcmParaConfig_def)
  then show "(\<exists>d'. airoha_generalGetTrtcmTickSel env g 0 r i d =
        (sint (mem d (trtcm_select env 0 r i) AND TRTCM_TICK_SEL env), d') \<and> view d' = view d) \<and>
      (\<exists>d'. airoha_generalGetTrtcmPktMode env g 0 r i d =
        (sint (drop_bit 1 (mem d (trtcm_select env 0 r i) AND TRTCM_PKT_MODE env)), d') \<and> view d' = view d)"
    by (simp add: airoha_generalGetTrtcmTickSel_def airoha_generalGetTrtcmPktMode_def e)
qed

lemma ticks_view:
  assumes g: "trtcmCfgBase g ! 0 = base"
  shows "\<exists>d'. airoha_generalGetTrtcmFastTick env g 0 d = (sint (FIELD_GET 0xFFFF (cfg d)), d') \<and> view d' = view d"
    and "\<exists>d'. airoha_generalGetTrtcmSlowTick env g 0 d =
            (ucast (word_of_int (sint (FIELD_GET 0xFFFF (cfg d))) :: u16) * ucast (ucast (FIELD_GET 0x3FFF0000 (cfg d)) :: u16), d') \<and>
           view d' = view d"
proof -
  obtain v d1 where r: "bus_rr (q_bus env) base d = (v, d1)" by (rule prod.exhaust)
  obtain w d2 where r2: "bus_rr (q_bus env) base d1 = (w, d2)" by (rule prod.exhaust)
  note C = cfg_read [OF r] cfg_read [OF r2]
  show "\<exists>d'. airoha_generalGetTrtcmFastTick env g 0 d = (sint (FIELD_GET 0xFFFF (cfg d)), d') \<and> view d' = view d"
    using C g by (simp add: airoha_generalGetTrtcmFastTick_def r view_def)
  show "\<exists>d'. airoha_generalGetTrtcmSlowTick env g 0 d =
            (ucast (word_of_int (sint (FIELD_GET 0xFFFF (cfg d))) :: u16) * ucast (ucast (FIELD_GET 0x3FFF0000 (cfg d)) :: u16), d') \<and>
           view d' = view d"
    using C g by (simp add: airoha_generalGetTrtcmSlowTick_def airoha_generalGetTrtcmFastTick_def
        airoha_generalGetTrtcmSlowTickRatio_def r r2 view_def)
qed

lemma current_unit_view:
  assumes g: "trtcmCfgBase g ! 0 = base" and R: "reads_modes sel getTickSel getPktMode"
  shows "\<exists>d'. current_unit getTickSel getPktMode env g 0 d = (unit_of (mem d sel) (cfg d), d') \<and> view d' = view d"
proof -
  let ?w = "mem d sel"
  obtain d1 where 1: "getTickSel d = (sint (?w AND TRTCM_TICK_SEL env), d1)" "view d1 = view d"
    using R unfolding reads_modes_def by blast
  obtain d2 where 2: "(if sint (?w AND TRTCM_TICK_SEL env) = 0 then airoha_generalGetTrtcmFastTick env g 0 d1
        else case airoha_generalGetTrtcmSlowTick env g 0 d1 of (t, d) \<Rightarrow> (sint t, d)) = (tick_of ?w (cfg d), d2)"
      "view d2 = view d"
    using ticks_view [OF g, of d1] 1(2)
    by (cases "?w AND TRTCM_TICK_SEL env = 0") (auto simp: tick_of_def sint_0_iff view_def)
  have "mem d2 = mem d" using 2(2) by (simp add: view_def)
  then obtain d3 where 3: "getPktMode d2 = (sint (drop_bit 1 (?w AND TRTCM_PKT_MODE env)), d3)" "view d3 = view d"
    using R 2(2) unfolding reads_modes_def by metis
  show ?thesis
    unfolding current_unit_def Let_def 1(1) prod.case 2(1) 3(1)
    using 2(2) 3(2) by (simp only: unit_of_def Let_def sint_0_iff split: if_split) auto
qed

text \<open>The token rate: an unrepresentable rate changes nothing; otherwise its word is written and the size
  of the bucket is the answer.\<close>

lemma token_rate_view:
  assumes g: "trtcmCfgBase g ! 0 = base" and byte: "mem d (rl_select env 0 i) AND TRTCM_PKT_MODE env = 0"
  shows "\<exists>ret d'. generalSetRatelimitTokenRate env g 0 rate i d = Some (ret, d') \<and>
     (case unit_of (mem d (rl_select env 0 i)) (cfg d) of
        None \<Rightarrow> ret = - EINVAL \<and> view d' = view d
      | Some u \<Rightarrow> (case token_rate rate u of
            None \<Rightarrow> ret = - EINVAL \<and> view d' = view d
          | Some (n, w) \<Rightarrow> ret = generalGetBucketSizeByRate rate \<and> view d' = put_at (rl_select env 1 i) w (view d)))"
proof -
  let ?w0 = "mem d (rl_select env 0 i)"
  obtain d1 where 1: "current_unit (generalGetRatelimitTickSel env g 0 i) (generalGetRatelimitPktMode env g 0 i) env g 0 d =
      (unit_of ?w0 (cfg d), d1)" "view d1 = view d"
    using current_unit_view [OF g rl_reads_modes [OF g]] by blast
  note defs = generalSetRatelimitTokenRate_def set_token_rate_def 1(1) Let_def prod.case
  show ?thesis
  proof (cases "unit_of ?w0 (cfg d)")
    case None
    then show ?thesis using 1(2) by (simp add: defs)
  next
    case (Some u)
    show ?thesis
    proof (cases "token_rate rate u")
      case None
      then show ?thesis using 1(2) Some by (simp add: defs)
    next
      case tr: (Some nw)
      obtain n w where nw: "nw = (n, w)" by (rule prod.exhaust)
      obtain d2 where 2: "generalSetRatelimitParaConfig env g 0 1 i w d1 = Some (0, d2)"
        "view d2 = put_at (rl_select env 1 i) w (view d1)"
        using param_port.put_word [OF rl_port [of 0 g 1 i "(0, 0)"], of w d1] g by auto
      have "mem d2 (rl_select env 0 i) = ?w0"
        using 2(2) 1(2) select_inj(1) by (simp add: view_def)
      then obtain d3 where 3: "generalGetRatelimitPktMode env g 0 i d2 = (0, d3)" "view d3 = view d2"
        using rl_reads_modes [OF g, of i] byte unfolding reads_modes_def by (metis sint_0 drop_bit_0_zero)
      show ?thesis using 1(2) 2(2) 3 Some tr nw by (simp add: defs 2(1))
    qed
  qed
qed

lemma bucket_view:
  assumes g: "trtcmCfgBase g ! 0 = base" and byte: "mem d (rl_select env 0 i) AND TRTCM_PKT_MODE env = 0"
    and b: "b \<le> 0x8000000"
  shows "\<exists>d'. generalSetRatelimitBucketSize env g 0 b i d = Some (0, d') \<and>
     view d' = put_at (rl_select env 2 i)
       (word_of_int (biSearchGetBucketSizeShift b 0 17 (trtcmBucketByteUnit g ! 0))) (view d)"
proof -
  obtain d1 where 1: "generalGetRatelimitPktMode env g 0 i d = (0, d1)" "view d1 = view d"
    using rl_reads_modes [OF g, of i] byte unfolding reads_modes_def by (metis sint_0 drop_bit_0_zero)
  obtain d2 where 2: "generalSetRatelimitParaConfig env g 0 2 i
        (word_of_int (biSearchGetBucketSizeShift b 0 17 (trtcmBucketByteUnit g ! 0))) d1 = Some (0, d2)"
      "view d2 = put_at (rl_select env 2 i)
        (word_of_int (biSearchGetBucketSizeShift b 0 17 (trtcmBucketByteUnit g ! 0))) (view d1)"
    using param_port.put_word [OF rl_port [of 0 g 2 i "(0, 0)"], of _ d1] g by auto
  show ?thesis using b 1(2) 2 by (simp add: generalSetRatelimitBucketSize_def set_bucket_size_def 1(1) not_less)
qed

text \<open>The bucket of a rate: the least shift of a kilobyte that holds it.\<close>

abbreviation fits :: "nat \<Rightarrow> int \<Rightarrow> bool" where
  "fits k b \<equiv> k \<le> 17 \<and> b \<le> 1024 * 2 ^ k \<and> (\<forall>j<k. 1024 * 2 ^ j < b)"

lemma bucket_fits:
  assumes b_def: "b = generalGetBucketSizeByRate rate"
  shows "\<exists>k. biSearchGetBucketSizeShift (word_of_int b) 0 17 1024 = int k \<and> fits k b"
proof -
  have B: "65536 \<le> b" "b \<le> 65536000" using bucket_by_rate_range [of rate] unfolding b_def by linarith+
  then have ib: "uint (word_of_int b :: u32) = b" by (simp add: uint_word_of_int)
  have ub: "unat (word_of_int b :: u32) = nat b" unfolding unat_eq_nat_uint ib ..
  define k where "k = bucket_shift (nat b) 1024 17"
  have "biSearchGetBucketSizeShift (word_of_int b) 0 17 1024 = int k"
    using biSearch_bucket [of "word_of_int b" 1024] B by (simp add: k_def ub word_less_def ib)
  moreover have kb: "k \<le> 17" "k < 17 \<longrightarrow> nat b \<le> 1024 * 2 ^ k" "\<forall>j<k. 1024 * 2 ^ j < nat b"
    using bucket_shift_eq [of "nat b" 1024 17 k] k_def by auto
  moreover have "b \<le> 1024 * 2 ^ k" using kb(1,2) B by (cases "k < 17") (simp_all add: nat_le_iff)
  moreover have "1024 * 2 ^ j < b" if "j < k" for j
  proof -
    have "int (1024 * 2 ^ j) < b" using kb(3) that by (simp only: zless_nat_eq_int_zless)
    then show ?thesis by simp
  qed
  ultimately show ?thesis by blast
qed

lemma bucket_written:
  assumes g: "trtcmCfgBase g ! 0 = base" "trtcmBucketByteUnit g ! 0 = 1024"
    and byte: "mem d (rl_select env 0 i) AND TRTCM_PKT_MODE env = 0" and b: "b = generalGetBucketSizeByRate rate"
  shows "\<exists>k d'. rate_then_bucket (\<lambda>d. Some (b, d)) (\<lambda>b. generalSetRatelimitBucketSize env g 0 b i) d = Some (0, d') \<and> fits k b \<and>
     view d' = put_at (rl_select env 2 i) (of_nat k) (view d)"
proof -
  have B: "65536 \<le> b" "b \<le> 65536000" using bucket_by_rate_range [of rate] b by linarith+
  then have "(word_of_int b :: u32) \<le> 0x8000000" by (simp add: word_le_def uint_word_of_int)
  note V = bucket_view [OF g(1) byte this]
  obtain k where k: "biSearchGetBucketSizeShift (word_of_int b) 0 17 1024 = int k" "fits k b"
    using bucket_fits [OF b] by blast
  obtain d' where "generalSetRatelimitBucketSize env g 0 (word_of_int b) i d = Some (0, d')"
    "view d' = put_at (rl_select env 2 i) (of_nat k) (view d)"
    using V g(2) k(1) by auto
  then show ?thesis using k(2) B by (auto simp: rate_then_bucket_def)
qed

text \<open>The whole of a setting: nothing is changed when the rate has no word, and the words of the rate and of its bucket are
  written when it has one.\<close>

lemma value_written:
  assumes g: "trtcmCfgBase g ! 0 = base" "trtcmBucketByteUnit g ! 0 = 1024"
    and gate: "\<not> bit (cfg d) 30 \<or> 0 < QDMA_METER_GROUP env (ucast (ucast x :: u16))"
    and ok: "qdma_general_check_index_valid 0 0 (ucast x) = 0"
    and byte: "mem d (rl_select env 0 (ucast x)) AND TRTCM_PKT_MODE env = 0"
  shows "\<exists>ret d'. airoha_dp_api_qdma_set_meter_value env g x rate d = Some (ret, d') \<and>
     (case Option.bind (unit_of (mem d (rl_select env 0 (ucast x))) (cfg d)) (token_rate rate) of
        None \<Rightarrow> ret = - EINVAL \<and> view d' = view d
      | Some (n, w) \<Rightarrow> ret = 0 \<and> (\<exists>k. fits k (generalGetBucketSizeByRate rate) \<and>
          view d' = put_at (rl_select env 2 (ucast x)) (of_nat k) (put_at (rl_select env 1 (ucast x)) w (view d))))"
proof -
  let ?i = "ucast x :: u16"
  obtain d1 where 1: "meter_mode env g 0 ?i d = (0, d1)" "view d1 = view d"
    using mode_view [OF g(1) gate] by blast
  then have m1: "mem d1 = mem d" "cfg d1 = cfg d" by (simp_all add: view_def)
  have "mem d1 (rl_select env 0 ?i) AND TRTCM_PKT_MODE env = 0" using byte m1 by simp
  from token_rate_view [OF g(1) this, of rate, unfolded m1 1(2)]
  obtain ret d2 where 2: "generalSetRatelimitTokenRate env g 0 rate ?i d1 = Some (ret, d2)" and
    C: "case unit_of (mem d (rl_select env 0 ?i)) (cfg d) of None \<Rightarrow> ret = - EINVAL \<and> view d2 = view d
      | Some u \<Rightarrow> (case token_rate rate u of None \<Rightarrow> ret = - EINVAL \<and> view d2 = view d
          | Some (n, w) \<Rightarrow> ret = generalGetBucketSizeByRate rate \<and> view d2 = put_at (rl_select env 1 ?i) w (view d))" by blast
  have run: "airoha_dp_api_qdma_set_meter_value env g x rate d =
      steps [rate_then_bucket (\<lambda>d. Some (ret, d)) (\<lambda>b. generalSetRatelimitBucketSize env g 0 b ?i)] d2"
    by (simp add: airoha_dp_api_qdma_set_meter_value_def airoha_qdma_general_set_ratelimit_mode_value_def
        1(1) ok Let_def rate_then_bucket_def 2)
  show ?thesis
  proof (cases "Option.bind (unit_of (mem d (rl_select env 0 ?i)) (cfg d)) (token_rate rate)")
    case None
    then have "ret = - EINVAL \<and> view d2 = view d" using C by (auto simp: bind_eq_None_conv split: option.splits)
    then show ?thesis using None by (simp add: run rate_then_bucket_def)
  next
    case (Some nw)
    obtain n w where nw: "nw = (n, w)" by (rule prod.exhaust)
    have r: "ret = generalGetBucketSizeByRate rate" "view d2 = put_at (rl_select env 1 ?i) w (view d)"
      using C Some nw by (auto simp: bind_eq_Some_conv split: option.splits)
    have "mem d2 (rl_select env 0 ?i) AND TRTCM_PKT_MODE env = 0" using r(2) byte select_inj(1) by (simp add: view_def)
    from bucket_written [OF g this r(1)] show ?thesis using Some nw r by (auto simp: run)
  qed
qed

end

section \<open>A device\<close>

text \<open>A command interface at address 0: configuration at 0, command at 4, data at 8. \<open>m_live\<close> tells
  whether it ever finishes a command.\<close>

record mdev =
  m_mem :: "u32 \<Rightarrow> u32"
  m_cfg :: u32
  m_data :: u32
  m_live :: bool

definition mdev_env :: "mdev qdma_env" where
  "mdev_env = \<lparr>
     q_bus = \<lparr>bus_rr = (\<lambda>a d. (if a = 0 then m_cfg d else if a = 0x8 then m_data d else 0, d)),
              bus_wr = (\<lambda>a v d. if a = 0 then d\<lparr>m_cfg := v\<rparr>
                               else if a = 0x8 then d\<lparr>m_data := v\<rparr>
                               else if a = 0x4 then
                                 (if bit v 31 then d\<lparr>m_mem := (m_mem d)(v AND 0x7FFFFFFF := m_data d)\<rparr>
                                  else d\<lparr>m_data := m_mem d v\<rparr>)
                               else d),
              bus_rmw = (\<lambda>a m v d. if a = 0 then d\<lparr>m_cfg := masked (m_cfg d) m v\<rparr> else d)\<rparr>,
     q_poll = (\<lambda>a d. (True, d)),
     REG_INGRESS_TRTCM_CFG = 0, REG_SLA_TRTCM_CFG = 0x100, REG_EGRESS_TRTCM_CFG = 0x200, REG_GLB_TRTCM_CFG = 0x300,
     TRTCM_METER_MODE = 4, TRTCM_PKT_MODE = 2, TRTCM_TICK_SEL = 1, TRTCM_TOKEN_RATE_FRACTION_MASK = 0x3F,
     QDMA_METER_IDX = (\<lambda>i. i AND 0xFF), QDMA_METER_GROUP = (\<lambda>i. drop_bit 8 i AND 0x3)\<rparr>"

interpretation mdev: meter_hw mdev_env 0 m_mem m_cfg
proof
  fix i
  have "unat (drop_bit 8 i AND 3 :: u32) \<le> unat (3 :: u32)"
    using word_and_le1 [of "drop_bit 8 i" 3] by (simp only: word_le_nat_alt)
  then show "unat (QDMA_METER_GROUP mdev_env i) < 4" by (simp add: mdev_env_def)
qed (auto simp: mdev_env_def select_clear)

lemma mdev_hw: "meter_hw mdev_env 0 m_mem m_cfg"
  by (rule mdev.meter_hw_axioms)

interpretation mport: param_port "generalGetRatelimitParaConfig mdev_env (qdma_dev_trtcm_cfg_init mdev_env) 0 0 1 (0, 0)"
    "generalSetRatelimitParaConfig mdev_env (qdma_dev_trtcm_cfg_init mdev_env) 0 0 1" mdev.view
    "\<lambda>v. fst v (rl_select mdev_env 0 1)" "\<lambda>w v. ((fst v)(rl_select mdev_env 0 1 := w), snd v)"
  by (rule mdev.rl_port) (simp_all add: qdma_dev_trtcm_cfg_init_def qdma_init_trtcm_def mdev_env_def)

section \<open>Properties\<close>

text \<open>Configuring a meter in rate-limit mode always returns, succeeds on a valid index, and changes
  exactly three bits of exactly one word: metering on or off by the rate, byte mode, fast tick. Every
  other word and the configuration register stay.\<close>

theorem meter_cfg_exact:
  assumes "meter_hw env base mem cfg" and "trtcmCfgBase g ! 0 = base"
    and "index = ucast (push_bit 8 (ucast group_id) OR meterIdx)"
    and "\<not> bit (cfg d) 30 \<or> 0 < QDMA_METER_GROUP env (ucast index)"
    and "qdma_general_check_index_valid 0 0 index = 0"
  shows "\<exists>d'. airoha_dp_api_qdma_set_meter_cfg env g group_id meterIdx rate d = Some (0, d') \<and> cfg d' = cfg d \<and>
     mem d' = (mem d)(rl_select env 0 index :=
       ((if 0 < rate then mem d (rl_select env 0 index) OR TRTCM_METER_MODE env
         else mem d (rl_select env 0 index) AND NOT (TRTCM_METER_MODE env))
        AND NOT (TRTCM_PKT_MODE env)) AND NOT (TRTCM_TICK_SEL env))"
proof -
  obtain d1 where 1: "meter_mode env g 0 index d = (0, d1)" "meter_hw.view mem cfg d1 = meter_hw.view mem cfg d"
    using meter_hw.mode_view [OF assms(1,2,4)] by blast
  note V = meter_hw.view_def [OF assms(1)]
  have en: "(if 0 < rate then 1 else 0 :: nat) \<le> 1" by simp
  show ?thesis
    using meter_hw.rl_modes [OF assms(1,2) en, of 0 0 index d1] 1(2)
    by (auto simp: airoha_dp_api_qdma_set_meter_cfg_def airoha_qdma_general_set_ratelimit_mode_cfg_def
        assms(5) 1(1) assms(3) [symmetric] V mode_bit_def Let_def simp del: steps.simps)
qed

abbreviation mcfg :: trtcm_cfg where "mcfg \<equiv> qdma_dev_trtcm_cfg_init mdev_env"

lemma mcfg_base: "trtcmCfgBase mcfg ! 0 = 0" "trtcmBucketByteUnit mcfg ! 0 = 1024"
  by (simp_all add: qdma_dev_trtcm_cfg_init_def qdma_init_trtcm_def mdev_env_def)

definition mdev_start :: mdev where
  "mdev_start = \<lparr>m_mem = (\<lambda>_. 0xF3), m_cfg = 0x0002007D, m_data = 0, m_live = True\<rparr>"

theorem meter_cfg_exact_witness:
  "\<exists>d'. airoha_dp_api_qdma_set_meter_cfg mdev_env mcfg 1 5 9 mdev_start = Some (0, d') \<and> m_mem d' 0x04050000 = 0xF4 \<and>
     m_mem d' 0x04060000 = 0xF3"
proof -
  let ?i = "ucast (push_bit 8 (ucast (1 :: u8)) OR (5 :: u32)) :: u16"
  have h: "\<not> bit (m_cfg mdev_start) 30 \<or> 0 < QDMA_METER_GROUP mdev_env (ucast ?i)"
    "qdma_general_check_index_valid 0 0 ?i = 0" "rl_select mdev_env 0 ?i = 0x04050000"
    "TRTCM_METER_MODE mdev_env = 4" "TRTCM_PKT_MODE mdev_env = 2" "TRTCM_TICK_SEL mdev_env = 1"
    by code_simp+
  from meter_cfg_exact [OF mdev_hw mcfg_base(1) refl h(1,2), of 9]
  show ?thesis unfolding h(3-6) by (auto simp: mdev_start_def)
qed

text \<open>C28: setting a meter's rate in byte mode always returns. A rate that the 18-bit rate word cannot hold,
  or a tick that gives no unit, is refused with nothing changed; otherwise exactly the rate word and
  the bucket word are written, the rate word reads back below the rate by at most a 64th of the unit
  plus one, and the bucket word is the least shift that holds the bucket.\<close>

theorem meter_value_programs:
  assumes "meter_hw env base mem cfg" and "trtcmCfgBase g ! 0 = base" and "trtcmBucketByteUnit g ! 0 = 1024"
    and "\<not> bit (cfg d) 30 \<or> 0 < QDMA_METER_GROUP env (ucast (ucast meterIdx :: u16))"
    and "qdma_general_check_index_valid 0 0 (ucast meterIdx) = 0"
    and "mem d (rl_select env 0 (ucast meterIdx)) AND TRTCM_PKT_MODE env = 0"
    and "meter_hw.unit_of env (mem d (rl_select env 0 (ucast meterIdx))) (cfg d) = unit"
  shows "\<exists>ret d'. airoha_dp_api_qdma_set_meter_value env g meterIdx rate d = Some (ret, d') \<and> cfg d' = cfg d \<and>
     (case unit of
        None \<Rightarrow> ret = - EINVAL \<and> mem d' = mem d
      | Some u \<Rightarrow>
          if 0x3FFFF < rate div ucast u then ret = - EINVAL \<and> mem d' = mem d
          else ret = 0 \<and> (\<exists>w k. k \<le> 17 \<and>
            mem d' = (mem d)(rl_select env 1 (ucast meterIdx) := w, rl_select env 2 (ucast meterIdx) := of_nat k) \<and>
            unat (decode_rate 0x3F w u) \<le> unat rate \<and>
            unat rate \<le> unat (decode_rate 0x3F w u) + unat u div 64 + 1 \<and>
            generalGetBucketSizeByRate rate \<le> 1024 * 2 ^ k \<and>
            (\<forall>j<k. 1024 * 2 ^ j < generalGetBucketSizeByRate rate)))"
proof -
  let ?i = "ucast meterIdx :: u16" and ?b = "generalGetBucketSizeByRate rate"
  note V = meter_hw.view_def [OF assms(1)]
  obtain ret d' where 1: "airoha_dp_api_qdma_set_meter_value env g meterIdx rate d = Some (ret, d')" and
    C: "case Option.bind unit (token_rate rate) of
        None \<Rightarrow> ret = - EINVAL \<and> mem d' = mem d \<and> cfg d' = cfg d
      | Some (n, w) \<Rightarrow> ret = 0 \<and> (\<exists>k. (k \<le> 17 \<and> ?b \<le> 1024 * 2 ^ k \<and> (\<forall>j<k. 1024 * 2 ^ j < ?b)) \<and>
          mem d' = (mem d)(rl_select env 1 ?i := w, rl_select env 2 ?i := of_nat k) \<and> cfg d' = cfg d)"
    using meter_hw.value_written [OF assms(1-6), of rate] unfolding assms(7) V fst_conv snd_conv
    unfolding prod.inject by blast
  have u: "u \<noteq> 0" if "unit = Some u" for u
    using assms(7) that by (auto simp: meter_hw.unit_of_def [OF assms(1)] Let_def split: if_splits)
  show ?thesis
  proof (cases "Option.bind unit (token_rate rate)")
    case None
    then have "unit = None \<or> (\<exists>u. unit = Some u \<and> 0x3FFFF < rate div ucast u)"
      using token_rate_None [OF u] by (cases unit) auto
    with None C 1 show ?thesis by auto
  next
    case (Some nw)
    obtain n w where nw: "nw = (n, w)" by (rule prod.exhaust)
    obtain x where x: "unit = Some x" "token_rate rate x = Some (n, w)"
      using Some nw by (auto simp: bind_eq_Some_conv)
    have "\<not> 0x3FFFF < rate div ucast x" using x(2) token_rate_None [OF u [OF x(1)], of rate] by simp
    with x(1) C 1 Some nw decode_bounds [OF u [OF x(1)] x(2)] show ?thesis
      by (auto intro!: exI [of _ w])
  qed
qed

text \<open>Meter 5 in byte mode with the fast tick of 125 microseconds: a unit of 64 kbit/s.\<close>

definition mdev_byte :: mdev where
  "mdev_byte = mdev_start\<lparr>m_mem := (\<lambda>_. 0xF0)\<rparr>"

theorem meter_value_programs_witness:
  "\<exists>d'. airoha_dp_api_qdma_set_meter_value mdev_env mcfg 5 5000 mdev_byte = Some (0, d') \<and>
     (\<exists>w. m_mem d' 0x10050000 = w \<and> unat (decode_rate 0x3F w 64) \<le> 5000 \<and> 4998 \<le> unat (decode_rate 0x3F w 64))"
proof -
  have h: "\<not> bit (m_cfg mdev_byte) 30 \<or> 0 < QDMA_METER_GROUP mdev_env (ucast (ucast (5 :: u32) :: u16))"
    "qdma_general_check_index_valid 0 0 (ucast (5 :: u32)) = 0"
    "m_mem mdev_byte (rl_select mdev_env 0 (ucast (5 :: u32))) AND TRTCM_PKT_MODE mdev_env = 0"
    "rl_select mdev_env 1 (ucast (5 :: u32)) = 0x10050000" "rl_select mdev_env 2 (ucast (5 :: u32)) = 0x20050000"
    by code_simp+
  have s: "rl_select mdev_env 0 (ucast (5 :: u32)) = 0x00050000" "m_mem mdev_byte 0x00050000 = 0xF0"
    "m_cfg mdev_byte = 0x0002007D" "TRTCM_TICK_SEL mdev_env = 1" "TRTCM_PKT_MODE mdev_env = 2" by code_simp+
  have t: "sint (FIELD_GET 0xFFFF 0x0002007D) = 125" "rate_unit True 125 = 64" by code_simp+
  have u: "mdev.unit_of (m_mem mdev_byte (rl_select mdev_env 0 (ucast (5 :: u32)))) (m_cfg mdev_byte) = Some 64"
    unfolding mdev.unit_of_def mdev.tick_of_def s by (simp add: t)
  have "\<not> (0x3FFFF :: u32) < 5000 div ucast (64 :: u16)" by code_simp
  with meter_value_programs [OF mdev_hw mcfg_base h(1-3) u, of 5000]
  show ?thesis unfolding h(4,5) by (auto split: if_splits)
qed

text \<open>On hardware that never reports a command done, writing a nonzero parameter word does not return:
  the retry loop ignores the time-out of the read-back it loops on.\<close>

lemma write_loop_hangs:
  assumes dead: "\<And>a d. \<not> fst (q_poll env a d)" and "para_write_loop env base sel v err (lo, hi) d = Some y" and "v \<noteq> lo"
  shows False
proof -
  have "para_write_loop env base sel v err tmp d = Some y \<Longrightarrow>
      (\<lambda>e b s v err tmp d y. e = env \<longrightarrow> v = fst tmp) env base sel v err tmp d y" for tmp
  proof (rule para_write_loop.raw_induct [where P = "\<lambda>e b s v err tmp d y. e = env \<longrightarrow> v = fst tmp"])
    fix f e b s v err tmp d y
    assume IH: "\<And>e b s v err tmp d y. f e b s v err tmp d = Some y \<Longrightarrow> e = env \<longrightarrow> v = fst tmp"
      and eq: "(let d = bus_wr (q_bus e) (b + 0x8) v d; d = bus_wr (q_bus e) (b + 0x4) (PARA_RWCMD OR s) d;
            (ret, tmp, d) = para_read e b s err tmp d
        in if v \<noteq> fst tmp then f e b s v err tmp d else Some d) = Some y"
    show "e = env \<longrightarrow> v = fst tmp"
    proof
      assume "e = env"
      let ?d = "bus_wr (q_bus e) (b + 0x4) (PARA_RWCMD OR s) (bus_wr (q_bus e) (b + 0x8) v d)"
      obtain d2 where "q_poll e (b + 0x4) (bus_wr (q_bus e) (b + 0x4) s ?d) = (False, d2)"
        using dead [of "b + 0x4"] \<open>e = env\<close> by (metis prod.collapse)
      then have "para_read e b s err tmp ?d = (err, tmp, d2)" by (simp add: para_read_def)
      then show "v = fst tmp" using eq IH \<open>e = env\<close> by (auto simp: Let_def split: if_splits)
    qed
  qed simp_all
  from this [of "(lo, hi)"] assms show False by simp
qed

theorem meter_write_hangs:
  assumes "\<And>a d. \<not> fst (q_poll env a d)" and "v \<noteq> 0" and "m < 5"
  shows "generalSetRatelimitParaConfig env g m p i v d = None"
proof -
  have "para_write_loop env (trtcmCfgBase g ! m) (rl_select env p i) v (- ETIMEDOUT) (0, 0) d = None"
    using write_loop_hangs [OF assms(1)] assms(2) by (metis option.exhaust)
  then show ?thesis using assms(3) by (simp add: generalSetRatelimitParaConfig_def para_write_def)
qed

theorem meter_write_hangs_witness:
  "generalSetRatelimitParaConfig (mdev_env\<lparr>q_poll := (\<lambda>a d. (False, d))\<rparr>) mcfg 0 1 5 100 mdev_start = None"
  by (rule meter_write_hangs) simp_all

lemma index_layouts:
  assumes "unat (x :: u32) < 64"
  shows "push_bit 17 x AND push_bit 17 0x3F = push_bit 16 (2 * x) AND push_bit 16 0xFF"
proof -
  have x: "2 * x = push_bit 1 x" by (simp add: push_bit_eq_mult)
  have m: "(0x3F :: u32) = mask 6" "(0xFF :: u32) = mask 8" by (simp_all add: mask_eq_exp_minus_1)
  have b: "bit x n \<Longrightarrow> n < 6" for n using small_bits [of x 6 n] assms by simp
  show ?thesis unfolding x m
  proof (rule bit_word_eqI)
    fix n :: nat
    have p: "bit (push_bit 16 (push_bit 1 x) AND push_bit 16 (mask 8)) n =
        (n < 32 \<and> 17 \<le> n \<and> n - 16 < 8 \<and> bit x (n - 17))"
      by (simp only: bit_and_iff bit_push_bit_iff bit_mask_iff possible_bit_word) (auto simp: le_diff_conv2)
    have q: "bit (push_bit 17 x AND push_bit 17 (mask 6)) n = (n < 32 \<and> 17 \<le> n \<and> n - 17 < 6 \<and> bit x (n - 17))"
      by (auto simp: bit_and_iff bit_push_bit_iff bit_mask_iff)
    show "bit (push_bit 17 x AND push_bit 17 (mask 6)) n = bit (push_bit 16 (push_bit 1 x) AND push_bit 16 (mask 8)) n"
      unfolding p q using b [of "n - 17"] by auto
  qed
qed

text \<open>The read-back of a meter's rate takes the tick and the packet mode from another meter: for meter
  number i below 64 it decodes the rate word of meter i with the unit of meter 2i.\<close>

theorem meter_read_back_other_meter:
  assumes "meter_hw env base mem cfg" and "trtcmCfgBase g ! 0 = base"
    and "QDMA_METER_IDX env (ucast j) = 2 * QDMA_METER_IDX env (ucast i)" and "unat (QDMA_METER_IDX env (ucast i)) < 64"
    and "QDMA_METER_GROUP env (ucast j) = QDMA_METER_GROUP env (ucast i)"
    and "meter_hw.unit_of env (mem d (rl_select env 0 j)) (cfg d) = Some u" and "i = ucast (k :: u32)"
  shows "fst (airoha_dp_api_qdma_get_meter_value env g k d) =
     sint (decode_rate (TRTCM_TOKEN_RATE_FRACTION_MASK env) (mem d (rl_select env 1 i)) u)"
proof -
  let ?x = "QDMA_METER_IDX env (ucast i)"
  have "trtcm_select env 0 0 i = rl_select env 0 j"
    unfolding trtcm_select_def rl_select_def assms(3,5)
    using index_layouts [of ?x] assms(4) by simp
  note R = meter_hw.trtcm_reads_modes [OF assms(1,2), of 0 i, unfolded this]
  obtain d1 where 1: "current_unit (airoha_generalGetTrtcmTickSel env g 0 0 i) (airoha_generalGetTrtcmPktMode env g 0 0 i)
      env g 0 d = (Some u, d1)" "meter_hw.view mem cfg d1 = meter_hw.view mem cfg d"
    using meter_hw.current_unit_view [OF assms(1,2) R, of d] assms(6) by auto
  obtain ret lo hi d2 where 2: "generalGetRatelimitParaConfig env g 0 1 i (0, 0) d1 = (ret, (lo, hi), d2)"
    by (metis prod_cases3 prod.exhaust)
  then have "lo = mem d1 (rl_select env 1 i)"
    using meter_hw.para_read_view [OF assms(1) meter_hw.select_high(1) [OF assms(1)]] assms(2)
    by (fastforce simp: generalGetRatelimitParaConfig_def)
  then show ?thesis using 1(2)
    by (simp add: airoha_dp_api_qdma_get_meter_value_def airoha_generalGetTrtcmTokenRate_def 1(1) 2 assms(7) [symmetric]
        meter_hw.view_def [OF assms(1)])
qed

text \<open>Meter 3 is in packet mode, meter 6 in byte mode with the fast tick: the rate of meter 3 is read back in
  the 64 kbit/s unit of meter 6.\<close>

definition mdev_two :: mdev where
  "mdev_two = mdev_start\<lparr>m_mem := (\<lambda>_. 0)(rl_select mdev_env 0 3 := 2, rl_select mdev_env 1 3 := 0x140)\<rparr>"

theorem meter_read_back_other_meter_witness:
  "fst (airoha_dp_api_qdma_get_meter_value mdev_env mcfg 3 mdev_two) = 320 \<and>
     fst (generalGetRatelimitPktMode mdev_env mcfg 0 3 mdev_two) = 1"
proof -
  have h: "QDMA_METER_IDX mdev_env (ucast (6 :: u16)) = 2 * QDMA_METER_IDX mdev_env (ucast (3 :: u16))"
    "unat (QDMA_METER_IDX mdev_env (ucast (3 :: u16))) < 64"
    "QDMA_METER_GROUP mdev_env (ucast (6 :: u16)) = QDMA_METER_GROUP mdev_env (ucast (3 :: u16))"
    "(3 :: u16) = ucast (3 :: u32)" by code_simp+
  have s: "m_mem mdev_two (rl_select mdev_env 0 6) = 0" "m_cfg mdev_two = 0x0002007D" "TRTCM_TICK_SEL mdev_env = 1"
    "TRTCM_PKT_MODE mdev_env = 2" "m_mem mdev_two (rl_select mdev_env 1 3) = 0x140"
    "TRTCM_TOKEN_RATE_FRACTION_MASK mdev_env = 0x3F" by code_simp+
  have t: "sint (FIELD_GET 0xFFFF 0x0002007D) = 125" "rate_unit True 125 = 64"
    "sint (decode_rate 0x3F 0x140 64) = 320" by code_simp+
  have u: "mdev.unit_of (m_mem mdev_two (rl_select mdev_env 0 6)) (m_cfg mdev_two) = Some 64"
    unfolding mdev.unit_of_def mdev.tick_of_def s by (simp add: t)
  have "fst (generalGetRatelimitPktMode mdev_env mcfg 0 3 mdev_two) = 1" by code_simp
  then show ?thesis using meter_read_back_other_meter [OF mdev_hw mcfg_base(1) h(1-3) u h(4)] by (simp add: s t)
qed

end
