(* ===== verification/QdmaQos.thy ===== *)
theory QdmaQos
  imports Prelude
begin

text \<open>
  The transmit scheduler of the QDMA, \<^verbatim>\<open>airoha/arht_qdma.c\<close>: the software copy of the write-only
  queue-close registers, the weight commands with their bounded wait, and the pair of calls that set
  and get the scheduling of a channel. One copy of the close registers serves both QDMA blocks.
\<close>

section \<open>State\<close>

record 'd qos_env =
  qdma0 :: "'d bus"
  qdma1 :: "'d bus"
  mdelay1 :: "'d \<Rightarrow> 'd"

record 'd qos_world =
  TXQ_DIS_CFG_VALUE :: "u32 list"
  qos_dev :: 'd

record QDMA_TxQosScheduler_T =
  channel :: u8
  qosType :: nat
  weights :: "u16 list"

abbreviation TXQ_DIS_CFG_REG_NUM :: nat where "TXQ_DIS_CFG_REG_NUM \<equiv> 8"
abbreviation CONFIG_QDMA_CHANNEL :: u8 where "CONFIG_QDMA_CHANNEL \<equiv> 32"
abbreviation CONFIG_QDMA_QUEUE :: nat where "CONFIG_QDMA_QUEUE \<equiv> 8"
abbreviation QDMA_TXQOS_TYPE_NUMS :: nat where "QDMA_TXQOS_TYPE_NUMS \<equiv> 8"
abbreviation TXWRR_RWCMD :: u32 where "TXWRR_RWCMD \<equiv> 0x80000000"
abbreviation TXWRR_RWCMD_DONE :: u32 where "TXWRR_RWCMD_DONE \<equiv> 0x40000000"
abbreviation QDMA_CSR_TXWRR_WEIGHT_CFG :: u32 where "QDMA_CSR_TXWRR_WEIGHT_CFG \<equiv> 0x1024"

definition TXQ_DIS_CHANNEL_QUEUE_OFFSET :: "u8 \<Rightarrow> u8 \<Rightarrow> u32" where
  "TXQ_DIS_CHANNEL_QUEUE_OFFSET chnl queue = push_bit (unat queue + unat (chnl AND 3) * 8) 1"

definition QDMA_CSR_QUEUE_CLOSE_CFG :: "u8 \<Rightarrow> u32" where
  "QDMA_CSR_QUEUE_CLOSE_CFG idx = 0x00a0 + ucast (idx AND 0xFC)"

section \<open>Closing and opening queues\<close>

text \<open>The copy is updated and written out; \<open>f\<close> sets or clears the queue's bit.\<close>

definition queue_update :: "(u32 \<Rightarrow> u32 \<Rightarrow> u32) \<Rightarrow> 'd bus \<Rightarrow> u8 \<Rightarrow> u8 \<Rightarrow> 'd qos_world \<Rightarrow> int \<times> 'd qos_world" where
  "queue_update f base chnl queue s =
     (let chnl_offset = unat (drop_bit 2 chnl) in
      if TXQ_DIS_CFG_REG_NUM \<le> chnl_offset then (-1, s)
      else let txq_dis_cfg = TXQ_DIS_CFG_VALUE s ! chnl_offset;
               v = f txq_dis_cfg (TXQ_DIS_CHANNEL_QUEUE_OFFSET chnl queue)
           in (0, s\<lparr>TXQ_DIS_CFG_VALUE := (TXQ_DIS_CFG_VALUE s)[chnl_offset := v],
                    qos_dev := bus_wr base (QDMA_CSR_QUEUE_CLOSE_CFG chnl) v (qos_dev s)\<rparr>))"

definition qdmaSetQueueClose_sw :: "'d bus \<Rightarrow> u8 \<Rightarrow> u8 \<Rightarrow> 'd qos_world \<Rightarrow> int \<times> 'd qos_world" where
  "qdmaSetQueueClose_sw = queue_update (\<lambda>txq_dis_cfg b. txq_dis_cfg OR b)"

definition qdmaSetQueueOpen_sw :: "'d bus \<Rightarrow> u8 \<Rightarrow> u8 \<Rightarrow> 'd qos_world \<Rightarrow> int \<times> 'd qos_world" where
  "qdmaSetQueueOpen_sw = queue_update (\<lambda>txq_dis_cfg b. txq_dis_cfg AND NOT b)"

definition qdmaIsQueueClosed_sw :: "u8 \<Rightarrow> u8 \<Rightarrow> 'd qos_world \<Rightarrow> u32" where
  "qdmaIsQueueClosed_sw chnl queue s =
     (let chnl_offset = unat (drop_bit 2 chnl) in
      if TXQ_DIS_CFG_REG_NUM \<le> chnl_offset then 0
      else TXQ_DIS_CFG_VALUE s ! chnl_offset AND TXQ_DIS_CHANNEL_QUEUE_OFFSET chnl queue)"

section \<open>Weight commands\<close>

text \<open>The wait polls \<open>RETRY\<close> times, a millisecond apart.\<close>

primrec config_done :: "nat \<Rightarrow> ('d \<Rightarrow> 'd) \<Rightarrow> 'd bus \<Rightarrow> u32 \<Rightarrow> u32 \<Rightarrow> 'd \<Rightarrow> int \<times> 'd" where
  "config_done 0 mdelay base offset doneBit d = (- ETIME, d)"
| "config_done (Suc RETRY) mdelay base offset doneBit d =
     (let (regValue, d) = bus_rr base offset d
      in if regValue AND doneBit \<noteq> 0 then (0, d) else config_done RETRY mdelay base offset doneBit (mdelay d))"

definition qdmaChecConfigDone :: "('d \<Rightarrow> 'd) \<Rightarrow> 'd bus \<Rightarrow> u32 \<Rightarrow> u32 \<Rightarrow> 'd \<Rightarrow> int \<times> 'd" where
  "qdmaChecConfigDone = config_done 3"

definition txwrr_select :: "u8 \<Rightarrow> nat \<Rightarrow> u32" where
  "txwrr_select chnl i = (push_bit 19 (ucast chnl) AND push_bit 19 0x1F) OR (push_bit 16 (of_nat i) AND push_bit 16 0x7)"

definition qdmaGetPerChnlQosMode :: "'d bus \<Rightarrow> u8 \<Rightarrow> 'd \<Rightarrow> u32 \<times> 'd" where
  "qdmaGetPerChnlQosMode base chnl d =
     (let (v, d) = bus_rr base (0x1040 + push_bit 2 (ucast (drop_bit 3 chnl))) d;
          k = unat (push_bit 2 (chnl AND 7))
      in (drop_bit k (v AND push_bit k 7), d))"

definition qdmaSetPerChnlQosMode :: "'d bus \<Rightarrow> u8 \<Rightarrow> u8 \<Rightarrow> 'd \<Rightarrow> 'd" where
  "qdmaSetPerChnlQosMode base chnl val d =
     (let k = unat (push_bit 2 (chnl AND 7))
      in bus_rmw base (0x1040 + push_bit 2 (ucast (drop_bit 3 chnl))) (push_bit k 7) (push_bit k (ucast val)) d)"

primrec set_weights :: "'d qos_env \<Rightarrow> 'd bus \<Rightarrow> u8 \<Rightarrow> u16 list \<Rightarrow> nat list \<Rightarrow> 'd \<Rightarrow> int \<times> 'd" where
  "set_weights env base chnl weight [] d = (0, d)"
| "set_weights env base chnl weight (i # is) d =
     (let wrrCfg = TXWRR_RWCMD OR (ucast (weight ! i) AND 0xFF) OR txwrr_select chnl i;
          d = bus_wr base QDMA_CSR_TXWRR_WEIGHT_CFG wrrCfg d;
          (ret, d) = qdmaChecConfigDone (mdelay1 env) base QDMA_CSR_TXWRR_WEIGHT_CFG TXWRR_RWCMD_DONE d
      in if ret < 0 then (- ETIME, d) else set_weights env base chnl weight is d)"

definition qdmaSetTxQosSchedulerUpstream ::
  "'d qos_env \<Rightarrow> 'd bus \<Rightarrow> u8 \<Rightarrow> u8 \<Rightarrow> u16 list \<Rightarrow> 'd \<Rightarrow> int \<times> 'd" where
  "qdmaSetTxQosSchedulerUpstream env base chnl mode weight d =
     (let (ret, d) = set_weights env base chnl weight [0..<8] d
      in if ret < 0 then (ret, d) else (0, qdmaSetPerChnlQosMode base chnl mode d))"

primrec get_weights :: "'d qos_env \<Rightarrow> 'd bus \<Rightarrow> u8 \<Rightarrow> nat list \<Rightarrow> 'd \<Rightarrow> (u16 list) option \<times> 'd" where
  "get_weights env base chnl [] d = (Some [], d)"
| "get_weights env base chnl (i # is) d =
     (let d = bus_wr base QDMA_CSR_TXWRR_WEIGHT_CFG (txwrr_select chnl i) d;
          (ret, d) = qdmaChecConfigDone (mdelay1 env) base QDMA_CSR_TXWRR_WEIGHT_CFG TXWRR_RWCMD_DONE d
      in if ret < 0 then (None, d)
         else let (wrrCfg, d) = bus_rr base QDMA_CSR_TXWRR_WEIGHT_CFG d;
                  (ws, d) = get_weights env base chnl is d
              in (map_option ((#) (ucast (wrrCfg AND 0xFF))) ws, d))"

definition qdmaGetTxQosSchedulerUpstream ::
  "'d qos_env \<Rightarrow> 'd bus \<Rightarrow> u8 \<Rightarrow> 'd \<Rightarrow> (u8 \<times> u16 list) option \<times> 'd" where
  "qdmaGetTxQosSchedulerUpstream env base chnl d =
     (let (mode, d) = qdmaGetPerChnlQosMode base chnl d;
          (ws, d) = get_weights env base chnl [0..<8] d
      in (map_option (Pair (ucast mode)) ws, d))"

section \<open>Setting and getting the scheduler\<close>

definition weightNum :: "nat list" where
  "weightNum = [8, 0, 7, 6, 5, 4, 3, 2]"

definition qos_base :: "'d qos_env \<Rightarrow> bool \<Rightarrow> 'd bus" where
  "qos_base env lan = (if lan then qdma0 env else qdma1 env)"

definition qos_queue :: "'d bus \<Rightarrow> QDMA_TxQosScheduler_T \<Rightarrow> nat \<Rightarrow> 'd qos_world \<Rightarrow> 'd qos_world" where
  "qos_queue base q i s = snd (
     if weightNum ! qosType q \<le> i then qdmaSetQueueOpen_sw base (channel q) (of_nat i) s
     else if weights q ! i = 0 then qdmaSetQueueClose_sw base (channel q) (of_nat i) s
     else qdmaSetQueueOpen_sw base (channel q) (of_nat i) s)"

definition qdma_api_set_tx_qos_upstream ::
  "'d qos_env \<Rightarrow> bool \<Rightarrow> QDMA_TxQosScheduler_T \<Rightarrow> 'd qos_world \<Rightarrow> int \<times> QDMA_TxQosScheduler_T \<times> 'd qos_world" where
  "qdma_api_set_tx_qos_upstream env lan pTxQos s =
     (let base = qos_base env lan in
      if CONFIG_QDMA_CHANNEL \<le> channel pTxQos then (- EINVAL, pTxQos, s)
      else if QDMA_TXQOS_TYPE_NUMS \<le> qosType pTxQos then (- EINVAL, pTxQos, s)
      else let s = fold (qos_queue base pTxQos) [0..<CONFIG_QDMA_QUEUE] s;
               weight = map (\<lambda>w. if w = 0 then 1 else w) (weights pTxQos);
               (ret, d) = qdmaSetTxQosSchedulerUpstream env base (channel pTxQos) (of_nat (qosType pTxQos)) weight (qos_dev s)
           in (ret, pTxQos\<lparr>weights := weight\<rparr>, s\<lparr>qos_dev := d\<rparr>))"

definition qdma_api_get_tx_qos_upstream ::
  "'d qos_env \<Rightarrow> bool \<Rightarrow> QDMA_TxQosScheduler_T \<Rightarrow> 'd qos_world \<Rightarrow> int \<times> QDMA_TxQosScheduler_T \<times> 'd qos_world" where
  "qdma_api_get_tx_qos_upstream env lan pTxQos s =
     (let base = qos_base env lan in
      if CONFIG_QDMA_CHANNEL \<le> channel pTxQos then (- EINVAL, pTxQos, s)
      else let (r, d) = qdmaGetTxQosSchedulerUpstream env base (channel pTxQos) (qos_dev s);
               s = s\<lparr>qos_dev := d\<rparr> in
        case r of
          None \<Rightarrow> (- EFAULT, pTxQos, s)
        | Some (mode, weight) \<Rightarrow>
            (0, pTxQos\<lparr>qosType := unat mode,
               weights := map (\<lambda>i. if weight ! i = 1 \<and> 0 < qdmaIsQueueClosed_sw (channel pTxQos) (of_nat i) s
                                  then 0 else weight ! i) [0..<CONFIG_QDMA_QUEUE]\<rparr>, s))"

section \<open>The software copy\<close>

definition close_bit :: "u8 \<Rightarrow> nat \<Rightarrow> nat" where
  "close_bit c i = i + unat (c AND 3) * 8"

definition closed :: "u32 list \<Rightarrow> u8 \<Rightarrow> nat \<Rightarrow> bool" where
  "closed T c i \<longleftrightarrow> bit (T ! unat (drop_bit 2 c)) (close_bit c i)"

definition will_close :: "QDMA_TxQosScheduler_T \<Rightarrow> nat \<Rightarrow> bool" where
  "will_close q i \<longleftrightarrow> i < weightNum ! qosType q \<and> weights q ! i = 0"

definition queue_word :: "QDMA_TxQosScheduler_T \<Rightarrow> nat \<Rightarrow> u32 \<Rightarrow> u32" where
  "queue_word q i w = (if will_close q i then w OR TXQ_DIS_CHANNEL_QUEUE_OFFSET (channel q) (of_nat i)
     else w AND NOT (TXQ_DIS_CHANNEL_QUEUE_OFFSET (channel q) (of_nat i)))"

lemma chan_low: "unat (c AND 3 :: u8) < 4"
proof -
  have "unat (c AND 3) \<le> unat (3 :: u8)" using word_and_le1 [of c 3] by (simp only: word_le_nat_alt)
  then show ?thesis by simp
qed

lemma close_bit_lt: "i < 8 \<Longrightarrow> close_bit c i < 32"
  using chan_low [of c] by (simp add: close_bit_def)

lemma close_bit_inj: "i < 8 \<Longrightarrow> j < 8 \<Longrightarrow> close_bit c i = close_bit c' j \<longleftrightarrow> i = j \<and> c AND 3 = c' AND 3"
proof -
  have "i < 8 \<Longrightarrow> j < 8 \<Longrightarrow> i + x * 8 = j + y * 8 \<longleftrightarrow> i = j \<and> x = y" for x y :: nat by presburger
  then show "i < 8 \<Longrightarrow> j < 8 \<Longrightarrow> ?thesis" by (simp add: close_bit_def word_unat_eq_iff)
qed

lemma chan_reg: "c < 32 \<Longrightarrow> unat (drop_bit 2 (c :: u8)) < 8"
  by (simp add: drop_bit_eq_div unat_div_distrib word_less_nat_alt)

lemma offset_bit: "i < 8 \<Longrightarrow> bit (TXQ_DIS_CHANNEL_QUEUE_OFFSET c (of_nat i)) n \<longleftrightarrow> n = close_bit c i"
  using close_bit_lt [of i c]
  by (auto simp: TXQ_DIS_CHANNEL_QUEUE_OFFSET_def close_bit_def bit_push_bit_iff bit_1_iff bit_exp_iff unat_of_nat)

lemma qos_queue_eq:
  assumes "channel q < 32" and "i < 8"
  defines "r \<equiv> unat (drop_bit 2 (channel q))"
  shows "qos_queue base q i s = s\<lparr>TXQ_DIS_CFG_VALUE := (TXQ_DIS_CFG_VALUE s)[r := queue_word q i (TXQ_DIS_CFG_VALUE s ! r)],
     qos_dev := bus_wr base (QDMA_CSR_QUEUE_CLOSE_CFG (channel q)) (queue_word q i (TXQ_DIS_CFG_VALUE s ! r)) (qos_dev s)\<rparr>"
  using chan_reg [OF assms(1)] unfolding r_def
  by (auto simp: qos_queue_def qdmaSetQueueOpen_sw_def qdmaSetQueueClose_sw_def queue_update_def queue_word_def
      will_close_def Let_def)

lemma queue_words_bit:
  assumes "n \<le> 8"
  shows "bit (fold (queue_word q) [0..<n] w) m \<longleftrightarrow>
    (if \<exists>i<n. m = close_bit (channel q) i then \<exists>i<n. m = close_bit (channel q) i \<and> will_close q i else bit w m)"
  using assms
proof (induction n)
  case (Suc n)
  have n: "n < 8" using Suc.prems by simp
  have w: "bit (queue_word q n x) m \<longleftrightarrow> (if m = close_bit (channel q) n then will_close q n else bit x m)" for x
    using close_bit_lt [OF n, of "channel q"] by (auto simp: queue_word_def offset_bit [OF n] bit_simps dest: bit_imp_le_length)
  have "close_bit (channel q) n = close_bit (channel q) i \<longleftrightarrow> i = n" if "i < n" for i
    using close_bit_inj [OF n, of i "channel q" "channel q"] that n by auto
  then show ?case using Suc.IH Suc.prems by (auto simp: w less_Suc_eq)
qed simp

lemma queue_fold:
  assumes "channel q < 32" and "length (TXQ_DIS_CFG_VALUE s) = 8" and "n \<le> 8"
  defines "r \<equiv> unat (drop_bit 2 (channel q))"
  shows "TXQ_DIS_CFG_VALUE (fold (qos_queue base q) [0..<n] s) =
    (TXQ_DIS_CFG_VALUE s)[r := fold (queue_word q) [0..<n] (TXQ_DIS_CFG_VALUE s ! r)]"
  using assms(3)
proof (induction n)
  case (Suc n)
  have "r < 8" unfolding r_def by (rule chan_reg [OF assms(1)])
  then show ?case using Suc qos_queue_eq [OF assms(1), of n base] assms(2)
    by (simp add: r_def [symmetric])
qed simp

lemma queue_fold_closed:
  assumes "channel q < 32" and "c < 32" and "length (TXQ_DIS_CFG_VALUE s) = 8" and "i < 8"
  shows "closed (TXQ_DIS_CFG_VALUE (fold (qos_queue base q) [0..<8] s)) c i \<longleftrightarrow>
    (if c = channel q then will_close q i else closed (TXQ_DIS_CFG_VALUE s) c i)"
proof (cases "drop_bit 2 c = drop_bit 2 (channel q)")
  case True
  have "c = channel q" if "c AND 3 = channel q AND 3"
  proof -
    have "c = push_bit 2 (drop_bit 2 c) OR (c AND mask 2)" for c :: u8
      by (rule bit_word_eqI) (auto simp: bit_simps simp flip: numeral_2_eq_2 split: nat_diff_split)
    moreover have "mask 2 = (3 :: u8)" by (simp add: mask_eq_exp_minus_1)
    ultimately show ?thesis using True that by metis
  qed
  then have eq: "(\<exists>j<8. close_bit c i = close_bit (channel q) j \<and> P j) \<longleftrightarrow> c = channel q \<and> P i" for P
    using close_bit_inj [OF assms(4)] assms(4) by auto
  have "r < 8 \<Longrightarrow> T ! r = w \<Longrightarrow> T [r := w] ! r = w" if "length T = 8" for T :: "u32 list" and r w using that by simp
  then show ?thesis using eq [of "\<lambda>_. True"] eq [of "will_close q"] chan_reg [OF assms(1)] True assms(3)
    by (cases "c = channel q") (auto simp: closed_def queue_fold [OF assms(1,3) order_refl] queue_words_bit)
next
  case False
  then have "unat (drop_bit 2 c) \<noteq> unat (drop_bit 2 (channel q))" by (simp add: word_unat_eq_iff)
  then show ?thesis using False
    by (auto simp: closed_def queue_fold [OF assms(1,3) order_refl])
qed

section \<open>Selectors\<close>

lemma wrr_select_bit: "bit (txwrr_select c i) n \<Longrightarrow> 16 \<le> n \<and> n < 24"
proof -
  have m: "(0x1F :: u32) = mask 5" "(7 :: u32) = mask 3" by (simp_all add: mask_eq_exp_minus_1)
  show "bit (txwrr_select c i) n \<Longrightarrow> 16 \<le> n \<and> n < 24" unfolding txwrr_select_def m
    by (simp only: bit_or_iff bit_and_iff bit_push_bit_iff bit_mask_iff) linarith
qed

lemma wrr_select_inj: "i < 8 \<Longrightarrow> j < 8 \<Longrightarrow> txwrr_select c i = txwrr_select c j \<longleftrightarrow> i = j"
proof -
  have m: "(0x1F :: u32) = mask 5" "(7 :: u32) = mask 3" by (simp_all add: mask_eq_exp_minus_1)
  have d: "drop_bit 16 (txwrr_select c i) AND mask 3 = of_nat i" if "i < 8" for i
  proof -
    have "of_nat i AND mask 3 = (of_nat (take_bit 3 i) :: u32)" by (simp add: take_bit_of_nat flip: take_bit_eq_mask)
    then have "(of_nat i AND mask 3 :: u32) = of_nat i" using that by (simp add: take_bit_nat_eq_self)
    moreover have "drop_bit 16 (txwrr_select c i) AND mask 3 = (of_nat i AND mask 3 :: u32)"
      unfolding txwrr_select_def m by (rule bit_word_eqI)
        (auto simp only: bit_or_iff bit_and_iff bit_push_bit_iff bit_mask_iff bit_drop_bit_eq o_def possible_bit_word,
          simp_all)
    ultimately show ?thesis by simp
  qed
  assume i: "i < 8" and j: "j < 8"
  have "i = j" if "txwrr_select c i = txwrr_select c j"
  proof -
    have "(of_nat i :: u32) = of_nat j" using d [OF i] d [OF j] that by simp
    then have "unat (of_nat i :: u32) = unat (of_nat j :: u32)" by simp
    then show ?thesis using i j by (simp add: unat_of_nat)
  qed
  then show "txwrr_select c i = txwrr_select c j \<longleftrightarrow> i = j" by auto
qed

lemma weight_sel:
  "txwrr_select c i AND 0xFF0000 = txwrr_select c i"
  "(0x80000000 OR (w AND 0xFF) OR txwrr_select c i) AND 0xFF0000 = txwrr_select c i"
  "(0x80000000 OR (w AND 0xFF) OR txwrr_select c i) AND 0xFF = w AND 0xFF"
  "bit (0x80000000 OR (w AND 0xFF) OR txwrr_select c i) 31" "\<not> bit (txwrr_select c i) 31"
proof -
  have m: "(0xFF :: u32) = mask 8" "(0xFF0000 :: u32) = push_bit 16 (mask 8)" "(0x80000000 :: u32) = push_bit 31 1"
    by (simp_all add: mask_eq_exp_minus_1)
  note b = bit_or_iff bit_and_iff bit_push_bit_iff bit_mask_iff bit_1_iff possible_bit_word
  show "txwrr_select c i AND 0xFF0000 = txwrr_select c i"
    unfolding m by (rule bit_word_eqI) (use wrr_select_bit [of c i] in \<open>fastforce simp only: b\<close>)
  show "(0x80000000 OR (w AND 0xFF) OR txwrr_select c i) AND 0xFF0000 = txwrr_select c i"
    unfolding m by (rule bit_word_eqI) (use wrr_select_bit [of c i] in \<open>fastforce simp only: b\<close>)
  show "(0x80000000 OR (w AND 0xFF) OR txwrr_select c i) AND 0xFF = w AND 0xFF"
    unfolding m by (rule bit_word_eqI) (use wrr_select_bit [of c i] in \<open>fastforce simp only: b\<close>)
  show "bit (0x80000000 OR (w AND 0xFF) OR txwrr_select c i) 31"
    unfolding m by (simp only: b) simp
  show "\<not> bit (txwrr_select c i) 31" using wrr_select_bit [of c i 31] by auto
qed

lemma close_addr_range: "unat (QDMA_CSR_QUEUE_CLOSE_CFG c) < 0x1024"
proof -
  have "unat (c AND 0xFC) \<le> 0xFC" using word_and_le1 [of c "0xFC"] by (simp only: word_le_nat_alt) simp
  then show ?thesis
    by (simp add: QDMA_CSR_QUEUE_CLOSE_CFG_def unat_word_ariths(1) unsigned_ucast_eq take_bit_nat_eq_self)
qed

lemma mode_addr_val: "unat (0x1040 + push_bit 2 (ucast (drop_bit 3 (c :: u8))) :: u32) = 0x1040 + 4 * unat (drop_bit 3 c)"
proof -
  have "unat (drop_bit 3 c) < 32"
    using unsigned_less [of c, where ?'a = nat] by (simp add: drop_bit_eq_div unat_div_distrib)
  then show ?thesis
    by (simp add: push_bit_eq_mult unat_word_ariths unsigned_ucast_eq take_bit_nat_eq_self)
qed

lemma unat_neqI: "unat a \<noteq> unat b \<Longrightarrow> a \<noteq> (b :: u32)"
  by auto

lemma close_addr: "QDMA_CSR_QUEUE_CLOSE_CFG c \<noteq> 0x1024"
  using close_addr_range [of c] by (intro unat_neqI) simp

lemma mode_addr: "0x1040 + push_bit 2 (ucast (drop_bit 3 (c :: u8))) \<noteq> (0x1024 :: u32)"
  by (rule unat_neqI) (unfold mode_addr_val, simp)

lemma close_mode_addr: "QDMA_CSR_QUEUE_CLOSE_CFG c \<noteq> 0x1040 + push_bit 2 (ucast (drop_bit 3 (c' :: u8)))"
  by (rule unat_neqI) (use close_addr_range [of c] in \<open>simp only: mode_addr_val\<close>)

section \<open>A QDMA block\<close>

text \<open>The weight register is a command register: a write with bit 31 stores the low byte under the selector
  in bits 16 to 23, any write latches the selector, and after at most two reads that find it busy a
  read shows the done bit and the weight under the latched selector. Every other register holds
  what was written.\<close>

locale wrr_hw =
  fixes io :: "'d bus" and delay :: "'d \<Rightarrow> 'd" and wt :: "'d \<Rightarrow> u32 \<Rightarrow> u32" and sel :: "'d \<Rightarrow> u32"
    and busy :: "'d \<Rightarrow> nat" and peek :: "'d \<Rightarrow> u32 \<Rightarrow> u32"
  assumes cmd: "d' = bus_wr io 0x1024 v d \<Longrightarrow> busy d' \<le> 2 \<and> sel d' = v AND 0xFF0000 \<and> peek d' = peek d \<and>
        wt d' = (if bit v 31 then (wt d)(v AND 0xFF0000 := v AND 0xFF) else wt d)"
    and poll: "bus_rr io 0x1024 d = (v, d') \<Longrightarrow> (bit v 30 \<longleftrightarrow> busy d = 0) \<and> (busy d = 0 \<longrightarrow> v AND 0xFF = wt d (sel d)) \<and>
        busy d' = busy d - 1 \<and> sel d' = sel d \<and> wt d' = wt d \<and> peek d' = peek d"
    and delay: "busy (delay d) = busy d \<and> sel (delay d) = sel d \<and> wt (delay d) = wt d \<and> peek (delay d) = peek d"
    and reg_wr: "a \<noteq> 0x1024 \<Longrightarrow> wt (bus_wr io a v d) = wt d \<and> peek (bus_wr io a v d) = (peek d)(a := v)"
    and reg_rr: "a \<noteq> 0x1024 \<Longrightarrow> bus_rr io a d = (v, d') \<Longrightarrow> v = peek d a \<and> peek d' = peek d \<and> wt d' = wt d"
    and reg_rmw: "a \<noteq> 0x1024 \<Longrightarrow> wt (bus_rmw io a m v d) = wt d \<and>
        peek (bus_rmw io a m v d) = (peek d)(a := masked (peek d a) m v)"
begin

lemma done_bit: "(v AND 0x40000000 \<noteq> 0) = bit (v :: u32) 30"
proof -
  have "(0x40000000 :: u32) = 2 ^ 30" by simp
  then show ?thesis by (simp only: and_exp_eq_0_iff_not_bit simp_thms)
qed

lemma done_after:
  "busy d < n \<Longrightarrow> \<exists>d'. config_done n delay io 0x1024 0x40000000 d = (0, d') \<and> busy d' = 0 \<and> sel d' = sel d \<and>
     wt d' = wt d \<and> peek d' = peek d"
proof (induction n arbitrary: d)
  case (Suc n)
  obtain v d1 where r: "bus_rr io 0x1024 d = (v, d1)" by (rule prod.exhaust)
  note P = poll [OF r]
  show ?case
  proof (cases "busy d = 0")
    case True
    then show ?thesis using P by (simp add: r done_bit)
  next
    case False
    then have "busy (delay d1) < n" using P delay [of d1] Suc.prems by simp
    from Suc.IH [OF this] show ?thesis using P False delay [of d1] by (auto simp: r done_bit)
  qed
qed simp

lemma done_cmd:
  assumes "d' = bus_wr io 0x1024 v d"
  shows "\<exists>d''. qdmaChecConfigDone delay io 0x1024 0x40000000 d' = (0, d'') \<and> busy d'' = 0 \<and> sel d'' = v AND 0xFF0000 \<and>
     peek d'' = peek d \<and> wt d'' = (if bit v 31 then (wt d)(v AND 0xFF0000 := v AND 0xFF) else wt d)"
  using done_after [of d' 3] cmd [OF assms] by (auto simp: qdmaChecConfigDone_def)

lemma set_weights_view:
  assumes "mdelay1 env = delay"
  shows "\<exists>d'. set_weights env io c ws is d = (0, d') \<and> peek d' = peek d \<and>
     wt d' = fold (\<lambda>i t. t(txwrr_select c i := ucast (ws ! i) AND 0xFF)) is (wt d)"
proof (induction "is" arbitrary: d)
  case (Cons i "is")
  obtain d1 where 1: "qdmaChecConfigDone delay io 0x1024 0x40000000 (bus_wr io 0x1024
        (TXWRR_RWCMD OR (ucast (ws ! i) AND 0xFF) OR txwrr_select c i) d) = (0, d1)" "peek d1 = peek d"
      "wt d1 = (wt d)(txwrr_select c i := ucast (ws ! i) AND 0xFF)"
    using done_cmd [OF refl, of "TXWRR_RWCMD OR (ucast (ws ! i) AND 0xFF) OR txwrr_select c i" d] weight_sel(2-4) by auto
  from Cons.IH [of d1] show ?case by (auto simp: assms 1)
qed simp

lemma get_weights_view:
  assumes "mdelay1 env = delay"
  shows "\<exists>d'. get_weights env io c is d = (Some (map (\<lambda>i. ucast (wt d (txwrr_select c i))) is), d') \<and> peek d' = peek d \<and> wt d' = wt d"
proof (induction "is" arbitrary: d)
  case (Cons i "is")
  obtain d1 where 1: "qdmaChecConfigDone delay io 0x1024 0x40000000 (bus_wr io 0x1024 (txwrr_select c i) d) = (0, d1)"
      "busy d1 = 0" "sel d1 = txwrr_select c i" "peek d1 = peek d" "wt d1 = wt d"
    using done_cmd [OF refl, of "txwrr_select c i" d] weight_sel(1,5) by auto
  obtain v d2 where 2: "bus_rr io 0x1024 d1 = (v, d2)" by (rule prod.exhaust)
  note P = poll [OF 2]
  from Cons.IH [of d2] show ?case using P 1 by (auto simp: assms 2)
qed simp

lemma mode_read_back:
  fixes m c :: u8
  assumes "unat m < 8"
  defines "k \<equiv> unat (push_bit 2 (c AND 7))"
  shows "drop_bit k (masked r (push_bit k 7) (push_bit k (ucast m)) AND push_bit k 7) = (ucast m :: u32)"
proof -
  have "unat (c AND 7) \<le> 7" using word_and_le1 [of c 7] by (simp only: word_le_nat_alt) simp
  then have k: "k \<le> 28" by (simp add: k_def push_bit_eq_mult unat_word_ariths)
  have m: "bit m n \<Longrightarrow> n < 3" for n using small_bits [of m 3 n] assms by simp
  have 7: "(7 :: u32) = mask 3" by (simp add: mask_eq_exp_minus_1)
  show ?thesis unfolding 7
    by (intro bit_word_eqI) (use k in \<open>auto simp: bit_simps masked_def dest: m\<close>)
qed

lemma queue_fold_dev:
  assumes "channel q < 32" and "n \<le> 8" and "length (TXQ_DIS_CFG_VALUE s) = 8"
  shows "wt (qos_dev (fold (qos_queue io q) [0..<n] s)) = wt (qos_dev s) \<and>
    (0 < n \<longrightarrow> peek (qos_dev (fold (qos_queue io q) [0..<n] s)) (QDMA_CSR_QUEUE_CLOSE_CFG (channel q)) =
       TXQ_DIS_CFG_VALUE (fold (qos_queue io q) [0..<n] s) ! unat (drop_bit 2 (channel q)))"
  using assms(2)
proof (induction n)
  case (Suc n)
  then show ?case
    using qos_queue_eq [OF assms(1), of n io] reg_wr [OF close_addr] queue_fold [OF assms(1,3), of n io] chan_reg [OF assms(1)] assms(3)
    by simp
qed simp

lemma set_view:
  assumes "mdelay1 env = delay" and "unat m < 8"
  shows "\<exists>d'. qdmaSetTxQosSchedulerUpstream env io c m ws d = (0, d') \<and>
      (\<forall>i<8. wt d' (txwrr_select c i) = ucast (ws ! i) AND 0xFF) \<and> fst (qdmaGetPerChnlQosMode io c d') = ucast m \<and>
      (\<forall>a. a \<noteq> 0x1040 + push_bit 2 (ucast (drop_bit 3 c)) \<longrightarrow> peek d' a = peek d a)"
proof -
  obtain d1 where 1: "set_weights env io c ws [0..<8] d = (0, d1)" "peek d1 = peek d"
    "wt d1 = fold (\<lambda>i t. t(txwrr_select c i := ucast (ws ! i) AND 0xFF)) [0..<8] (wt d)"
    using set_weights_view [OF assms(1)] by blast
  have w: "fold (\<lambda>i t. t(txwrr_select c i := g i)) [0..<n] t0 (txwrr_select c j) = g j" if "j < n" "n \<le> 8" for n j t0 and g :: "nat \<Rightarrow> u32"
    using that by (induction n) (auto simp: less_Suc_eq wrr_select_inj)
  let ?d = "qdmaSetPerChnlQosMode io c m d1"
  obtain v d2 where 2: "bus_rr io (0x1040 + push_bit 2 (ucast (drop_bit 3 c))) ?d = (v, d2)" by (rule prod.exhaust)
  let ?k = "unat (push_bit 2 (c AND 7))"
  note S = reg_rmw [OF mode_addr, of c "push_bit ?k 7" "push_bit ?k (ucast m)" d1]
  have "v = masked (peek d1 (0x1040 + push_bit 2 (ucast (drop_bit 3 c)))) (push_bit ?k 7) (push_bit ?k (ucast m))"
    using reg_rr [OF mode_addr 2] S by (simp only: qdmaSetPerChnlQosMode_def Let_def fun_upd_same simp_thms)
  then have "drop_bit ?k (v AND push_bit ?k 7) = ucast m" using mode_read_back [OF assms(2)] by metis
  then have M: "fst (qdmaGetPerChnlQosMode io c ?d) = ucast m"
    unfolding qdmaGetPerChnlQosMode_def 2 Let_def prod.case fst_conv .
  have "wt ?d = wt d1" and "a \<noteq> 0x1040 + push_bit 2 (ucast (drop_bit 3 c)) \<Longrightarrow> peek ?d a = peek d1 a" for a
    using S by (simp_all add: qdmaSetPerChnlQosMode_def Let_def del: push_bit_and)
  with M w [of _ 8] 1 show ?thesis by (simp add: qdmaSetTxQosSchedulerUpstream_def)
qed

lemma get_view:
  assumes "mdelay1 env = delay"
  shows "\<exists>d'. qdmaGetTxQosSchedulerUpstream env io c d =
      (Some (ucast (fst (qdmaGetPerChnlQosMode io c d)), map (\<lambda>i. ucast (wt d (txwrr_select c i))) [0..<8]), d') \<and>
      peek d' = peek d \<and> wt d' = wt d"
proof -
  obtain v d1 where 1: "bus_rr io (0x1040 + push_bit 2 (ucast (drop_bit 3 c))) d = (v, d1)" by (rule prod.exhaust)
  note R = reg_rr [OF mode_addr 1]
  obtain m where m: "qdmaGetPerChnlQosMode io c d = (m, d1)" by (simp add: qdmaGetPerChnlQosMode_def 1 Let_def)
  obtain d2 where "get_weights env io c [0..<8] d1 = (Some (map (\<lambda>i. ucast (wt d1 (txwrr_select c i))) [0..<8]), d2)"
      "peek d2 = peek d1" "wt d2 = wt d1"
    using get_weights_view [OF assms] by blast
  then show ?thesis using R by (simp add: qdmaGetTxQosSchedulerUpstream_def m)
qed

end

lemma closed_test: "c < 32 \<Longrightarrow> i < 8 \<Longrightarrow> 0 < qdmaIsQueueClosed_sw c (of_nat i) s \<longleftrightarrow> closed (TXQ_DIS_CFG_VALUE s) c i"
  using chan_reg [of c] close_bit_lt [of i c]
  by (simp add: qdmaIsQueueClosed_sw_def closed_def TXQ_DIS_CHANNEL_QUEUE_OFFSET_def close_bit_def unat_of_nat
      word_neq_0_conv [symmetric] push_bit_eq_mult and_exp_eq_0_iff_not_bit del: word_neq_0_conv)

lemma low_byte:
  assumes "unat (w :: u16) < 256"
  shows "ucast (ucast w AND (0xFF :: u32)) = w"
proof -
  have b: "bit w n \<Longrightarrow> n < 8" for n using small_bits [of w 8 n] assms by simp
  have m: "(0xFF :: u32) = mask 8" by (simp add: mask_eq_exp_minus_1)
  show ?thesis unfolding m by (intro bit_word_eqI) (auto simp: bit_simps dest: b)
qed

section \<open>Two blocks\<close>

text \<open>A block that is busy for two reads after every command, and the device of the driver: two of them.\<close>

record qblock =
  b_wt :: "u32 \<Rightarrow> u32"
  b_sel :: u32
  b_busy :: nat
  b_reg :: "u32 \<Rightarrow> u32"

definition qblock_bus :: "qblock bus" where
  "qblock_bus = \<lparr>
     bus_rr = (\<lambda>a d. if a = 0x1024
       then (if b_busy d = 0 then 0x40000000 OR (b_wt d (b_sel d) AND 0xFF) else 0, d\<lparr>b_busy := b_busy d - 1\<rparr>)
       else (b_reg d a, d)),
     bus_wr = (\<lambda>a v d. if a = 0x1024
       then d\<lparr>b_busy := 2, b_sel := v AND 0xFF0000,
              b_wt := if bit v 31 then (b_wt d)(v AND 0xFF0000 := v AND 0xFF) else b_wt d\<rparr>
       else d\<lparr>b_reg := (b_reg d)(a := v)\<rparr>),
     bus_rmw = (\<lambda>a m v d. d\<lparr>b_reg := (b_reg d)(a := masked (b_reg d a) m v)\<rparr>)\<rparr>"

definition on_fst :: "'a bus \<Rightarrow> ('a \<times> 'b) bus" where
  "on_fst io = \<lparr>bus_rr = (\<lambda>a (x, y). let (v, x) = bus_rr io a x in (v, (x, y))),
     bus_wr = (\<lambda>a v (x, y). (bus_wr io a v x, y)), bus_rmw = (\<lambda>a m v (x, y). (bus_rmw io a m v x, y))\<rparr>"

definition on_snd :: "'b bus \<Rightarrow> ('a \<times> 'b) bus" where
  "on_snd io = \<lparr>bus_rr = (\<lambda>a (x, y). let (v, y) = bus_rr io a y in (v, (x, y))),
     bus_wr = (\<lambda>a v (x, y). (x, bus_wr io a v y)), bus_rmw = (\<lambda>a m v (x, y). (x, bus_rmw io a m v y))\<rparr>"

definition two_blocks :: "(qblock \<times> qblock) qos_env" where
  "two_blocks = \<lparr>qdma0 = on_fst qblock_bus, qdma1 = on_snd qblock_bus, mdelay1 = id\<rparr>"

lemma weight_byte: "((0x40000000 :: u32) OR (w AND 0xFF)) AND 0xFF = w AND 0xFF" "bit (0x40000000 OR (w AND 0xFF) :: u32) 30"
proof -
  have m: "(0xFF :: u32) = mask 8" "(0x40000000 :: u32) = push_bit 30 1" by (simp_all add: mask_eq_exp_minus_1)
  show "((0x40000000 :: u32) OR (w AND 0xFF)) AND 0xFF = w AND 0xFF" unfolding m
    by (rule bit_word_eqI) (auto simp only: bit_or_iff bit_and_iff bit_push_bit_iff bit_mask_iff bit_1_iff possible_bit_word)
  show "bit (0x40000000 OR (w AND 0xFF) :: u32) 30" unfolding m
    by (simp only: bit_or_iff bit_push_bit_iff bit_1_iff possible_bit_word) simp
qed

interpretation qblock: wrr_hw qblock_bus id "\<lambda>d s. b_wt d s AND 0xFF" b_sel b_busy b_reg
  by unfold_locales (auto simp: qblock_bus_def weight_byte and.assoc split: if_splits)

lemma on_fst_hw: "wrr_hw io delay wt sel busy peek \<Longrightarrow>
    wrr_hw (on_fst io) (map_prod delay id) (wt \<circ> fst) (sel \<circ> fst) (busy \<circ> fst) (peek \<circ> fst)"
  unfolding wrr_hw_def on_fst_def by (auto simp: split: prod.splits)

lemma on_snd_hw: "wrr_hw io delay wt sel busy peek \<Longrightarrow>
    wrr_hw (on_snd io) (map_prod id delay) (wt \<circ> snd) (sel \<circ> snd) (busy \<circ> snd) (peek \<circ> snd)"
  unfolding wrr_hw_def on_snd_def by (auto simp: split: prod.splits)

abbreviation block_wt :: "qblock \<Rightarrow> u32 \<Rightarrow> u32" where
  "block_wt \<equiv> \<lambda>d s. b_wt d s AND 0xFF"

interpretation lan: wrr_hw "qos_base two_blocks True" "mdelay1 two_blocks" "block_wt \<circ> fst" "b_sel \<circ> fst" "b_busy \<circ> fst" "b_reg \<circ> fst"
  using on_fst_hw [OF qblock.wrr_hw_axioms] by (simp add: two_blocks_def qos_base_def map_prod.id)

interpretation wan: wrr_hw "qos_base two_blocks False" "mdelay1 two_blocks" "block_wt \<circ> snd" "b_sel \<circ> snd" "b_busy \<circ> snd" "b_reg \<circ> snd"
  using on_snd_hw [OF qblock.wrr_hw_axioms] by (simp add: two_blocks_def qos_base_def map_prod.id)

definition qos_start :: "(qblock \<times> qblock) qos_world" where
  "qos_start = \<lparr>TXQ_DIS_CFG_VALUE = replicate 8 0,
     qos_dev = let b = \<lparr>b_wt = (\<lambda>_. 0), b_sel = 0, b_busy = 0, b_reg = (\<lambda>_. 0)\<rparr> in (b, b)\<rparr>"

section \<open>Properties\<close>

lemma set_run:
  assumes "channel q < 32" and "qosType q < 8"
  shows "qdma_api_set_tx_qos_upstream env lan q s =
    (let s1 = fold (qos_queue (qos_base env lan) q) [0..<8] s; ws = map (\<lambda>w. if w = 0 then 1 else w) (weights q);
         (ret, d) = qdmaSetTxQosSchedulerUpstream env (qos_base env lan) (channel q) (of_nat (qosType q)) ws (qos_dev s1)
     in (ret, q\<lparr>weights := ws\<rparr>, s1\<lparr>qos_dev := d\<rparr>))"
proof -
  have n: "\<not> 32 \<le> channel q" "\<not> 8 \<le> qosType q" using assms by (simp_all add: not_le)
  show ?thesis unfolding qdma_api_set_tx_qos_upstream_def if_not_P [OF n(1)] if_not_P [OF n(2)] Let_def ..
qed

lemma set_table:
  assumes "channel q < 32" and "qosType q < 8"
  shows "TXQ_DIS_CFG_VALUE (snd (snd (qdma_api_set_tx_qos_upstream env lan q s))) =
    TXQ_DIS_CFG_VALUE (fold (qos_queue (qos_base env lan) q) [0..<8] s)"
  unfolding set_run [OF assms] Let_def by (simp split: prod.split)

text \<open>What a set call leaves behind, on a block that obeys the command protocol.\<close>

lemma set_world:
  assumes "wrr_hw (qos_base env lan) (mdelay1 env) wt sel busy peek" and "channel q < 32" and "qosType q < 8"
    and "length (weights q) = 8" and "length (TXQ_DIS_CFG_VALUE s) = 8"
  shows "\<exists>s'. qdma_api_set_tx_qos_upstream env lan q s = (0, q\<lparr>weights := map (\<lambda>w. if w = 0 then 1 else w) (weights q)\<rparr>, s') \<and>
     length (TXQ_DIS_CFG_VALUE s') = 8 \<and>
     (\<forall>c<32. \<forall>i<8. closed (TXQ_DIS_CFG_VALUE s') c i = (if c = channel q then will_close q i else closed (TXQ_DIS_CFG_VALUE s) c i)) \<and>
     (\<forall>i<8. wt (qos_dev s') (txwrr_select (channel q) i) = ucast (if weights q ! i = 0 then 1 else weights q ! i) AND 0xFF) \<and>
     fst (qdmaGetPerChnlQosMode (qos_base env lan) (channel q) (qos_dev s')) = of_nat (qosType q) \<and>
     peek (qos_dev s') (QDMA_CSR_QUEUE_CLOSE_CFG (channel q)) = TXQ_DIS_CFG_VALUE s' ! unat (drop_bit 2 (channel q))"
proof -
  let ?base = "qos_base env lan" and ?w = "map (\<lambda>w. if w = 0 then 1 else w) (weights q)"
  let ?s1 = "fold (qos_queue ?base q) [0..<8] s"
  have m: "unat (of_nat (qosType q) :: u8) < 8" "ucast (of_nat (qosType q) :: u8) = (of_nat (qosType q) :: u32)"
    using assms(3) by (simp_all add: unat_of_nat word_unat_eq_iff unsigned_ucast_eq take_bit_nat_eq_self)
  obtain d' where d: "qdmaSetTxQosSchedulerUpstream env ?base (channel q) (of_nat (qosType q)) ?w (qos_dev ?s1) = (0, d')"
     "\<forall>i<8. wt d' (txwrr_select (channel q) i) = ucast (?w ! i) AND 0xFF"
     "fst (qdmaGetPerChnlQosMode ?base (channel q) d') = ucast (of_nat (qosType q) :: u8)"
     "\<forall>a. a \<noteq> 0x1040 + push_bit 2 (ucast (drop_bit 3 (channel q))) \<longrightarrow> peek d' a = peek (qos_dev ?s1) a"
    using wrr_hw.set_view [OF assms(1) refl m(1)] by blast
  have "QDMA_CSR_QUEUE_CLOSE_CFG c \<noteq> 0x1040 + push_bit 2 (ucast (drop_bit 3 c))" for c
    using close_mode_addr by blast
  then have "peek d' (QDMA_CSR_QUEUE_CLOSE_CFG (channel q)) = TXQ_DIS_CFG_VALUE ?s1 ! unat (drop_bit 2 (channel q))"
    using d(4) wrr_hw.queue_fold_dev [OF assms(1,2) order_refl assms(5)] by simp
  moreover have "qdma_api_set_tx_qos_upstream env lan q s = (0, q\<lparr>weights := ?w\<rparr>, ?s1\<lparr>qos_dev := d'\<rparr>)"
    using assms(2,3) d(1) by (simp add: qdma_api_set_tx_qos_upstream_def not_le Let_def)
  moreover have "length (TXQ_DIS_CFG_VALUE ?s1) = 8" using queue_fold [OF assms(2,5) order_refl] assms(5) by simp
  ultimately show ?thesis using d(2,3) m(2) assms(4) queue_fold_closed [OF assms(2) _ assms(5)]
    by (intro exI [of _ "?s1\<lparr>qos_dev := d'\<rparr>"]) auto
qed


definition qos_wan5 :: QDMA_TxQosScheduler_T where
  "qos_wan5 = \<lparr>channel = 5, qosType = 2, weights = [0, 1, 2, 3, 4, 5, 6, 0]\<rparr>"

definition qos_lan6 :: QDMA_TxQosScheduler_T where
  "qos_lan6 = \<lparr>channel = 6, qosType = 0, weights = replicate 8 9\<rparr>"

lemma eight: "(\<forall>i<8. P i) \<longleftrightarrow> P (0 :: nat) \<and> P 1 \<and> P 2 \<and> P 3 \<and> P 4 \<and> P 5 \<and> P 6 \<and> P 7"
  by (simp add: eval_nat_numeral All_less_Suc conj_ac)


text \<open>The software copy is shared by the two QDMA blocks: a queue that a WAN configuration closed is also
  closed on the LAN block by the next LAN configuration of any other channel of the same register,
  whose LAN queues nobody configured.\<close>

theorem tx_qos_shared_copy:
  assumes "wrr_hw (qos_base env True) (mdelay1 env) wt sel busy peek" and "length (TXQ_DIS_CFG_VALUE s) = 8"
    and "channel q1 < 32" and "qosType q1 < 8" and "will_close q1 i" and "i < 8"
    and "channel q < 32" and "qosType q < 8" and "length (weights q) = 8"
    and "channel q \<noteq> channel q1" and "drop_bit 2 (channel q) = drop_bit 2 (channel q1)"
    and "qdma_api_set_tx_qos_upstream env False q1 s = (r1, q1', s1)"
    and "qdma_api_set_tx_qos_upstream env True q s1 = (r, q', s2)"
  shows "r = 0 \<and> bit (peek (qos_dev s2) (QDMA_CSR_QUEUE_CLOSE_CFG (channel q))) (close_bit (channel q1) i)"
proof -
  have t1: "TXQ_DIS_CFG_VALUE s1 = TXQ_DIS_CFG_VALUE (fold (qos_queue (qos_base env False) q1) [0..<8] s)"
    using set_table [OF assms(3,4), of env False s] assms(12) by simp
  have c1: "closed (TXQ_DIS_CFG_VALUE s1) (channel q1) i"
    using queue_fold_closed [OF assms(3,3,2,6)] assms(5) t1 by simp
  have "length (TXQ_DIS_CFG_VALUE s1) = 8" using queue_fold [OF assms(3,2) order_refl] assms(2) t1 by simp
  from set_world [OF assms(1,7-9) this, unfolded assms(13)]
  show ?thesis using c1 assms(3,6,10,11) by (auto simp: closed_def)
qed

theorem tx_qos_shared_copy_witness:
  "\<exists>s2. snd (snd (qdma_api_set_tx_qos_upstream two_blocks True qos_lan6
       (snd (snd (qdma_api_set_tx_qos_upstream two_blocks False qos_wan5 qos_start))))) = s2 \<and>
     bit (b_reg (fst (qos_dev s2)) 0xa4) 8"
proof -
  obtain r1 q1' s1 where s1: "qdma_api_set_tx_qos_upstream two_blocks False qos_wan5 qos_start = (r1, q1', s1)"
    by (rule prod_cases3)
  obtain r q' s2 where s2: "qdma_api_set_tx_qos_upstream two_blocks True qos_lan6 s1 = (r, q', s2)"
    by (rule prod_cases3)
  have h: "length (TXQ_DIS_CFG_VALUE qos_start) = 8" "channel qos_wan5 < 32" "qosType qos_wan5 < 8" "will_close qos_wan5 0"
    "(0 :: nat) < 8" "channel qos_lan6 < 32" "qosType qos_lan6 < 8" "length (weights qos_lan6) = 8"
    "channel qos_lan6 \<noteq> channel qos_wan5" "drop_bit 2 (channel qos_lan6) = drop_bit 2 (channel qos_wan5)"
    by code_simp+
  have a: "QDMA_CSR_QUEUE_CLOSE_CFG (channel qos_lan6) = 0xa4" "close_bit (channel qos_wan5) 0 = 8" by code_simp+
  from tx_qos_shared_copy [OF lan.wrr_hw_axioms h s1 s2, unfolded a]
  show ?thesis unfolding s1 snd_conv by (simp add: s2)
qed

text \<open>On a block whose commands are never done, setting a scheduler gives up with a time-out after three polls,
  with the queues of the channel already closed and opened in the software copy; getting it fails
  and leaves the caller's record as it was.\<close>

theorem tx_qos_timeout:
  assumes "\<forall>d. fst (bus_rr (qos_base env lan) 0x1024 d) AND 0x40000000 = 0" and "channel q < 32" and "qosType q < 8"
    and "length (TXQ_DIS_CFG_VALUE s) = 8"
  shows "(\<exists>q' s'. qdma_api_set_tx_qos_upstream env lan q s = (- ETIME, q', s') \<and>
       (\<forall>c<32. \<forall>i<8. closed (TXQ_DIS_CFG_VALUE s') c i =
          (if c = channel q then will_close q i else closed (TXQ_DIS_CFG_VALUE s) c i))) \<and>
     (\<exists>s'. qdma_api_get_tx_qos_upstream env lan q s = (- EFAULT, q, s') \<and> TXQ_DIS_CFG_VALUE s' = TXQ_DIS_CFG_VALUE s)"
proof (intro conjI)
  let ?base = "qos_base env lan"
  have c: "fst (config_done n dl ?base 0x1024 0x40000000 d) = - ETIME" for n dl d
    using assms(1) by (induction n arbitrary: d) (auto split: prod.split, metis fst_conv)
  then have chk: "\<exists>d'. qdmaChecConfigDone dl ?base 0x1024 0x40000000 d = (- ETIME, d')" for dl d
    unfolding qdmaChecConfigDone_def by (metis prod.collapse)
  have up: "[0..<8] = 0 # [1..<8]" by (simp add: upt_conv_Cons)
  let ?q = "\<lambda>s. fold (qos_queue ?base q) [0..<8] s"
  let ?ws = "map (\<lambda>w. if w = 0 then 1 else w) (weights q)"
  obtain d1 where "qdmaChecConfigDone (mdelay1 env) ?base 0x1024 0x40000000
      (bus_wr ?base 0x1024 (TXWRR_RWCMD OR (ucast (?ws ! 0) AND 0xFF) OR txwrr_select (channel q) 0) (qos_dev (?q s))) = (- ETIME, d1)"
    using chk by blast
  then have 1: "qdmaSetTxQosSchedulerUpstream env ?base (channel q) (of_nat (qosType q)) ?ws (qos_dev (?q s)) = (- ETIME, d1)"
    unfolding qdmaSetTxQosSchedulerUpstream_def up by simp
  show "\<exists>q' s'. qdma_api_set_tx_qos_upstream env lan q s = (- ETIME, q', s') \<and>
       (\<forall>c<32. \<forall>i<8. closed (TXQ_DIS_CFG_VALUE s') c i =
          (if c = channel q then will_close q i else closed (TXQ_DIS_CFG_VALUE s) c i))"
    unfolding set_run [OF assms(2,3)] Let_def 1 using queue_fold_closed [OF assms(2) _ assms(4)] by auto
  obtain m dm where m: "qdmaGetPerChnlQosMode ?base (channel q) (qos_dev s) = (m, dm)" by (rule prod.exhaust)
  obtain d2 where "qdmaChecConfigDone (mdelay1 env) ?base 0x1024 0x40000000 (bus_wr ?base 0x1024 (txwrr_select (channel q) 0) dm) =
      (- ETIME, d2)" using chk by blast
  then have 2: "qdmaGetTxQosSchedulerUpstream env ?base (channel q) (qos_dev s) = (None, d2)"
    unfolding qdmaGetTxQosSchedulerUpstream_def up by (simp add: m)
  have n: "\<not> 32 \<le> channel q" using assms(2) by (simp add: not_le)
  show "\<exists>s'. qdma_api_get_tx_qos_upstream env lan q s = (- EFAULT, q, s') \<and> TXQ_DIS_CFG_VALUE s' = TXQ_DIS_CFG_VALUE s"
    unfolding qdma_api_get_tx_qos_upstream_def if_not_P [OF n] Let_def 2 by simp
qed

definition qos_dead :: "(qblock \<times> qblock) qos_env" where
  "qos_dead = two_blocks\<lparr>qdma1 := (qdma1 two_blocks)\<lparr>bus_rr := \<lambda>a d. (0, d)\<rparr>\<rparr>"

theorem tx_qos_timeout_witness:
  "\<exists>q' s'. qdma_api_set_tx_qos_upstream qos_dead False qos_wan5 qos_start = (- ETIME, q', s') \<and>
     closed (TXQ_DIS_CFG_VALUE s') 5 0 \<and> \<not> closed (TXQ_DIS_CFG_VALUE s') 5 7"
proof -
  have h: "\<forall>d. fst (bus_rr (qos_base qos_dead False) 0x1024 d) AND 0x40000000 = 0" "channel qos_wan5 < 32"
    "qosType qos_wan5 < 8" "length (TXQ_DIS_CFG_VALUE qos_start) = 8"
    by (simp_all add: qos_dead_def qos_base_def qos_wan5_def qos_start_def)
  have c: "channel qos_wan5 = 5" "will_close qos_wan5 0" "\<not> will_close qos_wan5 7" "(5 :: u8) < 32" by code_simp+
  from tx_qos_timeout [OF h] obtain q' s' where
    "qdma_api_set_tx_qos_upstream qos_dead False qos_wan5 qos_start = (- ETIME, q', s')"
    "\<forall>c<32. \<forall>i<8. closed (TXQ_DIS_CFG_VALUE s') c i =
          (if c = channel qos_wan5 then will_close qos_wan5 i else closed (TXQ_DIS_CFG_VALUE qos_start) c i)" by blast
  then show ?thesis using c by (intro exI [of _ q'] exI [of _ s']) auto
qed

end
