(* ===== verification/QdmaLan.thy ===== *)
theory QdmaLan
  imports QdmaMath
begin

text \<open>
  The transmit rate limit of the LAN block, \<^verbatim>\<open>airoha/arht_qdma.c\<close>: parameter words of the egress
  meters written with a bounded retry, the two meter modes of a channel enabled or disabled, their token
  rate and their bucket. The register header is not in the repository: its masks, register
  offsets and limits are fields of the environment.
\<close>

section \<open>Environment\<close>

record 'd lan_env =
  l_bus :: "'d bus"
  REG_TRTCM_CFG_PARAM :: "u32 \<Rightarrow> u32"
  REG_TRTCM_DATA_LOW :: "u32 \<Rightarrow> u32"
  REG_TRTCM_DATA_HIGH :: "u32 \<Rightarrow> u32"
  REG_EGRESS_TRTCM_CFG :: u32
  TRTCM_PARAM_RW_MASK :: u32
  TRTCM_PARAM_TYPE_MASK :: u32
  TRTCM_METER_GROUP_MASK :: u32
  TRTCM_PARAM_INDEX_MASK :: u32
  TRTCM_PARAM_RATE_TYPE_MASK :: u32
  QDMA_METER_IDX :: "u32 \<Rightarrow> u32"
  QDMA_METER_GROUP :: "u32 \<Rightarrow> u32"
  TRTCM_METER_MODE :: u32
  TRTCM_PKT_MODE :: u32
  TRTCM_TICK_SEL :: u32
  INGRESS_FAST_TICK_MASK :: u32
  INGRESS_SLOW_TICK_RATIO_MASK :: u32
  EGRESS_FAST_TICK_MASK :: u32
  EGRESS_SLOW_TICK_RATIO_MASK :: u32
  TRTCM_TOKEN_RATE_MASK :: u32
  TRTCM_TOKEN_RATE_FRACTION_MASK :: u32
  MIN_TOKEN_SIZE :: u32
  MAX_TOKEN_SIZE_OFFSET :: u32
  TRTCM_MISC_MODE :: u32
  TRTCM_TOKEN_RATE_MODE :: u32
  TRTCM_BUCKETSIZE_SHIFT_MODE :: u32

text \<open>The two bucket units of the egress module, from the tables the driver fills at start.\<close>

record egress_units =
  egress_byte_unit :: u32
  egress_packet_unit :: u32

section \<open>Parameter words\<close>

definition lan_select :: "'d lan_env \<Rightarrow> u32 \<Rightarrow> u32 \<Rightarrow> u32 \<Rightarrow> u32" where
  "lan_select env chnl param mode =
     FIELD_PREP (TRTCM_PARAM_TYPE_MASK env) param OR
     FIELD_PREP (TRTCM_METER_GROUP_MASK env) (QDMA_METER_GROUP env chnl) OR
     FIELD_PREP (TRTCM_PARAM_INDEX_MASK env) (QDMA_METER_IDX env chnl) OR
     FIELD_PREP (TRTCM_PARAM_RATE_TYPE_MASK env) mode"

text \<open>\<open>high\<close>: whether the caller asks for the upper word. The status is always 0.\<close>

definition qdmalan_airoha_qdma_get_trtcm_param ::
  "'d lan_env \<Rightarrow> u32 \<Rightarrow> u32 \<Rightarrow> u32 \<Rightarrow> u32 \<Rightarrow> bool \<Rightarrow> 'd \<Rightarrow> int \<times> u32 \<times> 'd" where
  "qdmalan_airoha_qdma_get_trtcm_param env chnl addr param mode high d =
     (let d = bus_wr (l_bus env) (REG_TRTCM_CFG_PARAM env addr) (lan_select env chnl param mode) d;
          (val_low, d) = bus_rr (l_bus env) (REG_TRTCM_DATA_LOW env addr) d;
          d = (if high then snd (bus_rr (l_bus env) (REG_TRTCM_DATA_HIGH env addr) d) else d)
      in (0, val_low, d))"

primrec set_param_retry ::
  "nat \<Rightarrow> 'd lan_env \<Rightarrow> u32 \<Rightarrow> u32 \<Rightarrow> u32 \<Rightarrow> u32 \<Rightarrow> u32 \<Rightarrow> 'd \<Rightarrow> 'd" where
  "set_param_retry 0 env chnl addr param mode val d = d"
| "set_param_retry (Suc retry_num) env chnl addr param mode val d =
     (let d = bus_wr (l_bus env) (REG_TRTCM_DATA_LOW env addr) val d;
          d = bus_wr (l_bus env) (REG_TRTCM_CFG_PARAM env addr)
                (TRTCM_PARAM_RW_MASK env OR lan_select env chnl param mode) d;
          (_, valueLo_tmp, d) = qdmalan_airoha_qdma_get_trtcm_param env chnl addr param mode True d
      in if val = valueLo_tmp then d else set_param_retry retry_num env chnl addr param mode val d)"

definition qdmalan_airoha_qdma_set_trtcm_param ::
  "'d lan_env \<Rightarrow> u32 \<Rightarrow> u32 \<Rightarrow> u32 \<Rightarrow> u32 \<Rightarrow> u32 \<Rightarrow> 'd \<Rightarrow> int \<times> 'd" where
  "qdmalan_airoha_qdma_set_trtcm_param env chnl addr param mode val d =
     (0, set_param_retry 100 env chnl addr param mode val d)"

definition qdmalan_airoha_qdma_set_trtcm_config ::
  "'d lan_env \<Rightarrow> u32 \<Rightarrow> u32 \<Rightarrow> u32 \<Rightarrow> bool \<Rightarrow> u32 \<Rightarrow> 'd \<Rightarrow> int \<times> 'd" where
  "qdmalan_airoha_qdma_set_trtcm_config env chnl addr mode enable enable_mask d =
     (let (err, val, d) = qdmalan_airoha_qdma_get_trtcm_param env chnl addr (TRTCM_MISC_MODE env) mode False d
      in if err \<noteq> 0 then (- EINVAL, d)
         else let val = (if enable then val OR enable_mask else val AND NOT enable_mask)
              in qdmalan_airoha_qdma_set_trtcm_param env chnl addr (TRTCM_MISC_MODE env) mode val d)"

section \<open>Token rate and bucket\<close>

definition lan_tick :: "'d lan_env \<Rightarrow> u32 \<Rightarrow> u32 \<Rightarrow> u32" where
  "lan_tick env config val =
     (let tick = FIELD_GET (INGRESS_FAST_TICK_MASK env) val
      in if config AND TRTCM_TICK_SEL env \<noteq> 0 then tick * FIELD_GET (INGRESS_SLOW_TICK_RATIO_MASK env) val else tick)"

definition lan_rate_word :: "'d lan_env \<Rightarrow> u32 \<Rightarrow> u32 \<Rightarrow> u32" where
  "lan_rate_word env rate_val unit =
     (let rate = rate_val div unit;
          rate_frac = rate_val mod unit;
          rate_frac = FIELD_PREP (TRTCM_TOKEN_RATE_MASK env) rate_frac div unit
      in FIELD_PREP (TRTCM_TOKEN_RATE_MASK env) rate OR FIELD_PREP (TRTCM_TOKEN_RATE_FRACTION_MASK env) rate_frac)"

definition lan_bucket_word :: "'d lan_env \<Rightarrow> egress_units \<Rightarrow> u32 \<Rightarrow> u32 \<Rightarrow> u32" where
  "lan_bucket_word env g rl_mode_cfg bucket_size =
     (let val = max bucket_size (MIN_TOKEN_SIZE env);
          bucket_unit = (if TRTCM_PKT_MODE env = drop_bit 1 (rl_mode_cfg AND TRTCM_PKT_MODE env)
                         then egress_packet_unit g else egress_byte_unit g)
      in min (word_of_int (biSearchGetBucketSizeShift val 0 17 bucket_unit)) (MAX_TOKEN_SIZE_OFFSET env))"

definition qdmalan_airoha_qdma_set_trtcm_token_bucket ::
  "'d lan_env \<Rightarrow> egress_units \<Rightarrow> u32 \<Rightarrow> u32 \<Rightarrow> u32 \<Rightarrow> u32 \<Rightarrow> u32 \<Rightarrow> 'd \<Rightarrow> int \<times> 'd" where
  "qdmalan_airoha_qdma_set_trtcm_token_bucket env g chnl addr mode rate_val bucket_size d =
     (let (err, config, d) = qdmalan_airoha_qdma_get_trtcm_param env chnl addr (TRTCM_MISC_MODE env) mode False d in
      if err \<noteq> 0 then (- EINVAL, d)
      else
        let (val, d) = bus_rr (l_bus env) addr d;
            tick = lan_tick env config val
        in if tick = 0 then (- EINVAL, d)
           else
             let unit = (if config AND TRTCM_PKT_MODE env \<noteq> 0 then 1000000 div tick else 8000 div tick)
             in if unit = 0 then (- EINVAL, d)
                else
                  let (err, d) = qdmalan_airoha_qdma_set_trtcm_param env chnl addr (TRTCM_TOKEN_RATE_MODE env) mode
                                   (lan_rate_word env rate_val unit) d
                  in if err \<noteq> 0 then (err, d)
                     else
                       let (err, rl_mode_cfg, d) = qdmalan_airoha_qdma_get_trtcm_param env chnl (REG_EGRESS_TRTCM_CFG env)
                                                     (TRTCM_MISC_MODE env) mode False d
                       in if err \<noteq> 0 then (err, d)
                          else qdmalan_airoha_qdma_set_trtcm_param env chnl addr (TRTCM_BUCKETSIZE_SHIFT_MODE env) mode
                                 (lan_bucket_word env g rl_mode_cfg bucket_size) d)"

section \<open>The rate limit of a channel\<close>

definition lan_bucket_size :: "'d lan_env \<Rightarrow> u32 \<Rightarrow> u32 \<Rightarrow> u32" where
  "lan_bucket_size env cfg rate =
     (let tick = FIELD_GET (EGRESS_FAST_TICK_MASK env) cfg in
      if 5000000 \<le> sint rate then 4096000
      else
        let tick = (if tick \<noteq> 0 then tick * FIELD_GET (EGRESS_SLOW_TICK_RATIO_MASK env) cfg else tick);
            tick = (if tick = 0 then 1 else tick);
            unit = 8000 div tick;
            unit = (if unit = 0 then 1 else unit);
            bucket_size = rate div unit + 1
        in if bucket_size < 4096 then 4096 else if 4096000 < bucket_size then 4096000 else bucket_size)"

primrec lan_modes :: "'d lan_env \<Rightarrow> egress_units \<Rightarrow> u32 \<Rightarrow> u32 \<Rightarrow> u32 \<Rightarrow> u32 list \<Rightarrow> 'd \<Rightarrow> int \<times> 'd" where
  "lan_modes env g chnl rate bucket_size [] d = (0, d)"
| "lan_modes env g chnl rate bucket_size (i # is) d =
     (let (err, d) = qdmalan_airoha_qdma_set_trtcm_config env chnl (REG_EGRESS_TRTCM_CFG env) i (rate \<noteq> 0)
                       (TRTCM_METER_MODE env) d in
      if err \<noteq> 0 then (err, d)
      else let (err, d) = qdmalan_airoha_qdma_set_trtcm_token_bucket env g chnl (REG_EGRESS_TRTCM_CFG env) i rate
                            bucket_size d
           in if err \<noteq> 0 then (err, d) else lan_modes env g chnl rate bucket_size is d)"

definition qdma_set_qdmalan_tx_ratelimit :: "'d lan_env \<Rightarrow> egress_units \<Rightarrow> u8 \<Rightarrow> u32 \<Rightarrow> 'd \<Rightarrow> int \<times> 'd" where
  "qdma_set_qdmalan_tx_ratelimit env g chnlIdx rateLimitValue d =
     (let (cfg, d) = bus_rr (l_bus env) (REG_EGRESS_TRTCM_CFG env) d
      in lan_modes env g (ucast chnlIdx) rateLimitValue (lan_bucket_size env cfg rateLimitValue) [0, 1] d)"

text \<open>The bucket word that the shared driver asks for: the reader of the mode word is the kernel's own, and when it
  fails the word is the position of the highest set bit of the size.\<close>

definition fls_word :: "u32 \<Rightarrow> nat" where
  "fls_word v = (case filter (bit v) (rev [0..<32]) of [] \<Rightarrow> 0 | n # _ \<Rightarrow> n)"

definition arht_set_bucket_size ::
  "(u32 \<Rightarrow> u32 \<Rightarrow> u32 \<Rightarrow> u32 \<Rightarrow> 'd \<Rightarrow> int \<times> u32 \<times> 'd) \<Rightarrow> 'd lan_env \<Rightarrow> egress_units \<Rightarrow> u32 \<Rightarrow> u32 \<Rightarrow> u32 \<Rightarrow> 'd \<Rightarrow> u32 \<times> 'd" where
  "arht_set_bucket_size get_trtcm_param env g chnl mode bucket_size d =
     (let (err, rl_mode_cfg, d) = get_trtcm_param chnl (REG_EGRESS_TRTCM_CFG env) (TRTCM_MISC_MODE env) mode d
      in if err \<noteq> 0
         then (min (of_nat (fls_word (max bucket_size (MIN_TOKEN_SIZE env)))) (MAX_TOKEN_SIZE_OFFSET env), d)
         else (lan_bucket_word env g rl_mode_cfg bucket_size, d))"

section \<open>The egress meters\<close>

text \<open>A store of words under selectors that may lose the next \<open>flaky\<close> writes. A write command stores the
  data register, a read command loads it, at once.\<close>

locale lan_hw =
  fixes env :: "'d lan_env" and mem :: "'d \<Rightarrow> u32 \<Rightarrow> u32" and cfg :: "'d \<Rightarrow> u32" and flaky :: "'d \<Rightarrow> nat"
  assumes write_cmd: "d' = bus_wr (l_bus env) (REG_TRTCM_CFG_PARAM env (REG_EGRESS_TRTCM_CFG env))
          (TRTCM_PARAM_RW_MASK env OR lan_select env c p m)
          (bus_wr (l_bus env) (REG_TRTCM_DATA_LOW env (REG_EGRESS_TRTCM_CFG env)) v d) \<Longrightarrow>
        mem d' = (if flaky d = 0 then (mem d)(lan_select env c p m := v) else mem d) \<and> flaky d' = flaky d - 1 \<and> cfg d' = cfg d"
    and read_cmd: "bus_rr (l_bus env) (REG_TRTCM_DATA_LOW env (REG_EGRESS_TRTCM_CFG env))
          (bus_wr (l_bus env) (REG_TRTCM_CFG_PARAM env (REG_EGRESS_TRTCM_CFG env)) (lan_select env c p m) d) = (v, d') \<Longrightarrow>
        v = mem d (lan_select env c p m) \<and> mem d' = mem d \<and> flaky d' = flaky d \<and> cfg d' = cfg d"
    and read_high: "bus_rr (l_bus env) (REG_TRTCM_DATA_HIGH env (REG_EGRESS_TRTCM_CFG env)) d = (v, d') \<Longrightarrow>
        mem d' = mem d \<and> flaky d' = flaky d \<and> cfg d' = cfg d"
    and read_cfg: "bus_rr (l_bus env) (REG_EGRESS_TRTCM_CFG env) d = (v, d') \<Longrightarrow>
        v = cfg d \<and> mem d' = mem d \<and> flaky d' = flaky d \<and> cfg d' = cfg d"
begin

abbreviation addr :: u32 where "addr \<equiv> REG_EGRESS_TRTCM_CFG env"

lemma get_param:
  "\<exists>d'. qdmalan_airoha_qdma_get_trtcm_param env c addr p m h d = (0, mem d (lan_select env c p m), d') \<and>
     mem d' = mem d \<and> flaky d' = flaky d \<and> cfg d' = cfg d"
proof -
  obtain v d1 where l: "bus_rr (l_bus env) (REG_TRTCM_DATA_LOW env addr)
      (bus_wr (l_bus env) (REG_TRTCM_CFG_PARAM env addr) (lan_select env c p m) d) = (v, d1)" by (rule prod.exhaust)
  obtain w d2 where h: "bus_rr (l_bus env) (REG_TRTCM_DATA_HIGH env addr) d1 = (w, d2)" by (rule prod.exhaust)
  show ?thesis using read_cmd [OF l] read_high [OF h]
    by (simp add: qdmalan_airoha_qdma_get_trtcm_param_def l h)
qed

lemma retry_writes:
  "flaky d < n \<Longrightarrow> mem (set_param_retry n env c addr p m v d) = (mem d)(lan_select env c p m := v) \<and>
     cfg (set_param_retry n env c addr p m v d) = cfg d \<and> flaky (set_param_retry n env c addr p m v d) \<le> flaky d"
proof (induction n arbitrary: d)
  case (Suc n)
  let ?d1 = "bus_wr (l_bus env) (REG_TRTCM_CFG_PARAM env addr) (TRTCM_PARAM_RW_MASK env OR lan_select env c p m)
      (bus_wr (l_bus env) (REG_TRTCM_DATA_LOW env addr) v d)"
  note W = write_cmd [OF refl, of c p m v d]
  obtain d2 where g: "qdmalan_airoha_qdma_get_trtcm_param env c addr p m True ?d1 = (0, mem ?d1 (lan_select env c p m), d2)"
    "mem d2 = mem ?d1" "flaky d2 = flaky ?d1" "cfg d2 = cfg ?d1" using get_param by blast
  have run: "set_param_retry (Suc n) env c addr p m v d =
      (if v = mem ?d1 (lan_select env c p m) then d2 else set_param_retry n env c addr p m v d2)"
    by (simp add: g(1) Let_def)
  show ?case
  proof (cases "v = mem ?d1 (lan_select env c p m)")
    case True
    then show ?thesis unfolding run using W g by (auto simp: fun_upd_idem split: if_splits)
  next
    case False
    then have "flaky d \<noteq> 0" "mem ?d1 = mem d" using W by (auto split: if_splits)
    then have "flaky d2 < n" "flaky d2 \<le> flaky d" "mem d2 = mem d" "cfg d2 = cfg d" using W g Suc.prems by auto
    with Suc.IH [of d2] show ?thesis unfolding run using False by auto
  qed
qed simp

lemma retry_lost:
  "n \<le> flaky d \<Longrightarrow> mem d (lan_select env c p m) \<noteq> v \<Longrightarrow> mem (set_param_retry n env c addr p m v d) = mem d"
proof (induction n arbitrary: d)
  case (Suc n)
  let ?d1 = "bus_wr (l_bus env) (REG_TRTCM_CFG_PARAM env addr) (TRTCM_PARAM_RW_MASK env OR lan_select env c p m)
      (bus_wr (l_bus env) (REG_TRTCM_DATA_LOW env addr) v d)"
  note W = write_cmd [OF refl, of c p m v d]
  obtain d2 where g: "qdmalan_airoha_qdma_get_trtcm_param env c addr p m True ?d1 = (0, mem ?d1 (lan_select env c p m), d2)"
    "mem d2 = mem ?d1" "flaky d2 = flaky ?d1" using get_param by blast
  show ?case using W g Suc.IH [of d2] Suc.prems by (simp add: Let_def)
qed simp

lemma set_param:
  assumes "flaky d < 100"
  shows "\<exists>d'. qdmalan_airoha_qdma_set_trtcm_param env c addr p m v d = (0, d') \<and>
     mem d' = (mem d)(lan_select env c p m := v) \<and> cfg d' = cfg d \<and> flaky d' < 100"
  using retry_writes [OF assms, of c p m v] assms
  by (auto simp: qdmalan_airoha_qdma_set_trtcm_param_def intro: le_less_trans)

text \<open>One mode of a channel: the enable bit, the rate word and the bucket word.\<close>

definition misc_word :: "u32 \<Rightarrow> u32 \<Rightarrow> u32" where
  "misc_word rate w = (if rate \<noteq> 0 then w OR TRTCM_METER_MODE env else w AND NOT (TRTCM_METER_MODE env))"

definition unit_of :: "u32 \<Rightarrow> u32 \<Rightarrow> u32" where
  "unit_of config v = (let tick = lan_tick env config v
     in if tick = 0 then 0 else if config AND TRTCM_PKT_MODE env \<noteq> 0 then 1000000 div tick else 8000 div tick)"

lemma set_config:
  assumes "flaky d < 100"
  shows "\<exists>d'. qdmalan_airoha_qdma_set_trtcm_config env c addr m (rate \<noteq> 0) (TRTCM_METER_MODE env) d = (0, d') \<and>
     mem d' = (mem d)(lan_select env c (TRTCM_MISC_MODE env) m := misc_word rate (mem d (lan_select env c (TRTCM_MISC_MODE env) m))) \<and>
     cfg d' = cfg d \<and> flaky d' < 100"
proof -
  let ?s = "lan_select env c (TRTCM_MISC_MODE env) m"
  obtain d1 where 1: "qdmalan_airoha_qdma_get_trtcm_param env c addr (TRTCM_MISC_MODE env) m False d = (0, mem d ?s, d1)"
    "mem d1 = mem d" "flaky d1 = flaky d" "cfg d1 = cfg d" using get_param by blast
  show ?thesis using set_param [of d1 c "TRTCM_MISC_MODE env" m "misc_word rate (mem d ?s)"] assms 1
    by (simp add: qdmalan_airoha_qdma_set_trtcm_config_def misc_word_def split del: if_split)
qed

lemma set_bucket:
  assumes "flaky d < 100" and "u = unit_of (mem d (lan_select env c (TRTCM_MISC_MODE env) m)) (cfg d)" and "u \<noteq> 0"
    and "lan_select env c (TRTCM_TOKEN_RATE_MODE env) m \<noteq> lan_select env c (TRTCM_MISC_MODE env) m"
  shows "\<exists>d'. qdmalan_airoha_qdma_set_trtcm_token_bucket env g c addr m rate b d = (0, d') \<and>
     mem d' = (mem d)(lan_select env c (TRTCM_TOKEN_RATE_MODE env) m := lan_rate_word env rate u,
                      lan_select env c (TRTCM_BUCKETSIZE_SHIFT_MODE env) m :=
                        lan_bucket_word env g (mem d (lan_select env c (TRTCM_MISC_MODE env) m)) b) \<and>
     cfg d' = cfg d \<and> flaky d' < 100"
proof -
  let ?s = "lan_select env c (TRTCM_MISC_MODE env) m" and ?t = "lan_select env c (TRTCM_TOKEN_RATE_MODE env) m"
  obtain d1 where 1: "qdmalan_airoha_qdma_get_trtcm_param env c addr (TRTCM_MISC_MODE env) m False d = (0, mem d ?s, d1)"
    "mem d1 = mem d" "flaky d1 = flaky d" "cfg d1 = cfg d" using get_param by blast
  obtain v d2 where 2: "bus_rr (l_bus env) addr d1 = (v, d2)" by (rule prod.exhaust)
  note C = read_cfg [OF 2]
  obtain d3 where 3: "qdmalan_airoha_qdma_set_trtcm_param env c addr (TRTCM_TOKEN_RATE_MODE env) m (lan_rate_word env rate u) d2 = (0, d3)"
    "mem d3 = (mem d2)(?t := lan_rate_word env rate u)" "cfg d3 = cfg d2" "flaky d3 < 100"
    using set_param [of d2] C 1 assms(1) by (metis)
  obtain d4 where 4: "qdmalan_airoha_qdma_get_trtcm_param env c addr (TRTCM_MISC_MODE env) m False d3 = (0, mem d3 ?s, d4)"
    "mem d4 = mem d3" "flaky d4 = flaky d3" "cfg d4 = cfg d3" using get_param by blast
  have s: "mem d3 ?s = mem d ?s" using 3 C 1 assms(4) by simp
  obtain d5 where 5: "qdmalan_airoha_qdma_set_trtcm_param env c addr (TRTCM_BUCKETSIZE_SHIFT_MODE env) m
      (lan_bucket_word env g (mem d ?s) b) d4 = (0, d5)"
    "mem d5 = (mem d4)(lan_select env c (TRTCM_BUCKETSIZE_SHIFT_MODE env) m := lan_bucket_word env g (mem d ?s) b)"
    "cfg d5 = cfg d4" "flaky d5 < 100"
    using set_param [of d4] 4 3 by metis
  have t: "lan_tick env (mem d ?s) v \<noteq> 0"
    "(if mem d ?s AND TRTCM_PKT_MODE env \<noteq> 0 then 1000000 div lan_tick env (mem d ?s) v else 8000 div lan_tick env (mem d ?s) v) = u"
    using assms(2,3) C 1 by (auto simp: unit_of_def Let_def split: if_splits)
  have "qdmalan_airoha_qdma_set_trtcm_token_bucket env g c addr m rate b d = (0, d5)"
    unfolding qdmalan_airoha_qdma_set_trtcm_token_bucket_def Let_def 1(1) 2 prod.case t(2)
    using t(1) assms(3) by (simp add: 3(1) 4(1) s 5(1))
  then show ?thesis using 5 4 3 C 1 by simp
qed

lemma set_mode:
  assumes "flaky d < 100" and "w = misc_word rate (mem d (lan_select env c (TRTCM_MISC_MODE env) m))" and "unit_of w (cfg d) \<noteq> 0"
    and "lan_select env c (TRTCM_TOKEN_RATE_MODE env) m \<noteq> lan_select env c (TRTCM_MISC_MODE env) m"
  shows "\<exists>d1 d2. qdmalan_airoha_qdma_set_trtcm_config env c addr m (rate \<noteq> 0) (TRTCM_METER_MODE env) d = (0, d1) \<and>
     qdmalan_airoha_qdma_set_trtcm_token_bucket env g c addr m rate b d1 = (0, d2) \<and>
     mem d2 = (mem d)(lan_select env c (TRTCM_MISC_MODE env) m := w,
        lan_select env c (TRTCM_TOKEN_RATE_MODE env) m := lan_rate_word env rate (unit_of w (cfg d)),
        lan_select env c (TRTCM_BUCKETSIZE_SHIFT_MODE env) m := lan_bucket_word env g w b) \<and> cfg d2 = cfg d \<and> flaky d2 < 100"
proof -
  obtain d1 where 1: "qdmalan_airoha_qdma_set_trtcm_config env c addr m (rate \<noteq> 0) (TRTCM_METER_MODE env) d = (0, d1)"
    "mem d1 = (mem d)(lan_select env c (TRTCM_MISC_MODE env) m := w)" "cfg d1 = cfg d" "flaky d1 < 100"
    using set_config [OF assms(1), of c m rate, folded assms(2)] by blast
  have "unit_of w (cfg d) = unit_of (mem d1 (lan_select env c (TRTCM_MISC_MODE env) m)) (cfg d1)"
    and "mem d1 (lan_select env c (TRTCM_MISC_MODE env) m) = w" using 1 by simp_all
  from set_bucket [OF 1(4) this(1) assms(3,4), of g rate b, unfolded this(2) 1(2,3) fun_upd_same] 1(1) show ?thesis by blast
qed

end

section \<open>A device\<close>

record ldev =
  l_mem :: "u32 \<Rightarrow> u32"
  l_cfg :: u32
  l_data :: u32
  l_flaky :: nat

definition ldev_bus :: "ldev bus" where
  "ldev_bus = \<lparr>bus_rr = (\<lambda>a d. (if a = 0 then l_cfg d else if a = 0x8 then l_data d else 0, d)),
     bus_wr = (\<lambda>a v d. if a = 0x8 then d\<lparr>l_data := v\<rparr>
        else if a = 0x4 then
          (if bit v 31
           then d\<lparr>l_mem := (if l_flaky d = 0 then (l_mem d)(v AND 0x7FFFFFFF := l_data d) else l_mem d), l_flaky := l_flaky d - 1\<rparr>
           else d\<lparr>l_data := l_mem d v\<rparr>)
        else d),
     bus_rmw = (\<lambda>a m v d. d)\<rparr>"

definition ldev_env :: "ldev lan_env" where
  "ldev_env = \<lparr>l_bus = ldev_bus, REG_TRTCM_CFG_PARAM = (\<lambda>a. a + 4), REG_TRTCM_DATA_LOW = (\<lambda>a. a + 8),
     REG_TRTCM_DATA_HIGH = (\<lambda>a. a + 0xc), REG_EGRESS_TRTCM_CFG = 0,
     TRTCM_PARAM_RW_MASK = 0x80000000, TRTCM_PARAM_TYPE_MASK = 0x30000000, TRTCM_METER_GROUP_MASK = 0x0C000000,
     TRTCM_PARAM_INDEX_MASK = 0x00FE0000, TRTCM_PARAM_RATE_TYPE_MASK = 0x00010000,
     QDMA_METER_IDX = (\<lambda>c. c AND 0xFF), QDMA_METER_GROUP = (\<lambda>c. drop_bit 8 c AND 0x3),
     TRTCM_METER_MODE = 4, TRTCM_PKT_MODE = 2, TRTCM_TICK_SEL = 1,
     INGRESS_FAST_TICK_MASK = 0xFFFF, INGRESS_SLOW_TICK_RATIO_MASK = 0x3FFF0000,
     EGRESS_FAST_TICK_MASK = 0xFFFF, EGRESS_SLOW_TICK_RATIO_MASK = 0x3FFF0000,
     TRTCM_TOKEN_RATE_MASK = 0x00FFFFC0, TRTCM_TOKEN_RATE_FRACTION_MASK = 0x3F,
     MIN_TOKEN_SIZE = 4096, MAX_TOKEN_SIZE_OFFSET = 17,
     TRTCM_MISC_MODE = 0, TRTCM_TOKEN_RATE_MODE = 1, TRTCM_BUCKETSIZE_SHIFT_MODE = 2\<rparr>"

lemma FIELD_PREP_bit: "bit (FIELD_PREP m v) n \<Longrightarrow> bit m n"
  by (simp add: FIELD_PREP_def bit_simps)

lemma ldev_select: "\<not> bit (lan_select ldev_env c p m) 31"
proof -
  have "\<not> bit (0x30000000 :: u32) 31" "\<not> bit (0x0C000000 :: u32) 31" "\<not> bit (0x00FE0000 :: u32) 31" "\<not> bit (0x00010000 :: u32) 31"
    by code_simp+
  then show ?thesis by (auto simp: lan_select_def ldev_env_def bit_or_iff dest: FIELD_PREP_bit)
qed

interpretation ldev: lan_hw ldev_env l_mem l_cfg l_flaky
proof
  fix d d' :: ldev and c p m v
  note S = select_clear [OF ldev_select, of c p m] and N = ldev_select [of c p m]
  show "d' = bus_wr (l_bus ldev_env) (REG_TRTCM_CFG_PARAM ldev_env (REG_EGRESS_TRTCM_CFG ldev_env))
      (TRTCM_PARAM_RW_MASK ldev_env OR lan_select ldev_env c p m)
      (bus_wr (l_bus ldev_env) (REG_TRTCM_DATA_LOW ldev_env (REG_EGRESS_TRTCM_CFG ldev_env)) v d) \<Longrightarrow>
    l_mem d' = (if l_flaky d = 0 then (l_mem d)(lan_select ldev_env c p m := v) else l_mem d) \<and>
      l_flaky d' = l_flaky d - 1 \<and> l_cfg d' = l_cfg d"
    using S by (simp add: ldev_env_def ldev_bus_def)
  show "bus_rr (l_bus ldev_env) (REG_TRTCM_DATA_LOW ldev_env (REG_EGRESS_TRTCM_CFG ldev_env))
      (bus_wr (l_bus ldev_env) (REG_TRTCM_CFG_PARAM ldev_env (REG_EGRESS_TRTCM_CFG ldev_env)) (lan_select ldev_env c p m) d) = (v, d') \<Longrightarrow>
    v = l_mem d (lan_select ldev_env c p m) \<and> l_mem d' = l_mem d \<and> l_flaky d' = l_flaky d \<and> l_cfg d' = l_cfg d"
    using N by (auto simp: ldev_env_def ldev_bus_def)
qed (auto simp: ldev_env_def ldev_bus_def)

section \<open>Properties\<close>

text \<open>Limiting the rate of a LAN channel writes, for the committed and the peak mode, the enable bit, the
  rate word in the unit of the mode's tick, and the bucket word, and nothing else, and it reports
  success, as long as fewer than a hundred writes are lost.\<close>

theorem lan_ratelimit_programs:
  fixes env :: "'d lan_env" and c :: u8
  defines "s \<equiv> lan_select env (ucast c)"
  assumes "lan_hw env mem cfg flaky" and "flaky d < 100"
    and "distinct [s (TRTCM_MISC_MODE env) 0, s (TRTCM_TOKEN_RATE_MODE env) 0, s (TRTCM_BUCKETSIZE_SHIFT_MODE env) 0,
                   s (TRTCM_MISC_MODE env) 1, s (TRTCM_TOKEN_RATE_MODE env) 1, s (TRTCM_BUCKETSIZE_SHIFT_MODE env) 1]"
    and "\<forall>m\<in>{0, 1}. lan_hw.unit_of env (lan_hw.misc_word env rate (mem d (s (TRTCM_MISC_MODE env) m))) (cfg d) \<noteq> 0"
  shows "\<exists>d'. qdma_set_qdmalan_tx_ratelimit env g c rate d = (0, d') \<and>
     (\<forall>m\<in>{0, 1}. let misc = lan_hw.misc_word env rate (mem d (s (TRTCM_MISC_MODE env) m)) in
        mem d' (s (TRTCM_MISC_MODE env) m) = misc \<and>
        mem d' (s (TRTCM_TOKEN_RATE_MODE env) m) = lan_rate_word env rate (lan_hw.unit_of env misc (cfg d)) \<and>
        mem d' (s (TRTCM_BUCKETSIZE_SHIFT_MODE env) m) = lan_bucket_word env g misc (lan_bucket_size env (cfg d) rate)) \<and>
     (\<forall>a. a \<notin> {s p m | p m. p \<in> {TRTCM_MISC_MODE env, TRTCM_TOKEN_RATE_MODE env, TRTCM_BUCKETSIZE_SHIFT_MODE env} \<and> m \<in> {0, 1}}
        \<longrightarrow> mem d' a = mem d a)"
proof -
  note H = assms(2)
  let ?b = "lan_bucket_size env (cfg d) rate" and ?M = "\<lambda>m. lan_hw.misc_word env rate (mem d (s (TRTCM_MISC_MODE env) m))"
  let ?U = "\<lambda>m. lan_hw.unit_of env (?M m) (cfg d)"
  obtain v d0 where 0: "bus_rr (l_bus env) (REG_EGRESS_TRTCM_CFG env) d = (v, d0)" by (rule prod.exhaust)
  note C = lan_hw.read_cfg [OF H 0]
  have d: "s (TRTCM_TOKEN_RATE_MODE env) 0 \<noteq> s (TRTCM_MISC_MODE env) 0" "s (TRTCM_TOKEN_RATE_MODE env) 1 \<noteq> s (TRTCM_MISC_MODE env) 1"
    "s (TRTCM_MISC_MODE env) 1 \<notin> {s (TRTCM_MISC_MODE env) 0, s (TRTCM_TOKEN_RATE_MODE env) 0, s (TRTCM_BUCKETSIZE_SHIFT_MODE env) 0}"
    using assms(4) by auto
  have u: "?U 0 \<noteq> 0" "?U 1 \<noteq> 0" using assms(5) by blast+
  note S = lan_hw.set_mode [OF H, of _ _ rate "ucast c" _ g ?b, folded s_def]
  have m0: "?M 0 = lan_hw.misc_word env rate (mem d0 (s (TRTCM_MISC_MODE env) 0))" "lan_hw.unit_of env (?M 0) (cfg d0) \<noteq> 0" "flaky d0 < 100"
    using C u assms(3) by simp_all
  obtain d1 d2 where 1: "qdmalan_airoha_qdma_set_trtcm_config env (ucast c) (REG_EGRESS_TRTCM_CFG env) 0 (rate \<noteq> 0) (TRTCM_METER_MODE env) d0 = (0, d1)"
      "qdmalan_airoha_qdma_set_trtcm_token_bucket env g (ucast c) (REG_EGRESS_TRTCM_CFG env) 0 rate ?b d1 = (0, d2)"
      "mem d2 = (mem d0)(s (TRTCM_MISC_MODE env) 0 := ?M 0, s (TRTCM_TOKEN_RATE_MODE env) 0 := lan_rate_word env rate (lan_hw.unit_of env (?M 0) (cfg d0)),
         s (TRTCM_BUCKETSIZE_SHIFT_MODE env) 0 := lan_bucket_word env g (?M 0) ?b)" "cfg d2 = cfg d0" "flaky d2 < 100"
    using S [OF m0(3,1,2) d(1)] by blast
  have m1: "?M 1 = lan_hw.misc_word env rate (mem d2 (s (TRTCM_MISC_MODE env) 1))" "lan_hw.unit_of env (?M 1) (cfg d2) \<noteq> 0"
    using C u 1(3,4) d(3) by simp_all
  obtain d3 d4 where 2: "qdmalan_airoha_qdma_set_trtcm_config env (ucast c) (REG_EGRESS_TRTCM_CFG env) 1 (rate \<noteq> 0) (TRTCM_METER_MODE env) d2 = (0, d3)"
      "qdmalan_airoha_qdma_set_trtcm_token_bucket env g (ucast c) (REG_EGRESS_TRTCM_CFG env) 1 rate ?b d3 = (0, d4)"
      "mem d4 = (mem d2)(s (TRTCM_MISC_MODE env) 1 := ?M 1, s (TRTCM_TOKEN_RATE_MODE env) 1 := lan_rate_word env rate (lan_hw.unit_of env (?M 1) (cfg d2)),
         s (TRTCM_BUCKETSIZE_SHIFT_MODE env) 1 := lan_bucket_word env g (?M 1) ?b)"
    using S [OF 1(5) m1 d(2)] by blast
  have run: "qdma_set_qdmalan_tx_ratelimit env g c rate d = (0, d4)"
    using C 1(1,2) 2(1,2) by (simp add: qdma_set_qdmalan_tx_ratelimit_def 0)
  have c: "cfg d0 = cfg d" "cfg d2 = cfg d" "mem d0 = mem d" using C 1 by simp_all
  note M = 2(3) [unfolded 1(3) c]
  have "mem d4 a = mem d a" if "a \<notin> {s p m | p m. p \<in> {TRTCM_MISC_MODE env, TRTCM_TOKEN_RATE_MODE env, TRTCM_BUCKETSIZE_SHIFT_MODE env} \<and> m \<in> {0, 1}}" for a
  proof -
    have "a \<noteq> s p m" if "p \<in> {TRTCM_MISC_MODE env, TRTCM_TOKEN_RATE_MODE env, TRTCM_BUCKETSIZE_SHIFT_MODE env}" "m \<in> {0, 1}" for p m
      using \<open>a \<notin> _\<close> that by blast
    then show ?thesis unfolding M by simp
  qed
  moreover have "(let misc = ?M m in mem d4 (s (TRTCM_MISC_MODE env) m) = misc \<and>
        mem d4 (s (TRTCM_TOKEN_RATE_MODE env) m) = lan_rate_word env rate (lan_hw.unit_of env misc (cfg d)) \<and>
        mem d4 (s (TRTCM_BUCKETSIZE_SHIFT_MODE env) m) = lan_bucket_word env g misc ?b)" if "m \<in> {0, 1}" for m
  proof -
    consider "m = 0" | "m = 1" using \<open>m \<in> {0, 1}\<close> by blast
    then show ?thesis unfolding Let_def by cases (use assms(4) in \<open>simp_all add: M\<close>)
  qed
  ultimately show ?thesis using run by blast
qed

definition ldev_start :: ldev where
  "ldev_start = \<lparr>l_mem = (\<lambda>_. 0), l_cfg = 0x00020019, l_data = 0, l_flaky = 5\<rparr>"

definition units_start :: egress_units where
  "units_start = \<lparr>egress_byte_unit = 1024, egress_packet_unit = 16\<rparr>"

theorem lan_ratelimit_programs_witness:
  "\<exists>d'. qdma_set_qdmalan_tx_ratelimit ldev_env units_start 3 100000 ldev_start = (0, d') \<and>
     l_mem d' 0x00060000 = 4 \<and> l_mem d' 0x10060000 = 0x4E20 \<and> l_mem d' 0x20060000 = 2"
proof -
  let ?s = "lan_select ldev_env (ucast (3 :: u8))"
  have f: "l_flaky ldev_start < 100" by code_simp
  have s: "?s 0 0 = 0x00060000" "?s 1 0 = 0x10060000" "?s 2 0 = 0x20060000" "?s 0 1 = 0x00070000" "?s 1 1 = 0x10070000"
    "?s 2 1 = 0x20070000" by code_simp+
  have e: "TRTCM_MISC_MODE ldev_env = 0" "TRTCM_TOKEN_RATE_MODE ldev_env = 1" "TRTCM_BUCKETSIZE_SHIFT_MODE ldev_env = 2"
    by code_simp+
  have m: "l_mem ldev_start a = 0" for a by (simp add: ldev_start_def)
  have w: "ldev.misc_word 100000 0 = 4" unfolding ldev.misc_word_def by code_simp
  have u: "ldev.unit_of 4 (l_cfg ldev_start) = 320" unfolding ldev.unit_of_def by code_simp
  have v: "lan_rate_word ldev_env 100000 320 = 0x4E20"
    "lan_bucket_word ldev_env units_start 4 (lan_bucket_size ldev_env (l_cfg ldev_start) 100000) = 2"
    by code_simp+
  have d: "distinct [?s (TRTCM_MISC_MODE ldev_env) 0, ?s (TRTCM_TOKEN_RATE_MODE ldev_env) 0, ?s (TRTCM_BUCKETSIZE_SHIFT_MODE ldev_env) 0,
      ?s (TRTCM_MISC_MODE ldev_env) 1, ?s (TRTCM_TOKEN_RATE_MODE ldev_env) 1, ?s (TRTCM_BUCKETSIZE_SHIFT_MODE ldev_env) 1]"
    unfolding e s by simp
  have n: "\<forall>x\<in>{0, 1}. ldev.unit_of (ldev.misc_word 100000 (l_mem ldev_start (?s (TRTCM_MISC_MODE ldev_env) x))) (l_cfg ldev_start) \<noteq> 0"
    unfolding m w u by simp
  from lan_ratelimit_programs [OF ldev.lan_hw_axioms f d n, of units_start]
  show ?thesis unfolding m w u v e Let_def s(1-3) [symmetric] by auto
qed

text \<open>A parameter write that the hardware never takes is tried a hundred times and then reported as done,
  with the word unchanged.\<close>

theorem lan_lost_write_reported_done:
  assumes "lan_hw env mem cfg flaky" and "100 \<le> flaky d" and "mem d (lan_select env c p m) \<noteq> v"
  shows "\<exists>d'. qdmalan_airoha_qdma_set_trtcm_param env c (REG_EGRESS_TRTCM_CFG env) p m v d = (0, d') \<and> mem d' = mem d"
  using lan_hw.retry_lost [OF assms(1,2,3)] by (simp add: qdmalan_airoha_qdma_set_trtcm_param_def)

theorem lan_lost_write_reported_done_witness:
  "\<exists>d'. qdmalan_airoha_qdma_set_trtcm_param ldev_env 3 0 1 0 0x4E20 (ldev_start\<lparr>l_flaky := 200\<rparr>) = (0, d') \<and> l_mem d' = (\<lambda>_. 0)"
proof -
  have h: "100 \<le> l_flaky (ldev_start\<lparr>l_flaky := 200\<rparr>)" "l_mem (ldev_start\<lparr>l_flaky := 200\<rparr>) (lan_select ldev_env 3 1 0) \<noteq> 0x4E20"
    by (simp_all add: ldev_start_def)
  have e: "REG_EGRESS_TRTCM_CFG ldev_env = 0" "l_mem (ldev_start\<lparr>l_flaky := 200\<rparr>) = (\<lambda>_. 0)"
    by (simp_all add: ldev_env_def ldev_start_def)
  from lan_lost_write_reported_done [OF ldev.lan_hw_axioms h, unfolded e] show ?thesis .
qed

text \<open>The bucket of a LAN meter is never counted in packets: the test that picks the packet unit compares the
  mode bit with the masked word shifted right by one, which no nonzero mode bit can equal.\<close>

theorem lan_bucket_ignores_packet_unit:
  assumes "TRTCM_PKT_MODE env \<noteq> 0"
  shows "lan_bucket_word env (g\<lparr>egress_packet_unit := x\<rparr>) w b = lan_bucket_word env g w b"
proof -
  have "unat (drop_bit 1 (w AND TRTCM_PKT_MODE env)) = unat (w AND TRTCM_PKT_MODE env) div 2"
    by (simp add: drop_bit_eq_div unat_div_distrib)
  also have "\<dots> \<le> unat (TRTCM_PKT_MODE env) div 2"
    using word_and_le1 [of w "TRTCM_PKT_MODE env"] by (simp only: word_le_nat_alt div_le_mono)
  also have "\<dots> < unat (TRTCM_PKT_MODE env)" using assms by (simp add: unat_gt_0)
  finally have "TRTCM_PKT_MODE env \<noteq> drop_bit 1 (w AND TRTCM_PKT_MODE env)" by auto
  then show ?thesis by (simp add: lan_bucket_word_def)
qed

theorem lan_bucket_ignores_packet_unit_witness:
  "lan_bucket_word ldev_env units_start 2 100000 = 7 \<and>
     lan_bucket_word ldev_env (units_start\<lparr>egress_packet_unit := 1\<rparr>) 2 100000 = 7"
proof -
  have "TRTCM_PKT_MODE ldev_env \<noteq> 0" "lan_bucket_word ldev_env units_start 2 100000 = 7" by code_simp+
  then show ?thesis using lan_bucket_ignores_packet_unit [of ldev_env 1 units_start 2 100000] by simp
qed

end
