(* ===== verification/WifiLo.thy ===== *)
theory WifiLo
  imports DynIfcPkt
begin

text \<open>
  The local fast path for Wi-Fi flows, \<^verbatim>\<open>airoha/arht_wifi_lo.c\<close>: thirty-two TCP sessions found
  through two hash tables, references on sockets, routes and ingress devices, an active counter
  that drives a static key from a worker, and devices that are released one RCU grace period
  after a session dies. A handler runs under \<^verbatim>\<open>wifi_lo_lock\<close> or inside one RCU section and is one
  step; the grace-period callback and the worker are steps of their own.
\<close>

section \<open>State\<close>

text \<open>Pointers are addresses, 0 is NULL. \<open>wl_timer\<close> is the expiry of a pending timer.\<close>

record wifi_lo =
  F_VALID :: bool
  F_SKIP_COPY :: bool
  F_IS_WIFI :: bool
  F_DEV_RELEASING :: bool
  wl_lport :: u16
  wl_rport :: u16
  wl_hash :: u16
  wl_sk :: u64
  wl_dev :: u64
  wl_last_tx :: u64
  wl_tx_dst :: u64
  wl_timer :: "u64 option"
  dev_pending_release :: u64

text \<open>The hash tables list the entries in the order a lookup meets them, newest first. \<open>sync_work\<close>: the
  worker is scheduled. The counts are the references this module takes and drops, \<open>wl_mark\<close> the
  marks it writes into sockets, \<open>wl_cleaned\<close> the port pairs it asked the engine to forget, newest
  first, \<open>wl_warned\<close> whether the once-only warning was reached.\<close>

record 'd wlo =
  wifi_lo_ety :: "wifi_lo list"
  wifi_lo_port_ht :: "nat list"
  wifi_lo_hash_ht :: "nat list"
  wifi_lo_active_num :: int
  wifi_lo_active_key :: bool
  sync_work :: bool
  wifi_lo_wifi_only :: bool
  wl_agg_num :: int
  wl_lro :: lro_save
  wl_regs :: 'd
  wifi_lo_apps_snap :: "wifi_lo_apps option"
  wl_sk_ref :: "u64 \<Rightarrow> int"
  wl_dst_ref :: "u64 \<Rightarrow> int"
  wl_dev_ref :: "u64 \<Rightarrow> int"
  wl_mark :: "u64 \<Rightarrow> u32"
  wl_cleaned :: "(u16 \<times> u16) list"
  wl_warned :: bool
  wifi_lo_lan_mac :: "u8 list"
  wifi_lo_lan_mac_ready :: bool

text \<open>The register bus, the tick rate, and what the kernel knows of a device.\<close>

record 'd wlo_env =
  wl_bus :: "'d bus"
  wl_HZ :: u64
  netif_is_bridge_master :: "u64 \<Rightarrow> bool"
  wifi_lo_is_wifi_dev :: "u64 \<Rightarrow> bool"

abbreviation WIFI_LO_MAX_NUM :: nat where "WIFI_LO_MAX_NUM \<equiv> 32"
abbreviation SK_MARK_WIFI_LO :: u32 where "SK_MARK_WIFI_LO \<equiv> 0xAE000001"
abbreviation PPE_MAGIC_LOCAL_OUT :: u16 where "PPE_MAGIC_LOCAL_OUT \<equiv> 0x72B0"
abbreviation REG_FE_LAN_MAC_H :: u32 where "REG_FE_LAN_MAC_H \<equiv> 0x1fb50040"

definition upd_lo :: "nat \<Rightarrow> (wifi_lo \<Rightarrow> wifi_lo) \<Rightarrow> 'd wlo \<Rightarrow> 'd wlo" where
  "upd_lo k f s = s\<lparr>wifi_lo_ety := (wifi_lo_ety s)[k := f (wifi_lo_ety s ! k)]\<rparr>"

section \<open>Active counter\<close>

definition wifi_lo_active_sync_work :: "'d wlo \<Rightarrow> 'd wlo" where
  "wifi_lo_active_sync_work s =
     (let want = 0 < wifi_lo_active_num s;
          have_key = wifi_lo_active_key s;
          s = s\<lparr>sync_work := False\<rparr>
      in if want \<and> \<not> have_key then s\<lparr>wifi_lo_active_key := True\<rparr>
         else if \<not> want \<and> have_key then s\<lparr>wifi_lo_active_key := False\<rparr>
         else s)"

definition wifi_lo_active_inc :: "'d wlo \<Rightarrow> 'd wlo" where
  "wifi_lo_active_inc s =
     (let s = s\<lparr>wifi_lo_active_num := wifi_lo_active_num s + 1\<rparr>
      in if wifi_lo_active_num s = 1 then s\<lparr>sync_work := True\<rparr> else s)"

section \<open>Lookups\<close>

definition wifi_lo_find_by_hash :: "u16 \<Rightarrow> 'd wlo \<Rightarrow> nat option" where
  "wifi_lo_find_by_hash hash s =
     (if hash = 0 then None
      else find (\<lambda>k. F_VALID (wifi_lo_ety s ! k) \<and> wl_hash (wifi_lo_ety s ! k) = hash) (wifi_lo_hash_ht s))"

definition wifi_lo_find_by_port :: "u16 \<Rightarrow> u16 \<Rightarrow> 'd wlo \<Rightarrow> nat option" where
  "wifi_lo_find_by_port lport rport s =
     find (\<lambda>k. F_VALID (wifi_lo_ety s ! k) \<and>
            \<not> (wl_lport (wifi_lo_ety s ! k) \<noteq> lport \<or> wl_rport (wifi_lo_ety s ! k) \<noteq> rport)) (wifi_lo_port_ht s)"

text \<open>\<open>None\<close> of the outer type is a read outside the linear data; \<open>Some (Some off)\<close> is the header's offset.\<close>

definition wifi_lo_get_tcp_header :: "pkt \<Rightarrow> u16 \<Rightarrow> int option option" where
  "wifi_lo_get_tcp_header p prot =
     (let hl = headlen p; nh_off = (word_of_int (net_header p) :: u32) in
      if hl < nh_off then Some None
      else if prot = htons_ETH_P_IPV6 then
        (if hl < nh_off + 40 + 20 then Some None
         else do {
           v \<leftarrow> rd8 (pkt_data p) (net_header p);
           nexthdr \<leftarrow> rd8 (pkt_data p) (net_header p + 6);
           Some (if drop_bit 4 v \<noteq> 6 \<or> nexthdr \<noteq> 6 then None else Some (net_header p + 40)) })
      else if prot = htons_ETH_P_IP then
        (if hl < nh_off + 20 then Some None
         else do {
           v \<leftarrow> rd8 (pkt_data p) (net_header p);
           prt \<leftarrow> rd8 (pkt_data p) (net_header p + 9);
           if drop_bit 4 v \<noteq> 4 \<or> v AND 0x0F < 5 \<or> prt \<noteq> 6 then Some None
           else let ihl = (ucast (v AND 0x0F) * 4 :: u32)
                in Some (if hl < nh_off + ihl + 20 then None else Some (net_header p + uint ihl)) })
      else Some None)"

definition wifi_lo_get_ety :: "pkt \<Rightarrow> u16 \<Rightarrow> bool \<Rightarrow> 'd wlo \<Rightarrow> nat option option" where
  "wifi_lo_get_ety p prot out s = do {
     th \<leftarrow> wifi_lo_get_tcp_header p prot;
     (case th of
        None \<Rightarrow> Some None
      | Some off \<Rightarrow> do {
          src \<leftarrow> rd16 (pkt_data p) off;
          dst \<leftarrow> rd16 (pkt_data p) (off + 2);
          Some (if out then wifi_lo_find_by_port src dst s else wifi_lo_find_by_port dst src s) }) }"

section \<open>Ingress device\<close>

definition wifi_lo_dev_release_rcu :: "nat \<Rightarrow> 'd wlo \<Rightarrow> 'd wlo" where
  "wifi_lo_dev_release_rcu k s =
     (let dev = dev_pending_release (wifi_lo_ety s ! k);
          s = upd_lo k (\<lambda>lo. lo\<lparr>dev_pending_release := 0, F_DEV_RELEASING := False\<rparr>) s
      in s\<lparr>wl_dev_ref := ref_dec dev (wl_dev_ref s)\<rparr>)"

definition wifi_lo_free_dev :: "nat \<Rightarrow> 'd wlo \<Rightarrow> 'd wlo" where
  "wifi_lo_free_dev k s =
     (let dev = wl_dev (wifi_lo_ety s ! k);
          s = upd_lo k (\<lambda>lo. lo\<lparr>wl_dev := 0\<rparr>) s
      in if dev = 0 then s
         else if F_DEV_RELEASING (wifi_lo_ety s ! k) then s\<lparr>wl_warned := True, wl_dev_ref := ref_dec dev (wl_dev_ref s)\<rparr>
         else upd_lo k (\<lambda>lo. lo\<lparr>F_DEV_RELEASING := True, dev_pending_release := dev\<rparr>) s)"

definition wifi_lo_publish_ingress_dev :: "'d wlo_env \<Rightarrow> nat \<Rightarrow> u64 \<Rightarrow> 'd wlo \<Rightarrow> 'd wlo" where
  "wifi_lo_publish_ingress_dev env k dev s =
     (if dev = 0 \<or> netif_is_bridge_master env dev then s
      else if wifi_lo_wifi_only s \<and> \<not> wifi_lo_is_wifi_dev env dev then s
      else
        let s = s\<lparr>wl_dev_ref := ref_inc dev (wl_dev_ref s)\<rparr> in
        if wl_dev (wifi_lo_ety s ! k) \<noteq> 0 then s\<lparr>wl_dev_ref := ref_dec dev (wl_dev_ref s)\<rparr>
        else upd_lo k (\<lambda>lo. lo\<lparr>wl_dev := dev, F_IS_WIFI := (if wifi_lo_is_wifi_dev env dev then True else F_IS_WIFI lo)\<rparr>) s)"

text \<open>\<open>fdb\<close> is the answer of the bridge's forwarding table for the packet's source address.\<close>

definition wifi_lo_bridge_port :: "'d wlo_env \<Rightarrow> u64 \<Rightarrow> bool \<Rightarrow> u64 option \<Rightarrow> u64" where
  "wifi_lo_bridge_port env skb_dev mac_set fdb =
     (if skb_dev = 0 \<or> \<not> netif_is_bridge_master env skb_dev \<or> \<not> mac_set then 0
      else case fdb of None \<Rightarrow> 0 | Some dev \<Rightarrow> dev)"

section \<open>LAN address\<close>

definition wifi_lo_read_macaddr_mmio :: "'d bus \<Rightarrow> 'd \<Rightarrow> u8 list \<times> 'd" where
  "wifi_lo_read_macaddr_mmio io d =
     (let (h, d) = bus_rr io REG_FE_LAN_MAC_H d;
          (l, d) = bus_rr io (REG_FE_LAN_MAC_H + 0x04) d
      in ([ucast (drop_bit 16 h AND 0xFF), ucast (drop_bit 8 h AND 0xFF), ucast (h AND 0xFF),
           ucast (drop_bit 16 l AND 0xFF), ucast (drop_bit 8 l AND 0xFF), ucast (l AND 0xFF)], d))"

definition wifi_lo_get_lan_mac :: "'d wlo_env \<Rightarrow> 'd wlo \<Rightarrow> u8 list \<times> 'd wlo" where
  "wifi_lo_get_lan_mac env s =
     (if wifi_lo_lan_mac_ready s then (wifi_lo_lan_mac s, s)
      else let (tmp, d) = wifi_lo_read_macaddr_mmio (wl_bus env) (wl_regs s)
           in (tmp, s\<lparr>wl_regs := d, wifi_lo_lan_mac := tmp, wifi_lo_lan_mac_ready := True\<rparr>))"

section \<open>Delivery of returned packets\<close>

text \<open>A packet on its way up: delivered to the local host, its device, and its checksum accepted.\<close>

record gro_pkt = pkt +
  pkt_host :: bool
  pkt_dev :: u64
  csum_ok :: bool

text \<open>\<open>raw_hash\<close> is the packet's flow hash; \<open>csum\<close> the kernel's header checksum over \<open>ihl\<close> words of the
  linear data. \<open>(0, _)\<close>: the packet is freed.\<close>

definition wifi_lo_prepare_gro ::
  "(u8 list \<Rightarrow> u8 \<Rightarrow> u16) \<Rightarrow> u32 \<Rightarrow> bool \<Rightarrow> gro_pkt \<Rightarrow> 'd wlo \<Rightarrow> (int \<times> gro_pkt \<times> 'd wlo) option" where
  "wifi_lo_prepare_gro csum raw_hash ipv6 p s =
     (if mac_header p = None then Some (0, p, s)
      else case wifi_lo_find_by_hash (ucast (raw_hash AND 0xFFFF)) s of
        None \<Rightarrow> Some (0, p, s)
      | Some k \<Rightarrow> do {
          let lo = wifi_lo_ety s ! k;
          let s = (if wl_sk lo \<noteq> 0 \<and> \<not> F_SKIP_COPY lo
                   then upd_lo k (\<lambda>lo. lo\<lparr>F_SKIP_COPY := True\<rparr>) (s\<lparr>wl_mark := (wl_mark s)(wl_sk lo := SK_MARK_WIFI_LO)\<rparr>)
                   else s);
          let p = p\<lparr>pkt_host := True\<rparr>;
          let p = (if wl_dev lo \<noteq> 0 then p\<lparr>pkt_dev := wl_dev lo\<rparr> else p);
          let p = p\<lparr>protocol := (if ipv6 then htons_ETH_P_IPV6 else htons_ETH_P_IP), csum_ok := True\<rparr>;
          if \<not> ipv6 then do {
            d \<leftarrow> wr16 2 (ntohs (ucast (pkt_len p))) (pkt_data p);
            d \<leftarrow> wr16 10 0 d;
            v \<leftarrow> rd8 d 0;
            d \<leftarrow> wr16 10 (csum d (v AND 0x0F)) d;
            Some (1, p\<lparr>pkt_data := d\<rparr>, s) }
          else do {
            d \<leftarrow> wr16 4 (ntohs (ucast (pkt_len p - 40))) (pkt_data p);
            Some (1, p\<lparr>pkt_data := d\<rparr>, s) } })"

text \<open>\<open>h_proto\<close> is the type field of the Ethernet header in front of the linear data. \<^verbatim>\<open>dst_clone\<close> takes one
  more reference on the same route.\<close>

definition wl_kfree_skb :: "pkt \<Rightarrow> 'd wlo \<Rightarrow> pp_result \<times> pkt \<times> 'd wlo" where
  "wl_kfree_skb p s = (Freed, p, if pkt_dst_ref p then s\<lparr>wl_dst_ref := ref_dec (pkt_dst p) (wl_dst_ref s)\<rparr> else s)"

definition wifi_lo_pingpong ::
  "(u64 \<Rightarrow> bool) \<Rightarrow> u16 \<Rightarrow> pkt \<Rightarrow> 'd wlo \<Rightarrow> (pp_result \<times> pkt \<times> 'd wlo) option" where
  "wifi_lo_pingpong dst_has_dev h_proto p s =
     (if mac_header p = None then Some (wl_kfree_skb p s)
      else do {
        let p = p\<lparr>net_header := 0\<rparr>;
        lo \<leftarrow> wifi_lo_get_ety p h_proto True s;
        let tx_dst = (case lo of
              None \<Rightarrow> 0
            | Some k \<Rightarrow> if F_VALID (wifi_lo_ety s ! k) then wl_tx_dst (wifi_lo_ety s ! k) else 0);
        if tx_dst = 0 then Some (wl_kfree_skb p s)
        else do {
          let s = s\<lparr>wl_dst_ref := ref_dec tx_dst (ref_inc tx_dst (ref_inc tx_dst (wl_dst_ref s)))\<rparr>;
          if \<not> dst_has_dev tx_dst
          then Some (wl_kfree_skb p (s\<lparr>wl_dst_ref := ref_dec tx_dst (wl_dst_ref s)\<rparr>))
          else let p = p\<lparr>inner_protocol := PPE_MAGIC_LOCAL_OUT, pkt_dst := tx_dst, pkt_dst_ref := True\<rparr>
               in Some (Output tx_dst (pkt_sk p), p, s) } })"

section \<open>Session lifecycle\<close>

definition wl_lro_save :: "'d wlo_env \<Rightarrow> 'd wlo \<Rightarrow> 'd wlo" where
  "wl_lro_save env s =
     (let (l, d) = wifi_lo_lro_save_and_set_agg_num (wl_bus env) (wl_agg_num s) (wl_lro s, wl_regs s)
      in s\<lparr>wl_lro := l, wl_regs := d\<rparr>)"

definition wl_lro_restore :: "'d wlo_env \<Rightarrow> 'd wlo \<Rightarrow> 'd wlo" where
  "wl_lro_restore env s =
     (let (l, d) = wifi_lo_lro_restore_agg_num (wl_bus env) (wl_lro s, wl_regs s)
      in s\<lparr>wl_lro := l, wl_regs := d\<rparr>)"

definition unhash_lo :: "nat \<Rightarrow> 'd wlo \<Rightarrow> 'd wlo" where
  "unhash_lo k s = s\<lparr>wifi_lo_port_ht := removeAll k (wifi_lo_port_ht s), wifi_lo_hash_ht := removeAll k (wifi_lo_hash_ht s)\<rparr>"

text \<open>What an expired session gives up under the lock, and the counter afterwards. \<open>sock_in_use\<close> is the hook
  of the dynamic-IFC module, when it is loaded; \<open>ppe_clean\<close> whether the engine's clean-up hook is
  installed.\<close>

definition timeout_detach :: "bool \<Rightarrow> bool \<Rightarrow> nat \<Rightarrow> 'd wlo \<Rightarrow> 'd wlo" where
  "timeout_detach difc_active ppe_clean k s =
     (let e = wifi_lo_ety s ! k;
          s = (if wl_sk e \<noteq> 0 \<and> \<not> difc_active then s\<lparr>wl_mark := (wl_mark s)(wl_sk e := 0)\<rparr> else s);
          s = upd_lo k (\<lambda>lo. lo\<lparr>wl_sk := 0\<rparr>) s;
          s = (if \<not> difc_active \<and> ppe_clean
               then s\<lparr>wl_cleaned := (ntohs (wl_rport e), ntohs (wl_lport e)) # wl_cleaned s\<rparr> else s);
          s = unhash_lo k s;
          s = wifi_lo_free_dev k s
      in upd_lo k (\<lambda>lo. lo\<lparr>wl_tx_dst := 0, F_IS_WIFI := False, F_VALID := False, wl_hash := 0\<rparr>) s)"

definition timeout_count :: "'d wlo_env \<Rightarrow> bool \<Rightarrow> 'd wlo \<Rightarrow> 'd wlo" where
  "timeout_count env difc_active s =
     (let s = s\<lparr>wifi_lo_active_num := wifi_lo_active_num s - 1\<rparr>
      in if wifi_lo_active_num s = 0
         then (let s = s\<lparr>sync_work := True\<rparr> in if \<not> difc_active then wl_lro_restore env s else s)
         else s)"

definition wifi_lo_timeout ::
  "'d wlo_env \<Rightarrow> (u16 \<Rightarrow> u16 \<Rightarrow> int) option \<Rightarrow> bool \<Rightarrow> u64 \<Rightarrow> nat \<Rightarrow> 'd wlo \<Rightarrow> 'd wlo" where
  "wifi_lo_timeout env sock_in_use ppe_clean jiffies k s =
     (let s = upd_lo k (\<lambda>lo. lo\<lparr>wl_timer := None\<rparr>) s;
          e = wifi_lo_ety s ! k
      in if time_before jiffies (wl_last_tx e + wl_HZ env)
         then upd_lo k (\<lambda>lo. lo\<lparr>wl_timer := Some (jiffies + wl_HZ env)\<rparr>) s
         else
           let difc_active = (case sock_in_use of None \<Rightarrow> False | Some f \<Rightarrow> f (ntohs (wl_rport e)) (ntohs (wl_lport e)) \<noteq> 0);
               s = timeout_count env difc_active (timeout_detach difc_active ppe_clean k s)
           in s\<lparr>wl_dst_ref := ref_dec (wl_tx_dst e) (wl_dst_ref s), wl_sk_ref := ref_dec (wl_sk e) (wl_sk_ref s)\<rparr>)"

text \<open>\<open>full_sk\<close>: the packet's socket is a full socket with a live count; otherwise it is not tracked.\<close>

definition wifi_lo_add_ety ::
  "'d wlo_env \<Rightarrow> u64 \<Rightarrow> u64 \<Rightarrow> u64 \<Rightarrow> bool \<Rightarrow> u16 \<Rightarrow> u16 \<Rightarrow> 'd wlo \<Rightarrow> 'd wlo" where
  "wifi_lo_add_ety env jiffies dst sk full_sk source dest s =
     (let sk = (if full_sk then sk else 0) in
      case find (\<lambda>i. \<not> (F_VALID (wifi_lo_ety s ! i) \<or> F_DEV_RELEASING (wifi_lo_ety s ! i))) [0..<WIFI_LO_MAX_NUM] of
        None \<Rightarrow> s\<lparr>wl_sk_ref := ref_dec sk (ref_inc sk (wl_sk_ref s)), wl_dst_ref := ref_dec dst (ref_inc dst (wl_dst_ref s))\<rparr>
      | Some k \<Rightarrow>
          let s = s\<lparr>wl_sk_ref := ref_inc sk (wl_sk_ref s), wl_dst_ref := ref_inc dst (wl_dst_ref s)\<rparr>;
              s = upd_lo k (\<lambda>lo. lo\<lparr>wl_lport := source, wl_rport := dest, wl_tx_dst := dst, wl_last_tx := jiffies,
                    wl_hash := 0, wl_dev := 0, wl_sk := sk, F_VALID := False, F_SKIP_COPY := False,
                    F_IS_WIFI := False, F_DEV_RELEASING := False\<rparr>) s;
              s = s\<lparr>wifi_lo_port_ht := k # wifi_lo_port_ht s\<rparr>;
              s = upd_lo k (\<lambda>lo. lo\<lparr>F_VALID := True\<rparr>) s;
              s = wl_lro_save env s;
              s = upd_lo k (\<lambda>lo. lo\<lparr>wl_timer := Some (jiffies + wl_HZ env)\<rparr>) s
          in wifi_lo_active_inc s)"

definition wifi_lo_hash_publish :: "nat \<Rightarrow> u16 \<Rightarrow> 'd wlo \<Rightarrow> 'd wlo" where
  "wifi_lo_hash_publish k new_hash s =
     (if F_VALID (wifi_lo_ety s ! k) \<and> wl_hash (wifi_lo_ety s ! k) = 0
      then (upd_lo k (\<lambda>lo. lo\<lparr>wl_hash := new_hash\<rparr>) s)\<lparr>wifi_lo_hash_ht := k # wifi_lo_hash_ht s\<rparr>
      else s)"

section \<open>Netfilter hooks\<close>

text \<open>Always accepts; the result says whether the packet was offered to the packet engine.\<close>

definition wifi_lo_nf_hook_local_in ::
  "'d wlo_env \<Rightarrow> u32 \<Rightarrow> u64 \<Rightarrow> u64 option \<Rightarrow> pkt \<Rightarrow> 'd wlo \<Rightarrow> (bool \<times> 'd wlo) option" where
  "wifi_lo_nf_hook_local_in env raw_hash skb_dev fdb p s =
     (if \<not> wifi_lo_active_key s then Some (False, s)
      else do {
        lo \<leftarrow> wifi_lo_get_ety p (protocol p) False s;
        (case lo of
           None \<Rightarrow> Some (False, s)
         | Some k \<Rightarrow>
             let s = (if wl_dev (wifi_lo_ety s ! k) = 0 \<and> skb_dev \<noteq> 0
                      then let dev = (if netif_is_bridge_master env skb_dev
                                      then wifi_lo_bridge_port env skb_dev (mac_header p \<noteq> None) fdb else skb_dev)
                           in if dev \<noteq> 0 then wifi_lo_publish_ingress_dev env k dev s else s
                      else s)
             in if wifi_lo_wifi_only s \<and> \<not> F_IS_WIFI (wifi_lo_ety s ! k) then Some (False, s)
                else
                  let hash = ucast (raw_hash AND 0xFFFF);
                      s = (if hash \<noteq> 0 \<and> wl_hash (wifi_lo_ety s ! k) = 0 then wifi_lo_hash_publish k hash s else s)
                  in Some (True, s)) })"

text \<open>\<open>Stolen f\<close>: the frame \<open>f\<close> was handed to the fast transmit function on channel 7.\<close>

datatype lo_act = Accept | Stolen pkt

text \<open>What the kernel supplies with a packet on its way out.\<close>

record out_ctx =
  oc_jiffies :: u64
  oc_fast_tx :: bool
  oc_cow_ok :: bool
  oc_comm :: string
  oc_full_sk :: bool

definition fast_tx_frame :: "u8 list \<Rightarrow> pkt \<Rightarrow> pkt" where
  "fast_tx_frame mac p = p\<lparr>inner_protocol := PPE_MAGIC_LOCAL_OUT,
     pkt_data := take 6 mac @ take 6 mac @ le16 (protocol p) @ pkt_data p,
     pkt_len := pkt_len p + 14, net_header := net_header p + 14\<rparr>"

text \<open>The session a packet may leave by: with \<open>wifi_only\<close> set its ingress must be known to be Wi-Fi.\<close>

definition fast_path_session :: "u16 \<Rightarrow> u16 \<Rightarrow> 'd wlo \<Rightarrow> nat option" where
  "fast_path_session source dest s =
     (case wifi_lo_find_by_port source dest s of
        None \<Rightarrow> None
      | Some k \<Rightarrow> if \<not> wifi_lo_wifi_only s \<or> F_IS_WIFI (wifi_lo_ety s ! k) then Some k else None)"

definition wifi_lo_nf_hook_local_out ::
  "'d wlo_env \<Rightarrow> out_ctx \<Rightarrow> pkt \<Rightarrow> 'd wlo \<Rightarrow> (lo_act \<times> 'd wlo) option" where
  "wifi_lo_nf_hook_local_out env c p s = do {
     th \<leftarrow> wifi_lo_get_tcp_header p (protocol p);
     (case th of
        None \<Rightarrow> Some (Accept, s)
      | Some off \<Rightarrow> do {
          source \<leftarrow> rd16 (pkt_data p) off;
          dest \<leftarrow> rd16 (pkt_data p) (off + 2);
          (case (if wifi_lo_active_key s then fast_path_session source dest s else None) of
             Some k \<Rightarrow>
               let now = oc_jiffies c;
                   s = (if drop_bit 2 (wl_HZ env) \<le> now - wl_last_tx (wifi_lo_ety s ! k)
                        then upd_lo k (\<lambda>lo. lo\<lparr>wl_last_tx := now\<rparr>) s else s)
               in if \<not> oc_fast_tx c then Some (Accept, s)
                  else if \<not> oc_cow_ok c then Some (Accept, s)
                  else let (mac, s) = wifi_lo_get_lan_mac env s in Some (Stolen (fast_tx_frame mac p), s)
           | None \<Rightarrow>
               Some (Accept, if wifi_lo_app_match (oc_comm c) (wifi_lo_apps_snap s)
                             then wifi_lo_add_ety env (oc_jiffies c) (pkt_dst p) (pkt_sk p) (oc_full_sk c) source dest s
                             else s)) }) }"

section \<open>The proc file\<close>

text \<open>The formats the command parser scans: \<^verbatim>\<open>%31s\<close>, \<^verbatim>\<open>%31s %d\<close> and \<^verbatim>\<open>%d %31s\<close>.\<close>

record lo_scanner =
  lscan_s :: "string \<Rightarrow> string option"
  lscan_s_d :: "string \<Rightarrow> int option"
  lscan_d_s :: "string \<Rightarrow> (int \<times> string) option"

definition wifi_lo_proc_write :: "lo_scanner \<Rightarrow> bool \<Rightarrow> bool \<Rightarrow> string \<Rightarrow> 'd wlo \<Rightarrow> int \<times> 'd wlo" where
  "wifi_lo_proc_write sc alloc_ok copy_ok buf s =
     (if buf = [] \<or> 63 < length buf then (- EINVAL, s)
      else if \<not> copy_ok then (- EFAULT, s)
      else
        let str = takeWhile (\<lambda>c. c \<noteq> CHR 0x00) buf; count = int (length buf) in
        case lscan_s sc str of
          None \<Rightarrow> (- EINVAL, s)
        | Some cmd \<Rightarrow>
            if cmd = ''agg_num'' then
              (case lscan_s_d sc str of
                 None \<Rightarrow> (count, s)
               | Some val \<Rightarrow> if val < 1 \<or> 255 < val then (count, s) else (count, s\<lparr>wl_agg_num := val\<rparr>))
            else if cmd = ''wifi_only'' then
              (case lscan_s_d sc str of
                 None \<Rightarrow> (count, s)
               | Some val \<Rightarrow> (count, s\<lparr>wifi_lo_wifi_only := (val \<noteq> 0)\<rparr>))
            else
              (case lscan_d_s sc str of
                 None \<Rightarrow> (count, s)
               | Some (val, name) \<Rightarrow>
                   (count, s\<lparr>wifi_lo_apps_snap := snd ((if val \<noteq> 0 then wifi_lo_app_add else wifi_lo_app_del)
                      alloc_ok name (wifi_lo_apps_snap s))\<rparr>)))"

end
