(* ===== verification/WifiLoInv.thy ===== *)
theory WifiLoInv
  imports WifiLo DynIfcInv
begin

text \<open>
  The invariant of the local fast path and its preservation: the hash tables hold exactly the live
  sessions, the counter counts them, references on sockets, routes and devices are exactly what
  the table holds, a slot whose device awaits its grace period is never live or reused, and the
  LRO limit is overridden while a session is live.
\<close>

section \<open>The pieces\<close>

definition slot_ok :: "wifi_lo \<Rightarrow> bool" where
  "slot_ok lo \<longleftrightarrow> (F_VALID lo \<longrightarrow> \<not> F_DEV_RELEASING lo) \<and> (F_DEV_RELEASING lo \<longleftrightarrow> dev_pending_release lo \<noteq> 0) \<and>
     (F_VALID lo \<longleftrightarrow> wl_timer lo \<noteq> None) \<and>
     (\<not> F_VALID lo \<longrightarrow> wl_sk lo = 0 \<and> wl_tx_dst lo = 0 \<and> wl_dev lo = 0 \<and> wl_hash lo = 0)"

definition live_count :: "wifi_lo list \<Rightarrow> int" where
  "live_count ety = sum_list (map (\<lambda>lo. of_bool (F_VALID lo)) ety)"

definition wl_core ::
  "(u64 \<Rightarrow> int) \<Rightarrow> (u64 \<Rightarrow> int) \<Rightarrow> (u64 \<Rightarrow> int) \<Rightarrow> wifi_lo list \<Rightarrow> nat list \<Rightarrow> nat list \<Rightarrow> int \<Rightarrow>
     (u64 \<Rightarrow> int) \<Rightarrow> (u64 \<Rightarrow> int) \<Rightarrow> (u64 \<Rightarrow> int) \<Rightarrow> bool" where
  "wl_core bs bd bv ety ph hh num sr dr vr \<longleftrightarrow> length ety = 32 \<and> (\<forall>k<32. slot_ok (ety ! k)) \<and>
     distinct ph \<and> (\<forall>k. k \<in> set ph \<longleftrightarrow> k < 32 \<and> F_VALID (ety ! k)) \<and>
     distinct hh \<and> (\<forall>k. k \<in> set hh \<longleftrightarrow> k < 32 \<and> F_VALID (ety ! k) \<and> wl_hash (ety ! k) \<noteq> 0) \<and>
     num = live_count ety \<and>
     (\<forall>x. x \<noteq> 0 \<longrightarrow> sr x = bs x + held_refs wl_sk ety x \<and> dr x = bd x + held_refs wl_tx_dst ety x \<and>
        vr x = bv x + held_refs wl_dev ety x + held_refs dev_pending_release ety x)"

abbreviation core_of :: "(u64 \<Rightarrow> int) \<Rightarrow> (u64 \<Rightarrow> int) \<Rightarrow> (u64 \<Rightarrow> int) \<Rightarrow> 'd wlo \<Rightarrow> bool" where
  "core_of bs bd bv s \<equiv> wl_core bs bd bv (wifi_lo_ety s) (wifi_lo_port_ht s) (wifi_lo_hash_ht s) (wifi_lo_active_num s)
     (wl_sk_ref s) (wl_dst_ref s) (wl_dev_ref s)"

lemma wcore_len: "wl_core bs bd bv ety ph hh num sr dr vr \<Longrightarrow> length ety = 32"
  by (simp add: wl_core_def)

lemma core_slot: "wl_core bs bd bv ety ph hh num sr dr vr \<Longrightarrow> k < 32 \<Longrightarrow> slot_ok (ety ! k)"
  by (simp add: wl_core_def)

lemma core_upd:
  assumes C: "wl_core bs bd bv ety ph hh num sr dr vr" and k: "k < 32" and ok: "slot_ok lo"
    and ph: "distinct ph'" "\<And>j. j \<in> set ph' \<longleftrightarrow> (if j = k then F_VALID lo else j \<in> set ph)"
    and hh: "distinct hh'" "\<And>j. j \<in> set hh' \<longleftrightarrow> (if j = k then F_VALID lo \<and> wl_hash lo \<noteq> 0 else j \<in> set hh)"
    and num: "num' = num - of_bool (F_VALID (ety ! k)) + of_bool (F_VALID lo)"
    and refs: "\<And>x. x \<noteq> 0 \<Longrightarrow> sr' x = sr x - of_bool (wl_sk (ety ! k) = x) + of_bool (wl_sk lo = x)"
      "\<And>x. x \<noteq> 0 \<Longrightarrow> dr' x = dr x - of_bool (wl_tx_dst (ety ! k) = x) + of_bool (wl_tx_dst lo = x)"
      "\<And>x. x \<noteq> 0 \<Longrightarrow> vr' x = vr x - of_bool (wl_dev (ety ! k) = x) - of_bool (dev_pending_release (ety ! k) = x) +
          of_bool (wl_dev lo = x) + of_bool (dev_pending_release lo = x)"
  shows "wl_core bs bd bv (ety[k := lo]) ph' hh' num' sr' dr' vr'"
proof -
  have len: "length ety = 32" by (rule wcore_len [OF C])
  have slots: "\<forall>j<32. slot_ok (ety[k := lo] ! j)" using C ok len k by (auto simp: wl_core_def nth_list_update)
  have tabs: "\<forall>j. j \<in> set ph' \<longleftrightarrow> j < 32 \<and> F_VALID (ety[k := lo] ! j)"
    "\<forall>j. j \<in> set hh' \<longleftrightarrow> j < 32 \<and> F_VALID (ety[k := lo] ! j) \<and> wl_hash (ety[k := lo] ! j) \<noteq> 0"
    using C k len by (auto simp: ph(2) hh(2) wl_core_def nth_list_update)
  have n: "num' = live_count (ety[k := lo])"
    using C k len by (simp add: num wl_core_def live_count_def map_update sum_list_upd)
  have "\<forall>x. x \<noteq> 0 \<longrightarrow> sr' x = bs x + held_refs wl_sk (ety[k := lo]) x \<and> dr' x = bd x + held_refs wl_tx_dst (ety[k := lo]) x \<and>
      vr' x = bv x + held_refs wl_dev (ety[k := lo]) x + held_refs dev_pending_release (ety[k := lo]) x"
    using C k len by (auto simp: refs wl_core_def held_refs_upd)
  then show ?thesis unfolding wl_core_def using len slots tabs n ph(1) hh(1) by simp
qed

text \<open>An update that leaves validity, hash and references of the entry alone.\<close>

definition same_lo :: "wifi_lo \<Rightarrow> wifi_lo \<Rightarrow> bool" where
  "same_lo lo lo' \<longleftrightarrow> F_VALID lo = F_VALID lo' \<and> wl_hash lo = wl_hash lo' \<and> wl_sk lo = wl_sk lo' \<and>
     wl_tx_dst lo = wl_tx_dst lo' \<and> wl_dev lo = wl_dev lo' \<and> dev_pending_release lo = dev_pending_release lo'"

lemma wcore_touch:
  assumes "wl_core bs bd bv ety ph hh num sr dr vr" and "k < 32" and "slot_ok lo" and "same_lo lo (ety ! k)"
  shows "wl_core bs bd bv (ety[k := lo]) ph hh num sr dr vr"
  using assms by (intro core_upd [OF assms(1-3)]) (auto simp: wl_core_def same_lo_def)

lemma live_count_pos: "length ety = 32 \<Longrightarrow> 0 < live_count ety \<longleftrightarrow> (\<exists>k<32. F_VALID (ety ! k))"
proof -
  assume l: "length ety = 32"
  have "0 \<le> live_count xs \<and> (0 < live_count xs \<longleftrightarrow> (\<exists>lo\<in>set xs. F_VALID lo))" for xs
    by (induction xs) (auto simp: live_count_def)
  then show ?thesis using l by (metis in_set_conv_nth)
qed

lemma ref_dec_at: "x \<noteq> 0 \<Longrightarrow> ref_dec p r x = r x - of_bool (p = x)"
  by (simp add: ref_dec_def)

lemma ref_inc_at: "x \<noteq> 0 \<Longrightarrow> ref_inc p r x = r x + of_bool (p = x)"
  by (simp add: ref_inc_def)

lemma find_by_portD:
  assumes "core_of bs bd bv s" and "wifi_lo_find_by_port l r s = Some k"
  shows "k < 32" "F_VALID (wifi_lo_ety s ! k)" "wl_lport (wifi_lo_ety s ! k) = l" "wl_rport (wifi_lo_ety s ! k) = r"
  using assms by (auto simp: wifi_lo_find_by_port_def wl_core_def find_Some_iff dest!: nth_mem)

lemma find_by_hashD:
  assumes "core_of bs bd bv s" and "wifi_lo_find_by_hash h s = Some k"
  shows "k < 32" "F_VALID (wifi_lo_ety s ! k)" "wl_hash (wifi_lo_ety s ! k) = h" "h \<noteq> 0"
  using assms by (auto simp: wifi_lo_find_by_hash_def wl_core_def find_Some_iff dest!: nth_mem split: if_splits)

section \<open>The invariant\<close>

locale wlo_world =
  fixes env :: "'d wlo_env" and peek :: "'d \<Rightarrow> u32 \<Rightarrow> u32"
  assumes regs: "plain_regs (wl_bus env) peek"
begin

sublocale plain_regs "wl_bus env" peek
  by (rule regs)

sublocale lro: agg_override peek PHY_REG_CDM1_LRO_LIMIT PHY_REG_CDM2_LRO_LIMIT CDM_LRO_AGG_NUM_MASK_VAL
    "wifi_lo_lro_save_and_set_agg_num (wl_bus env)" "wifi_lo_lro_restore_agg_num (wl_bus env)"
  by (rule lro_wifi_override)

definition wl_inv :: "(u32 \<Rightarrow> u32) \<Rightarrow> (u64 \<Rightarrow> int) \<Rightarrow> (u64 \<Rightarrow> int) \<Rightarrow> (u64 \<Rightarrow> int) \<Rightarrow> 'd wlo \<Rightarrow> bool" where
  "wl_inv t bs bd bv s \<longleftrightarrow> core_of bs bd bv s \<and> \<not> wl_warned s \<and>
     (\<not> sync_work s \<longrightarrow> (wifi_lo_active_key s \<longleftrightarrow> 0 < wifi_lo_active_num s)) \<and>
     lro.held t (wl_lro s, wl_regs s) \<and> (0 < wifi_lo_active_num s \<longrightarrow> lro_agg_num_saved (wl_lro s))"

text \<open>Changes that leave counter, key and override alone.\<close>

lemma inv_touch:
  assumes "wl_inv t bs bd bv s" and "core_of bs bd bv s'" and "wl_warned s' = wl_warned s"
    and "sync_work s' = sync_work s" "wifi_lo_active_key s' = wifi_lo_active_key s"
      "wifi_lo_active_num s' = wifi_lo_active_num s" "wl_lro s' = wl_lro s" "wl_regs s' = wl_regs s"
  shows "wl_inv t bs bd bv s'"
  using assms unfolding wl_inv_def by simp

lemma inv_publish:
  assumes I: "wl_inv t bs bd bv s" and k: "k < 32" and v: "F_VALID (wifi_lo_ety s ! k)"
  shows "wl_inv t bs bd bv (wifi_lo_publish_ingress_dev env k dev s)"
proof -
  let ?lo = "wifi_lo_ety s ! k"
  have C: "core_of bs bd bv s" using I by (simp add: wl_inv_def)
  have ok: "slot_ok ?lo" by (rule core_slot [OF C k])
  have put: "ref_dec dev (ref_inc dev (wl_dev_ref s)) = wl_dev_ref s" by (auto simp: ref_dec_def ref_inc_def fun_eq_iff)
  show ?thesis
  proof (cases "dev = 0 \<or> netif_is_bridge_master env dev \<or> wifi_lo_wifi_only s \<and> \<not> wifi_lo_is_wifi_dev env dev \<or> wl_dev ?lo \<noteq> 0")
    case True
    then have "wifi_lo_publish_ingress_dev env k dev s = s"
      by (auto simp: wifi_lo_publish_ingress_dev_def put)
    then show ?thesis using I by simp
  next
    case False
    let ?lo' = "?lo\<lparr>wl_dev := dev, F_IS_WIFI := (if wifi_lo_is_wifi_dev env dev then True else F_IS_WIFI ?lo)\<rparr>"
    have s': "wifi_lo_publish_ingress_dev env k dev s =
        s\<lparr>wl_dev_ref := ref_inc dev (wl_dev_ref s), wifi_lo_ety := (wifi_lo_ety s)[k := ?lo']\<rparr>"
      using False by (auto simp: wifi_lo_publish_ingress_dev_def upd_lo_def)
    have "wl_core bs bd bv ((wifi_lo_ety s)[k := ?lo']) (wifi_lo_port_ht s) (wifi_lo_hash_ht s) (wifi_lo_active_num s)
        (wl_sk_ref s) (wl_dst_ref s) (ref_inc dev (wl_dev_ref s))"
      using C ok v False k by (intro core_upd [OF C k]) (auto simp: slot_ok_def wl_core_def ref_inc_at)
    then show ?thesis unfolding s' by (intro inv_touch [OF I]) simp_all
  qed
qed

lemma inv_hash_publish:
  assumes I: "wl_inv t bs bd bv s" and k: "k < 32" and h: "h \<noteq> 0"
  shows "wl_inv t bs bd bv (wifi_lo_hash_publish k h s)"
proof (cases "F_VALID (wifi_lo_ety s ! k) \<and> wl_hash (wifi_lo_ety s ! k) = 0")
  case True
  let ?lo = "wifi_lo_ety s ! k"
  have C: "core_of bs bd bv s" using I by (simp add: wl_inv_def)
  have ok: "slot_ok (?lo\<lparr>wl_hash := h\<rparr>)" using core_slot [OF C k] True by (auto simp: slot_ok_def)
  have "wl_core bs bd bv ((wifi_lo_ety s)[k := ?lo\<lparr>wl_hash := h\<rparr>]) (wifi_lo_port_ht s) (k # wifi_lo_hash_ht s)
      (wifi_lo_active_num s) (wl_sk_ref s) (wl_dst_ref s) (wl_dev_ref s)"
    using C True h k by (intro core_upd [OF C k ok]) (auto simp: wl_core_def)
  then show ?thesis using True by (intro inv_touch [OF I]) (simp_all add: wifi_lo_hash_publish_def upd_lo_def)
next
  case False
  then show ?thesis using I by (auto simp: wifi_lo_hash_publish_def)
qed

lemma inv_release:
  assumes I: "wl_inv t bs bd bv s" and k: "k < 32" and r: "F_DEV_RELEASING (wifi_lo_ety s ! k)"
  shows "wl_inv t bs bd bv (wifi_lo_dev_release_rcu k s)"
proof -
  let ?lo = "wifi_lo_ety s ! k"
  have C: "core_of bs bd bv s" using I by (simp add: wl_inv_def)
  have ok: "slot_ok ?lo" by (rule core_slot [OF C k])
  have "wl_core bs bd bv ((wifi_lo_ety s)[k := ?lo\<lparr>dev_pending_release := 0, F_DEV_RELEASING := False\<rparr>]) (wifi_lo_port_ht s)
      (wifi_lo_hash_ht s) (wifi_lo_active_num s) (wl_sk_ref s) (wl_dst_ref s) (ref_dec (dev_pending_release ?lo) (wl_dev_ref s))"
    using C ok r k by (intro core_upd [OF C k]) (auto simp: slot_ok_def wl_core_def ref_dec_at)
  then show ?thesis by (intro inv_touch [OF I]) (simp_all add: wifi_lo_dev_release_rcu_def upd_lo_def Let_def)
qed

lemma inv_sync: "wl_inv t bs bd bv s \<Longrightarrow> wl_inv t bs bd bv (wifi_lo_active_sync_work s)"
  by (auto simp: wl_inv_def wifi_lo_active_sync_work_def Let_def)

lemma lro_save_eq:
  "\<exists>l d. wl_lro_save env s = s\<lparr>wl_lro := l, wl_regs := d\<rparr> \<and> lro_agg_num_saved l \<and>
     (lro.held t (wl_lro s, wl_regs s) \<longrightarrow> lro.held t (l, d))"
proof -
  obtain l d where w: "wifi_lo_lro_save_and_set_agg_num (wl_bus env) (wl_agg_num s) (wl_lro s, wl_regs s) = (l, d)"
    by (rule prod.exhaust)
  have "lro_agg_num_saved l"
    using w lro.save_free [of "wl_lro s" "wl_agg_num s" "wl_regs s" l d] lro.save_held [of "wl_lro s" "wl_agg_num s" "wl_regs s"]
    by (cases "lro_agg_num_saved (wl_lro s)") auto
  then show ?thesis using lro.held_save [of t "(wl_lro s, wl_regs s)" "wl_agg_num s"] w
    by (auto simp: wl_lro_save_def)
qed

lemma lro_restore_eq:
  "\<exists>l d. wl_lro_restore env s = s\<lparr>wl_lro := l, wl_regs := d\<rparr> \<and> \<not> lro_agg_num_saved l \<and>
     (lro.held t (wl_lro s, wl_regs s) \<longrightarrow> lro.held t (l, d))"
proof -
  obtain l d where w: "wifi_lo_lro_restore_agg_num (wl_bus env) (wl_lro s, wl_regs s) = (l, d)"
    by (rule prod.exhaust)
  then show ?thesis using lro.held_restore [of t "(wl_lro s, wl_regs s)"] lro.restore_clears [of "wl_lro s" "wl_regs s"]
    by (auto simp: wl_lro_restore_def)
qed

text \<open>A new session takes the first slot that is neither live nor waiting for its grace period.\<close>

definition free_slot :: "'d wlo \<Rightarrow> nat option" where
  "free_slot s = find (\<lambda>i. \<not> (F_VALID (wifi_lo_ety s ! i) \<or> F_DEV_RELEASING (wifi_lo_ety s ! i))) [0..<WIFI_LO_MAX_NUM]"

definition new_lo :: "u64 \<Rightarrow> u64 \<Rightarrow> u64 \<Rightarrow> u16 \<Rightarrow> u16 \<Rightarrow> wifi_lo" where
  "new_lo jiffies dst sk source dest = \<lparr>F_VALID = True, F_SKIP_COPY = False, F_IS_WIFI = False, F_DEV_RELEASING = False,
     wl_lport = source, wl_rport = dest, wl_hash = 0, wl_sk = sk, wl_dev = 0, wl_last_tx = jiffies, wl_tx_dst = dst,
     wl_timer = Some (jiffies + wl_HZ env), dev_pending_release = 0\<rparr>"

lemma add_eq:
  assumes C: "core_of bs bd bv s"
  shows "case free_slot s of
      None \<Rightarrow> wifi_lo_add_ety env j dst sk full src dest s = s
    | Some k \<Rightarrow> k < 32 \<and> \<not> F_VALID (wifi_lo_ety s ! k) \<and> \<not> F_DEV_RELEASING (wifi_lo_ety s ! k) \<and>
        (\<exists>l d b. wifi_lo_add_ety env j dst sk full src dest s = s\<lparr>
           wl_sk_ref := ref_inc (if full then sk else 0) (wl_sk_ref s), wl_dst_ref := ref_inc dst (wl_dst_ref s),
           wifi_lo_ety := (wifi_lo_ety s)[k := new_lo j dst (if full then sk else 0) src dest],
           wifi_lo_port_ht := k # wifi_lo_port_ht s, wl_lro := l, wl_regs := d,
           wifi_lo_active_num := wifi_lo_active_num s + 1, sync_work := b\<rparr> \<and> lro_agg_num_saved l \<and>
           (lro.held t (wl_lro s, wl_regs s) \<longrightarrow> lro.held t (l, d)) \<and>
           (b \<longleftrightarrow> sync_work s \<or> wifi_lo_active_num s = 0))"
proof (cases "free_slot s")
  case None
  then show ?thesis
    by (simp add: free_slot_def wifi_lo_add_ety_def Let_def)
      (simp add: ref_dec_def ref_inc_def fun_eq_iff)
next
  case (Some k)
  have k: "k < 32" "\<not> F_VALID (wifi_lo_ety s ! k)" "\<not> F_DEV_RELEASING (wifi_lo_ety s ! k)"
    using find_upt_SomeD [OF Some [unfolded free_slot_def]] by auto
  have pend: "dev_pending_release (wifi_lo_ety s ! k) = 0" using core_slot [OF C k(1)] k by (simp add: slot_ok_def)
  let ?sk = "if full then sk else 0"
  let ?lo0 = "(wifi_lo_ety s ! k)\<lparr>wl_lport := src, wl_rport := dest, wl_tx_dst := dst, wl_last_tx := j,
                    wl_hash := 0, wl_dev := 0, wl_sk := ?sk, F_SKIP_COPY := False,
                    F_IS_WIFI := False, F_DEV_RELEASING := False, F_VALID := True\<rparr>"
  let ?s = "s\<lparr>wl_sk_ref := ref_inc ?sk (wl_sk_ref s), wl_dst_ref := ref_inc dst (wl_dst_ref s),
     wifi_lo_ety := (wifi_lo_ety s)[k := ?lo0], wifi_lo_port_ht := k # wifi_lo_port_ht s\<rparr>"
  obtain l d where L: "wl_lro_save env ?s = ?s\<lparr>wl_lro := l, wl_regs := d\<rparr>" "lro_agg_num_saved l"
    "lro.held t (wl_lro s, wl_regs s) \<longrightarrow> lro.held t (l, d)"
    using lro_save_eq [of ?s t] by auto
  have len: "length (wifi_lo_ety s) = 32" by (rule wcore_len [OF C])
  have f: "find (\<lambda>i. \<not> (F_VALID (wifi_lo_ety s ! i) \<or> F_DEV_RELEASING (wifi_lo_ety s ! i))) [0..<32] = Some k"
    using Some by (simp add: free_slot_def)
  have u: "upd_lo k (\<lambda>lo. lo\<lparr>F_VALID := True\<rparr>) ((upd_lo k (\<lambda>lo. lo\<lparr>wl_lport := src, wl_rport := dest, wl_tx_dst := dst,
        wl_last_tx := j, wl_hash := 0, wl_dev := 0, wl_sk := ?sk, F_VALID := False, F_SKIP_COPY := False,
        F_IS_WIFI := False, F_DEV_RELEASING := False\<rparr>) (s\<lparr>wl_sk_ref := ref_inc ?sk (wl_sk_ref s),
        wl_dst_ref := ref_inc dst (wl_dst_ref s)\<rparr>))\<lparr>wifi_lo_port_ht := k # wifi_lo_port_ht s\<rparr>) = ?s"
    using len k(1) by (cases s) (simp add: upd_lo_def split del: if_split)
  have lo': "?lo0\<lparr>wl_timer := Some (j + wl_HZ env)\<rparr> = new_lo j dst ?sk src dest"
    using pend by (cases "wifi_lo_ety s ! k") (simp add: new_lo_def split del: if_split)
  have t: "upd_lo k (\<lambda>lo. lo\<lparr>wl_timer := Some (j + wl_HZ env)\<rparr>) (?s\<lparr>wl_lro := l, wl_regs := d\<rparr>) =
      ?s\<lparr>wl_lro := l, wl_regs := d, wifi_lo_ety := (wifi_lo_ety s)[k := new_lo j dst ?sk src dest]\<rparr>"
    using len k(1) lo' by (cases s) (simp add: upd_lo_def split del: if_split)
  have p: "wifi_lo_port_ht (upd_lo n g x) = wifi_lo_port_ht x" for n g and x :: "'d wlo" by (simp add: upd_lo_def)
  have q: "wifi_lo_port_ht (s\<lparr>wl_sk_ref := a, wl_dst_ref := b\<rparr>) = wifi_lo_port_ht s" for a b by simp
  have a: "wifi_lo_add_ety env j dst sk full src dest s = wifi_lo_active_inc
      (?s\<lparr>wl_lro := l, wl_regs := d, wifi_lo_ety := (wifi_lo_ety s)[k := new_lo j dst ?sk src dest]\<rparr>)"
    unfolding wifi_lo_add_ety_def Let_def f option.case p q u L(1) t ..
  have "wifi_lo_add_ety env j dst sk full src dest s = s\<lparr>
      wl_sk_ref := ref_inc ?sk (wl_sk_ref s), wl_dst_ref := ref_inc dst (wl_dst_ref s),
      wifi_lo_ety := (wifi_lo_ety s)[k := new_lo j dst ?sk src dest],
      wifi_lo_port_ht := k # wifi_lo_port_ht s, wl_lro := l, wl_regs := d,
      wifi_lo_active_num := wifi_lo_active_num s + 1, sync_work := sync_work s \<or> wifi_lo_active_num s = 0\<rparr>"
    unfolding a by (cases s; cases "wifi_lo_active_num s = 0")
      (simp_all add: wifi_lo_active_inc_def Let_def split del: if_split)
  with Some k L(2,3) show ?thesis by auto
qed

lemma inv_add:
  assumes I: "wl_inv t bs bd bv s"
  shows "wl_inv t bs bd bv (wifi_lo_add_ety env j dst sk full src dest s)"
proof -
  have C: "core_of bs bd bv s" and H: "lro.held t (wl_lro s, wl_regs s)" using I by (simp_all add: wl_inv_def)
  note A = add_eq [OF C, of j dst sk full src dest t]
  show ?thesis
  proof (cases "free_slot s")
    case None
    then show ?thesis using A I by simp
  next
    case (Some k)
    let ?sk = "if full then sk else 0"
    obtain l d b where k: "k < 32" "\<not> F_VALID (wifi_lo_ety s ! k)" "\<not> F_DEV_RELEASING (wifi_lo_ety s ! k)"
      and s': "wifi_lo_add_ety env j dst sk full src dest s = s\<lparr>
           wl_sk_ref := ref_inc ?sk (wl_sk_ref s), wl_dst_ref := ref_inc dst (wl_dst_ref s),
           wifi_lo_ety := (wifi_lo_ety s)[k := new_lo j dst ?sk src dest],
           wifi_lo_port_ht := k # wifi_lo_port_ht s, wl_lro := l, wl_regs := d,
           wifi_lo_active_num := wifi_lo_active_num s + 1, sync_work := b\<rparr>"
      and L: "lro_agg_num_saved l" "lro.held t (l, d)" "b \<longleftrightarrow> sync_work s \<or> wifi_lo_active_num s = 0"
      using A H Some by auto
    have ok: "slot_ok (new_lo j dst ?sk src dest)" by (simp add: new_lo_def slot_ok_def)
    have o: "wl_sk (wifi_lo_ety s ! k) = 0" "wl_tx_dst (wifi_lo_ety s ! k) = 0" "wl_dev (wifi_lo_ety s ! k) = 0"
      "dev_pending_release (wifi_lo_ety s ! k) = 0" using core_slot [OF C k(1)] k by (simp_all add: slot_ok_def)
    have "wl_core bs bd bv ((wifi_lo_ety s)[k := new_lo j dst ?sk src dest]) (k # wifi_lo_port_ht s) (wifi_lo_hash_ht s)
        (wifi_lo_active_num s + 1) (ref_inc ?sk (wl_sk_ref s)) (ref_inc dst (wl_dst_ref s)) (wl_dev_ref s)"
      using C k o by (intro core_upd [OF C k(1) ok]) (auto simp: wl_core_def new_lo_def ref_inc_at)
    moreover have "0 \<le> wifi_lo_active_num s"
      using C by (auto simp: wl_core_def live_count_def intro!: sum_list_nonneg)
    ultimately show ?thesis using I L unfolding s' wl_inv_def by auto
  qed
qed

text \<open>An expired session is gone; its device waits for the grace period.\<close>

definition dead_lo :: "wifi_lo \<Rightarrow> wifi_lo" where
  "dead_lo e = e\<lparr>wl_timer := None, wl_sk := 0, wl_dev := 0, wl_tx_dst := 0, F_IS_WIFI := False, F_VALID := False,
     wl_hash := 0, F_DEV_RELEASING := wl_dev e \<noteq> 0, dev_pending_release := wl_dev e\<rparr>"

definition expired_mark :: "bool \<Rightarrow> 'd wlo \<Rightarrow> wifi_lo \<Rightarrow> u64 \<Rightarrow> u32" where
  "expired_mark da s e = (if wl_sk e \<noteq> 0 \<and> \<not> da then (wl_mark s)(wl_sk e := 0) else wl_mark s)"

definition expired_cleaned :: "bool \<Rightarrow> bool \<Rightarrow> 'd wlo \<Rightarrow> wifi_lo \<Rightarrow> (u16 \<times> u16) list" where
  "expired_cleaned da cl s e = (if \<not> da \<and> cl then (ntohs (wl_rport e), ntohs (wl_lport e)) # wl_cleaned s else wl_cleaned s)"

lemma detach_eq:
  assumes "length (wifi_lo_ety s) = 32" and "k < 32" and "e = wifi_lo_ety s ! k" and "wl_timer e = None"
    and "\<not> F_DEV_RELEASING e" and "dev_pending_release e = 0"
  shows "timeout_detach da cl0 k s = s\<lparr>wl_mark := expired_mark da s e, wl_cleaned := expired_cleaned da cl0 s e,
     wifi_lo_port_ht := removeAll k (wifi_lo_port_ht s), wifi_lo_hash_ht := removeAll k (wifi_lo_hash_ht s),
     wifi_lo_ety := (wifi_lo_ety s)[k := dead_lo e]\<rparr>"
proof -
  let ?mk = "expired_mark da s e" and ?cl = "expired_cleaned da cl0 s e"
  have d: "dead_lo e = (if wl_dev e = 0 then e\<lparr>wl_sk := 0, wl_dev := 0, wl_tx_dst := 0, F_IS_WIFI := False, F_VALID := False, wl_hash := 0\<rparr>
      else e\<lparr>wl_sk := 0, wl_dev := 0, F_DEV_RELEASING := True, dev_pending_release := wl_dev e, wl_tx_dst := 0, F_IS_WIFI := False,
        F_VALID := False, wl_hash := 0\<rparr>)"
    using assms(4-6) by (cases e) (simp add: dead_lo_def)
  define s1 where "s1 = s\<lparr>wl_mark := ?mk, wl_cleaned := ?cl, wifi_lo_port_ht := removeAll k (wifi_lo_port_ht s),
      wifi_lo_hash_ht := removeAll k (wifi_lo_hash_ht s), wifi_lo_ety := (wifi_lo_ety s)[k := e\<lparr>wl_sk := 0\<rparr>]\<rparr>"
  have a: "(if wl_sk e \<noteq> 0 \<and> \<not> da then s\<lparr>wl_mark := (wl_mark s)(wl_sk e := 0)\<rparr> else s) = s\<lparr>wl_mark := ?mk\<rparr>"
    by (cases s) (simp add: expired_mark_def)
  have b: "(if \<not> da \<and> cl0 then (upd_lo k (\<lambda>lo. lo\<lparr>wl_sk := 0\<rparr>) (s\<lparr>wl_mark := ?mk\<rparr>))\<lparr>wl_cleaned :=
      (ntohs (wl_rport e), ntohs (wl_lport e)) # wl_cleaned (upd_lo k (\<lambda>lo. lo\<lparr>wl_sk := 0\<rparr>) (s\<lparr>wl_mark := ?mk\<rparr>))\<rparr>
      else upd_lo k (\<lambda>lo. lo\<lparr>wl_sk := 0\<rparr>) (s\<lparr>wl_mark := ?mk\<rparr>)) = (upd_lo k (\<lambda>lo. lo\<lparr>wl_sk := 0\<rparr>) (s\<lparr>wl_mark := ?mk\<rparr>))\<lparr>wl_cleaned := ?cl\<rparr>"
    by (cases s) (simp add: expired_cleaned_def upd_lo_def)
  have c: "unhash_lo k ((upd_lo k (\<lambda>lo. lo\<lparr>wl_sk := 0\<rparr>) (s\<lparr>wl_mark := ?mk\<rparr>))\<lparr>wl_cleaned := ?cl\<rparr>) = s1"
    using assms(3) by (cases s) (simp add: unhash_lo_def upd_lo_def s1_def)
  have e1: "wifi_lo_ety s1 ! k = e\<lparr>wl_sk := 0\<rparr>" "length (wifi_lo_ety s1) = 32" using assms(1,2) by (simp_all add: s1_def)
  have "upd_lo k (\<lambda>lo. lo\<lparr>wl_tx_dst := 0, F_IS_WIFI := False, F_VALID := False, wl_hash := 0\<rparr>) (wifi_lo_free_dev k s1) =
      s1\<lparr>wifi_lo_ety := (wifi_lo_ety s)[k := dead_lo e]\<rparr>"
    using e1 assms(2,5) by (cases "wl_dev e = 0") (simp_all add: wifi_lo_free_dev_def upd_lo_def Let_def d, simp_all add: s1_def)
  then have "timeout_detach da cl0 k s = s1\<lparr>wifi_lo_ety := (wifi_lo_ety s)[k := dead_lo e]\<rparr>"
    unfolding timeout_detach_def Let_def assms(3) [symmetric] a b c .
  then show ?thesis unfolding s1_def by simp
qed

lemma count_eq:
  "\<exists>l d. timeout_count env da s = s\<lparr>wifi_lo_active_num := wifi_lo_active_num s - 1,
      sync_work := (sync_work s \<or> wifi_lo_active_num s = 1), wl_lro := l, wl_regs := d\<rparr> \<and>
     (lro.held t (wl_lro s, wl_regs s) \<longrightarrow> lro.held t (l, d)) \<and>
     (wifi_lo_active_num s \<noteq> 1 \<or> da \<longrightarrow> l = wl_lro s \<and> d = wl_regs s) \<and> (wifi_lo_active_num s = 1 \<and> \<not> da \<longrightarrow> \<not> lro_agg_num_saved l)"
proof (cases "wifi_lo_active_num s = 1 \<and> \<not> da")
  case True
  let ?s = "s\<lparr>wifi_lo_active_num := 0, sync_work := True\<rparr>"
  obtain l d where "wl_lro_restore env ?s = ?s\<lparr>wl_lro := l, wl_regs := d\<rparr>" "\<not> lro_agg_num_saved l"
    "lro.held t (wl_lro s, wl_regs s) \<longrightarrow> lro.held t (l, d)" using lro_restore_eq [of ?s t] by auto
  then show ?thesis using True by (intro exI [of _ l] exI [of _ d]) (simp add: timeout_count_def Let_def)
next
  case False
  then show ?thesis by (intro exI [of _ "wl_lro s"] exI [of _ "wl_regs s"], cases s) (auto simp: timeout_count_def Let_def)
qed

lemma timeout_eq:
  fixes iu :: "(u16 \<Rightarrow> u16 \<Rightarrow> int) option"
  assumes C: "core_of bs bd bv s" and k: "k < 32" and t: "wl_timer (wifi_lo_ety s ! k) \<noteq> None"
  defines "e \<equiv> wifi_lo_ety s ! k"
  defines "da \<equiv> (case iu of None \<Rightarrow> False | Some f \<Rightarrow> f (ntohs (wl_rport e)) (ntohs (wl_lport e)) \<noteq> (0 :: int))"
  shows "if time_before j (wl_last_tx e + wl_HZ env)
    then wifi_lo_timeout env iu cl0 j k s = s\<lparr>wifi_lo_ety := (wifi_lo_ety s)[k := e\<lparr>wl_timer := Some (j + wl_HZ env)\<rparr>]\<rparr>
    else \<exists>l d. wifi_lo_timeout env iu cl0 j k s = s\<lparr>wl_mark := expired_mark da s e, wl_cleaned := expired_cleaned da cl0 s e,
        wifi_lo_port_ht := removeAll k (wifi_lo_port_ht s), wifi_lo_hash_ht := removeAll k (wifi_lo_hash_ht s),
        wifi_lo_ety := (wifi_lo_ety s)[k := dead_lo e], wifi_lo_active_num := wifi_lo_active_num s - 1,
        sync_work := (sync_work s \<or> wifi_lo_active_num s = 1), wl_lro := l, wl_regs := d,
        wl_dst_ref := ref_dec (wl_tx_dst e) (wl_dst_ref s), wl_sk_ref := ref_dec (wl_sk e) (wl_sk_ref s)\<rparr> \<and>
      (lro.held r (wl_lro s, wl_regs s) \<longrightarrow> lro.held r (l, d)) \<and>
      (wifi_lo_active_num s \<noteq> 1 \<or> da \<longrightarrow> l = wl_lro s \<and> d = wl_regs s) \<and> (wifi_lo_active_num s = 1 \<and> \<not> da \<longrightarrow> \<not> lro_agg_num_saved l)"
proof -
  have len: "length (wifi_lo_ety s) = 32" by (rule wcore_len [OF C])
  have v: "F_VALID e" "\<not> F_DEV_RELEASING e" "dev_pending_release e = 0"
    using core_slot [OF C k] t by (auto simp: slot_ok_def e_def)
  let ?e = "e\<lparr>wl_timer := None\<rparr>"
  let ?s = "s\<lparr>wifi_lo_ety := (wifi_lo_ety s)[k := ?e]\<rparr>"
  have s0: "upd_lo k (\<lambda>lo. lo\<lparr>wl_timer := None\<rparr>) s = ?s" "wifi_lo_ety ?s ! k = ?e" using len k by (simp_all add: upd_lo_def e_def)
  show ?thesis
  proof (cases "time_before j (wl_last_tx e + wl_HZ env)")
    case True
    have "upd_lo k (\<lambda>lo. lo\<lparr>wl_timer := Some (j + wl_HZ env)\<rparr>) ?s =
        s\<lparr>wifi_lo_ety := (wifi_lo_ety s)[k := e\<lparr>wl_timer := Some (j + wl_HZ env)\<rparr>]\<rparr>"
      using len k by (simp add: upd_lo_def)
    moreover have tb: "time_before j (wl_last_tx ?e + wl_HZ env)" using True by simp
    ultimately have "wifi_lo_timeout env iu cl0 j k s = s\<lparr>wifi_lo_ety := (wifi_lo_ety s)[k := e\<lparr>wl_timer := Some (j + wl_HZ env)\<rparr>]\<rparr>"
      unfolding wifi_lo_timeout_def Let_def s0 if_P [OF tb] by simp
    then show ?thesis using True by simp
  next
    case False
    have D: "timeout_detach da cl0 k ?s = ?s\<lparr>wl_mark := expired_mark da s e, wl_cleaned := expired_cleaned da cl0 s e,
       wifi_lo_port_ht := removeAll k (wifi_lo_port_ht s), wifi_lo_hash_ht := removeAll k (wifi_lo_hash_ht s),
       wifi_lo_ety := (wifi_lo_ety s)[k := dead_lo e]\<rparr>"
      using detach_eq [of ?s k ?e da cl0] len k v by (simp add: dead_lo_def expired_mark_def expired_cleaned_def)
    let ?s1 = "?s\<lparr>wl_mark := expired_mark da s e, wl_cleaned := expired_cleaned da cl0 s e,
       wifi_lo_port_ht := removeAll k (wifi_lo_port_ht s), wifi_lo_hash_ht := removeAll k (wifi_lo_hash_ht s),
       wifi_lo_ety := (wifi_lo_ety s)[k := dead_lo e]\<rparr>"
    obtain l d where L: "timeout_count env da ?s1 = ?s1\<lparr>wifi_lo_active_num := wifi_lo_active_num s - 1,
        sync_work := (sync_work s \<or> wifi_lo_active_num s = 1), wl_lro := l, wl_regs := d\<rparr>"
       "lro.held r (wl_lro s, wl_regs s) \<longrightarrow> lro.held r (l, d)"
       "wifi_lo_active_num s \<noteq> 1 \<or> da \<longrightarrow> l = wl_lro s \<and> d = wl_regs s" "wifi_lo_active_num s = 1 \<and> \<not> da \<longrightarrow> \<not> lro_agg_num_saved l"
      using count_eq [of da ?s1 r] by auto
    have dae: "(case iu of None \<Rightarrow> False | Some f \<Rightarrow> f (ntohs (wl_rport ?e)) (ntohs (wl_lport ?e)) \<noteq> 0) = da"
      by (simp add: da_def split: option.split)
    have tb: "\<not> time_before j (wl_last_tx ?e + wl_HZ env)" using False by simp
    have "wifi_lo_timeout env iu cl0 j k s = s\<lparr>wl_mark := expired_mark da s e, wl_cleaned := expired_cleaned da cl0 s e,
        wifi_lo_port_ht := removeAll k (wifi_lo_port_ht s), wifi_lo_hash_ht := removeAll k (wifi_lo_hash_ht s),
        wifi_lo_ety := (wifi_lo_ety s)[k := dead_lo e], wifi_lo_active_num := wifi_lo_active_num s - 1,
        sync_work := (sync_work s \<or> wifi_lo_active_num s = 1), wl_lro := l, wl_regs := d,
        wl_dst_ref := ref_dec (wl_tx_dst e) (wl_dst_ref s), wl_sk_ref := ref_dec (wl_sk e) (wl_sk_ref s)\<rparr>"
      unfolding wifi_lo_timeout_def Let_def s0 if_not_P [OF tb] dae D L(1) by simp
    then show ?thesis using False L(2-4) by auto
  qed
qed

lemma inv_timeout:
  assumes I: "wl_inv r bs bd bv s" and k: "k < 32" and t: "wl_timer (wifi_lo_ety s ! k) \<noteq> None"
  shows "wl_inv r bs bd bv (wifi_lo_timeout env iu cl0 j k s)"
proof -
  let ?e = "wifi_lo_ety s ! k"
  have C: "core_of bs bd bv s" using I by (simp add: wl_inv_def)
  have v: "F_VALID ?e" "\<not> F_DEV_RELEASING ?e" "dev_pending_release ?e = 0"
    using core_slot [OF C k] t by (auto simp: slot_ok_def)
  note T = timeout_eq [OF C k t, of j iu cl0 r]
  show ?thesis
  proof (cases "time_before j (wl_last_tx ?e + wl_HZ env)")
    case True
    then have "wifi_lo_timeout env iu cl0 j k s = s\<lparr>wifi_lo_ety := (wifi_lo_ety s)[k := ?e\<lparr>wl_timer := Some (j + wl_HZ env)\<rparr>]\<rparr>"
      using T by simp
    moreover have "wl_core bs bd bv ((wifi_lo_ety s)[k := ?e\<lparr>wl_timer := Some (j + wl_HZ env)\<rparr>]) (wifi_lo_port_ht s) (wifi_lo_hash_ht s)
        (wifi_lo_active_num s) (wl_sk_ref s) (wl_dst_ref s) (wl_dev_ref s)"
      using v by (intro wcore_touch [OF C k]) (auto simp: slot_ok_def same_lo_def)
    ultimately show ?thesis by (intro inv_touch [OF I]) simp_all
  next
    case False
    obtain mk cl l d where s': "wifi_lo_timeout env iu cl0 j k s = s\<lparr>wl_mark := mk, wl_cleaned := cl,
        wifi_lo_port_ht := removeAll k (wifi_lo_port_ht s), wifi_lo_hash_ht := removeAll k (wifi_lo_hash_ht s),
        wifi_lo_ety := (wifi_lo_ety s)[k := dead_lo ?e], wifi_lo_active_num := wifi_lo_active_num s - 1,
        sync_work := (sync_work s \<or> wifi_lo_active_num s = 1), wl_lro := l, wl_regs := d,
        wl_dst_ref := ref_dec (wl_tx_dst ?e) (wl_dst_ref s), wl_sk_ref := ref_dec (wl_sk ?e) (wl_sk_ref s)\<rparr>"
      "lro.held r (wl_lro s, wl_regs s) \<longrightarrow> lro.held r (l, d)" "wifi_lo_active_num s \<noteq> 1 \<longrightarrow> l = wl_lro s"
      using T False by auto
    have "slot_ok (dead_lo ?e)" by (simp add: slot_ok_def dead_lo_def)
    then have "wl_core bs bd bv ((wifi_lo_ety s)[k := dead_lo ?e]) (removeAll k (wifi_lo_port_ht s)) (removeAll k (wifi_lo_hash_ht s))
        (wifi_lo_active_num s - 1) (ref_dec (wl_sk ?e) (wl_sk_ref s)) (ref_dec (wl_tx_dst ?e) (wl_dst_ref s)) (wl_dev_ref s)"
      using C v by (intro core_upd [OF C k]) (auto simp: dead_lo_def wl_core_def ref_dec_at distinct_removeAll)
    then show ?thesis using I s'(2,3) unfolding s'(1) wl_inv_def by auto
  qed
qed

lemma inv_gro:
  assumes I: "wl_inv t bs bd bv s" and g: "wifi_lo_prepare_gro csum h v6 p s = Some (ret, p', s')"
  shows "wl_inv t bs bd bv s'"
proof (cases "\<exists>k. mac_header p \<noteq> None \<and> wifi_lo_find_by_hash (ucast (h AND 0xFFFF)) s = Some k")
  case True
  then obtain k where m: "mac_header p \<noteq> None" and f: "wifi_lo_find_by_hash (ucast (h AND 0xFFFF)) s = Some k" by blast
  have C: "core_of bs bd bv s" using I by (simp add: wl_inv_def)
  note K = find_by_hashD [OF C f]
  let ?lo = "wifi_lo_ety s ! k"
  have "s' = (if wl_sk ?lo \<noteq> 0 \<and> \<not> F_SKIP_COPY ?lo
       then upd_lo k (\<lambda>lo. lo\<lparr>F_SKIP_COPY := True\<rparr>) (s\<lparr>wl_mark := (wl_mark s)(wl_sk ?lo := SK_MARK_WIFI_LO)\<rparr>) else s)"
    using g m f by (auto simp: wifi_lo_prepare_gro_def Let_def Option.bind_eq_Some_conv split: if_splits)
  moreover have "wl_core bs bd bv ((wifi_lo_ety s)[k := ?lo\<lparr>F_SKIP_COPY := True\<rparr>]) (wifi_lo_port_ht s) (wifi_lo_hash_ht s)
      (wifi_lo_active_num s) (wl_sk_ref s) (wl_dst_ref s) (wl_dev_ref s)"
    using core_slot [OF C K(1)] by (intro wcore_touch [OF C K(1)]) (auto simp: slot_ok_def same_lo_def)
  ultimately show ?thesis by (cases "wl_sk ?lo \<noteq> 0 \<and> \<not> F_SKIP_COPY ?lo") (auto intro!: inv_touch [OF I] simp: upd_lo_def I)
next
  case False
  then have "s' = s" using g by (auto simp: wifi_lo_prepare_gro_def split: if_splits option.splits)
  then show ?thesis using I by simp
qed

lemma get_etyD:
  assumes "core_of bs bd bv s" and "wifi_lo_get_ety p prot out s = Some (Some k)"
  shows "k < 32" "F_VALID (wifi_lo_ety s ! k)"
  using assms(2) find_by_portD(1,2) [OF assms(1)]
  by (auto simp: wifi_lo_get_ety_def Option.bind_eq_Some_conv split: option.splits if_splits)

lemma publish_valid: "F_VALID (wifi_lo_ety (wifi_lo_publish_ingress_dev env k dev s) ! k) = F_VALID (wifi_lo_ety s ! k)"
  if "k < length (wifi_lo_ety s)"
  using that by (auto simp: wifi_lo_publish_ingress_dev_def upd_lo_def Let_def)

lemma inv_local_in:
  assumes I: "wl_inv t bs bd bv s" and h: "wifi_lo_nf_hook_local_in env rh skb_dev fdb p s = Some (r, s')"
  shows "wl_inv t bs bd bv s'"
proof (cases "wifi_lo_active_key s")
  case True
  then obtain lo where lo: "wifi_lo_get_ety p (protocol p) False s = Some lo"
    using h by (auto simp: wifi_lo_nf_hook_local_in_def Option.bind_eq_Some_conv)
  show ?thesis
  proof (cases lo)
    case None
    then show ?thesis using h True lo I by (simp add: wifi_lo_nf_hook_local_in_def)
  next
    case (Some k)
    have C: "core_of bs bd bv s" using I by (simp add: wl_inv_def)
    note K = get_etyD [OF C lo [unfolded Some]]
    let ?dev = "if netif_is_bridge_master env skb_dev then wifi_lo_bridge_port env skb_dev (mac_header p \<noteq> None) fdb else skb_dev"
    define s1 where "s1 = (if wl_dev (wifi_lo_ety s ! k) = 0 \<and> skb_dev \<noteq> 0 then (if ?dev \<noteq> 0 then wifi_lo_publish_ingress_dev env k ?dev s else s) else s)"
    have I1: "wl_inv t bs bd bv s1" using I inv_publish [OF I K] by (simp add: s1_def)
    have "s' = s1 \<or> s' = wifi_lo_hash_publish k (ucast (rh AND 0xFFFF)) s1 \<and> (ucast (rh AND 0xFFFF) :: u16) \<noteq> 0"
      using h True unfolding wifi_lo_nf_hook_local_in_def lo Some Let_def option.case Option.bind.bind_lunit s1_def [unfolded Let_def, symmetric]
      by (auto split: if_splits)
    then show ?thesis using I1 inv_hash_publish [OF I1 K(1)] by blast
  qed
next
  case False
  then show ?thesis using h I by (simp add: wifi_lo_nf_hook_local_in_def)
qed

lemma lan_mac_eq: "\<exists>d mac b. snd (wifi_lo_get_lan_mac env s) = s\<lparr>wl_regs := d, wifi_lo_lan_mac := mac, wifi_lo_lan_mac_ready := b\<rparr> \<and> peek d = peek (wl_regs s)"
proof (cases "wifi_lo_lan_mac_ready s")
  case True
  then show ?thesis by (intro exI [of _ "wl_regs s"] exI [of _ "wifi_lo_lan_mac s"] exI [of _ True], cases s) (simp add: wifi_lo_get_lan_mac_def)
next
  case False
  obtain h d1 where 1: "bus_rr (wl_bus env) REG_FE_LAN_MAC_H (wl_regs s) = (h, d1)" by (rule prod.exhaust)
  obtain l d2 where 2: "bus_rr (wl_bus env) (REG_FE_LAN_MAC_H + 0x04) d1 = (l, d2)" by (rule prod.exhaust)
  have "\<exists>mac. snd (wifi_lo_get_lan_mac env s) = s\<lparr>wl_regs := d2, wifi_lo_lan_mac := mac, wifi_lo_lan_mac_ready := True\<rparr>"
    using False unfolding wifi_lo_get_lan_mac_def wifi_lo_read_macaddr_mmio_def 1 prod.case 2 Let_def by auto
  then show ?thesis using rr_pair [OF 1] rr_pair [OF 2] by metis
qed

lemma restore_peek:
  assumes "lro_agg_num_saved l"
  shows "peek (snd (wifi_lo_lro_restore_agg_num (wl_bus env) (l, d))) =
    (peek d)(PHY_REG_CDM1_LRO_LIMIT := set_agg_field (peek d PHY_REG_CDM1_LRO_LIMIT) (lro_agg_num_orig_cdm1 l),
             PHY_REG_CDM2_LRO_LIMIT := set_agg_field (peek d PHY_REG_CDM2_LRO_LIMIT) (lro_agg_num_orig_cdm2 l))"
  using assms by (auto simp: wifi_lo_lro_restore_agg_num_def Let_def case_prod_beta rr_val rr_peek wr_peek fun_eq_iff)

lemma held_same_peek: "peek d' = peek d \<Longrightarrow> lro.held t (l, d') = lro.held t (l, d)"
  by (simp add: lro.held_def restore_peek)

lemma inv_same_regs:
  assumes "wl_inv t bs bd bv s" and "peek d = peek (wl_regs s)"
  shows "wl_inv t bs bd bv (s\<lparr>wl_regs := d, wifi_lo_lan_mac := mac, wifi_lo_lan_mac_ready := b\<rparr>)"
  using assms held_same_peek [OF assms(2)] by (simp add: wl_inv_def)

lemma fast_path_sessionD:
  assumes "core_of bs bd bv s" and "fast_path_session src dst s = Some k"
  shows "k < 32" "F_VALID (wifi_lo_ety s ! k)" "wl_lport (wifi_lo_ety s ! k) = src" "wl_rport (wifi_lo_ety s ! k) = dst"
  using assms find_by_portD [OF assms(1)] by (auto simp: fast_path_session_def split: option.splits if_splits)

lemma inv_local_out:
  assumes I: "wl_inv t bs bd bv s" and h: "wifi_lo_nf_hook_local_out env c p s = Some (a, s')"
  shows "wl_inv t bs bd bv s'"
proof -
  have C: "core_of bs bd bv s" using I by (simp add: wl_inv_def)
  obtain th where th: "wifi_lo_get_tcp_header p (protocol p) = Some th"
    using h by (auto simp: wifi_lo_nf_hook_local_out_def Option.bind_eq_Some_conv)
  show ?thesis
  proof (cases th)
    case None
    then show ?thesis using h th I by (simp add: wifi_lo_nf_hook_local_out_def)
  next
    case (Some off)
    obtain src dst where sd: "rd16 (pkt_data p) off = Some src" "rd16 (pkt_data p) (off + 2) = Some dst"
      using h th Some by (auto simp: wifi_lo_nf_hook_local_out_def Option.bind_eq_Some_conv)
    note H = h [unfolded wifi_lo_nf_hook_local_out_def th Some Option.bind.bind_lunit option.case sd]
    show ?thesis
    proof (cases "if wifi_lo_active_key s then fast_path_session src dst s else None")
      case None
      then show ?thesis using H I inv_add [OF I] by (auto split: if_splits)
    next
      case (Some k)
      then have K: "k < 32" "F_VALID (wifi_lo_ety s ! k)" using fast_path_sessionD [OF C] by (auto split: if_splits)
      define s1 where "s1 = (if drop_bit 2 (wl_HZ env) \<le> oc_jiffies c - wl_last_tx (wifi_lo_ety s ! k)
         then upd_lo k (\<lambda>lo. lo\<lparr>wl_last_tx := oc_jiffies c\<rparr>) s else s)"
      have "wl_core bs bd bv ((wifi_lo_ety s)[k := (wifi_lo_ety s ! k)\<lparr>wl_last_tx := oc_jiffies c\<rparr>]) (wifi_lo_port_ht s)
          (wifi_lo_hash_ht s) (wifi_lo_active_num s) (wl_sk_ref s) (wl_dst_ref s) (wl_dev_ref s)"
        using core_slot [OF C K(1)] by (intro wcore_touch [OF C K(1)]) (auto simp: slot_ok_def same_lo_def)
      then have I1: "wl_inv t bs bd bv s1" using I by (auto simp: s1_def upd_lo_def intro!: inv_touch [OF I])
      have "s' = s1 \<or> s' = snd (wifi_lo_get_lan_mac env s1)"
        using H unfolding Some option.case Let_def s1_def [symmetric] by (auto split: if_splits prod.splits)
      then show ?thesis using I1 lan_mac_eq [of s1] inv_same_regs [OF I1] by metis
    qed
  qed
qed

lemma inv_write: "wl_inv t bs bd bv s \<Longrightarrow> wl_inv t bs bd bv (snd (wifi_lo_proc_write sc ok copy_ok buf s))"
  by (auto simp: wifi_lo_proc_write_def Let_def wl_inv_def split: option.splits prod.splits if_splits)

end

section \<open>Runs\<close>

text \<open>One event of the running module: a packet at one of the hooks, a command, a timer that fires, a
  grace period that ends, the worker.\<close>

inductive wl_step :: "'d wlo_env \<Rightarrow> 'd wlo \<Rightarrow> 'd wlo \<Rightarrow> bool" for env where
  step_in: "wifi_lo_nf_hook_local_in env h dev fdb p s = Some (r, s') \<Longrightarrow> wl_step env s s'"
| step_out: "wifi_lo_nf_hook_local_out env c p s = Some (a, s') \<Longrightarrow> wl_step env s s'"
| step_gro: "wifi_lo_prepare_gro csum h v6 gp s = Some (ret, gp', s') \<Longrightarrow> wl_step env s s'"
| step_write: "wifi_lo_proc_write sc ok copy_ok buf s = (n, s') \<Longrightarrow> wl_step env s s'"
| step_timer: "k < 32 \<Longrightarrow> wl_timer (wifi_lo_ety s ! k) \<noteq> None \<Longrightarrow> wl_step env s (wifi_lo_timeout env in_use clean j k s)"
| step_grace: "k < 32 \<Longrightarrow> F_DEV_RELEASING (wifi_lo_ety s ! k) \<Longrightarrow> wl_step env s (wifi_lo_dev_release_rcu k s)"
| step_sync: "sync_work s \<Longrightarrow> wl_step env s (wifi_lo_active_sync_work s)"

abbreviation wl_run :: "'d wlo_env \<Rightarrow> 'd wlo \<Rightarrow> 'd wlo \<Rightarrow> bool" where
  "wl_run env \<equiv> (wl_step env)\<^sup>*\<^sup>*"

text \<open>The zeroed statics of the module.\<close>

definition lo_zero :: wifi_lo where
  "lo_zero = \<lparr>F_VALID = False, F_SKIP_COPY = False, F_IS_WIFI = False, F_DEV_RELEASING = False, wl_lport = 0, wl_rport = 0,
     wl_hash = 0, wl_sk = 0, wl_dev = 0, wl_last_tx = 0, wl_tx_dst = 0, wl_timer = None, dev_pending_release = 0\<rparr>"

definition wl_boot :: "'d \<Rightarrow> (u64 \<Rightarrow> int) \<Rightarrow> (u64 \<Rightarrow> int) \<Rightarrow> (u64 \<Rightarrow> int) \<Rightarrow> (u64 \<Rightarrow> u32) \<Rightarrow> 'd wlo" where
  "wl_boot d bs bd bv mk = \<lparr>wifi_lo_ety = replicate 32 lo_zero, wifi_lo_port_ht = [], wifi_lo_hash_ht = [],
     wifi_lo_active_num = 0, wifi_lo_active_key = False, sync_work = False, wifi_lo_wifi_only = True, wl_agg_num = 18,
     wl_lro = lro_boot, wl_regs = d, wifi_lo_apps_snap = None, wl_sk_ref = bs, wl_dst_ref = bd, wl_dev_ref = bv,
     wl_mark = mk, wl_cleaned = [], wl_warned = False, wifi_lo_lan_mac = replicate 6 0, wifi_lo_lan_mac_ready = False\<rparr>"

lemma replicate_nth: "k < 32 \<Longrightarrow> replicate 32 x ! k = x"
  by (rule nth_replicate)

context wlo_world
begin

lemma step_inv: "wl_step env s s' \<Longrightarrow> wl_inv t bs bd bv s \<Longrightarrow> wl_inv t bs bd bv s'"
proof (induction rule: wl_step.induct)
  case (step_write sc ok copy_ok buf s n s')
  then show ?case using inv_write [of t bs bd bv s sc ok copy_ok buf] by simp
next
  case (step_grace k s)
  then show ?case by (intro inv_release)
qed (auto intro: inv_local_in inv_local_out inv_gro inv_timeout inv_sync)

lemma run_inv: "wl_run env s s' \<Longrightarrow> wl_inv t bs bd bv s \<Longrightarrow> wl_inv t bs bd bv s'"
  by (induction rule: rtranclp_induct) (auto intro: step_inv)

lemma boot_inv: "wl_inv (peek d) bs bd bv (wl_boot d bs bd bv mk)"
proof -
  have c: "live_count (replicate n lo_zero) = 0" for n
    by (induction n) (simp_all add: live_count_def lo_zero_def)
  have z: "held_refs f (replicate n lo_zero) x = 0" if "f lo_zero \<noteq> x" for n f and x :: u64
    using that by (induction n) (simp_all add: held_refs_def)
  have f: "\<not> F_VALID lo_zero" "wl_hash lo_zero = 0" "wl_sk lo_zero = 0" "wl_tx_dst lo_zero = 0" "wl_dev lo_zero = 0"
    "dev_pending_release lo_zero = 0" "slot_ok lo_zero" by (simp_all add: lo_zero_def slot_ok_def)
  have "core_of bs bd bv (wl_boot d bs bd bv mk)"
    unfolding wl_core_def wl_boot_def by (auto simp: replicate_nth c z f)
  moreover have "lro.held (peek d) (lro_boot, d)" by (rule lro.held_start) (simp add: lro_boot_def)
  ultimately show ?thesis by (simp add: wl_inv_def wl_boot_def)
qed

end

end
