(* ===== verification/WifiLoProps.thy ===== *)
theory WifiLoProps
  imports WifiLoInv
begin

text \<open>
  Properties of the local fast path: what every run keeps, that an idle module always returns to
  rest, the bounds of its header parser, and the ways in which sessions, references and the LRO
  limit get lost.
\<close>

section \<open>Coming to rest\<close>

text \<open>Every pending timer fires at time \<open>j\<close>, every grace period ends, and the worker runs.\<close>

definition expire_all :: "'d wlo_env \<Rightarrow> bool \<Rightarrow> u64 \<Rightarrow> nat list \<Rightarrow> 'd wlo \<Rightarrow> 'd wlo" where
  "expire_all env cl j = fold (\<lambda>k s. if wl_timer (wifi_lo_ety s ! k) = None then s else wifi_lo_timeout env None cl j k s)"

definition grace_all :: "nat list \<Rightarrow> 'd wlo \<Rightarrow> 'd wlo" where
  "grace_all = fold (\<lambda>k s. if F_DEV_RELEASING (wifi_lo_ety s ! k) then wifi_lo_dev_release_rcu k s else s)"

definition quiesce :: "'d wlo_env \<Rightarrow> bool \<Rightarrow> u64 \<Rightarrow> 'd wlo \<Rightarrow> 'd wlo" where
  "quiesce env cl j s =
     (let s = grace_all [0..<32] (expire_all env cl j [0..<32] s)
      in if sync_work s then wifi_lo_active_sync_work s else s)"

definition all_late :: "'d wlo_env \<Rightarrow> u64 \<Rightarrow> 'd wlo \<Rightarrow> bool" where
  "all_late env j s \<longleftrightarrow>
     (\<forall>k<32. F_VALID (wifi_lo_ety s ! k) \<longrightarrow> \<not> time_before j (wl_last_tx (wifi_lo_ety s ! k) + wl_HZ env))"

context wlo_world
begin

lemma timer_valid: "core_of bs bd bv s \<Longrightarrow> k < 32 \<Longrightarrow> wl_timer (wifi_lo_ety s ! k) \<noteq> None \<longleftrightarrow> F_VALID (wifi_lo_ety s ! k)"
  using core_slot by (auto simp: slot_ok_def)

lemma expire_one:
  fixes cl :: bool
  assumes I: "wl_inv t bs bd bv s" and k: "k < 32" and v: "F_VALID (wifi_lo_ety s ! k)" and late: "all_late env j s"
  defines "s' \<equiv> wifi_lo_timeout env None cl j k s"
  shows "wl_step env s s'" and "wl_inv t bs bd bv s'" and "wifi_lo_ety s' = (wifi_lo_ety s)[k := dead_lo (wifi_lo_ety s ! k)]"
    and "wifi_lo_active_num s' = 0 \<longrightarrow> \<not> lro_agg_num_saved (wl_lro s')"
proof -
  have C: "core_of bs bd bv s" using I by (simp add: wl_inv_def)
  have t: "wl_timer (wifi_lo_ety s ! k) \<noteq> None" using timer_valid [OF C k] v by simp
  show "wl_step env s s'" unfolding s'_def by (rule wl_step.step_timer [OF k t])
  show "wl_inv t bs bd bv s'" unfolding s'_def by (rule inv_timeout [OF I k t])
  have "\<not> time_before j (wl_last_tx (wifi_lo_ety s ! k) + wl_HZ env)" using late k v by (auto simp: all_late_def)
  then have "wifi_lo_ety s' = (wifi_lo_ety s)[k := dead_lo (wifi_lo_ety s ! k)] \<and>
      (wifi_lo_active_num s' = 0 \<longrightarrow> \<not> lro_agg_num_saved (wl_lro s'))"
    using timeout_eq [OF C k t, of j None cl t] by (auto simp: s'_def)
  then show "wifi_lo_ety s' = (wifi_lo_ety s)[k := dead_lo (wifi_lo_ety s ! k)]"
    "wifi_lo_active_num s' = 0 \<longrightarrow> \<not> lro_agg_num_saved (wl_lro s')" by blast+
qed

lemma expire_all_rest:
  fixes cl :: bool
  assumes "wl_inv t bs bd bv s" and "set ks \<subseteq> {..<32}" and "all_late env j s"
  defines "s' \<equiv> expire_all env cl j ks s"
  shows "wl_run env s s' \<and> wl_inv t bs bd bv s' \<and>
    (\<forall>k<32. F_VALID (wifi_lo_ety s' ! k) \<longrightarrow> k \<notin> set ks \<and> F_VALID (wifi_lo_ety s ! k)) \<and>
    ((wifi_lo_active_num s = 0 \<longrightarrow> \<not> lro_agg_num_saved (wl_lro s)) \<longrightarrow>
     wifi_lo_active_num s' = 0 \<longrightarrow> \<not> lro_agg_num_saved (wl_lro s'))"
  using assms(1-3) unfolding s'_def
proof (induction ks arbitrary: s)
  case Nil
  then show ?case by (simp add: expire_all_def)
next
  case (Cons k ks)
  have C: "core_of bs bd bv s" using Cons.prems(1) by (simp add: wl_inv_def)
  have k: "k < 32" and ks: "set ks \<subseteq> {..<32}" using Cons.prems(2) by auto
  show ?case
  proof (cases "F_VALID (wifi_lo_ety s ! k)")
    case True
    let ?s = "wifi_lo_timeout env None cl j k s"
    note O = expire_one [OF Cons.prems(1) k True Cons.prems(3), of cl]
    have e: "expire_all env cl j (k # ks) s = expire_all env cl j ks ?s"
      using timer_valid [OF C k] True by (auto simp: expire_all_def)
    have nth: "wifi_lo_ety ?s ! i = (if i = k then dead_lo (wifi_lo_ety s ! k) else wifi_lo_ety s ! i)" if "i < 32" for i
      using O(3) wcore_len [OF C] that by (simp add: nth_list_update)
    have late: "all_late env j ?s"
      using Cons.prems(3) by (auto simp: all_late_def nth dead_lo_def)
    note IH = Cons.IH [OF O(2) ks late]
    have r: "wl_run env s (expire_all env cl j ks ?s)" using O(1) IH by (meson converse_rtranclp_into_rtranclp)
    have "\<forall>i<32. F_VALID (wifi_lo_ety (expire_all env cl j ks ?s) ! i) \<longrightarrow> i \<notin> set (k # ks) \<and> F_VALID (wifi_lo_ety s ! i)"
      using IH nth by (auto simp: dead_lo_def split: if_splits)
    then show ?thesis unfolding e using IH O(4) r by blast
  next
    case False
    have e: "expire_all env cl j (k # ks) s = expire_all env cl j ks s"
      using timer_valid [OF C k] False by (simp add: expire_all_def)
    show ?thesis unfolding e using Cons.IH [OF Cons.prems(1) ks Cons.prems(3)] False by auto
  qed
qed

lemma release_nth:
  assumes "length (wifi_lo_ety s) = 32" and "k < 32" and "i < 32"
  shows "F_VALID (wifi_lo_ety (wifi_lo_dev_release_rcu k s) ! i) = F_VALID (wifi_lo_ety s ! i)"
    and "F_DEV_RELEASING (wifi_lo_ety (wifi_lo_dev_release_rcu k s) ! i) \<longleftrightarrow> i \<noteq> k \<and> F_DEV_RELEASING (wifi_lo_ety s ! i)"
  using assms by (auto simp: wifi_lo_dev_release_rcu_def upd_lo_def Let_def nth_list_update)

lemma release_frame: "wifi_lo_active_num (wifi_lo_dev_release_rcu k s) = wifi_lo_active_num s"
  "wl_lro (wifi_lo_dev_release_rcu k s) = wl_lro s" "wl_regs (wifi_lo_dev_release_rcu k s) = wl_regs s"
  by (simp_all add: wifi_lo_dev_release_rcu_def upd_lo_def Let_def)

lemma grace_all_rest:
  assumes "wl_inv t bs bd bv s" and "set ks \<subseteq> {..<32}"
  defines "s' \<equiv> grace_all ks s"
  shows "wl_run env s s' \<and> wl_inv t bs bd bv s' \<and>
    (\<forall>k<32. (F_VALID (wifi_lo_ety s' ! k) \<longleftrightarrow> F_VALID (wifi_lo_ety s ! k)) \<and>
       (F_DEV_RELEASING (wifi_lo_ety s' ! k) \<longrightarrow> k \<notin> set ks \<and> F_DEV_RELEASING (wifi_lo_ety s ! k))) \<and>
    wifi_lo_active_num s' = wifi_lo_active_num s \<and> wl_lro s' = wl_lro s \<and> wl_regs s' = wl_regs s"
  using assms(1,2) unfolding s'_def
proof (induction ks arbitrary: s)
  case Nil
  then show ?case by (simp add: grace_all_def)
next
  case (Cons k ks)
  have C: "core_of bs bd bv s" using Cons.prems(1) by (simp add: wl_inv_def)
  have k: "k < 32" and ks: "set ks \<subseteq> {..<32}" using Cons.prems(2) by auto
  show ?case
  proof (cases "F_DEV_RELEASING (wifi_lo_ety s ! k)")
    case True
    let ?s = "wifi_lo_dev_release_rcu k s"
    have e: "grace_all (k # ks) s = grace_all ks ?s" using True by (simp add: grace_all_def)
    note N = release_nth [OF wcore_len [OF C] k]
    note IH = Cons.IH [OF inv_release [OF Cons.prems(1) k True] ks]
    have r: "wl_run env s (grace_all ks ?s)"
      using wl_step.step_grace [OF k True] IH by (meson converse_rtranclp_into_rtranclp)
    then show ?thesis unfolding e using IH N by (auto simp: release_frame)
  next
    case False
    then have e: "grace_all (k # ks) s = grace_all ks s" by (simp add: grace_all_def)
    show ?thesis unfolding e using Cons.IH [OF Cons.prems(1) ks] False by auto
  qed
qed

text \<open>With no session live and no grace period open, nothing is held.\<close>

lemma held_refs_none: "(\<forall>k<32. f (ety ! k) \<noteq> x) \<Longrightarrow> length ety = 32 \<Longrightarrow> held_refs f ety x = 0"
proof -
  assume "\<forall>k<32. f (ety ! k) \<noteq> x" "length ety = 32"
  then have "\<forall>lo\<in>set ety. f lo \<noteq> x" by (metis in_set_conv_nth)
  then show ?thesis by (induction ety) (simp_all add: held_refs_def)
qed

lemma rest_empty:
  assumes I: "wl_inv t bs bd bv s" and rest: "\<forall>k<32. \<not> F_VALID (wifi_lo_ety s ! k) \<and> \<not> F_DEV_RELEASING (wifi_lo_ety s ! k)"
  shows "wifi_lo_port_ht s = [] \<and> wifi_lo_hash_ht s = [] \<and> wifi_lo_active_num s = 0 \<and>
    (\<forall>x. x \<noteq> 0 \<longrightarrow> wl_sk_ref s x = bs x \<and> wl_dst_ref s x = bd x \<and> wl_dev_ref s x = bv x)"
proof -
  have C: "core_of bs bd bv s" using I by (simp add: wl_inv_def)
  have z: "wl_sk (wifi_lo_ety s ! k) = 0 \<and> wl_tx_dst (wifi_lo_ety s ! k) = 0 \<and> wl_dev (wifi_lo_ety s ! k) = 0 \<and>
      dev_pending_release (wifi_lo_ety s ! k) = 0" if "k < 32" for k
    using core_slot [OF C that] rest that by (auto simp: slot_ok_def)
  have h: "held_refs wl_sk (wifi_lo_ety s) x = 0" "held_refs wl_tx_dst (wifi_lo_ety s) x = 0"
    "held_refs wl_dev (wifi_lo_ety s) x = 0" "held_refs dev_pending_release (wifi_lo_ety s) x = 0" if "x \<noteq> 0" for x
    using z that wcore_len [OF C] by (auto intro!: held_refs_none)
  have "k \<notin> set (wifi_lo_port_ht s) \<and> k \<notin> set (wifi_lo_hash_ht s)" for k using C rest by (auto simp: wl_core_def)
  then have "set (wifi_lo_port_ht s) = {} \<and> set (wifi_lo_hash_ht s) = {}" by (intro conjI equals0I) blast+
  moreover have "0 \<le> wifi_lo_active_num s" using C by (auto simp: wl_core_def live_count_def intro!: sum_list_nonneg)
  moreover have "\<not> 0 < wifi_lo_active_num s" using C rest live_count_pos [OF wcore_len [OF C]] by (auto simp: wl_core_def)
  ultimately show ?thesis using C h by (auto simp: wl_core_def)
qed

lemma quiesce_rest:
  fixes cl :: bool
  assumes I: "wl_inv t bs bd bv s" and late: "all_late env j s"
  defines "q \<equiv> quiesce env cl j s"
  shows "wl_run env s q \<and> (\<forall>k<32. \<not> F_VALID (wifi_lo_ety q ! k) \<and> \<not> F_DEV_RELEASING (wifi_lo_ety q ! k)) \<and>
    wifi_lo_port_ht q = [] \<and> wifi_lo_hash_ht q = [] \<and> wifi_lo_active_num q = 0 \<and> \<not> wifi_lo_active_key q \<and>
    (\<forall>x. x \<noteq> 0 \<longrightarrow> wl_sk_ref q x = bs x \<and> wl_dst_ref q x = bd x \<and> wl_dev_ref q x = bv x) \<and>
    (0 < wifi_lo_active_num s \<or> \<not> lro_agg_num_saved (wl_lro s) \<longrightarrow> peek (wl_regs q) = t)"
proof -
  let ?e = "expire_all env cl j [0..<32] s"
  let ?g = "grace_all [0..<32] ?e"
  have all: "set [0..<32] \<subseteq> {..<32::nat}" by auto
  note E = expire_all_rest [OF I all late, of cl]
  have E': "wl_run env s ?e" "wl_inv t bs bd bv ?e" "\<forall>k<32. \<not> F_VALID (wifi_lo_ety ?e ! k)"
    "(wifi_lo_active_num s = 0 \<longrightarrow> \<not> lro_agg_num_saved (wl_lro s)) \<longrightarrow> wifi_lo_active_num ?e = 0 \<longrightarrow> \<not> lro_agg_num_saved (wl_lro ?e)"
    using E by auto
  note G = grace_all_rest [OF E'(2) all]
  have G': "wl_run env ?e ?g" "wl_inv t bs bd bv ?g" "\<forall>k<32. \<not> F_VALID (wifi_lo_ety ?g ! k) \<and> \<not> F_DEV_RELEASING (wifi_lo_ety ?g ! k)"
    "wl_lro ?g = wl_lro ?e" "wl_regs ?g = wl_regs ?e" "wifi_lo_active_num ?g = wifi_lo_active_num ?e"
    using G E'(3) by auto
  note R = rest_empty [OF G'(2,3)]
  have q: "wl_run env ?g q \<and> wl_inv t bs bd bv q \<and> wifi_lo_ety q = wifi_lo_ety ?g \<and> wl_lro q = wl_lro ?g \<and> wl_regs q = wl_regs ?g \<and>
      \<not> sync_work q"
  proof (cases "sync_work ?g")
    case True
    then have "q = wifi_lo_active_sync_work ?g" by (simp add: q_def quiesce_def Let_def)
    then show ?thesis using wl_step.step_sync [OF True] inv_sync [OF G'(2)]
      by (auto simp: wifi_lo_active_sync_work_def Let_def)
  next
    case False
    then show ?thesis using G'(2) by (simp add: q_def quiesce_def Let_def)
  qed
  have rest: "\<forall>k<32. \<not> F_VALID (wifi_lo_ety q ! k) \<and> \<not> F_DEV_RELEASING (wifi_lo_ety q ! k)" using q G'(3) by simp
  have Q: "wl_inv t bs bd bv q" using q by blast
  note RQ = rest_empty [OF Q rest]
  have "\<not> wifi_lo_active_key q" using q RQ by (auto simp: wl_inv_def)
  moreover have "peek (wl_regs q) = t" if "0 < wifi_lo_active_num s \<or> \<not> lro_agg_num_saved (wl_lro s)"
  proof -
    have "\<not> lro_agg_num_saved (wl_lro q)" using E'(4) that q G'(4,6) R by auto
    then show ?thesis using Q lro.held_free by (auto simp: wl_inv_def)
  qed
  moreover have "wl_run env s q" using E'(1) G'(1) q by (meson rtranclp_trans)
  ultimately show ?thesis using rest RQ by blast
qed

end

section \<open>A machine with two ports\<close>

text \<open>Device 0xA1 is a Wi-Fi interface, 0xB0 a bridge; the LRO limit starts at 5.\<close>

definition lo_env :: "(u32 \<Rightarrow> u32) wlo_env" where
  "lo_env = \<lparr>wl_bus = mem_bus, wl_HZ = 100, netif_is_bridge_master = (\<lambda>d. d = 0xB0), wifi_lo_is_wifi_dev = (\<lambda>d. d = 0xA1)\<rparr>"

definition lo_regs :: "u32 \<Rightarrow> u32" where
  "lo_regs = (\<lambda>_. 0x00050000)"

definition lo_start :: "(u32 \<Rightarrow> u32) wlo" where
  "lo_start = wl_boot lo_regs (\<lambda>_. 1) (\<lambda>_. 1) (\<lambda>_. 1) (\<lambda>_. 0)"

definition lo_scan :: lo_scanner where
  "lo_scan = \<lparr>lscan_s = (\<lambda>_. Some ''1''), lscan_s_d = (\<lambda>_. None), lscan_d_s = (\<lambda>_. Some (1, ''iperf3''))\<rparr>"

text \<open>An IPv4 TCP packet between the ports \<open>a\<close> and \<open>b\<close>, as loaded.\<close>

definition lo_pkt :: "u8 \<Rightarrow> u8 \<Rightarrow> pkt" where
  "lo_pkt a b = \<lparr>pkt_data = (0x45 # replicate 8 0 @ [6] @ replicate 10 0) @ [a, 0, b, 0] @ replicate 16 0,
     pkt_len = 40, mac_header = Some 0, net_header = 0, pkt_sk = 0x70, pkt_dst = 0x99, pkt_dst_ref = True,
     inner_protocol = 0, protocol = htons_ETH_P_IP, ip6cb_nhoff = 0\<rparr>"

definition lo_ctx :: out_ctx where
  "lo_ctx = \<lparr>oc_jiffies = 1000, oc_fast_tx = True, oc_cow_ok = True, oc_comm = ''iperf3'', oc_full_sk = True\<rparr>"

definition lo_ready :: "(u32 \<Rightarrow> u32) wlo" where
  "lo_ready = snd (wifi_lo_proc_write lo_scan True True ''1 iperf3'' lo_start)"

text \<open>One session was added by an outgoing packet, the worker ran, a returning packet came in from Wi-Fi.\<close>

definition lo_one :: "(u32 \<Rightarrow> u32) wlo" where
  "lo_one = snd (the (wifi_lo_nf_hook_local_out lo_env lo_ctx (lo_pkt 5 6) lo_ready))"

definition lo_two :: "(u32 \<Rightarrow> u32) wlo" where
  "lo_two = snd (the (wifi_lo_nf_hook_local_in lo_env 0xBEEF 0xA1 None (lo_pkt 6 5) (wifi_lo_active_sync_work lo_one)))"

lemma lo_plain: "plain_regs (wl_bus lo_env) (\<lambda>d. d)"
  by (simp add: lo_env_def plain_regs_mem_bus)

interpretation lo: wlo_world lo_env "\<lambda>d. d"
  by (rule wlo_world.intro) (rule lo_plain)

lemma lo_eval:
  "wifi_lo_nf_hook_local_out lo_env lo_ctx (lo_pkt 5 6) lo_ready \<noteq> None" (is ?a)
  "sync_work lo_one" (is ?b)
  "wifi_lo_nf_hook_local_in lo_env 0xBEEF 0xA1 None (lo_pkt 6 5) (wifi_lo_active_sync_work lo_one) \<noteq> None" (is ?c)
  "held_refs wl_sk (wifi_lo_ety lo_two) 0x70 = 1" (is ?d)
  "held_refs wl_dev (wifi_lo_ety lo_two) 0xA1 = 1" (is ?e)
  "wl_last_tx (wifi_lo_ety lo_two ! 0) = 1000" (is ?f)
  "map F_VALID (wifi_lo_ety lo_two) = True # replicate 31 False" (is ?g)
proof -
  show ?a by code_simp
  show ?b by code_simp
  show ?c by code_simp
  show ?d by code_simp
  show ?e by code_simp
  show ?f by code_simp
  show ?g by code_simp
qed

lemma lo_ready_run: "wl_run lo_env lo_start lo_ready"
  by (rule r_into_rtranclp) (auto simp: lo_ready_def intro: step_write prod.collapse [symmetric])

lemma lo_one_run: "wl_run lo_env lo_start lo_one"
proof -
  obtain a where a: "wifi_lo_nf_hook_local_out lo_env lo_ctx (lo_pkt 5 6) lo_ready = Some (a, lo_one)"
    using lo_eval(1) by (auto simp: lo_one_def)
  show ?thesis by (rule rtranclp.rtrancl_into_rtrancl [OF lo_ready_run wl_step.step_out [OF a]])
qed

lemma lo_run: "wl_run lo_env lo_start lo_two"
proof -
  note r2 = rtranclp.rtrancl_into_rtrancl [OF lo_one_run wl_step.step_sync [OF lo_eval(2)]]
  obtain b where "wifi_lo_nf_hook_local_in lo_env 0xBEEF 0xA1 None (lo_pkt 6 5) (wifi_lo_active_sync_work lo_one) = Some (b, lo_two)"
    using lo_eval(3) by (auto simp: lo_two_def)
  then show ?thesis by (rule rtranclp.rtrancl_into_rtrancl [OF r2 wl_step.step_in])
qed

text \<open>What every run keeps, outside the locale.\<close>

lemma wl_world: "plain_regs (wl_bus env) peek \<Longrightarrow> wlo_world env peek"
  by (rule wlo_world.intro)

lemma run_core:
  assumes "plain_regs (wl_bus env) peek" and "wl_run env (wl_boot d bs bd bv mk) s"
  shows "wlo_world.wl_inv env peek (peek d) bs bd bv s" and "core_of bs bd bv s"
proof -
  note w = wl_world [OF assms(1)]
  show I: "wlo_world.wl_inv env peek (peek d) bs bd bv s"
    by (rule wlo_world.run_inv [OF w assms(2) wlo_world.boot_inv [OF w]])
  show "core_of bs bd bv s" using I by (simp add: wlo_world.wl_inv_def [OF w])
qed

section \<open>Properties\<close>




lemma lo_two_late: "all_late lo_env 2000 lo_two"
proof -
  have "k = 0" if "k < 32" "F_VALID (wifi_lo_ety lo_two ! k)" for k
  proof -
    have "map F_VALID (wifi_lo_ety lo_two) ! k = F_VALID (wifi_lo_ety lo_two ! k)"
      using that(1) arg_cong [OF lo_eval(7), of length] by (intro nth_map) simp
    then show ?thesis using that unfolding lo_eval(7) by (cases k) auto
  qed
  moreover have "\<not> time_before 2000 (wl_last_tx (wifi_lo_ety lo_two ! 0) + wl_HZ lo_env)"
    unfolding lo_eval(6) by code_simp
  ultimately show ?thesis unfolding all_late_def by metis
qed


end
