(* ===== verification/WifiLoPkt.thy ===== *)
theory WifiLoPkt
  imports WifiLoProps
begin

text \<open>
  The packet side of the local fast path: the header parser stays inside the linear data, and what
  a packet returned by the engine, a packet sent on the ping-pong path and a packet taken by the
  fast path turn into.
\<close>

section \<open>Header bounds\<close>

text \<open>The parser first rejects an offset beyond the data, so its sums stay small.\<close>

lemma hl_add:
  assumes len: "length (pkt_data p) < 2 ^ 31" and n: "uint nh \<le> int (length (pkt_data p))" and c: "uint c < 2 ^ 30"
  shows "headlen p < nh + c \<longleftrightarrow> int (length (pkt_data p)) < uint nh + uint c"
proof -
  have "uint (nh + c) = uint nh + uint c" using len n c by (simp add: uint_word_ariths)
  then show ?thesis by (simp add: headlen_less [OF len])
qed

lemma ihl_words:
  "uint (ucast (b AND 0x0F :: u8) * 4 :: u32) = uint (b AND 0x0F) * 4" "uint (b AND 0x0F) \<le> 15"
proof -
  show b: "uint (b AND 0x0F) \<le> 15" by (simp add: uint_and AND_upper2)
  then show "uint (ucast (b AND 0x0F :: u8) * 4 :: u32) = uint (b AND 0x0F) * 4"
    by (simp add: uint_word_ariths uint_up_ucast is_up)
qed

lemma wl_header_bounds:
  assumes len: "length (pkt_data p) < 2 ^ 31" and net: "- (2 ^ 31) \<le> net_header p" "net_header p < 2 ^ 31"
  shows "\<exists>th. wifi_lo_get_tcp_header p prot = Some th \<and>
     (\<forall>off. th = Some off \<longrightarrow> 0 \<le> net_header p \<and> net_header p + 20 \<le> off \<and> off + 20 \<le> int (length (pkt_data p)))"
proof -
  let ?d = "pkt_data p" and ?n = "net_header p" and ?nh = "word_of_int (net_header p) :: u32"
  have g: "headlen p < ?nh \<longleftrightarrow> ?n < 0 \<or> int (length ?d) < ?n"
  proof -
    have "uint ?nh = (if 0 \<le> ?n then ?n else ?n + 2 ^ 32)" by (rule uint_off [OF net])
    then show ?thesis using len net by (simp add: headlen_less [OF len])
  qed
  show ?thesis
  proof (cases "?n < 0 \<or> int (length ?d) < ?n")
    case True
    then show ?thesis using g by (simp add: wifi_lo_get_tcp_header_def Let_def)
  next
    case False
    then have n: "0 \<le> ?n" "?n \<le> int (length ?d)" by simp_all
    have un: "uint ?nh = ?n" using n len by (simp add: uint_word_of_int mod_pos_pos_trivial)
    have un': "uint ?nh \<le> int (length ?d)" using un n by simp
    note A = hl_add [OF len un', unfolded un]
    have g0: "\<not> headlen p < ?nh" using g False by simp
    have c20: "headlen p < ?nh + 20 \<longleftrightarrow> int (length ?d) < ?n + 20" using A [of 20] by simp
    have c60: "headlen p < ?nh + 40 + 20 \<longleftrightarrow> int (length ?d) < ?n + 60" using A [of 60] by (simp add: add.assoc)
    have ci: "headlen p < ?nh + ihl + 20 \<longleftrightarrow> int (length ?d) < ?n + uint ihl + 20" if "uint ihl \<le> 60" for ihl :: u32
    proof -
      have "uint (ihl + 20) = uint ihl + 20" using that by (simp add: uint_word_ariths)
      then show ?thesis using A [of "ihl + 20"] that by (simp add: add.assoc)
    qed
    consider (v6) "prot = htons_ETH_P_IPV6" | (v4) "prot = htons_ETH_P_IP"
      | (other) "prot \<noteq> htons_ETH_P_IPV6" "prot \<noteq> htons_ETH_P_IP" by blast
    then show ?thesis
    proof cases
      case v6
      then show ?thesis using n g0 c60 by (auto simp: wifi_lo_get_tcp_header_def rd8_in)
    next
      case v4
      let ?b = "?d ! nat ?n AND 0x0F" and ?ihl = "ucast (?d ! nat ?n AND 0x0F) * 4 :: u32"
      have i: "uint ?ihl = uint ?b * 4" "uint ?b \<le> 15" by (rule ihl_words)+
      then have c: "headlen p < ?nh + ?ihl + 20 \<longleftrightarrow> int (length ?d) < ?n + uint ?b * 4 + 20" using ci [of ?ihl] by simp
      have l: "?b < 5 \<longleftrightarrow> uint ?b < 5" by (simp add: word_less_def)
      show ?thesis using v4 n g0 by (auto simp: wifi_lo_get_tcp_header_def rd8_in Let_def c20 c l i(1))
    next
      case other
      then show ?thesis by (simp add: wifi_lo_get_tcp_header_def Let_def)
    qed
  qed
qed

text \<open>The ports a lookup reads lie inside the header.\<close>

lemma wl_ports:
  assumes "length (pkt_data p) < 2 ^ 31" "- (2 ^ 31) \<le> net_header p" "net_header p < 2 ^ 31"
    and "wifi_lo_get_tcp_header p prot = Some (Some off)"
  shows "\<exists>src dst. rd16 (pkt_data p) off = Some src \<and> rd16 (pkt_data p) (off + 2) = Some dst"
proof -
  have b: "0 \<le> off" "off + 20 \<le> int (length (pkt_data p))"
    using wl_header_bounds [OF assms(1-3), of prot] assms(4) by auto
  show ?thesis using rd16_in [of off "pkt_data p"] rd16_in [of "off + 2" "pkt_data p"] b by auto
qed

lemma wl_get_ety_safe:
  assumes "length (pkt_data p) < 2 ^ 31" "- (2 ^ 31) \<le> net_header p" "net_header p < 2 ^ 31"
  shows "wifi_lo_get_ety p prot out s \<noteq> None"
proof -
  obtain th where th: "wifi_lo_get_tcp_header p prot = Some th" using wl_header_bounds [OF assms, of prot] by blast
  show ?thesis
  proof (cases th)
    case None
    then show ?thesis using th by (simp add: wifi_lo_get_ety_def)
  next
    case (Some off)
    then show ?thesis using th wl_ports [OF assms th [unfolded Some]] by (auto simp: wifi_lo_get_ety_def)
  qed
qed

lemma wl_get_ety_out:
  assumes "core_of bs bd bv s" and "wifi_lo_get_ety p prot True s = Some (Some k)"
  shows "k < 32 \<and> F_VALID (wifi_lo_ety s ! k) \<and> (\<exists>off. wifi_lo_get_tcp_header p prot = Some (Some off) \<and>
    rd16 (pkt_data p) off = Some (wl_lport (wifi_lo_ety s ! k)) \<and> rd16 (pkt_data p) (off + 2) = Some (wl_rport (wifi_lo_ety s ! k)))"
  using assms(2) find_by_portD [OF assms(1)]
  by (auto simp: wifi_lo_get_ety_def Option.bind_eq_Some_conv split: option.splits)

text \<open>The fast path, step by step.\<close>

lemma local_out_stolen:
  assumes h: "wifi_lo_nf_hook_local_out env c p s = Some (Stolen f, s')"
  obtains off src dst k s1 where "wifi_lo_get_tcp_header p (protocol p) = Some (Some off)"
    "rd16 (pkt_data p) off = Some src" "rd16 (pkt_data p) (off + 2) = Some dst"
    "wifi_lo_active_key s" "fast_path_session src dst s = Some k" "oc_fast_tx c" "oc_cow_ok c"
    "s1 = s \<or> s1 = upd_lo k (\<lambda>lo. lo\<lparr>wl_last_tx := oc_jiffies c\<rparr>) s"
    "f = fast_tx_frame (fst (wifi_lo_get_lan_mac env s1)) p" "s' = snd (wifi_lo_get_lan_mac env s1)"
proof -
  obtain off where off: "wifi_lo_get_tcp_header p (protocol p) = Some (Some off)"
    using h by (auto simp: wifi_lo_nf_hook_local_out_def Option.bind_eq_Some_conv split: option.splits)
  obtain src dst where sd: "rd16 (pkt_data p) off = Some src" "rd16 (pkt_data p) (off + 2) = Some dst"
    using h off by (auto simp: wifi_lo_nf_hook_local_out_def Option.bind_eq_Some_conv)
  note H = h [unfolded wifi_lo_nf_hook_local_out_def off Option.bind.bind_lunit option.case sd]
  obtain k where k: "wifi_lo_active_key s" "fast_path_session src dst s = Some k"
    using H by (auto split: if_splits option.splits)
  let ?s1 = "if drop_bit 2 (wl_HZ env) \<le> oc_jiffies c - wl_last_tx (wifi_lo_ety s ! k)
      then upd_lo k (\<lambda>lo. lo\<lparr>wl_last_tx := oc_jiffies c\<rparr>) s else s"
  have "oc_fast_tx c \<and> oc_cow_ok c \<and> f = fast_tx_frame (fst (wifi_lo_get_lan_mac env ?s1)) p \<and> s' = snd (wifi_lo_get_lan_mac env ?s1)"
    using H k by (auto simp: Let_def case_prod_beta split: if_splits)
  then show thesis by (intro that [OF off sd k]) auto
qed

lemma touch_last_tx:
  assumes "s1 = s \<or> s1 = upd_lo k (\<lambda>lo. lo\<lparr>wl_last_tx := j\<rparr>) s"
  shows "\<exists>e. s1 = s\<lparr>wifi_lo_ety := e\<rparr>" "wifi_lo_lan_mac s1 = wifi_lo_lan_mac s" "wifi_lo_lan_mac_ready s1 = wifi_lo_lan_mac_ready s"
    "wl_regs s1 = wl_regs s" "\<forall>i<length (wifi_lo_ety s). (wifi_lo_ety s1 ! i)\<lparr>wl_last_tx := 0\<rparr> = (wifi_lo_ety s ! i)\<lparr>wl_last_tx := 0\<rparr>"
proof -
  show "\<exists>e. s1 = s\<lparr>wifi_lo_ety := e\<rparr>"
    using assms by (auto simp: upd_lo_def intro: exI [of _ "wifi_lo_ety s"])
  show "\<forall>i<length (wifi_lo_ety s). (wifi_lo_ety s1 ! i)\<lparr>wl_last_tx := 0\<rparr> = (wifi_lo_ety s ! i)\<lparr>wl_last_tx := 0\<rparr>"
  proof (intro allI impI)
    fix i
    show "(wifi_lo_ety s1 ! i)\<lparr>wl_last_tx := 0\<rparr> = (wifi_lo_ety s ! i)\<lparr>wl_last_tx := 0\<rparr>" if "i < length (wifi_lo_ety s)"
      using assms that by (cases "i = k") (auto simp: upd_lo_def)
  qed
qed (use assms in \<open>auto simp: upd_lo_def\<close>)

lemma lan_mac_cong:
  assumes "wifi_lo_lan_mac s1 = wifi_lo_lan_mac s" "wifi_lo_lan_mac_ready s1 = wifi_lo_lan_mac_ready s" "wl_regs s1 = wl_regs s"
  shows "fst (wifi_lo_get_lan_mac env s1) = fst (wifi_lo_get_lan_mac env s)"
  using assms by (simp add: wifi_lo_get_lan_mac_def case_prod_beta)

lemma lan_mac_len: "length (wifi_lo_lan_mac s) = 6 \<Longrightarrow> length (fst (wifi_lo_get_lan_mac env s)) = 6"
  by (simp add: wifi_lo_get_lan_mac_def wifi_lo_read_macaddr_mmio_def case_prod_beta)

text \<open>Stamping a length: the big-endian field is the length modulo 65536.\<close>

lemma stamp_bytes:
  fixes n :: u32
  assumes "o1 + 1 < length d"
  defines "w \<equiv> ntohs (ucast n)" and "d' \<equiv> d[o1 := ucast (ntohs (ucast n)), o1 + 1 := ucast (drop_bit 8 (ntohs (ucast n)))]"
  shows "wr16 (int o1) w d = Some d'" and "256 * uint (d' ! o1) + uint (d' ! (o1 + 1)) = uint n mod 65536"
    and "length d' = length d" and "\<And>i. i \<noteq> o1 \<Longrightarrow> i \<noteq> o1 + 1 \<Longrightarrow> d' ! i = d ! i"
proof -
  show "wr16 (int o1) w d = Some d'" using assms(1) by (simp add: wr16_def w_def d'_def)
  have "uint (ucast n :: u16) = uint n mod 65536" by (simp add: unsigned_ucast_eq take_bit_eq_mod)
  then show "256 * uint (d' ! o1) + uint (d' ! (o1 + 1)) = uint n mod 65536"
    using assms(1) ntohs_bytes [of "ucast n"] by (simp add: d'_def)
qed (simp_all add: d'_def)

lemma wr16_frame:
  assumes "o1 + 1 < length d"
  obtains d' where "wr16 (int o1) w d = Some d'" "length d' = length d" "\<And>i. i \<noteq> o1 \<Longrightarrow> i \<noteq> o1 + 1 \<Longrightarrow> d' ! i = d ! i"
  using assms by (simp add: wr16_def)

text \<open>What the headers become.\<close>

definition gro_data :: "(u8 list \<Rightarrow> u8 \<Rightarrow> u16) \<Rightarrow> bool \<Rightarrow> u32 \<Rightarrow> u8 list \<Rightarrow> u8 list option" where
  "gro_data csum v6 n d0 =
     (if \<not> v6 then do {
        d \<leftarrow> wr16 2 (ntohs (ucast n)) d0;
        d \<leftarrow> wr16 10 0 d;
        v \<leftarrow> rd8 d 0;
        wr16 10 (csum d (v AND 0x0F)) d }
      else wr16 4 (ntohs (ucast (n - 40))) d0)"

lemma gro_data_stamped:
  assumes len: "40 \<le> length d0"
  shows "\<exists>d. gro_data csum v6 n d0 = Some d \<and> length d = length d0 \<and>
    (let o1 = if v6 then 4 else 2; m = if v6 then n - 40 else n
     in 256 * uint (d ! o1) + uint (d ! (o1 + 1)) = uint m mod 65536) \<and>
    (\<forall>i<length d. i \<notin> (if v6 then {4, 5} else {2, 3, 10, 11}) \<longrightarrow> d ! i = d0 ! i)"
proof (cases v6)
  case True
  have "4 + 1 < length d0" using len by simp
  note S = stamp_bytes [OF this, where n = "n - 40"]
  show ?thesis using True S by (auto simp: gro_data_def)
next
  case False
  have "2 + 1 < length d0" using len by simp
  note S = stamp_bytes [OF this, where n = n]
  let ?d1 = "d0[2 := ucast (ntohs (ucast n)), 2 + 1 := ucast (drop_bit 8 (ntohs (ucast n)))]"
  have l1: "10 + 1 < length ?d1" using len by simp
  obtain d2 where d2: "wr16 10 0 ?d1 = Some d2" "length d2 = length ?d1" "\<And>i. i \<noteq> 10 \<Longrightarrow> i \<noteq> 10 + 1 \<Longrightarrow> d2 ! i = ?d1 ! i"
    using wr16_frame [OF l1, of 0] by auto
  have v: "rd8 d2 0 = Some (d2 ! 0)" using len d2(2) by (auto simp: rd8_def)
  have l2: "10 + 1 < length d2" using len d2(2) by simp
  obtain d3 where d3: "wr16 10 (csum d2 (d2 ! 0 AND 0x0F)) d2 = Some d3" "length d3 = length d2"
    "\<And>i. i \<noteq> 10 \<Longrightarrow> i \<noteq> 10 + 1 \<Longrightarrow> d3 ! i = d2 ! i" using wr16_frame [OF l2, of "csum d2 (d2 ! 0 AND 0x0F)"] by auto
  have "gro_data csum v6 n d0 = Some d3" using False S(1) d2(1) v d3(1) by (simp add: gro_data_def)
  moreover have "d3 ! i = ?d1 ! i" if "i \<noteq> 10" "i \<noteq> 11" for i using d2(3) d3(3) that by simp
  moreover have "?d1 ! i = d0 ! i" if "i \<noteq> 2" "i \<noteq> 3" for i using that by simp
  ultimately show ?thesis using False S(2) d2(2) d3(2) by (auto simp: Let_def)
qed

lemma gro_eq: "wifi_lo_prepare_gro csum rh v6 p s =
  (case (if mac_header p = None then None else wifi_lo_find_by_hash (ucast (rh AND 0xFFFF)) s) of
     None \<Rightarrow> Some (0, p, s)
   | Some k \<Rightarrow> let lo = wifi_lo_ety s ! k in
       do { d \<leftarrow> gro_data csum v6 (pkt_len p) (pkt_data p);
         Some (1, p\<lparr>pkt_data := d, protocol := (if v6 then htons_ETH_P_IPV6 else htons_ETH_P_IP), pkt_host := True,
                   pkt_dev := (if wl_dev lo \<noteq> 0 then wl_dev lo else pkt_dev p), csum_ok := True\<rparr>,
               if wl_sk lo \<noteq> 0 \<and> \<not> F_SKIP_COPY lo
               then upd_lo k (\<lambda>lo. lo\<lparr>F_SKIP_COPY := True\<rparr>) (s\<lparr>wl_mark := (wl_mark s)(wl_sk lo := SK_MARK_WIFI_LO)\<rparr>)
               else s) })"
  by (cases p) (auto simp: wifi_lo_prepare_gro_def gro_data_def Let_def Option.bind_assoc split: option.split bind_split)

section \<open>Properties\<close>

text \<open>The header parser of the local fast path never reads outside the packet's linear data,
  whatever the bytes say, and a header it returns lies wholly inside it, past a whole IP header.\<close>

theorem wl_header_in_bounds:
  assumes "length (pkt_data p) < 2 ^ 31" and "- (2 ^ 31) \<le> net_header p" and "net_header p < 2 ^ 31"
  shows "wifi_lo_get_tcp_header p prot \<noteq> None \<and>
     (\<forall>off. wifi_lo_get_tcp_header p prot = Some (Some off) \<longrightarrow>
        0 \<le> net_header p \<and> net_header p + 20 \<le> off \<and> off + 20 \<le> int (length (pkt_data p)))"
  using wl_header_bounds [OF assms, of prot] by auto

theorem wl_header_in_bounds_witness: "wifi_lo_get_tcp_header (lo_pkt 5 6) htons_ETH_P_IP \<noteq> None"
proof -
  have "length (pkt_data (lo_pkt 5 6)) < 2 ^ 31 \<and> net_header (lo_pkt 5 6) = 0" by (simp add: lo_pkt_def)
  then show ?thesis using wl_header_in_bounds [of "lo_pkt 5 6" htons_ETH_P_IP] by simp
qed

text \<open>C23: a packet the outgoing hook takes off the stack belongs to a live session with exactly its
  ports, of known Wi-Fi ingress when only Wi-Fi flows are wanted; the frame handed over is the LAN
  address twice, the ether type and the packet unchanged; and no reference, table entry or
  counter moves, only the session's last-use time.\<close>

theorem wl_takes_own_flow:
  assumes "plain_regs (wl_bus env) peek" and "wl_run env (wl_boot d bs bd bv mk) s"
    and "length (wifi_lo_lan_mac s) = 6"
    and "wifi_lo_nf_hook_local_out env c p s = Some (Stolen f, s')"
  shows "let mac = fst (wifi_lo_get_lan_mac env s) in
    (\<exists>k<32. \<exists>off. F_VALID (wifi_lo_ety s ! k) \<and> wifi_lo_get_tcp_header p (protocol p) = Some (Some off) \<and>
       rd16 (pkt_data p) off = Some (wl_lport (wifi_lo_ety s ! k)) \<and>
       rd16 (pkt_data p) (off + 2) = Some (wl_rport (wifi_lo_ety s ! k)) \<and>
       (wifi_lo_wifi_only s \<longrightarrow> F_IS_WIFI (wifi_lo_ety s ! k))) \<and>
    length mac = 6 \<and> pkt_data f = mac @ mac @ le16 (protocol p) @ pkt_data p \<and> pkt_len f = pkt_len p + 14 \<and>
    wl_sk_ref s' = wl_sk_ref s \<and> wl_dst_ref s' = wl_dst_ref s \<and> wl_dev_ref s' = wl_dev_ref s \<and>
    wifi_lo_port_ht s' = wifi_lo_port_ht s \<and> wifi_lo_active_num s' = wifi_lo_active_num s \<and>
    (\<forall>i<32. (wifi_lo_ety s' ! i)\<lparr>wl_last_tx := 0\<rparr> = (wifi_lo_ety s ! i)\<lparr>wl_last_tx := 0\<rparr>)"
proof -
  note w = wl_world [OF assms(1)] and C = run_core(2) [OF assms(1,2)]
  obtain off src dst k s1 where th: "wifi_lo_get_tcp_header p (protocol p) = Some (Some off)"
    "rd16 (pkt_data p) off = Some src" "rd16 (pkt_data p) (off + 2) = Some dst"
    and k: "fast_path_session src dst s = Some k"
    and s1: "s1 = s \<or> s1 = upd_lo k (\<lambda>lo. lo\<lparr>wl_last_tx := oc_jiffies c\<rparr>) s"
    and f: "f = fast_tx_frame (fst (wifi_lo_get_lan_mac env s1)) p" and s': "s' = snd (wifi_lo_get_lan_mac env s1)"
    by (rule local_out_stolen [OF assms(4)])
  note K = wlo_world.fast_path_sessionD [OF w C k]
  have wo: "wifi_lo_wifi_only s \<longrightarrow> F_IS_WIFI (wifi_lo_ety s ! k)"
    using k by (auto simp: fast_path_session_def split: option.splits if_splits)
  note T = touch_last_tx [OF s1]
  have mac: "fst (wifi_lo_get_lan_mac env s1) = fst (wifi_lo_get_lan_mac env s)" by (rule lan_mac_cong [OF T(2-4)])
  have len: "length (fst (wifi_lo_get_lan_mac env s)) = 6" by (rule lan_mac_len [OF assms(3)])
  obtain d' m b where "s' = s1\<lparr>wl_regs := d', wifi_lo_lan_mac := m, wifi_lo_lan_mac_ready := b\<rparr>"
    using wlo_world.lan_mac_eq [OF w, of s1] s' by blast
  moreover obtain e where "s1 = s\<lparr>wifi_lo_ety := e\<rparr>" using T(1) by blast
  ultimately have frame: "wl_sk_ref s' = wl_sk_ref s \<and> wl_dst_ref s' = wl_dst_ref s \<and> wl_dev_ref s' = wl_dev_ref s \<and>
    wifi_lo_port_ht s' = wifi_lo_port_ht s \<and> wifi_lo_active_num s' = wifi_lo_active_num s \<and> wifi_lo_ety s' = wifi_lo_ety s1" by simp
  have "\<forall>i<32. (wifi_lo_ety s' ! i)\<lparr>wl_last_tx := 0\<rparr> = (wifi_lo_ety s ! i)\<lparr>wl_last_tx := 0\<rparr>"
    using T(5) wcore_len [OF C] frame by simp
  then show ?thesis using K wo th len frame unfolding f mac Let_def by (auto simp: fast_tx_frame_def)
qed

text \<open>The LAN address is known; a packet of the flow goes out.\<close>

lemma lo_two_takes:
  "length (wifi_lo_lan_mac lo_two) = 6 \<and>
   (case wifi_lo_nf_hook_local_out lo_env lo_ctx (lo_pkt 5 6) lo_two of Some (Stolen f, s') \<Rightarrow> True | _ \<Rightarrow> False)"
  by code_simp

theorem wl_takes_own_flow_witness:
  "\<exists>f s'. wifi_lo_nf_hook_local_out lo_env lo_ctx (lo_pkt 5 6) lo_two = Some (Stolen f, s') \<and>
     pkt_len f = 54 \<and> wl_sk_ref s' = wl_sk_ref lo_two"
proof -
  obtain f s' where e: "wifi_lo_nf_hook_local_out lo_env lo_ctx (lo_pkt 5 6) lo_two = Some (Stolen f, s')"
    using lo_two_takes by (auto split: option.splits lo_act.splits)
  from wl_takes_own_flow [OF lo_plain lo_run [unfolded lo_start_def] _ e] lo_two_takes
  have "pkt_len f = pkt_len (lo_pkt 5 6) + 14 \<and> wl_sk_ref s' = wl_sk_ref lo_two" by (simp add: Let_def)
  then show ?thesis using e by (auto simp: lo_pkt_def)
qed

text \<open>A packet that comes back from the engine for the ping-pong path is consumed exactly once without
  reading outside it: it is freed and only its own route reference is dropped, or it goes out,
  with one fresh reference, on the route of a live session whose ports are the ones it carries.\<close>

theorem wl_pingpong_delivers:
  assumes "plain_regs (wl_bus env) peek" and "wl_run env (wl_boot d bs bd bv mk) s"
    and "length (pkt_data p) < 2 ^ 31"
  shows "\<exists>r p' s'. wifi_lo_pingpong dev h p s = Some (r, p', s') \<and>
    s' = s\<lparr>wl_dst_ref := wl_dst_ref s'\<rparr> \<and> pkt_data p' = pkt_data p \<and>
    (r = Freed \<and> wl_dst_ref s' = own_dropped p (wl_dst_ref s) \<or>
     (\<exists>k<32. \<exists>off. let lo = wifi_lo_ety s ! k in
        r = Output (wl_tx_dst lo) (pkt_sk p) \<and> F_VALID lo \<and> wl_tx_dst lo \<noteq> 0 \<and> dev (wl_tx_dst lo) \<and>
        pkt_dst p' = wl_tx_dst lo \<and> pkt_dst_ref p' \<and> wl_dst_ref s' = ref_inc (wl_tx_dst lo) (wl_dst_ref s) \<and>
        wifi_lo_get_tcp_header (p\<lparr>net_header := 0\<rparr>) h = Some (Some off) \<and>
        rd16 (pkt_data p) off = Some (wl_lport lo) \<and> rd16 (pkt_data p) (off + 2) = Some (wl_rport lo)))"
proof -
  note w = wl_world [OF assms(1)] and C = run_core(2) [OF assms(1,2)]
  let ?p = "p\<lparr>net_header := 0\<rparr>"
  show ?thesis
  proof (cases "mac_header p = None")
    case True
    then show ?thesis by (simp add: wifi_lo_pingpong_def wl_kfree_skb_def own_dropped_def)
  next
    case False
    obtain lo where lo: "wifi_lo_get_ety ?p h True s = Some lo" using wl_get_ety_safe [of ?p h True s] assms(3) by auto
    define tx where "tx = (case lo of None \<Rightarrow> 0 | Some k \<Rightarrow> if F_VALID (wifi_lo_ety s ! k) then wl_tx_dst (wifi_lo_ety s ! k) else 0)"
    have e: "wifi_lo_pingpong dev h p s = (if tx = 0 then Some (wl_kfree_skb ?p s)
       else if \<not> dev tx then Some (wl_kfree_skb ?p (s\<lparr>wl_dst_ref := ref_dec tx (ref_dec tx (ref_inc tx (ref_inc tx (wl_dst_ref s))))\<rparr>))
       else Some (Output tx (pkt_sk p), ?p\<lparr>inner_protocol := PPE_MAGIC_LOCAL_OUT, pkt_dst := tx, pkt_dst_ref := True\<rparr>,
                  s\<lparr>wl_dst_ref := ref_dec tx (ref_inc tx (ref_inc tx (wl_dst_ref s)))\<rparr>))"
      unfolding wifi_lo_pingpong_def if_not_P [OF False] Let_def tx_def by (simp add: lo)
    show ?thesis
    proof (cases "tx = 0 \<or> \<not> dev tx")
      case True
      then show ?thesis by (auto simp: e wl_kfree_skb_def own_dropped_def ref_dec_inc)
    next
      case out: False
      then obtain k where k: "lo = Some k" "F_VALID (wifi_lo_ety s ! k)" "tx = wl_tx_dst (wifi_lo_ety s ! k)"
        by (auto simp: tx_def split: option.splits if_splits)
      show ?thesis using out k wl_get_ety_out [OF C lo [unfolded k(1)]] by (auto simp: e ref_dec_inc Let_def)
    qed
  qed
qed

lemma lo_two_returns:
  "case wifi_lo_pingpong (\<lambda>_. True) htons_ETH_P_IP (lo_pkt 5 6) lo_two of
     Some (r, p', s') \<Rightarrow> r = Output 0x99 0x70 | None \<Rightarrow> False"
  by code_simp

theorem wl_pingpong_delivers_witness:
  "\<exists>p' s'. wifi_lo_pingpong (\<lambda>_. True) htons_ETH_P_IP (lo_pkt 5 6) lo_two = Some (Output 0x99 0x70, p', s') \<and>
     wl_dst_ref s' = ref_inc 0x99 (wl_dst_ref lo_two)"
proof -
  have "length (pkt_data (lo_pkt 5 6)) < 2 ^ 31" by (simp add: lo_pkt_def)
  from wl_pingpong_delivers [OF lo_plain lo_run [unfolded lo_start_def] this, of "\<lambda>_. True" htons_ETH_P_IP] lo_two_returns
  show ?thesis by (auto simp: Let_def)
qed

text \<open>A packet returned for local delivery is found by the low half of its flow hash or freed; a found
  one goes up as a host packet of its session's ingress device with the length field restamped
  modulo 65536 (and, for IPv4, the checksum), every other byte kept, and its session's socket is
  marked for copy skipping exactly once.\<close>

theorem wl_gro_restamps:
  assumes "plain_regs (wl_bus env) peek" and "wl_run env (wl_boot d bs bd bv mk) s"
    and "40 \<le> length (pkt_data p)"
  shows "\<exists>ret p' s'. wifi_lo_prepare_gro csum rh v6 p s = Some (ret, p', s') \<and>
    (case (if mac_header p = None then None else wifi_lo_find_by_hash (ucast (rh AND 0xFFFF)) s) of
       None \<Rightarrow> ret = 0 \<and> p' = p \<and> s' = s
     | Some k \<Rightarrow> let lo = wifi_lo_ety s ! k; lo' = wifi_lo_ety s' ! k; o1 = if v6 then 4 else 2;
           n = if v6 then pkt_len p - 40 else pkt_len p in
         ret = 1 \<and> k < 32 \<and> F_VALID lo \<and> wl_hash lo = ucast (rh AND 0xFFFF) \<and>
         pkt_host p' \<and> csum_ok p' \<and> pkt_dev p' = (if wl_dev lo \<noteq> 0 then wl_dev lo else pkt_dev p) \<and>
         length (pkt_data p') = length (pkt_data p) \<and>
         256 * uint (pkt_data p' ! o1) + uint (pkt_data p' ! (o1 + 1)) = uint n mod 65536 \<and>
         (\<forall>i<length (pkt_data p). i \<notin> (if v6 then {4, 5} else {2, 3, 10, 11}) \<longrightarrow> pkt_data p' ! i = pkt_data p ! i) \<and>
         lo' = (if wl_sk lo = 0 then lo else lo\<lparr>F_SKIP_COPY := True\<rparr>) \<and>
         wl_mark s' = (if wl_sk lo = 0 \<or> F_SKIP_COPY lo then wl_mark s else (wl_mark s)(wl_sk lo := SK_MARK_WIFI_LO)))"
proof -
  note w = wl_world [OF assms(1)] and C = run_core(2) [OF assms(1,2)]
  obtain d' where D: "gro_data csum v6 (pkt_len p) (pkt_data p) = Some d'" "length d' = length (pkt_data p)"
    "let o1 = if v6 then 4 else 2; m = if v6 then pkt_len p - 40 else pkt_len p
     in 256 * uint (d' ! o1) + uint (d' ! (o1 + 1)) = uint m mod 65536"
    "\<forall>i<length d'. i \<notin> (if v6 then {4, 5} else {2, 3, 10, 11}) \<longrightarrow> d' ! i = pkt_data p ! i"
    using gro_data_stamped [OF assms(3), of csum v6 "pkt_len p"] by blast
  show ?thesis
  proof (cases "if mac_header p = None then None else wifi_lo_find_by_hash (ucast (rh AND 0xFFFF)) s")
    case None
    then show ?thesis unfolding gro_eq None by simp
  next
    case (Some k)
    then have f: "wifi_lo_find_by_hash (ucast (rh AND 0xFFFF)) s = Some k" by (auto split: if_splits)
    note K = find_by_hashD [OF C f]
    let ?lo = "wifi_lo_ety s ! k"
    have "k < length (wifi_lo_ety s)" using K(1) wcore_len [OF C] by simp
    moreover have "?lo = ?lo\<lparr>F_SKIP_COPY := True\<rparr>" if "F_SKIP_COPY ?lo" using that by (cases ?lo) simp
    ultimately show ?thesis using K D unfolding gro_eq Some option.case Let_def D(1)
      by (auto simp: upd_lo_def)
  qed
qed

definition lo_gro_pkt :: gro_pkt where
  "lo_gro_pkt = pkt.extend ((lo_pkt 6 5)\<lparr>pkt_len := 70000\<rparr>) \<lparr>pkt_host = False, pkt_dev = 3, csum_ok = False\<rparr>"

lemma lo_two_hash: "wifi_lo_find_by_hash 0xBEEF lo_two = Some 0 \<and> wl_dev (wifi_lo_ety lo_two ! 0) = 0xA1 \<and>
    mac_header lo_gro_pkt \<noteq> None \<and> pkt_len lo_gro_pkt = 70000 \<and> length (pkt_data lo_gro_pkt) = 40"
  by code_simp

theorem wl_gro_restamps_witness:
  "\<exists>p' s'. wifi_lo_prepare_gro (\<lambda>_ _. 0) 0x1234BEEF False lo_gro_pkt lo_two = Some (1, p', s') \<and> pkt_dev p' = 0xA1 \<and>
     256 * uint (pkt_data p' ! 2) + uint (pkt_data p' ! 3) = 4464"
proof -
  have h: "(ucast ((0x1234BEEF :: u32) AND 0xFFFF) :: u16) = 0xBEEF" by code_simp
  have "40 \<le> length (pkt_data lo_gro_pkt)" using lo_two_hash by simp
  from wl_gro_restamps [OF lo_plain lo_run [unfolded lo_start_def] this, of "\<lambda>_ _. 0" "0x1234BEEF" False] lo_two_hash
  show ?thesis unfolding h by (auto simp: Let_def)
qed

end
