(* ===== verification/WifiLoLimits.thy ===== *)
theory WifiLoLimits
  imports WifiLoProps
begin

text \<open>
  Where the local fast path loses what it holds: sessions that duplicate one flow, the LRO limit
  that stays overridden, and a device published into a session that is already gone.
\<close>

section \<open>Duplicate sessions\<close>

lemma live_count_filter: "live_count ety = int (length (filter F_VALID ety))"
  by (induction ety) (simp_all add: live_count_def)

lemma live_count_le: "live_count ety \<le> int (length ety)"
  by (simp add: live_count_filter)

lemma live_count_full: "(\<forall>lo\<in>set ety. F_VALID lo) \<Longrightarrow> live_count ety = int (length ety)"
  by (simp add: live_count_filter)

text \<open>Packets of one flow, each sent by a registered application, while no session is known to be Wi-Fi.\<close>

fun out_all :: "'d wlo_env \<Rightarrow> (out_ctx \<times> pkt) list \<Rightarrow> 'd wlo \<Rightarrow> (lo_act list \<times> 'd wlo) option" where
  "out_all env [] s = Some ([], s)"
| "out_all env ((c, p) # ps) s = do {
     (a, s) \<leftarrow> wifi_lo_nf_hook_local_out env c p s;
     (as, s) \<leftarrow> out_all env ps s;
     Some (a # as, s) }"

definition flow_pkt :: "u16 \<Rightarrow> u16 \<Rightarrow> 'd wlo \<Rightarrow> out_ctx \<times> pkt \<Rightarrow> bool" where
  "flow_pkt src dst s = (\<lambda>(c, p). wifi_lo_app_match (oc_comm c) (wifi_lo_apps_snap s) \<and>
     (\<exists>off. wifi_lo_get_tcp_header p (protocol p) = Some (Some off) \<and>
        rd16 (pkt_data p) off = Some src \<and> rd16 (pkt_data p) (off + 2) = Some dst))"

definition no_wifi :: "'d wlo \<Rightarrow> bool" where
  "no_wifi s \<longleftrightarrow> wifi_lo_wifi_only s \<and> (\<forall>k<32. \<not> F_IS_WIFI (wifi_lo_ety s ! k) \<and> \<not> F_DEV_RELEASING (wifi_lo_ety s ! k))"

context wlo_world
begin

lemma flow_adds:
  assumes I: "wl_inv t bs bd bv s" and n: "no_wifi s" and f: "flow_pkt src dst s (c, p)"
  shows "\<exists>s'. wifi_lo_nf_hook_local_out env c p s = Some (Accept, s') \<and> wl_inv t bs bd bv s' \<and> no_wifi s' \<and>
    wifi_lo_apps_snap s' = wifi_lo_apps_snap s \<and> wifi_lo_active_num s' = min (wifi_lo_active_num s + 1) 32"
proof -
  have C: "core_of bs bd bv s" using I by (simp add: wl_inv_def)
  obtain off where P: "wifi_lo_app_match (oc_comm c) (wifi_lo_apps_snap s)"
    "wifi_lo_get_tcp_header p (protocol p) = Some (Some off)" "rd16 (pkt_data p) off = Some src" "rd16 (pkt_data p) (off + 2) = Some dst"
    using f by (auto simp: flow_pkt_def)
  let ?s' = "wifi_lo_add_ety env (oc_jiffies c) (pkt_dst p) (pkt_sk p) (oc_full_sk c) src dst s"
  have none: "(if wifi_lo_active_key s then fast_path_session src dst s else None) = None"
    using n find_by_portD(1) [OF C] by (auto simp: fast_path_session_def no_wifi_def split: option.splits)
  have e: "wifi_lo_nf_hook_local_out env c p s = Some (Accept, ?s')"
    unfolding wifi_lo_nf_hook_local_out_def P(2-4) Option.bind.bind_lunit option.case none if_P [OF P(1)] ..
  note A = add_eq [OF C, of "oc_jiffies c" "pkt_dst p" "pkt_sk p" "oc_full_sk c" src dst t]
  have num: "wifi_lo_active_num s = live_count (wifi_lo_ety s)" using C by (simp add: wl_core_def)
  have "no_wifi ?s' \<and> wifi_lo_apps_snap ?s' = wifi_lo_apps_snap s \<and> wifi_lo_active_num ?s' = min (wifi_lo_active_num s + 1) 32"
  proof (cases "free_slot s")
    case None
    then have "\<forall>k<32. F_VALID (wifi_lo_ety s ! k)"
      using n by (auto simp: free_slot_def find_upt_None no_wifi_def)
    then have "\<forall>lo\<in>set (wifi_lo_ety s). F_VALID lo" using wcore_len [OF C] by (metis in_set_conv_nth)
    then have "wifi_lo_active_num s = 32" using live_count_full num wcore_len [OF C] by simp
    then show ?thesis using A None n by simp
  next
    case (Some k)
    have "\<not> (\<forall>lo\<in>set (wifi_lo_ety s). F_VALID lo)" using A Some wcore_len [OF C] by (auto dest: bspec [OF _ nth_mem])
    then have "length (filter F_VALID (wifi_lo_ety s)) < 32"
      using wcore_len [OF C] by (metis length_filter_less)
    then have "wifi_lo_active_num s + 1 \<le> 32" using num by (simp add: live_count_filter)
    then show ?thesis using A Some n wcore_len [OF C] by (auto simp: no_wifi_def nth_list_update new_lo_def split: if_splits)
  qed
  then show ?thesis using e inv_add [OF I] by blast
qed

lemma flow_adds_all:
  assumes "wl_inv t bs bd bv s" and "no_wifi s" and "\<forall>cp\<in>set ps. flow_pkt src dst s cp"
  shows "\<exists>s'. out_all env ps s = Some (replicate (length ps) Accept, s') \<and> wl_inv t bs bd bv s' \<and> no_wifi s' \<and>
    wifi_lo_active_num s' = (if ps = [] then wifi_lo_active_num s else min (wifi_lo_active_num s + int (length ps)) 32)"
  using assms
proof (induction ps arbitrary: s)
  case Nil
  then show ?case by simp
next
  case (Cons cp ps)
  obtain c p where cp: "cp = (c, p)" by (cases cp)
  obtain s1 where s1: "wifi_lo_nf_hook_local_out env c p s = Some (Accept, s1)" "wl_inv t bs bd bv s1" "no_wifi s1"
    "wifi_lo_apps_snap s1 = wifi_lo_apps_snap s" "wifi_lo_active_num s1 = min (wifi_lo_active_num s + 1) 32"
    using flow_adds [OF Cons.prems(1,2), of src dst c p] Cons.prems(3) cp by auto
  have "\<forall>cp\<in>set ps. flow_pkt src dst s1 cp" using Cons.prems(3) s1(4) by (auto simp: flow_pkt_def)
  from Cons.IH [OF s1(2,3) this] show ?case using s1 by (auto simp: cp)
qed

end

section \<open>Properties\<close>

text \<open>One flow that never becomes a Wi-Fi flow takes the whole table: with only Wi-Fi flows wanted,
  every packet a registered application sends on it adds another session for the same ports, so
  that after 32 packets all slots are live and no session can be added for any other flow.\<close>

theorem wl_one_flow_fills_table:
  assumes "plain_regs (wl_bus env) peek" and "wl_run env (wl_boot d bs bd bv mk) s"
    and "no_wifi s" and "\<forall>cp\<in>set ps. flow_pkt src dst s cp" and "32 \<le> length ps"
  shows "\<exists>s'. out_all env ps s = Some (replicate (length ps) Accept, s') \<and> wifi_lo_active_num s' = 32 \<and>
    (\<forall>k<32. F_VALID (wifi_lo_ety s' ! k)) \<and>
    (\<forall>j dst sk full a b. wifi_lo_add_ety env j dst sk full a b s' = s')"
proof -
  note w = wl_world [OF assms(1)] and I = run_core(1) [OF assms(1,2)]
  have "0 \<le> wifi_lo_active_num s"
    using run_core(2) [OF assms(1,2)] by (simp add: wl_core_def live_count_filter)
  then have n: "(if ps = [] then wifi_lo_active_num s else min (wifi_lo_active_num s + int (length ps)) 32) = 32"
    using assms(5) by auto
  obtain s' where s': "out_all env ps s = Some (replicate (length ps) Accept, s')" "core_of bs bd bv s'"
    "wifi_lo_active_num s' = 32"
    using wlo_world.flow_adds_all [OF w I assms(3,4)] unfolding n wlo_world.wl_inv_def [OF w] by blast
  have "length (filter F_VALID (wifi_lo_ety s')) = length (wifi_lo_ety s')"
    using s'(2,3) by (simp add: wl_core_def live_count_filter)
  then have v: "\<forall>k<32. F_VALID (wifi_lo_ety s' ! k)"
    using wcore_len [OF s'(2)] by (metis filter_id_conv length_filter_less nat_less_le nth_mem)
  then have "wlo_world.free_slot s' = None" by (simp add: wlo_world.free_slot_def [OF w] find_upt_None)
  then have "wifi_lo_add_ety env j dst sk full a b s' = s'" for j dst sk full a b
    using wlo_world.add_eq [OF w s'(2), of j dst sk full a b] by simp
  then show ?thesis using s' v by blast
qed

lemma lo_ready_eval: "wifi_lo_app_match ''iperf3'' (wifi_lo_apps_snap lo_ready)" (is ?a) "wifi_lo_wifi_only lo_ready" (is ?b)
  "list_all (\<lambda>lo. \<not> F_IS_WIFI lo \<and> \<not> F_DEV_RELEASING lo) (wifi_lo_ety lo_ready) \<and> length (wifi_lo_ety lo_ready) = 32" (is ?c)
  "wifi_lo_get_tcp_header (lo_pkt 5 6) (protocol (lo_pkt 5 6)) = Some (Some 20) \<and>
   rd16 (pkt_data (lo_pkt 5 6)) 20 = Some 5 \<and> rd16 (pkt_data (lo_pkt 5 6)) (20 + 2) = Some 6" (is ?d)
proof -
  show ?a by code_simp
  show ?b by code_simp
  show ?c by code_simp
  show ?d by code_simp
qed

lemma lo_ready_flow: "no_wifi lo_ready" "flow_pkt 5 6 lo_ready (lo_ctx, lo_pkt 5 6)"
  using lo_ready_eval by (auto simp: no_wifi_def list_all_length flow_pkt_def lo_ctx_def)

theorem wl_one_flow_fills_table_witness:
  "\<exists>s'. out_all lo_env (replicate 40 (lo_ctx, lo_pkt 5 6)) lo_ready = Some (replicate 40 Accept, s') \<and> wifi_lo_active_num s' = 32"
  using wl_one_flow_fills_table [OF lo_plain lo_ready_run [unfolded lo_start_def] lo_ready_flow(1),
      of "replicate 40 (lo_ctx, lo_pkt 5 6)" 5 6] lo_ready_flow(2) by auto

text \<open>When the last session dies while a dynamic-IFC session shares its ports, the limit stays
  overridden although no session is left, and the registers are not touched.\<close>

theorem wl_limit_stays_with_difc:
  assumes "plain_regs (wl_bus env) peek" and "wl_run env (wl_boot d bs bd bv mk) s"
    and "wifi_lo_active_num s = 1" and "k < 32" and "F_VALID (wifi_lo_ety s ! k)"
    and "\<not> time_before j (wl_last_tx (wifi_lo_ety s ! k) + wl_HZ env)"
    and "f (ntohs (wl_rport (wifi_lo_ety s ! k))) (ntohs (wl_lport (wifi_lo_ety s ! k))) \<noteq> 0"
  shows "let s' = wifi_lo_timeout env (Some f) cl j k s in
    wifi_lo_active_num s' = 0 \<and> wifi_lo_port_ht s' = [] \<and> lro_agg_num_saved (wl_lro s') \<and> wl_regs s' = wl_regs s"
proof -
  note w = wl_world [OF assms(1)] and C = run_core(2) [OF assms(1,2)] and I = run_core(1) [OF assms(1,2)]
  have t: "wl_timer (wifi_lo_ety s ! k) \<noteq> None" using core_slot [OF C assms(4)] assms(5) by (auto simp: slot_ok_def)
  have saved: "lro_agg_num_saved (wl_lro s)" using I assms(3) by (simp add: wlo_world.wl_inv_def [OF w])
  have "wlo_world.wl_inv env peek (peek d) bs bd bv (wifi_lo_timeout env (Some f) cl j k s)"
    by (rule wlo_world.inv_timeout [OF w I assms(4) t])
  then have C': "core_of bs bd bv (wifi_lo_timeout env (Some f) cl j k s)" by (simp add: wlo_world.wl_inv_def [OF w])
  have s': "wifi_lo_active_num (wifi_lo_timeout env (Some f) cl j k s) = 0 \<and> wl_lro (wifi_lo_timeout env (Some f) cl j k s) = wl_lro s \<and>
      wl_regs (wifi_lo_timeout env (Some f) cl j k s) = wl_regs s"
    using wlo_world.timeout_eq [OF w C assms(4) t, of j "Some f" cl] assms(3,6,7) by auto
  then have "\<forall>i. i \<notin> set (wifi_lo_port_ht (wifi_lo_timeout env (Some f) cl j k s))"
    using C' live_count_pos [OF wcore_len [OF C']] by (auto simp: wl_core_def)
  then show ?thesis using s' saved by (auto simp: Let_def intro: ccontr simp flip: set_empty)
qed

lemma lo_two_last: "wifi_lo_active_num lo_two = 1" (is ?a) "F_VALID (wifi_lo_ety lo_two ! 0)" (is ?b)
  "\<not> time_before 2000 (wl_last_tx (wifi_lo_ety lo_two ! 0) + wl_HZ lo_env)" (is ?c)
  "wl_regs lo_two PHY_REG_CDM1_LRO_LIMIT = 0x00120000" (is ?d)
proof -
  show ?a by code_simp
  show ?b by code_simp
  show ?c by code_simp
  show ?d by code_simp
qed

theorem wl_limit_stays_with_difc_witness:
  "wl_regs (wifi_lo_timeout lo_env (Some (\<lambda>_ _. 1)) True 2000 0 lo_two) PHY_REG_CDM1_LRO_LIMIT = 0x00120000"
proof -
  have k: "0 < (32 :: nat)" by simp
  show ?thesis
    using wl_limit_stays_with_difc [OF lo_plain lo_run [unfolded lo_start_def] lo_two_last(1) k lo_two_last(2,3), of "\<lambda>_ _. 1" True]
      lo_two_last(4) by (simp add: Let_def)
qed

text \<open>An incoming packet that found a session before its timer fired and publishes the ingress
  device after it has died leaves a reference on the device that nothing gives back: the next
  session in the slot overwrites the pointer, and with the module at rest the count is still one
  above its value at start.\<close>

theorem wl_late_publish_leaks:
  "let s = wifi_lo_timeout lo_env None True 2000 0 lo_one;
       s = wifi_lo_publish_ingress_dev lo_env 0 0xA1 s;
       s = wifi_lo_add_ety lo_env 2000 0x99 0x70 True 5 6 s;
       q = quiesce lo_env True 3000 s
   in wl_dev_ref lo_start 0xA1 = 1 \<and> wl_dev_ref q 0xA1 = 2 \<and> wifi_lo_active_num q = 0 \<and>
      held_refs wl_dev (wifi_lo_ety q) 0xA1 = 0 \<and> held_refs dev_pending_release (wifi_lo_ety q) 0xA1 = 0"
  by code_simp

end
