(* ===== verification/WifiLoCtl.thy ===== *)
theory WifiLoCtl
  imports Kprobe WifiLoProps
begin

text \<open>
  Module load and exit of \<^verbatim>\<open>airoha/arht_wifi_lo.c\<close>: four netfilter hooks with their roll-back labels,
  the proc file, the hook pointers, the shared skip-copy probe, and the exit that takes every
  session down at once.
\<close>

section \<open>State\<close>

datatype nf_ops = Ipv4_local_in | Ipv4_local_out | Ipv6_local_in | Ipv6_local_out

record ('d, 'c) wl_module =
  lo_tab :: "'d wlo"
  lo_probes :: "'c kp_state"
  nf_hooked :: "nf_ops \<Rightarrow> bool"
  prepare_gro_hook :: bool
  lo_pingpong_hook :: bool
  lo_proc_entry :: bool

section \<open>Initialisation\<close>

text \<open>\<open>nf\<close> gives the kernel's answer to each registration, 0 for success.\<close>

definition nf_register_net_hook :: "(nf_ops \<Rightarrow> int) \<Rightarrow> nf_ops \<Rightarrow> ('d, 'c) wl_module \<Rightarrow> int \<times> ('d, 'c) wl_module" where
  "nf_register_net_hook nf h m = (nf h, if nf h = 0 then m\<lparr>nf_hooked := (nf_hooked m)(h := True)\<rparr> else m)"

definition nf_unregister_net_hook :: "nf_ops \<Rightarrow> ('d, 'c) wl_module \<Rightarrow> ('d, 'c) wl_module" where
  "nf_unregister_net_hook h m = m\<lparr>nf_hooked := (nf_hooked m)(h := False)\<rparr>"

definition err_unhook_v4_in :: "('d, 'c) wl_module \<Rightarrow> ('d, 'c) wl_module" where
  "err_unhook_v4_in m = nf_unregister_net_hook Ipv4_local_in m"

definition err_unhook_v4_out :: "('d, 'c) wl_module \<Rightarrow> ('d, 'c) wl_module" where
  "err_unhook_v4_out m = err_unhook_v4_in (nf_unregister_net_hook Ipv4_local_out m)"

definition err_unhook_v6_in :: "('d, 'c) wl_module \<Rightarrow> ('d, 'c) wl_module" where
  "err_unhook_v6_in m = err_unhook_v4_out (nf_unregister_net_hook Ipv6_local_in m)"

definition err_unhook_v6_out :: "('d, 'c) wl_module \<Rightarrow> ('d, 'c) wl_module" where
  "err_unhook_v6_out m = err_unhook_v6_in (nf_unregister_net_hook Ipv6_local_out m)"

definition wifi_lo_init ::
  "(nf_ops \<Rightarrow> int) \<Rightarrow> bool \<Rightarrow> bool \<Rightarrow> 'c kp_core \<Rightarrow> ('d, 'c) wl_module \<Rightarrow> int \<times> ('d, 'c) wl_module" where
  "wifi_lo_init nf proc_ok alloc_ok io m =
     (let m = m\<lparr>lo_tab := (lo_tab m)\<lparr>wifi_lo_port_ht := [], wifi_lo_hash_ht := []\<rparr>\<rparr>;
          (ret, m) = nf_register_net_hook nf Ipv4_local_in m in
      if ret \<noteq> 0 then (ret, m) else
      let (ret, m) = nf_register_net_hook nf Ipv4_local_out m in
      if ret \<noteq> 0 then (ret, err_unhook_v4_in m) else
      let (ret, m) = nf_register_net_hook nf Ipv6_local_in m in
      if ret \<noteq> 0 then (ret, err_unhook_v4_out m) else
      let (ret, m) = nf_register_net_hook nf Ipv6_local_out m in
      if ret \<noteq> 0 then (ret, err_unhook_v6_in m) else
      if \<not> proc_ok then (- ENOMEM, err_unhook_v6_out m) else
      let m = m\<lparr>lo_proc_entry := True\<rparr>;
          m = m\<lparr>lo_tab := (lo_tab m)\<lparr>wifi_lo_apps_snap := snd (wifi_lo_app_add alloc_ok ''iperf3'' (wifi_lo_apps_snap (lo_tab m)))\<rparr>\<rparr>;
          m = m\<lparr>prepare_gro_hook := True, lo_pingpong_hook := True\<rparr>;
          m = m\<lparr>lo_probes := snd (arht_skip_copy_kprobe_enable io (lo_probes m))\<rparr>
      in (0, m))"

section \<open>Exit\<close>

record exit_refs =
  sks_to_release :: "u64 list"
  dsts_to_release :: "u64 list"
  devs_to_release :: "u64 list"

definition exit_detach :: "nat \<Rightarrow> 'd wlo \<times> exit_refs \<Rightarrow> 'd wlo \<times> exit_refs" where
  "exit_detach i = (\<lambda>(s, r).
     let lo = wifi_lo_ety s ! i in
     if \<not> F_VALID lo then (s, r)
     else
       let (s, r) = (if wl_sk lo \<noteq> 0
                     then (upd_lo i (\<lambda>lo. lo\<lparr>wl_sk := 0\<rparr>) (s\<lparr>wl_mark := (wl_mark s)(wl_sk lo := 0)\<rparr>),
                           r\<lparr>sks_to_release := (sks_to_release r)[i := wl_sk lo]\<rparr>)
                     else (s, r));
           r = r\<lparr>dsts_to_release := (dsts_to_release r)[i := wl_tx_dst lo]\<rparr>;
           s = upd_lo i (\<lambda>lo. lo\<lparr>wl_tx_dst := 0\<rparr>) s;
           r = r\<lparr>devs_to_release := (devs_to_release r)[i := wl_dev lo]\<rparr>;
           s = upd_lo i (\<lambda>lo. lo\<lparr>wl_dev := 0\<rparr>) s;
           s = unhash_lo i s
       in (upd_lo i (\<lambda>lo. lo\<lparr>F_VALID := False, F_SKIP_COPY := False, F_IS_WIFI := False, F_DEV_RELEASING := False\<rparr>) s, r))"

definition exit_put :: "exit_refs \<Rightarrow> nat \<Rightarrow> 'd wlo \<Rightarrow> 'd wlo" where
  "exit_put r i s = s\<lparr>wl_sk_ref := ref_dec (sks_to_release r ! i) (wl_sk_ref s),
     wl_dst_ref := ref_dec (dsts_to_release r ! i) (wl_dst_ref s),
     wl_dev_ref := ref_dec (devs_to_release r ! i) (wl_dev_ref s)\<rparr>"

text \<open>The pending grace-period callbacks run before \<^verbatim>\<open>rcu_barrier\<close> returns.\<close>

definition exit_sessions :: "'d wlo \<Rightarrow> 'd wlo" where
  "exit_sessions s =
     (let s = s\<lparr>wifi_lo_ety := map (\<lambda>lo. lo\<lparr>wl_timer := None\<rparr>) (wifi_lo_ety s)\<rparr>;
          z = replicate WIFI_LO_MAX_NUM 0;
          (s, r) = fold exit_detach [0..<WIFI_LO_MAX_NUM]
                     (s, \<lparr>sks_to_release = z, dsts_to_release = z, devs_to_release = z\<rparr>);
          s = s\<lparr>wifi_lo_active_num := 0, sync_work := False\<rparr>;
          s = (if wifi_lo_active_key s then s\<lparr>wifi_lo_active_key := False\<rparr> else s);
          s = fold (exit_put r) [0..<WIFI_LO_MAX_NUM] s;
          s = s\<lparr>wifi_lo_apps_snap := None\<rparr>
      in grace_all [0..<WIFI_LO_MAX_NUM] s)"

definition wifi_lo_exit :: "'c kp_core \<Rightarrow> ('d, 'c) wl_module \<Rightarrow> ('d, 'c) wl_module" where
  "wifi_lo_exit io m =
     (let m = m\<lparr>prepare_gro_hook := False, lo_pingpong_hook := False\<rparr>;
          m = m\<lparr>lo_probes := arht_skip_copy_kprobe_disable io (lo_probes m)\<rparr>;
          m = nf_unregister_net_hook Ipv6_local_out (nf_unregister_net_hook Ipv6_local_in
                (nf_unregister_net_hook Ipv4_local_out (nf_unregister_net_hook Ipv4_local_in m)));
          m = m\<lparr>lo_tab := exit_sessions (lo_tab m)\<rparr>
      in m\<lparr>lo_proc_entry := False\<rparr>)"

section \<open>The exit's loops\<close>

definition wl_fixed :: "'d wlo \<Rightarrow> 'd wlo \<Rightarrow> bool" where
  "wl_fixed s s' \<longleftrightarrow> wl_sk_ref s' = wl_sk_ref s \<and> wl_dst_ref s' = wl_dst_ref s \<and> wl_dev_ref s' = wl_dev_ref s \<and>
     wl_lro s' = wl_lro s \<and> wl_regs s' = wl_regs s"

text \<open>After the first \<open>n\<close> slots: they are empty, what they held is in the lists, the rest is as it was.\<close>

definition detached :: "nat \<Rightarrow> 'd wlo \<Rightarrow> 'd wlo \<times> exit_refs \<Rightarrow> bool" where
  "detached n s = (\<lambda>(s', r). wl_fixed s s' \<and> length (wifi_lo_ety s') = 32 \<and>
     length (sks_to_release r) = 32 \<and> length (dsts_to_release r) = 32 \<and> length (devs_to_release r) = 32 \<and>
     (\<forall>i<32. let lo = wifi_lo_ety s ! i; lo' = wifi_lo_ety s' ! i in
        dev_pending_release lo' = dev_pending_release lo \<and> F_DEV_RELEASING lo' = F_DEV_RELEASING lo \<and>
        (if i < n then \<not> F_VALID lo' \<and> sks_to_release r ! i = wl_sk lo \<and> dsts_to_release r ! i = wl_tx_dst lo \<and>
                       devs_to_release r ! i = wl_dev lo
         else lo' = lo \<and> sks_to_release r ! i = 0 \<and> dsts_to_release r ! i = 0 \<and> devs_to_release r ! i = 0)))"

text \<open>What the loop relies on in a slot: only live sessions hold anything, and none awaits a grace period.\<close>

definition exit_ready :: "'d wlo \<Rightarrow> bool" where
  "exit_ready s \<longleftrightarrow> length (wifi_lo_ety s) = 32 \<and> (\<forall>i<32. let lo = wifi_lo_ety s ! i in
     (F_VALID lo \<longrightarrow> \<not> F_DEV_RELEASING lo) \<and> (F_DEV_RELEASING lo \<longleftrightarrow> dev_pending_release lo \<noteq> 0) \<and>
     (\<not> F_VALID lo \<longrightarrow> wl_sk lo = 0 \<and> wl_tx_dst lo = 0 \<and> wl_dev lo = 0))"

lemma detached_step:
  assumes D: "detached n s sr" and n: "n < 32" and R: "exit_ready s"
  shows "detached (Suc n) s (exit_detach n sr)"
proof -
  obtain s' r where sr: "sr = (s', r)" by (cases sr)
  let ?lo = "wifi_lo_ety s ! n"
  have lo: "wifi_lo_ety s' ! n = ?lo" and len: "length (wifi_lo_ety s') = 32"
    using D n by (auto simp: detached_def sr Let_def)
  have slot: "(F_VALID ?lo \<longrightarrow> \<not> F_DEV_RELEASING ?lo) \<and> (\<not> F_VALID ?lo \<longrightarrow> wl_sk ?lo = 0 \<and> wl_tx_dst ?lo = 0 \<and> wl_dev ?lo = 0)"
    using R n by (auto simp: exit_ready_def Let_def)
  show ?thesis
  proof (cases "F_VALID ?lo")
    case False
    then have "exit_detach n sr = sr" by (simp add: exit_detach_def sr lo)
    then show ?thesis using D False slot n lo by (auto simp: detached_def sr Let_def less_Suc_eq)
  next
    case True
    obtain s2 r2 where e: "exit_detach n sr = (s2, r2)" by fastforce
    have F: "wl_fixed s' s2 \<and> length (wifi_lo_ety s2) = 32 \<and>
        (\<forall>i<32. i \<noteq> n \<longrightarrow> wifi_lo_ety s2 ! i = wifi_lo_ety s' ! i) \<and> \<not> F_VALID (wifi_lo_ety s2 ! n) \<and>
        \<not> F_DEV_RELEASING (wifi_lo_ety s2 ! n) \<and> dev_pending_release (wifi_lo_ety s2 ! n) = dev_pending_release ?lo"
      using e True len n lo by (auto simp: exit_detach_def sr Let_def upd_lo_def unhash_lo_def wl_fixed_def split: if_splits)
    have G: "sks_to_release r2 = (if wl_sk ?lo \<noteq> 0 then (sks_to_release r)[n := wl_sk ?lo] else sks_to_release r) \<and>
        dsts_to_release r2 = (dsts_to_release r)[n := wl_tx_dst ?lo] \<and> devs_to_release r2 = (devs_to_release r)[n := wl_dev ?lo]"
      using e True by (auto simp: exit_detach_def sr Let_def lo split: if_splits)
    have fx: "wl_fixed s s2" using D F by (auto simp: detached_def sr wl_fixed_def)
    have "let lo = wifi_lo_ety s ! i; lo' = wifi_lo_ety s2 ! i in
        dev_pending_release lo' = dev_pending_release lo \<and> F_DEV_RELEASING lo' = F_DEV_RELEASING lo \<and>
        (if i < Suc n then \<not> F_VALID lo' \<and> sks_to_release r2 ! i = wl_sk lo \<and> dsts_to_release r2 ! i = wl_tx_dst lo \<and>
                       devs_to_release r2 ! i = wl_dev lo
         else lo' = lo \<and> sks_to_release r2 ! i = 0 \<and> dsts_to_release r2 ! i = 0 \<and> devs_to_release r2 ! i = 0)" if "i < 32" for i
    proof (cases "i = n")
      case True
      then show ?thesis using D F G slot n \<open>F_VALID ?lo\<close> by (auto simp: detached_def sr Let_def)
    next
      case False
      then show ?thesis using D F G that by (auto simp: detached_def sr Let_def less_Suc_eq)
    qed
    moreover have "length (sks_to_release r2) = 32 \<and> length (dsts_to_release r2) = 32 \<and> length (devs_to_release r2) = 32"
      using D G by (auto simp: detached_def sr)
    ultimately show ?thesis using fx F unfolding e detached_def by simp
  qed
qed

lemma detached_fold:
  assumes "exit_ready s" and "n \<le> 32"
  defines "z \<equiv> replicate WIFI_LO_MAX_NUM 0"
  shows "detached n s (fold exit_detach [0..<n] (s, \<lparr>sks_to_release = z, dsts_to_release = z, devs_to_release = z\<rparr>))"
  using assms(2)
proof (induction n)
  case 0
  have z: "z ! i = 0" if "i < 32" for i unfolding z_def by (rule nth_replicate) (rule that)
  have "length z = 32" by (simp add: z_def)
  then show ?case using assms(1) z by (simp add: detached_def exit_ready_def wl_fixed_def Let_def)
next
  case (Suc n)
  then show ?case using detached_step [OF _ _ assms(1)] by simp
qed

text \<open>Counting over slots.\<close>

definition slots_with :: "nat \<Rightarrow> (nat \<Rightarrow> u64) \<Rightarrow> u64 \<Rightarrow> int" where
  "slots_with n f x = (\<Sum>i\<leftarrow>[0..<n]. of_bool (f i = x))"

lemma slots_with_simps [simp]: "slots_with 0 f x = 0" "slots_with (Suc n) f x = slots_with n f x + of_bool (f n = x)"
  by (simp_all add: slots_with_def)

lemma slots_with_cong: "(\<And>i. i < n \<Longrightarrow> f i = g i) \<Longrightarrow> slots_with n f x = slots_with n g x"
  by (induction n) simp_all

lemma held_slots: "held_refs f ety x = slots_with (length ety) (\<lambda>i. f (ety ! i)) x"
proof -
  have "map (\<lambda>lo. of_bool (f lo = x)) ety = map (\<lambda>i. of_bool (f (ety ! i) = x) :: int) [0..<length ety]"
    by (intro nth_equalityI) simp_all
  then show ?thesis by (simp add: held_refs_def slots_with_def)
qed

lemma put_fold:
  assumes "x \<noteq> 0"
  shows "wl_sk_ref (fold (exit_put r) [0..<n] s) x = wl_sk_ref s x - slots_with n ((!) (sks_to_release r)) x"
    and "wl_dst_ref (fold (exit_put r) [0..<n] s) x = wl_dst_ref s x - slots_with n ((!) (dsts_to_release r)) x"
    and "wl_dev_ref (fold (exit_put r) [0..<n] s) x = wl_dev_ref s x - slots_with n ((!) (devs_to_release r)) x"
  using assms by (induction n) (simp_all add: exit_put_def ref_dec_at)

lemma put_fold_frame:
  "\<exists>a b c. fold (exit_put r) [0..<n] s = s\<lparr>wl_sk_ref := a, wl_dst_ref := b, wl_dev_ref := c\<rparr>"
proof (induction n)
  case 0
  show ?case by (intro exI [of _ "wl_sk_ref s"] exI [of _ "wl_dst_ref s"] exI [of _ "wl_dev_ref s"]) simp
next
  case (Suc n)
  then show ?case by (auto simp: exit_put_def) (intro exI, rule refl)
qed

lemma grace_fold:
  assumes len: "length (wifi_lo_ety s) = 32" and pend: "\<forall>i<32. F_DEV_RELEASING (wifi_lo_ety s ! i) \<longleftrightarrow> dev_pending_release (wifi_lo_ety s ! i) \<noteq> 0"
    and n: "n \<le> 32"
  shows "\<exists>e v. grace_all [0..<n] s = s\<lparr>wifi_lo_ety := e, wl_dev_ref := v\<rparr> \<and> length e = 32 \<and>
    (\<forall>x. x \<noteq> 0 \<longrightarrow> v x = wl_dev_ref s x - slots_with n (\<lambda>i. dev_pending_release (wifi_lo_ety s ! i)) x) \<and>
    (\<forall>i<32. F_VALID (e ! i) = F_VALID (wifi_lo_ety s ! i) \<and>
       (if i < n then \<not> F_DEV_RELEASING (e ! i) else e ! i = wifi_lo_ety s ! i))"
  using n
proof (induction n)
  case 0
  show ?case using len by (intro exI [of _ "wifi_lo_ety s"] exI [of _ "wl_dev_ref s"]) (simp add: grace_all_def)
next
  case (Suc n)
  then obtain e v where g: "grace_all [0..<n] s = s\<lparr>wifi_lo_ety := e, wl_dev_ref := v\<rparr>" and l: "length e = 32"
    and v: "\<forall>x. x \<noteq> 0 \<longrightarrow> v x = wl_dev_ref s x - slots_with n (\<lambda>i. dev_pending_release (wifi_lo_ety s ! i)) x"
    and e: "\<forall>i<32. F_VALID (e ! i) = F_VALID (wifi_lo_ety s ! i) \<and>
       (if i < n then \<not> F_DEV_RELEASING (e ! i) else e ! i = wifi_lo_ety s ! i)" by auto
  have n: "n < 32" using Suc.prems by simp
  have en: "e ! n = wifi_lo_ety s ! n" using e n by simp
  have st: "grace_all [0..<Suc n] s = (let s' = s\<lparr>wifi_lo_ety := e, wl_dev_ref := v\<rparr> in
      if F_DEV_RELEASING (wifi_lo_ety s ! n) then wifi_lo_dev_release_rcu n s' else s')"
    using g by (simp add: grace_all_def en)
  show ?case
  proof (cases "F_DEV_RELEASING (wifi_lo_ety s ! n)")
    case True
    let ?e = "e[n := (e ! n)\<lparr>dev_pending_release := 0, F_DEV_RELEASING := False\<rparr>]"
    let ?v = "ref_dec (dev_pending_release (wifi_lo_ety s ! n)) v"
    have "grace_all [0..<Suc n] s = s\<lparr>wifi_lo_ety := ?e, wl_dev_ref := ?v\<rparr>"
      using True unfolding st Let_def by (simp add: wifi_lo_dev_release_rcu_def upd_lo_def en)
    moreover have "\<forall>i<32. F_VALID (?e ! i) = F_VALID (wifi_lo_ety s ! i) \<and>
       (if i < Suc n then \<not> F_DEV_RELEASING (?e ! i) else ?e ! i = wifi_lo_ety s ! i)"
      using e l by (auto simp: nth_list_update less_Suc_eq)
    ultimately show ?thesis using v l by (intro exI [of _ ?e] exI [of _ ?v]) (auto simp del: upt_Suc simp: ref_dec_at)
  next
    case False
    then have z: "dev_pending_release (wifi_lo_ety s ! n) = 0" using pend n by simp
    have "\<forall>i<32. F_VALID (e ! i) = F_VALID (wifi_lo_ety s ! i) \<and>
       (if i < Suc n then \<not> F_DEV_RELEASING (e ! i) else e ! i = wifi_lo_ety s ! i)"
      using e False by (auto simp: less_Suc_eq)
    then show ?thesis using False v l z by (intro exI [of _ e] exI [of _ v]) (auto simp del: upt_Suc simp: st)
  qed
qed

text \<open>The whole of it, from any state a run reaches.\<close>

lemma exit_sessions_rest:
  assumes C: "core_of bs bd bv s"
  defines "q \<equiv> exit_sessions s"
  shows "(\<forall>i<32. \<not> F_VALID (wifi_lo_ety q ! i) \<and> \<not> F_DEV_RELEASING (wifi_lo_ety q ! i)) \<and>
    (\<forall>x. x \<noteq> 0 \<longrightarrow> wl_sk_ref q x = bs x \<and> wl_dst_ref q x = bd x \<and> wl_dev_ref q x = bv x) \<and>
    wifi_lo_active_num q = 0 \<and> \<not> wifi_lo_active_key q \<and> \<not> sync_work q \<and> wifi_lo_apps_snap q = None \<and>
    wl_lro q = wl_lro s \<and> wl_regs q = wl_regs s"
proof -
  let ?s0 = "s\<lparr>wifi_lo_ety := map (\<lambda>lo. lo\<lparr>wl_timer := None\<rparr>) (wifi_lo_ety s)\<rparr>"
  let ?z = "replicate WIFI_LO_MAX_NUM 0"
  have len: "length (wifi_lo_ety s) = 32" by (rule wcore_len [OF C])
  have R: "exit_ready ?s0" using core_slot [OF C] len by (auto simp: exit_ready_def slot_ok_def Let_def)
  obtain s1 r where f: "fold exit_detach [0..<WIFI_LO_MAX_NUM]
      (?s0, \<lparr>sks_to_release = ?z, dsts_to_release = ?z, devs_to_release = ?z\<rparr>) = (s1, r)" by (rule prod.exhaust)
  have D: "detached 32 ?s0 (s1, r)" using detached_fold [OF R, of 32] f by simp
  let ?s2 = "s1\<lparr>wifi_lo_active_num := 0, sync_work := False\<rparr>"
  define s3 where "s3 = (if wifi_lo_active_key ?s2 then ?s2\<lparr>wifi_lo_active_key := False\<rparr> else ?s2)"
  have s3: "wl_fixed s1 s3" "wifi_lo_ety s3 = wifi_lo_ety s1" "\<not> wifi_lo_active_key s3" "wifi_lo_active_num s3 = 0" "\<not> sync_work s3"
    by (simp_all add: s3_def wl_fixed_def)
  let ?s4 = "(fold (exit_put r) [0..<32] s3)\<lparr>wifi_lo_apps_snap := None\<rparr>"
  obtain a b c where p: "fold (exit_put r) [0..<32] s3 = s3\<lparr>wl_sk_ref := a, wl_dst_ref := b, wl_dev_ref := c\<rparr>"
    using put_fold_frame [of r 32 s3] by blast
  have ety4: "wifi_lo_ety ?s4 = wifi_lo_ety s1" by (simp add: p s3(2))
  have len4: "length (wifi_lo_ety ?s4) = 32" using D by (simp add: ety4 detached_def)
  have pend: "\<forall>i<32. F_DEV_RELEASING (wifi_lo_ety ?s4 ! i) \<longleftrightarrow> dev_pending_release (wifi_lo_ety ?s4 ! i) \<noteq> 0"
    using D R unfolding ety4 by (auto simp: detached_def exit_ready_def Let_def)
  obtain e v where g: "grace_all [0..<32] ?s4 = ?s4\<lparr>wifi_lo_ety := e, wl_dev_ref := v\<rparr>"
    and v: "\<forall>x. x \<noteq> 0 \<longrightarrow> v x = wl_dev_ref ?s4 x - slots_with 32 (\<lambda>i. dev_pending_release (wifi_lo_ety ?s4 ! i)) x"
    and e: "\<forall>i<32. F_VALID (e ! i) = F_VALID (wifi_lo_ety ?s4 ! i) \<and> \<not> F_DEV_RELEASING (e ! i)"
    using grace_fold [OF len4 pend order.refl] by auto
  have q: "q = ?s4\<lparr>wifi_lo_ety := e, wl_dev_ref := v\<rparr>"
    unfolding q_def exit_sessions_def Let_def f prod.case s3_def [symmetric] g ..
  have dead: "\<forall>i<32. \<not> F_VALID (e ! i) \<and> \<not> F_DEV_RELEASING (e ! i)"
    using e D unfolding ety4 by (auto simp: detached_def Let_def)
  have refs: "a x = bs x \<and> b x = bd x \<and> v x = bv x" if "x \<noteq> 0" for x
  proof -
    have r3: "wl_sk_ref s3 = wl_sk_ref s" "wl_dst_ref s3 = wl_dst_ref s" "wl_dev_ref s3 = wl_dev_ref s"
      using D s3(1) by (auto simp: detached_def wl_fixed_def)
    have "slots_with 32 ((!) (sks_to_release r)) x = held_refs wl_sk (wifi_lo_ety s) x"
      "slots_with 32 ((!) (dsts_to_release r)) x = held_refs wl_tx_dst (wifi_lo_ety s) x"
      "slots_with 32 ((!) (devs_to_release r)) x = held_refs wl_dev (wifi_lo_ety s) x"
      "slots_with 32 (\<lambda>i. dev_pending_release (wifi_lo_ety s1 ! i)) x = held_refs dev_pending_release (wifi_lo_ety s) x"
      using D len by (auto simp: held_slots detached_def Let_def intro!: slots_with_cong)
    then show ?thesis
      using put_fold [OF that, of r 32 s3] v that C unfolding p r3 ety4 by (simp add: wl_core_def s3(2))
  qed
  show ?thesis using dead refs D s3 by (auto simp: q p detached_def wl_fixed_def)
qed

lemma exit_parts: "lo_probes (wifi_lo_exit io m) = arht_skip_copy_kprobe_disable io (lo_probes m)"
  "lo_tab (wifi_lo_exit io m) = exit_sessions (lo_tab m)"
  by (simp_all add: wifi_lo_exit_def nf_unregister_net_hook_def Let_def)

lemma lo_two_limit: "wifi_lo_active_num lo_two = 1"
  "FIELD_GET CDM_LRO_AGG_NUM_MASK_VAL (wl_regs lo_two PHY_REG_CDM1_LRO_LIMIT) = 18"
  "FIELD_GET CDM_LRO_AGG_NUM_MASK_VAL (lo_regs PHY_REG_CDM1_LRO_LIMIT) = 5"
  by code_simp+

section \<open>Properties\<close>

text \<open>Loading is all or nothing as to hooks: it answers 0 with the four netfilter hooks, the proc file and
  both hook pointers in place exactly when every registration succeeds; otherwise it answers the
  first failing code and leaves hooks, pointers, applications, probes and sessions as they were.\<close>

theorem wl_init_all_or_nothing:
  assumes "nf_hooked m = (\<lambda>_. False)" and "\<not> lo_proc_entry m" and "wifi_lo_init nf proc_ok alloc_ok io m = (ret, m')"
  shows "let codes = map nf [Ipv4_local_in, Ipv4_local_out, Ipv6_local_in, Ipv6_local_out] @ [if proc_ok then 0 else - ENOMEM]
    in case find (\<lambda>c. c \<noteq> 0) codes of
      Some c \<Rightarrow> ret = c \<and> m' = m\<lparr>lo_tab := (lo_tab m)\<lparr>wifi_lo_port_ht := [], wifi_lo_hash_ht := []\<rparr>\<rparr>
    | None \<Rightarrow> ret = 0 \<and> nf_hooked m' = (\<lambda>_. True) \<and> lo_proc_entry m' \<and> prepare_gro_hook m' \<and> lo_pingpong_hook m' \<and>
        lo_probes m' = snd (arht_skip_copy_kprobe_enable io (lo_probes m)) \<and>
        wifi_lo_apps_snap (lo_tab m') = snd (wifi_lo_app_add alloc_ok ''iperf3'' (wifi_lo_apps_snap (lo_tab m)))"
proof -
  note defs = wifi_lo_init_def nf_register_net_hook_def nf_unregister_net_hook_def err_unhook_v4_in_def
    err_unhook_v4_out_def err_unhook_v6_in_def err_unhook_v6_out_def Let_def
  have all: "(\<lambda>_. False)(Ipv4_local_in := True, Ipv4_local_out := True, Ipv6_local_in := True, Ipv6_local_out := True) = (\<lambda>_. True)"
    by (rule ext, rename_tac h, case_tac h) simp_all
  have fu: "(\<lambda>_. False)(h := False) = (\<lambda>_ :: nf_ops. False)" for h by (rule ext) simp
  have "ENOMEM \<noteq> 0" by simp
  with assms show ?thesis
    by (cases "nf Ipv4_local_in = 0"; cases "nf Ipv4_local_out = 0"; cases "nf Ipv6_local_in = 0";
        cases "nf Ipv6_local_out = 0"; cases proc_ok; cases m)
      (auto simp: defs all fu fun_upd_twist)
qed

definition lo_module :: "string list \<Rightarrow> (u32 \<Rightarrow> u32) wlo \<Rightarrow> (u32 \<Rightarrow> u32, test_registry) wl_module" where
  "lo_module refused s = \<lparr>lo_tab = s, lo_probes = kp_boot refused, nf_hooked = (\<lambda>_. False), prepare_gro_hook = False,
     lo_pingpong_hook = False, lo_proc_entry = False\<rparr>"

theorem wl_init_all_or_nothing_witness:
  "let (ret, m') = wifi_lo_init (\<lambda>h. if h = Ipv6_local_in then - 12 else 0) True True tr_io (lo_module [] lo_start)
   in ret = - 12 \<and> nf_hooked m' Ipv4_local_in = False"
proof -
  obtain ret m' where i: "wifi_lo_init (\<lambda>h. if h = Ipv6_local_in then - 12 else 0) True True tr_io (lo_module [] lo_start) = (ret, m')"
    by fastforce
  have "nf_hooked (lo_module [] lo_start) = (\<lambda>_. False)" "\<not> lo_proc_entry (lo_module [] lo_start)" by (simp_all add: lo_module_def)
  from wl_init_all_or_nothing [OF this i] have "ret = - 12 \<and> nf_hooked m' Ipv4_local_in = False" by (simp add: lo_module_def)
  then show ?thesis unfolding i by simp
qed



text \<open>Unloading with a session live leaves the LRO limit of both registers at the module's value: the
  exit gives the sessions up without the restore that their timers would have made.\<close>

theorem wl_exit_keeps_limit:
  "let q = lo_tab (wifi_lo_exit tr_io (lo_module [] lo_two)) in
     wifi_lo_active_num lo_two = 1 \<and> wifi_lo_active_num q = 0 \<and>
     FIELD_GET CDM_LRO_AGG_NUM_MASK_VAL (wl_regs lo_start PHY_REG_CDM1_LRO_LIMIT) = 5 \<and>
     FIELD_GET CDM_LRO_AGG_NUM_MASK_VAL (wl_regs q PHY_REG_CDM1_LRO_LIMIT) = 18 \<and>
     FIELD_GET CDM_LRO_AGG_NUM_MASK_VAL (wl_regs (quiesce lo_env True 2000 lo_two) PHY_REG_CDM1_LRO_LIMIT) = 5"
proof -
  note R = run_core [OF lo_plain lo_run [unfolded lo_start_def]]
  have q: "lo_tab (wifi_lo_exit tr_io (lo_module [] lo_two)) = exit_sessions lo_two" by (simp add: exit_parts lo_module_def)
  have z: "wl_regs (quiesce lo_env True 2000 lo_two) = lo_regs"
    using lo.quiesce_rest [OF R(1) lo_two_late, of True] lo_two_limit(1) by simp
  show ?thesis unfolding q z Let_def using exit_sessions_rest [OF R(2)] lo_two_limit by (simp add: lo_start_def wl_boot_def)
qed

text \<open>Loading ignores a failure to arm the skip-copy probe, and unloading gives up a use it never had:
  when the dynamic-IFC module armed the probe in between, unloading this module removes it and
  zeroes its count while the other dynamic-IFC probes stay registered.\<close>

theorem wl_exit_removes_foreign_probe:
  "let (ret, m) = wifi_lo_init (\<lambda>_. 0) True True tr_io (lo_module [''tcp_recvmsg''] lo_start);
       ps = lo_probes m;
       (dret, ps) = arht_kprobe_difc_init tr_io (ps\<lparr>core := (core ps)\<lparr>tr_refused := []\<rparr>\<rparr>);
       q = lo_probes (wifi_lo_exit tr_io (m\<lparr>lo_probes := ps\<rparr>))
   in ret = 0 \<and> dret = 0 \<and> tr_live (core ps) Kp_tcp_recvmsg \<noteq> None \<and> skip_copy_kprobe_refcnt ps = 1 \<and>
      tr_live (core q) Kp_tcp_recvmsg = None \<and> skip_copy_kprobe_refcnt q = 0 \<and>
      tr_live (core q) Kp_tcp_sendmsg \<noteq> None"
  unfolding exit_parts by code_simp

end
