(* ===== verification/PpeFoe.thy ===== *)
theory PpeFoe
  imports Prelude
begin

text \<open>
  Flow entries of the packet processing engine and the operations of \<^verbatim>\<open>airoha/arht_ppe.c\<close> on single
  entries and on the table as a whole. The layout of \<^verbatim>\<open>struct airoha_foe_entry\<close> (a union of the forms
  of an entry), the field masks and the two functions that read an entry from the engine and commit
  one to it belong to the upstream driver: they are the records \<open>foe_fields\<close>, \<open>foe_abi\<close> and
  \<open>ppe_env\<close>. The locale \<open>foe_engine\<close> states what the engine does with a committed entry.
\<close>

section \<open>Entries\<close>

datatype foe_form = F_ipv4 | F_bridge32 | F_dslite | F_ipv6

record foe_l2 =
  l2_etype :: u16
  l2_dest_mac_hi :: u32
  l2_dest_mac_lo :: u16
  l2_src_mac_hi :: u32

record foe_tuple =
  src_ip :: u32
  dest_ip :: u32
  src_port :: u16
  dest_port :: u16

record foe_macs =
  b_dest_mac_hi :: u32
  b_dest_mac_lo :: u16
  b_src_mac_hi :: u32
  b_src_mac_lo :: u16

text \<open>Fields of an entry, in the form in which the code looks at it.\<close>

record 'e foe_fields =
  ib1 :: "'e \<Rightarrow> u32"
  set_ib1 :: "u32 \<Rightarrow> 'e \<Rightarrow> 'e"
  ib2_of :: "foe_form \<Rightarrow> 'e \<Rightarrow> u32"
  data_of :: "foe_form \<Rightarrow> 'e \<Rightarrow> u32"
  l2_of :: "foe_form \<Rightarrow> 'e \<Rightarrow> foe_l2"
  bridge32_macs :: "'e \<Rightarrow> foe_macs"
  ipv4_src_mac_lo :: "'e \<Rightarrow> u16"
  orig_tuple :: "'e \<Rightarrow> foe_tuple"
  new_tuple :: "'e \<Rightarrow> foe_tuple"
  dslite_ip4 :: "'e \<Rightarrow> foe_tuple"
  ipv6_src_port :: "'e \<Rightarrow> u16"
  ipv6_dest_port :: "'e \<Rightarrow> u16"
  zeroed :: 'e

record foe_abi =
  IB1_BIND_STATE :: u32
  IB1_BIND_PACKET_TYPE :: u32
  IB2_PSE_PORT :: u32
  FOE_CHANNEL :: u32
  FOE_MAC_SMAC_ID :: u32
  FOE_TUNNEL_ID :: u32
  STATE_INVALID :: u32
  STATE_UNBIND :: u32
  STATE_BIND :: u32
  TYPE_IPV4_HNAPT :: u32
  TYPE_IPV4_ROUTE :: u32
  TYPE_BRIDGE :: u32
  TYPE_IPV4_DSLITE :: u32
  TYPE_IPV6_ROUTE_3T :: u32
  TYPE_IPV6_ROUTE_5T :: u32
  TYPE_IPV6_6RD :: u32
  PSE_PORT_GDM2 :: u32
  PSE_PORT_DROP :: u32
  SRAM_CTRL_ENTRY :: u32
  SRAM_CTRL_WR :: u32
  SRAM_CTRL_REQ :: u32

definition foe_state :: "'e foe_fields \<Rightarrow> foe_abi \<Rightarrow> 'e \<Rightarrow> u32" where
  "foe_state f a e = FIELD_GET (IB1_BIND_STATE a) (ib1 f e)"

definition foe_type :: "'e foe_fields \<Rightarrow> foe_abi \<Rightarrow> 'e \<Rightarrow> u32" where
  "foe_type f a e = FIELD_GET (IB1_BIND_PACKET_TYPE a) (ib1 f e)"

text \<open>The form under which an entry of a packet type is read.\<close>

definition form_of :: "foe_abi \<Rightarrow> u32 \<Rightarrow> foe_form" where
  "form_of a ptype =
     (if TYPE_IPV6_ROUTE_3T a \<le> ptype then F_ipv6
      else if ptype = TYPE_BRIDGE a then F_bridge32
      else if ptype = TYPE_IPV4_DSLITE a then F_dslite
      else F_ipv4)"

section \<open>The engine\<close>

text \<open>\<open>glb_ok\<close>: the driver has its Ethernet device and engine. \<open>get_entry\<close> is \<^verbatim>\<open>airoha_ppe_foe_get_entry\<close>: it fails when the engine's memory cannot be read in time.
  \<open>foe_put\<close> writes an entry of the driver's copy, \<open>foe_word\<close> reads a word of it, \<open>commit_entry\<close> is
  \<^verbatim>\<open>airoha_ppe_foe_commit_entry\<close> of the driver's copy, \<open>p_poll\<close> the timed wait for the
  acknowledgement of a memory command.\<close>

record ('e, 'd) ppe_env =
  p_fields :: "'e foe_fields"
  p_abi :: foe_abi
  glb_ok :: bool
  total_entries :: nat
  sram_entries :: nat
  ppe1_sram_entries :: nat
  num_ppe :: nat
  get_entry :: "nat \<Rightarrow> 'd \<Rightarrow> 'e option \<times> 'd"
  foe_put :: "nat \<Rightarrow> 'e \<Rightarrow> 'd \<Rightarrow> 'd"
  foe_word :: "nat \<Rightarrow> nat \<Rightarrow> 'd \<Rightarrow> u32"
  foe_words :: nat
  commit_entry :: "nat \<Rightarrow> 'd \<Rightarrow> 'd"
  p_bus :: "'d bus"
  p_poll :: "u32 \<Rightarrow> 'd \<Rightarrow> bool \<times> 'd"
  RAM_ENTRY :: "bool \<Rightarrow> nat \<Rightarrow> u32"
  RAM_CTRL :: "bool \<Rightarrow> u32"

text \<open>A slot of the shrink table: a source MAC and the two forms of tunnel addresses that entries name by
  index, each with its validity, its time of last use, the flows that use it and a flag that pins it. The
  arrays of three are indexed by the kind.\<close>

record shrink_slot =
  sh_smac :: "u8 list"
  sh_eg_ipv4 :: "u32 list"
  sh_eg_ipv6 :: "u32 list"
  sh_valid :: "u32 list"
  sh_timestamp :: "u64 list"
  sh_bitmap :: "(nat \<Rightarrow> u64) list"
  sh_pinned :: "u32 list"

text \<open>The driver's side: the device, per entry the LAN interface that owns it, and the shrink table.\<close>

record 'd ppe =
  pdev :: 'd
  lan_ifindex :: "nat \<Rightarrow> int"
  shnkTbl :: "shrink_slot list"

definition on_dev :: "('d \<Rightarrow> 'd) \<Rightarrow> 'd ppe \<Rightarrow> 'd ppe" where
  "on_dev f s = s\<lparr>pdev := f (pdev s)\<rparr>"

section \<open>Single entries\<close>

text \<open>The second engine holds the entries from \<^verbatim>\<open>PPE_SRAM_NUM_ENTRIES\<close> on.\<close>

definition ppe2_of :: "('e, 'd) ppe_env \<Rightarrow> nat \<Rightarrow> bool" where
  "ppe2_of env hash \<longleftrightarrow> num_ppe env = 2 \<and> ppe1_sram_entries env \<le> hash"

definition airoha_ppe_foe_commit_entry_raw :: "('e, 'd) ppe_env \<Rightarrow> nat \<Rightarrow> 'd \<Rightarrow> int \<times> 'd" where
  "airoha_ppe_foe_commit_entry_raw env hash d =
     (if hash < sram_entries env then
        let p = ppe2_of env hash;
            d = fold (\<lambda>i d. bus_wr (p_bus env) (RAM_ENTRY env p i) (foe_word env hash i d) d) [0..<foe_words env] d;
            d = bus_wr (p_bus env) (RAM_CTRL env p)
                  (FIELD_PREP (SRAM_CTRL_ENTRY (p_abi env)) (word_of_nat hash) OR SRAM_CTRL_WR (p_abi env) OR
                   SRAM_CTRL_REQ (p_abi env)) d;
            (ok, d) = p_poll env (RAM_CTRL env p) d
        in (if ok then 0 else - ETIMEDOUT, d)
      else (- 1, d))"

definition airoha_ppe_clear_sram_table_flow :: "('e, 'd) ppe_env \<Rightarrow> nat \<Rightarrow> 'd \<Rightarrow> 'd" where
  "airoha_ppe_clear_sram_table_flow env entry_idx d =
     (if sram_entries env \<le> entry_idx then d
      else snd (airoha_ppe_foe_commit_entry_raw env entry_idx (foe_put env entry_idx (zeroed (p_fields env)) d)))"

definition airoha_ppe_clear_sram_table_all :: "('e, 'd) ppe_env \<Rightarrow> 'd \<Rightarrow> 'd" where
  "airoha_ppe_clear_sram_table_all env d =
     fold (\<lambda>i d. snd (airoha_ppe_foe_commit_entry_raw env i (foe_put env i (zeroed (p_fields env)) d)))
       [0..<sram_entries env] d"

definition airoha_ppe_clean_sram_table :: "('e, 'd) ppe_env \<Rightarrow> 'd ppe \<Rightarrow> 'd ppe" where
  "airoha_ppe_clean_sram_table env s = (if \<not> glb_ok env then s else on_dev (airoha_ppe_clear_sram_table_all env) s)"

definition deleted :: "('e, 'd) ppe_env \<Rightarrow> 'e \<Rightarrow> 'e" where
  "deleted env e =
     set_ib1 (p_fields env)
       (masked (ib1 (p_fields env) e) (IB1_BIND_STATE (p_abi env))
          (FIELD_PREP (IB1_BIND_STATE (p_abi env)) (STATE_INVALID (p_abi env)))) e"

definition airoha_ppe_delete_entry :: "('e, 'd) ppe_env \<Rightarrow> 'e \<Rightarrow> nat \<Rightarrow> 'd ppe \<Rightarrow> 'd ppe" where
  "airoha_ppe_delete_entry env hwe entry_idx s =
     (let s = on_dev (\<lambda>d. commit_entry env entry_idx (foe_put env entry_idx (deleted env hwe) d)) s
      in s\<lparr>lan_ifindex := (lan_ifindex s)(entry_idx := 0)\<rparr>)"

definition fetch :: "('e, 'd) ppe_env \<Rightarrow> nat \<Rightarrow> 'd ppe \<Rightarrow> 'e option \<times> 'd ppe" where
  "fetch env i s = (let (r, d) = get_entry env i (pdev s) in (r, s\<lparr>pdev := d\<rparr>))"

definition arht_hwnat_delete_ppe_entry :: "('e, 'd) ppe_env \<Rightarrow> nat \<Rightarrow> 'd ppe \<Rightarrow> int \<times> 'd ppe" where
  "arht_hwnat_delete_ppe_entry env foe_index s =
     (if \<not> glb_ok env then (0, s)
      else case fetch env foe_index s of
             (None, s) \<Rightarrow> (0, s)
           | (Some hwe, s) \<Rightarrow> (0, airoha_ppe_delete_entry env hwe foe_index s))"

definition airoha_ppe_delete_foe_entry_unlock :: "('e, 'd) ppe_env \<Rightarrow> int \<Rightarrow> 'd ppe \<Rightarrow> int \<times> 'd ppe" where
  "airoha_ppe_delete_foe_entry_unlock env index s =
     (if index < 0 \<or> int (total_entries env) \<le> index then (0, s)
      else case fetch env (nat index) s of
             (None, s) \<Rightarrow> (- 1, s)
           | (Some _, s) \<Rightarrow> (0, on_dev (airoha_ppe_clear_sram_table_flow env (nat index)) s))"

definition airoha_get_ppe_entry_state :: "('e, 'd) ppe_env \<Rightarrow> nat \<Rightarrow> 'd ppe \<Rightarrow> u32 \<times> 'd ppe" where
  "airoha_get_ppe_entry_state env foe_index s =
     (if \<not> glb_ok env then (0, s)
      else case fetch env foe_index s of
             (None, s) \<Rightarrow> (0, s)
           | (Some hwe, s) \<Rightarrow> (foe_state (p_fields env) (p_abi env) hwe, s))"

definition airoha_ppe_check_entry_is_bind :: "('e, 'd) ppe_env \<Rightarrow> int \<Rightarrow> 'd ppe \<Rightarrow> int \<times> 'd ppe" where
  "airoha_ppe_check_entry_is_bind env index s =
     (if index < 0 \<or> int (total_entries env) \<le> index then (0, s)
      else case fetch env (nat index) s of
             (None, s) \<Rightarrow> (- 1, s)
           | (Some e, s) \<Rightarrow> (if foe_state (p_fields env) (p_abi env) e \<noteq> STATE_BIND (p_abi env) then 0 else 1, s))"

section \<open>What the engine does\<close>

text \<open>\<open>hw d i\<close> is the entry the engine uses for flow \<open>i\<close>; beyond its own memory it reads the driver's copy
  directly. \<open>stage\<close> are the words waiting in the memory port and \<open>foe_of\<close> the entry they form.\<close>

locale foe_engine =
  fixes env :: "('e, 'd) ppe_env" and hw :: "'d \<Rightarrow> nat \<Rightarrow> 'e" and stage :: "'d \<Rightarrow> bool \<Rightarrow> nat \<Rightarrow> u32"
    and foe_of :: "u32 list \<Rightarrow> 'e" and word_of :: "'e \<Rightarrow> nat \<Rightarrow> u32"
  assumes get_hw: "get_entry env i d = (r, d') \<Longrightarrow> hw d' = hw d \<and> (r = None \<or> r = Some (hw d i))"
    and put_hw: "hw (foe_put env i e d) = (if i < sram_entries env then hw d else (hw d)(i := e))"
    and put_word: "k < foe_words env \<Longrightarrow> foe_word env i k (foe_put env i e d) = word_of e k"
    and commit_other: "j \<noteq> i \<Longrightarrow> hw (commit_entry env i (foe_put env i e d)) j = hw d j"
    and commit_state: "foe_state (p_fields env) (p_abi env) e \<noteq> STATE_UNBIND (p_abi env) \<Longrightarrow>
          foe_state (p_fields env) (p_abi env) (hw (commit_entry env i (foe_put env i e d)) i) =
          foe_state (p_fields env) (p_abi env) e"
    and port_word: "k < foe_words env \<Longrightarrow> d' = bus_wr (p_bus env) (RAM_ENTRY env p k) v d \<Longrightarrow>
          hw d' = hw d \<and> foe_word env i j d' = foe_word env i j d \<and>
          (\<forall>k'<foe_words env. stage d' p k' = (if k' = k then v else stage d p k'))"
    and port_go: "i < sram_entries env \<Longrightarrow>
          hw (bus_wr (p_bus env) (RAM_CTRL env (ppe2_of env i))
                (FIELD_PREP (SRAM_CTRL_ENTRY (p_abi env)) (word_of_nat i) OR SRAM_CTRL_WR (p_abi env) OR
                 SRAM_CTRL_REQ (p_abi env)) d) =
          (hw d)(i := foe_of (map (stage d (ppe2_of env i)) [0..<foe_words env]))"
    and poll_hw: "p_poll env a d = (ok, d') \<Longrightarrow> hw d' = hw d"
    and foe_of_zero: "foe_of (map (word_of (zeroed (p_fields env))) [0..<foe_words env]) = zeroed (p_fields env)"
    and ib1_set: "ib1 (p_fields env) (set_ib1 (p_fields env) v e) = v"
    and invalid_fits: "STATE_INVALID (p_abi env) AND drop_bit (bf_shf (IB1_BIND_STATE (p_abi env))) (IB1_BIND_STATE (p_abi env)) =
          STATE_INVALID (p_abi env)"
    and zeroed_invalid: "foe_state (p_fields env) (p_abi env) (zeroed (p_fields env)) = STATE_INVALID (p_abi env)"
    and states_differ: "STATE_INVALID (p_abi env) \<noteq> STATE_BIND (p_abi env)" "STATE_INVALID (p_abi env) \<noteq> STATE_UNBIND (p_abi env)"
begin

abbreviation state_of :: "'e \<Rightarrow> u32" where
  "state_of \<equiv> foe_state (p_fields env) (p_abi env)"

abbreviation bound :: "'e \<Rightarrow> bool" where
  "bound e \<equiv> state_of e = STATE_BIND (p_abi env)"

lemma deleted_state: "state_of (deleted env e) = STATE_INVALID (p_abi env)"
  by (simp add: deleted_def foe_state_def ib1_set masked_FIELD_GET invalid_fits)

lemma fetch_hw:
  assumes "fetch env i s = (r, s')"
  shows "hw (pdev s') = hw (pdev s)" and "r = None \<or> r = Some (hw (pdev s) i)" and "lan_ifindex s' = lan_ifindex s" and "shnkTbl s' = shnkTbl s"
  using assms get_hw [of i "pdev s"] by (auto simp: fetch_def split: prod.splits)

lemma delete_hw:
  "j \<noteq> i \<Longrightarrow> hw (pdev (airoha_ppe_delete_entry env e i s)) j = hw (pdev s) j"
  "state_of (hw (pdev (airoha_ppe_delete_entry env e i s)) i) = STATE_INVALID (p_abi env)"
  "lan_ifindex (airoha_ppe_delete_entry env e i s) = (lan_ifindex s)(i := 0)"
  "shnkTbl (airoha_ppe_delete_entry env e i s) = shnkTbl s"
  using commit_other [of j i] commit_state [of "deleted env e" i] states_differ
  by (simp_all add: airoha_ppe_delete_entry_def on_dev_def deleted_state)

text \<open>The memory port takes the words of the driver's copy one by one.\<close>

lemma port_words:
  assumes "n \<le> foe_words env" and "\<forall>k<foe_words env. foe_word env i k d = w k"
  shows "let d' = fold (\<lambda>k d. bus_wr (p_bus env) (RAM_ENTRY env p k) (foe_word env i k d) d) [0..<n] d
         in hw d' = hw d \<and> (\<forall>k<foe_words env. foe_word env i k d' = w k) \<and> (\<forall>k<n. stage d' p k = w k)"
  using assms(1)
proof (induction n)
  case 0 then show ?case using assms(2) by simp
next
  case (Suc n)
  let ?d = "fold (\<lambda>k d. bus_wr (p_bus env) (RAM_ENTRY env p k) (foe_word env i k d) d) [0..<n] d"
  have n: "n < foe_words env" using Suc.prems by simp
  have IH: "hw ?d = hw d" "\<forall>k<foe_words env. foe_word env i k ?d = w k" "\<forall>k<n. stage ?d p k = w k"
    using Suc by (simp_all add: Let_def)
  have "k < n \<Longrightarrow> k < foe_words env \<and> k \<noteq> n" for k using n by simp
  then show ?case using port_word [OF n refl, where d = ?d] IH n by (auto simp: less_Suc_eq)
qed

lemma commit_raw_hw:
  assumes "i < sram_entries env"
  shows "hw (snd (airoha_ppe_foe_commit_entry_raw env i (foe_put env i (zeroed (p_fields env)) d))) =
         (hw d)(i := zeroed (p_fields env))"
proof -
  let ?z = "zeroed (p_fields env)" and ?p = "ppe2_of env i"
  define d1 where "d1 = fold (\<lambda>k d. bus_wr (p_bus env) (RAM_ENTRY env ?p k) (foe_word env i k d) d) [0..<foe_words env] (foe_put env i ?z d)"
  have w: "hw d1 = hw d" "\<forall>k<foe_words env. stage d1 ?p k = word_of ?z k"
    using port_words [of "foe_words env" i "foe_put env i ?z d" "word_of ?z" ?p] put_word [of _ i ?z d] put_hw [of i ?z d] assms
    by (simp_all add: Let_def d1_def)
  have words: "map (stage d1 ?p) [0..<foe_words env] = map (word_of ?z) [0..<foe_words env]" using w(2) by simp
  have go: "hw (bus_wr (p_bus env) (RAM_CTRL env ?p)
        (FIELD_PREP (SRAM_CTRL_ENTRY (p_abi env)) (word_of_nat i) OR SRAM_CTRL_WR (p_abi env) OR SRAM_CTRL_REQ (p_abi env)) d1) =
      (hw d)(i := ?z)"
    unfolding port_go [OF assms] words foe_of_zero w(1) ..
  show ?thesis using assms poll_hw go
    by (auto simp: airoha_ppe_foe_commit_entry_raw_def Let_def d1_def [symmetric] split: prod.splits)
qed

lemma clear_flow_hw:
  "hw (airoha_ppe_clear_sram_table_flow env i d) =
     (if i < sram_entries env then (hw d)(i := zeroed (p_fields env)) else hw d)"
  by (simp add: airoha_ppe_clear_sram_table_flow_def commit_raw_hw)

lemma clear_all_hw:
  "hw (airoha_ppe_clear_sram_table_all env d) j = (if j < sram_entries env then zeroed (p_fields env) else hw d j)"
proof -
  let ?f = "\<lambda>i d. snd (airoha_ppe_foe_commit_entry_raw env i (foe_put env i (zeroed (p_fields env)) d))"
  have "n \<le> sram_entries env \<Longrightarrow> hw (fold ?f [0..<n] d) j = (if j < n then zeroed (p_fields env) else hw d j)" for n
  proof (induction n)
    case (Suc n)
    then show ?case using commit_raw_hw [of n "fold ?f [0..<n] d"] by (auto simp: less_Suc_eq)
  qed simp
  then show ?thesis by (simp add: airoha_ppe_clear_sram_table_all_def)
qed

end

section \<open>An engine in memory\<close>

text \<open>Entries of twenty words in the layout of the upstream driver, \<open>n\<close> of them in the engine's memory
  and two beyond it; the entries listed in \<open>dead\<close> cannot be read. The update memory of the shrink
  table sits behind the registers \<open>0x3000\<close> (command) and \<open>0x3004\<close> (data).\<close>

record foe_box =
  b_mem :: "nat \<Rightarrow> u32 list"
  b_sram :: "nat \<Rightarrow> u32 list"
  b_port :: "u32 \<Rightarrow> u32"
  b_upd :: "u32 \<Rightarrow> u32"

definition lo16 :: "u32 \<Rightarrow> u16" where
  "lo16 w = ucast w"

definition hi16 :: "u32 \<Rightarrow> u16" where
  "hi16 w = ucast (drop_bit 16 w)"

definition box_tuple :: "nat \<Rightarrow> u32 list \<Rightarrow> foe_tuple" where
  "box_tuple k e = \<lparr>src_ip = e ! k, dest_ip = e ! (k + 1), src_port = hi16 (e ! (k + 2)), dest_port = lo16 (e ! (k + 2))\<rparr>"

definition box_l2 :: "nat \<Rightarrow> u32 list \<Rightarrow> foe_l2" where
  "box_l2 k e = \<lparr>l2_etype = hi16 (e ! k), l2_dest_mac_hi = e ! (k + 1), l2_dest_mac_lo = hi16 (e ! (k + 2)), l2_src_mac_hi = e ! (k + 3)\<rparr>"

definition box_fields :: "u32 list foe_fields" where
  "box_fields = \<lparr>
     ib1 = (\<lambda>e. e ! 0), set_ib1 = (\<lambda>v e. v # tl e),
     ib2_of = (\<lambda>f e. case f of F_ipv4 \<Rightarrow> e ! 4 | F_dslite \<Rightarrow> e ! 4 | F_bridge32 \<Rightarrow> e ! 11 | F_ipv6 \<Rightarrow> e ! 11),
     data_of = (\<lambda>f e. e ! 10),
     l2_of = (\<lambda>f. case f of F_ipv4 \<Rightarrow> box_l2 11 | F_dslite \<Rightarrow> box_l2 11 | F_bridge32 \<Rightarrow> box_l2 12 | F_ipv6 \<Rightarrow> box_l2 12),
     bridge32_macs = (\<lambda>e. \<lparr>b_dest_mac_hi = e ! 1, b_dest_mac_lo = hi16 (e ! 2), b_src_mac_hi = e ! 4, b_src_mac_lo = hi16 (e ! 5)\<rparr>),
     ipv4_src_mac_lo = (\<lambda>e. hi16 (e ! 15)),
     orig_tuple = box_tuple 1, new_tuple = box_tuple 5, dslite_ip4 = box_tuple 1,
     ipv6_src_port = (\<lambda>e. hi16 (e ! 9)), ipv6_dest_port = (\<lambda>e. lo16 (e ! 9)),
     zeroed = replicate 20 0 \<rparr>"

definition box_abi :: foe_abi where
  "box_abi = \<lparr> IB1_BIND_STATE = 0x30000000, IB1_BIND_PACKET_TYPE = 0x0E000000, IB2_PSE_PORT = 0x1E00,
     FOE_CHANNEL = 0xF800, FOE_MAC_SMAC_ID = 0x1F0000, FOE_TUNNEL_ID = 0x3F,
     STATE_INVALID = 0, STATE_UNBIND = 1, STATE_BIND = 2,
     TYPE_IPV4_HNAPT = 0, TYPE_IPV4_ROUTE = 1, TYPE_BRIDGE = 2, TYPE_IPV4_DSLITE = 3,
     TYPE_IPV6_ROUTE_3T = 4, TYPE_IPV6_ROUTE_5T = 5, TYPE_IPV6_6RD = 7,
     PSE_PORT_GDM2 = 2, PSE_PORT_DROP = 15,
     SRAM_CTRL_ENTRY = 0xFFFF00, SRAM_CTRL_WR = 2, SRAM_CTRL_REQ = 1 \<rparr>"

definition box_hw :: "nat \<Rightarrow> foe_box \<Rightarrow> nat \<Rightarrow> u32 list" where
  "box_hw n d i = (if i < n then b_sram d i else b_mem d i)"

definition box_ram :: "bool \<Rightarrow> nat \<Rightarrow> u32" where
  "box_ram p k = (if p then 0x2000 else 0x1000) + 4 * word_of_nat k"

definition box_ctrl :: "bool \<Rightarrow> u32" where
  "box_ctrl p = (if p then 0x2800 else 0x1800)"

definition box_wr :: "u32 \<Rightarrow> u32 \<Rightarrow> foe_box \<Rightarrow> foe_box" where
  "box_wr a v d =
     (if a = box_ctrl False \<or> a = box_ctrl True
      then d\<lparr>b_sram := (b_sram d)(unat (FIELD_GET 0xFFFF00 v) :=
               map (\<lambda>k. b_port d (box_ram (a = box_ctrl True) k)) [0..<20])\<rparr>
      else if a = 0x3000
      then d\<lparr>b_upd := (b_upd d)(v AND 0xFFC := b_port d 0x3004), b_port := (b_port d)(a := v OR 0x80000000)\<rparr>
      else d\<lparr>b_port := (b_port d)(a := v)\<rparr>)"

definition box_env :: "nat \<Rightarrow> nat list \<Rightarrow> (u32 list, foe_box) ppe_env" where
  "box_env n dead = \<lparr> p_fields = box_fields, p_abi = box_abi, glb_ok = True, total_entries = n + 2, sram_entries = n, ppe1_sram_entries = n, num_ppe = 1,
     get_entry = (\<lambda>i d. if i \<in> set dead then (None, d)
                        else (Some (box_hw n d i), d\<lparr>b_mem := (b_mem d)(i := box_hw n d i)\<rparr>)),
     foe_put = (\<lambda>i e d. d\<lparr>b_mem := (b_mem d)(i := e)\<rparr>),
     foe_word = (\<lambda>i k d. b_mem d i ! k), foe_words = 20,
     commit_entry = (\<lambda>i d. if i < n then d\<lparr>b_sram := (b_sram d)(i := b_mem d i)\<rparr> else d),
     p_bus = \<lparr>bus_rr = (\<lambda>a d. (b_port d a, d)), bus_wr = box_wr, bus_rmw = (\<lambda>a m v d. box_wr a (masked (b_port d a) m v) d)\<rparr>,
     p_poll = (\<lambda>a d. (True, d)), RAM_ENTRY = box_ram, RAM_CTRL = box_ctrl \<rparr>"

lemma box_ram_unat: "k < 20 \<Longrightarrow> unat (box_ram p k) = (if p then 0x2000 else 0x1000) + 4 * k"
  by (simp add: box_ram_def unat_word_ariths unat_of_nat)

lemma box_ram_apart:
  assumes "k < 20"
  shows "k' < 20 \<Longrightarrow> box_ram p k = box_ram p k' \<longleftrightarrow> k = k'" and "box_ram p k \<noteq> box_ctrl q"
    and "box_ram p k \<noteq> 0x3000"
  using assms box_ram_unat [OF assms, of p] box_ram_unat [of k' p] by (auto simp: box_ctrl_def split: if_splits)

lemma box_go_index:
  assumes "i < 0x10000"
  shows "unat (FIELD_GET 0xFFFF00 (FIELD_PREP 0xFFFF00 (word_of_nat i) OR 2 OR 1)) = i"
proof -
  have s: "bf_shf 0xFFFF00 = 8" by code_simp
  have z: "FIELD_GET 0xFFFF00 2 = 0" "FIELD_GET 0xFFFF00 1 = 0" by code_simp+
  have m: "drop_bit 8 (0xFFFF00 :: u32) = mask 16" by code_simp
  have "word_of_nat i AND mask 16 = (word_of_nat i :: u32)"
    using small_bits [of "word_of_nat i :: u32" 16] assms by (intro bit_word_eqI) (auto simp: bit_simps unat_of_nat)
  then have "FIELD_GET 0xFFFF00 (FIELD_PREP 0xFFFF00 (word_of_nat i) OR 2 OR 1) = word_of_nat i"
    by (simp only: FIELD_GET_OR FIELD_GET_PREP s z m or.right_neutral)
  then show ?thesis using assms by (simp add: unat_of_nat)
qed

lemma box_engine:
  assumes "n \<le> 0x10000"
  shows "foe_engine (box_env n dead) (box_hw n) (\<lambda>d p k. b_port d (box_ram p k)) (\<lambda>ws. ws) (\<lambda>e k. e ! k)"
proof unfold_locales
  fix k :: nat and d' :: foe_box and p v d i j
  assume "k < foe_words (box_env n dead)" and "d' = bus_wr (p_bus (box_env n dead)) (RAM_ENTRY (box_env n dead) p k) v d"
  then have k: "k < 20" and d: "d' = box_wr (box_ram p k) v d" by (simp_all add: box_env_def)
  have "box_ram p k' = box_ram p k \<longleftrightarrow> k' = k" if "k' < 20" for k' using box_ram_apart(1) [OF that k] .
  with k d show "box_hw n d' = box_hw n d \<and> foe_word (box_env n dead) i j d' = foe_word (box_env n dead) i j d \<and>
      (\<forall>k'<foe_words (box_env n dead). b_port d' (box_ram p k') = (if k' = k then v else b_port d (box_ram p k')))"
    using box_ram_apart(2,3) [OF k, of p] by (simp add: box_env_def box_wr_def box_hw_def fun_eq_iff)
next
  fix i d
  assume "i < sram_entries (box_env n dead)"
  then show "box_hw n (bus_wr (p_bus (box_env n dead)) (RAM_CTRL (box_env n dead) (ppe2_of (box_env n dead) i))
        (FIELD_PREP (SRAM_CTRL_ENTRY (p_abi (box_env n dead))) (word_of_nat i) OR SRAM_CTRL_WR (p_abi (box_env n dead)) OR
          SRAM_CTRL_REQ (p_abi (box_env n dead))) d) =
      (box_hw n d)(i := map (\<lambda>k. b_port d (box_ram (ppe2_of (box_env n dead) i) k)) [0..<foe_words (box_env n dead)])"
    using box_go_index [of i] assms
    by (simp add: box_env_def box_abi_def box_wr_def box_hw_def ppe2_of_def box_ctrl_def fun_eq_iff)
next
  show "STATE_INVALID (p_abi (box_env n dead)) AND drop_bit (bf_shf (IB1_BIND_STATE (p_abi (box_env n dead)))) (IB1_BIND_STATE (p_abi (box_env n dead))) =
      STATE_INVALID (p_abi (box_env n dead))"
    by (simp add: box_env_def box_abi_def)
next
  show "foe_state (p_fields (box_env n dead)) (p_abi (box_env n dead)) (zeroed (p_fields (box_env n dead))) = STATE_INVALID (p_abi (box_env n dead))"
    by (simp add: box_env_def box_abi_def box_fields_def foe_state_def FIELD_GET_def)
next
  show "map (\<lambda>k. zeroed (p_fields (box_env n dead)) ! k) [0..<foe_words (box_env n dead)] = zeroed (p_fields (box_env n dead))"
    by (simp add: box_env_def box_fields_def) code_simp
qed (auto simp: box_env_def box_abi_def box_fields_def box_hw_def foe_state_def fun_eq_iff split: if_splits)

interpretation box: foe_engine "box_env 4 []" "box_hw 4" "\<lambda>d p k. b_port d (box_ram p k)" "\<lambda>ws. ws" "\<lambda>e k. e ! k"
  by (rule box_engine) simp

end
