(* ===== verification/PpeShrink.thy ===== *)
theory PpeShrink
  imports PpeFoe
begin

text \<open>
  The shrink table of \<^verbatim>\<open>airoha/arht_ppe.c\<close>: sixteen slots of source MACs and tunnel addresses that
  IPv6 and tunnel entries name by a short index, mirrored in the engine's update memory. The locale
  \<open>updmem\<close> states the command protocol of that memory.
\<close>

section \<open>Constants and records\<close>

abbreviation (input) UPDMEM_NUM :: nat where "UPDMEM_NUM \<equiv> 16"
abbreviation (input) PPE_UPDMEM_SEL_SMAC :: nat where "PPE_UPDMEM_SEL_SMAC \<equiv> 0"
abbreviation (input) PPE_UPDMEM_SEL_IPv6 :: nat where "PPE_UPDMEM_SEL_IPv6 \<equiv> 1"
abbreviation (input) PPE_UPDMEM_SEL_IPv4 :: nat where "PPE_UPDMEM_SEL_IPv4 \<equiv> 2"
abbreviation (input) PPE_UPDMEM_ACK :: u32 where "PPE_UPDMEM_ACK \<equiv> 0x80000000"
abbreviation (input) PPE_UPDMEM_OFST_MASK :: u32 where "PPE_UPDMEM_OFST_MASK \<equiv> 0xF0"
abbreviation (input) PPE_UPDMEM_WR :: u32 where "PPE_UPDMEM_WR \<equiv> 2"
abbreviation (input) PPE_UPDMEM_REQ :: u32 where "PPE_UPDMEM_REQ \<equiv> 1"
abbreviation (input) BITMAP_IDX_SIZE :: nat where "BITMAP_IDX_SIZE \<equiv> (16384 + 31) div 32"
abbreviation (input) SMAC_PON_IDX :: nat where "SMAC_PON_IDX \<equiv> 14"
abbreviation (input) timeOutVal :: u64 where "timeOutVal \<equiv> 3000"

record shrink_field =
  f_smac :: "u8 list"
  f_eg_ipv4 :: "u32 list"
  f_eg_ipv6 :: "u32 list"
  f_foe_idx :: u32

text \<open>The registers of the update memory and the masks of their fields; \<open>eth_up\<close>: the Ethernet device and
  its engine are there. The last three are the WAN address registers.\<close>

record upd_env =
  UPDMEM_CTRL :: u32
  UPDMEM_DATA :: u32
  UPDMEM_ADDR_MASK :: u32
  UPDMEM_OFFSET_MASK :: u32
  UPDMEM_SEL_MASK :: u32
  UPDMEM_WR_MASK :: u32
  UPDMEM_REQ_MASK :: u32
  eth_up :: bool
  FE_WAN_MAC_H :: u32
  FE_MAC_LMIN :: u32
  FE_MAC_LMAX :: u32
  MAC_ADDR_NUM :: u32

text \<open>The kernel's \<^verbatim>\<open>time_after(a, b)\<close> and its bit operations on arrays of 64-bit words.\<close>

definition time_after :: "u64 \<Rightarrow> u64 \<Rightarrow> bool" where
  "time_after a b \<longleftrightarrow> sint (b - a) < 0"

definition test_bit64 :: "nat \<Rightarrow> (nat \<Rightarrow> u64) \<Rightarrow> bool" where
  "test_bit64 i b \<longleftrightarrow> bit (b (i div 64)) (i mod 64)"

definition set_bit64 :: "nat \<Rightarrow> (nat \<Rightarrow> u64) \<Rightarrow> nat \<Rightarrow> u64" where
  "set_bit64 i b = b(i div 64 := b (i div 64) OR push_bit (i mod 64) 1)"

definition clear_bit64 :: "nat \<Rightarrow> (nat \<Rightarrow> u64) \<Rightarrow> nat \<Rightarrow> u64" where
  "clear_bit64 i b = b(i div 64 := b (i div 64) AND NOT (push_bit (i mod 64) 1))"

section \<open>The update memory\<close>

fun ppeChecConfigDone :: "'d bus \<Rightarrow> u32 \<Rightarrow> u32 \<Rightarrow> nat \<Rightarrow> 'd \<Rightarrow> int \<times> 'd" where
  "ppeChecConfigDone io reg doneBit 0 d = (- ETIME, d)"
| "ppeChecConfigDone io reg doneBit (Suc n) d =
     (let (regValue, d) = bus_rr io reg d
      in if regValue AND doneBit \<noteq> 0 then (0, d) else ppeChecConfigDone io reg doneBit n d)"

definition updmem_key :: "upd_env \<Rightarrow> nat \<Rightarrow> nat \<Rightarrow> nat \<Rightarrow> u32" where
  "updmem_key u select addr offset =
     (push_bit 8 (word_of_nat addr) AND UPDMEM_ADDR_MASK u) OR
     (push_bit 4 (word_of_nat offset) AND PPE_UPDMEM_OFST_MASK) OR
     (push_bit 2 (word_of_nat select) AND UPDMEM_SEL_MASK u)"

definition ppeSetUpdateMemCtrl :: "'d bus \<Rightarrow> upd_env \<Rightarrow> nat \<Rightarrow> nat \<Rightarrow> nat \<Rightarrow> 'd \<Rightarrow> int \<times> 'd" where
  "ppeSetUpdateMemCtrl io u select addr offset d =
     (let val = PPE_UPDMEM_REQ OR PPE_UPDMEM_WR OR updmem_key u select addr offset;
          d = bus_wr io (UPDMEM_CTRL u) val d;
          (ret, d) = ppeChecConfigDone io (UPDMEM_CTRL u) PPE_UPDMEM_ACK 10 d
      in (if ret < 0 then - ETIME else 0, d))"

definition ppeSetUpdMemData :: "'d bus \<Rightarrow> upd_env \<Rightarrow> u32 \<Rightarrow> 'd \<Rightarrow> 'd" where
  "ppeSetUpdMemData io u mac_data d = bus_wr io (UPDMEM_DATA u) mac_data d"

definition smac_low :: "u8 list \<Rightarrow> u32" where
  "smac_low m = push_bit 24 (ucast (m ! 2)) OR push_bit 16 (ucast (m ! 3)) OR push_bit 8 (ucast (m ! 4)) OR ucast (m ! 5)"

definition smac_high :: "u8 list \<Rightarrow> u32" where
  "smac_high m = push_bit 8 (ucast (m ! 0)) OR ucast (m ! 1)"

text \<open>The words a field is stored as, each with its offset, in the order they are written.\<close>

definition shrink_words :: "nat \<Rightarrow> shrink_field \<Rightarrow> (nat \<times> u32) list" where
  "shrink_words select f =
     (if select = PPE_UPDMEM_SEL_SMAC then [(0, smac_low (f_smac f)), (1, smac_high (f_smac f))]
      else if select = PPE_UPDMEM_SEL_IPv4 then map (\<lambda>i. (i, f_eg_ipv4 f ! i)) [0..<2]
      else if select = PPE_UPDMEM_SEL_IPv6 then map (\<lambda>i. (if i \<le> 3 then 3 - i else 11 - i, f_eg_ipv6 f ! i)) [0..<8]
      else [])"

definition ppeSetShrinkField :: "'d bus \<Rightarrow> upd_env \<Rightarrow> nat \<Rightarrow> nat \<Rightarrow> shrink_field \<Rightarrow> 'd \<Rightarrow> 'd" where
  "ppeSetShrinkField io u select index f d =
     fold (\<lambda>(offset, w) d. snd (ppeSetUpdateMemCtrl io u select index offset (ppeSetUpdMemData io u w d)))
       (shrink_words select f) d"

section \<open>The table\<close>

definition upd_slot :: "nat \<Rightarrow> (shrink_slot \<Rightarrow> shrink_slot) \<Rightarrow> 'd ppe \<Rightarrow> 'd ppe" where
  "upd_slot k g s = s\<lparr>shnkTbl := (shnkTbl s)[k := g (shnkTbl s ! k)]\<rparr>"

definition UpdateShrinkTable :: "int \<Rightarrow> u8 list \<Rightarrow> 'd ppe \<Rightarrow> 'd ppe" where
  "UpdateShrinkTable index addr s =
     (if 0 \<le> index \<and> index < int UPDMEM_NUM
      then upd_slot (nat index) (\<lambda>t. t\<lparr>sh_smac := addr, sh_valid := (sh_valid t)[PPE_UPDMEM_SEL_SMAC := 1],
                                       sh_pinned := (sh_pinned t)[PPE_UPDMEM_SEL_SMAC := 1]\<rparr>) s
      else s)"

definition zero_slot :: shrink_slot where
  "zero_slot = \<lparr>sh_smac = replicate 6 0, sh_eg_ipv4 = replicate 2 0, sh_eg_ipv6 = replicate 8 0, sh_valid = replicate 3 0,
     sh_timestamp = replicate 3 0, sh_bitmap = replicate 3 (\<lambda>_. 0), sh_pinned = replicate 3 0\<rparr>"

definition InitShrinkTable :: "'d ppe \<Rightarrow> 'd ppe" where
  "InitShrinkTable s = s\<lparr>shnkTbl := replicate UPDMEM_NUM zero_slot\<rparr>"

text \<open>A slot that is not pinned is out of date thirty seconds after its last use.\<close>

definition timed_out :: "u64 \<Rightarrow> nat \<Rightarrow> shrink_slot \<Rightarrow> bool" where
  "timed_out jiffies select t \<longleftrightarrow>
     sh_pinned t ! select = 0 \<and> time_after jiffies (sh_timestamp t ! select + timeOutVal)"

definition invalidate :: "nat \<Rightarrow> shrink_slot \<Rightarrow> shrink_slot" where
  "invalidate select t = t\<lparr>sh_valid := (sh_valid t)[select := 0]\<rparr>"

text \<open>The reuse scan: one flow index, one array word (from which the code steps through 32 indices), one
  slot, the table.\<close>

definition reuse_flow :: "('e, 'd) ppe_env \<Rightarrow> nat \<Rightarrow> (nat \<Rightarrow> u64) \<times> bool \<times> 'd \<Rightarrow> (nat \<Rightarrow> u64) \<times> bool \<times> 'd" where
  "reuse_flow env idx = (\<lambda>(b, need_reuse, d).
     if \<not> test_bit64 idx b then (b, need_reuse, d)
     else case get_entry env idx d of
            (None, d) \<Rightarrow> (b, need_reuse, d)
          | (Some e, d) \<Rightarrow>
              if foe_state (p_fields env) (p_abi env) e = STATE_BIND (p_abi env) then (b, False, d)
              else if foe_state (p_fields env) (p_abi env) e = STATE_UNBIND (p_abi env) then (clear_bit64 idx b, need_reuse, d)
              else (b, need_reuse, d))"

definition reuse_word :: "('e, 'd) ppe_env \<Rightarrow> nat \<Rightarrow> (nat \<Rightarrow> u64) \<times> bool \<times> 'd \<Rightarrow> (nat \<Rightarrow> u64) \<times> bool \<times> 'd" where
  "reuse_word env i = (\<lambda>(b, need_reuse, d).
     if b i = 0 then (b, need_reuse, d)
     else fold (reuse_flow env) [i * 32..<min (i * 32 + 32) (sram_entries env)] (b, need_reuse, d))"

definition reuse_slot :: "('e, 'd) ppe_env \<Rightarrow> u64 \<Rightarrow> nat \<times> nat \<Rightarrow> 'd ppe \<Rightarrow> 'd ppe" where
  "reuse_slot env jiffies = (\<lambda>(index, select) s.
     if timed_out jiffies select (shnkTbl s ! index)
     then let (b, need_reuse, d) = fold (reuse_word env) [0..<BITMAP_IDX_SIZE]
                                     (sh_bitmap (shnkTbl s ! index) ! select, True, pdev s);
              s = upd_slot index (\<lambda>t. t\<lparr>sh_bitmap := (sh_bitmap t)[select := b]\<rparr>) (s\<lparr>pdev := d\<rparr>)
          in if need_reuse then upd_slot index (invalidate select) s else s
     else s)"

definition reuse_shrink_table :: "('e, 'd) ppe_env \<Rightarrow> upd_env \<Rightarrow> u64 \<Rightarrow> 'd ppe \<Rightarrow> 'd ppe" where
  "reuse_shrink_table env u jiffies s =
     (if \<not> eth_up u then s
      else fold (reuse_slot env jiffies) (List.product [0..<UPDMEM_NUM] [0..<3]) s)"

definition ppe_dump_shrink_table :: "('e, 'd) ppe_env \<Rightarrow> upd_env \<Rightarrow> u64 \<Rightarrow> 'd ppe \<Rightarrow> 'd ppe" where
  "ppe_dump_shrink_table env u jiffies s = reuse_shrink_table env u jiffies s"

text \<open>The search: the first matching slot, and the first slot that is or becomes invalid.\<close>

definition slot_matches :: "nat \<Rightarrow> shrink_field \<Rightarrow> shrink_slot \<Rightarrow> bool" where
  "slot_matches select f t =
     (if select = PPE_UPDMEM_SEL_SMAC then sh_smac t = f_smac f
      else if select = PPE_UPDMEM_SEL_IPv4 then sh_eg_ipv4 t = f_eg_ipv4 f
      else if select = PPE_UPDMEM_SEL_IPv6 then sh_eg_ipv6 t = f_eg_ipv6 f
      else False)"

fun shrink_search ::
  "nat \<Rightarrow> shrink_field \<Rightarrow> u64 \<Rightarrow> nat list \<Rightarrow> nat \<Rightarrow> shrink_slot list \<Rightarrow> nat option \<times> nat \<times> shrink_slot list" where
  "shrink_search select f jiffies [] invldIdx tbl = (None, invldIdx, tbl)"
| "shrink_search select f jiffies (index # is) invldIdx tbl =
     (if sh_valid (tbl ! index) ! select = 1 \<and> slot_matches select f (tbl ! index) then (Some index, invldIdx, tbl)
      else
        let tbl = (if sh_valid (tbl ! index) ! select = 1 \<and> timed_out jiffies select (tbl ! index)
                   then tbl[index := invalidate select (tbl ! index)] else tbl);
            invldIdx = (if sh_valid (tbl ! index) ! select = 0 \<and> index < invldIdx then index else invldIdx)
        in shrink_search select f jiffies is invldIdx tbl)"

definition store_key :: "nat \<Rightarrow> shrink_field \<Rightarrow> shrink_slot \<Rightarrow> shrink_slot" where
  "store_key select f t =
     (if select = PPE_UPDMEM_SEL_SMAC then t\<lparr>sh_smac := f_smac f\<rparr>
      else if select = PPE_UPDMEM_SEL_IPv4 then t\<lparr>sh_eg_ipv4 := f_eg_ipv4 f\<rparr>
      else if select = PPE_UPDMEM_SEL_IPv6 then t\<lparr>sh_eg_ipv6 := f_eg_ipv6 f\<rparr>
      else t)"

text \<open>The code after the label \<^verbatim>\<open>success\<close>.\<close>

definition touch_slot :: "('e, 'd) ppe_env \<Rightarrow> upd_env \<Rightarrow> u64 \<Rightarrow> nat \<Rightarrow> u32 \<Rightarrow> shrink_slot \<Rightarrow> shrink_slot" where
  "touch_slot env u jiffies select idx_in t =
     (let t = t\<lparr>sh_valid := (sh_valid t)[select := 1]\<rparr>;
          t = (if eth_up u \<and> 0 < idx_in \<and> unat idx_in < sram_entries env
               then t\<lparr>sh_bitmap := (sh_bitmap t)[select := set_bit64 (unat idx_in) (sh_bitmap t ! select)]\<rparr> else t)
      in t\<lparr>sh_timestamp := (sh_timestamp t)[select := jiffies]\<rparr>)"

definition find_and_update_shrink_table ::
  "('e, 'd) ppe_env \<Rightarrow> upd_env \<Rightarrow> u64 \<Rightarrow> nat \<Rightarrow> shrink_field option \<Rightarrow> 'd ppe \<Rightarrow> int \<times> 'd ppe" where
  "find_and_update_shrink_table env u jiffies select fp s =
     (case fp of
        None \<Rightarrow> (- 1, s)
      | Some f \<Rightarrow>
          let (found, invldIdx, tbl) = shrink_search select f jiffies [0..<UPDMEM_NUM] UPDMEM_NUM (shnkTbl s);
              s = s\<lparr>shnkTbl := tbl\<rparr>
          in case found of
               Some index \<Rightarrow>
                 (int index, reuse_shrink_table env u jiffies (upd_slot index (touch_slot env u jiffies select (f_foe_idx f)) s))
             | None \<Rightarrow>
                 if invldIdx = UPDMEM_NUM then (- 1, reuse_shrink_table env u jiffies s)
                 else let s = upd_slot invldIdx (store_key select f) s;
                          s = on_dev (ppeSetShrinkField (p_bus env) u select invldIdx f) s
                      in (int invldIdx, reuse_shrink_table env u jiffies
                            (upd_slot invldIdx (touch_slot env u jiffies select (f_foe_idx f)) s)))"

section \<open>Source MACs of entries\<close>

text \<open>\<open>smac_id\<close> is the mask \<^verbatim>\<open>AIROHA_FOE_MAC_SMAC_ID\<close>; the functions work on the upper source-MAC word of an
  IPv6 entry.\<close>

definition set_ppe_entry_smac_index :: "u32 \<Rightarrow> u8 \<Rightarrow> u32 \<Rightarrow> u32" where
  "set_ppe_entry_smac_index smac_id value src_mac_hi =
     (if value = 0x10 then masked src_mac_hi smac_id (FIELD_PREP smac_id 0xf)
      else masked src_mac_hi smac_id (FIELD_PREP smac_id (ucast value)))"

definition get_ppe_entry_smac_index :: "foe_abi \<Rightarrow> u32 \<Rightarrow> u32 \<Rightarrow> int" where
  "get_ppe_entry_smac_index a src_mac_hi type =
     (if type = TYPE_IPV6_ROUTE_3T a \<or> type = TYPE_IPV6_ROUTE_5T a
      then if FIELD_GET (FOE_MAC_SMAC_ID a) src_mac_hi = 0xf then 0x10
           else uint (FIELD_GET (FOE_MAC_SMAC_ID a) src_mac_hi)
      else 0)"

text \<open>The MAC part of an entry, in whichever form its type has.\<close>

record l2_mac =
  lm_dest_mac_hi :: u32
  lm_dest_mac_lo :: u16
  lm_src_mac_hi :: u32
  lm_src_mac_lo :: u16
  lm_pppoe_id :: u16

definition get_be32 :: "u8 list \<Rightarrow> u32" where
  "get_be32 m = push_bit 24 (ucast (m ! 0)) OR push_bit 16 (ucast (m ! 1)) OR push_bit 8 (ucast (m ! 2)) OR ucast (m ! 3)"

definition get_be16 :: "u8 list \<Rightarrow> u16" where
  "get_be16 m = push_bit 8 (ucast (m ! 0)) OR ucast (m ! 1)"

definition l2_types :: "foe_abi \<Rightarrow> u32 set" where
  "l2_types a = {TYPE_IPV4_ROUTE a, TYPE_IPV4_HNAPT a, TYPE_BRIDGE a, TYPE_IPV6_ROUTE_3T a, TYPE_IPV6_ROUTE_5T a,
     TYPE_IPV6_6RD a, TYPE_IPV4_DSLITE a}"

definition airoha_is_bridge_packet :: "u8 list \<Rightarrow> u8 list \<Rightarrow> bool" where
  "airoha_is_bridge_packet dev_addr src_addr = (if dev_addr = src_addr then False else True)"

text \<open>The request: the code sets the address alone, so the flow index is 0.\<close>

definition smac_field :: "u8 list \<Rightarrow> shrink_field" where
  "smac_field src_mac = \<lparr>f_smac = take 6 src_mac, f_eg_ipv4 = replicate 2 0, f_eg_ipv6 = replicate 8 0, f_foe_idx = 0\<rparr>"

text \<open>\<open>dev\<close> is the address of the device, when there is one; \<open>pppoe_mask\<close> is \<^verbatim>\<open>AIROHA_FOE_MAC_PPPOE_ID\<close>.\<close>

definition airoha_set_ppe_mac ::
  "('e, 'd) ppe_env \<Rightarrow> upd_env \<Rightarrow> u32 \<Rightarrow> u64 \<Rightarrow> u32 \<Rightarrow> u8 list option \<Rightarrow> u8 list \<Rightarrow> u8 list \<Rightarrow> u16 \<Rightarrow> l2_mac \<Rightarrow> 'd ppe
     \<Rightarrow> int \<times> l2_mac \<times> 'd ppe" where
  "airoha_set_ppe_mac env u pppoe_mask jiffies type dev src_mac dst_mac pppid l2 s =
     (let a = p_abi env; smac_id = FOE_MAC_SMAC_ID a in
      if type \<notin> l2_types a then (- 1, l2, s)
      else
        let l2 = l2\<lparr>lm_dest_mac_hi := get_be32 dst_mac, lm_dest_mac_lo := get_be16 (drop 4 dst_mac)\<rparr> in
        if type \<le> TYPE_IPV4_DSLITE a then
          let l2 = l2\<lparr>lm_src_mac_hi := get_be32 src_mac, lm_src_mac_lo := get_be16 (drop 4 src_mac)\<rparr>;
              l2 = (if pppid \<noteq> 0 then l2\<lparr>lm_pppoe_id := pppid\<rparr> else l2)
          in (0, l2, s)
        else
          let (l2, s) =
                (if dev \<noteq> None \<and> airoha_is_bridge_packet (the dev) src_mac
                 then (l2\<lparr>lm_src_mac_hi := set_ppe_entry_smac_index smac_id 0x10 (lm_src_mac_hi l2)\<rparr>, s)
                 else
                   let (index, s) = find_and_update_shrink_table env u jiffies PPE_UPDMEM_SEL_SMAC (Some (smac_field src_mac)) s
                   in (if index \<noteq> - 1
                       then l2\<lparr>lm_src_mac_hi := set_ppe_entry_smac_index smac_id (word_of_int index) (lm_src_mac_hi l2)\<rparr>
                       else l2, s));
              l2 = (if pppid \<noteq> 0
                    then l2\<lparr>lm_src_mac_hi := lm_src_mac_hi l2 OR FIELD_PREP pppoe_mask (ucast pppid)\<rparr> else l2)
          in (0, l2, s))"

section \<open>The PON address\<close>

definition airoha_pon_ppe_init_upd_mem :: "'d bus \<Rightarrow> upd_env \<Rightarrow> u8 list \<Rightarrow> 'd ppe \<Rightarrow> 'd ppe" where
  "airoha_pon_ppe_init_upd_mem io u addr s =
     (let idx = FIELD_PREP (UPDMEM_ADDR_MASK u) (word_of_nat SMAC_PON_IDX);
          s = on_dev (bus_wr io (UPDMEM_DATA u) (smac_low addr)) s;
          s = on_dev (bus_wr io (UPDMEM_CTRL u) (idx OR UPDMEM_WR_MASK u OR UPDMEM_REQ_MASK u)) s;
          s = on_dev (bus_wr io (UPDMEM_DATA u) (smac_high addr)) s;
          s = on_dev (bus_wr io (UPDMEM_CTRL u)
                (idx OR FIELD_PREP (UPDMEM_OFFSET_MASK u) 1 OR UPDMEM_WR_MASK u OR UPDMEM_REQ_MASK u)) s
      in UpdateShrinkTable (int SMAC_PON_IDX) addr s)"

definition airoha_pon_set_macaddr :: "'d bus \<Rightarrow> upd_env \<Rightarrow> u8 list \<Rightarrow> 'd ppe \<Rightarrow> 'd ppe" where
  "airoha_pon_set_macaddr io u addr s =
     (let val = push_bit 16 (ucast (addr ! 0)) OR push_bit 8 (ucast (addr ! 1)) OR ucast (addr ! 2);
          s = on_dev (bus_wr io (FE_WAN_MAC_H u) val) s;
          val = push_bit 16 (ucast (addr ! 3)) OR push_bit 8 (ucast (addr ! 4)) OR ucast (addr ! 5);
          s = on_dev (bus_wr io (FE_MAC_LMIN u) val) s;
          s = on_dev (bus_wr io (FE_MAC_LMAX u) (val + MAC_ADDR_NUM u)) s
      in airoha_pon_ppe_init_upd_mem io u addr s)"

end
