(* ===== verification/PpeShrinkProps.thy ===== *)
theory PpeShrinkProps
  imports PpeShrink
begin

text \<open>
  What the shrink table promises: every valid slot is what the engine's update memory holds, a
  pinned slot stays, a search answers a slot that holds the key. And what it does not promise: a slot
  is taken from a flow that still uses it. The invariant \<open>tbl_ok\<close> speaks of all three kinds of slots.
\<close>

section \<open>Invariant\<close>

definition slot_field :: "shrink_slot \<Rightarrow> shrink_field" where
  "slot_field t = \<lparr>f_smac = sh_smac t, f_eg_ipv4 = sh_eg_ipv4 t, f_eg_ipv6 = sh_eg_ipv6 t, f_foe_idx = 0\<rparr>"

definition slot_wf :: "shrink_slot \<Rightarrow> bool" where
  "slot_wf t \<longleftrightarrow> length (sh_valid t) = 3 \<and> length (sh_timestamp t) = 3 \<and> length (sh_bitmap t) = 3 \<and> length (sh_pinned t) = 3 \<and>
     (\<forall>sel<3. sh_valid t ! sel \<in> {0, 1} \<and> (sh_pinned t ! sel \<noteq> 0 \<longrightarrow> sh_valid t ! sel = 1))"

definition slot_mirrored :: "upd_env \<Rightarrow> (u32 \<Rightarrow> u32) \<Rightarrow> nat \<Rightarrow> nat \<Rightarrow> shrink_slot \<Rightarrow> bool" where
  "slot_mirrored u m sel k t \<longleftrightarrow> (\<forall>(offset, w) \<in> set (shrink_words sel (slot_field t)). m (updmem_key u sel k offset) = w)"

definition tbl_ok :: "upd_env \<Rightarrow> (u32 \<Rightarrow> u32) \<Rightarrow> shrink_slot list \<Rightarrow> bool" where
  "tbl_ok u m tbl \<longleftrightarrow> length tbl = 16 \<and> (\<forall>k<16. slot_wf (tbl ! k)) \<and>
     (\<forall>k<16. \<forall>sel<3. sh_valid (tbl ! k) ! sel = 1 \<longrightarrow> slot_mirrored u m sel k (tbl ! k)) \<and>
     (\<forall>k<16. \<forall>i<16. \<forall>sel<3. k \<noteq> i \<longrightarrow> sh_valid (tbl ! k) ! sel = 1 \<longrightarrow> sh_valid (tbl ! i) ! sel = 1 \<longrightarrow>
        slot_matches sel (slot_field (tbl ! k)) (tbl ! i) \<longrightarrow> sh_pinned (tbl ! k) ! sel \<noteq> 0 \<or> sh_pinned (tbl ! i) ! sel \<noteq> 0)"

text \<open>A slot may lose its validity when it has timed out, and the bits of its users.\<close>

definition fades :: "u64 \<Rightarrow> shrink_slot \<Rightarrow> shrink_slot \<Rightarrow> bool" where
  "fades j t t' \<longleftrightarrow> slot_field t' = slot_field t \<and> sh_timestamp t' = sh_timestamp t \<and> sh_pinned t' = sh_pinned t \<and>
     length (sh_valid t') = length (sh_valid t) \<and> length (sh_bitmap t') = length (sh_bitmap t) \<and>
     (\<forall>sel<3. sh_valid t' ! sel = sh_valid t ! sel \<or> sh_valid t' ! sel = 0 \<and> timed_out j sel t)"

definition tbl_fades :: "u64 \<Rightarrow> shrink_slot list \<Rightarrow> shrink_slot list \<Rightarrow> bool" where
  "tbl_fades j tbl tbl' \<longleftrightarrow> length tbl' = length tbl \<and> (\<forall>k<length tbl. fades j (tbl ! k) (tbl' ! k))"

lemma fades_refl [simp]: "fades j t t"
  by (simp add: fades_def)

lemma fades_timed_out: "fades j t t' \<Longrightarrow> timed_out i sel t' = timed_out i sel t"
  by (simp add: fades_def timed_out_def)

lemma fades_trans:
  assumes "fades j a b" and "fades j b c"
  shows "fades j a c"
  using assms fades_timed_out [OF assms(1), of j] unfolding fades_def by metis

lemma fades_matches:
  assumes "fades j t t'"
  shows "slot_matches sel f t' = slot_matches sel f t" "slot_field t' = slot_field t"
  using assms by (auto simp: fades_def slot_matches_def slot_field_def)

lemma fades_wf: "fades j t t' \<Longrightarrow> slot_wf t \<Longrightarrow> slot_wf t'"
  by (simp add: fades_def slot_wf_def timed_out_def) metis

lemma tbl_fades_refl [simp]: "tbl_fades j tbl tbl"
  by (simp add: tbl_fades_def)

lemma tbl_fades_trans: "tbl_fades j a b \<Longrightarrow> tbl_fades j b c \<Longrightarrow> tbl_fades j a c"
  by (auto simp: tbl_fades_def intro: fades_trans)

lemma tbl_fades_upd: "k < length tbl \<Longrightarrow> fades j (tbl ! k) t \<Longrightarrow> tbl_fades j tbl (tbl[k := t])"
  by (auto simp: tbl_fades_def nth_list_update)

lemma invalidate_fades:
  assumes "timed_out j sel t"
  shows "fades j t (invalidate sel t)"
proof -
  have "(sh_valid t)[sel := 0] ! i = sh_valid t ! i \<or> (sh_valid t)[sel := 0] ! i = 0 \<and> timed_out j i t" for i
  proof (cases "i = sel \<and> sel < length (sh_valid t)")
    case False then show ?thesis by (cases "i = sel") (simp_all add: list_update_beyond)
  qed (use assms in simp)
  then show ?thesis by (simp add: fades_def invalidate_def slot_field_def)
qed

lemma tbl_ok_fades:
  assumes "tbl_ok u m tbl" and "tbl_fades j tbl tbl'"
  shows "tbl_ok u m tbl'"
proof -
  have F: "length tbl' = 16" "\<And>k. k < 16 \<Longrightarrow> fades j (tbl ! k) (tbl' ! k)"
    using assms by (simp_all add: tbl_ok_def tbl_fades_def)
  have V: "sh_valid (tbl ! k) ! sel = 1" if "k < 16" "sel < 3" "sh_valid (tbl' ! k) ! sel = 1" for k sel
    using F(2) [OF that(1)] that(2,3) by (auto simp: fades_def)
  have P: "sh_pinned (tbl' ! k) = sh_pinned (tbl ! k)" if "k < 16" for k using F(2) [OF that] by (simp add: fades_def)
  show ?thesis using assms(1) F(1) V P fades_matches [OF F(2)] fades_wf [OF F(2)]
    unfolding tbl_ok_def slot_mirrored_def by simp
qed

section \<open>The search\<close>

lemma search_spec:
  assumes "shrink_search sel f j is iv tbl = (found, iv', tbl')"
    and "distinct is" and "\<forall>i\<in>set is. i < length tbl" and "sel < 3" and "\<forall>i<length tbl. slot_wf (tbl ! i)"
  shows "tbl_fades j tbl tbl' \<and> (\<forall>i. i \<notin> set is \<longrightarrow> tbl' ! i = tbl ! i) \<and>
    (case found of
       Some k \<Rightarrow> k \<in> set is \<and> sh_valid (tbl ! k) ! sel = 1 \<and> slot_matches sel f (tbl ! k) \<and> tbl' ! k = tbl ! k
     | None \<Rightarrow> (\<forall>i\<in>set is. \<not> (sh_valid (tbl ! i) ! sel = 1 \<and> slot_matches sel f (tbl ! i)) \<and>
                  (timed_out j sel (tbl ! i) \<longrightarrow> sh_valid (tbl' ! i) ! sel = 0) \<and>
                  (sh_valid (tbl' ! i) ! sel = 0 \<longrightarrow> iv' \<le> i)) \<and>
               iv' \<le> iv \<and> (iv' = iv \<or> iv' \<in> set is \<and> sh_valid (tbl' ! iv') ! sel = 0))"
  using assms
proof (induction sel f j "is" iv tbl rule: shrink_search.induct)
  case (1 sel f j iv tbl)
  then show ?case by auto
next
  case (2 sel f j k ks iv tbl)
  show ?case
  proof (cases "sh_valid (tbl ! k) ! sel = 1 \<and> slot_matches sel f (tbl ! k)")
    case True
    then show ?thesis using 2(2) by auto
  next
    case False
    define tbl1 where "tbl1 = (if sh_valid (tbl ! k) ! sel = 1 \<and> timed_out j sel (tbl ! k)
      then tbl[k := invalidate sel (tbl ! k)] else tbl)"
    define iv1 where "iv1 = (if sh_valid (tbl1 ! k) ! sel = 0 \<and> k < iv then k else iv)"
    have k: "k < length tbl" "k \<notin> set ks" "distinct ks" "\<forall>i\<in>set ks. i < length tbl" using 2(3,4) by auto
    have f1: "tbl_fades j tbl tbl1" unfolding tbl1_def using k(1) by (auto intro: tbl_fades_upd invalidate_fades)
    have same: "tbl1 ! i = tbl ! i" if "i \<noteq> k" for i using that by (simp add: tbl1_def)
    have len: "length tbl1 = length tbl" by (simp add: tbl1_def)
    have wf1: "\<forall>i<length tbl1. slot_wf (tbl1 ! i)"
      using f1 2(6) len by (auto simp: tbl_fades_def intro: fades_wf)
    have v: "sh_valid (tbl ! k) ! sel \<in> {0, 1}" "length (sh_valid (tbl ! k)) = 3"
      using 2(5,6) k(1) by (auto simp: slot_wf_def)
    have out: "timed_out j sel (tbl ! k) \<longrightarrow> sh_valid (tbl1 ! k) ! sel = 0"
      using v k(1) 2(5) by (auto simp: tbl1_def invalidate_def)
    have rec: "shrink_search sel f j ks iv1 tbl1 = (found, iv', tbl')"
      using 2(2) False by (simp add: Let_def tbl1_def [symmetric] iv1_def [symmetric] del: One_nat_def)
    have IH: "tbl_fades j tbl1 tbl' \<and> (\<forall>i. i \<notin> set ks \<longrightarrow> tbl' ! i = tbl1 ! i) \<and>
      (case found of
         Some i \<Rightarrow> i \<in> set ks \<and> sh_valid (tbl1 ! i) ! sel = 1 \<and> slot_matches sel f (tbl1 ! i) \<and> tbl' ! i = tbl1 ! i
       | None \<Rightarrow> (\<forall>i\<in>set ks. \<not> (sh_valid (tbl1 ! i) ! sel = 1 \<and> slot_matches sel f (tbl1 ! i)) \<and>
                    (timed_out j sel (tbl1 ! i) \<longrightarrow> sh_valid (tbl' ! i) ! sel = 0) \<and>
                    (sh_valid (tbl' ! i) ! sel = 0 \<longrightarrow> iv' \<le> i)) \<and>
                 iv' \<le> iv1 \<and> (iv' = iv1 \<or> iv' \<in> set ks \<and> sh_valid (tbl' ! iv') ! sel = 0))"
      using 2(1) [OF False tbl1_def iv1_def rec k(3) _ 2(5) wf1] k(4) len by simp
    have ks: "tbl1 ! i = tbl ! i" if "i \<in> set ks" for i using same [of i] that k(2) by auto
    have kk: "tbl' ! k = tbl1 ! k" using IH k(2) by blast
    have T: "tbl_fades j tbl tbl'" using IH f1 tbl_fades_trans by blast
    have rest: "tbl' ! i = tbl ! i" if "i \<notin> set (k # ks)" for i using IH same [of i] that by simp
    show ?thesis
    proof (cases found)
      case (Some i)
      then have i: "i \<in> set ks" "sh_valid (tbl1 ! i) ! sel = 1" "slot_matches sel f (tbl1 ! i)" "tbl' ! i = tbl1 ! i"
        using IH by simp_all
      then show ?thesis using Some T rest ks [OF i(1)] by simp
    next
      case None
      then have N: "\<forall>i\<in>set ks. \<not> (sh_valid (tbl ! i) ! sel = 1 \<and> slot_matches sel f (tbl ! i)) \<and>
            (timed_out j sel (tbl ! i) \<longrightarrow> sh_valid (tbl' ! i) ! sel = 0) \<and> (sh_valid (tbl' ! i) ! sel = 0 \<longrightarrow> iv' \<le> i)"
          "iv' \<le> iv1" "iv' = iv1 \<or> iv' \<in> set ks \<and> sh_valid (tbl' ! iv') ! sel = 0"
        using IH ks by simp_all
      have i1: "iv1 \<le> iv" "iv1 = iv \<or> iv1 = k \<and> sh_valid (tbl1 ! k) ! sel = 0" "sh_valid (tbl1 ! k) ! sel = 0 \<longrightarrow> iv1 \<le> k"
        by (auto simp: iv1_def)
      have a: "timed_out j sel (tbl ! k) \<longrightarrow> sh_valid (tbl' ! k) ! sel = 0" "sh_valid (tbl' ! k) ! sel = 0 \<longrightarrow> iv' \<le> k"
        using out i1(3) N(2) unfolding kk by (simp, linarith)
      have b: "iv' \<le> iv" using N(2) i1(1) by simp
      have c: "iv' = iv \<or> iv' \<in> set (k # ks) \<and> sh_valid (tbl' ! iv') ! sel = 0"
        using N(3) i1(2) kk by fastforce
      show ?thesis using None T rest False N(1) a b c by simp
    qed
  qed
qed

section \<open>Storing a key\<close>

lemma sel_cases: "sel < 3 \<Longrightarrow> (sel = 0 \<Longrightarrow> P) \<Longrightarrow> (sel = 1 \<Longrightarrow> P) \<Longrightarrow> (sel = 2 \<Longrightarrow> P) \<Longrightarrow> P"
  for sel :: nat by linarith

lemma words_store:
  assumes "sel < 3" and "sel' < 3"
  shows "shrink_words sel' (slot_field (store_key sel f t)) = (if sel' = sel then shrink_words sel f else shrink_words sel' (slot_field t))"
  using assms by (auto elim!: sel_cases simp: shrink_words_def store_key_def slot_field_def)

lemma matches_store:
  assumes "sel < 3" and "sel' < 3"
  shows "slot_matches sel' (slot_field (store_key sel f t)) x = (if sel' = sel then slot_matches sel f x else slot_matches sel' (slot_field t) x)"
  using assms by (auto elim!: sel_cases simp: slot_matches_def store_key_def slot_field_def)

lemma matches_sym: "slot_matches sel (slot_field a) b = slot_matches sel (slot_field b) a"
  by (auto simp: slot_matches_def slot_field_def)

lemma matches_self: "sel < 3 \<Longrightarrow> slot_matches sel f (store_key sel f t)"
  by (auto elim!: sel_cases simp: slot_matches_def store_key_def)

lemma matches_trans: "slot_matches sel f a \<Longrightarrow> slot_matches sel f b \<Longrightarrow> slot_matches sel (slot_field a) b"
  by (auto simp: slot_matches_def slot_field_def split: if_splits)

lemma store_key_parts [simp]:
  "sh_valid (store_key sel f t) = sh_valid t" "sh_timestamp (store_key sel f t) = sh_timestamp t"
  "sh_bitmap (store_key sel f t) = sh_bitmap t" "sh_pinned (store_key sel f t) = sh_pinned t"
  by (simp_all add: store_key_def)

lemma touch_parts [simp]:
  "slot_field (touch_slot env u j sel idx t) = slot_field t"
  "sh_valid (touch_slot env u j sel idx t) = (sh_valid t)[sel := 1]"
  "sh_timestamp (touch_slot env u j sel idx t) = (sh_timestamp t)[sel := j]"
  "sh_pinned (touch_slot env u j sel idx t) = sh_pinned t"
  "length (sh_bitmap (touch_slot env u j sel idx t)) = length (sh_bitmap t)"
  "slot_matches sel' f (touch_slot env u j sel idx t) = slot_matches sel' f t"
  by (simp_all add: touch_slot_def slot_field_def Let_def slot_matches_def)

lemma touch_wf: "slot_wf t \<Longrightarrow> sel < 3 \<Longrightarrow> slot_wf (touch_slot env u j sel idx t)"
  by (auto simp: slot_wf_def nth_list_update)

lemma store_wf: "slot_wf t \<Longrightarrow> slot_wf (store_key sel f t)"
  by (simp add: slot_wf_def)

lemma tbl_okI:
  assumes "length tbl = 16" and "\<And>k. k < 16 \<Longrightarrow> slot_wf (tbl ! k)"
    and "\<And>k sel. k < 16 \<Longrightarrow> sel < 3 \<Longrightarrow> sh_valid (tbl ! k) ! sel = 1 \<Longrightarrow> slot_mirrored u m sel k (tbl ! k)"
    and "\<And>k i sel. k < 16 \<Longrightarrow> i < 16 \<Longrightarrow> sel < 3 \<Longrightarrow> k \<noteq> i \<Longrightarrow> sh_valid (tbl ! k) ! sel = 1 \<Longrightarrow> sh_valid (tbl ! i) ! sel = 1 \<Longrightarrow>
           slot_matches sel (slot_field (tbl ! k)) (tbl ! i) \<Longrightarrow> sh_pinned (tbl ! k) ! sel \<noteq> 0 \<or> sh_pinned (tbl ! i) ! sel \<noteq> 0"
  shows "tbl_ok u m tbl"
  using assms unfolding tbl_ok_def by blast

lemma tbl_okD:
  assumes "tbl_ok u m tbl"
  shows "length tbl = 16" and "k < 16 \<Longrightarrow> slot_wf (tbl ! k)"
    and "k < 16 \<Longrightarrow> sel < 3 \<Longrightarrow> sh_valid (tbl ! k) ! sel = 1 \<Longrightarrow> slot_mirrored u m sel k (tbl ! k)"
    and "k < 16 \<Longrightarrow> i < 16 \<Longrightarrow> sel < 3 \<Longrightarrow> k \<noteq> i \<Longrightarrow> sh_valid (tbl ! k) ! sel = 1 \<Longrightarrow> sh_valid (tbl ! i) ! sel = 1 \<Longrightarrow>
           slot_matches sel (slot_field (tbl ! k)) (tbl ! i) \<Longrightarrow> sh_pinned (tbl ! k) ! sel \<noteq> 0 \<or> sh_pinned (tbl ! i) ! sel \<noteq> 0"
  using assms unfolding tbl_ok_def by blast+

lemma tbl_ok_touch:
  assumes T: "tbl_ok u m tbl" and k: "k < 16" and "sel < 3" and v: "sh_valid (tbl ! k) ! sel = 1"
  shows "tbl_ok u m (tbl[k := touch_slot env u' j sel idx (tbl ! k)])"
proof -
  let ?t = "touch_slot env u' j sel idx (tbl ! k)"
  note D = tbl_okD [OF T]
  have wf: "slot_wf ?t" using touch_wf D(2) k assms(3) by blast
  have "length (sh_valid (tbl ! k)) = 3" using D(2) [OF k] by (simp add: slot_wf_def)
  then have same: "sh_valid ?t = sh_valid (tbl ! k)" using v by (simp add: list_update_same_conv assms(3))
  have nth: "tbl[k := ?t] ! i = (if i = k then ?t else tbl ! i)" if "i < 16" for i using that D(1) k by (simp add: nth_list_update)
  show ?thesis
  proof (rule tbl_okI)
    show "length (tbl[k := ?t]) = 16" using D(1) by simp
    show "slot_wf (tbl[k := ?t] ! i)" if "i < 16" for i using nth [OF that] wf D(2) that by simp
    show "slot_mirrored u m sel' i (tbl[k := ?t] ! i)" if "i < 16" "sel' < 3" "sh_valid (tbl[k := ?t] ! i) ! sel' = 1" for i sel'
      using that nth [OF that(1)] D(3) [OF that(1,2)] same by (auto simp: slot_mirrored_def split: if_splits)
    show "sh_pinned (tbl[k := ?t] ! i) ! sel' \<noteq> 0 \<or> sh_pinned (tbl[k := ?t] ! i') ! sel' \<noteq> 0"
      if "i < 16" "i' < 16" "sel' < 3" "i \<noteq> i'" "sh_valid (tbl[k := ?t] ! i) ! sel' = 1" "sh_valid (tbl[k := ?t] ! i') ! sel' = 1"
        "slot_matches sel' (slot_field (tbl[k := ?t] ! i)) (tbl[k := ?t] ! i')" for i i' sel'
      using that nth D(4) [OF that(1-4)] same by (auto split: if_splits)
  qed
qed

lemma tbl_ok_store:
  assumes T: "tbl_ok u m tbl" and k: "k < 16" and sel: "sel < 3"
    and v: "sh_valid (tbl ! k) ! sel = 0" and none: "\<And>i. i < 16 \<Longrightarrow> sh_valid (tbl ! i) ! sel = 1 \<Longrightarrow> \<not> slot_matches sel f (tbl ! i)"
    and new: "\<forall>(offset, w) \<in> set (shrink_words sel f). m' (updmem_key u sel k offset) = w"
    and old: "\<And>sel' k' offset. sel' < 3 \<Longrightarrow> k' < 16 \<Longrightarrow> (sel', k') \<noteq> (sel, k) \<Longrightarrow> offset < 16 \<Longrightarrow>
           m' (updmem_key u sel' k' offset) = m (updmem_key u sel' k' offset)"
  shows "tbl_ok u m' (tbl[k := touch_slot env u' j sel idx (store_key sel f (tbl ! k))])"
proof -
  let ?t = "touch_slot env u' j sel idx (store_key sel f (tbl ! k))"
  note D = tbl_okD [OF T]
  have wf: "slot_wf ?t" using touch_wf store_wf D(2) k sel by blast
  have len: "length (sh_valid (tbl ! k)) = 3" using D(2) [OF k] by (simp add: slot_wf_def)
  have vt: "sh_valid ?t ! sel' = (if sel' = sel then 1 else sh_valid (tbl ! k) ! sel')" for sel'
    using sel len by (simp add: nth_list_update)
  have nth: "tbl[k := ?t] ! i = (if i = k then ?t else tbl ! i)" if "i < 16" for i using that D(1) k by (simp add: nth_list_update)
  have small: "offset < 16" if "(offset, w) \<in> set (shrink_words sel' g)" "sel' < 3" for offset w sel' g
    using that by (auto elim!: sel_cases simp: shrink_words_def upt_rec)
  have keep: "slot_mirrored u m' sel' i x" if "slot_mirrored u m sel' i x" "sel' < 3" "i < 16" "(sel', i) \<noteq> (sel, k)" for sel' i x
    using that old [OF that(2-4)] small [OF _ that(2)] unfolding slot_mirrored_def by fastforce
  show ?thesis
  proof (rule tbl_okI)
    show "length (tbl[k := ?t]) = 16" using D(1) by simp
    show "slot_wf (tbl[k := ?t] ! i)" if "i < 16" for i using nth [OF that] wf D(2) that by simp
    show "slot_mirrored u m' sel' i (tbl[k := ?t] ! i)" if i: "i < 16" "sel' < 3" "sh_valid (tbl[k := ?t] ! i) ! sel' = 1" for i sel'
    proof (cases "i = k")
      case True
      show ?thesis
      proof (cases "sel' = sel")
        case True
        then show ?thesis using \<open>i = k\<close> nth [OF i(1)] new by (simp add: slot_mirrored_def words_store [OF sel sel])
      next
        case False
        then have "slot_mirrored u m sel' k (tbl ! k)" using i(3) nth [OF i(1)] vt D(3) [OF k i(2)] \<open>i = k\<close> by simp
        then have "slot_mirrored u m' sel' k (tbl ! k)" using keep [OF _ i(2) k] False by simp
        then show ?thesis using \<open>i = k\<close> nth [OF i(1)] False by (simp add: slot_mirrored_def words_store [OF sel i(2)])
      qed
    next
      case False
      then show ?thesis using i nth [OF i(1)] D(3) [OF i(1,2)] keep [OF _ i(2,1)] by simp
    qed
    show "sh_pinned (tbl[k := ?t] ! i) ! sel' \<noteq> 0 \<or> sh_pinned (tbl[k := ?t] ! i') ! sel' \<noteq> 0"
      if i: "i < 16" "i' < 16" "sel' < 3" "i \<noteq> i'" "sh_valid (tbl[k := ?t] ! i) ! sel' = 1" "sh_valid (tbl[k := ?t] ! i') ! sel' = 1"
        "slot_matches sel' (slot_field (tbl[k := ?t] ! i)) (tbl[k := ?t] ! i')" for i i' sel'
    proof -
      have one: False if "x < 16" "x \<noteq> k" "sh_valid (tbl ! x) ! sel = 1" "slot_matches sel (slot_field ?t) (tbl ! x)" for x
        using that none matches_store [OF sel sel, of f "tbl ! k"] by simp
      show ?thesis
      proof (cases "i = k \<or> i' = k")
        case False then show ?thesis using i nth D(4) [OF i(1-4)] by simp
      next
        case True
        define x where "x = (if i = k then i' else i)"
        have x: "x < 16" "x \<noteq> k" "sh_valid (tbl ! x) ! sel' = 1" "slot_matches sel' (slot_field ?t) (tbl ! x)"
          using True i nth matches_sym [of sel' "tbl ! i" ?t] by (auto simp: x_def split: if_splits)
        have "sel' \<noteq> sel" using one x by blast
        then have "sh_valid (tbl ! k) ! sel' = 1" "slot_matches sel' (slot_field (tbl ! k)) (tbl ! x)"
          using True i nth vt x(4) matches_store [OF sel i(3), of f "tbl ! k"] by (auto split: if_splits)
        then have "sh_pinned (tbl ! k) ! sel' \<noteq> 0 \<or> sh_pinned (tbl ! x) ! sel' \<noteq> 0"
          using D(4) [OF k x(1) i(3)] x(2,3) by simp
        then show ?thesis using True i nth by (auto simp: x_def split: if_splits)
      qed
    qed
  qed
qed

definition pin_slot :: "u8 list \<Rightarrow> shrink_slot \<Rightarrow> shrink_slot" where
  "pin_slot addr t = t\<lparr>sh_smac := addr, sh_valid := (sh_valid t)[PPE_UPDMEM_SEL_SMAC := 1],
                       sh_pinned := (sh_pinned t)[PPE_UPDMEM_SEL_SMAC := 1]\<rparr>"

lemma tbl_ok_pin:
  assumes T: "tbl_ok u m tbl" and k: "k < 16"
    and new: "m' (updmem_key u 0 k 0) = smac_low addr" "m' (updmem_key u 0 k 1) = smac_high addr"
    and old: "\<And>sel' k' offset. sel' < 3 \<Longrightarrow> k' < 16 \<Longrightarrow> (sel', k') \<noteq> (0, k) \<Longrightarrow> offset < 16 \<Longrightarrow>
           m' (updmem_key u sel' k' offset) = m (updmem_key u sel' k' offset)"
  shows "tbl_ok u m' (tbl[k := pin_slot addr (tbl ! k)])"
proof -
  let ?t = "pin_slot addr (tbl ! k)"
  note D = tbl_okD [OF T]
  have len: "length (sh_valid (tbl ! k)) = 3" "length (sh_pinned (tbl ! k)) = 3" using D(2) [OF k] by (simp_all add: slot_wf_def)
  have wf: "slot_wf ?t" using D(2) [OF k] by (auto simp: slot_wf_def pin_slot_def nth_list_update)
  have pt: "sh_pinned ?t ! 0 \<noteq> 0" "\<And>sel. 0 < sel \<Longrightarrow> sh_pinned ?t ! sel = sh_pinned (tbl ! k) ! sel \<and> sh_valid ?t ! sel = sh_valid (tbl ! k) ! sel"
    using len by (simp_all add: pin_slot_def)
  have nth: "tbl[k := ?t] ! i = (if i = k then ?t else tbl ! i)" if "i < 16" for i using that D(1) k by (simp add: nth_list_update)
  have small: "offset < 16" if "(offset, w) \<in> set (shrink_words sel' g)" "sel' < 3" for offset w sel' g
    using that by (auto elim!: sel_cases simp: shrink_words_def upt_rec)
  have keep: "slot_mirrored u m' sel' i x" if "slot_mirrored u m sel' i x" "sel' < 3" "i < 16" "(sel', i) \<noteq> (0, k)" for sel' i x
    using that old [OF that(2-4)] small [OF _ that(2)] unfolding slot_mirrored_def by fastforce
  have words: "shrink_words sel (slot_field ?t) = shrink_words sel (slot_field (tbl ! k))" if "0 < sel" for sel
    using that by (simp add: shrink_words_def pin_slot_def slot_field_def)
  have mat: "slot_matches sel (slot_field ?t) x = slot_matches sel (slot_field (tbl ! k)) x" "slot_matches sel g ?t = slot_matches sel g (tbl ! k)"
    if "0 < sel" for sel x g using that by (simp_all add: slot_matches_def pin_slot_def slot_field_def)
  show ?thesis
  proof (rule tbl_okI)
    show "length (tbl[k := ?t]) = 16" using D(1) by simp
    show "slot_wf (tbl[k := ?t] ! i)" if "i < 16" for i using nth [OF that] wf D(2) that by simp
    show "slot_mirrored u m' sel i (tbl[k := ?t] ! i)" if i: "i < 16" "sel < 3" "sh_valid (tbl[k := ?t] ! i) ! sel = 1" for i sel
    proof (cases "i = k")
      case True
      show ?thesis
      proof (cases "sel = 0")
        case True
        then show ?thesis using \<open>i = k\<close> nth [OF i(1)] new by (simp add: slot_mirrored_def shrink_words_def pin_slot_def slot_field_def)
      next
        case False
        then have "slot_mirrored u m' sel k (tbl ! k)" using i nth pt(2) [of sel] D(3) [OF k i(2)] keep [OF _ i(2) k] \<open>i = k\<close> by simp
        then show ?thesis using False \<open>i = k\<close> nth [OF i(1)] words [of sel] by (simp add: slot_mirrored_def)
      qed
    next
      case False
      then show ?thesis using i nth [OF i(1)] D(3) [OF i(1,2)] keep [OF _ i(2,1)] by simp
    qed
    show "sh_pinned (tbl[k := ?t] ! i) ! sel \<noteq> 0 \<or> sh_pinned (tbl[k := ?t] ! i') ! sel \<noteq> 0"
      if i: "i < 16" "i' < 16" "sel < 3" "i \<noteq> i'" "sh_valid (tbl[k := ?t] ! i) ! sel = 1" "sh_valid (tbl[k := ?t] ! i') ! sel = 1"
        "slot_matches sel (slot_field (tbl[k := ?t] ! i)) (tbl[k := ?t] ! i')" for i i' sel
    proof (cases "sel = 0")
      case True
      then show ?thesis using i nth pt(1) D(4) [OF i(1-4)] by (auto split: if_splits)
    next
      case False
      then show ?thesis using i nth pt(2) [of sel] mat [of sel] D(4) [OF i(1-4)] by (auto split: if_splits)
    qed
  qed
qed

section \<open>The update memory\<close>

lemma nibble_eq:
  assumes "a < 16" and "b < 16" and "\<And>n. n < 4 \<Longrightarrow> bit (word_of_nat a :: u32) n = bit (word_of_nat b :: u32) n"
  shows "a = b"
proof -
  have "\<not> bit (word_of_nat c :: u32) n" if "c < 16" "4 \<le> n" for c n
    using small_bits [of "word_of_nat c :: u32" 4 n] that by (auto simp: unat_of_nat)
  then have "(word_of_nat a :: u32) = word_of_nat b"
    using assms by (intro bit_word_eqI) (metis not_le)
  then have "unat (word_of_nat a :: u32) = unat (word_of_nat b :: u32)" by simp
  then show ?thesis using assms(1,2) by (simp add: unat_of_nat)
qed

lemma field_mask_bits:
  "bit (0xF00 :: u32) n = (8 \<le> n \<and> n < 12)" "bit (0xF0 :: u32) n = (4 \<le> n \<and> n < 8)" "bit (0xC :: u32) n = (2 \<le> n \<and> n < 4)"
proof -
  have m: "(0xF00 :: u32) = push_bit 8 (mask 4)" "(0xF0 :: u32) = push_bit 4 (mask 4)" "(0xC :: u32) = push_bit 2 (mask 2)"
    by code_simp+
  show "bit (0xF00 :: u32) n = (8 \<le> n \<and> n < 12)" "bit (0xF0 :: u32) n = (4 \<le> n \<and> n < 8)" "bit (0xC :: u32) n = (2 \<le> n \<and> n < 4)"
    unfolding m by (auto simp: bit_simps)
qed

text \<open>The update memory behind its command and data registers: \<open>mem\<close> by command bits, \<open>dreg\<close> the data register.
  Neither the driver's reads of flow entries nor the address registers touch it.\<close>

locale updmem = foe_engine env hw stage foe_of word_of
  for env :: "('e, 'd) ppe_env" and hw and stage and foe_of and word_of +
  fixes u :: upd_env and mem :: "'d \<Rightarrow> u32 \<Rightarrow> u32" and dreg :: "'d \<Rightarrow> u32"
  assumes masks: "UPDMEM_ADDR_MASK u = 0xF00" "UPDMEM_OFFSET_MASK u = 0xF0" "UPDMEM_SEL_MASK u = 0xC"
      "UPDMEM_WR_MASK u = 2" "UPDMEM_REQ_MASK u = 1"
    and wr_data: "d' = bus_wr (p_bus env) (UPDMEM_DATA u) v d \<Longrightarrow> dreg d' = v \<and> mem d' = mem d \<and> hw d' = hw d"
    and wr_ctrl: "d' = bus_wr (p_bus env) (UPDMEM_CTRL u) (PPE_UPDMEM_REQ OR PPE_UPDMEM_WR OR updmem_key u sel k offset) d \<Longrightarrow>
        mem d' = (mem d)(updmem_key u sel k offset := dreg d) \<and> hw d' = hw d"
    and rd_ctrl: "bus_rr (p_bus env) (UPDMEM_CTRL u) d = (v, d') \<Longrightarrow> mem d' = mem d \<and> hw d' = hw d"
    and get_mem: "get_entry env i d = (r, d') \<Longrightarrow> mem d' = mem d"
    and wr_mac: "a \<in> {FE_WAN_MAC_H u, FE_MAC_LMIN u, FE_MAC_LMAX u} \<Longrightarrow> d' = bus_wr (p_bus env) a v d \<Longrightarrow> mem d' = mem d \<and> hw d' = hw d"
begin

lemma key_bit:
  "bit (updmem_key u sel k offset) n =
     (8 \<le> n \<and> n < 12 \<and> bit (word_of_nat k :: u32) (n - 8) \<or> 4 \<le> n \<and> n < 8 \<and> bit (word_of_nat offset :: u32) (n - 4) \<or>
      2 \<le> n \<and> n < 4 \<and> bit (word_of_nat sel :: u32) (n - 2))"
  unfolding updmem_key_def masks bit_or_iff bit_and_iff bit_push_bit_iff field_mask_bits possible_bit_word by auto

lemma key_inj:
  assumes "updmem_key u sel k offset = updmem_key u sel' k' offset'"
    and "sel < 4" "k < 16" "offset < 16" "sel' < 4" "k' < 16" "offset' < 16"
  shows "sel = sel' \<and> k = k' \<and> offset = offset'"
proof -
  have e: "bit (updmem_key u sel k offset) n = bit (updmem_key u sel' k' offset') n" for n using assms(1) by simp
  have k: "bit (word_of_nat k :: u32) n = bit (word_of_nat k' :: u32) n" if "n < 4" for n
    using e [of "n + 8"] that unfolding key_bit by auto
  have o: "bit (word_of_nat offset :: u32) n = bit (word_of_nat offset' :: u32) n" if "n < 4" for n
    using e [of "n + 4"] that unfolding key_bit by auto
  have s: "bit (word_of_nat sel :: u32) n = bit (word_of_nat sel' :: u32) n" if "n < 4" for n
  proof (cases "n < 2")
    case True then show ?thesis using e [of "n + 2"] unfolding key_bit by auto
  next
    case False
    have "\<not> bit (word_of_nat c :: u32) n" if "c < 4" for c
      using small_bits [of "word_of_nat c :: u32" 2 n] False that by (auto simp: unat_of_nat)
    then show ?thesis using assms(2,5) by blast
  qed
  have "sel < 16" "sel' < 16" using assms(2,5) by simp_all
  then show ?thesis
    using nibble_eq [OF _ _ k] nibble_eq [OF _ _ o] nibble_eq [OF _ _ s] assms(3,4,6,7) by simp
qed

lemma config_done_frame:
  "ppeChecConfigDone (p_bus env) (UPDMEM_CTRL u) b n d = (r, d') \<Longrightarrow> mem d' = mem d \<and> hw d' = hw d"
proof (induction n arbitrary: d)
  case (Suc n)
  obtain v d1 where v: "bus_rr (p_bus env) (UPDMEM_CTRL u) d = (v, d1)" by (rule prod.exhaust)
  then show ?case using Suc rd_ctrl [OF v] by (auto split: if_splits)
qed simp

lemma store_word:
  fixes d :: 'd and sel k offset :: nat and w :: u32
  defines "d' \<equiv> snd (ppeSetUpdateMemCtrl (p_bus env) u sel k offset (ppeSetUpdMemData (p_bus env) u w d))"
  shows "mem d' = (mem d)(updmem_key u sel k offset := w)" and "hw d' = hw d"
proof -
  let ?d1 = "ppeSetUpdMemData (p_bus env) u w d"
  let ?d2 = "bus_wr (p_bus env) (UPDMEM_CTRL u) (PPE_UPDMEM_REQ OR PPE_UPDMEM_WR OR updmem_key u sel k offset) ?d1"
  obtain r d3 where c: "ppeChecConfigDone (p_bus env) (UPDMEM_CTRL u) PPE_UPDMEM_ACK 10 ?d2 = (r, d3)" by (rule prod.exhaust)
  have "d' = d3" by (simp add: d'_def ppeSetUpdateMemCtrl_def Let_def c)
  then show "mem d' = (mem d)(updmem_key u sel k offset := w)" "hw d' = hw d"
    using config_done_frame [OF c] wr_ctrl [where d' = ?d2, OF refl] wr_data [where d' = ?d1 and v = w and d = d]
    by (simp_all add: ppeSetUpdMemData_def)
qed

lemma store_words:
  fixes ws :: "(nat \<times> u32) list" and d :: 'd and sel k :: nat
  defines "f \<equiv> \<lambda>(offset, w) d. snd (ppeSetUpdateMemCtrl (p_bus env) u sel k offset (ppeSetUpdMemData (p_bus env) u w d))"
  assumes "sel < 4" and "k < 16" and "distinct (map fst ws)" and "\<forall>(offset, w) \<in> set ws. offset < 16"
  shows "hw (fold f ws d) = hw d" and "\<forall>(offset, w) \<in> set ws. mem (fold f ws d) (updmem_key u sel k offset) = w"
    and "a \<notin> updmem_key u sel k ` fst ` set ws \<Longrightarrow> mem (fold f ws d) a = mem d a"
proof -
  have H: "hw (fold f ws d) = hw d \<and> (\<forall>(offset, w) \<in> set ws. mem (fold f ws d) (updmem_key u sel k offset) = w) \<and>
      (\<forall>a. a \<notin> updmem_key u sel k ` fst ` set ws \<longrightarrow> mem (fold f ws d) a = mem d a)"
    using assms(4,5)
  proof (induction ws arbitrary: d)
    case (Cons x ws)
    obtain offset w where x: "x = (offset, w)" by (rule prod.exhaust)
    note IH = Cons.IH [of "f x d"]
    have "updmem_key u sel k offset \<notin> updmem_key u sel k ` fst ` set ws"
    proof
      assume "updmem_key u sel k offset \<in> updmem_key u sel k ` fst ` set ws"
      then obtain y where y: "y \<in> set ws" "updmem_key u sel k offset = updmem_key u sel k (fst y)" by auto
      then have "offset = fst y" using key_inj [OF y(2)] assms(2,3) Cons.prems(2) x by fastforce
      then show False using Cons.prems(1) x y(1) by auto
    qed
    then show ?case using IH Cons.prems store_word [of sel k offset w d] x by (auto simp: f_def split_def)
  qed simp
  show "hw (fold f ws d) = hw d" using H by (rule conjunct1)
  show "\<forall>(offset, w) \<in> set ws. mem (fold f ws d) (updmem_key u sel k offset) = w" using H by simp
  show "a \<notin> updmem_key u sel k ` fst ` set ws \<Longrightarrow> mem (fold f ws d) a = mem d a" using H by blast
qed

lemma words_ok: "sel < 3 \<Longrightarrow> distinct (map fst (shrink_words sel f)) \<and> (\<forall>(offset, w) \<in> set (shrink_words sel f). offset < 16)"
  by (auto simp: shrink_words_def upt_rec)

lemma field_mem:
  fixes d :: 'd and sel k :: nat and f :: shrink_field
  assumes "sel < 3" and "k < 16"
  defines "d' \<equiv> ppeSetShrinkField (p_bus env) u sel k f d"
  shows "hw d' = hw d" and "\<forall>(offset, w) \<in> set (shrink_words sel f). mem d' (updmem_key u sel k offset) = w"
    and "sel' < 3 \<Longrightarrow> k' < 16 \<Longrightarrow> (sel', k') \<noteq> (sel, k) \<Longrightarrow> offset < 16 \<Longrightarrow> mem d' (updmem_key u sel' k' offset) = mem d (updmem_key u sel' k' offset)"
proof -
  note W = words_ok [OF assms(1), of f]
  show "hw d' = hw d" "\<forall>(offset, w) \<in> set (shrink_words sel f). mem d' (updmem_key u sel k offset) = w"
    unfolding d'_def ppeSetShrinkField_def using store_words(1,2) [of sel k "shrink_words sel f" d] assms(1,2) W by auto
  assume s: "sel' < 3" "k' < 16" "(sel', k') \<noteq> (sel, k)" "offset < 16"
  have "updmem_key u sel' k' offset \<notin> updmem_key u sel k ` fst ` set (shrink_words sel f)"
  proof
    assume "updmem_key u sel' k' offset \<in> updmem_key u sel k ` fst ` set (shrink_words sel f)"
    then obtain x where x: "x \<in> set (shrink_words sel f)" "updmem_key u sel' k' offset = updmem_key u sel k (fst x)" by auto
    then have "fst x < 16" using W by fastforce
    then show False using key_inj [OF x(2)] assms(1,2) s by auto
  qed
  then show "mem d' (updmem_key u sel' k' offset) = mem d (updmem_key u sel' k' offset)"
    unfolding d'_def ppeSetShrinkField_def using store_words(3) [of sel k "shrink_words sel f"] assms(1,2) W by auto
qed

text \<open>The reuse scan only lets slots fade.\<close>

lemma reuse_flow_frame: "reuse_flow env i (b, n, d) = (b', n', d') \<Longrightarrow> mem d' = mem d \<and> hw d' = hw d"
  using get_mem [of i d] get_hw [of i d] by (auto simp: reuse_flow_def split: if_splits prod.splits option.splits)

lemma reuse_flows_frame: "fold (reuse_flow env) is (b, n, d) = (b', n', d') \<Longrightarrow> mem d' = mem d \<and> hw d' = hw d"
proof (induction "is" arbitrary: b n d)
  case (Cons i "is")
  obtain b1 n1 d1 where "reuse_flow env i (b, n, d) = (b1, n1, d1)" by (rule prod_cases3)
  then show ?case using Cons reuse_flow_frame by fastforce
qed simp

lemma reuse_word_frame: "reuse_word env i (b, n, d) = (b', n', d') \<Longrightarrow> mem d' = mem d \<and> hw d' = hw d"
  using reuse_flows_frame by (auto simp: reuse_word_def split: if_splits)

lemma reuse_words_frame: "fold (reuse_word env) is (b, n, d) = (b', n', d') \<Longrightarrow> mem d' = mem d \<and> hw d' = hw d"
proof (induction "is" arbitrary: b n d)
  case (Cons i "is")
  obtain b1 n1 d1 where "reuse_word env i (b, n, d) = (b1, n1, d1)" by (rule prod_cases3)
  then show ?case using Cons reuse_word_frame by fastforce
qed simp

definition frame :: "u64 \<Rightarrow> 'd ppe \<Rightarrow> 'd ppe \<Rightarrow> bool" where
  "frame j s s' \<longleftrightarrow> tbl_fades j (shnkTbl s) (shnkTbl s') \<and> mem (pdev s') = mem (pdev s) \<and> hw (pdev s') = hw (pdev s) \<and>
     lan_ifindex s' = lan_ifindex s"

lemma frame_trans: "frame j a b \<Longrightarrow> frame j b c \<Longrightarrow> frame j a c"
  by (auto simp: frame_def intro: tbl_fades_trans)

lemma frame_refl [simp]: "frame j s s"
  by (simp add: frame_def)

lemma reuse_slot_frame:
  assumes "k < length (shnkTbl s)"
  shows "frame j s (reuse_slot env j (k, sel) s)"
proof (cases "timed_out j sel (shnkTbl s ! k)")
  case True
  obtain b n d where w: "fold (reuse_word env) [0..<BITMAP_IDX_SIZE] (sh_bitmap (shnkTbl s ! k) ! sel, True, pdev s) = (b, n, d)"
    by (rule prod_cases3)
  define t where "t = (shnkTbl s ! k)\<lparr>sh_bitmap := (sh_bitmap (shnkTbl s ! k))[sel := b]\<rparr>"
  have t: "fades j (shnkTbl s ! k) t" by (simp add: t_def fades_def slot_field_def)
  have "fades j t (invalidate sel t)" using True t by (intro invalidate_fades) (simp add: fades_timed_out)
  then have "fades j (shnkTbl s ! k) (if n then invalidate sel t else t)" using t fades_trans by auto
  then have "tbl_fades j (shnkTbl s) ((shnkTbl s)[k := if n then invalidate sel t else t])" using assms by (rule tbl_fades_upd [rotated])
  then show ?thesis using True reuse_words_frame [OF w] assms w
    by (simp add: reuse_slot_def frame_def upd_slot_def t_def split: if_splits)
qed (simp add: reuse_slot_def)

lemma reuse_frame:
  assumes "length (shnkTbl s) = 16"
  shows "frame j s (reuse_shrink_table env u j s)"
proof -
  have "\<forall>(k, sel) \<in> set xs. k < 16 \<Longrightarrow> frame j s (fold (reuse_slot env j) xs s)" if "length (shnkTbl s) = 16" for xs s
    using that
  proof (induction xs arbitrary: s)
    case (Cons x xs)
    have 1: "frame j s (reuse_slot env j x s)" using reuse_slot_frame [of "fst x" s j "snd x"] Cons.prems by (auto simp: split_def)
    then have "length (shnkTbl (reuse_slot env j x s)) = 16" using Cons.prems by (simp add: frame_def tbl_fades_def)
    then show ?case using Cons frame_trans [OF 1] by simp
  qed simp
  from this [OF assms, of "List.product [0..<UPDMEM_NUM] [0..<3]"] show ?thesis by (auto simp: reuse_shrink_table_def)
qed

abbreviation ppe_ok :: "'d ppe \<Rightarrow> bool" where
  "ppe_ok s \<equiv> tbl_ok u (mem (pdev s)) (shnkTbl s)"

lemma frame_ok: "frame j s s' \<Longrightarrow> ppe_ok s \<Longrightarrow> ppe_ok s'"
  using tbl_ok_fades by (auto simp: frame_def)

text \<open>What a search answers.\<close>

definition found_slot :: "u64 \<Rightarrow> nat \<Rightarrow> shrink_field \<Rightarrow> nat \<Rightarrow> 'd ppe \<Rightarrow> 'd ppe \<Rightarrow> bool" where
  "found_slot j sel f k s s' \<longleftrightarrow> k < 16 \<and>
     sh_valid (shnkTbl s' ! k) ! sel = 1 \<and> slot_matches sel f (shnkTbl s' ! k) \<and> sh_timestamp (shnkTbl s' ! k) ! sel = j \<and>
     (sh_valid (shnkTbl s ! k) ! sel = 1 \<and> slot_matches sel f (shnkTbl s ! k) \<or>
      (\<forall>i<16. \<not> (sh_valid (shnkTbl s ! i) ! sel = 1 \<and> slot_matches sel f (shnkTbl s ! i))) \<and>
      (sh_valid (shnkTbl s ! k) ! sel = 0 \<or> timed_out j sel (shnkTbl s ! k))) \<and>
     (\<forall>i<16. i \<noteq> k \<longrightarrow> fades j (shnkTbl s ! i) (shnkTbl s' ! i))"

lemma not_timed_out_now: "timed_out j sel t \<Longrightarrow> sh_timestamp t ! sel \<noteq> j"
  by (auto simp: timed_out_def time_after_def)

lemma found_after:
  assumes "k < 16" and "length (shnkTbl s) = 16" and "sel < 3" and f: "tbl_fades j (shnkTbl s) tbl"
    and s1: "s1 = s\<lparr>pdev := d, shnkTbl := tbl[k := touch_slot env u j sel idx t]\<rparr>"
    and t: "slot_matches sel f t" "length (sh_valid t) = 3" "length (sh_timestamp t) = 3"
    and fr: "frame j s1 s'"
    and why: "sh_valid (shnkTbl s ! k) ! sel = 1 \<and> slot_matches sel f (shnkTbl s ! k) \<or>
      (\<forall>i<16. \<not> (sh_valid (shnkTbl s ! i) ! sel = 1 \<and> slot_matches sel f (shnkTbl s ! i))) \<and>
      (sh_valid (shnkTbl s ! k) ! sel = 0 \<or> timed_out j sel (shnkTbl s ! k))"
  shows "found_slot j sel f k s s'"
proof -
  have len: "length tbl = 16" using f assms(2) by (simp add: tbl_fades_def)
  define t1 where "t1 = touch_slot env u j sel idx t"
  have tb: "shnkTbl s1 = tbl[k := t1]" by (simp add: s1 t1_def)
  have F: "i < 16 \<Longrightarrow> fades j (shnkTbl s1 ! i) (shnkTbl s' ! i)" for i
    using fr len tb by (simp add: frame_def tbl_fades_def)
  have now: "sh_timestamp t1 ! sel = j" using t(3) assms(3) by (simp add: t1_def)
  have k1: "fades j t1 (shnkTbl s' ! k)" using F [OF assms(1)] tb len assms(1) by simp
  have "\<not> timed_out j sel t1" using now not_timed_out_now by blast
  then have "sh_valid (shnkTbl s' ! k) ! sel = sh_valid t1 ! sel" "sh_timestamp (shnkTbl s' ! k) ! sel = j"
    using k1 assms(3) now by (auto simp: fades_def)
  moreover have "sh_valid t1 ! sel = 1" using t(2) assms(3) by (simp add: t1_def)
  moreover have "slot_matches sel f (shnkTbl s' ! k)" using fades_matches(1) [OF k1] t(1) by (simp add: t1_def)
  moreover have "fades j (shnkTbl s ! i) (shnkTbl s' ! i)" if "i < 16" "i \<noteq> k" for i
  proof -
    have "fades j (shnkTbl s ! i) (tbl ! i)" using f assms(2) that(1) by (simp add: tbl_fades_def)
    then show ?thesis using F [OF that(1)] tb that(2) fades_trans by simp
  qed
  ultimately show ?thesis using assms(1) why by (simp add: found_slot_def)
qed

lemma find_outcome:
  assumes ok: "ppe_ok s" and sel: "sel < 3"
    and run: "find_and_update_shrink_table env u j sel (Some f) s = (r, s')"
  shows "ppe_ok s' \<and> hw (pdev s') = hw (pdev s) \<and> lan_ifindex s' = lan_ifindex s \<and>
    (r = - 1 \<and> frame j s s' \<and> (\<forall>i<16. sh_valid (shnkTbl s ! i) ! sel = 1 \<and> \<not> slot_matches sel f (shnkTbl s ! i) \<and>
                   \<not> timed_out j sel (shnkTbl s ! i))
     \<or> (\<exists>k. r = int k \<and> found_slot j sel f k s s'))"
proof -
  note D = tbl_okD [OF ok]
  obtain found iv tbl where S: "shrink_search sel f j [0..<UPDMEM_NUM] UPDMEM_NUM (shnkTbl s) = (found, iv, tbl)" by (rule prod_cases3)
  note P = search_spec [OF S _ _ sel]
  have P: "tbl_fades j (shnkTbl s) tbl \<and>
    (case found of
       Some k \<Rightarrow> k \<in> {0..<16} \<and> sh_valid (shnkTbl s ! k) ! sel = 1 \<and> slot_matches sel f (shnkTbl s ! k) \<and> tbl ! k = shnkTbl s ! k
     | None \<Rightarrow> (\<forall>i\<in>{0..<16}. \<not> (sh_valid (shnkTbl s ! i) ! sel = 1 \<and> slot_matches sel f (shnkTbl s ! i)) \<and>
                  (timed_out j sel (shnkTbl s ! i) \<longrightarrow> sh_valid (tbl ! i) ! sel = 0) \<and>
                  (sh_valid (tbl ! i) ! sel = 0 \<longrightarrow> iv \<le> i)) \<and>
               iv \<le> 16 \<and> (iv = 16 \<or> iv \<in> {0..<16} \<and> sh_valid (tbl ! iv) ! sel = 0))"
    using P D(1,2) by (simp only: set_upt distinct_upt) auto
  then have fade: "tbl_fades j (shnkTbl s) tbl" by blast
  have ok1: "tbl_ok u (mem (pdev s)) tbl" using ok fade by (rule tbl_ok_fades)
  note D1 = tbl_okD [OF ok1]
  let ?s1 = "s\<lparr>shnkTbl := tbl\<rparr>"
  show ?thesis
  proof (cases found)
    case (Some k)
    then have k: "k < 16" "sh_valid (shnkTbl s ! k) ! sel = 1" "slot_matches sel f (shnkTbl s ! k)" "tbl ! k = shnkTbl s ! k"
      using P by auto
    define s1 where "s1 = s\<lparr>pdev := pdev s, shnkTbl := tbl[k := touch_slot env u j sel (f_foe_idx f) (tbl ! k)]\<rparr>"
    have s': "s' = reuse_shrink_table env u j s1" "r = int k"
      using run S Some by (simp_all add: find_and_update_shrink_table_def upd_slot_def s1_def)
    have fr: "frame j s1 s'" unfolding s' by (rule reuse_frame) (simp add: s1_def D1(1))
    have "ppe_ok s1" unfolding s1_def using tbl_ok_touch [OF ok1 k(1) sel] k(2,4) by simp
    moreover have "found_slot j sel f k s s'"
      using found_after [OF k(1) D(1) sel fade s1_def _ _ _ fr] k D1(2) [OF k(1)] by (simp add: slot_wf_def)
    ultimately show ?thesis using s'(2) frame_ok [OF fr] fr by (auto simp: frame_def s1_def)
  next
    case None
    then have N: "\<And>i. i < 16 \<Longrightarrow> \<not> (sh_valid (shnkTbl s ! i) ! sel = 1 \<and> slot_matches sel f (shnkTbl s ! i))"
        "\<And>i. i < 16 \<Longrightarrow> timed_out j sel (shnkTbl s ! i) \<Longrightarrow> sh_valid (tbl ! i) ! sel = 0"
        "\<And>i. i < 16 \<Longrightarrow> sh_valid (tbl ! i) ! sel = 0 \<Longrightarrow> iv \<le> i" "iv = 16 \<or> iv < 16 \<and> sh_valid (tbl ! iv) ! sel = 0"
      using P by auto
    have F: "i < 16 \<Longrightarrow> fades j (shnkTbl s ! i) (tbl ! i)" for i using fade D(1) by (simp add: tbl_fades_def)
    show ?thesis
    proof (cases "iv = 16")
      case True
      then have s': "s' = reuse_shrink_table env u j ?s1" "r = - 1"
        using run S None by (simp_all add: find_and_update_shrink_table_def)
      have fr: "frame j ?s1 s'" unfolding s' by (rule reuse_frame) (simp add: D1(1))
      then have fr': "frame j s s'" using fade tbl_fades_trans by (auto simp: frame_def)
      have all: "sh_valid (tbl ! i) ! sel \<noteq> 0" if "i < 16" for i using N(3) [OF that] True that by auto
      have "sh_valid (shnkTbl s ! i) ! sel = 1 \<and> \<not> timed_out j sel (shnkTbl s ! i)" if "i < 16" for i
      proof -
        have "sh_valid (shnkTbl s ! i) ! sel \<in> {0, 1}" using D(2) [OF that] sel by (simp add: slot_wf_def)
        moreover have "sh_valid (tbl ! i) ! sel = sh_valid (shnkTbl s ! i) ! sel"
          using F [OF that] sel all [OF that] by (auto simp: fades_def)
        ultimately show ?thesis using all [OF that] N(2) [OF that] by auto
      qed
      then show ?thesis using s'(2) fr' frame_ok [OF fr' ok] N(1) by (auto simp: frame_def)
    next
      case False
      then have k: "iv < 16" "sh_valid (tbl ! iv) ! sel = 0" using N(4) by auto
      define d where "d = ppeSetShrinkField (p_bus env) u sel iv f (pdev s)"
      note M = field_mem [where f = f and d = "pdev s", OF sel k(1), folded d_def]
      define s1 where "s1 = s\<lparr>pdev := d, shnkTbl := tbl[iv := touch_slot env u j sel (f_foe_idx f) (store_key sel f (tbl ! iv))]\<rparr>"
      have s': "s' = reuse_shrink_table env u j s1" "r = int iv"
        using run S None False k D1(1)
        by (simp_all add: find_and_update_shrink_table_def upd_slot_def s1_def on_dev_def d_def)
      have fr: "frame j s1 s'" unfolding s' by (rule reuse_frame) (simp add: s1_def D1(1))
      have none: "\<not> slot_matches sel f (tbl ! i)" if "i < 16" "sh_valid (tbl ! i) ! sel = 1" for i
      proof -
        have "sh_valid (shnkTbl s ! i) ! sel = 1" using F [OF that(1)] that(2) sel by (auto simp: fades_def)
        then show ?thesis using N(1) [OF that(1)] fades_matches(1) [OF F [OF that(1)]] by simp
      qed
      have "ppe_ok s1" unfolding s1_def using tbl_ok_store [OF ok1 k(1) sel k(2) none M(2)] M(3) by simp
      moreover have "found_slot j sel f iv s s'"
      proof (rule found_after [OF k(1) D(1) sel fade s1_def _ _ _ fr])
        show "slot_matches sel f (store_key sel f (tbl ! iv))" using matches_self [OF sel] .
        show "length (sh_valid (store_key sel f (tbl ! iv))) = 3" "length (sh_timestamp (store_key sel f (tbl ! iv))) = 3"
          using D1(2) [OF k(1)] by (simp_all add: slot_wf_def)
        show "sh_valid (shnkTbl s ! iv) ! sel = 1 \<and> slot_matches sel f (shnkTbl s ! iv) \<or>
            (\<forall>i<16. \<not> (sh_valid (shnkTbl s ! i) ! sel = 1 \<and> slot_matches sel f (shnkTbl s ! i))) \<and>
            (sh_valid (shnkTbl s ! iv) ! sel = 0 \<or> timed_out j sel (shnkTbl s ! iv))"
          using N(1) F [OF k(1)] k(2) sel by (fastforce simp: fades_def)
      qed
      ultimately show ?thesis using s'(2) frame_ok [OF fr] fr M(1) by (auto simp: frame_def s1_def)
    qed
  qed
qed

end

end
