(* ===== verification/PpeMac.thy ===== *)
theory PpeMac
  imports PpeShrinkProps
begin

text \<open>
  Runs of the shrink table: every interleaving of searches, of writing the MACs of an entry, of the PON
  address, of the pinning hook, of dumps and of what the rest of the driver does to the device. The
  properties say what a table slot and an entry's index mean in every such run, and where the code
  breaks the link between a bound flow and its slot.
\<close>

section \<open>Runs\<close>

inductive shrink_run :: "('e, 'd) ppe_env \<Rightarrow> upd_env \<Rightarrow> ('d \<Rightarrow> u32 \<Rightarrow> u32) \<Rightarrow> 'd ppe \<Rightarrow> 'd ppe \<Rightarrow> bool"
  for env u mem s0 where
  sr_init: "shrink_run env u mem s0 (InitShrinkTable s0)"
| sr_find: "shrink_run env u mem s0 s \<Longrightarrow> sel < 3 \<Longrightarrow> find_and_update_shrink_table env u j sel fp s = (r, s') \<Longrightarrow> shrink_run env u mem s0 s'"
| sr_mac: "shrink_run env u mem s0 s \<Longrightarrow> airoha_set_ppe_mac env u pm j type dev src dst pppid l2 s = (r, l2', s') \<Longrightarrow> shrink_run env u mem s0 s'"
| sr_pon: "shrink_run env u mem s0 s \<Longrightarrow> shrink_run env u mem s0 (airoha_pon_set_macaddr (p_bus env) u addr s)"
| sr_hook: "shrink_run env u mem s0 s \<Longrightarrow> mem (pdev s) (updmem_key u 0 (nat i) 0) = smac_low addr \<Longrightarrow>
     mem (pdev s) (updmem_key u 0 (nat i) 1) = smac_high addr \<Longrightarrow> shrink_run env u mem s0 (UpdateShrinkTable i addr s)"
| sr_dump: "shrink_run env u mem s0 s \<Longrightarrow> shrink_run env u mem s0 (ppe_dump_shrink_table env u j s)"
| sr_reinit: "shrink_run env u mem s0 s \<Longrightarrow> shrink_run env u mem s0 (InitShrinkTable s)"
| sr_other: "shrink_run env u mem s0 s \<Longrightarrow> mem d = mem (pdev s) \<Longrightarrow> shrink_run env u mem s0 (s\<lparr>pdev := d, lan_ifindex := lan\<rparr>)"

lemma tbl_ok_init: "tbl_ok u m (replicate 16 zero_slot)"
proof (rule tbl_okI)
  show "slot_wf (replicate 16 zero_slot ! k)" if "k < 16" for k
    using that by (simp add: slot_wf_def zero_slot_def nth_replicate)
  show "slot_mirrored u m sel k (replicate 16 zero_slot ! k)"
    if "k < 16" "sel < 3" "sh_valid (replicate 16 zero_slot ! k) ! sel = 1" for k sel
    using that by (simp add: zero_slot_def nth_replicate)
  show "sh_pinned (replicate 16 zero_slot ! k) ! sel \<noteq> 0 \<or> sh_pinned (replicate 16 zero_slot ! i) ! sel \<noteq> 0"
    if "k < 16" "sel < 3" "sh_valid (replicate 16 zero_slot ! k) ! sel = 1" for k i sel
    using that by (simp add: zero_slot_def nth_replicate)
qed simp

context updmem
begin

lemma pon_key:
  "FIELD_PREP 0xF00 14 OR (3 :: u32) = 1 OR 2 OR updmem_key u 0 14 0"
  "FIELD_PREP 0xF00 14 OR FIELD_PREP 0xF0 1 OR (3 :: u32) = 1 OR 2 OR updmem_key u 0 14 1"
  by (simp add: updmem_key_def masks FIELD_PREP_def bf_shf_def upt_rec)+

lemma pon_step:
  fixes s :: "'d ppe" and addr :: "u8 list"
  defines "s' \<equiv> airoha_pon_set_macaddr (p_bus env) u addr s"
  shows "mem (pdev s') = (mem (pdev s))(updmem_key u 0 14 0 := smac_low addr, updmem_key u 0 14 1 := smac_high addr)"
    and "hw (pdev s') = hw (pdev s)" and "shnkTbl s' = (if 14 < length (shnkTbl s) then (shnkTbl s)[14 := pin_slot addr (shnkTbl s ! 14)] else shnkTbl s)"
    and "lan_ifindex s' = lan_ifindex s"
proof -
  let ?w = "bus_wr (p_bus env)"
  have c0: "mem (?w (UPDMEM_CTRL u) (FIELD_PREP 0xF00 14 OR 3) d) = (mem d)(updmem_key u 0 14 0 := dreg d)"
    "hw (?w (UPDMEM_CTRL u) (FIELD_PREP 0xF00 14 OR 3) d) = hw d" for d
    using wr_ctrl [of _ 0 14 0 d, OF refl] unfolding pon_key(1) by simp_all
  have c1: "mem (?w (UPDMEM_CTRL u) (FIELD_PREP 0xF00 14 OR FIELD_PREP 0xF0 1 OR 3) d) = (mem d)(updmem_key u 0 14 1 := dreg d)"
    "hw (?w (UPDMEM_CTRL u) (FIELD_PREP 0xF00 14 OR FIELD_PREP 0xF0 1 OR 3) d) = hw d" for d
    using wr_ctrl [of _ 0 14 1 d, OF refl] unfolding pon_key(2) by simp_all
  have dd: "mem (?w (UPDMEM_DATA u) v d) = mem d" "dreg (?w (UPDMEM_DATA u) v d) = v" "hw (?w (UPDMEM_DATA u) v d) = hw d" for v d
    using wr_data [of _ v d, OF refl] by simp_all
  have fe: "mem (?w a v d) = mem d" "hw (?w a v d) = hw d" if "a \<in> {FE_WAN_MAC_H u, FE_MAC_LMIN u, FE_MAC_LMAX u}" for a v d
    using wr_mac [OF that refl] by simp_all
  show "mem (pdev s') = (mem (pdev s))(updmem_key u 0 14 0 := smac_low addr, updmem_key u 0 14 1 := smac_high addr)"
    "hw (pdev s') = hw (pdev s)" "shnkTbl s' = (if 14 < length (shnkTbl s) then (shnkTbl s)[14 := pin_slot addr (shnkTbl s ! 14)] else shnkTbl s)"
    "lan_ifindex s' = lan_ifindex s"
    by (simp_all add: s'_def airoha_pon_set_macaddr_def airoha_pon_ppe_init_upd_mem_def UpdateShrinkTable_def upd_slot_def on_dev_def
        Let_def masks pin_slot_def c0 c1 dd fe list_update_beyond)
qed

lemma pon_ok:
  assumes "ppe_ok s"
  shows "ppe_ok (airoha_pon_set_macaddr (p_bus env) u addr s)"
proof -
  have ne: "updmem_key u 0 14 0 \<noteq> updmem_key u 0 14 1" using key_inj [of 0 14 0 0 14 1] by auto
  have old: "updmem_key u sel' k' offset \<noteq> updmem_key u 0 14 i"
    if "sel' < 3" "k' < 16" "(sel', k') \<noteq> (0, 14)" "offset < 16" "i < 16" for sel' k' offset i
    using key_inj [of sel' k' offset 0 14 i] that by auto
  show ?thesis
    using tbl_ok_pin [OF assms, of 14 "mem (pdev (airoha_pon_set_macaddr (p_bus env) u addr s))" addr] ne old
    by (simp add: pon_step tbl_okD(1) [OF assms])
qed

lemma hook_ok:
  assumes "ppe_ok s" and "mem (pdev s) (updmem_key u 0 (nat i) 0) = smac_low addr"
    and "mem (pdev s) (updmem_key u 0 (nat i) 1) = smac_high addr"
  shows "ppe_ok (UpdateShrinkTable i addr s)"
proof (cases "0 \<le> i \<and> i < 16")
  case True
  then have "nat i < 16" by auto
  from tbl_ok_pin [OF assms(1) this assms(2,3)] show ?thesis
    using True by (simp add: UpdateShrinkTable_def upd_slot_def pin_slot_def)
qed (use assms(1) in \<open>auto simp: UpdateShrinkTable_def\<close>)

lemma set_mac_cases:
  assumes "airoha_set_ppe_mac env u pm j type dev src dst pppid l2 s = (r, l2', s')"
  obtains "s' = s" | i where "find_and_update_shrink_table env u j 0 (Some (smac_field src)) s = (i, s')"
  using assms by (auto simp: airoha_set_ppe_mac_def Let_def split: if_splits prod.splits)

lemma run_ok: "shrink_run env u mem s0 s \<Longrightarrow> ppe_ok s"
proof (induction rule: shrink_run.induct)
  case sr_init then show ?case using tbl_ok_init by (simp add: InitShrinkTable_def)
next
  case (sr_find s sel j fp r s')
  then show ?case using find_outcome [of s sel j] by (cases fp) (auto simp: find_and_update_shrink_table_def)
next
  case (sr_mac s pm j type dev src dst pppid l2 r l2' s')
  from sr_mac(2) show ?case by (cases rule: set_mac_cases) (use sr_mac(3) find_outcome [of s 0 j "smac_field src"] in auto)
next
  case (sr_dump s j)
  then show ?case using frame_ok [OF reuse_frame] tbl_okD(1) by (simp add: ppe_dump_shrink_table_def)
next
  case (sr_reinit s) then show ?case using tbl_ok_init by (simp add: InitShrinkTable_def)
qed (simp_all add: pon_ok hook_ok)

text \<open>The reuse scan of one slot whose only user is flow \<open>idx\<close>: the code steps through 32 indices per word, the
  words have 64.\<close>

lemma one_bit: "test_bit64 i (set_bit64 idx (\<lambda>_. 0)) \<longleftrightarrow> i = idx"
proof -
  have "i div 64 = idx div 64 \<Longrightarrow> i mod 64 = idx mod 64 \<Longrightarrow> i = idx" by (metis div_mult_mod_eq)
  then show ?thesis by (auto simp: test_bit64_def set_bit64_def bit_simps)
qed

lemma one_word: "set_bit64 idx (\<lambda>_. 0) w = 0 \<longleftrightarrow> w \<noteq> idx div 64"
proof -
  have "push_bit (idx mod 64) (1 :: u64) \<noteq> 0"
  proof
    assume "push_bit (idx mod 64) (1 :: u64) = 0"
    moreover have "bit (push_bit (idx mod 64) (1 :: u64)) (idx mod 64)" by (simp add: bit_simps)
    ultimately show False by simp
  qed
  then show ?thesis by (simp add: set_bit64_def)
qed

lemma idle_flows:
  assumes "idx \<notin> set is"
  shows "fold (reuse_flow env) is (set_bit64 idx (\<lambda>_. 0), n, d) = (set_bit64 idx (\<lambda>_. 0), n, d)"
  using assms by (induction "is") (auto simp: reuse_flow_def one_bit)

lemma upt_split: "w < n \<Longrightarrow> [0..<n] = [0..<w] @ w # [Suc w..<n]"
  using upt_add_eq_append [of 0 w "n - w"] by (simp add: upt_conv_Cons)

lemma reuse_one:
  assumes "idx < sram_entries env" and "idx < 16384" and "\<And>d. idx < 32 \<Longrightarrow> fst (get_entry env idx d) \<noteq> None" and "bound (hw d idx)"
  obtains d' where "fold (reuse_word env) [0..<BITMAP_IDX_SIZE] (set_bit64 idx (\<lambda>_. 0), True, d) = (set_bit64 idx (\<lambda>_. 0), 32 \<le> idx, d')"
    and "hw d' = hw d"
proof -
  let ?b = "set_bit64 idx (\<lambda>_. 0)" and ?w = "idx div 64"
  have idle: "fold (reuse_word env) ws (?b, n, d) = (?b, n, d)" if "?w \<notin> set ws" for ws n d
    using that by (induction ws) (auto simp: reuse_word_def one_word)
  have "?w < BITMAP_IDX_SIZE" using assms(2) by simp
  note split = upt_split [OF this]
  define js where "js = [?w * 32..<min (?w * 32 + 32) (sram_entries env)]"
  have word: "reuse_word env ?w (?b, True, d) = fold (reuse_flow env) js (?b, True, d)" by (simp add: reuse_word_def one_word js_def)
  have "\<exists>d'. fold (reuse_flow env) js (?b, True, d) = (?b, 32 \<le> idx, d') \<and> hw d' = hw d"
  proof (cases "idx < 32")
    case True
    then have "idx \<in> set js" "distinct js" using assms(1) by (simp_all add: js_def)
    then obtain xs ys where "js = xs @ idx # ys" using split_list by metis
    then have x: "js = xs @ idx # ys" "idx \<notin> set xs" "idx \<notin> set ys" using \<open>distinct js\<close> by auto
    obtain r d1 where g: "get_entry env idx d = (r, d1)" by (rule prod.exhaust)
    have "r = Some (hw d idx)" "hw d1 = hw d" using get_hw [OF g] assms(3) [of d] True g by auto
    then have "reuse_flow env idx (?b, True, d) = (?b, False, d1)" using assms(4) g by (simp add: reuse_flow_def one_bit)
    then show ?thesis using x True idle_flows \<open>hw d1 = hw d\<close> by simp
  next
    case False
    have "idx \<notin> set js"
    proof
      assume "idx \<in> set js"
      then have "?w * 32 \<le> idx" "idx < ?w * 32 + 32" by (simp_all add: js_def)
      then have "idx < 64" by linarith
      with \<open>idx < ?w * 32 + 32\<close> False show False by simp
    qed
    then show ?thesis using False idle_flows by simp
  qed
  then obtain d' where "reuse_word env ?w (?b, True, d) = (?b, 32 \<le> idx, d')" "hw d' = hw d" using word by auto
  then have "fold (reuse_word env) [0..<BITMAP_IDX_SIZE] (?b, True, d) = (?b, 32 \<le> idx, d')" "hw d' = hw d"
    unfolding split using idle [of "[0..<?w]"] idle [of "[Suc ?w..<BITMAP_IDX_SIZE]"] by simp_all
  then show ?thesis by (rule that)
qed

definition view :: "nat \<Rightarrow> nat \<Rightarrow> 'd ppe \<Rightarrow> u32 \<times> (nat \<Rightarrow> u64) \<times> u64 \<times> u32" where
  "view k sel s = (let t = shnkTbl s ! k in (sh_valid t ! sel, sh_bitmap t ! sel, sh_timestamp t ! sel, sh_pinned t ! sel))"

definition sane :: "(nat \<Rightarrow> 'e) \<Rightarrow> nat \<Rightarrow> 'd ppe \<Rightarrow> bool" where
  "sane H k s \<longleftrightarrow> length (shnkTbl s) = 16 \<and> hw (pdev s) = H \<and> length (sh_valid (shnkTbl s ! k)) = 3 \<and> length (sh_bitmap (shnkTbl s ! k)) = 3"

lemma reuse_words_hw: "fold (reuse_word env) is (b, n, d) = (b', n', d') \<Longrightarrow> hw d' = hw d"
  using reuse_words_frame by blast

definition scanned :: "nat \<Rightarrow> (nat \<Rightarrow> u64) \<Rightarrow> bool \<Rightarrow> shrink_slot \<Rightarrow> shrink_slot" where
  "scanned sel b n t = (let t = t\<lparr>sh_bitmap := (sh_bitmap t)[sel := b]\<rparr> in if n then invalidate sel t else t)"

lemma reuse_slot_out:
  assumes "k < length (shnkTbl s)" and "timed_out j sel (shnkTbl s ! k)"
    and "fold (reuse_word env) [0..<BITMAP_IDX_SIZE] (sh_bitmap (shnkTbl s ! k) ! sel, True, pdev s) = (b, n, d)"
  shows "reuse_slot env j (k, sel) s = s\<lparr>pdev := d, shnkTbl := (shnkTbl s)[k := scanned sel b n (shnkTbl s ! k)]\<rparr>"
  using assms by (cases n) (simp_all add: reuse_slot_def upd_slot_def scanned_def)

lemma scanned_parts:
  "length (sh_valid (scanned sel b n t)) = length (sh_valid t)" "length (sh_bitmap (scanned sel b n t)) = length (sh_bitmap t)"
  "sh_timestamp (scanned sel b n t) = sh_timestamp t" "sh_pinned (scanned sel b n t) = sh_pinned t"
  "sh_valid (scanned sel b n t) = (if n then (sh_valid t)[sel := 0] else sh_valid t)"
  "sh_bitmap (scanned sel b n t) = (sh_bitmap t)[sel := b]"
  by (cases n; simp add: scanned_def invalidate_def)+

lemma reuse_slot_forms:
  assumes "k < length (shnkTbl s)"
  obtains "reuse_slot env j (k, sel) s = s"
  | b n d where "hw d = hw (pdev s)"
    and "reuse_slot env j (k, sel) s = s\<lparr>pdev := d, shnkTbl := (shnkTbl s)[k := scanned sel b n (shnkTbl s ! k)]\<rparr>"
proof (cases "timed_out j sel (shnkTbl s ! k)")
  case True
  obtain b n d where w: "fold (reuse_word env) [0..<BITMAP_IDX_SIZE] (sh_bitmap (shnkTbl s ! k) ! sel, True, pdev s) = (b, n, d)"
    by (rule prod_cases3)
  show ?thesis using that(2) [OF reuse_words_hw [OF w] reuse_slot_out [OF assms True w]] .
qed (use that(1) in \<open>simp add: reuse_slot_def\<close>)

lemma reuse_keeps:
  assumes "sane H k s" and "y \<noteq> (k, sel)" and "fst y < 16" and "k < 16"
  shows "sane H k (reuse_slot env j y s) \<and> view k sel (reuse_slot env j y s) = view k sel s"
proof -
  obtain k' sel' where y: "y = (k', sel')" by (rule prod.exhaust)
  have k': "k' < length (shnkTbl s)" using assms(1,3) y by (simp add: sane_def)
  show ?thesis unfolding y
  proof (cases rule: reuse_slot_forms [OF k', of j sel'])
    case 1 then show "sane H k (reuse_slot env j (k', sel') s) \<and> view k sel (reuse_slot env j (k', sel') s) = view k sel s" using assms(1) by simp
  next
    case (2 b n d)
    then show "sane H k (reuse_slot env j (k', sel') s) \<and> view k sel (reuse_slot env j (k', sel') s) = view k sel s"
      using assms y by (cases "k' = k") (simp_all add: sane_def view_def scanned_parts Let_def)
  qed
qed

lemma fold_at:
  assumes "x \<in> set xs" and "distinct xs" and "I s"
    and keep: "\<And>y s. y \<in> set xs \<Longrightarrow> y \<noteq> x \<Longrightarrow> I s \<Longrightarrow> I (f y s) \<and> V (f y s) = V s"
    and hit: "\<And>s'. I s' \<Longrightarrow> V s' = V s \<Longrightarrow> I (f x s') \<and> P (V (f x s'))"
  shows "P (V (fold f xs s))"
proof -
  have many: "I (fold f ys t) \<and> V (fold f ys t) = V t" if "set ys \<subseteq> set xs - {x}" "I t" for ys t
    using that
  proof (induction ys arbitrary: t)
    case (Cons y ys)
    have "y \<in> set xs" "y \<noteq> x" using Cons.prems(1) by auto
    then show ?case using keep [of y t] Cons by auto
  qed simp
  obtain as bs where s: "xs = as @ x # bs" using assms(1) split_list by metis
  then have "set as \<subseteq> set xs - {x}" "set bs \<subseteq> set xs - {x}" using assms(2) by auto
  then show ?thesis using many [of as s] many [of bs] hit [of "fold f as s"] assms(3) s by simp
qed

lemma reuse_blind:
  assumes "eth_up u" and "k < 16" and "sel < 3" and "length (shnkTbl s) = 16" and "slot_wf (shnkTbl s ! k)"
    and "timed_out j sel (shnkTbl s ! k)" and "sh_valid (shnkTbl s ! k) ! sel = 1"
    and "sh_bitmap (shnkTbl s ! k) ! sel = set_bit64 idx (\<lambda>_. 0)" and "idx < sram_entries env" and "idx < 16384"
    and "\<And>d. idx < 32 \<Longrightarrow> fst (get_entry env idx d) \<noteq> None" and "bound (hw (pdev s) idx)"
  shows "sh_valid (shnkTbl (reuse_shrink_table env u j s) ! k) ! sel = (if idx < 32 then 1 else 0)"
proof -
  let ?I = "sane (hw (pdev s)) k" and ?V = "view k sel" and ?xs = "List.product [0..<UPDMEM_NUM] [0..<3]"
  have "fst (?V (fold (reuse_slot env j) ?xs s)) = (if idx < 32 then 1 else 0)"
  proof (rule fold_at [where I = ?I and x = "(k, sel)" and P = "\<lambda>v. fst v = (if idx < 32 then 1 else 0)"])
    show "(k, sel) \<in> set ?xs" "distinct ?xs" using assms(2,3) by (simp_all add: distinct_product)
    show "?I s" using assms(4,5) by (simp add: sane_def slot_wf_def)
    show "?I (reuse_slot env j y t) \<and> ?V (reuse_slot env j y t) = ?V t" if "y \<in> set ?xs" "y \<noteq> (k, sel)" "?I t" for y t
      using reuse_keeps [OF that(3,2), of j] that(1) assms(2) by auto
    fix t assume t: "?I t" "?V t = ?V s"
    have h: "hw (pdev t) = hw (pdev s)" using t(1) by (simp add: sane_def)
    obtain d' where w: "fold (reuse_word env) [0..<BITMAP_IDX_SIZE] (set_bit64 idx (\<lambda>_. 0), True, pdev t) = (set_bit64 idx (\<lambda>_. 0), 32 \<le> idx, d')"
        "hw d' = hw (pdev t)"
      using reuse_one [OF assms(9,10), of "pdev t"] assms(11,12) h by metis
    have "sh_valid (shnkTbl t ! k) ! sel = sh_valid (shnkTbl s ! k) ! sel \<and> sh_bitmap (shnkTbl t ! k) ! sel = sh_bitmap (shnkTbl s ! k) ! sel \<and>
        sh_timestamp (shnkTbl t ! k) ! sel = sh_timestamp (shnkTbl s ! k) ! sel \<and> sh_pinned (shnkTbl t ! k) ! sel = sh_pinned (shnkTbl s ! k) ! sel"
      using t(2) unfolding view_def Let_def prod.inject .
    then have "timed_out j sel (shnkTbl t ! k)" "sh_bitmap (shnkTbl t ! k) ! sel = set_bit64 idx (\<lambda>_. 0)" "sh_valid (shnkTbl t ! k) ! sel = 1"
      using assms(6-8) unfolding timed_out_def by simp_all
    moreover have "k < length (shnkTbl t)" using t(1) assms(2) by (simp add: sane_def)
    ultimately have e: "reuse_slot env j (k, sel) t =
        t\<lparr>pdev := d', shnkTbl := (shnkTbl t)[k := scanned sel (set_bit64 idx (\<lambda>_. 0)) (32 \<le> idx) (shnkTbl t ! k)]\<rparr>"
      and v: "sh_valid (shnkTbl t ! k) ! sel = 1" using w(1) by (simp_all add: reuse_slot_out)
    show "?I (reuse_slot env j (k, sel) t) \<and> fst (?V (reuse_slot env j (k, sel) t)) = (if idx < 32 then 1 else 0)"
      unfolding e using v w(2) h t(1) assms(2,3) by (simp add: view_def sane_def scanned_parts Let_def)
  qed
  then show ?thesis using assms(1) by (simp add: reuse_shrink_table_def view_def Let_def)
qed

end

section \<open>The update memory of the example engine\<close>

definition box_upd :: upd_env where
  "box_upd = \<lparr> UPDMEM_CTRL = 0x3000, UPDMEM_DATA = 0x3004, UPDMEM_ADDR_MASK = 0xF00, UPDMEM_OFFSET_MASK = 0xF0,
     UPDMEM_SEL_MASK = 0xC, UPDMEM_WR_MASK = 2, UPDMEM_REQ_MASK = 1, eth_up = True,
     FE_WAN_MAC_H = 0x4000, FE_MAC_LMIN = 0x4004, FE_MAC_LMAX = 0x4008, MAC_ADDR_NUM = 8 \<rparr>"

lemma box_key: "(1 OR 2 OR updmem_key box_upd sel k offset) AND 0xFFC = updmem_key box_upd sel k offset"
proof -
  have m: "(0xFFC :: u32) = 0xF00 OR 0xF0 OR 0xC" "(3 :: u32) AND (0xF00 OR 0xF0 OR 0xC) = 0" by code_simp+
  have "updmem_key box_upd sel k offset AND (0xF00 OR 0xF0 OR 0xC) = updmem_key box_upd sel k offset"
    unfolding updmem_key_def box_upd_def upd_env.select_convs
    by (rule bit_word_eqI) (auto simp only: bit_or_iff bit_and_iff)
  moreover have "1 OR 2 OR updmem_key box_upd sel k offset = 3 OR updmem_key box_upd sel k offset"
    using or.assoc [of "1 :: u32" 2] by simp
  ultimately show ?thesis by (simp only: m(1) bit.conj_disj_distrib2 m(2) or.left_neutral)
qed

lemma box_updmem:
  assumes "n \<le> 0x10000"
  shows "updmem (box_env n dead) (box_hw n) (\<lambda>d p k. b_port d (box_ram p k)) (\<lambda>ws. ws) (\<lambda>e k. e ! k) box_upd b_upd (\<lambda>d. b_port d 0x3004)"
proof (intro updmem.intro updmem_axioms.intro)
  show "foe_engine (box_env n dead) (box_hw n) (\<lambda>d p k. b_port d (box_ram p k)) (\<lambda>ws. ws) (\<lambda>e k. e ! k)"
    by (rule box_engine [OF assms])
next
  fix d' sel k offset d
  assume "d' = bus_wr (p_bus (box_env n dead)) (UPDMEM_CTRL box_upd) (1 OR 2 OR updmem_key box_upd sel k offset) d"
  then have "d' = box_wr 0x3000 (1 OR 2 OR updmem_key box_upd sel k offset) d" by (simp add: box_env_def box_upd_def)
  then show "b_upd d' = (b_upd d)(updmem_key box_upd sel k offset := b_port d 0x3004) \<and> box_hw n d' = box_hw n d"
    unfolding box_wr_def box_key by (simp add: box_hw_def fun_eq_iff box_ctrl_def)
qed (auto simp: box_env_def box_upd_def box_wr_def box_hw_def fun_eq_iff box_ctrl_def split: if_splits)

interpretation upd: updmem "box_env 64 []" "box_hw 64" "\<lambda>d p k. b_port d (box_ram p k)" "\<lambda>ws. ws" "\<lambda>e k. e ! k"
  box_upd b_upd "\<lambda>d. b_port d 0x3004"
  by (rule box_updmem) simp

section \<open>Properties\<close>


text \<open>A device whose entry 5 is a bound IPv6 flow that names slot 3, with a full table of distinct addresses.\<close>

definition mac_of :: "nat \<Rightarrow> u8 list" where
  "mac_of k = [2, 0, 0, 0, 0, word_of_nat k]"

definition flow_to :: "u32 \<Rightarrow> u32 list" where
  "flow_to k = 0x2A000000 # replicate 14 0 @ [push_bit 16 k] @ replicate 4 0"

definition mac_upd :: "u32 \<Rightarrow> u32" where
  "mac_upd a = (if a AND 0x10 \<noteq> 0 then 0x200 else drop_bit 8 a)"

definition mac_box :: "nat list \<Rightarrow> foe_box" where
  "mac_box users = \<lparr> b_mem = (\<lambda>i. replicate 20 0), b_sram = (\<lambda>i. if i \<in> set users then flow_to 3 else replicate 20 0), b_port = (\<lambda>_. 0),
     b_upd = mac_upd \<rparr>"

definition mac_slot :: "nat \<Rightarrow> nat \<Rightarrow> shrink_slot" where
  "mac_slot user k = zero_slot\<lparr>sh_smac := mac_of k, sh_valid := [1, 0, 0], sh_timestamp := [if k = 3 then 0 else 3001, 0, 0],
     sh_bitmap := [set_bit64 user (\<lambda>_. 0), \<lambda>_. 0, \<lambda>_. 0]\<rparr>"

definition mac_full :: "nat \<Rightarrow> foe_box ppe" where
  "mac_full user = \<lparr> pdev = mac_box [user], lan_ifindex = (\<lambda>_. 0), shnkTbl = map (mac_slot user) [0..<16] \<rparr>"

lemma mac_full_slot: "k < 16 \<Longrightarrow> shnkTbl (mac_full user) ! k = mac_slot user k"
  by (simp add: mac_full_def)

lemma mac_slot_out: "timed_out 3001 0 (mac_slot user k) \<longleftrightarrow> k = 3"
  by (simp add: timed_out_def mac_slot_def zero_slot_def time_after_def)

lemma mac_of_inj:
  assumes "k < 16" and "i < 16" and "mac_of k = mac_of i"
  shows "k = i"
proof -
  have "unat (word_of_nat k :: u8) = unat (word_of_nat i :: u8)" using assms(3) by (simp add: mac_of_def)
  then show ?thesis using assms(1,2) by (simp add: unat_of_nat)
qed

lemma mac_full_ok: "tbl_ok box_upd (b_upd (pdev (mac_full user))) (shnkTbl (mac_full user))"
proof (rule tbl_okI)
  show "length (shnkTbl (mac_full user)) = 16" by (simp add: mac_full_def)
  have v: "sh_valid (mac_slot user k) = [1, 0, 0]" for k by (simp add: mac_slot_def)
  show "slot_wf (shnkTbl (mac_full user) ! k)" if "k < 16" for k
    unfolding mac_full_slot [OF that] slot_wf_def by (auto simp: mac_slot_def zero_slot_def nth_Cons')
  have m: "list_all (\<lambda>k. mac_upd (updmem_key box_upd 0 k 0) = smac_low (mac_of k) \<and>
      mac_upd (updmem_key box_upd 0 k 1) = smac_high (mac_of k)) [0..<16]"
    by code_simp
  show "slot_mirrored box_upd (b_upd (pdev (mac_full user))) sel k (shnkTbl (mac_full user) ! k)"
    if k: "k < 16" "sel < 3" "sh_valid (shnkTbl (mac_full user) ! k) ! sel = 1" for k sel
  proof -
    have "sel = 0" using k v by (auto simp: mac_full_slot elim!: sel_cases)
    then show ?thesis using m k(1) unfolding mac_full_slot [OF k(1)]
      by (simp add: slot_mirrored_def shrink_words_def slot_field_def mac_slot_def mac_full_def mac_box_def list_all_iff)
  qed
  show "sh_pinned (shnkTbl (mac_full user) ! k) ! sel \<noteq> 0 \<or> sh_pinned (shnkTbl (mac_full user) ! i) ! sel \<noteq> 0"
    if k: "k < 16" "i < 16" "sel < 3" "k \<noteq> i" "sh_valid (shnkTbl (mac_full user) ! k) ! sel = 1"
      "slot_matches sel (slot_field (shnkTbl (mac_full user) ! k)) (shnkTbl (mac_full user) ! i)" for k i sel
  proof -
    have "sel = 0" using k v by (auto simp: mac_full_slot elim!: sel_cases)
    then show ?thesis using k mac_of_inj [OF k(1,2)]
      by (simp add: mac_full_slot slot_matches_def slot_field_def mac_slot_def)
  qed
qed


text \<open>The table takes a slot away from flows that still use it. When every slot is in use and slot
  \<open>k\<close> has not been asked for in the last thirty seconds, the next new source MAC gets that slot, whichever
  flows are recorded as its users: no flow entry changes, so every bound flow that names the slot now sends with the
  new address.\<close>

theorem shrink_takes_bound_slot:
  assumes "updmem env hw stage foe_of word_of u mem dreg" and "tbl_ok u (mem (pdev s)) (shnkTbl s)"
    and "k < 16" and "timed_out j 0 (shnkTbl s ! k)"
    and "\<forall>i<16. sh_valid (shnkTbl s ! i) ! 0 = 1 \<and> sh_smac (shnkTbl s ! i) \<noteq> f_smac f \<and> (i \<noteq> k \<longrightarrow> \<not> timed_out j 0 (shnkTbl s ! i))"
    and "find_and_update_shrink_table env u j PPE_UPDMEM_SEL_SMAC (Some f) s = (r, s')"
  shows "r = int k \<and> hw (pdev s') = hw (pdev s) \<and> sh_smac (shnkTbl s' ! k) = f_smac f \<and>
    mem (pdev s') (updmem_key u 0 k 0) = smac_low (f_smac f) \<and> mem (pdev s') (updmem_key u 0 k 1) = smac_high (f_smac f)"
proof -
  have F: "tbl_ok u (mem (pdev s')) (shnkTbl s') \<and> hw (pdev s') = hw (pdev s) \<and> lan_ifindex s' = lan_ifindex s \<and>
      (r = - 1 \<and> updmem.frame hw mem j s s' \<and> (\<forall>i<16. sh_valid (shnkTbl s ! i) ! 0 = 1 \<and> \<not> slot_matches 0 f (shnkTbl s ! i) \<and>
                   \<not> timed_out j 0 (shnkTbl s ! i))
       \<or> (\<exists>k. r = int k \<and> updmem.found_slot j 0 f k s s'))"
    using updmem.find_outcome [OF assms(1,2) _ assms(6)] by simp
  then obtain i where i: "r = int i" "updmem.found_slot j 0 f i s s'" using assms(3,4) by auto
  note S = i(2) [unfolded updmem.found_slot_def [OF assms(1)]]
  have "i = k" using S assms(5) by (auto simp: slot_matches_def)
  then have "sh_smac (shnkTbl s' ! k) = f_smac f" "sh_valid (shnkTbl s' ! k) ! 0 = 1" using S by (simp_all add: slot_matches_def)
  moreover from this(2) have "slot_mirrored u (mem (pdev s')) 0 k (shnkTbl s' ! k)"
    using tbl_okD(3) [OF conjunct1 [OF F] assms(3), of 0] by simp
  ultimately show ?thesis using F i(1) \<open>i = k\<close> by (simp add: slot_mirrored_def shrink_words_def slot_field_def)
qed

theorem shrink_takes_bound_slot_witness:
  "\<exists>s'. find_and_update_shrink_table (box_env 64 []) box_upd 3001 0 (Some (smac_field (mac_of 99))) (mac_full 5) = (3, s') \<and>
     test_bit64 5 (sh_bitmap (shnkTbl (mac_full 5) ! 3) ! 0) \<and>
     foe_state box_fields box_abi (box_hw 64 (pdev s') 5) = STATE_BIND box_abi \<and>
     FIELD_GET (FOE_MAC_SMAC_ID box_abi) (l2_src_mac_hi (l2_of box_fields F_ipv6 (box_hw 64 (pdev s') 5))) = 3 \<and>
     sh_smac (shnkTbl s' ! 3) = mac_of 99"
proof -
  obtain r s' where f: "find_and_update_shrink_table (box_env 64 []) box_upd 3001 0 (Some (smac_field (mac_of 99))) (mac_full 5) = (r, s')"
    by (rule prod.exhaust)
  have ne: "sh_smac (shnkTbl (mac_full 5) ! i) \<noteq> f_smac (smac_field (mac_of 99))" if "i < 16" for i
  proof -
    have "list_all (\<lambda>i. mac_of i \<noteq> mac_of 99) [0..<16]" by code_simp
    then show ?thesis using that by (simp add: mac_full_slot mac_slot_def smac_field_def mac_of_def list_all_iff)
  qed
  have all: "\<forall>i<16. sh_valid (shnkTbl (mac_full 5) ! i) ! 0 = 1 \<and> sh_smac (shnkTbl (mac_full 5) ! i) \<noteq> f_smac (smac_field (mac_of 99)) \<and>
      (i \<noteq> 3 \<longrightarrow> \<not> timed_out 3001 0 (shnkTbl (mac_full 5) ! i))"
    using ne by (simp add: mac_full_slot mac_slot_out) (simp add: mac_slot_def)
  have o: "timed_out 3001 0 (shnkTbl (mac_full 5) ! 3)" by (simp add: mac_full_slot mac_slot_out)
  have T: "r = 3 \<and> box_hw 64 (pdev s') = box_hw 64 (pdev (mac_full 5)) \<and> sh_smac (shnkTbl s' ! 3) = mac_of 99"
    using shrink_takes_bound_slot [OF box_updmem mac_full_ok _ o all f] by (simp add: smac_field_def mac_of_def)
  have "box_hw 64 (pdev (mac_full 5)) 5 = flow_to 3" by (simp add: mac_full_def mac_box_def box_hw_def)
  moreover have "foe_state box_fields box_abi (flow_to 3) = STATE_BIND box_abi"
    "FIELD_GET (FOE_MAC_SMAC_ID box_abi) (l2_src_mac_hi (l2_of box_fields F_ipv6 (flow_to 3))) = 3" by code_simp+
  moreover have "test_bit64 5 (sh_bitmap (shnkTbl (mac_full 5) ! 3) ! 0)"
    by (simp add: mac_full_slot mac_slot_def upd.one_bit)
  ultimately show ?thesis using f T by (metis)
qed


text \<open>The scan that frees timed-out slots forgets most of their users. A slot whose only
  user is the bound flow \<open>idx\<close> stays valid only if \<open>idx < 32\<close>: the scan steps through the bitmap in words
  of 32 bits, and the bits are kept in words of 64.\<close>

theorem shrink_reuse_blind:
  assumes "updmem env hw stage foe_of word_of u mem dreg" and "eth_up u" and "k < 16" and "sel < 3" and "length (shnkTbl s) = 16"
    and "slot_wf (shnkTbl s ! k)" and "timed_out j sel (shnkTbl s ! k)" and "sh_valid (shnkTbl s ! k) ! sel = 1"
    and "sh_bitmap (shnkTbl s ! k) ! sel = set_bit64 idx (\<lambda>_. 0)" and "idx < sram_entries env" and "idx < 16384"
    and "idx < 32 \<longrightarrow> (\<forall>d. fst (get_entry env idx d) \<noteq> None)"
    and "foe_state (p_fields env) (p_abi env) (hw (pdev s) idx) = STATE_BIND (p_abi env)"
  shows "sh_valid (shnkTbl (reuse_shrink_table env u j s) ! k) ! sel = (if idx < 32 then 1 else 0)"
  using updmem.reuse_blind [OF assms(1-11) _ assms(13)] assms(12) by blast

theorem shrink_reuse_blind_witness:
  "sh_valid (shnkTbl (reuse_shrink_table (box_env 64 []) box_upd 3001 (mac_full 40)) ! 3) ! 0 = 0"
proof -
  have e: "eth_up box_upd" "length (shnkTbl (mac_full 40)) = 16" "sram_entries (box_env 64 []) = 64"
    by (simp_all add: box_upd_def mac_full_def box_env_def)
  have t: "slot_wf (shnkTbl (mac_full 40) ! 3)" "timed_out 3001 0 (shnkTbl (mac_full 40) ! 3)"
    "sh_valid (shnkTbl (mac_full 40) ! 3) ! 0 = 1" "sh_bitmap (shnkTbl (mac_full 40) ! 3) ! 0 = set_bit64 40 (\<lambda>_. 0)"
    using tbl_okD(2) [OF mac_full_ok, of 3] by (simp_all add: mac_full_slot mac_slot_out) (simp_all add: mac_slot_def)
  have "box_hw 64 (pdev (mac_full 40)) 40 = flow_to 3" by (simp add: mac_full_def mac_box_def box_hw_def)
  moreover have "foe_state box_fields box_abi (flow_to 3) = STATE_BIND box_abi" by code_simp
  ultimately have b: "foe_state (p_fields (box_env 64 [])) (p_abi (box_env 64 [])) (box_hw 64 (pdev (mac_full 40)) 40) = STATE_BIND (p_abi (box_env 64 []))"
    by (simp add: box_env_def)
  show ?thesis using shrink_reuse_blind [OF box_updmem e(1) _ _ e(2) t] b e(3) by simp
qed


end
