(* ===== verification/PpeClean.thy ===== *)
theory PpeClean
  imports PpeShrink
begin

text \<open>
  Removing flows from the engine, \<^verbatim>\<open>airoha/arht_ppe.c\<close>: the sweeps that delete the bound entries a
  request names, and the work queue that carries requests from callers in atomic context to the
  sweeps. A sweep reads every entry in turn; each read may fail.
\<close>

section \<open>Sweeps\<close>

text \<open>The loop the sweeps share: unreadable and unbound entries are passed over, a bound entry that the
  request names is deleted. The test sees the index, the entry and the owner recorded for it.\<close>

definition sweep_entry :: "('e, 'd) ppe_env \<Rightarrow> (nat \<Rightarrow> 'e \<Rightarrow> int \<Rightarrow> bool) \<Rightarrow> nat \<Rightarrow> 'd ppe \<Rightarrow> 'd ppe" where
  "sweep_entry env names idx s =
     (case fetch env idx s of
        (None, s) \<Rightarrow> s
      | (Some e, s) \<Rightarrow>
          if foe_state (p_fields env) (p_abi env) e \<noteq> STATE_BIND (p_abi env) then s
          else if \<not> names idx e (lan_ifindex s idx) then s
          else airoha_ppe_delete_entry env e idx s)"

definition sweep :: "('e, 'd) ppe_env \<Rightarrow> (nat \<Rightarrow> 'e \<Rightarrow> int \<Rightarrow> bool) \<Rightarrow> 'd ppe \<Rightarrow> 'd ppe" where
  "sweep env names s = fold (sweep_entry env names) [0..<total_entries env] s"

definition foe_pse_port :: "('e, 'd) ppe_env \<Rightarrow> 'e \<Rightarrow> u32" where
  "foe_pse_port env e = FIELD_GET (IB2_PSE_PORT (p_abi env)) (ib2_of (p_fields env) (form_of (p_abi env) (foe_type (p_fields env) (p_abi env) e)) e)"

definition foe_channel :: "('e, 'd) ppe_env \<Rightarrow> 'e \<Rightarrow> u32" where
  "foe_channel env e = FIELD_GET (FOE_CHANNEL (p_abi env)) (data_of (p_fields env) (form_of (p_abi env) (foe_type (p_fields env) (p_abi env) e)) e)"

definition gemport_names :: "('e, 'd) ppe_env \<Rightarrow> u32 \<Rightarrow> 'e \<Rightarrow> bool" where
  "gemport_names env gemport_id e \<longleftrightarrow> foe_pse_port env e = PSE_PORT_GDM2 (p_abi env) \<and>
     ucast (l2_etype (l2_of (p_fields env) (form_of (p_abi env) (foe_type (p_fields env) (p_abi env) e)) e)) = gemport_id"

definition airoha_ppe_clean_entry_by_gemport :: "('e, 'd) ppe_env \<Rightarrow> u32 \<Rightarrow> 'd ppe \<Rightarrow> int \<times> 'd ppe" where
  "airoha_ppe_clean_entry_by_gemport env gemport_id s = (0, sweep env (\<lambda>_ e _. gemport_names env gemport_id e) s)"

definition channel_names :: "('e, 'd) ppe_env \<Rightarrow> int \<Rightarrow> 'e \<Rightarrow> bool" where
  "channel_names env channelIdx e \<longleftrightarrow> foe_pse_port env e = PSE_PORT_GDM2 (p_abi env) \<and> uint (foe_channel env e) = channelIdx"

definition airoha_ppe_clean_entry_by_channel :: "('e, 'd) ppe_env \<Rightarrow> int \<Rightarrow> 'd ppe \<Rightarrow> int \<times> 'd ppe" where
  "airoha_ppe_clean_entry_by_channel env channelIdx s = (0, sweep env (\<lambda>_ e _. channel_names env channelIdx e) s)"

definition fport_channel_ok :: "foe_abi \<Rightarrow> int \<Rightarrow> int \<Rightarrow> bool" where
  "fport_channel_ok a fport channelIdx \<longleftrightarrow> \<not> (channelIdx < 0 \<or> 31 < channelIdx) \<and> \<not> (fport < 0 \<or> uint (PSE_PORT_DROP a) < fport)"

definition fport_names :: "('e, 'd) ppe_env \<Rightarrow> int \<Rightarrow> int \<Rightarrow> 'e \<Rightarrow> bool" where
  "fport_names env fport channelIdx e \<longleftrightarrow> uint (foe_pse_port env e) = fport \<and> uint (foe_channel env e) = channelIdx"

definition airoha_ppe_clean_entry_by_fport_and_channel :: "('e, 'd) ppe_env \<Rightarrow> int \<Rightarrow> int \<Rightarrow> 'd ppe \<Rightarrow> int \<times> 'd ppe" where
  "airoha_ppe_clean_entry_by_fport_and_channel env target_fport channelIdx s =
     (if \<not> glb_ok env then (- EINVAL, s)
      else if \<not> fport_channel_ok (p_abi env) target_fport channelIdx then (- EINVAL, s)
      else (0, sweep env (\<lambda>_ e _. fport_names env target_fport channelIdx e) s))"

subsection \<open>By kind of traffic\<close>

abbreviation (input) HWNAT_OFF_UNI :: u8 where "HWNAT_OFF_UNI \<equiv> 1"
abbreviation (input) HWNAT_OFF_MUL4 :: u8 where "HWNAT_OFF_MUL4 \<equiv> 2"
abbreviation (input) HWNAT_OFF_MUL6 :: u8 where "HWNAT_OFF_MUL6 \<equiv> 3"

text \<open>\<^verbatim>\<open>cpu_to_be32\<close> and \<^verbatim>\<open>cpu_to_be16\<close> stored into a MAC buffer.\<close>

definition be_mac :: "u32 \<Rightarrow> u16 \<Rightarrow> u8 list" where
  "be_mac hi lo = [ucast (drop_bit 24 hi), ucast (drop_bit 16 hi), ucast (drop_bit 8 hi), ucast hi, ucast (drop_bit 8 lo), ucast lo]"

definition bridge_dest :: "foe_macs \<Rightarrow> u8 list" where
  "bridge_dest m = be_mac (b_dest_mac_hi m) (b_dest_mac_lo m)"

definition l2_dest :: "foe_l2 \<Rightarrow> u8 list" where
  "l2_dest l2 = be_mac (l2_dest_mac_hi l2) (l2_dest_mac_lo l2)"

definition type_names :: "('e, 'd) ppe_env \<Rightarrow> u8 \<Rightarrow> 'e \<Rightarrow> bool" where
  "type_names env type e =
     (let a = p_abi env; f = p_fields env; ptype = foe_type f a e;
          h_dest = (if ptype = TYPE_BRIDGE a then bridge_dest (bridge32_macs f e)
                    else l2_dest (l2_of f (if TYPE_IPV6_ROUTE_3T a \<le> ptype then F_ipv6 else F_ipv4) e))
      in \<not> (type = HWNAT_OFF_UNI \<and> h_dest ! 0 AND 0x01 \<noteq> 0) \<and>
         \<not> (type = HWNAT_OFF_MUL4 \<and> \<not> (h_dest ! 0 = 0x01 \<and> h_dest ! 1 = 0 \<and> h_dest ! 2 = 0x5e)) \<and>
         \<not> (type = HWNAT_OFF_MUL6 \<and> \<not> (h_dest ! 0 = 0x33 \<and> h_dest ! 1 = 0x33)))"

definition airoha_ppe_clean_entry_by_type :: "('e, 'd) ppe_env \<Rightarrow> u8 \<Rightarrow> 'd ppe \<Rightarrow> int \<times> 'd ppe" where
  "airoha_ppe_clean_entry_by_type env type s = (0, sweep env (\<lambda>_ e _. type_names env type e) s)"

definition airoha_ppe_clean_multicast_entry :: "('e, 'd) ppe_env \<Rightarrow> 'd ppe \<Rightarrow> int \<times> 'd ppe" where
  "airoha_ppe_clean_multicast_entry env s =
     (let (_, s) = airoha_ppe_clean_entry_by_type env HWNAT_OFF_MUL4 s;
          (_, s) = airoha_ppe_clean_entry_by_type env HWNAT_OFF_MUL6 s
      in (0, s))"

subsection \<open>By port\<close>

text \<open>The two pairs of ports of an entry, for the types that have ports.\<close>

definition foe_ports :: "('e, 'd) ppe_env \<Rightarrow> 'e \<Rightarrow> (u16 \<times> u16 \<times> u16 \<times> u16) option" where
  "foe_ports env e =
     (let a = p_abi env; f = p_fields env; ptype = foe_type f a e in
      if ptype = TYPE_IPV4_HNAPT a
      then Some (src_port (orig_tuple f e), dest_port (orig_tuple f e), src_port (new_tuple f e), dest_port (new_tuple f e))
      else if ptype = TYPE_IPV4_DSLITE a then Some (src_port (dslite_ip4 f e), dest_port (dslite_ip4 f e), 0, 0)
      else if ptype = TYPE_IPV6_ROUTE_5T a \<or> ptype = TYPE_IPV6_6RD a then Some (ipv6_src_port f e, ipv6_dest_port f e, 0, 0)
      else None)"

definition port_names :: "('e, 'd) ppe_env \<Rightarrow> u16 \<Rightarrow> u16 \<Rightarrow> 'e \<Rightarrow> bool" where
  "port_names env sport dport e =
     (case foe_ports env e of
        None \<Rightarrow> False
      | Some (sp1, dp1, sp2, dp2) \<Rightarrow>
          if sport \<noteq> 0 \<and> dport \<noteq> 0
          then (sp1 = sport \<or> sp2 = sport) \<and> (dp1 = dport \<or> dp2 = dport) \<or>
               (sp1 = dport \<or> sp2 = dport) \<and> (dp1 = sport \<or> dp2 = sport)
          else if sport \<noteq> 0 then sp1 = sport \<or> sp2 = sport
          else if dport \<noteq> 0 then dp1 = dport \<or> dp2 = dport
          else False)"

definition airoha_ppe_clean_entry_by_port :: "('e, 'd) ppe_env \<Rightarrow> u16 \<Rightarrow> u16 \<Rightarrow> 'd ppe \<Rightarrow> int \<times> 'd ppe" where
  "airoha_ppe_clean_entry_by_port env sport dport s =
     (if sport = 0 \<and> dport = 0 then (- EINVAL, s)
      else if \<not> glb_ok env then (- EINVAL, s)
      else (0, sweep env (\<lambda>_ e _. port_names env sport dport e) s))"

subsection \<open>By address\<close>

text \<open>The local variables \<^verbatim>\<open>ip3\<close> and \<^verbatim>\<open>ip4\<close> live across iterations: an entry whose tunnel index is outside
  the shrink table is compared with what an earlier entry left there (at debug level zero; the debug
  output above it also swaps their bytes).\<close>

definition entry_ips :: "('e, 'd) ppe_env \<Rightarrow> shrink_slot list \<Rightarrow> 'e \<Rightarrow> u32 \<times> u32 \<Rightarrow> (u32 \<times> u32 \<times> u32 \<times> u32) option" where
  "entry_ips env tbl e ips =
     (let a = p_abi env; f = p_fields env; ptype = foe_type f a e in
      if ptype = TYPE_IPV4_HNAPT a \<or> ptype = TYPE_IPV4_ROUTE a
      then Some (src_ip (orig_tuple f e), dest_ip (orig_tuple f e), src_ip (new_tuple f e), dest_ip (new_tuple f e))
      else if ptype = TYPE_IPV4_DSLITE a then Some (src_ip (dslite_ip4 f e), dest_ip (dslite_ip4 f e), 0, 0)
      else if ptype = TYPE_IPV6_6RD a then
        let index = unat (FIELD_GET (FOE_TUNNEL_ID a) (data_of f F_ipv6 e)) in
        if index < UPDMEM_NUM then Some (0, 0, sh_eg_ipv4 (tbl ! index) ! 0, sh_eg_ipv4 (tbl ! index) ! 1)
        else Some (0, 0, fst ips, snd ips)
      else None)"

definition clean_ip_entry :: "('e, 'd) ppe_env \<Rightarrow> u32 \<Rightarrow> nat \<Rightarrow> (u32 \<times> u32) \<times> 'd ppe \<Rightarrow> (u32 \<times> u32) \<times> 'd ppe" where
  "clean_ip_entry env ip_addr idx = (\<lambda>(ips, s).
     case fetch env idx s of
       (None, s) \<Rightarrow> (ips, s)
     | (Some e, s) \<Rightarrow>
         if foe_state (p_fields env) (p_abi env) e \<noteq> STATE_BIND (p_abi env) then (ips, s)
         else case entry_ips env (shnkTbl s) e ips of
                None \<Rightarrow> (ips, s)
              | Some (ip1, ip2, ip3, ip4) \<Rightarrow>
                  if ip1 \<noteq> ip_addr \<and> ip2 \<noteq> ip_addr \<and> ip3 \<noteq> ip_addr \<and> ip4 \<noteq> ip_addr then ((ip3, ip4), s)
                  else ((ip3, ip4), airoha_ppe_delete_entry env e idx s))"

definition airoha_ppe_clean_entry_by_ip :: "('e, 'd) ppe_env \<Rightarrow> u32 \<Rightarrow> 'd ppe \<Rightarrow> int \<times> 'd ppe" where
  "airoha_ppe_clean_entry_by_ip env ip_addr s = (0, snd (fold (clean_ip_entry env ip_addr) [0..<total_entries env] ((0, 0), s)))"

subsection \<open>By MAC\<close>

datatype mac_type = SRC_MAC | DST_MAC | SRC_DST_MAC

text \<open>The buffer \<^verbatim>\<open>h_source\<close> lives across iterations too: the forms without a full source MAC overwrite its
  first four bytes only.\<close>

definition entry_macs :: "('e, 'd) ppe_env \<Rightarrow> shrink_slot list \<Rightarrow> 'e \<Rightarrow> u8 list \<Rightarrow> u8 list \<times> u8 list" where
  "entry_macs env tbl e h_source =
     (let a = p_abi env; f = p_fields env; type = foe_type f a e; l2 = l2_of f (form_of a type) e;
          low = be_mac 0 (ipv4_src_mac_lo f e);
          h_source = (if form_of a type = F_ipv4 then take 4 h_source @ drop 4 low else h_source);
          (h_dest, h_source) =
            (if type = TYPE_BRIDGE a
             then (bridge_dest (bridge32_macs f e), be_mac (b_src_mac_hi (bridge32_macs f e)) (b_src_mac_lo (bridge32_macs f e)))
             else (l2_dest l2, take 4 (be_mac (l2_src_mac_hi l2) 0) @ drop 4 h_source));
          h_source =
            (if type = TYPE_IPV6_ROUTE_3T a \<or> type = TYPE_IPV6_ROUTE_5T a \<or> type = TYPE_IPV6_6RD a
             then let index = get_ppe_entry_smac_index a (l2_src_mac_hi (l2_of f F_ipv6 e)) (TYPE_IPV6_ROUTE_5T a)
                  in if index \<noteq> 0x10 \<and> index < int UPDMEM_NUM then sh_smac (tbl ! nat index) else h_source
             else h_source)
      in (h_source, h_dest))"

definition mac_hit :: "mac_type \<Rightarrow> u8 list \<Rightarrow> u8 list \<Rightarrow> u8 list \<Rightarrow> bool" where
  "mac_hit mt mac h_source h_dest =
     (case mt of SRC_MAC \<Rightarrow> h_source = mac | DST_MAC \<Rightarrow> h_dest = mac | SRC_DST_MAC \<Rightarrow> h_source = mac \<or> h_dest = mac)"

text \<open>An entry that cannot be read ends the loop.\<close>

fun clean_mac_loop :: "('e, 'd) ppe_env \<Rightarrow> u8 list \<Rightarrow> mac_type \<Rightarrow> nat list \<Rightarrow> u8 list \<Rightarrow> 'd ppe \<Rightarrow> int \<times> 'd ppe" where
  "clean_mac_loop env mac mt [] h_source s = (0, s)"
| "clean_mac_loop env mac mt (idx # is) h_source s =
     (case fetch env idx s of
        (None, s) \<Rightarrow> (- 1, s)
      | (Some e, s) \<Rightarrow>
          if foe_state (p_fields env) (p_abi env) e \<noteq> STATE_BIND (p_abi env) then clean_mac_loop env mac mt is h_source s
          else let (h_source, h_dest) = entry_macs env (shnkTbl s) e h_source;
                   s = (if mac_hit mt mac h_source h_dest then on_dev (airoha_ppe_clear_sram_table_flow env idx) s else s)
               in clean_mac_loop env mac mt is h_source s)"

definition airoha_ppe_clean_entry_by_mac_common :: "('e, 'd) ppe_env \<Rightarrow> u8 list option \<Rightarrow> mac_type \<Rightarrow> 'd ppe \<Rightarrow> int \<times> 'd ppe" where
  "airoha_ppe_clean_entry_by_mac_common env mac mt s =
     (case mac of None \<Rightarrow> (0, s)
      | Some m \<Rightarrow> clean_mac_loop env m mt [0..<total_entries env] (replicate 6 0) s)"

definition airoha_ppe_clean_entry_by_mac :: "('e, 'd) ppe_env \<Rightarrow> mac_type \<Rightarrow> u8 list \<Rightarrow> 'd ppe \<Rightarrow> int \<times> 'd ppe" where
  "airoha_ppe_clean_entry_by_mac env mt mac s = (0, snd (airoha_ppe_clean_entry_by_mac_common env (Some mac) mt s))"

subsection \<open>By LAN device\<close>

text \<open>\<open>dev\<close> is \<open>None\<close> for a null pointer; \<open>ifindex\<close> is \<open>None\<close> when the device it points to is gone, and then
  looking at it has no defined result.\<close>

fun landev_loop :: "('e, 'd) ppe_env \<Rightarrow> int option \<Rightarrow> nat list \<Rightarrow> 'd ppe \<Rightarrow> 'd ppe option" where
  "landev_loop env ifindex [] s = Some s"
| "landev_loop env ifindex (idx # is) s =
     (case fetch env idx s of
        (None, s) \<Rightarrow> landev_loop env ifindex is s
      | (Some e, s) \<Rightarrow>
          if foe_state (p_fields env) (p_abi env) e \<noteq> STATE_BIND (p_abi env) then landev_loop env ifindex is s
          else case ifindex of
                 None \<Rightarrow> None
               | Some i \<Rightarrow>
                   if lan_ifindex s idx \<noteq> i then landev_loop env ifindex is s
                   else landev_loop env ifindex is (airoha_ppe_delete_entry env e idx s))"

definition airoha_ppe_clean_entry_by_landev :: "('e, 'd) ppe_env \<Rightarrow> (nat \<Rightarrow> int option) \<Rightarrow> nat option \<Rightarrow> 'd ppe \<Rightarrow> (int \<times> 'd ppe) option" where
  "airoha_ppe_clean_entry_by_landev env devs dev s =
     (case dev of
        None \<Rightarrow> Some (- EINVAL, s)
      | Some p \<Rightarrow> if \<not> glb_ok env then Some (- EINVAL, s)
                  else map_option (Pair 0) (landev_loop env (devs p) [0..<total_entries env] s))"

text \<open>The notifier runs the sweep at once, while the device is still there.\<close>

definition airoha_ppe_netdev_event :: "('e, 'd) ppe_env \<Rightarrow> (nat \<Rightarrow> int option) \<Rightarrow> bool \<Rightarrow> nat option \<Rightarrow> 'd ppe \<Rightarrow> 'd ppe option" where
  "airoha_ppe_netdev_event env devs unregister dev s =
     (if dev \<noteq> None \<and> unregister then map_option snd (airoha_ppe_clean_entry_by_landev env devs dev s) else Some s)"

section \<open>The work queue\<close>

datatype clean_work =
    CLEAN_BY_GEMPORT u32
  | CLEAN_BY_CHANNEL int
  | CLEAN_BY_MAC mac_type "u8 list"
  | CLEAN_BY_TYPE u8
  | CLEAN_BY_IP u32
  | CLEAN_MULTICAST
  | CLEAN_TABLE
  | CLEAN_BY_LANDEV "nat option"
  | CLEAN_BY_FPORT_AND_CHANNEL int int
  | CLEAN_BY_PORT u16 u16

definition has_data :: "clean_work \<Rightarrow> bool" where
  "has_data w \<longleftrightarrow> w \<noteq> CLEAN_MULTICAST \<and> w \<noteq> CLEAN_TABLE"

text \<open>The pending requests, oldest first (the queue runs one at a time), when there is a queue; the blocks of
  memory the requests own; whether the hooks are installed.\<close>

record 'd clean =
  engine :: "'d ppe"
  clean_entry_wq :: "clean_work list option"
  blocks :: int
  clean_hooks :: bool

definition perform :: "('e, 'd) ppe_env \<Rightarrow> (nat \<Rightarrow> int option) \<Rightarrow> clean_work \<Rightarrow> 'd ppe \<Rightarrow> 'd ppe option" where
  "perform env devs w s =
     (case w of
        CLEAN_BY_GEMPORT gp \<Rightarrow> Some (snd (airoha_ppe_clean_entry_by_gemport env gp s))
      | CLEAN_BY_CHANNEL c \<Rightarrow> Some (snd (airoha_ppe_clean_entry_by_channel env c s))
      | CLEAN_BY_MAC mt mac \<Rightarrow> Some (snd (airoha_ppe_clean_entry_by_mac env mt mac s))
      | CLEAN_BY_TYPE t \<Rightarrow> Some (snd (airoha_ppe_clean_entry_by_type env t s))
      | CLEAN_BY_IP ip \<Rightarrow> Some (snd (airoha_ppe_clean_entry_by_ip env ip s))
      | CLEAN_MULTICAST \<Rightarrow> Some (snd (airoha_ppe_clean_multicast_entry env s))
      | CLEAN_TABLE \<Rightarrow> Some (airoha_ppe_clean_sram_table env s)
      | CLEAN_BY_LANDEV dev \<Rightarrow> map_option snd (airoha_ppe_clean_entry_by_landev env devs dev s)
      | CLEAN_BY_FPORT_AND_CHANNEL fport c \<Rightarrow> Some (snd (airoha_ppe_clean_entry_by_fport_and_channel env fport c s))
      | CLEAN_BY_PORT sp dp \<Rightarrow> Some (snd (airoha_ppe_clean_entry_by_port env sp dp s)))"

definition block_count :: "clean_work \<Rightarrow> int" where
  "block_count w = (if has_data w then 2 else 1)"

text \<open>The worker takes the oldest request, performs it and frees its memory.\<close>

definition clean_entry_work_func :: "('e, 'd) ppe_env \<Rightarrow> (nat \<Rightarrow> int option) \<Rightarrow> clean_work \<Rightarrow> 'd clean \<Rightarrow> 'd clean option" where
  "clean_entry_work_func env devs w s =
     (case perform env devs w (engine s) of
        None \<Rightarrow> None
      | Some e \<Rightarrow> Some (s\<lparr>engine := e, blocks := blocks s - block_count w\<rparr>))"

definition run_work :: "('e, 'd) ppe_env \<Rightarrow> (nat \<Rightarrow> int option) \<Rightarrow> 'd clean \<Rightarrow> 'd clean option" where
  "run_work env devs s =
     (case clean_entry_wq s of
        Some (w # ws) \<Rightarrow> clean_entry_work_func env devs w (s\<lparr>clean_entry_wq := Some ws\<rparr>)
      | _ \<Rightarrow> Some s)"

text \<open>\<open>mem1\<close> and \<open>mem2\<close> are the outcomes of the two allocations. Queueing on a queue that was never created has no
  defined result.\<close>

definition queue_clean_entry_work :: "bool \<Rightarrow> bool \<Rightarrow> clean_work \<Rightarrow> 'd clean \<Rightarrow> (int \<times> 'd clean) option" where
  "queue_clean_entry_work mem1 mem2 w s =
     (if \<not> mem1 then Some (- ENOMEM, s)
      else if has_data w \<and> \<not> mem2 then Some (- ENOMEM, s)
      else case clean_entry_wq s of
             None \<Rightarrow> None
           | Some ws \<Rightarrow> Some (0, s\<lparr>clean_entry_wq := Some (ws @ [w]), blocks := blocks s + block_count w\<rparr>))"

text \<open>The hooks; only the one for a port and channel looks at its arguments.\<close>

definition clean_entry_hook :: "foe_abi \<Rightarrow> bool \<Rightarrow> bool \<Rightarrow> clean_work \<Rightarrow> 'd clean \<Rightarrow> (int \<times> 'd clean) option" where
  "clean_entry_hook a mem1 mem2 w s =
     (case w of
        CLEAN_BY_FPORT_AND_CHANNEL fport c \<Rightarrow>
          if \<not> fport_channel_ok a fport c then Some (- EINVAL, s) else queue_clean_entry_work mem1 mem2 w s
      | _ \<Rightarrow> queue_clean_entry_work mem1 mem2 w s)"

definition airoha_ppe_hook_init :: "bool \<Rightarrow> 'd clean \<Rightarrow> 'd clean" where
  "airoha_ppe_hook_init wq_ok s = s\<lparr>clean_entry_wq := (if wq_ok then Some [] else None), clean_hooks := True\<rparr>"

text \<open>Destroying the queue first performs what is pending.\<close>

fun drain :: "('e, 'd) ppe_env \<Rightarrow> (nat \<Rightarrow> int option) \<Rightarrow> clean_work list \<Rightarrow> 'd clean \<Rightarrow> 'd clean option" where
  "drain env devs [] s = Some s"
| "drain env devs (w # ws) s =
     (case clean_entry_work_func env devs w s of None \<Rightarrow> None | Some s \<Rightarrow> drain env devs ws s)"

definition airoha_ppe_hook_exit :: "('e, 'd) ppe_env \<Rightarrow> (nat \<Rightarrow> int option) \<Rightarrow> 'd clean \<Rightarrow> 'd clean option" where
  "airoha_ppe_hook_exit env devs s =
     (let s = s\<lparr>clean_hooks := False\<rparr> in
      case clean_entry_wq s of
        None \<Rightarrow> Some s
      | Some ws \<Rightarrow> drain env devs ws (s\<lparr>clean_entry_wq := None\<rparr>))"

end
