(* ===== verification/PpeCleanProps.thy ===== *)
theory PpeCleanProps
  imports PpeClean PpeMac
begin

text \<open>
  What the clean-up requests do to the flows: which entries a sweep removes, where the sweep by MAC stops,
  and that the work queue performs each accepted request once, in order. The sweeps are proved once, inside
  the locale of the engine, for an arbitrary test of entries; a fixed set \<open>U\<close> of entries cannot be read.
\<close>

section \<open>Sweeps\<close>

context foe_engine
begin

definition swept :: "nat set \<Rightarrow> (nat \<Rightarrow> 'e \<Rightarrow> int \<Rightarrow> bool) \<Rightarrow> nat \<Rightarrow> 'd ppe \<Rightarrow> 'd ppe \<Rightarrow> bool" where
  "swept U names n s s' \<longleftrightarrow> shnkTbl s' = shnkTbl s \<and>
     (\<forall>i. if i < n \<and> i \<notin> U \<and> bound (hw (pdev s) i) \<and> names i (hw (pdev s) i) (lan_ifindex s i)
          then state_of (hw (pdev s') i) = STATE_INVALID (p_abi env) \<and> lan_ifindex s' i = 0
          else hw (pdev s') i = hw (pdev s) i \<and> lan_ifindex s' i = lan_ifindex s i)"

lemma swept_refl: "swept U (\<lambda>_ _ _. False) n s s" "swept U names 0 s s"
  by (simp_all add: swept_def)

lemma fetch_None:
  assumes "\<forall>i d. fst (get_entry env i d) = None \<longleftrightarrow> i \<in> U" and "fetch env n s = (r, s')"
  shows "r = None \<longleftrightarrow> n \<in> U"
  using assms(1) [THEN spec, of n, THEN spec, of "pdev s"] assms(2) by (auto simp: fetch_def split: prod.splits)

text \<open>One entry at a time.\<close>

lemma swept_Suc:
  assumes sw: "swept U names n s s1" and f: "fetch env n s1 = (r, s2)" and r: "r = None \<longleftrightarrow> n \<in> U"
    and hit: "\<And>e. r = Some e \<Longrightarrow> bound e \<Longrightarrow> names n e (lan_ifindex s2 n) \<Longrightarrow> s' = airoha_ppe_delete_entry env e n s2"
    and miss: "r = None \<or> (\<exists>e. r = Some e \<and> \<not> (bound e \<and> names n e (lan_ifindex s2 n))) \<Longrightarrow> s' = s2"
  shows "swept U names (Suc n) s s'"
proof -
  note F = fetch_hw [OF f]
  have n: "hw (pdev s1) n = hw (pdev s) n" "lan_ifindex s1 n = lan_ifindex s n"
    using sw by (auto simp: swept_def split: if_splits)
  show ?thesis
  proof (cases "n \<notin> U \<and> bound (hw (pdev s) n) \<and> names n (hw (pdev s) n) (lan_ifindex s n)")
    case True
    with F(2) r n(1) have e: "r = Some (hw (pdev s) n)" by auto
    have s': "s' = airoha_ppe_delete_entry env (hw (pdev s) n) n s2" using hit [OF e] True F n by simp
    have "hw (pdev s') j = hw (pdev s1) j \<and> lan_ifindex s' j = lan_ifindex s1 j" if "j \<noteq> n" for j
      unfolding s' using that delete_hw(1) [of _ n "hw (pdev s) n" s2] delete_hw(3) [of "hw (pdev s) n" n s2] F by auto
    with sw True F delete_hw(2-4) [of "hw (pdev s) n" n s2] show ?thesis
      unfolding swept_def by (auto simp: s' less_Suc_eq)
  next
    case False
    have s': "s' = s2"
    proof (cases r)
      case (Some e) with False F r n show ?thesis by (intro miss) auto
    qed (simp add: miss)
    with sw F False show ?thesis unfolding swept_def by (auto simp: less_Suc_eq)
  qed
qed

lemma fold_sweep:
  assumes "\<forall>i d. fst (get_entry env i d) = None \<longleftrightarrow> i \<in> U"
  shows "swept U names n s (fold (sweep_entry env names) [0..<n] s)"
proof (induction n)
  case 0 then show ?case by (simp add: swept_def)
next
  case (Suc n)
  define s1 where "s1 = fold (sweep_entry env names) [0..<n] s"
  obtain r s2 where f: "fetch env n s1 = (r, s2)" by (cases "fetch env n s1")
  have step: "fold (sweep_entry env names) [0..<Suc n] s = sweep_entry env names n s1" by (simp add: s1_def)
  show ?case unfolding step
    by (rule swept_Suc [OF Suc [folded s1_def] f fetch_None [OF assms f]]) (auto simp: sweep_entry_def f)
qed

lemma sweep_swept:
  assumes "\<forall>i d. fst (get_entry env i d) = None \<longleftrightarrow> i \<in> U"
  shows "swept U names (total_entries env) s (sweep env names s)"
  unfolding sweep_def by (rule fold_sweep [OF assms])

text \<open>Two sweeps remove what either names, when the tests look at the entry alone.\<close>

lemma swept_twice:
  assumes "swept U (\<lambda>_ e _. P e) n s s1" and "swept U (\<lambda>_ e _. Q e) n s1 s2"
  shows "swept U (\<lambda>_ e _. P e \<or> Q e) n s s2"
proof -
  have "if i < n \<and> i \<notin> U \<and> bound (hw (pdev s) i) \<and> (P (hw (pdev s) i) \<or> Q (hw (pdev s) i))
      then state_of (hw (pdev s2) i) = STATE_INVALID (p_abi env) \<and> lan_ifindex s2 i = 0
      else hw (pdev s2) i = hw (pdev s) i \<and> lan_ifindex s2 i = lan_ifindex s i" for i
    using assms states_differ(1) unfolding swept_def by (auto split: if_splits) metis+
  with assms show ?thesis by (simp add: swept_def)
qed

text \<open>The sweep by LAN device is one of these while the device exists.\<close>

lemma landev_sweep:
  "landev_loop env (Some k) is s = Some (fold (sweep_entry env (\<lambda>_ _ own. own = k)) is s)"
  by (induction "is" arbitrary: s) (auto simp: sweep_entry_def split: option.splits prod.splits)

text \<open>So is the sweep by address, when every tunnel entry has an index of the shrink table.\<close>

definition ip_names :: "shrink_slot list \<Rightarrow> u32 \<Rightarrow> 'e \<Rightarrow> bool" where
  "ip_names tbl ip e \<longleftrightarrow>
     (case entry_ips env tbl e (0, 0) of None \<Rightarrow> False
      | Some (ip1, ip2, ip3, ip4) \<Rightarrow> ip = ip1 \<or> ip = ip2 \<or> ip = ip3 \<or> ip = ip4)"

definition tunnel_ok :: "'e \<Rightarrow> bool" where
  "tunnel_ok e \<longleftrightarrow> (foe_type (p_fields env) (p_abi env) e = TYPE_IPV6_6RD (p_abi env) \<longrightarrow>
     FIELD_GET (FOE_TUNNEL_ID (p_abi env)) (data_of (p_fields env) F_ipv6 e) < 16)"

lemma entry_ips_ok: "tunnel_ok e \<Longrightarrow> entry_ips env tbl e ips = entry_ips env tbl e (0, 0)"
  by (auto simp: entry_ips_def tunnel_ok_def Let_def word_less_nat_alt)

lemma fold_clean_ip:
  assumes "\<forall>i d. fst (get_entry env i d) = None \<longleftrightarrow> i \<in> U" and "\<forall>i<n. tunnel_ok (hw (pdev s) i)"
  shows "swept U (\<lambda>_ e _. ip_names (shnkTbl s) ip e) n s (snd (fold (clean_ip_entry env ip) [0..<n] ((0, 0), s)))"
  using assms(2)
proof (induction n)
  case 0 then show ?case by (simp add: swept_def)
next
  case (Suc n)
  obtain ips s1 where p: "fold (clean_ip_entry env ip) [0..<n] ((0, 0), s) = (ips, s1)" by (rule prod.exhaust)
  have sw: "swept U (\<lambda>_ e _. ip_names (shnkTbl s) ip e) n s s1" using Suc by (simp add: p)
  obtain r s2 where f: "fetch env n s1 = (r, s2)" by (cases "fetch env n s1")
  have "hw (pdev s1) n = hw (pdev s) n" "shnkTbl s2 = shnkTbl s"
    using sw fetch_hw(4) [OF f] by (auto simp: swept_def split: if_splits)
  then have "r = Some e \<Longrightarrow> entry_ips env (shnkTbl s2) e ips = entry_ips env (shnkTbl s) e (0, 0)" for e
    using fetch_hw(2) [OF f] Suc.prems by (auto intro: entry_ips_ok)
  moreover have step: "fold (clean_ip_entry env ip) [0..<Suc n] ((0, 0), s) = clean_ip_entry env ip n (ips, s1)" by (simp add: p)
  ultimately show ?case unfolding step
    by (intro swept_Suc [OF sw f fetch_None [OF assms(1) f]]) (auto simp: clean_ip_entry_def f ip_names_def split: option.splits)
qed

end

section \<open>The sweep by MAC\<close>

text \<open>The destination of a flow, and its source where the entry determines it: through the shrink table for
  the forms that name a slot, in the entry itself for bridged and plain IPv4 flows.\<close>

definition flow_dest :: "('e, 'd) ppe_env \<Rightarrow> 'e \<Rightarrow> u8 list" where
  "flow_dest env e =
     (let a = p_abi env; f = p_fields env; type = foe_type f a e in
      if type = TYPE_BRIDGE a then bridge_dest (bridge32_macs f e) else l2_dest (l2_of f (form_of a type) e))"

definition flow_src :: "('e, 'd) ppe_env \<Rightarrow> shrink_slot list \<Rightarrow> 'e \<Rightarrow> u8 list option" where
  "flow_src env tbl e =
     (let a = p_abi env; f = p_fields env; type = foe_type f a e;
          slot = FIELD_GET (FOE_MAC_SMAC_ID a) (l2_src_mac_hi (l2_of f F_ipv6 e)) in
      if type \<in> {TYPE_IPV6_ROUTE_3T a, TYPE_IPV6_ROUTE_5T a, TYPE_IPV6_6RD a} \<and> slot < 15
      then Some (sh_smac (tbl ! unat slot))
      else if type = TYPE_BRIDGE a
      then Some (be_mac (b_src_mac_hi (bridge32_macs f e)) (b_src_mac_lo (bridge32_macs f e)))
      else if form_of a type = F_ipv4
      then Some (be_mac (l2_src_mac_hi (l2_of f F_ipv4 e)) (ipv4_src_mac_lo f e))
      else None)"

text \<open>What the sweep makes of a bound entry \<open>e\<close> that it reaches. Without a source of its own an entry is
  compared with bytes an earlier one left, so only its destination decides.\<close>

definition mac_result :: "('e, 'd) ppe_env \<Rightarrow> shrink_slot list \<Rightarrow> mac_type \<Rightarrow> u8 list \<Rightarrow> 'e \<Rightarrow> 'e \<Rightarrow> bool" where
  "mac_result env tbl mt mac e e' \<longleftrightarrow>
     (case flow_src env tbl e of
        Some src \<Rightarrow> e' = (if mac_hit mt mac src (flow_dest env e) then zeroed (p_fields env) else e)
      | None \<Rightarrow> (e' = e \<or> e' = zeroed (p_fields env)) \<and>
          (mt \<noteq> SRC_MAC \<longrightarrow> flow_dest env e = mac \<longrightarrow> e' = zeroed (p_fields env)) \<and>
          (mt = DST_MAC \<longrightarrow> flow_dest env e \<noteq> mac \<longrightarrow> e' = e))"

definition macs_wf :: "shrink_slot list \<Rightarrow> bool" where
  "macs_wf tbl \<longleftrightarrow> length tbl = 16 \<and> (\<forall>k<16. length (sh_smac (tbl ! k)) = 6)"

lemma entry_macs_dest: "snd (entry_macs env tbl e h) = flow_dest env e"
  by (simp add: entry_macs_def flow_dest_def Let_def split_beta)

text \<open>The index that the code compares with sixteen.\<close>

lemma smac_index:
  "get_ppe_entry_smac_index a x (TYPE_IPV6_ROUTE_5T a) =
     (if FIELD_GET (FOE_MAC_SMAC_ID a) x = 0xf then 0x10 else uint (FIELD_GET (FOE_MAC_SMAC_ID a) x))"
  by (simp add: get_ppe_entry_smac_index_def)

lemma pick_slot:
  fixes w :: u32
  defines "k \<equiv> (if w = 0xf then 0x10 else uint w)"
  shows "(if k \<noteq> 0x10 \<and> k < int UPDMEM_NUM then sh_smac (tbl ! nat k) else h) = (if w < 15 then sh_smac (tbl ! unat w) else h)"
proof (cases "w = 15")
  case False
  define n where "n = unat w"
  have "n \<noteq> 15" "w < 15 \<longleftrightarrow> n < 15" using False by (simp_all add: n_def word_unat_eq_iff word_less_nat_alt)
  moreover have k: "k = int n" using False by (simp add: k_def n_def)
  ultimately show ?thesis unfolding k n_def [symmetric] by auto
qed (simp add: k_def)

lemma entry_macs_fst:
  assumes "length h = 6"
  shows "fst (entry_macs env tbl e h) =
     (let a = p_abi env; f = p_fields env; type = foe_type f a e;
          slot = FIELD_GET (FOE_MAC_SMAC_ID a) (l2_src_mac_hi (l2_of f F_ipv6 e)) in
      if type \<in> {TYPE_IPV6_ROUTE_3T a, TYPE_IPV6_ROUTE_5T a, TYPE_IPV6_6RD a} \<and> slot < 15
      then sh_smac (tbl ! unat slot)
      else if type = TYPE_BRIDGE a
      then be_mac (b_src_mac_hi (bridge32_macs f e)) (b_src_mac_lo (bridge32_macs f e))
      else take 4 (be_mac (l2_src_mac_hi (l2_of f (form_of a type) e)) 0) @
           drop 4 (if form_of a type = F_ipv4 then be_mac 0 (ipv4_src_mac_lo f e) else h))"
proof -
  let ?t = "foe_type (p_fields env) (p_abi env) e"
  have d: "drop 4 (take 4 h @ x) = x" for x using assms by simp
  show ?thesis unfolding entry_macs_def Let_def smac_index pick_slot
    by (cases "?t = TYPE_BRIDGE (p_abi env)"; cases "form_of (p_abi env) ?t = F_ipv4";
        cases "?t = TYPE_IPV6_ROUTE_3T (p_abi env) \<or> ?t = TYPE_IPV6_ROUTE_5T (p_abi env) \<or> ?t = TYPE_IPV6_6RD (p_abi env)")
      (simp_all only: split_beta d if_True if_False fst_conv snd_conv insert_iff empty_iff simp_thms)
qed

lemma entry_macs_len:
  assumes "length h = 6" and "macs_wf tbl"
  shows "length (fst (entry_macs env tbl e h)) = 6"
proof -
  have "slot < 15 \<Longrightarrow> unat (slot :: u32) < 16" for slot by (simp add: word_less_nat_alt)
  then show ?thesis using assms by (simp add: entry_macs_fst macs_wf_def be_mac_def Let_def)
qed

lemma entry_macs_src:
  assumes "length h = 6" and "flow_src env tbl e = Some m"
  shows "fst (entry_macs env tbl e h) = m"
  using assms unfolding entry_macs_fst [OF assms(1)] flow_src_def Let_def
  by (auto simp: be_mac_def split: if_splits)

context foe_engine
begin

text \<open>The loop reaches the entries up to the first that cannot be read.\<close>

lemma mac_loop:
  assumes "\<forall>i d. fst (get_entry env i d) = None \<longleftrightarrow> i \<in> U" and "macs_wf (shnkTbl s)" and "length h = 6" and "distinct is"
    and "clean_mac_loop env mac mt is h s = (r, s')"
  shows "r = (if set is \<inter> U = {} then 0 else - 1)" and "lan_ifindex s' = lan_ifindex s" and "shnkTbl s' = shnkTbl s"
    and "if j \<in> set (takeWhile (\<lambda>i. i \<notin> U) is) \<and> j < sram_entries env \<and> bound (hw (pdev s) j)
         then mac_result env (shnkTbl s) mt mac (hw (pdev s) j) (hw (pdev s') j)
         else hw (pdev s') j = hw (pdev s) j"
proof -
  have "r = (if set is \<inter> U = {} then 0 else - 1) \<and> lan_ifindex s' = lan_ifindex s \<and> shnkTbl s' = shnkTbl s \<and>
    (if j \<in> set (takeWhile (\<lambda>i. i \<notin> U) is) \<and> j < sram_entries env \<and> bound (hw (pdev s) j)
     then mac_result env (shnkTbl s) mt mac (hw (pdev s) j) (hw (pdev s') j)
     else hw (pdev s') j = hw (pdev s) j)"
    using assms(2-5)
  proof (induction "is" arbitrary: h s)
    case Nil then show ?case by simp
  next
    case (Cons i "is")
    obtain x s1 where f: "fetch env i s = (x, s1)" by (cases "fetch env i s")
    note F = fetch_hw [OF f] and N = fetch_None [OF assms(1) f]
    show ?case
    proof (cases "i \<in> U")
      case True with N F Cons.prems show ?thesis by (auto simp: f)
    next
      case False
      with N F have x: "x = Some (hw (pdev s) i)" by auto
      let ?e = "hw (pdev s) i"
      obtain src dst where m: "entry_macs env (shnkTbl s1) ?e h = (src, dst)" by (rule prod.exhaust)
      define h' where "h' = (if bound ?e then src else h)"
      define s2 where "s2 = (if bound ?e \<and> mac_hit mt mac src dst then on_dev (airoha_ppe_clear_sram_table_flow env i) s1 else s1)"
      have run: "clean_mac_loop env mac mt is h' s2 = (r, s')" using Cons.prems(4) by (auto simp: f x m Let_def h'_def s2_def split: if_splits)
      have m': "entry_macs env (shnkTbl s) ?e h = (src, dst)" using m F(4) by simp
      have len: "length h' = 6" using entry_macs_len [OF Cons.prems(2,1), of env ?e] Cons.prems(2) by (simp add: h'_def m')
      have tb: "shnkTbl s2 = shnkTbl s" "lan_ifindex s2 = lan_ifindex s" using F(3,4) by (simp_all add: s2_def on_dev_def)
      have dst: "dst = flow_dest env ?e" using entry_macs_dest [of env "shnkTbl s1" ?e h] m by simp
      have src: "flow_src env (shnkTbl s) ?e = Some z \<Longrightarrow> src = z" for z
        using entry_macs_src [OF Cons.prems(2), of env "shnkTbl s"] m F(4) by (metis fst_conv)
      have here: "if i < sram_entries env \<and> bound ?e then mac_result env (shnkTbl s) mt mac ?e (hw (pdev s2) i) else hw (pdev s2) i = ?e"
        using F(1) src dst
        by (cases "flow_src env (shnkTbl s) ?e"; cases mt)
          (auto simp: s2_def on_dev_def clear_flow_hw mac_result_def mac_hit_def)
      have rest: "hw (pdev s2) j = hw (pdev s) j" if "j \<noteq> i" for j
        using F(1) that by (simp add: s2_def on_dev_def clear_flow_hw)
      have IH: "r = (if set is \<inter> U = {} then 0 else - 1) \<and> lan_ifindex s' = lan_ifindex s \<and> shnkTbl s' = shnkTbl s \<and>
          (if j \<in> set (takeWhile (\<lambda>i. i \<notin> U) is) \<and> j < sram_entries env \<and> bound (hw (pdev s2) j)
           then mac_result env (shnkTbl s) mt mac (hw (pdev s2) j) (hw (pdev s') j)
           else hw (pdev s') j = hw (pdev s2) j)"
        using Cons.IH [OF _ len _ run] Cons.prems(1,3) unfolding tb by simp
      show ?thesis
      proof (cases "j = i")
        case True
        then have "j \<notin> set (takeWhile (\<lambda>i. i \<notin> U) is)" using Cons.prems(3) by (auto dest: set_takeWhileD)
        with IH here True False show ?thesis by (simp split: if_splits)
      next
        case ne: False
        with IH False show ?thesis unfolding rest [OF ne] by simp
      qed
    qed
  qed
  then show "r = (if set is \<inter> U = {} then 0 else - 1)" "lan_ifindex s' = lan_ifindex s" "shnkTbl s' = shnkTbl s"
    "if j \<in> set (takeWhile (\<lambda>i. i \<notin> U) is) \<and> j < sram_entries env \<and> bound (hw (pdev s) j)
     then mac_result env (shnkTbl s) mt mac (hw (pdev s) j) (hw (pdev s') j)
     else hw (pdev s') j = hw (pdev s) j" by blast+
qed

end

section \<open>What a request removes\<close>

text \<open>The entries a request names, for the requests that delete entries by a sweep over the whole table; the
  port and channel request and the port request name nothing when their arguments are refused.\<close>

definition request_names :: "('e, 'd) ppe_env \<Rightarrow> (nat \<Rightarrow> int option) \<Rightarrow> shrink_slot list \<Rightarrow> clean_work \<Rightarrow> (nat \<Rightarrow> 'e \<Rightarrow> int \<Rightarrow> bool) option" where
  "request_names env devs tbl w =
     (case w of
        CLEAN_BY_GEMPORT g \<Rightarrow> Some (\<lambda>_ e _. gemport_names env g e)
      | CLEAN_BY_CHANNEL c \<Rightarrow> Some (\<lambda>_ e _. channel_names env c e)
      | CLEAN_BY_TYPE t \<Rightarrow> Some (\<lambda>_ e _. type_names env t e)
      | CLEAN_BY_IP ip \<Rightarrow> Some (\<lambda>_ e _.
          (case entry_ips env tbl e (0, 0) of None \<Rightarrow> False
           | Some (ip1, ip2, ip3, ip4) \<Rightarrow> ip = ip1 \<or> ip = ip2 \<or> ip = ip3 \<or> ip = ip4))
      | CLEAN_MULTICAST \<Rightarrow> Some (\<lambda>_ e _. type_names env HWNAT_OFF_MUL4 e \<or> type_names env HWNAT_OFF_MUL6 e)
      | CLEAN_BY_LANDEV dev \<Rightarrow>
          (case dev of None \<Rightarrow> Some (\<lambda>_ _ _. False)
           | Some p \<Rightarrow> map_option (\<lambda>k _ _ own. own = k) (devs p))
      | CLEAN_BY_FPORT_AND_CHANNEL p c \<Rightarrow> Some (\<lambda>_ e _. fport_channel_ok (p_abi env) p c \<and> fport_names env p c e)
      | CLEAN_BY_PORT sp dp \<Rightarrow> Some (\<lambda>_ e _. port_names env sp dp e)
      | CLEAN_BY_MAC mt mac \<Rightarrow> None
      | CLEAN_TABLE \<Rightarrow> None)"

lemma port_names_zero: "\<not> port_names env 0 0 e"
  by (simp add: port_names_def split: option.splits)

lemma reached: "j \<in> set (takeWhile (\<lambda>i. i \<notin> U) [0..<n]) \<longleftrightarrow> j < n \<and> (\<forall>i\<le>j. i \<notin> U)"
proof (induction n)
  case (Suc n)
  show ?case
  proof (cases "\<forall>i<n. i \<notin> U")
    case True
    then have "takeWhile (\<lambda>i. i \<notin> U) [0..<Suc n] = [0..<n] @ (if n \<in> U then [] else [n])" by (auto simp: takeWhile_append)
    with True show ?thesis by (auto simp: less_Suc_eq order.strict_iff_order)
  next
    case False
    then obtain m where m: "m < n" "m \<in> U" by auto
    then have "takeWhile (\<lambda>i. i \<notin> U) [0..<Suc n] = takeWhile (\<lambda>i. i \<notin> U) [0..<n]" by (simp add: takeWhile_append1)
    moreover have "\<not> (\<forall>i\<le>n. i \<notin> U)" using m by (meson less_imp_le)
    ultimately show ?thesis using Suc by (auto simp: less_Suc_eq)
  qed
qed simp

context foe_engine
begin

lemma perform_swept:
  assumes "\<forall>i d. fst (get_entry env i d) = None \<longleftrightarrow> i \<in> U" and "glb_ok env"
    and "request_names env devs (shnkTbl s) w = Some names"
    and ip: "\<And>a. w = CLEAN_BY_IP a \<Longrightarrow> \<forall>i<total_entries env. tunnel_ok (hw (pdev s) i)"
  shows "\<exists>s'. perform env devs w s = Some s' \<and> swept U names (total_entries env) s s'"
proof -
  note S = sweep_swept [OF assms(1)] and D = perform_def request_names_def
  have no: "swept U (\<lambda>_ _ _. False) (total_entries env) s s" by (rule swept_refl)
  show ?thesis
  proof (cases w)
    case (CLEAN_BY_IP a)
    with fold_clean_ip [OF assms(1) ip [OF CLEAN_BY_IP], of a] assms(3) show ?thesis
      by (simp add: D airoha_ppe_clean_entry_by_ip_def ip_names_def)
  next
    case CLEAN_MULTICAST
    with swept_twice [OF S S] assms(3) show ?thesis
      by (auto simp: D airoha_ppe_clean_multicast_entry_def airoha_ppe_clean_entry_by_type_def)
  next
    case (CLEAN_BY_LANDEV dev)
    with assms S no show ?thesis
      by (auto simp: D airoha_ppe_clean_entry_by_landev_def landev_sweep sweep_def [symmetric] split: option.splits)
  next
    case (CLEAN_BY_FPORT_AND_CHANNEL p c)
    with assms S no show ?thesis
      by (cases "fport_channel_ok (p_abi env) p c") (auto simp: D airoha_ppe_clean_entry_by_fport_and_channel_def)
  next
    case (CLEAN_BY_PORT sp dp)
    with assms S no show ?thesis
      by (cases "sp = 0 \<and> dp = 0") (auto simp: D airoha_ppe_clean_entry_by_port_def port_names_zero)
  qed (use assms S in \<open>auto simp: D airoha_ppe_clean_entry_by_gemport_def airoha_ppe_clean_entry_by_channel_def
      airoha_ppe_clean_entry_by_type_def\<close>)
qed

end

text \<open>C16: a clean-up request removes exactly the flows it names. Whatever kind of sweep it is (GEM port,
  channel, traffic type, address, multicast, LAN device, port and channel, transport ports), after it
  every readable bound entry the request names is invalid in the engine and has no LAN owner, and
  every other entry, of the engine's memory or beyond, is as before; the request always completes.
  A request by address needs the tunnel entries to name slots of the shrink table, and a request by
  device needs the device to exist still.\<close>

theorem clean_requests_exact:
  assumes "foe_engine env hw stage foe_of word_of"
    and "\<forall>i d. fst (get_entry env i d) = None \<longleftrightarrow> i \<in> U" and "glb_ok env"
    and "request_names env devs (shnkTbl s) w = Some names"
    and "\<forall>a. w = CLEAN_BY_IP a \<longrightarrow> (\<forall>i<total_entries env.
        foe_type (p_fields env) (p_abi env) (hw (pdev s) i) = TYPE_IPV6_6RD (p_abi env) \<longrightarrow>
        FIELD_GET (FOE_TUNNEL_ID (p_abi env)) (data_of (p_fields env) F_ipv6 (hw (pdev s) i)) < 16)"
  shows "\<exists>s'. perform env devs w s = Some s' \<and> shnkTbl s' = shnkTbl s \<and>
     (\<forall>i. let e = hw (pdev s) i in
        if i < total_entries env \<and> i \<notin> U \<and> foe_state (p_fields env) (p_abi env) e = STATE_BIND (p_abi env) \<and>
           names i e (lan_ifindex s i)
        then foe_state (p_fields env) (p_abi env) (hw (pdev s') i) = STATE_INVALID (p_abi env) \<and> lan_ifindex s' i = 0
        else hw (pdev s') i = e \<and> lan_ifindex s' i = lan_ifindex s i)"
proof -
  have "\<exists>s'. perform env devs w s = Some s' \<and> foe_engine.swept env hw U names (total_entries env) s s'"
    using assms(5) by (intro foe_engine.perform_swept [OF assms(1-4)]) (simp add: foe_engine.tunnel_ok_def [OF assms(1)])
  then show ?thesis by (auto simp: foe_engine.swept_def [OF assms(1)] Let_def)
qed

text \<open>The sweep by MAC has a shorter reach than the others. It ends at the first entry that cannot be
  read, so no entry from there on is touched however well it matches; it never clears an entry
  outside the engine's own memory; below that it clears every bound entry whose destination or
  known source is the address asked for, and leaves the owners recorded for the entries as they
  were.\<close>

theorem clean_mac_scope:
  assumes "foe_engine env hw stage foe_of word_of"
    and "\<forall>i d. fst (get_entry env i d) = None \<longleftrightarrow> i \<in> U" and "macs_wf (shnkTbl s)"
  shows "\<exists>s'. perform env devs (CLEAN_BY_MAC mt mac) s = Some s' \<and> lan_ifindex s' = lan_ifindex s \<and>
     (\<forall>j. let e = hw (pdev s) j in
        if j < total_entries env \<and> j < sram_entries env \<and> (\<forall>i\<le>j. i \<notin> U) \<and>
           foe_state (p_fields env) (p_abi env) e = STATE_BIND (p_abi env)
        then mac_result env (shnkTbl s) mt mac e (hw (pdev s') j)
        else hw (pdev s') j = e)"
proof -
  obtain r s' where c: "clean_mac_loop env mac mt [0..<total_entries env] (replicate 6 0) s = (r, s')" by (rule prod.exhaust)
  note L = foe_engine.mac_loop [OF assms(1-3) length_replicate distinct_upt c, unfolded reached]
  have "perform env devs (CLEAN_BY_MAC mt mac) s = Some s'"
    by (simp add: perform_def airoha_ppe_clean_entry_by_mac_def airoha_ppe_clean_entry_by_mac_common_def c)
  moreover have "if j < total_entries env \<and> j < sram_entries env \<and> (\<forall>i\<le>j. i \<notin> U) \<and>
        foe_state (p_fields env) (p_abi env) (hw (pdev s) j) = STATE_BIND (p_abi env)
      then mac_result env (shnkTbl s) mt mac (hw (pdev s) j) (hw (pdev s') j) else hw (pdev s') j = hw (pdev s) j" for j
    using L(4) [of j] by (auto split: if_splits)
  ultimately show ?thesis using L(2) unfolding Let_def by blast
qed

end
