(* ===== verification/PpeQueue.thy ===== *)
theory PpeQueue
  imports PpeCleanProps
begin

text \<open>
  The clean-up requests in action: concrete sweeps, and the work queue as a transition system. Callers in
  any order submit requests through the hooks, allocations fail or succeed, and the worker performs one
  request at a time, each under the set of network devices that exist at that moment.
\<close>

section \<open>Sweeps over a small table\<close>

definition flow_words :: "u32 \<Rightarrow> u32 \<Rightarrow> u32 \<Rightarrow> u32 list" where
  "flow_words ports dmac_hi dmac_lo = 0x20000000 # 0 # 0 # ports # replicate 8 0 @ [dmac_hi, dmac_lo] @ replicate 6 0"

definition flow_table :: "foe_box ppe" where
  "flow_table =
     \<lparr>pdev = \<lparr>b_mem = (\<lambda>i. flow_words 0x00500007 0x0A000001 0x00020000),
              b_sram = (\<lambda>i. if i = 2 then flow_words 0x00160016 0x0A000001 0x00030000 else flow_words 0x00500007 0x0A000001 0x00020000),
              b_port = (\<lambda>_. 0), b_upd = (\<lambda>_. 0)\<rparr>,
      lan_ifindex = (\<lambda>_. 9), shnkTbl = replicate 16 zero_slot\<rparr>"

lemma small_engine: "foe_engine (box_env 4 dead) (box_hw 4) (\<lambda>d p k. b_port d (box_ram p k)) (\<lambda>ws. ws) (\<lambda>e k. e ! k)"
  by (rule box_engine) simp

lemma box_dead: "\<forall>i d. fst (get_entry (box_env n dead) i d) = None \<longleftrightarrow> i \<in> set dead"
  by (simp add: box_env_def)

lemma box_simps:
  "p_fields (box_env n dead) = box_fields" "p_abi (box_env n dead) = box_abi" "glb_ok (box_env n dead)"
  "total_entries (box_env n dead) = n + 2" "sram_entries (box_env n dead) = n"
  by (simp_all add: box_env_def)

text \<open>Port 80 names the flows 0, 1 and 3 of the engine's memory and 4 and 5 beyond it; flow 1 cannot be read.\<close>

theorem clean_requests_exact_witness:
  "\<exists>s'. perform (box_env 4 [1]) (\<lambda>_. None) (CLEAN_BY_PORT 80 0) flow_table = Some s' \<and>
     foe_state box_fields box_abi (box_hw 4 (pdev s') 0) = STATE_INVALID box_abi \<and> lan_ifindex s' 0 = 0 \<and>
     foe_state box_fields box_abi (box_hw 4 (pdev s') 4) = STATE_INVALID box_abi \<and>
     box_hw 4 (pdev s') 1 = box_hw 4 (pdev flow_table) 1 \<and> box_hw 4 (pdev s') 2 = box_hw 4 (pdev flow_table) 2 \<and>
     lan_ifindex s' 2 = 9"
proof -
  let ?n = "\<lambda>_ e _. port_names (box_env 4 [1]) 80 0 e" and ?e = "\<lambda>i. box_hw 4 (pdev flow_table) i"
  have r: "request_names (box_env 4 [1]) (\<lambda>_. None) (shnkTbl flow_table) (CLEAN_BY_PORT 80 0) = Some ?n"
    by (simp add: request_names_def)
  obtain s' where s': "perform (box_env 4 [1]) (\<lambda>_. None) (CLEAN_BY_PORT 80 0) flow_table = Some s'"
    "\<And>i. if i < 4 + 2 \<and> i \<notin> set [1] \<and> foe_state box_fields box_abi (?e i) = STATE_BIND box_abi \<and> port_names (box_env 4 [1]) 80 0 (?e i)
      then foe_state box_fields box_abi (box_hw 4 (pdev s') i) = STATE_INVALID box_abi \<and> lan_ifindex s' i = 0
      else box_hw 4 (pdev s') i = ?e i \<and> lan_ifindex s' i = lan_ifindex flow_table i"
    using clean_requests_exact [OF small_engine box_dead box_simps(3) r, unfolded box_simps Let_def] by blast
  have b: "foe_state box_fields box_abi (?e 0) = STATE_BIND box_abi" "foe_state box_fields box_abi (?e 4) = STATE_BIND box_abi"
    "port_names (box_env 4 [1]) 80 0 (?e 0)" "port_names (box_env 4 [1]) 80 0 (?e 4)" "\<not> port_names (box_env 4 [1]) 80 0 (?e 2)"
    by code_simp+
  have "lan_ifindex flow_table 2 = 9" by (simp add: flow_table_def)
  with s'(1) s'(2) [of 0] s'(2) [of 4] s'(2) [of 1] s'(2) [of 2] b show ?thesis by simp
qed

text \<open>The flows 0 and 3 go to the same station; flow 1 cannot be read, so only flow 0 is cleared.\<close>

theorem clean_mac_scope_witness:
  "\<exists>s'. perform (box_env 4 [1]) (\<lambda>_. None) (CLEAN_BY_MAC DST_MAC [0x0A, 0, 0, 1, 0, 2]) flow_table = Some s' \<and>
     box_hw 4 (pdev s') 0 = replicate 20 0 \<and> box_hw 4 (pdev s') 3 = box_hw 4 (pdev flow_table) 3 \<and>
     flow_dest (box_env 4 [1]) (box_hw 4 (pdev flow_table) 3) = [0x0A, 0, 0, 1, 0, 2]"
proof -
  let ?e = "\<lambda>i. box_hw 4 (pdev flow_table) i" and ?mac = "[0x0A, 0, 0, 1, 0, 2] :: u8 list"
  have w: "macs_wf (shnkTbl flow_table)" by (simp add: macs_wf_def flow_table_def zero_slot_def nth_replicate)
  obtain s' where s': "perform (box_env 4 [1]) (\<lambda>_. None) (CLEAN_BY_MAC DST_MAC ?mac) flow_table = Some s'"
    "\<And>j. if j < 4 + 2 \<and> j < 4 \<and> (\<forall>i\<le>j. i \<notin> set [1]) \<and> foe_state box_fields box_abi (?e j) = STATE_BIND box_abi
      then mac_result (box_env 4 [1]) (shnkTbl flow_table) DST_MAC ?mac (?e j) (box_hw 4 (pdev s') j)
      else box_hw 4 (pdev s') j = ?e j"
    using clean_mac_scope [OF small_engine box_dead w, unfolded box_simps Let_def] by blast
  have b: "foe_state box_fields box_abi (?e 0) = STATE_BIND box_abi" "flow_dest (box_env 4 [1]) (?e 0) = ?mac"
    "flow_dest (box_env 4 [1]) (?e 3) = ?mac"
    by code_simp+
  have z: "zeroed (p_fields (box_env 4 [1])) = replicate 20 0" by (simp add: box_simps box_fields_def)
  have "\<not> (\<forall>i\<le>3 :: nat. i \<notin> set [1])" by auto
  then have "box_hw 4 (pdev s') 3 = ?e 3" using s'(2) [of 3] by auto
  moreover have "box_hw 4 (pdev s') 0 = replicate 20 0"
    using s'(2) [of 0] b unfolding mac_result_def z by (auto simp: mac_hit_def split: option.splits)
  ultimately show ?thesis using s'(1) b by blast
qed

section \<open>The queue\<close>

text \<open>\<open>clean_run env s0 acc log s\<close>: from \<open>s0\<close> the driver reaches \<open>s\<close> having accepted the requests \<open>acc\<close> and performed
  those of \<open>log\<close>, each with the devices of its time.\<close>

inductive clean_run :: "('e, 'd) ppe_env \<Rightarrow> 'd clean \<Rightarrow> clean_work list \<Rightarrow> ((nat \<Rightarrow> int option) \<times> clean_work) list \<Rightarrow> 'd clean \<Rightarrow> bool"
  for env s0 where
  cr_boot: "clean_run env s0 [] [] (airoha_ppe_hook_init True s0)"
| cr_ask: "clean_run env s0 acc log s \<Longrightarrow> clean_entry_hook (p_abi env) mem1 mem2 w s = Some (r, s') \<Longrightarrow>
     clean_run env s0 (if r = 0 then acc @ [w] else acc) log s'"
| cr_work: "clean_run env s0 acc log s \<Longrightarrow> clean_entry_wq s = Some (w # ws) \<Longrightarrow> run_work env devs s = Some s' \<Longrightarrow>
     clean_run env s0 acc (log @ [(devs, w)]) s'"

fun performs :: "('e, 'd) ppe_env \<Rightarrow> ((nat \<Rightarrow> int option) \<times> clean_work) list \<Rightarrow> 'd ppe \<Rightarrow> 'd ppe option" where
  "performs env [] e = Some e"
| "performs env ((devs, w) # ws) e = Option.bind (perform env devs w e) (performs env ws)"

lemma performs_append: "performs env (xs @ ys) e = Option.bind (performs env xs e) (performs env ys)"
  by (induction env xs e rule: performs.induct) (auto simp: bind_eq_None_conv split: bind_splits)

definition queued :: "clean_work list \<Rightarrow> int" where
  "queued ws = sum_list (map block_count ws)"

lemma queued_simps [simp]: "queued [] = 0" "queued (w # ws) = block_count w + queued ws" "queued (xs @ ys) = queued xs + queued ys"
  by (simp_all add: queued_def)

lemma ask_cases:
  assumes "clean_entry_hook a mem1 mem2 w s = Some (r, s')"
  shows "r \<noteq> 0 \<and> s' = s \<or>
    (\<exists>ws. r = 0 \<and> clean_entry_wq s = Some ws \<and> s' = s\<lparr>clean_entry_wq := Some (ws @ [w]), blocks := blocks s + block_count w\<rparr>)"
  using assms
  by (auto simp: clean_entry_hook_def queue_clean_entry_work_def split: clean_work.splits if_splits option.splits)

lemma work_cases:
  assumes "clean_entry_wq s = Some (w # ws)" and "run_work env devs s = Some s'"
  shows "\<exists>e. perform env devs w (engine s) = Some e \<and> s' = s\<lparr>clean_entry_wq := Some ws, engine := e, blocks := blocks s - block_count w\<rparr>"
  using assms by (auto simp: run_work_def clean_entry_work_func_def split: option.splits)

lemma drain_performs:
  "drain env devs ws s =
     map_option (\<lambda>e. s\<lparr>engine := e, blocks := blocks s - queued ws\<rparr>) (performs env (map (Pair devs) ws) (engine s))"
  by (induction env devs ws s rule: drain.induct) (auto simp: clean_entry_work_func_def diff_diff_eq split: option.splits)



section \<open>Limits\<close>

text \<open>A request by device carries the bare address of the device. When it is performed after the device has gone
  and a readable bound flow exists, looking at the device has no defined result.\<close>

lemma landev_after_device:
  assumes "fetch env i s = (Some e, s1)" and "foe_state (p_fields env) (p_abi env) e = STATE_BIND (p_abi env)"
  shows "landev_loop env None (i # is) s = None"
  using assms by simp

text \<open>The result of creating the queue is not looked at: when it fails the hooks are installed all the same,
  and the first request that gets its memory has no defined result.\<close>

lemma queue_missing:
  assumes "w = CLEAN_TABLE"
  shows "clean_hooks (airoha_ppe_hook_init False s)" and "clean_entry_hook a True mem2 w (airoha_ppe_hook_init False s) = None"
  using assms by (simp_all add: airoha_ppe_hook_init_def clean_entry_hook_def queue_clean_entry_work_def has_data_def)

end
