(* ===== verification/FeChannel.thy ===== *)
theory FeChannel
  imports Prelude
begin

text \<open>
  Channel control of the frame engine, \<^verbatim>\<open>airoha/arht_fe.c\<close> as it is built here (none of the
  \<^verbatim>\<open>TCSUPPORT_CPU\<close> switches is set and \<^verbatim>\<open>isEN751221\<close> is zero): enabling channels, retiring one or all of a
  port's channels, and dropping what is queued. Registers are reached through the bus; the release and
  channel-valid registers are driven by the hardware and may read as anything. \<open>fe_mdelay\<close> is the passing
  of a millisecond. A channel number is below 32; shifting by more is undefined in C.
\<close>

section \<open>Registers\<close>

datatype FE_Gdma_Sel = FE_GDM_SEL_GDMA1 | FE_GDM_SEL_GDMA2 | FE_GDM_SEL_GDMA3 | FE_GDM_SEL_GDMA4

datatype FE_Cdma_Sel = FE_CDM_SEL_CDMA1 | FE_CDM_SEL_CDMA2

datatype FE_TXRX_Sel = FE_GDM_SEL_TX | FE_GDM_SEL_RX

record 'd fe_env =
  fe_bus :: "'d bus"
  fe_mdelay :: "'d \<Rightarrow> 'd"

abbreviation (input) GDMA1_TXCHN_EN :: u32 where "GDMA1_TXCHN_EN \<equiv> 0x524"
abbreviation (input) GDMA1_RXCHN_EN :: u32 where "GDMA1_RXCHN_EN \<equiv> 0x528"
abbreviation (input) GDMA2_TXCHN_EN :: u32 where "GDMA2_TXCHN_EN \<equiv> 0x1524"
abbreviation (input) GDMA2_RXCHN_EN :: u32 where "GDMA2_RXCHN_EN \<equiv> 0x1528"
abbreviation (input) CDMA1_HWF_CHN_EN :: u32 where "CDMA1_HWF_CHN_EN \<equiv> 0x40C"
abbreviation (input) CDMA2_HWF_CHN_EN :: u32 where "CDMA2_HWF_CHN_EN \<equiv> 0x140C"
abbreviation (input) GDMA1_CHN_RLS :: u32 where "GDMA1_CHN_RLS \<equiv> 0x520"
abbreviation (input) GDMA2_CHN_RLS :: u32 where "GDMA2_CHN_RLS \<equiv> 0x1520"
abbreviation (input) GDMA2_LPBP_CFG :: u32 where "GDMA2_LPBP_CFG \<equiv> 0x151C"
abbreviation (input) GDMA2_FWD_CFG :: u32 where "GDMA2_FWD_CFG \<equiv> 0x1500"
abbreviation (input) QDMA_GLB_CFG :: u32 where "QDMA_GLB_CFG \<equiv> 0x5004"
abbreviation (input) FE_PROBE_H :: u32 where "FE_PROBE_H \<equiv> 0x134"
abbreviation (input) GDMA_MISC_CFG :: u32 where "GDMA_MISC_CFG \<equiv> 0x148"

text \<open>Both valid registers are defined from the base of the first port.\<close>

abbreviation (input) GDMA1_TX_CHN_VLD :: u32 where "GDMA1_TX_CHN_VLD \<equiv> 0x570"
abbreviation (input) GDMA2_TX_CHN_VLD :: u32 where "GDMA2_TX_CHN_VLD \<equiv> 0x570"

abbreviation (input) GDMA_CHN_RLS_TIMEOUT :: nat where "GDMA_CHN_RLS_TIMEOUT \<equiv> 10"

definition chn_bit :: "u32 \<Rightarrow> u32" where
  "chn_bit channel = push_bit (unat channel) 1"

definition rls_cmd :: "u32 \<Rightarrow> u32" where
  "rls_cmd channel = push_bit 4 channel OR 1"

definition fe_rr :: "'d fe_env \<Rightarrow> u32 \<Rightarrow> 'd \<Rightarrow> u32 \<times> 'd" where
  "fe_rr env a d = bus_rr (fe_bus env) a d"

definition fe_wr :: "'d fe_env \<Rightarrow> u32 \<Rightarrow> u32 \<Rightarrow> 'd \<Rightarrow> 'd" where
  "fe_wr env a v d = bus_wr (fe_bus env) a v d"

section \<open>Channel enable\<close>

definition chn_en_reg :: "FE_Gdma_Sel \<Rightarrow> FE_TXRX_Sel \<Rightarrow> u32" where
  "chn_en_reg gdm_sel txrx_sel =
     (if gdm_sel = FE_GDM_SEL_GDMA1
      then (if txrx_sel = FE_GDM_SEL_TX then GDMA1_TXCHN_EN else GDMA1_RXCHN_EN)
      else (if txrx_sel = FE_GDM_SEL_TX then GDMA2_TXCHN_EN else GDMA2_RXCHN_EN))"

definition fe_api_set_channel_enable :: "'d fe_env \<Rightarrow> FE_Gdma_Sel \<Rightarrow> FE_TXRX_Sel \<Rightarrow> bool \<Rightarrow> u32 \<Rightarrow> 'd \<Rightarrow> int \<times> 'd" where
  "fe_api_set_channel_enable env gdm_sel txrx_sel enable channel d =
     (let offset = chn_en_reg gdm_sel txrx_sel;
          (v, d) = fe_rr env offset d;
          v = (if \<not> enable then v AND NOT (chn_bit channel) else v OR chn_bit channel)
      in (0, fe_wr env offset v d))"

definition hwf_reg :: "FE_Cdma_Sel \<Rightarrow> u32" where
  "hwf_reg cdm_sel = (case cdm_sel of FE_CDM_SEL_CDMA1 \<Rightarrow> CDMA1_HWF_CHN_EN | FE_CDM_SEL_CDMA2 \<Rightarrow> CDMA2_HWF_CHN_EN)"

text \<open>\<open>enable\<close> is the enumeration's value. The register is read two more times for the messages.\<close>

definition fe_set_hwfwd_channel :: "'d fe_env \<Rightarrow> FE_Cdma_Sel \<Rightarrow> u32 \<Rightarrow> u32 \<Rightarrow> 'd \<Rightarrow> int \<times> 'd" where
  "fe_set_hwfwd_channel env cdm_sel channel enable d =
     (let (_, d) = fe_rr env (hwf_reg cdm_sel) d;
          (v, d) = fe_rr env (hwf_reg cdm_sel) d;
          d = fe_wr env (hwf_reg cdm_sel) ((v AND NOT (chn_bit channel)) OR push_bit (unat channel) enable) d;
          (_, d) = fe_rr env (hwf_reg cdm_sel) d
      in (0, d))"

definition fe_get_hwfwd_channel :: "'d fe_env \<Rightarrow> FE_Cdma_Sel \<Rightarrow> u32 \<Rightarrow> 'd \<Rightarrow> u32 \<times> 'd" where
  "fe_get_hwfwd_channel env cdm_sel channel d =
     (let (v, d) = fe_rr env (hwf_reg cdm_sel) d in (drop_bit (unat channel) (v AND chn_bit channel), d))"

section \<open>Releasing a channel\<close>

definition rls_reg :: "FE_Gdma_Sel \<Rightarrow> u32 option" where
  "rls_reg gdm_sel =
     (case gdm_sel of FE_GDM_SEL_GDMA1 \<Rightarrow> Some GDMA1_CHN_RLS | FE_GDM_SEL_GDMA2 \<Rightarrow> Some GDMA2_CHN_RLS | _ \<Rightarrow> None)"

definition fe_api_set_chn_retire_action :: "'d fe_env \<Rightarrow> FE_Gdma_Sel \<Rightarrow> u32 \<Rightarrow> 'd \<Rightarrow> int \<times> 'd" where
  "fe_api_set_chn_retire_action env gdm_sel chn d =
     (case rls_reg gdm_sel of
        None \<Rightarrow> (- 1, d)
      | Some offset \<Rightarrow> (0, fe_wr env offset (rls_cmd (chn AND 0x1f)) d))"

definition fe_api_set_chn_retire_done :: "'d fe_env \<Rightarrow> FE_Gdma_Sel \<Rightarrow> u32 \<Rightarrow> 'd \<Rightarrow> int \<times> 'd" where
  "fe_api_set_chn_retire_done env gdm_sel chn d =
     (case rls_reg gdm_sel of
        None \<Rightarrow> (- 1, d)
      | Some offset \<Rightarrow>
          let (v, d) = fe_rr env offset d in
          if drop_bit 4 v AND 0x1f = chn AND 0x1f then (0, fe_wr env offset 0 d) else (- 1, d))"

text \<open>The condition of the waiting loops; the second register is read only when the first does not decide.\<close>

definition chn_busy :: "'d fe_env \<Rightarrow> u32 \<Rightarrow> u32 \<Rightarrow> u32 \<Rightarrow> 'd \<Rightarrow> bool \<times> 'd" where
  "chn_busy env reg reg2 channel d =
     (let (v, d) = fe_rr env reg d in
      if v AND 2 = 0 then (True, d)
      else let (w, d) = fe_rr env reg2 d in (w AND chn_bit channel \<noteq> 0, d))"

function retire_wait :: "'d fe_env \<Rightarrow> u32 \<Rightarrow> u32 \<Rightarrow> u32 \<Rightarrow> nat \<Rightarrow> 'd \<Rightarrow> nat \<times> 'd" where
  "retire_wait env reg reg2 channel v d =
     (let (busy, d) = chn_busy env reg reg2 channel d in
      if \<not> busy then (v, d)
      else if v < GDMA_CHN_RLS_TIMEOUT then retire_wait env reg reg2 channel (v + 1) (fe_mdelay env d)
      else (v + 1, d))"
  by pat_completeness auto

termination by (relation "measure (\<lambda>(_, _, _, _, v, _). 11 - v)") auto

definition cdm_of :: "FE_Gdma_Sel \<Rightarrow> FE_Cdma_Sel" where
  "cdm_of gdm_sel = (if gdm_sel = FE_GDM_SEL_GDMA1 then FE_CDM_SEL_CDMA1 else FE_CDM_SEL_CDMA2)"

abbreviation (input) FE_LINKDOWN :: u32 where "FE_LINKDOWN \<equiv> 1"

definition vld_reg :: "FE_Gdma_Sel \<Rightarrow> u32" where
  "vld_reg gdm_sel = (if gdm_sel = FE_GDM_SEL_GDMA1 then GDMA1_TX_CHN_VLD else GDMA2_TX_CHN_VLD)"

text \<open>Up to the first wait: forwarding of the channel and, when the link is down, all channels are turned off, what
  was set is kept, and the release command is given.\<close>

definition retire_begin :: "'d fe_env \<Rightarrow> FE_Gdma_Sel \<Rightarrow> u32 \<Rightarrow> u32 \<Rightarrow> u32 \<Rightarrow> 'd \<Rightarrow> (u32 \<times> u32 \<times> u32) \<times> 'd" where
  "retire_begin env gdm_sel reg channel mode d =
     (let txreg = chn_en_reg gdm_sel FE_GDM_SEL_TX; rxreg = chn_en_reg gdm_sel FE_GDM_SEL_RX;
          (_, d) = fe_rr env (vld_reg gdm_sel) d;
          (rxHwfwd, d) = fe_get_hwfwd_channel env (cdm_of gdm_sel) channel d;
          (_, d) = fe_set_hwfwd_channel env (cdm_of gdm_sel) channel 0 d;
          (txchn, rxchn, d) =
            (if mode = FE_LINKDOWN then
               let (txchn, d) = fe_rr env txreg d; (rxchn, d) = fe_rr env rxreg d;
                   d = fe_wr env txreg 0 d; d = fe_wr env rxreg 0 d
               in (txchn, rxchn, d)
             else (0, 0, d))
      in ((rxHwfwd, txchn, rxchn), fe_mdelay env (fe_wr env reg (rls_cmd channel) d)))"

definition fe_api_set_channel_retire :: "'d fe_env \<Rightarrow> FE_Gdma_Sel \<Rightarrow> u32 \<Rightarrow> u32 \<Rightarrow> 'd \<Rightarrow> int \<times> 'd" where
  "fe_api_set_channel_retire env gdm_sel channel mode d =
     (case rls_reg gdm_sel of
        None \<Rightarrow> (- 1, d)
      | Some reg \<Rightarrow>
          let txreg = chn_en_reg gdm_sel FE_GDM_SEL_TX; rxreg = chn_en_reg gdm_sel FE_GDM_SEL_RX;
              ((rxHwfwd, txchn, rxchn), d) = retire_begin env gdm_sel reg channel mode d;
              (v, d) = retire_wait env reg (vld_reg gdm_sel) channel 0 d;
              ret = (if GDMA_CHN_RLS_TIMEOUT \<le> v then - 1 else 0);
              d = fe_wr env reg 0 d;
              d = (if mode = FE_LINKDOWN then fe_wr env rxreg rxchn (fe_wr env txreg txchn d) else d);
              (_, d) = fe_set_hwfwd_channel env (cdm_of gdm_sel) channel rxHwfwd d
          in (ret, d))"

subsection \<open>Retiring with retries\<close>

text \<open>A channel must be seen idle ten times in a row.\<close>

fun idle_polls :: "'d fe_env \<Rightarrow> u32 \<Rightarrow> u32 \<Rightarrow> u32 \<Rightarrow> nat \<Rightarrow> 'd \<Rightarrow> bool \<times> 'd" where
  "idle_polls env reg reg2 chn 0 d = (True, d)"
| "idle_polls env reg reg2 chn (Suc n) d =
     (let (busy, d) = chn_busy env reg reg2 chn d in
      if busy then (False, d) else idle_polls env reg reg2 chn n d)"

function retire_retry :: "'d fe_env \<Rightarrow> u32 \<Rightarrow> u32 \<Rightarrow> u32 \<Rightarrow> nat \<Rightarrow> 'd \<Rightarrow> int \<times> 'd" where
  "retire_retry env reg reg2 chn rlsCnt d =
     (let d = fe_mdelay env d; rlsCnt = rlsCnt + 1 in
      if rlsCnt < GDMA_CHN_RLS_TIMEOUT then
        let (idle, d) = idle_polls env reg reg2 chn 10 d in
        if idle then (0, d) else retire_retry env reg reg2 chn rlsCnt d
      else (- 1, d))"
  by pat_completeness auto

termination by (relation "measure (\<lambda>(_, _, _, _, r, _). 10 - r)") auto

declare retire_wait.simps [simp del] retire_retry.simps [simp del]

definition fe_channel_retire_one :: "'d fe_env \<Rightarrow> FE_Gdma_Sel \<Rightarrow> u32 \<Rightarrow> 'd \<Rightarrow> int \<times> 'd" where
  "fe_channel_retire_one env idx chn d =
     (case rls_reg idx of
        None \<Rightarrow> (- 1, d)
      | Some reg \<Rightarrow>
          let chn = chn AND 0x1f;
              (ret, d) = retire_retry env reg (vld_reg idx) chn 0 (fe_wr env reg (rls_cmd chn) d)
          in (ret, fe_wr env reg 0 d))"

text \<open>All channels below \<open>channel\<close>, in two rounds; a failure in the second is reported with three registers.\<close>

definition retire_chn :: "'d fe_env \<Rightarrow> FE_Gdma_Sel \<Rightarrow> nat \<times> nat \<Rightarrow> 'd \<Rightarrow> 'd" where
  "retire_chn env gdm_sel = (\<lambda>(j, i) d.
     let (ret, d) = fe_channel_retire_one env gdm_sel (word_of_nat i) d in
     if ret = - 1 \<and> j = 1 then
       let (_, d) = fe_rr env (the (rls_reg gdm_sel)) d;
           (_, d) = fe_rr env (vld_reg gdm_sel) d;
           (_, d) = fe_rr env FE_PROBE_H d
       in d
     else d)"

definition fe_channel_retire :: "'d fe_env \<Rightarrow> FE_Gdma_Sel \<Rightarrow> u32 \<Rightarrow> 'd \<Rightarrow> int \<times> 'd" where
  "fe_channel_retire env gdm_sel channel d =
     (case rls_reg gdm_sel of
        None \<Rightarrow> (- 1, d)
      | Some reg \<Rightarrow>
          let txreg = chn_en_reg gdm_sel FE_GDM_SEL_TX; rxreg = chn_en_reg gdm_sel FE_GDM_SEL_RX;
              hwreg = hwf_reg (cdm_of gdm_sel);
              (txchn, d) = fe_rr env txreg d;
              (rxchn, d) = fe_rr env rxreg d;
              (hw, d) = fe_rr env hwreg d;
              d = fe_wr env hwreg 0 d;
              d = fe_wr env rxreg 0 d;
              d = fe_mdelay env (fe_wr env txreg 0 d);
              d = fold (retire_chn env gdm_sel) (List.product [0..<2] [0..<unat channel]) d;
              d = fe_wr env txreg txchn d;
              d = fe_wr env rxreg rxchn d
          in (0, fe_wr env hwreg hw d))"

section \<open>Dropping the queued packets\<close>

function drop_wait :: "'d fe_env \<Rightarrow> nat \<Rightarrow> 'd \<Rightarrow> 'd" where
  "drop_wait env v d =
     (let (w, d) = fe_rr env GDMA2_TX_CHN_VLD d in
      if w \<noteq> 0 \<and> v < 300 then drop_wait env (v + 1) (fe_mdelay env d) else d)"
  by pat_completeness auto

termination by (relation "measure (\<lambda>(_, v, _). 300 - v)") auto

declare drop_wait.simps [simp del]

definition fe_channel_drop :: "'d fe_env \<Rightarrow> 'd \<Rightarrow> int \<times> 'd" where
  "fe_channel_drop env d =
     (let (txchn, d) = fe_rr env GDMA2_TXCHN_EN d;
          (rxchn, d) = fe_rr env GDMA2_RXCHN_EN d;
          (hw, d) = fe_rr env CDMA2_HWF_CHN_EN d;
          d = fe_wr env GDMA2_TXCHN_EN 0xffff d;
          d = fe_wr env GDMA2_RXCHN_EN 0 d;
          d = fe_wr env CDMA2_HWF_CHN_EN 0 d;
          (gdma_lpbk_cfg, d) = fe_rr env GDMA2_LPBP_CFG d;
          (gdma_fwd_cfg, d) = fe_rr env GDMA2_FWD_CFG d;
          (qdma_glb_cfg, d) = fe_rr env QDMA_GLB_CFG d;
          d = fe_wr env GDMA2_LPBP_CFG 0x4007d003 d;
          d = fe_wr env GDMA2_FWD_CFG 0x03f17777 d;
          d = fe_wr env QDMA_GLB_CFG (qdma_glb_cfg OR 0x20000) d;
          d = drop_wait env 0 d;
          d = fe_wr env GDMA2_LPBP_CFG gdma_lpbk_cfg d;
          d = fe_wr env GDMA2_FWD_CFG gdma_fwd_cfg d;
          d = fe_wr env QDMA_GLB_CFG qdma_glb_cfg d;
          d = fe_wr env GDMA2_TXCHN_EN txchn d;
          d = fe_wr env GDMA2_RXCHN_EN rxchn d
      in (0, fe_wr env CDMA2_HWF_CHN_EN hw d))"

section \<open>The two entry points\<close>

text \<open>The device with the flag that marks a retirement in progress.\<close>

record 'd fe_dev =
  fdev :: 'd
  qdma_stop_flag :: int

definition fe_api_set_channel_retire_all :: "'d fe_env \<Rightarrow> int \<Rightarrow> FE_Gdma_Sel \<Rightarrow> u32 \<Rightarrow> 'd fe_dev \<Rightarrow> int \<times> 'd fe_dev" where
  "fe_api_set_channel_retire_all env channel_retire gdm_sel channel s =
     (let s = s\<lparr>qdma_stop_flag := 1\<rparr>;
          s = (if channel_retire \<noteq> 1 then s\<lparr>fdev := snd (fe_channel_drop env (fdev s))\<rparr>
               else s\<lparr>fdev := snd (fe_channel_retire env gdm_sel channel (fdev s))\<rparr>)
      in (0, s\<lparr>qdma_stop_flag := 0\<rparr>))"

definition fe_api_set_channel_retire_one :: "'d fe_env \<Rightarrow> FE_Gdma_Sel \<Rightarrow> u32 \<Rightarrow> 'd \<Rightarrow> int \<times> 'd" where
  "fe_api_set_channel_retire_one env gdm_sel channel d =
     (case rls_reg gdm_sel of
        None \<Rightarrow> (- 1, d)
      | Some _ \<Rightarrow>
          let hwreg = hwf_reg (cdm_of gdm_sel);
              (hw, d) = fe_rr env hwreg d;
              d = fe_mdelay env (fe_wr env hwreg (hw AND NOT (chn_bit channel)) d);
              (_, d) = fe_channel_retire_one env gdm_sel channel d
          in (0, fe_wr env hwreg hw d))"

section \<open>Other settings\<close>

definition len_reg :: "FE_Gdma_Sel \<Rightarrow> u32" where
  "len_reg gdm_sel =
     (case gdm_sel of FE_GDM_SEL_GDMA1 \<Rightarrow> 0x514 | FE_GDM_SEL_GDMA2 \<Rightarrow> 0x1514 | FE_GDM_SEL_GDMA3 \<Rightarrow> 0x1114 | FE_GDM_SEL_GDMA4 \<Rightarrow> 0x2614)"

definition fe_api_set_pkt_length :: "'d fe_env \<Rightarrow> FE_Gdma_Sel \<Rightarrow> u32 \<Rightarrow> u32 \<Rightarrow> 'd \<Rightarrow> int \<times> 'd" where
  "fe_api_set_pkt_length env gdm_sel length_long length_short d =
     (let (v, d) = fe_rr env (len_reg gdm_sel) d;
          v = (if length_long \<noteq> 0 then v AND 0x0000ffff else v);
          v = (if length_short \<noteq> 0 then v AND 0xffff0000 else v)
      in (0, fe_wr env (len_reg gdm_sel) (v OR (push_bit 16 length_long OR length_short)) d))"

definition fe_api_set_clear_mib :: "'d fe_env \<Rightarrow> FE_Gdma_Sel \<Rightarrow> FE_TXRX_Sel \<Rightarrow> 'd \<Rightarrow> int \<times> 'd" where
  "fe_api_set_clear_mib env gdm_sel txrx_sel d =
     (let a = (if gdm_sel = FE_GDM_SEL_GDMA1 then 0x5f0 else 0x15f0);
          (v, d) = fe_rr env a d
      in (0, fe_wr env a (v OR (if txrx_sel = FE_GDM_SEL_TX then 1 else 2)) d))"

abbreviation (input) FE_MISC_CONFIG_GPON :: u32 where "FE_MISC_CONFIG_GPON \<equiv> 0"

definition fe_api_set_gdma_misc_config :: "'d fe_env \<Rightarrow> FE_Gdma_Sel \<Rightarrow> u32 \<Rightarrow> 'd \<Rightarrow> int \<times> 'd" where
  "fe_api_set_gdma_misc_config env gdm_sel mode d =
     (0, if gdm_sel = FE_GDM_SEL_GDMA2
         then bus_rmw (fe_bus env) GDMA_MISC_CFG (if mode = FE_MISC_CONFIG_GPON then 0 else 2)
                (if mode = FE_MISC_CONFIG_GPON then 2 else 0) d
         else d)"

definition fe_api_set_ether_type :: "'d fe_env \<Rightarrow> nat \<Rightarrow> bool \<Rightarrow> bool \<Rightarrow> u32 \<Rightarrow> 'd \<Rightarrow> int \<times> 'd" where
  "fe_api_set_ether_type env index enable is_pppoe v d =
     (if 15 < index then (1, d)
      else
        let (w, d) = fe_rr env 0x284 d;
            bits = push_bit index 1 OR (if is_pppoe then push_bit (index + 16) 1 else 0);
            w = (if enable then w OR bits else w AND NOT bits);
            d = fe_wr env 0x284 w d;
            a = 0x290 + 4 * word_of_nat (index div 2);
            (t, d) = fe_rr env a d;
            t = (t AND NOT (push_bit (16 * (index mod 2)) 0xffff)) OR push_bit (16 * (index mod 2)) v
        in (0, fe_wr env a t d))"

end
