(* ===== verification/FeChannelProps.thy ===== *)
theory FeChannelProps
  imports FeChannel
begin

text \<open>
  What the channel operations leave behind, how long they take and what they answer. The locale \<open>fe_hw\<close>
  keeps the configuration registers apart from the four registers the hardware drives; \<open>fe_clock\<close> adds
  the time that passes.
\<close>

definition fe_status :: "u32 set" where
  "fe_status = {GDMA1_CHN_RLS, GDMA2_CHN_RLS, GDMA1_TX_CHN_VLD, FE_PROBE_H}"

text \<open>One channel's bit of a forwarding register, put and got.\<close>

definition hwf_put :: "u32 \<Rightarrow> u32 \<Rightarrow> u32 \<Rightarrow> u32" where
  "hwf_put h ch e = (h AND NOT (chn_bit ch)) OR push_bit (unat ch) e"

definition hwf_get :: "u32 \<Rightarrow> u32 \<Rightarrow> u32" where
  "hwf_get h ch = drop_bit (unat ch) (h AND chn_bit ch)"

lemma hwf_back [simp]: "hwf_put (hwf_put h ch 0) ch (hwf_get h ch) = h"
  by (rule bit_word_eqI) (auto simp: hwf_put_def hwf_get_def chn_bit_def bit_simps)

locale fe_hw =
  fixes env :: "'d fe_env" and cfg :: "'d \<Rightarrow> u32 \<Rightarrow> u32"
  assumes rr_cfg: "bus_rr (fe_bus env) a d = (v, d') \<Longrightarrow> cfg d' = cfg d \<and> (a \<notin> fe_status \<longrightarrow> v = cfg d a)"
    and wr_cfg: "cfg (bus_wr (fe_bus env) a v d) = (if a \<in> fe_status then cfg d else (cfg d)(a := v))"
    and rmw_cfg: "cfg (bus_rmw (fe_bus env) a m v d) = (if a \<in> fe_status then cfg d else (cfg d)(a := masked (cfg d a) m v))"
    and delay_cfg: "cfg (fe_mdelay env d) = cfg d"
begin

lemma rr_snd: "cfg (snd (fe_rr env a d)) = cfg d" and rr_val: "a \<notin> fe_status \<Longrightarrow> fst (fe_rr env a d) = cfg d a"
  using rr_cfg [of a d "fst (bus_rr (fe_bus env) a d)" "snd (bus_rr (fe_bus env) a d)"]
  by (simp_all add: fe_rr_def)

lemma wr: "cfg (fe_wr env a v d) = (if a \<in> fe_status then cfg d else (cfg d)(a := v))"
  by (simp add: fe_wr_def wr_cfg)

lemma busy_cfg: "cfg (snd (chn_busy env reg reg2 chn d)) = cfg d"
  by (simp add: chn_busy_def Let_def split_beta rr_snd)

lemma wait_cfg: "cfg (snd (retire_wait env reg reg2 chn v d)) = cfg d"
proof (induction "11 - v" arbitrary: v d rule: less_induct)
  case less
  then show ?case using busy_cfg [of reg reg2 chn d]
    by (subst retire_wait.simps) (auto simp: Let_def split_beta delay_cfg)
qed

lemma polls_cfg: "cfg (snd (idle_polls env reg reg2 chn n d)) = cfg d"
  by (induction n arbitrary: d) (simp_all add: Let_def split_beta busy_cfg)

lemma retry_cfg: "cfg (snd (retire_retry env reg reg2 chn r d)) = cfg d"
proof (induction "10 - r" arbitrary: r d rule: less_induct)
  case less
  then show ?case using polls_cfg [of reg reg2 chn 10]
    by (subst retire_retry.simps) (auto simp: Let_def split_beta delay_cfg)
qed

lemma drop_cfg: "cfg (drop_wait env v d) = cfg d"
proof (induction "300 - v" arbitrary: v d rule: less_induct)
  case less
  then show ?case by (subst drop_wait.simps) (auto simp: Let_def split_beta delay_cfg rr_snd)
qed

lemma set_hwfwd_cfg:
  "cfg (snd (fe_set_hwfwd_channel env c ch e d)) =
     (cfg d)(hwf_reg c := hwf_put (cfg d (hwf_reg c)) ch e)"
  by (cases c) (simp_all add: hwf_put_def fe_set_hwfwd_channel_def Let_def split_beta rr_snd rr_val wr hwf_reg_def fe_status_def)

lemma get_hwfwd:
  "cfg (snd (fe_get_hwfwd_channel env c ch d)) = cfg d"
  "fst (fe_get_hwfwd_channel env c ch d) = hwf_get (cfg d (hwf_reg c)) ch"
  by (cases c; simp add: hwf_get_def fe_get_hwfwd_channel_def Let_def split_beta rr_snd rr_val hwf_reg_def fe_status_def)+

lemma rls_status: "rls_reg g = Some reg \<Longrightarrow> reg \<in> fe_status"
  by (cases g) (auto simp: rls_reg_def fe_status_def)

lemma retire_one_cfg: "cfg (snd (fe_channel_retire_one env g ch d)) = cfg d"
  using rls_status [of g]
  by (auto simp: fe_channel_retire_one_def Let_def split_beta wr retry_cfg split: option.splits)

lemma retire_chn_cfg: "cfg (retire_chn env g ji d) = cfg d"
  by (cases ji) (simp add: retire_chn_def Let_def split_beta rr_snd retire_one_cfg)

lemma retire_fold_cfg: "cfg (fold (retire_chn env g) xs d) = cfg d"
  by (induction xs arbitrary: d) (simp_all add: retire_chn_cfg)

end

context fe_hw
begin

lemma retire_cfg: "cfg (snd (fe_api_set_channel_retire env g ch mode d)) = cfg d"
  by (cases g; cases "mode = FE_LINKDOWN")
    (simp_all add: fe_api_set_channel_retire_def retire_begin_def vld_reg_def rls_reg_def Let_def split_beta rr_snd rr_val wr set_hwfwd_cfg get_hwfwd wait_cfg
      delay_cfg chn_en_reg_def cdm_of_def hwf_reg_def fe_status_def fun_upd_twist fun_upd_idem)

lemma retire_port_cfg: "cfg (snd (fe_channel_retire env g ch d)) = cfg d"
  by (cases g)
    (simp_all add: fe_channel_retire_def rls_reg_def Let_def split_beta rr_snd rr_val wr delay_cfg retire_fold_cfg
      chn_en_reg_def cdm_of_def hwf_reg_def fe_status_def fun_upd_twist fun_upd_idem)

lemma drop_all_cfg: "cfg (snd (fe_channel_drop env d)) = cfg d"
  by (simp add: fe_channel_drop_def Let_def split_beta rr_snd rr_val wr drop_cfg fe_status_def fun_upd_twist fun_upd_idem)

lemma retire_one_api_cfg: "cfg (snd (fe_api_set_channel_retire_one env g ch d)) = cfg d"
  by (cases g)
    (simp_all add: fe_api_set_channel_retire_one_def rls_reg_def Let_def split_beta rr_snd rr_val wr delay_cfg retire_one_cfg
      cdm_of_def hwf_reg_def fe_status_def fun_upd_idem)

end

section \<open>Time\<close>

locale fe_clock = fe_hw +
  fixes clock :: "'a \<Rightarrow> nat"
  assumes rr_clock: "clock (snd (bus_rr (fe_bus env) a d)) = clock d"
    and wr_clock: "clock (bus_wr (fe_bus env) a v d) = clock d"
    and delay_clock: "clock (fe_mdelay env d) = Suc (clock d)"
begin

lemma rr_c: "clock (snd (fe_rr env a d)) = clock d" and wr_c: "clock (fe_wr env a v d) = clock d"
  by (simp_all add: fe_rr_def rr_clock fe_wr_def wr_clock)

lemma busy_c: "clock (snd (chn_busy env reg reg2 chn d)) = clock d"
  by (simp add: chn_busy_def Let_def split_beta rr_c)

lemma wait_c: "clock (snd (retire_wait env reg reg2 chn v d)) \<le> clock d + (10 - v)"
proof (induction "11 - v" arbitrary: v d rule: less_induct)
  case less
  let ?d = "fe_mdelay env (snd (chn_busy env reg reg2 chn d))"
  have "v < 10 \<Longrightarrow> clock (snd (retire_wait env reg reg2 chn (v + 1) ?d)) \<le> clock ?d + (10 - (v + 1))"
    by (rule less) simp
  then show ?case by (subst retire_wait.simps) (auto simp: Let_def split_beta delay_clock busy_c)
qed

lemma polls_c: "clock (snd (idle_polls env reg reg2 chn n d)) = clock d"
  by (induction n arbitrary: d) (simp_all add: Let_def split_beta busy_c)

lemma retry_c: "r < 10 \<Longrightarrow> clock (snd (retire_retry env reg reg2 chn r d)) \<le> clock d + (10 - r)"
proof (induction "10 - r" arbitrary: r d rule: less_induct)
  case less
  let ?d = "snd (idle_polls env reg reg2 chn 10 (fe_mdelay env d))"
  have "r + 1 < 10 \<Longrightarrow> clock (snd (retire_retry env reg reg2 chn (r + 1) ?d)) \<le> clock ?d + (10 - (r + 1))"
    by (rule less) simp_all
  then show ?case using less.prems
    by (subst retire_retry.simps) (auto simp: Let_def split_beta delay_clock polls_c simp del: idle_polls.simps)
qed

lemma drop_c: "clock (drop_wait env v d) \<le> clock d + (300 - v)"
proof (induction "300 - v" arbitrary: v d rule: less_induct)
  case less
  let ?d = "fe_mdelay env (snd (fe_rr env GDMA2_TX_CHN_VLD d))"
  have "v < 300 \<Longrightarrow> clock (drop_wait env (v + 1) ?d) \<le> clock ?d + (300 - (v + 1))"
    by (rule less) simp
  then show ?case by (subst drop_wait.simps) (auto simp: Let_def split_beta delay_clock rr_c)
qed

lemma hwfwd_c: "clock (snd (fe_set_hwfwd_channel env c ch e d)) = clock d" "clock (snd (fe_get_hwfwd_channel env c ch d)) = clock d"
  by (simp_all add: fe_set_hwfwd_channel_def fe_get_hwfwd_channel_def Let_def split_beta rr_c wr_c)

lemma one_c: "clock (snd (fe_channel_retire_one env g ch d)) \<le> clock d + 10"
  using retry_c [of 0]
  by (auto simp: fe_channel_retire_one_def Let_def split_beta wr_c split: option.splits) (metis wr_c)

lemma chn_c: "clock (retire_chn env g ji d) \<le> clock d + 10"
  using one_c by (cases ji) (simp add: retire_chn_def Let_def split_beta rr_c)

lemma fold_c: "clock (fold (retire_chn env g) xs d) \<le> clock d + 10 * length xs"
proof (induction xs arbitrary: d)
  case (Cons x xs)
  show ?case using Cons [of "retire_chn env g x d"] chn_c [of g x d] by simp
qed simp

lemma begin_c: "clock (snd (retire_begin env g reg ch mode d)) = clock d + 1"
  by (simp add: retire_begin_def Let_def split_beta rr_c wr_c hwfwd_c delay_clock)

lemma times:
  "clock (snd (fe_api_set_channel_retire env g ch mode d)) \<le> clock d + 11"
  "clock (snd (fe_channel_retire env g ch d)) \<le> clock d + (1 + 20 * unat ch)"
  "clock (snd (fe_channel_drop env d)) \<le> clock d + 300"
  "clock (snd (fe_api_set_channel_retire_one env g ch d)) \<le> clock d + 11"
proof -
  show "clock (snd (fe_api_set_channel_retire env g ch mode d)) \<le> clock d + 11"
    using order_trans [OF wait_c [of _ _ ch 0 "snd (retire_begin env g _ ch mode d)"], where z = "clock d + 11"]
    by (auto simp: begin_c fe_api_set_channel_retire_def Let_def split_beta wr_c hwfwd_c split: option.splits)
  have F: "clock (fold (retire_chn env g) (List.product [0..<2] [0..<unat ch]) x) \<le> clock x + 20 * unat ch" for x
    using fold_c [of g "List.product [0..<2] [0..<unat ch]" x] by (simp add: length_product)
  show "clock (snd (fe_channel_retire env g ch d)) \<le> clock d + (1 + 20 * unat ch)"
  proof (cases "rls_reg g")
    case (Some reg)
    show ?thesis by (simp add: fe_channel_retire_def Some Let_def split_beta wr_c rr_c)
        (rule order_trans [OF F], simp add: delay_clock wr_c rr_c)
  qed (simp add: fe_channel_retire_def)
  show "clock (snd (fe_channel_drop env d)) \<le> clock d + 300"
    by (simp add: fe_channel_drop_def Let_def split_beta wr_c rr_c) (rule order_trans [OF drop_c], simp add: wr_c rr_c)
  show "clock (snd (fe_api_set_channel_retire_one env g ch d)) \<le> clock d + 11"
  proof (cases "rls_reg g")
    case (Some reg)
    show ?thesis by (simp add: fe_api_set_channel_retire_one_def Some Let_def split_beta wr_c rr_c)
        (rule order_trans [OF one_c], simp add: delay_clock wr_c rr_c)
  qed (simp add: fe_api_set_channel_retire_one_def)
qed

end

section \<open>The answer\<close>

text \<open>The device before the \<open>k\<close>-th look at the two status registers, when every look before found it busy.\<close>

fun looked :: "'d fe_env \<Rightarrow> u32 \<Rightarrow> u32 \<Rightarrow> u32 \<Rightarrow> nat \<Rightarrow> 'd \<Rightarrow> 'd" where
  "looked env reg reg2 ch 0 d = d"
| "looked env reg reg2 ch (Suc k) d = looked env reg reg2 ch k (fe_mdelay env (snd (chn_busy env reg reg2 ch d)))"

definition idle_at :: "'d fe_env \<Rightarrow> u32 \<Rightarrow> u32 \<Rightarrow> u32 \<Rightarrow> nat \<Rightarrow> 'd \<Rightarrow> bool" where
  "idle_at env reg reg2 ch k d \<longleftrightarrow> \<not> fst (chn_busy env reg reg2 ch (looked env reg reg2 ch k d))"

lemma ex_split: "(\<exists>k. v + k < (10 :: nat) \<and> P k) \<longleftrightarrow> v < 10 \<and> (P 0 \<or> (\<exists>k. v + 1 + k < 10 \<and> P (Suc k)))"
proof
  assume "\<exists>k. v + k < 10 \<and> P k"
  then obtain k where "v + k < 10" "P k" by blast
  then show "v < 10 \<and> (P 0 \<or> (\<exists>k. v + 1 + k < 10 \<and> P (Suc k)))" by (cases k) auto
next
  assume "v < 10 \<and> (P 0 \<or> (\<exists>k. v + 1 + k < 10 \<and> P (Suc k)))"
  then show "\<exists>k. v + k < 10 \<and> P k" by (metis add.right_neutral add_Suc_right add_Suc_shift Suc_eq_plus1)
qed

lemma wait_answer: "fst (retire_wait env reg reg2 ch v d) < 10 \<longleftrightarrow> (\<exists>k. v + k < 10 \<and> idle_at env reg reg2 ch k d)"
proof (induction "11 - v" arbitrary: v d rule: less_induct)
  case less
  let ?d = "fe_mdelay env (snd (chn_busy env reg reg2 ch d))"
  have IH: "v < 10 \<Longrightarrow> fst (retire_wait env reg reg2 ch (v + 1) ?d) < 10 \<longleftrightarrow> (\<exists>k. v + 1 + k < 10 \<and> idle_at env reg reg2 ch k ?d)"
    by (rule less) simp
  have "idle_at env reg reg2 ch (Suc k) d = idle_at env reg reg2 ch k ?d" for k by (simp add: idle_at_def)
  then show ?case using IH unfolding ex_split [of v]
    by (subst retire_wait.simps) (auto simp: Let_def split_beta idle_at_def)
qed

text \<open>Asking for one channel to be retired answers success exactly when one of the first ten looks at the
  status registers, a millisecond apart, finds the release acknowledged and the channel empty. The
  look after the tenth wait counts for nothing: a channel that is found empty only there is reported as
  timed out.\<close>

theorem retire_answer:
  assumes "rls_reg g = Some reg"
  shows "fst (fe_api_set_channel_retire env g ch mode d) =
     (if \<exists>k<10. idle_at env reg (vld_reg g) ch k (snd (retire_begin env g reg ch mode d)) then 0 else - 1)"
proof -
  let ?d = "snd (retire_begin env g reg ch mode d)"
  have "fst (fe_api_set_channel_retire env g ch mode d) =
      (if 10 \<le> fst (retire_wait env reg (vld_reg g) ch 0 ?d) then - 1 else 0)"
    by (simp add: fe_api_set_channel_retire_def assms Let_def split_beta)
  then show ?thesis using wait_answer [of env reg "vld_reg g" ch 0 ?d] by (simp add: not_less [symmetric])
qed

text \<open>C18: whatever the hardware does with its status registers, retiring channels (one or all, with the link up
  or down) and dropping the queued packets leave every configuration register of the frame engine as it
  was: the enable and forwarding bits of all channels, the loopback and forwarding set-up and the
  scheduler's global register; and the flag of a retirement in progress is down again.\<close>

theorem retire_restores:
  assumes "fe_hw env cfg"
  shows "cfg (snd (fe_api_set_channel_retire env g ch mode d)) = cfg d \<and>
     cfg (snd (fe_api_set_channel_retire_one env g ch d)) = cfg d \<and>
     (let s' = snd (fe_api_set_channel_retire_all env m g ch s) in cfg (fdev s') = cfg (fdev s) \<and> qdma_stop_flag s' = 0)"
  by (simp add: fe_api_set_channel_retire_all_def Let_def fe_hw.retire_cfg [OF assms] fe_hw.retire_one_api_cfg [OF assms]
      fe_hw.retire_port_cfg [OF assms] fe_hw.drop_all_cfg [OF assms])

text \<open>The waits are bounded: retiring one channel takes at most eleven milliseconds, retiring the channels
  of a port at most one and twenty for each channel, dropping at most three hundred, however long the
  hardware stays busy.\<close>

theorem retire_time_bounded:
  assumes "fe_clock env cfg clock"
  shows "clock (snd (fe_api_set_channel_retire env g ch mode d)) \<le> clock d + 11 \<and>
     clock (snd (fe_api_set_channel_retire_one env g ch d)) \<le> clock d + 11 \<and>
     clock (fdev (snd (fe_api_set_channel_retire_all env m g ch s))) \<le>
       clock (fdev s) + (if m = 1 then 1 + 20 * unat ch else 300)"
  using fe_clock.times [OF assms] by (simp add: fe_api_set_channel_retire_all_def Let_def)

section \<open>A frame engine in memory\<close>

text \<open>The channel is released and empty from the millisecond \<open>fb_idle\<close> on.\<close>

record fe_box =
  fb_reg :: "u32 \<Rightarrow> u32"
  fb_ms :: nat
  fb_idle :: nat

definition fe_box_rr :: "u32 \<Rightarrow> fe_box \<Rightarrow> u32 \<times> fe_box" where
  "fe_box_rr a d =
     (if a = GDMA1_CHN_RLS \<or> a = GDMA2_CHN_RLS then (if fb_idle d \<le> fb_ms d then 2 else 0)
      else if a = GDMA1_TX_CHN_VLD then (if fb_idle d \<le> fb_ms d then 0 else 0xFFFFFFFF)
      else if a = FE_PROBE_H then 0 else fb_reg d a, d)"

definition fe_box_wr :: "u32 \<Rightarrow> u32 \<Rightarrow> fe_box \<Rightarrow> fe_box" where
  "fe_box_wr a v d = (if a \<in> fe_status then d else d\<lparr>fb_reg := (fb_reg d)(a := v)\<rparr>)"

definition fe_box_env :: "fe_box fe_env" where
  "fe_box_env = \<lparr>
     fe_bus = \<lparr>bus_rr = fe_box_rr, bus_wr = fe_box_wr, bus_rmw = (\<lambda>a m v d. fe_box_wr a (masked (fb_reg d a) m v) d)\<rparr>,
     fe_mdelay = (\<lambda>d. d\<lparr>fb_ms := Suc (fb_ms d)\<rparr>)\<rparr>"

definition fe_box0 :: "nat \<Rightarrow> fe_box" where
  "fe_box0 idle = \<lparr>fb_reg = (\<lambda>_. 0xFF), fb_ms = 0, fb_idle = idle\<rparr>"

interpretation fe_box: fe_clock fe_box_env fb_reg fb_ms
  by unfold_locales (auto simp: fe_box_env_def fe_box_rr_def fe_box_wr_def fe_status_def fun_eq_iff)

lemma fe_box_hw: "fe_hw fe_box_env fb_reg"
  by (rule fe_box.fe_hw_axioms)

lemma fe_box_clock: "fe_clock fe_box_env fb_reg fb_ms"
  by (rule fe_box.fe_clock_axioms)

theorem retire_restores_witness:
  "fb_reg (snd (fe_api_set_channel_retire fe_box_env FE_GDM_SEL_GDMA2 3 1 (fe_box0 99))) GDMA2_TXCHN_EN = 0xFF"
proof -
  have "fb_reg (snd (fe_api_set_channel_retire fe_box_env FE_GDM_SEL_GDMA2 3 1 (fe_box0 99))) = fb_reg (fe_box0 99)"
    using retire_restores [OF fe_box_hw] by blast
  then show ?thesis by (simp add: fe_box0_def)
qed

theorem retire_time_bounded_witness:
  "fb_ms (snd (fe_api_set_channel_retire_one fe_box_env FE_GDM_SEL_GDMA1 3 (fe_box0 99))) \<le> 11"
proof -
  have "fb_ms (snd (fe_api_set_channel_retire_one fe_box_env FE_GDM_SEL_GDMA1 3 (fe_box0 99))) \<le> fb_ms (fe_box0 99) + 11"
    using retire_time_bounded [OF fe_box_clock] by blast
  then show ?thesis by (simp add: fe_box0_def)
qed

lemma fe_box_busy: "chn_busy fe_box_env GDMA2_CHN_RLS GDMA2_TX_CHN_VLD 3 d = (fb_ms d < fb_idle d, d)"
  by (simp add: chn_busy_def fe_rr_def fe_box_env_def fe_box_rr_def not_le)

lemma fe_box_idle: "idle_at fe_box_env GDMA2_CHN_RLS GDMA2_TX_CHN_VLD 3 k d \<longleftrightarrow> fb_idle d \<le> fb_ms d + k"
  unfolding idle_at_def
proof (induction k arbitrary: d)
  case (Suc k)
  show ?case using Suc [of "d\<lparr>fb_ms := Suc (fb_ms d)\<rparr>"] by (simp add: fe_box_busy) (simp add: fe_box_env_def)
qed (simp add: fe_box_busy not_less)

lemma fe_box_rr_idle: "fb_idle (snd (fe_rr fe_box_env a d)) = fb_idle d" and fe_box_wr_idle: "fb_idle (fe_wr fe_box_env a v d) = fb_idle d"
  and fe_box_delay_idle: "fb_idle (fe_mdelay fe_box_env d) = fb_idle d"
  by (simp_all add: fe_rr_def fe_wr_def fe_box_env_def fe_box_rr_def fe_box_wr_def)

text \<open>Released in the eleventh millisecond: reported as timed out although the loop ended because it was idle.\<close>

theorem retire_answer_witness:
  "fst (fe_api_set_channel_retire fe_box_env FE_GDM_SEL_GDMA2 3 0 (fe_box0 10)) = 0 \<and>
   fst (fe_api_set_channel_retire fe_box_env FE_GDM_SEL_GDMA2 3 0 (fe_box0 11)) = - 1 \<and>
   idle_at fe_box_env GDMA2_CHN_RLS (vld_reg FE_GDM_SEL_GDMA2) 3 10
     (snd (retire_begin fe_box_env FE_GDM_SEL_GDMA2 GDMA2_CHN_RLS 3 0 (fe_box0 11)))"
proof -
  let ?b = "\<lambda>n. snd (retire_begin fe_box_env FE_GDM_SEL_GDMA2 GDMA2_CHN_RLS 3 0 (fe_box0 n))"
  have r: "rls_reg FE_GDM_SEL_GDMA2 = Some GDMA2_CHN_RLS" and v: "vld_reg FE_GDM_SEL_GDMA2 = GDMA2_TX_CHN_VLD"
    by (simp_all add: rls_reg_def vld_reg_def)
  have b: "fb_ms (?b n) = 1" "fb_idle (?b n) = n" for n
    using fe_box.begin_c [of FE_GDM_SEL_GDMA2 GDMA2_CHN_RLS 3 0 "fe_box0 n"]
    by (simp_all add: fe_box0_def retire_begin_def fe_set_hwfwd_channel_def fe_get_hwfwd_channel_def Let_def split_beta
        fe_box_rr_idle fe_box_wr_idle fe_box_delay_idle)
  have "\<exists>k<10. (10 :: nat) \<le> 1 + k" by (rule exI [of _ 9]) simp
  then show ?thesis unfolding retire_answer [OF r] v fe_box_idle b by auto
qed

end
