(* ===== verification/FeCounters.thy ===== *)
theory FeCounters
  imports FeChannel "HOL-Library.State_Monad"
begin

text \<open>
  The packet counters of the second port, the release of the fourth port and the remaining settings of
  \<^verbatim>\<open>airoha/arht_fe.c\<close>. Reading a register may change the device, so the reads are threaded through it in
  the order of the code. Whether the chip has the wide counters is an argument.
\<close>

section \<open>Counters\<close>

abbreviation (input) GDMA2_RX_OVDROPCNT :: u32 where "GDMA2_RX_OVDROPCNT \<equiv> 0x1654"
abbreviation (input) GDMA2_RX_OKCNT :: u32 where "GDMA2_RX_OKCNT \<equiv> 0x1648"
abbreviation (input) GDMA2_RX_FCDROPCNT :: u32 where "GDMA2_RX_FCDROPCNT \<equiv> 0x164c"
abbreviation (input) GDMA2_RX_RCDROPCNT :: u32 where "GDMA2_RX_RCDROPCNT \<equiv> 0x1650"
abbreviation (input) GDMA2_RX_ERRDROPCNT :: u32 where "GDMA2_RX_ERRDROPCNT \<equiv> 0x1658"
abbreviation (input) GDMA2_RX_OKBYTECNT :: u32 where "GDMA2_RX_OKBYTECNT \<equiv> 0x165c"
abbreviation (input) GDMA2_RX_ETHERPCNT :: u32 where "GDMA2_RX_ETHERPCNT \<equiv> 0x1660"
abbreviation (input) GDMA2_RX_ETHERPLEN :: u32 where "GDMA2_RX_ETHERPLEN \<equiv> 0x1664"
abbreviation (input) GDMA2_RX_ETHDROPCNT :: u32 where "GDMA2_RX_ETHDROPCNT \<equiv> 0x1668"
abbreviation (input) GDMA2_RX_ETHBCCNT :: u32 where "GDMA2_RX_ETHBCCNT \<equiv> 0x166c"
abbreviation (input) GDMA2_RX_ETHMCCNT :: u32 where "GDMA2_RX_ETHMCCNT \<equiv> 0x1670"
abbreviation (input) GDMA2_RX_ETHCRCCNT :: u32 where "GDMA2_RX_ETHCRCCNT \<equiv> 0x1674"
abbreviation (input) GDMA2_RX_ETHFRACCNT :: u32 where "GDMA2_RX_ETHFRACCNT \<equiv> 0x1678"
abbreviation (input) GDMA2_RX_ETHJABCNT :: u32 where "GDMA2_RX_ETHJABCNT \<equiv> 0x167c"
abbreviation (input) GDMA2_RX_ETHRUNTCNT :: u32 where "GDMA2_RX_ETHRUNTCNT \<equiv> 0x1680"
abbreviation (input) GDMA2_RX_ETHLONGCNT :: u32 where "GDMA2_RX_ETHLONGCNT \<equiv> 0x1684"
abbreviation (input) GDMA2_RX_ETH_64_CNT :: u32 where "GDMA2_RX_ETH_64_CNT \<equiv> 0x1688"
abbreviation (input) GDMA2_RX_ETH_65_TO_127_CNT :: u32 where "GDMA2_RX_ETH_65_TO_127_CNT \<equiv> 0x168c"
abbreviation (input) GDMA2_RX_ETH_128_TO_255_CNT :: u32 where "GDMA2_RX_ETH_128_TO_255_CNT \<equiv> 0x1690"
abbreviation (input) GDMA2_RX_ETH_256_TO_511_CNT :: u32 where "GDMA2_RX_ETH_256_TO_511_CNT \<equiv> 0x1694"
abbreviation (input) GDMA2_RX_ETH_512_TO_1023_CNT :: u32 where "GDMA2_RX_ETH_512_TO_1023_CNT \<equiv> 0x1698"
abbreviation (input) GDMA2_RX_ETH_1024_TO_1518_CNT :: u32 where "GDMA2_RX_ETH_1024_TO_1518_CNT \<equiv> 0x169c"
abbreviation (input) GDMA2_RX_OKCNT_H :: u32 where "GDMA2_RX_OKCNT_H \<equiv> 0x1790"
abbreviation (input) GDMA2_RX_OKBYTECNT_H :: u32 where "GDMA2_RX_OKBYTECNT_H \<equiv> 0x1794"
abbreviation (input) GDMA2_RX_ETHERPCNT_H :: u32 where "GDMA2_RX_ETHERPCNT_H \<equiv> 0x1798"
abbreviation (input) GDMA2_RX_ETHERPLEN_H :: u32 where "GDMA2_RX_ETHERPLEN_H \<equiv> 0x179c"
abbreviation (input) GDMA2_RX_ETH_64_CNT_H :: u32 where "GDMA2_RX_ETH_64_CNT_H \<equiv> 0x17e8"
abbreviation (input) GDMA2_RX_ETH_65_TO_127_CNT_H :: u32 where "GDMA2_RX_ETH_65_TO_127_CNT_H \<equiv> 0x17ec"
abbreviation (input) GDMA2_RX_ETH_128_TO_255_CNT_H :: u32 where "GDMA2_RX_ETH_128_TO_255_CNT_H \<equiv> 0x17f0"
abbreviation (input) GDMA2_RX_ETH_256_TO_511_CNT_H :: u32 where "GDMA2_RX_ETH_256_TO_511_CNT_H \<equiv> 0x17f4"
abbreviation (input) GDMA2_RX_ETH_512_TO_1023_CNT_H :: u32 where "GDMA2_RX_ETH_512_TO_1023_CNT_H \<equiv> 0x17f8"
abbreviation (input) GDMA2_RX_ETH_1024_TO_1518_CNT_H :: u32 where "GDMA2_RX_ETH_1024_TO_1518_CNT_H \<equiv> 0x17fc"
abbreviation (input) GDMA2_TX_ETHCNT :: u32 where "GDMA2_TX_ETHCNT \<equiv> 0x1610"
abbreviation (input) GDMA2_TX_ETHLENCNT :: u32 where "GDMA2_TX_ETHLENCNT \<equiv> 0x1614"
abbreviation (input) GDMA2_TX_ETHDROPCNT :: u32 where "GDMA2_TX_ETHDROPCNT \<equiv> 0x1618"
abbreviation (input) GDMA2_TX_ETHBCDCNT :: u32 where "GDMA2_TX_ETHBCDCNT \<equiv> 0x161c"
abbreviation (input) GDMA2_TX_ETHMULTICASTCNT :: u32 where "GDMA2_TX_ETHMULTICASTCNT \<equiv> 0x1620"
abbreviation (input) GDMA2_TX_ETH_LESS64_CNT :: u32 where "GDMA2_TX_ETH_LESS64_CNT \<equiv> 0x1624"
abbreviation (input) GDMA2_TX_ETH_MORE1518_CNT :: u32 where "GDMA2_TX_ETH_MORE1518_CNT \<equiv> 0x1628"
abbreviation (input) GDMA2_TX_ETH_64_CNT :: u32 where "GDMA2_TX_ETH_64_CNT \<equiv> 0x162c"
abbreviation (input) GDMA2_TX_ETH_65_TO_127_CNT :: u32 where "GDMA2_TX_ETH_65_TO_127_CNT \<equiv> 0x1630"
abbreviation (input) GDMA2_TX_ETH_128_TO_255_CNT :: u32 where "GDMA2_TX_ETH_128_TO_255_CNT \<equiv> 0x1634"
abbreviation (input) GDMA2_TX_ETH_256_TO_511_CNT :: u32 where "GDMA2_TX_ETH_256_TO_511_CNT \<equiv> 0x1638"
abbreviation (input) GDMA2_TX_ETH_512_TO_1023_CNT :: u32 where "GDMA2_TX_ETH_512_TO_1023_CNT \<equiv> 0x163c"
abbreviation (input) GDMA2_TX_ETH_1024_TO_1518_CNT :: u32 where "GDMA2_TX_ETH_1024_TO_1518_CNT \<equiv> 0x1640"
abbreviation (input) GDMA2_TX_ETHCNT_H :: u32 where "GDMA2_TX_ETHCNT_H \<equiv> 0x1788"
abbreviation (input) GDMA2_TX_ETHLENCNT_H :: u32 where "GDMA2_TX_ETHLENCNT_H \<equiv> 0x178c"
abbreviation (input) GDMA2_TX_ETH_64_CNT_H :: u32 where "GDMA2_TX_ETH_64_CNT_H \<equiv> 0x17b8"
abbreviation (input) GDMA2_TX_ETH_65_TO_127_CNT_H :: u32 where "GDMA2_TX_ETH_65_TO_127_CNT_H \<equiv> 0x17bc"
abbreviation (input) GDMA2_TX_ETH_128_TO_255_CNT_H :: u32 where "GDMA2_TX_ETH_128_TO_255_CNT_H \<equiv> 0x17c0"
abbreviation (input) GDMA2_TX_ETH_256_TO_511_CNT_H :: u32 where "GDMA2_TX_ETH_256_TO_511_CNT_H \<equiv> 0x17c4"
abbreviation (input) GDMA2_TX_ETH_512_TO_1023_CNT_H :: u32 where "GDMA2_TX_ETH_512_TO_1023_CNT_H \<equiv> 0x17c8"
abbreviation (input) GDMA2_TX_ETH_1024_TO_1518_CNT_H :: u32 where "GDMA2_TX_ETH_1024_TO_1518_CNT_H \<equiv> 0x17cc"
abbreviation (input) GDMA1_RX_OVER_DROP_CNT :: u32 where "GDMA1_RX_OVER_DROP_CNT \<equiv> 0x654"

record FE_TxCnt =
  txFrameCnt :: u64
  txFrameLen :: u64
  txDropCnt :: u64
  txBroadcastCnt :: u64
  txMulticastCnt :: u64
  txLess64Cnt :: u64
  txMore1518Cnt :: u64
  txEq64Cnt :: u64
  txFrom65To127Cnt :: u64
  txFrom128To255Cnt :: u64
  txFrom256To511Cnt :: u64
  txFrom512To1023Cnt :: u64
  txFrom1024To1518Cnt :: u64

record FE_RxCnt =
  rxFCDropCnt :: u64
  rxRCDropCnt :: u64
  rxOVDropCnt :: u64
  rxERRDropCnt :: u64
  rxOKPktCnt :: u64
  rxOKByteCnt :: u64
  rxOversizeCnt :: u64
  rxUnderSizeCnt :: u64
  rxFrameCnt :: u64
  rxFrameLen :: u64
  rxDropCnt :: u64
  rxBroadcastCnt :: u64
  rxMulticastCnt :: u64
  rxCrcCnt :: u64
  rxFragFameCnt :: u64
  rxJabberFameCnt :: u64
  rxLess64Cnt :: u64
  rxMore1518Cnt :: u64
  rxEq64Cnt :: u64
  rxFrom65To127Cnt :: u64
  rxFrom128To255Cnt :: u64
  rxFrom256To511Cnt :: u64
  rxFrom512To1023Cnt :: u64
  rxFrom1024To1518Cnt :: u64

text \<open>Four upper halves are variables that nothing ever sets.\<close>

definition gdm2_rx_len_high :: u64 where "gdm2_rx_len_high = 0"

definition gdm2_rx_drop_high :: u64 where "gdm2_rx_drop_high = 0"

definition gdm2_tx_len_high :: u64 where "gdm2_tx_len_high = 0"

definition gdm2_tx_drop_high :: u64 where "gdm2_tx_drop_high = 0"

definition cnt32 :: "'d fe_env \<Rightarrow> u32 \<Rightarrow> ('d, u64) state" where
  "cnt32 env a = do { v \<leftarrow> State (fe_rr env a); State_Monad.return (ucast v) }"

definition cnt_above :: "'d fe_env \<Rightarrow> u64 \<Rightarrow> u32 \<Rightarrow> ('d, u64) state" where
  "cnt_above env high a = do { v \<leftarrow> cnt32 env a; State_Monad.return (push_bit 32 high + v) }"

text \<open>A wide counter: the upper half is read first, then the lower.\<close>

definition cnt64 :: "'d fe_env \<Rightarrow> u32 \<Rightarrow> u32 \<Rightarrow> ('d, u64) state" where
  "cnt64 env a_h a = do { high \<leftarrow> cnt32 env a_h; cnt_above env high a }"

definition fe_api_get_eth_rx_cnt :: "bool \<Rightarrow> 'd fe_env \<Rightarrow> ('d, FE_RxCnt) state" where
  "fe_api_get_eth_rx_cnt GDM2_RX_ETH_MIB_SUPPORT env =
     (if GDM2_RX_ETH_MIB_SUPPORT then do {
         c0 \<leftarrow> cnt64 env GDMA2_RX_OKCNT_H GDMA2_RX_OKCNT;
         c1 \<leftarrow> cnt32 env GDMA2_RX_FCDROPCNT;
         c2 \<leftarrow> cnt32 env GDMA2_RX_RCDROPCNT;
         c3 \<leftarrow> cnt32 env GDMA2_RX_OVDROPCNT;
         c4 \<leftarrow> cnt32 env GDMA2_RX_ERRDROPCNT;
         c5 \<leftarrow> cnt64 env GDMA2_RX_OKBYTECNT_H GDMA2_RX_OKBYTECNT;
         c6 \<leftarrow> cnt32 env GDMA2_RX_ETHLONGCNT;
         c7 \<leftarrow> cnt32 env GDMA2_RX_ETHRUNTCNT;
         c8 \<leftarrow> cnt64 env GDMA2_RX_ETHERPCNT_H GDMA2_RX_ETHERPCNT;
         c9 \<leftarrow> cnt64 env GDMA2_RX_ETHERPLEN_H GDMA2_RX_ETHERPLEN;
         c10 \<leftarrow> cnt_above env gdm2_rx_drop_high GDMA2_RX_ETHDROPCNT;
         c11 \<leftarrow> cnt32 env GDMA2_RX_ETHBCCNT;
         c12 \<leftarrow> cnt32 env GDMA2_RX_ETHMCCNT;
         c13 \<leftarrow> cnt32 env GDMA2_RX_ETHCRCCNT;
         c14 \<leftarrow> cnt32 env GDMA2_RX_ETHFRACCNT;
         c15 \<leftarrow> cnt32 env GDMA2_RX_ETHJABCNT;
         c16 \<leftarrow> cnt32 env GDMA2_RX_ETHRUNTCNT;
         c17 \<leftarrow> cnt32 env GDMA2_RX_ETHLONGCNT;
         c18 \<leftarrow> cnt64 env GDMA2_RX_ETH_64_CNT_H GDMA2_RX_ETH_64_CNT;
         c19 \<leftarrow> cnt64 env GDMA2_RX_ETH_65_TO_127_CNT_H GDMA2_RX_ETH_65_TO_127_CNT;
         c20 \<leftarrow> cnt64 env GDMA2_RX_ETH_128_TO_255_CNT_H GDMA2_RX_ETH_128_TO_255_CNT;
         c21 \<leftarrow> cnt64 env GDMA2_RX_ETH_256_TO_511_CNT_H GDMA2_RX_ETH_256_TO_511_CNT;
         c22 \<leftarrow> cnt64 env GDMA2_RX_ETH_512_TO_1023_CNT_H GDMA2_RX_ETH_512_TO_1023_CNT;
         c23 \<leftarrow> cnt64 env GDMA2_RX_ETH_1024_TO_1518_CNT_H GDMA2_RX_ETH_1024_TO_1518_CNT;
         State_Monad.return \<lparr>rxFCDropCnt = c1, rxRCDropCnt = c2, rxOVDropCnt = c3, rxERRDropCnt = c4, rxOKPktCnt = c0,
           rxOKByteCnt = c5, rxOversizeCnt = c6, rxUnderSizeCnt = c7, rxFrameCnt = c8,
           rxFrameLen = c9, rxDropCnt = c10, rxBroadcastCnt = c11, rxMulticastCnt = c12,
           rxCrcCnt = c13, rxFragFameCnt = c14, rxJabberFameCnt = c15, rxLess64Cnt = c16,
           rxMore1518Cnt = c17, rxEq64Cnt = c18, rxFrom65To127Cnt = c19, rxFrom128To255Cnt = c20,
           rxFrom256To511Cnt = c21, rxFrom512To1023Cnt = c22, rxFrom1024To1518Cnt = c23\<rparr> }
      else do {
         c0 \<leftarrow> cnt32 env GDMA2_RX_OKCNT;
         c1 \<leftarrow> cnt32 env GDMA2_RX_FCDROPCNT;
         c2 \<leftarrow> cnt32 env GDMA2_RX_RCDROPCNT;
         c3 \<leftarrow> cnt32 env GDMA2_RX_OVDROPCNT;
         c4 \<leftarrow> cnt32 env GDMA2_RX_ERRDROPCNT;
         c5 \<leftarrow> cnt32 env GDMA2_RX_OKBYTECNT;
         c6 \<leftarrow> cnt32 env GDMA2_RX_ETHLONGCNT;
         c7 \<leftarrow> cnt32 env GDMA2_RX_ETHRUNTCNT;
         c8 \<leftarrow> cnt32 env GDMA2_RX_ETHERPCNT;
         c9 \<leftarrow> cnt_above env gdm2_rx_len_high GDMA2_RX_ETHERPLEN;
         c10 \<leftarrow> cnt32 env GDMA2_RX_ETHDROPCNT;
         c11 \<leftarrow> cnt32 env GDMA2_RX_ETHBCCNT;
         c12 \<leftarrow> cnt32 env GDMA2_RX_ETHMCCNT;
         c13 \<leftarrow> cnt32 env GDMA2_RX_ETHCRCCNT;
         c14 \<leftarrow> cnt32 env GDMA2_RX_ETHFRACCNT;
         c15 \<leftarrow> cnt32 env GDMA2_RX_ETHJABCNT;
         c16 \<leftarrow> cnt32 env GDMA2_RX_ETHRUNTCNT;
         c17 \<leftarrow> cnt32 env GDMA2_RX_ETHLONGCNT;
         c18 \<leftarrow> cnt32 env GDMA2_RX_ETH_64_CNT;
         c19 \<leftarrow> cnt32 env GDMA2_RX_ETH_65_TO_127_CNT;
         c20 \<leftarrow> cnt32 env GDMA2_RX_ETH_128_TO_255_CNT;
         c21 \<leftarrow> cnt32 env GDMA2_RX_ETH_256_TO_511_CNT;
         c22 \<leftarrow> cnt32 env GDMA2_RX_ETH_512_TO_1023_CNT;
         c23 \<leftarrow> cnt32 env GDMA2_RX_ETH_1024_TO_1518_CNT;
         State_Monad.return \<lparr>rxFCDropCnt = c1, rxRCDropCnt = c2, rxOVDropCnt = c3, rxERRDropCnt = c4, rxOKPktCnt = c0,
           rxOKByteCnt = c5, rxOversizeCnt = c6, rxUnderSizeCnt = c7, rxFrameCnt = c8,
           rxFrameLen = c9, rxDropCnt = c10, rxBroadcastCnt = c11, rxMulticastCnt = c12,
           rxCrcCnt = c13, rxFragFameCnt = c14, rxJabberFameCnt = c15, rxLess64Cnt = c16,
           rxMore1518Cnt = c17, rxEq64Cnt = c18, rxFrom65To127Cnt = c19, rxFrom128To255Cnt = c20,
           rxFrom256To511Cnt = c21, rxFrom512To1023Cnt = c22, rxFrom1024To1518Cnt = c23\<rparr> })"

definition fe_api_get_eth_tx_cnt :: "bool \<Rightarrow> 'd fe_env \<Rightarrow> ('d, FE_TxCnt) state" where
  "fe_api_get_eth_tx_cnt GDM2_TX_ETH_MIB_SUPPORT env =
     (if GDM2_TX_ETH_MIB_SUPPORT then do {
         c0 \<leftarrow> cnt64 env GDMA2_TX_ETHCNT_H GDMA2_TX_ETHCNT;
         c1 \<leftarrow> cnt64 env GDMA2_TX_ETHLENCNT_H GDMA2_TX_ETHLENCNT;
         c2 \<leftarrow> cnt_above env gdm2_tx_drop_high GDMA2_TX_ETHDROPCNT;
         c3 \<leftarrow> cnt32 env GDMA2_TX_ETHBCDCNT;
         c4 \<leftarrow> cnt32 env GDMA2_TX_ETHMULTICASTCNT;
         c5 \<leftarrow> cnt32 env GDMA2_TX_ETH_LESS64_CNT;
         c6 \<leftarrow> cnt32 env GDMA2_TX_ETH_MORE1518_CNT;
         c7 \<leftarrow> cnt64 env GDMA2_TX_ETH_64_CNT_H GDMA2_TX_ETH_64_CNT;
         c8 \<leftarrow> cnt64 env GDMA2_TX_ETH_65_TO_127_CNT_H GDMA2_TX_ETH_65_TO_127_CNT;
         c9 \<leftarrow> cnt64 env GDMA2_TX_ETH_128_TO_255_CNT_H GDMA2_TX_ETH_128_TO_255_CNT;
         c10 \<leftarrow> cnt64 env GDMA2_TX_ETH_256_TO_511_CNT_H GDMA2_TX_ETH_256_TO_511_CNT;
         c11 \<leftarrow> cnt64 env GDMA2_TX_ETH_512_TO_1023_CNT_H GDMA2_TX_ETH_512_TO_1023_CNT;
         c12 \<leftarrow> cnt64 env GDMA2_TX_ETH_1024_TO_1518_CNT_H GDMA2_TX_ETH_1024_TO_1518_CNT;
         State_Monad.return \<lparr>txFrameCnt = c0, txFrameLen = c1, txDropCnt = c2, txBroadcastCnt = c3, txMulticastCnt = c4,
           txLess64Cnt = c5, txMore1518Cnt = c6, txEq64Cnt = c7, txFrom65To127Cnt = c8,
           txFrom128To255Cnt = c9, txFrom256To511Cnt = c10, txFrom512To1023Cnt = c11,
           txFrom1024To1518Cnt = c12\<rparr> }
      else do {
         c0 \<leftarrow> cnt32 env GDMA2_TX_ETHCNT;
         c1 \<leftarrow> cnt_above env gdm2_tx_len_high GDMA2_TX_ETHLENCNT;
         c2 \<leftarrow> cnt32 env GDMA2_TX_ETHDROPCNT;
         c3 \<leftarrow> cnt32 env GDMA2_TX_ETHBCDCNT;
         c4 \<leftarrow> cnt32 env GDMA2_TX_ETHMULTICASTCNT;
         c5 \<leftarrow> cnt32 env GDMA2_TX_ETH_LESS64_CNT;
         c6 \<leftarrow> cnt32 env GDMA2_TX_ETH_MORE1518_CNT;
         c7 \<leftarrow> cnt32 env GDMA2_TX_ETH_64_CNT;
         c8 \<leftarrow> cnt32 env GDMA2_TX_ETH_65_TO_127_CNT;
         c9 \<leftarrow> cnt32 env GDMA2_TX_ETH_128_TO_255_CNT;
         c10 \<leftarrow> cnt32 env GDMA2_TX_ETH_256_TO_511_CNT;
         c11 \<leftarrow> cnt32 env GDMA2_TX_ETH_512_TO_1023_CNT;
         c12 \<leftarrow> cnt32 env GDMA2_TX_ETH_1024_TO_1518_CNT;
         State_Monad.return \<lparr>txFrameCnt = c0, txFrameLen = c1, txDropCnt = c2, txBroadcastCnt = c3, txMulticastCnt = c4,
           txLess64Cnt = c5, txMore1518Cnt = c6, txEq64Cnt = c7, txFrom65To127Cnt = c8,
           txFrom128To255Cnt = c9, txFrom256To511Cnt = c10, txFrom512To1023Cnt = c11,
           txFrom1024To1518Cnt = c12\<rparr> })"

definition fe_api_get_rx_drop_fifo_cnt :: "'d fe_env \<Rightarrow> FE_Gdma_Sel \<Rightarrow> ('d, u32) state" where
  "fe_api_get_rx_drop_fifo_cnt env gdm_sel =
     State (fe_rr env (if gdm_sel = FE_GDM_SEL_GDMA1 then GDMA1_RX_OVER_DROP_CNT else GDMA2_RX_OVDROPCNT))"

section \<open>Releases and settings\<close>

text \<open>The default build has neither of the chips that have the bit.\<close>

definition fe_set_tx_favor_oam_enable :: "'d fe_env \<Rightarrow> bool \<Rightarrow> u8 \<Rightarrow> 'd \<Rightarrow> int \<times> 'd" where
  "fe_set_tx_favor_oam_enable env chip enable d =
     (if enable \<noteq> 0 \<and> enable \<noteq> 1 then (- 1, d)
      else if \<not> chip then (- 1, d)
      else
        let (v, d) = fe_rr env GDMA2_FWD_CFG d
        in (0, fe_wr env GDMA2_FWD_CFG ((v AND NOT (push_bit 19 1)) OR push_bit 19 (ucast enable)) d))"

text \<open>The number of pages waiting in the input queues: the second status register is never read.\<close>

definition fe_api_pse_iq_abnormal :: "'d fe_env \<Rightarrow> 'd \<Rightarrow> bool \<times> 'd" where
  "fe_api_pse_iq_abnormal env d =
     (let (stat1, d) = fe_rr env 0x110 d;
          (stat2, d) = fe_rr env 0x110 d;
          cnt = (stat1 AND 0xff) + (drop_bit 8 stat1 AND 0xff) + (drop_bit 16 stat1 AND 0xff) + (drop_bit 8 stat2 AND 0xff)
      in (0xA0 < cnt, d))"

text \<open>Register numbers and fields of the upstream driver, and its timed wait, of which \<open>True\<close> says that the
  condition came true.\<close>

record 'd fe_core =
  FE_RESET_GLO :: u32
  REG_FE_CORE_RESET :: u32
  REG_GDM4_CHN_RLS :: u32
  REG_GDM4_TX_CHN_ID :: u32
  REG_GDM4_TX_CHN_EN :: u32
  REG_GDM4_TX_CHN_DN :: u32
  REG_FE_PSE_QUEUE_CFG_WR :: u32
  REG_FE_PSE_QUEUE_CFG_VAL :: u32
  PSE_CFG_PORT_ID_MASK :: u32
  PSE_CFG_QUEUE_ID_MASK :: u32
  PSE_CFG_OQ_FC_ON :: u32
  PSE_CFG_OQ_RSV_MASK :: u32
  PSE_CFG_WR_EN_MASK :: u32
  PSE_CFG_OQFCEN_SEL :: u32
  PSE_CFG_OQRSV_SEL_MASK :: u32
  fe_poll :: "u32 \<Rightarrow> (u32 \<Rightarrow> bool) \<Rightarrow> 'd \<Rightarrow> bool \<times> 'd"

definition airoha_fe_core_reset :: "'d fe_env \<Rightarrow> 'd fe_core \<Rightarrow> 'd \<Rightarrow> 'd" where
  "airoha_fe_core_reset env r d =
     bus_rmw (fe_bus env) (FE_RESET_GLO r) (REG_FE_CORE_RESET r) (FIELD_PREP (REG_FE_CORE_RESET r) 1) d"

definition airoha_fe_pse_oq_set_fc_disable :: "'d fe_env \<Rightarrow> 'd fe_core \<Rightarrow> bool \<Rightarrow> u32 \<Rightarrow> u32 \<Rightarrow> 'd \<Rightarrow> 'd" where
  "airoha_fe_pse_oq_set_fc_disable env r flow_stats port queue d =
     (if flow_stats then
        let which = FIELD_PREP (PSE_CFG_PORT_ID_MASK r) port OR FIELD_PREP (PSE_CFG_QUEUE_ID_MASK r) queue;
            d = fe_wr env (REG_FE_PSE_QUEUE_CFG_WR r) which d;
            d = bus_rmw (fe_bus env) (REG_FE_PSE_QUEUE_CFG_VAL r) (PSE_CFG_OQ_FC_ON r OR PSE_CFG_OQ_RSV_MASK r)
                  (FIELD_PREP (PSE_CFG_OQ_FC_ON r) 0 OR FIELD_PREP (PSE_CFG_OQ_RSV_MASK r) 0x20) d
        in fe_wr env (REG_FE_PSE_QUEUE_CFG_WR r) (which OR PSE_CFG_WR_EN_MASK r OR PSE_CFG_OQFCEN_SEL r OR PSE_CFG_OQRSV_SEL_MASK r) d
      else d)"

text \<open>\<open>fe_regs\<close>: the frame engine is mapped.\<close>

definition airoha_fe_gdm_rls :: "'d fe_env \<Rightarrow> 'd fe_core \<Rightarrow> bool \<Rightarrow> nat \<Rightarrow> 'd \<Rightarrow> int \<times> 'd" where
  "airoha_fe_gdm_rls env r fe_regs port_id d =
     (if port_id \<noteq> 4 then (- EINVAL, d)
      else if \<not> fe_regs then (0, d)
      else
        let m = REG_GDM4_TX_CHN_ID r OR REG_GDM4_TX_CHN_EN r;
            d = bus_rmw (fe_bus env) (REG_GDM4_CHN_RLS r) m
                  (FIELD_PREP (REG_GDM4_TX_CHN_ID r) 0 OR FIELD_PREP (REG_GDM4_TX_CHN_EN r) 1) d;
            (ok, d) = fe_poll r (REG_GDM4_CHN_RLS r) (\<lambda>v. v AND REG_GDM4_TX_CHN_DN r \<noteq> 0) d;
            d = bus_rmw (fe_bus env) (REG_GDM4_CHN_RLS r) m
                  (FIELD_PREP (REG_GDM4_TX_CHN_ID r) 0 OR FIELD_PREP (REG_GDM4_TX_CHN_EN r) 0) d
        in (if ok then 0 else - ETIMEDOUT, d))"

section \<open>Reading a wide counter\<close>

text \<open>A 64-bit counter shown by two registers: each shows its half of the present count, and the count may go on
  with every access.\<close>

locale wide_counter =
  fixes env :: "'d fe_env" and a_h a :: u32 and count :: "'d \<Rightarrow> nat"
  assumes high_half: "fst (fe_rr env a_h d) = word_of_nat (count d div 2 ^ 32)"
    and low_half: "fst (fe_rr env a d) = word_of_nat (count d)"
    and grows: "count d \<le> count (snd (fe_rr env a_h d))"
    and small: "count d < 2 ^ 64"
begin

lemma cnt64_run:
  "run_state (cnt64 env a_h a) d =
     (push_bit 32 (ucast (fst (fe_rr env a_h d))) + ucast (fst (fe_rr env a (snd (fe_rr env a_h d)))), snd (fe_rr env a (snd (fe_rr env a_h d))))"
  by (simp add: cnt64_def cnt_above_def cnt32_def State_Monad.bind_def split_beta State_Monad.return_def)

lemma cnt64_value:
  defines "n d \<equiv> count (snd (fe_rr env a_h d))"
  shows "unat (fst (run_state (cnt64 env a_h a) d)) = (count d div 2 ^ 32) * 2 ^ 32 + n d mod 2 ^ 32"
proof -
  have lt: "count d div 2 ^ 32 < 2 ^ 32" using small [of d] by (simp add: less_mult_imp_div_less)
  let ?h = "ucast (word_of_nat (count d div 2 ^ 32) :: u32) :: u64" and ?l = "ucast (word_of_nat (n d) :: u32) :: u64"
  have h: "unat (push_bit 32 ?h) = (count d div 2 ^ 32) * 2 ^ 32"
    using lt unfolding unsigned_push_bit_eq unsigned_ucast_eq unsigned_of_nat by (simp add: take_bit_eq_mod push_bit_eq_mult)
  have l: "unat ?l = n d mod 2 ^ 32"
    unfolding unsigned_ucast_eq unsigned_of_nat by (simp add: take_bit_eq_mod)
  have "(count d div 2 ^ 32) * 2 ^ 32 + n d mod 2 ^ 32 < 2 ^ 64"
    using lt by simp
  then have "unat (push_bit 32 ?h + ?l) = (count d div 2 ^ 32) * 2 ^ 32 + n d mod 2 ^ 32"
    unfolding unat_word_ariths h l by simp
  then show ?thesis by (simp add: cnt64_run high_half low_half n_def)
qed

end

lemma div_carry:
  fixes n1 n2 :: nat
  assumes "n1 \<le> n2"
  shows "((n1 div 2 ^ 32) * 2 ^ 32 + n2 mod 2 ^ 32 = n2) = (n1 div 2 ^ 32 = n2 div 2 ^ 32)"
    and "n2 < n1 + 2 ^ 32 \<Longrightarrow> n1 div 2 ^ 32 \<noteq> n2 div 2 ^ 32 \<Longrightarrow> (n1 div 2 ^ 32) * 2 ^ 32 + n2 mod 2 ^ 32 < n1"
proof -
  have n1: "n1 = (n1 div 2 ^ 32) * 2 ^ 32 + n1 mod 2 ^ 32" and n2: "n2 = (n2 div 2 ^ 32) * 2 ^ 32 + n2 mod 2 ^ 32"
    by simp_all
  have cancel: "(a * 2 ^ 32 + r = b * 2 ^ 32 + r) = (a = b)" for a b r :: nat by simp
  have carry: "Suc a * 2 ^ 32 \<le> b * 2 ^ 32 \<Longrightarrow> b * 2 ^ 32 + r < n + 2 ^ 32 \<Longrightarrow> a * 2 ^ 32 + r < n" for a b r n :: nat by simp
  have le: "n1 div 2 ^ 32 \<le> n2 div 2 ^ 32" using assms by (rule div_le_mono)
  show "((n1 div 2 ^ 32) * 2 ^ 32 + n2 mod 2 ^ 32 = n2) = (n1 div 2 ^ 32 = n2 div 2 ^ 32)"
    using cancel [of "n1 div 2 ^ 32" "n2 mod 2 ^ 32" "n2 div 2 ^ 32"] unfolding n2 [symmetric] .
  assume near: "n2 < n1 + 2 ^ 32" and "n1 div 2 ^ 32 \<noteq> n2 div 2 ^ 32"
  then have "Suc (n1 div 2 ^ 32) * 2 ^ 32 \<le> (n2 div 2 ^ 32) * 2 ^ 32" using le by (intro mult_le_mono1) simp
  then show "(n1 div 2 ^ 32) * 2 ^ 32 + n2 mod 2 ^ 32 < n1"
    using carry [of "n1 div 2 ^ 32" "n2 div 2 ^ 32" "n2 mod 2 ^ 32" n1] near unfolding n2 [symmetric] by blast
qed

text \<open>The count of received packets is put together from two reads without a look back at the upper half.
  It is the count at the second read exactly when no carry into the upper half falls between them;
  when one does, the answer is smaller than the count was before the request, so the counter a reader
  sees runs backwards. On a chip without wide counters the length counter is only its lower half: the
  upper half is a variable that nothing sets.\<close>

theorem rx_count_torn:
  fixes env :: "'d fe_env" and d :: 'd
  assumes "wide_counter env GDMA2_RX_OKCNT_H GDMA2_RX_OKCNT count"
  defines "before \<equiv> count d" and "after \<equiv> count (snd (fe_rr env GDMA2_RX_OKCNT_H d))"
    and "seen \<equiv> unat (rxOKPktCnt (fst (run_state (fe_api_get_eth_rx_cnt True env) d)))"
  shows "(seen = after \<longleftrightarrow> before div 2 ^ 32 = after div 2 ^ 32) \<and>
    (after < before + 2 ^ 32 \<and> before div 2 ^ 32 \<noteq> after div 2 ^ 32 \<longrightarrow> seen < before) \<and>
    unat (rxFrameLen (fst (run_state (fe_api_get_eth_rx_cnt False env) d'))) < 2 ^ 32"
proof -
  have "seen = (before div 2 ^ 32) * 2 ^ 32 + after mod 2 ^ 32"
    unfolding seen_def before_def after_def wide_counter.cnt64_value [OF assms(1), symmetric]
    by (simp add: fe_api_get_eth_rx_cnt_def State_Monad.bind_def split_beta State_Monad.return_def)
  moreover have "unat (rxFrameLen (fst (run_state (fe_api_get_eth_rx_cnt False env) d'))) < 2 ^ 32"
  proof -
    have "unat (ucast (x :: u32) :: u64) < 2 ^ 32" for x
      using unsigned_less [of x, where 'a = nat] unfolding unsigned_ucast_eq by (simp add: take_bit_eq_mod)
    then show ?thesis
      by (simp add: fe_api_get_eth_rx_cnt_def cnt_above_def cnt32_def gdm2_rx_len_high_def State_Monad.bind_def split_beta State_Monad.return_def)
  qed
  ultimately show ?thesis
    using div_carry [OF wide_counter.grows [OF assms(1), of d], folded before_def after_def] by auto
qed

text \<open>A counter that goes up with every access.\<close>

definition tick_env :: "nat fe_env" where
  "tick_env = \<lparr>
     fe_bus = \<lparr>
       bus_rr = (\<lambda>a n. (if a = GDMA2_RX_OKCNT_H then word_of_nat (min n (2 ^ 64 - 1) div 2 ^ 32) else word_of_nat (min n (2 ^ 64 - 1)), n + 1)),
       bus_wr = (\<lambda>a v n. n), bus_rmw = (\<lambda>a m v n. n)\<rparr>,
     fe_mdelay = (\<lambda>n. n)\<rparr>"

interpretation tick: wide_counter tick_env GDMA2_RX_OKCNT_H GDMA2_RX_OKCNT "\<lambda>n. min n (2 ^ 64 - 1)"
  by unfold_locales (simp_all add: tick_env_def fe_rr_def)

lemma tick_counter: "wide_counter tick_env GDMA2_RX_OKCNT_H GDMA2_RX_OKCNT (\<lambda>n. min n (2 ^ 64 - 1))"
  by (rule tick.wide_counter_axioms)

theorem rx_count_torn_witness:
  "unat (rxOKPktCnt (fst (run_state (fe_api_get_eth_rx_cnt True tick_env) (2 ^ 32 - 1)))) < 2 ^ 32 - 1"
  using rx_count_torn [OF tick_counter, of "2 ^ 32 - 1"] by (simp add: tick_env_def fe_rr_def)

end
