(* ===== verification/Soc.thy ===== *)
theory Soc
  imports FeChannel
begin

text \<open>
  What differs between the two systems on a chip, \<^verbatim>\<open>airoha/en7581/soc_en7581.c\<close> and
  \<^verbatim>\<open>airoha/an7583/soc_an7583.c\<close>: which ports are monitored, which transmit channel a device uses, and how
  a port is quiesced when its link goes down. The table that says how the serial lanes of the en7581 are
  wired is part of the patch \<^verbatim>\<open>992-20\<close> of the target, the numbers of the ports are constants of the
  upstream driver and arguments here.
\<close>

record soc =
  nbq :: "nat list"
  fport :: "nat list"
  chnl :: "nat list"
  gdm :: "FE_Gdma_Sel list"
  retire_channel :: "u32 list"

abbreviation (input) SERDES_PCIE0_IDX :: nat where "SERDES_PCIE0_IDX \<equiv> 0"
abbreviation (input) SERDES_PCIE1_IDX :: nat where "SERDES_PCIE1_IDX \<equiv> 1"
abbreviation (input) SERDES_USB_IDX :: nat where "SERDES_USB_IDX \<equiv> 2"
abbreviation (input) SERDES_ETH_IDX :: nat where "SERDES_ETH_IDX \<equiv> 4"
abbreviation (input) SERDES_MAX_IDX :: nat where "SERDES_MAX_IDX \<equiv> 5"
abbreviation (input) AIROHA_MAX_NUM_CHANNELS :: nat where "AIROHA_MAX_NUM_CHANNELS \<equiv> 32"

record soc_ids =
  AIROHA_GDM3_IDX :: nat
  AIROHA_GDM4_IDX :: nat
  FE_PSE_PORT_CDM1 :: u32
  FE_PSE_PORT_CDM2 :: u32
  FE_PSE_PORT_GDM3 :: nat
  FE_PSE_PORT_GDM4 :: nat

text \<open>A network device of a port: the port's number, the device's queue number there, whether it has a
  serial-lane MAC and a transmit engine, and the number of its frame-engine port.\<close>

record gdm_dev =
  port_id :: nat
  dev_nbq :: nat
  has_xfi_mac :: bool
  has_qdma :: bool
  fe_port :: int

text \<open>The lanes PCIe0, PCIe1, USB, PON and Ethernet of the en7581: the fourth is not wired.\<close>

definition en7581_soc_data :: "soc_ids \<Rightarrow> soc" where
  "en7581_soc_data i = \<lparr>nbq = [4, 5, 1, 0, 0],
     fport = [FE_PSE_PORT_GDM3 i, FE_PSE_PORT_GDM3 i, FE_PSE_PORT_GDM4 i, 0, FE_PSE_PORT_GDM4 i],
     chnl = [10, 11, 12, 0, 13], gdm = replicate 5 FE_GDM_SEL_GDMA1, retire_channel = replicate 5 0\<rparr>"

text \<open>The table of the an7583 has no entries for the lanes at all.\<close>

definition an7583_soc_data :: soc where
  "an7583_soc_data = \<lparr>nbq = replicate 5 0, fport = replicate 5 0, chnl = replicate 5 0, gdm = replicate 5 FE_GDM_SEL_GDMA1,
     retire_channel = replicate 5 0\<rparr>"

section \<open>Ports and channels\<close>

abbreviation (input) AIROHA_PORTS_GDM2_ID :: nat where "AIROHA_PORTS_GDM2_ID \<equiv> 1"
abbreviation (input) AIROHA_PORTS_GDM3_ID :: nat where "AIROHA_PORTS_GDM3_ID \<equiv> 2"

definition en7581_support_eth_monitor :: "nat \<Rightarrow> bool" where
  "en7581_support_eth_monitor p \<longleftrightarrow> \<not> (p = AIROHA_PORTS_GDM2_ID \<or> p = AIROHA_PORTS_GDM3_ID)"

definition an7583_support_eth_monitor :: "nat \<Rightarrow> bool" where
  "an7583_support_eth_monitor p \<longleftrightarrow> p \<noteq> AIROHA_PORTS_GDM2_ID"

definition en7581_get_fe_fport :: "soc_ids \<Rightarrow> nat \<Rightarrow> nat" where
  "en7581_get_fe_fport i portid = (if portid = AIROHA_GDM4_IDX i then FE_PSE_PORT_GDM4 i else portid)"

definition LAN_IDX_FROM_TX_SPTAG :: "u16 \<Rightarrow> nat" where
  "LAN_IDX_FROM_TX_SPTAG sptag = (if sptag = 16 then 4 else if sptag = 8 then 3 else if sptag = 4 then 2 else if sptag = 2 then 1 else 0)"

definition sptag_channel :: "soc_ids \<Rightarrow> u32 \<Rightarrow> nat" where
  "sptag_channel i sptag = LAN_IDX_FROM_TX_SPTAG (ucast (sptag AND 0xFF)) mod AIROHA_MAX_NUM_CHANNELS"

text \<open>\<open>None\<close>: the device has no port or no driver behind it.\<close>

definition en7581_get_qdma_channel :: "soc_ids \<Rightarrow> soc \<Rightarrow> gdm_dev option \<Rightarrow> u32 \<Rightarrow> nat" where
  "en7581_get_qdma_channel i soc devp sptag =
     (case devp of
        None \<Rightarrow> 0
      | Some dev \<Rightarrow>
          if port_id dev = AIROHA_GDM3_IDX i
          then chnl soc ! (if dev_nbq dev = 5 then SERDES_PCIE1_IDX else SERDES_PCIE0_IDX) mod AIROHA_MAX_NUM_CHANNELS
          else if port_id dev = AIROHA_GDM4_IDX i
          then chnl soc ! (if dev_nbq dev = 1 then SERDES_USB_IDX else SERDES_ETH_IDX) mod AIROHA_MAX_NUM_CHANNELS
          else sptag_channel i sptag)"

definition an7583_get_qdma_channel :: "soc_ids \<Rightarrow> soc \<Rightarrow> gdm_dev option \<Rightarrow> u32 \<Rightarrow> nat" where
  "an7583_get_qdma_channel i soc devp sptag =
     (case devp of
        None \<Rightarrow> 0
      | Some dev \<Rightarrow>
          if port_id dev = AIROHA_GDM3_IDX i
          then chnl soc ! SERDES_ETH_IDX mod AIROHA_MAX_NUM_CHANNELS
          else if port_id dev = AIROHA_GDM4_IDX i
          then chnl soc ! (if dev_nbq dev = 0 then SERDES_PCIE0_IDX else SERDES_USB_IDX) mod AIROHA_MAX_NUM_CHANNELS
          else sptag_channel i sptag)"

definition an7583_set_ppe_dft_cport :: "'d bus \<Rightarrow> soc_ids \<Rightarrow> u32 \<Rightarrow> nat \<Rightarrow> int \<Rightarrow> 'd \<Rightarrow> 'd" where
  "an7583_set_ppe_dft_cport io i REG_PPE1_DFT_CPORT_0 port qdma_id d =
     (let dft_port = (if qdma_id = 0 then FE_PSE_PORT_CDM1 i else FE_PSE_PORT_CDM2 i); shift = port * 4
      in bus_rmw io REG_PPE1_DFT_CPORT_0 (push_bit shift 0xF) (push_bit shift (dft_port AND 0xFF)) d)"

text \<open>The serial lane a device sits on and the channel it has there; the lane is \<open>- 1\<close> when there is none.\<close>

definition lane_of :: "soc_ids \<Rightarrow> soc \<Rightarrow> gdm_dev \<Rightarrow> nat \<Rightarrow> bool" where
  "lane_of ids soc dev i \<longleftrightarrow> nbq soc ! i = dev_nbq dev \<and>
     (fport soc ! i = FE_PSE_PORT_GDM3 ids \<and> port_id dev = AIROHA_GDM3_IDX ids \<or>
      fport soc ! i \<noteq> FE_PSE_PORT_GDM3 ids \<and> fport soc ! i = FE_PSE_PORT_GDM4 ids \<and> port_id dev = AIROHA_GDM4_IDX ids)"

definition get_serdes_info_from_dev :: "soc_ids \<Rightarrow> soc \<Rightarrow> gdm_dev \<Rightarrow> int \<times> nat" where
  "get_serdes_info_from_dev ids soc dev =
     (case find (lane_of ids soc dev) [0..<SERDES_MAX_IDX] of None \<Rightarrow> (- 1, 0) | Some i \<Rightarrow> (int i, chnl soc ! i))"

section \<open>The serial-lane MAC of the an7583\<close>

abbreviation (input) XSI_GLB_CFG :: u32 where "XSI_GLB_CFG \<equiv> 0"

definition xsi_check_index_valid :: "soc_ids \<Rightarrow> nat \<Rightarrow> bool" where
  "xsi_check_index_valid i hsgmii_index \<longleftrightarrow> \<not> SERDES_MAX_IDX \<le> hsgmii_index"

text \<open>\<open>xfi\<close> is the register map of the lane's MAC.\<close>

definition xsi_mac_set_ipg :: "'d bus \<Rightarrow> soc_ids \<Rightarrow> gdm_dev \<Rightarrow> nat \<Rightarrow> u32 \<Rightarrow> 'd \<Rightarrow> int \<times> 'd" where
  "xsi_mac_set_ipg xfi i dev hsgmii_index ipg d =
     (if \<not> xsi_check_index_valid i hsgmii_index then (- 1, d)
      else (0, if has_xfi_mac dev then bus_rmw xfi XSI_GLB_CFG 0xFC00 (push_bit 10 ipg) d else d))"

definition xsi_mac_set_tx_rx_frag_len :: "'d bus \<Rightarrow> soc_ids \<Rightarrow> gdm_dev \<Rightarrow> nat \<Rightarrow> u32 \<Rightarrow> 'd \<Rightarrow> int \<times> 'd" where
  "xsi_mac_set_tx_rx_frag_len xfi i dev hsgmii_index frag_len d =
     (if \<not> xsi_check_index_valid i hsgmii_index then (- 1, d)
      else (0, if has_xfi_mac dev
               then bus_rmw xfi XSI_GLB_CFG 0x7C00000 (push_bit 22 frag_len) (bus_rmw xfi XSI_GLB_CFG 0x3E0000 (push_bit 17 frag_len) d)
               else d))"

definition xsi_mac_set_tx_rx_fc_en :: "'d bus \<Rightarrow> soc_ids \<Rightarrow> gdm_dev \<Rightarrow> nat \<Rightarrow> 'd \<Rightarrow> int \<times> 'd" where
  "xsi_mac_set_tx_rx_fc_en xfi i dev hsgmii_index d =
     (if \<not> xsi_check_index_valid i hsgmii_index then (- 1, d)
      else (0, if has_xfi_mac dev then bus_rmw xfi XSI_GLB_CFG 0x10 0x10 (bus_rmw xfi XSI_GLB_CFG 0x20 0x20 d) else d))"

text \<open>\<open>an7583_channel_retire\<close> looks at none of the results.\<close>

definition an7583_channel_retire :: "'d fe_env \<Rightarrow> 'd bus \<Rightarrow> soc_ids \<Rightarrow> soc \<Rightarrow> gdm_dev \<Rightarrow> 'd \<Rightarrow> int \<times> 'd" where
  "an7583_channel_retire env xfi i soc dev d =
     (if port_id dev \<noteq> AIROHA_GDM3_IDX i then (- 1, d)
      else
        let hsgmii_index = SERDES_ETH_IDX;
            (_, d) = fe_api_set_channel_retire_one env (gdm soc ! hsgmii_index) (retire_channel soc ! hsgmii_index) d;
            d = fe_mdelay env d;
            (_, d) = xsi_mac_set_ipg xfi i dev hsgmii_index 10 d;
            (_, d) = xsi_mac_set_tx_rx_frag_len xfi i dev hsgmii_index 4 d;
            (_, d) = xsi_mac_set_tx_rx_fc_en xfi i dev hsgmii_index d
        in (0, d))"

text \<open>The buffer sizes of the two transmit engines.\<close>

definition en7581_get_qdma_buf_size :: "nat \<Rightarrow> int \<Rightarrow> nat" where
  "en7581_get_qdma_buf_size AIROHA_MAX_PACKET_SIZE qid = (if qid \<noteq> 0 then AIROHA_MAX_PACKET_SIZE div 2 else AIROHA_MAX_PACKET_SIZE)"

definition an7583_get_qdma_buf_size :: "nat \<Rightarrow> int \<Rightarrow> nat" where
  "an7583_get_qdma_buf_size AIROHA_MAX_PACKET_SIZE qid = AIROHA_MAX_PACKET_SIZE div 2"

section \<open>Register settings at start\<close>

text \<open>The upstream driver's names for the registers and fields of the transmit engine.\<close>

record qdma_names =
  REG_TXQ_TOTALTHR :: u32
  REG_TXQ_CHNLTHR_CFG :: u32
  REG_TXQ_QUEUETHR_CFG :: u32
  QDMA_CSR_QOS_AGING_CFG :: u32
  QDMA_QOS_AGING_EN :: u32
  QDMA_QOS_AGING_FAST_REPLACE :: u32
  GLOBAL_CFG_RD_BYPASS_WR_MASK :: u32
  GLOBAL_CFG_MAX_ISSUE_NUM_MASK :: u32
  REG_EGRESS_RATE_METER_CFG :: u32
  EGRESS_RATE_METER_EQ_RATE_EN_MASK :: u32
  EGRESS_RATE_METER_WINDOW_SZ_MASK :: u32
  EGRESS_RATE_METER_TIMESLICE_MASK :: u32

abbreviation (input) REG_QDMA_GLOBAL_CFG :: u32 where "REG_QDMA_GLOBAL_CFG \<equiv> 0x0004"
abbreviation (input) REG_QDMA_TXQ_TOTAL_FAST_THR :: u32 where "REG_QDMA_TXQ_TOTAL_FAST_THR \<equiv> 0x10d4"
abbreviation (input) TXQ_TOTAL_MAX_THR_MASK :: u32 where "TXQ_TOTAL_MAX_THR_MASK \<equiv> 0xFFFF0000"
abbreviation (input) TXQ_TOTAL_MIN_THR_MASK :: u32 where "TXQ_TOTAL_MIN_THR_MASK \<equiv> 0xFFFF"
abbreviation (input) BUFF_FAST_TOTAL_THRH :: u32 where "BUFF_FAST_TOTAL_THRH \<equiv> 0x2286"

definition an7581_qdma_regs_setting :: "'d bus \<Rightarrow> qdma_names \<Rightarrow> 'd \<Rightarrow> 'd" where
  "an7581_qdma_regs_setting io n d =
     (let d = bus_wr io (REG_TXQ_TOTALTHR n) 0x39992e00 d;
          d = bus_wr io (REG_TXQ_CHNLTHR_CFG n) 0x39990400 d;
          d = bus_wr io (REG_TXQ_QUEUETHR_CFG n) 0x20000020 d;
          d = bus_rmw io (QDMA_CSR_QOS_AGING_CFG n) 0 (QDMA_QOS_AGING_EN n) d
      in bus_rmw io (QDMA_CSR_QOS_AGING_CFG n) 0 (QDMA_QOS_AGING_FAST_REPLACE n) d)"

definition an7583_qdma_regs_setting :: "'d bus \<Rightarrow> qdma_names \<Rightarrow> nat \<Rightarrow> 'd \<Rightarrow> 'd" where
  "an7583_qdma_regs_setting io n qid d =
     (let d = an7581_qdma_regs_setting io n d;
          d = bus_rmw io REG_QDMA_GLOBAL_CFG (GLOBAL_CFG_RD_BYPASS_WR_MASK n OR GLOBAL_CFG_MAX_ISSUE_NUM_MASK n)
                (GLOBAL_CFG_RD_BYPASS_WR_MASK n OR FIELD_PREP (GLOBAL_CFG_MAX_ISSUE_NUM_MASK n) 3) d;
          d = (if qid = 0
               then bus_rmw io (REG_EGRESS_RATE_METER_CFG n)
                      (EGRESS_RATE_METER_EQ_RATE_EN_MASK n OR EGRESS_RATE_METER_WINDOW_SZ_MASK n OR EGRESS_RATE_METER_TIMESLICE_MASK n)
                      (FIELD_PREP (EGRESS_RATE_METER_WINDOW_SZ_MASK n) 1 OR FIELD_PREP (EGRESS_RATE_METER_TIMESLICE_MASK n) 0x740) d
               else d)
      in bus_rmw io REG_QDMA_TXQ_TOTAL_FAST_THR (TXQ_TOTAL_MAX_THR_MASK OR TXQ_TOTAL_MIN_THR_MASK)
           (FIELD_PREP TXQ_TOTAL_MAX_THR_MASK BUFF_FAST_TOTAL_THRH OR FIELD_PREP TXQ_TOTAL_MIN_THR_MASK BUFF_FAST_TOTAL_THRH) d)"

text \<open>\<open>CDM_BASE\<close> is the base of the first CDMA.\<close>

definition an7583_fe_regs_setting :: "'d bus \<Rightarrow> u32 \<Rightarrow> 'd \<Rightarrow> 'd" where
  "an7583_fe_regs_setting io CDM_BASE d =
     (let d = bus_wr io (CDM_BASE + 0xb0) 0x07e6 d;
          d = bus_wr io (CDM_BASE + 0xb4) 0xc40003f0 d;
          d = bus_rmw io (CDM_BASE + 0xb0) 0 1 d
      in bus_wr io 0x2068 0 d)"

definition an7581_fe_regs_setting :: "'d \<Rightarrow> 'd" where
  "an7581_fe_regs_setting d = d"

section \<open>The two ways to a channel\<close>

text \<open>The devices of the en7581 that sit on a serial lane.\<close>

definition on_lane :: "soc_ids \<Rightarrow> gdm_dev \<Rightarrow> bool" where
  "on_lane i dev \<longleftrightarrow> port_id dev = AIROHA_GDM3_IDX i \<and> dev_nbq dev \<in> {4, 5} \<or> port_id dev = AIROHA_GDM4_IDX i \<and> dev_nbq dev \<in> {0, 1}"

text \<open>C33: on the en7581 the two ways to a device's channel agree: for every device on a serial lane the search of the
  link monitor, which opens and closes the channel, finds the channel on which the transmit path sends,
  and it finds a lane for no other device of these two ports.\<close>

theorem en7581_channels_agree:
  fixes dev :: gdm_dev and i :: soc_ids
  assumes "AIROHA_GDM3_IDX i \<noteq> AIROHA_GDM4_IDX i" and "FE_PSE_PORT_GDM3 i \<noteq> FE_PSE_PORT_GDM4 i"
    and "0 \<notin> {FE_PSE_PORT_GDM3 i, FE_PSE_PORT_GDM4 i}"
  defines "found \<equiv> get_serdes_info_from_dev i (en7581_soc_data i) dev"
  shows "(on_lane i dev \<longrightarrow> 0 \<le> fst found \<and> snd found = en7581_get_qdma_channel i (en7581_soc_data i) (Some dev) sptag) \<and>
    (\<not> on_lane i dev \<longrightarrow> fst found = - 1)"
proof -
  have lanes: "[0..<SERDES_MAX_IDX] = [0, 1, 2, 3, 4]" by (simp add: upt_rec)
  show ?thesis using assms(1-3)
    unfolding found_def get_serdes_info_from_dev_def lanes
    by (auto simp: en7581_get_qdma_channel_def lane_of_def en7581_soc_data_def on_lane_def)
qed

definition some_ids :: soc_ids where
  "some_ids = \<lparr>AIROHA_GDM3_IDX = 3, AIROHA_GDM4_IDX = 4, FE_PSE_PORT_CDM1 = 0, FE_PSE_PORT_CDM2 = 5, FE_PSE_PORT_GDM3 = 3, FE_PSE_PORT_GDM4 = 9\<rparr>"

definition usb_dev :: gdm_dev where
  "usb_dev = \<lparr>port_id = 4, dev_nbq = 1, has_xfi_mac = True, has_qdma = True, fe_port = 9\<rparr>"

theorem en7581_channels_agree_witness:
  "snd (get_serdes_info_from_dev some_ids (en7581_soc_data some_ids) usb_dev) =
     en7581_get_qdma_channel some_ids (en7581_soc_data some_ids) (Some usb_dev) 0 \<and>
   en7581_get_qdma_channel some_ids (en7581_soc_data some_ids) (Some usb_dev) 0 = 12"
  using en7581_channels_agree [of some_ids usb_dev 0]
  by (simp add: some_ids_def usb_dev_def on_lane_def) (simp add: en7581_get_qdma_channel_def en7581_soc_data_def)

section \<open>Retirement without a table\<close>

text \<open>Without entries in the table, losing the link of the third port of an an7583 releases a channel of the first.\<close>

lemma an7583_retires_first_port:
  assumes "port_id dev = AIROHA_GDM3_IDX i" and "\<not> has_xfi_mac dev"
  shows "an7583_channel_retire env xfi i an7583_soc_data dev d =
     (0, fe_mdelay env (snd (fe_api_set_channel_retire_one env FE_GDM_SEL_GDMA1 0 d)))"
  using assms
  by (simp add: an7583_channel_retire_def an7583_soc_data_def xsi_mac_set_ipg_def xsi_mac_set_tx_rx_frag_len_def
      xsi_mac_set_tx_rx_fc_en_def Let_def split_beta)

text \<open>And were the third port named there, nothing would be retired: the function knows the first two only.\<close>

lemma retire_unknown_port:
  assumes "rls_reg g = None"
  shows "fe_api_set_channel_retire_one env g ch d = (- 1, d)"
  using assms by (simp add: fe_api_set_channel_retire_one_def)

end
