(* ===== verification/FlowWalk.thy ===== *)
theory FlowWalk
  imports PpeFoe
begin

text \<open>
  What \<^verbatim>\<open>airoha/arht_dp_api.c\<close> does with the flow table when a LAN port goes down: it walks the table
  and deletes the tracked connection behind every bound flow of the port. The hash table of the kernel
  is the sequence of what its walker returns, the connection tracker three operations; both are
  arguments. The processor is little endian.
\<close>

section \<open>The port of a device\<close>

abbreviation (input) MAGIC_ETH2 :: nat where "MAGIC_ETH2 \<equiv> 2"
abbreviation (input) MAGIC_LAN1 :: nat where "MAGIC_LAN1 \<equiv> 3"

text \<open>What the driver knows of a device that is one of its own: whether it faces the WAN, its port, if it has one,
  and its queue number there.\<close>

record lan_dev =
  ld_wan :: bool
  ld_port :: "nat option"
  ld_nbq :: nat

definition airoha_get_lan_id :: "nat \<Rightarrow> nat \<Rightarrow> lan_dev option \<Rightarrow> nat" where
  "airoha_get_lan_id GDM3_IDX GDM4_IDX devp =
     (case devp of
        None \<Rightarrow> 0
      | Some dev \<Rightarrow>
          if ld_wan dev then 0
          else case ld_port dev of
            None \<Rightarrow> 0
          | Some p \<Rightarrow>
              if p = GDM3_IDX then (if 1 \<le> ld_nbq dev \<and> ld_nbq dev \<le> 4 then MAGIC_LAN1 + (ld_nbq dev - 1) else 0)
              else if p = GDM4_IDX then MAGIC_ETH2 else 0)"

section \<open>Connections\<close>

datatype conn = Conn4 u32 u32 u16 u16 u8 | Conn6 "u32 list" "u32 list" u16 u16 u8

text \<open>A flow: the ports it leaves and enters by, and its entry.\<close>

record 'e lan_flow =
  e_magic :: nat
  ingress_dev_idx :: nat
  lf_data :: 'e

text \<open>The walker hands out a flow or an error (the table is being resized).\<close>

datatype 'e walk_item = Flow "'e lan_flow" | Walk_err

record ('e, 'd) flow_env =
  lf_fields :: "'e foe_fields"
  lf_abi :: foe_abi
  IB1_BIND_UDP :: u32
  ipv6_addrs :: "'e \<Rightarrow> u32 list \<times> u32 list"
  walk_start :: "'d \<Rightarrow> int \<times> 'd"
  walk_items :: "'d \<Rightarrow> 'e walk_item list"
  ct_find_get :: "conn \<Rightarrow> 'd \<Rightarrow> nat option \<times> 'd"
  nf_ct_delete :: "nat \<Rightarrow> 'd \<Rightarrow> 'd"
  nf_ct_put :: "nat \<Rightarrow> 'd \<Rightarrow> 'd"

definition swab16 :: "u16 \<Rightarrow> u16" where
  "swab16 w = push_bit 8 w OR drop_bit 8 w"

definition swab32 :: "u32 \<Rightarrow> u32" where
  "swab32 w = push_bit 24 w OR (push_bit 8 w AND 0xff0000) OR (drop_bit 8 w AND 0xff00) OR drop_bit 24 w"

definition delete_conntrack_by_tuple :: "('e, 'd) flow_env \<Rightarrow> conn \<Rightarrow> 'd \<Rightarrow> 'd" where
  "delete_conntrack_by_tuple env c d =
     (case ct_find_get env c d of
        (None, d) \<Rightarrow> d
      | (Some ct, d) \<Rightarrow> nf_ct_put env ct (nf_ct_delete env ct d))"

text \<open>The connection an entry stands for; \<open>None\<close> for an entry of another type.\<close>

definition conn4_of :: "u8 \<Rightarrow> foe_tuple \<Rightarrow> conn" where
  "conn4_of proto t = Conn4 (swab32 (src_ip t)) (swab32 (dest_ip t)) (swab16 (src_port t)) (swab16 (dest_port t)) proto"

definition conn_of :: "('e, 'd) flow_env \<Rightarrow> 'e \<Rightarrow> conn option" where
  "conn_of env e =
     (let f = lf_fields env; a = lf_abi env; ptype = foe_type f a e;
          proto = (if FIELD_GET (IB1_BIND_UDP env) (ib1 f e) \<noteq> 0 then 17 else 6)
      in if ptype = TYPE_IPV4_HNAPT a \<or> ptype = TYPE_IPV4_ROUTE a then Some (conn4_of proto (orig_tuple f e))
         else if ptype = TYPE_IPV4_DSLITE a then Some (conn4_of proto (dslite_ip4 f e))
         else if ptype = TYPE_IPV6_ROUTE_3T a \<or> ptype = TYPE_IPV6_ROUTE_5T a \<or> ptype = TYPE_IPV6_6RD a
         then Some (Conn6 (map swab32 (fst (ipv6_addrs env e))) (map swab32 (snd (ipv6_addrs env e)))
                      (swab16 (ipv6_src_port f e)) (swab16 (ipv6_dest_port f e)) proto)
         else None)"

section \<open>The walk\<close>

definition flow_of_lan :: "nat \<Rightarrow> 'e lan_flow \<Rightarrow> bool" where
  "flow_of_lan lan_idx e \<longleftrightarrow> lan_idx = e_magic e \<or> lan_idx = ingress_dev_idx e"

fun forget_loop :: "('e, 'd) flow_env \<Rightarrow> nat \<Rightarrow> 'e walk_item list \<Rightarrow> 'd \<Rightarrow> 'd" where
  "forget_loop env lan_idx [] d = d"
| "forget_loop env lan_idx (Walk_err # items) d = d"
| "forget_loop env lan_idx (Flow e # items) d =
     forget_loop env lan_idx items
       (if flow_of_lan lan_idx e then
          if foe_state (lf_fields env) (lf_abi env) (lf_data e) \<noteq> STATE_BIND (lf_abi env) then d
          else case conn_of env (lf_data e) of None \<Rightarrow> d | Some c \<Rightarrow> delete_conntrack_by_tuple env c d
        else d)"

definition airoha_flow_table_entries_lan :: "('e, 'd) flow_env \<Rightarrow> nat \<Rightarrow> 'd \<Rightarrow> 'd" where
  "airoha_flow_table_entries_lan env lan_idx d =
     (let (ret, d) = walk_start env d
      in if ret \<noteq> 0 then d else forget_loop env lan_idx (walk_items env d) d)"

section \<open>What is forgotten\<close>

text \<open>The connections that a walk names: those of the bound flows of the port that it hands out before an error.\<close>

definition reached :: "'e walk_item list \<Rightarrow> 'e lan_flow list" where
  "reached items = [e. Flow e \<leftarrow> takeWhile (\<lambda>x. x \<noteq> Walk_err) items]"

definition named_conns :: "('e, 'd) flow_env \<Rightarrow> nat \<Rightarrow> 'e lan_flow list \<Rightarrow> conn list" where
  "named_conns env lan_idx es =
     List.map_filter (\<lambda>e. if flow_of_lan lan_idx e \<and> foe_state (lf_fields env) (lf_abi env) (lf_data e) = STATE_BIND (lf_abi env)
                          then conn_of env (lf_data e) else None) es"

lemma forget_loop_exact:
  "forget_loop env lan_idx items d = fold (delete_conntrack_by_tuple env) (named_conns env lan_idx (reached items)) d"
proof (induction items arbitrary: d)
  case (Cons x items)
  then show ?case
    by (cases x) (auto simp: reached_def named_conns_def List.map_filter_simps split: option.splits)
qed (simp add: reached_def named_conns_def List.map_filter_simps)

text \<open>A resize of the table ends the walk: what comes after it keeps its connections.\<close>

lemma forget_stops_at_resize: "forget_loop env lan_idx (items @ Walk_err # rest) d = forget_loop env lan_idx (items @ [Walk_err]) d"
proof -
  have "reached (items @ Walk_err # rest) = reached (items @ [Walk_err])"
    by (induction items) (auto simp: reached_def)
  then show ?thesis by (simp add: forget_loop_exact)
qed

end
