(* ===== verification/EthMonitor.thy ===== *)
theory EthMonitor
  imports Soc QdmaLan FeCounters FlowWalk
begin

text \<open>
  The link monitor of \<^verbatim>\<open>airoha/arht_dp_api.c\<close>: eight times a second it compares the link of every LAN
  port with what it last saw, opens the port's path when a link has come up and quiesces it when it has
  gone down, and reprograms the rate limit of the channel when the link rate changes. Registers are
  reached through the buses of the frame engine, the transmit engine and the lane's MAC; the flow table,
  the clean-up hook, the chip's way of releasing a port and the PHY monitor are arguments.
\<close>

section \<open>The monitor's surroundings\<close>

record ('e, 'd) mon_env =
  mo_fe :: "'d fe_env"
  mo_core :: "'d fe_core"
  mo_qdma :: "'d bus"
  mo_xfi :: "gdm_dev \<Rightarrow> 'd bus"
  mo_msleep :: "'d \<Rightarrow> 'd"
  fe_regs :: bool
  REG_GDM_TXCHN_EN :: "nat \<Rightarrow> u32"
  REG_GDM_RXCHN_EN :: "nat \<Rightarrow> u32"
  REG_QUEUE_CLOSE_CFG :: "nat \<Rightarrow> u32"
  TXQ_DISABLE_CHAN_QUEUE :: "nat \<Rightarrow> nat \<Rightarrow> u32"
  XFI_GIB_CFG :: u32
  XFI_RXMBI_STOP :: u32
  XFI_RXMPI_STOP :: u32
  XFI_TXMPI_STOP :: u32
  XFI_TXMBI_STOP :: u32
  XFI_LOGIC_RST_REG :: u32
  XFI_LOGIC_RST :: u32
  REG_GDM4_MBI_TX_BUSY :: u32
  REG_GDM4_MBI_RX_BUSY :: u32
  GDM4_MBI_ARB_TX_RST :: u32
  GDM4_MBI_ARB_RX_RST :: u32
  mo_lan :: "'d lan_env"
  mo_units :: egress_units
  switch_set_mfc :: "('d \<Rightarrow> 'd) option"
  mo_flows :: "('e, 'd) flow_env"
  clean_hook :: "(int \<Rightarrow> int \<Rightarrow> 'd \<Rightarrow> 'd) option"
  set_channel_retire :: "(gdm_dev \<Rightarrow> 'd \<Rightarrow> int \<times> 'd) option"
  ephy_monitor :: "'d \<Rightarrow> 'd"
  ids :: soc_ids
  soc_tab :: soc

text \<open>What the monitor sees of a network device. \<open>nd_rate\<close> is \<open>None\<close> when the device cannot tell its settings;
  \<open>nd_id\<close> names it.\<close>

record net_dev =
  nd_id :: nat
  nd_running :: bool
  nd_present :: bool
  nd_ops :: bool
  nd_rate :: "u32 option"
  nd_link :: bool
  nd_carrier :: bool
  nd_lan :: "lan_dev option"

abbreviation (input) SPEED_UNKNOWN :: u32 where "SPEED_UNKNOWN \<equiv> 0xFFFFFFFF"
abbreviation (input) AIROHA_MAX_GSW_LAN_PORTS :: nat where "AIROHA_MAX_GSW_LAN_PORTS \<equiv> 4"
abbreviation (input) ARHT_ETH_PORT_2 :: nat where "ARHT_ETH_PORT_2 \<equiv> 6"
abbreviation (input) ARHT_ETH_PORT_3 :: nat where "ARHT_ETH_PORT_3 \<equiv> 7"
abbreviation (input) ARHT_ETH_PORT_4 :: nat where "ARHT_ETH_PORT_4 \<equiv> 8"

record 'd mon =
  mdev :: 'd
  eth_lastlinks :: "nat \<Rightarrow> bool"
  gsw_speed :: "nat \<Rightarrow> u32"
  xsi_speed :: "nat \<Rightarrow> u32"
  dev_refs :: "nat \<Rightarrow> int"
  work_started :: bool
  work_pending :: bool

definition mon_dev :: "('d \<Rightarrow> 'd) \<Rightarrow> 'd mon \<Rightarrow> 'd mon" where
  "mon_dev f s = s\<lparr>mdev := f (mdev s)\<rparr>"

section \<open>Opening and closing a path\<close>

definition airoha_gdma_start_TxRx_channel :: "('e, 'd) mon_env \<Rightarrow> gdm_dev \<Rightarrow> 'd \<Rightarrow> 'd" where
  "airoha_gdma_start_TxRx_channel env dev d =
     (if fe_regs env
      then fe_wr (mo_fe env) (REG_GDM_RXCHN_EN env (port_id dev)) 0xffff
             (fe_wr (mo_fe env) (REG_GDM_TXCHN_EN env (port_id dev)) 0xffffffff d)
      else d)"

definition airoha_gdma_stop_TxRx_channel :: "('e, 'd) mon_env \<Rightarrow> gdm_dev \<Rightarrow> 'd \<Rightarrow> 'd" where
  "airoha_gdma_stop_TxRx_channel env dev d =
     (if fe_regs env
      then fe_wr (mo_fe env) (REG_GDM_RXCHN_EN env (port_id dev)) 0 (fe_wr (mo_fe env) (REG_GDM_TXCHN_EN env (port_id dev)) 0 d)
      else d)"

definition xfi_set :: "('e, 'd) mon_env \<Rightarrow> gdm_dev \<Rightarrow> u32 \<Rightarrow> u32 \<Rightarrow> 'd \<Rightarrow> 'd" where
  "xfi_set env dev reg bits d = bus_rmw (mo_xfi env dev) reg bits bits d"

definition xfi_clear :: "('e, 'd) mon_env \<Rightarrow> gdm_dev \<Rightarrow> u32 \<Rightarrow> u32 \<Rightarrow> 'd \<Rightarrow> 'd" where
  "xfi_clear env dev reg bits d = bus_rmw (mo_xfi env dev) reg bits 0 d"

definition airoha_xsi_mac_start :: "('e, 'd) mon_env \<Rightarrow> gdm_dev \<Rightarrow> 'd \<Rightarrow> 'd" where
  "airoha_xsi_mac_start env dev d =
     (if has_xfi_mac dev then
        let d = mo_msleep env (xfi_clear env dev (XFI_GIB_CFG env) (XFI_RXMBI_STOP env) d);
            d = xfi_clear env dev (XFI_GIB_CFG env) (XFI_RXMPI_STOP env) d;
            d = xfi_clear env dev (XFI_GIB_CFG env) (XFI_TXMPI_STOP env) d
        in xfi_clear env dev (XFI_GIB_CFG env) (XFI_TXMBI_STOP env) d
      else d)"

definition airoha_xsi_mac_stop :: "('e, 'd) mon_env \<Rightarrow> gdm_dev \<Rightarrow> 'd \<Rightarrow> 'd" where
  "airoha_xsi_mac_stop env dev d =
     (if has_xfi_mac dev then
        let d = xfi_set env dev (XFI_GIB_CFG env) (XFI_RXMPI_STOP env) d;
            d = xfi_set env dev (XFI_GIB_CFG env) (XFI_RXMBI_STOP env) d;
            d = mo_msleep env (xfi_set env dev (XFI_GIB_CFG env) (XFI_TXMBI_STOP env) d)
        in xfi_set env dev (XFI_GIB_CFG env) (XFI_TXMPI_STOP env) d
      else d)"

definition airoha_xsi_mac_reset :: "('e, 'd) mon_env \<Rightarrow> gdm_dev \<Rightarrow> 'd \<Rightarrow> 'd" where
  "airoha_xsi_mac_reset env dev d =
     (if has_xfi_mac dev
      then xfi_set env dev (XFI_LOGIC_RST_REG env) (XFI_LOGIC_RST env) (xfi_clear env dev (XFI_LOGIC_RST_REG env) (XFI_LOGIC_RST env) d)
      else d)"

definition airoha_qdma_start_channel :: "('e, 'd) mon_env \<Rightarrow> gdm_dev \<Rightarrow> nat \<Rightarrow> 'd \<Rightarrow> 'd" where
  "airoha_qdma_start_channel env dev channel d =
     (if has_qdma dev
      then fold (\<lambda>i. bus_rmw (mo_qdma env) (REG_QUEUE_CLOSE_CFG env channel) (TXQ_DISABLE_CHAN_QUEUE env channel i) 0) [0..<8] d
      else d)"

definition airoha_qdma_stop_channel :: "('e, 'd) mon_env \<Rightarrow> gdm_dev \<Rightarrow> nat \<Rightarrow> 'd \<Rightarrow> 'd" where
  "airoha_qdma_stop_channel env dev channel d =
     (if has_qdma dev
      then fold (\<lambda>i. bus_rmw (mo_qdma env) (REG_QUEUE_CLOSE_CFG env channel) 0 (TXQ_DISABLE_CHAN_QUEUE env channel i)) [0..<8] d
      else d)"

text \<open>The channel's rate limit; \<^verbatim>\<open>chnlIdx\<close> is a byte.\<close>

definition airoha_eth_link_rate_update :: "('e, 'd) mon_env \<Rightarrow> int \<Rightarrow> u32 \<Rightarrow> 'd \<Rightarrow> 'd" where
  "airoha_eth_link_rate_update env idx speed d =
     snd (qdma_set_qdmalan_tx_ratelimit (mo_lan env) (mo_units env) (word_of_int (idx + 1)) (speed * 1000) d)"

text \<open>One direction of the release of a hung port: \<open>busy\<close> is the direction's bit in the release register.\<close>

definition mbi_unlock :: "('e, 'd) mon_env \<Rightarrow> u32 \<Rightarrow> u32 \<Rightarrow> 'd \<Rightarrow> 'd" where
  "mbi_unlock env busy rst d =
     (let r = mo_core env; poll = fe_poll r (REG_GDM4_CHN_RLS r) (\<lambda>v. v AND busy = 0); (idle, d) = poll d in
      if idle then d
      else
        let d = bus_rmw (fe_bus (mo_fe env)) (FE_RESET_GLO r) rst (FIELD_PREP rst 1) d;
            (_, d) = poll d;
            d = bus_rmw (fe_bus (mo_fe env)) (FE_RESET_GLO r) rst (FIELD_PREP rst 1) d
        in snd (poll d))"

definition airoha_eth_mbi_hang_unlock_by_arbit_reset :: "('e, 'd) mon_env \<Rightarrow> 'd \<Rightarrow> 'd" where
  "airoha_eth_mbi_hang_unlock_by_arbit_reset env d =
     (if fe_regs env
      then mbi_unlock env (REG_GDM4_MBI_RX_BUSY env) (GDM4_MBI_ARB_RX_RST env)
             (mbi_unlock env (REG_GDM4_MBI_TX_BUSY env) (GDM4_MBI_ARB_TX_RST env) d)
      else d)"

definition airoha_eth_monitor_link_up_protection :: "('e, 'd) mon_env \<Rightarrow> gdm_dev \<Rightarrow> nat \<Rightarrow> 'd \<Rightarrow> 'd" where
  "airoha_eth_monitor_link_up_protection env dev channel d =
     (let d = airoha_gdma_start_TxRx_channel env dev d;
          d = (case switch_set_mfc env of None \<Rightarrow> d | Some f \<Rightarrow> f d);
          d = (if port_id dev \<noteq> 1 then airoha_xsi_mac_start env dev d else d)
      in airoha_qdma_start_channel env dev channel d)"

definition run_clean_hook :: "('e, 'd) mon_env \<Rightarrow> gdm_dev \<Rightarrow> nat \<Rightarrow> 'd \<Rightarrow> 'd" where
  "run_clean_hook env dev channel d = (case clean_hook env of None \<Rightarrow> d | Some f \<Rightarrow> f (fe_port dev) (int channel) d)"

definition airoha_eth_monitor_link_down_protection :: "('e, 'd) mon_env \<Rightarrow> gdm_dev \<Rightarrow> net_dev \<Rightarrow> nat \<Rightarrow> 'd \<Rightarrow> 'd" where
  "airoha_eth_monitor_link_down_protection env dev eth_dev channel d =
     (let i = ids env;
          d = airoha_flow_table_entries_lan (mo_flows env) (airoha_get_lan_id (AIROHA_GDM3_IDX i) (AIROHA_GDM4_IDX i) (nd_lan eth_dev)) d in
      if port_id dev \<noteq> 1 then
        let d = airoha_qdma_stop_channel env dev channel d;
            d = mo_msleep env (airoha_xsi_mac_stop env dev d);
            d = airoha_gdma_stop_TxRx_channel env dev d;
            d = run_clean_hook env dev channel d
        in case set_channel_retire env of
             Some f \<Rightarrow> snd (f dev d)
           | None \<Rightarrow>
               let (_, d) = airoha_fe_gdm_rls (mo_fe env) (mo_core env) (fe_regs env) (port_id dev) d
               in airoha_xsi_mac_reset env dev (airoha_eth_mbi_hang_unlock_by_arbit_reset env d)
      else run_clean_hook env dev channel d)"

section \<open>The switch ports\<close>

text \<open>One port: \<open>nd\<close> is what looking up \<^verbatim>\<open>lan<i+1>\<close> finds, with a reference on it.\<close>

definition gsw_rate :: "('e, 'd) mon_env \<Rightarrow> net_dev \<Rightarrow> nat \<Rightarrow> 'd mon \<Rightarrow> 'd mon" where
  "gsw_rate env nd i s =
     (case (if nd_ops nd then nd_rate nd else None) of
        None \<Rightarrow> s
      | Some speed \<Rightarrow>
          if speed \<noteq> SPEED_UNKNOWN \<and> speed \<noteq> gsw_speed s i
          then (mon_dev (airoha_eth_link_rate_update env (int i) speed) s)\<lparr>gsw_speed := (gsw_speed s)(i := speed)\<rparr>
          else s)"

definition gsw_link :: "('e, 'd) mon_env \<Rightarrow> gdm_dev \<Rightarrow> net_dev \<Rightarrow> nat \<Rightarrow> 'd mon \<Rightarrow> 'd mon" where
  "gsw_link env dev nd i s =
     (if \<not> nd_ops nd then s
      else if \<not> eth_lastlinks s i \<and> nd_link nd
      then (mon_dev (airoha_eth_monitor_link_up_protection env dev (i + 1)) s)\<lparr>eth_lastlinks := (eth_lastlinks s)(i := True)\<rparr>
      else if eth_lastlinks s i \<and> \<not> nd_link nd
      then (mon_dev (airoha_eth_monitor_link_down_protection env dev nd (i + 1)) s)\<lparr>eth_lastlinks := (eth_lastlinks s)(i := False)\<rparr>
      else s)"

definition gsw_port :: "('e, 'd) mon_env \<Rightarrow> gdm_dev \<Rightarrow> (nat \<Rightarrow> net_dev option) \<Rightarrow> nat \<Rightarrow> 'd mon \<Rightarrow> 'd mon" where
  "gsw_port env dev lan i s =
     (case lan i of
        None \<Rightarrow> s
      | Some nd \<Rightarrow>
          let s = s\<lparr>dev_refs := (dev_refs s)(nd_id nd := dev_refs s (nd_id nd) + 1)\<rparr> in
          if nd_running nd \<and> nd_present nd then
            let s = gsw_link env dev nd i (gsw_rate env nd i s)
            in s\<lparr>dev_refs := (dev_refs s)(nd_id nd := dev_refs s (nd_id nd) - 1)\<rparr>
          else s)"

definition airoha_eth_monitor_gsw_process :: "('e, 'd) mon_env \<Rightarrow> (nat \<Rightarrow> net_dev option) \<Rightarrow> gdm_dev \<Rightarrow> 'd mon \<Rightarrow> 'd mon" where
  "airoha_eth_monitor_gsw_process env lan dev s =
     fold (gsw_port env dev lan) [0..<AIROHA_MAX_GSW_LAN_PORTS] (mon_dev (ephy_monitor env) s)"

section \<open>The serial lanes\<close>

definition serdes_port :: "int \<Rightarrow> nat option" where
  "serdes_port serdes_idx =
     (if serdes_idx = int (SERDES_ETH_IDX) then Some ARHT_ETH_PORT_2
      else if serdes_idx = int (SERDES_PCIE0_IDX) \<or> serdes_idx = int (SERDES_PCIE1_IDX) then Some ARHT_ETH_PORT_3
      else if serdes_idx = int (SERDES_USB_IDX) then Some ARHT_ETH_PORT_4
      else None)"

definition airoha_eth_monitor_serdes_link_status_handler :: "('e, 'd) mon_env \<Rightarrow> gdm_dev \<Rightarrow> net_dev \<Rightarrow> 'd mon \<Rightarrow> 'd mon" where
  "airoha_eth_monitor_serdes_link_status_handler env dev nd s =
     (let (serdes_idx, channel) = get_serdes_info_from_dev (ids env) (soc_tab env) dev in
      case serdes_port serdes_idx of
        None \<Rightarrow> s
      | Some p \<Rightarrow>
          let k = nat serdes_idx;
              s = (case (if nd_ops nd then nd_rate nd else None) of
                     None \<Rightarrow> s
                   | Some speed \<Rightarrow>
                       if speed \<noteq> SPEED_UNKNOWN \<and> speed \<noteq> xsi_speed s k
                       then (mon_dev (airoha_eth_link_rate_update env (int (chnl (soc_tab env) ! k) - 1) speed) s)
                              \<lparr>xsi_speed := (xsi_speed s)(k := speed)\<rparr>
                       else s);
              up = nd_running nd \<and> nd_carrier nd
          in if \<not> eth_lastlinks s p \<and> up
             then (if has_qdma dev then mon_dev (airoha_eth_monitor_link_up_protection env dev channel) s else s)
                    \<lparr>eth_lastlinks := (eth_lastlinks s)(p := True)\<rparr>
             else if eth_lastlinks s p \<and> \<not> up
             then (if has_qdma dev then mon_dev (airoha_eth_monitor_link_down_protection env dev nd channel) s else s)
                    \<lparr>eth_lastlinks := (eth_lastlinks s)(p := False)\<rparr>
             else s)"

definition airoha_eth_monitor_serdes_process :: "('e, 'd) mon_env \<Rightarrow> (gdm_dev \<times> net_dev) option \<Rightarrow> 'd mon \<Rightarrow> 'd mon" where
  "airoha_eth_monitor_serdes_process env devp s =
     (case devp of None \<Rightarrow> s | Some (dev, nd) \<Rightarrow> airoha_eth_monitor_serdes_link_status_handler env dev nd s)"

section \<open>The periodic work\<close>

text \<open>A device of a port with its network device and whether that belongs to the switch.\<close>

definition mon_device :: "('e, 'd) mon_env \<Rightarrow> (nat \<Rightarrow> net_dev option) \<Rightarrow> (gdm_dev \<times> net_dev \<times> bool) option \<Rightarrow> 'd mon \<Rightarrow> 'd mon" where
  "mon_device env lan devp s =
     (case devp of
        None \<Rightarrow> s
      | Some (dev, nd, dsa) \<Rightarrow>
          if dsa then airoha_eth_monitor_gsw_process env lan dev s
          else airoha_eth_monitor_serdes_process env (Some (dev, nd)) s)"

definition airoha_eth_monitor ::
  "('e, 'd) mon_env \<Rightarrow> (nat \<Rightarrow> bool) \<Rightarrow> (nat \<Rightarrow> net_dev option) \<Rightarrow> (gdm_dev \<times> net_dev \<times> bool) option list list \<Rightarrow> 'd mon \<Rightarrow> 'd mon" where
  "airoha_eth_monitor env support lan ports s =
     (let s = fold (\<lambda>p s. if \<not> support p then s else fold (mon_device env lan) (ports ! p) s) [0..<length ports] s
      in if work_started s then s\<lparr>work_pending := True\<rparr> else s)"

text \<open>The worker takes the pending work and runs it.\<close>

definition run_monitor ::
  "('e, 'd) mon_env \<Rightarrow> (nat \<Rightarrow> bool) \<Rightarrow> (nat \<Rightarrow> net_dev option) \<Rightarrow> (gdm_dev \<times> net_dev \<times> bool) option list list \<Rightarrow> 'd mon \<Rightarrow> 'd mon" where
  "run_monitor env support lan ports s =
     (if work_pending s then airoha_eth_monitor env support lan ports (s\<lparr>work_pending := False\<rparr>) else s)"

text \<open>\<open>eth\<close>: the driver has its device; \<open>hook\<close>: its chip has a monitor.\<close>

definition airoha_eth_monitor_workqueue_init :: "bool \<Rightarrow> bool \<Rightarrow> 'd mon \<Rightarrow> 'd mon" where
  "airoha_eth_monitor_workqueue_init eth hook s =
     (if eth \<and> hook \<and> \<not> work_started s then s\<lparr>work_started := True, work_pending := True\<rparr> else s)"

definition airoha_eth_monitor_workqueue_exit :: "bool \<Rightarrow> bool \<Rightarrow> 'd mon \<Rightarrow> 'd mon" where
  "airoha_eth_monitor_workqueue_exit eth hook s =
     (if eth \<and> hook \<and> work_started s then s\<lparr>work_started := False, work_pending := False\<rparr> else s)"

end
