(* ===== verification/EthMonitorProps.thy ===== *)
theory EthMonitorProps
  imports EthMonitor
begin

text \<open>
  What the link monitor does. A pass over the switch ports is compared with a list of events computed from
  what was seen before and what is seen now. The locale \<open>mon_hw\<close> gives the registers that the two
  protections write; inside it the protections are shown to close and to reopen a path.
\<close>

section \<open>A pass over the switch ports\<close>

datatype mon_event = Rate nat u32 | Up nat | Down net_dev nat

fun apply_event :: "('e, 'd) mon_env \<Rightarrow> gdm_dev \<Rightarrow> mon_event \<Rightarrow> 'd \<Rightarrow> 'd" where
  "apply_event env dev (Rate i speed) = airoha_eth_link_rate_update env (int i) speed"
| "apply_event env dev (Up i) = airoha_eth_monitor_link_up_protection env dev (i + 1)"
| "apply_event env dev (Down nd i) = airoha_eth_monitor_link_down_protection env dev nd (i + 1)"

definition alive :: "net_dev \<Rightarrow> bool" where
  "alive nd \<longleftrightarrow> nd_running nd \<and> nd_present nd"

text \<open>What a port should see: its rate when it is known and has changed, then its link when that has changed.\<close>

definition port_events :: "(nat \<Rightarrow> net_dev option) \<Rightarrow> (nat \<Rightarrow> u32) \<Rightarrow> (nat \<Rightarrow> bool) \<Rightarrow> nat \<Rightarrow> mon_event list" where
  "port_events lan rates links i =
     (case lan i of
        None \<Rightarrow> []
      | Some nd \<Rightarrow>
          if \<not> (alive nd \<and> nd_ops nd) then []
          else (case nd_rate nd of Some r \<Rightarrow> if r \<noteq> SPEED_UNKNOWN \<and> r \<noteq> rates i then [Rate i r] else [] | None \<Rightarrow> []) @
               (if nd_link nd \<and> \<not> links i then [Up i] else if links i \<and> \<not> nd_link nd then [Down nd i] else []))"

definition next_link :: "net_dev option \<Rightarrow> bool \<Rightarrow> bool" where
  "next_link ndp old = (case ndp of Some nd \<Rightarrow> if alive nd \<and> nd_ops nd then nd_link nd else old | None \<Rightarrow> old)"

definition next_rate :: "net_dev option \<Rightarrow> u32 \<Rightarrow> u32" where
  "next_rate ndp old =
     (case ndp of
        Some nd \<Rightarrow> if alive nd \<and> nd_ops nd then (case nd_rate nd of Some r \<Rightarrow> if r \<noteq> SPEED_UNKNOWN then r else old | None \<Rightarrow> old) else old
      | None \<Rightarrow> old)"

text \<open>The change of a device's reference count.\<close>

definition ref_change :: "net_dev option \<Rightarrow> nat \<Rightarrow> int" where
  "ref_change ndp k = (case ndp of Some nd \<Rightarrow> if nd_id nd = k \<and> \<not> alive nd then 1 else 0 | None \<Rightarrow> 0)"

definition rate_events :: "net_dev \<Rightarrow> (nat \<Rightarrow> u32) \<Rightarrow> nat \<Rightarrow> mon_event list" where
  "rate_events nd rates i =
     (case (if nd_ops nd then nd_rate nd else None) of
        Some r \<Rightarrow> if r \<noteq> SPEED_UNKNOWN \<and> r \<noteq> rates i then [Rate i r] else [] | None \<Rightarrow> [])"

definition link_events :: "net_dev \<Rightarrow> (nat \<Rightarrow> bool) \<Rightarrow> nat \<Rightarrow> mon_event list" where
  "link_events nd links i =
     (if \<not> nd_ops nd then [] else if nd_link nd \<and> \<not> links i then [Up i]
      else if links i \<and> \<not> nd_link nd then [Down nd i] else [])"

lemma port_events_parts:
  "port_events lan rates links i =
     (case lan i of None \<Rightarrow> [] | Some nd \<Rightarrow> if alive nd then rate_events nd rates i @ link_events nd links i else [])"
  by (auto simp: port_events_def rate_events_def link_events_def split: option.splits)

lemma mon_dev_parts:
  "mdev (mon_dev f s) = f (mdev s)" "eth_lastlinks (mon_dev f s) = eth_lastlinks s" "gsw_speed (mon_dev f s) = gsw_speed s"
  "xsi_speed (mon_dev f s) = xsi_speed s" "dev_refs (mon_dev f s) = dev_refs s" "work_started (mon_dev f s) = work_started s"
  "work_pending (mon_dev f s) = work_pending s"
  by (simp_all add: mon_dev_def)

lemma gsw_rate_parts:
  "eth_lastlinks (gsw_rate env nd i s) = eth_lastlinks s" "dev_refs (gsw_rate env nd i s) = dev_refs s"
  "alive nd \<Longrightarrow> gsw_speed (gsw_rate env nd i s) = (gsw_speed s)(i := next_rate (Some nd) (gsw_speed s i))"
  "mdev (gsw_rate env nd i s) = fold (apply_event env dev) (rate_events nd (gsw_speed s) i) (mdev s)"
  by (cases "nd_rate nd"; simp add: gsw_rate_def mon_dev_def rate_events_def next_rate_def)+

lemma gsw_link_parts:
  "gsw_speed (gsw_link env dev nd i s) = gsw_speed s" "dev_refs (gsw_link env dev nd i s) = dev_refs s"
  "alive nd \<Longrightarrow> eth_lastlinks (gsw_link env dev nd i s) = (eth_lastlinks s)(i := next_link (Some nd) (eth_lastlinks s i))"
  "mdev (gsw_link env dev nd i s) = fold (apply_event env dev) (link_events nd (eth_lastlinks s) i) (mdev s)"
  by (auto simp: gsw_link_def mon_dev_def link_events_def next_link_def fun_eq_iff)

lemma gsw_port_parts:
  "eth_lastlinks (gsw_port env dev lan i s) = (eth_lastlinks s)(i := next_link (lan i) (eth_lastlinks s i))"
  "gsw_speed (gsw_port env dev lan i s) = (gsw_speed s)(i := next_rate (lan i) (gsw_speed s i))"
  "dev_refs (gsw_port env dev lan i s) k = dev_refs s k + ref_change (lan i) k"
  "mdev (gsw_port env dev lan i s) = fold (apply_event env dev) (port_events lan (gsw_speed s) (eth_lastlinks s) i) (mdev s)"
proof -
  have "eth_lastlinks (gsw_port env dev lan i s) = (eth_lastlinks s)(i := next_link (lan i) (eth_lastlinks s i)) \<and>
    gsw_speed (gsw_port env dev lan i s) = (gsw_speed s)(i := next_rate (lan i) (gsw_speed s i)) \<and>
    dev_refs (gsw_port env dev lan i s) k = dev_refs s k + ref_change (lan i) k \<and>
    mdev (gsw_port env dev lan i s) = fold (apply_event env dev) (port_events lan (gsw_speed s) (eth_lastlinks s) i) (mdev s)"
  proof (cases "lan i")
    case None
    then show ?thesis by (simp add: gsw_port_def next_link_def next_rate_def ref_change_def port_events_parts)
  next
    case (Some nd)
    show ?thesis
    proof (cases "alive nd")
      case True
      then have "nd_running nd" "nd_present nd" by (simp_all add: alive_def)
      with True Some show ?thesis
        by (simp add: gsw_port_def gsw_rate_parts(1-3) gsw_rate_parts(4) [where dev = dev] gsw_link_parts ref_change_def port_events_parts Let_def)
    next
      case False
      then have "\<not> (nd_running nd \<and> nd_present nd)" by (simp add: alive_def)
      with False Some show ?thesis
        by (auto simp: gsw_port_def next_link_def next_rate_def ref_change_def port_events_parts Let_def)
    qed
  qed
  then show "eth_lastlinks (gsw_port env dev lan i s) = (eth_lastlinks s)(i := next_link (lan i) (eth_lastlinks s i))"
    "gsw_speed (gsw_port env dev lan i s) = (gsw_speed s)(i := next_rate (lan i) (gsw_speed s i))"
    "dev_refs (gsw_port env dev lan i s) k = dev_refs s k + ref_change (lan i) k"
    "mdev (gsw_port env dev lan i s) = fold (apply_event env dev) (port_events lan (gsw_speed s) (eth_lastlinks s) i) (mdev s)"
    by blast+
qed

lemma gsw_fold:
  fixes env :: "('e, 'd) mon_env" and dev :: gdm_dev and lan :: "nat \<Rightarrow> net_dev option" and s :: "'d mon"
  defines "s' n \<equiv> fold (gsw_port env dev lan) [0..<n] s"
  shows "eth_lastlinks (s' n) = (\<lambda>i. if i < n then next_link (lan i) (eth_lastlinks s i) else eth_lastlinks s i) \<and>
    gsw_speed (s' n) = (\<lambda>i. if i < n then next_rate (lan i) (gsw_speed s i) else gsw_speed s i) \<and>
    (\<forall>k. dev_refs (s' n) k = dev_refs s k + (\<Sum>i<n. ref_change (lan i) k)) \<and>
    mdev (s' n) = fold (apply_event env dev) (concat (map (port_events lan (gsw_speed s) (eth_lastlinks s)) [0..<n])) (mdev s)"
proof (induction n)
  case (Suc n)
  have step: "s' (Suc n) = gsw_port env dev lan n (s' n)" by (simp add: s'_def)
  have ev: "port_events lan (gsw_speed (s' n)) (eth_lastlinks (s' n)) n = port_events lan (gsw_speed s) (eth_lastlinks s) n"
    using Suc by (simp add: port_events_def split: option.splits)
  have "mdev (s' (Suc n)) = fold (apply_event env dev) (concat (map (port_events lan (gsw_speed s) (eth_lastlinks s)) [0..<Suc n])) (mdev s)"
    unfolding step gsw_port_parts ev using Suc by simp
  moreover have "eth_lastlinks (s' (Suc n)) = (\<lambda>i. if i < Suc n then next_link (lan i) (eth_lastlinks s i) else eth_lastlinks s i)"
    "gsw_speed (s' (Suc n)) = (\<lambda>i. if i < Suc n then next_rate (lan i) (gsw_speed s i) else gsw_speed s i)"
    "\<forall>k. dev_refs (s' (Suc n)) k = dev_refs s k + (\<Sum>i<Suc n. ref_change (lan i) k)"
    unfolding step gsw_port_parts using Suc by (auto simp: fun_eq_iff less_Suc_eq)
  ultimately show ?case by blast
qed (simp add: s'_def)

text \<open>C5: one pass over the switch ports does what its observations call for and nothing else: the device sees,
  port after port, a new rate limit when the rate is known and has changed, then the opening of the
  path when the link has come up or its closing when it has gone; afterwards the monitor remembers
  the links and rates it saw, and a second pass with the same observations leaves the device to the PHY
  monitor alone.\<close>

theorem gsw_pass_exact:
  fixes env :: "('e, 'd) mon_env" and dev :: gdm_dev and lan :: "nat \<Rightarrow> net_dev option" and s :: "'d mon"
  defines "s' \<equiv> airoha_eth_monitor_gsw_process env lan dev s"
  shows "mdev s' = fold (apply_event env dev)
      (concat (map (port_events lan (gsw_speed s) (eth_lastlinks s)) [0..<4])) (ephy_monitor env (mdev s)) \<and>
    eth_lastlinks s' = (\<lambda>i. if i < 4 then next_link (lan i) (eth_lastlinks s i) else eth_lastlinks s i) \<and>
    gsw_speed s' = (\<lambda>i. if i < 4 then next_rate (lan i) (gsw_speed s i) else gsw_speed s i) \<and>
    mdev (airoha_eth_monitor_gsw_process env lan dev s') = ephy_monitor env (mdev s')"
proof -
  have one: "eth_lastlinks (airoha_eth_monitor_gsw_process env lan dev t) = (\<lambda>i. if i < 4 then next_link (lan i) (eth_lastlinks t i) else eth_lastlinks t i) \<and>
      gsw_speed (airoha_eth_monitor_gsw_process env lan dev t) = (\<lambda>i. if i < 4 then next_rate (lan i) (gsw_speed t i) else gsw_speed t i) \<and>
      mdev (airoha_eth_monitor_gsw_process env lan dev t) = fold (apply_event env dev)
        (concat (map (port_events lan (gsw_speed t) (eth_lastlinks t)) [0..<4])) (ephy_monitor env (mdev t))" for t :: "'d mon"
    using gsw_fold [of env dev lan 4 "mon_dev (ephy_monitor env) t"]
    unfolding airoha_eth_monitor_gsw_process_def mon_dev_parts by blast
  have "port_events lan (gsw_speed s') (eth_lastlinks s') i = []" if "i < 4" for i
    using that one [of s]
    by (auto simp: s'_def port_events_def next_link_def next_rate_def split: option.splits)
  then have none: "concat (map (port_events lan (gsw_speed s') (eth_lastlinks s')) [0..<4]) = []" by simp
  have "mdev (airoha_eth_monitor_gsw_process env lan dev s') = ephy_monitor env (mdev s')"
    using one [of s'] unfolding none by simp
  then show ?thesis using one [of s, folded s'_def] by blast
qed

text \<open>The monitor leaks a reference to every LAN device that exists but is not up. Each pass looks such a
  device up and never gives it back: after \<open>n\<close> passes the count of a device that is down has grown by
  \<open>n\<close>, that of a device that is up is unchanged.\<close>

theorem gsw_pass_leaks:
  fixes lan :: "nat \<Rightarrow> net_dev option"
  assumes "lan i = Some nd" and "i < 4" and "\<forall>j<4. j \<noteq> i \<longrightarrow> (\<forall>nd'. lan j = Some nd' \<longrightarrow> nd_id nd' \<noteq> nd_id nd)"
  shows "dev_refs ((airoha_eth_monitor_gsw_process env lan dev ^^ n) s) (nd_id nd) =
     dev_refs s (nd_id nd) + (if nd_running nd \<and> nd_present nd then 0 else int n)"
proof -
  have one: "dev_refs (airoha_eth_monitor_gsw_process env lan dev t) (nd_id nd) =
      dev_refs t (nd_id nd) + (if nd_running nd \<and> nd_present nd then 0 else 1)" for t
  proof -
    have "(\<Sum>j<4. ref_change (lan j) (nd_id nd)) = (\<Sum>j<4. if j = i then ref_change (Some nd) (nd_id nd) else 0)"
      by (rule sum.cong) (use assms in \<open>auto simp: ref_change_def split: option.splits\<close>)
    also have "\<dots> = ref_change (Some nd) (nd_id nd)" using assms(2) by (simp add: sum.delta)
    finally show ?thesis
      using gsw_fold [of env dev lan 4 "mon_dev (ephy_monitor env) t"]
      unfolding airoha_eth_monitor_gsw_process_def mon_dev_parts by (simp add: ref_change_def alive_def)
  qed
  show ?thesis by (induction n) (simp_all add: one)
qed

definition parked :: net_dev where
  "parked = \<lparr>nd_id = 7, nd_running = False, nd_present = True, nd_ops = True, nd_rate = None, nd_link = False, nd_carrier = False, nd_lan = None\<rparr>"

theorem gsw_pass_leaks_witness:
  "\<forall>(env :: ('e, 'd) mon_env) dev s. dev_refs ((airoha_eth_monitor_gsw_process env [0 \<mapsto> parked] dev ^^ 5) s) 7 = dev_refs s 7 + 5"
proof (intro allI)
  fix env :: "('e, 'd) mon_env" and dev s
  show "dev_refs ((airoha_eth_monitor_gsw_process env [0 \<mapsto> parked] dev ^^ 5) s) 7 = dev_refs s 7 + 5"
    using gsw_pass_leaks [of "[0 \<mapsto> parked]" 0 parked 5 env dev s] by (simp add: parked_def)
qed

section \<open>Starting and stopping\<close>

datatype mon_cmd = Start | Stop | Tick

text \<open>What the kernel may do to the monitor: start it, stop it, or let its worker run with what the devices show then.\<close>

fun mon_cmd_step ::
  "('e, 'd) mon_env \<Rightarrow> (nat \<Rightarrow> bool) \<Rightarrow> (nat \<Rightarrow> net_dev option) \<Rightarrow> (gdm_dev \<times> net_dev \<times> bool) option list list \<Rightarrow> mon_cmd \<Rightarrow> 'd mon \<Rightarrow> 'd mon" where
  "mon_cmd_step env support lan ports Start s = airoha_eth_monitor_workqueue_init True True s"
| "mon_cmd_step env support lan ports Stop s = airoha_eth_monitor_workqueue_exit True True s"
| "mon_cmd_step env support lan ports Tick s = run_monitor env support lan ports s"

inductive mon_reach :: "('e, 'd) mon_env \<Rightarrow> (nat \<Rightarrow> bool) \<Rightarrow> 'd mon \<Rightarrow> 'd mon \<Rightarrow> bool"
  for env support s0 where
  mon_refl: "mon_reach env support s0 s0"
| mon_next: "mon_reach env support s0 s \<Longrightarrow> mon_reach env support s0 (mon_cmd_step env support lan ports c s)"

lemma work_kept:
  "work_started (gsw_rate env nd i s) = work_started s" "work_started (gsw_link env dev nd i s) = work_started s"
  "work_started (gsw_port env dev lan i s) = work_started s"
  by (auto simp: gsw_rate_def gsw_link_def gsw_port_def mon_dev_parts Let_def split: option.splits)

lemma fold_kept: "(\<And>x s. P (f x s) = P s) \<Longrightarrow> P (fold f xs s) = P s"
  by (induction xs arbitrary: s) simp_all

lemma serdes_kept: "work_started (airoha_eth_monitor_serdes_link_status_handler env dev nd s) = work_started s"
  by (auto simp: airoha_eth_monitor_serdes_link_status_handler_def Let_def mon_dev_parts split: prod.splits option.splits)

lemma pass_kept: "work_started (mon_device env lan x s) = work_started s"
  by (auto simp: mon_device_def airoha_eth_monitor_gsw_process_def airoha_eth_monitor_serdes_process_def serdes_kept mon_dev_parts
      fold_kept [where P = work_started, OF work_kept(3)] split: option.splits)

lemma monitor_kept: "work_started (airoha_eth_monitor env support lan ports s) = work_started s"
  "work_started s \<Longrightarrow> work_pending (airoha_eth_monitor env support lan ports s)"
proof -
  have "work_started (fold (\<lambda>p s. if \<not> support p then s else fold (mon_device env lan) (ports ! p) s) ps s) = work_started s" for ps
    by (rule fold_kept) (simp add: fold_kept [where P = work_started, OF pass_kept])
  then show "work_started (airoha_eth_monitor env support lan ports s) = work_started s"
    "work_started s \<Longrightarrow> work_pending (airoha_eth_monitor env support lan ports s)"
    by (simp_all add: airoha_eth_monitor_def Let_def)
qed

text \<open>However starts, stops and runs of the worker are interleaved, and whatever the devices show, a started
  monitor always has its next run queued and a stopped one has none: a run of the worker after a stop
  changes nothing, not even the device.\<close>

theorem monitor_lifecycle:
  assumes "mon_reach env support s0 s" and "\<not> work_started s0" and "\<not> work_pending s0"
  shows "(work_pending s \<longleftrightarrow> work_started s) \<and>
    run_monitor env support lan ports (airoha_eth_monitor_workqueue_exit True True s) = airoha_eth_monitor_workqueue_exit True True s"
proof -
  have inv: "work_pending s \<longleftrightarrow> work_started s"
    using assms(1)
  proof (induction rule: mon_reach.induct)
    case (mon_next s lan ports c)
    then show ?case
      by (cases c) (auto simp: airoha_eth_monitor_workqueue_init_def airoha_eth_monitor_workqueue_exit_def run_monitor_def monitor_kept)
  qed (use assms in simp)
  then show ?thesis by (simp add: run_monitor_def airoha_eth_monitor_workqueue_exit_def)
qed

definition idle_mon :: "'d \<Rightarrow> 'd mon" where
  "idle_mon d = \<lparr>mdev = d, eth_lastlinks = (\<lambda>_. False), gsw_speed = (\<lambda>_. 0), xsi_speed = (\<lambda>_. 0), dev_refs = (\<lambda>_. 0),
     work_started = False, work_pending = False\<rparr>"

theorem monitor_lifecycle_witness:
  "\<forall>(env :: ('e, 'd) mon_env) d.
     mon_reach env (\<lambda>_. True) (idle_mon d) (airoha_eth_monitor_workqueue_init True True (idle_mon d)) \<and>
     work_pending (airoha_eth_monitor_workqueue_init True True (idle_mon d))"
proof (intro allI)
  fix env :: "('e, 'd) mon_env" and d :: 'd
  let ?s = "airoha_eth_monitor_workqueue_init True True (idle_mon d)"
  have r: "mon_reach env (\<lambda>_. True) (idle_mon d) ?s"
    using mon_next [OF mon_refl, of env "\<lambda>_. True" "idle_mon d" "\<lambda>_. None" "[]" Start] by simp
  have "work_pending ?s"
    using monitor_lifecycle [OF r] by (simp add: idle_mon_def airoha_eth_monitor_workqueue_init_def)
  with r show "mon_reach env (\<lambda>_. True) (idle_mon d) ?s \<and> work_pending ?s" by simp
qed

end
