(* ===== verification/EthLink.thy ===== *)
theory EthLink
  imports EthMonitor
begin

text \<open>
  What opening and closing a path leave in the registers. The three register files the monitor writes (frame
  engine, transmit engine, the lanes' MACs) are seen through one view; the locale \<open>mon_hw\<close> says what a
  write does to it and that nothing else the monitor calls touches it. The two registers in which
  the hardware itself answers are left out.
\<close>

datatype mon_reg = Fe u32 | Qd u32 | Xf gdm_dev u32

definition hw_driven :: "('e, 'd) mon_env \<Rightarrow> mon_reg set" where
  "hw_driven env = {Fe (REG_GDM4_CHN_RLS (mo_core env)), Fe (FE_RESET_GLO (mo_core env))}"

locale mon_hw =
  fixes env :: "('e, 'd) mon_env" and cfg :: "'d \<Rightarrow> mon_reg \<Rightarrow> u32"
  assumes fe_wr_cfg: "r \<notin> hw_driven env \<Longrightarrow> cfg (fe_wr (mo_fe env) a v d) r = (if r = Fe a then v else cfg d r)"
    and fe_rmw_cfg: "r \<notin> hw_driven env \<Longrightarrow>
      cfg (bus_rmw (fe_bus (mo_fe env)) a m v d) r = (if r = Fe a then masked (cfg d r) m v else cfg d r)"
    and q_rmw_cfg: "cfg (bus_rmw (mo_qdma env) a m v d) r = (if r = Qd a then masked (cfg d r) m v else cfg d r)"
    and x_rmw_cfg: "cfg (bus_rmw (mo_xfi env dev) a m v d) r = (if r = Xf dev a then masked (cfg d r) m v else cfg d r)"
    and msleep_cfg: "cfg (mo_msleep env d) r = cfg d r"
    and poll_cfg: "r \<notin> hw_driven env \<Longrightarrow> cfg (snd (fe_poll (mo_core env) a P d)) r = cfg d r"
    and walk_cfg: "cfg (snd (walk_start (mo_flows env) d)) r = cfg d r"
    and find_cfg: "cfg (snd (ct_find_get (mo_flows env) c d)) r = cfg d r"
    and delete_cfg: "cfg (nf_ct_delete (mo_flows env) n d) r = cfg d r"
    and put_cfg: "cfg (nf_ct_put (mo_flows env) n d) r = cfg d r"
    and clean_cfg: "clean_hook env = Some f \<Longrightarrow> cfg (f p c' d) r = cfg d r"
    and mfc_cfg: "switch_set_mfc env = Some g \<Longrightarrow> cfg (g d) r = cfg d r"
begin

lemma conn_cfg: "cfg (delete_conntrack_by_tuple (mo_flows env) c d) r = cfg d r"
  using find_cfg [of c d r]
  by (cases "ct_find_get (mo_flows env) c d") (auto simp: delete_conntrack_by_tuple_def delete_cfg put_cfg split: option.splits)

lemma flows_cfg: "cfg (airoha_flow_table_entries_lan (mo_flows env) i d) r = cfg d r"
proof -
  have "cfg (fold (delete_conntrack_by_tuple (mo_flows env)) cs d) r = cfg d r" for cs d
    by (induction cs arbitrary: d) (simp_all add: conn_cfg)
  then show ?thesis
    by (simp add: airoha_flow_table_entries_lan_def forget_loop_exact Let_def split_beta walk_cfg)
qed

lemma hook_cfg: "cfg (run_clean_hook env dev ch d) r = cfg d r"
  by (auto simp: run_clean_hook_def clean_cfg split: option.splits)

lemma mfc_opt_cfg: "cfg (case switch_set_mfc env of None \<Rightarrow> d | Some f \<Rightarrow> f d) r = cfg d r"
  by (auto simp: mfc_cfg split: option.splits)

lemma mbi_cfg: "r \<notin> hw_driven env \<Longrightarrow> cfg (mbi_unlock env busy rst d) r = cfg d r"
  by (simp add: mbi_unlock_def Let_def split_beta poll_cfg fe_rmw_cfg) (simp add: hw_driven_def)

lemma unlock_cfg: "r \<notin> hw_driven env \<Longrightarrow> cfg (airoha_eth_mbi_hang_unlock_by_arbit_reset env d) r = cfg d r"
  by (simp add: airoha_eth_mbi_hang_unlock_by_arbit_reset_def mbi_cfg)

lemma rls_cfg: "r \<notin> hw_driven env \<Longrightarrow> cfg (snd (airoha_fe_gdm_rls (mo_fe env) (mo_core env) on p d)) r = cfg d r"
  by (simp add: airoha_fe_gdm_rls_def Let_def split_beta poll_cfg fe_rmw_cfg) (simp add: hw_driven_def)

text \<open>The eight queues of a channel.\<close>

lemma queues_cfg:
  "cfg (fold (\<lambda>i. bus_rmw (mo_qdma env) a (m i) (v i)) is d) r =
     (if r = Qd a then fold (\<lambda>i w. masked w (m i) (v i)) is (cfg d r) else cfg d r)"
  by (induction "is" arbitrary: d) (simp_all add: q_rmw_cfg)

end

lemma fold_clear: "fold (\<lambda>i w. masked w (m i) 0) is r = r AND NOT (fold (\<lambda>i w. w OR m i) is 0)" for r :: u32
proof (induction "is" rule: rev_induct)
  case (snoc i "is")
  then show ?case by (simp add: masked_def bit.de_Morgan_disj and.assoc)
qed simp

lemma fold_set: "fold (\<lambda>i w. masked w 0 (m i)) is r = r OR fold (\<lambda>i w. w OR m i) is 0" for r :: u32
proof (induction "is" rule: rev_induct)
  case (snoc i "is")
  then show ?case by (simp add: masked_def or.assoc)
qed simp

text \<open>All queues of a channel in the register that closes queues.\<close>

definition channel_queues :: "('e, 'd) mon_env \<Rightarrow> nat \<Rightarrow> u32" where
  "channel_queues env ch = fold (\<lambda>i w. w OR TXQ_DISABLE_CHAN_QUEUE env ch i) [0..<8] 0"

definition mac_stops :: "('e, 'd) mon_env \<Rightarrow> u32" where
  "mac_stops env = XFI_RXMBI_STOP env OR XFI_RXMPI_STOP env OR XFI_TXMPI_STOP env OR XFI_TXMBI_STOP env"

context mon_hw
begin

lemma start_queues:
  "cfg (airoha_qdma_start_channel env dev ch d) r =
     (if has_qdma dev \<and> r = Qd (REG_QUEUE_CLOSE_CFG env ch) then cfg d r AND NOT (channel_queues env ch) else cfg d r)"
  by (simp add: airoha_qdma_start_channel_def queues_cfg fold_clear channel_queues_def del: upt_rec_numeral)

lemma stop_queues:
  "cfg (airoha_qdma_stop_channel env dev ch d) r =
     (if has_qdma dev \<and> r = Qd (REG_QUEUE_CLOSE_CFG env ch) then cfg d r OR channel_queues env ch else cfg d r)"
  by (simp add: airoha_qdma_stop_channel_def queues_cfg fold_set channel_queues_def del: upt_rec_numeral)

lemma mac_start:
  "cfg (airoha_xsi_mac_start env dev d) r =
     (if has_xfi_mac dev \<and> r = Xf dev (XFI_GIB_CFG env) then cfg d r AND NOT (mac_stops env) else cfg d r)"
  by (simp add: airoha_xsi_mac_start_def xfi_clear_def Let_def x_rmw_cfg msleep_cfg mac_stops_def masked_def bit.de_Morgan_disj and.assoc)

lemma masked_all: "masked w m m = w OR m"
  by (rule bit_word_eqI) (auto simp: masked_def bit_simps)

lemma mac_stop:
  "cfg (airoha_xsi_mac_stop env dev d) r =
     (if has_xfi_mac dev \<and> r = Xf dev (XFI_GIB_CFG env) then cfg d r OR mac_stops env else cfg d r)"
  by (auto simp: airoha_xsi_mac_stop_def xfi_set_def Let_def x_rmw_cfg msleep_cfg mac_stops_def masked_all ac_simps)

lemma gdma_start:
  "r \<notin> hw_driven env \<Longrightarrow> cfg (airoha_gdma_start_TxRx_channel env dev d) r =
     (if fe_regs env \<and> r = Fe (REG_GDM_RXCHN_EN env (port_id dev)) then 0xffff
      else if fe_regs env \<and> r = Fe (REG_GDM_TXCHN_EN env (port_id dev)) then 0xffffffff else cfg d r)"
  by (auto simp: airoha_gdma_start_TxRx_channel_def fe_wr_cfg)

lemma gdma_stop:
  "r \<notin> hw_driven env \<Longrightarrow> cfg (airoha_gdma_stop_TxRx_channel env dev d) r =
     (if fe_regs env \<and> r \<in> {Fe (REG_GDM_RXCHN_EN env (port_id dev)), Fe (REG_GDM_TXCHN_EN env (port_id dev))} then 0 else cfg d r)"
  by (auto simp: airoha_gdma_stop_TxRx_channel_def fe_wr_cfg)

lemma mac_reset:
  "r \<noteq> Xf dev (XFI_LOGIC_RST_REG env) \<Longrightarrow> cfg (airoha_xsi_mac_reset env dev d) r = cfg d r"
  by (simp add: airoha_xsi_mac_reset_def xfi_set_def xfi_clear_def x_rmw_cfg)

end

context mon_hw
begin

lemma up_cfg:
  assumes "r \<notin> hw_driven env" and "port_id dev \<noteq> 1"
  shows "cfg (airoha_eth_monitor_link_up_protection env dev ch d) r =
     (if has_qdma dev \<and> r = Qd (REG_QUEUE_CLOSE_CFG env ch) then cfg d r AND NOT (channel_queues env ch)
      else if has_xfi_mac dev \<and> r = Xf dev (XFI_GIB_CFG env) then cfg d r AND NOT (mac_stops env)
      else if fe_regs env \<and> r = Fe (REG_GDM_RXCHN_EN env (port_id dev)) then 0xffff
      else if fe_regs env \<and> r = Fe (REG_GDM_TXCHN_EN env (port_id dev)) then 0xffffffff else cfg d r)"
  using assms
  by (auto simp: airoha_eth_monitor_link_up_protection_def Let_def start_queues mac_start mfc_opt_cfg gdma_start)

lemma down_cfg:
  assumes "r \<notin> hw_driven env" and "port_id dev \<noteq> 1" and "set_channel_retire env = None" and "r \<noteq> Xf dev (XFI_LOGIC_RST_REG env)"
  shows "cfg (airoha_eth_monitor_link_down_protection env dev nd ch d) r =
     (if fe_regs env \<and> r \<in> {Fe (REG_GDM_RXCHN_EN env (port_id dev)), Fe (REG_GDM_TXCHN_EN env (port_id dev))} then 0
      else if has_xfi_mac dev \<and> r = Xf dev (XFI_GIB_CFG env) then cfg d r OR mac_stops env
      else if has_qdma dev \<and> r = Qd (REG_QUEUE_CLOSE_CFG env ch) then cfg d r OR channel_queues env ch else cfg d r)"
  using assms
  by (auto simp: airoha_eth_monitor_link_down_protection_def Let_def split_beta mac_reset unlock_cfg rls_cfg hook_cfg gdma_stop
      msleep_cfg mac_stop stop_queues flows_cfg)

end

text \<open>The registers of a device's path and, for each, the bits that keep it closed.\<close>

definition path_regs :: "('e, 'd) mon_env \<Rightarrow> gdm_dev \<Rightarrow> nat \<Rightarrow> mon_reg set" where
  "path_regs env dev ch =
     {Fe (REG_GDM_RXCHN_EN env (port_id dev)), Fe (REG_GDM_TXCHN_EN env (port_id dev)), Xf dev (XFI_GIB_CFG env), Qd (REG_QUEUE_CLOSE_CFG env ch)}"

definition path_closed :: "('e, 'd) mon_env \<Rightarrow> gdm_dev \<Rightarrow> nat \<Rightarrow> (mon_reg \<Rightarrow> u32) \<Rightarrow> bool" where
  "path_closed env dev ch v \<longleftrightarrow>
     v (Fe (REG_GDM_RXCHN_EN env (port_id dev))) = 0 \<and> v (Fe (REG_GDM_TXCHN_EN env (port_id dev))) = 0 \<and>
     v (Xf dev (XFI_GIB_CFG env)) AND mac_stops env = mac_stops env \<and>
     v (Qd (REG_QUEUE_CLOSE_CFG env ch)) AND channel_queues env ch = channel_queues env ch"

definition path_open :: "('e, 'd) mon_env \<Rightarrow> gdm_dev \<Rightarrow> nat \<Rightarrow> (mon_reg \<Rightarrow> u32) \<Rightarrow> bool" where
  "path_open env dev ch v \<longleftrightarrow>
     v (Fe (REG_GDM_RXCHN_EN env (port_id dev))) = 0xffff \<and> v (Fe (REG_GDM_TXCHN_EN env (port_id dev))) = 0xffffffff \<and>
     v (Xf dev (XFI_GIB_CFG env)) AND mac_stops env = 0 \<and>
     v (Qd (REG_QUEUE_CLOSE_CFG env ch)) AND channel_queues env ch = 0"

lemma and_absorb: "(w OR m) AND m = m" "(w AND NOT m) AND m = 0" for w m :: u32
  by (rule bit_word_eqI; auto simp: bit_simps)+


section \<open>Registers in memory\<close>

type_synonym mon_box = "mon_reg \<Rightarrow> u32"

definition file_bus :: "(u32 \<Rightarrow> mon_reg) \<Rightarrow> mon_box bus" where
  "file_bus k = \<lparr>bus_rr = (\<lambda>a d. (d (k a), d)), bus_wr = (\<lambda>a v d. d(k a := v)), bus_rmw = (\<lambda>a m v d. d(k a := masked (d (k a)) m v))\<rparr>"

definition box_core :: "mon_box fe_core" where
  "box_core = \<lparr>
     FE_RESET_GLO = 0x0, REG_FE_CORE_RESET = 1, REG_GDM4_CHN_RLS = 0x2620, REG_GDM4_TX_CHN_ID = 0x1F0, REG_GDM4_TX_CHN_EN = 1,
     REG_GDM4_TX_CHN_DN = 2, REG_FE_PSE_QUEUE_CFG_WR = 0x80, REG_FE_PSE_QUEUE_CFG_VAL = 0x84, PSE_CFG_PORT_ID_MASK = 0xF0,
     PSE_CFG_QUEUE_ID_MASK = 0xF, PSE_CFG_OQ_FC_ON = 0x80000000, PSE_CFG_OQ_RSV_MASK = 0x3FFF, PSE_CFG_WR_EN_MASK = 0x100,
     PSE_CFG_OQFCEN_SEL = 0x200, PSE_CFG_OQRSV_SEL_MASK = 0x400, fe_poll = (\<lambda>a P d. (P (d (Fe a)), d))\<rparr>"

definition box_flows :: "(u32 list, mon_box) flow_env" where
  "box_flows = \<lparr>
     lf_fields = box_fields, lf_abi = box_abi, IB1_BIND_UDP = 0x40000000, ipv6_addrs = (\<lambda>e. (take 4 (tl e), take 4 (drop 5 e))),
     walk_start = (\<lambda>d. (0, d)), walk_items = (\<lambda>d. []), ct_find_get = (\<lambda>c d. (None, d)), nf_ct_delete = (\<lambda>n d. d), nf_ct_put = (\<lambda>n d. d)\<rparr>"

definition mon_box_env :: "mon_box lan_env \<Rightarrow> (u32 list, mon_box) mon_env" where
  "mon_box_env lan = \<lparr>
     mo_fe = \<lparr>fe_bus = file_bus Fe, fe_mdelay = (\<lambda>d. d)\<rparr>, mo_core = box_core, mo_qdma = file_bus Qd, mo_xfi = (\<lambda>dev. file_bus (Xf dev)),
     mo_msleep = (\<lambda>d. d), fe_regs = True, REG_GDM_TXCHN_EN = (\<lambda>p. 0x524 + 0x1000 * word_of_nat p),
     REG_GDM_RXCHN_EN = (\<lambda>p. 0x528 + 0x1000 * word_of_nat p), REG_QUEUE_CLOSE_CFG = (\<lambda>ch. 0xA0 + word_of_nat (ch div 4) * 4),
     TXQ_DISABLE_CHAN_QUEUE = (\<lambda>ch i. push_bit (8 * (ch mod 4) + i) 1), XFI_GIB_CFG = 0, XFI_RXMBI_STOP = 4, XFI_RXMPI_STOP = 1,
     XFI_TXMPI_STOP = 2, XFI_TXMBI_STOP = 8, XFI_LOGIC_RST_REG = 0x10, XFI_LOGIC_RST = 1, REG_GDM4_MBI_TX_BUSY = 0x80000,
     REG_GDM4_MBI_RX_BUSY = 0x8000000, GDM4_MBI_ARB_TX_RST = 0x20, GDM4_MBI_ARB_RX_RST = 0x40, mo_lan = lan,
     mo_units = \<lparr>egress_byte_unit = 1, egress_packet_unit = 1\<rparr>, switch_set_mfc = None, mo_flows = box_flows, clean_hook = None,
     set_channel_retire = None, ephy_monitor = (\<lambda>d. d), ids = some_ids, soc_tab = en7581_soc_data some_ids\<rparr>"

interpretation mon_box: mon_hw "mon_box_env lan" "\<lambda>d. d"
  by unfold_locales (auto simp: mon_box_env_def box_flows_def box_core_def file_bus_def fe_wr_def)

lemma mon_box_hw: "mon_hw (mon_box_env lan) (\<lambda>d. d)"
  by (rule mon_box.mon_hw_axioms)


end
