(* ===== verification/AeonIpc.thy ===== *)
theory AeonIpc
  imports Prelude
begin

text \<open>
  The mailbox of the external AN8831 PHYs, \<^verbatim>\<open>airoha/arht_hsgmii.c\<close>. A command is a word with an operation
  code, a size and a parity bit in one register of the PHY, its arguments are in eight data registers, the
  firmware of the PHY answers in a status register with the parity of the command it has serviced. The
  parity is the low bit of a counter of commands. The MDIO bus, the delays and the clock are arguments.
\<close>

section \<open>Surroundings\<close>

text \<open>\<open>mmd_read\<close> and \<open>mmd_write\<close> reach a register of a device of a PHY; reading yields a value or a negative error
  number. \<open>a_now\<close> is the wall clock in nanoseconds. \<open>stray\<close> is the word that happens to lie in front of an array.\<close>

record 'd aeon_env =
  mmd_read :: "nat \<Rightarrow> u16 \<Rightarrow> u16 \<Rightarrow> 'd \<Rightarrow> int \<times> 'd"
  mmd_write :: "nat \<Rightarrow> u16 \<Rightarrow> u16 \<Rightarrow> u16 \<Rightarrow> 'd \<Rightarrow> 'd"
  a_mdelay :: "nat \<Rightarrow> 'd \<Rightarrow> 'd"
  a_udelay :: "nat \<Rightarrow> 'd \<Rightarrow> 'd"
  a_now :: "'d \<Rightarrow> u64"
  stray :: "'d \<Rightarrow> u16"

text \<open>One counter of commands serves all PHYs.\<close>

record 'd aeon =
  phys :: 'd
  ipc_cmd_num :: u32

definition on_phy :: "('d \<Rightarrow> 'd) \<Rightarrow> 'd aeon \<Rightarrow> 'd aeon" where
  "on_phy f s = s\<lparr>phys := f (phys s)\<rparr>"

section \<open>Registers\<close>

definition dev_addr :: "u32 \<Rightarrow> u16" where
  "dev_addr reg_addr = ucast (drop_bit 17 reg_addr AND 0x1F)"

definition phy_reg :: "u32 \<Rightarrow> u16" where
  "phy_reg reg_addr = ucast (drop_bit 1 reg_addr AND 0xFFFF)"

definition aeon_mdio_read_reg :: "'d aeon_env \<Rightarrow> nat \<Rightarrow> u32 \<Rightarrow> 'd aeon \<Rightarrow> u16 \<times> 'd aeon" where
  "aeon_mdio_read_reg env p reg_addr s =
     (let (v, d) = mmd_read env p (dev_addr reg_addr) (phy_reg reg_addr) (phys s) in (word_of_int v, s\<lparr>phys := d\<rparr>))"

definition aeon_mdio_write_reg :: "'d aeon_env \<Rightarrow> nat \<Rightarrow> u32 \<Rightarrow> u16 \<Rightarrow> 'd aeon \<Rightarrow> 'd aeon" where
  "aeon_mdio_write_reg env p reg_addr v s = on_phy (mmd_write env p (dev_addr reg_addr) (phy_reg reg_addr) v) s"

text \<open>A field is given by its offset in the upper byte and its width in the lower one.\<close>

definition field_width :: "u16 \<Rightarrow> nat" where
  "field_width field = unat (field AND 0xFF)"

definition field_offset :: "u16 \<Rightarrow> nat" where
  "field_offset field = unat (drop_bit 8 field AND 0xFF)"

definition field_bits :: "u16 \<Rightarrow> u16" where
  "field_bits field = push_bit (field_width field) 1 - 1"

definition aeon_mdio_read_reg_field :: "'d aeon_env \<Rightarrow> nat \<Rightarrow> u32 \<Rightarrow> u16 \<Rightarrow> 'd aeon \<Rightarrow> u16 \<times> 'd aeon" where
  "aeon_mdio_read_reg_field env p reg_addr field s =
     (let (v, s) = aeon_mdio_read_reg env p reg_addr s in (drop_bit (field_offset field) v AND field_bits field, s))"

definition aeon_mdio_write_reg_field :: "'d aeon_env \<Rightarrow> nat \<Rightarrow> u32 \<Rightarrow> u16 \<Rightarrow> u16 \<Rightarrow> 'd aeon \<Rightarrow> 'd aeon" where
  "aeon_mdio_write_reg_field env p reg_addr field v s =
     (let (old, s) = aeon_mdio_read_reg env p reg_addr s;
          m = push_bit (field_offset field) (field_bits field)
      in aeon_mdio_write_reg env p reg_addr ((old AND NOT m) OR push_bit (field_offset field) (v AND field_bits field)) s)"

section \<open>The mailbox\<close>

abbreviation (input) IPC_CMD_BASEADDR :: u32 where "IPC_CMD_BASEADDR \<equiv> 0xEA3CB002"
abbreviation (input) IPC_STS_BASEADDR :: u32 where "IPC_STS_BASEADDR \<equiv> 0xEA3CB004"
abbreviation (input) IPC_DATA0_BASEADDR :: u32 where "IPC_DATA0_BASEADDR \<equiv> 0xEA3CB010"
abbreviation (input) IPC_CMD_PARITY :: u16 where "IPC_CMD_PARITY \<equiv> 0x8000"
abbreviation (input) IPC_TIMEOUT :: u64 where "IPC_TIMEOUT \<equiv> 2000000000"
abbreviation (input) IPC_STS_CMD_SUCCESS :: u16 where "IPC_STS_CMD_SUCCESS \<equiv> 4"
abbreviation (input) IPC_STS_CMD_ERROR :: u16 where "IPC_STS_CMD_ERROR \<equiv> 8"

definition data_reg :: "nat \<Rightarrow> u32" where
  "data_reg i = IPC_DATA0_BASEADDR + 2 * word_of_nat i"

definition aeon_send_ipc_cmd :: "'d aeon_env \<Rightarrow> nat \<Rightarrow> u16 \<Rightarrow> 'd aeon \<Rightarrow> 'd aeon" where
  "aeon_send_ipc_cmd env p cmd s = aeon_mdio_write_reg env p IPC_CMD_BASEADDR cmd s"

text \<open>An array with its length is a list; at most eight words are put into the registers or taken from them.\<close>

definition aeon_set_ipc_data_reg :: "'d aeon_env \<Rightarrow> nat \<Rightarrow> u16 list \<Rightarrow> 'd aeon \<Rightarrow> 'd aeon" where
  "aeon_set_ipc_data_reg env p vals s =
     fold (\<lambda>i. aeon_mdio_write_reg env p (data_reg i) (vals ! i)) [0..<min 8 (length vals)] s"

fun receive_from :: "'d aeon_env \<Rightarrow> nat \<Rightarrow> nat list \<Rightarrow> 'd aeon \<Rightarrow> u16 list \<times> 'd aeon" where
  "receive_from env p [] s = ([], s)"
| "receive_from env p (i # is) s =
     (let (v, s) = aeon_mdio_read_reg env p (data_reg i) s; (vs, s) = receive_from env p is s in (v # vs, s))"

definition aeon_receive_ipc_data :: "'d aeon_env \<Rightarrow> nat \<Rightarrow> nat \<Rightarrow> 'd aeon \<Rightarrow> u16 list \<times> 'd aeon" where
  "aeon_receive_ipc_data env p len s = receive_from env p [0..<min 8 len] s"

definition aeon_get_ipc_status :: "'d aeon_env \<Rightarrow> nat \<Rightarrow> 'd aeon \<Rightarrow> u16 \<times> 'd aeon" where
  "aeon_get_ipc_status env p s = aeon_mdio_read_reg env p IPC_STS_BASEADDR s"

record ipc_sts =
  sts_status :: u16
  sts_opcode :: u16
  sts_size :: u16
  sts_parity :: u16

definition aeon_ipc_parse_sts :: "u16 \<Rightarrow> ipc_sts" where
  "aeon_ipc_parse_sts sts =
     \<lparr>sts_status = sts AND 0xF, sts_opcode = drop_bit 4 sts AND 0x3F, sts_size = drop_bit 10 sts AND 0x1F,
      sts_parity = drop_bit 15 sts AND 1\<rparr>"

definition get_par :: "'d aeon \<Rightarrow> u32" where
  "get_par s = ipc_cmd_num s AND 1"

definition cmd_word :: "bool \<Rightarrow> u16 \<Rightarrow> u16 \<Rightarrow> u16" where
  "cmd_word par opcode sz =
     (let cmd = push_bit 6 (sz AND 0x1F) + (opcode AND 0x3F) in if par then cmd OR IPC_CMD_PARITY else cmd AND NOT IPC_CMD_PARITY)"

definition aeon_ipc_build_cmd :: "u16 \<Rightarrow> u16 \<Rightarrow> 'd aeon \<Rightarrow> u16 \<times> 'd aeon" where
  "aeon_ipc_build_cmd opcode sz s = (cmd_word (get_par s \<noteq> 0) opcode sz, s\<lparr>ipc_cmd_num := ipc_cmd_num s + 1\<rparr>)"

definition aeon_send_ipc_msg :: "'d aeon_env \<Rightarrow> nat \<Rightarrow> u16 list \<Rightarrow> u16 \<Rightarrow> u16 \<Rightarrow> 'd aeon \<Rightarrow> 'd aeon" where
  "aeon_send_ipc_msg env p vals opcode sz s =
     (let s = aeon_set_ipc_data_reg env p vals s; (cmd, s) = aeon_ipc_build_cmd opcode sz s
      in aeon_send_ipc_cmd env p cmd s)"

section \<open>Waiting\<close>

text \<open>One look at the status register after ten milliseconds, and whether its parity is that of the last command.\<close>

definition ipc_look :: "'d aeon_env \<Rightarrow> nat \<Rightarrow> 'd aeon \<Rightarrow> ipc_sts \<times> bool \<times> 'd aeon" where
  "ipc_look env p s =
     (let s = on_phy (a_mdelay env 10) s; (sts, s) = aeon_get_ipc_status env p s; r = aeon_ipc_parse_sts sts
      in (r, get_par s \<noteq> ucast (sts_parity r), s))"

text \<open>The loop need not end when the clock stands still. \<open>par\<close> and \<open>status\<close> are what was seen before.\<close>

partial_function (option) ipc_wait ::
  "'d aeon_env \<Rightarrow> nat \<Rightarrow> u64 \<Rightarrow> u64 \<Rightarrow> bool \<Rightarrow> ipc_sts \<Rightarrow> 'd aeon \<Rightarrow> (ipc_sts \<times> 'd aeon) option" where
  "ipc_wait env p t1 tmo par r s =
     (if par \<and> (sts_status r = IPC_STS_CMD_SUCCESS \<or> sts_status r = IPC_STS_CMD_ERROR) then Some (r, s)
      else if sts_status (fst (ipc_look env p s)) = IPC_STS_CMD_ERROR
        \<or> tmo < a_now env (phys (snd (snd (ipc_look env p s)))) - t1
      then Some (fst (ipc_look env p s), snd (snd (ipc_look env p s)))
      else ipc_wait env p t1 tmo (fst (snd (ipc_look env p s))) (fst (ipc_look env p s)) (snd (snd (ipc_look env p s))))"

definition no_sts :: ipc_sts where
  "no_sts = \<lparr>sts_status = 0, sts_opcode = 0, sts_size = 0, sts_parity = 0\<rparr>"

definition aeon_ipc_wait_cmd_done :: "'d aeon_env \<Rightarrow> nat \<Rightarrow> u64 option \<Rightarrow> 'd aeon \<Rightarrow> (ipc_sts \<times> 'd aeon) option" where
  "aeon_ipc_wait_cmd_done env p ns s =
     ipc_wait env p (a_now env (phys s)) (case ns of None \<Rightarrow> IPC_TIMEOUT | Some t \<Rightarrow> t) False no_sts s"

text \<open>The first no-operation is given twenty milliseconds, the second is waited for.\<close>

partial_function (option) sync_wait :: "'d aeon_env \<Rightarrow> nat \<Rightarrow> u64 \<Rightarrow> 'd aeon \<Rightarrow> (bool \<times> 'd aeon) option" where
  "sync_wait env p t1 s =
     (if fst (snd (ipc_look env p s)) \<or> IPC_TIMEOUT < a_now env (phys (snd (snd (ipc_look env p s)))) - t1
      then Some (fst (snd (ipc_look env p s)), snd (snd (ipc_look env p s)))
      else sync_wait env p t1 (snd (snd (ipc_look env p s))))"

definition send_noop :: "'d aeon_env \<Rightarrow> nat \<Rightarrow> 'd aeon \<Rightarrow> 'd aeon" where
  "send_noop env p s = (let (cmd, s) = aeon_ipc_build_cmd 0 0 s in aeon_send_ipc_cmd env p cmd s)"

definition aeon_ipc_sync_parity :: "'d aeon_env \<Rightarrow> nat \<Rightarrow> 'd aeon \<Rightarrow> 'd aeon option" where
  "aeon_ipc_sync_parity env p s =
     (let s = on_phy (a_mdelay env 20) (send_noop env p s); s = send_noop env p s
      in do {
        (par, s) \<leftarrow> sync_wait env p (a_now env (phys s)) s;
        Some (if par then s else snd (aeon_get_ipc_status env p s)) })"

end
