(* ===== verification/AeonCmd.thy ===== *)
theory AeonCmd
  imports AeonIpc
begin

text \<open>
  The commands of the AN8831 PHYs, \<^verbatim>\<open>airoha/arht_hsgmii.c\<close>. A command returns nothing in C: what it leaves is the
  state, and the words it has read where it reads any. A failed command is logged and otherwise ignored.
\<close>

abbreviation (input) IPC_CMD_INFO :: u16 where "IPC_CMD_INFO \<equiv> 0x1"
abbreviation (input) IPC_CMD_SYS_CPU :: u16 where "IPC_CMD_SYS_CPU \<equiv> 0x2"
abbreviation (input) IPC_CMD_RMEM16 :: u16 where "IPC_CMD_RMEM16 \<equiv> 0x3"
abbreviation (input) IPC_CMD_BULK_DATA :: u16 where "IPC_CMD_BULK_DATA \<equiv> 0xA"
abbreviation (input) IPC_CMD_BULK_WRITE :: u16 where "IPC_CMD_BULK_WRITE \<equiv> 0xC"
abbreviation (input) IPC_CMD_LOG :: u16 where "IPC_CMD_LOG \<equiv> 0x13"
abbreviation (input) IPC_CMD_CFG_PARAM :: u16 where "IPC_CMD_CFG_PARAM \<equiv> 0x1A"
abbreviation (input) IPC_CMD_CFG_IRQ :: u16 where "IPC_CMD_CFG_IRQ \<equiv> 0x22"
abbreviation (input) IPC_CMD_SET_LED :: u16 where "IPC_CMD_SET_LED \<equiv> 0x23"
abbreviation (input) IPC_CMD_CFG_DIRECT :: u16 where "IPC_CMD_CFG_DIRECT \<equiv> 0x4"
abbreviation (input) IPC_CMD_INFO_VERSION :: u16 where "IPC_CMD_INFO_VERSION \<equiv> 0x1"
abbreviation (input) IPC_CMD_SYS_REBOOT :: u16 where "IPC_CMD_SYS_REBOOT \<equiv> 0x3"
abbreviation (input) IPC_CMD_SYS_CPU_PHY_ENABLE :: u16 where "IPC_CMD_SYS_CPU_PHY_ENABLE \<equiv> 0x6"
abbreviation (input) IPC_CMD_READ_LOG_CLEAR :: u16 where "IPC_CMD_READ_LOG_CLEAR \<equiv> 0x3"
abbreviation (input) CFG_NG_PHYCTRL :: u16 where "CFG_NG_PHYCTRL \<equiv> 1"
abbreviation (input) CFG_CU_AN :: u16 where "CFG_CU_AN \<equiv> 2"
abbreviation (input) CFG_SDS_PCS :: u16 where "CFG_SDS_PCS \<equiv> 3"
abbreviation (input) CFG_AUTO_EEE :: u16 where "CFG_AUTO_EEE \<equiv> 4"
abbreviation (input) CFG_SDS_PMA :: u16 where "CFG_SDS_PMA \<equiv> 5"
abbreviation (input) CFG_DPC_RA :: u16 where "CFG_DPC_RA \<equiv> 6"
abbreviation (input) CFG_DPC_PKT_CHK :: u16 where "CFG_DPC_PKT_CHK \<equiv> 7"
abbreviation (input) CFG_DPC_SDS_WAIT_ETH :: u16 where "CFG_DPC_SDS_WAIT_ETH \<equiv> 8"
abbreviation (input) CFG_WDT :: u16 where "CFG_WDT \<equiv> 9"
abbreviation (input) CFG_SDS_RESTART_AN :: u16 where "CFG_SDS_RESTART_AN \<equiv> 10"
abbreviation (input) CFG_TEMP_MON :: u16 where "CFG_TEMP_MON \<equiv> 11"
abbreviation (input) CFG_WOL :: u16 where "CFG_WOL \<equiv> 12"
abbreviation (input) CFG_SMI_COMMAND :: u16 where "CFG_SMI_COMMAND \<equiv> 13"
abbreviation (input) CFG_CABLE_DIAG :: u16 where "CFG_CABLE_DIAG \<equiv> 14"
abbreviation (input) CFG_EYE_DRAW :: u16 where "CFG_EYE_DRAW \<equiv> 15"
abbreviation (input) CFG_MAC_CNT :: u16 where "CFG_MAC_CNT \<equiv> 16"
abbreviation (input) MDI_CFG_SPD_T100 :: u16 where "MDI_CFG_SPD_T100 \<equiv> 0x4"
abbreviation (input) MDI_CFG_SPD_T1G :: u16 where "MDI_CFG_SPD_T1G \<equiv> 0x8"
abbreviation (input) MDI :: u16 where "MDI \<equiv> 1"

section \<open>Exchanges\<close>

text \<open>Sending a message and waiting for its answer.\<close>

definition ipc_exchange :: "'d aeon_env \<Rightarrow> nat \<Rightarrow> u16 list \<Rightarrow> u16 \<Rightarrow> u16 \<Rightarrow> u64 option \<Rightarrow> 'd aeon \<Rightarrow> (u16 \<times> 'd aeon) option" where
  "ipc_exchange env p vals opcode sz ns s =
     do { (r, s) \<leftarrow> aeon_ipc_wait_cmd_done env p ns (aeon_send_ipc_msg env p vals opcode sz s); Some (sts_status r, s) }"

definition ipc_command :: "'d aeon_env \<Rightarrow> nat \<Rightarrow> u16 list \<Rightarrow> u16 \<Rightarrow> u16 \<Rightarrow> 'd aeon \<Rightarrow> 'd aeon option" where
  "ipc_command env p vals opcode sz s = do { (_, s) \<leftarrow> ipc_exchange env p vals opcode sz None s; Some s }"

text \<open>A command with an answer: \<open>None\<close> in the first place when it failed and nothing was read.\<close>

definition ipc_query ::
  "'d aeon_env \<Rightarrow> nat \<Rightarrow> u16 list \<Rightarrow> u16 \<Rightarrow> u16 \<Rightarrow> nat \<Rightarrow> 'd aeon \<Rightarrow> (u16 list option \<times> 'd aeon) option" where
  "ipc_query env p vals opcode sz len s =
     do { (status, s) \<leftarrow> ipc_exchange env p vals opcode sz None s;
          Some (if status \<noteq> IPC_STS_CMD_SUCCESS then (None, s)
                else let (vs, s) = aeon_receive_ipc_data env p len s in (Some vs, s)) }"

definition aeon_ipc_get_fw_version :: "'d aeon_env \<Rightarrow> nat \<Rightarrow> 'd aeon \<Rightarrow> (u16 list option \<times> 'd aeon) option" where
  "aeon_ipc_get_fw_version env p s = ipc_query env p [IPC_CMD_INFO_VERSION] IPC_CMD_INFO 2 8 s"

definition aeon_ipc_send_bulk_write :: "'d aeon_env \<Rightarrow> nat \<Rightarrow> u32 \<Rightarrow> u32 \<Rightarrow> 'd aeon \<Rightarrow> 'd aeon option" where
  "aeon_ipc_send_bulk_write env p mem_addr sz s =
     ipc_command env p [ucast mem_addr, ucast (drop_bit 16 mem_addr), ucast sz, ucast (drop_bit 16 sz)] IPC_CMD_BULK_WRITE 8 s"

datatype bitwidth_type = BW8 | BW16 | BW32

text \<open>The number of words that a number of units of a width takes; the size is a byte count in a 16-bit variable.\<close>

definition bulk_words :: "bitwidth_type \<Rightarrow> u16 \<Rightarrow> u16" where
  "bulk_words bw sz = (case bw of BW8 \<Rightarrow> (sz + 1) div 2 | BW32 \<Rightarrow> sz * 2 | BW16 \<Rightarrow> sz)"

definition aeon_ipc_send_bulk_data :: "'d aeon_env \<Rightarrow> nat \<Rightarrow> bitwidth_type \<Rightarrow> u16 \<Rightarrow> u16 list \<Rightarrow> 'd aeon \<Rightarrow> 'd aeon option" where
  "aeon_ipc_send_bulk_data env p bw sz data s =
     (let n = bulk_words bw sz in ipc_command env p (take (unat n) data) IPC_CMD_BULK_DATA (n * 2) s)"

text \<open>The words of a configuration go into the registers from the second on, by handing the array from one word in front
  of it; the first register is then written again.\<close>

definition aeon_ipc_cfg_param_direct :: "'d aeon_env \<Rightarrow> nat \<Rightarrow> u16 list \<Rightarrow> 'd aeon \<Rightarrow> 'd aeon option" where
  "aeon_ipc_cfg_param_direct env p data s =
     (let s = aeon_set_ipc_data_reg env p (stray env (phys s) # data) s;
          s = aeon_set_ipc_data_reg env p [IPC_CMD_CFG_DIRECT] s;
          (cmd, s) = aeon_ipc_build_cmd IPC_CMD_CFG_PARAM (2 * (word_of_nat (length data) + 1)) s;
          s = aeon_send_ipc_cmd env p cmd s
      in do { (_, s) \<leftarrow> aeon_ipc_wait_cmd_done env p None s; Some s })"

text \<open>A configuration command whose answer is read whether it succeeded or not.\<close>

definition cfg_query :: "'d aeon_env \<Rightarrow> nat \<Rightarrow> u16 list \<Rightarrow> nat \<Rightarrow> 'd aeon \<Rightarrow> (u16 list \<times> 'd aeon) option" where
  "cfg_query env p data len s = do { s \<leftarrow> aeon_ipc_cfg_param_direct env p data s; Some (aeon_receive_ipc_data env p len s) }"

section \<open>Auto-negotiation\<close>

definition aeon_cu_an_set_top_spd :: "'d aeon_env \<Rightarrow> nat \<Rightarrow> u16 \<Rightarrow> 'd aeon \<Rightarrow> 'd aeon option" where
  "aeon_cu_an_set_top_spd env p top_spd s = aeon_ipc_cfg_param_direct env p [CFG_CU_AN, 0xc, top_spd] s"

definition aeon_cu_an_restart :: "'d aeon_env \<Rightarrow> nat \<Rightarrow> 'd aeon \<Rightarrow> 'd aeon option" where
  "aeon_cu_an_restart env p s = aeon_ipc_cfg_param_direct env p [CFG_CU_AN, 0xa] s"

definition aeon_cu_an_set_eee_spd :: "'d aeon_env \<Rightarrow> nat \<Rightarrow> u16 \<Rightarrow> 'd aeon \<Rightarrow> 'd aeon option" where
  "aeon_cu_an_set_eee_spd env p speed_mode s = aeon_ipc_cfg_param_direct env p [CFG_CU_AN, 0x3, speed_mode] s"

definition aeon_cu_an_set_trd_swap :: "'d aeon_env \<Rightarrow> nat \<Rightarrow> u16 \<Rightarrow> u16 \<Rightarrow> 'd aeon \<Rightarrow> 'd aeon option" where
  "aeon_cu_an_set_trd_swap env p en trd_swap s = aeon_ipc_cfg_param_direct env p [CFG_CU_AN, 0xe, en, trd_swap] s"

definition aeon_cu_an_set_ms_cfg :: "'d aeon_env \<Rightarrow> nat \<Rightarrow> u16 \<Rightarrow> u16 \<Rightarrow> u16 \<Rightarrow> 'd aeon \<Rightarrow> 'd aeon option" where
  "aeon_cu_an_set_ms_cfg env p port_type ms_man_en ms_man_val s =
     aeon_ipc_cfg_param_direct env p [CFG_CU_AN, 0xd, port_type, ms_man_en, ms_man_val] s"

definition aeon_cu_an_get_ms_cfg :: "'d aeon_env \<Rightarrow> nat \<Rightarrow> 'd aeon \<Rightarrow> (u16 list \<times> 'd aeon) option" where
  "aeon_cu_an_get_ms_cfg env p s = cfg_query env p [CFG_CU_AN, 0xf] 3 s"

definition aeon_cu_an_set_cfr :: "'d aeon_env \<Rightarrow> nat \<Rightarrow> u16 \<Rightarrow> 'd aeon \<Rightarrow> 'd aeon option" where
  "aeon_cu_an_set_cfr env p cfr s = aeon_ipc_cfg_param_direct env p [CFG_CU_AN, 0x10, cfr] s"

definition aeon_cu_an_set_fast_retrain :: "'d aeon_env \<Rightarrow> nat \<Rightarrow> u16 \<Rightarrow> u16 \<Rightarrow> 'd aeon \<Rightarrow> 'd aeon option" where
  "aeon_cu_an_set_fast_retrain env p speed_mode thp_bypass s =
     aeon_ipc_cfg_param_direct env p [CFG_CU_AN, 0x4, drop_bit 4 speed_mode, thp_bypass] s"

definition aeon_cu_an_enable_downshift :: "'d aeon_env \<Rightarrow> nat \<Rightarrow> u16 \<Rightarrow> u16 \<Rightarrow> 'd aeon \<Rightarrow> 'd aeon option" where
  "aeon_cu_an_enable_downshift env p enable retry_limit s = aeon_ipc_cfg_param_direct env p [CFG_CU_AN, 0x6, enable, retry_limit] s"

definition aeon_cu_an_enable_aeon_oui :: "'d aeon_env \<Rightarrow> nat \<Rightarrow> u16 \<Rightarrow> 'd aeon \<Rightarrow> 'd aeon option" where
  "aeon_cu_an_enable_aeon_oui env p nstd_pbo s = aeon_ipc_cfg_param_direct env p [CFG_CU_AN, 0xb, nstd_pbo] s"

definition aeon_cu_an_enable :: "'d aeon_env \<Rightarrow> nat \<Rightarrow> u16 \<Rightarrow> 'd aeon \<Rightarrow> 'd aeon option" where
  "aeon_cu_an_enable env p enable s = aeon_ipc_cfg_param_direct env p [CFG_CU_AN, 0x1, enable] s"

definition aeon_set_man_mdi :: "'d aeon_env \<Rightarrow> nat \<Rightarrow> 'd aeon \<Rightarrow> 'd aeon option" where
  "aeon_set_man_mdi env p s = aeon_ipc_cfg_param_direct env p [CFG_CU_AN, 0x0, 1, MDI] s"

definition aeon_set_man_duplex :: "'d aeon_env \<Rightarrow> nat \<Rightarrow> u16 \<Rightarrow> 'd aeon \<Rightarrow> 'd aeon option" where
  "aeon_set_man_duplex env p duplex s = aeon_ipc_cfg_param_direct env p [CFG_CU_AN, 0x2, 1, duplex] s"

section \<open>Other settings\<close>

definition aeon_sds_pcs_set_cfg :: "'d aeon_env \<Rightarrow> nat \<Rightarrow> u16 \<Rightarrow> u16 \<Rightarrow> 'd aeon \<Rightarrow> 'd aeon option" where
  "aeon_sds_pcs_set_cfg env p pcs_mode sds_spd s = aeon_ipc_cfg_param_direct env p [CFG_SDS_PCS, CFG_SDS_PCS, pcs_mode, sds_spd] s"

definition aeon_sds_pma_set_cfg :: "'d aeon_env \<Rightarrow> nat \<Rightarrow> u16 \<Rightarrow> u16 \<Rightarrow> u16 \<Rightarrow> u16 \<Rightarrow> 'd aeon \<Rightarrow> 'd aeon option" where
  "aeon_sds_pma_set_cfg env p vga_adapt slc_adapt ctle_adapt dfe_adapt s =
     aeon_ipc_cfg_param_direct env p [CFG_SDS_PMA, CFG_SDS_PMA, vga_adapt, slc_adapt, ctle_adapt, dfe_adapt] s"

definition aeon_auto_eee_cfg :: "'d aeon_env \<Rightarrow> nat \<Rightarrow> u16 \<Rightarrow> u32 \<Rightarrow> 'd aeon \<Rightarrow> 'd aeon option" where
  "aeon_auto_eee_cfg env p enable idle_th s =
     aeon_ipc_cfg_param_direct env p [CFG_AUTO_EEE, CFG_AUTO_EEE, enable, ucast (idle_th AND 0xFFFF), ucast (drop_bit 16 idle_th AND 0xFFFF)] s"

text \<open>The temperature is read with the sub-command for it only.\<close>

definition aeon_ipc_temp_monitor :: "'d aeon_env \<Rightarrow> nat \<Rightarrow> u16 \<Rightarrow> u16 \<Rightarrow> 'd aeon \<Rightarrow> (u16 list \<times> 'd aeon) option" where
  "aeon_ipc_temp_monitor env p sub_cmd params s = cfg_query env p [CFG_TEMP_MON, sub_cmd, params] (if sub_cmd = 4 then 3 else 0) s"

definition aeon_dpc_ra_enable :: "'d aeon_env \<Rightarrow> nat \<Rightarrow> 'd aeon \<Rightarrow> 'd aeon option" where
  "aeon_dpc_ra_enable env p s = aeon_ipc_cfg_param_direct env p [CFG_DPC_RA] s"

definition aeon_ipc_set_led_cfg ::
  "'d aeon_env \<Rightarrow> nat \<Rightarrow> u16 \<Rightarrow> u16 \<Rightarrow> u16 \<Rightarrow> u16 \<Rightarrow> u16 \<Rightarrow> u16 \<Rightarrow> u16 \<Rightarrow> 'd aeon \<Rightarrow> 'd aeon option" where
  "aeon_ipc_set_led_cfg env p led0 led1 led2 led3 led4 polarity blink s =
     ipc_command env p [led0, led1, led2, led3, led4, polarity, blink] IPC_CMD_SET_LED 14 s"

text \<open>Nobody waits for a reboot.\<close>

definition aeon_ipc_set_sys_reboot :: "'d aeon_env \<Rightarrow> nat \<Rightarrow> 'd aeon \<Rightarrow> 'd aeon" where
  "aeon_ipc_set_sys_reboot env p s = aeon_send_ipc_msg env p [IPC_CMD_SYS_REBOOT] IPC_CMD_SYS_CPU 2 s"

definition aeon_pkt_chk_cfg :: "'d aeon_env \<Rightarrow> nat \<Rightarrow> u16 \<Rightarrow> 'd aeon \<Rightarrow> 'd aeon option" where
  "aeon_pkt_chk_cfg env p enable s = aeon_ipc_cfg_param_direct env p [CFG_DPC_PKT_CHK, CFG_DPC_PKT_CHK, enable, 0] s"

definition aeon_sds_wait_eth_cfg :: "'d aeon_env \<Rightarrow> nat \<Rightarrow> u16 \<Rightarrow> 'd aeon \<Rightarrow> 'd aeon option" where
  "aeon_sds_wait_eth_cfg env p sds_wait_eth_delay s =
     aeon_ipc_cfg_param_direct env p [CFG_DPC_SDS_WAIT_ETH, CFG_DPC_SDS_WAIT_ETH, sds_wait_eth_delay, 2, 1] s"

definition aeon_ipc_phy_enable_mode :: "'d aeon_env \<Rightarrow> nat \<Rightarrow> u16 \<Rightarrow> 'd aeon \<Rightarrow> 'd aeon option" where
  "aeon_ipc_phy_enable_mode env p enable s = ipc_command env p [IPC_CMD_SYS_CPU_PHY_ENABLE, enable] IPC_CMD_SYS_CPU 4 s"

definition aeon_sds_restart_an :: "'d aeon_env \<Rightarrow> nat \<Rightarrow> 'd aeon \<Rightarrow> 'd aeon option" where
  "aeon_sds_restart_an env p s = aeon_ipc_cfg_param_direct env p [CFG_SDS_RESTART_AN] s"

definition aeon_ipc_ng_test_mode :: "'d aeon_env \<Rightarrow> nat \<Rightarrow> u16 \<Rightarrow> u16 \<Rightarrow> 'd aeon \<Rightarrow> 'd aeon option" where
  "aeon_ipc_ng_test_mode env p test_mode tone s = aeon_ipc_cfg_param_direct env p [CFG_NG_PHYCTRL, 0x4, test_mode, tone] s"

definition aeon_ipc_set_wol :: "'d aeon_env \<Rightarrow> nat \<Rightarrow> u16 \<Rightarrow> u16 \<Rightarrow> u16 \<Rightarrow> u16 \<Rightarrow> 'd aeon \<Rightarrow> 'd aeon option" where
  "aeon_ipc_set_wol env p en v0 v1 v2 s = aeon_ipc_cfg_param_direct env p [CFG_WOL, en, v0, v1, v2] s"

definition aeon_ipc_smi_command :: "'d aeon_env \<Rightarrow> nat \<Rightarrow> u16 \<Rightarrow> u16 \<Rightarrow> 'd aeon \<Rightarrow> 'd aeon option" where
  "aeon_ipc_smi_command env p v0 v1 s = aeon_ipc_cfg_param_direct env p [CFG_SMI_COMMAND, v0, v1] s"

definition aeon_ipc_irq_en :: "'d aeon_env \<Rightarrow> nat \<Rightarrow> u16 \<Rightarrow> u16 \<Rightarrow> 'd aeon \<Rightarrow> 'd aeon option" where
  "aeon_ipc_irq_en env p v0 v1 s = ipc_command env p [0, v0, v1] IPC_CMD_CFG_IRQ 6 s"

definition aeon_ipc_irq_clr :: "'d aeon_env \<Rightarrow> nat \<Rightarrow> u16 \<Rightarrow> 'd aeon \<Rightarrow> 'd aeon option" where
  "aeon_ipc_irq_clr env p v s = ipc_command env p [2, v] IPC_CMD_CFG_IRQ 4 s"

definition aeon_ipc_irq_query :: "'d aeon_env \<Rightarrow> nat \<Rightarrow> 'd aeon \<Rightarrow> (u16 list option \<times> 'd aeon) option" where
  "aeon_ipc_irq_query env p s = ipc_query env p [1] IPC_CMD_CFG_IRQ 2 1 s"

definition aeon_ipc_clear_log :: "'d aeon_env \<Rightarrow> nat \<Rightarrow> 'd aeon \<Rightarrow> 'd aeon option" where
  "aeon_ipc_clear_log env p s = ipc_command env p [IPC_CMD_READ_LOG_CLEAR] IPC_CMD_LOG 2 s"

definition aeon_ipc_set_wdt :: "'d aeon_env \<Rightarrow> nat \<Rightarrow> u16 \<Rightarrow> 'd aeon \<Rightarrow> 'd aeon option" where
  "aeon_ipc_set_wdt env p en s = aeon_ipc_cfg_param_direct env p [CFG_WDT, en] s"

definition aeon_ipc_read_mem :: "'d aeon_env \<Rightarrow> nat \<Rightarrow> u16 \<Rightarrow> u16 \<Rightarrow> u16 \<Rightarrow> 'd aeon \<Rightarrow> (u16 list option \<times> 'd aeon) option" where
  "aeon_ipc_read_mem env p addr1 addr2 num s = ipc_query env p [addr1, addr2, num] IPC_CMD_RMEM16 6 (unat num) s"

section \<open>Measurements\<close>

definition aeon_ipc_cable_diag :: "'d aeon_env \<Rightarrow> nat \<Rightarrow> u16 \<Rightarrow> 'd aeon \<Rightarrow> (u16 list \<times> 'd aeon) option" where
  "aeon_ipc_cable_diag env p sub_cmd s =
     cfg_query env p [CFG_CABLE_DIAG, sub_cmd]
       (if sub_cmd = 1 then 4 else if sub_cmd = 2 then 2 else if sub_cmd = 3 \<or> sub_cmd = 4 then 8 else 0) s"

definition aeon_ipc_get_tx_fullscale_delta :: "'d aeon_env \<Rightarrow> nat \<Rightarrow> u16 \<Rightarrow> 'd aeon \<Rightarrow> (u16 list \<times> 'd aeon) option" where
  "aeon_ipc_get_tx_fullscale_delta env p speed s = cfg_query env p [CFG_NG_PHYCTRL, 0x5, speed] 4 s"

fun set_deltas :: "'d aeon_env \<Rightarrow> nat \<Rightarrow> u16 \<Rightarrow> u16 list \<Rightarrow> nat list \<Rightarrow> 'd aeon \<Rightarrow> 'd aeon option" where
  "set_deltas env p speed delta [] s = Some s"
| "set_deltas env p speed delta (i # is) s =
     do { s \<leftarrow> aeon_ipc_cfg_param_direct env p [CFG_NG_PHYCTRL, 0x3, speed, word_of_nat i, delta ! i] s; set_deltas env p speed delta is s }"

definition aeon_ipc_set_tx_fullscale_delta :: "'d aeon_env \<Rightarrow> nat \<Rightarrow> u16 \<Rightarrow> u16 list \<Rightarrow> 'd aeon \<Rightarrow> 'd aeon option" where
  "aeon_ipc_set_tx_fullscale_delta env p speed delta s = set_deltas env p speed delta [0, 1, 2, 3] s"

definition aeon_ipc_eye_scan :: "'d aeon_env \<Rightarrow> nat \<Rightarrow> u16 \<Rightarrow> u16 \<Rightarrow> u16 \<Rightarrow> 'd aeon \<Rightarrow> (u16 list \<times> 'd aeon) option" where
  "aeon_ipc_eye_scan env p subcmd sds_id eye_num s =
     cfg_query env p (if subcmd = 0 then [CFG_EYE_DRAW, subcmd] else [CFG_EYE_DRAW, subcmd, sds_id, eye_num])
       (if subcmd = 0 then 4 else if subcmd = 1 then 1 else 0) s"

definition count_words :: "u64 \<Rightarrow> u16 list" where
  "count_words c = map (\<lambda>k. ucast (drop_bit k c AND 0xFFFF)) [0, 16, 32, 48]"

definition aeon_ipc_set_mac_cnt :: "'d aeon_env \<Rightarrow> nat \<Rightarrow> u64 \<Rightarrow> u64 \<Rightarrow> 'd aeon \<Rightarrow> 'd aeon option" where
  "aeon_ipc_set_mac_cnt env p mac_tot_cnt mac_crc_cnt s =
     do { s \<leftarrow> aeon_ipc_cfg_param_direct env p ([CFG_MAC_CNT, 0] @ count_words mac_tot_cnt) s;
          aeon_ipc_cfg_param_direct env p ([CFG_MAC_CNT, 1] @ count_words mac_crc_cnt) (on_phy (a_mdelay env 2) s) }"

section \<open>Test modes\<close>

definition master_cfg :: "u16 \<Rightarrow> u16" where
  "master_cfg test_mode = (if test_mode = 3 then 0 else 1)"

definition aeon_ng_test_mode :: "'d aeon_env \<Rightarrow> nat \<Rightarrow> u16 \<Rightarrow> u16 \<Rightarrow> u16 \<Rightarrow> 'd aeon \<Rightarrow> 'd aeon option" where
  "aeon_ng_test_mode env p top_spd test_mode tone s =
     do { s \<leftarrow> aeon_ipc_ng_test_mode env p 0 0 s;
          s \<leftarrow> aeon_cu_an_set_top_spd env p top_spd s;
          s \<leftarrow> aeon_cu_an_enable env p 1 s;
          s \<leftarrow> aeon_cu_an_restart env p s;
          s \<leftarrow> aeon_cu_an_set_ms_cfg env p 0 1 (master_cfg test_mode) (on_phy (a_mdelay env 500) s);
          s \<leftarrow> aeon_set_man_mdi env p s;
          s \<leftarrow> aeon_ipc_ng_test_mode env p test_mode tone s;
          s \<leftarrow> aeon_cu_an_enable env p 0 s;
          let s = aeon_mdio_write_reg_field env p 0xF014E 0x4 0 s;
              s = aeon_mdio_write_reg_field env p 0xF014C 0xC01 1 s;
              s = on_phy (a_udelay env 50) s
          in Some (aeon_mdio_write_reg_field env p 0xF014C 0xC01 0 s) }"

definition aeon_1g_test_mode :: "'d aeon_env \<Rightarrow> nat \<Rightarrow> u16 \<Rightarrow> 'd aeon \<Rightarrow> 'd aeon option" where
  "aeon_1g_test_mode env p test_mode s =
     do { s \<leftarrow> aeon_cu_an_enable env p 1 s;
          s \<leftarrow> aeon_cu_an_restart env p (aeon_mdio_write_reg_field env p 0xFFFD2 0xD03 0 s);
          s \<leftarrow> aeon_cu_an_set_ms_cfg env p 0 1 (master_cfg test_mode) (on_phy (a_mdelay env 500) s);
          s \<leftarrow> aeon_set_man_mdi env p s;
          s \<leftarrow> aeon_cu_an_set_top_spd env p MDI_CFG_SPD_T1G s;
          aeon_cu_an_enable env p 0 (aeon_mdio_write_reg_field env p 0xFFFD2 0xD03 test_mode s) }"

definition coeffs :: "u16 list" where
  "coeffs = [50, 200, 250, 250, 200, 50, 0, 0, 0, 0, 0, 0]"

text \<open>The fields written before the coefficients, in order: register, field, value.\<close>

definition man_fields :: "(u32 \<times> u16 \<times> u16) list" where
  "man_fields =
     [(0x3C208C, 0xB, 0x20), (0x3C2002, 0x106, 6), (0x3C2078, 0x306, 4), (0xF0026, 0xC01, 1), (0x3C201E, 0x201, 1),
      (0xFFFE0, 0x501, 1), (0xFFFE0, 0x401, 0), (0xFFFE0, 0xA01, 1), (0xFFFE0, 0x201, 0), (0xFFFE0, 0x101, 0),
      (0x3C1602, 0xF01, 1), (0x3C1602, 0xE01, 1), (0x3C1602, 0xF01, 0), (0x3C1602, 0xE01, 0),
      (0x3C2020, 0x901, 1), (0x3C2020, 0x901, 0)]"

definition write_fields :: "'d aeon_env \<Rightarrow> nat \<Rightarrow> (u32 \<times> u16 \<times> u16) list \<Rightarrow> 'd aeon \<Rightarrow> 'd aeon" where
  "write_fields env p fs s = fold (\<lambda>(reg, field, v). aeon_mdio_write_reg_field env p reg field v) fs s"

definition coeff_fields :: "nat \<Rightarrow> (u32 \<times> u16 \<times> u16) list" where
  "coeff_fields i =
     (let w = 0x41402 + word_of_nat i * 0x200; c = 0x41400 + word_of_nat i * 0x200
      in (w, 0x901, 1)
         # concat (map (\<lambda>j. [(w, 0x9, coeffs ! j AND 0x1FF), (c, 0x104, word_of_nat j), (c, 0x1, 1), (c, 0x1, 0)]) [0..<12]))"

definition aeon_man_configure :: "'d aeon_env \<Rightarrow> nat \<Rightarrow> 'd aeon \<Rightarrow> 'd aeon" where
  "aeon_man_configure env p s = fold (\<lambda>i. write_fields env p (coeff_fields i)) [0..<4] (write_fields env p man_fields s)"

definition aeon_100m_test_mode :: "'d aeon_env \<Rightarrow> nat \<Rightarrow> 'd aeon \<Rightarrow> 'd aeon option" where
  "aeon_100m_test_mode env p s =
     do { s \<leftarrow> aeon_cu_an_enable env p 1 s;
          s \<leftarrow> aeon_cu_an_set_ms_cfg env p 0 1 0 s;
          s \<leftarrow> aeon_set_man_mdi env p s;
          s \<leftarrow> aeon_set_man_duplex env p 0 s;
          s \<leftarrow> aeon_cu_an_set_top_spd env p MDI_CFG_SPD_T100 s;
          s \<leftarrow> aeon_cu_an_enable env p 0 s;
          Some (aeon_man_configure env p s) }"

section \<open>Link state\<close>

datatype phy_duplex = DUPLEX_HALF | DUPLEX_FULL | DUPLEX_UNKNOWN

record phy_state =
  phy_speed :: "u32 option"
  phy_duplex :: phy_duplex
  phy_pause :: bool
  phy_asym_pause :: bool
  phy_link :: bool

definition hcd_mode :: "u16 \<Rightarrow> (u32 \<times> phy_duplex) option" where
  "hcd_mode h =
     (if h = 0xE then Some (10000, DUPLEX_FULL) else if h = 0xD then Some (5000, DUPLEX_FULL)
      else if h = 0xC then Some (2500, DUPLEX_FULL) else if h = 0xB then Some (1000, DUPLEX_FULL)
      else if h = 0xA then Some (100, DUPLEX_FULL) else if h = 0x3 then Some (1000, DUPLEX_HALF)
      else if h = 0x2 then Some (100, DUPLEX_HALF) else None)"

text \<open>The status word comes as an unsigned 16-bit number, so the test for an error never holds and is left out.\<close>

definition aeon_read_status :: "'d aeon_env \<Rightarrow> nat \<Rightarrow> 'd aeon \<Rightarrow> int \<times> phy_state \<times> 'd aeon" where
  "aeon_read_status env p s =
     (let st = \<lparr>phy_speed = None, phy_duplex = DUPLEX_UNKNOWN, phy_pause = True, phy_asym_pause = True, phy_link = False\<rparr>;
          (reg, s) = aeon_mdio_read_reg env p 0xEA0FFFC2 s
      in if reg AND 4 \<noteq> 0 then
           let (hcd, s) = aeon_mdio_read_reg_field env p 0xF0010 0x804 s;
               st = st\<lparr>phy_link := True\<rparr>
           in (0, case hcd_mode hcd of None \<Rightarrow> st | Some (v, x) \<Rightarrow> st\<lparr>phy_speed := Some v, phy_duplex := x\<rparr>, s)
         else (0, st, s))"

end
