(* ===== verification/AeonFw.thy ===== *)
theory AeonFw
  imports AeonCmd
begin

text \<open>
  What the driver gets from the mailbox of the AN8831 PHYs (\<^verbatim>\<open>aeon_ipc_wait_cmd_done\<close> and its callers in
  \<^verbatim>\<open>airoha/arht_hsgmii.c\<close>). The locale \<open>aeon_clock\<close> says that time passes while the driver waits, and no more;
  \<open>aeon_phys\<close> adds the firmware: it serves a command when the parity of the command register differs from
  that of its status, within a bounded number of delays, and answers with the parity of the command.
\<close>

section \<open>Registers of the mailbox\<close>

lemma mailbox_addr [simp]:
  "dev_addr IPC_STS_BASEADDR = 0x1E" "phy_reg IPC_STS_BASEADDR = 0x5802"
  "dev_addr IPC_CMD_BASEADDR = 0x1E" "phy_reg IPC_CMD_BASEADDR = 0x5801"
  by (simp_all add: dev_addr_def phy_reg_def)

lemma mailbox_data_addr:
  assumes "i < 8"
  shows "dev_addr (data_reg i) = 0x1E" and "phy_reg (data_reg i) = 0x5808 + word_of_nat i"
proof -
  have "i \<in> {0, 1, 2, 3, 4, 5, 6, 7}" using assms by auto
  then show "dev_addr (data_reg i) = 0x1E" "phy_reg (data_reg i) = 0x5808 + word_of_nat i"
    by (auto simp: dev_addr_def phy_reg_def data_reg_def)
qed

text \<open>The parity of a word is its top bit; the parity of the driver is the low bit of its counter.\<close>

definition par_of :: "u16 \<Rightarrow> bool" where
  "par_of w = bit w 15"

definition next_par :: "'d aeon \<Rightarrow> bool" where
  "next_par s = bit (ipc_cmd_num s) 0"

definition status_of :: "u16 \<Rightarrow> u16" where
  "status_of w = w AND 0xF"

lemma get_par_next_par: "get_par s = of_bool (next_par s)"
  unfolding get_par_def next_par_def bit_0 and_one_eq mod_2_eq_odd ..

lemma sts_parity_par_of: "sts_parity (aeon_ipc_parse_sts w) = of_bool (par_of w)"
  unfolding aeon_ipc_parse_sts_def par_of_def ipc_sts.select_convs bit_iff_odd_drop_bit and_one_eq mod_2_eq_odd ..

lemma parse_status: "sts_status (aeon_ipc_parse_sts w) = status_of w"
  by (simp add: aeon_ipc_parse_sts_def status_of_def)

lemma parity_differs:
  "get_par s \<noteq> ucast (sts_parity (aeon_ipc_parse_sts w)) \<longleftrightarrow> next_par s \<noteq> par_of w"
  by (simp add: get_par_next_par sts_parity_par_of)

lemma ucast_cases: "next_par (s\<lparr>ipc_cmd_num := ipc_cmd_num s + 1\<rparr>) = (\<not> next_par s)"
  by (simp add: next_par_def bit_0)

definition op_of :: "u16 \<Rightarrow> u16" where
  "op_of w = w AND 0x7FF"

section \<open>Time passes\<close>

locale aeon_clock =
  fixes env :: "'d aeon_env" and clk :: "'d \<Rightarrow> nat" and tick :: nat
  assumes now_clk: "a_now env d = word_of_nat (clk d)"
    and delay_clk: "clk d + 10000000 \<le> clk (a_mdelay env 10 d)" "clk (a_mdelay env 10 d) \<le> clk d + tick"
    and read_clk: "clk (snd (mmd_read env p dev reg d)) = clk d"
    and tick_small: "tick \<le> 2 ^ 63"
begin

definition looked :: "nat \<Rightarrow> 'd aeon \<Rightarrow> 'd aeon" where
  "looked p s = snd (snd (ipc_look env p s))"

lemma elapsed:
  assumes "clk d0 \<le> clk d" and "clk d < clk d0 + 2 ^ 64"
  shows "unat (a_now env d - a_now env d0) = clk d - clk d0"
proof -
  have "a_now env d - a_now env d0 = word_of_nat (clk d - clk d0)"
    using assms(1) by (simp add: now_clk of_nat_diff)
  moreover have "clk d - clk d0 < 2 ^ LENGTH(64)" using assms by simp
  ultimately show ?thesis
    by (simp only: unsigned_of_nat take_bit_nat_eq_self of_nat_id)
qed

lemma timeout_iff:
  assumes "clk d0 \<le> clk d" and "clk d < clk d0 + 2 ^ 64"
  shows "tmo < a_now env d - a_now env d0 \<longleftrightarrow> clk d0 + unat tmo < clk d"
  using elapsed [OF assms] assms(1) by (simp add: word_less_nat_alt less_diff_conv add.commute)

lemma looked_clk:
  fixes s :: "'d aeon"
  shows "clk (phys s) + 10000000 \<le> clk (phys (looked p s))" "clk (phys (looked p s)) \<le> clk (phys s) + tick"
  using delay_clk [of "phys s"] read_clk
  by (simp_all add: looked_def ipc_look_def Let_def case_prod_beta aeon_get_ipc_status_def aeon_mdio_read_reg_def on_phy_def)

lemma looked_num [simp]: "ipc_cmd_num (looked p s) = ipc_cmd_num s"
  by (simp add: looked_def ipc_look_def Let_def case_prod_beta aeon_get_ipc_status_def aeon_mdio_read_reg_def on_phy_def)

lemma looked_timeout:
  assumes "clk d0 \<le> clk (phys s)" and "clk (phys s) \<le> clk d0 + unat tmo" and "unat tmo + tick < 2 ^ 64"
  shows "tmo < a_now env (phys (looked p s)) - a_now env d0 \<longleftrightarrow> clk d0 + unat tmo < clk (phys (looked p s))"
  using looked_clk [where s = s and p = p] assms by (intro timeout_iff) linarith+

text \<open>A wait with a time limit ends, at most one look after the limit, with something it has seen.\<close>

lemma wait_returns:
  assumes tmo: "unat tmo + tick < 2 ^ 64"
    and keep: "\<And>s. I (phys s) \<Longrightarrow> I (phys (looked p s)) \<and> R (fst (ipc_look env p s))"
    and "clk d0 \<le> clk (phys s)" and "clk (phys s) \<le> clk d0 + unat tmo" and "I (phys s)" and "par \<Longrightarrow> R r0"
  shows "\<exists>r s'. ipc_wait env p (a_now env d0) tmo par r0 s = Some (r, s') \<and> clk (phys s') \<le> clk d0 + unat tmo + tick \<and>
     ipc_cmd_num s' = ipc_cmd_num s \<and> I (phys s') \<and> R r"
  using assms(3-)
proof (induction "clk d0 + unat tmo - clk (phys s)" arbitrary: s par r0 rule: less_induct)
  case less
  note to = looked_timeout [OF less.prems(1,2) tmo, of p] and lk = looked_clk [where s = s and p = p] and k = keep [OF less.prems(3)]
  show ?case
  proof (cases "clk (phys (looked p s)) \<le> clk d0 + unat tmo")
    case True
    have "\<exists>r s'. ipc_wait env p (a_now env d0) tmo (fst (snd (ipc_look env p s))) (fst (ipc_look env p s)) (looked p s) = Some (r, s') \<and>
        clk (phys s') \<le> clk d0 + unat tmo + tick \<and> ipc_cmd_num s' = ipc_cmd_num (looked p s) \<and> I (phys s') \<and> R r"
      using True lk less.prems(1,2) k by (intro less.hyps) (linarith | simp)+
    then show ?thesis
      unfolding ipc_wait.simps [of env p "a_now env d0" tmo par r0 s] looked_def [symmetric]
      using lk less.prems True k by auto
  next
    case False
    then show ?thesis
      unfolding ipc_wait.simps [of env p "a_now env d0" tmo par r0 s] looked_def [symmetric]
      using lk less.prems to k by auto
  qed
qed

lemma sync_wait_returns:
  assumes "clk d0 \<le> clk (phys s)" and "clk (phys s) \<le> clk d0 + unat IPC_TIMEOUT"
  shows "\<exists>b s'. sync_wait env p (a_now env d0) s = Some (b, s') \<and> ipc_cmd_num s' = ipc_cmd_num s"
  using assms
proof (induction "clk d0 + unat IPC_TIMEOUT - clk (phys s)" arbitrary: s rule: less_induct)
  case less
  have "unat IPC_TIMEOUT + tick < 2 ^ 64" using tick_small by simp
  note to = looked_timeout [OF less.prems this, of p] and lk = looked_clk [where s = s and p = p]
  show ?case
  proof (cases "clk (phys (looked p s)) \<le> clk d0 + unat IPC_TIMEOUT")
    case True
    have "\<exists>b s'. sync_wait env p (a_now env d0) (looked p s) = Some (b, s') \<and> ipc_cmd_num s' = ipc_cmd_num (looked p s)"
      using True lk less.prems by (intro less.hyps) linarith+
    then show ?thesis
      unfolding sync_wait.simps [of env p "a_now env d0" s] looked_def [symmetric] using to True by auto
  next
    case False
    then show ?thesis
      unfolding sync_wait.simps [of env p "a_now env d0" s] looked_def [symmetric] using to by auto
  qed
qed

end

section \<open>Firmware\<close>

text \<open>What one PHY shows of its mailbox, and what it has executed: the operation and size of a command, the
  data registers it found, and its verdict.\<close>

record mbox =
  mb_cmd :: u16
  mb_sts :: u16
  mb_data :: "nat \<Rightarrow> u16"
  mb_log :: "(u16 \<times> (nat \<Rightarrow> u16) \<times> u16) list"

definition mb_idle :: "mbox \<Rightarrow> bool" where
  "mb_idle b \<longleftrightarrow> par_of (mb_cmd b) = par_of (mb_sts b)"

definition load :: "u16 list \<Rightarrow> (nat \<Rightarrow> u16) \<Rightarrow> nat \<Rightarrow> u16" where
  "load vals f i = (if i < min 8 (length vals) then vals ! i else f i)"

lemma par_of_cmd_word [simp]: "par_of (cmd_word b opcode sz) = b"
  by (simp add: par_of_def cmd_word_def Let_def bit_or_iff bit_and_iff bit_not_iff)

lemma op_of_cmd_word: "op_of (cmd_word b opcode sz) = op_of (cmd_word False opcode sz)"
proof -
  have "(x OR IPC_CMD_PARITY) AND 0x7FF = x AND 0x7FF" "(x AND NOT IPC_CMD_PARITY) AND 0x7FF = x AND 0x7FF" for x :: u16
    by (simp_all add: bit.conj_disj_distrib2 and.assoc)
  then show ?thesis by (simp only: op_of_def cmd_word_def Let_def split: if_split) simp
qed

definition sts_at :: "(nat \<Rightarrow> 'd \<Rightarrow> mbox) \<Rightarrow> nat \<Rightarrow> 'd aeon \<Rightarrow> u16" where
  "sts_at box q s = mb_sts (box q (phys s))"

definition in_sync :: "(nat \<Rightarrow> 'd \<Rightarrow> mbox) \<Rightarrow> nat \<Rightarrow> 'd aeon \<Rightarrow> bool" where
  "in_sync box q s \<longleftrightarrow> mb_idle (box q (phys s)) \<and> par_of (sts_at box q s) \<noteq> next_par s"

text \<open>A command has been executed and answered: with the verdict \<open>st\<close>, under the parity of the command.\<close>

definition served :: "mbox \<Rightarrow> mbox \<Rightarrow> u16 \<Rightarrow> bool" where
  "served b b' st \<longleftrightarrow> st \<in> {IPC_STS_CMD_SUCCESS, IPC_STS_CMD_ERROR} \<and> status_of (mb_sts b') = st \<and>
     par_of (mb_sts b') = par_of (mb_cmd b) \<and> mb_cmd b' = mb_cmd b \<and>
     mb_log b' = mb_log b @ [(op_of (mb_cmd b), mb_data b, st)]"

locale aeon_phys = aeon_clock env clk tick
  for env :: "'d aeon_env" and clk :: "'d \<Rightarrow> nat" and tick :: nat +
  fixes box :: "nat \<Rightarrow> 'd \<Rightarrow> mbox" and lag :: "nat \<Rightarrow> 'd \<Rightarrow> nat" and patience :: nat
  assumes read_sts: "mmd_read env q 0x1E 0x5802 d = (uint (mb_sts (box q d)), d)"
    and read_data: "i < 8 \<Longrightarrow> mmd_read env q 0x1E (0x5808 + word_of_nat i) d = (uint (mb_data (box q d) i), d)"
    and write_data: "i < 8 \<Longrightarrow> box q (mmd_write env p 0x1E (0x5808 + word_of_nat i) v d) =
        (if q = p then (box q d)\<lparr>mb_data := (mb_data (box q d))(i := v)\<rparr> else box q d)"
    and write_cmd: "box q (mmd_write env p 0x1E 0x5801 v d) = (if q = p then (box q d)\<lparr>mb_cmd := v\<rparr> else box q d)"
    and write_clk: "clk (mmd_write env p dev reg v d) = clk d"
    and delay_twice: "a_mdelay env 20 d = a_mdelay env 10 (a_mdelay env 10 d)"
    and idle_step: "mb_idle (box q d) \<Longrightarrow> box q (a_mdelay env 10 d) = box q d"
    and work_step: "\<not> mb_idle (box q d) \<Longrightarrow> lag q d = Suc n \<Longrightarrow> lag q (a_mdelay env 10 d) = n \<and>
        (\<exists>w. par_of w = par_of (mb_sts (box q d)) \<and> status_of w \<in> {status_of (mb_sts (box q d)), 1, 2} \<and>
             box q (a_mdelay env 10 d) = (box q d)\<lparr>mb_sts := w\<rparr>)"
    and serve_step: "\<not> mb_idle (box q d) \<Longrightarrow> lag q d = 0 \<Longrightarrow> \<exists>st. served (box q d) (box q (a_mdelay env 10 d)) st"
    and lag_bound: "lag q d \<le> patience" "Suc patience * tick \<le> 2000000000"
begin

definition stepped :: "'d aeon \<Rightarrow> 'd aeon" where
  "stepped s = s\<lparr>phys := a_mdelay env 10 (phys s)\<rparr>"

lemma stepped_sel [simp]:
  "ipc_cmd_num (stepped s) = ipc_cmd_num s" "phys (stepped s) = a_mdelay env 10 (phys s)" "next_par (stepped s) = next_par s"
  by (simp_all add: stepped_def next_par_def)

lemma look: "ipc_look env p s =
    (aeon_ipc_parse_sts (sts_at box p (stepped s)), next_par s \<noteq> par_of (sts_at box p (stepped s)), stepped s)"
proof -
  have "aeon_get_ipc_status env p (stepped s) = (sts_at box p (stepped s), stepped s)"
    by (simp add: aeon_get_ipc_status_def aeon_mdio_read_reg_def read_sts sts_at_def)
  moreover have "on_phy (a_mdelay env 10) s = stepped s" by (simp add: on_phy_def stepped_def)
  ultimately show ?thesis
    unfolding ipc_look_def by (simp add: Let_def parity_differs)
qed

lemma looked_stepped: "looked p s = stepped s"
  by (simp add: looked_def look)

lemma wait_step:
  assumes "clk d0 \<le> clk (phys s)" and "clk (phys s) + tick \<le> clk d0 + unat tmo" and "unat tmo + tick < 2 ^ 64"
  shows "ipc_wait env p (a_now env d0) tmo False r s =
    (if status_of (sts_at box p (stepped s)) = IPC_STS_CMD_ERROR then Some (aeon_ipc_parse_sts (sts_at box p (stepped s)), stepped s)
     else ipc_wait env p (a_now env d0) tmo (next_par s \<noteq> par_of (sts_at box p (stepped s)))
            (aeon_ipc_parse_sts (sts_at box p (stepped s))) (stepped s))"
proof -
  have "\<not> tmo < a_now env (a_mdelay env 10 (phys s)) - a_now env d0"
    using looked_timeout [of d0 s tmo p] looked_clk [where s = s and p = p] assms by (simp add: looked_stepped)
  then show ?thesis
    by (subst ipc_wait.simps) (simp add: look parse_status)
qed

lemma wait_settled:
  assumes "sts_status r = IPC_STS_CMD_SUCCESS \<or> sts_status r = IPC_STS_CMD_ERROR"
  shows "ipc_wait env p t1 tmo True r s = Some (r, s)"
  using assms by (subst ipc_wait.simps) simp

text \<open>A command that is pending is executed once, and its verdict is what the wait returns.\<close>

lemma wait_pending:
  assumes "unat tmo + tick < 2 ^ 64"
    and "\<not> mb_idle (box p (phys s))" and "par_of (mb_cmd (box p (phys s))) = (\<not> next_par s)"
    and "status_of (sts_at box p s) = IPC_STS_CMD_ERROR \<longrightarrow> lag p (phys s) = 0"
    and "clk d0 \<le> clk (phys s)" and "clk (phys s) + Suc (lag p (phys s)) * tick \<le> clk d0 + unat tmo"
  shows "\<exists>r' s'. ipc_wait env p (a_now env d0) tmo False r s = Some (r', s') \<and>
      served (box p (phys s)) (box p (phys s')) (sts_status r') \<and> ipc_cmd_num s' = ipc_cmd_num s \<and>
      (\<forall>q. mb_idle (box q (phys s)) \<longrightarrow> box q (phys s') = box q (phys s))"
  using assms(2-)
proof (induction "lag p (phys s)" arbitrary: s r)
  case 0
  obtain st where st: "served (box p (phys s)) (box p (phys (stepped s))) st"
    using serve_step [of p "phys s"] 0 by auto
  then have "status_of (sts_at box p (stepped s)) = st" "next_par s \<noteq> par_of (sts_at box p (stepped s))"
      "st = IPC_STS_CMD_SUCCESS \<or> st = IPC_STS_CMD_ERROR"
    using 0 by (auto simp: served_def sts_at_def)
  moreover have "ipc_wait env p (a_now env d0) tmo False r s = Some (aeon_ipc_parse_sts (sts_at box p (stepped s)), stepped s)"
    using wait_step [of d0 s tmo p r] assms(1) 0 calculation by (auto simp: wait_settled parse_status)
  ultimately show ?case
    using st idle_step by (intro exI [of _ "aeon_ipc_parse_sts (sts_at box p (stepped s))"] exI [of _ "stepped s"]) (simp add: parse_status)
next
  case (Suc n)
  obtain w where w: "par_of w = par_of (sts_at box p s)" "status_of w \<in> {status_of (sts_at box p s), 1, 2}"
    and b: "box p (a_mdelay env 10 (phys s)) = (box p (phys s))\<lparr>mb_sts := w\<rparr>" and l: "lag p (a_mdelay env 10 (phys s)) = n"
    using work_step [of p "phys s" n] Suc.prems(1) Suc.hyps(2) by (auto simp: sts_at_def)
  have st: "sts_at box p (stepped s) = w" using b by (simp add: sts_at_def)
  have par: "par_of w = next_par s" using Suc.prems(1,2) w(1) by (auto simp: mb_idle_def sts_at_def)
  have go: "ipc_wait env p (a_now env d0) tmo False r s =
      ipc_wait env p (a_now env d0) tmo False (aeon_ipc_parse_sts w) (stepped s)"
    using wait_step [of d0 s tmo p r] assms(1) Suc.prems Suc.hyps(2) w st par by auto
  have clk': "clk d0 \<le> clk (phys (stepped s))"
      "clk (phys (stepped s)) + Suc (lag p (phys (stepped s))) * tick \<le> clk d0 + unat tmo"
    using delay_clk [of "phys s"] Suc.prems(4,5) Suc.hyps(2) l by (auto simp: add.commute)
  obtain r' s' where "ipc_wait env p (a_now env d0) tmo False (aeon_ipc_parse_sts w) (stepped s) = Some (r', s')"
      and "served (box p (phys (stepped s))) (box p (phys s')) (sts_status r')" and "ipc_cmd_num s' = ipc_cmd_num (stepped s)"
      and "\<forall>q. mb_idle (box q (phys (stepped s))) \<longrightarrow> box q (phys s') = box q (phys (stepped s))"
    using Suc.hyps(1) [of "stepped s" "aeon_ipc_parse_sts w"] Suc.prems Suc.hyps(2) w st par b clk'
    by (auto simp: l mb_idle_def)
  then show ?case
    using go b idle_step by (intro exI [of _ r'] exI [of _ s']) (auto simp: served_def)
qed

lemma set_data_box:
  fixes s :: "'d aeon" and p n :: nat and vals :: "u16 list"
  assumes "n \<le> 8"
  defines "s' \<equiv> fold (\<lambda>i. aeon_mdio_write_reg env p (data_reg i) (vals ! i)) [0..<n] s"
  shows "box q (phys s') = (if q = p then (box p (phys s))\<lparr>mb_data := \<lambda>i. if i < n then vals ! i else mb_data (box p (phys s)) i\<rparr>
      else box q (phys s))" and "ipc_cmd_num s' = ipc_cmd_num s" and "clk (phys s') = clk (phys s)"
  using assms(1) unfolding s'_def
proof (induction n)
  case 0
  { case 1 show ?case by simp }
  { case 2 show ?case by simp }
  { case 3 show ?case by simp }
next
  case (Suc n)
  let ?t = "fold (\<lambda>i. aeon_mdio_write_reg env p (data_reg i) (vals ! i)) [0..<n] s"
  have step: "fold (\<lambda>i. aeon_mdio_write_reg env p (data_reg i) (vals ! i)) [0..<Suc n] s =
      aeon_mdio_write_reg env p (data_reg n) (vals ! n) ?t" by simp
  have wr: "phys (aeon_mdio_write_reg env p (data_reg n) v t) = mmd_write env p 0x1E (0x5808 + word_of_nat n) v (phys t)"
      "ipc_cmd_num (aeon_mdio_write_reg env p (data_reg n) v t) = ipc_cmd_num t" if "n < 8" for v and t :: "'d aeon"
    using mailbox_data_addr [OF that] by (simp_all add: aeon_mdio_write_reg_def on_phy_def)
  { case 1 then show ?case
      unfolding step using Suc.IH(1) by (simp add: wr write_data fun_eq_iff less_Suc_eq cong: if_cong) (auto simp: fun_eq_iff less_Suc_eq) }
  { case 2 then show ?case unfolding step using Suc.IH(2) by (simp add: wr) }
  { case 3 then show ?case unfolding step using Suc.IH(3) by (simp add: wr write_clk) }
qed

lemma send_msg:
  fixes s :: "'d aeon" and p :: nat and vals :: "u16 list" and opcode sz :: u16
  defines "s' \<equiv> aeon_send_ipc_msg env p vals opcode sz s"
  shows "box q (phys s') = (if q = p then (box p (phys s))\<lparr>mb_cmd := cmd_word (next_par s) opcode sz,
        mb_data := load vals (mb_data (box p (phys s)))\<rparr> else box q (phys s))"
    and "ipc_cmd_num s' = ipc_cmd_num s + 1" and "clk (phys s') = clk (phys s)" and "next_par s' = (\<not> next_par s)"
proof -
  let ?t = "aeon_set_ipc_data_reg env p vals s"
  have t: "box q (phys ?t) = (if q = p then (box p (phys s))\<lparr>mb_data := load vals (mb_data (box p (phys s)))\<rparr> else box q (phys s))"
      "ipc_cmd_num ?t = ipc_cmd_num s" "clk (phys ?t) = clk (phys s)" for q
    using set_data_box(1) [of "min 8 (length vals)" q p vals s] set_data_box(2,3) [of "min 8 (length vals)" p vals s]
    by (simp_all add: aeon_set_ipc_data_reg_def load_def [abs_def] cong: if_cong)
  have par: "get_par ?t \<noteq> 0 \<longleftrightarrow> next_par s" using t(2) by (simp add: get_par_next_par next_par_def)
  have s': "s' = aeon_mdio_write_reg env p IPC_CMD_BASEADDR (cmd_word (next_par s) opcode sz) (?t\<lparr>ipc_cmd_num := ipc_cmd_num s + 1\<rparr>)"
    unfolding s'_def aeon_send_ipc_msg_def aeon_ipc_build_cmd_def aeon_send_ipc_cmd_def Let_def using par t(2) by simp
  show "box q (phys s') = (if q = p then (box p (phys s))\<lparr>mb_cmd := cmd_word (next_par s) opcode sz,
        mb_data := load vals (mb_data (box p (phys s)))\<rparr> else box q (phys s))"
    unfolding s' using t(1) [of q] t(1) [of p] by (auto simp: aeon_mdio_write_reg_def on_phy_def write_cmd)
  show "ipc_cmd_num s' = ipc_cmd_num s + 1" "clk (phys s') = clk (phys s)" "next_par s' = (\<not> next_par s)"
    unfolding s' using t(3) by (simp_all add: aeon_mdio_write_reg_def on_phy_def write_clk next_par_def bit_0)
qed

lemma exchange_wait:
  "ipc_exchange env p vals opcode sz None s =
     (let s1 = aeon_send_ipc_msg env p vals opcode sz s
      in map_option (\<lambda>(r, s'). (sts_status r, s')) (ipc_wait env p (a_now env (phys s1)) IPC_TIMEOUT False no_sts s1))"
  unfolding ipc_exchange_def aeon_ipc_wait_cmd_done_def Let_def option.case
  by (cases "ipc_wait env p (a_now env (phys (aeon_send_ipc_msg env p vals opcode sz s))) IPC_TIMEOUT False no_sts
      (aeon_send_ipc_msg env p vals opcode sz s)") auto

lemma tick_limit: "unat IPC_TIMEOUT + tick < 2 ^ 64"
  using tick_small by simp

text \<open>With a PHY that is in sync, an exchange is one execution.\<close>

lemma exchange_in_sync:
  assumes "in_sync box p s" and "status_of (sts_at box p s) = IPC_STS_CMD_ERROR \<longrightarrow> patience = 0"
  shows "\<exists>st s'. ipc_exchange env p vals opcode sz None s = Some (st, s') \<and> st \<in> {IPC_STS_CMD_SUCCESS, IPC_STS_CMD_ERROR} \<and>
     mb_log (box p (phys s')) = mb_log (box p (phys s)) @
       [(op_of (cmd_word False opcode sz), load vals (mb_data (box p (phys s))), st)] \<and>
     in_sync box p s' \<and> status_of (sts_at box p s') = st \<and> ipc_cmd_num s' = ipc_cmd_num s + 1 \<and>
     (\<forall>q. q \<noteq> p \<longrightarrow> mb_idle (box q (phys s)) \<longrightarrow> box q (phys s') = box q (phys s))"
proof -
  let ?s1 = "aeon_send_ipc_msg env p vals opcode sz s"
  note sent = send_msg(1) [of _ p vals opcode sz s] send_msg(2-4) [of p vals opcode sz s]
  have lag0: "patience = 0 \<Longrightarrow> lag p (phys ?s1) = 0" using lag_bound(1) [of p "phys ?s1"] by simp
  have budget: "Suc (lag p (phys ?s1)) * tick \<le> unat IPC_TIMEOUT"
  proof -
    have "Suc (lag p (phys ?s1)) * tick \<le> Suc patience * tick" using lag_bound(1) by (intro mult_le_mono1) simp
    then have "Suc (lag p (phys ?s1)) * tick \<le> 2000000000" using lag_bound(2) by (rule le_trans)
    then show ?thesis by simp
  qed
  obtain r' s' where w: "ipc_wait env p (a_now env (phys ?s1)) IPC_TIMEOUT False no_sts ?s1 = Some (r', s')"
      and sv: "served (box p (phys ?s1)) (box p (phys s')) (sts_status r')" and num: "ipc_cmd_num s' = ipc_cmd_num ?s1"
      and oth: "\<forall>q. mb_idle (box q (phys ?s1)) \<longrightarrow> box q (phys s') = box q (phys ?s1)"
    using wait_pending [of IPC_TIMEOUT p ?s1 "phys ?s1" no_sts] tick_limit assms lag0 budget sent
    by (auto simp: mb_idle_def in_sync_def sts_at_def)
  have "ipc_exchange env p vals opcode sz None s = Some (sts_status r', s')"
    by (simp add: exchange_wait Let_def w)
  moreover have "in_sync box p s'"
    using sv num sent(1) [of p] sent(2) by (auto simp: in_sync_def served_def mb_idle_def sts_at_def next_par_def bit_0)
  ultimately show ?thesis
    using sv num oth sent
    by (intro exI [of _ "sts_status r'"] exI [of _ s']) (auto simp: served_def sts_at_def op_of_cmd_word [of True] op_of_cmd_word [of "next_par s"])
qed

text \<open>The clock allows one look after a command was sent.\<close>

lemma first_look:
  "ipc_wait env p (a_now env (phys s)) IPC_TIMEOUT False r s =
    (if status_of (sts_at box p (stepped s)) = IPC_STS_CMD_ERROR then Some (aeon_ipc_parse_sts (sts_at box p (stepped s)), stepped s)
     else ipc_wait env p (a_now env (phys s)) IPC_TIMEOUT (next_par s \<noteq> par_of (sts_at box p (stepped s)))
            (aeon_ipc_parse_sts (sts_at box p (stepped s))) (stepped s))"
proof (rule wait_step)
  have "tick \<le> Suc patience * tick" by simp
  then show "clk (phys s) + tick \<le> clk (phys s) + unat IPC_TIMEOUT" using lag_bound(2) by simp
qed (use tick_limit in simp_all)

text \<open>A PHY that is out of sync ignores the command, and its last verdict passes for that of the command.\<close>

lemma exchange_lost:
  assumes "mb_idle (box q (phys s))" and "par_of (sts_at box q s) = next_par s"
    and "status_of (sts_at box q s) \<in> {IPC_STS_CMD_SUCCESS, IPC_STS_CMD_ERROR}"
  shows "\<exists>s'. ipc_exchange env q vals opcode sz None s = Some (status_of (sts_at box q s), s') \<and>
     mb_log (box q (phys s')) = mb_log (box q (phys s)) \<and> sts_at box q s' = sts_at box q s \<and> in_sync box q s'"
proof -
  let ?s1 = "aeon_send_ipc_msg env q vals opcode sz s"
  note sent = send_msg(1) [of q q vals opcode sz s] send_msg(2-4) [of q vals opcode sz s]
  have idle: "mb_idle (box q (phys ?s1))" using assms sent by (simp add: mb_idle_def sts_at_def)
  then have st: "sts_at box q (stepped ?s1) = sts_at box q s" and b: "box q (phys (stepped ?s1)) = box q (phys ?s1)"
    using sent idle_step [OF idle] by (simp_all add: sts_at_def)
  have "ipc_wait env q (a_now env (phys ?s1)) IPC_TIMEOUT False no_sts ?s1 =
      Some (aeon_ipc_parse_sts (sts_at box q s), stepped ?s1)"
    using first_look [of q ?s1 no_sts] assms sent st by (auto simp: wait_settled parse_status)
  then have "ipc_exchange env q vals opcode sz None s = Some (status_of (sts_at box q s), stepped ?s1)"
    by (simp add: exchange_wait Let_def parse_status)
  moreover have "in_sync box q (stepped ?s1)"
    using idle st b assms sent by (simp add: in_sync_def)
  ultimately show ?thesis using st b sent by auto
qed

text \<open>The verdict of an earlier failure that still stands ends the wait for a command that takes longer than one delay,
  which goes on.\<close>

lemma stale_error:
  assumes "in_sync box p s" and "status_of (sts_at box p s) = IPC_STS_CMD_ERROR"
    and "lag p (phys (aeon_send_ipc_msg env p vals opcode sz s)) = Suc n"
    and "\<And>d. status_of (mb_sts (box p (a_mdelay env 10 d))) \<notin> {1, 2}"
  shows "\<exists>s'. ipc_exchange env p vals opcode sz None s = Some (IPC_STS_CMD_ERROR, s') \<and>
     mb_log (box p (phys s')) = mb_log (box p (phys s)) \<and> \<not> mb_idle (box p (phys s')) \<and> lag p (phys s') = n"
proof -
  let ?s1 = "aeon_send_ipc_msg env p vals opcode sz s"
  note sent = send_msg(1) [of p p vals opcode sz s] send_msg(2-4) [of p vals opcode sz s]
  have busy: "\<not> mb_idle (box p (phys ?s1))" using assms sent by (simp add: mb_idle_def in_sync_def sts_at_def)
  obtain w where w: "par_of w = par_of (mb_sts (box p (phys ?s1)))" "status_of w \<in> {status_of (mb_sts (box p (phys ?s1))), 1, 2}"
      "box p (a_mdelay env 10 (phys ?s1)) = (box p (phys ?s1))\<lparr>mb_sts := w\<rparr>" and l: "lag p (a_mdelay env 10 (phys ?s1)) = n"
    using work_step [OF busy assms(3)] by blast
  have st: "sts_at box p (stepped ?s1) = w" "status_of w = IPC_STS_CMD_ERROR"
    using w assms(2) assms(4) [of "phys ?s1"] sent by (auto simp: sts_at_def)
  then have "ipc_exchange env p vals opcode sz None s = Some (IPC_STS_CMD_ERROR, stepped ?s1)"
    using first_look [of p ?s1 no_sts] by (simp add: exchange_wait Let_def parse_status)
  then show ?thesis using w l busy sent by (auto simp: mb_idle_def)
qed

lemma sync_step:
  assumes "clk d0 \<le> clk (phys s)" and "clk (phys s) + tick \<le> clk d0 + 2000000000"
  shows "sync_wait env p (a_now env d0) s =
    (if next_par s \<noteq> par_of (sts_at box p (stepped s)) then Some (True, stepped s) else sync_wait env p (a_now env d0) (stepped s))"
proof -
  have "\<not> IPC_TIMEOUT < a_now env (a_mdelay env 10 (phys s)) - a_now env d0"
    using looked_timeout [of d0 s IPC_TIMEOUT p] looked_clk [where s = s and p = p] assms tick_limit by (simp add: looked_stepped)
  then show ?thesis
    by (subst sync_wait.simps) (simp add: look)
qed

lemma sync_pending:
  assumes "\<not> mb_idle (box p (phys s))" and "par_of (mb_cmd (box p (phys s))) = (\<not> next_par s)"
    and "clk d0 \<le> clk (phys s)" and "clk (phys s) + Suc (lag p (phys s)) * tick \<le> clk d0 + 2000000000"
  shows "\<exists>st s'. sync_wait env p (a_now env d0) s = Some (True, s') \<and> served (box p (phys s)) (box p (phys s')) st \<and>
      ipc_cmd_num s' = ipc_cmd_num s"
  using assms
proof (induction "lag p (phys s)" arbitrary: s)
  case 0
  obtain st where st: "served (box p (phys s)) (box p (phys (stepped s))) st"
    using serve_step [of p "phys s"] 0 by auto
  then have "next_par s \<noteq> par_of (sts_at box p (stepped s))" using 0 by (auto simp: served_def sts_at_def)
  then show ?case using sync_step [of d0 s p] 0 st by (intro exI [of _ st] exI [of _ "stepped s"]) simp
next
  case (Suc n)
  obtain w where w: "par_of w = par_of (sts_at box p s)"
    and b: "box p (a_mdelay env 10 (phys s)) = (box p (phys s))\<lparr>mb_sts := w\<rparr>" and l: "lag p (a_mdelay env 10 (phys s)) = n"
    using work_step [of p "phys s" n] Suc.prems(1) Suc.hyps(2) by (auto simp: sts_at_def)
  have par: "par_of (sts_at box p (stepped s)) = next_par s"
    using Suc.prems(1,2) w b by (auto simp: mb_idle_def sts_at_def)
  have go: "sync_wait env p (a_now env d0) s = sync_wait env p (a_now env d0) (stepped s)"
    using sync_step [of d0 s p] Suc.prems Suc.hyps(2) par by auto
  have "\<exists>st s'. sync_wait env p (a_now env d0) (stepped s) = Some (True, s') \<and>
      served (box p (phys (stepped s))) (box p (phys s')) st \<and> ipc_cmd_num s' = ipc_cmd_num (stepped s)"
  proof (rule Suc.hyps(1))
    show "clk (phys (stepped s)) + Suc (lag p (phys (stepped s))) * tick \<le> clk d0 + 2000000000"
      using delay_clk [of "phys s"] Suc.prems(4) Suc.hyps(2) l by (auto simp: add.commute)
    show "clk d0 \<le> clk (phys (stepped s))" using delay_clk [of "phys s"] Suc.prems(3) by simp
  qed (use Suc.prems l b par in \<open>auto simp: mb_idle_def sts_at_def\<close>)
  then show ?case using go b by (auto simp: served_def)
qed

lemma send_noop_msg: "send_noop env p s = aeon_send_ipc_msg env p [] 0 0 s"
  by (simp add: send_noop_def aeon_send_ipc_msg_def aeon_set_ipc_data_reg_def)

lemma op_of_noop [simp]: "op_of (cmd_word b 0 0) = 0"
  by (simp add: op_of_def cmd_word_def)

lemma delay_log:
  obtains es where "mb_log (box p (a_mdelay env 10 d)) = mb_log (box p d) @ es" and "length es \<le> 1"
    and "\<forall>e\<in>set es. fst e = op_of (mb_cmd (box p d))" and "mb_cmd (box p (a_mdelay env 10 d)) = mb_cmd (box p d)"
    and "mb_idle (box p d) \<Longrightarrow> es = []" and "es \<noteq> [] \<Longrightarrow> mb_idle (box p (a_mdelay env 10 d))"
proof (cases "mb_idle (box p d)")
  case True
  then show ?thesis using idle_step that [of "[]"] by simp
next
  case False
  show ?thesis
  proof (cases "lag p d")
    case 0
    then obtain st where "served (box p d) (box p (a_mdelay env 10 d)) st" using serve_step [OF False] by blast
    then show ?thesis
      using that [of "[(op_of (mb_cmd (box p d)), mb_data (box p d), st)]"] False by (auto simp: served_def mb_idle_def)
  next
    case (Suc n)
    then show ?thesis using work_step [OF False Suc] that [of "[]"] by auto
  qed
qed

text \<open>Two no-operations bring any PHY into sync, whatever it was doing, and nothing else is executed.\<close>

lemma sync_restores:
  "\<exists>es s'. aeon_ipc_sync_parity env p s = Some s' \<and> in_sync box p s' \<and> ipc_cmd_num s' = ipc_cmd_num s + 2 \<and>
     mb_log (box p (phys s')) = mb_log (box p (phys s)) @ es \<and> length es \<le> 2 \<and> (\<forall>e\<in>set es. fst e = 0)"
proof -
  let ?s1 = "send_noop env p s"
  let ?s2 = "on_phy (a_mdelay env 20) ?s1"
  let ?s3 = "send_noop env p ?s2"
  note n1 = send_msg(1) [of p p "[]" 0 0 s] send_msg(2-4) [of p "[]" 0 0 s]
  note n2 = send_msg(1) [of p p "[]" 0 0 ?s2] send_msg(2-4) [of p "[]" 0 0 ?s2]
  have s2: "phys ?s2 = a_mdelay env 10 (a_mdelay env 10 (phys ?s1))" "ipc_cmd_num ?s2 = ipc_cmd_num ?s1" "next_par ?s2 = next_par ?s1"
    by (simp_all add: on_phy_def delay_twice next_par_def)
  obtain es1 where es1: "mb_log (box p (a_mdelay env 10 (phys ?s1))) = mb_log (box p (phys ?s1)) @ es1" "length es1 \<le> 1"
      "\<forall>e\<in>set es1. fst e = op_of (mb_cmd (box p (phys ?s1)))" "mb_cmd (box p (a_mdelay env 10 (phys ?s1))) = mb_cmd (box p (phys ?s1))"
      "es1 \<noteq> [] \<Longrightarrow> mb_idle (box p (a_mdelay env 10 (phys ?s1)))"
    using delay_log [of p "phys ?s1"] by metis
  obtain es2 where es2: "mb_log (box p (phys ?s2)) = mb_log (box p (a_mdelay env 10 (phys ?s1))) @ es2" "length es2 \<le> 1"
      "\<forall>e\<in>set es2. fst e = op_of (mb_cmd (box p (a_mdelay env 10 (phys ?s1))))"
      "mb_idle (box p (a_mdelay env 10 (phys ?s1))) \<Longrightarrow> es2 = []"
    using delay_log [of p "a_mdelay env 10 (phys ?s1)"] s2(1) by metis
  have log2: "mb_log (box p (phys ?s2)) = mb_log (box p (phys s)) @ (es1 @ es2)" "length (es1 @ es2) \<le> 1"
      "\<forall>e\<in>set (es1 @ es2). fst e = 0"
    using es1 es2 n1(1) by (cases "es1 = []"; auto simp: send_noop_msg)+
  have b3: "box p (phys ?s3) = (box p (phys ?s2))\<lparr>mb_cmd := cmd_word (next_par ?s2) 0 0, mb_data := load [] (mb_data (box p (phys ?s2)))\<rparr>"
      "ipc_cmd_num ?s3 = ipc_cmd_num s + 2" "next_par ?s3 = (\<not> next_par ?s2)"
    using n1 n2 s2 by (simp_all add: send_noop_msg)
  have "\<exists>es3 s'. sync_wait env p (a_now env (phys ?s3)) ?s3 = Some (True, s') \<and> in_sync box p s' \<and> ipc_cmd_num s' = ipc_cmd_num ?s3 \<and>
     mb_log (box p (phys s')) = mb_log (box p (phys ?s3)) @ es3 \<and> length es3 \<le> 1 \<and> (\<forall>e\<in>set es3. fst e = 0)"
  proof (cases "mb_idle (box p (phys ?s3))")
    case True
    have "tick \<le> Suc patience * tick" by simp
    then have "sync_wait env p (a_now env (phys ?s3)) ?s3 = Some (True, stepped ?s3)" "in_sync box p (stepped ?s3)"
      using sync_step [of "phys ?s3" ?s3 p] True idle_step [OF True] b3 lag_bound(2)
      by (auto simp: mb_idle_def in_sync_def sts_at_def)
    then show ?thesis using idle_step [OF True] by (intro exI [of _ "[]"] exI [of _ "stepped ?s3"]) simp
  next
    case False
    have "Suc (lag p (phys ?s3)) * tick \<le> 2000000000"
      using lag_bound(1) [of p "phys ?s3"] lag_bound(2) by (meson Suc_le_mono le_trans mult_le_mono1)
    then obtain st s' where w: "sync_wait env p (a_now env (phys ?s3)) ?s3 = Some (True, s')"
        and sv: "served (box p (phys ?s3)) (box p (phys s')) st" and num: "ipc_cmd_num s' = ipc_cmd_num ?s3"
      using sync_pending [of p ?s3 "phys ?s3"] False b3 by auto
    have "in_sync box p s'" using sv num b3 by (auto simp: served_def in_sync_def mb_idle_def sts_at_def next_par_def)
    then show ?thesis using w sv num b3 by (auto simp: served_def intro!: exI)
  qed
  then obtain es3 s' where "sync_wait env p (a_now env (phys ?s3)) ?s3 = Some (True, s')" and ok: "in_sync box p s'"
      "ipc_cmd_num s' = ipc_cmd_num ?s3" "mb_log (box p (phys s')) = mb_log (box p (phys ?s3)) @ es3" "length es3 \<le> 1" "\<forall>e\<in>set es3. fst e = 0"
    by blast
  then have "aeon_ipc_sync_parity env p s = Some s'" by (simp add: aeon_ipc_sync_parity_def Let_def)
  then show ?thesis
    using ok b3 log2 by (intro exI [of _ "es1 @ es2 @ es3"] exI [of _ s']) auto
qed

end

section \<open>A dead PHY\<close>

text \<open>The status register of \<open>p\<close> reads as \<open>w\<close> whatever is done.\<close>

locale aeon_dead = aeon_clock env clk tick
  for env :: "'d aeon_env" and clk :: "'d \<Rightarrow> nat" and tick :: nat +
  fixes p :: nat and w :: u16 and I :: "'d \<Rightarrow> bool"
  assumes dead_sts: "I d \<Longrightarrow> fst (mmd_read env p 0x1E 0x5802 d) = uint w"
    and dead_read: "I d \<Longrightarrow> I (snd (mmd_read env q dev reg d))"
    and dead_write: "I d \<Longrightarrow> I (mmd_write env q dev reg v d)"
    and dead_delay: "I d \<Longrightarrow> I (a_mdelay env n d)"
begin

lemma dead_look:
  assumes "I (phys s)"
  shows "I (phys (looked p s)) \<and> sts_status (fst (ipc_look env p s)) = status_of w"
  using assms dead_delay [of "phys s" 10] dead_sts dead_read
  by (simp add: looked_def ipc_look_def Let_def case_prod_beta aeon_get_ipc_status_def aeon_mdio_read_reg_def on_phy_def parse_status)

lemma dead_send:
  assumes "I (phys s)"
  shows "I (phys (aeon_send_ipc_msg env q vals opcode sz s))"
proof -
  have w: "I (phys t) \<Longrightarrow> I (phys (aeon_mdio_write_reg env q reg v t))" for t :: "'d aeon" and reg v
    using dead_write by (simp add: aeon_mdio_write_reg_def on_phy_def)
  have "I (phys (fold (\<lambda>i. aeon_mdio_write_reg env q (data_reg i) (vals ! i)) is s))" for "is"
    using assms by (induction "is" arbitrary: s) (simp_all add: w)
  then show ?thesis
    by (simp add: aeon_send_ipc_msg_def aeon_set_ipc_data_reg_def aeon_ipc_build_cmd_def aeon_send_ipc_cmd_def Let_def w)
qed

lemma dead_exchange:
  assumes "I (phys s)"
  shows "\<exists>s'. ipc_exchange env p vals opcode sz None s = Some (status_of w, s') \<and> I (phys s')"
proof -
  let ?s1 = "aeon_send_ipc_msg env p vals opcode sz s"
  obtain r s' where "ipc_wait env p (a_now env (phys ?s1)) IPC_TIMEOUT False no_sts ?s1 = Some (r, s')" "I (phys s')" "sts_status r = status_of w"
    using wait_returns [where I = I and p = p and R = "\<lambda>r. sts_status r = status_of w" and s = ?s1 and ?d0.0 = "phys ?s1"
        and tmo = IPC_TIMEOUT and par = False and ?r0.0 = no_sts] dead_look dead_send [OF assms] tick_small by auto
  then show ?thesis
    by (intro exI [of _ s']) (simp add: ipc_exchange_def aeon_ipc_wait_cmd_done_def)
qed

end

end
