(* ===== verification/AeonFlash.thy ===== *)
theory AeonFlash
  imports AeonCmd
begin

text \<open>
  The update of the flash memory of an AN8831 PHY, \<^verbatim>\<open>airoha/arht_hsgmii.c\<close>, compiled with \<^verbatim>\<open>DUAL_FLASH\<close>. Two images
  take turns; a new one is written to the place of the older one, checked, and the other one is cleared.
\<close>

abbreviation (input) FLASH_SECTOR_SIZE :: nat where "FLASH_SECTOR_SIZE \<equiv> 4096"
abbreviation (input) FLASH_CHIP_SIZE :: u32 where "FLASH_CHIP_SIZE \<equiv> 0x200000"
abbreviation (input) IMAGE1_HDR_OFST :: u32 where "IMAGE1_HDR_OFST \<equiv> 0x10000"
abbreviation (input) IMAGE1_OFST :: int where "IMAGE1_OFST \<equiv> 0x10400"
abbreviation (input) IMAGE2_HDR_OFST :: u32 where "IMAGE2_HDR_OFST \<equiv> 0x80000"
abbreviation (input) IMAGE2_OFST :: int where "IMAGE2_OFST \<equiv> 0x80400"
abbreviation (input) IPC_CMD_FLASH_WRITE :: u16 where "IPC_CMD_FLASH_WRITE \<equiv> 0xE"
abbreviation (input) IPC_CMD_FLASH_ERASE :: u16 where "IPC_CMD_FLASH_ERASE \<equiv> 0xF"
abbreviation (input) SYS_IMAGE_OFST :: u16 where "SYS_IMAGE_OFST \<equiv> 0x4"
abbreviation (input) SYS_CPU_IMAGE_CHECK :: u16 where "SYS_CPU_IMAGE_CHECK \<equiv> 0x5"

definition lo_hi :: "u32 \<Rightarrow> u16 list" where
  "lo_hi a = [ucast (a AND 0xFFFF), ucast (drop_bit 16 a AND 0xFFFF)]"

text \<open>A failed command yields 1.\<close>

definition aeon_ipc_sys_cpu_info :: "'d aeon_env \<Rightarrow> nat \<Rightarrow> u16 \<Rightarrow> u32 \<Rightarrow> u32 \<Rightarrow> 'd aeon \<Rightarrow> (int \<times> 'd aeon) option" where
  "aeon_ipc_sys_cpu_info env p sub_cmd flash_addr mem_addr s =
     do { (status, s) \<leftarrow> ipc_exchange env p
            (sub_cmd # (if sub_cmd = SYS_CPU_IMAGE_CHECK then lo_hi flash_addr @ lo_hi mem_addr else [0, 0, 0, 0])) IPC_CMD_SYS_CPU 10 None s;
          Some (if status \<noteq> IPC_STS_CMD_SUCCESS then (1, s)
                else if sub_cmd = SYS_CPU_IMAGE_CHECK
                then (let (c, s) = aeon_receive_ipc_data env p 1 s in (uint (c ! 0), s))
                else if sub_cmd = SYS_IMAGE_OFST
                then (let (c, s) = aeon_receive_ipc_data env p 2 s
                      in (sint (ucast (c ! 0) + push_bit 16 (ucast (c ! 1)) :: u32), s))
                else (0, s)) }"

definition aeon_ipc_set_fsm_mode :: "'d aeon_env \<Rightarrow> nat \<Rightarrow> u16 \<Rightarrow> u16 \<Rightarrow> 'd aeon \<Rightarrow> 'd aeon option" where
  "aeon_ipc_set_fsm_mode env p fsm mode s = aeon_ipc_cfg_param_direct env p [CFG_NG_PHYCTRL, 0x2, fsm, mode] s"

definition aeon_ipc_write_flash :: "'d aeon_env \<Rightarrow> nat \<Rightarrow> u32 \<Rightarrow> u32 \<Rightarrow> u16 \<Rightarrow> 'd aeon \<Rightarrow> 'd aeon option" where
  "aeon_ipc_write_flash env p flash_addr mem_addr sz s =
     ipc_command env p (lo_hi flash_addr @ lo_hi mem_addr @ [sz]) IPC_CMD_FLASH_WRITE 10 s"

text \<open>The size is cut to the chip, and erasing may take six seconds.\<close>

definition erase_size :: "u32 \<Rightarrow> u32 \<Rightarrow> u32" where
  "erase_size flash_addr sz = (if FLASH_CHIP_SIZE \<le> flash_addr + sz then FLASH_CHIP_SIZE - flash_addr - 1 else sz)"

definition aeon_ipc_erase_flash :: "'d aeon_env \<Rightarrow> nat \<Rightarrow> u32 \<Rightarrow> u32 \<Rightarrow> u16 \<Rightarrow> 'd aeon \<Rightarrow> 'd aeon option" where
  "aeon_ipc_erase_flash env p flash_addr sz mode s =
     do { (_, s) \<leftarrow> ipc_exchange env p (lo_hi flash_addr @ lo_hi (erase_size flash_addr sz) @ [mode]) IPC_CMD_FLASH_ERASE 10
            (Some 6000000000) s; Some s }"

text \<open>A word of two bytes, the lower one first.\<close>

fun words_of :: "u8 list \<Rightarrow> u16 list" where
  "words_of (a # b # bs) = (ucast a OR push_bit 8 (ucast b)) # words_of bs"
| "words_of _ = []"

text \<open>The words are sent in groups of eight, the last of what is left.\<close>

function send_words :: "'d aeon_env \<Rightarrow> nat \<Rightarrow> u16 list \<Rightarrow> 'd aeon \<Rightarrow> 'd aeon option" where
  "send_words env p ws s =
     (if ws = [] then Some s
      else if 8 < length ws
      then do { s \<leftarrow> aeon_ipc_send_bulk_data env p BW16 8 ws s; send_words env p (drop 8 ws) s }
      else aeon_ipc_send_bulk_data env p BW16 (word_of_nat (length ws)) ws s)"
  by pat_completeness auto
termination by (relation "measure (\<lambda>(_, _, ws, _). length ws)") auto

declare send_words.simps [simp del]

text \<open>The bytes of a sector: a whole sector is copied, with what lies behind the firmware where that ends.\<close>

definition sector_words :: "u8 list \<Rightarrow> (nat \<Rightarrow> u8) \<Rightarrow> nat \<Rightarrow> nat \<Rightarrow> u16 list" where
  "sector_words data behind image_size k =
     (let ofs = k * FLASH_SECTOR_SIZE;
          bytes = map (\<lambda>i. if i < length data then data ! i else behind i) [ofs..<ofs + FLASH_SECTOR_SIZE]
      in take (min ((image_size - ofs) div 2) (FLASH_SECTOR_SIZE div 2)) (words_of bytes))"

fun write_sectors :: "'d aeon_env \<Rightarrow> nat \<Rightarrow> u8 list \<Rightarrow> (nat \<Rightarrow> u8) \<Rightarrow> u32 \<Rightarrow> nat \<Rightarrow> nat list \<Rightarrow> 'd aeon \<Rightarrow> 'd aeon option" where
  "write_sectors env p data behind flash_start image_size [] s = Some s"
| "write_sectors env p data behind flash_start image_size (k # ks) s =
     do { s \<leftarrow> aeon_ipc_send_bulk_write env p 0x33E000 4096 s;
          s \<leftarrow> send_words env p (sector_words data behind image_size k) s;
          s \<leftarrow> aeon_ipc_write_flash env p (flash_start + 4096 * word_of_nat k) 0x33E000 4096 s;
          write_sectors env p data behind flash_start image_size ks s }"

definition padded :: "nat \<Rightarrow> nat" where
  "padded n = (n + 3) div 4 * 4"

definition sectors :: "nat \<Rightarrow> nat" where
  "sectors n = (n + 4095) div 4096"

definition stop_fsms :: "'d aeon_env \<Rightarrow> nat \<Rightarrow> 'd aeon \<Rightarrow> 'd aeon option" where
  "stop_fsms env p s =
     do { s \<leftarrow> aeon_ipc_set_fsm_mode env p 0x81 0 s;
          s \<leftarrow> aeon_ipc_set_fsm_mode env p 0x8C 0 s;
          s \<leftarrow> aeon_ipc_set_fsm_mode env p 0x8D 0 s;
          s \<leftarrow> aeon_ipc_set_fsm_mode env p 0x8E 0 s;
          aeon_ipc_set_fsm_mode env p 0x91 0 s }"

text \<open>A firmware file with what lies behind it in memory, \<open>None\<close> when it cannot be loaded.\<close>

definition aeon_update_flash :: "'d aeon_env \<Rightarrow> nat \<Rightarrow> (u8 list \<times> (nat \<Rightarrow> u8)) option \<Rightarrow> u32 \<Rightarrow> 'd aeon \<Rightarrow> 'd aeon option" where
  "aeon_update_flash env p fw flash_start s =
     do { s \<leftarrow> stop_fsms env p s;
          case fw of None \<Rightarrow> Some s
          | Some (data, behind) \<Rightarrow>
              do { s \<leftarrow> aeon_ipc_erase_flash env p flash_start (word_of_nat (padded (length data))) 2 s;
                   write_sectors env p data behind flash_start (padded (length data)) [0..<sectors (padded (length data))] s } }"

record fw_files =
  FLASH_BIN :: "(u8 list \<times> (nat \<Rightarrow> u8)) option"
  CLR_FLASH_IMAGE :: "(u8 list \<times> (nat \<Rightarrow> u8)) option"
  BOOT_LOADER_BIN :: "(u8 list \<times> (nat \<Rightarrow> u8)) option"

text \<open>The places of the new and of the old image; both stay 0 when the answer is none of the three known ones.\<close>

definition image_places :: "int \<Rightarrow> u32 \<times> u32" where
  "image_places ofst =
     (if ofst = 0 \<or> ofst = IMAGE2_OFST then (IMAGE1_HDR_OFST, IMAGE2_HDR_OFST)
      else if ofst = IMAGE1_OFST then (IMAGE2_HDR_OFST, IMAGE1_HDR_OFST) else (0, 0))"

definition aeon_burn_image :: "'d aeon_env \<Rightarrow> nat \<Rightarrow> fw_files \<Rightarrow> bool \<Rightarrow> 'd aeon \<Rightarrow> 'd aeon option" where
  "aeon_burn_image env p files include_bootloader s =
     do { s \<leftarrow> aeon_ipc_set_wdt env p 0 s;
          if include_bootloader
          then do { s \<leftarrow> aeon_update_flash env p (BOOT_LOADER_BIN files) 0 s; aeon_ipc_set_wdt env p 1 s }
          else do {
            (ofst, s) \<leftarrow> aeon_ipc_sys_cpu_info env p SYS_IMAGE_OFST 0 0 s;
            let (new_addr, old_addr) = image_places ofst;
            s \<leftarrow> aeon_update_flash env p (FLASH_BIN files) new_addr s;
            (ok, s) \<leftarrow> aeon_ipc_sys_cpu_info env p SYS_CPU_IMAGE_CHECK new_addr 0x33D000 s;
            if ok \<noteq> 0
            then do { s \<leftarrow> aeon_update_flash env p (CLR_FLASH_IMAGE files) old_addr s; aeon_ipc_set_wdt env p 1 s }
            else Some s } }"

end
