(* ===== verification/AeonProc.thy ===== *)
theory AeonProc
  imports AeonCmd
begin

text \<open>
  The control files of the AN8831 PHYs, \<^verbatim>\<open>airoha/arht_hsgmii.c\<close>: parsing of what is written to them, the choice of
  a PHY, the negotiation settings and their transfer, and the life of the files. A PHY is named by its address on
  the MDIO bus. The parser of numbers and the copy from user space are arguments.
\<close>

section \<open>Commands\<close>

abbreviation (input) MAX_BUF :: nat where "MAX_BUF \<equiv> 64"
abbreviation (input) MAX_CMD_LEN :: nat where "MAX_CMD_LEN \<equiv> 32"
abbreviation (input) MAX_ARGS :: nat where "MAX_ARGS \<equiv> 10"
abbreviation (input) AN8831_PHY_NUM :: nat where "AN8831_PHY_NUM \<equiv> 2"
abbreviation (input) MDI_CFG_SPD_T2P5G :: u8 where "MDI_CFG_SPD_T2P5G \<equiv> 0x10"
abbreviation (input) MDI_CFG_SPD_T5G :: u8 where "MDI_CFG_SPD_T5G \<equiv> 0x20"
abbreviation (input) MDI_CFG_SPD_T10G :: u8 where "MDI_CFG_SPD_T10G \<equiv> 0x40"

text \<open>What is in a byte buffer up to the first zero.\<close>

definition c_string :: "string \<Rightarrow> string" where
  "c_string buf = takeWhile (\<lambda>c. c \<noteq> CHR 0x00) buf"

text \<open>Repeated \<^verbatim>\<open>strsep\<close> with a blank, all pieces, empty ones included.\<close>

fun blank_split :: "string \<Rightarrow> string list" where
  "blank_split [] = [[]]"
| "blank_split (c # cs) =
     (if c = CHR '' '' then [] # blank_split cs
      else case blank_split cs of [] \<Rightarrow> [[c]] | t # ts \<Rightarrow> (c # t) # ts)"

record parsed_cmd =
  pc_cmd :: string
  pc_args :: "int list"

fun take_args :: "(string \<Rightarrow> int option) \<Rightarrow> nat \<Rightarrow> string list \<Rightarrow> int list option" where
  "take_args kstrtol n [] = Some []"
| "take_args kstrtol n (t # ts) =
     (if n = 0 then Some [] else if t = [] then take_args kstrtol n ts
      else case kstrtol t of None \<Rightarrow> None
           | Some v \<Rightarrow> map_option (\<lambda>vs. v # vs) (take_args kstrtol (n - 1) ts))"

definition chop_newline :: "string \<Rightarrow> string" where
  "chop_newline b = (if b \<noteq> [] \<and> last b = CHR 0x0A then butlast b else b)"

definition parse_cmd_args :: "(string \<Rightarrow> int option) \<Rightarrow> string \<Rightarrow> nat \<Rightarrow> int + parsed_cmd" where
  "parse_cmd_args kstrtol input max_args =
     (if MAX_ARGS < max_args then Inl (- EINVAL)
      else case dropWhile (\<lambda>t. t = []) (blank_split (chop_newline (take (MAX_BUF - 1) input))) of
        [] \<Rightarrow> Inl (- EINVAL)
      | t # ts \<Rightarrow> (case take_args kstrtol max_args ts of None \<Rightarrow> Inl (- EINVAL)
          | Some vs \<Rightarrow> Inr \<lparr>pc_cmd = take (MAX_CMD_LEN - 1) t, pc_args = vs\<rparr>))"

section \<open>State\<close>

record downshift_cfg =
  ds_enable :: u8
  ds_retry_limit :: u8

record an_mdi_cfg =
  top_spd :: u8
  eee_spd :: u8
  fr_spd :: u8
  thp_byp :: u8
  port_type :: u8
  ms_en :: u8
  ms_config :: u8
  nstd_pbo :: u8
  smt_spd :: downshift_cfg
  trd_ovrd :: u8
  trd_swap :: u8
  cfr :: u8

text \<open>The chosen PHY is \<open>an8831_dev\<close>; \<open>proc_dir\<close> holds the names of the control files.\<close>

record 'd an8831 =
  mail :: "'d aeon"
  an8831_dev_all :: "nat option list"
  an8831_dev :: "nat option"
  an8831_phy_addr :: int
  priv_data :: an_mdi_cfg
  phy_on :: u8
  proc_dir :: "string set"

text \<open>A command to the chosen PHY. The code does not check that there is one: without it the result is \<open>None\<close>, as it
  is when the wait of a command does not end.\<close>

definition with_dev :: "(nat \<Rightarrow> 'd aeon \<Rightarrow> 'd aeon option) \<Rightarrow> 'd an8831 \<Rightarrow> 'd an8831 option" where
  "with_dev f s = do { p \<leftarrow> an8831_dev s; m \<leftarrow> f p (mail s); Some (s\<lparr>mail := m\<rparr>) }"

definition cond_dev :: "bool \<Rightarrow> (nat \<Rightarrow> 'd aeon \<Rightarrow> 'd aeon option) \<Rightarrow> 'd an8831 \<Rightarrow> 'd an8831 option" where
  "cond_dev b f s = (if b then with_dev f s else Some s)"

section \<open>Handlers\<close>

text \<open>A write of the bytes \<open>buf\<close>; \<open>ok\<close> tells whether they could be copied.\<close>

definition parse_write :: "(string \<Rightarrow> int option) \<Rightarrow> bool \<Rightarrow> string \<Rightarrow> nat \<Rightarrow> int + parsed_cmd" where
  "parse_write kstrtol ok buf max_args =
     (if MAX_BUF \<le> length buf then Inl (- EINVAL) else if \<not> ok then Inl (- EFAULT)
      else parse_cmd_args kstrtol (c_string buf) max_args)"

definition speed_of_cmd :: "string \<Rightarrow> u8 option" where
  "speed_of_cmd c =
     (if c = ''10Gbps'' then Some MDI_CFG_SPD_T10G else if c = ''5Gbps'' then Some MDI_CFG_SPD_T5G
      else if c = ''2.5Gbps'' then Some MDI_CFG_SPD_T2P5G else if c = ''1Gbps'' then Some 0x8
      else if c = ''100Mbps'' then Some 0x4 else None)"

definition aeon_speed_mode_write_proc ::
  "(string \<Rightarrow> int option) \<Rightarrow> bool \<Rightarrow> string \<Rightarrow> 'd an8831 \<Rightarrow> int \<times> 'd an8831" where
  "aeon_speed_mode_write_proc kstrtol ok buf s =
     (case parse_write kstrtol ok buf 0 of Inl e \<Rightarrow> (e, s)
      | Inr c \<Rightarrow>
          if pc_args c \<noteq> [] then (- EINVAL, s)
          else (int (length buf),
                case speed_of_cmd (pc_cmd c) of None \<Rightarrow> s | Some v \<Rightarrow> s\<lparr>priv_data := (priv_data s)\<lparr>top_spd := v\<rparr>\<rparr>))"

definition set_ms :: "'d aeon_env \<Rightarrow> u16 list \<Rightarrow> nat \<Rightarrow> 'd aeon \<Rightarrow> 'd aeon option" where
  "set_ms env ms p m = aeon_cu_an_set_ms_cfg env p (ms ! 0) (ms ! 1) (ms ! 2) m"

text \<open>The three words of the master and slave settings are read first; a setting changes its word and sends all three.\<close>

definition send_settings :: "'d aeon_env \<Rightarrow> 'd an8831 \<Rightarrow> 'd an8831 option" where
  "send_settings env s =
     do { p \<leftarrow> an8831_dev s;
          (ms, m) \<leftarrow> aeon_cu_an_get_ms_cfg env p (mail s);
          let c = priv_data s; s = s\<lparr>mail := m\<rparr>;
              ms1 = (if ms_en c \<noteq> 0xF then ms[1 := ucast (ms_en c)] else ms);
              ms2 = (if ms_config c \<noteq> 0xF then ms1[2 := ucast (ms_config c)] else ms1);
              ms3 = (if port_type c \<noteq> 0xF then ms2[0 := ucast (port_type c)] else ms2)
          in do {
            s \<leftarrow> cond_dev (top_spd c \<noteq> 0xF) (\<lambda>p. aeon_cu_an_set_top_spd env p (ucast (top_spd c))) s;
            s \<leftarrow> cond_dev (eee_spd c \<noteq> 0xFF) (\<lambda>p. aeon_cu_an_set_eee_spd env p (ucast (eee_spd c))) s;
            s \<leftarrow> cond_dev (ms_en c \<noteq> 0xF) (set_ms env ms1) s;
            s \<leftarrow> cond_dev (ms_config c \<noteq> 0xF) (set_ms env ms2) s;
            s \<leftarrow> cond_dev (port_type c \<noteq> 0xF) (set_ms env ms3) s;
            s \<leftarrow> cond_dev (ds_enable (smt_spd c) \<noteq> 0xF \<or> ds_retry_limit (smt_spd c) \<noteq> 0xF)
                   (\<lambda>p. aeon_cu_an_enable_downshift env p (ucast (ds_enable (smt_spd c))) (ucast (ds_retry_limit (smt_spd c)))) s;
            s \<leftarrow> cond_dev (nstd_pbo c \<noteq> 0xFF) (\<lambda>p. aeon_cu_an_enable_aeon_oui env p (ucast (nstd_pbo c))) s;
            s \<leftarrow> cond_dev (trd_swap c \<noteq> 0xF \<or> trd_ovrd c \<noteq> 0xF)
                   (\<lambda>p. aeon_cu_an_set_trd_swap env p (ucast (trd_ovrd c)) (ucast (trd_swap c))) s;
            cond_dev (cfr c \<noteq> 0xF) (\<lambda>p. aeon_cu_an_set_cfr env p (ucast (cfr c))) s } }"

definition aeon_restart_an_write_proc ::
  "'d aeon_env \<Rightarrow> (string \<Rightarrow> int option) \<Rightarrow> bool \<Rightarrow> string \<Rightarrow> 'd an8831 \<Rightarrow> (int \<times> 'd an8831) option" where
  "aeon_restart_an_write_proc env kstrtol ok buf s =
     (case parse_write kstrtol ok buf 0 of Inl e \<Rightarrow> Some (e, s)
      | Inr c \<Rightarrow>
          if pc_cmd c \<noteq> ''RestartAN'' then Some (int (length buf), s)
          else if pc_args c \<noteq> [] then Some (- EINVAL, s)
          else do { s \<leftarrow> send_settings env s;
                    s \<leftarrow> with_dev (aeon_ipc_sync_parity env) s;
                    s \<leftarrow> with_dev (aeon_cu_an_restart env) s;
                    Some (int (length buf), s) })"

text \<open>The search ends at the first missing PHY; without a match the choice stays.\<close>

fun aeon_match_device :: "u16 \<Rightarrow> nat option list \<Rightarrow> nat option \<Rightarrow> nat option" where
  "aeon_match_device phy_addr [] cur = cur"
| "aeon_match_device phy_addr (None # ds) cur = cur"
| "aeon_match_device phy_addr (Some a # ds) cur = (if a = unat phy_addr then Some a else aeon_match_device phy_addr ds cur)"

definition aeon_choose_device_write_proc ::
  "(string \<Rightarrow> int option) \<Rightarrow> bool \<Rightarrow> string \<Rightarrow> 'd an8831 \<Rightarrow> int \<times> 'd an8831" where
  "aeon_choose_device_write_proc kstrtol ok buf s =
     (case parse_write kstrtol ok buf 1 of Inl e \<Rightarrow> (e, s)
      | Inr c \<Rightarrow>
          if pc_cmd c \<noteq> ''dev'' then (int (length buf), s)
          else if length (pc_args c) \<noteq> 1 then (- EINVAL, s)
          else (int (length buf),
                s\<lparr>an8831_dev := aeon_match_device (word_of_int (hd (pc_args c))) (an8831_dev_all s) (an8831_dev s)\<rparr>))"

definition aeon_phy_enable_write_proc ::
  "'d aeon_env \<Rightarrow> (string \<Rightarrow> int option) \<Rightarrow> bool \<Rightarrow> string \<Rightarrow> 'd an8831 \<Rightarrow> (int \<times> 'd an8831) option" where
  "aeon_phy_enable_write_proc env kstrtol ok buf s =
     (case parse_write kstrtol ok buf 1 of Inl e \<Rightarrow> Some (e, s)
      | Inr c \<Rightarrow>
          if pc_cmd c \<noteq> ''phyenable'' then Some (int (length buf), s)
          else if length (pc_args c) \<noteq> 1 then Some (- EINVAL, s)
          else do { s \<leftarrow> with_dev (aeon_ipc_sync_parity env) s;
                    s \<leftarrow> with_dev (\<lambda>p. aeon_ipc_phy_enable_mode env p (word_of_int (hd (pc_args c)))) s;
                    Some (int (length buf), s\<lparr>phy_on := word_of_int (hd (pc_args c))\<rparr>) })"

section \<open>Start and end\<close>

text \<open>Despite its name it yields the index of the first PHY, or the size of the table.\<close>

definition an8831_phy_is_empty :: "nat option list \<Rightarrow> nat" where
  "an8831_phy_is_empty devs = (case find (\<lambda>i. devs ! i \<noteq> None) [0..<AN8831_PHY_NUM] of None \<Rightarrow> AN8831_PHY_NUM | Some i \<Rightarrow> i)"

definition no_mdi_cfg :: an_mdi_cfg where
  "no_mdi_cfg = \<lparr>top_spd = 0xF, eee_spd = 0xFF, fr_spd = 0xF, thp_byp = 0xF, port_type = 0xF, ms_en = 0xF, ms_config = 0xF,
     nstd_pbo = 0xFF, smt_spd = \<lparr>ds_enable = 0xF, ds_retry_limit = 0xF\<rparr>, trd_ovrd = 0xF, trd_swap = 0xF, cfr = 0xF\<rparr>"

text \<open>\<open>has_bus\<close> tells whether a PHY knows its bus.\<close>

definition an8831_proc_init :: "(nat \<Rightarrow> bool) \<Rightarrow> 'd an8831 \<Rightarrow> int \<times> 'd an8831" where
  "an8831_proc_init has_bus s =
     (let i = an8831_phy_is_empty (an8831_dev_all s)
      in if i = AN8831_PHY_NUM then (- EINVAL, s)
         else
           let p = the (an8831_dev_all s ! i); s = s\<lparr>an8831_dev := Some p\<rparr>
           in if \<not> has_bus p then (- EINVAL, s)
              else (0, s\<lparr>an8831_phy_addr := int p, priv_data := no_mdi_cfg,
                         proc_dir := proc_dir s \<union> {''aeon_speed_mode'', ''aeon_restart_an'', ''aeon_choose_device'',
                           ''aeon_eth_status'', ''aeon_serdes'', ''aeon_phy_enable''}\<rparr>))"

definition an8831_proc_exit :: "'d an8831 \<Rightarrow> 'd an8831" where
  "an8831_proc_exit s =
     (if an8831_phy_is_empty (an8831_dev_all s) = AN8831_PHY_NUM then s
      else s\<lparr>an8831_phy_addr := - 1,
             proc_dir := proc_dir s - {''aeon_set_speed_mode'', ''aeon_restart_an'', ''aeon_choose_device'', ''aeon_serdes'', ''aeon_phy_enable''}\<rparr>)"

end
