(* ===== verification/AeonProps.thy ===== *)
theory AeonProps
  imports AeonFw AeonProc AeonFlash
begin

text \<open>
  What is shown of the mailbox of the AN8831 PHYs, on any device that meets the contracts of \<open>AeonFw\<close>, and the device
  in memory on which the contracts and the witnesses run.
\<close>

section \<open>A device in memory\<close>

text \<open>Firmware that serves within one delay and succeeds.\<close>

record demo =
  dm_box :: "nat \<Rightarrow> mbox"
  dm_clk :: nat

definition serve1 :: "mbox \<Rightarrow> mbox" where
  "serve1 b = (if mb_idle b then b
     else b\<lparr>mb_sts := (mb_cmd b AND 0x8000) OR IPC_STS_CMD_SUCCESS, mb_log := mb_log b @ [(op_of (mb_cmd b), mb_data b, IPC_STS_CMD_SUCCESS)]\<rparr>)"

definition tick1 :: "demo \<Rightarrow> demo" where
  "tick1 d = d\<lparr>dm_box := \<lambda>q. serve1 (dm_box d q), dm_clk := dm_clk d + 10000000\<rparr>"

definition is_data :: "u16 \<Rightarrow> u16 \<Rightarrow> bool" where
  "is_data dev reg \<longleftrightarrow> dev = 0x1E \<and> 0x5808 \<le> reg \<and> reg < 0x5810"

definition demo_rd :: "nat \<Rightarrow> u16 \<Rightarrow> u16 \<Rightarrow> demo \<Rightarrow> int \<times> demo" where
  "demo_rd q dev reg d =
     (if dev = 0x1E \<and> reg = 0x5802 then (uint (mb_sts (dm_box d q)), d)
      else if is_data dev reg then (uint (mb_data (dm_box d q) (unat (reg - 0x5808))), d) else (0, d))"

definition demo_wr :: "nat \<Rightarrow> u16 \<Rightarrow> u16 \<Rightarrow> u16 \<Rightarrow> demo \<Rightarrow> demo" where
  "demo_wr q dev reg v d =
     (if dev = 0x1E \<and> reg = 0x5801 then d\<lparr>dm_box := (dm_box d)(q := (dm_box d q)\<lparr>mb_cmd := v\<rparr>)\<rparr>
      else if is_data dev reg
      then d\<lparr>dm_box := (dm_box d)(q := (dm_box d q)\<lparr>mb_data := (mb_data (dm_box d q))(unat (reg - 0x5808) := v)\<rparr>)\<rparr> else d)"

definition demo_env :: "demo aeon_env" where
  "demo_env = \<lparr>mmd_read = demo_rd, mmd_write = demo_wr, a_mdelay = (\<lambda>n. tick1 ^^ (n div 10)), a_udelay = (\<lambda>_ d. d),
     a_now = (\<lambda>d. word_of_nat (dm_clk d)), stray = (\<lambda>_. 0)\<rparr>"

lemma is_data_nth:
  assumes "i < 8"
  shows "is_data 0x1E (0x5808 + word_of_nat i)" and "unat (word_of_nat i :: u16) = i"
    and "(0x5808 + word_of_nat i :: u16) \<noteq> 0x5802" and "(0x5808 + word_of_nat i :: u16) \<noteq> 0x5801"
proof -
  have "i \<in> {0, 1, 2, 3, 4, 5, 6, 7}" using assms by auto
  then show "is_data 0x1E (0x5808 + word_of_nat i)" "unat (word_of_nat i :: u16) = i"
      "(0x5808 + word_of_nat i :: u16) \<noteq> 0x5802" "(0x5808 + word_of_nat i :: u16) \<noteq> 0x5801"
    by (auto simp: is_data_def)
qed

lemma serve1_word:
  "par_of ((c AND 0x8000) OR IPC_STS_CMD_SUCCESS) = par_of c" "status_of ((c AND 0x8000) OR IPC_STS_CMD_SUCCESS) = IPC_STS_CMD_SUCCESS"
  by (simp_all add: par_of_def bit_simps status_of_def bit.conj_disj_distrib2 and.assoc)

lemma serve1_served: "\<not> mb_idle b \<Longrightarrow> served b (serve1 b) IPC_STS_CMD_SUCCESS"
  by (simp add: serve1_def served_def serve1_word)

lemma serve1_idle: "mb_idle (serve1 b)"
  by (simp add: serve1_def mb_idle_def serve1_word)

lemma demo_delay: "a_mdelay demo_env 10 d = tick1 d" "a_mdelay demo_env 20 d = tick1 (tick1 d)"
  by (simp_all add: demo_env_def numeral_2_eq_2)

interpretation demo: aeon_phys demo_env dm_clk 10000000 "\<lambda>q d. dm_box d q" "\<lambda>_ _. 0" 0
proof (unfold_locales, goal_cases)
  case (7 i q d) then show ?case by (simp add: demo_env_def demo_rd_def is_data_nth)
next
  case (8 i q p v d) then show ?case by (simp add: demo_env_def demo_wr_def is_data_nth)
next
  case (9 q p v d) then show ?case by (simp add: demo_env_def demo_wr_def)
next
  case (11 d) then show ?case by (simp add: demo_delay)
next
  case (14 q d) then show ?case using serve1_served by (auto simp: demo_delay tick1_def)
qed (auto simp: demo_delay tick1_def serve1_def demo_env_def demo_rd_def demo_wr_def is_data_nth is_data_def)

text \<open>All mailboxes in sync after a success, a clock at zero.\<close>

definition fresh_box :: mbox where
  "fresh_box = \<lparr>mb_cmd = 0x8000, mb_sts = 0x8004, mb_data = (\<lambda>_. 0), mb_log = []\<rparr>"

definition fresh :: "demo aeon" where
  "fresh = \<lparr>phys = \<lparr>dm_box = (\<lambda>_. fresh_box), dm_clk = 0\<rparr>, ipc_cmd_num = 0\<rparr>"

lemma fresh_sync: "in_sync (\<lambda>q d. dm_box d q) p fresh" "status_of (sts_at (\<lambda>q d. dm_box d q) p fresh) = IPC_STS_CMD_SUCCESS"
  by (simp_all add: in_sync_def fresh_def fresh_box_def mb_idle_def sts_at_def par_of_def next_par_def status_of_def)

section \<open>Exchanges\<close>

text \<open>C7: with a PHY that is in sync, a command is executed exactly once, with the data that were sent, its verdict is what the
  driver gets, and the PHY is in sync for the next one. A failure that still stands in the status register is
  allowed only if the firmware serves within one delay.\<close>

theorem exchange_once:
  assumes "aeon_phys env clk tick box lag patience" and "in_sync box p s"
    and "status_of (sts_at box p s) = IPC_STS_CMD_ERROR \<longrightarrow> patience = 0"
  shows "\<exists>st s'. ipc_exchange env p vals opcode sz None s = Some (st, s') \<and> st \<in> {IPC_STS_CMD_SUCCESS, IPC_STS_CMD_ERROR} \<and>
    mb_log (box p (phys s')) = mb_log (box p (phys s)) @
      [(op_of (cmd_word False opcode sz), load vals (mb_data (box p (phys s))), st)] \<and>
    in_sync box p s'"
  using aeon_phys.exchange_in_sync [OF assms, of vals opcode sz] by blast

theorem exchange_once_witness:
  "\<exists>st s'. ipc_exchange demo_env 31 [1] 1 2 None fresh = Some (st, s') \<and> length (mb_log (dm_box (phys s') 31)) = 1"
  using exchange_once [OF demo.aeon_phys_axioms fresh_sync(1), of 31 "[1]" 1 2] by (auto simp: fresh_def fresh_box_def)

text \<open>C8: the parity of the next command is kept once for all PHYs. A command to one of two PHYs that are both in sync puts the
  other one out of sync: the next command to that one is never executed, and its last success is reported as the
  success of the lost command.\<close>

theorem second_phy_loses_command:
  assumes phys: "aeon_phys env clk tick box lag patience" and "p \<noteq> q" and "in_sync box p s" and "in_sync box q s"
    and "status_of (sts_at box p s) = IPC_STS_CMD_SUCCESS" and q: "status_of (sts_at box q s) = IPC_STS_CMD_SUCCESS"
  shows "\<exists>st s1 s2. ipc_exchange env p vals opcode sz None s = Some (st, s1) \<and>
    ipc_exchange env q vals' opcode' sz' None s1 = Some (IPC_STS_CMD_SUCCESS, s2) \<and>
    mb_log (box q (phys s2)) = mb_log (box q (phys s))"
proof -
  obtain st s1 where s1: "ipc_exchange env p vals opcode sz None s = Some (st, s1)" "ipc_cmd_num s1 = ipc_cmd_num s + 1"
      "box q (phys s1) = box q (phys s)"
    using aeon_phys.exchange_in_sync [OF phys, of p s vals opcode sz] assms by (auto simp: in_sync_def)
  then have "mb_idle (box q (phys s1))" "par_of (sts_at box q s1) = next_par s1" "sts_at box q s1 = sts_at box q s"
    using assms(4) by (auto simp: in_sync_def sts_at_def next_par_def bit_0)
  then show ?thesis
    using aeon_phys.exchange_lost [OF phys, of q s1 vals' opcode' sz'] s1 q by auto
qed

theorem second_phy_loses_command_witness:
  "\<exists>st s1 s2. ipc_exchange demo_env 30 [1] 1 2 None fresh = Some (st, s1) \<and>
     ipc_exchange demo_env 31 [6, 1] 2 4 None s1 = Some (IPC_STS_CMD_SUCCESS, s2) \<and> mb_log (dm_box (phys s2) 31) = []"
  using second_phy_loses_command [OF demo.aeon_phys_axioms, of 30 31 fresh "[1]" 1 2 "[6, 1]" 2 4] fresh_sync
  by (auto simp: fresh_def fresh_box_def)

text \<open>A PHY whose status register no longer changes answers every command with the status that stands there: one that
  hangs after a success reports success for ever.\<close>

theorem dead_phy_repeats:
  assumes "aeon_dead env clk tick p w I" and "I (phys s)"
  shows "\<exists>s'. ipc_exchange env p vals opcode sz None s = Some (status_of w, s') \<and> I (phys s')"
  using aeon_dead.dead_exchange [OF assms] .

definition dead_box_env :: "nat aeon_env" where
  "dead_box_env = \<lparr>mmd_read = (\<lambda>_ _ _ d. (4, d)), mmd_write = (\<lambda>_ _ _ _ d. d), a_mdelay = (\<lambda>n d. d + n * 1000000), a_udelay = (\<lambda>_ d. d),
     a_now = word_of_nat, stray = (\<lambda>_. 0)\<rparr>"

interpretation dead_box: aeon_dead dead_box_env "\<lambda>d. d" 10000000 31 4 "\<lambda>_. True"
  by unfold_locales (auto simp: dead_box_env_def)

theorem dead_phy_repeats_witness:
  "\<exists>s'. ipc_exchange dead_box_env 31 [6, 1] 2 4 None \<lparr>phys = 0, ipc_cmd_num = 7\<rparr> = Some (IPC_STS_CMD_SUCCESS, s')"
  using dead_phy_repeats [OF dead_box.aeon_dead_axioms, where s = "\<lparr>phys = 0, ipc_cmd_num = 7\<rparr>" and vals = "[6, 1]" and opcode = 2 and sz = 4]
  by (auto simp: status_of_def)



section \<open>The control file that enables a PHY\<close>


definition chosen :: "demo an8831" where
  "chosen = \<lparr>mail = fresh\<lparr>ipc_cmd_num := 1\<rparr>, an8831_dev_all = [Some 31, None], an8831_dev = Some 31, an8831_phy_addr = 31,
     priv_data = no_mdi_cfg, phy_on = 1, proc_dir = {}\<rparr>"


section \<open>The transfer of an image\<close>

text \<open>The words that came with an executed command: half of the bytes its size says.\<close>

definition entry_words :: "u16 \<times> (nat \<Rightarrow> u16) \<times> u16 \<Rightarrow> u16 list" where
  "entry_words e = map (fst (snd e)) [0..<unat (drop_bit 6 (fst e) AND 0x1F) div 2]"

lemma bulk_size:
  assumes "n \<le> 8"
  shows "unat (drop_bit 6 (op_of (cmd_word False 0xA (word_of_nat n * 2))) AND 0x1F) div 2 = n"
proof -
  have "n \<in> {0, 1, 2, 3, 4, 5, 6, 7, 8}" using assms by auto
  then show ?thesis by (auto simp: op_of_def cmd_word_def Let_def)
qed

lemma bulk_entry:
  assumes "length ws \<le> 8"
  shows "entry_words (op_of (cmd_word False 0xA (word_of_nat (length ws) * 2)), load ws f, st) = ws"
proof -
  have "map (load ws f) [0..<length ws] = ws"
    using assms by (intro nth_equalityI) (simp_all add: load_def)
  then show ?thesis using bulk_size [OF assms] by (simp add: entry_words_def)
qed



text \<open>A query of the current image that fails sends the new one to the place of the boot loader, and a check that fails
  passes for a good one.\<close>

lemma failed_query_at_zero: "image_places 1 = (0, 0)"
  by (simp add: image_places_def)

lemma failed_info_is_one:
  assumes "aeon_dead env clk tick p w I" and "I (phys s)" and "status_of w \<noteq> IPC_STS_CMD_SUCCESS"
  shows "\<exists>s'. aeon_ipc_sys_cpu_info env p sub a m s = Some (1, s')"
proof -
  let ?vals = "sub # (if sub = SYS_CPU_IMAGE_CHECK then lo_hi a @ lo_hi m else [0, 0, 0, 0])"
  obtain s' where "ipc_exchange env p ?vals IPC_CMD_SYS_CPU 10 None s = Some (status_of w, s')"
    using aeon_dead.dead_exchange [OF assms(1,2), of ?vals IPC_CMD_SYS_CPU 10] by blast
  then show ?thesis using assms(3) by (simp add: aeon_ipc_sys_cpu_info_def)
qed

end
