(* ===== verification/En8811.thy ===== *)
theory En8811
  imports AeonProc
begin

text \<open>
  The register of external EN8811 PHYs and the board's map of serial lanes, \<^verbatim>\<open>airoha/arht_hsgmii.c\<close> and
  \<^verbatim>\<open>airoha/arht_config.c\<close>: which PHYs were found on the bus, at which lane and interface each of them is, and
  what a user can say about them. A PHY is named by its address on the bus. \<open>None\<close> is an access outside of an array.
\<close>

abbreviation (input) MIN_PHY_ADDR_EN8811 :: nat where "MIN_PHY_ADDR_EN8811 \<equiv> 8"
abbreviation (input) MAX_PHY_ADDR_EN8811 :: nat where "MAX_PHY_ADDR_EN8811 \<equiv> 15"
abbreviation (input) MIN_PHY_ADDR_AN8831 :: nat where "MIN_PHY_ADDR_AN8831 \<equiv> 28"
abbreviation (input) MAX_PHY_ADDR_AN8831 :: nat where "MAX_PHY_ADDR_AN8831 \<equiv> 31"
abbreviation (input) INVALID_PHY_ADDR :: nat where "INVALID_PHY_ADDR \<equiv> 32"
abbreviation (input) MAX_PHY_DEVICES :: nat where "MAX_PHY_DEVICES \<equiv> 16"
abbreviation (input) SERDES_MAX_IDX :: nat where "SERDES_MAX_IDX \<equiv> 5"
abbreviation (input) SERDES_INVALID_IDX :: nat where "SERDES_INVALID_IDX \<equiv> 5"
abbreviation (input) INVALID_ITF_NAME :: string where "INVALID_ITF_NAME \<equiv> ''None''"
abbreviation (input) CMD_LEN :: nat where "CMD_LEN \<equiv> 16"
abbreviation (input) STRING_LEN :: nat where "STRING_LEN \<equiv> 40"

section \<open>The board\<close>

text \<open>The PHY of a lane, 0 without one. The lanes are PCIe 0, PCIe 1, USB, AE and Ethernet.\<close>

record phy_serdes =
  ps_phy_addr :: nat
  ps_serdes_id :: nat

definition serdes_map :: "phy_serdes list" where
  "serdes_map = map (\<lambda>(a, i). \<lparr>ps_phy_addr = a, ps_serdes_id = i\<rparr>) [(0, 0), (0, 1), (0, 2), (0, 3), (15, 4)]"

definition serdes_map_aeon :: "phy_serdes list" where
  "serdes_map_aeon = map (\<lambda>(a, i). \<lparr>ps_phy_addr = a, ps_serdes_id = i\<rparr>) [(0, 0), (0, 1), (0, 2), (0, 3), (31, 4)]"

definition itfname_info :: "string list" where
  "itfname_info = [''eth4'', ''eth5'', ''eth3'', ''pon'', ''eth2'']"

definition serdes_info :: "string list" where
  "serdes_info = [''SERDES_PCIE0'', ''SERDES_PCIE1'', ''SERDES_USB'', ''SERDES_PON'', ''SERDES_ETH'']"

definition GET_PHY_ITFNAME :: "nat \<Rightarrow> string" where
  "GET_PHY_ITFNAME serdesID = (if serdesID < SERDES_MAX_IDX then itfname_info ! serdesID else INVALID_ITF_NAME)"

definition get_ifname_by_phy_addr :: "nat \<Rightarrow> string" where
  "get_ifname_by_phy_addr phy_addr =
     (case find (\<lambda>i. ps_phy_addr (serdes_map_aeon ! i) = phy_addr) [0..<SERDES_MAX_IDX] of None \<Rightarrow> INVALID_ITF_NAME
      | Some i \<Rightarrow> itfname_info ! ps_serdes_id (serdes_map_aeon ! i))"

definition get_serdesInfo_from_map :: "nat \<Rightarrow> nat" where
  "get_serdesInfo_from_map phyAddr =
     (case find (\<lambda>i. ps_phy_addr (serdes_map ! i) = phyAddr) [0..<length serdes_map] of None \<Rightarrow> SERDES_INVALID_IDX
      | Some i \<Rightarrow> ps_serdes_id (serdes_map ! i))"

section \<open>The register\<close>

record phy_priv_data =
  pp_dev :: "nat option"
  pp_addr :: nat
  pp_serdes_id :: nat
  pp_id :: u32
  pp_on :: bool

record mdio_priv =
  mii_bus :: bool
  phy_info :: "phy_priv_data list"
  num_phy_register :: nat
  phy_addr_list :: "nat list"
  phy_registers :: "nat list"
  phy_addr_default :: nat

text \<open>Allocated memory is cleared.\<close>

definition zero_priv :: mdio_priv where
  "zero_priv = \<lparr>mii_bus = False, phy_info = replicate MAX_PHY_DEVICES \<lparr>pp_dev = None, pp_addr = 0, pp_serdes_id = 0, pp_id = 0, pp_on = False\<rparr>,
     num_phy_register = 0, phy_addr_list = replicate MAX_PHY_DEVICES 0, phy_registers = replicate MAX_PHY_DEVICES 0, phy_addr_default = 0\<rparr>"

definition init_en8811_priv_data :: "mdio_priv \<Rightarrow> mdio_priv" where
  "init_en8811_priv_data m =
     (fold (\<lambda>i m. m\<lparr>phy_info := (phy_info m)[i := \<lparr>pp_dev = None, pp_addr = INVALID_PHY_ADDR, pp_serdes_id = SERDES_INVALID_IDX, pp_id = 0, pp_on = False\<rparr>],
                    phy_addr_list := (phy_addr_list m)[i := INVALID_PHY_ADDR],
                    phy_registers := (phy_registers m)[i := SERDES_INVALID_IDX]\<rparr>)
       [MIN_PHY_ADDR_EN8811..<Suc MAX_PHY_ADDR_EN8811] m)\<lparr>num_phy_register := 0, phy_addr_default := INVALID_PHY_ADDR\<rparr>"

definition CHECK_PHY_ADDR :: "nat \<Rightarrow> bool" where
  "CHECK_PHY_ADDR a \<longleftrightarrow> MIN_PHY_ADDR_EN8811 \<le> a \<and> a \<le> MAX_PHY_ADDR_EN8811"

text \<open>A PHY at the address \<open>a\<close> with the identification \<open>phy_id\<close>.\<close>

definition set_en8811_phydev :: "nat \<Rightarrow> u32 \<Rightarrow> mdio_priv \<Rightarrow> mdio_priv" where
  "set_en8811_phydev a phy_id m =
     (if \<not> CHECK_PHY_ADDR a \<or> phy_id = 0 then m
      else
        let sd = get_serdesInfo_from_map a
        in m\<lparr>phy_info := (phy_info m)[a := \<lparr>pp_dev = Some a, pp_addr = a, pp_serdes_id = sd, pp_id = phy_id, pp_on = False\<rparr>],
             phy_addr_list := (phy_addr_list m)[num_phy_register m := a],
             phy_registers := (phy_registers m)[a := sd],
             num_phy_register := Suc (num_phy_register m),
             phy_addr_default := (if phy_addr_default m = INVALID_PHY_ADDR then a else phy_addr_default m)\<rparr>)"

text \<open>What the two scans have found: the flags of the two kinds, and the table of the AN8831s with its fill count.\<close>

record found =
  en8811_is_exist :: bool
  an8831_is_exist :: bool
  an8831_table :: "nat option list"
  dev_cnt :: nat

definition scan_8811 :: "(nat \<Rightarrow> u32 option) \<Rightarrow> mdio_priv \<times> found \<Rightarrow> mdio_priv \<times> found" where
  "scan_8811 phy_at mf =
     fold (\<lambda>a (m, f). case phy_at a of None \<Rightarrow> (m, f) | Some i \<Rightarrow> (set_en8811_phydev a i m, f\<lparr>en8811_is_exist := True\<rparr>))
       [MIN_PHY_ADDR_EN8811..<Suc MAX_PHY_ADDR_EN8811] mf"

text \<open>The table has two places, the range of addresses four.\<close>

fun scan_8831 :: "(nat \<Rightarrow> u32 option) \<Rightarrow> nat list \<Rightarrow> found \<Rightarrow> found option" where
  "scan_8831 phy_at [] f = Some f"
| "scan_8831 phy_at (a # as) f =
     (if phy_at a = None then scan_8831 phy_at as f
      else if AN8831_PHY_NUM \<le> dev_cnt f then None
      else scan_8831 phy_at as
             (f\<lparr>an8831_is_exist := True, an8831_table := (an8831_table f)[dev_cnt f := Some a], dev_cnt := Suc (dev_cnt f)\<rparr>))"

definition scan_register_phydev :: "(nat \<Rightarrow> u32 option) \<Rightarrow> mdio_priv \<times> found \<Rightarrow> (bool \<times> mdio_priv \<times> found) option" where
  "scan_register_phydev phy_at mf =
     (if \<not> mii_bus (fst mf) then Some (False, mf)
      else
        let (m, f) = scan_8811 phy_at mf
        in do { f \<leftarrow> scan_8831 phy_at [MIN_PHY_ADDR_AN8831..<Suc MAX_PHY_ADDR_AN8831] f;
                Some (en8811_is_exist f \<or> an8831_is_exist f, m, f) })"

definition init_hsgmii_priv :: "(nat \<Rightarrow> u32 option) \<Rightarrow> mdio_priv \<times> found \<Rightarrow> (bool \<times> mdio_priv \<times> found) option" where
  "init_hsgmii_priv phy_at mf = scan_register_phydev phy_at (init_en8811_priv_data (fst mf), snd mf)"

section \<open>Names\<close>

definition check_phy_itfname_valid :: "mdio_priv \<Rightarrow> string \<Rightarrow> bool" where
  "check_phy_itfname_valid m itfname \<longleftrightarrow>
     (\<exists>i\<in>set [MIN_PHY_ADDR_EN8811..<Suc MAX_PHY_ADDR_EN8811].
        phy_registers m ! i \<noteq> SERDES_INVALID_IDX \<and> itfname = itfname_info ! (phy_registers m ! i))"

definition lane_by_name :: "string \<Rightarrow> nat option" where
  "lane_by_name itfname = find (\<lambda>i. itfname = GET_PHY_ITFNAME i) [0..<SERDES_MAX_IDX]"

definition get_phyAddr_by_ItfName :: "string \<Rightarrow> nat" where
  "get_phyAddr_by_ItfName itfname =
     (case lane_by_name itfname of None \<Rightarrow> INVALID_PHY_ADDR | Some i \<Rightarrow> ps_phy_addr (serdes_map ! i))"

definition get_phyDev_by_ItfName :: "mdio_priv \<Rightarrow> string \<Rightarrow> nat option" where
  "get_phyDev_by_ItfName m itfname =
     (case lane_by_name itfname of None \<Rightarrow> None | Some i \<Rightarrow> pp_dev (phy_info m ! ps_phy_addr (serdes_map ! i)))"

text \<open>The lane of a PHY is not checked before the table of names is read.\<close>

definition get_ItfName_by_phyAddr :: "mdio_priv \<Rightarrow> nat \<Rightarrow> string option" where
  "get_ItfName_by_phyAddr m phyAddr =
     (if \<not> CHECK_PHY_ADDR phyAddr then Some INVALID_ITF_NAME
      else if SERDES_MAX_IDX \<le> phy_registers m ! phyAddr then None
      else Some (itfname_info ! (phy_registers m ! phyAddr)))"

definition get_default_ItfName :: "mdio_priv \<Rightarrow> string option" where
  "get_default_ItfName m =
     (if num_phy_register m = 0 then Some INVALID_ITF_NAME
      else map_option (take (CMD_LEN - 1)) (get_ItfName_by_phyAddr m (phy_addr_default m)))"

section \<open>Commands\<close>

definition is_space :: "char \<Rightarrow> bool" where
  "is_space c \<longleftrightarrow> c \<in> {CHR '' '', CHR 0x09, CHR 0x0A, CHR 0x0B, CHR 0x0C, CHR 0x0D, CHR 0xA0}"

text \<open>The words of a line.\<close>

function words :: "string \<Rightarrow> string list" where
  "words s = (case dropWhile is_space s of [] \<Rightarrow> []
     | t \<Rightarrow> takeWhile (\<lambda>c. \<not> is_space c) t # words (dropWhile (\<lambda>c. \<not> is_space c) t))"
  by pat_completeness auto
termination
proof (relation "measure length")
  fix s :: string and c t assume drop: "dropWhile is_space s = c # t"
  then have "\<not> is_space c" by (metis hd_dropWhile list.discI list.sel(1))
  moreover have "length (dropWhile (\<lambda>c. \<not> is_space c) t) \<le> length t" by (rule length_dropWhile_le)
  moreover have "length (c # t) \<le> length s" using length_dropWhile_le [of is_space s] drop by simp
  ultimately show "(dropWhile (\<lambda>c. \<not> is_space c) (c # t), s) \<in> measure length" by simp
qed simp

text \<open>What follows the first occurrence of a word in a string.\<close>

fun after_first :: "string \<Rightarrow> string \<Rightarrow> string option" where
  "after_first w [] = (if w = [] then Some [] else None)"
| "after_first w (c # cs) = (if take (length w) (c # cs) = w then Some (drop (length w) (c # cs)) else after_first w cs)"

definition contains :: "string \<Rightarrow> string \<Rightarrow> bool" where
  "contains w s \<longleftrightarrow> after_first w s \<noteq> None"

record parse_data =
  pd_dev :: nat
  pd_cmd :: string
  pd_param :: string
  pd_subparam :: string
  pd_itf :: string

text \<open>Where the name of the interface is: what is left of the word that held it, and the name.\<close>

definition itf_word :: "mdio_priv \<Rightarrow> string \<Rightarrow> (string \<times> string) option" where
  "itf_word m w =
     (case after_first ''itf='' w of None \<Rightarrow> map_option (\<lambda>n. (w, n)) (get_default_ItfName m) | Some n \<Rightarrow> Some ([], n))"

definition split_words :: "mdio_priv \<Rightarrow> string list \<Rightarrow> (int + (string \<times> string \<times> string \<times> string)) option" where
  "split_words m ws =
     (case ws of
        [c, p, q, w] \<Rightarrow> map_option (\<lambda>(_, n). Inr (c, p, q, n)) (itf_word m w)
      | [c, p, q] \<Rightarrow> map_option (\<lambda>(q, n). Inr (c, p, q, n)) (itf_word m q)
      | [c, p] \<Rightarrow> map_option (\<lambda>(p, n). Inr (c, p, [], n)) (itf_word m p)
      | [c] \<Rightarrow>
          if contains ''bps'' c \<or> contains ''restartAN'' c \<or> contains ''Auto'' c
          then map_option (\<lambda>n. Inr (c, [], [], n)) (get_default_ItfName m)
          else (case after_first ''itf='' c of None \<Rightarrow> Some (Inl (- EINVAL)) | Some n \<Rightarrow> Some (Inr ([], [], [], n)))
      | _ \<Rightarrow> Some (Inl (- EINVAL)))"

text \<open>The words are copied without a limit into arrays of sixteen bytes.\<close>

definition EN8811_check_writeproc_para :: "bool \<Rightarrow> string \<Rightarrow> mdio_priv \<Rightarrow> (int + parse_data) option" where
  "EN8811_check_writeproc_para ok buf m =
     (if STRING_LEN - 1 < length buf \<or> \<not> ok then Some (Inl (- EINVAL))
      else
        let ws = take 4 (words (c_string buf))
        in if \<exists>w\<in>set ws. CMD_LEN \<le> length w then None
           else
             (case split_words m ws of None \<Rightarrow> None | Some (Inl e) \<Rightarrow> Some (Inl e)
              | Some (Inr (c, p, q, n)) \<Rightarrow>
                  if \<not> check_phy_itfname_valid m n then Some (Inl (- EINVAL))
                  else (case get_phyDev_by_ItfName m n of None \<Rightarrow> Some (Inl (- EINVAL))
                        | Some a \<Rightarrow> Some (Inr \<lparr>pd_dev = a, pd_cmd = c, pd_param = p, pd_subparam = q, pd_itf = n\<rparr>))))"

end
