(* ===== verification/En8811Ops.thy ===== *)
theory En8811Ops
  imports En8811
begin

text \<open>
  The registers of the EN8811 PHYs and their control files, \<^verbatim>\<open>airoha/arht_hsgmii.c\<close>: speed, negotiation, power,
  flow control, and what the files show. A value read is a 32-bit number, negative when the bus failed.
\<close>

section \<open>Registers\<close>

record 'd mii_env =
  mii_rd :: "nat \<Rightarrow> nat \<Rightarrow> 'd \<Rightarrow> u32 \<times> 'd"
  mii_wr :: "nat \<Rightarrow> nat \<Rightarrow> u16 \<Rightarrow> 'd \<Rightarrow> int \<times> 'd"
  mii_rd45 :: "nat \<Rightarrow> nat \<Rightarrow> nat \<Rightarrow> 'd \<Rightarrow> u32 \<times> 'd"
  mii_wr45 :: "nat \<Rightarrow> nat \<Rightarrow> nat \<Rightarrow> u16 \<Rightarrow> 'd \<Rightarrow> int \<times> 'd"
  mii_mdelay :: "nat \<Rightarrow> 'd \<Rightarrow> 'd"

abbreviation (input) MII_BMCR :: nat where "MII_BMCR \<equiv> 0"
abbreviation (input) MII_ADVERTISE :: nat where "MII_ADVERTISE \<equiv> 4"
abbreviation (input) MII_CTRL1000 :: nat where "MII_CTRL1000 \<equiv> 9"
abbreviation (input) BIT5 :: u32 where "BIT5 \<equiv> 0x20"
abbreviation (input) EN8811_ERROR :: int where "EN8811_ERROR \<equiv> - 1"

datatype port_mode = FORCE_100 | FORCE_1000 | FORCE_2500 | AUTONEGO | POWER_DOWN | POWER_UP | POWER_STATE

definition put_bit :: "bool \<Rightarrow> nat \<Rightarrow> u32 \<Rightarrow> u32" where
  "put_bit on n v = (if on then v OR push_bit n 1 else v AND NOT (push_bit n 1))"

definition mii_put :: "'d mii_env \<Rightarrow> nat \<Rightarrow> nat \<Rightarrow> bool \<Rightarrow> nat \<Rightarrow> 'd \<Rightarrow> int \<times> 'd" where
  "mii_put env a reg on n d = (let (v, d) = mii_rd env a reg d in mii_wr env a reg (ucast (put_bit on n v)) d)"

definition mii_put45 :: "'d mii_env \<Rightarrow> nat \<Rightarrow> nat \<Rightarrow> nat \<Rightarrow> bool \<Rightarrow> nat \<Rightarrow> 'd \<Rightarrow> int \<times> 'd" where
  "mii_put45 env a dev reg on n d = (let (v, d) = mii_rd45 env a dev reg d in mii_wr45 env a dev reg (ucast (put_bit on n v)) d)"

text \<open>Which of 100, 1000 and 2500 megabits are offered, and a new negotiation. The result is that of the last write.\<close>

definition advertise :: "'d mii_env \<Rightarrow> nat \<Rightarrow> bool \<Rightarrow> bool \<Rightarrow> bool \<Rightarrow> 'd \<Rightarrow> int \<times> 'd" where
  "advertise env a b100 b1000 b2500 d =
     (let d = snd (mii_put env a MII_ADVERTISE b100 8 d); d = snd (mii_put env a MII_CTRL1000 b1000 9 d);
          d = snd (mii_put45 env a 0x7 0x20 b2500 7 d)
      in mii_put env a MII_BMCR True 9 d)"

definition airphy_set_mode :: "'d mii_env \<Rightarrow> nat \<Rightarrow> port_mode \<Rightarrow> 'd \<Rightarrow> int \<times> 'd" where
  "airphy_set_mode env a mode d =
     (case mode of
        FORCE_100 \<Rightarrow> advertise env a True False False d
      | FORCE_1000 \<Rightarrow> advertise env a False True False d
      | FORCE_2500 \<Rightarrow> advertise env a False False True d
      | AUTONEGO \<Rightarrow> advertise env a True True True d
      | POWER_DOWN \<Rightarrow> mii_put env a MII_BMCR True 11 d
      | POWER_UP \<Rightarrow> mii_put env a MII_BMCR False 11 d
      | POWER_STATE \<Rightarrow> (let (v, d) = mii_rd env a MII_BMCR d in (sint (v AND push_bit 11 1), d)))"

text \<open>A write that fails with another number than \<open>- 1\<close> counts as done.\<close>

definition EN8811_cl22_op :: "'d mii_env \<Rightarrow> nat \<Rightarrow> nat \<Rightarrow> nat \<Rightarrow> bool \<Rightarrow> 'd \<Rightarrow> bool \<times> 'd" where
  "EN8811_cl22_op env a reg n on d = (let (ret, d) = mii_put env a reg on n d in (ret \<noteq> EN8811_ERROR, d))"

text \<open>The loop ends when the bit that says that negotiation is complete reads as zero.\<close>

partial_function (option) wait_an :: "'d mii_env \<Rightarrow> nat \<Rightarrow> 'd \<Rightarrow> 'd option" where
  "wait_an env a d =
     (if fst (mii_rd env a 1 (mii_mdelay env 100 d)) AND BIT5 = 0 then Some (snd (mii_rd env a 1 (mii_mdelay env 100 d)))
      else wait_an env a (snd (mii_rd env a 1 (mii_mdelay env 100 d))))"

section \<open>Writing the control files\<close>

definition speed_cmd :: "string \<Rightarrow> port_mode option" where
  "speed_cmd c =
     (if c = ''2.5Gbps'' then Some FORCE_2500 else if c = ''1Gbps'' then Some FORCE_1000
      else if c = ''100Mbps'' then Some FORCE_100 else if c = ''Auto'' then Some AUTONEGO else None)"

definition speed_action :: "'d mii_env \<Rightarrow> parse_data \<Rightarrow> int \<Rightarrow> 'd \<Rightarrow> (int \<times> 'd) option" where
  "speed_action env c ok_ret d =
     (let a = pd_dev c
      in if pd_cmd c = ''restartAN'' then
           (let (ok, d) = EN8811_cl22_op env a 0 9 True d
            in if \<not> ok then Some (- EINVAL, d)
               else do { d \<leftarrow> wait_an env (get_phyAddr_by_ItfName (pd_itf c)) d; Some (ok_ret, d) })
         else if pd_cmd c = ''fc'' then
           (if pd_param c = ''open'' \<or> pd_param c = ''close''
            then (let (ok, d) = EN8811_cl22_op env a 4 10 (pd_param c = ''open'') d in Some (if ok then ok_ret else - EINVAL, d))
            else Some (- EINVAL, d))
         else case speed_cmd (pd_cmd c) of None \<Rightarrow> Some (- EINVAL, d)
              | Some mode \<Rightarrow> (let (ret, d) = airphy_set_mode env a mode d in Some (if ret = EN8811_ERROR then - EINVAL else ok_ret, d)))"

text \<open>The private data are there or not; a write without them is accepted and does nothing.\<close>

definition en8811_speed_mode_write_proc ::
  "'d mii_env \<Rightarrow> bool \<Rightarrow> string \<Rightarrow> mdio_priv option \<Rightarrow> 'd \<Rightarrow> (int \<times> 'd) option" where
  "en8811_speed_mode_write_proc env ok buf priv d =
     (case priv of None \<Rightarrow> Some (int (length buf), d)
      | Some m \<Rightarrow>
          (case EN8811_check_writeproc_para ok buf m of None \<Rightarrow> None | Some (Inl e) \<Rightarrow> Some (e, d)
           | Some (Inr c) \<Rightarrow> speed_action env c (int (length buf)) d))"

definition power_mode :: "string \<Rightarrow> port_mode option" where
  "power_mode p =
     (if p = ''on'' then Some POWER_UP else if p = ''off'' then Some POWER_DOWN
      else if p = ''state'' then Some POWER_STATE else None)"

definition en8811_power_write_proc ::
  "'d mii_env \<Rightarrow> bool \<Rightarrow> string \<Rightarrow> mdio_priv option \<Rightarrow> 'd \<Rightarrow> (int \<times> 'd) option" where
  "en8811_power_write_proc env ok buf priv d =
     (case priv of None \<Rightarrow> Some (int (length buf), d)
      | Some m \<Rightarrow>
          (case EN8811_check_writeproc_para ok buf m of None \<Rightarrow> None | Some (Inl e) \<Rightarrow> Some (e, d)
           | Some (Inr c) \<Rightarrow>
               (case power_mode (pd_param c) of
                  Some mode \<Rightarrow>
                    if pd_cmd c \<noteq> ''power'' then Some (- EINVAL, d)
                    else (let (ret, d) = airphy_set_mode env (pd_dev c) mode d
                          in Some (if ret = EN8811_ERROR then - EINVAL else int (length buf), d))
                | None \<Rightarrow> Some (- EINVAL, d))))"

text \<open>The level of messages; \<open>hhu\<close> is what the scan of a small number yields.\<close>

definition en8811_debug_level_write_proc ::
  "(string \<Rightarrow> u8 option) \<Rightarrow> bool \<Rightarrow> string \<Rightarrow> mdio_priv option \<Rightarrow> nat \<Rightarrow> int \<times> nat" where
  "en8811_debug_level_write_proc hhu ok buf priv level =
     (if priv = None then (int (length buf), level)
      else if STRING_LEN - 1 < length buf then (- EINVAL, level)
      else if \<not> ok then (- EFAULT, level)
      else case hhu (c_string buf) of None \<Rightarrow> (- EINVAL, level)
           | Some v \<Rightarrow> (int (length buf), if unat v < 6 then unat v else level))"

section \<open>Reading the control files\<close>

text \<open>A file with a text: what a read of \<open>count\<close> bytes at the position \<open>pos\<close> yields, and the position after it. The
  allocation of the text and the copy to user space may fail.\<close>

definition text_read :: "bool \<Rightarrow> bool \<Rightarrow> string \<Rightarrow> nat \<Rightarrow> nat \<Rightarrow> int \<times> string \<times> nat" where
  "text_read alloc ok txt count pos =
     (if 0 < pos then (0, [], pos) else if \<not> alloc then (- ENOMEM, [], pos)
      else if length txt \<le> pos then (0, [], pos)
      else
        let n = min count (length txt - pos)
        in if \<not> ok then (- EFAULT, [], pos) else (int n, take n (drop pos txt), pos + n))"

text \<open>A string written into a buffer at an index, with its final zero, as far as the limit allows.\<close>

definition snprintf_at :: "string \<Rightarrow> nat \<Rightarrow> int \<Rightarrow> string \<Rightarrow> string" where
  "snprintf_at buf i limit txt =
     (if limit \<le> 0 then buf
      else let out = take (nat limit - 1) txt @ [CHR 0x00] in take i buf @ out @ drop (i + length out) buf)"

datatype link_speed = SPEED_UNKNOWN | SPEED_10000 | SPEED_5000 | SPEED_2500 | SPEED_1000 | SPEED_100 | SPEED_10

definition speed_text :: "link_speed \<Rightarrow> string" where
  "speed_text v =
     (case v of SPEED_10000 \<Rightarrow> ''10Gbps/'' | SPEED_5000 \<Rightarrow> ''5Gbps/'' | SPEED_2500 \<Rightarrow> ''2.5Gbps/''
      | SPEED_1000 \<Rightarrow> ''1000Mbps/'' | SPEED_100 \<Rightarrow> ''100Mbps/'' | _ \<Rightarrow> [])"

definition newlines :: string where
  "newlines = [CHR 0x0A, CHR 0x0A]"

definition line_pieces :: "string \<Rightarrow> link_speed \<Rightarrow> phy_duplex \<Rightarrow> string list" where
  "line_pieces itf v dx =
     [''PHY['' @ itf @ '']: ''] @
     (if v = SPEED_UNKNOWN then [''Down '' @ newlines]
      else [speed_text v, case dx of DUPLEX_FULL \<Rightarrow> ''Full'' | DUPLEX_HALF \<Rightarrow> ''Half'' | _ \<Rightarrow> [], newlines])"

text \<open>The line is written in pieces from an index on that is kept in eight bits; the limit of a piece counts from the start
  of the line.\<close>

fun put_pieces :: "nat \<Rightarrow> nat \<Rightarrow> string list \<Rightarrow> string \<times> u8 \<Rightarrow> string \<times> u8" where
  "put_pieces ofs kbuf_size [] (kbuf, index) = (kbuf, index)"
| "put_pieces ofs kbuf_size (t # ts) (kbuf, index) =
     put_pieces ofs kbuf_size ts
       (if t = [] then kbuf else snprintf_at kbuf (ofs + unat index) (int kbuf_size - int (unat index)) t, index + word_of_nat (length t))"

text \<open>The caller hands what is left of the buffer as the index.\<close>

definition EN8811_get_LinkInfo :: "nat \<Rightarrow> nat \<Rightarrow> string list \<Rightarrow> string \<Rightarrow> string \<times> nat" where
  "EN8811_get_LinkInfo ofs kbuf_size pieces kbuf =
     (let (kbuf, index) = put_pieces ofs kbuf_size pieces (kbuf, word_of_nat (kbuf_size - ofs)) in (kbuf, unat index))"

text \<open>One line for each registered PHY. \<open>state_of\<close> gives the speed and the duplex mode of a PHY.\<close>

fun link_lines :: "mdio_priv \<Rightarrow> (nat \<Rightarrow> link_speed \<times> phy_duplex) \<Rightarrow> nat list \<Rightarrow> string \<times> nat \<Rightarrow> (int + (string \<times> nat)) option" where
  "link_lines m state_of [] (kbuf, len) = Some (Inr (kbuf, len))"
| "link_lines m state_of (i # is) (kbuf, len) =
     (let a = phy_addr_list m ! i
      in case pp_dev (phy_info m ! a) of None \<Rightarrow> Some (Inl (- EINVAL))
         | Some p \<Rightarrow>
             (case get_ItfName_by_phyAddr m a of None \<Rightarrow> None
              | Some itf \<Rightarrow>
                  let (kbuf, n) = EN8811_get_LinkInfo len 1024 (line_pieces itf (fst (state_of p)) (snd (state_of p))) kbuf
                  in link_lines m state_of is (kbuf, len + n)))"

definition en8811_link_state_read_proc ::
  "mdio_priv option \<Rightarrow> (nat \<Rightarrow> link_speed \<times> phy_duplex) \<Rightarrow> bool \<Rightarrow> bool \<Rightarrow> nat \<Rightarrow> nat \<Rightarrow> (int \<times> string \<times> nat) option" where
  "en8811_link_state_read_proc priv state_of alloc ok count pos =
     (if 0 < pos then Some (0, [], pos) else if \<not> alloc then Some (- ENOMEM, [], pos)
      else case priv of None \<Rightarrow> Some (int count, [], pos)
      | Some m \<Rightarrow>
          (case link_lines m state_of [0..<num_phy_register m] (replicate 1024 (CHR 0x00), 0) of None \<Rightarrow> None
           | Some (Inl e) \<Rightarrow> Some (e, [], pos)
           | Some (Inr (kbuf, len)) \<Rightarrow> Some (text_read True ok (take len kbuf) count pos)))"

text \<open>The state of the AN8831s: a line for each one in the table, with the speed when its link is up.\<close>

definition aeon_speed_text :: "u16 \<Rightarrow> string" where
  "aeon_speed_text v =
     (if v = 0x3 then ''10Gbps'' else if v = 0x5 then ''5Gbps'' else if v = 0x9 then ''2.5Gbps''
      else if v = 0x10 then ''1000Mbps'' else if v = 0x20 then ''100Mbps'' else ''Unknown speed'')"

fun aeon_status_text :: "'d aeon_env \<Rightarrow> nat option list \<Rightarrow> 'd aeon \<Rightarrow> string \<times> 'd aeon" where
  "aeon_status_text env [] s = ([], s)"
| "aeon_status_text env (None # ds) s = aeon_status_text env ds s"
| "aeon_status_text env (Some a # ds) s =
     (let (v, d) = mmd_read env a 0x7 0xFFE1 (phys s); s = s\<lparr>phys := d\<rparr>; up = drop_bit 2 (word_of_int v AND 0x7 :: u16) \<noteq> 0;
          (line, s) = (if up then (let (v, d) = mmd_read env a 0x1E 0x4002 (phys s) in (aeon_speed_text (word_of_int v AND 0xFF), s\<lparr>phys := d\<rparr>))
                       else (''Down'', s));
          (rest, s) = aeon_status_text env ds s
      in (''PHY['' @ get_ifname_by_phy_addr a @ '']: '' @ line @ [CHR 0x0A] @ rest, s))"

definition aeon_eth_status_read_proc ::
  "'d aeon_env \<Rightarrow> bool \<Rightarrow> bool \<Rightarrow> nat \<Rightarrow> nat \<Rightarrow> 'd an8831 \<Rightarrow> (int \<times> string \<times> nat) \<times> 'd an8831" where
  "aeon_eth_status_read_proc env alloc ok count pos s =
     (if 0 < pos \<or> \<not> alloc then (text_read alloc ok [] count pos, s)
      else let (txt, m) = aeon_status_text env (an8831_dev_all s) (mail s) in (text_read alloc ok txt count pos, s\<lparr>mail := m\<rparr>))"

text \<open>The map of the lanes as a table.\<close>

fun dec :: "nat \<Rightarrow> string" where
  "dec n = (if n < 10 then [char_of (48 + n)] else dec (n div 10) @ [char_of (48 + n mod 10)])"

text \<open>The texts of three files; the last one ends with the level of messages.\<close>

definition nl :: "string \<Rightarrow> string" where
  "nl t = t @ [CHR 0x0A]"

definition en8811_debug_level_read_proc :: "u8 \<Rightarrow> bool \<Rightarrow> bool \<Rightarrow> nat \<Rightarrow> nat \<Rightarrow> int \<times> string \<times> nat" where
  "en8811_debug_level_read_proc level alloc ok count pos =
     text_read alloc ok
       (nl ''echo 0-5 > proc/en8811_debug'' @ nl ''[0]: disable all message.'' @ nl ''[1]: enable error message.'' @
        nl ''[2]: enable warning message.'' @ nl ''[3]: enable info message.'' @ nl ''[4]: enable debug message.'' @
        nl ''[5]: enable data dump message.'' @ nl ''[6]: Dump all en8811 private data.'' @
        [CHR 0x0A] @ '' debuglevel:'' @ dec (unat level) @ newlines) count pos"

definition en8811_speed_mode_read_proc :: "bool \<Rightarrow> bool \<Rightarrow> nat \<Rightarrow> nat \<Rightarrow> int \<times> string \<times> nat" where
  "en8811_speed_mode_read_proc alloc ok count pos =
     text_read alloc ok
       (nl (nl ''Restart AN  : echo restartAN [itf=phy_itfname]> /proc/en8811_speed_mode '') @
        nl ''Open flow control : echo fc open [itf=phy_itfname] > /proc/en8811_speed_mode '' @
        nl (nl ''Close flow control: echo fc close [itf=phy_itfname] > /proc/en8811_speed_mode '') @
        nl ''Enable An  : echo Auto [itf=phy_itfname] > /proc/en8811_speed_mode '' @
        nl ''Set 2.5G FD: echo 2.5Gbps [itf=phy_itfname] > /proc/en8811_speed_mode '' @
        nl ''Set 1G FD  : echo 1Gbps [itf=phy_itfname]   > /proc/en8811_speed_mode '' @
        nl (nl ''Set 100M FD: echo 100Mbps [itf=phy_itfname] > /proc/en8811_speed_mode '')) count pos"

definition en8811_power_read_proc :: "bool \<Rightarrow> bool \<Rightarrow> nat \<Rightarrow> nat \<Rightarrow> int \<times> string \<times> nat" where
  "en8811_power_read_proc alloc ok count pos =
     text_read alloc ok
       (nl (''Set Power on : echo power on'' @ [CHR 0x09] @ ''[itf=phy_itfname] > /proc/en8811_power '') @
        nl (nl ''Set Power off: echo power off [itf=phy_itfname] > /proc/en8811_power '')) count pos"

definition pad_right :: "nat \<Rightarrow> string \<Rightarrow> string" where
  "pad_right n t = t @ replicate (n - length t) (CHR '' '')"

definition serdes_line :: "phy_serdes list \<Rightarrow> nat \<Rightarrow> string" where
  "serdes_line m i =
     pad_right 8 (itfname_info ! i) @ '' '' @ pad_right 13 (serdes_info ! i) @ '' '' @
     (if ps_phy_addr (m ! i) = 0 then ''--'' else dec (ps_phy_addr (m ! i))) @ [CHR 0x0A]"

definition serdes_read_proc :: "phy_serdes list \<Rightarrow> string \<Rightarrow> bool \<Rightarrow> bool \<Rightarrow> nat \<Rightarrow> nat \<Rightarrow> int \<times> string \<times> nat" where
  "serdes_read_proc m head_line alloc ok count pos =
     text_read alloc ok (''-----------Serdes Map Info----'' @ [CHR 0x0A] @ head_line @ [CHR 0x0A]
       @ concat (map (serdes_line m) [0..<SERDES_MAX_IDX])) count pos"

definition aeon_serdes_read_proc :: "bool \<Rightarrow> bool \<Rightarrow> nat \<Rightarrow> nat \<Rightarrow> int \<times> string \<times> nat" where
  "aeon_serdes_read_proc = serdes_read_proc serdes_map_aeon ''name     serdes         phy_addr''"

definition en8811_serdes_info_read_proc :: "bool \<Rightarrow> bool \<Rightarrow> nat \<Rightarrow> nat \<Rightarrow> int \<times> string \<times> nat" where
  "en8811_serdes_info_read_proc =
     serdes_read_proc serdes_map (''name'' @ [CHR 0x09] @ ''   serdes'' @ [CHR 0x09] @ ''  phy_addr'')"

end
