(* ===== verification/En8811Props.thy ===== *)
theory En8811Props
  imports En8811Ops
begin

text \<open>
  What is shown of the operations on the registers of an EN8811: what is offered after a choice of the speed, what
  becomes of a failure of the bus, and when the new negotiation comes to its end.
\<close>

section \<open>Registers that hold what is written\<close>

text \<open>\<open>mii\<close> and \<open>mmd\<close> give the contents of a register of a PHY.\<close>

locale mii_regs =
  fixes env :: "'d mii_env" and mii :: "'d \<Rightarrow> nat \<Rightarrow> nat \<Rightarrow> u16" and mmd :: "'d \<Rightarrow> nat \<Rightarrow> nat \<Rightarrow> nat \<Rightarrow> u16"
  assumes rd: "mii_rd env a r d = (ucast (mii d a r), d)" and rd45: "mii_rd45 env a dev r d = (ucast (mmd d a dev r), d)"
    and wr: "mii_wr env a r v d = (0, d') \<Longrightarrow> mii d' = (mii d)(a := (mii d a)(r := v)) \<and> mmd d' = mmd d"
    and wr_ok: "fst (mii_wr env a r v d) = 0"
    and wr45: "mii_wr45 env a dev r v d = (e, d') \<Longrightarrow> mmd d' = (mmd d)(a := (mmd d a)(dev := (mmd d a dev)(r := v))) \<and> mii d' = mii d"
begin

lemma put_mii:
  "fst (mii_put env a r on n d) = 0"
  "mii (snd (mii_put env a r on n d)) = (mii d)(a := (mii d a)(r := ucast (put_bit on n (ucast (mii d a r)))))"
  "mmd (snd (mii_put env a r on n d)) = mmd d"
  using wr [of a r "ucast (put_bit on n (ucast (mii d a r)))" d] wr_ok
  by (simp_all add: mii_put_def rd prod_eq_iff)

lemma put_mmd:
  "mmd (snd (mii_put45 env a dev r on n d)) =
     (mmd d)(a := (mmd d a)(dev := (mmd d a dev)(r := ucast (put_bit on n (ucast (mmd d a dev r))))))"
  "mii (snd (mii_put45 env a dev r on n d)) = mii d"
  using wr45 [of a dev r "ucast (put_bit on n (ucast (mmd d a dev r)))" d]
  by (simp_all add: mii_put45_def rd45 prod_eq_iff)

end

lemma put_bit_bits:
  assumes "n < 16" and "k < 16"
  shows "bit (ucast (put_bit on n (ucast (v :: u16))) :: u16) k = (if k = n then on else bit v k)"
  using assms by (auto simp: put_bit_def bit_simps)

context mii_regs
begin

lemma advertise_bits:
  fixes d :: 'd and a k :: nat and b100 b1000 b2500 :: bool
  assumes "k < 16"
  defines "d' \<equiv> snd (advertise env a b100 b1000 b2500 d)"
  shows "bit (mii d' a 4) k = (if k = 8 then b100 else bit (mii d a 4) k)"
    and "bit (mii d' a 9) k = (if k = 9 then b1000 else bit (mii d a 9) k)"
    and "bit (mmd d' a 7 0x20) k = (if k = 7 then b2500 else bit (mmd d a 7 0x20) k)"
    and "bit (mii d' a 0) k = (k = 9 \<or> bit (mii d a 0) k)"
  using assms(1) by (simp_all add: d'_def advertise_def Let_def put_mii put_mmd put_bit_bits)

lemma advertise_ok: "fst (advertise env a b100 b1000 b2500 d) = 0"
  by (simp add: advertise_def Let_def put_mii)

end

text \<open>What the choice of a mode offers: 100, 1000 and 2500 megabits.\<close>

definition offers :: "port_mode \<Rightarrow> bool \<times> bool \<times> bool" where
  "offers mode =
     (case mode of FORCE_100 \<Rightarrow> (True, False, False) | FORCE_1000 \<Rightarrow> (False, True, False) | FORCE_2500 \<Rightarrow> (False, False, True)
      | _ \<Rightarrow> (True, True, True))"

lemma speed_cmd_cases:
  assumes "speed_cmd c = Some mode"
  shows "mode \<in> {FORCE_100, FORCE_1000, FORCE_2500, AUTONEGO}" and "c \<noteq> ''restartAN''" and "c \<noteq> ''fc''"
  using assms by (auto simp: speed_cmd_def split: if_splits)

lemma set_mode_advertise:
  assumes "mode \<in> {FORCE_100, FORCE_1000, FORCE_2500, AUTONEGO}"
  shows "airphy_set_mode env a mode d = (case offers mode of (b100, b1000, b2500) \<Rightarrow> advertise env a b100 b1000 b2500 d)"
  using assms by (auto simp: airphy_set_mode_def offers_def)


text \<open>A bus in memory.\<close>

record mii_box =
  bx_mii :: "nat \<Rightarrow> nat \<Rightarrow> u16"
  bx_mmd :: "nat \<Rightarrow> nat \<Rightarrow> nat \<Rightarrow> u16"

definition mii_box_env :: "mii_box mii_env" where
  "mii_box_env = \<lparr>mii_rd = (\<lambda>a r d. (ucast (bx_mii d a r), d)), mii_wr = (\<lambda>a r v d. (0, d\<lparr>bx_mii := (bx_mii d)(a := (bx_mii d a)(r := v))\<rparr>)),
     mii_rd45 = (\<lambda>a dev r d. (ucast (bx_mmd d a dev r), d)),
     mii_wr45 = (\<lambda>a dev r v d. (0, d\<lparr>bx_mmd := (bx_mmd d)(a := (bx_mmd d a)(dev := (bx_mmd d a dev)(r := v)))\<rparr>)),
     mii_mdelay = (\<lambda>_ d. d)\<rparr>"

interpretation mii_box: mii_regs mii_box_env bx_mii bx_mmd
  by unfold_locales (auto simp: mii_box_env_def)


section \<open>Failures of the bus\<close>

text \<open>Only the error number 1 is taken for a failure of a write. When the bus refuses every write with another one, such as
  an input or output error, each choice of a speed is reported as done although no register has changed.\<close>

theorem refused_writes_pass:
  assumes wr: "\<And>a r v d. mii_wr env a r v d = (e, d)" "\<And>a dev r v d. mii_wr45 env a dev r v d = (e, d)"
    and rd: "\<And>a r d. snd (mii_rd env a r d) = d" "\<And>a dev r d. snd (mii_rd45 env a dev r d) = d"
    and cmd: "speed_cmd (pd_cmd c) = Some mode"
  shows "speed_action env c n d = Some (if e = - 1 then - EINVAL else n, d)"
proof -
  have put: "mii_put env a r on k d = (e, d)" "mii_put45 env a dev r on k d = (e, d)" for a r on k dev d
    using rd by (simp_all add: mii_put_def mii_put45_def wr case_prod_beta)
  have "airphy_set_mode env a mode d = (e, d)" for a
    unfolding set_mode_advertise [OF speed_cmd_cases(1) [OF cmd]] by (simp add: advertise_def put Let_def case_prod_beta)
  then show ?thesis
    using speed_cmd_cases(2,3) [OF cmd] cmd by (simp add: speed_action_def)
qed

theorem refused_writes_pass_witness:
  "speed_action \<lparr>mii_rd = (\<lambda>_ _ d. (0, d)), mii_wr = (\<lambda>_ _ _ d. (- EIO, d)), mii_rd45 = (\<lambda>_ _ _ d. (0, d)), mii_wr45 = (\<lambda>_ _ _ _ d. (- EIO, d)),
       mii_mdelay = (\<lambda>_ d. d)\<rparr> \<lparr>pd_dev = 15, pd_cmd = ''2.5Gbps'', pd_param = [], pd_subparam = [], pd_itf = ''eth2''\<rparr> 8 (7 :: nat) = Some (8, 7)"
proof -
  have "speed_cmd ''2.5Gbps'' = Some FORCE_2500" by code_simp
  then show ?thesis by (subst refused_writes_pass [where e = "- EIO" and mode = FORCE_2500]) simp_all
qed

section \<open>The wait for a new negotiation\<close>

definition polled :: "'d mii_env \<Rightarrow> nat \<Rightarrow> 'd \<Rightarrow> u32 \<times> 'd" where
  "polled env a d = mii_rd env a 1 (mii_mdelay env 100 d)"

lemma wait_an_unfold:
  "wait_an env a d = (if fst (polled env a d) AND BIT5 = 0 then Some (snd (polled env a d)) else wait_an env a (snd (polled env a d)))"
  unfolding polled_def by (rule wait_an.simps)

lemma wait_an_hit:
  "fst (polled env a (((\<lambda>d. snd (polled env a d)) ^^ n) d)) AND BIT5 = 0 \<Longrightarrow> wait_an env a d \<noteq> None"
proof (induction n arbitrary: d)
  case 0
  then show ?case by (subst wait_an_unfold) simp
next
  case (Suc n)
  from Suc.IH [of "snd (polled env a d)"] Suc.prems show ?case
    by (subst wait_an_unfold) (simp add: funpow_Suc_right del: funpow.simps)
qed

lemma wait_an_returned:
  assumes "wait_an env a d = Some y"
  shows "\<exists>n. fst (polled env a (((\<lambda>d. snd (polled env a d)) ^^ n) d)) AND BIT5 = 0"
proof (rule wait_an.raw_induct [where P = "\<lambda>env a d y. \<exists>n. fst (polled env a (((\<lambda>d. snd (polled env a d)) ^^ n) d)) AND BIT5 = 0", OF _ assms])
  fix f env a d y
  assume IH: "\<And>env a d y. f env a d = Some y \<Longrightarrow> \<exists>n. fst (polled env a (((\<lambda>d. snd (polled env a d)) ^^ n) d)) AND BIT5 = 0"
    and eq: "(if fst (mii_rd env a 1 (mii_mdelay env 100 d)) AND BIT5 = 0 then Some (snd (mii_rd env a 1 (mii_mdelay env 100 d)))
        else f env a (snd (mii_rd env a 1 (mii_mdelay env 100 d)))) = Some y"
  show "\<exists>n. fst (polled env a (((\<lambda>d. snd (polled env a d)) ^^ n) d)) AND BIT5 = 0"
  proof (cases "fst (polled env a d) AND BIT5 = 0")
    case True
    then show ?thesis by (intro exI [of _ 0]) simp
  next
    case False
    then have "f env a (snd (polled env a d)) = Some y" using eq by (simp add: polled_def)
    from IH [OF this] obtain n where "fst (polled env a (((\<lambda>d. snd (polled env a d)) ^^ n) (snd (polled env a d)))) AND BIT5 = 0" ..
    then show ?thesis by (intro exI [of _ "Suc n"]) (simp add: funpow_Suc_right del: funpow.simps)
  qed
qed

text \<open>C29: the command that restarts the negotiation returns if and only if one of the polls of the status register, a tenth of a
  second apart, finds the bit clear that says that negotiation is complete. A link that is up again by then, or a
  bus whose error number has that bit set, keeps the processor in the loop for good.\<close>

theorem restart_an_returns_iff:
  assumes "pd_cmd c = ''restartAN''" and "EN8811_cl22_op env (pd_dev c) 0 9 True d = (True, d1)"
  defines "a \<equiv> get_phyAddr_by_ItfName (pd_itf c)"
  shows "speed_action env c n d \<noteq> None \<longleftrightarrow>
    (\<exists>k. fst (polled env a (((\<lambda>d. snd (polled env a d)) ^^ k) d1)) AND BIT5 = 0)"
proof -
  have "speed_action env c n d = (wait_an env a d1 \<bind> (\<lambda>d. Some (n, d)))"
    using assms by (simp add: speed_action_def)
  then have "speed_action env c n d \<noteq> None \<longleftrightarrow> wait_an env a d1 \<noteq> None" by (cases "wait_an env a d1") auto
  then show ?thesis using wait_an_hit [of env a _ d1] wait_an_returned [of env a d1] by auto
qed

text \<open>The error number 5 has the bit set.\<close>

theorem restart_an_returns_iff_witness:
  "speed_action \<lparr>mii_rd = (\<lambda>_ _ d. (word_of_int (- EIO), d)), mii_wr = (\<lambda>_ _ _ d. (- EIO, d)), mii_rd45 = (\<lambda>_ _ _ d. (0, d)),
       mii_wr45 = (\<lambda>_ _ _ _ d. (- EIO, d)), mii_mdelay = (\<lambda>_ d. d)\<rparr>
     \<lparr>pd_dev = 15, pd_cmd = ''restartAN'', pd_param = [], pd_subparam = [], pd_itf = ''eth2''\<rparr> 9 (7 :: nat) = None"
proof -
  let ?e = "\<lparr>mii_rd = (\<lambda>_ _ d. (word_of_int (- EIO), d)), mii_wr = (\<lambda>_ _ _ d. (- EIO, d)), mii_rd45 = (\<lambda>_ _ _ d. (0, d)),
       mii_wr45 = (\<lambda>_ _ _ _ d. (- EIO, d)), mii_mdelay = (\<lambda>_ d. d)\<rparr> :: nat mii_env"
  let ?c = "\<lparr>pd_dev = 15, pd_cmd = ''restartAN'', pd_param = [], pd_subparam = [], pd_itf = ''eth2''\<rparr>"
  have "fst (polled ?e a d) AND BIT5 \<noteq> 0" for a d by (simp add: polled_def)
  moreover have "speed_action ?e ?c 9 7 \<noteq> None \<longleftrightarrow>
      (\<exists>k. fst (polled ?e (get_phyAddr_by_ItfName (pd_itf ?c)) (((\<lambda>d. snd (polled ?e (get_phyAddr_by_ItfName (pd_itf ?c)) d)) ^^ k) 7)) AND BIT5 = 0)"
    by (rule restart_an_returns_iff) (simp_all add: EN8811_cl22_op_def mii_put_def)
  ultimately show ?thesis by blast
qed

end
