(* ===== verification/RegWin.thy ===== *)
theory RegWin
  imports Soc
begin

text \<open>
  The windows of the datapath registers, \<^verbatim>\<open>airoha/arht_dp_api.c\<close>: one pair of functions reads and writes a register
  by its bus address, or by the same address in the kernel's uncached segment, and reaches the frame engine, one of the
  two transmit engines, or the MAC of the Ethernet lane. Anything else reads as zero and is not written.
\<close>

abbreviation (input) CR_FE_PPE_PHY_BASE :: u32 where "CR_FE_PPE_PHY_BASE \<equiv> 0x1FB50000"
abbreviation (input) CR_FE_PPE_PHY_END :: u32 where "CR_FE_PPE_PHY_END \<equiv> 0x1FB54000"
abbreviation (input) CR_QDMA_LAN_PHY_BASE :: u32 where "CR_QDMA_LAN_PHY_BASE \<equiv> 0x1FB54000"
abbreviation (input) CR_QDMA_LAN_PHY_END :: u32 where "CR_QDMA_LAN_PHY_END \<equiv> 0x1FB56000"
abbreviation (input) CR_QDMA_WAN_PHY_BASE :: u32 where "CR_QDMA_WAN_PHY_BASE \<equiv> 0x1FB56000"
abbreviation (input) CR_QDMA_WAN_PHY_END :: u32 where "CR_QDMA_WAN_PHY_END \<equiv> 0x1FB58000"
abbreviation (input) CR_XSI_BASE :: u32 where "CR_XSI_BASE \<equiv> 0x1FA04000"
abbreviation (input) CR_XSIF_ETH_BASE :: u32 where "CR_XSIF_ETH_BASE \<equiv> 0x1FA09000"
abbreviation (input) CR_XSI_END :: u32 where "CR_XSI_END \<equiv> 0x1FA09800"

text \<open>A port with its number and its devices; \<open>None\<close> is a null pointer.\<close>

record gdm_port =
  gp_id :: nat
  gp_devs :: "gdm_dev option list"

record 'd win_env =
  win_fe :: "'d bus"
  win_lan :: "'d bus"
  win_wan :: "'d bus"
  win_xfi :: "gdm_dev \<Rightarrow> 'd bus"
  win_ports :: "gdm_port option list"
  win_soc :: soc
  win_ids :: soc_ids
  win_7581 :: bool

definition gdm_index :: "FE_Gdma_Sel \<Rightarrow> nat" where
  "gdm_index g = (case g of FE_GDM_SEL_GDMA1 \<Rightarrow> 0 | FE_GDM_SEL_GDMA2 \<Rightarrow> 1 | FE_GDM_SEL_GDMA3 \<Rightarrow> 2 | FE_GDM_SEL_GDMA4 \<Rightarrow> 3)"

text \<open>The device behind the Ethernet lane. The outer \<open>None\<close>: a port that does not exist is used.\<close>

definition get_xsi_eth_dev :: "'d win_env \<Rightarrow> gdm_dev option option" where
  "get_xsi_eth_dev env =
     (let port_idx = gdm_index (gdm (win_soc env) ! SERDES_ETH_IDX); n = int (nbq (win_soc env) ! SERDES_ETH_IDX)
      in if length (win_ports env) \<le> port_idx then Some None
         else (case win_ports env ! port_idx of
             None \<Rightarrow> None
           | Some port \<Rightarrow>
               let k = (if win_7581 env \<and> gp_id port = AIROHA_GDM3_IDX (win_ids env) then n - 4 else n)
               in Some (if 0 \<le> k \<and> k < int (length (gp_devs port)) then gp_devs port ! nat k else None)))"

definition in_eth_window :: "u32 \<Rightarrow> bool" where
  "in_eth_window reg \<longleftrightarrow> CR_XSIF_ETH_BASE \<le> reg \<and> reg < CR_XSI_END"

text \<open>The lane's MAC is used if the address is in its window, its device exists and has one.\<close>

definition xsi_target :: "'d win_env \<Rightarrow> u32 \<Rightarrow> gdm_dev option option" where
  "xsi_target env reg =
     (if in_eth_window reg
      then map_option (\<lambda>dev. case dev of Some v \<Rightarrow> if has_xfi_mac v then Some v else None | None \<Rightarrow> None) (get_xsi_eth_dev env)
      else Some None)"

definition get_xsi_data :: "'d win_env \<Rightarrow> u32 \<Rightarrow> 'd \<Rightarrow> (u32 \<times> 'd) option" where
  "get_xsi_data env reg d =
     map_option (\<lambda>t. case t of None \<Rightarrow> (0, d) | Some dev \<Rightarrow> bus_rr (win_xfi env dev) (reg - CR_XSIF_ETH_BASE) d) (xsi_target env reg)"

definition set_xsi_data :: "'d win_env \<Rightarrow> u32 \<Rightarrow> u32 \<Rightarrow> 'd \<Rightarrow> 'd option" where
  "set_xsi_data env reg v d =
     map_option (\<lambda>t. case t of None \<Rightarrow> d | Some dev \<Rightarrow> bus_wr (win_xfi env dev) (reg - CR_XSIF_ETH_BASE) v d) (xsi_target env reg)"

definition reg_phy :: "u32 \<Rightarrow> u32" where
  "reg_phy reg = (if 0xA0000000 < reg then reg AND 0x1FFFFFFF else reg)"

definition get_frame_engine_data :: "'d win_env \<Rightarrow> u32 \<Rightarrow> 'd \<Rightarrow> (u32 \<times> 'd) option" where
  "get_frame_engine_data env reg d =
     (let r = reg_phy reg
      in if r mod 4 \<noteq> 0 then Some (0, d)
         else if CR_FE_PPE_PHY_BASE \<le> r \<and> r < CR_FE_PPE_PHY_END then Some (bus_rr (win_fe env) (r - CR_FE_PPE_PHY_BASE) d)
         else if CR_QDMA_LAN_PHY_BASE \<le> r \<and> r < CR_QDMA_LAN_PHY_END then Some (bus_rr (win_lan env) (r - CR_QDMA_LAN_PHY_BASE) d)
         else if CR_QDMA_WAN_PHY_BASE \<le> r \<and> r < CR_QDMA_WAN_PHY_END then Some (bus_rr (win_wan env) (r - CR_QDMA_WAN_PHY_BASE) d)
         else if CR_XSI_BASE \<le> r \<and> r < CR_XSI_END then get_xsi_data env r d
         else Some (0, d))"

definition set_frame_engine_data :: "'d win_env \<Rightarrow> u32 \<Rightarrow> u32 \<Rightarrow> 'd \<Rightarrow> 'd option" where
  "set_frame_engine_data env reg v d =
     (let r = reg_phy reg
      in if r mod 4 \<noteq> 0 then Some d
         else if CR_FE_PPE_PHY_BASE \<le> r \<and> r < CR_FE_PPE_PHY_END then Some (bus_wr (win_fe env) (r - CR_FE_PPE_PHY_BASE) v d)
         else if CR_QDMA_LAN_PHY_BASE \<le> r \<and> r < CR_QDMA_LAN_PHY_END then Some (bus_wr (win_lan env) (r - CR_QDMA_LAN_PHY_BASE) v d)
         else if CR_QDMA_WAN_PHY_BASE \<le> r \<and> r < CR_QDMA_WAN_PHY_END then Some (bus_wr (win_wan env) (r - CR_QDMA_WAN_PHY_BASE) v d)
         else if CR_XSI_BASE \<le> r \<and> r < CR_XSI_END then set_xsi_data env r v d
         else Some d)"

end
