(* ===== verification/XsiLimit.thy ===== *)
theory XsiLimit
  imports RegWin
begin

text \<open>
  The MACs of the serial lanes, \<^verbatim>\<open>airoha/arht_hsgmii.c\<close>: the reset of a MAC and the limits on its rates. \<open>None\<close> is
  a division by zero or a missing port.
\<close>

abbreviation (input) XSI_IDX_MAX :: nat where "XSI_IDX_MAX \<equiv> 5"
abbreviation (input) HSGMII_RX_UC_RATE :: u32 where "HSGMII_RX_UC_RATE \<equiv> 0"
abbreviation (input) HSGMII_RX_MC_RATE :: u32 where "HSGMII_RX_MC_RATE \<equiv> 2"
abbreviation (input) HSGMII_RX_TOTAL_RATE :: u32 where "HSGMII_RX_TOTAL_RATE \<equiv> 3"
abbreviation (input) HSGMII_TX_TOTAL_RATE :: u32 where "HSGMII_TX_TOTAL_RATE \<equiv> 4"
abbreviation (input) HSGMII_RC_CFG_BYTE_MODE :: u32 where "HSGMII_RC_CFG_BYTE_MODE \<equiv> 0"
abbreviation (input) HSGMII_RC_CFG_PKT_MODE :: u32 where "HSGMII_RC_CFG_PKT_MODE \<equiv> 1"
abbreviation (input) HSGMII_RC_CFG_PARA_MISC :: u32 where "HSGMII_RC_CFG_PARA_MISC \<equiv> 0"
abbreviation (input) HSGMII_RC_CFG_PARA_TOKEN_RATE :: u32 where "HSGMII_RC_CFG_PARA_TOKEN_RATE \<equiv> 1"
abbreviation (input) HSGMII_RC_CFG_PARA_BUCK_SHIFT :: u32 where "HSGMII_RC_CFG_PARA_BUCK_SHIFT \<equiv> 2"

text \<open>The offsets that differ between the chips.\<close>

record xsi_regs =
  RX_RC_CFG :: u32
  RX_CFG :: u32
  RC_RD_DATA_L :: u32
  RC_RD_DATA_H :: u32
  RC_WR_DATA_L :: u32
  RC_WR_DATA_H :: u32
  TOTAL_RX_RC_CFG :: u32
  TOTAL_RX_CFG :: u32
  TOTAL_RC_RD_DATA_L :: u32
  TOTAL_RC_RD_DATA_H :: u32
  TOTAL_RC_WR_DATA_L :: u32
  TOTAL_RC_WR_DATA_H :: u32
  TOTAL_TX_RC_CFG :: u32
  TOTAL_TX_CFG :: u32

definition regs_7583 :: xsi_regs where
  "regs_7583 = \<lparr>RX_RC_CFG = 0xA8, RX_CFG = 0xAC, RC_RD_DATA_L = 0xB0, RC_RD_DATA_H = 0xB4, RC_WR_DATA_L = 0xB8, RC_WR_DATA_H = 0xBC,
     TOTAL_RX_RC_CFG = 0xA4, TOTAL_RX_CFG = 0xAC, TOTAL_RC_RD_DATA_L = 0xB0, TOTAL_RC_RD_DATA_H = 0xB4,
     TOTAL_RC_WR_DATA_L = 0xB8, TOTAL_RC_WR_DATA_H = 0xBC, TOTAL_TX_RC_CFG = 0xA0, TOTAL_TX_CFG = 0xAC\<rparr>"

definition regs_7581 :: xsi_regs where
  "regs_7581 = \<lparr>RX_RC_CFG = 0xA0, RX_CFG = 0xA4, RC_RD_DATA_L = 0xA8, RC_RD_DATA_H = 0xAC, RC_WR_DATA_L = 0xA8, RC_WR_DATA_H = 0xAC,
     TOTAL_RX_RC_CFG = 0xB0, TOTAL_RX_CFG = 0xB4, TOTAL_RC_RD_DATA_L = 0xB8, TOTAL_RC_RD_DATA_H = 0xBC,
     TOTAL_RC_WR_DATA_L = 0xB8, TOTAL_RC_WR_DATA_H = 0xBC, TOTAL_TX_RC_CFG = 0xA0, TOTAL_TX_CFG = 0xA4\<rparr>"

text \<open>The bases of the lanes PCIe 0, PCIe 1, USB, AE and Ethernet.\<close>

definition airoha_hsgmii_base_reg_init :: "bool \<Rightarrow> u32 list" where
  "airoha_hsgmii_base_reg_init is_7583 =
     (if is_7583 then [0xBFA04000, 0xBFA04000, 0xBFA05000, 0xBFA08000, 0xBFA09000]
      else [0x1FA04000, 0x1FA05000, 0x1FA07000, 0x1FA08000, 0x1FA09000])"

text \<open>\<open>xe_chip\<close> is the kind of chip, if the driver's device is known by then: whether it is a 7581, and a 7583.\<close>

record 'd xsi_env =
  xe_win :: "'d win_env"
  xe_base :: "u32 list"
  xe_7581 :: bool
  xe_7583 :: bool
  xe_mdelay :: "nat \<Rightarrow> 'd \<Rightarrow> 'd"

definition regs_of :: "'d xsi_env \<Rightarrow> xsi_regs" where
  "regs_of env = (if xe_7583 env then regs_7583 else regs_7581)"

definition x_rd :: "'d xsi_env \<Rightarrow> u32 \<Rightarrow> 'd \<Rightarrow> (u32 \<times> 'd) option" where
  "x_rd env reg d = get_frame_engine_data (xe_win env) reg d"

definition x_wr :: "'d xsi_env \<Rightarrow> u32 \<Rightarrow> u32 \<Rightarrow> 'd \<Rightarrow> 'd option" where
  "x_wr env reg v d = set_frame_engine_data (xe_win env) reg v d"

section \<open>Reset\<close>

definition IO_SBITS :: "'d xsi_env \<Rightarrow> u32 \<Rightarrow> u32 \<Rightarrow> 'd \<Rightarrow> 'd option" where
  "IO_SBITS env reg b d = do { (t, d) \<leftarrow> x_rd env reg d; x_wr env reg (t OR b) d }"

definition IO_CBITS :: "'d xsi_env \<Rightarrow> u32 \<Rightarrow> u32 \<Rightarrow> 'd \<Rightarrow> 'd option" where
  "IO_CBITS env reg b d = do { (t, d) \<leftarrow> x_rd env reg d; x_wr env reg (t AND NOT b) d }"

fun bits_one_by_one :: "(u32 \<Rightarrow> 'd \<Rightarrow> 'd option) \<Rightarrow> u32 list \<Rightarrow> 'd \<Rightarrow> 'd option" where
  "bits_one_by_one f [] d = Some d"
| "bits_one_by_one f (b # bs) d = do { d \<leftarrow> f b d; bits_one_by_one f bs d }"

text \<open>The stops of receiving in the directions of the lane and of the bus, and of sending in both.\<close>

definition mpi_mbi_bits :: "u32 list" where
  "mpi_mbi_bits = [0x8, 0x4, 0x2, 0x1]"

definition xsi_mac_set_mpi_mbi_disable :: "'d xsi_env \<Rightarrow> nat \<Rightarrow> 'd \<Rightarrow> 'd option" where
  "xsi_mac_set_mpi_mbi_disable env i d = bits_one_by_one (IO_SBITS env (xe_base env ! i)) mpi_mbi_bits d"

definition xsi_mac_set_mpi_mbi_enable :: "'d xsi_env \<Rightarrow> nat \<Rightarrow> 'd \<Rightarrow> 'd option" where
  "xsi_mac_set_mpi_mbi_enable env i d = bits_one_by_one (IO_CBITS env (xe_base env ! i)) mpi_mbi_bits d"

definition xsi_mac_api_do_logic_reset :: "'d xsi_env \<Rightarrow> nat \<Rightarrow> 'd \<Rightarrow> (int \<times> 'd) option" where
  "xsi_mac_api_do_logic_reset env i d =
     (if XSI_IDX_MAX \<le> i then Some (- 1, d)
      else do { d \<leftarrow> xsi_mac_set_mpi_mbi_disable env i d;
                d \<leftarrow> x_wr env (xe_base env ! i + 0x10) 0 (xe_mdelay env 1 d);
                d \<leftarrow> x_wr env (xe_base env ! i + 0x10) 1 d;
                d \<leftarrow> IO_SBITS env (xe_base env ! i + 0x100) 1 d;
                d \<leftarrow> xsi_mac_set_mpi_mbi_enable env i d;
                Some (0, d) })"

section \<open>Rate limits\<close>

text \<open>The search for the smallest shift of \<open>unit\<close> that reaches \<open>v\<close>, between \<open>lo\<close> and \<open>hi\<close>.\<close>

function get_bucketsize_shift :: "u32 \<Rightarrow> nat \<Rightarrow> nat \<Rightarrow> u32 \<Rightarrow> int" where
  "get_bucketsize_shift v lo hi unit =
     (if hi < lo then - EINVAL
      else if 0 < v \<and> v < unit then 0
      else
        let mid = (lo + hi) div 2; m = push_bit mid unit
        in if m = v then int mid
           else if v < m then (if mid - lo \<le> 1 then int mid else get_bucketsize_shift v lo mid unit)
           else if hi - mid \<le> 1 then int hi else get_bucketsize_shift v mid hi unit)"
  by pat_completeness auto
termination by (relation "measure (\<lambda>(v, lo, hi, unit). hi - lo)") (auto simp: Let_def)

declare get_bucketsize_shift.simps [simp del]

text \<open>Where the parameters of a limit are: the register that starts a transfer, and offsets into the lane's registers for
  its data. The transmit limit exists on the 7583 only.\<close>

definition cfg_regs :: "'d xsi_env \<Rightarrow> u32 \<Rightarrow> (u32 \<times> u32 \<times> u32 \<times> u32 \<times> u32) option" where
  "cfg_regs env cfg_id =
     (let r = regs_of env
      in if cfg_id \<le> HSGMII_RX_MC_RATE then Some (RX_CFG r, RC_WR_DATA_L r, RC_RD_DATA_L r, RC_RD_DATA_H r, cfg_id)
         else if xe_7583 env \<and> cfg_id = HSGMII_TX_TOTAL_RATE
         then Some (TOTAL_TX_CFG r, TOTAL_RC_WR_DATA_L r, TOTAL_RC_RD_DATA_L r, TOTAL_RC_RD_DATA_H r, cfg_id)
         else if cfg_id = HSGMII_RX_TOTAL_RATE
         then Some (TOTAL_RX_CFG r, TOTAL_RC_WR_DATA_L r, TOTAL_RC_RD_DATA_L r, TOTAL_RC_RD_DATA_H r, if xe_7581 env then 0 else cfg_id)
         else None)"

definition para_cfg :: "u32 \<Rightarrow> u32 \<Rightarrow> u32" where
  "para_cfg paraType cfg_id = (push_bit 28 paraType AND 0x30000000) OR (push_bit 16 cfg_id AND 0x70000)"

definition hsgmii_set_ratelimit_param :: "'d xsi_env \<Rightarrow> nat \<Rightarrow> u32 \<Rightarrow> u32 \<Rightarrow> u32 \<Rightarrow> 'd \<Rightarrow> 'd option" where
  "hsgmii_set_ratelimit_param env i paraType cfg_id valueLo d =
     (if XSI_IDX_MAX \<le> i then Some d
      else case cfg_regs env cfg_id of None \<Rightarrow> Some d
      | Some (cfg, wr_l, _, _, cid) \<Rightarrow>
          do { d \<leftarrow> x_wr env (xe_base env ! i + wr_l) valueLo d;
               x_wr env (xe_base env ! i + cfg) (0x80000000 OR 1 OR para_cfg paraType cid) d })"

text \<open>The value read, both zero when there is nothing to read.\<close>

definition hsgmii_get_ratelimit_param :: "'d xsi_env \<Rightarrow> nat \<Rightarrow> u32 \<Rightarrow> u32 \<Rightarrow> 'd \<Rightarrow> (u32 \<times> u32 \<times> 'd) option" where
  "hsgmii_get_ratelimit_param env i paraType cfg_id d =
     (if XSI_IDX_MAX \<le> i then Some (0, 0, d)
      else case cfg_regs env cfg_id of None \<Rightarrow> Some (0, 0, d)
      | Some (cfg, _, rd_l, rd_h, cid) \<Rightarrow>
          do { d \<leftarrow> x_wr env (xe_base env ! i + cfg) (para_cfg paraType cid) d;
               (l, d) \<leftarrow> x_rd env (xe_base env ! i + rd_l) d;
               (h, d) \<leftarrow> x_rd env (xe_base env ! i + rd_h) d;
               Some (l, h, d) })"

definition rc_regs :: "'d xsi_env \<Rightarrow> u32 \<Rightarrow> (u32 \<times> u32) option" where
  "rc_regs env type =
     (let r = regs_of env
      in if type \<le> HSGMII_RX_MC_RATE then Some (RX_RC_CFG r, RC_WR_DATA_H r)
         else if xe_7583 env \<and> type = HSGMII_TX_TOTAL_RATE then Some (TOTAL_TX_RC_CFG r, TOTAL_RC_WR_DATA_H r)
         else if type = HSGMII_RX_TOTAL_RATE then Some (TOTAL_RX_RC_CFG r, TOTAL_RC_WR_DATA_H r)
         else None)"

definition set_flag :: "bool \<Rightarrow> u32 \<Rightarrow> u32 \<Rightarrow> u32" where
  "set_flag on b v = (if on then v OR b else v AND NOT b)"

text \<open>The tick in microseconds, zero when the limit is taken away, and what goes into the tick register.\<close>

definition xsi_tick :: "u32 \<Rightarrow> u32 \<Rightarrow> u32 \<times> u32" where
  "xsi_tick rate mode =
     (if rate = 0 then (0, 0)
      else if mode = HSGMII_RC_CFG_BYTE_MODE \<or> mode = HSGMII_RC_CFG_PKT_MODE \<and> 20000 < rate then (125, 0x8001007D)
      else (4000, 0x8020007D))"

text \<open>The bucket is a signed number: a rate that does not fit turns it negative, and the limit of 32 M does not hold it.\<close>

definition bucket_size :: "u32 \<Rightarrow> u32 \<Rightarrow> u32" where
  "bucket_size rate mode =
     (let b = push_bit (if mode = HSGMII_RC_CFG_BYTE_MODE then 10 else 0) rate in if 0x2000000 < sint b then 0x2000000 else b)"

definition xsi_rate_unit :: "u32 \<Rightarrow> u32 \<Rightarrow> u32" where
  "xsi_rate_unit tick mode = (if mode = HSGMII_RC_CFG_BYTE_MODE then 8000 div tick else 1000000 div tick)"

definition xsi_mac_set_ratelimit :: "'d xsi_env \<Rightarrow> nat \<Rightarrow> u32 \<Rightarrow> u32 \<Rightarrow> u32 \<Rightarrow> 'd \<Rightarrow> (int \<times> 'd) option" where
  "xsi_mac_set_ratelimit env i type rate mode d =
     (if XSI_IDX_MAX \<le> i then Some (0, d)
      else case rc_regs env type of None \<Rightarrow> Some (0, d)
      | Some (rc_cfg, wr_h) \<Rightarrow>
          do { let (tick, w) = xsi_tick rate mode;
               d \<leftarrow> x_wr env (xe_base env ! i + rc_cfg) w d;
               d \<leftarrow> x_wr env (xe_base env ! i + wr_h) 0 d;
               (l, _, d) \<leftarrow> hsgmii_get_ratelimit_param env i HSGMII_RC_CFG_PARA_MISC type d;
               d \<leftarrow> hsgmii_set_ratelimit_param env i HSGMII_RC_CFG_PARA_MISC type
                     (set_flag False 1 (set_flag (mode = HSGMII_RC_CFG_PKT_MODE) 2 (set_flag (rate \<noteq> 0) 4 l))) d;
               if tick = 0 then None
               else let unit = xsi_rate_unit tick mode; n = rate div unit; f = rate mod unit * 64 div unit
                    in if 0x3FFFF < n \<or> 0x3F < f then Some (- EINVAL, d)
                       else do { d \<leftarrow> hsgmii_set_ratelimit_param env i HSGMII_RC_CFG_PARA_TOKEN_RATE type (push_bit 6 n OR f) d;
                                 d \<leftarrow> hsgmii_set_ratelimit_param env i HSGMII_RC_CFG_PARA_BUCK_SHIFT type
                                       (word_of_int (get_bucketsize_shift (bucket_size rate mode) 0 15 1024)) d;
                                 Some (0, d) } })"

end
