(* ===== verification/XsiProps.thy ===== *)
theory XsiProps
  imports XsiLimit
begin

text \<open>
  What is shown of the limits of the serial lanes: the search for the size of the bucket finds the least one, and
  on the en7581 nothing that is written for a lane arrives anywhere.
\<close>

section \<open>The size of the bucket\<close>

lemma push_unit:
  assumes "k \<le> 15"
  shows "unat (push_bit k (1024 :: u32)) = 1024 * 2 ^ k"
proof -
  have "(2 :: nat) ^ k \<le> 2 ^ 15" using assms by (intro power_increasing) auto
  then have "1024 * 2 ^ k < (2 :: nat) ^ 32" by simp
  then show ?thesis
    unfolding unsigned_push_bit_eq by (simp add: take_bit_eq_mod push_bit_eq_mult mult.commute)
qed

lemma shift_found:
  assumes "1024 * 2 ^ lo < unat v" and "lo < hi" and "hi \<le> 15"
  shows "\<exists>k. get_bucketsize_shift v lo hi 1024 = int k \<and> lo < k \<and> k \<le> hi \<and> 1024 * 2 ^ (k - 1) < unat v \<and>
     (unat v \<le> 1024 * 2 ^ k \<or> k = hi)"
  using assms
proof (induction "hi - lo" arbitrary: lo hi rule: less_induct)
  case less
  define mid where "mid = (lo + hi) div 2"
  have mid: "lo \<le> mid" "mid < hi" using less.prems(2) by (auto simp: mid_def)
  have m: "unat (push_bit mid (1024 :: u32)) = 1024 * 2 ^ mid" using mid less.prems(3) by (intro push_unit) simp
  have "(1024 :: nat) \<le> 1024 * 2 ^ lo" by simp
  then have "1024 < unat v" using less.prems(1) by (rule le_less_trans)
  then have big: "\<not> v < 1024" by (simp add: word_less_nat_alt)
  have eq: "push_bit mid 1024 = v \<longleftrightarrow> unat v = 1024 * 2 ^ mid" using m by (metis word_unat_eq_iff)
  have lt: "v < push_bit mid 1024 \<longleftrightarrow> unat v < 1024 * 2 ^ mid" using m by (simp add: word_less_nat_alt)
  have mono: "lo = mid \<Longrightarrow> \<not> unat v \<le> 1024 * 2 ^ mid" using less.prems(1) by simp
  have r: "get_bucketsize_shift v lo hi 1024 =
     (if unat v = 1024 * 2 ^ mid then int mid
      else if unat v < 1024 * 2 ^ mid then (if mid - lo \<le> 1 then int mid else get_bucketsize_shift v lo mid 1024)
      else if hi - mid \<le> 1 then int hi else get_bucketsize_shift v mid hi 1024)"
    using less.prems(2) big by (subst get_bucketsize_shift.simps) (simp add: Let_def mid_def [symmetric] eq lt)
  consider (eq) "unat v = 1024 * 2 ^ mid" | (lt) "unat v < 1024 * 2 ^ mid" | (gt) "1024 * 2 ^ mid < unat v" by linarith
  then show ?case
  proof cases
    case eq
    have "lo < mid" using mono eq mid by (cases "lo = mid") auto
    moreover have "(2 :: nat) ^ (mid - 1) < 2 ^ mid" using \<open>lo < mid\<close> by (intro power_strict_increasing) auto
    ultimately show ?thesis using r eq mid by (intro exI [of _ mid]) simp
  next
    case lt
    have lm: "lo < mid" using mono lt mid by (cases "lo = mid") auto
    show ?thesis
    proof (cases "mid - lo \<le> 1")
      case True
      then have "mid - 1 = lo" using lm by simp
      then show ?thesis using r lt True lm mid less.prems by (intro exI [of _ mid]) simp
    next
      case False
      obtain k where "get_bucketsize_shift v lo mid 1024 = int k" "lo < k" "k \<le> mid" "1024 * 2 ^ (k - 1) < unat v"
          "unat v \<le> 1024 * 2 ^ k \<or> k = mid"
        using less.hyps [of mid lo, OF diff_less_mono [OF mid(2,1)]] less.prems lm mid by auto
      then show ?thesis using r lt False mid by (intro exI [of _ k]) auto
    qed
  next
    case gt
    show ?thesis
    proof (cases "hi - mid \<le> 1")
      case True
      then have "hi - 1 = mid" using mid by simp
      then show ?thesis using r gt True mid less.prems by (intro exI [of _ hi]) simp
    next
      case False
      then have lm: "lo < mid" unfolding mid_def by linarith
      obtain k where "get_bucketsize_shift v mid hi 1024 = int k" "mid < k" "k \<le> hi" "1024 * 2 ^ (k - 1) < unat v"
          "unat v \<le> 1024 * 2 ^ k \<or> k = hi"
        using less.hyps [of hi mid, OF diff_less_mono2 [OF lm]] less.prems gt mid by auto
      then show ?thesis using r gt False mid by (intro exI [of _ k]) auto
    qed
  qed
qed

lemma shift_least:
  assumes "1024 < unat v"
  shows "get_bucketsize_shift v 0 15 1024 = int (LEAST k. min (unat v) (2 ^ 25) \<le> 1024 * 2 ^ k)"
proof -
  obtain k where k: "get_bucketsize_shift v 0 15 1024 = int k" "0 < k" "k \<le> 15" "1024 * 2 ^ (k - 1) < unat v"
      "unat v \<le> 1024 * 2 ^ k \<or> k = 15"
    using shift_found [of 0 v 15] assms by auto
  have "(LEAST k. min (unat v) (2 ^ 25) \<le> 1024 * 2 ^ k) = k"
  proof (rule Least_equality)
    show "min (unat v) (2 ^ 25) \<le> 1024 * 2 ^ k" using k(5) by auto
  next
    fix j assume j: "min (unat v) (2 ^ 25) \<le> 1024 * 2 ^ j"
    show "k \<le> j"
    proof (rule ccontr)
      assume "\<not> k \<le> j"
      then have a: "1024 * (2 :: nat) ^ j \<le> 1024 * 2 ^ (k - 1)" by (intro mult_le_mono2 power_increasing) auto
      have b: "1024 * (2 :: nat) ^ (k - 1) \<le> 1024 * 2 ^ 14" using k(3) by (intro mult_le_mono2 power_increasing) auto
      have c: "1024 * 2 ^ 14 < (2 :: nat) ^ 25" by simp
      have "1024 * 2 ^ j < min (unat v) (2 ^ 25)"
        unfolding min_less_iff_conj using le_less_trans [OF a k(4)] le_less_trans [OF le_trans [OF a b] c] by (rule conjI)
      then show False using j by (rule leD [THEN notE, rotated])
    qed
  qed
  then show ?thesis using k(1) by simp
qed

definition byte_shift :: "u32 \<Rightarrow> int" where
  "byte_shift rate = get_bucketsize_shift (bucket_size rate HSGMII_RC_CFG_BYTE_MODE) 0 15 1024"

lemma bucket_unat:
  "unat (push_bit 10 (rate :: u32)) = 1024 * (unat rate mod 2 ^ 22)"
  unfolding unsigned_push_bit_eq by (simp add: take_bit_eq_mod push_bit_eq_mult mult_mod_right mult.commute)

lemma sint_above:
  fixes w :: u32
  assumes "0x2000000 < sint w"
  shows "2 ^ 25 \<le> unat w"
proof -
  have "sint w \<le> uint w"
    using order_trans [OF _ uint_ge_0, of "- (2 ^ 31)" w] by (simp add: sint_uint signed_take_bit_int_less_eq_self_iff)
  moreover have "int (unat w) = uint w" by simp
  ultimately have "int 33554432 \<le> int (unat w)" using assms by linarith
  then have "33554432 \<le> unat w" unfolding of_nat_le_iff .
  then show ?thesis by simp
qed

lemma bucket_byte: "bucket_size rate HSGMII_RC_CFG_BYTE_MODE =
    (if 0x2000000 < sint (push_bit 10 rate) then 0x2000000 else push_bit 10 rate)"
  unfolding bucket_size_def Let_def if_P [OF refl] ..

lemma bucket_min:
  "min (unat (bucket_size rate HSGMII_RC_CFG_BYTE_MODE)) (2 ^ 25) = min (1024 * (unat rate mod 2 ^ 22)) (2 ^ 25)"
proof (cases "0x2000000 < sint (push_bit 10 rate)")
  case True
  have "unat (bucket_size rate HSGMII_RC_CFG_BYTE_MODE) = 2 ^ 25"
    unfolding bucket_byte if_P [OF True] by simp
  moreover have "2 ^ 25 \<le> 1024 * (unat rate mod 2 ^ 22)" using sint_above [OF True] unfolding bucket_unat .
  ultimately show ?thesis by (simp only: min_absorb2 min.idem)
next
  case False
  show ?thesis unfolding bucket_byte if_not_P [OF False] bucket_unat ..
qed

lemma byte_shift_least:
  assumes "2 \<le> unat rate mod 2 ^ 22"
  shows "byte_shift rate = int (LEAST k. min (unat rate mod 2 ^ 22) 32768 \<le> 2 ^ k)"
proof -
  have "1024 < min (1024 * (unat rate mod 2 ^ 22)) (2 ^ 25)" using assms by simp
  then have "1024 < unat (bucket_size rate HSGMII_RC_CFG_BYTE_MODE)"
    unfolding bucket_min [symmetric] min_less_iff_conj by blast
  from shift_least [OF this]
  have "byte_shift rate = int (LEAST k. min (1024 * (unat rate mod 2 ^ 22)) (2 ^ 25) \<le> 1024 * 2 ^ k)"
    unfolding byte_shift_def bucket_min .
  moreover have "min (1024 * r) (2 ^ 25) \<le> 1024 * 2 ^ k \<longleftrightarrow> min r 32768 \<le> 2 ^ k" for r k :: nat
  proof -
    have "min (1024 * r) (2 ^ 25) = 1024 * min r 32768" by (simp add: min_def)
    then show ?thesis by (simp only: mult_le_cancel1) simp
  qed
  ultimately show ?thesis by (simp only:)
qed

text \<open>A bucket of one unit is missed by one.\<close>

lemma byte_shift_small: "get_bucketsize_shift v 0 15 1024 = 1" if "v = 0 \<or> v = 1024"
proof -
  have "get_bucketsize_shift 0 0 15 1024 = 1" "get_bucketsize_shift 1024 0 15 1024 = 1" by code_simp+
  then show ?thesis using that by blast
qed

lemma byte_shift_wrap:
  assumes "unat rate mod 2 ^ 22 < 2"
  shows "byte_shift rate = 1"
proof -
  let ?b = "unat (bucket_size rate HSGMII_RC_CFG_BYTE_MODE)"
  have "min ?b (2 ^ 25) = 1024 * (unat rate mod 2 ^ 22)"
    unfolding bucket_min using assms by (simp add: min_absorb1)
  then have "?b = 1024 * (unat rate mod 2 ^ 22)" using assms by (simp add: min_def split: if_split_asm)
  then have "?b = 0 \<or> ?b = 1024" using assms by (auto simp: less_Suc_eq numeral_2_eq_2)
  then have "bucket_size rate HSGMII_RC_CFG_BYTE_MODE = 0 \<or> bucket_size rate HSGMII_RC_CFG_BYTE_MODE = 1024"
    by (auto simp: word_unat_eq_iff)
  then show ?thesis unfolding byte_shift_def by (rule byte_shift_small)
qed

text \<open>C38: in byte mode the shift programmed for a rate in kbit/s is the least one whose bucket of \<open>1024 * 2 ^ k\<close> bytes
  holds 1024 bytes for each kbit/s of the rate, up to 15 (32 MB), except that it is 1 where 0 would do; but of the rate
  only the remainder modulo 4194304 counts, so a limit of 4.2 Gbit/s on a 10-gigabit lane gets the bucket of the
  smallest rate, two kilobytes.\<close>

theorem byte_bucket_least:
  "(if unat rate mod 2 ^ 22 < 2 then byte_shift rate = 1
    else byte_shift rate = int (LEAST k. min (unat rate mod 2 ^ 22) 32768 \<le> 2 ^ k)) \<and>
   byte_shift 0x400000 = 1 \<and> byte_shift 0x3FFFFF = 15"
proof (intro conjI)
  show "if unat rate mod 2 ^ 22 < 2 then byte_shift rate = 1
    else byte_shift rate = int (LEAST k. min (unat rate mod 2 ^ 22) 32768 \<le> 2 ^ k)"
  proof (cases "unat rate mod 2 ^ 22 < 2")
    case True then show ?thesis unfolding if_P [OF True] by (rule byte_shift_wrap)
  next
    case False
    then have "2 \<le> unat rate mod 2 ^ 22" by (simp only: not_less)
    then show ?thesis unfolding if_not_P [OF False] by (rule byte_shift_least)
  qed
  show "byte_shift 0x400000 = 1" by (rule byte_shift_wrap) simp
  have "byte_shift 0x3FFFFF = int (LEAST k. (32768 :: nat) \<le> 2 ^ k)" using byte_shift_least [of "0x3FFFFF"] by simp
  moreover have "(LEAST k. (32768 :: nat) \<le> 2 ^ k) = 15"
  proof (rule Least_equality)
    fix y :: nat assume "32768 \<le> (2 :: nat) ^ y"
    then have "(2 :: nat) ^ 15 \<le> 2 ^ y" by simp
    then show "15 \<le> y" by (simp only: power_increasing_iff)
  qed simp
  ultimately show "byte_shift 0x3FFFFF = 15" by simp
qed

section \<open>Lanes without a way in\<close>

text \<open>A register of a lane that leads nowhere.\<close>

definition no_way :: "'d xsi_env \<Rightarrow> u32 \<Rightarrow> bool" where
  "no_way env reg \<longleftrightarrow> CR_XSI_BASE \<le> reg \<and> reg < CR_XSI_END \<and> xsi_target (xe_win env) reg = Some None"

lemma no_way_access:
  assumes "no_way env reg"
  shows "x_rd env reg d = Some (0, d)" and "x_wr env reg v d = Some d"
proof -
  have le: "reg \<le> 0x1FA09800" and ge: "0x1FA04000 \<le> reg" using assms by (auto simp: no_way_def)
  then have r: "reg_phy reg = reg" unfolding reg_phy_def
    using le_less_trans [OF le, of "0xA0000001"] by (simp add: word_le_nat_alt word_less_nat_alt)
  have out: "\<not> CR_FE_PPE_PHY_BASE \<le> reg" "\<not> CR_QDMA_LAN_PHY_BASE \<le> reg" "\<not> CR_QDMA_WAN_PHY_BASE \<le> reg"
    using le by (simp_all add: word_le_nat_alt)
  show "x_rd env reg d = Some (0, d)" "x_wr env reg v d = Some d"
    using assms out by (simp_all add: x_rd_def x_wr_def get_frame_engine_data_def set_frame_engine_data_def Let_def r
        get_xsi_data_def set_xsi_data_def no_way_def)
qed

text \<open>The lane's registers all lead nowhere.\<close>

definition dead_lane :: "'d xsi_env \<Rightarrow> nat \<Rightarrow> bool" where
  "dead_lane env i \<longleftrightarrow> (\<forall>ofs \<le> 0x100. no_way env (xe_base env ! i + ofs))"

lemma dead_lane_access:
  assumes "dead_lane env i" and "ofs \<le> 0x100"
  shows "x_rd env (xe_base env ! i + ofs) d = Some (0, d)" and "x_wr env (xe_base env ! i + ofs) v d = Some d"
  using assms no_way_access [where env = env and reg = "xe_base env ! i + ofs"] by (auto simp: dead_lane_def)

lemma dead_lane_base:
  assumes "dead_lane env i"
  shows "x_rd env (xe_base env ! i) d = Some (0, d)" and "x_wr env (xe_base env ! i) v d = Some d"
  using dead_lane_access [OF assms, where ofs = 0] by simp_all

lemma bits_dead:
  assumes "\<And>b d. f b d = Some d"
  shows "bits_one_by_one f bs d = Some d"
  by (induction bs arbitrary: d) (simp_all add: assms)

lemma cfg_offsets:
  assumes "cfg_regs env c = Some (a, b, l, h, i)"
  shows "a \<le> 0x100 \<and> b \<le> 0x100 \<and> l \<le> 0x100 \<and> h \<le> 0x100"
  using assms by (auto simp: cfg_regs_def Let_def regs_of_def regs_7581_def regs_7583_def split: if_splits)

lemma rc_offsets:
  assumes "rc_regs env c = Some (a, b)"
  shows "a \<le> 0x100 \<and> b \<le> 0x100"
  using assms by (auto simp: rc_regs_def Let_def regs_of_def regs_7581_def regs_7583_def split: if_splits)

lemma set_param_dead: "dead_lane env i \<Longrightarrow> hsgmii_set_ratelimit_param env i p c v d = Some d"
  by (auto simp: hsgmii_set_ratelimit_param_def dead_lane_access dest: cfg_offsets split: option.splits)

lemma get_param_dead: "dead_lane env i \<Longrightarrow> hsgmii_get_ratelimit_param env i p c d = Some (0, 0, d)"
  by (auto simp: hsgmii_get_ratelimit_param_def dead_lane_access dest: cfg_offsets split: option.splits)

lemma reset_dead:
  assumes "dead_lane env i" and "\<And>d. xe_mdelay env 1 d = d" and "i < XSI_IDX_MAX"
  shows "xsi_mac_api_do_logic_reset env i d = Some (0, d)"
proof -
  have "IO_SBITS env (xe_base env ! i) b d = Some d" "IO_CBITS env (xe_base env ! i) b d = Some d" for b d
    using assms(1) by (simp_all add: IO_SBITS_def IO_CBITS_def dead_lane_base)
  then show ?thesis
    using assms by (simp add: xsi_mac_api_do_logic_reset_def xsi_mac_set_mpi_mbi_disable_def xsi_mac_set_mpi_mbi_enable_def
        bits_dead dead_lane_access IO_SBITS_def)
qed

lemma ratelimit_dead:
  assumes "dead_lane env i" and "rate \<noteq> 0"
  shows "\<exists>r. xsi_mac_set_ratelimit env i type rate mode d = Some (r, d) \<and> (r = 0 \<or> r = - EINVAL)"
proof (cases "rc_regs env type")
  case (Some ab)
  obtain a b where ab: "ab = (a, b)" by (cases ab)
  have "fst (xsi_tick rate mode) \<noteq> 0" using assms(2) by (auto simp: xsi_tick_def)
  moreover have "a \<le> 0x100" "b \<le> 0x100" using rc_offsets [where env = env and c = type] Some ab by auto
  ultimately show ?thesis
    using assms(1) Some ab
    by (simp add: xsi_mac_set_ratelimit_def Let_def case_prod_beta set_param_dead get_param_dead dead_lane_access)
qed (simp add: xsi_mac_set_ratelimit_def)

text \<open>On the en7581 the Ethernet lane is looked up at the first port.\<close>

lemma eth_lane_first_port:
  assumes "win_soc w = en7581_soc_data (win_ids w)" and "win_ports w = Some port # ports"
    and "gp_id port \<noteq> AIROHA_GDM3_IDX (win_ids w)" and "gp_devs port = dev # devs"
  shows "get_xsi_eth_dev w = Some dev"
  using assms by (simp add: get_xsi_eth_dev_def en7581_soc_data_def gdm_index_def)

lemma lane_in_window:
  assumes "i < 5" and "ofs \<le> 0x100"
  defines "reg \<equiv> airoha_hsgmii_base_reg_init False ! i + ofs"
  shows "CR_XSI_BASE \<le> reg" and "reg < CR_XSI_END" and "in_eth_window reg \<longleftrightarrow> i = 4"
proof -
  have o: "unat ofs \<le> 0x100" using assms(2) by (simp add: word_le_nat_alt)
  have "i = 0 \<or> i = 1 \<or> i = 2 \<or> i = 3 \<or> i = 4" using assms(1) by auto
  then show "CR_XSI_BASE \<le> reg" "reg < CR_XSI_END" "in_eth_window reg \<longleftrightarrow> i = 4"
    unfolding reg_def in_eth_window_def using o
    by (auto simp: airoha_hsgmii_base_reg_init_def word_le_nat_alt word_less_nat_alt unat_word_ariths)
qed

text \<open>On the en7581 no rate limit and no reset of a serial lane reaches its MAC. Four of the five lanes have no way
  through the register window; the Ethernet lane is taken for the first device of the first port, which is the
  internal switch and has no such MAC. Both operations still report success, and the device is as it was.\<close>

theorem lanes_unreachable:
  assumes base: "xe_base env = airoha_hsgmii_base_reg_init False" and i: "i < 5" and rate: "rate \<noteq> 0"
    and soc: "win_soc (xe_win env) = en7581_soc_data (win_ids (xe_win env))"
    and port: "win_ports (xe_win env) = Some port # ports" "gp_id port \<noteq> AIROHA_GDM3_IDX (win_ids (xe_win env))"
    and dev: "gp_devs port = dev # devs" "\<forall>v. dev = Some v \<longrightarrow> \<not> has_xfi_mac v"
    and delay: "\<forall>d. xe_mdelay env 1 d = d"
  shows "xsi_mac_api_do_logic_reset env i d = Some (0, d) \<and>
    (\<exists>r. xsi_mac_set_ratelimit env i type rate mode d = Some (r, d) \<and> (r = 0 \<or> r = - EINVAL))"
proof -
  have "xsi_target (xe_win env) reg = Some None" for reg
    using eth_lane_first_port [OF soc port dev(1)] dev(2) by (cases dev) (simp_all add: xsi_target_def)
  then have "dead_lane env i"
    using lane_in_window [OF i] base by (simp add: dead_lane_def no_way_def)
  then show ?thesis using reset_dead [of env i d] ratelimit_dead [of env i rate type mode d] delay i rate by simp
qed

definition dead_env :: "(u32 \<Rightarrow> u32) xsi_env" where
  "dead_env = \<lparr>xe_win = \<lparr>win_fe = mem_bus, win_lan = mem_bus, win_wan = mem_bus, win_xfi = (\<lambda>_. mem_bus),
      win_ports = [Some \<lparr>gp_id = 1, gp_devs = [Some \<lparr>port_id = 1, dev_nbq = 0, has_xfi_mac = False, has_qdma = True, fe_port = 1\<rparr>]\<rparr>],
      win_soc = en7581_soc_data some_ids, win_ids = some_ids, win_7581 = True\<rparr>,
    xe_base = airoha_hsgmii_base_reg_init False, xe_7581 = True, xe_7583 = False, xe_mdelay = (\<lambda>_ d. d)\<rparr>"

theorem lanes_unreachable_witness:
  "xsi_mac_api_do_logic_reset dead_env 4 (\<lambda>_. 0) = Some (0, \<lambda>_. 0) \<and>
   (\<exists>r. xsi_mac_set_ratelimit dead_env 4 3 1000 0 (\<lambda>_. 0) = Some (r, \<lambda>_. 0) \<and> (r = 0 \<or> r = - EINVAL))"
  by (rule lanes_unreachable [where port = "\<lparr>gp_id = 1, gp_devs = [Some \<lparr>port_id = 1, dev_nbq = 0, has_xfi_mac = False, has_qdma = True, fe_port = 1\<rparr>]\<rparr>"
      and ports = "[]" and devs = "[]"]) (auto simp: dead_env_def some_ids_def)

end
