(* ===== verification/HsgInit.thy ===== *)
theory HsgInit
  imports En8811Ops XsiLimit
begin

text \<open>
  The start and the end of the external PHYs' part of the driver, \<^verbatim>\<open>airoha/arht_hsgmii.c\<close>, and the life of what it
  shares with others: the private data, the control files, the entry for the rate limit. The caller does not look at
  the result of the start.
\<close>

text \<open>A pointer to the private data: none, to data, or to data given back.\<close>

datatype priv_ptr = Null | Live mdio_priv | Freed

record 'd hsgmii =
  hs_priv :: priv_ptr
  hs_found :: found
  hs_aeon :: "'d an8831"
  hs_rate_hook :: bool
  hs_base :: "u32 list"

text \<open>Giving back what was given back already is \<open>None\<close>.\<close>

definition mem_free :: "priv_ptr \<Rightarrow> priv_ptr option" where
  "mem_free p = (case p of Null \<Rightarrow> Some Null | Live _ \<Rightarrow> Some Freed | Freed \<Rightarrow> None)"

definition en8811_files :: "string set" where
  "en8811_files = {''en8811_debug'', ''en8811_serdes'', ''en8811_link_st'', ''en8811_speed_mode'', ''en8811_power''}"

definition en8811_proc_init :: "'d hsgmii \<Rightarrow> 'd hsgmii" where
  "en8811_proc_init s = s\<lparr>hs_aeon := (hs_aeon s)\<lparr>proc_dir := proc_dir (hs_aeon s) \<union> en8811_files\<rparr>\<rparr>"

definition en8811_proc_exit :: "'d hsgmii \<Rightarrow> 'd hsgmii" where
  "en8811_proc_exit s = s\<lparr>hs_aeon := (hs_aeon s)\<lparr>proc_dir := proc_dir (hs_aeon s) - en8811_files\<rparr>\<rparr>"

text \<open>What the start finds: whether memory is left, whether there is a bus, and the PHYs at its addresses with their
  identifications, with a bus of their own or not.\<close>

record hs_world =
  hw_alloc :: bool
  hw_bus :: bool
  hw_phy :: "nat \<Rightarrow> u32 option"
  hw_phy_bus :: "nat \<Rightarrow> bool"
  hw_7583 :: bool

definition start_files :: "hs_world \<Rightarrow> 'd hsgmii \<Rightarrow> 'd hsgmii" where
  "start_files w s =
     (let s = (if en8811_is_exist (hs_found s) then en8811_proc_init s else s)
      in if an8831_is_exist (hs_found s) then s\<lparr>hs_aeon := snd (an8831_proc_init (hw_phy_bus w) (hs_aeon s))\<rparr> else s)"

definition airoha_hsgmii_init :: "hs_world \<Rightarrow> 'd hsgmii \<Rightarrow> (int \<times> 'd hsgmii) option" where
  "airoha_hsgmii_init w s =
     (let s = s\<lparr>hs_base := airoha_hsgmii_base_reg_init (hw_7583 w), hs_rate_hook := True\<rparr>
      in if \<not> hw_alloc w then Some (- ENOMEM, s\<lparr>hs_priv := Null\<rparr>)
         else if \<not> hw_bus w then Some (- EFAULT, s\<lparr>hs_priv := Freed\<rparr>)
         else do {
           (ok, m, f) \<leftarrow> init_hsgmii_priv (hw_phy w) (zero_priv\<lparr>mii_bus := True\<rparr>, hs_found s);
           let s = s\<lparr>hs_priv := Live m, hs_found := f, hs_aeon := (hs_aeon s)\<lparr>an8831_dev_all := an8831_table f\<rparr>\<rparr>
           in if \<not> ok then do { p \<leftarrow> mem_free (hs_priv s); Some (0, s\<lparr>hs_priv := p\<rparr>) }
              else Some (0, start_files w s) })"

definition airoha_hsgmii_exit :: "'d hsgmii \<Rightarrow> 'd hsgmii option" where
  "airoha_hsgmii_exit s =
     do { p \<leftarrow> mem_free (hs_priv s);
          let s = s\<lparr>hs_rate_hook := False, hs_priv := p\<rparr>;
              s = (if en8811_is_exist (hs_found s) then en8811_proc_exit s else s)
          in Some (if an8831_is_exist (hs_found s) then s\<lparr>hs_aeon := an8831_proc_exit (hs_aeon s)\<rparr> else s) }"

text \<open>The driver as it is loaded, and the chip's start and end around it.\<close>

definition loaded :: "'d \<Rightarrow> 'd hsgmii" where
  "loaded d = \<lparr>hs_priv = Null, hs_found = \<lparr>en8811_is_exist = False, an8831_is_exist = False, an8831_table = [None, None], dev_cnt = 0\<rparr>,
     hs_aeon = \<lparr>mail = \<lparr>phys = d, ipc_cmd_num = 0\<rparr>, an8831_dev_all = [None, None], an8831_dev = None, an8831_phy_addr = 29,
       priv_data = \<lparr>top_spd = 0, eee_spd = 0, fr_spd = 0, thp_byp = 0, port_type = 0, ms_en = 0, ms_config = 0, nstd_pbo = 0,
         smt_spd = \<lparr>ds_enable = 0, ds_retry_limit = 0\<rparr>, trd_ovrd = 0, trd_swap = 0, cfr = 0\<rparr>, phy_on = 1, proc_dir = {}\<rparr>,
     hs_rate_hook = False, hs_base = replicate 5 0\<rparr>"

end
