(* ===== verification/HsgProps.thy ===== *)
theory HsgProps
  imports HsgInit
begin

text \<open>
  What is shown of the register of the external PHYs and of the life of the driver's part for them.
\<close>

declare upt_rec_numeral [simp del]

section \<open>The register\<close>

text \<open>The register lists the PHYs it holds, in the order of their addresses, and the first of them is the default.\<close>

definition registered :: "(nat \<Rightarrow> u32 option) \<Rightarrow> nat list \<Rightarrow> nat list" where
  "registered phy_at as = filter (\<lambda>a. \<exists>i. phy_at a = Some i \<and> i \<noteq> 0) as"

definition reg_ok :: "(nat \<Rightarrow> u32 option) \<Rightarrow> nat list \<Rightarrow> mdio_priv \<Rightarrow> bool" where
  "reg_ok phy_at as m \<longleftrightarrow>
     length (phy_info m) = MAX_PHY_DEVICES \<and> length (phy_addr_list m) = MAX_PHY_DEVICES \<and> length (phy_registers m) = MAX_PHY_DEVICES \<and>
     num_phy_register m = length (registered phy_at as) \<and> take (num_phy_register m) (phy_addr_list m) = registered phy_at as \<and>
     phy_addr_default m = (case registered phy_at as of [] \<Rightarrow> INVALID_PHY_ADDR | a # _ \<Rightarrow> a) \<and>
     (\<forall>a. 8 \<le> a \<and> a \<le> 15 \<longrightarrow> (if a \<in> set (registered phy_at as)
        then pp_dev (phy_info m ! a) = Some a \<and> phy_registers m ! a = get_serdesInfo_from_map a
        else pp_dev (phy_info m ! a) = None \<and> phy_registers m ! a = SERDES_INVALID_IDX))"

lemma init_lengths:
  assumes "length (phy_info m) = 16" "length (phy_addr_list m) = 16" "length (phy_registers m) = 16"
  shows "reg_ok phy_at [] (init_en8811_priv_data m)"
proof -
  have up: "[MIN_PHY_ADDR_EN8811..<Suc MAX_PHY_ADDR_EN8811] = [8, 9, 10, 11, 12, 13, 14, 15]" by (simp add: upt_rec)
  have "a \<in> {8, 9, 10, 11, 12, 13, 14, 15}" if "8 \<le> a" "a \<le> 15" for a :: nat using that by auto
  then show ?thesis
    using assms unfolding reg_ok_def init_en8811_priv_data_def up registered_def by fastforce
qed

lemma reg_step:
  assumes ok: "reg_ok phy_at as m" and a: "8 \<le> a" "a \<le> 15" "a \<notin> set as" and len: "length as < 8" "\<forall>b\<in>set as. b \<le> 15"
  shows "reg_ok phy_at (as @ [a]) (case phy_at a of None \<Rightarrow> m | Some i \<Rightarrow> set_en8811_phydev a i m)"
proof (cases "\<exists>i. phy_at a = Some i \<and> i \<noteq> 0")
  case False
  then have e1: "(case phy_at a of None \<Rightarrow> m | Some i \<Rightarrow> set_en8811_phydev a i m) = m"
    by (auto simp: set_en8811_phydev_def split: option.split)
  have e2: "registered phy_at (as @ [a]) = registered phy_at as" using False by (simp add: registered_def)
  show ?thesis using ok unfolding reg_ok_def e1 e2 .
next
  case True
  then obtain i where i: "phy_at a = Some i" "i \<noteq> 0" by blast
  have r: "registered phy_at (as @ [a]) = registered phy_at as @ [a]" using i by (simp add: registered_def)
  have notin: "a \<notin> set (registered phy_at as)" using a(3) by (simp add: registered_def)
  have "num_phy_register m = length (registered phy_at as)" using ok by (simp only: reg_ok_def)
  then have n: "num_phy_register m < 16" using len(1) length_filter_le [of "\<lambda>a. \<exists>i. phy_at a = Some i \<and> i \<noteq> 0" as]
    unfolding registered_def by linarith
  have tk: "take (Suc n) (xs[n := x]) = take n xs @ [x]" if "n < length xs" for n xs and x :: nat
    using that by (simp add: take_Suc_conv_app_nth)
  have def0: "(phy_addr_default m = INVALID_PHY_ADDR) = (registered phy_at as = [])"
  proof (cases "registered phy_at as")
    case (Cons b bs)
    then have "b \<in> set (registered phy_at as)" by simp
    then have "b \<in> set as" by (simp add: registered_def)
    then show ?thesis using ok Cons len(2) by (auto simp: reg_ok_def)
  qed (use ok in \<open>simp add: reg_ok_def\<close>)
  show ?thesis
    using ok i a notin n unfolding reg_ok_def r
    by (auto simp: set_en8811_phydev_def CHECK_PHY_ADDR_def Let_def tk nth_list_update def0 split: list.splits)
qed

lemma scan_8811_ok:
  assumes "reg_ok phy_at [] m"
  shows "reg_ok phy_at [8..<16] (fst (scan_8811 phy_at (m, f))) \<and>
    snd (scan_8811 phy_at (m, f)) = f\<lparr>en8811_is_exist := en8811_is_exist f \<or> (\<exists>a\<in>{8..15}. phy_at a \<noteq> None)\<rparr>"
proof -
  define g where "g = (\<lambda>a (m, f :: found). case phy_at a of None \<Rightarrow> (m, f)
     | Some i \<Rightarrow> (set_en8811_phydev a i m, f\<lparr>en8811_is_exist := True\<rparr>))"
  have "n \<le> 8 \<longrightarrow> reg_ok phy_at [8..<8 + n] (fst (fold g [8..<8 + n] (m, f))) \<and>
      snd (fold g [8..<8 + n] (m, f)) = f\<lparr>en8811_is_exist := en8811_is_exist f \<or> (\<exists>a\<in>{8..<8 + n}. phy_at a \<noteq> None)\<rparr>" for n
  proof (induction n)
    case 0
    then show ?case using assms by simp
  next
    case (Suc n)
    obtain m' f' where mf: "fold g [8..<8 + n] (m, f) = (m', f')" by fastforce
    have up: "[8..<8 + Suc n] = [8..<8 + n] @ [8 + n]" unfolding add_Suc_right by (rule upt_Suc_append) simp
    have step: "fold g [8..<8 + Suc n] (m, f) = g (8 + n) (m', f')" unfolding up fold_append by (simp add: mf)
    have at: "{8..<8 + Suc n} = insert (8 + n) {8..<8 + n}" by auto
    show ?case
    proof (intro impI conjI)
      assume "Suc n \<le> 8"
      then have ih: "reg_ok phy_at [8..<8 + n] m'" "f' = f\<lparr>en8811_is_exist := en8811_is_exist f \<or> (\<exists>a\<in>{8..<8 + n}. phy_at a \<noteq> None)\<rparr>"
        using Suc mf by auto
      show "reg_ok phy_at [8..<8 + Suc n] (fst (fold g [8..<8 + Suc n] (m, f)))"
        using reg_step [OF ih(1), of "8 + n"] \<open>Suc n \<le> 8\<close> unfolding step unfolding up
        by (auto simp: g_def split: option.splits)
      show "snd (fold g [8..<8 + Suc n] (m, f)) =
          f\<lparr>en8811_is_exist := en8811_is_exist f \<or> (\<exists>a\<in>{8..<8 + Suc n}. phy_at a \<noteq> None)\<rparr>"
        unfolding step unfolding at using ih(2) by (cases "phy_at (8 + n)") (auto simp: g_def)
    qed
  qed
  from this [of 8] show ?thesis
    unfolding scan_8811_def g_def [symmetric] by (simp add: atLeastLessThanSuc_atLeastAtMost [symmetric])
qed

lemma scan_8831_exact:
  fixes phy_at :: "nat \<Rightarrow> u32 option"
  assumes "length (an8831_table f) = 2" and "dev_cnt f \<le> 2"
  defines "here \<equiv> filter (\<lambda>a. phy_at a \<noteq> None)"
  shows "scan_8831 phy_at as f =
    (if dev_cnt f + length (here as) \<le> 2
     then Some (f\<lparr>an8831_is_exist := an8831_is_exist f \<or> here as \<noteq> [],
                  an8831_table := take (dev_cnt f) (an8831_table f) @ map Some (here as) @ drop (dev_cnt f + length (here as)) (an8831_table f),
                  dev_cnt := dev_cnt f + length (here as)\<rparr>)
     else None)"
  using assms(1,2)
proof (induction as arbitrary: f)
  case Nil
  then show ?case by (simp add: here_def)
next
  case (Cons a as)
  show ?case
  proof (cases "phy_at a = None \<or> 2 \<le> dev_cnt f")
    case True
    then show ?thesis using Cons by (auto simp: here_def)
  next
    case False
    define f' where "f' = f\<lparr>an8831_is_exist := True, an8831_table := (an8831_table f)[dev_cnt f := Some a], dev_cnt := Suc (dev_cnt f)\<rparr>"
    have "take (Suc n) (xs[n := x]) = take n xs @ [x]" if "n < length xs" for n xs and x :: "nat option"
      using that by (simp add: take_Suc_conv_app_nth)
    then have tk: "take (dev_cnt f') (an8831_table f') = take (dev_cnt f) (an8831_table f) @ [Some a]"
      using False Cons.prems by (simp add: f'_def)
    have dr: "drop (dev_cnt f' + k) (an8831_table f') = drop (Suc (dev_cnt f) + k) (an8831_table f)" for k
      by (simp add: f'_def)
    have sc: "scan_8831 phy_at (a # as) f = scan_8831 phy_at as f'" using False by (auto simp: f'_def)
    have h: "here (a # as) = a # here as" using False by (simp add: here_def)
    have "length (an8831_table f') = 2" "dev_cnt f' \<le> 2" using False Cons.prems by (simp_all add: f'_def)
    from Cons.IH [OF this] show ?thesis unfolding sc h tk dr by (simp add: f'_def)
  qed
qed

lemma mem_registered: "a \<in> set (registered phy_at [m..<n]) \<longleftrightarrow> m \<le> a \<and> a < n \<and> (\<exists>i. phy_at a = Some i \<and> i \<noteq> 0)"
  by (simp add: registered_def)

lemma sorted_registered: "sorted (registered phy_at [m..<n])"
  by (simp add: registered_def sorted_wrt_filter)

lemma filter_upt_ne: "filter P [m..<n] \<noteq> [] \<longleftrightarrow> (\<exists>a\<in>{m..<n}. P a)"
  by (auto simp: filter_empty_conv)

definition found0 :: found where
  "found0 = \<lparr>en8811_is_exist = False, an8831_is_exist = False, an8831_table = [None, None], dev_cnt = 0\<rparr>"

lemma zero_lengths: "length (phy_info zero_priv) = 16" "length (phy_addr_list zero_priv) = 16" "length (phy_registers zero_priv) = 16"
  by (simp_all add: zero_priv_def)

text \<open>C26: the scan of the bus registers exactly the EN8811s at the addresses 8 to 15 that have an identification, in
  order, each with the lane the board gives it, the first of them as the default; it lists up to two AN8831s, and
  with a third one at the addresses 28 to 31 it writes past the end of their table.\<close>

theorem scan_exact:
  "(let here = filter (\<lambda>a. phy_at a \<noteq> None) [28..<32]; r = init_hsgmii_priv phy_at (zero_priv\<lparr>mii_bus := True\<rparr>, found0)
    in if length here \<le> 2
       then \<exists>m. r = Some ((\<exists>a\<in>{8..15} \<union> {28..31}. phy_at a \<noteq> None), m,
                \<lparr>en8811_is_exist = (\<exists>a\<in>{8..15}. phy_at a \<noteq> None), an8831_is_exist = here \<noteq> [],
                 an8831_table = take 2 (map Some here @ [None, None]), dev_cnt = length here\<rparr>) \<and>
            reg_ok phy_at [8..<16] m
       else r = None)"
proof -
  let ?here = "filter (\<lambda>a. phy_at a \<noteq> None) [28..<32]"
  let ?m0 = "init_en8811_priv_data (zero_priv\<lparr>mii_bus := True\<rparr>)"
  have m0: "reg_ok phy_at [] ?m0" by (rule init_lengths) (simp_all add: zero_lengths)
  have bus: "mii_bus ?m0"
  proof -
    have up: "[MIN_PHY_ADDR_EN8811..<Suc MAX_PHY_ADDR_EN8811] = [8, 9, 10, 11, 12, 13, 14, 15]" by (simp add: upt_rec)
    show ?thesis unfolding init_en8811_priv_data_def up by simp
  qed
  obtain m f where mf: "scan_8811 phy_at (?m0, found0) = (m, f)" by fastforce
  have ok: "reg_ok phy_at [8..<16] m" "f = found0\<lparr>en8811_is_exist := (\<exists>a\<in>{8..15}. phy_at a \<noteq> None)\<rparr>"
    using scan_8811_ok [OF m0, of found0] mf by (auto simp: found0_def)
  have here: "(\<exists>a\<in>{28..31}. phy_at a \<noteq> None) = (?here \<noteq> [])"
  proof -
    have "{28..31} = {28..<32 :: nat}" by auto
    then show ?thesis unfolding filter_upt_ne by (simp only:)
  qed
  have r: "init_hsgmii_priv phy_at (zero_priv\<lparr>mii_bus := True\<rparr>, found0) =
      do { f \<leftarrow> scan_8831 phy_at [28..<32] f; Some (en8811_is_exist f \<or> an8831_is_exist f, m, f) }"
    using bus mf by (simp add: init_hsgmii_priv_def scan_register_phydev_def)
  have sc: "scan_8831 phy_at [28..<32] f =
      (if length ?here \<le> 2
       then Some (f\<lparr>an8831_is_exist := ?here \<noteq> [], an8831_table := map Some ?here @ drop (length ?here) [None, None], dev_cnt := length ?here\<rparr>)
       else None)"
    using scan_8831_exact [of f phy_at "[28..<32]"] ok(2) by (simp add: found0_def cong: if_cong)
  have tk: "take 2 (map Some xs @ [None, None]) = map Some xs @ drop (length xs) [None, None]" if "length xs \<le> 2" for xs :: "nat list"
    using that by (cases xs; cases "tl xs") (auto simp: numeral_2_eq_2)
  show ?thesis
    unfolding Let_def r sc using ok here tk [of ?here] by (auto simp: found0_def)
qed

section \<open>Names outside of the table\<close>

lemma lane_of_phy: "8 \<le> a \<Longrightarrow> get_serdesInfo_from_map a = (if a = 15 then 4 else SERDES_INVALID_IDX)"
  by (simp add: get_serdesInfo_from_map_def serdes_map_def upt_rec)

lemma no_lane_no_name:
  assumes "reg_ok phy_at [8..<16] m" and "a \<in> set (registered phy_at [8..<16])" and "a \<noteq> 15"
  shows "get_ItfName_by_phyAddr m a = None"
proof -
  have a: "8 \<le> a" "a \<le> 15" using assms(2) unfolding mem_registered by linarith+
  then have "phy_registers m ! a = SERDES_INVALID_IDX"
    using assms lane_of_phy [of a] by (auto simp: reg_ok_def)
  then show ?thesis using a by (simp add: get_ItfName_by_phyAddr_def CHECK_PHY_ADDR_def)
qed

lemma first_registered:
  assumes "reg_ok phy_at [8..<16] m" and "phy_at a = Some i" "i \<noteq> 0" "8 \<le> a" "a < 15"
  obtains b where "b \<in> set (registered phy_at [8..<16])" "b \<noteq> 15" "phy_addr_list m ! 0 = b" "0 < num_phy_register m"
    "phy_addr_default m = b" "pp_dev (phy_info m ! b) = Some b"
proof -
  have a: "a \<in> set (registered phy_at [8..<16])" unfolding mem_registered using assms by auto
  define rs where "rs = registered phy_at [8..<16]"
  obtain b bs where r: "rs = b # bs" using a unfolding rs_def [symmetric] by (cases rs) auto
  have "sorted rs" unfolding rs_def by (rule sorted_registered)
  then have "b \<le> a" using a r rs_def by auto
  moreover have b: "b \<in> set (registered phy_at [8..<16])" using r rs_def by (metis list.set_intros(1))
  then have "8 \<le> b" "b \<le> 15" unfolding mem_registered by linarith+
  moreover have "num_phy_register m = length rs" "take (num_phy_register m) (phy_addr_list m) = rs"
      "phy_addr_default m = (case rs of [] \<Rightarrow> INVALID_PHY_ADDR | a # _ \<Rightarrow> a)"
      "pp_dev (phy_info m ! b) = Some b" if "8 \<le> b" "b \<le> 15"
    using assms(1) b that unfolding reg_ok_def rs_def by auto
  ultimately show thesis
    using that [of b] b assms(5) r by (cases "phy_addr_list m") auto
qed

lemma first_line_outside:
  assumes "reg_ok phy_at [8..<16] m" and "phy_at a = Some i" "i \<noteq> 0" "8 \<le> a" "a < 15"
  shows "link_lines m state_of [0..<num_phy_register m] kl = None"
    and "get_default_ItfName m = None"
proof -
  obtain b where b: "b \<in> set (registered phy_at [8..<16])" "b \<noteq> 15" "phy_addr_list m ! 0 = b" "0 < num_phy_register m"
      "phy_addr_default m = b" "pp_dev (phy_info m ! b) = Some b"
    using first_registered [OF assms] .
  have n: "get_ItfName_by_phyAddr m b = None" using no_lane_no_name [OF assms(1) b(1,2)] .
  have "[0..<num_phy_register m] = 0 # [1..<num_phy_register m]" using b(4) by (simp add: upt_rec)
  then show "link_lines m state_of [0..<num_phy_register m] kl = None"
    using b n by (cases kl) (simp add: Let_def)
  show "get_default_ItfName m = None" using b n by (simp add: get_default_ItfName_def)
qed

text \<open>On this board only the address 15 has a lane. An EN8811 that is found at another address makes every read of the
  link state, and every setting written without the name of an interface, take a name from behind the table of
  names.\<close>

theorem other_address_outside:
  assumes scan: "init_hsgmii_priv phy_at (zero_priv\<lparr>mii_bus := True\<rparr>, found0) = Some (ok, m, f)"
    and phy: "phy_at a = Some i" "i \<noteq> 0" "8 \<le> a" "a < 15"
  shows "en8811_link_state_read_proc (Some m) state_of True copy count 0 = None \<and>
    en8811_speed_mode_write_proc env True ''Auto'' (Some m) d = None"
proof -
  have ok: "reg_ok phy_at [8..<16] m"
    using scan_exact [of phy_at] scan by (auto simp: Let_def split: if_splits)
  have "c_string ''Auto'' = ''Auto''" "words ''Auto'' = [''Auto'']" "contains ''bps'' ''Auto'' = False" "contains ''restartAN'' ''Auto'' = False"
      "contains ''Auto'' ''Auto''"
    by code_simp+
  then have "EN8811_check_writeproc_para True ''Auto'' m = None"
    using first_line_outside(2) [OF ok phy] by (simp add: EN8811_check_writeproc_para_def split_words_def Let_def)
  then show ?thesis
    using first_line_outside(1) [OF ok phy, of state_of]
    by (simp add: en8811_link_state_read_proc_def en8811_speed_mode_write_proc_def)
qed

theorem other_address_outside_witness:
  "\<exists>ok m f. init_hsgmii_priv (\<lambda>a. if a = 9 then Some 1 else None) (zero_priv\<lparr>mii_bus := True\<rparr>, found0) = Some (ok, m, f) \<and>
     en8811_link_state_read_proc (Some m) (\<lambda>_. (SPEED_2500, DUPLEX_FULL)) True True 100 0 = None \<and>
     (\<forall>(env :: nat mii_env) d. en8811_speed_mode_write_proc env True ''Auto'' (Some m) d = None)"
proof -
  let ?p = "\<lambda>a :: nat. if a = 9 then Some (1 :: u32) else None"
  have "length (filter (\<lambda>a. ?p a \<noteq> None) [28..<32]) \<le> 2" by (simp add: upt_rec)
  then obtain ok m f where s: "init_hsgmii_priv ?p (zero_priv\<lparr>mii_bus := True\<rparr>, found0) = Some (ok, m, f)"
    using scan_exact [of ?p] unfolding Let_def by auto
  have "en8811_link_state_read_proc (Some m) (\<lambda>_. (SPEED_2500, DUPLEX_FULL)) True True 100 0 = None \<and>
      en8811_speed_mode_write_proc env True ''Auto'' (Some m) d = None" for env :: "nat mii_env" and d
    by (rule other_address_outside [OF s, of 9 1]) simp_all
  then show ?thesis using s by blast
qed

text \<open>The text of one line fits, and comes out as it went in.\<close>

lemma snprintf_fits:
  assumes "length kbuf = 1024" and "i + length t < 1024" and "int (length t) < limit"
  shows "take (i + length t) (snprintf_at kbuf i limit t) = take i kbuf @ t" and "length (snprintf_at kbuf i limit t) = 1024"
proof -
  have "take (nat limit - 1) t = t" using assms(3) by (intro take_all) linarith
  then have "snprintf_at kbuf i limit t = take i kbuf @ (t @ [CHR 0x00]) @ drop (i + Suc (length t)) kbuf"
    using assms(3) by (simp add: snprintf_at_def Let_def)
  then show "take (i + length t) (snprintf_at kbuf i limit t) = take i kbuf @ t" "length (snprintf_at kbuf i limit t) = 1024"
    using assms(1,2) by simp_all
qed

lemma put_pieces_fit:
  assumes "length kbuf = 1024" and "unat index + length (concat ts) < 256"
  shows "case put_pieces 0 1024 ts (kbuf, index) of (k, i) \<Rightarrow> unat i = unat index + length (concat ts) \<and>
     take (unat i) k = take (unat index) kbuf @ concat ts"
  using assms
proof (induction ts arbitrary: kbuf index)
  case (Cons t ts)
  define k where "k = (if t = [] then kbuf else snprintf_at kbuf (0 + unat index) (int 1024 - int (unat index)) t)"
  have len: "unat index + length t < 256" using Cons.prems(2) by simp
  have i: "unat (index + word_of_nat (length t)) = unat index + length t"
    using len by (simp add: unat_word_ariths unsigned_of_nat take_bit_eq_mod)
  have lim: "int (length t) < 1024 - int (unat index)" "unat index + length t < 1024" using len by linarith+
  have k: "length k = 1024" "take (unat index + length t) k = take (unat index) kbuf @ t"
  proof -
    show "length k = 1024" using snprintf_fits(2) [OF Cons.prems(1) lim(2,1)] Cons.prems(1) unfolding k_def by (cases "t = []") simp_all
    show "take (unat index + length t) k = take (unat index) kbuf @ t"
      using snprintf_fits(1) [OF Cons.prems(1) lim(2,1)] unfolding k_def by (cases "t = []") simp_all
  qed
  have "case put_pieces 0 1024 ts (k, index + word_of_nat (length t)) of (k', i') \<Rightarrow>
      unat i' = unat (index + word_of_nat (length t)) + length (concat ts) \<and>
      take (unat i') k' = take (unat (index + word_of_nat (length t))) k @ concat ts"
    using Cons.prems(2) k(1) i by (intro Cons.IH) simp_all
  then show ?case
    unfolding put_pieces.simps k_def [symmetric] by (auto simp: i k(2) add.assoc split: prod.splits)
qed simp

lemma line_length: "length (concat (line_pieces ''eth2'' v dx)) < 256"
  by (cases v; cases dx) (simp_all add: line_pieces_def speed_text_def newlines_def)



section \<open>Start and end\<close>

lemma init_scan:
  assumes "hw_alloc w" and "hw_bus w"
    and "init_hsgmii_priv (hw_phy w) (zero_priv\<lparr>mii_bus := True\<rparr>, found0) = Some (ok, m, f)"
  shows "airoha_hsgmii_init w (loaded d) =
    Some (0, if ok then start_files w ((loaded d)\<lparr>hs_base := airoha_hsgmii_base_reg_init (hw_7583 w), hs_rate_hook := True, hs_priv := Live m,
                    hs_found := f, hs_aeon := (hs_aeon (loaded d))\<lparr>an8831_dev_all := an8831_table f\<rparr>\<rparr>)
             else (loaded d)\<lparr>hs_base := airoha_hsgmii_base_reg_init (hw_7583 w), hs_rate_hook := True, hs_priv := Freed,
                    hs_found := f, hs_aeon := (hs_aeon (loaded d))\<lparr>an8831_dev_all := an8831_table f\<rparr>\<rparr>)"
  using assms by (simp add: airoha_hsgmii_init_def loaded_def found0_def mem_free_def)

text \<open>When there is no bus or no PHY on it, the start gives the private data back but keeps pointing at them and leaves
  its entry for the rate limit in place; without a PHY it even reports success. Since the driver ends what it
  started whatever the start reported, the data are given back twice.\<close>

theorem start_without_phys:
  assumes "hw_alloc w" and "\<not> hw_bus w \<or> (\<forall>a. hw_phy w a = None)"
  shows "\<exists>r s. airoha_hsgmii_init w (loaded d) = Some (r, s) \<and> (hw_bus w \<longrightarrow> r = 0) \<and> hs_rate_hook s \<and>
    hs_priv s = Freed \<and> airoha_hsgmii_exit s = None"
proof (cases "hw_bus w")
  case True
  then have none: "\<forall>a. hw_phy w a = None" using assms by simp
  then obtain m f where "init_hsgmii_priv (hw_phy w) (zero_priv\<lparr>mii_bus := True\<rparr>, found0) = Some (False, m, f)"
    using scan_exact [of "hw_phy w"] by (auto simp: Let_def)
  from init_scan [OF assms(1) True this, of d] show ?thesis by (simp add: airoha_hsgmii_exit_def mem_free_def)
next
  case False
  then show ?thesis using assms(1) by (simp add: airoha_hsgmii_init_def airoha_hsgmii_exit_def mem_free_def)
qed

theorem start_without_phys_witness:
  "\<exists>r s. airoha_hsgmii_init \<lparr>hw_alloc = True, hw_bus = True, hw_phy = \<lambda>_. None, hw_phy_bus = \<lambda>_. True, hw_7583 = False\<rparr> (loaded (0 :: nat)) =
     Some (r, s) \<and> hs_priv s = Freed \<and> airoha_hsgmii_exit s = None"
  using start_without_phys [of "\<lparr>hw_alloc = True, hw_bus = True, hw_phy = \<lambda>_. None, hw_phy_bus = \<lambda>_. True, hw_7583 = False\<rparr>" 0] by auto

definition aeon_files :: "string set" where
  "aeon_files = {''aeon_speed_mode'', ''aeon_restart_an'', ''aeon_choose_device'', ''aeon_eth_status'', ''aeon_serdes'', ''aeon_phy_enable''}"

lemma aeon_start:
  assumes "an8831_dev_all s = Some p # ds" and "has_bus p"
  shows "proc_dir (snd (an8831_proc_init has_bus s)) = proc_dir s \<union> aeon_files" and "fst (an8831_proc_init has_bus s) = 0"
    and "an8831_dev_all (snd (an8831_proc_init has_bus s)) = an8831_dev_all s"
  using assms by (simp_all add: an8831_proc_init_def an8831_phy_is_empty_def Let_def aeon_files_def upt_rec)

lemma aeon_end:
  assumes "an8831_dev_all s = Some p # ds"
  shows "proc_dir (an8831_proc_exit s) =
    proc_dir s - {''aeon_set_speed_mode'', ''aeon_restart_an'', ''aeon_choose_device'', ''aeon_serdes'', ''aeon_phy_enable''}"
  using assms by (simp add: an8831_proc_exit_def an8831_phy_is_empty_def upt_rec)

text \<open>With an AN8831 the start puts up all control files, but the end leaves two of them behind, the file of the speed,
  which it removes under a name that does not exist, and that of the link state; what they point to is gone. The
  files of the EN8811 and the entry for the rate limit are taken back.\<close>

theorem files_left_behind:
  assumes w: "hw_alloc w" "hw_bus w" "\<And>p. hw_phy_bus w p"
    and phys: "length (filter (\<lambda>a. hw_phy w a \<noteq> None) [28..<32]) \<in> {1, 2}"
  shows "\<exists>s s'. airoha_hsgmii_init w (loaded d) = Some (0, s) \<and> airoha_hsgmii_exit s = Some s' \<and>
    aeon_files \<subseteq> proc_dir (hs_aeon s) \<and> proc_dir (hs_aeon s') = {''aeon_speed_mode'', ''aeon_eth_status''} \<and> \<not> hs_rate_hook s'"
proof -
  let ?here = "filter (\<lambda>a. hw_phy w a \<noteq> None) [28..<32]"
  obtain p ps where here: "?here = p # ps" using phys by (cases ?here) auto
  have "\<exists>a\<in>{28..<32}. hw_phy w a \<noteq> None" using here filter_upt_ne [of "\<lambda>a. hw_phy w a \<noteq> None" 28 32] by simp
  then have ex: "(\<exists>a\<in>{8..15} \<union> {28..31}. hw_phy w a \<noteq> None) = True" by force
  have le: "(length ?here \<le> 2) = True" "?here \<noteq> []" using phys here by auto
  obtain m f where sc: "init_hsgmii_priv (hw_phy w) (zero_priv\<lparr>mii_bus := True\<rparr>, found0) = Some (True, m, f)"
      and f: "an8831_is_exist f" "an8831_table f = take 2 (map Some ?here @ [None, None])"
    using scan_exact [of "hw_phy w", unfolded Let_def ex le(1) if_True] le(2) by auto
  have tab: "an8831_table f = Some p # take 1 (map Some ps @ [None, None])" using f(2) here by (simp add: numeral_2_eq_2)
  define s0 where "s0 = (loaded d)\<lparr>hs_base := airoha_hsgmii_base_reg_init (hw_7583 w), hs_rate_hook := True, hs_priv := Live m,
                    hs_found := f, hs_aeon := (hs_aeon (loaded d))\<lparr>an8831_dev_all := an8831_table f\<rparr>\<rparr>"
  have i: "airoha_hsgmii_init w (loaded d) = Some (0, start_files w s0)"
    using init_scan [OF w(1,2) sc] by (simp add: s0_def)
  define s1 where "s1 = (if en8811_is_exist f then en8811_proc_init s0 else s0)"
  have s1: "an8831_dev_all (hs_aeon s1) = an8831_table f" "proc_dir (hs_aeon s1) = (if en8811_is_exist f then en8811_files else {})"
      "hs_found s1 = f" "hs_priv s1 = Live m"
    by (simp_all add: s1_def s0_def en8811_proc_init_def loaded_def)
  have st: "start_files w s0 = s1\<lparr>hs_aeon := snd (an8831_proc_init (hw_phy_bus w) (hs_aeon s1))\<rparr>"
    using f(1) s1(3) by (simp add: start_files_def s1_def s0_def en8811_proc_init_def Let_def)
  note a = aeon_start [of "hs_aeon s1" p _ "hw_phy_bus w", OF trans [OF s1(1) tab] w(3)]
  define s2 where "s2 = start_files w s0"
  have s2: "proc_dir (hs_aeon s2) = proc_dir (hs_aeon s1) \<union> aeon_files" "an8831_dev_all (hs_aeon s2) = an8831_table f"
      "hs_found s2 = f" "hs_priv s2 = Live m"
    using a s1 by (simp_all add: s2_def st)
  have "en8811_files \<inter> aeon_files = {}" by (simp add: en8811_files_def aeon_files_def)
  moreover define s3 where "s3 = (if en8811_is_exist f then en8811_proc_exit (s2\<lparr>hs_rate_hook := False, hs_priv := Freed\<rparr>)
                                   else s2\<lparr>hs_rate_hook := False, hs_priv := Freed\<rparr>)"
  ultimately have s3: "proc_dir (hs_aeon s3) = aeon_files" "an8831_dev_all (hs_aeon s3) = an8831_table f" "\<not> hs_rate_hook s3"
    using s1(2) s2 by (auto simp: en8811_proc_exit_def)
  have "airoha_hsgmii_exit s2 = Some (s3\<lparr>hs_aeon := an8831_proc_exit (hs_aeon s3)\<rparr>)"
    using s2(3,4) f(1) by (simp add: airoha_hsgmii_exit_def mem_free_def s3_def Let_def en8811_proc_exit_def)
  moreover have "proc_dir (an8831_proc_exit (hs_aeon s3)) = {''aeon_speed_mode'', ''aeon_eth_status''}"
    unfolding aeon_end [OF trans [OF s3(2) tab]] s3(1) by (auto simp: aeon_files_def)
  ultimately show ?thesis
    using i s2(1) s3(3) by (auto simp: s2_def intro!: exI)
qed

theorem files_left_behind_witness:
  "\<exists>s s'. airoha_hsgmii_init \<lparr>hw_alloc = True, hw_bus = True, hw_phy = \<lambda>a. if a = 31 then Some 1 else None, hw_phy_bus = \<lambda>_. True,
       hw_7583 = False\<rparr> (loaded (0 :: nat)) = Some (0, s) \<and> airoha_hsgmii_exit s = Some s' \<and>
     proc_dir (hs_aeon s') = {''aeon_speed_mode'', ''aeon_eth_status''}"
  using files_left_behind [of "\<lparr>hw_alloc = True, hw_bus = True, hw_phy = \<lambda>a. if a = 31 then Some 1 else None, hw_phy_bus = \<lambda>_. True,
       hw_7583 = False\<rparr>" 0] by (auto simp: upt_rec)

end
