(* ===== verification/Scan.thy ===== *)
theory Scan
  imports Prelude
begin

text \<open>
  How the kernel reads the text that is written to a file: \<^verbatim>\<open>sscanf\<close> on the conversions the driver uses, and
  \<^verbatim>\<open>kstrtoint\<close>. A conversion that fails ends the scan, so that the result has one argument for each conversion
  before it.
\<close>

abbreviation ERANGE :: int where "ERANGE \<equiv> 34"

text \<open>The buffer of a write as a C string: it ends at the first null byte.\<close>

definition line_of :: "string \<Rightarrow> string" where
  "line_of buf = takeWhile (\<lambda>c. c \<noteq> CHR 0x00) buf"

definition isspace :: "char \<Rightarrow> bool" where
  "isspace c = (let n = of_char c :: nat in 9 \<le> n \<and> n \<le> 13 \<or> n = 32 \<or> n = 160)"

definition isdigit :: "char \<Rightarrow> bool" where
  "isdigit c = (let n = of_char c :: nat in 48 \<le> n \<and> n \<le> 57)"

definition decimal :: "string \<Rightarrow> nat" where
  "decimal = foldl (\<lambda>n c. 10 * n + (of_char c - 48)) 0"

text \<open>A blank of the format skips space, \<open>Sc w\<close> is \<^verbatim>\<open>%ws\<close>, \<open>Uc w\<close> is \<^verbatim>\<open>%wu\<close> and \<open>Cc\<close> is \<^verbatim>\<open>%c\<close>.\<close>

datatype conv = Blank | Sc nat | Uc nat | Cc

datatype arg = ArgS string | ArgU u32 | ArgC char

fun sscanf :: "conv list \<Rightarrow> string \<Rightarrow> arg list" where
  "sscanf [] s = []"
| "sscanf (Blank # f) s = sscanf f (dropWhile isspace s)"
| "sscanf (Sc w # f) s =
     (if s = [] then []
      else let t = dropWhile isspace s; x = takeWhile (\<lambda>c. \<not> isspace c) (take w t)
           in ArgS x # sscanf f (drop (length x) t))"
| "sscanf (Uc w # f) s =
     (let t = dropWhile isspace s; x = takeWhile isdigit (take w t)
      in if x = [] then [] else ArgU (word_of_nat (decimal x)) # sscanf f (drop (length x) t))"
| "sscanf (Cc # f) s = (case s of [] \<Rightarrow> [] | c # t \<Rightarrow> ArgC c # sscanf f t)"

text \<open>\<^verbatim>\<open>kstrtoint\<close> of base 10: an optional sign, digits, an optional newline, nothing else.\<close>

definition kstrtoint :: "string \<Rightarrow> int + int" where
  "kstrtoint s =
     (let neg = (take 1 s = ''-''); t = (if take 1 s \<in> {''-'', ''+''} then drop 1 s else s);
          x = takeWhile isdigit t; v = int (decimal x)
      in if x = [] then Inl (- EINVAL) else if 2 ^ 64 \<le> v then Inl (- ERANGE)
         else if drop (length x) t \<notin> {[], [CHR 0x0A]} then Inl (- EINVAL)
         else let z = (if neg then - v else v) in if - (2 ^ 31) \<le> z \<and> z < 2 ^ 31 then Inr z else Inl (- ERANGE))"

section \<open>Words on a line\<close>

text \<open>A word that fits its conversion is read whole, and the scan goes on behind it.\<close>

lemma takeWhile_word:
  assumes "\<forall>c\<in>set x. P c" and "length x \<le> w" and "s = [] \<or> \<not> P (hd s)"
  shows "takeWhile P (take w (x @ s)) = x"
proof -
  have "takeWhile P (take (w - length x) s) = []"
    using assms(3) by (cases s; cases "w - length x") auto
  then show ?thesis using assms(1,2) by (simp add: takeWhile_append2)
qed

lemma dropWhile_word: "x \<noteq> [] \<Longrightarrow> \<forall>c\<in>set x. \<not> isspace c \<Longrightarrow> dropWhile isspace (x @ s) = x @ s"
  by (cases x) auto

lemma sscanf_word:
  assumes "x \<noteq> []" and "\<forall>c\<in>set x. \<not> isspace c" and "length x \<le> w" and "s = [] \<or> isspace (hd s)"
  shows "sscanf (Sc w # f) (x @ s) = ArgS x # sscanf f s"
  using takeWhile_word [of x "\<lambda>c. \<not> isspace c" w s] dropWhile_word assms by (simp add: Let_def)

lemma digit_not_space: "isdigit c \<Longrightarrow> \<not> isspace c"
  by (auto simp: isdigit_def isspace_def Let_def)

lemma sscanf_number:
  assumes "x \<noteq> []" and "\<forall>c\<in>set x. isdigit c" and "length x \<le> w" and "s = [] \<or> isspace (hd s)"
  shows "sscanf (Uc w # f) (x @ s) = ArgU (word_of_nat (decimal x)) # sscanf f s"
proof -
  have "s = [] \<or> \<not> isdigit (hd s)" "\<forall>c\<in>set x. \<not> isspace c"
    using assms(2,4) digit_not_space by blast+
  then show ?thesis
    using takeWhile_word [OF assms(2,3)] dropWhile_word [OF assms(1)] assms(1) by (simp add: Let_def)
qed

lemma sscanf_blank: "s \<noteq> [] \<Longrightarrow> \<not> isspace (hd s) \<Longrightarrow> sscanf (Blank # f) (CHR '' '' # s) = sscanf f s"
  by (cases s) (simp_all add: isspace_def)

end
