(* ===== verification/MeterIdx.thy ===== *)
theory MeterIdx
  imports QdmaTrtcm Soc Scan
begin

text \<open>
  Which meter a flow is bound to, \<^verbatim>\<open>airoha/arht_dp_api.c\<close>, and the files with which the limits behind those meters are
  set, \<^verbatim>\<open>airoha/arht_dp_api_debugfs.c\<close>. A flow to or from a port of the PON has the meter of its GEM port, a flow of
  a LAN port the meter of that port, each only while a limit is set. Devices are those of the kernel: what the code
  looks at of them is the record \<open>net_env\<close>.
\<close>

section \<open>Packets and devices\<close>

text \<open>What the choice of a meter reads of a packet, the device it leaves by among them, and of the port information.\<close>

record 'n skb =
  sk_iif :: nat
  sk_mark :: u32
  sk_dev :: "'n option"

record port_info =
  pi_tsid :: u8
  pi_stag :: u16

text \<open>The kernel's devices \<open>'n\<close> and the driver's \<open>'g\<close>. \<open>by_index\<close> finds a device and counts a reference to it,
  \<open>conduit_user\<close> is \<^verbatim>\<open>dsa_conduit_find_user\<close>, which does not count one. \<open>eth_ports\<close> is the driver's table of ports with
  their devices, \<open>None\<close> being a null pointer, and \<open>g_qdma\<close> the number of the transmit engine of a device.\<close>

record ('n, 'g) net_env =
  by_index :: "nat \<Rightarrow> 'n option"
  conduit_user :: "'n \<Rightarrow> nat \<Rightarrow> 'n option"
  nd_name :: "'n \<Rightarrow> string"
  nd_dsa :: "'n \<Rightarrow> bool"
  nd_vlan_real :: "'n \<Rightarrow> 'n option"
  nd_priv :: "'n \<Rightarrow> 'g"
  g_qdma :: "'g \<Rightarrow> nat"
  eth_ports :: "'g option list option list"

text \<open>The ports of the packet engine, as the upstream driver numbers them.\<close>

record pse_ports =
  PSE_CDM1 :: u8
  PSE_CDM2 :: u8
  PSE_CDM4 :: u8
  PSE_GDM1 :: u8
  PSE_GDM2 :: u8
  PSE_GDM3 :: u8
  PSE_GDM4 :: u8

section \<open>The limits that are set\<close>

text \<open>The two transmit engines, and for which GEM ports and, per direction, which LAN ports a limit is set.\<close>

record 'd limits =
  lim_qdma :: "nat \<Rightarrow> 'd"
  gemport_ratelimit_enable :: "nat \<Rightarrow> bool"
  lan_ratelimit_enable :: "nat \<Rightarrow> nat \<Rightarrow> bool"
  gemport_ratelimit_flag :: bool

definition dev_meter_map :: "(string \<times> nat) list" where
  "dev_meter_map = [(''lan1'', 0), (''lan2'', 1), (''lan3'', 2), (''lan4'', 3), (''eth2'', 4), (''eth3'', 5), (''eth4'', 6), (''eth5'', 7)]"

definition get_meter_idx_by_gemport :: "pse_ports \<Rightarrow> bool \<Rightarrow> (nat \<Rightarrow> bool) \<Rightarrow> ('n, 'z) skb_scheme \<Rightarrow> 'q port_info_scheme \<Rightarrow> u8 \<Rightarrow> u32" where
  "get_meter_idx_by_gemport P meter_enable enable k pinfo fp =
     (if meter_enable then
        let idx = (if fp = PSE_GDM2 P then ucast (pi_tsid pinfo) else drop_bit 26 (sk_mark k AND 0xFC000000) :: u32)
        in if 31 < idx then 0x7F else if \<not> enable (unat idx) then 0x7F else idx + 32
      else 0x7F)"

definition airoha_ppe_is_pon_dev :: "('n, 'g) net_env \<Rightarrow> 'n option \<Rightarrow> bool" where
  "airoha_ppe_is_pon_dev N dev =
     (case dev of None \<Rightarrow> False
      | Some n \<Rightarrow> take 3 (nd_name N (case nd_vlan_real N n of None \<Rightarrow> n | Some r \<Rightarrow> r)) = ''pon'')"

text \<open>The outer \<open>None\<close>: a port that does not exist is used.\<close>

definition airoha_ppe_get_gdm_dev :: "('n, 'g) net_env \<Rightarrow> 'n \<Rightarrow> 'g option option" where
  "airoha_ppe_get_gdm_dev N n =
     (if airoha_ppe_is_pon_dev N (Some n)
      then (case eth_ports N ! 1 of None \<Rightarrow> None | Some devs \<Rightarrow> Some (hd devs))
      else Some (Some (nd_priv N n)))"

definition arht_is_valid_gdm_dev :: "('n, 'g) net_env \<Rightarrow> 'g option \<Rightarrow> bool" where
  "arht_is_valid_gdm_dev N dev \<longleftrightarrow> (\<exists>p\<in>set (eth_ports N). case p of None \<Rightarrow> False | Some devs \<Rightarrow> dev \<in> set devs)"

text \<open>The LAN device of a flow, and whether a reference to it will be given back.\<close>

definition meter_lan_dev ::
  "('n, 'g) net_env \<Rightarrow> pse_ports \<Rightarrow> ('n, 'z) skb_scheme \<Rightarrow> 'q port_info_scheme \<Rightarrow> u8 \<Rightarrow> ('n \<Rightarrow> int) \<Rightarrow> ('n option \<times> bool \<times> ('n \<Rightarrow> int)) option" where
  "meter_lan_dev N P k pinfo fp refs =
     (if fp = PSE_GDM2 P then
        (if sk_iif k \<noteq> 0
         then (case by_index N (sk_iif k) of None \<Rightarrow> Some (None, False, refs) | Some n \<Rightarrow> Some (Some n, True, refs(n := refs n + 1)))
         else Some (None, False, refs))
      else if fp = PSE_GDM1 P then
        (case sk_dev k of None \<Rightarrow> None
         | Some c \<Rightarrow>
             (if nd_dsa N c
              then let u = conduit_user N c (LAN_IDX_FROM_TX_SPTAG (pi_stag pinfo)) in Some (u, u \<noteq> None, refs)
              else Some (None, False, refs)))
      else if fp = PSE_GDM3 P \<or> fp = PSE_GDM4 P then Some (sk_dev k, False, refs)
      else Some (None, False, refs))"

text \<open>The direction: the transmit engine of the device the flow leaves by, 1 when that is not one of the driver's.\<close>

definition meter_dir :: "('n, 'g) net_env \<Rightarrow> ('n, 'z) skb_scheme \<Rightarrow> nat option" where
  "meter_dir N k =
     (case sk_dev k of None \<Rightarrow> Some 1
      | Some n \<Rightarrow>
          (case airoha_ppe_get_gdm_dev N n of None \<Rightarrow> None
           | Some g \<Rightarrow>
               (if \<not> arht_is_valid_gdm_dev N g then Some 1
                else case g of None \<Rightarrow> None | Some g \<Rightarrow> Some (if 2 \<le> g_qdma N g then 0 else g_qdma N g))))"

definition get_meter_idx_by_lan ::
  "('n, 'g) net_env \<Rightarrow> pse_ports \<Rightarrow> bool \<Rightarrow> (nat \<Rightarrow> nat \<Rightarrow> bool) \<Rightarrow> ('n, 'z) skb_scheme \<Rightarrow> 'q port_info_scheme \<Rightarrow> u8 \<Rightarrow> ('n \<Rightarrow> int)
     \<Rightarrow> (nat \<times> ('n \<Rightarrow> int)) option" where
  "get_meter_idx_by_lan N P meter_enable enable k pinfo fp refs =
     (if \<not> meter_enable then Some (0x1F, refs)
      else do {
        (lan_dev, need_put, refs) \<leftarrow> meter_lan_dev N P k pinfo fp refs;
        case lan_dev of None \<Rightarrow> Some (0x1F, refs)
        | Some n \<Rightarrow> do {
            dir \<leftarrow> meter_dir N k;
            let idx = (case find (\<lambda>i. fst (dev_meter_map ! i) = nd_name N n \<and> enable dir i) [0..<length dev_meter_map] of
                         None \<Rightarrow> 0x1F | Some i \<Rightarrow> snd (dev_meter_map ! i))
            in Some (idx, if need_put then refs(n := refs n - 1) else refs) } })"

section \<open>The files\<close>

text \<open>Formats of the commands: a verb, an engine or direction, an index or a name, and a value that may be missing.\<close>

definition ring_format :: "conv list" where
  "ring_format = [Sc 15, Blank, Uc 10, Blank, Uc 10, Blank, Uc 10, Blank]"

definition lan_format :: "conv list" where
  "lan_format = [Sc 15, Blank, Uc 10, Blank, Sc 15, Blank, Uc 10, Blank]"

definition set_limit ::
  "(nat \<Rightarrow> 'd qdma_env) \<Rightarrow> (nat \<Rightarrow> trtcm_cfg) \<Rightarrow> nat \<Rightarrow> u8 \<Rightarrow> u32 \<Rightarrow> u32 \<Rightarrow> 'd limits \<Rightarrow> (int \<times> 'd limits) option" where
  "set_limit env g dir group_id meter_idx v s =
     do { (r1, d) \<leftarrow> airoha_dp_api_qdma_set_meter_cfg (env dir) (g dir) group_id meter_idx v (lim_qdma s dir);
          (r2, d) \<leftarrow> airoha_dp_api_qdma_set_meter_value (env dir) (g dir) (push_bit 8 (ucast group_id) OR meter_idx) v d;
          Some (r1 OR r2, s\<lparr>lim_qdma := (lim_qdma s)(dir := d)\<rparr>) }"

definition get_limit ::
  "(nat \<Rightarrow> 'd qdma_env) \<Rightarrow> (nat \<Rightarrow> trtcm_cfg) \<Rightarrow> nat \<Rightarrow> u32 \<Rightarrow> 'd limits \<Rightarrow> int \<times> 'd limits" where
  "get_limit env g dir idx s =
     (let (r, d) = airoha_dp_api_qdma_get_meter_value (env dir) (g dir) idx (lim_qdma s dir)
      in (r, s\<lparr>lim_qdma := (lim_qdma s)(dir := d)\<rparr>))"

definition done_or_invalid :: "string \<Rightarrow> int \<times> 'd limits \<Rightarrow> int \<times> 'd limits" where
  "done_or_invalid buf r = ((if fst r < 0 then - EINVAL else int (length buf)), snd r)"

text \<open>A missing ring index is whatever the variable \<open>ring0\<close> held.\<close>

definition airoha_rxring_limit_value_write ::
  "u32 \<Rightarrow> (nat \<Rightarrow> 'd qdma_env) \<Rightarrow> (nat \<Rightarrow> trtcm_cfg) \<Rightarrow> bool \<Rightarrow> string \<Rightarrow> 'd limits \<Rightarrow> (int \<times> 'd limits) option" where
  "airoha_rxring_limit_value_write ring0 env g ok buf s =
     (if 64 \<le> length buf then Some (- EINVAL, s) else if \<not> ok then Some (- EFAULT, s)
      else
        let cmd = (case sscanf ring_format (line_of buf) of
                     [ArgS f, ArgU q] \<Rightarrow> Some (f, unat q, ring0, 0)
                   | [ArgS f, ArgU q, ArgU i] \<Rightarrow> Some (f, unat q, i, 0)
                   | [ArgS f, ArgU q, ArgU i, ArgU v] \<Rightarrow> Some (f, unat q, i, v)
                   | _ \<Rightarrow> None)
        in case cmd of None \<Rightarrow> Some (- EINVAL, s)
           | Some (f, q, i, v) \<Rightarrow>
               (if 1 < q \<or> 32 \<le> i then Some (- EINVAL, s)
                else if f = ''set'' then do {
                  (r, d) \<leftarrow> airoha_dp_api_qdma_set_meter_value (env q) (g q) i v (lim_qdma s q);
                  Some (done_or_invalid buf (r, s\<lparr>lim_qdma := (lim_qdma s)(q := d)\<rparr>)) }
                else if f = ''get'' then Some (done_or_invalid buf (get_limit env g q i s))
                else Some (- EINVAL, s)))"

text \<open>The meter is that of the first GEM port whichever was named.\<close>

definition set_gemport_limit :: "(nat \<Rightarrow> 'd qdma_env) \<Rightarrow> (nat \<Rightarrow> trtcm_cfg) \<Rightarrow> nat \<Rightarrow> u32 \<Rightarrow> u32 \<Rightarrow> 'd limits \<Rightarrow> (int \<times> 'd limits) option" where
  "set_gemport_limit env g dir meter_idx v s =
     do { (r, s) \<leftarrow> set_limit env g dir 0 meter_idx v s;
          let gem = unat (meter_idx - 32);
              s = (if 0 < v \<and> r = 0
                   then s\<lparr>gemport_ratelimit_enable := (gemport_ratelimit_enable s)(gem := True), gemport_ratelimit_flag := False\<rparr> else s);
              s = (if v = 0
                   then s\<lparr>gemport_ratelimit_enable := (gemport_ratelimit_enable s)(gem := False), gemport_ratelimit_flag := True\<rparr> else s)
          in Some (r, s) }"

definition gemport_command :: "arg list \<Rightarrow> (string \<times> u32 \<times> u32 \<times> u32) option" where
  "gemport_command args =
     (case args of
        [ArgS f, ArgU dir, ArgU i] \<Rightarrow> Some (f, dir, i, 0)
      | [ArgS f, ArgU dir, ArgU i, ArgU v] \<Rightarrow> Some (f, dir, i, v)
      | _ \<Rightarrow> None)"

definition airoha_gemport_ratelimit_value_write ::
  "(nat \<Rightarrow> 'd qdma_env) \<Rightarrow> (nat \<Rightarrow> trtcm_cfg) \<Rightarrow> bool \<Rightarrow> string \<Rightarrow> 'd limits \<Rightarrow> (int \<times> 'd limits) option" where
  "airoha_gemport_ratelimit_value_write env g ok buf s =
     (if 64 \<le> length buf then Some (- EINVAL, s) else if \<not> ok then Some (- EFAULT, s)
      else case gemport_command (sscanf ring_format (line_of buf)) of None \<Rightarrow> Some (- EINVAL, s)
           | Some (f, dir, gemport_idx, v) \<Rightarrow>
               (if \<not> (dir \<le> 1 \<and> gemport_idx \<le> 31) then Some (- EINVAL, s)
                else let meter_idx = 0 + 32 in
                  if f = ''set'' then map_option (done_or_invalid buf) (set_gemport_limit env g (unat dir) meter_idx v s)
                  else if f = ''get'' then Some (done_or_invalid buf (get_limit env g (unat dir) meter_idx s))
                  else Some (- EINVAL, s)))"

text \<open>A name that is not in the map leaves the index at 0.\<close>

definition lan_meter :: "string \<Rightarrow> nat" where
  "lan_meter name = (case map_of dev_meter_map name of None \<Rightarrow> 0 | Some i \<Rightarrow> i)"

definition set_lan_limit :: "(nat \<Rightarrow> 'd qdma_env) \<Rightarrow> (nat \<Rightarrow> trtcm_cfg) \<Rightarrow> nat \<Rightarrow> nat \<Rightarrow> u32 \<Rightarrow> 'd limits \<Rightarrow> (int \<times> 'd limits) option" where
  "set_lan_limit env g dir m v s =
     do { (r, s) \<leftarrow> set_limit env g dir 1 (word_of_nat m) v s;
          let s = (if 0 < v \<and> r = 0
                   then s\<lparr>lan_ratelimit_enable := (lan_ratelimit_enable s)(dir := (lan_ratelimit_enable s dir)(m := True))\<rparr> else s);
              s = (if v = 0
                   then s\<lparr>lan_ratelimit_enable := (lan_ratelimit_enable s)(dir := (lan_ratelimit_enable s dir)(m := False))\<rparr> else s)
          in Some (r, s) }"

definition lan_command :: "arg list \<Rightarrow> (string \<times> nat \<times> string \<times> u32) option" where
  "lan_command args =
     (case args of
        [ArgS f, ArgU dir, ArgS name] \<Rightarrow> Some (f, unat dir, name, 0)
      | [ArgS f, ArgU dir, ArgS name, ArgU v] \<Rightarrow> Some (f, unat dir, name, v)
      | _ \<Rightarrow> None)"

definition airoha_lan_ratelimit_value_write ::
  "(nat \<Rightarrow> 'd qdma_env) \<Rightarrow> (nat \<Rightarrow> trtcm_cfg) \<Rightarrow> bool \<Rightarrow> string \<Rightarrow> 'd limits \<Rightarrow> (int \<times> 'd limits) option" where
  "airoha_lan_ratelimit_value_write env g ok buf s =
     (if 64 \<le> length buf then Some (- EINVAL, s) else if \<not> ok then Some (- EFAULT, s)
      else case lan_command (sscanf lan_format (line_of buf)) of None \<Rightarrow> Some (- EINVAL, s)
           | Some (f, dir, name, v) \<Rightarrow>
               (if name = [] then Some (- EINVAL, s)
                else if 2 \<le> dir then Some (- EINVAL, s)
                else if f = ''set'' then map_option (done_or_invalid buf) (set_lan_limit env g dir (lan_meter name) v s)
                else if f = ''get'' then Some (done_or_invalid buf (get_limit env g dir (push_bit 8 1 OR word_of_nat (lan_meter name)) s))
                else Some (- EINVAL, s)))"

section \<open>Switches\<close>

text \<open>The threshold in megabits; a number may have a unit.\<close>

definition strip_end :: "string \<Rightarrow> string" where
  "strip_end s = rev (dropWhile isspace (rev s))"

definition airoha_fast_threshold_write :: "bool \<Rightarrow> string \<Rightarrow> u32 \<Rightarrow> int \<times> u32" where
  "airoha_fast_threshold_write ok buf thr =
     (if 31 < length buf then (- EINVAL, thr) else if \<not> ok then (- EFAULT, thr)
      else case sscanf [Uc 10, Cc] (strip_end (line_of buf)) of
             [ArgU v] \<Rightarrow> (int (length buf), v)
           | [ArgU v, ArgC u] \<Rightarrow>
               (if u = CHR ''M'' \<or> u = CHR ''m'' then (int (length buf), v)
                else if u = CHR ''G'' \<or> u = CHR ''g'' then (int (length buf), v * 1000)
                else (- EINVAL, thr))
           | _ \<Rightarrow> (- EINVAL, thr))"

text \<open>The files of the transparent mode and of the switch's multicast flooding have the same text.\<close>

definition switch_write :: "bool \<Rightarrow> string \<Rightarrow> bool \<Rightarrow> int \<times> bool" where
  "switch_write ok buf on =
     (if 64 \<le> length buf then (- EINVAL, on) else if \<not> ok then (- EFAULT, on)
      else case sscanf [Sc 15] (line_of buf) of
             [ArgS w] \<Rightarrow> (if w = ''enable'' then (int (length buf), True)
                         else if w = ''disable'' then (int (length buf), False) else (- EINVAL, on))
           | _ \<Rightarrow> (- EINVAL, on))"

definition airoha_packet_transparent_mode_write :: "bool \<Rightarrow> string \<Rightarrow> bool \<Rightarrow> int \<times> bool" where
  "airoha_packet_transparent_mode_write ok buf packet_is_transparent_mode = switch_write ok buf packet_is_transparent_mode"

definition airoha_switch_set_mfc_write :: "bool \<Rightarrow> string \<Rightarrow> bool \<Rightarrow> int \<times> bool" where
  "airoha_switch_set_mfc_write ok buf switch_set_mfc_enable = switch_write ok buf switch_set_mfc_enable"

definition airoha_pon_serdes_mode_write :: "bool \<Rightarrow> string \<Rightarrow> int \<Rightarrow> int \<times> int" where
  "airoha_pon_serdes_mode_write ok buf g_pon_serdes_eth =
     (if 32 \<le> length buf then (- EINVAL, g_pon_serdes_eth) else if \<not> ok then (- EFAULT, g_pon_serdes_eth)
      else case kstrtoint (line_of buf) of
             Inl e \<Rightarrow> (e, g_pon_serdes_eth)
           | Inr v \<Rightarrow> (if v < 0 \<or> 1 < v then (- EINVAL, g_pon_serdes_eth) else (int (length buf), v)))"

end
