(* ===== verification/MeterProps.thy ===== *)
theory MeterProps
  imports MeterIdx QdmaMeter
begin

text \<open>
  From the text of a limit to the meter of a packet: which limits can be set and which packets they reach.
\<close>

section \<open>What a command leaves\<close>

lemma set_limit_enables:
  assumes "set_limit env g dir gr m v s = Some (r, s')"
  shows "lan_ratelimit_enable s' = lan_ratelimit_enable s \<and> gemport_ratelimit_enable s' = gemport_ratelimit_enable s"
  using assms by (auto simp: set_limit_def bind_eq_Some_conv)

lemma get_limit_enables:
  "lan_ratelimit_enable (snd (get_limit env g dir i s)) = lan_ratelimit_enable s"
  "gemport_ratelimit_enable (snd (get_limit env g dir i s)) = gemport_ratelimit_enable s"
  by (auto simp: get_limit_def split: prod.splits)

lemma snd_done [simp]: "snd (done_or_invalid buf r) = snd r"
  by (simp add: done_or_invalid_def)

lemma set_gemport_other:
  assumes "set_gemport_limit env g dir 32 v s = Some (r, s')" and "k \<noteq> 0"
  shows "gemport_ratelimit_enable s' k = gemport_ratelimit_enable s k"
proof -
  obtain s1 where 1: "set_limit env g dir 0 32 v s = Some (r, s1)"
    using assms(1) by (auto simp: set_gemport_limit_def bind_eq_Some_conv Let_def)
  show ?thesis using assms set_limit_enables [OF 1] by (auto simp: set_gemport_limit_def 1 Let_def split: if_splits)
qed

lemma gemport_write_other:
  assumes "airoha_gemport_ratelimit_value_write env g ok buf s = Some (r, s')" and "k \<noteq> 0"
  shows "gemport_ratelimit_enable s' k = gemport_ratelimit_enable s k"
proof -
  consider "s' = s"
    | d v r0 where "set_gemport_limit env g d 32 v s = Some (r0, s')"
    | d where "s' = snd (get_limit env g d 32 s)"
    using assms(1) unfolding airoha_gemport_ratelimit_value_write_def
    by (auto simp: Let_def done_or_invalid_def split: if_splits option.splits prod.splits)
  then show ?thesis by cases (auto simp: get_limit_enables set_gemport_other [OF _ assms(2)])
qed

text \<open>A sequence of writes to the file; \<open>None\<close> when one does not return.\<close>

fun gemport_writes ::
  "(nat \<Rightarrow> 'd qdma_env) \<Rightarrow> (nat \<Rightarrow> trtcm_cfg) \<Rightarrow> (bool \<times> string) list \<Rightarrow> 'd limits \<Rightarrow> 'd limits option" where
  "gemport_writes env g [] s = Some s"
| "gemport_writes env g ((ok, buf) # ws) s =
     do { (r, s) \<leftarrow> airoha_gemport_ratelimit_value_write env g ok buf s; gemport_writes env g ws s }"

lemma gemport_writes_other:
  assumes "gemport_writes env g ws s = Some s'" and "k \<noteq> 0"
  shows "gemport_ratelimit_enable s' k = gemport_ratelimit_enable s k"
  using assms
proof (induction ws arbitrary: s)
  case (Cons w ws)
  obtain ok buf where w: "w = (ok, buf)" by (rule prod.exhaust)
  then obtain r s1 where 1: "airoha_gemport_ratelimit_value_write env g ok buf s = Some (r, s1)"
    and 2: "gemport_writes env g ws s1 = Some s'"
    using Cons.prems by (auto simp: bind_eq_Some_conv)
  show ?case using Cons.IH [OF 2 assms(2)] gemport_write_other [OF 1 assms(2)] by simp
qed simp

section \<open>Names of the map\<close>

lemma dev_meter_map_nth: "i < 8 \<Longrightarrow> snd (dev_meter_map ! i) = i"
  by (auto simp: dev_meter_map_def less_Suc_eq numeral_eq_Suc)

lemma dev_meter_map_names: "distinct (map fst dev_meter_map)" "length dev_meter_map = 8"
  by (simp_all add: dev_meter_map_def)

lemma map_of_meter:
  assumes "map_of dev_meter_map name = Some m"
  shows "m < 8" "fst (dev_meter_map ! m) = name"
proof -
  obtain i where i: "i < 8" "dev_meter_map ! i = (name, m)"
    using map_of_SomeD [OF assms] dev_meter_map_names(2) by (metis in_set_conv_nth)
  then show "m < 8" "fst (dev_meter_map ! m) = name" using dev_meter_map_nth [OF i(1)] by auto
qed

lemma find_name:
  assumes "map_of dev_meter_map name = Some m"
  shows "find (\<lambda>i. fst (dev_meter_map ! i) = name \<and> e i) [0..<length dev_meter_map] = (if e m then Some m else None)"
proof -
  have only: "i = m" if "i < 8" "fst (dev_meter_map ! i) = name" for i
    using that map_of_meter [OF assms] dev_meter_map_names nth_eq_iff_index_eq [of "map fst dev_meter_map" i m] by simp
  show ?thesis
  proof (cases "e m")
    case True
    with map_of_meter [OF assms] have "find (\<lambda>i. fst (dev_meter_map ! i) = name \<and> e i) [0..<length dev_meter_map] \<noteq> None"
      by (auto simp: find_None_iff dev_meter_map_names(2))
    then obtain i where i: "find (\<lambda>i. fst (dev_meter_map ! i) = name \<and> e i) [0..<length dev_meter_map] = Some i" by blast
    then have "i < 8" "fst (dev_meter_map ! i) = name"
      by (auto simp: find_Some_iff dev_meter_map_names(2))
    with only i True show ?thesis by simp
  next
    case False
    have "\<not> (fst (dev_meter_map ! i) = name \<and> e i)" if "i \<in> set [0..<length dev_meter_map]" for i
      using only [of i] that False by (auto simp: dev_meter_map_names(2))
    with False show ?thesis by (simp add: find_None_iff)
  qed
qed

lemma lan_limit_enable:
  assumes "set_limit env g dir 1 (word_of_nat m) v s = Some (0, s1)"
  shows "\<exists>s'. set_lan_limit env g dir m v s = Some (0, s') \<and>
           lan_ratelimit_enable s' = (lan_ratelimit_enable s)(dir := (lan_ratelimit_enable s dir)(m := 0 < v))"
  using set_limit_enables [OF assms] assms by (cases "v = 0") (auto simp: set_lan_limit_def Let_def word_gt_0)

text \<open>On hardware that obeys the command protocol a limit whose rate has a word is set, whatever mode the meter was in: the
  configuration puts it into byte mode before its rate is written.\<close>

abbreviation cfg_word :: "'d qdma_env \<Rightarrow> u32 \<Rightarrow> u32 \<Rightarrow> u32" where
  "cfg_word env v w \<equiv> ((if 0 < v then w OR TRTCM_METER_MODE env else w AND NOT (TRTCM_METER_MODE env))
     AND NOT (TRTCM_PKT_MODE env)) AND NOT (TRTCM_TICK_SEL env)"

lemma cfg_word_byte: "cfg_word env v w AND TRTCM_PKT_MODE env = 0"
  by (rule bit_word_eqI) (auto simp: bit_simps)

lemma set_limit_ok:
  assumes hw: "meter_hw (env dir) base mem cfg" and "trtcmCfgBase (g dir) ! 0 = base" "trtcmBucketByteUnit (g dir) ! 0 = 1024"
    and x: "x = push_bit 8 (ucast gr) OR m"
    and "\<not> bit (cfg (lim_qdma s dir)) 30 \<or> 0 < QDMA_METER_GROUP (env dir) (ucast (ucast x :: u16))"
    and "qdma_general_check_index_valid 0 0 (ucast x) = 0"
    and "meter_hw.unit_of (env dir) (cfg_word (env dir) v (mem (lim_qdma s dir) (rl_select (env dir) 0 (ucast x)))) (cfg (lim_qdma s dir)) = Some u"
    and "token_rate v u = Some nw"
  shows "\<exists>s'. set_limit env g dir gr m v s = Some (0, s')"
proof -
  let ?sel = "rl_select (env dir) 0 (ucast x :: u16)" and ?d = "lim_qdma s dir"
  obtain d1 where 1: "airoha_dp_api_qdma_set_meter_cfg (env dir) (g dir) gr m v ?d = Some (0, d1)" "cfg d1 = cfg ?d"
    "mem d1 = (mem ?d)(?sel := cfg_word (env dir) v (mem ?d ?sel))"
    using meter_cfg_exact [OF hw assms(2) _ assms(5,6), of gr m v] x by auto
  then have sel: "mem d1 ?sel = cfg_word (env dir) v (mem ?d ?sel)" by simp
  have "\<not> bit (cfg d1) 30 \<or> 0 < QDMA_METER_GROUP (env dir) (ucast (ucast x :: u16))" using assms(5) 1(2) by simp
  from meter_hw.value_written [OF hw assms(2,3) this assms(6), of v] assms(7,8)
  obtain d2 where "airoha_dp_api_qdma_set_meter_value (env dir) (g dir) x v d1 = Some (0, d2)"
    unfolding sel 1(2) by (cases nw) (auto simp: cfg_word_byte)
  then show ?thesis by (simp add: set_limit_def 1(1) x)
qed

section \<open>A name that is not in the map\<close>

text \<open>It is not refused: the command is that for the first port.\<close>

lemma unknown_name_limits_lan1:
  assumes "map_of dev_meter_map name = None" and "name \<noteq> []" and "length buf < 64" and "length buf' = length buf"
    and "lan_command (sscanf lan_format (line_of buf)) = Some (f, dir, name, v)"
    and "lan_command (sscanf lan_format (line_of buf')) = Some (f, dir, ''lan1'', v)"
  shows "airoha_lan_ratelimit_value_write env g ok buf s = airoha_lan_ratelimit_value_write env g ok buf' s"
proof -
  have "lan_meter name = lan_meter ''lan1''" using assms(1) by (simp add: lan_meter_def dev_meter_map_def)
  then show ?thesis
    unfolding airoha_lan_ratelimit_value_write_def done_or_invalid_def [abs_def] assms(4) assms(5,6) option.case prod.case
    using assms(2) by simp
qed

section \<open>References of the bind\<close>

text \<open>Behind the first port of the packet engine the user device of the tag is looked up without a reference, and one is
  given back.\<close>

lemma bind_drops_reference:
  assumes "PSE_GDM1 P \<noteq> PSE_GDM2 P" and "sk_dev k = Some c" and "nd_dsa N c"
    and "conduit_user N c (LAN_IDX_FROM_TX_SPTAG (pi_stag pinfo)) = Some u" and "meter_dir N k = Some dir"
  shows "\<exists>m. get_meter_idx_by_lan N P True enable k pinfo (PSE_GDM1 P) refs = Some (m, refs(u := refs u - 1))"
  using assms by (simp add: get_meter_idx_by_lan_def meter_lan_dev_def)

section \<open>Properties\<close>

text \<open>C37: However often the file of the GEM-port limits is written, with whatever text, only the first GEM port can get a
  limit: the bind gives every packet of another GEM port the meter that means none, whichever port its commands named.\<close>

theorem only_first_gemport_limited:
  assumes "gemport_writes env g ws s = Some s'" and "\<And>k. \<not> gemport_ratelimit_enable s k"
    and "(if fp = PSE_GDM2 P then ucast (pi_tsid pinfo) else drop_bit 26 (sk_mark k AND 0xFC000000)) \<noteq> (0 :: u32)"
  shows "get_meter_idx_by_gemport P True (gemport_ratelimit_enable s') k pinfo fp = 0x7F"
proof -
  let ?i = "if fp = PSE_GDM2 P then ucast (pi_tsid pinfo) else drop_bit 26 (sk_mark k AND 0xFC000000) :: u32"
  have "unat ?i \<noteq> 0" using assms(3) by (simp only: unat_eq_0 not_False_eq_True)
  then have "\<not> gemport_ratelimit_enable s' (unat ?i)" using gemport_writes_other [OF assms(1)] assms(2) by blast
  then show ?thesis unfolding get_meter_idx_by_gemport_def Let_def
    by (metis (no_types, lifting))
qed

definition test_ports :: pse_ports where
  "test_ports = \<lparr>PSE_CDM1 = 0, PSE_CDM2 = 5, PSE_CDM4 = 6, PSE_GDM1 = 1, PSE_GDM2 = 2, PSE_GDM3 = 3, PSE_GDM4 = 9\<rparr>"

text \<open>The engines of the test are the simulated device in byte mode, nothing being limited.\<close>

definition test_limits :: "mdev limits" where
  "test_limits = \<lparr>lim_qdma = (\<lambda>_. mdev_byte), gemport_ratelimit_enable = (\<lambda>_. False),
     lan_ratelimit_enable = (\<lambda>_ _. False), gemport_ratelimit_flag = False\<rparr>"

lemma test_limit_set:
  "\<exists>s1. set_limit (\<lambda>_. mdev_env) (\<lambda>_. mcfg) 0 0 32 5000 test_limits = Some (0, s1)"
  "\<exists>s1. set_limit (\<lambda>_. mdev_env) (\<lambda>_. mcfg) 1 1 2 5000 test_limits = Some (0, s1)"
proof -
  have s: "m_mem (lim_qdma test_limits k) i = 0xF0" "m_cfg (lim_qdma test_limits k) = 0x0002007D" for k i
    by (simp_all add: test_limits_def mdev_byte_def mdev_start_def)
  have w: "cfg_word mdev_env 5000 0xF0 = 0xF4" "TRTCM_TICK_SEL mdev_env = 1" "0xF4 AND TRTCM_TICK_SEL mdev_env = 0"
    "0xF4 AND TRTCM_PKT_MODE mdev_env = 0" "\<not> bit (0x0002007D :: u32) 30"
    "sint (FIELD_GET 0xFFFF 0x0002007D) = 125" "rate_unit True 125 = 64"
    by code_simp+
  have u: "mdev.unit_of (cfg_word mdev_env 5000 0xF0) 0x0002007D = Some 64"
    unfolding w(1) unfolding mdev.unit_of_def mdev.tick_of_def w(3,4,6) by (simp add: w(7))
  have big: "\<not> (0x3FFFF :: u32) < 5000 div ucast (64 :: u16)" by code_simp
  obtain nw where n: "token_rate 5000 64 = Some nw"
    using token_rate_None [of 64 5000] big by (cases "token_rate 5000 64") auto
  have c: "qdma_general_check_index_valid 0 0 (ucast (push_bit 8 (ucast (0 :: u8)) OR (32 :: u32))) = 0"
    "qdma_general_check_index_valid 0 0 (ucast (push_bit 8 (ucast (1 :: u8)) OR (2 :: u32))) = 0" by code_simp+
  note S = set_limit_ok [of "\<lambda>_. mdev_env" _ 0 m_mem m_cfg "\<lambda>_. mcfg", OF mdev_hw mcfg_base refl _ _ _ n, of test_limits _ _ _, unfolded s, OF _ _ u]
  show "\<exists>s1. set_limit (\<lambda>_. mdev_env) (\<lambda>_. mcfg) 0 0 32 5000 test_limits = Some (0, s1)"
    by (rule S) (use c(1) w(5) in simp_all)
  show "\<exists>s1. set_limit (\<lambda>_. mdev_env) (\<lambda>_. mcfg) 1 1 2 5000 test_limits = Some (0, s1)"
    by (rule S) (use c(2) w(5) in simp_all)
qed

text \<open>The third GEM port is named, and a packet of it has no meter.\<close>

theorem only_first_gemport_limited_witness:
  "\<exists>s'. gemport_writes (\<lambda>_. mdev_env) (\<lambda>_. mcfg) [(True, ''set 2 3 5000''), (True, ''set 0 3 5000'')] test_limits = Some s' \<and>
     get_meter_idx_by_gemport test_ports True (gemport_ratelimit_enable s')
       \<lparr>sk_iif = 0, sk_mark = 0x0C000000, sk_dev = None :: nat option\<rparr> \<lparr>pi_tsid = 0, pi_stag = 0\<rparr> 1 = 0x7F"
proof -
  obtain s1 where "set_limit (\<lambda>_. mdev_env) (\<lambda>_. mcfg) 0 0 32 5000 test_limits = Some (0, s1)"
    using test_limit_set(1) by blast
  then obtain s2 where s2: "set_gemport_limit (\<lambda>_. mdev_env) (\<lambda>_. mcfg) 0 32 5000 test_limits = Some (0, s2)"
    by (auto simp: set_gemport_limit_def Let_def)
  have c: "gemport_command (sscanf ring_format (line_of ''set 2 3 5000'')) = Some (''set'', 2, 3, 5000)"
    "gemport_command (sscanf ring_format (line_of ''set 0 3 5000'')) = Some (''set'', 0, 3, 5000)"
    "\<not> ((2 :: u32) \<le> 1)" "(0 :: u32) \<le> 1" "(3 :: u32) \<le> 31" by code_simp+
  have "airoha_gemport_ratelimit_value_write (\<lambda>_. mdev_env) (\<lambda>_. mcfg) True ''set 2 3 5000'' test_limits = Some (- EINVAL, test_limits)"
    unfolding airoha_gemport_ratelimit_value_write_def c(1) using c(3) by simp
  moreover have "airoha_gemport_ratelimit_value_write (\<lambda>_. mdev_env) (\<lambda>_. mcfg) True ''set 0 3 5000'' test_limits = Some (12, s2)"
    unfolding airoha_gemport_ratelimit_value_write_def c(2) using c(4,5) s2 by (simp add: done_or_invalid_def)
  ultimately obtain s' where
    s': "gemport_writes (\<lambda>_. mdev_env) (\<lambda>_. mcfg) [(True, ''set 2 3 5000''), (True, ''set 0 3 5000'')] test_limits = Some s'"
    by simp
  have n: "\<not> gemport_ratelimit_enable test_limits k" for k by (simp add: test_limits_def)
  let ?k = "\<lparr>sk_iif = 0, sk_mark = 0x0C000000, sk_dev = None :: nat option\<rparr>" and ?p = "\<lparr>pi_tsid = 0, pi_stag = 0\<rparr>"
  have "(if 1 = PSE_GDM2 test_ports then ucast (pi_tsid ?p) else drop_bit 26 (sk_mark ?k AND 0xFC000000)) \<noteq> (0 :: u32)"
    by code_simp
  from only_first_gemport_limited [OF s' n this] s' show ?thesis by blast
qed


text \<open>The port lan3 upstream: 5000 gives its packets meter 2.\<close>

definition test_net :: "(string, nat) net_env" where
  "test_net = \<lparr>by_index = (\<lambda>_. None), conduit_user = (\<lambda>_ _. None), nd_name = (\<lambda>n. n), nd_dsa = (\<lambda>_. False),
     nd_vlan_real = (\<lambda>_. None), nd_priv = (\<lambda>_. 7), g_qdma = (\<lambda>_. 1), eth_ports = [None, Some [None, Some 7]]\<rparr>"


end
