(* ===== verification/PpeBind.thy ===== *)
theory PpeBind
  imports PpeMac MeterIdx
begin

text \<open>
  Binding a flow, \<^verbatim>\<open>airoha/arht_ppe.c\<close>: from a packet that the engine did not know to the entry that lets it forward the
  packets of its flow, and the functions around it that read the packet. An entry is its twenty words; its forms are laid
  out as the structures of \<^verbatim>\<open>patches-6.18/992-20-smartrg-B001\<close> are. The masks of the fields belong to the kernel tree
  and are the record \<open>bind_abi\<close>. Packets have linear data; a read outside of it has no result.
\<close>

section \<open>Words of an entry\<close>

type_synonym foe = "u32 list"

definition put_lo :: "nat \<Rightarrow> u16 \<Rightarrow> foe \<Rightarrow> foe" where
  "put_lo k v e = e[k := (e ! k AND 0xFFFF0000) OR ucast v]"

definition put_hi :: "nat \<Rightarrow> u16 \<Rightarrow> foe \<Rightarrow> foe" where
  "put_hi k v e = e[k := (e ! k AND 0xFFFF) OR push_bit 16 (ucast v)]"

definition or_word :: "nat \<Rightarrow> u32 \<Rightarrow> foe \<Rightarrow> foe" where
  "or_word k v e = e[k := e ! k OR v]"

text \<open>Words of the forms: the actions are word 10 and the meters word 16 in all of them.\<close>

definition ib2_at :: "foe_form \<Rightarrow> nat" where
  "ib2_at f = (case f of F_ipv4 \<Rightarrow> 4 | F_dslite \<Rightarrow> 4 | F_bridge32 \<Rightarrow> 11 | F_ipv6 \<Rightarrow> 11)"

definition l2_at :: "foe_form \<Rightarrow> nat" where
  "l2_at f = (case f of F_ipv4 \<Rightarrow> 11 | F_dslite \<Rightarrow> 11 | F_bridge32 \<Rightarrow> 12 | F_ipv6 \<Rightarrow> 12)"

abbreviation "data_at \<equiv> (10 :: nat)"
abbreviation "meter_at \<equiv> (16 :: nat)"

definition get_l2 :: "nat \<Rightarrow> foe \<Rightarrow> l2_mac" where
  "get_l2 k e = \<lparr>lm_dest_mac_hi = e ! (k + 1), lm_dest_mac_lo = hi16 (e ! (k + 2)), lm_src_mac_hi = e ! (k + 3),
     lm_src_mac_lo = hi16 (e ! (k + 4)), lm_pppoe_id = lo16 (e ! (k + 4))\<rparr>"

definition put_l2 :: "nat \<Rightarrow> l2_mac \<Rightarrow> foe \<Rightarrow> foe" where
  "put_l2 k m e = put_lo (k + 4) (lm_pppoe_id m) (put_hi (k + 4) (lm_src_mac_lo m)
     ((put_hi (k + 2) (lm_dest_mac_lo m) (e[k + 1 := lm_dest_mac_hi m]))[k + 3 := lm_src_mac_hi m]))"

record bind_abi =
  IB1_VLAN_LAYER :: u32
  IB1_VPM :: u32
  IB1_PPPOE :: u32
  IB1_TIMESTAMP :: u32
  IB2_PORT_AG :: u32
  IB2_DSCP :: u32
  IB2_NBQ :: u32
  IB2_PSE_QOS :: u32
  IB2_FAST_PATH :: u32
  M_ACTDP :: u32
  M_QID :: u32
  M_SHAPER_ID :: u32
  M_TUNNEL_MTU :: u32
  M_ACNT_GRP3 :: u32
  M_METER_GRP3 :: u32
  M_METER_GRP2 :: u32
  M_PPPOE_ID :: u32
  HIT_UNBIND_RATE :: u32

definition entry_type :: "foe_abi \<Rightarrow> foe \<Rightarrow> u32" where
  "entry_type a e = FIELD_GET (IB1_BIND_PACKET_TYPE a) (e ! 0)"

definition entry_state :: "foe_abi \<Rightarrow> foe \<Rightarrow> u32" where
  "entry_state a e = FIELD_GET (IB1_BIND_STATE a) (e ! 0)"

definition IS_IPV4_GRP :: "foe_abi \<Rightarrow> foe \<Rightarrow> bool" where
  "IS_IPV4_GRP a e \<longleftrightarrow> entry_type a e \<in> {TYPE_IPV4_HNAPT a, TYPE_IPV4_ROUTE a, TYPE_IPV4_DSLITE a}"

definition IS_IPV6_GRP :: "foe_abi \<Rightarrow> foe \<Rightarrow> bool" where
  "IS_IPV6_GRP a e \<longleftrightarrow> entry_type a e \<in> {TYPE_IPV6_ROUTE_3T a, TYPE_IPV6_ROUTE_5T a, TYPE_IPV6_6RD a}"

section \<open>Packets\<close>

text \<open>\<open>pk_before\<close> are the fourteen bytes in front of the data, \<open>pk_len\<close> the length with the parts that are not linear,
  \<open>pk_net\<close> the linear bytes from the network header on and \<open>pk_mac\<close> those from the MAC header on, when it was set.
  \<open>pk_hash\<close> is what \<^verbatim>\<open>skb_get_hash\<close> gives.\<close>

record 'n pkt = "'n skb" +
  pk_data :: "u8 list"
  pk_before :: "u8 list"
  pk_len :: nat
  pk_net :: "u8 list"
  pk_mac :: "u8 list option"
  pk_hash :: u32
  pk_l4_hash :: bool
  pk_sw_hash :: bool
  pk_sock :: bool
  pk_inner :: u16

record port = port_info +
  po_channel :: u8
  po_nbq :: u8
  po_fast :: bool
  po_txq :: u8
  po_magic :: u16
  po_udf :: u8

definition FOE_ENTRY_NUM :: "'n pkt \<Rightarrow> nat" where
  "FOE_ENTRY_NUM k = unat (pk_hash k AND 0xFFFF)"

definition is_Valid_Foe_Entry :: "('e, 'd) ppe_env \<Rightarrow> 'n pkt \<Rightarrow> bool" where
  "is_Valid_Foe_Entry env k \<longleftrightarrow>
     \<not> (sram_entries env \<le> FOE_ENTRY_NUM k \<or> \<not> pk_l4_hash k \<or> pk_sw_hash k \<or> pk_sock k)"

definition get_entry_cpu_reason :: "('e, 'd) ppe_env \<Rightarrow> 'n pkt \<Rightarrow> int" where
  "get_entry_cpu_reason env k = (if \<not> is_Valid_Foe_Entry env k then - 1 else uint (drop_bit 27 (pk_hash k)))"

definition set_entry_cpu_reason :: "u32 \<Rightarrow> 'n pkt \<Rightarrow> 'n pkt" where
  "set_entry_cpu_reason reason k = k\<lparr>pk_hash := masked (pk_hash k) 0xF8000000 (push_bit 27 (reason AND 0x1F))\<rparr>"

text \<open>Sixteen and thirty-two bits of the data in network order.\<close>

definition at16 :: "u8 list \<Rightarrow> nat \<Rightarrow> u16 option" where
  "at16 bs i = (if length bs < i + 2 then None else Some (get_be16 (drop i bs)))"

definition at32 :: "u8 list \<Rightarrow> nat \<Rightarrow> u32 option" where
  "at32 bs i = (if length bs < i + 4 then None else Some (get_be32 (drop i bs)))"

definition airoha_ppe_is_vlan_proto :: "u16 \<Rightarrow> bool" where
  "airoha_ppe_is_vlan_proto etype \<longleftrightarrow> etype \<in> {0x8100, 0x88a8, 0x9100, 0x884c}"

text \<open>The tags from the Ethernet type on, at most \<open>n\<close> of them.\<close>

fun vlan_tags :: "nat \<Rightarrow> u8 list \<Rightarrow> u16 list" where
  "vlan_tags 0 p = []"
| "vlan_tags (Suc n) p =
     (if length p < 4 then []
      else if airoha_ppe_is_vlan_proto (get_be16 p) then get_be16 (drop 2 p) # vlan_tags n (drop 4 p) else [])"

abbreviation "MAX_VLAN_DEPTH \<equiv> (5 :: nat)"

definition nth_or_0 :: "u16 list \<Rightarrow> nat \<Rightarrow> u16" where
  "nth_or_0 ts i = (if i < length ts then ts ! i else 0)"

definition airoha_ppe_foe_get_vlan_info :: "('e, 'd) ppe_env \<Rightarrow> (nat \<Rightarrow> nat) \<Rightarrow> 'n pkt \<Rightarrow> int \<times> nat \<times> u16 \<times> u16" where
  "airoha_ppe_foe_get_vlan_info env vlan_count k =
     (if sram_entries env \<le> FOE_ENTRY_NUM k then (0, 0, 0, 0)
      else let ts = vlan_tags MAX_VLAN_DEPTH (drop 12 (pk_data k))
           in if MAX_VLAN_DEPTH \<le> length ts \<or> MAX_VLAN_DEPTH \<le> vlan_count (FOE_ENTRY_NUM k)
              then (- EINVAL, 0, nth_or_0 ts 0, nth_or_0 ts 1)
              else (0, length ts, nth_or_0 ts 0, nth_or_0 ts 1))"

definition airoha_ppe_foe_get_vlan_vpm :: "'n pkt \<Rightarrow> u32 option" where
  "airoha_ppe_foe_get_vlan_vpm k =
     map_option (\<lambda>t. if airoha_ppe_is_vlan_proto t then (if t = 0x88a8 then 2 else 1) else 0) (at16 (pk_data k) 12)"

definition ppe_set_vlan_info :: "('e, 'd) ppe_env \<Rightarrow> bind_abi \<Rightarrow> (nat \<Rightarrow> nat) \<Rightarrow> 'n pkt \<Rightarrow> foe \<Rightarrow> foe" where
  "ppe_set_vlan_info env B vlan_count k e =
     (let a = p_abi env in
      if entry_state a e = STATE_BIND a then e
      else
        let (_, vn, vid1, vid2) = airoha_ppe_foe_get_vlan_info env vlan_count k;
            e = e[0 := masked (e ! 0) (IB1_VLAN_LAYER B OR IB1_VPM B)
                   (FIELD_PREP (IB1_VLAN_LAYER B) (word_of_nat vn) OR FIELD_PREP (IB1_VPM B) (if vn = 0 then 0 else 1))];
            tags = (\<lambda>l. put_lo (l + 2) vid2 (put_lo l vid1 e))
        in if IS_IPV4_GRP a e then tags 11 else if IS_IPV6_GRP a e then tags 12
           else if entry_type a e = TYPE_BRIDGE a then tags 11 else e)"

text \<open>Does the packet belong to the flow of the entry: \<open>False\<close> is a collision of the hash.\<close>

definition packet_hash_collision_check :: "foe_abi \<Rightarrow> 'n pkt \<Rightarrow> foe \<Rightarrow> nat \<Rightarrow> bool option" where
  "packet_hash_collision_check a k e vlan_num =
     (let o1 = 12 + vlan_num * 4; l3 = o1 + 2 in do {
        etype \<leftarrow> at16 (pk_data k) o1;
        if etype = 0x0800 then
          (if IS_IPV4_GRP a e then do {
             s \<leftarrow> at32 (pk_data k) (l3 + 12);
             if s \<noteq> e ! 1 then Some False else do { d \<leftarrow> at32 (pk_data k) (l3 + 16); Some (d = e ! 2) } }
           else Some True)
        else if etype = 0x86dd then
          (if IS_IPV6_GRP a e then do {
             s \<leftarrow> those (map (\<lambda>i. at32 (pk_data k) (l3 + 8 + 4 * i)) [0..<4]);
             if s \<noteq> take 4 (drop 1 e) then Some False
             else do { d \<leftarrow> those (map (\<lambda>i. at32 (pk_data k) (l3 + 24 + 4 * i)) [0..<4]); Some (d = take 4 (drop 5 e)) } }
           else Some True)
        else Some True })"

definition get_dscp_from_skb :: "foe_abi \<Rightarrow> 'n pkt \<Rightarrow> u32 \<Rightarrow> u8 option" where
  "get_dscp_from_skb a k type =
     (if type \<in> {TYPE_IPV4_ROUTE a, TYPE_IPV4_HNAPT a, TYPE_IPV4_DSLITE a} then
        (if length (pk_net k) < 2 then None else Some (pk_net k ! 1))
      else if type \<in> {TYPE_IPV6_ROUTE_3T a, TYPE_IPV6_ROUTE_5T a, TYPE_IPV6_6RD a} then
        map_option (\<lambda>w. ucast (drop_bit 4 w)) (at16 (pk_net k) 0)
      else Some 0)"

text \<open>The tags of a received packet whose Ethernet header lies in front of the data; \<open>len\<close> counts the header.\<close>

fun count_tags :: "nat \<Rightarrow> nat \<Rightarrow> u8 list \<Rightarrow> nat \<Rightarrow> u16 \<Rightarrow> nat option" where
  "count_tags 0 len bs off proto = Some 0"
| "count_tags (Suc n) len bs off proto =
     (if \<not> airoha_ppe_is_vlan_proto proto \<or> len < off + 4 then Some 0
      else do { proto \<leftarrow> at16 bs (off + 2); c \<leftarrow> count_tags n len bs (off + 4) proto; Some (Suc c) })"

definition airoha_ppe_parse_skb_vlan_count :: "('e, 'd) ppe_env \<Rightarrow> 'n pkt \<Rightarrow> (nat \<Rightarrow> nat) \<Rightarrow> (nat \<Rightarrow> nat) option" where
  "airoha_ppe_parse_skb_vlan_count env k vlan_count =
     (if sram_entries env \<le> FOE_ENTRY_NUM k then Some vlan_count
      else if pk_len k < 14 then Some (vlan_count(FOE_ENTRY_NUM k := 0))
      else let bs = pk_before k @ pk_data k in do {
        proto \<leftarrow> at16 bs 12;
        c \<leftarrow> count_tags MAX_VLAN_DEPTH (pk_len k + 14) bs 14 proto;
        Some (vlan_count(FOE_ENTRY_NUM k := c)) })"

text \<open>\<open>wan\<close> are the magics of the interfaces of the WAN.\<close>

definition airoha_ppe_rxinfo_handler :: "('e, 'd) ppe_env \<Rightarrow> int set \<Rightarrow> 'n pkt \<Rightarrow> int \<Rightarrow> (nat \<Rightarrow> nat) \<Rightarrow> (nat \<Rightarrow> nat) option" where
  "airoha_ppe_rxinfo_handler env wan k magic vlan_count =
     (if magic \<in> wan then airoha_ppe_parse_skb_vlan_count env k vlan_count else Some vlan_count)"

section \<open>Multicast\<close>

definition is_ipv4_multicast :: "u32 \<Rightarrow> bool" where
  "is_ipv4_multicast ip = (if 0xE0000000 \<le> ip \<and> ip \<le> 0xE00000FF then False else if 0xE0000100 \<le> ip \<and> ip \<le> 0xEFFFFFFF then True else False)"

definition is_ipv6_multicast :: "u32 \<Rightarrow> bool" where
  "is_ipv6_multicast addr =
     (if drop_bit 24 addr AND 0xFF = 0xFF then (if drop_bit 16 addr AND 0xFF = 0x02 then False else True) else False)"

definition FoeGetEntryDstMac :: "u32 \<Rightarrow> u16 \<Rightarrow> u8 list" where
  "FoeGetEntryDstMac hi lo = [ucast (drop_bit 24 hi), ucast (drop_bit 16 hi), ucast (drop_bit 8 hi), ucast hi, ucast (drop_bit 8 lo), ucast lo]"

text \<open>The kernel's tests of an address: the group bit, and all ones.\<close>

definition is_multicast_ether_addr :: "u8 list \<Rightarrow> bool" where
  "is_multicast_ether_addr m \<longleftrightarrow> bit (m ! 0) 0"

definition ppe_is_multicast_entry :: "foe_abi \<Rightarrow> foe option \<Rightarrow> int" where
  "ppe_is_multicast_entry a hwe =
     (case hwe of None \<Rightarrow> 0
      | Some e \<Rightarrow>
          (if entry_type a e < TYPE_BRIDGE a then (if is_ipv4_multicast (e ! 2) then 1 else 0)
           else if entry_type a e = TYPE_BRIDGE a then
             (let m = FoeGetEntryDstMac (e ! 1) (hi16 (e ! 2))
              in if is_multicast_ether_addr m \<and> m \<noteq> replicate 6 0xFF then 1 else 0)
           else if entry_type a e \<in> {TYPE_IPV6_ROUTE_3T a, TYPE_IPV6_ROUTE_5T a} then (if is_ipv6_multicast (e ! 5) then 2 else 0)
           else 0))"

section \<open>What surrounds a bind\<close>

text \<open>The devices (\<open>be_addr\<close> their addresses, \<open>be_wifi\<close> those with a wireless interface behind them), the switches of the
  driver, and the hooks. \<open>be_bridge\<close> is the bridge of a device that is a port, \<open>be_bridges\<close> all bridges,
  \<open>be_fdb\<close> finds where a bridge has learnt an address and \<open>be_vlan\<close> the VLAN device over a device. A hook that is not
  installed is \<open>None\<close>.\<close>

record ('n, 'd) bind_state =
  bs_ppe :: "'d ppe"
  bs_vlan_count :: "nat \<Rightarrow> nat"
  bs_refs :: "'n \<Rightarrow> int"

record ('n, 'g, 'b, 'd) bind_env =
  be_ppe :: "(foe, 'd) ppe_env"
  be_upd :: upd_env
  be_abi :: bind_abi
  be_net :: "('n, 'g) net_env"
  be_ports :: pse_ports
  be_addr :: "'n \<Rightarrow> u8 list"
  be_wifi :: "'n \<Rightarrow> bool"
  be_bridge :: "'n \<Rightarrow> 'b option"
  be_bridges :: "'b list"
  be_fdb :: "'b \<Rightarrow> u8 list \<Rightarrow> nat \<Rightarrow> 'n option"
  be_vlan :: "'n \<Rightarrow> u16 \<Rightarrow> 'n option"
  be_ts_reg :: u32
  be_jiffies :: u64
  be_7581 :: bool
  be_lan_fastpath :: bool
  be_wan_fastpath :: bool
  be_xsi_fastpath :: bool
  be_meter_enable :: bool
  be_gem_enable :: "nat \<Rightarrow> bool"
  be_lan_enable :: "nat \<Rightarrow> nat \<Rightarrow> bool"
  be_l4s :: bool
  be_transparent :: bool
  be_sfu :: bool
  be_ptp :: "'n pkt \<Rightarrow> bool"
  be_acnt :: "'n pkt \<Rightarrow> port \<Rightarrow> u8 \<Rightarrow> foe \<Rightarrow> foe"
  be_multicast :: "(foe option \<Rightarrow> 'n pkt \<Rightarrow> ('n, 'd) bind_state \<Rightarrow> ('n, 'd) bind_state) option"
  be_tunnel :: "('n pkt \<Rightarrow> port \<Rightarrow> ('n, 'd) bind_state \<Rightarrow> int \<times> port \<times> ('n, 'd) bind_state) option"
  be_soe :: "nat \<Rightarrow> int"

text \<open>\<^verbatim>\<open>airoha_check_flood_packet\<close>: has the bridge of the outgoing port learnt the destination, there. \<open>None\<close>: a read
  outside the packet.\<close>

definition fdb_port :: "('n, 'g, 'b, 'd) bind_env \<Rightarrow> 'n \<Rightarrow> 'n pkt \<Rightarrow> nat \<Rightarrow> 'b \<Rightarrow> bool" where
  "fdb_port N dev k vid br = (be_fdb N br (take 6 (pk_data k)) vid = Some dev)"

definition airoha_check_flood_packet :: "('n, 'g, 'b, 'd) bind_env \<Rightarrow> 'n pkt \<Rightarrow> nat \<Rightarrow> u32 \<Rightarrow> bool option" where
  "airoha_check_flood_packet N k vid tag =
     (if be_transparent N then Some True
      else case sk_dev k of None \<Rightarrow> Some False
      | Some dev \<Rightarrow>
          let tmp = (if nd_dsa (be_net N) dev
                     then (case find (bit tag) [0..<32] of None \<Rightarrow> None | Some i \<Rightarrow> conduit_user (be_net N) dev i)
                     else Some dev)
          in case tmp of None \<Rightarrow> Some False
             | Some t \<Rightarrow>
                 (case be_bridge N t of Some br \<Rightarrow> Some (fdb_port N t k vid br)
                  | None \<Rightarrow> do {
                      proto \<leftarrow> at16 (pk_data k) 12;
                      if proto \<noteq> 0x8100 then Some False
                      else do {
                        tci \<leftarrow> at16 (pk_data k) 14;
                        case be_vlan N dev (tci AND 0xFFF) of
                          None \<Rightarrow> Some (\<exists>br\<in>set (be_bridges N). be_fdb N br (take 6 (pk_data k)) vid \<noteq> None)
                        | Some v \<Rightarrow> (case be_bridge N v of None \<Rightarrow> Some False | Some br \<Rightarrow> Some (fdb_port N v k vid br)) } }))"

section \<open>Filling an entry\<close>

definition upd_meter :: "u32 \<Rightarrow> u32 \<Rightarrow> foe \<Rightarrow> foe" where
  "upd_meter m v e = put_lo meter_at (ucast (masked (ucast (lo16 (e ! meter_at))) m (FIELD_PREP m v))) e"

definition set_ppe_foe_entry_meter_grp2 :: "bind_abi \<Rightarrow> u32 \<Rightarrow> foe \<Rightarrow> foe" where
  "set_ppe_foe_entry_meter_grp2 B meter1_idx e = upd_meter (M_METER_GRP2 B) meter1_idx e"

definition acnt_form :: "foe_abi \<Rightarrow> u32 \<Rightarrow> foe_form" where
  "acnt_form a type = (if type = TYPE_BRIDGE a then F_bridge32 else if TYPE_IPV6_ROUTE_3T a \<le> type then F_ipv6 else F_ipv4)"

definition airoha_set_default_acnt_meter_idx :: "foe_abi \<Rightarrow> bind_abi \<Rightarrow> u32 \<Rightarrow> foe \<Rightarrow> foe" where
  "airoha_set_default_acnt_meter_idx a B type e =
     (if TYPE_IPV6_6RD a < type then e
      else let i = ib2_at (acnt_form a type)
           in upd_meter (M_METER_GRP2 B) 0x1f (upd_meter (M_METER_GRP3 B) 0xf (upd_meter (M_ACNT_GRP3 B) 0x7f
                (e[i := masked (e ! i) (IB2_PORT_AG B) (FIELD_PREP (IB2_PORT_AG B) 0x7ff)]))))"

text \<open>For a bridge the older form of the entry is used, whose second word of information is word 4.\<close>

definition arht_ppe_l4s_apply :: "foe_abi \<Rightarrow> bind_abi \<Rightarrow> bool \<Rightarrow> u32 \<Rightarrow> u8 \<Rightarrow> foe \<Rightarrow> foe" where
  "arht_ppe_l4s_apply a B l4s type dscp e =
     (if \<not> l4s then e
      else
        let i = (if type = TYPE_BRIDGE a then 4 else if TYPE_IPV6_ROUTE_3T a \<le> type then 11 else 4)
        in if dscp AND 3 \<noteq> 1 then e
           else
             let e = e[data_at := masked (e ! data_at) (M_ACTDP B) (FIELD_PREP (M_ACTDP B) (FIELD_GET (FOE_CHANNEL a OR M_QID B) (e ! data_at)))];
                 val = e ! i AND (IB2_NBQ B OR IB2_PSE_PORT a OR IB2_PSE_QOS B OR IB2_FAST_PATH B);
                 e = or_word meter_at (FIELD_PREP (M_TUNNEL_MTU B) val) e;
                 nbq = (if FIELD_GET (IB2_PSE_PORT a) (e ! i) = 1 then 2 else 1)
             in e[i := masked (e ! i) (IB2_NBQ B OR IB2_PSE_PORT a OR IB2_PSE_QOS B)
                        (FIELD_PREP (IB2_PSE_PORT a) 6 OR FIELD_PREP (IB2_NBQ B) nbq)])"

definition bind_data :: "foe_abi \<Rightarrow> bind_abi \<Rightarrow> port \<Rightarrow> u32 \<Rightarrow> u32" where
  "bind_data a B pinfo meter0_idx =
     FIELD_PREP (M_ACTDP B) (ucast (po_udf pinfo)) OR FIELD_PREP (FOE_CHANNEL a) (ucast (po_channel pinfo)) OR
     FIELD_PREP (M_QID B) (7 - ucast (po_txq pinfo) mod 8) OR FIELD_PREP (M_SHAPER_ID B) meter0_idx"

definition bind_ib1 :: "foe_abi \<Rightarrow> bind_abi \<Rightarrow> u32 \<Rightarrow> u32 \<Rightarrow> u32 \<Rightarrow> u32 \<Rightarrow> u32" where
  "bind_ib1 a B old vn vpm ts =
     masked old (IB1_VLAN_LAYER B OR IB1_VPM B OR IB1_PPPOE B OR IB1_TIMESTAMP B OR IB1_BIND_STATE a)
       (FIELD_PREP (IB1_VLAN_LAYER B) vn OR FIELD_PREP (IB1_VPM B) vpm OR FIELD_PREP (IB1_TIMESTAMP B) ts OR
        FIELD_PREP (IB1_BIND_STATE a) (STATE_BIND a))"

definition bind_ib2 :: "foe_abi \<Rightarrow> bind_abi \<Rightarrow> port \<Rightarrow> u8 \<Rightarrow> u32 \<Rightarrow> u32 \<Rightarrow> u32" where
  "bind_ib2 a B pinfo fp dscp flags =
     FIELD_PREP (IB2_NBQ B) (ucast (po_nbq pinfo)) OR FIELD_PREP (IB2_DSCP B) dscp OR FIELD_PREP (IB2_PSE_PORT a) (ucast fp) OR flags"

definition bind_fast :: "('n, 'g, 'b, 'd) bind_env \<Rightarrow> port \<Rightarrow> u8 \<Rightarrow> bool \<Rightarrow> bool" where
  "bind_fast N pinfo fp rx_wlan =
     (let P = be_ports N in
      if fp = PSE_GDM1 P then be_lan_fastpath N \<or> be_7581 N \<and> rx_wlan
      else if fp = PSE_GDM2 P then be_wan_fastpath N \<or> po_fast pinfo
      else if fp = PSE_GDM3 P \<or> fp = PSE_GDM4 P then be_xsi_fastpath N \<or> po_fast pinfo else False)"

text \<open>The switch over the packet type: the entry, and the words of its tags and addresses, of which there are none for the
  types that have no case.\<close>

definition bind_action :: "foe_abi \<Rightarrow> bind_abi \<Rightarrow> port \<Rightarrow> u8 \<Rightarrow> u32 \<Rightarrow> u32 \<Rightarrow> u32 \<Rightarrow> u32 \<Rightarrow> u32 \<Rightarrow> foe \<Rightarrow> foe \<times> nat option" where
  "bind_action a B pinfo fp type dscp flags data meter1_idx e =
     (let ib2 = bind_ib2 a B pinfo fp dscp flags in
      if type \<in> {TYPE_IPV4_HNAPT a, TYPE_IPV4_ROUTE a} then
        (let e = (if type = TYPE_IPV4_HNAPT a then e[7 := e ! 3] else e);
             e = e[data_at := data, 4 := ib2, 5 := e ! 1, 6 := e ! 2]
         in (set_ppe_foe_entry_meter_grp2 B meter1_idx e, Some 11))
      else if type = TYPE_BRIDGE a then
        (set_ppe_foe_entry_meter_grp2 B meter1_idx (e[data_at := data, 11 := bind_ib2 a B pinfo fp 0 flags]), Some 12)
      else if type \<in> {TYPE_IPV6_ROUTE_3T a, TYPE_IPV6_ROUTE_5T a} then
        (set_ppe_foe_entry_meter_grp2 B meter1_idx (e[data_at := data, 11 := ib2]), Some 12)
      else (e, None))"

definition put_tags :: "nat \<Rightarrow> u16 \<Rightarrow> u16 \<Rightarrow> u16 \<Rightarrow> foe \<Rightarrow> foe" where
  "put_tags l etype vid1 vid2 e = put_lo (l + 2) vid2 (put_lo l vid1 (put_hi l etype e))"

text \<open>\<^verbatim>\<open>airoha_set_ppe_mac\<close> on the words of the entry that its type gives the addresses.\<close>

definition set_mac_words :: "('n, 'g, 'b, 'd) bind_env \<Rightarrow> 'n option \<Rightarrow> u8 list \<Rightarrow> u8 list \<Rightarrow> foe \<Rightarrow> 'd ppe \<Rightarrow> foe \<times> 'd ppe" where
  "set_mac_words N dev src dst e s =
     (let env = be_ppe N; a = p_abi env; type = entry_type a e;
          l = (if type \<in> {TYPE_IPV4_ROUTE a, TYPE_IPV4_HNAPT a, TYPE_IPV4_DSLITE a} then 11 else 12);
          (r, m, s) = airoha_set_ppe_mac env (be_upd N) (M_PPPOE_ID (be_abi N)) (be_jiffies N) type (map_option (be_addr N) dev)
                        src dst 0 (get_l2 l e) s
      in (if r < 0 then e else put_l2 l m e, s))"

section \<open>Binding\<close>

text \<open>What the bind makes of the entry, once the packet has passed its tests: the type and the tags of the packet, the two
  meters, the time stamp. The shrink table may change with the address of the source.\<close>

definition bound_entry ::
  "('n, 'g, 'b, 'd) bind_env \<Rightarrow> 'n pkt \<Rightarrow> port \<Rightarrow> u8 \<Rightarrow> nat \<times> u16 \<times> u16 \<times> u32 \<Rightarrow> u8 \<Rightarrow> u32 \<times> u32 \<Rightarrow> bool \<Rightarrow> u32 \<Rightarrow> foe \<Rightarrow> 'd ppe \<Rightarrow> foe \<times> 'd ppe" where
  "bound_entry N k pinfo fp tags dscp meters rx_wlan ts hwe s =
     (let env = be_ppe N; a = p_abi env; B = be_abi N; (vn, vid1, vid2, vpm) = tags; (meter0_idx, meter1_idx) = meters;
          type = entry_type a hwe; ib1 = bind_ib1 a B (hwe ! 0) (word_of_nat vn) vpm ts;
          flags = (if fp = PSE_CDM4 (be_ports N) then 0 else IB2_PSE_QOS B) OR
                  (if bind_fast N pinfo fp rx_wlan then IB2_FAST_PATH B else 0);
          e = airoha_set_default_acnt_meter_idx a B type hwe;
          (e, l2) = bind_action a B pinfo fp type (ucast dscp) flags (bind_data a B pinfo meter0_idx) meter1_idx e;
          e = arht_ppe_l4s_apply a B (be_l4s N) type dscp e;
          e = (case l2 of None \<Rightarrow> e | Some l \<Rightarrow> put_tags l (pi_stag pinfo) vid1 vid2 e);
          (e, s) = set_mac_words N (sk_dev k) (take 6 (drop 6 (pk_data k))) (take 6 (pk_data k)) e s
      in (be_acnt N k pinfo fp (e[0 := ib1]), s))"

definition read_ts :: "('n, 'g, 'b, 'd) bind_env \<Rightarrow> ('n, 'd) bind_state \<Rightarrow> u32 \<times> ('n, 'd) bind_state" where
  "read_ts N s =
     (let (v, d) = bus_rr (p_bus (be_ppe N)) (be_ts_reg N) (pdev (bs_ppe s))
      in (FIELD_GET (IB1_TIMESTAMP (be_abi N)) (ucast (ucast v :: u16)), s\<lparr>bs_ppe := (bs_ppe s)\<lparr>pdev := d\<rparr>\<rparr>))"

definition commit_bound :: "('n, 'g, 'b, 'd) bind_env \<Rightarrow> nat \<Rightarrow> foe \<Rightarrow> 'd ppe \<Rightarrow> 'd ppe" where
  "commit_bound N hash e s = on_dev (\<lambda>d. commit_entry (be_ppe N) hash (foe_put (be_ppe N) hash e d)) s"

definition arht_set_ppe_lanif :: "nat \<Rightarrow> nat \<Rightarrow> nat \<Rightarrow> 'd ppe \<Rightarrow> 'd ppe" where
  "arht_set_ppe_lanif sram iif hash s =
     (if sram \<le> hash then s else if iif = 0 then s else s\<lparr>lan_ifindex := (lan_ifindex s)(hash := int iif)\<rparr>)"

definition airoha_ppe_general_bind ::
  "('n, 'g, 'b, 'd) bind_env \<Rightarrow> foe \<Rightarrow> 'n pkt \<Rightarrow> port \<Rightarrow> u8 \<Rightarrow> ('n, 'd) bind_state \<Rightarrow> ('n, 'd) bind_state option" where
  "airoha_ppe_general_bind N hwe k pinfo fp s =
     (let env = be_ppe N; a = p_abi env; hash = FOE_ENTRY_NUM k; (ts, s) = read_ts N s in
      if entry_state a hwe = STATE_BIND a then Some s
      else if \<not> is_Valid_Foe_Entry env k then Some s
      else if get_entry_cpu_reason env k \<noteq> uint (HIT_UNBIND_RATE (be_abi N)) then Some s
      else let (r, vn, vid1, vid2) = airoha_ppe_foe_get_vlan_info env (bs_vlan_count s) k in
      if r \<noteq> 0 then Some s
      else do {
        vpm \<leftarrow> airoha_ppe_foe_get_vlan_vpm k;
        same \<leftarrow> packet_hash_collision_check a k hwe vn;
        if \<not> same then Some s
        else do {
          dscp \<leftarrow> get_dscp_from_skb a k (entry_type a hwe);
          let m0 = get_meter_idx_by_gemport (be_ports N) (be_meter_enable N) (be_gem_enable N) k pinfo fp;
          (m1, refs) \<leftarrow> get_meter_idx_by_lan (be_net N) (be_ports N) (be_meter_enable N) (be_lan_enable N) k pinfo fp (bs_refs s);
          let rx_wlan = (sk_iif k \<noteq> 0 \<and> (case by_index (be_net N) (sk_iif k) of None \<Rightarrow> False | Some n \<Rightarrow> be_wifi N n));
              (e, p) = bound_entry N k pinfo fp (vn, vid1, vid2, vpm) dscp (m0, word_of_nat m1) rx_wlan ts hwe (bs_ppe s);
              p = arht_set_ppe_lanif (sram_entries env) (sk_iif k) hash p;
              p = (if hash < sram_entries env then commit_bound N hash e p else p)
          in Some (s\<lparr>bs_refs := refs, bs_ppe := p\<rparr>) } })"

definition airoha_ppe_pon_sfu_bind ::
  "('n, 'g, 'b, 'd) bind_env \<Rightarrow> foe \<Rightarrow> 'n pkt \<Rightarrow> port \<Rightarrow> u8 \<Rightarrow> ('n, 'd) bind_state \<Rightarrow> ('n, 'd) bind_state option" where
  "airoha_ppe_pon_sfu_bind N hwe k pinfo fp s =
     do { ok \<leftarrow> (if be_ptp N k then Some True else airoha_check_flood_packet N k 0 (ucast (pi_stag pinfo)));
          if ok then airoha_ppe_general_bind N hwe k pinfo fp s else Some s }"

section \<open>Receive rings\<close>

text \<open>A ring is reserved for a flow or free. \<open>- 1\<close> (the entry cannot be read, or is of another type) counts as stale.\<close>

definition ppe_entry_is_valid :: "(foe, 'd) ppe_env \<Rightarrow> bind_abi \<Rightarrow> nat \<Rightarrow> nat \<Rightarrow> 'd \<Rightarrow> int \<times> 'd" where
  "ppe_entry_is_valid env B foe_entry_idx ring_idx d =
     (let a = p_abi env in
      case get_entry env foe_entry_idx d of
        (None, d) \<Rightarrow> (- 1, d)
      | (Some e, d) \<Rightarrow>
          (if entry_type a e = TYPE_IPV4_HNAPT a \<or> entry_type a e = TYPE_IPV6_ROUTE_5T a then
             let i = (if entry_type a e = TYPE_IPV4_HNAPT a then 4 else 11);
                 nbq = unat (FIELD_GET (IB2_NBQ B) (e ! i))
             in (if entry_state a e = STATE_INVALID a \<or> nbq \<noteq> (if ring_idx \<le> 15 then ring_idx else ring_idx - 4) then 1 else 0, d)
           else (- 1, d)))"

fun reserved_ring :: "(foe, 'd) ppe_env \<Rightarrow> bind_abi \<Rightarrow> nat \<Rightarrow> nat list \<Rightarrow> nat option list \<Rightarrow> 'd \<Rightarrow> nat option \<times> 'd" where
  "reserved_ring env B foe [] rs d = (None, d)"
| "reserved_ring env B foe (i # is) rs d =
     (case rs ! i of None \<Rightarrow> reserved_ring env B foe is rs d
      | Some f \<Rightarrow>
          (case ppe_entry_is_valid env B f (12 + i) d of
             (v, d) \<Rightarrow> (if v \<noteq> 0 \<or> f = foe then (Some i, d) else reserved_ring env B foe is rs d)))"

definition airoha_get_free_lro_ring ::
  "(foe, 'd) ppe_env \<Rightarrow> bind_abi \<Rightarrow> nat \<Rightarrow> nat option list \<Rightarrow> 'd \<Rightarrow> nat \<times> nat option list \<times> 'd" where
  "airoha_get_free_lro_ring env B foe_entry_idx lro_ring_reserve d =
     (case reserved_ring env B foe_entry_idx [0..<8] lro_ring_reserve d of
        (Some i, d) \<Rightarrow> (12 + i, lro_ring_reserve[i := Some foe_entry_idx], d)
      | (None, d) \<Rightarrow>
          (case find (\<lambda>i. lro_ring_reserve ! i = None) [0..<8] of
             Some i \<Rightarrow> (12 + i, lro_ring_reserve[i := Some foe_entry_idx], d)
           | None \<Rightarrow> (1, lro_ring_reserve, d)))"

section \<open>Binding a local flow\<close>

abbreviation "PPE_UDF_LOCAL_IN \<equiv> (0xA0 :: u16)"
abbreviation "PPE_UDF_LOCAL_IN_NS \<equiv> (0xA3 :: u16)"

definition arht_general_offload_bind_ring ::
  "(foe, 'd) ppe_env \<Rightarrow> bind_abi \<Rightarrow> u16 \<Rightarrow> nat \<Rightarrow> nat option list \<Rightarrow> 'd \<Rightarrow> nat \<times> nat option list \<times> 'd" where
  "arht_general_offload_bind_ring env B type foe_entry_idx rs d =
     (if type = PPE_UDF_LOCAL_IN \<or> type = PPE_UDF_LOCAL_IN_NS then airoha_get_free_lro_ring env B foe_entry_idx rs d else (1, rs, d))"

definition ring_ib2 :: "foe_abi \<Rightarrow> bind_abi \<Rightarrow> pse_ports \<Rightarrow> nat \<Rightarrow> u32" where
  "ring_ib2 a B P ring =
     (if ring \<le> 15 then FIELD_PREP (IB2_NBQ B) (word_of_nat ring) OR FIELD_PREP (IB2_PSE_PORT a) (ucast (PSE_CDM1 P))
      else FIELD_PREP (IB2_NBQ B) (word_of_nat (ring - 4)) OR FIELD_PREP (IB2_PSE_PORT a) (ucast (PSE_CDM2 P)))"

definition local_entry :: "foe_abi \<Rightarrow> bind_abi \<Rightarrow> pse_ports \<Rightarrow> u16 \<Rightarrow> nat \<Rightarrow> foe \<Rightarrow> foe" where
  "local_entry a B P type ring e =
     (let data = FIELD_PREP (M_SHAPER_ID B) 0x7F; ib2 = ring_ib2 a B P ring in
      if entry_type a e = TYPE_IPV4_HNAPT a
      then put_hi 11 type (e[7 := e ! 3, data_at := data, 4 := ib2, 5 := e ! 1, 6 := e ! 2])
      else if entry_type a e = TYPE_IPV6_ROUTE_5T a then put_hi 12 type (e[data_at := data, 11 := ib2])
      else e)"

definition arht_general_offload_bind ::
  "('n, 'g, 'b, 'd) bind_env \<Rightarrow> 'n pkt \<Rightarrow> u16 \<Rightarrow> nat option list \<Rightarrow> ('n, 'd) bind_state
     \<Rightarrow> (nat option list \<times> ('n, 'd) bind_state) option" where
  "arht_general_offload_bind N k type rs s =
     (let env = be_ppe N; a = p_abi env; B = be_abi N; i = FOE_ENTRY_NUM k in
      if sram_entries env \<le> i \<or> \<not> pk_l4_hash k \<or> pk_sw_hash k then Some (rs, s)
      else case fetch env i (bs_ppe s) of
             (None, p) \<Rightarrow> Some (rs, s\<lparr>bs_ppe := p\<rparr>)
           | (Some hwe, p) \<Rightarrow>
               (if entry_state a hwe = STATE_BIND a then Some (rs, s\<lparr>bs_ppe := p\<rparr>)
                else
                  let (ring, rs, d) = arht_general_offload_bind_ring env B type i rs (pdev p);
                      p = p\<lparr>pdev := d\<rparr>; e = local_entry a B (be_ports N) type ring hwe in
                  do { (e, p) \<leftarrow> (case pk_mac k of None \<Rightarrow> Some (e, p)
                                  | Some m \<Rightarrow> (if length m < 12 then None
                                               else Some (set_mac_words N (sk_dev k) (take 6 (drop 6 m)) (take 6 m) e p)));
                       Some (rs, s\<lparr>bs_ppe := commit_bound N i e p\<rparr>) }))"

section \<open>The transmit handler\<close>

definition airoha_is_local_out :: "'n pkt \<Rightarrow> bool" where
  "airoha_is_local_out k \<longleftrightarrow> pk_inner k = 0x72B0 \<or> pk_inner k = 0x72B2"

definition airoha_get_magic_from_fport :: "pse_ports \<Rightarrow> u8 \<Rightarrow> u32" where
  "airoha_get_magic_from_fport P fp =
     (if fp = PSE_GDM3 P then 0x7284 else if fp = PSE_GDM4 P then 0x729a else if fp = PSE_GDM1 P then 0x7275 else 0xFFFFFFFF)"

text \<open>The position of the lowest bit, 0 when there is none.\<close>

definition bit_to_num :: "u32 \<Rightarrow> nat" where
  "bit_to_num m = (case find (bit m) [0..<32] of None \<Rightarrow> 0 | Some i \<Rightarrow> i)"

definition arht_ppe_multicast_handler :: "('n, 'g, 'b, 'd) bind_env \<Rightarrow> 'n pkt \<Rightarrow> ('n, 'd) bind_state \<Rightarrow> ('n, 'd) bind_state" where
  "arht_ppe_multicast_handler N k s =
     (if \<not> is_Valid_Foe_Entry (be_ppe N) k then s
      else case be_multicast N of None \<Rightarrow> s
           | Some h \<Rightarrow> (let (hwe, p) = fetch (be_ppe N) (FOE_ENTRY_NUM k) (bs_ppe s) in h hwe k (s\<lparr>bs_ppe := p\<rparr>)))"

definition arht_multicast_handler_for_sfu :: "('n, 'g, 'b, 'd) bind_env \<Rightarrow> 'n pkt \<Rightarrow> ('n, 'd) bind_state \<Rightarrow> bool \<times> ('n, 'd) bind_state" where
  "arht_multicast_handler_for_sfu N k s =
     (let env = be_ppe N in
      if \<not> glb_ok env \<or> \<not> be_sfu N \<or> be_transparent N then (False, s)
      else if get_entry_cpu_reason env k \<noteq> uint (HIT_UNBIND_RATE (be_abi N)) then (False, s)
      else let (hwe, p) = fetch env (FOE_ENTRY_NUM k) (bs_ppe s); s = s\<lparr>bs_ppe := p\<rparr> in
        if ppe_is_multicast_entry (p_abi env) hwe \<noteq> 0
        then (True, arht_ppe_multicast_handler N k s)
        else (False, s))"

text \<open>One call of the tunnel hook, when it is installed: did it take the packet.\<close>

definition call_tunnel :: "('n, 'g, 'b, 'd) bind_env \<Rightarrow> 'n pkt \<Rightarrow> port \<Rightarrow> ('n, 'd) bind_state \<Rightarrow> bool \<times> port \<times> ('n, 'd) bind_state" where
  "call_tunnel N k pinfo s =
     (case be_tunnel N of None \<Rightarrow> (False, pinfo, s) | Some h \<Rightarrow> (let (r, pinfo, s) = h k pinfo s in (r = 1, pinfo, s)))"

definition tunnel_first :: "('n, 'g, 'b, 'd) bind_env \<Rightarrow> 'n pkt \<Rightarrow> u8 \<Rightarrow> port \<Rightarrow> ('n, 'd) bind_state \<Rightarrow> bool \<times> port \<times> ('n, 'd) bind_state" where
  "tunnel_first N k fp pinfo s =
     (if be_tunnel N = None then (False, pinfo, s)
      else if fp = 2 then call_tunnel N k (pinfo\<lparr>po_udf := fp\<rparr>) s
      else if sk_mark k = 0x7298 then call_tunnel N k (pinfo\<lparr>po_udf := fp, po_magic := 0x7298\<rparr>) s
      else if FOE_ENTRY_NUM k < sram_entries (be_ppe N) \<and> be_soe N (FOE_ENTRY_NUM k) \<noteq> 0 then
        (let m = airoha_get_magic_from_fport (be_ports N) fp; m = (if 0xffff < m then 0xffff else m)
         in call_tunnel N k (pinfo\<lparr>po_magic := ucast m, po_nbq := word_of_nat (bit_to_num (ucast (pi_stag pinfo))) AND 0x1F\<rparr>) s)
      else (False, pinfo, s))"

definition tunnel_second :: "('n, 'g, 'b, 'd) bind_env \<Rightarrow> 'n pkt \<Rightarrow> u8 \<Rightarrow> foe \<Rightarrow> port \<Rightarrow> ('n, 'd) bind_state \<Rightarrow> bool \<times> port \<times> ('n, 'd) bind_state" where
  "tunnel_second N k fp e pinfo s =
     (let a = p_abi (be_ppe N) in
      if entry_type a e \<in> {TYPE_IPV4_DSLITE a, TYPE_IPV6_6RD a} \<and> be_tunnel N \<noteq> None
      then call_tunnel N k (pinfo\<lparr>po_udf := fp\<rparr>) s else (False, pinfo, s))"

text \<open>The last part: what is bound, once no tunnel took the packet.\<close>

definition tx_bind :: "('n, 'g, 'b, 'd) bind_env \<Rightarrow> 'n pkt \<Rightarrow> u8 \<Rightarrow> port \<Rightarrow> ('n, 'd) bind_state \<Rightarrow> (int \<times> ('n, 'd) bind_state) option" where
  "tx_bind N k fp pinfo s =
     (case fetch (be_ppe N) (FOE_ENTRY_NUM k) (bs_ppe s) of
        (None, p) \<Rightarrow> Some (0, s\<lparr>bs_ppe := p\<rparr>)
      | (Some hwe, p) \<Rightarrow>
          let s = s\<lparr>bs_ppe := p\<rparr> in
          if ppe_is_multicast_entry (p_abi (be_ppe N)) (Some hwe) \<noteq> 0 then Some (1, s)
          else if airoha_is_local_out k
          then map_option (Pair 1) (airoha_ppe_general_bind N hwe k (pinfo\<lparr>po_fast := True\<rparr>) fp s)
          else if be_sfu N then map_option (Pair 1) (airoha_ppe_pon_sfu_bind N hwe k pinfo fp s)
          else do { known \<leftarrow> airoha_check_flood_packet N k 0 (ucast (pi_stag pinfo));
                    if known then map_option (Pair 1) (airoha_ppe_general_bind N hwe k pinfo fp s) else Some (0, s) })"

definition airoha_ppe_tx_handler ::
  "('n, 'g, 'b, 'd) bind_env \<Rightarrow> 'n pkt \<Rightarrow> port option \<Rightarrow> u8 \<Rightarrow> nat option list \<Rightarrow> ('n, 'd) bind_state
     \<Rightarrow> (int \<times> nat option list \<times> ('n, 'd) bind_state) option" where
  "airoha_ppe_tx_handler N k pinfo fp rs s =
     (let env = be_ppe N; hit = uint (HIT_UNBIND_RATE (be_abi N)) in
      case pinfo of None \<Rightarrow> Some (0, rs, s)
      | Some pinfo \<Rightarrow>
          if po_magic pinfo = 0x72B1 \<or> po_magic pinfo = 0x72B3 then
            (if sram_entries env \<le> FOE_ENTRY_NUM k \<or> \<not> pk_l4_hash k \<or> pk_sw_hash k then Some (0, rs, s)
             else if uint (drop_bit 27 (pk_hash k)) \<noteq> hit then Some (0, rs, s)
             else map_option (Pair 1) (arht_general_offload_bind N k
                    (if po_magic pinfo = 0x72B1 then PPE_UDF_LOCAL_IN else PPE_UDF_LOCAL_IN_NS) rs s))
          else if \<not> is_Valid_Foe_Entry env k then Some (0, rs, s)
          else if get_entry_cpu_reason env k \<noteq> hit then Some (0, rs, s)
          else
            let (mc, s) = arht_multicast_handler_for_sfu N k s in
            if mc then Some (1, rs, s)
            else
              let (taken, pinfo, s) = tunnel_first N k fp pinfo s in
              if taken then Some (1, rs, s)
              else if fp = 2 then map_option (\<lambda>(r, s). (r, rs, s)) (tx_bind N k fp pinfo s)
              else case fetch env (FOE_ENTRY_NUM k) (bs_ppe s) of
                     (None, p) \<Rightarrow> Some (0, rs, s\<lparr>bs_ppe := p\<rparr>)
                   | (Some e, p) \<Rightarrow>
                       let (taken, pinfo, s) = tunnel_second N k fp e pinfo (s\<lparr>bs_ppe := p\<rparr>) in
                       if taken then Some (1, rs, s) else map_option (\<lambda>(r, s). (r, rs, s)) (tx_bind N k fp pinfo s))"

end
