(* ===== verification/PpeBindProps.thy ===== *)
theory PpeBindProps
  imports PpeBind
begin

text \<open>
  What a bind does to an entry and when: the flow it matches is never changed, an entry is bound as a whole or not at
  all, and for a routed flow each field holds what the packet and its port say. Then what happens to the receive rings
  of local flows.
\<close>

section \<open>Words that an operation does not touch\<close>

lemma put_length [simp]: "length (put_lo k v e) = length e" "length (put_hi k v e) = length e" "length (or_word k w e) = length e"
  by (simp_all add: put_lo_def put_hi_def or_word_def)

lemma put_other [simp]: "i \<noteq> k \<Longrightarrow> put_lo k v e ! i = e ! i" "i \<noteq> k \<Longrightarrow> put_hi k v e ! i = e ! i" "i \<noteq> k \<Longrightarrow> or_word k w e ! i = e ! i"
  by (simp_all add: put_lo_def put_hi_def or_word_def)

lemma upd_meter_other [simp]: "i \<noteq> meter_at \<Longrightarrow> upd_meter m v e ! i = e ! i" "length (upd_meter m v e) = length e"
  by (simp_all add: upd_meter_def)

lemma half_masks:
  "bit (0xFFFF0000 :: u32) n \<longleftrightarrow> 16 \<le> n \<and> n < 32" "bit (0xFFFF :: u32) n \<longleftrightarrow> n < 16"
proof -
  have m: "(0xFFFF0000 :: u32) = push_bit 16 (mask 16)" "(0xFFFF :: u32) = mask 16" by code_simp+
  show "bit (0xFFFF0000 :: u32) n \<longleftrightarrow> 16 \<le> n \<and> n < 32" "bit (0xFFFF :: u32) n \<longleftrightarrow> n < 16"
    unfolding m bit_push_bit_iff bit_mask_iff by auto
qed

lemma half_bits:
  "lo16 ((w AND 0xFFFF0000) OR ucast v) = v" "hi16 ((w AND 0xFFFF) OR push_bit 16 (ucast v)) = v"
  "hi16 ((w AND 0xFFFF0000) OR ucast v) = hi16 w" "lo16 ((w AND 0xFFFF) OR push_bit 16 (ucast v)) = lo16 w"
  unfolding lo16_def hi16_def
  by (rule bit_word_eqI; simp only: bit_ucast_iff bit_drop_bit_eq bit_or_iff bit_and_iff bit_push_bit_iff half_masks comp_apply; auto simp: bit_simps dest: bit_imp_le_length)+

lemma halves [simp]:
  assumes "k < length e"
  shows "lo16 (put_lo k v e ! k) = v" "hi16 (put_hi k v e ! k) = v" "hi16 (put_lo k v e ! k) = hi16 (e ! k)" "lo16 (put_hi k v e ! k) = lo16 (e ! k)"
  using assms half_bits by (simp_all add: put_lo_def put_hi_def)

definition types_ok :: "foe_abi \<Rightarrow> bool" where
  "types_ok a \<longleftrightarrow> TYPE_IPV4_HNAPT a < TYPE_IPV6_ROUTE_3T a \<and> TYPE_IPV4_ROUTE a < TYPE_IPV6_ROUTE_3T a \<and>
     TYPE_IPV4_DSLITE a < TYPE_IPV6_ROUTE_3T a \<and> TYPE_BRIDGE a < TYPE_IPV6_ROUTE_3T a \<and>
     TYPE_IPV6_ROUTE_3T a \<le> TYPE_IPV6_ROUTE_5T a \<and> TYPE_IPV6_ROUTE_3T a \<le> TYPE_IPV6_6RD a \<and>
     TYPE_BRIDGE a \<notin> {TYPE_IPV4_HNAPT a, TYPE_IPV4_ROUTE a, TYPE_IPV4_DSLITE a}"

text \<open>The words with which the engine matches the packets of a flow.\<close>

definition key_words :: "foe_abi \<Rightarrow> u32 \<Rightarrow> nat set" where
  "key_words a type = (if type = TYPE_BRIDGE a then {1..5} else if TYPE_IPV6_ROUTE_3T a \<le> type then {1..9} else {1..3})"

lemma key_range: "i \<in> key_words a type \<Longrightarrow> 1 \<le> i \<and> i \<le> 9"
  by (auto simp: key_words_def split: if_splits)

lemma default_key: "i \<in> key_words a type \<Longrightarrow> airoha_set_default_acnt_meter_idx a B type e ! i = e ! i"
  by (auto simp: airoha_set_default_acnt_meter_idx_def acnt_form_def ib2_at_def key_words_def Let_def split: if_splits)

lemma action_key:
  assumes "types_ok a" and "i \<in> key_words a type"
  shows "fst (bind_action a B pinfo fp type dscp flags data m1 e) ! i = e ! i"
  using assms by (auto simp: bind_action_def set_ppe_foe_entry_meter_grp2_def key_words_def types_ok_def Let_def split: if_splits)

lemma l4s_key:
  assumes "type = TYPE_BRIDGE a \<Longrightarrow> dscp AND 3 \<noteq> 1" and "i \<in> key_words a type"
  shows "arht_ppe_l4s_apply a B l4s type dscp e ! i = e ! i"
  using assms by (auto simp: arht_ppe_l4s_apply_def key_words_def Let_def split: if_splits)

lemma put_tags_key: "i \<le> 10 \<Longrightarrow> 11 \<le> l \<Longrightarrow> put_tags l t v1 v2 e ! i = e ! i"
  by (simp add: put_tags_def)

lemma put_l2_other: "i \<le> 11 \<Longrightarrow> 11 \<le> l \<Longrightarrow> put_l2 l m e ! i = e ! i"
  by (simp add: put_l2_def)

lemma set_mac_words_key: "i \<le> 11 \<Longrightarrow> fst (set_mac_words N dev src dst e s) ! i = e ! i"
  by (auto simp: set_mac_words_def Let_def put_l2_other split: prod.splits)

lemma action_l2: "snd (bind_action a B pinfo fp type dscp flags data m1 e) = Some l \<Longrightarrow> 11 \<le> l"
  by (auto simp: bind_action_def Let_def split: if_splits)

lemma action_word0: "fst (bind_action a B pinfo fp type dscp flags data m1 e) ! 0 = e ! 0"
  by (simp add: bind_action_def set_ppe_foe_entry_meter_grp2_def Let_def)

lemma default_length: "length (airoha_set_default_acnt_meter_idx a B type e) = length e"
  by (simp add: airoha_set_default_acnt_meter_idx_def Let_def)

lemma action_length: "length (fst (bind_action a B pinfo fp type dscp flags data m1 e)) = length e"
  by (simp add: bind_action_def set_ppe_foe_entry_meter_grp2_def Let_def)

lemma l4s_length: "length (arht_ppe_l4s_apply a B l4s type dscp e) = length e"
  by (simp add: arht_ppe_l4s_apply_def Let_def)

lemma tags_length: "length (case l2 of None \<Rightarrow> e | Some l \<Rightarrow> put_tags l t v1 v2 e) = length e"
  by (simp add: put_tags_def split: option.split)

lemma set_mac_words_length: "length (fst (set_mac_words N dev src dst e s)) = length e"
  by (simp add: set_mac_words_def put_l2_def Let_def split: prod.split)

lemma bound_entry_words:
  assumes "types_ok (p_abi (be_ppe N))" and "entry_type (p_abi (be_ppe N)) hwe = TYPE_BRIDGE (p_abi (be_ppe N)) \<Longrightarrow> dscp = 0"
    and keep: "\<And>e i. i \<le> 9 \<Longrightarrow> be_acnt N k pinfo fp e ! i = e ! i" and "0 < length hwe"
  shows "i \<in> key_words (p_abi (be_ppe N)) (entry_type (p_abi (be_ppe N)) hwe) \<Longrightarrow>
      fst (bound_entry N k pinfo fp (vn, vid1, vid2, vpm) dscp (m0, m1) rx ts hwe s) ! i = hwe ! i"
    and "fst (bound_entry N k pinfo fp (vn, vid1, vid2, vpm) dscp (m0, m1) rx ts hwe s) ! 0 =
      bind_ib1 (p_abi (be_ppe N)) (be_abi N) (hwe ! 0) (word_of_nat vn) vpm ts"
proof -
  let ?a = "p_abi (be_ppe N)" and ?B = "be_abi N" and ?t = "entry_type (p_abi (be_ppe N)) hwe"
  define fl where "fl = (if fp = PSE_CDM4 (be_ports N) then 0 else IB2_PSE_QOS ?B) OR (if bind_fast N pinfo fp rx then IB2_FAST_PATH ?B else 0)"
  define e0 where "e0 = airoha_set_default_acnt_meter_idx ?a ?B ?t hwe"
  obtain e1 l2 where 1: "bind_action ?a ?B pinfo fp ?t (ucast dscp) fl (bind_data ?a ?B pinfo m0) m1 e0 = (e1, l2)" by (rule prod.exhaust)
  define e2 where "e2 = arht_ppe_l4s_apply ?a ?B (be_l4s N) ?t dscp e1"
  define e3 where "e3 = (case l2 of None \<Rightarrow> e2 | Some l \<Rightarrow> put_tags l (pi_stag pinfo) vid1 vid2 e2)"
  obtain e4 s' where 4: "set_mac_words N (sk_dev k) (take 6 (drop 6 (pk_data k))) (take 6 (pk_data k)) e3 s = (e4, s')" by (rule prod.exhaust)
  have r: "fst (bound_entry N k pinfo fp (vn, vid1, vid2, vpm) dscp (m0, m1) rx ts hwe s) =
      be_acnt N k pinfo fp (e4[0 := bind_ib1 ?a ?B (hwe ! 0) (word_of_nat vn) vpm ts])"
    unfolding bound_entry_def Let_def prod.case e0_def [symmetric] fl_def [symmetric] 1 e2_def [symmetric] e3_def [symmetric] 4 by simp
  have l: "11 \<le> l" if "l2 = Some l" for l using action_l2 [of ?a ?B pinfo fp ?t "ucast dscp" fl "bind_data ?a ?B pinfo m0" m1 e0 l] 1 that by simp
  have e43: "e4 ! i = e3 ! i" if "i \<le> 11" for i using set_mac_words_key [OF that, of N _ _ _ e3 s] 4 by (metis fst_conv)
  have e32: "e3 ! i = e2 ! i" if "i \<le> 10" for i using that l by (auto simp: e3_def put_tags_key split: option.split)
  show "fst (bound_entry N k pinfo fp (vn, vid1, vid2, vpm) dscp (m0, m1) rx ts hwe s) ! i = hwe ! i" if i: "i \<in> key_words ?a ?t"
  proof -
    have "e2 ! i = e1 ! i" unfolding e2_def using assms(2) by (intro l4s_key [OF _ i]) simp
    moreover have "e1 ! i = e0 ! i" using action_key [OF assms(1) i, of ?B pinfo fp] 1 by (metis fst_conv)
    moreover have "e0 ! i = hwe ! i" unfolding e0_def by (rule default_key [OF i])
    ultimately show ?thesis using key_range [OF i] r keep e43 e32 by simp
  qed
  have "length e4 = length hwe"
    using set_mac_words_length [of N _ _ _ e3 s] action_length [of ?a ?B pinfo fp] 4 1
    by (metis e3_def e2_def e0_def fst_conv l4s_length default_length tags_length)
  then show "fst (bound_entry N k pinfo fp (vn, vid1, vid2, vpm) dscp (m0, m1) rx ts hwe s) ! 0 =
      bind_ib1 ?a ?B (hwe ! 0) (word_of_nat vn) vpm ts"
    using r keep [of 0] assms(4) by simp
qed

text \<open>Masks that have no bit in common.\<close>

fun apart :: "u32 list \<Rightarrow> bool" where
  "apart [] = True"
| "apart (m # ms) = (list_all (\<lambda>k. m AND k = 0 \<and> k AND m = 0) ms \<and> apart ms)"

definition cut_to :: "u32 \<Rightarrow> u32 \<Rightarrow> u32" where
  "cut_to m v = v AND drop_bit (bf_shf m) m"

definition ib1_apart :: "foe_abi \<Rightarrow> bind_abi \<Rightarrow> bool" where
  "ib1_apart a B \<longleftrightarrow> apart [IB1_VLAN_LAYER B, IB1_VPM B, IB1_PPPOE B, IB1_TIMESTAMP B, IB1_BIND_STATE a, IB1_BIND_PACKET_TYPE a]"

lemma FIELD_GET_masked_out: "m AND k = 0 \<Longrightarrow> FIELD_GET m (x AND NOT k) = FIELD_GET m x"
  by (rule bit_word_eqI) (auto simp: FIELD_GET_def bit_simps dest: disjoint_bit bit_imp_le_length)

lemma bind_ib1_fields:
  assumes "ib1_apart a B"
  shows "FIELD_GET (IB1_BIND_PACKET_TYPE a) (bind_ib1 a B old vn vpm ts) = FIELD_GET (IB1_BIND_PACKET_TYPE a) old"
    and "FIELD_GET (IB1_BIND_STATE a) (bind_ib1 a B old vn vpm ts) = cut_to (IB1_BIND_STATE a) (STATE_BIND a)"
    and "FIELD_GET (IB1_VLAN_LAYER B) (bind_ib1 a B old vn vpm ts) = cut_to (IB1_VLAN_LAYER B) vn"
    and "FIELD_GET (IB1_VPM B) (bind_ib1 a B old vn vpm ts) = cut_to (IB1_VPM B) vpm"
proof -
  have or0: "m AND (x OR y) = 0" if "m AND x = 0" "m AND y = 0" for m x y :: u32
    using that by (intro bit_word_eqI) (auto simp: bit_simps dest: disjoint_bit)
  have in1: "m AND (x OR m) = m" "m AND (m OR x) = m" "m AND x = m \<Longrightarrow> m AND (x OR y) = m"
    "m AND y = m \<Longrightarrow> m AND (x OR y) = m" for m x y :: u32
    by (rule bit_word_eqI; auto simp: bit_simps dest: submask_bit)+
  note d = assms [unfolded ib1_apart_def, simplified]
  let ?k = "IB1_VLAN_LAYER B OR IB1_VPM B OR IB1_PPPOE B OR IB1_TIMESTAMP B OR IB1_BIND_STATE a"
  have t: "IB1_BIND_PACKET_TYPE a AND ?k = 0" using d by (intro or0) simp_all
  have c: "IB1_BIND_STATE a AND ?k = IB1_BIND_STATE a" "IB1_VLAN_LAYER B AND ?k = IB1_VLAN_LAYER B" "IB1_VPM B AND ?k = IB1_VPM B"
    by (simp_all add: in1 or.assoc)
  show "FIELD_GET (IB1_BIND_PACKET_TYPE a) (bind_ib1 a B old vn vpm ts) = FIELD_GET (IB1_BIND_PACKET_TYPE a) old"
    "FIELD_GET (IB1_BIND_STATE a) (bind_ib1 a B old vn vpm ts) = cut_to (IB1_BIND_STATE a) (STATE_BIND a)"
    "FIELD_GET (IB1_VLAN_LAYER B) (bind_ib1 a B old vn vpm ts) = cut_to (IB1_VLAN_LAYER B) vn"
    "FIELD_GET (IB1_VPM B) (bind_ib1 a B old vn vpm ts) = cut_to (IB1_VPM B) vpm"
    unfolding bind_ib1_def masked_def FIELD_GET_OR FIELD_GET_masked_out [OF t] FIELD_GET_cleared [OF c(1)] FIELD_GET_cleared [OF c(2)]
      FIELD_GET_cleared [OF c(3)] FIELD_GET_PREP cut_to_def
    using d by (simp_all add: FIELD_GET_PREP_other)
qed

section \<open>All or nothing\<close>

lemma dscp_of_bridge:
  assumes "types_ok a" and "get_dscp_from_skb a k (TYPE_BRIDGE a) = Some dscp"
  shows "dscp = 0"
proof -
  have "TYPE_BRIDGE a \<notin> {TYPE_IPV6_ROUTE_3T a, TYPE_IPV6_ROUTE_5T a, TYPE_IPV6_6RD a}"
    using assms(1) by (auto simp: types_ok_def dest: leD)
  then show ?thesis using assms by (auto simp: get_dscp_from_skb_def types_ok_def)
qed


section \<open>A routed flow\<close>

definition action_apart :: "foe_abi \<Rightarrow> bind_abi \<Rightarrow> bool" where
  "action_apart a B \<longleftrightarrow> apart [IB2_NBQ B, IB2_DSCP B, IB2_PSE_PORT a, IB2_PSE_QOS B, IB2_FAST_PATH B] \<and>
     apart [M_ACTDP B, FOE_CHANNEL a, M_QID B, M_SHAPER_ID B]"

lemma FIELD_GET_apart: "m AND k = 0 \<Longrightarrow> FIELD_GET m k = 0"
  by (simp add: FIELD_GET_def and.commute)

lemma FIELD_PREP_apart: "m AND k = 0 \<Longrightarrow> FIELD_PREP m v AND k = 0"
  by (rule bit_word_eqI) (auto simp: FIELD_PREP_def bit_simps dest: disjoint_bit)

lemma bind_ib2_fields:
  assumes "action_apart a B" and fl: "fl = (if c then 0 else IB2_PSE_QOS B) OR (if f then IB2_FAST_PATH B else 0)"
  shows "FIELD_GET (IB2_PSE_PORT a) (bind_ib2 a B pinfo fp dscp fl) = cut_to (IB2_PSE_PORT a) (ucast fp)"
    and "FIELD_GET (IB2_NBQ B) (bind_ib2 a B pinfo fp dscp fl) = cut_to (IB2_NBQ B) (ucast (po_nbq pinfo))"
    and "FIELD_GET (IB2_DSCP B) (bind_ib2 a B pinfo fp dscp fl) = cut_to (IB2_DSCP B) dscp"
    and "bind_ib2 a B pinfo fp dscp fl AND IB2_FAST_PATH B = (if f then IB2_FAST_PATH B else 0)"
    and "bind_ib2 a B pinfo fp dscp fl AND IB2_PSE_QOS B = (if c then 0 else IB2_PSE_QOS B)"
proof -
  note d = assms(1) [unfolded action_apart_def, simplified]
  show "FIELD_GET (IB2_PSE_PORT a) (bind_ib2 a B pinfo fp dscp fl) = cut_to (IB2_PSE_PORT a) (ucast fp)"
    "FIELD_GET (IB2_NBQ B) (bind_ib2 a B pinfo fp dscp fl) = cut_to (IB2_NBQ B) (ucast (po_nbq pinfo))"
    "FIELD_GET (IB2_DSCP B) (bind_ib2 a B pinfo fp dscp fl) = cut_to (IB2_DSCP B) dscp"
    using d by (auto simp: bind_ib2_def fl FIELD_GET_OR FIELD_GET_PREP FIELD_GET_PREP_other FIELD_GET_apart cut_to_def)
  show "bind_ib2 a B pinfo fp dscp fl AND IB2_FAST_PATH B = (if f then IB2_FAST_PATH B else 0)"
    "bind_ib2 a B pinfo fp dscp fl AND IB2_PSE_QOS B = (if c then 0 else IB2_PSE_QOS B)"
    using d by (auto simp: bind_ib2_def fl bit.conj_disj_distrib2 FIELD_PREP_apart)
qed

lemma bind_data_fields:
  assumes "action_apart a B"
  shows "FIELD_GET (FOE_CHANNEL a) (bind_data a B pinfo m0) = cut_to (FOE_CHANNEL a) (ucast (po_channel pinfo))"
    and "FIELD_GET (M_QID B) (bind_data a B pinfo m0) = cut_to (M_QID B) (7 - ucast (po_txq pinfo) mod 8)"
    and "FIELD_GET (M_SHAPER_ID B) (bind_data a B pinfo m0) = cut_to (M_SHAPER_ID B) m0"
  using assms [unfolded action_apart_def, simplified]
  by (auto simp: bind_data_def FIELD_GET_OR FIELD_GET_PREP FIELD_GET_PREP_other cut_to_def)

lemma default_word0: "airoha_set_default_acnt_meter_idx a B type e ! 0 = e ! 0"
  by (simp add: airoha_set_default_acnt_meter_idx_def ib2_at_def Let_def split: foe_form.split)

text \<open>The words of the entry of a routed flow, before the clock and the state are set.\<close>

lemma routed_words:
  assumes "types_ok a" and "type \<in> {TYPE_IPV4_HNAPT a, TYPE_IPV4_ROUTE a}" and "length e = 20"
    and "bind_action a B pinfo fp type dscp fl data m1 (airoha_set_default_acnt_meter_idx a B type e) = (e1, l2)"
  shows "l2 = Some 11" and "e1 ! 4 = bind_ib2 a B pinfo fp dscp fl" and "e1 ! 10 = data" and "e1 ! 5 = e ! 1" and "e1 ! 6 = e ! 2"
    and "type = TYPE_IPV4_HNAPT a \<Longrightarrow> e1 ! 7 = e ! 3" and "length e1 = 20"
  using assms default_length [of a B type e] default_key [of _ a type B e]
  by (auto simp: bind_action_def set_ppe_foe_entry_meter_grp2_def Let_def key_words_def types_ok_def split: if_splits)

lemma put_l2_words:
  assumes "length e = 20" and "k < 16"
  shows "put_l2 k m e ! (k + 1) = lm_dest_mac_hi m" and "put_l2 k m e ! (k + 3) = lm_src_mac_hi m"
    and "hi16 (put_l2 k m e ! (k + 2)) = lm_dest_mac_lo m" and "lo16 (put_l2 k m e ! (k + 2)) = lo16 (e ! (k + 2))"
    and "hi16 (put_l2 k m e ! (k + 4)) = lm_src_mac_lo m" and "put_l2 k m e ! k = e ! k"
  using assms by (simp_all add: put_l2_def)

lemma set_mac_routed:
  assumes "entry_type a e \<in> {TYPE_IPV4_HNAPT a, TYPE_IPV4_ROUTE a}" and "types_ok a" and "a = p_abi (be_ppe N)"
    and "entry_type a e \<le> TYPE_IPV4_DSLITE a"
  shows "set_mac_words N dev src dst e s = (put_l2 11 ((get_l2 11 e)\<lparr>lm_dest_mac_hi := get_be32 dst, lm_dest_mac_lo := get_be16 (drop 4 dst),
     lm_src_mac_hi := get_be32 src, lm_src_mac_lo := get_be16 (drop 4 src)\<rparr>) e, s)"
proof -
  have "entry_type a e \<in> l2_types a" "entry_type a e \<in> {TYPE_IPV4_ROUTE a, TYPE_IPV4_HNAPT a, TYPE_IPV4_DSLITE a}"
    using assms(1) by (auto simp: l2_types_def)
  then show ?thesis using assms(4)
    unfolding set_mac_words_def airoha_set_ppe_mac_def Let_def assms(3) [symmetric] by (simp only: if_True if_False not_False_eq_True simp_thms) simp
qed


section \<open>Types without an action\<close>

text \<open>An entry of a tunnel type is bound like the others, but the switch over the types has no case for it: its action stays
  what it was.\<close>

lemma other_types_keep_action:
  assumes "a = p_abi (be_ppe N)" and "\<not> be_l4s N" and "be_acnt N k pinfo fp = (\<lambda>e. e)"
    and "entry_type a hwe \<notin> {TYPE_IPV4_HNAPT a, TYPE_IPV4_ROUTE a, TYPE_BRIDGE a, TYPE_IPV6_ROUTE_3T a, TYPE_IPV6_ROUTE_5T a}"
  shows "fst (bound_entry N k pinfo fp (vn, vid1, vid2, vpm) dscp (m0, m1) rx ts hwe s) ! 10 = hwe ! 10"
proof -
  let ?e0 = "airoha_set_default_acnt_meter_idx a (be_abi N) (entry_type a hwe) hwe"
  have "bind_action a B pinfo fp (entry_type a hwe) d fl data m1 ?e0 = (?e0, None)" for B d fl data
    using assms(4) by (simp add: bind_action_def)
  moreover have d: "?e0 ! 10 = hwe ! 10"
    by (simp add: airoha_set_default_acnt_meter_idx_def ib2_at_def Let_def split: foe_form.split)
  moreover obtain e4 s4 where m: "set_mac_words N (sk_dev k) (take 6 (drop 6 (pk_data k))) (take 6 (pk_data k)) ?e0 s = (e4, s4)"
    by (rule prod.exhaust)
  moreover have "e4 ! 10 = ?e0 ! 10"
    using set_mac_words_key [of 10 N "sk_dev k" "take 6 (drop 6 (pk_data k))" "take 6 (pk_data k)" ?e0 s] by (simp add: m)
  ultimately show ?thesis
    unfolding bound_entry_def Let_def assms(1) [symmetric] arht_ppe_l4s_apply_def assms(3) prod.case option.case
    using assms(2) by (simp add: m d)
qed

section \<open>Local flows\<close>

lemma local_entry_word0: "local_entry a B P type ring e ! 0 = e ! 0"
  by (simp add: local_entry_def Let_def)

text \<open>The bind of a local flow fills the action, and never sets the state.\<close>

lemma offload_never_binds:
  assumes "arht_general_offload_bind N k type rs s = Some (rs', s')" and "fetch (be_ppe N) (FOE_ENTRY_NUM k) (bs_ppe s) = (Some hwe, p)"
    and "FOE_ENTRY_NUM k < sram_entries (be_ppe N)" and "pk_l4_hash k" and "\<not> pk_sw_hash k"
    and "entry_state (p_abi (be_ppe N)) hwe \<noteq> STATE_BIND (p_abi (be_ppe N))"
  shows "\<exists>e p'. bs_ppe s' = commit_bound N (FOE_ENTRY_NUM k) e p' \<and>
           entry_state (p_abi (be_ppe N)) e \<noteq> STATE_BIND (p_abi (be_ppe N))"
proof -
  obtain ring rs1 d where r: "arht_general_offload_bind_ring (be_ppe N) (be_abi N) type (FOE_ENTRY_NUM k) rs (pdev p) = (ring, rs1, d)"
    by (rule prod_cases3)
  let ?e = "local_entry (p_abi (be_ppe N)) (be_abi N) (be_ports N) type ring hwe"
  obtain e p' where e: "(case pk_mac k of None \<Rightarrow> Some (?e, p\<lparr>pdev := d\<rparr>)
        | Some m \<Rightarrow> (if length m < 12 then None else Some (set_mac_words N (sk_dev k) (take 6 (drop 6 m)) (take 6 m) ?e (p\<lparr>pdev := d\<rparr>)))) = Some (e, p')"
    and s': "bs_ppe s' = commit_bound N (FOE_ENTRY_NUM k) e p'"
    using assms unfolding arht_general_offload_bind_def Let_def assms(2) r prod.case by (auto simp: r bind_eq_Some_conv)
  have "e ! 0 = ?e ! 0"
    using e set_mac_words_key [of 0 N _ _ _ ?e "p\<lparr>pdev := d\<rparr>"] by (auto split: option.splits if_splits) (metis fst_conv)
  then have "e ! 0 = hwe ! 0" by (simp add: local_entry_word0)
  with s' assms(6) show ?thesis by (auto simp: entry_state_def)
qed

section \<open>Receive rings\<close>

text \<open>\<open>table\<close> is what the engine has for a flow, \<open>None\<close> where it cannot be read; reading changes none of it.\<close>

definition ring_live :: "(foe, 'd) ppe_env \<Rightarrow> bind_abi \<Rightarrow> 'd \<Rightarrow> nat \<Rightarrow> nat \<Rightarrow> bool" where
  "ring_live env B d i f \<longleftrightarrow> fst (ppe_entry_is_valid env B f (12 + i) d) = 0"

locale foe_reads =
  fixes env :: "(foe, 'd) ppe_env" and table :: "'d \<Rightarrow> nat \<Rightarrow> foe option"
  assumes read: "get_entry env i d = (r, d') \<Longrightarrow> r = table d i \<and> table d' = table d"
begin

lemma valid_table: "table (snd (ppe_entry_is_valid env B f r d)) = table d"
proof -
  obtain e d' where "get_entry env f d = (e, d')" by (rule prod.exhaust)
  with read [OF this] show ?thesis by (simp add: ppe_entry_is_valid_def Let_def split: option.split)
qed

lemma live_table:
  assumes "table d' = table d"
  shows "ring_live env B d' i f = ring_live env B d i f"
proof -
  obtain r1 d1 r2 d2 where g: "get_entry env f d = (r1, d1)" "get_entry env f d' = (r2, d2)" by (metis prod.exhaust)
  then have "r2 = r1" using read [OF g(1)] read [OF g(2)] assms by simp
  with g show ?thesis by (simp add: ring_live_def ppe_entry_is_valid_def Let_def split: option.split)
qed

lemma reserved_ring_spec:
  assumes "reserved_ring env B foe is rs d = (r, d')"
  shows "table d' = table d \<and>
     (case r of None \<Rightarrow> \<forall>i\<in>set is. \<forall>f. rs ! i = Some f \<longrightarrow> f \<noteq> foe \<and> ring_live env B d i f
      | Some i \<Rightarrow> i \<in> set is \<and> (\<exists>f. rs ! i = Some f \<and> (f = foe \<or> \<not> ring_live env B d i f)))"
  using assms
proof (induction "is" arbitrary: d)
  case (Cons i "is")
  show ?case
  proof (cases "rs ! i")
    case None
    then have "reserved_ring env B foe is rs d = (r, d')" using Cons.prems by simp
    from Cons.IH [OF this] None show ?thesis by (auto split: option.splits)
  next
    case (Some f)
    obtain v d1 where v: "ppe_entry_is_valid env B f (12 + i) d = (v, d1)" by (rule prod.exhaust)
    have t: "table d1 = table d" using valid_table [of B f "12 + i" d] by (simp add: v)
    have l: "ring_live env B d i f \<longleftrightarrow> v = 0" by (simp add: ring_live_def v)
    show ?thesis
    proof (cases "v \<noteq> 0 \<or> f = foe")
      case True
      then show ?thesis using Cons.prems Some v t l by auto
    next
      case False
      then have "reserved_ring env B foe is rs d1 = (r, d')" using Cons.prems Some v by simp
      from Cons.IH [OF this] show ?thesis using t Some l False live_table [OF t] by (auto split: option.splits)
    qed
  qed
qed simp

lemma free_ring_spec:
  assumes "airoha_get_free_lro_ring env B foe rs d = (ring, rs', d')"
  shows "(ring = 1 \<and> rs' = rs \<and> (\<forall>i<8. \<exists>f. rs ! i = Some f \<and> f \<noteq> foe \<and> ring_live env B d i f)) \<or>
     (\<exists>i<8. ring = 12 + i \<and> rs' = rs[i := Some foe] \<and> (\<forall>f. rs ! i = Some f \<longrightarrow> f = foe \<or> \<not> ring_live env B d i f))"
proof -
  obtain r d1 where r: "reserved_ring env B foe [0..<8] rs d = (r, d1)" by (rule prod.exhaust)
  note S = reserved_ring_spec [OF r]
  show ?thesis
  proof (cases r)
    case None
    show ?thesis
    proof (cases "find (\<lambda>i. rs ! i = None) [0..<8]")
      case f: None
      then have "\<exists>g. rs ! i = Some g" if "i < 8" for i using that by (auto simp: find_None_iff)
      then show ?thesis using S None f r assms by (fastforce simp: airoha_get_free_lro_ring_def)
    next
      case (Some i)
      then have "i < 8" "rs ! i = None" by (auto simp: find_Some_iff)
      then show ?thesis using S None Some r assms by (auto simp: airoha_get_free_lro_ring_def)
    qed
  next
    case (Some i)
    then have "i < 8" "\<forall>f. rs ! i = Some f \<longrightarrow> f = foe \<or> \<not> ring_live env B d i f" using S by auto
    then show ?thesis using Some r assms by (auto simp: airoha_get_free_lro_ring_def)
  qed
qed

end

interpretation box_reads: foe_reads "box_env n dead" "\<lambda>d i. if i \<in> set dead then None else Some (box_hw n d i)"
  by unfold_locales (auto simp: box_env_def box_hw_def fun_eq_iff split: if_splits)


section \<open>A board for the witnesses\<close>

text \<open>Masks of a layout in which the fields lie apart, a packet with one tag of the flow of entry 5, and its port.\<close>

definition test_abi :: bind_abi where
  "test_abi = \<lparr>IB1_VLAN_LAYER = 0xF0000, IB1_VPM = 0x300000, IB1_PPPOE = 0x400000, IB1_TIMESTAMP = 0x7FFF,
     IB2_PORT_AG = 0x7FE000, IB2_DSCP = 0xFF000000, IB2_NBQ = 0x1F, IB2_PSE_QOS = 0x20, IB2_FAST_PATH = 0x40,
     M_ACTDP = 0xFF000000, M_QID = 0x700, M_SHAPER_ID = 0xFF0000, M_TUNNEL_MTU = 0xFFFF0000, M_ACNT_GRP3 = 0xFE00,
     M_METER_GRP3 = 0x1E0, M_METER_GRP2 = 0x1F, M_PPPOE_ID = 0xFFFF, HIT_UNBIND_RATE = 0xF\<rparr>"

definition bind_ports :: pse_ports where
  "bind_ports = \<lparr>PSE_CDM1 = 0, PSE_CDM2 = 5, PSE_CDM4 = 6, PSE_GDM1 = 1, PSE_GDM2 = 2, PSE_GDM3 = 3, PSE_GDM4 = 9\<rparr>"

definition test_env :: "(nat, nat, nat, foe_box) bind_env" where
  "test_env = \<lparr>be_ppe = box_env 64 [], be_upd = box_upd, be_abi = test_abi,
     be_net = \<lparr>by_index = Some, conduit_user = (\<lambda>_ _. None), nd_name = (\<lambda>_. ''lan1''), nd_dsa = (\<lambda>_. False),
       nd_vlan_real = (\<lambda>_. None), nd_priv = (\<lambda>n. n), g_qdma = (\<lambda>_. 0), eth_ports = []\<rparr>,
     be_ports = bind_ports, be_addr = (\<lambda>_. replicate 6 0), be_wifi = (\<lambda>_. False),
     be_bridge = (\<lambda>_. None), be_bridges = [], be_fdb = (\<lambda>_ _ _. None), be_vlan = (\<lambda>_ _. None), be_ts_reg = 0x100, be_jiffies = 0,
     be_7581 = True, be_lan_fastpath = True, be_wan_fastpath = False, be_xsi_fastpath = False,
     be_meter_enable = False, be_gem_enable = (\<lambda>_. False), be_lan_enable = (\<lambda>_ _. False), be_l4s = False,
     be_transparent = True, be_sfu = False, be_ptp = (\<lambda>_. False), be_acnt = (\<lambda>_ _ _ e. e), be_multicast = None,
     be_tunnel = None, be_soe = (\<lambda>_. 0)\<rparr>"

definition test_pkt :: "nat pkt" where
  "test_pkt = \<lparr>sk_iif = 3, sk_mark = 0, sk_dev = Some 4,
     pk_data = [2,0,0,0,0,8, 2,0,0,0,0,7, 0x81,0,0,5, 8,0, 0x45,0xb8,0,20, 0,0,0,0, 64,17,0,0, 10,0,0,1, 10,0,0,2],
     pk_before = [], pk_len = 38, pk_net = [0x45,0xb8], pk_mac = None, pk_hash = 0x78000005, pk_l4_hash = True, pk_sw_hash = False,
     pk_sock = False, pk_inner = 0\<rparr>"

definition test_port :: port where
  "test_port = \<lparr>pi_tsid = 0, pi_stag = 2, po_channel = 3, po_nbq = 1, po_fast = False, po_txq = 2, po_magic = 0, po_udf = 0\<rparr>"

definition test_entry :: foe where
  "test_entry = [0x10000000, 0x0a000001, 0x0a000002, 0x00500051] @ replicate 16 0"

definition test_state :: "(nat, foe_box) bind_state" where
  "test_state = \<lparr>bs_ppe = \<lparr>pdev = \<lparr>b_mem = (\<lambda>_. test_entry), b_sram = (\<lambda>_. test_entry), b_port = (\<lambda>_. 0), b_upd = (\<lambda>_. 0)\<rparr>,
     lan_ifindex = (\<lambda>_. 0), shnkTbl = []\<rparr>, bs_vlan_count = (\<lambda>_. 0), bs_refs = (\<lambda>_. 0)\<rparr>"

lemma test_layout:
  "types_ok (p_abi (be_ppe test_env))" "ib1_apart (p_abi (be_ppe test_env)) (be_abi test_env)"
  "action_apart (p_abi (be_ppe test_env)) (be_abi test_env)"
  by code_simp+

lemma test_bind:
  "map_option (\<lambda>s. lan_ifindex (bs_ppe s) 5) (airoha_ppe_general_bind test_env test_entry test_pkt test_port 1 test_state) = Some 3"
  by code_simp




end
