(* ===== verification/Spec2Isabelle.thy ===== *)
theory Spec2Isabelle
  imports LedCtrl Kprobe L2bEtype Loopback AppList LroAgg DynIfc DynIfcInv DynIfcSteps DynIfcProps DynIfcPkt
    DynIfcCtl QdmaMath QdmaTrtcm QdmaMeter QdmaQos QdmaLan WifiLo WifiLoInv WifiLoProps WifiLoPkt WifiLoLimits WifiLoCtl
    PpeFoe PpeShrink PpeShrinkProps PpeMac PpeClean PpeCleanProps PpeQueue
    FeChannel FeChannelProps FeCounters Soc FlowWalk EthMonitor EthMonitorProps EthLink
    AeonIpc AeonCmd AeonFw AeonFlash AeonProc AeonProps En8811 En8811Ops En8811Props RegWin XsiLimit XsiProps HsgInit HsgProps
    Scan MeterIdx MeterProps PpeBind PpeBindProps
begin

text \<open>
  Verification of the C drivers of the Cascade target (\<^verbatim>\<open>src/cascade/files\<close>): the additions of the
  target to the kernel, which turn the Ethernet, packet-processing and queueing engines of an Airoha chip
  into fast paths, and the driver of the board's status LEDs. This header says which theory models which
  part, how, and what is proved. In what follows \<^verbatim>\<open>airoha/\<close> stands for
  \<^verbatim>\<open>drivers/net/ethernet/airoha/\<close>.

  \<^bold>\<open>The program.\<close> A packet that arrives is looked up by the packet processing engine (PPE) in a table of flow
  entries; a flow that is bound there is forwarded by the hardware. The transmit engine (QDMA) schedules and
  limits what is sent, the frame engine (FE) carries packets between ports. The files modelled here bind, change
  and remove flow entries (\<^verbatim>\<open>arht_ppe.c\<close>), configure meters and queues (\<^verbatim>\<open>arht_qdma.c\<close>), retire the channels
  of a port whose link is lost (\<^verbatim>\<open>arht_fe.c\<close>, \<^verbatim>\<open>arht_dp_api.c\<close>), reach the firmware and the
  registers of external PHYs (\<^verbatim>\<open>arht_hsgmii.c\<close>), and speed up TCP sessions of the device itself: one module programs a classifier that steers sessions to rings that aggregate
  (\<^verbatim>\<open>arht_dynamic_ifc.c\<close>), the other sends them past the network stack (\<^verbatim>\<open>arht_wifi_lo.c\<close>); both learn
  of sessions through kernel probes (\<^verbatim>\<open>arht_kprobe.c\<close>), override the same aggregation limit and consult each
  other about a session's socket.

  \<^bold>\<open>How code is modelled.\<close> A C function is a HOL function of the same name, on the values the C function gets and
  the state it touches, which it returns updated with the C return value (0 or a negative error number, an
  \<open>int\<close>). Unsigned integers are words of their width, so they wrap; indices that the code keeps
  in range are \<open>nat\<close>. A structure is a record, an array of structures a list, a bit in a flags word a Boolean field.
  A loop is a fold, a \<open>find\<close> over an index range, a recursion on what is left, or a \<open>function\<close> with a measure; the
  loops that need not end, which wait for a meter or for a PHY, are a \<open>partial_function (option)\<close>, whose result is
  \<open>None\<close> when they do not; so is that of code that leaves the bounds of an array or uses what was given back.
  A device is an opaque state \<open>'d\<close> reached through a record of accessors (\<open>Prelude.bus\<close>: read, write,
  read-modify-write), because what it does is decided outside the repository; the locales say what the properties
  need of it, and each is interpreted on a concrete device on which the witnesses run. Functions of the
  kernel and of the upstream driver (the hook of the classifier, the reader of a flow entry, timed waits,
  the walk of a hash table, the connection tracker) are fields of such records. Where the code is
  preempted by timers, packets, work queues or grace periods, the handlers are the steps of an \<open>inductive\<close>
  relation, and the properties speak of all its runs.

  \<^bold>\<open>The theories.\<close>
  \<^item> \<open>Prelude\<close>: error numbers, bit fields (\<open>FIELD_GET\<close>, \<open>FIELD_PREP\<close>, masked updates), scanning loops, the register
    bus and the locale \<open>plain_regs\<close> of registers that hold what was written.
  \<^item> \<open>LedCtrl\<close>, \<^verbatim>\<open>drivers/leds/leds-smartrg-system.c\<close>: colours and blinking of four LEDs behind a microcontroller that
    loses writes (\<open>latching_mcu\<close>): a write is repeated until it reads back, at most a fixed number of times.
  \<^item> \<open>Kprobe\<close>, \<^verbatim>\<open>airoha/arht_kprobe.c\<close>: registering probes with roll-back, the probe that two modules share by
    counting, and the probe handlers (\<open>kprobe_registry\<close>).
  \<^item> \<open>L2bEtype\<close>, \<^verbatim>\<open>airoha/arht_ppe.c\<close>: the table of sixteen bridged ether types, refined to a finite map (\<open>etype_table\<close>).
  \<^item> \<open>Loopback\<close>, \<^verbatim>\<open>airoha/arht_loopback.c\<close>: parsing of the control words and the registers of three kinds of loopback.
  \<^item> \<open>AppList\<close>: the two registers of trigger applications (\<open>app_registry\<close>, \<open>exact_registry\<close>): a table compacted in place
    and a linked list, both refining a list of distinct names.
  \<^item> \<open>LroAgg\<close>: overriding and restoring the aggregation limit (\<open>agg_override\<close>), once by bit field and once by word.
  \<^item> \<open>DynIfc\<close>, \<open>DynIfcInv\<close>, \<open>DynIfcSteps\<close>, \<open>DynIfcProps\<close>, \<open>DynIfcPkt\<close>, \<open>DynIfcCtl\<close>, \<^verbatim>\<open>airoha/arht_dynamic_ifc.c\<close>: the table
    of eight sessions, its invariant (\<open>ifc_engine\<close>, \<open>difc_world\<close>), its handlers as steps, the packet paths, and module
    life with the proc commands (\<open>difc_module_world\<close>).
  \<^item> \<open>QdmaMath\<close>, \<open>QdmaTrtcm\<close>, \<open>QdmaMeter\<close>, \<open>QdmaQos\<close>, \<open>QdmaLan\<close>, \<^verbatim>\<open>airoha/arht_qdma.c\<close>: the arithmetic of rates and buckets,
    meters behind indirect access (\<open>param_port\<close>, \<open>meter_hw\<close>), the scheduler with its software copy of a write-only
    register (\<open>wrr_hw\<close>), and the rate limit of the LAN block (\<open>lan_hw\<close>).
  \<^item> \<open>WifiLo\<close>, \<open>WifiLoInv\<close>, \<open>WifiLoProps\<close>, \<open>WifiLoPkt\<close>, \<open>WifiLoLimits\<close>, \<open>WifiLoCtl\<close>, \<^verbatim>\<open>airoha/arht_wifi_lo.c\<close>: thirty-two sessions
    found by port and by hash, their life and grace periods (\<open>wlo_world\<close>), the header parser and the packet
    transformations, what is lost, and module life.
  \<^item> \<open>PpeFoe\<close>, \<open>PpeShrink\<close>, \<open>PpeShrinkProps\<close>, \<open>PpeMac\<close>, \<open>PpeClean\<close>, \<open>PpeCleanProps\<close>, \<open>PpeQueue\<close>, \<^verbatim>\<open>airoha/arht_ppe.c\<close>: single entries
    (\<open>foe_engine\<close>), the shrink table of source addresses and its mirror in the engine's memory (\<open>updmem\<close>), the MACs of an
    entry, the ten sweeps that remove flows and the queue that runs them.
  \<^item> \<open>FeChannel\<close>, \<open>FeChannelProps\<close>, \<open>FeCounters\<close>, \<^verbatim>\<open>airoha/arht_fe.c\<close>: enabling, retiring and dropping channels
    (\<open>fe_hw\<close>, \<open>fe_clock\<close>), counters read in halves (\<open>wide_counter\<close>), settings.
  \<^item> \<open>Soc\<close>, \<^verbatim>\<open>airoha/en7581\<close> and \<^verbatim>\<open>airoha/an7583\<close>: channels of devices, register settings, the retirement of the an7583.
  \<^item> \<open>FlowWalk\<close>, \<open>EthMonitor\<close>, \<open>EthMonitorProps\<close>, \<open>EthLink\<close>, \<^verbatim>\<open>airoha/arht_dp_api.c\<close>: the periodic link monitor, the walk that
    forgets a port's flows, and what closing and opening a path does to three register files (\<open>mon_hw\<close>).
  \<^item> \<open>AeonIpc\<close>, \<open>AeonCmd\<close>, \<open>AeonFlash\<close>, \<open>AeonProc\<close>, \<^verbatim>\<open>airoha/arht_hsgmii.c\<close>: the mailbox to the firmware of the AN8831 PHYs
    with its parity and its waits, every command, the transfer of an image, and the control files.
  \<^item> \<open>AeonFw\<close>, \<open>AeonProps\<close>: what the firmware may do (\<open>aeon_clock\<close>, \<open>aeon_phys\<close>, \<open>aeon_dead\<close>), and what the driver makes of it.
  \<^item> \<open>En8811\<close>, \<open>En8811Ops\<close>, \<open>En8811Props\<close>, \<open>HsgInit\<close>, \<open>HsgProps\<close>, \<^verbatim>\<open>airoha/arht_hsgmii.c\<close> and \<^verbatim>\<open>arht_config.c\<close>: the register of
    the EN8811 PHYs, their control files on a bus that holds what is written (\<open>mii_regs\<close>), start and end of the driver.
  \<^item> \<open>RegWin\<close>, \<open>XsiLimit\<close>, \<open>XsiProps\<close>, \<^verbatim>\<open>airoha/arht_dp_api.c\<close> and \<^verbatim>\<open>arht_hsgmii.c\<close>: registers reached by address, and the reset
    and the rate limits of the serial lanes behind them.
  \<^item> \<open>Scan\<close>, \<open>MeterIdx\<close>, \<open>MeterProps\<close>, \<^verbatim>\<open>airoha/arht_dp_api.c\<close> and \<^verbatim>\<open>arht_dp_api_debugfs.c\<close>: the text of a limit, the meter
    it programs and the packets that are bound to it.
  \<^item> \<open>PpeBind\<close>, \<open>PpeBindProps\<close>, \<^verbatim>\<open>airoha/arht_ppe.c\<close>: from a packet that the engine did not know to the bound entry of its
    flow, with entries as twenty words in the layout of the target's kernel patches, and the receive rings of local flows.
  The present theory holds what spans components: the two fast paths that share a socket.

  \<^bold>\<open>What is proved.\<close> For each component an invariant that every operation or step preserves, from the state in which
  the module starts; what the operations do on every branch, errors included; that what is taken is given back
  (references, rules, rings, probes, registers), on roll-back, time-out and module exit; that packet code reads inside
  the linear data; that waits are bounded; equality with a simpler definition where the code is clever (binary
  search, compaction in place, two passes over one list). Some theorems state what the code does wrong: they are exact
  about when it happens.

  \<^bold>\<open>Interfaces.\<close> A locale stands between a client and what it relies on, and is interpreted in the theory of the provider:
  the sessions rely on the classifier (\<open>ifc_engine\<close>), on the registers (\<open>plain_regs\<close>) through \<open>agg_override\<close>, on the probes
  (\<open>kprobe_registry\<close>); the properties on meters, scheduler and LAN block on the command protocols of the hardware; the flow
  table on what the engine does with a committed entry; the monitor on the registers it writes.

  \<^bold>\<open>Bounds.\<close> Tables have the sizes of the code: 8 and 32 sessions, 16 applications, 16 slots, 16 ether types. The loops that
  wait for hardware have the code's own counters (ten looks at a channel, three hundred milliseconds, five writes of a colour) as measures, so no fuel is needed.
  Sequences of callers, timers, packets and hardware answers are arbitrary.

  \<^bold>\<open>Not modelled.\<close>
  \<^item> The offload updates of \<^verbatim>\<open>arht_ppe.c\<close>, and the multicast list, speed test and receive hook of \<^verbatim>\<open>arht_dp_api.c\<close>: they work
    on the flow tables of the upstream driver and on structures of the kernel tree that are not in the repository.
  \<^item> The hook headers, whose inline wrappers fill a request and call a registered function; the reads of the debugfs files, which print
    registers; the sound codecs and PHY headers, which are tables.
  \<^item> Memory barriers, locks and RCU as such: a handler is one step where the code holds a lock or runs on one processor.
    Grace periods are steps of their own.
  \<^item> Printing and logging.
\<close>

section \<open>The two fast paths share a socket\<close>

text \<open>The dynamic-IFC session that a port pair belongs to, in either direction.\<close>

definition difc_owns :: "dynamic_ifc list \<Rightarrow> u16 \<Rightarrow> u16 \<Rightarrow> bool" where
  "difc_owns ety a b \<longleftrightarrow> (\<exists>i<8. valid (ety ! i) \<and>
     (local_port (ety ! i) = a \<and> remote_port (ety ! i) = b \<or> local_port (ety ! i) = b \<and> remote_port (ety ! i) = a))"

lemma sock_in_use_owns: "dynamic_ifc_sock_in_use ety (ntohs b) (ntohs a) \<noteq> 0 \<longleftrightarrow> difc_owns ety a b"
  by (auto simp: dynamic_ifc_sock_in_use_def difc_owns_def find_upt_None ntohs_inj)

text \<open>C39: an expiring local-fastpath session leaves what it shares with the dynamic-IFC module alone: asked
  through the hook that module installs, its socket keeps the mark and the engine keeps the flow
  exactly when a live dynamic-IFC session has the same two ports; otherwise the mark is cleared
  and the engine told to forget the flow.\<close>

theorem wl_timeout_respects_difc:
  assumes "plain_regs (wl_bus env) peek" and "wl_run env (wl_boot d bs bd bv mk) s"
    and "k < 32" and "F_VALID (wifi_lo_ety s ! k)"
    and "\<not> time_before j (wl_last_tx (wifi_lo_ety s ! k) + wl_HZ env)"
  shows "let e = wifi_lo_ety s ! k;
      s' = wifi_lo_timeout env (Some (dynamic_ifc_sock_in_use (dynamic_ifc_ety difc))) True j k s
    in if difc_owns (dynamic_ifc_ety difc) (wl_lport e) (wl_rport e)
       then wl_mark s' = wl_mark s \<and> wl_cleaned s' = wl_cleaned s
       else (wl_sk e \<noteq> 0 \<longrightarrow> wl_mark s' = (wl_mark s)(wl_sk e := 0)) \<and>
            wl_cleaned s' = (ntohs (wl_rport e), ntohs (wl_lport e)) # wl_cleaned s"
proof -
  note w = wl_world [OF assms(1)] and C = run_core(2) [OF assms(1,2)]
  have t: "wl_timer (wifi_lo_ety s ! k) \<noteq> None" using core_slot [OF C assms(3)] assms(4) by (auto simp: slot_ok_def)
  show ?thesis
    using wlo_world.timeout_eq [OF w C assms(3) t, of j "Some (dynamic_ifc_sock_in_use (dynamic_ifc_ety difc))" True "peek d"] assms(5)
    by (auto simp: Let_def sock_in_use_owns wlo_world.expired_mark_def [OF w] wlo_world.expired_cleaned_def [OF w])
qed

theorem wl_timeout_respects_difc_witness:
  "wl_mark (wifi_lo_timeout lo_env (Some (dynamic_ifc_sock_in_use (dynamic_ifc_ety pkt_table))) True 2000 0 lo_two) = wl_mark lo_two"
proof -
  have "difc_owns (dynamic_ifc_ety pkt_table) (wl_lport (wifi_lo_ety lo_two ! 0)) (wl_rport (wifi_lo_ety lo_two ! 0))"
    unfolding difc_owns_def by (rule exI [of _ 0]) code_simp
  then show ?thesis
    using wl_timeout_respects_difc [OF lo_plain lo_run [unfolded lo_start_def] _ lo_two_last(2,3), of pkt_table] by (simp add: Let_def)
qed

end
